(* ===== verification/Prelude.thy ===== *)
theory Prelude
  imports Main "HOL-Library.Word"
begin

text \<open>
  Shared material: the machine types, little-endian byte encodings of packed structures,
  C strings, the result type of code that can assert or abort, counted loops, and the
  theorem collections the component theories fill.
\<close>

unbundle bit_operations_syntax

named_theorems struct_simps \<open>lengths and shapes of encoded structures\<close>
named_theorems build_simps \<open>unfolding rules of the table builders\<close>
named_theorems frame_simps \<open>fields an operation leaves unchanged\<close>

type_synonym u8 = "8 word"
type_synonym u16 = "16 word"
type_synonym u32 = "32 word"
type_synonym u64 = "64 word"
type_synonym bytes = "8 word list"

section \<open>Little-endian encodings\<close>

primrec le_bytes :: "nat \<Rightarrow> 'a::len word \<Rightarrow> bytes" where
  "le_bytes 0 w = []"
| "le_bytes (Suc n) w = ucast w # le_bytes n (drop_bit 8 w)"

primrec le_word :: "bytes \<Rightarrow> 'a::len word" where
  "le_word [] = 0"
| "le_word (b # bs) = ucast b OR push_bit 8 (le_word bs)"

lemma length_le_bytes [simp, struct_simps]: "length (le_bytes n w) = n"
  by (induction n arbitrary: w) auto

lemma le_bytes_eq_Nil [simp]: "le_bytes n w = [] \<longleftrightarrow> n = 0"
  by (cases n) auto

lemma bit_le_word_le_bytes:
  "bit (le_word (le_bytes n (w :: 'a::len word)) :: 'a word) k \<longleftrightarrow> k < 8 * n \<and> bit w k"
proof (induction n arbitrary: w k)
  case 0
  show ?case by simp
next
  case (Suc n)
  show ?case
  proof (cases "k < 8")
    case True
    then show ?thesis
      by (auto simp: bit_or_iff bit_push_bit_iff bit_ucast_iff dest: bit_imp_le_length)
  next
    case False
    then have "bit (drop_bit 8 w) (k - 8) = bit w k"
      by (simp add: bit_drop_bit_eq)
    with False show ?thesis
      by (auto simp: bit_or_iff bit_push_bit_iff bit_ucast_iff Suc.IH dest: bit_imp_le_length)
  qed
qed

lemma le_word_le_bytes:
  assumes "LENGTH('a) \<le> 8 * n"
  shows "le_word (le_bytes n (w :: 'a::len word)) = w"
  using assms by (intro bit_word_eqI) (auto simp: bit_le_word_le_bytes)

text \<open>The bytes of a word that was read from bytes.\<close>

lemma bit_le_word:
  "bit (le_word bs :: 'a::len word) k \<longleftrightarrow>
     k < LENGTH('a) \<and> k div 8 < length bs \<and> bit (bs ! (k div 8)) (k mod 8)"
proof (induction bs arbitrary: k)
  case (Cons b bs)
  show ?case
  proof (cases "k < 8")
    case True
    then show ?thesis by (auto simp: bit_or_iff bit_push_bit_iff bit_ucast_iff)
  next
    case False
    then have "k div 8 = Suc ((k - 8) div 8)" "k mod 8 = (k - 8) mod 8"
      by (simp_all add: le_div_geq le_mod_geq)
    with False show ?thesis
      by (auto simp: bit_or_iff bit_push_bit_iff bit_ucast_iff Cons.IH dest: bit_imp_le_length)
  qed
qed simp

lemma bit_le_bytes_nth:
  "i < n \<Longrightarrow> bit (le_bytes n (w :: 'a::len word) ! i) j \<longleftrightarrow> j < 8 \<and> bit w (8 * i + j)"
proof (induction n arbitrary: i w)
  case (Suc n)
  then show ?case
    by (cases i) (auto simp: bit_ucast_iff bit_drop_bit_eq algebra_simps dest: bit_imp_le_length)
qed simp

lemma le_bytes_le_word:
  assumes "8 * length bs \<le> LENGTH('a::len)"
  shows "le_bytes (length bs) (le_word bs :: 'a word) = bs"
proof (rule nth_equalityI)
  fix i assume "i < length (le_bytes (length bs) (le_word bs :: 'a word))"
  then have i: "i < length bs" by simp
  show "le_bytes (length bs) (le_word bs :: 'a word) ! i = bs ! i"
  proof (rule bit_word_eqI)
    fix j assume "j < LENGTH(8)"
    with i assms show "bit (le_bytes (length bs) (le_word bs :: 'a word) ! i) j = bit (bs ! i) j"
      by (simp add: bit_le_bytes_nth bit_le_word)
  qed
qed simp

lemma le_bytes_le_word':
  "length bs = n \<Longrightarrow> 8 * n \<le> LENGTH('a) \<Longrightarrow> le_bytes n (le_word bs :: 'a::len word) = bs"
  using le_bytes_le_word by blast

section \<open>C strings\<close>

text \<open>
  A \<open>const char *\<close> is \<open>string option\<close>: \<open>None\<close> is NULL, and the bytes before the NUL are
  the list. \<open>nul_free\<close> is what a C string satisfies by being one.
\<close>

definition nul_free :: "string \<Rightarrow> bool" where
  "nul_free s \<longleftrightarrow> CHR 0x00 \<notin> set s"

definition str_bytes :: "string \<Rightarrow> bytes" where
  "str_bytes s = map of_char s"

definition opt_nul_free :: "string option \<Rightarrow> bool" where
  "opt_nul_free v \<longleftrightarrow> (case v of None \<Rightarrow> True | Some s \<Rightarrow> nul_free s)"

lemma opt_nul_free_simps [simp]:
  "opt_nul_free None" "opt_nul_free (Some s) = nul_free s"
  by (simp_all add: opt_nul_free_def)

lemma length_str_bytes [simp]: "length (str_bytes s) = length s"
  by (simp add: str_bytes_def)

lemma str_bytes_eq_Nil [simp]: "str_bytes s = [] \<longleftrightarrow> s = []"
  by (simp add: str_bytes_def)

lemma unat_of_char_u8 [simp]: "unat (of_char c :: u8) = of_char c"
proof -
  have "unat (of_char c :: u8) = unat (of_nat (of_char c) :: u8)"
    by (simp only: of_nat_of_char)
  also have "\<dots> = of_char c mod 2 ^ LENGTH(8)"
    by (rule unat_of_nat)
  also have "\<dots> = of_char c"
    using of_char_mod_256 [of c, where 'a = nat] by simp
  finally show ?thesis .
qed

lemma of_char_u8_eq_iff [simp]: "(of_char c :: u8) = of_char d \<longleftrightarrow> c = d"
  by (metis of_char_eq_iff unat_of_char_u8)

lemma zero_in_str_bytes: "0 \<in> set (str_bytes s) \<longleftrightarrow> \<not> nul_free s"
proof -
  have "of_char c = (0 :: u8) \<longleftrightarrow> c = CHR 0x00" for c
    using of_char_u8_eq_iff [of c "CHR 0x00"] by simp
  then show ?thesis by (auto simp: str_bytes_def nul_free_def image_iff)
qed

lemma str_bytes_inject: "str_bytes s = str_bytes t \<longleftrightarrow> s = t"
  unfolding str_bytes_def by (rule inj_map_eq_map) (simp add: inj_on_def)

section \<open>Results of code that can assert or abort\<close>

datatype crash = Assert_failed | Aborted | Out_of_bounds | Api_misuse | Division_by_zero

definition bindR :: "crash + 'a \<Rightarrow> ('a \<Rightarrow> crash + 'b) \<Rightarrow> crash + 'b" where
  "bindR x f = (case x of Inl e \<Rightarrow> Inl e | Inr a \<Rightarrow> f a)"

definition assertR :: "bool \<Rightarrow> crash + unit" where
  "assertR b = (if b then Inr () else Inl Assert_failed)"

lemma bindR_simps [simp]:
  "bindR (Inl e) f = Inl e" "bindR (Inr a) f = f a"
  by (simp_all add: bindR_def)

lemma bindR_Inr_iff: "bindR x f = Inr y \<longleftrightarrow> (\<exists>a. x = Inr a \<and> f a = Inr y)"
  by (cases x) auto

lemma bindR_InrE [elim!]:
  assumes "bindR x f = Inr y"
  obtains a where "x = Inr a" and "f a = Inr y"
  using assms by (auto simp: bindR_Inr_iff)

lemma assertR_simps [simp]:
  "assertR b = Inr u \<longleftrightarrow> b" "assertR True = Inr ()" "assertR False = Inl Assert_failed"
  by (simp_all add: assertR_def)

text \<open>A \<open>for (i = 0; i < n; i++)\<close> loop whose body can crash, over the list of indices.\<close>

primrec forR :: "nat list \<Rightarrow> (nat \<Rightarrow> 's \<Rightarrow> crash + 's) \<Rightarrow> 's \<Rightarrow> crash + 's" where
  "forR [] f s = Inr s"
| "forR (i # is) f s = bindR (f i s) (forR is f)"

lemma forR_append: "forR (xs @ ys) f s = bindR (forR xs f s) (forR ys f)"
  by (induction xs arbitrary: s) (auto simp: bindR_def split: sum.splits)

lemma forR_invariant:
  assumes "forR is f s = Inr s'" and "P s"
    and "\<And>i a b. i \<in> set is \<Longrightarrow> P a \<Longrightarrow> f i a = Inr b \<Longrightarrow> P b"
  shows "P s'"
  using assms
proof (induction "is" arbitrary: s)
  case Nil
  then show ?case by simp
next
  case (Cons i "is")
  from Cons.prems(1) obtain b where b: "f i s = Inr b" "forR is f b = Inr s'" by auto
  have "P b" using Cons.prems(2,3) b(1) by auto
  then show ?case using Cons.IH [OF b(2)] Cons.prems(3) by auto
qed

end
