(* ===== verification/Smbios_Structs.thy ===== *)
theory Smbios_Structs
  imports Prelude
begin

text \<open>
  The structures of \<open>smbios.h\<close>. Each packed C struct is a record with the same members at
  the same widths (prefixed with the table number, since several structs share member
  names), and its memory image is the function \<open>encode_type_N\<close>: the members in declaration
  order without padding, little-endian, which is what \<open>QEMU_PACKED\<close> and \<open>cpu_to_leN\<close> give on
  the x86 hosts KVM runs on. An array member of two elements is two fields, a six-byte array
  is one 48-bit word in memory order. \<open>sizeof\<close> of a struct is the length of its image.
\<close>

section \<open>Header and UUID\<close>

record smbios_structure_header =
  hdr_type :: u8
  hdr_length :: u8
  hdr_handle :: u16

definition encode_header :: "smbios_structure_header \<Rightarrow> bytes" where
  "encode_header h = [hdr_type h, hdr_length h] @ le_bytes 2 (hdr_handle h)"

definition sizeof_header :: nat where
  "sizeof_header = 4"

lemma length_encode_header [simp, struct_simps]: "length (encode_header h) = sizeof_header"
  by (simp add: encode_header_def sizeof_header_def)

definition decode_header :: "bytes \<Rightarrow> smbios_structure_header" where
  "decode_header bs =
     \<lparr>hdr_type = bs ! 0, hdr_length = bs ! 1, hdr_handle = le_word (take 2 (drop 2 bs))\<rparr>"

lemma decode_encode_header [simp]: "decode_header (encode_header h @ rest) = h"
  by (simp add: decode_header_def encode_header_def le_word_le_bytes)

lemma encode_header_nth [simp]:
  "(encode_header h @ rest) ! 0 = hdr_type h"
  "(encode_header h @ rest) ! Suc 0 = hdr_length h"
  by (simp_all add: encode_header_def)

record smbios_uuid =
  time_low :: u32
  time_mid :: u16
  time_hi_and_version :: u16
  clock_seq_hi_and_reserved :: u8
  clock_seq_low :: u8
  node :: "48 word"

definition encode_smbios_uuid :: "smbios_uuid \<Rightarrow> bytes" where
  "encode_smbios_uuid u =
     le_bytes 4 (time_low u) @ le_bytes 2 (time_mid u) @ le_bytes 2 (time_hi_and_version u) @
     [clock_seq_hi_and_reserved u, clock_seq_low u] @ le_bytes 6 (node u)"

lemma length_encode_uuid [simp, struct_simps]: "length (encode_smbios_uuid u) = 16"
  by (simp add: encode_smbios_uuid_def)

section \<open>Tables\<close>

record smbios_type_0 =
  t0_header :: smbios_structure_header
  t0_vendor_str :: u8
  t0_bios_version_str :: u8
  t0_bios_starting_address_segment :: u16
  t0_bios_release_date_str :: u8
  t0_bios_rom_size :: u8
  t0_bios_characteristics :: u64
  t0_bios_characteristics_extension_bytes0 :: u8
  t0_bios_characteristics_extension_bytes1 :: u8
  t0_system_bios_major_release :: u8
  t0_system_bios_minor_release :: u8
  t0_embedded_controller_major_release :: u8
  t0_embedded_controller_minor_release :: u8

definition encode_type_0 :: "smbios_type_0 \<Rightarrow> bytes" where
  "encode_type_0 t =
    encode_header (t0_header t) @ [t0_vendor_str t, t0_bios_version_str t] @
     le_bytes 2 (t0_bios_starting_address_segment t) @ [t0_bios_release_date_str t,
     t0_bios_rom_size t] @ le_bytes 8 (t0_bios_characteristics t) @
     [t0_bios_characteristics_extension_bytes0 t, t0_bios_characteristics_extension_bytes1 t,
     t0_system_bios_major_release t, t0_system_bios_minor_release t,
     t0_embedded_controller_major_release t, t0_embedded_controller_minor_release t]"

record smbios_type_1 =
  t1_header :: smbios_structure_header
  t1_manufacturer_str :: u8
  t1_product_name_str :: u8
  t1_version_str :: u8
  t1_serial_number_str :: u8
  t1_uuid :: smbios_uuid
  t1_wake_up_type :: u8
  t1_sku_number_str :: u8
  t1_family_str :: u8

definition encode_type_1 :: "smbios_type_1 \<Rightarrow> bytes" where
  "encode_type_1 t =
    encode_header (t1_header t) @ [t1_manufacturer_str t, t1_product_name_str t,
     t1_version_str t, t1_serial_number_str t] @ encode_smbios_uuid (t1_uuid t) @
     [t1_wake_up_type t, t1_sku_number_str t, t1_family_str t]"

record smbios_type_2 =
  t2_header :: smbios_structure_header
  t2_manufacturer_str :: u8
  t2_product_str :: u8
  t2_version_str :: u8
  t2_serial_number_str :: u8
  t2_asset_tag_number_str :: u8
  t2_feature_flags :: u8
  t2_location_str :: u8
  t2_chassis_handle :: u16
  t2_board_type :: u8
  t2_contained_element_count :: u8

definition encode_type_2 :: "smbios_type_2 \<Rightarrow> bytes" where
  "encode_type_2 t =
    encode_header (t2_header t) @ [t2_manufacturer_str t, t2_product_str t, t2_version_str t,
     t2_serial_number_str t, t2_asset_tag_number_str t, t2_feature_flags t,
     t2_location_str t] @ le_bytes 2 (t2_chassis_handle t) @ [t2_board_type t,
     t2_contained_element_count t]"

record smbios_type_3 =
  t3_header :: smbios_structure_header
  t3_manufacturer_str :: u8
  t3_type :: u8
  t3_version_str :: u8
  t3_serial_number_str :: u8
  t3_asset_tag_number_str :: u8
  t3_boot_up_state :: u8
  t3_power_supply_state :: u8
  t3_thermal_state :: u8
  t3_security_status :: u8
  t3_oem_defined :: u32
  t3_height :: u8
  t3_number_of_power_cords :: u8
  t3_contained_element_count :: u8
  t3_contained_element_record_length :: u8
  t3_sku_number_str :: u8

definition encode_type_3 :: "smbios_type_3 \<Rightarrow> bytes" where
  "encode_type_3 t =
    encode_header (t3_header t) @ [t3_manufacturer_str t, t3_type t, t3_version_str t,
     t3_serial_number_str t, t3_asset_tag_number_str t, t3_boot_up_state t,
     t3_power_supply_state t, t3_thermal_state t, t3_security_status t] @
     le_bytes 4 (t3_oem_defined t) @ [t3_height t, t3_number_of_power_cords t,
     t3_contained_element_count t, t3_contained_element_record_length t, t3_sku_number_str t]"

record smbios_type_4 =
  t4_header :: smbios_structure_header
  t4_socket_designation_str :: u8
  t4_processor_type :: u8
  t4_processor_family :: u8
  t4_processor_manufacturer_str :: u8
  t4_processor_id0 :: u32
  t4_processor_id1 :: u32
  t4_processor_version_str :: u8
  t4_voltage :: u8
  t4_external_clock :: u16
  t4_max_speed :: u16
  t4_current_speed :: u16
  t4_status :: u8
  t4_processor_upgrade :: u8
  t4_l1_cache_handle :: u16
  t4_l2_cache_handle :: u16
  t4_l3_cache_handle :: u16
  t4_serial_number_str :: u8
  t4_asset_tag_number_str :: u8
  t4_part_number_str :: u8
  t4_core_count :: u8
  t4_core_enabled :: u8
  t4_thread_count :: u8
  t4_processor_characteristics :: u16
  t4_processor_family2 :: u16
  t4_core_count2 :: u16
  t4_core_enabled2 :: u16
  t4_thread_count2 :: u16

definition encode_type_4 :: "smbios_type_4 \<Rightarrow> bytes" where
  "encode_type_4 t =
    encode_header (t4_header t) @ [t4_socket_designation_str t, t4_processor_type t,
     t4_processor_family t, t4_processor_manufacturer_str t] @
     le_bytes 4 (t4_processor_id0 t) @ le_bytes 4 (t4_processor_id1 t) @
     [t4_processor_version_str t, t4_voltage t] @ le_bytes 2 (t4_external_clock t) @
     le_bytes 2 (t4_max_speed t) @ le_bytes 2 (t4_current_speed t) @ [t4_status t,
     t4_processor_upgrade t] @ le_bytes 2 (t4_l1_cache_handle t) @
     le_bytes 2 (t4_l2_cache_handle t) @ le_bytes 2 (t4_l3_cache_handle t) @
     [t4_serial_number_str t, t4_asset_tag_number_str t, t4_part_number_str t, t4_core_count t,
     t4_core_enabled t, t4_thread_count t] @ le_bytes 2 (t4_processor_characteristics t) @
     le_bytes 2 (t4_processor_family2 t) @ le_bytes 2 (t4_core_count2 t) @
     le_bytes 2 (t4_core_enabled2 t) @ le_bytes 2 (t4_thread_count2 t)"

record smbios_type_7 =
  t7_header :: smbios_structure_header
  t7_socket_designation :: u8
  t7_cache_configuration :: u16
  t7_max_cache_size :: u16
  t7_installed_size :: u16
  t7_supported_sram_type :: u16
  t7_current_sram_type :: u16
  t7_cache_speed :: u8
  t7_error_correction :: u8
  t7_system_cache_type :: u8
  t7_associativity :: u8

definition encode_type_7 :: "smbios_type_7 \<Rightarrow> bytes" where
  "encode_type_7 t =
    encode_header (t7_header t) @ [t7_socket_designation t] @
     le_bytes 2 (t7_cache_configuration t) @ le_bytes 2 (t7_max_cache_size t) @
     le_bytes 2 (t7_installed_size t) @ le_bytes 2 (t7_supported_sram_type t) @
     le_bytes 2 (t7_current_sram_type t) @ [t7_cache_speed t, t7_error_correction t,
     t7_system_cache_type t, t7_associativity t]"

record smbios_type_8 =
  t8_header :: smbios_structure_header
  t8_internal_reference_str :: u8
  t8_internal_connector_type :: u8
  t8_external_reference_str :: u8
  t8_external_connector_type :: u8
  t8_port_type :: u8

definition encode_type_8 :: "smbios_type_8 \<Rightarrow> bytes" where
  "encode_type_8 t =
    encode_header (t8_header t) @ [t8_internal_reference_str t, t8_internal_connector_type t,
     t8_external_reference_str t, t8_external_connector_type t, t8_port_type t]"

record smbios_type_9 =
  t9_header :: smbios_structure_header
  t9_slot_designation :: u8
  t9_slot_type :: u8
  t9_slot_data_bus_width :: u8
  t9_current_usage :: u8
  t9_slot_length :: u8
  t9_slot_id :: u16
  t9_slot_characteristics1 :: u8
  t9_slot_characteristics2 :: u8
  t9_segment_group_number :: u16
  t9_bus_number :: u8
  t9_device_number :: u8

definition encode_type_9 :: "smbios_type_9 \<Rightarrow> bytes" where
  "encode_type_9 t =
    encode_header (t9_header t) @ [t9_slot_designation t, t9_slot_type t,
     t9_slot_data_bus_width t, t9_current_usage t, t9_slot_length t] @
     le_bytes 2 (t9_slot_id t) @ [t9_slot_characteristics1 t, t9_slot_characteristics2 t] @
     le_bytes 2 (t9_segment_group_number t) @ [t9_bus_number t, t9_device_number t]"

record smbios_type_11 =
  t11_header :: smbios_structure_header
  t11_count :: u8

definition encode_type_11 :: "smbios_type_11 \<Rightarrow> bytes" where
  "encode_type_11 t =
    encode_header (t11_header t) @ [t11_count t]"

record smbios_type_16 =
  t16_header :: smbios_structure_header
  t16_location :: u8
  t16_use :: u8
  t16_error_correction :: u8
  t16_maximum_capacity :: u32
  t16_memory_error_information_handle :: u16
  t16_number_of_memory_devices :: u16
  t16_extended_maximum_capacity :: u64

definition encode_type_16 :: "smbios_type_16 \<Rightarrow> bytes" where
  "encode_type_16 t =
    encode_header (t16_header t) @ [t16_location t, t16_use t, t16_error_correction t] @
     le_bytes 4 (t16_maximum_capacity t) @ le_bytes 2 (t16_memory_error_information_handle t) @
     le_bytes 2 (t16_number_of_memory_devices t) @ le_bytes 8 (t16_extended_maximum_capacity t)"

record smbios_type_17 =
  t17_header :: smbios_structure_header
  t17_physical_memory_array_handle :: u16
  t17_memory_error_information_handle :: u16
  t17_total_width :: u16
  t17_data_width :: u16
  t17_size :: u16
  t17_form_factor :: u8
  t17_device_set :: u8
  t17_device_locator_str :: u8
  t17_bank_locator_str :: u8
  t17_memory_type :: u8
  t17_type_detail :: u16
  t17_speed :: u16
  t17_manufacturer_str :: u8
  t17_serial_number_str :: u8
  t17_asset_tag_number_str :: u8
  t17_part_number_str :: u8
  t17_attributes :: u8
  t17_extended_size :: u32
  t17_configured_clock_speed :: u16
  t17_minimum_voltage :: u16
  t17_maximum_voltage :: u16
  t17_configured_voltage :: u16

definition encode_type_17 :: "smbios_type_17 \<Rightarrow> bytes" where
  "encode_type_17 t =
    encode_header (t17_header t) @ le_bytes 2 (t17_physical_memory_array_handle t) @
     le_bytes 2 (t17_memory_error_information_handle t) @ le_bytes 2 (t17_total_width t) @
     le_bytes 2 (t17_data_width t) @ le_bytes 2 (t17_size t) @ [t17_form_factor t,
     t17_device_set t, t17_device_locator_str t, t17_bank_locator_str t, t17_memory_type t] @
     le_bytes 2 (t17_type_detail t) @ le_bytes 2 (t17_speed t) @ [t17_manufacturer_str t,
     t17_serial_number_str t, t17_asset_tag_number_str t, t17_part_number_str t,
     t17_attributes t] @ le_bytes 4 (t17_extended_size t) @
     le_bytes 2 (t17_configured_clock_speed t) @ le_bytes 2 (t17_minimum_voltage t) @
     le_bytes 2 (t17_maximum_voltage t) @ le_bytes 2 (t17_configured_voltage t)"

record smbios_type_19 =
  t19_header :: smbios_structure_header
  t19_starting_address :: u32
  t19_ending_address :: u32
  t19_memory_array_handle :: u16
  t19_partition_width :: u8
  t19_extended_starting_address :: u64
  t19_extended_ending_address :: u64

definition encode_type_19 :: "smbios_type_19 \<Rightarrow> bytes" where
  "encode_type_19 t =
    encode_header (t19_header t) @ le_bytes 4 (t19_starting_address t) @
     le_bytes 4 (t19_ending_address t) @ le_bytes 2 (t19_memory_array_handle t) @
     [t19_partition_width t] @ le_bytes 8 (t19_extended_starting_address t) @
     le_bytes 8 (t19_extended_ending_address t)"

record smbios_type_20 =
  t20_header :: smbios_structure_header
  t20_starting_address :: u32
  t20_ending_address :: u32
  t20_memory_device_handle :: u16
  t20_memory_array_mapped_address_handle :: u16
  t20_partition_row_position :: u8
  t20_interleave_position :: u8
  t20_interleave_data_depth :: u8

definition encode_type_20 :: "smbios_type_20 \<Rightarrow> bytes" where
  "encode_type_20 t =
    encode_header (t20_header t) @ le_bytes 4 (t20_starting_address t) @
     le_bytes 4 (t20_ending_address t) @ le_bytes 2 (t20_memory_device_handle t) @
     le_bytes 2 (t20_memory_array_mapped_address_handle t) @ [t20_partition_row_position t,
     t20_interleave_position t, t20_interleave_data_depth t]"

record smbios_type_22 =
  t22_header :: smbios_structure_header
  t22_location :: u8
  t22_manufacturer :: u8
  t22_manufacturer_date :: u8
  t22_serial_number :: u8
  t22_device_name :: u8
  t22_device_chemistry :: u8
  t22_design_capacity :: u16
  t22_design_voltage :: u16
  t22_sbds_version_number :: u8
  t22_maximum_error_in_battery_data :: u8
  t22_sbds_serial_number :: u16
  t22_sbds_manufacture_date :: u16
  t22_sbds_device_chemistry :: u8
  t22_design_capacity_multiplier :: u8
  t22_oem_specific :: u32

definition encode_type_22 :: "smbios_type_22 \<Rightarrow> bytes" where
  "encode_type_22 t =
    encode_header (t22_header t) @ [t22_location t, t22_manufacturer t,
     t22_manufacturer_date t, t22_serial_number t, t22_device_name t, t22_device_chemistry t] @
     le_bytes 2 (t22_design_capacity t) @ le_bytes 2 (t22_design_voltage t) @
     [t22_sbds_version_number t, t22_maximum_error_in_battery_data t] @
     le_bytes 2 (t22_sbds_serial_number t) @ le_bytes 2 (t22_sbds_manufacture_date t) @
     [t22_sbds_device_chemistry t, t22_design_capacity_multiplier t] @
     le_bytes 4 (t22_oem_specific t)"

record smbios_type_26 =
  t26_header :: smbios_structure_header
  t26_description :: u8
  t26_location_and_status :: u8
  t26_max_value :: u16
  t26_min_value :: u16
  t26_resolution :: u16
  t26_tolerance :: u16
  t26_accuracy :: u16
  t26_oem_defined :: u32
  t26_nominal_value :: u16

definition encode_type_26 :: "smbios_type_26 \<Rightarrow> bytes" where
  "encode_type_26 t =
    encode_header (t26_header t) @ [t26_description t, t26_location_and_status t] @
     le_bytes 2 (t26_max_value t) @ le_bytes 2 (t26_min_value t) @
     le_bytes 2 (t26_resolution t) @ le_bytes 2 (t26_tolerance t) @
     le_bytes 2 (t26_accuracy t) @ le_bytes 4 (t26_oem_defined t) @
     le_bytes 2 (t26_nominal_value t)"

record smbios_type_27 =
  t27_header :: smbios_structure_header
  t27_temperature_probe_handle :: u16
  t27_device_type_and_status :: u8
  t27_cooling_unit_group :: u8
  t27_OEM_defined :: u32
  t27_nominal_speed :: u16
  t27_description :: u8

definition encode_type_27 :: "smbios_type_27 \<Rightarrow> bytes" where
  "encode_type_27 t =
    encode_header (t27_header t) @ le_bytes 2 (t27_temperature_probe_handle t) @
     [t27_device_type_and_status t, t27_cooling_unit_group t] @
     le_bytes 4 (t27_OEM_defined t) @ le_bytes 2 (t27_nominal_speed t) @ [t27_description t]"

record smbios_type_28 =
  t28_header :: smbios_structure_header
  t28_description :: u8
  t28_location_and_status :: u8
  t28_maximum_value :: u16
  t28_minimum_value :: u16
  t28_resolution :: u16
  t28_tolerance :: u16
  t28_accuracy :: u16
  t28_OEM_defined :: u32
  t28_nominal_value :: u16

definition encode_type_28 :: "smbios_type_28 \<Rightarrow> bytes" where
  "encode_type_28 t =
    encode_header (t28_header t) @ [t28_description t, t28_location_and_status t] @
     le_bytes 2 (t28_maximum_value t) @ le_bytes 2 (t28_minimum_value t) @
     le_bytes 2 (t28_resolution t) @ le_bytes 2 (t28_tolerance t) @
     le_bytes 2 (t28_accuracy t) @ le_bytes 4 (t28_OEM_defined t) @
     le_bytes 2 (t28_nominal_value t)"

record smbios_type_29 =
  t29_header :: smbios_structure_header
  t29_description :: u8

definition encode_type_29 :: "smbios_type_29 \<Rightarrow> bytes" where
  "encode_type_29 t =
    encode_header (t29_header t) @ [t29_description t]"

record smbios_type_32 =
  t32_header :: smbios_structure_header
  t32_reserved :: "48 word"
  t32_boot_status :: u8

definition encode_type_32 :: "smbios_type_32 \<Rightarrow> bytes" where
  "encode_type_32 t =
    encode_header (t32_header t) @ le_bytes 6 (t32_reserved t) @ [t32_boot_status t]"

record smbios_type_37 =
  t37_header :: smbios_structure_header

definition encode_type_37 :: "smbios_type_37 \<Rightarrow> bytes" where
  "encode_type_37 t =
    encode_header (t37_header t)"

record smbios_type_39 =
  t39_header :: smbios_structure_header
  t39_device_name :: u8

definition encode_type_39 :: "smbios_type_39 \<Rightarrow> bytes" where
  "encode_type_39 t =
    encode_header (t39_header t) @ [t39_device_name t]"

record smbios_type_41 =
  t41_header :: smbios_structure_header
  t41_reference_designation_str :: u8
  t41_device_type :: u8
  t41_device_type_instance :: u8
  t41_segment_group_number :: u16
  t41_bus_number :: u8
  t41_device_number :: u8

definition encode_type_41 :: "smbios_type_41 \<Rightarrow> bytes" where
  "encode_type_41 t =
    encode_header (t41_header t) @ [t41_reference_designation_str t, t41_device_type t,
     t41_device_type_instance t] @ le_bytes 2 (t41_segment_group_number t) @ [t41_bus_number t,
     t41_device_number t]"

record smbios_type_127 =
  t127_header :: smbios_structure_header

definition encode_type_127 :: "smbios_type_127 \<Rightarrow> bytes" where
  "encode_type_127 t =
    encode_header (t127_header t)"

section \<open>Sizes\<close>

text \<open>The sizes the compiler gives the packed structs.\<close>

lemma length_encode [simp, struct_simps]:
  "length (encode_type_0 t0) = 24"
  "length (encode_type_1 t1) = 27"
  "length (encode_type_2 t2) = 15"
  "length (encode_type_3 t3) = 22"
  "length (encode_type_4 t4) = 48"
  "length (encode_type_7 t7) = 19"
  "length (encode_type_8 t8) = 9"
  "length (encode_type_9 t9) = 17"
  "length (encode_type_11 t11) = 5"
  "length (encode_type_16 t16) = 23"
  "length (encode_type_17 t17) = 40"
  "length (encode_type_19 t19) = 31"
  "length (encode_type_20 t20) = 19"
  "length (encode_type_22 t22) = 26"
  "length (encode_type_26 t26) = 22"
  "length (encode_type_27 t27) = 15"
  "length (encode_type_28 t28) = 22"
  "length (encode_type_29 t29) = 5"
  "length (encode_type_32 t32) = 11"
  "length (encode_type_37 t37) = 4"
  "length (encode_type_39 t39) = 5"
  "length (encode_type_41 t41) = 11"
  "length (encode_type_127 t127) = 4"
  by (simp_all add: sizeof_header_def encode_type_0_def encode_type_1_def encode_type_2_def encode_type_3_def encode_type_4_def encode_type_7_def encode_type_8_def encode_type_9_def encode_type_11_def encode_type_16_def encode_type_17_def encode_type_19_def encode_type_20_def encode_type_22_def encode_type_26_def encode_type_27_def encode_type_28_def encode_type_29_def encode_type_32_def encode_type_37_def encode_type_39_def encode_type_41_def encode_type_127_def)

text \<open>
  Every image starts with the image of its header.
\<close>

lemma take_header_encode [struct_simps]:
  "take 4 (encode_type_0 t0) = encode_header (t0_header t0)"
  "take 4 (encode_type_1 t1) = encode_header (t1_header t1)"
  "take 4 (encode_type_2 t2) = encode_header (t2_header t2)"
  "take 4 (encode_type_3 t3) = encode_header (t3_header t3)"
  "take 4 (encode_type_4 t4) = encode_header (t4_header t4)"
  "take 4 (encode_type_7 t7) = encode_header (t7_header t7)"
  "take 4 (encode_type_8 t8) = encode_header (t8_header t8)"
  "take 4 (encode_type_9 t9) = encode_header (t9_header t9)"
  "take 4 (encode_type_11 t11) = encode_header (t11_header t11)"
  "take 4 (encode_type_16 t16) = encode_header (t16_header t16)"
  "take 4 (encode_type_17 t17) = encode_header (t17_header t17)"
  "take 4 (encode_type_19 t19) = encode_header (t19_header t19)"
  "take 4 (encode_type_20 t20) = encode_header (t20_header t20)"
  "take 4 (encode_type_22 t22) = encode_header (t22_header t22)"
  "take 4 (encode_type_26 t26) = encode_header (t26_header t26)"
  "take 4 (encode_type_27 t27) = encode_header (t27_header t27)"
  "take 4 (encode_type_28 t28) = encode_header (t28_header t28)"
  "take 4 (encode_type_29 t29) = encode_header (t29_header t29)"
  "take 4 (encode_type_32 t32) = encode_header (t32_header t32)"
  "take 4 (encode_type_37 t37) = encode_header (t37_header t37)"
  "take 4 (encode_type_39 t39) = encode_header (t39_header t39)"
  "take 4 (encode_type_41 t41) = encode_header (t41_header t41)"
  "take 4 (encode_type_127 t127) = encode_header (t127_header t127)"
  by (simp_all add: take_Cons_numeral encode_header_def encode_type_0_def encode_type_1_def encode_type_2_def encode_type_3_def encode_type_4_def encode_type_7_def encode_type_8_def encode_type_9_def encode_type_11_def encode_type_16_def encode_type_17_def encode_type_19_def encode_type_20_def encode_type_22_def encode_type_26_def encode_type_27_def encode_type_28_def encode_type_29_def encode_type_32_def encode_type_37_def encode_type_39_def encode_type_41_def encode_type_127_def)

definition SMBIOS_TYPE_4_LEN_V28 :: nat where
  "SMBIOS_TYPE_4_LEN_V28 = 42"

definition SMBIOS_TYPE_4_LEN_V30 :: nat where
  "SMBIOS_TYPE_4_LEN_V30 = 48"

text \<open>The two lengths are \<open>offsetofend\<close> of \<open>processor_family2\<close> and of \<open>thread_count2\<close>.\<close>

lemma smbios_type_4_len_ver:
  "drop SMBIOS_TYPE_4_LEN_V28 (encode_type_4 t) =
     le_bytes 2 (t4_core_count2 t) @ le_bytes 2 (t4_core_enabled2 t) @
     le_bytes 2 (t4_thread_count2 t)"
  "SMBIOS_TYPE_4_LEN_V30 = length (encode_type_4 t)"
  by (simp_all add: SMBIOS_TYPE_4_LEN_V28_def SMBIOS_TYPE_4_LEN_V30_def encode_type_4_def
      encode_header_def)

section \<open>Entry points\<close>

record smbios_21_entry_point =
  e21_anchor_string :: bytes
  e21_checksum :: u8
  e21_length :: u8
  e21_smbios_major_version :: u8
  e21_smbios_minor_version :: u8
  e21_max_structure_size :: u16
  e21_entry_point_revision :: u8
  e21_formatted_area :: bytes
  e21_intermediate_anchor_string :: bytes
  e21_intermediate_checksum :: u8
  e21_structure_table_length :: u16
  e21_structure_table_address :: u32
  e21_number_of_structures :: u16
  e21_smbios_bcd_revision :: u8

definition encode_ep21 :: "smbios_21_entry_point \<Rightarrow> bytes" where
  "encode_ep21 e =
     e21_anchor_string e @
     [e21_checksum e, e21_length e, e21_smbios_major_version e, e21_smbios_minor_version e] @
     le_bytes 2 (e21_max_structure_size e) @ [e21_entry_point_revision e] @
     e21_formatted_area e @ e21_intermediate_anchor_string e @
     [e21_intermediate_checksum e] @ le_bytes 2 (e21_structure_table_length e) @
     le_bytes 4 (e21_structure_table_address e) @ le_bytes 2 (e21_number_of_structures e) @
     [e21_smbios_bcd_revision e]"

record smbios_30_entry_point =
  e30_anchor_string :: bytes
  e30_checksum :: u8
  e30_length :: u8
  e30_smbios_major_version :: u8
  e30_smbios_minor_version :: u8
  e30_smbios_doc_rev :: u8
  e30_entry_point_revision :: u8
  e30_reserved :: u8
  e30_structure_table_max_size :: u32
  e30_structure_table_address :: u64

definition encode_ep30 :: "smbios_30_entry_point \<Rightarrow> bytes" where
  "encode_ep30 e =
     e30_anchor_string e @
     [e30_checksum e, e30_length e, e30_smbios_major_version e, e30_smbios_minor_version e,
      e30_smbios_doc_rev e, e30_entry_point_revision e, e30_reserved e] @
     le_bytes 4 (e30_structure_table_max_size e) @ le_bytes 8 (e30_structure_table_address e)"

text \<open>\<open>sizeof (struct smbios_21_entry_point)\<close> and \<open>sizeof (struct smbios_30_entry_point)\<close>.\<close>

definition sizeof_ep21 :: nat where
  "sizeof_ep21 = 31"

definition sizeof_ep30 :: nat where
  "sizeof_ep30 = 24"

text \<open>The union of the two entry points: the member that was written last.\<close>

datatype SmbiosEntryPoint = Ep21 smbios_21_entry_point | Ep30 smbios_30_entry_point

fun encode_ep :: "SmbiosEntryPoint \<Rightarrow> bytes" where
  "encode_ep (Ep21 e) = encode_ep21 e"
| "encode_ep (Ep30 e) = encode_ep30 e"

end
