(* ===== verification/Smbios_State.thy ===== *)
theory Smbios_State
  imports Smbios_Structs
begin

text \<open>
  The state of \<open>smbios.c\<close>: the configuration structs, the file's static variables as one
  record (in three layers: user blobs, configuration, tables under construction), and their
  static initialisers.
\<close>

section \<open>Configuration records\<close>

record smbios_type0_t =
  c0_vendor :: "string option"
  c0_version :: "string option"
  c0_date :: "string option"
  c0_have_major_minor :: bool
  c0_uefi :: bool
  c0_major :: u8
  c0_minor :: u8

record smbios_type1_t =
  c1_manufacturer :: "string option"
  c1_product :: "string option"
  c1_version :: "string option"
  c1_serial :: "string option"
  c1_sku :: "string option"
  c1_family :: "string option"

record type2_t =
  c2_manufacturer :: "string option"
  c2_product :: "string option"
  c2_version :: "string option"
  c2_serial :: "string option"
  c2_asset :: "string option"
  c2_location :: "string option"

record type3_t =
  c3_manufacturer :: "string option"
  c3_version :: "string option"
  c3_serial :: "string option"
  c3_asset :: "string option"
  c3_sku :: "string option"

record type4_t =
  c4_processor_family :: u16
  c4_sock_pfx :: "string option"
  c4_manufacturer :: "string option"
  c4_version :: "string option"
  c4_serial :: "string option"
  c4_asset :: "string option"
  c4_part :: "string option"
  c4_max_speed :: u64
  c4_current_speed :: u64
  c4_processor_id :: u64

record type8_instance =
  i8_internal_reference :: "string option"
  i8_external_reference :: "string option"
  i8_connector_type :: u8
  i8_port_type :: u8

record type9_instance =
  i9_slot_designation :: "string option"
  i9_pcidev :: "string option"
  i9_slot_type :: u8
  i9_slot_data_bus_width :: u8
  i9_current_usage :: u8
  i9_slot_length :: u8
  i9_slot_characteristics1 :: u8
  i9_slot_characteristics2 :: u8
  i9_slot_id :: u16

record type17_t =
  c17_loc_pfx :: "string option"
  c17_bank :: "string option"
  c17_manufacturer :: "string option"
  c17_serial :: "string option"
  c17_asset :: "string option"
  c17_part :: "string option"
  c17_speed :: u16

record type41_instance =
  i41_designation :: "string option"
  i41_pcidev :: "string option"
  i41_instance :: u8
  i41_kind :: u8

definition type41_kind_lookup :: "string list" where
  "type41_kind_lookup =
     [''other'', ''unknown'', ''video'', ''scsi'', ''ethernet'', ''tokenring'', ''sound'',
      ''pata'', ''sata'', ''sas'']"

definition DEFAULT_CPU_SPEED :: u64 where
  "DEFAULT_CPU_SPEED = 2000"

definition SMBIOS_MAX_TYPE :: nat where
  "SMBIOS_MAX_TYPE = 127"

text \<open>
  The static variables of the file. Queues are lists in queue order. The two bitmaps have
  \<open>SMBIOS_MAX_TYPE + 1\<close> bits. An element of \<open>type11_values\<close> is the allocated buffer,
  terminator included if there is one, or \<open>None\<close> for a freed slot; \<open>nvalues\<close> is the length
  of the list. \<open>size_t\<close> and the \<open>unsigned\<close> counters are natural numbers: wrap-around of a
  counter would need \<open>2^32\<close> structures.
\<close>

record smbios_usr =
  usr_blobs :: bytes
  usr_blobs_len :: nat
  usr_blobs_sizes :: "nat list"
  usr_table_max :: nat
  usr_table_cnt :: nat

record smbios_config = smbios_usr +
  smbios_have_defaults :: bool
  smbios_cpuid_version :: u32
  smbios_cpuid_features :: u32
  smbios_have_binfile_bitmap :: "128 word"
  smbios_have_fields_bitmap :: "128 word"
  smbios_type0 :: smbios_type0_t
  smbios_type1 :: smbios_type1_t
  type2 :: type2_t
  type3 :: type3_t
  type4 :: type4_t
  type8 :: "type8_instance list"
  type9 :: "type9_instance list"
  type17 :: type17_t
  type41 :: "type41_instance list"
  qemu_uuid :: bytes
  qemu_uuid_set :: bool

record smbios = smbios_config +
  type11_values :: "bytes option list"
  smbios_tables :: bytes
  smbios_tables_len :: nat
  smbios_table_max :: nat
  smbios_table_cnt :: nat
  smbios_type4_count :: nat
  smbios_ep :: "SmbiosEntryPoint option"
  type7_socket_designation :: "string option"
  type26_description :: "string option"
  type27_description :: "string option"
  type28_description :: "string option"

text \<open>The static initialisers: everything zero except the fields of \<open>type4\<close>.\<close>

definition smbios_init :: smbios where
  "smbios_init =
     \<lparr>usr_blobs = [], usr_blobs_len = 0, usr_blobs_sizes = [], usr_table_max = 0,
      usr_table_cnt = 0,
      smbios_have_defaults = False, smbios_cpuid_version = 0, smbios_cpuid_features = 0,
      smbios_have_binfile_bitmap = 0, smbios_have_fields_bitmap = 0,
      smbios_type0 =
        \<lparr>c0_vendor = None, c0_version = None, c0_date = None, c0_have_major_minor = False,
         c0_uefi = False, c0_major = 0, c0_minor = 0\<rparr>,
      smbios_type1 =
        \<lparr>c1_manufacturer = None, c1_product = None, c1_version = None, c1_serial = None,
         c1_sku = None, c1_family = None\<rparr>,
      type2 =
        \<lparr>c2_manufacturer = None, c2_product = None, c2_version = None, c2_serial = None,
         c2_asset = None, c2_location = None\<rparr>,
      type3 =
        \<lparr>c3_manufacturer = None, c3_version = None, c3_serial = None, c3_asset = None,
         c3_sku = None\<rparr>,
      type4 =
        \<lparr>c4_processor_family = 0x01, c4_sock_pfx = None, c4_manufacturer = None,
         c4_version = None, c4_serial = None, c4_asset = None, c4_part = None,
         c4_max_speed = DEFAULT_CPU_SPEED, c4_current_speed = DEFAULT_CPU_SPEED,
         c4_processor_id = 0\<rparr>,
      type8 = [], type9 = [],
      type17 =
        \<lparr>c17_loc_pfx = None, c17_bank = None, c17_manufacturer = None, c17_serial = None,
         c17_asset = None, c17_part = None, c17_speed = 0\<rparr>,
      type41 = [], qemu_uuid = replicate 16 0, qemu_uuid_set = False,
      type11_values = [], smbios_tables = [], smbios_tables_len = 0, smbios_table_max = 0, smbios_table_cnt = 0,
      smbios_type4_count = 0, smbios_ep = None, type7_socket_designation = None,
      type26_description = None, type27_description = None, type28_description = None\<rparr>"

end
