(* ===== verification/C_Stdlib.thy ===== *)
theory C_Stdlib
  imports Prelude
begin

text \<open>
  The C library routines \<open>smbios.c\<close> parses option values with: \<open>strtoul (s, NULL, 0)\<close> and
  \<open>sscanf (s, "%hhu.%hhu", ..)\<close>, on the characters before the NUL.
\<close>

definition is_space :: "char \<Rightarrow> bool" where
  "is_space c \<longleftrightarrow> (let n = (of_char c :: nat) in n = 32 \<or> (9 \<le> n \<and> n \<le> 13))"

definition digit_val :: "char \<Rightarrow> nat option" where
  "digit_val c =
     (let n = (of_char c :: nat) in
      if 48 \<le> n \<and> n \<le> 57 then Some (n - 48)
      else if 97 \<le> n \<and> n \<le> 122 then Some (n - 87)
      else if 65 \<le> n \<and> n \<le> 90 then Some (n - 55)
      else None)"

definition is_digit :: "nat \<Rightarrow> char \<Rightarrow> bool" where
  "is_digit base c = (case digit_val c of None \<Rightarrow> False | Some d \<Rightarrow> d < base)"

text \<open>The value of the longest prefix of digits, and what follows it.\<close>

fun scan_digits :: "nat \<Rightarrow> nat \<Rightarrow> string \<Rightarrow> nat \<times> string" where
  "scan_digits base acc [] = (acc, [])"
| "scan_digits base acc (c # cs) =
     (case digit_val c of
        Some d \<Rightarrow> if d < base then scan_digits base (acc * base + d) cs else (acc, c # cs)
      | None \<Rightarrow> (acc, c # cs))"

fun scan_sign :: "string \<Rightarrow> bool \<times> string" where
  "scan_sign [] = (False, [])"
| "scan_sign (c # cs) =
     (if c = CHR ''-'' then (True, cs) else if c = CHR ''+'' then (False, cs) else (False, c # cs))"

text \<open>
  Base 0: \<open>0x\<close> before a hexadecimal digit selects 16, another leading 0 selects 8, otherwise
  the base is 10.
\<close>

fun scan_prefix :: "string \<Rightarrow> nat \<times> string" where
  "scan_prefix (a # b # c # cs) =
     (if a = CHR ''0'' then
        if (b = CHR ''x'' \<or> b = CHR ''X'') \<and> is_digit 16 c then (16, c # cs) else (8, a # b # c # cs)
      else (10, a # b # c # cs))"
| "scan_prefix (a # cs) = (if a = CHR ''0'' then (8, a # cs) else (10, a # cs))"
| "scan_prefix [] = (10, [])"

definition ULONG_MAX :: nat where
  "ULONG_MAX = 2 ^ 64 - 1"

text \<open>Saturates at \<open>ULONG_MAX\<close>; a minus sign negates the value modulo \<open>2^64\<close>.\<close>

definition strtoul0 :: "string \<Rightarrow> nat" where
  "strtoul0 s =
     (let (neg, s1) = scan_sign (dropWhile is_space s);
          (base, s2) = scan_prefix s1;
          v = fst (scan_digits base 0 s2)
      in if v > ULONG_MAX then ULONG_MAX
         else if neg \<and> v \<noteq> 0 then 2 ^ 64 - v else v)"

text \<open>One \<open>%hhu\<close> conversion: \<open>None\<close> is a matching failure.\<close>

definition scan_hhu :: "string \<Rightarrow> (u8 \<times> string) option" where
  "scan_hhu s =
     (let (neg, s1) = scan_sign (dropWhile is_space s) in
      if s1 \<noteq> [] \<and> is_digit 10 (hd s1) then
        let (v, rest) = scan_digits 10 0 s1;
            r = (if v > ULONG_MAX then ULONG_MAX else v)
        in Some ((if neg \<and> v \<le> ULONG_MAX then - of_nat r else of_nat r), rest)
      else None)"

text \<open>
  \<open>sscanf (s, "%hhu.%hhu", &major, &minor)\<close>: the values stored, in order. The number of
  items converted is the length of the result.
\<close>

definition sscanf_hhu_dot_hhu :: "string \<Rightarrow> u8 list" where
  "sscanf_hhu_dot_hhu s =
     (case scan_hhu s of
        None \<Rightarrow> []
      | Some (major, rest) \<Rightarrow>
          (case rest of
             [] \<Rightarrow> [major]
           | c # cs \<Rightarrow>
               if c \<noteq> CHR ''.'' then [major]
               else (case scan_hhu cs of None \<Rightarrow> [major] | Some (minor, _) \<Rightarrow> [major, minor])))"

section \<open>Facts\<close>

lemma scan_digits_length: "length (snd (scan_digits base acc s)) \<le> length s"
  by (induction base acc s rule: scan_digits.induct) (auto split: option.splits)

lemma strtoul0_le: "strtoul0 s \<le> ULONG_MAX"
  by (auto simp: strtoul0_def ULONG_MAX_def Let_def split: prod.splits)

lemma sscanf_length: "length (sscanf_hhu_dot_hhu s) \<le> 2"
  by (auto simp: sscanf_hhu_dot_hhu_def split: option.splits list.splits)

text \<open>Decimal numerals: the digits of a number are read back as the number.\<close>

definition dec_digit :: "nat \<Rightarrow> char" where
  "dec_digit d = char_of (48 + d)"

lemma digit_val_dec_digit [simp]: "d < 10 \<Longrightarrow> digit_val (dec_digit d) = Some d"
  by (simp add: digit_val_def dec_digit_def Let_def)

fun dec_string :: "nat \<Rightarrow> string" where
  "dec_string n = (if n < 10 then [dec_digit n] else dec_string (n div 10) @ [dec_digit (n mod 10)])"

declare dec_string.simps [simp del]

lemma scan_digits_append:
  assumes "\<forall>c \<in> set ds. is_digit base c"
  shows "scan_digits base acc (ds @ s) = scan_digits base (fst (scan_digits base acc ds)) s"
  using assms
  by (induction ds arbitrary: acc) (auto simp: is_digit_def split: option.splits)

lemma dec_string_digits: "c \<in> set (dec_string n) \<Longrightarrow> is_digit 10 c"
proof (induction n rule: dec_string.induct)
  case (1 n)
  then show ?case
    by (subst (asm) dec_string.simps) (auto simp: is_digit_def split: if_splits)
qed

lemma scan_dec_string: "fst (scan_digits 10 0 (dec_string n)) = n"
proof (induction n rule: dec_string.induct)
  case (1 n)
  show ?case
  proof (cases "n < 10")
    case True
    then show ?thesis by (subst dec_string.simps) simp
  next
    case False
    with "1.IH" have "fst (scan_digits 10 0 (dec_string (n div 10))) = n div 10" by simp
    with False show ?thesis
      by (subst dec_string.simps) (simp add: scan_digits_append dec_string_digits)
  qed
qed

lemma dec_digit_cases:
  assumes "d < 10"
  shows "\<not> is_space (dec_digit d)" "dec_digit d \<noteq> CHR ''-''" "dec_digit d \<noteq> CHR ''+''"
    "dec_digit d = CHR ''0'' \<longleftrightarrow> d = 0"
proof -
  have v: "of_char (dec_digit d) = (48 + d :: nat)"
    using assms by (simp add: dec_digit_def)
  then show "\<not> is_space (dec_digit d)"
    by (simp add: is_space_def)
  have "dec_digit d = c \<longleftrightarrow> 48 + d = (of_char c :: nat)" for c
    using v by (metis of_char_eq_iff)
  with assms show "dec_digit d \<noteq> CHR ''-''" "dec_digit d \<noteq> CHR ''+''"
    "dec_digit d = CHR ''0'' \<longleftrightarrow> d = 0"
    by simp_all
qed

lemma dec_string_Cons:
  "\<exists>d ds. dec_string n = dec_digit d # ds \<and> d < 10 \<and> (0 < n \<longrightarrow> 0 < d) \<and> (n = 0 \<longrightarrow> ds = [])"
proof (induction n rule: dec_string.induct)
  case (1 n)
  show ?case
  proof (cases "n < 10")
    case True
    then show ?thesis by (subst dec_string.simps) auto
  next
    case False
    with "1.IH" obtain d ds where "dec_string (n div 10) = dec_digit d # ds" "d < 10" "0 < d"
      by (auto simp: div_greater_zero_iff)
    with False show ?thesis by (subst dec_string.simps) auto
  qed
qed

lemma scan_prefix_nonzero: "c \<noteq> CHR ''0'' \<Longrightarrow> scan_prefix (c # cs) = (10, c # cs)"
  by (cases "c # cs" rule: scan_prefix.cases) auto

lemma strtoul0_skip:
  "dropWhile is_space s = s \<Longrightarrow> scan_sign s = (False, s) \<Longrightarrow> scan_prefix s = (b, s) \<Longrightarrow>
   fst (scan_digits b 0 s) = v \<Longrightarrow> v \<le> ULONG_MAX \<Longrightarrow> strtoul0 s = v"
  by (simp add: strtoul0_def)

lemma strtoul0_dec_string:
  assumes n: "n \<le> ULONG_MAX"
  shows "strtoul0 (dec_string n) = n"
proof -
  obtain d ds where d: "dec_string n = dec_digit d # ds" "d < 10" "0 < n \<longrightarrow> 0 < d"
    "n = 0 \<longrightarrow> ds = []"
    using dec_string_Cons [of n] by blast
  note c = dec_digit_cases [OF d(2)]
  have skip: "dropWhile is_space (dec_string n) = dec_string n"
    "scan_sign (dec_string n) = (False, dec_string n)"
    using c by (simp_all add: d(1))
  show ?thesis
  proof (cases "n = 0")
    case True
    then have "dec_string n = [dec_digit 0]"
      by (simp add: dec_string.simps)
    then show ?thesis
      using skip n True by (intro strtoul0_skip [where b = 8]) (simp_all add: dec_digit_cases)
  next
    case False
    then have "scan_prefix (dec_string n) = (10, dec_string n)"
      using c d(3) by (simp add: d(1) scan_prefix_nonzero)
    then show ?thesis
      using skip n by (intro strtoul0_skip [where b = 10]) (simp_all add: scan_dec_string)
  qed
qed

end
