(* ===== verification/Smbios_Options.thy ===== *)
theory Smbios_Options
  imports Smbios_State C_Stdlib
begin

text \<open>
  The command line half of \<open>smbios.c\<close>: the option description tables, the defaults, and the
  helpers that store strings (\<open>smbios_entry_add\<close> itself is in \<open>Smbios_Entry\<close>). The option
  object, the image loader, the file reads and the UUID parser belong to the emulator: they
  are the parameters \<open>QemuOpts\<close> and \<open>smbios_host\<close>, and what the properties need of them is
  stated as the predicates \<open>opts_validate_contract\<close> and \<open>smbios_host_contract\<close>.
\<close>

section \<open>Option descriptions\<close>

datatype QemuOptType = QEMU_OPT_STRING | QEMU_OPT_BOOL | QEMU_OPT_NUMBER | QEMU_OPT_SIZE

text \<open>An array of descriptions ends with an element whose name is NULL.\<close>

record QemuOptDesc =
  od_name :: "string option"
  od_type :: QemuOptType
  od_help :: string
  od_def_value_str :: "string option"

definition opt_desc :: "string \<Rightarrow> QemuOptType \<Rightarrow> string \<Rightarrow> QemuOptDesc" where
  "opt_desc n t h = \<lparr>od_name = Some n, od_type = t, od_help = h, od_def_value_str = None\<rparr>"

definition end_of_list :: QemuOptDesc where
  "end_of_list =
     \<lparr>od_name = None, od_type = QEMU_OPT_STRING, od_help = [], od_def_value_str = None\<rparr>"

definition qemu_smbios_file_opts :: "QemuOptDesc list" where
  "qemu_smbios_file_opts =
     [opt_desc ''file'' QEMU_OPT_STRING ''binary file containing an SMBIOS element'',
      end_of_list]"

definition qemu_smbios_type0_opts :: "QemuOptDesc list" where
  "qemu_smbios_type0_opts =
     [opt_desc ''type'' QEMU_OPT_NUMBER ''SMBIOS element type'',
      opt_desc ''vendor'' QEMU_OPT_STRING ''vendor name'',
      opt_desc ''version'' QEMU_OPT_STRING ''version number'',
      opt_desc ''date'' QEMU_OPT_STRING ''release date'',
      opt_desc ''release'' QEMU_OPT_STRING ''revision number'',
      opt_desc ''uefi'' QEMU_OPT_BOOL ''uefi support'',
      end_of_list]"

definition qemu_smbios_type1_opts :: "QemuOptDesc list" where
  "qemu_smbios_type1_opts =
     [opt_desc ''type'' QEMU_OPT_NUMBER ''SMBIOS element type'',
      opt_desc ''manufacturer'' QEMU_OPT_STRING ''manufacturer name'',
      opt_desc ''product'' QEMU_OPT_STRING ''product name'',
      opt_desc ''version'' QEMU_OPT_STRING ''version number'',
      opt_desc ''serial'' QEMU_OPT_STRING ''serial number'',
      opt_desc ''uuid'' QEMU_OPT_STRING ''UUID'',
      opt_desc ''sku'' QEMU_OPT_STRING ''SKU number'',
      opt_desc ''family'' QEMU_OPT_STRING ''family name'',
      end_of_list]"

definition qemu_smbios_type2_opts :: "QemuOptDesc list" where
  "qemu_smbios_type2_opts =
     [opt_desc ''type'' QEMU_OPT_NUMBER ''SMBIOS element type'',
      opt_desc ''manufacturer'' QEMU_OPT_STRING ''manufacturer name'',
      opt_desc ''product'' QEMU_OPT_STRING ''product name'',
      opt_desc ''version'' QEMU_OPT_STRING ''version number'',
      opt_desc ''serial'' QEMU_OPT_STRING ''serial number'',
      opt_desc ''asset'' QEMU_OPT_STRING ''asset tag number'',
      opt_desc ''location'' QEMU_OPT_STRING ''location in chassis'',
      end_of_list]"

definition qemu_smbios_type3_opts :: "QemuOptDesc list" where
  "qemu_smbios_type3_opts =
     [opt_desc ''type'' QEMU_OPT_NUMBER ''SMBIOS element type'',
      opt_desc ''manufacturer'' QEMU_OPT_STRING ''manufacturer name'',
      opt_desc ''version'' QEMU_OPT_STRING ''version number'',
      opt_desc ''serial'' QEMU_OPT_STRING ''serial number'',
      opt_desc ''asset'' QEMU_OPT_STRING ''asset tag number'',
      opt_desc ''sku'' QEMU_OPT_STRING ''SKU number'',
      end_of_list]"

definition qemu_smbios_type4_opts :: "QemuOptDesc list" where
  "qemu_smbios_type4_opts =
     [opt_desc ''type'' QEMU_OPT_NUMBER ''SMBIOS element type'',
      opt_desc ''sock_pfx'' QEMU_OPT_STRING ''socket designation string prefix'',
      opt_desc ''manufacturer'' QEMU_OPT_STRING ''manufacturer name'',
      opt_desc ''version'' QEMU_OPT_STRING ''version number'',
      opt_desc ''max-speed'' QEMU_OPT_NUMBER ''max speed in MHz'',
      opt_desc ''current-speed'' QEMU_OPT_NUMBER ''speed at system boot in MHz'',
      opt_desc ''serial'' QEMU_OPT_STRING ''serial number'',
      opt_desc ''asset'' QEMU_OPT_STRING ''asset tag number'',
      opt_desc ''part'' QEMU_OPT_STRING ''part number'',
      opt_desc ''processor-family'' QEMU_OPT_NUMBER ''processor family'',
      opt_desc ''processor-id'' QEMU_OPT_NUMBER ''processor id'',
      end_of_list]"

definition qemu_smbios_type8_opts :: "QemuOptDesc list" where
  "qemu_smbios_type8_opts =
     [opt_desc ''type'' QEMU_OPT_NUMBER ''SMBIOS element type'',
      opt_desc ''internal_reference'' QEMU_OPT_STRING ''internal reference designator'',
      opt_desc ''external_reference'' QEMU_OPT_STRING ''external reference designator'',
      opt_desc ''connector_type'' QEMU_OPT_NUMBER ''connector type'',
      opt_desc ''port_type'' QEMU_OPT_NUMBER ''port type'',
      end_of_list]"

definition qemu_smbios_type9_opts :: "QemuOptDesc list" where
  "qemu_smbios_type9_opts =
     [opt_desc ''type'' QEMU_OPT_NUMBER ''SMBIOS element type'',
      opt_desc ''slot_designation'' QEMU_OPT_STRING ''string number for reference designation'',
      opt_desc ''slot_type'' QEMU_OPT_NUMBER ''connector type'',
      opt_desc ''slot_data_bus_width'' QEMU_OPT_NUMBER ''port type'',
      opt_desc ''current_usage'' QEMU_OPT_NUMBER ''current usage'',
      opt_desc ''slot_length'' QEMU_OPT_NUMBER ''system slot length'',
      opt_desc ''slot_id'' QEMU_OPT_NUMBER ''system slot id'',
      opt_desc ''slot_characteristics1'' QEMU_OPT_NUMBER ''slot characteristics1, see the spec'',
      opt_desc ''slot_characteristics2'' QEMU_OPT_NUMBER ''slot characteristics2, see the spec'',
      opt_desc ''pci_device'' QEMU_OPT_STRING ''PCI device, if provided.'']"

definition qemu_smbios_type11_opts :: "QemuOptDesc list" where
  "qemu_smbios_type11_opts =
     [opt_desc ''type'' QEMU_OPT_NUMBER ''SMBIOS element type'',
      opt_desc ''value'' QEMU_OPT_STRING ''OEM string data'',
      opt_desc ''path'' QEMU_OPT_STRING ''OEM string data from file'',
      end_of_list]"

definition qemu_smbios_type17_opts :: "QemuOptDesc list" where
  "qemu_smbios_type17_opts =
     [opt_desc ''type'' QEMU_OPT_NUMBER ''SMBIOS element type'',
      opt_desc ''loc_pfx'' QEMU_OPT_STRING ''device locator string prefix'',
      opt_desc ''bank'' QEMU_OPT_STRING ''bank locator string'',
      opt_desc ''manufacturer'' QEMU_OPT_STRING ''manufacturer name'',
      opt_desc ''serial'' QEMU_OPT_STRING ''serial number'',
      opt_desc ''asset'' QEMU_OPT_STRING ''asset tag number'',
      opt_desc ''part'' QEMU_OPT_STRING ''part number'',
      opt_desc ''speed'' QEMU_OPT_NUMBER ''maximum capable speed'',
      end_of_list]"

definition qemu_smbios_type41_opts :: "QemuOptDesc list" where
  "qemu_smbios_type41_opts =
     [opt_desc ''type'' QEMU_OPT_NUMBER ''SMBIOS element type'',
      opt_desc ''designation'' QEMU_OPT_STRING ''reference designation string'',
      (opt_desc ''kind'' QEMU_OPT_STRING ''device type'')
        \<lparr>od_def_value_str := Some ''other''\<rparr>,
      opt_desc ''instance'' QEMU_OPT_NUMBER ''device type instance'',
      opt_desc ''pcidev'' QEMU_OPT_STRING ''PCI device'',
      end_of_list]"

section \<open>The emulator's interfaces\<close>

text \<open>
  One parsed option group: its values by name, its \<open>(name, value)\<close> pairs in the order
  \<open>qemu_opt_foreach\<close> visits them, and the validation against a description array.
\<close>

record QemuOpts =
  qemu_opt_get :: "string \<Rightarrow> string option"
  qemu_opt_get_bool :: "string \<Rightarrow> bool \<Rightarrow> bool"
  qemu_opt_get_number :: "string \<Rightarrow> u64 \<Rightarrow> u64"
  qemu_opts_validate :: "QemuOptDesc list \<Rightarrow> bool"
  qemu_opt_list :: "(string \<times> string) list"

text \<open>
  \<open>host_open\<close> is \<open>qemu_open\<close> for reading with the results of the following \<open>read\<close> calls:
  \<open>None\<close> if the open fails, otherwise the chunks read before the end of the file
  (\<open>True\<close>) or before a failing \<open>read\<close> (\<open>False\<close>). \<open>load_image_size\<close> returns the number
  of bytes loaded and the contents of the destination buffer. \<open>qemu_uuid_parse\<close> returns
  its status and the destination after the call. \<open>qapi_enum_parse\<close> returns the index and
  whether it reported an error.
\<close>

record smbios_host =
  get_image_size :: "string \<Rightarrow> int"
  load_image_size :: "string \<Rightarrow> nat \<Rightarrow> int \<times> bytes"
  host_open :: "string \<Rightarrow> (bytes list \<times> bool) option"
  qemu_uuid_parse :: "string \<Rightarrow> bytes \<Rightarrow> int \<times> bytes"
  qapi_enum_parse :: "string list \<Rightarrow> string option \<Rightarrow> int \<Rightarrow> int \<times> bool"
  smbios_add_usr_blob_size :: "nat \<Rightarrow> nat list \<Rightarrow> nat list"

datatype smbios_error =
    Opts_invalid
  | Cannot_read_file string
  | Failed_to_load_file string
  | Fields_already_specified u8
  | Type_out_of_range
  | Binary_already_loaded
  | Invalid_release
  | Invalid_UUID
  | Cpu_speed_too_large
  | Open_failed string
  | Unable_to_read string
  | NUL_in_OEM_string string
  | Unexpected_option string
  | Invalid_enum
  | Unknown_type nat
  | Must_specify
  | Type4_count u32 nat
  | Table_too_long nat
  | Too_many_cores
  | No_PCI_device string
  | PCI_not_on_root string

section \<open>Defaults and CPUID\<close>

definition smbios_set_cpuid :: "u32 \<Rightarrow> u32 \<Rightarrow> smbios \<Rightarrow> smbios" where
  "smbios_set_cpuid version features s =
     s\<lparr>smbios_cpuid_version := version, smbios_cpuid_features := features\<rparr>"

definition SMBIOS_SET_DEFAULT :: "string option \<Rightarrow> string option \<Rightarrow> string option" where
  "SMBIOS_SET_DEFAULT field v = (case field of None \<Rightarrow> v | Some f \<Rightarrow> Some f)"

definition smbios_set_default_processor_family :: "u16 \<Rightarrow> smbios \<Rightarrow> smbios" where
  "smbios_set_default_processor_family processor_family s =
     (if c4_processor_family (type4 s) \<le> 0x01
      then s\<lparr>type4 := (type4 s)\<lparr>c4_processor_family := processor_family\<rparr>\<rparr> else s)"

definition smbios_set_defaults ::
  "string option \<Rightarrow> string option \<Rightarrow> string option \<Rightarrow> smbios \<Rightarrow> smbios" where
  "smbios_set_defaults manufacturer product version s =
     s\<lparr>smbios_have_defaults := True,
       smbios_type1 := (smbios_type1 s)
         \<lparr>c1_manufacturer := SMBIOS_SET_DEFAULT (c1_manufacturer (smbios_type1 s)) manufacturer,
          c1_product := SMBIOS_SET_DEFAULT (c1_product (smbios_type1 s)) product,
          c1_version := SMBIOS_SET_DEFAULT (c1_version (smbios_type1 s)) version\<rparr>,
       type2 := (type2 s)
         \<lparr>c2_manufacturer := SMBIOS_SET_DEFAULT (c2_manufacturer (type2 s)) manufacturer,
          c2_product := SMBIOS_SET_DEFAULT (c2_product (type2 s)) product,
          c2_version := SMBIOS_SET_DEFAULT (c2_version (type2 s)) version\<rparr>,
       type3 := (type3 s)
         \<lparr>c3_manufacturer := SMBIOS_SET_DEFAULT (c3_manufacturer (type3 s)) manufacturer,
          c3_version := SMBIOS_SET_DEFAULT (c3_version (type3 s)) version\<rparr>,
       type4 := (type4 s)
         \<lparr>c4_sock_pfx := SMBIOS_SET_DEFAULT (c4_sock_pfx (type4 s)) (Some ''CPU''),
          c4_manufacturer := SMBIOS_SET_DEFAULT (c4_manufacturer (type4 s)) manufacturer,
          c4_version := SMBIOS_SET_DEFAULT (c4_version (type4 s)) version\<rparr>,
       type17 := (type17 s)
         \<lparr>c17_loc_pfx := SMBIOS_SET_DEFAULT (c17_loc_pfx (type17 s)) (Some ''DIMM''),
          c17_manufacturer := SMBIOS_SET_DEFAULT (c17_manufacturer (type17 s)) manufacturer\<rparr>\<rparr>"

section \<open>Saving options\<close>

text \<open>\<open>save_opt (&dest, opts, name)\<close> as the new value of \<open>dest\<close>.\<close>

definition save_opt :: "string option \<Rightarrow> QemuOpts \<Rightarrow> string \<Rightarrow> string option" where
  "save_opt dest opts name = (case qemu_opt_get opts name of None \<Rightarrow> dest | Some v \<Rightarrow> Some v)"

text \<open>
  The read loop of \<open>save_opt_one\<close>: chunks are appended to the byte array until the end of
  the file; a NUL in a chunk or a failing read is an error. No terminator is appended.
\<close>

fun read_chunks :: "string \<Rightarrow> bytes list \<Rightarrow> bool \<Rightarrow> bytes \<Rightarrow> smbios_error + bytes" where
  "read_chunks path [] eof data = (if eof then Inr data else Inl (Unable_to_read path))"
| "read_chunks path (buf # bufs) eof data =
     (if 0 \<in> set buf then Inl (NUL_in_OEM_string path)
      else read_chunks path bufs eof (data @ buf))"

definition save_opt_one ::
  "smbios_host \<Rightarrow> string \<Rightarrow> string \<Rightarrow> bytes option list \<Rightarrow> smbios_error + bytes option list" where
  "save_opt_one h name v dest =
     (if name = ''path'' then
        (case host_open h v of
           None \<Rightarrow> Inl (Open_failed v)
         | Some (bufs, eof) \<Rightarrow>
             (case read_chunks v bufs eof [] of
                Inl e \<Rightarrow> Inl e
              | Inr data \<Rightarrow> Inr (dest @ [Some data])))
      else if name = ''value'' then Inr (dest @ [Some (str_bytes v @ [0])])
      else if name \<noteq> ''type'' then Inl (Unexpected_option name)
      else Inr dest)"

text \<open>
  \<open>qemu_opt_foreach\<close> stops at the first non-zero result; what was stored before it stays
  stored, so the list is returned with the error.
\<close>

fun save_opt_list ::
  "smbios_host \<Rightarrow> (string \<times> string) list \<Rightarrow> bytes option list \<Rightarrow>
   bytes option list \<times> smbios_error option" where
  "save_opt_list h [] dest = (dest, None)"
| "save_opt_list h ((name, v) # opts) dest =
     (case save_opt_one h name v dest of
        Inl e \<Rightarrow> (dest, Some e)
      | Inr dest' \<Rightarrow> save_opt_list h opts dest')"

end
