(* ===== verification/Smbios_Entry.thy ===== *)
theory Smbios_Entry
  imports Smbios_Options
begin

text \<open>
  \<open>smbios_entry_add\<close>: one definition per case of its \<open>switch\<close>, the \<open>file=\<close> branch, and the
  function that composes them. A result is the new state and the error that was set, if
  any: assignments made before an error stay made, as in the code.
\<close>

type_synonym entry_result = "smbios \<times> smbios_error option"

section \<open>A binary file\<close>

text \<open>\<open>get_image_size\<close> converted to \<open>size_t\<close>.\<close>

definition image_size :: "smbios_host \<Rightarrow> string \<Rightarrow> nat" where
  "image_size h val = nat (get_image_size h val mod 2 ^ 64)"

definition entry_add_file :: "smbios_host \<Rightarrow> QemuOpts \<Rightarrow> string \<Rightarrow> smbios \<Rightarrow> entry_result" where
  "entry_add_file h opts val s =
     (if \<not> qemu_opts_validate opts qemu_smbios_file_opts then (s, Some Opts_invalid)
      else
        let size = image_size h val in
        if size = 2 ^ 64 - 1 \<or> size < sizeof_header then (s, Some (Cannot_read_file val))
        else
          let (loaded, buf) = load_image_size h val size;
              s1 = s\<lparr>usr_blobs := take (usr_blobs_len s) (usr_blobs s) @ buf\<rparr>;
              ty = hdr_type (decode_header buf)
          in
          if loaded \<noteq> int size then (s1, Some (Failed_to_load_file val))
          else if unat ty \<le> SMBIOS_MAX_TYPE \<and> bit (smbios_have_fields_bitmap s1) (unat ty)
          then (s1, Some (Fields_already_specified ty))
          else
            let s2 = (if unat ty \<le> SMBIOS_MAX_TYPE
                      then s1\<lparr>smbios_have_binfile_bitmap :=
                               set_bit (unat ty) (smbios_have_binfile_bitmap s1)\<rparr>
                      else s1);
                s3 = (if ty = 4 then s2\<lparr>smbios_type4_count := smbios_type4_count s2 + 1\<rparr> else s2)
            in (s3\<lparr>usr_blobs_sizes := smbios_add_usr_blob_size h size (usr_blobs_sizes s3),
                   usr_blobs_len := usr_blobs_len s3 + size,
                   usr_table_max := (if size > usr_table_max s3 then size else usr_table_max s3),
                   usr_table_cnt := usr_table_cnt s3 + 1\<rparr>, None))"

section \<open>Fields of one table type\<close>

definition entry_add_type0 :: "QemuOpts \<Rightarrow> smbios \<Rightarrow> entry_result" where
  "entry_add_type0 opts s =
     (if \<not> qemu_opts_validate opts qemu_smbios_type0_opts then (s, Some Opts_invalid)
      else
        let t = smbios_type0 s;
            t = t\<lparr>c0_vendor := save_opt (c0_vendor t) opts ''vendor'',
                  c0_version := save_opt (c0_version t) opts ''version'',
                  c0_date := save_opt (c0_date t) opts ''date'',
                  c0_uefi := qemu_opt_get_bool opts ''uefi'' False\<rparr>
        in case qemu_opt_get opts ''release'' of
             None \<Rightarrow> (s\<lparr>smbios_type0 := t\<rparr>, None)
           | Some val \<Rightarrow>
               (case sscanf_hhu_dot_hhu val of
                  [] \<Rightarrow> (s\<lparr>smbios_type0 := t\<rparr>, Some Invalid_release)
                | [major] \<Rightarrow> (s\<lparr>smbios_type0 := t\<lparr>c0_major := major\<rparr>\<rparr>, Some Invalid_release)
                | major # minor # _ \<Rightarrow>
                    (s\<lparr>smbios_type0 := t\<lparr>c0_major := major, c0_minor := minor,
                                        c0_have_major_minor := True\<rparr>\<rparr>, None)))"

definition entry_add_type1 :: "smbios_host \<Rightarrow> QemuOpts \<Rightarrow> smbios \<Rightarrow> entry_result" where
  "entry_add_type1 h opts s =
     (if \<not> qemu_opts_validate opts qemu_smbios_type1_opts then (s, Some Opts_invalid)
      else
        let t = smbios_type1 s;
            s = s\<lparr>smbios_type1 :=
                 t\<lparr>c1_manufacturer := save_opt (c1_manufacturer t) opts ''manufacturer'',
                   c1_product := save_opt (c1_product t) opts ''product'',
                   c1_version := save_opt (c1_version t) opts ''version'',
                   c1_serial := save_opt (c1_serial t) opts ''serial'',
                   c1_sku := save_opt (c1_sku t) opts ''sku'',
                   c1_family := save_opt (c1_family t) opts ''family''\<rparr>\<rparr>
        in case qemu_opt_get opts ''uuid'' of
             None \<Rightarrow> (s, None)
           | Some val \<Rightarrow>
               let (rc, uuid) = qemu_uuid_parse h val (qemu_uuid s);
                   s = s\<lparr>qemu_uuid := uuid\<rparr>
               in if rc \<noteq> 0 then (s, Some Invalid_UUID) else (s\<lparr>qemu_uuid_set := True\<rparr>, None))"

definition entry_add_type2 :: "QemuOpts \<Rightarrow> smbios \<Rightarrow> entry_result" where
  "entry_add_type2 opts s =
     (if \<not> qemu_opts_validate opts qemu_smbios_type2_opts then (s, Some Opts_invalid)
      else
        let t = type2 s in
        (s\<lparr>type2 :=
            t\<lparr>c2_manufacturer := save_opt (c2_manufacturer t) opts ''manufacturer'',
              c2_product := save_opt (c2_product t) opts ''product'',
              c2_version := save_opt (c2_version t) opts ''version'',
              c2_serial := save_opt (c2_serial t) opts ''serial'',
              c2_asset := save_opt (c2_asset t) opts ''asset'',
              c2_location := save_opt (c2_location t) opts ''location''\<rparr>\<rparr>, None))"

definition entry_add_type3 :: "QemuOpts \<Rightarrow> smbios \<Rightarrow> entry_result" where
  "entry_add_type3 opts s =
     (if \<not> qemu_opts_validate opts qemu_smbios_type3_opts then (s, Some Opts_invalid)
      else
        let t = type3 s in
        (s\<lparr>type3 :=
            t\<lparr>c3_manufacturer := save_opt (c3_manufacturer t) opts ''manufacturer'',
              c3_version := save_opt (c3_version t) opts ''version'',
              c3_serial := save_opt (c3_serial t) opts ''serial'',
              c3_asset := save_opt (c3_asset t) opts ''asset'',
              c3_sku := save_opt (c3_sku t) opts ''sku''\<rparr>\<rparr>, None))"

definition UINT16_MAX :: u64 where
  "UINT16_MAX = 65535"

definition entry_add_type4 :: "QemuOpts \<Rightarrow> smbios \<Rightarrow> entry_result" where
  "entry_add_type4 opts s =
     (if \<not> qemu_opts_validate opts qemu_smbios_type4_opts then (s, Some Opts_invalid)
      else
        let t = type4 s;
            t = t\<lparr>c4_sock_pfx := save_opt (c4_sock_pfx t) opts ''sock_pfx'',
                  c4_processor_family :=
                    ucast (qemu_opt_get_number opts ''processor-family'' 0x01),
                  c4_manufacturer := save_opt (c4_manufacturer t) opts ''manufacturer'',
                  c4_version := save_opt (c4_version t) opts ''version'',
                  c4_serial := save_opt (c4_serial t) opts ''serial'',
                  c4_asset := save_opt (c4_asset t) opts ''asset'',
                  c4_part := save_opt (c4_part t) opts ''part'',
                  c4_processor_id := qemu_opt_get_number opts ''processor-id'' 0,
                  c4_max_speed := qemu_opt_get_number opts ''max-speed'' DEFAULT_CPU_SPEED,
                  c4_current_speed :=
                    qemu_opt_get_number opts ''current-speed'' DEFAULT_CPU_SPEED\<rparr>
        in (s\<lparr>type4 := t\<rparr>,
            if c4_max_speed t > UINT16_MAX \<or> c4_current_speed t > UINT16_MAX
            then Some Cpu_speed_too_large else None))"

definition entry_add_type8 :: "QemuOpts \<Rightarrow> smbios \<Rightarrow> entry_result" where
  "entry_add_type8 opts s =
     (if \<not> qemu_opts_validate opts qemu_smbios_type8_opts then (s, Some Opts_invalid)
      else
        let t8_i =
          \<lparr>i8_internal_reference = save_opt None opts ''internal_reference'',
           i8_external_reference = save_opt None opts ''external_reference'',
           i8_connector_type = ucast (qemu_opt_get_number opts ''connector_type'' 0),
           i8_port_type = ucast (qemu_opt_get_number opts ''port_type'' 0)\<rparr>
        in (s\<lparr>type8 := type8 s @ [t8_i]\<rparr>, None))"

definition entry_add_type9 :: "QemuOpts \<Rightarrow> smbios \<Rightarrow> entry_result" where
  "entry_add_type9 opts s =
     (if \<not> qemu_opts_validate opts qemu_smbios_type9_opts then (s, Some Opts_invalid)
      else
        let t =
          \<lparr>i9_slot_designation = save_opt None opts ''slot_designation'',
           i9_pcidev = save_opt None opts ''pcidev'',
           i9_slot_type = ucast (qemu_opt_get_number opts ''slot_type'' 0),
           i9_slot_data_bus_width = ucast (qemu_opt_get_number opts ''slot_data_bus_width'' 0),
           i9_current_usage = ucast (qemu_opt_get_number opts ''current_usage'' 0),
           i9_slot_length = ucast (qemu_opt_get_number opts ''slot_length'' 0),
           i9_slot_characteristics1 =
             ucast (qemu_opt_get_number opts ''slot_characteristics1'' 0),
           i9_slot_characteristics2 =
             ucast (qemu_opt_get_number opts ''slot_characteristics2'' 0),
           i9_slot_id = ucast (qemu_opt_get_number opts ''slot_id'' 0)\<rparr>
        in (s\<lparr>type9 := type9 s @ [t]\<rparr>, None))"

definition entry_add_type11 :: "smbios_host \<Rightarrow> QemuOpts \<Rightarrow> smbios \<Rightarrow> entry_result" where
  "entry_add_type11 h opts s =
     (if \<not> qemu_opts_validate opts qemu_smbios_type11_opts then (s, Some Opts_invalid)
      else
        let (values, err) = save_opt_list h (qemu_opt_list opts) (type11_values s)
        in (s\<lparr>type11_values := values\<rparr>, err))"

definition entry_add_type17 :: "QemuOpts \<Rightarrow> smbios \<Rightarrow> entry_result" where
  "entry_add_type17 opts s =
     (if \<not> qemu_opts_validate opts qemu_smbios_type17_opts then (s, Some Opts_invalid)
      else
        let t = type17 s in
        (s\<lparr>type17 :=
            t\<lparr>c17_loc_pfx := save_opt (c17_loc_pfx t) opts ''loc_pfx'',
              c17_bank := save_opt (c17_bank t) opts ''bank'',
              c17_manufacturer := save_opt (c17_manufacturer t) opts ''manufacturer'',
              c17_serial := save_opt (c17_serial t) opts ''serial'',
              c17_asset := save_opt (c17_asset t) opts ''asset'',
              c17_part := save_opt (c17_part t) opts ''part'',
              c17_speed := ucast (qemu_opt_get_number opts ''speed'' 0)\<rparr>\<rparr>, None))"

definition entry_add_type41 :: "smbios_host \<Rightarrow> QemuOpts \<Rightarrow> smbios \<Rightarrow> entry_result" where
  "entry_add_type41 h opts s =
     (if \<not> qemu_opts_validate opts qemu_smbios_type41_opts then (s, Some Opts_invalid)
      else
        let (k, failed) = qapi_enum_parse h type41_kind_lookup (qemu_opt_get opts ''kind'') 0;
            kind = (word_of_int (k + 1) :: u8) OR 0x80
        in if failed then (s, Some Invalid_enum)
           else
             let t41_i =
               \<lparr>i41_designation = save_opt None opts ''designation'',
                i41_pcidev = save_opt None opts ''pcidev'',
                i41_instance = ucast (qemu_opt_get_number opts ''instance'' 1),
                i41_kind = kind\<rparr>
             in (s\<lparr>type41 := type41 s @ [t41_i]\<rparr>, None))"

section \<open>The dispatcher\<close>

definition entry_add_fields :: "smbios_host \<Rightarrow> QemuOpts \<Rightarrow> nat \<Rightarrow> smbios \<Rightarrow> entry_result" where
  "entry_add_fields h opts ty s =
     (if ty = 0 then entry_add_type0 opts s
      else if ty = 1 then entry_add_type1 h opts s
      else if ty = 2 then entry_add_type2 opts s
      else if ty = 3 then entry_add_type3 opts s
      else if ty = 4 then entry_add_type4 opts s
      else if ty = 8 then entry_add_type8 opts s
      else if ty = 9 then entry_add_type9 opts s
      else if ty = 11 then entry_add_type11 h opts s
      else if ty = 17 then entry_add_type17 opts s
      else if ty = 41 then entry_add_type41 h opts s
      else (s, Some (Unknown_type ty)))"

definition smbios_entry_add :: "smbios_host \<Rightarrow> QemuOpts \<Rightarrow> smbios \<Rightarrow> entry_result" where
  "smbios_entry_add h opts s =
     (case qemu_opt_get opts ''file'' of
        Some val \<Rightarrow> entry_add_file h opts val s
      | None \<Rightarrow>
          (case qemu_opt_get opts ''type'' of
             Some val \<Rightarrow>
               let ty = strtoul0 val in
               if ty > SMBIOS_MAX_TYPE then (s, Some Type_out_of_range)
               else if bit (smbios_have_binfile_bitmap s) ty
               then (s, Some Binary_already_loaded)
               else entry_add_fields h opts ty
                      (s\<lparr>smbios_have_fields_bitmap :=
                          set_bit ty (smbios_have_fields_bitmap s)\<rparr>)
           | None \<Rightarrow> (s, Some Must_specify)))"

section \<open>What the emulator promises\<close>

text \<open>
  Validation rejects an option that has no description, and a value is only found for an
  option that was given.
\<close>

definition desc_names :: "QemuOptDesc list \<Rightarrow> string set" where
  "desc_names d = {n. Some n \<in> od_name ` set d}"

definition opts_validate_contract :: "QemuOpts \<Rightarrow> bool" where
  "opts_validate_contract opts \<longleftrightarrow>
     (\<forall>d n. qemu_opts_validate opts d \<longrightarrow> qemu_opt_get opts n \<noteq> None \<longrightarrow> n \<in> desc_names d)"

text \<open>
  An image fills its buffer, sizes are recorded in order, and a size is -1 or a size.
\<close>

definition smbios_host_contract :: "smbios_host \<Rightarrow> bool" where
  "smbios_host_contract h \<longleftrightarrow>
     (\<forall>f n. length (snd (load_image_size h f n)) = n) \<and>
     (\<forall>f. - 1 \<le> get_image_size h f) \<and>
     (\<forall>n ns. smbios_add_usr_blob_size h n ns = ns @ [n])"

section \<open>Reachable configurations\<close>

text \<open>
  The machine starts from the static initialisers; then options are added (their errors
  reported and the loop left or continued by the caller) and the board sets its defaults.
\<close>

inductive smbios_reach :: "smbios_host \<Rightarrow> smbios \<Rightarrow> bool" for h where
  start: "smbios_reach h smbios_init"
| entry_add: "smbios_reach h s \<Longrightarrow> opts_validate_contract opts \<Longrightarrow>
     smbios_reach h (fst (smbios_entry_add h opts s))"
| set_defaults: "smbios_reach h s \<Longrightarrow> smbios_reach h (smbios_set_defaults m p v s)"
| set_cpuid: "smbios_reach h s \<Longrightarrow> smbios_reach h (smbios_set_cpuid ver feat s)"
| set_family: "smbios_reach h s \<Longrightarrow> smbios_reach h (smbios_set_default_processor_family f s)"

section \<open>Frames\<close>

text \<open>Adding fields touches neither the user blobs nor the bitmaps.\<close>

definition usr_part :: "smbios \<Rightarrow> bytes \<times> nat \<times> nat list \<times> nat \<times> nat" where
  "usr_part s =
     (usr_blobs s, usr_blobs_len s, usr_blobs_sizes s, usr_table_max s, usr_table_cnt s)"

definition bitmaps :: "smbios \<Rightarrow> 128 word \<times> 128 word" where
  "bitmaps s = (smbios_have_binfile_bitmap s, smbios_have_fields_bitmap s)"

lemma config_update_frame [simp]:
  "usr_part (s\<lparr>smbios_type0 := x0\<rparr>) = usr_part s"
  "bitmaps (s\<lparr>smbios_type0 := x0\<rparr>) = bitmaps s"
  "usr_part (s\<lparr>smbios_type1 := x1\<rparr>) = usr_part s"
  "bitmaps (s\<lparr>smbios_type1 := x1\<rparr>) = bitmaps s"
  "usr_part (s\<lparr>type2 := x2\<rparr>) = usr_part s"
  "bitmaps (s\<lparr>type2 := x2\<rparr>) = bitmaps s"
  "usr_part (s\<lparr>type3 := x3\<rparr>) = usr_part s"
  "bitmaps (s\<lparr>type3 := x3\<rparr>) = bitmaps s"
  "usr_part (s\<lparr>type4 := x4\<rparr>) = usr_part s"
  "bitmaps (s\<lparr>type4 := x4\<rparr>) = bitmaps s"
  "usr_part (s\<lparr>type8 := x5\<rparr>) = usr_part s"
  "bitmaps (s\<lparr>type8 := x5\<rparr>) = bitmaps s"
  "usr_part (s\<lparr>type9 := x6\<rparr>) = usr_part s"
  "bitmaps (s\<lparr>type9 := x6\<rparr>) = bitmaps s"
  "usr_part (s\<lparr>type11_values := x7\<rparr>) = usr_part s"
  "bitmaps (s\<lparr>type11_values := x7\<rparr>) = bitmaps s"
  "usr_part (s\<lparr>type17 := x8\<rparr>) = usr_part s"
  "bitmaps (s\<lparr>type17 := x8\<rparr>) = bitmaps s"
  "usr_part (s\<lparr>type41 := x9\<rparr>) = usr_part s"
  "bitmaps (s\<lparr>type41 := x9\<rparr>) = bitmaps s"
  "usr_part (s\<lparr>qemu_uuid := x10\<rparr>) = usr_part s"
  "bitmaps (s\<lparr>qemu_uuid := x10\<rparr>) = bitmaps s"
  "usr_part (s\<lparr>qemu_uuid_set := x11\<rparr>) = usr_part s"
  "bitmaps (s\<lparr>qemu_uuid_set := x11\<rparr>) = bitmaps s"
  by (simp_all add: usr_part_def bitmaps_def)

lemma entry_add_type0_frame [frame_simps]:
  "usr_part (fst (entry_add_type0 opts s)) = usr_part s"
  "bitmaps (fst (entry_add_type0 opts s)) = bitmaps s"
  by (simp_all add: entry_add_type0_def Let_def split: option.split list.split prod.split)

lemma entry_add_type1_frame [frame_simps]:
  "usr_part (fst (entry_add_type1 h opts s)) = usr_part s"
  "bitmaps (fst (entry_add_type1 h opts s)) = bitmaps s"
  by (simp_all add: entry_add_type1_def Let_def split: option.split list.split prod.split)

lemma entry_add_type2_frame [frame_simps]:
  "usr_part (fst (entry_add_type2 opts s)) = usr_part s"
  "bitmaps (fst (entry_add_type2 opts s)) = bitmaps s"
  by (simp_all add: entry_add_type2_def Let_def split: option.split list.split prod.split)

lemma entry_add_type3_frame [frame_simps]:
  "usr_part (fst (entry_add_type3 opts s)) = usr_part s"
  "bitmaps (fst (entry_add_type3 opts s)) = bitmaps s"
  by (simp_all add: entry_add_type3_def Let_def split: option.split list.split prod.split)

lemma entry_add_type4_frame [frame_simps]:
  "usr_part (fst (entry_add_type4 opts s)) = usr_part s"
  "bitmaps (fst (entry_add_type4 opts s)) = bitmaps s"
  by (simp_all add: entry_add_type4_def Let_def split: option.split list.split prod.split)

lemma entry_add_type8_frame [frame_simps]:
  "usr_part (fst (entry_add_type8 opts s)) = usr_part s"
  "bitmaps (fst (entry_add_type8 opts s)) = bitmaps s"
  by (simp_all add: entry_add_type8_def Let_def split: option.split list.split prod.split)

lemma entry_add_type9_frame [frame_simps]:
  "usr_part (fst (entry_add_type9 opts s)) = usr_part s"
  "bitmaps (fst (entry_add_type9 opts s)) = bitmaps s"
  by (simp_all add: entry_add_type9_def Let_def split: option.split list.split prod.split)

lemma entry_add_type11_frame [frame_simps]:
  "usr_part (fst (entry_add_type11 h opts s)) = usr_part s"
  "bitmaps (fst (entry_add_type11 h opts s)) = bitmaps s"
  by (simp_all add: entry_add_type11_def Let_def split: option.split list.split prod.split)

lemma entry_add_type17_frame [frame_simps]:
  "usr_part (fst (entry_add_type17 opts s)) = usr_part s"
  "bitmaps (fst (entry_add_type17 opts s)) = bitmaps s"
  by (simp_all add: entry_add_type17_def Let_def split: option.split list.split prod.split)

lemma entry_add_type41_frame [frame_simps]:
  "usr_part (fst (entry_add_type41 h opts s)) = usr_part s"
  "bitmaps (fst (entry_add_type41 h opts s)) = bitmaps s"
  by (simp_all add: entry_add_type41_def Let_def split: option.split list.split prod.split)

lemma entry_add_fields_frame [frame_simps]:
  "usr_part (fst (entry_add_fields h opts ty s)) = usr_part s"
  "bitmaps (fst (entry_add_fields h opts ty s)) = bitmaps s"
  by (simp_all add: entry_add_fields_def frame_simps)

lemma set_defaults_frame [frame_simps]:
  "usr_part (smbios_set_defaults m p v s) = usr_part s"
  "bitmaps (smbios_set_defaults m p v s) = bitmaps s"
  "type9 (smbios_set_defaults m p v s) = type9 s"
  by (simp_all add: smbios_set_defaults_def usr_part_def bitmaps_def)

lemma set_cpuid_frame [frame_simps]:
  "usr_part (smbios_set_cpuid ver feat s) = usr_part s"
  "bitmaps (smbios_set_cpuid ver feat s) = bitmaps s"
  "type9 (smbios_set_cpuid ver feat s) = type9 s"
  by (simp_all add: smbios_set_cpuid_def usr_part_def bitmaps_def)

lemma set_family_frame [frame_simps]:
  "usr_part (smbios_set_default_processor_family f s) = usr_part s"
  "bitmaps (smbios_set_default_processor_family f s) = bitmaps s"
  "type9 (smbios_set_default_processor_family f s) = type9 s"
  by (simp_all add: smbios_set_default_processor_family_def usr_part_def bitmaps_def)

end
