(* ===== verification/Smbios_Entry_Props.thy ===== *)
theory Smbios_Entry_Props
  imports Smbios_Entry
begin

text \<open>
  What holds of every configuration the command line can build: the two bitmaps are
  disjoint, the accounting of the user blobs is right, no type 9 entry has a PCI device.
\<close>

section \<open>Disjoint bitmaps\<close>

definition bitmaps_disjoint :: "smbios \<Rightarrow> bool" where
  "bitmaps_disjoint s \<longleftrightarrow>
     smbios_have_binfile_bitmap s AND smbios_have_fields_bitmap s = 0"

lemma and_eq_0_iff_bits: "a AND b = 0 \<longleftrightarrow> (\<forall>n. \<not> (bit a n \<and> bit b n))"
  for a b :: "'a::len word"
  by (auto simp: bit_eq_iff bit_and_iff dest: bit_imp_le_length)

lemma bitmaps_disjoint_iff:
  "bitmaps_disjoint s \<longleftrightarrow>
     (\<forall>n. \<not> (bit (fst (bitmaps s)) n \<and> bit (snd (bitmaps s)) n))"
  by (simp add: bitmaps_disjoint_def bitmaps_def and_eq_0_iff_bits)

lemma bitmaps_disjoint_cong: "bitmaps s' = bitmaps s \<Longrightarrow> bitmaps_disjoint s' = bitmaps_disjoint s"
  by (simp add: bitmaps_disjoint_iff)

text \<open>The two shapes of a successful or failed \<open>entry_add_file\<close>.\<close>

lemma entry_add_file_bitmaps:
  "bitmaps (fst (entry_add_file h opts val s)) = bitmaps s \<or>
   (\<exists>n \<le> SMBIOS_MAX_TYPE. \<not> bit (smbios_have_fields_bitmap s) n \<and>
      bitmaps (fst (entry_add_file h opts val s)) =
        (set_bit n (smbios_have_binfile_bitmap s), smbios_have_fields_bitmap s))"
  by (auto simp: entry_add_file_def bitmaps_def Let_def split: prod.split)

lemma bit_set_bit_word:
  "bit (set_bit n (w :: 'a::len word)) m \<longleftrightarrow> bit w m \<or> n = m \<and> m < LENGTH('a)"
  by (auto simp: bit_set_bit_iff possible_bit_def dest: bit_imp_le_length)

lemma bitmaps_set_fields:
  "bitmaps (s\<lparr>smbios_have_fields_bitmap := w\<rparr>) = (smbios_have_binfile_bitmap s, w)"
  by (simp add: bitmaps_def)

lemma entry_add_bitmaps_disjoint:
  assumes "bitmaps_disjoint s"
  shows "bitmaps_disjoint (fst (smbios_entry_add h opts s))"
proof (cases "qemu_opt_get opts ''file''")
  case (Some val)
  then show ?thesis
    using entry_add_file_bitmaps [of h opts val s] assms
    by (auto simp: smbios_entry_add_def bitmaps_disjoint_iff bit_set_bit_word bitmaps_def)
next
  case None
  then show ?thesis
    using assms
    by (auto simp: smbios_entry_add_def bitmaps_disjoint_iff frame_simps bitmaps_set_fields
        bit_set_bit_word Let_def bitmaps_def [of s] split: option.split)
qed

lemma reach_bitmaps_disjoint: "smbios_reach h s \<Longrightarrow> bitmaps_disjoint s"
proof (induction rule: smbios_reach.induct)
  case start
  show ?case by (simp add: bitmaps_disjoint_def smbios_init_def)
next
  case (entry_add s opts)
  then show ?case by (simp add: entry_add_bitmaps_disjoint)
qed (simp_all add: bitmaps_disjoint_iff frame_simps)

text \<open>
  In every configuration the command line can reach, no table type has both a binary
  file and fields: \<open>smbios_entry_add\<close> refuses whichever of the two comes second.
\<close>

theorem binfile_fields_exclusive:
  assumes "smbios_reach h s"
  shows "\<not> (bit (smbios_have_binfile_bitmap s) n \<and> bit (smbios_have_fields_bitmap s) n)"
  using reach_bitmaps_disjoint [OF assms] by (simp add: bitmaps_disjoint_iff bitmaps_def)

section \<open>User blobs\<close>

text \<open>
  \<open>usr_blobs_len\<close>, \<open>usr_table_cnt\<close> and \<open>usr_table_max\<close> are the sum, the number and the
  maximum of the recorded sizes, and the buffer holds at least \<open>usr_blobs_len\<close> bytes.
\<close>

definition usr_ok :: "bytes \<times> nat \<times> nat list \<times> nat \<times> nat \<Rightarrow> bool" where
  "usr_ok u = (case u of (blobs, len, sizes, mx, cnt) \<Rightarrow>
     len = sum_list sizes \<and> cnt = length sizes \<and> mx = foldl max 0 sizes \<and> len \<le> length blobs)"

lemma usr_ok_append:
  assumes "usr_ok (blobs, len, sizes, mx, cnt)" and "length buf = n"
  shows "usr_ok (take len blobs @ buf, len + n, sizes @ [n], if n > mx then n else mx, cnt + 1)"
    and "usr_ok (take len blobs @ buf, len, sizes, mx, cnt)"
  using assms by (auto simp: usr_ok_def max_def)

lemma entry_add_file_usr:
  assumes "smbios_host_contract h" and "usr_ok (usr_part s)"
  shows "usr_ok (usr_part (fst (entry_add_file h opts val s)))"
proof -
  obtain loaded buf where img: "load_image_size h val (image_size h val) = (loaded, buf)"
    by fastforce
  have len: "length buf = image_size h val"
    using assms(1) img by (metis smbios_host_contract_def snd_conv)
  have rec: "smbios_add_usr_blob_size h k ks = ks @ [k]" for k ks
    using assms(1) by (simp add: smbios_host_contract_def)
  note ok = usr_ok_append [OF assms(2) [unfolded usr_part_def] len]
  show ?thesis
    using ok assms(2)
    by (auto simp: entry_add_file_def img rec usr_part_def Let_def split: if_splits)
qed

lemma entry_add_usr:
  assumes "smbios_host_contract h" and "usr_ok (usr_part s)"
  shows "usr_ok (usr_part (fst (smbios_entry_add h opts s)))"
proof -
  have "usr_part (s\<lparr>smbios_have_fields_bitmap := w\<rparr>) = usr_part s" for w
    by (simp add: usr_part_def)
  then show ?thesis
    using assms entry_add_file_usr
    by (simp add: smbios_entry_add_def frame_simps Let_def split: option.split)
qed

text \<open>
  The accounting of the binary files is right in every reachable configuration:
  \<open>usr_blobs_len\<close> is the sum of the recorded sizes, \<open>usr_table_cnt\<close> their number,
  \<open>usr_table_max\<close> their maximum, and \<open>usr_blobs\<close> holds that many bytes (also after an
  option that failed while loading).
\<close>

theorem usr_blob_accounting:
  assumes "smbios_host_contract h" and "smbios_reach h s"
  shows "usr_blobs_len s = sum_list (usr_blobs_sizes s) \<and>
    usr_table_cnt s = length (usr_blobs_sizes s) \<and>
    usr_table_max s = foldl max 0 (usr_blobs_sizes s) \<and>
    usr_blobs_len s \<le> length (usr_blobs s)"
proof -
  from assms(2) have "usr_ok (usr_part s)"
  proof (induction rule: smbios_reach.induct)
    case start
    show ?case by (simp add: usr_ok_def usr_part_def smbios_init_def)
  next
    case (entry_add s opts)
    with assms(1) show ?case by (simp add: entry_add_usr)
  qed (simp_all add: frame_simps)
  then show ?thesis by (simp add: usr_ok_def usr_part_def)
qed

section \<open>PCI devices of slots\<close>

lemma type9_opts_no_pcidev: "''pcidev'' \<notin> desc_names qemu_smbios_type9_opts"
  by (simp add: desc_names_def qemu_smbios_type9_opts_def opt_desc_def)

definition no_pcidev :: "smbios \<Rightarrow> bool" where
  "no_pcidev s \<longleftrightarrow> (\<forall>t \<in> set (type9 s). i9_pcidev t = None)"

lemma no_pcidev_cong: "type9 s' = type9 s \<Longrightarrow> no_pcidev s' = no_pcidev s"
  by (simp add: no_pcidev_def)

lemma entry_add_type9_pcidev:
  assumes "opts_validate_contract opts" and "no_pcidev s"
  shows "no_pcidev (fst (entry_add_type9 opts s))"
proof (cases "qemu_opts_validate opts qemu_smbios_type9_opts")
  case True
  then have "qemu_opt_get opts ''pcidev'' = None"
    using assms(1) type9_opts_no_pcidev unfolding opts_validate_contract_def by blast
  with True assms(2) show ?thesis
    by (auto simp: entry_add_type9_def Let_def save_opt_def no_pcidev_def)
next
  case False
  with assms(2) show ?thesis by (simp add: entry_add_type9_def)
qed

lemma no_pcidev_other [simp]:
  "no_pcidev (fst (entry_add_type0 opts s)) = no_pcidev s"
  "no_pcidev (fst (entry_add_type1 h opts s)) = no_pcidev s"
  "no_pcidev (fst (entry_add_type2 opts s)) = no_pcidev s"
  "no_pcidev (fst (entry_add_type3 opts s)) = no_pcidev s"
  "no_pcidev (fst (entry_add_type4 opts s)) = no_pcidev s"
  "no_pcidev (fst (entry_add_type8 opts s)) = no_pcidev s"
  "no_pcidev (fst (entry_add_type11 h opts s)) = no_pcidev s"
  "no_pcidev (fst (entry_add_type17 opts s)) = no_pcidev s"
  "no_pcidev (fst (entry_add_type41 h opts s)) = no_pcidev s"
  "no_pcidev (fst (entry_add_file h opts val s)) = no_pcidev s"
  "no_pcidev (s\<lparr>smbios_have_fields_bitmap := w\<rparr>) = no_pcidev s"
  by (rule no_pcidev_cong, simp add: entry_add_type0_def entry_add_type1_def
      entry_add_type2_def entry_add_type3_def entry_add_type4_def entry_add_type8_def
      entry_add_type11_def entry_add_type17_def entry_add_type41_def entry_add_file_def Let_def
      split: option.split list.split prod.split)+

lemma no_pcidev_set [simp]:
  "no_pcidev (smbios_set_defaults m p v s) = no_pcidev s"
  "no_pcidev (smbios_set_cpuid ver feat s) = no_pcidev s"
  "no_pcidev (smbios_set_default_processor_family f s) = no_pcidev s"
  by (rule no_pcidev_cong, simp add: frame_simps)+

lemma entry_add_pcidev:
  assumes "opts_validate_contract opts" and "no_pcidev s"
  shows "no_pcidev (fst (smbios_entry_add h opts s))"
  using assms entry_add_type9_pcidev [OF assms(1)]
  by (simp add: smbios_entry_add_def entry_add_fields_def Let_def split: option.split)

text \<open>
  The description table of type 9 offers \<open>pci_device\<close> while the code reads \<open>pcidev\<close>, so
  no reachable configuration has a slot with a PCI device: every type 9 structure gets the
  "no device" bus and device numbers, and its two PCI error branches are dead.
\<close>

theorem type9_never_has_pcidev:
  assumes "smbios_reach h s"
  shows "\<forall>t \<in> set (type9 s). i9_pcidev t = None"
proof -
  from assms have "no_pcidev s"
  proof (induction rule: smbios_reach.induct)
    case start
    show ?case by (simp add: no_pcidev_def smbios_init_def)
  next
    case (entry_add s opts)
    then show ?case by (simp add: entry_add_pcidev)
  qed simp_all
  then show ?thesis by (simp add: no_pcidev_def)
qed

section \<open>OEM strings from a file\<close>

lemma read_chunks_Inr:
  "read_chunks path bufs eof data = Inr r \<longleftrightarrow>
     eof \<and> (\<forall>b \<in> set bufs. 0 \<notin> set b) \<and> r = data @ concat bufs"
  by (induction path bufs eof data rule: read_chunks.induct) auto

text \<open>
  An OEM string given by \<open>path=\<close> is stored without a terminator: whatever the file, if
  the option is accepted the new buffer is the bytes of the file and holds no NUL at all,
  where \<open>value=\<close> stores the string with its NUL.
\<close>

theorem oem_path_value_unterminated:
  assumes "save_opt_one h ''path'' v dest = Inr dest'"
  shows "\<exists>bufs. host_open h v = Some (bufs, True) \<and> dest' = dest @ [Some (concat bufs)] \<and>
    0 \<notin> set (concat bufs)"
  using assms
  by (auto simp: save_opt_one_def read_chunks_Inr split: option.splits sum.splits)

lemma save_opt_one_Inr:
  assumes "save_opt_one h name v dest = Inr dest'"
  shows "name = ''type'' \<and> dest' = dest \<or> name \<noteq> ''type'' \<and> (\<exists>x. dest' = dest @ [x])"
proof -
  consider "name = ''path''" | "name = ''value''" | "name \<noteq> ''path''" "name \<noteq> ''value''"
    by blast
  then show ?thesis
  proof cases
    case 1
    with assms show ?thesis
      by (auto simp: save_opt_one_def read_chunks_Inr split: option.splits sum.splits prod.splits)
  next
    case 2
    with assms show ?thesis by (auto simp: save_opt_one_def)
  next
    case 3
    with assms show ?thesis by (cases "name = ''type''") (simp_all add: save_opt_one_def)
  qed
qed

text \<open>
  A list of options with a NUL in a file, a failing read or an unknown name is
  reported as an error, and the strings stored before it stay stored: the result is a
  prefix extension of the old list in every case.
\<close>

theorem save_opt_list_extends:
  "\<exists>new. fst (save_opt_list h opts dest) = dest @ new \<and>
     length new \<le> length opts \<and>
     (snd (save_opt_list h opts dest) = None \<longrightarrow>
        length new = length (filter (\<lambda>(n, v). n \<noteq> ''type'') opts))"
proof (induction h opts dest rule: save_opt_list.induct)
  case (1 h dest)
  show ?case by simp
next
  case (2 h name v opts dest)
  show ?case
  proof (cases "save_opt_one h name v dest")
    case (Inl e)
    then show ?thesis by simp
  next
    case (Inr dest')
    have step: "save_opt_list h ((name, v) # opts) dest = save_opt_list h opts dest'"
      using Inr by simp
    from "2.IH" [OF Inr] obtain new where new:
      "fst (save_opt_list h opts dest') = dest' @ new \<and> length new \<le> length opts \<and>
       (snd (save_opt_list h opts dest') = None \<longrightarrow>
          length new = length (filter (\<lambda>(n, v). n \<noteq> ''type'') opts))" ..
    from save_opt_one_Inr [OF Inr] consider "dest' = dest" "name = ''type''"
      | x where "dest' = dest @ [x]" "name \<noteq> ''type''"
      by blast
    then show ?thesis
    proof cases
      case 1
      with new show ?thesis unfolding step by (intro exI [of _ new]) simp
    next
      case (2 x)
      with new show ?thesis unfolding step by (intro exI [of _ "x # new"]) simp
    qed
  qed
qed

section \<open>Defaults\<close>

lemma SMBIOS_SET_DEFAULT_simps [simp]:
  "SMBIOS_SET_DEFAULT (Some f) v = Some f" "SMBIOS_SET_DEFAULT None v = v"
  by (simp_all add: SMBIOS_SET_DEFAULT_def)

lemma SMBIOS_SET_DEFAULT_absorb [simp]:
  "SMBIOS_SET_DEFAULT (SMBIOS_SET_DEFAULT f (Some v)) w = SMBIOS_SET_DEFAULT f (Some v)"
  by (simp add: SMBIOS_SET_DEFAULT_def split: option.split)

text \<open>
  The first set of defaults wins and user values win over defaults: once
  \<open>smbios_set_defaults\<close> has run with non-NULL arguments, running it again with any others
  changes nothing.
\<close>

theorem set_defaults_first_wins:
  "smbios_set_defaults m' p' v' (smbios_set_defaults (Some m) (Some p) (Some v) s) =
     smbios_set_defaults (Some m) (Some p) (Some v) s"
  by (simp add: smbios_set_defaults_def)

section \<open>Errors of the dispatcher\<close>

definition supported_types :: "nat set" where
  "supported_types = {0, 1, 2, 3, 4, 8, 9, 11, 17, 41}"

text \<open>
  The errors of \<open>type=N\<close> for every decimal N: above 127 the state is unchanged; a type
  without field support is refused, but only after its bit in the fields bitmap is set.
\<close>

theorem entry_add_type_errors:
  assumes "qemu_opt_get opts ''file'' = None"
    and "qemu_opt_get opts ''type'' = Some (dec_string n)" and "n \<le> ULONG_MAX"
    and "n \<le> SMBIOS_MAX_TYPE \<longrightarrow>
           n \<notin> supported_types \<and> \<not> bit (smbios_have_binfile_bitmap s) n"
  shows "smbios_entry_add h opts s =
    (if n > SMBIOS_MAX_TYPE then (s, Some Type_out_of_range)
     else (s\<lparr>smbios_have_fields_bitmap := set_bit n (smbios_have_fields_bitmap s)\<rparr>,
           Some (Unknown_type n)))"
  using assms
  by (cases "n = 0") (simp_all add: smbios_entry_add_def strtoul0_dec_string entry_add_fields_def
      supported_types_def SMBIOS_MAX_TYPE_def)

section \<open>Concrete options\<close>

text \<open>A host on which every file is six bytes of a type 127 structure.\<close>

definition sample_host :: smbios_host where
  "sample_host =
     \<lparr>get_image_size = (\<lambda>_. 6),
      load_image_size = (\<lambda>_ n. (int n, take n ([127, 4, 0, 0] @ replicate n 0))),
      host_open = (\<lambda>_. Some ([[65], [66, 67]], True)),
      qemu_uuid_parse = (\<lambda>_ u. (0, u)), qapi_enum_parse = (\<lambda>_ _ d. (d, False)),
      smbios_add_usr_blob_size = (\<lambda>n ns. ns @ [n])\<rparr>"

text \<open>Options given as a list of names and values, accepted if every name is described.\<close>

definition sample_opts :: "(string \<times> string) list \<Rightarrow> QemuOpts" where
  "sample_opts kvs =
     \<lparr>qemu_opt_get = map_of kvs, qemu_opt_get_bool = (\<lambda>_ d. d), qemu_opt_get_number = (\<lambda>_ d. d),
      qemu_opts_validate = (\<lambda>d. \<forall>(k, v) \<in> set kvs. Some k \<in> od_name ` set d),
      qemu_opt_list = kvs\<rparr>"

lemma sample_host_contract: "smbios_host_contract sample_host"
  by (simp add: smbios_host_contract_def sample_host_def)

lemma sample_opts_contract: "opts_validate_contract (sample_opts kvs)"
  by (auto simp: opts_validate_contract_def sample_opts_def desc_names_def dest!: map_of_SomeD)

definition file_state :: smbios where
  "file_state = fst (smbios_entry_add sample_host (sample_opts [(''file'', ''f'')]) smbios_init)"

lemma file_state_reach: "smbios_reach sample_host file_state"
  unfolding file_state_def by (intro smbios_reach.intros sample_opts_contract)

lemma file_state_bits:
  "smbios_have_binfile_bitmap file_state = set_bit 127 0" "usr_table_cnt file_state = 1"
  by (simp_all add: file_state_def smbios_entry_add_def entry_add_file_def sample_opts_def
      sample_host_def qemu_smbios_file_opts_def opt_desc_def image_size_def smbios_init_def
      sizeof_header_def decode_header_def SMBIOS_MAX_TYPE_def Let_def)

theorem binfile_fields_exclusive_witness:
  "bit (smbios_have_binfile_bitmap file_state) 127 \<and>
   \<not> (bit (smbios_have_binfile_bitmap file_state) 127 \<and>
      bit (smbios_have_fields_bitmap file_state) 127)"
  using binfile_fields_exclusive [OF file_state_reach, of 127]
  by (simp add: file_state_bits bit_set_bit_iff)

theorem usr_blob_accounting_witness:
  "usr_table_cnt file_state = 1 \<and>
   usr_blobs_len file_state = sum_list (usr_blobs_sizes file_state) \<and>
   usr_table_cnt file_state = length (usr_blobs_sizes file_state) \<and>
   usr_table_max file_state = foldl max 0 (usr_blobs_sizes file_state) \<and>
   usr_blobs_len file_state \<le> length (usr_blobs file_state)"
  using usr_blob_accounting [OF sample_host_contract file_state_reach] file_state_bits(2) by blast

text \<open>A slot given on the command line.\<close>

definition slot_state :: smbios where
  "slot_state = fst (smbios_entry_add sample_host
     (sample_opts [(''type'', dec_string 9), (''slot_designation'', ''PCIE1'')]) smbios_init)"

lemma slot_state_slots: "map i9_slot_designation (type9 slot_state) = [Some ''PCIE1'']"
  by (simp add: slot_state_def smbios_entry_add_def entry_add_fields_def entry_add_type9_def
      sample_opts_def qemu_smbios_type9_opts_def opt_desc_def strtoul0_dec_string ULONG_MAX_def
      SMBIOS_MAX_TYPE_def smbios_init_def save_opt_def Let_def)

theorem type9_never_has_pcidev_witness:
  "map i9_slot_designation (type9 slot_state) = [Some ''PCIE1''] \<and>
   map i9_pcidev (type9 slot_state) = [None]"
proof -
  have "smbios_reach sample_host slot_state"
    unfolding slot_state_def by (intro smbios_reach.intros sample_opts_contract)
  note none = type9_never_has_pcidev [OF this]
  obtain t where "type9 slot_state = [t]" using slot_state_slots by auto
  with none slot_state_slots show ?thesis by simp
qed

theorem oem_path_value_unterminated_witness:
  "save_opt_one sample_host ''path'' ''f'' [] = Inr [Some [65, 66, 67]] \<and>
   (\<exists>bufs. host_open sample_host ''f'' = Some (bufs, True) \<and>
      [Some [65, 66, 67]] = [] @ [Some (concat bufs)] \<and> 0 \<notin> set (concat bufs))"
proof -
  have run: "save_opt_one sample_host ''path'' ''f'' [] = Inr [Some [65, 66, 67]]"
    by (simp add: save_opt_one_def sample_host_def)
  from oem_path_value_unterminated [OF run] run show ?thesis by blast
qed

theorem save_opt_list_extends_witness:
  "snd (save_opt_list sample_host [(''type'', ''11''), (''value'', ''ab'')] []) = None \<and>
   (\<exists>new. fst (save_opt_list sample_host [(''type'', ''11''), (''value'', ''ab'')] []) = [] @ new \<and>
     length new = 1)"
proof -
  have ok: "snd (save_opt_list sample_host [(''type'', ''11''), (''value'', ''ab'')] []) = None"
    by (simp add: save_opt_one_def)
  with save_opt_list_extends [of sample_host "[(''type'', ''11''), (''value'', ''ab'')]" "[]"]
  show ?thesis by auto
qed

theorem entry_add_type_errors_witness:
  "smbios_entry_add sample_host (sample_opts [(''type'', dec_string 5)]) smbios_init =
    (if 5 > SMBIOS_MAX_TYPE then (smbios_init, Some Type_out_of_range)
     else (smbios_init\<lparr>smbios_have_fields_bitmap :=
             set_bit 5 (smbios_have_fields_bitmap smbios_init)\<rparr>, Some (Unknown_type 5)))"
  by (rule entry_add_type_errors)
    (simp_all add: sample_opts_def ULONG_MAX_def supported_types_def smbios_init_def)

end
