(* ===== verification/Smbios_Build.thy ===== *)
theory Smbios_Build
  imports Smbios_Options
begin

text \<open>
  The interface the table builders of \<open>smbios.c\<close> are written against. The macros
  \<open>SMBIOS_BUILD_TABLE_PRE\<close>, \<open>SMBIOS_TABLE_SET_STR\<close>, \<open>SMBIOS_TABLE_SET_STR_LIST\<close> and
  \<open>SMBIOS_BUILD_TABLE_POST\<close> come from \<open>smbios_build.h\<close>, which is not part of the repository:
  they are the parameter \<open>smbios_build\<close>, and \<open>smbios_build_contract\<close> says what the SMBIOS
  specification requires of them. \<open>smbios_skip_table\<close>, which the macros call, is modelled
  here, with the specification's view of a table (\<open>smbios_struct\<close>, \<open>struct_bytes\<close>).
\<close>

section \<open>Which tables are built\<close>

definition smbios_skip_table :: "'a smbios_config_scheme \<Rightarrow> u8 \<Rightarrow> bool \<Rightarrow> bool" where
  "smbios_skip_table s ty required_table =
     (if bit (smbios_have_binfile_bitmap s) (unat ty) then True
      else if bit (smbios_have_fields_bitmap s) (unat ty) then False
      else if smbios_have_defaults s \<and> required_table then False
      else True)"

section \<open>Structures as the SMBIOS specification sees them\<close>

text \<open>
  A structure is its formatted area and its strings. The string set follows the formatted
  area: each string with its NUL and one more NUL at the end, or two NULs if there is none.
\<close>

record smbios_struct =
  sfmt :: bytes
  sstrs :: "bytes list"

definition cstrings :: "bytes list \<Rightarrow> bytes" where
  "cstrings ss = concat (map (\<lambda>s. s @ [0]) ss)"

definition string_set :: "bytes list \<Rightarrow> bytes" where
  "string_set ss = (if ss = [] then [0, 0] else cstrings ss @ [0])"

definition struct_bytes :: "smbios_struct \<Rightarrow> bytes" where
  "struct_bytes x = sfmt x @ string_set (sstrs x)"

definition strs_wf :: "bytes list \<Rightarrow> bool" where
  "strs_wf ss \<longleftrightarrow> (\<forall>b \<in> set ss. b \<noteq> [] \<and> 0 \<notin> set b)"

definition struct_wf :: "smbios_struct \<Rightarrow> bool" where
  "struct_wf x \<longleftrightarrow>
     sizeof_header \<le> length (sfmt x) \<and>
     unat (hdr_length (decode_header (sfmt x))) = length (sfmt x) \<and> strs_wf (sstrs x)"

definition struct_type :: "smbios_struct \<Rightarrow> u8" where
  "struct_type x = hdr_type (decode_header (sfmt x))"

definition struct_handle :: "smbios_struct \<Rightarrow> u16" where
  "struct_handle x = hdr_handle (decode_header (sfmt x))"

text \<open>The string number \<open>i\<close> of a structure; 0 means "no string".\<close>

definition struct_string :: "smbios_struct \<Rightarrow> u8 \<Rightarrow> bytes option" where
  "struct_string x i =
     (if i = 0 \<or> length (sstrs x) < unat i then None else Some (sstrs x ! (unat i - 1)))"

section \<open>The macros\<close>

text \<open>The buffer under construction: bytes, length, largest structure, number of structures.\<close>

type_synonym tables = "bytes \<times> nat \<times> nat \<times> nat"

record smbios_build =
  SMBIOS_BUILD_TABLE_PRE ::
    "(u8 \<Rightarrow> bool \<Rightarrow> bool) \<Rightarrow> u8 \<Rightarrow> nat \<Rightarrow> bool \<Rightarrow> nat \<Rightarrow> smbios_structure_header option"
  SMBIOS_TABLE_SET_STR :: "string option \<Rightarrow> bytes list \<Rightarrow> u8 \<times> bytes list"
  SMBIOS_TABLE_SET_STR_LIST :: "bytes option \<Rightarrow> bytes list \<Rightarrow> bytes list"
  SMBIOS_BUILD_TABLE_POST :: "bytes \<Rightarrow> bytes list \<Rightarrow> tables \<Rightarrow> tables"
  smbios_build_unfinished :: "bytes \<Rightarrow> bytes list \<Rightarrow> tables \<Rightarrow> tables"

text \<open>
  What is relied on. \<open>PRE\<close> leaves the function exactly when \<open>smbios_skip_table\<close> says so and
  otherwise starts a structure with this header; \<open>SET_STR\<close> numbers a non-empty string and
  appends it, and gives number 0 to NULL or an empty one; \<open>SET_STR_LIST\<close> appends the string
  in a terminated, non-empty buffer; \<open>POST\<close> closes the structure and counts it; a function
  left before \<open>POST\<close> leaves the formatted area and the strings so far, uncounted.
\<close>

definition build_pre_contract :: "smbios_build \<Rightarrow> bool" where
  "build_pre_contract m \<longleftrightarrow>
     (\<forall>skip ty h req len. SMBIOS_BUILD_TABLE_PRE m skip ty h req len =
        (if skip ty req then None
         else Some \<lparr>hdr_type = ty, hdr_length = of_nat len, hdr_handle = of_nat h\<rparr>))"

definition build_str_contract :: "smbios_build \<Rightarrow> bool" where
  "build_str_contract m \<longleftrightarrow>
     (\<forall>ss. SMBIOS_TABLE_SET_STR m None ss = (0, ss)) \<and>
     (\<forall>ss. SMBIOS_TABLE_SET_STR m (Some []) ss = (0, ss)) \<and>
     (\<forall>v ss. v \<noteq> [] \<longrightarrow>
        SMBIOS_TABLE_SET_STR m (Some v) ss = (of_nat (length ss + 1), ss @ [str_bytes v])) \<and>
     (\<forall>b rest ss. b \<noteq> [] \<and> 0 \<notin> set b \<longrightarrow>
        SMBIOS_TABLE_SET_STR_LIST m (Some (b @ 0 # rest)) ss = ss @ [b])"

definition append_struct :: "smbios_struct \<Rightarrow> tables \<Rightarrow> tables" where
  "append_struct x tabs =
     (case tabs of (buf, len, mx, cnt) \<Rightarrow>
        (buf @ struct_bytes x, len + length (struct_bytes x),
         max mx (length (struct_bytes x)), cnt + 1))"

definition build_post_contract :: "smbios_build \<Rightarrow> bool" where
  "build_post_contract m \<longleftrightarrow>
     (\<forall>fmt ss tabs. SMBIOS_BUILD_TABLE_POST m fmt ss tabs =
        append_struct \<lparr>sfmt = fmt, sstrs = ss\<rparr> tabs) \<and>
     (\<forall>fmt ss buf len mx cnt. smbios_build_unfinished m fmt ss (buf, len, mx, cnt) =
        (buf @ fmt @ cstrings ss, len + length (fmt @ cstrings ss), mx, cnt))"

definition smbios_build_contract :: "smbios_build \<Rightarrow> bool" where
  "smbios_build_contract m \<longleftrightarrow>
     build_pre_contract m \<and> build_str_contract m \<and> build_post_contract m"

text \<open>A concrete set of macros with this behaviour, for evaluating the model.\<close>

definition until_nul :: "bytes \<Rightarrow> bytes" where
  "until_nul b = takeWhile (\<lambda>c. c \<noteq> 0) b"

definition smbios_build_sample :: smbios_build where
  "smbios_build_sample =
     \<lparr>SMBIOS_BUILD_TABLE_PRE = (\<lambda>skip ty h req len.
        if skip ty req then None
        else Some \<lparr>hdr_type = ty, hdr_length = of_nat len, hdr_handle = of_nat h\<rparr>),
      SMBIOS_TABLE_SET_STR = (\<lambda>v ss. case v of
          None \<Rightarrow> (0, ss)
        | Some s \<Rightarrow> if s = [] then (0, ss) else (of_nat (length ss + 1), ss @ [str_bytes s])),
      SMBIOS_TABLE_SET_STR_LIST = (\<lambda>v ss. case v of
          None \<Rightarrow> ss | Some b \<Rightarrow> ss @ [until_nul b]),
      SMBIOS_BUILD_TABLE_POST = (\<lambda>fmt ss. append_struct \<lparr>sfmt = fmt, sstrs = ss\<rparr>),
      smbios_build_unfinished = (\<lambda>fmt ss (buf, len, mx, cnt).
        (buf @ fmt @ cstrings ss, len + length (fmt @ cstrings ss), mx, cnt))\<rparr>"

lemma until_nul_append: "0 \<notin> set b \<Longrightarrow> until_nul (b @ 0 # rest) = b"
  unfolding until_nul_def by (subst takeWhile_append2) auto

lemma smbios_build_sample_contract: "smbios_build_contract smbios_build_sample"
  by (simp add: smbios_build_contract_def build_pre_contract_def build_str_contract_def
      build_post_contract_def smbios_build_sample_def until_nul_append)

section \<open>Opening and closing a table\<close>

definition smbios_tables_of :: "smbios \<Rightarrow> tables" where
  "smbios_tables_of s =
     (smbios_tables s, smbios_tables_len s, smbios_table_max s, smbios_table_cnt s)"

definition set_tables :: "tables \<Rightarrow> smbios \<Rightarrow> smbios" where
  "set_tables tabs s =
     (case tabs of (buf, len, mx, cnt) \<Rightarrow>
        s\<lparr>smbios_tables := buf, smbios_tables_len := len, smbios_table_max := mx,
          smbios_table_cnt := cnt\<rparr>)"

text \<open>
  A builder without an early return: \<open>PRE\<close>, the assignments (from the header to the
  formatted area and the strings), \<open>POST\<close>.
\<close>

definition build_table ::
  "smbios_build \<Rightarrow> u8 \<Rightarrow> nat \<Rightarrow> bool \<Rightarrow> nat \<Rightarrow>
   (smbios_structure_header \<Rightarrow> bytes \<times> bytes list) \<Rightarrow> smbios \<Rightarrow> smbios" where
  "build_table m ty handle required len body s =
     (case SMBIOS_BUILD_TABLE_PRE m (smbios_skip_table s) ty handle required len of
        None \<Rightarrow> s
      | Some hdr \<Rightarrow>
          (case body hdr of (fmt, strs) \<Rightarrow>
             set_tables (SMBIOS_BUILD_TABLE_POST m fmt strs (smbios_tables_of s)) s))"

text \<open>The same with an assertion between \<open>PRE\<close> and \<open>POST\<close>.\<close>

definition build_table_assert ::
  "smbios_build \<Rightarrow> u8 \<Rightarrow> nat \<Rightarrow> bool \<Rightarrow> nat \<Rightarrow> bool \<Rightarrow>
   (smbios_structure_header \<Rightarrow> bytes \<times> bytes list) \<Rightarrow> smbios \<Rightarrow> crash + smbios" where
  "build_table_assert m ty handle required len ok body s =
     (case SMBIOS_BUILD_TABLE_PRE m (smbios_skip_table s) ty handle required len of
        None \<Rightarrow> Inr s
      | Some hdr \<Rightarrow>
          if \<not> ok then Inl Assert_failed
          else (case body hdr of (fmt, strs) \<Rightarrow>
             Inr (set_tables (SMBIOS_BUILD_TABLE_POST m fmt strs (smbios_tables_of s)) s)))"

section \<open>Lemmas\<close>

lemma smbios_tables_of_set [simp]: "smbios_tables_of (set_tables tabs s) = tabs"
  by (simp add: smbios_tables_of_def set_tables_def split: prod.split)

lemma set_tables_set [simp]: "set_tables t (set_tables u s) = set_tables t s"
  by (simp add: set_tables_def split: prod.split)

lemma set_tables_same [simp]: "set_tables (smbios_tables_of s) s = s"
  by (simp add: smbios_tables_of_def set_tables_def)

lemma config_set_tables [simp, frame_simps]:
  "smbios_config.truncate (set_tables tabs s) = smbios_config.truncate s"
  by (simp add: set_tables_def smbios_config.defs split: prod.split)

text \<open>The contract as equations.\<close>

definition opt_strs :: "string option \<Rightarrow> bytes list" where
  "opt_strs v = (case v of None \<Rightarrow> [] | Some s \<Rightarrow> if s = [] then [] else [str_bytes s])"

definition str_ix :: "string option \<Rightarrow> bytes list \<Rightarrow> u8" where
  "str_ix v ss = (if opt_strs v = [] then 0 else of_nat (length ss + 1))"

lemma opt_strs_simps [simp]:
  "opt_strs None = []" "opt_strs (Some s) = (if s = [] then [] else [str_bytes s])"
  by (simp_all add: opt_strs_def)

lemma opt_strs_wf:
  assumes "opt_nul_free v" and "b \<in> set (opt_strs v)"
  shows "b \<noteq> [] \<and> 0 \<notin> set b"
  using assms by (cases v) (auto simp: zero_in_str_bytes split: if_splits)

lemma strs_wf_simps [simp]:
  "strs_wf []" "strs_wf (xs @ ys) \<longleftrightarrow> strs_wf xs \<and> strs_wf ys"
  "strs_wf (b # ys) \<longleftrightarrow> b \<noteq> [] \<and> 0 \<notin> set b \<and> strs_wf ys"
  by (auto simp: strs_wf_def)

lemma strs_wf_opt_strs [simp]: "opt_nul_free v \<Longrightarrow> strs_wf (opt_strs v)"
  using opt_strs_wf by (auto simp: strs_wf_def)

lemma length_opt_strs: "length (opt_strs v) \<le> 1"
  by (cases v) auto

lemma build_contract_simps:
  assumes "smbios_build_contract m"
  shows "SMBIOS_BUILD_TABLE_PRE m skip ty h req len =
      (if skip ty req then None
       else Some \<lparr>hdr_type = ty, hdr_length = of_nat len, hdr_handle = of_nat h\<rparr>)"
    and "SMBIOS_TABLE_SET_STR m v ss = (str_ix v ss, ss @ opt_strs v)"
    and "b \<noteq> [] \<Longrightarrow> 0 \<notin> set b \<Longrightarrow> SMBIOS_TABLE_SET_STR_LIST m (Some (b @ 0 # rest)) ss = ss @ [b]"
    and "SMBIOS_BUILD_TABLE_POST m fmt ss tabs = append_struct \<lparr>sfmt = fmt, sstrs = ss\<rparr> tabs"
proof -
  have pre: "build_pre_contract m" and str: "build_str_contract m" and post: "build_post_contract m"
    using assms by (simp_all add: smbios_build_contract_def)
  from pre show "SMBIOS_BUILD_TABLE_PRE m skip ty h req len =
      (if skip ty req then None
       else Some \<lparr>hdr_type = ty, hdr_length = of_nat len, hdr_handle = of_nat h\<rparr>)"
    unfolding build_pre_contract_def by blast
  from str show "SMBIOS_TABLE_SET_STR m v ss = (str_ix v ss, ss @ opt_strs v)"
    by (cases v) (auto simp: build_str_contract_def str_ix_def)
  from str show "b \<noteq> [] \<Longrightarrow> 0 \<notin> set b \<Longrightarrow>
      SMBIOS_TABLE_SET_STR_LIST m (Some (b @ 0 # rest)) ss = ss @ [b]"
    by (simp add: build_str_contract_def)
  from post show "SMBIOS_BUILD_TABLE_POST m fmt ss tabs =
      append_struct \<lparr>sfmt = fmt, sstrs = ss\<rparr> tabs"
    unfolding build_post_contract_def by blast
qed

section \<open>Builders append structures\<close>

text \<open>
  What every builder does to the state: it keeps the configuration and appends well-formed
  structures to the tables under construction.
\<close>

definition appends :: "smbios \<Rightarrow> smbios \<Rightarrow> smbios_struct list \<Rightarrow> bool" where
  "appends s s' xs \<longleftrightarrow>
     smbios_config.truncate s' = smbios_config.truncate s \<and>
     smbios_tables_of s' = fold append_struct xs (smbios_tables_of s) \<and>
     (\<forall>x \<in> set xs. struct_wf x)"

lemma appends_refl: "appends s s []"
  by (simp add: appends_def)

lemma appends_trans: "appends s t xs \<Longrightarrow> appends t u ys \<Longrightarrow> appends s u (xs @ ys)"
  by (auto simp: appends_def)

lemma skip_truncate [simp]:
  "smbios_skip_table (smbios_config.truncate s) = smbios_skip_table s"
  by (simp add: smbios_skip_table_def smbios_config.defs fun_eq_iff)

text \<open>Equal configurations agree on every configured field.\<close>

lemma config_eqD:
  assumes "smbios_config.truncate s' = smbios_config.truncate s"
  shows "smbios_skip_table s' = smbios_skip_table s"
    "smbios_type0 s' = smbios_type0 s" "smbios_type1 s' = smbios_type1 s"
    "type2 s' = type2 s" "type3 s' = type3 s" "type4 s' = type4 s" "type8 s' = type8 s"
    "type9 s' = type9 s" "type17 s' = type17 s" "type41 s' = type41 s"
    "qemu_uuid s' = qemu_uuid s" "qemu_uuid_set s' = qemu_uuid_set s"
    "smbios_cpuid_version s' = smbios_cpuid_version s"
    "smbios_cpuid_features s' = smbios_cpuid_features s"
  using assms by (simp_all add: smbios_config.defs smbios_skip_table_def fun_eq_iff)

text \<open>The header of a new structure and the structure a body yields.\<close>

definition new_header :: "u8 \<Rightarrow> nat \<Rightarrow> nat \<Rightarrow> smbios_structure_header" where
  "new_header ty h len = \<lparr>hdr_type = ty, hdr_length = of_nat len, hdr_handle = of_nat h\<rparr>"

definition struct_of :: "bytes \<times> bytes list \<Rightarrow> smbios_struct" where
  "struct_of p = \<lparr>sfmt = fst p, sstrs = snd p\<rparr>"

definition body_wf :: "smbios_structure_header \<Rightarrow> nat \<Rightarrow> bytes \<times> bytes list \<Rightarrow> bool" where
  "body_wf hdr len p \<longleftrightarrow>
     length (fst p) = len \<and> take 4 (fst p) = encode_header hdr \<and> strs_wf (snd p)"

lemma decode_header_take:
  assumes "take 4 bs = encode_header h"
  shows "decode_header bs = h"
proof -
  have "bs = encode_header h @ drop 4 bs"
    using assms by (metis append_take_drop_id)
  then show ?thesis by (metis decode_encode_header)
qed

lemma body_wf_struct:
  assumes "body_wf (new_header ty h len) len p" and "4 \<le> len" and "len < 256"
  shows "struct_wf (struct_of p)" and "struct_type (struct_of p) = ty"
    and "struct_handle (struct_of p) = of_nat h"
proof -
  have "decode_header (fst p) = new_header ty h len"
    using assms(1) by (simp add: body_wf_def decode_header_take)
  then show "struct_wf (struct_of p)" "struct_type (struct_of p) = ty"
    "struct_handle (struct_of p) = of_nat h"
    using assms
    by (simp_all add: struct_wf_def struct_of_def body_wf_def new_header_def struct_type_def
        struct_handle_def unat_of_nat sizeof_header_def)
qed

definition built :: "smbios \<Rightarrow> u8 \<Rightarrow> nat \<Rightarrow> bool \<Rightarrow> nat \<Rightarrow>
   (smbios_structure_header \<Rightarrow> bytes \<times> bytes list) \<Rightarrow> smbios_struct list" where
  "built s ty h req len body =
     (if smbios_skip_table s ty req then [] else [struct_of (body (new_header ty h len))])"

lemma build_table_appends:
  assumes "smbios_build_contract m" and "body_wf (new_header ty h len) len (body (new_header ty h len))"
    and "4 \<le> len" and "len < 256"
  shows "appends s (build_table m ty h req len body s) (built s ty h req len body)"
proof (cases "smbios_skip_table s ty req")
  case True
  then show ?thesis
    using assms(1) by (simp add: build_table_def built_def build_contract_simps appends_refl)
next
  case False
  then have "build_table m ty h req len body s =
      set_tables (append_struct (struct_of (body (new_header ty h len))) (smbios_tables_of s)) s"
    using assms(1)
    by (simp add: build_table_def build_contract_simps new_header_def struct_of_def split: prod.split)
  with False show ?thesis
    using body_wf_struct(1) [OF assms(2-4)] by (simp add: built_def appends_def)
qed

lemma build_table_assert_eq:
  assumes "smbios_build_contract m"
  shows "build_table_assert m ty h req len ok body s =
    (if \<not> smbios_skip_table s ty req \<and> \<not> ok then Inl Assert_failed
     else Inr (build_table m ty h req len body s))"
  using assms
  by (simp add: build_table_assert_def build_table_def build_contract_simps split: prod.split)

end
