(* ===== verification/Smbios_Tables.thy ===== *)
theory Smbios_Tables
  imports Smbios_Build
begin

text \<open>
  The table builders \<open>smbios_build_type_N_table\<close> of \<open>smbios.c\<close> for N = 0, 1, 2 and 3, and
  the handles and limits of all tables (the other builders are in \<open>Smbios_Tables_Hw\<close> and
  \<open>Smbios_Tables_Misc\<close>). A builder has the fresh memory of its structure as a parameter (\<open>raw\<close>): the
  allocator does not clear it, so a member the code never assigns keeps it. \<open>type_N_fields\<close>
  is the code between \<open>PRE\<close> and \<open>POST\<close>, statement by statement.
\<close>

section \<open>Handles and limits\<close>

definition T0_BASE :: nat where "T0_BASE = 0x000"
definition T1_BASE :: nat where "T1_BASE = 0x100"
definition T2_BASE :: nat where "T2_BASE = 0x200"
definition T3_BASE :: nat where "T3_BASE = 0x300"
definition T4_BASE :: nat where "T4_BASE = 0x400"
definition T7_BASE :: nat where "T7_BASE = 0x700"
definition T9_BASE :: nat where "T9_BASE = 0x900"
definition T11_BASE :: nat where "T11_BASE = 0xe00"
definition T16_BASE :: nat where "T16_BASE = 0x1000"
definition T17_BASE :: nat where "T17_BASE = 0x1100"
definition T19_BASE :: nat where "T19_BASE = 0x1300"
definition T20_BASE :: nat where "T20_BASE = 0x1400"
definition T22_BASE :: nat where "T22_BASE = 0x1600"
definition T26_BASE :: nat where "T26_BASE = 0x1A00"
definition T27_BASE :: nat where "T27_BASE = 0x1B00"
definition T28_BASE :: nat where "T28_BASE = 0x1C00"
definition T29_BASE :: nat where "T29_BASE = 0x1D00"
definition T32_BASE :: nat where "T32_BASE = 0x2000"
definition T37_BASE :: nat where "T37_BASE = 0x2500"
definition T39_BASE :: nat where "T39_BASE = 0x2700"
definition T41_BASE :: nat where "T41_BASE = 0x2900"
definition T127_BASE :: nat where "T127_BASE = 0x7F00"

lemmas base_defs =
  T0_BASE_def T1_BASE_def T2_BASE_def T3_BASE_def T4_BASE_def T7_BASE_def T9_BASE_def
  T11_BASE_def T16_BASE_def T17_BASE_def T19_BASE_def T20_BASE_def T22_BASE_def T26_BASE_def
  T27_BASE_def T28_BASE_def T29_BASE_def T32_BASE_def T37_BASE_def T39_BASE_def T41_BASE_def
  T127_BASE_def

definition KiB :: u64 where "KiB = 1024"
definition MiB :: u64 where "MiB = 1048576"
definition UINT32_MAX :: u64 where "UINT32_MAX = 0xffffffff"
definition MAX_T16_STD_SZ :: u64 where "MAX_T16_STD_SZ = 0x80000000"
definition MAX_T17_STD_SZ :: u64 where "MAX_T17_STD_SZ = 0x7FFF"
definition MAX_T17_EXT_SZ :: u64 where "MAX_T17_EXT_SZ = 0x80000000"

text \<open>\<open>cpu_to_leN\<close> of a wider value: the low N bits.\<close>

abbreviation to_le16 :: "u64 \<Rightarrow> u16" where "to_le16 \<equiv> ucast"
abbreviation to_le32 :: "u64 \<Rightarrow> u32" where "to_le32 \<equiv> ucast"

section \<open>Type 0: BIOS information\<close>

definition type_0_fields ::
  "smbios_build \<Rightarrow> smbios_type_0 \<Rightarrow> smbios \<Rightarrow> smbios_structure_header \<Rightarrow> bytes \<times> bytes list" where
  "type_0_fields m raw s hdr =
     (let t = raw\<lparr>t0_header := hdr\<rparr>;
          (i, ss) = SMBIOS_TABLE_SET_STR m (c0_vendor (smbios_type0 s)) [];
          t = t\<lparr>t0_vendor_str := i\<rparr>;
          (i, ss) = SMBIOS_TABLE_SET_STR m (c0_version (smbios_type0 s)) ss;
          t = t\<lparr>t0_bios_version_str := i\<rparr>;
          t = t\<lparr>t0_bios_starting_address_segment := 0xE800\<rparr>;
          (i, ss) = SMBIOS_TABLE_SET_STR m (c0_date (smbios_type0 s)) ss;
          t = t\<lparr>t0_bios_release_date_str := i\<rparr>;
          t = t\<lparr>t0_bios_rom_size := 0,
                t0_bios_characteristics := 0x08,
                t0_bios_characteristics_extension_bytes0 := 0xEF,
                t0_bios_characteristics_extension_bytes1 := 0x0F\<rparr>;
          t = (if c0_uefi (smbios_type0 s)
               then t\<lparr>t0_bios_characteristics_extension_bytes1 :=
                       t0_bios_characteristics_extension_bytes1 t OR 0x08\<rparr>
               else t);
          t = (if c0_have_major_minor (smbios_type0 s)
               then t\<lparr>t0_system_bios_major_release := c0_major (smbios_type0 s),
                      t0_system_bios_minor_release := c0_minor (smbios_type0 s)\<rparr>
               else t\<lparr>t0_system_bios_major_release := 0,
                      t0_system_bios_minor_release := 0\<rparr>);
          t = t\<lparr>t0_embedded_controller_major_release := 0xFF,
                t0_embedded_controller_minor_release := 0xFF\<rparr>
      in (encode_type_0 t, ss))"

definition smbios_build_type_0_table :: "smbios_build \<Rightarrow> smbios_type_0 \<Rightarrow> smbios \<Rightarrow> smbios" where
  "smbios_build_type_0_table m raw s =
     build_table m 0 T0_BASE False (length (encode_type_0 raw)) (type_0_fields m raw s) s"

section \<open>Type 1: system information\<close>

definition bswap16 :: "u16 \<Rightarrow> u16" where
  "bswap16 w = le_word (rev (le_bytes 2 w))"

definition bswap32 :: "u32 \<Rightarrow> u32" where
  "bswap32 w = le_word (rev (le_bytes 4 w))"

text \<open>\<open>memcpy (uuid, in, 16)\<close>: the sixteen bytes read at the members' offsets.\<close>

definition memcpy_uuid :: "bytes \<Rightarrow> smbios_uuid" where
  "memcpy_uuid bs =
     \<lparr>time_low = le_word (take 4 bs), time_mid = le_word (take 2 (drop 4 bs)),
      time_hi_and_version = le_word (take 2 (drop 6 bs)),
      clock_seq_hi_and_reserved = le_word (take 1 (drop 8 bs)),
      clock_seq_low = le_word (take 1 (drop 9 bs)), node = le_word (take 6 (drop 10 bs))\<rparr>"

definition smbios_encode_uuid :: "bytes \<Rightarrow> smbios_uuid" where
  "smbios_encode_uuid uuid_in =
     (let uuid = memcpy_uuid uuid_in in
      uuid\<lparr>time_low := bswap32 (time_low uuid), time_mid := bswap16 (time_mid uuid),
           time_hi_and_version := bswap16 (time_hi_and_version uuid)\<rparr>)"

definition zero_uuid :: smbios_uuid where
  "zero_uuid = memcpy_uuid (replicate 16 0)"

definition type_1_fields ::
  "smbios_build \<Rightarrow> smbios_type_1 \<Rightarrow> smbios \<Rightarrow> smbios_structure_header \<Rightarrow> bytes \<times> bytes list" where
  "type_1_fields m raw s hdr =
     (let t = raw\<lparr>t1_header := hdr\<rparr>;
          (i, ss) = SMBIOS_TABLE_SET_STR m (c1_manufacturer (smbios_type1 s)) [];
          t = t\<lparr>t1_manufacturer_str := i\<rparr>;
          (i, ss) = SMBIOS_TABLE_SET_STR m (c1_product (smbios_type1 s)) ss;
          t = t\<lparr>t1_product_name_str := i\<rparr>;
          (i, ss) = SMBIOS_TABLE_SET_STR m (c1_version (smbios_type1 s)) ss;
          t = t\<lparr>t1_version_str := i\<rparr>;
          (i, ss) = SMBIOS_TABLE_SET_STR m (c1_serial (smbios_type1 s)) ss;
          t = t\<lparr>t1_serial_number_str := i\<rparr>;
          t = (if qemu_uuid_set s then t\<lparr>t1_uuid := smbios_encode_uuid (qemu_uuid s)\<rparr>
               else t\<lparr>t1_uuid := zero_uuid\<rparr>);
          t = t\<lparr>t1_wake_up_type := 0x06\<rparr>;
          (i, ss) = SMBIOS_TABLE_SET_STR m (c1_sku (smbios_type1 s)) ss;
          t = t\<lparr>t1_sku_number_str := i\<rparr>;
          (i, ss) = SMBIOS_TABLE_SET_STR m (c1_family (smbios_type1 s)) ss;
          t = t\<lparr>t1_family_str := i\<rparr>
      in (encode_type_1 t, ss))"

definition smbios_build_type_1_table :: "smbios_build \<Rightarrow> smbios_type_1 \<Rightarrow> smbios \<Rightarrow> smbios" where
  "smbios_build_type_1_table m raw s =
     build_table m 1 T1_BASE True (length (encode_type_1 raw)) (type_1_fields m raw s) s"

section \<open>Type 2: base board\<close>

definition type_2_fields ::
  "smbios_build \<Rightarrow> smbios_type_2 \<Rightarrow> smbios \<Rightarrow> smbios_structure_header \<Rightarrow> bytes \<times> bytes list" where
  "type_2_fields m raw s hdr =
     (let t = raw\<lparr>t2_header := hdr\<rparr>;
          (i, ss) = SMBIOS_TABLE_SET_STR m (c2_manufacturer (type2 s)) [];
          t = t\<lparr>t2_manufacturer_str := i\<rparr>;
          (i, ss) = SMBIOS_TABLE_SET_STR m (c2_product (type2 s)) ss;
          t = t\<lparr>t2_product_str := i\<rparr>;
          (i, ss) = SMBIOS_TABLE_SET_STR m (c2_version (type2 s)) ss;
          t = t\<lparr>t2_version_str := i\<rparr>;
          (i, ss) = SMBIOS_TABLE_SET_STR m (c2_serial (type2 s)) ss;
          t = t\<lparr>t2_serial_number_str := i\<rparr>;
          (i, ss) = SMBIOS_TABLE_SET_STR m (c2_asset (type2 s)) ss;
          t = t\<lparr>t2_asset_tag_number_str := i\<rparr>;
          t = t\<lparr>t2_feature_flags := 0x01\<rparr>;
          (i, ss) = SMBIOS_TABLE_SET_STR m (c2_location (type2 s)) ss;
          t = t\<lparr>t2_location_str := i\<rparr>;
          t = t\<lparr>t2_chassis_handle := 0x300, t2_board_type := 0x0A,
                t2_contained_element_count := 0\<rparr>
      in (encode_type_2 t, ss))"

definition smbios_build_type_2_table :: "smbios_build \<Rightarrow> smbios_type_2 \<Rightarrow> smbios \<Rightarrow> smbios" where
  "smbios_build_type_2_table m raw s =
     build_table m 2 T2_BASE True (length (encode_type_2 raw)) (type_2_fields m raw s) s"

section \<open>Type 3: system enclosure\<close>

definition type_3_fields ::
  "smbios_build \<Rightarrow> smbios_type_3 \<Rightarrow> smbios \<Rightarrow> smbios_structure_header \<Rightarrow> bytes \<times> bytes list" where
  "type_3_fields m raw s hdr =
     (let t = raw\<lparr>t3_header := hdr\<rparr>;
          (i, ss) = SMBIOS_TABLE_SET_STR m (c3_manufacturer (type3 s)) [];
          t = t\<lparr>t3_manufacturer_str := i\<rparr>;
          t = t\<lparr>t3_type := 0x03\<rparr>;
          (i, ss) = SMBIOS_TABLE_SET_STR m (c3_version (type3 s)) ss;
          t = t\<lparr>t3_version_str := i\<rparr>;
          (i, ss) = SMBIOS_TABLE_SET_STR m (c3_serial (type3 s)) ss;
          t = t\<lparr>t3_serial_number_str := i\<rparr>;
          (i, ss) = SMBIOS_TABLE_SET_STR m (c3_asset (type3 s)) ss;
          t = t\<lparr>t3_asset_tag_number_str := i\<rparr>;
          t = t\<lparr>t3_boot_up_state := 0x03, t3_power_supply_state := 0x03,
                t3_thermal_state := 0x03, t3_security_status := 0x02, t3_oem_defined := 0,
                t3_height := 0, t3_number_of_power_cords := 0,
                t3_contained_element_count := 0, t3_contained_element_record_length := 0\<rparr>;
          (i, ss) = SMBIOS_TABLE_SET_STR m (c3_sku (type3 s)) ss;
          t = t\<lparr>t3_sku_number_str := i\<rparr>
      in (encode_type_3 t, ss))"

definition smbios_build_type_3_table :: "smbios_build \<Rightarrow> smbios_type_3 \<Rightarrow> smbios \<Rightarrow> smbios" where
  "smbios_build_type_3_table m raw s =
     build_table m 3 T3_BASE True (length (encode_type_3 raw)) (type_3_fields m raw s) s"

section \<open>Shapes\<close>

text \<open>The strings of a configuration are C strings.\<close>

definition strings_ok :: "'a smbios_config_scheme \<Rightarrow> bool" where
  "strings_ok s \<longleftrightarrow>
     (\<forall>v \<in> {c0_vendor (smbios_type0 s), c0_version (smbios_type0 s), c0_date (smbios_type0 s),
        c1_manufacturer (smbios_type1 s), c1_product (smbios_type1 s), c1_version (smbios_type1 s),
        c1_serial (smbios_type1 s), c1_sku (smbios_type1 s), c1_family (smbios_type1 s),
        c2_manufacturer (type2 s), c2_product (type2 s), c2_version (type2 s), c2_serial (type2 s),
        c2_asset (type2 s), c2_location (type2 s),
        c3_manufacturer (type3 s), c3_version (type3 s), c3_serial (type3 s), c3_asset (type3 s),
        c3_sku (type3 s), c4_manufacturer (type4 s), c4_version (type4 s), c17_serial (type17 s),
        c17_asset (type17 s)}. opt_nul_free v) \<and>
     (\<forall>t \<in> set (type9 s). opt_nul_free (i9_slot_designation t)) \<and>
     (\<forall>t \<in> set (type41 s). opt_nul_free (i41_designation t))"

lemma strings_ok_truncate [simp]: "strings_ok (smbios_config.truncate s) = strings_ok s"
  by (simp add: strings_ok_def smbios_config.defs)

lemma strings_ok_cong:
  assumes "smbios_config.truncate s' = smbios_config.truncate s"
  shows "strings_ok s' = strings_ok s"
  using assms by (metis strings_ok_truncate)

lemma type_0_fields_wf:
  assumes "smbios_build_contract m" and "strings_ok s"
  shows "body_wf hdr 24 (type_0_fields m raw s hdr)"
  using assms
  by (simp add: type_0_fields_def build_contract_simps body_wf_def take_header_encode
      strings_ok_def Let_def)

lemma type_1_fields_wf:
  assumes "smbios_build_contract m" and "strings_ok s"
  shows "body_wf hdr 27 (type_1_fields m raw s hdr)"
  using assms
  by (simp add: type_1_fields_def build_contract_simps body_wf_def take_header_encode
      strings_ok_def Let_def)

lemma type_2_fields_wf:
  assumes "smbios_build_contract m" and "strings_ok s"
  shows "body_wf hdr 15 (type_2_fields m raw s hdr)"
  using assms
  by (simp add: type_2_fields_def build_contract_simps body_wf_def take_header_encode
      strings_ok_def Let_def)

lemma type_3_fields_wf:
  assumes "smbios_build_contract m" and "strings_ok s"
  shows "body_wf hdr 22 (type_3_fields m raw s hdr)"
  using assms
  by (simp add: type_3_fields_def build_contract_simps body_wf_def take_header_encode
      strings_ok_def Let_def)

end
