(* ===== verification/Smbios_Tables_Hw.thy ===== *)
theory Smbios_Tables_Hw
  imports Smbios_Tables
begin

text \<open>
  The builders of the processor, cache and memory tables of \<open>smbios.c\<close>: types 4, 7, 16, 17,
  19 and 20. The machine (\<open>MachineState\<close>, its class and \<open>current_machine\<close>) is the record
  \<open>machine\<close>; the emulator's \<open>QEMU_ALIGN_UP\<close> is a parameter.
\<close>

section \<open>The machine\<close>

record machine =
  smp_sockets :: nat
  threads_per_socket :: u32
  cores_per_socket :: u32
  ram_size :: u64
  smbios_memory_device_size :: u64

datatype SmbiosEntryPointType =
    SMBIOS_ENTRY_POINT_TYPE_32 | SMBIOS_ENTRY_POINT_TYPE_64 | SMBIOS_ENTRY_POINT_TYPE_AUTO

type_synonym align_up = "u64 \<Rightarrow> u64 \<Rightarrow> u64"

text \<open>
  \<open>QEMU_ALIGN_UP n a\<close> is the least multiple of \<open>a\<close> that is at least \<open>n\<close>, where it fits.
\<close>

definition align_up_contract :: "align_up \<Rightarrow> bool" where
  "align_up_contract al \<longleftrightarrow>
     (\<forall>n a. 0 < a \<and> unat n + unat a \<le> 2 ^ 64 \<longrightarrow>
        unat (al n a) = (unat n + unat a - 1) div unat a * unat a)"

definition align_up_sample :: align_up where
  "align_up_sample n a = (n + a - 1) div a * a"

section \<open>Type 4: processor\<close>

definition type_4_len :: "SmbiosEntryPointType \<Rightarrow> nat" where
  "type_4_len ep_type =
     (if ep_type = SMBIOS_ENTRY_POINT_TYPE_64 then SMBIOS_TYPE_4_LEN_V30 else SMBIOS_TYPE_4_LEN_V28)"

text \<open>The fields up to the 3.0 extension, which only the long form of the table has.\<close>

definition type_4_fields ::
  "smbios_build \<Rightarrow> machine \<Rightarrow> smbios_type_4 \<Rightarrow> smbios \<Rightarrow> smbios_structure_header \<Rightarrow>
   smbios_type_4 \<times> bytes list" where
  "type_4_fields m ms raw s hdr =
     (let t = raw\<lparr>t4_header := hdr\<rparr>;
          (i, ss) = SMBIOS_TABLE_SET_STR m (Some ''LGA1700'') [];
          t = t\<lparr>t4_socket_designation_str := i\<rparr>;
          t = t\<lparr>t4_processor_type := 0x03, t4_processor_family := 0x01\<rparr>;
          (i, ss) = SMBIOS_TABLE_SET_STR m (c4_manufacturer (type4 s)) ss;
          t = t\<lparr>t4_processor_manufacturer_str := i\<rparr>;
          t = (if c4_processor_id (type4 s) = 0
               then t\<lparr>t4_processor_id0 := smbios_cpuid_version s,
                      t4_processor_id1 := smbios_cpuid_features s\<rparr>
               else t\<lparr>t4_processor_id0 := to_le32 (c4_processor_id (type4 s)),
                      t4_processor_id1 := to_le32 (drop_bit 32 (c4_processor_id (type4 s)))\<rparr>);
          (i, ss) = SMBIOS_TABLE_SET_STR m (c4_version (type4 s)) ss;
          t = t\<lparr>t4_processor_version_str := i\<rparr>;
          t = t\<lparr>t4_voltage := 0x8B, t4_external_clock := 0x64, t4_max_speed := 6500,
                t4_current_speed := to_le16 (c4_current_speed (type4 s)),
                t4_status := 0x41, t4_processor_upgrade := 0x01,
                t4_l1_cache_handle := 0xFF, t4_l2_cache_handle := 0xFF,
                t4_l3_cache_handle := 0xFF\<rparr>;
          (i, ss) = SMBIOS_TABLE_SET_STR m (Some ''To Be Filled By O.E.M.'') ss;
          t = t\<lparr>t4_serial_number_str := i\<rparr>;
          (i, ss) = SMBIOS_TABLE_SET_STR m (Some ''To Be Filled By O.E.M.'') ss;
          t = t\<lparr>t4_asset_tag_number_str := i\<rparr>;
          (i, ss) = SMBIOS_TABLE_SET_STR m (Some ''To Be Filled By O.E.M.'') ss;
          t = t\<lparr>t4_part_number_str := i\<rparr>;
          t = t\<lparr>t4_core_count :=
                  (if cores_per_socket ms > 255 then 0xFF else ucast (cores_per_socket ms))\<rparr>;
          t = t\<lparr>t4_core_enabled := t4_core_count t\<rparr>;
          t = t\<lparr>t4_thread_count :=
                  (if threads_per_socket ms > 255 then 0xFF else ucast (threads_per_socket ms))\<rparr>;
          t = t\<lparr>t4_processor_characteristics := 0xFC, t4_processor_family2 := 0x01\<rparr>
      in (t, ss))"

definition smbios_build_type_4_table ::
  "smbios_build \<Rightarrow> machine \<Rightarrow> smbios_type_4 \<Rightarrow> nat \<Rightarrow> SmbiosEntryPointType \<Rightarrow> smbios \<Rightarrow>
   smbios \<times> smbios_error option" where
  "smbios_build_type_4_table m ms raw inst ep_type s =
     (let tbl_len = type_4_len ep_type in
      case SMBIOS_BUILD_TABLE_PRE m (smbios_skip_table s) 4 (T4_BASE + inst) True tbl_len of
        None \<Rightarrow> (s, None)
      | Some hdr \<Rightarrow>
          let (t, ss) = type_4_fields m ms raw s hdr in
          if tbl_len = SMBIOS_TYPE_4_LEN_V30 then
            let t = t\<lparr>t4_core_enabled2 := ucast (cores_per_socket ms),
                      t4_core_count2 := ucast (cores_per_socket ms),
                      t4_thread_count2 := ucast (threads_per_socket ms)\<rparr>;
                s = set_tables (SMBIOS_BUILD_TABLE_POST m (take tbl_len (encode_type_4 t)) ss
                                  (smbios_tables_of s)) s
            in (s\<lparr>smbios_type4_count := smbios_type4_count s + 1\<rparr>, None)
          else if t4_core_count t = 0xFF \<or> t4_thread_count t = 0xFF then
            (set_tables (smbios_build_unfinished m (take tbl_len (encode_type_4 t)) ss
                           (smbios_tables_of s)) s, Some Too_many_cores)
          else
            let s = set_tables (SMBIOS_BUILD_TABLE_POST m (take tbl_len (encode_type_4 t)) ss
                                  (smbios_tables_of s)) s
            in (s\<lparr>smbios_type4_count := smbios_type4_count s + 1\<rparr>, None))"

section \<open>Type 7: cache\<close>

definition type_7_fields ::
  "smbios_build \<Rightarrow> smbios_type_7 \<Rightarrow> u16 \<Rightarrow> u16 \<Rightarrow> u8 \<Rightarrow> u8 \<Rightarrow> u8 \<Rightarrow> smbios \<Rightarrow>
   smbios_structure_header \<Rightarrow> bytes \<times> bytes list" where
  "type_7_fields m raw cache_configuration max_cache_size error_correction system_cache_type
     associativity s hdr =
     (let t = raw\<lparr>t7_header := hdr\<rparr>;
          (i, ss) = SMBIOS_TABLE_SET_STR m (type7_socket_designation s) [];
          t = t\<lparr>t7_socket_designation := i\<rparr>;
          t = t\<lparr>t7_cache_configuration := cache_configuration,
                t7_max_cache_size := max_cache_size,
                t7_installed_size := max_cache_size,
                t7_supported_sram_type := 0x20,
                t7_current_sram_type := 0x20,
                t7_cache_speed := 0x0,
                t7_error_correction := error_correction,
                t7_system_cache_type := system_cache_type,
                t7_associativity := associativity\<rparr>
      in (encode_type_7 t, ss))"

definition smbios_build_type_7_table ::
  "smbios_build \<Rightarrow> smbios_type_7 \<Rightarrow> nat \<Rightarrow> string option \<Rightarrow> u16 \<Rightarrow> u16 \<Rightarrow> u8 \<Rightarrow> u8 \<Rightarrow> u8 \<Rightarrow>
   smbios \<Rightarrow> smbios" where
  "smbios_build_type_7_table m raw inst socket_designation cache_configuration max_cache_size
     error_correction system_cache_type associativity s =
     (let s = s\<lparr>type7_socket_designation := socket_designation\<rparr> in
      build_table m 7 (T7_BASE + inst) True (length (encode_type_7 raw))
        (type_7_fields m raw cache_configuration max_cache_size error_correction
           system_cache_type associativity s) s)"

section \<open>Type 16: memory array\<close>

definition type_16_fields ::
  "align_up \<Rightarrow> machine \<Rightarrow> smbios_type_16 \<Rightarrow> u32 \<Rightarrow> smbios_structure_header \<Rightarrow>
   bytes \<times> bytes list" where
  "type_16_fields al ms raw dimm_cnt hdr =
     (let t = raw\<lparr>t16_header := hdr, t16_location := 0x03, t16_use := 0x03,
                  t16_error_correction := 0x03\<rparr>;
          size_kb = al (ram_size ms) KiB div KiB;
          t = (if size_kb < MAX_T16_STD_SZ
               then t\<lparr>t16_maximum_capacity := to_le32 size_kb,
                      t16_extended_maximum_capacity := 0\<rparr>
               else t\<lparr>t16_maximum_capacity := to_le32 MAX_T16_STD_SZ,
                      t16_extended_maximum_capacity := ram_size ms\<rparr>);
          t = t\<lparr>t16_memory_error_information_handle := 0xFFFE,
                t16_number_of_memory_devices := ucast dimm_cnt\<rparr>
      in (encode_type_16 t, []))"

definition smbios_build_type_16_table ::
  "smbios_build \<Rightarrow> align_up \<Rightarrow> machine \<Rightarrow> smbios_type_16 \<Rightarrow> u32 \<Rightarrow> smbios \<Rightarrow> smbios" where
  "smbios_build_type_16_table m al ms raw dimm_cnt s =
     build_table m 16 T16_BASE True (length (encode_type_16 raw))
       (type_16_fields al ms raw dimm_cnt) s"

section \<open>Type 17: memory device\<close>

text \<open>The assertion on the size is made while the structure is open.\<close>

definition type_17_fields ::
  "smbios_build \<Rightarrow> align_up \<Rightarrow> smbios_type_17 \<Rightarrow> u64 \<Rightarrow> smbios \<Rightarrow> smbios_structure_header \<Rightarrow>
   bytes \<times> bytes list" where
  "type_17_fields m al raw sz s hdr =
     (let t = raw\<lparr>t17_header := hdr,
                  t17_physical_memory_array_handle := 0x1000,
                  t17_memory_error_information_handle := 0xFFFE,
                  t17_total_width := 64, t17_data_width := 64\<rparr>;
          size_mb = al sz MiB div MiB;
          t = (if size_mb < MAX_T17_STD_SZ
               then t\<lparr>t17_size := to_le16 size_mb, t17_extended_size := 0\<rparr>
               else t\<lparr>t17_size := to_le16 MAX_T17_STD_SZ, t17_extended_size := to_le32 size_mb\<rparr>);
          t = t\<lparr>t17_form_factor := 0x0D, t17_device_set := 0\<rparr>;
          (i, ss) = SMBIOS_TABLE_SET_STR m (Some ''ChannelA-DIMM0'') [];
          t = t\<lparr>t17_device_locator_str := i\<rparr>;
          (i, ss) = SMBIOS_TABLE_SET_STR m (Some ''BANK 0'') ss;
          t = t\<lparr>t17_bank_locator_str := i\<rparr>;
          t = t\<lparr>t17_memory_type := 0x18, t17_type_detail := 0x80, t17_speed := 1600\<rparr>;
          (i, ss) = SMBIOS_TABLE_SET_STR m (Some ''Kingston'') ss;
          t = t\<lparr>t17_manufacturer_str := i\<rparr>;
          (i, ss) = SMBIOS_TABLE_SET_STR m (c17_serial (type17 s)) ss;
          t = t\<lparr>t17_serial_number_str := i\<rparr>;
          (i, ss) = SMBIOS_TABLE_SET_STR m (c17_asset (type17 s)) ss;
          t = t\<lparr>t17_asset_tag_number_str := i\<rparr>;
          (i, ss) = SMBIOS_TABLE_SET_STR m (Some ''KHX1600C9S3L/32G'') ss;
          t = t\<lparr>t17_part_number_str := i\<rparr>;
          t = t\<lparr>t17_attributes := 0x02\<rparr>;
          t = t\<lparr>t17_configured_clock_speed := t17_speed t,
                t17_minimum_voltage := 1350, t17_maximum_voltage := 1500,
                t17_configured_voltage := 1350\<rparr>
      in (encode_type_17 t, ss))"

definition smbios_build_type_17_table ::
  "smbios_build \<Rightarrow> align_up \<Rightarrow> smbios_type_17 \<Rightarrow> nat \<Rightarrow> u64 \<Rightarrow> smbios \<Rightarrow> crash + smbios" where
  "smbios_build_type_17_table m al raw inst sz s =
     (let size_mb = al sz MiB div MiB in
      build_table_assert m 17 (T17_BASE + inst) True (length (encode_type_17 raw))
        (size_mb < MAX_T17_STD_SZ \<or> size_mb < MAX_T17_EXT_SZ) (type_17_fields m al raw sz s) s)"

section \<open>Type 19: memory array mapped address\<close>

definition type_19_fields ::
  "smbios_type_19 \<Rightarrow> u64 \<Rightarrow> u64 \<Rightarrow> smbios_structure_header \<Rightarrow> bytes \<times> bytes list" where
  "type_19_fields raw start sz hdr =
     (let t = raw\<lparr>t19_header := hdr\<rparr>;
          last_byte = start + sz - 1;
          start_kb = start div KiB;
          end_kb = last_byte div KiB;
          t = (if start_kb < UINT32_MAX \<and> end_kb < UINT32_MAX
               then t\<lparr>t19_starting_address := to_le32 start_kb,
                      t19_ending_address := to_le32 end_kb,
                      t19_extended_starting_address := 0,
                      t19_extended_ending_address := 0\<rparr>
               else t\<lparr>t19_starting_address := to_le32 UINT32_MAX,
                      t19_ending_address := to_le32 UINT32_MAX,
                      t19_extended_starting_address := start,
                      t19_extended_ending_address := last_byte\<rparr>);
          t = t\<lparr>t19_memory_array_handle := 0x1000, t19_partition_width := 1\<rparr>
      in (encode_type_19 t, []))"

definition smbios_build_type_19_table ::
  "smbios_build \<Rightarrow> smbios_type_19 \<Rightarrow> nat \<Rightarrow> nat \<Rightarrow> u64 \<Rightarrow> u64 \<Rightarrow> smbios \<Rightarrow> crash + smbios" where
  "smbios_build_type_19_table m raw inst offset start sz s =
     build_table_assert m 19 (T19_BASE + offset + inst) True (length (encode_type_19 raw))
       (start + sz - 1 > start) (type_19_fields raw start sz) s"

section \<open>Type 20: memory device mapped address\<close>

definition type_20_fields ::
  "smbios_type_20 \<Rightarrow> u64 \<Rightarrow> u64 \<Rightarrow> smbios_structure_header \<Rightarrow> bytes \<times> bytes list" where
  "type_20_fields raw start_kb end_kb hdr =
     (let t = raw\<lparr>t20_header := hdr,
                  t20_starting_address := to_le32 start_kb,
                  t20_ending_address := to_le32 end_kb,
                  t20_memory_device_handle := 0x003C,
                  t20_memory_array_mapped_address_handle := 0x0040,
                  t20_partition_row_position := 0x1,
                  t20_interleave_position := 0x1,
                  t20_interleave_data_depth := 0x2\<rparr>
      in (encode_type_20 t, []))"

definition smbios_build_type_20_table ::
  "smbios_build \<Rightarrow> smbios_type_20 \<Rightarrow> u64 \<Rightarrow> u64 \<Rightarrow> smbios \<Rightarrow> crash + smbios" where
  "smbios_build_type_20_table m raw start sz s =
     (let last_byte = start + sz - 1 in
      if \<not> last_byte > start then Inl Assert_failed
      else Inr (build_table m 20 T20_BASE True (length (encode_type_20 raw))
                  (type_20_fields raw (start div KiB) (last_byte div KiB)) s))"

end
