(* ===== verification/Smbios_Tables_Misc.thy ===== *)
theory Smbios_Tables_Misc
  imports Smbios_Tables_Hw
begin

text \<open>
  The remaining builders of \<open>smbios.c\<close>: connectors, slots, OEM strings, battery, the probes,
  boot status, on-board devices and the end of the table. Types 9 and 41 can be left with an
  error while their structure is open; the PCI bus is the parameter \<open>pci_bus\<close>.
\<close>

section \<open>The PCI bus\<close>

record PCIDevice =
  pci_bus_is_root :: bool
  pci_dev_bus_num :: int
  devfn :: int

text \<open>\<open>pci_qdev_find_device\<close>: \<open>None\<close> is a non-zero return.\<close>

type_synonym pci_bus = "string \<Rightarrow> PCIDevice option"

text \<open>
  \<open>error_setg (errp, ..)\<close>. The emulator's error API requires \<open>*errp\<close> to be NULL; setting it
  twice is a misuse the API answers with an abort.
\<close>

definition error_setg :: "smbios_error \<Rightarrow> smbios_error option \<Rightarrow> crash + smbios_error option" where
  "error_setg e errp = (case errp of None \<Rightarrow> Inr (Some e) | Some _ \<Rightarrow> Inl Api_misuse)"

section \<open>Type 8: port connectors\<close>

definition type_8_fields ::
  "smbios_build \<Rightarrow> smbios_type_8 \<Rightarrow> smbios_structure_header \<Rightarrow> bytes \<times> bytes list" where
  "type_8_fields m raw hdr =
     (let t = raw\<lparr>t8_header := hdr\<rparr>;
          (i, ss) = SMBIOS_TABLE_SET_STR m (Some ''FAN'') [];
          t = t\<lparr>t8_internal_reference_str := i\<rparr>;
          (i, ss) = SMBIOS_TABLE_SET_STR m (Some ''CPU FAN'') ss;
          t = t\<lparr>t8_external_reference_str := i\<rparr>;
          t = t\<lparr>t8_internal_connector_type := 0x0, t8_external_connector_type := 0xFF,
                t8_port_type := 0xFF\<rparr>
      in (encode_type_8 t, ss))"

fun type_8_loop ::
  "smbios_build \<Rightarrow> (nat \<Rightarrow> smbios_type_8) \<Rightarrow> type8_instance list \<Rightarrow> nat \<Rightarrow> smbios \<Rightarrow> smbios" where
  "type_8_loop m raw [] inst s = s"
| "type_8_loop m raw (t8 # rest) inst s =
     (case SMBIOS_BUILD_TABLE_PRE m (smbios_skip_table s) 8 (T0_BASE + inst) True
             (length (encode_type_8 (raw inst))) of
        None \<Rightarrow> s
      | Some hdr \<Rightarrow>
          (case type_8_fields m (raw inst) hdr of (fmt, ss) \<Rightarrow>
             type_8_loop m raw rest (inst + 1)
               (set_tables (SMBIOS_BUILD_TABLE_POST m fmt ss (smbios_tables_of s)) s)))"

definition smbios_build_type_8_table ::
  "smbios_build \<Rightarrow> (nat \<Rightarrow> smbios_type_8) \<Rightarrow> smbios \<Rightarrow> smbios" where
  "smbios_build_type_8_table m raw s = type_8_loop m raw (type8 s) 0 s"

section \<open>Type 9: system slots\<close>

text \<open>The assignments before the device is looked up.\<close>

definition type_9_fields ::
  "smbios_build \<Rightarrow> smbios_type_9 \<Rightarrow> type9_instance \<Rightarrow> smbios_structure_header \<Rightarrow>
   smbios_type_9 \<times> bytes list" where
  "type_9_fields m raw t9 hdr =
     (let t = raw\<lparr>t9_header := hdr\<rparr>;
          (i, ss) = SMBIOS_TABLE_SET_STR m (i9_slot_designation t9) [];
          t = t\<lparr>t9_slot_designation := i\<rparr>;
          t = t\<lparr>t9_slot_type := i9_slot_type t9,
                t9_slot_data_bus_width := i9_slot_data_bus_width t9,
                t9_current_usage := i9_current_usage t9,
                t9_slot_length := i9_slot_length t9,
                t9_slot_id := i9_slot_id t9,
                t9_slot_characteristics1 := i9_slot_characteristics1 t9,
                t9_slot_characteristics2 := i9_slot_characteristics2 t9\<rparr>
      in (t, ss))"

text \<open>The device numbers, or the error of a device that is missing or behind a bridge.\<close>

definition type_9_device ::
  "pci_bus \<Rightarrow> type9_instance \<Rightarrow> smbios_type_9 \<Rightarrow> smbios_error + smbios_type_9" where
  "type_9_device pci t9 t =
     (case i9_pcidev t9 of
        Some dev \<Rightarrow>
          (case pci dev of
             None \<Rightarrow> Inl (No_PCI_device dev)
           | Some pdev \<Rightarrow>
               if \<not> pci_bus_is_root pdev then Inl (PCI_not_on_root dev)
               else Inr (t\<lparr>t9_segment_group_number := 0,
                           t9_bus_number := word_of_int (pci_dev_bus_num pdev),
                           t9_device_number := word_of_int (devfn pdev)\<rparr>))
      | None \<Rightarrow>
          Inr (t\<lparr>t9_segment_group_number := 0xff, t9_bus_number := 0xff,
                 t9_device_number := 0xff\<rparr>))"

fun type_9_loop ::
  "smbios_build \<Rightarrow> pci_bus \<Rightarrow> (nat \<Rightarrow> smbios_type_9) \<Rightarrow> type9_instance list \<Rightarrow> nat \<Rightarrow>
   smbios_error option \<Rightarrow> smbios \<Rightarrow> crash + smbios \<times> smbios_error option" where
  "type_9_loop m pci raw [] inst errp s = Inr (s, errp)"
| "type_9_loop m pci raw (t9 # rest) inst errp s =
     (case SMBIOS_BUILD_TABLE_PRE m (smbios_skip_table s) 9 (T9_BASE + inst) True
             (length (encode_type_9 (raw inst))) of
        None \<Rightarrow> Inr (s, errp)
      | Some hdr \<Rightarrow>
          (case type_9_fields m (raw inst) t9 hdr of (t, ss) \<Rightarrow>
             (case type_9_device pci t9 t of
                Inl e \<Rightarrow> bindR (error_setg e errp) (\<lambda>errp.
                  Inr (set_tables (smbios_build_unfinished m (encode_type_9 t) ss
                                     (smbios_tables_of s)) s, errp))
              | Inr t \<Rightarrow> type_9_loop m pci raw rest (inst + 1) errp
                  (set_tables (SMBIOS_BUILD_TABLE_POST m (encode_type_9 t) ss
                                 (smbios_tables_of s)) s))))"

definition smbios_build_type_9_table ::
  "smbios_build \<Rightarrow> pci_bus \<Rightarrow> (nat \<Rightarrow> smbios_type_9) \<Rightarrow> smbios_error option \<Rightarrow> smbios \<Rightarrow>
   crash + smbios \<times> smbios_error option" where
  "smbios_build_type_9_table m pci raw errp s = type_9_loop m pci raw (type9 s) 0 errp s"

section \<open>Type 11: OEM strings\<close>

fun set_str_list :: "smbios_build \<Rightarrow> bytes option list \<Rightarrow> bytes list \<Rightarrow> bytes list" where
  "set_str_list m [] ss = ss"
| "set_str_list m (v # vs) ss = set_str_list m vs (SMBIOS_TABLE_SET_STR_LIST m v ss)"

definition type_11_fields ::
  "smbios_build \<Rightarrow> smbios_type_11 \<Rightarrow> bytes option list \<Rightarrow> smbios_structure_header \<Rightarrow>
   bytes \<times> bytes list" where
  "type_11_fields m raw values hdr =
     (let t = raw\<lparr>t11_header := hdr, t11_count := of_nat (length values)\<rparr>
      in (encode_type_11 t, set_str_list m values []))"

text \<open>The loop frees each value and sets it to NULL; \<open>nvalues\<close> keeps its value.\<close>

definition smbios_build_type_11_table ::
  "smbios_build \<Rightarrow> smbios_type_11 \<Rightarrow> smbios \<Rightarrow> smbios" where
  "smbios_build_type_11_table m raw s =
     (if type11_values s = [] then s
      else
        (case SMBIOS_BUILD_TABLE_PRE m (smbios_skip_table s) 11 T11_BASE True
                (length (encode_type_11 raw)) of
           None \<Rightarrow> s
         | Some hdr \<Rightarrow>
             (case type_11_fields m raw (type11_values s) hdr of (fmt, ss) \<Rightarrow>
                let s' = s\<lparr>type11_values := map (\<lambda>_. None) (type11_values s)\<rparr> in
                set_tables (SMBIOS_BUILD_TABLE_POST m fmt ss (smbios_tables_of s')) s')))"

section \<open>Type 22: battery\<close>

text \<open>The three \<open>sbds\<close> members of the serial number, date and chemistry are not assigned.\<close>

definition type_22_fields ::
  "smbios_build \<Rightarrow> smbios_type_22 \<Rightarrow> smbios_structure_header \<Rightarrow> bytes \<times> bytes list" where
  "type_22_fields m raw hdr =
     (let t = raw\<lparr>t22_header := hdr\<rparr>;
          (i, ss) = SMBIOS_TABLE_SET_STR m (Some ''in the back'') [];
          t = t\<lparr>t22_location := i\<rparr>;
          (i, ss) = SMBIOS_TABLE_SET_STR m (Some ''lixiaoliu'') ss;
          t = t\<lparr>t22_manufacturer := i\<rparr>;
          (i, ss) = SMBIOS_TABLE_SET_STR m (Some ''02/02/2025'') ss;
          t = t\<lparr>t22_manufacturer_date := i\<rparr>;
          (i, ss) = SMBIOS_TABLE_SET_STR m (Some ''lixiaoliu666'') ss;
          t = t\<lparr>t22_serial_number := i\<rparr>;
          (i, ss) = SMBIOS_TABLE_SET_STR m (Some ''BAT0'') ss;
          t = t\<lparr>t22_device_name := i\<rparr>;
          t = t\<lparr>t22_device_chemistry := 0x6, t22_design_capacity := 0xECF4,
                t22_design_voltage := 0x2EE0, t22_sbds_version_number := 0x0,
                t22_maximum_error_in_battery_data := 0x1,
                t22_design_capacity_multiplier := 0x1, t22_oem_specific := 0x60666\<rparr>
      in (encode_type_22 t, ss))"

definition smbios_build_type_22_table :: "smbios_build \<Rightarrow> smbios_type_22 \<Rightarrow> smbios \<Rightarrow> smbios" where
  "smbios_build_type_22_table m raw s =
     build_table m 22 T22_BASE True (length (encode_type_22 raw)) (type_22_fields m raw) s"

section \<open>Types 26, 27 and 28: voltage, cooling, temperature\<close>

definition type_26_fields ::
  "smbios_build \<Rightarrow> smbios_type_26 \<Rightarrow> u8 \<Rightarrow> smbios \<Rightarrow> smbios_structure_header \<Rightarrow>
   bytes \<times> bytes list" where
  "type_26_fields m raw location_and_status s hdr =
     (let t = raw\<lparr>t26_header := hdr\<rparr>;
          (i, ss) = SMBIOS_TABLE_SET_STR m (type26_description s) [];
          t = t\<lparr>t26_description := i\<rparr>;
          t = t\<lparr>t26_location_and_status := location_and_status, t26_max_value := 0x5800,
                t26_min_value := 0x100, t26_resolution := 0x100, t26_tolerance := 0x800,
                t26_accuracy := 0x10, t26_oem_defined := 0x00000000,
                t26_nominal_value := 0x1000\<rparr>
      in (encode_type_26 t, ss))"

definition smbios_build_type_26_table ::
  "smbios_build \<Rightarrow> smbios_type_26 \<Rightarrow> nat \<Rightarrow> string option \<Rightarrow> u8 \<Rightarrow> smbios \<Rightarrow> smbios" where
  "smbios_build_type_26_table m raw inst description location_and_status s =
     (let s = s\<lparr>type26_description := description\<rparr> in
      build_table m 26 (T26_BASE + inst) True (length (encode_type_26 raw))
        (type_26_fields m raw location_and_status s) s)"

definition type_27_fields ::
  "smbios_build \<Rightarrow> smbios_type_27 \<Rightarrow> u8 \<Rightarrow> smbios \<Rightarrow> smbios_structure_header \<Rightarrow>
   bytes \<times> bytes list" where
  "type_27_fields m raw device_type_and_status s hdr =
     (let t = raw\<lparr>t27_header := hdr\<rparr>;
          t = t\<lparr>t27_temperature_probe_handle := 0x0029,
                t27_device_type_and_status := device_type_and_status,
                t27_cooling_unit_group := 0x1, t27_OEM_defined := 0x00000000,
                t27_nominal_speed := 0x5DC\<rparr>;
          (i, ss) = SMBIOS_TABLE_SET_STR m (type27_description s) [];
          t = t\<lparr>t27_description := i\<rparr>
      in (encode_type_27 t, ss))"

definition smbios_build_type_27_table ::
  "smbios_build \<Rightarrow> smbios_type_27 \<Rightarrow> nat \<Rightarrow> string option \<Rightarrow> u8 \<Rightarrow> smbios \<Rightarrow> smbios" where
  "smbios_build_type_27_table m raw inst description device_type_and_status s =
     (let s = s\<lparr>type27_description := description\<rparr> in
      build_table m 27 (T27_BASE + inst) True (length (encode_type_27 raw))
        (type_27_fields m raw device_type_and_status s) s)"

definition type_28_fields ::
  "smbios_build \<Rightarrow> smbios_type_28 \<Rightarrow> u8 \<Rightarrow> smbios \<Rightarrow> smbios_structure_header \<Rightarrow>
   bytes \<times> bytes list" where
  "type_28_fields m raw location_and_status s hdr =
     (let t = raw\<lparr>t28_header := hdr\<rparr>;
          (i, ss) = SMBIOS_TABLE_SET_STR m (type28_description s) [];
          t = t\<lparr>t28_description := i\<rparr>;
          t = t\<lparr>t28_location_and_status := location_and_status, t28_maximum_value := 0x780,
                t28_minimum_value := 0x100, t28_resolution := 0x1000, t28_tolerance := 0x800,
                t28_accuracy := 0x10, t28_OEM_defined := 0x00000000,
                t28_nominal_value := 0x100\<rparr>
      in (encode_type_28 t, ss))"

definition smbios_build_type_28_table ::
  "smbios_build \<Rightarrow> smbios_type_28 \<Rightarrow> nat \<Rightarrow> string option \<Rightarrow> u8 \<Rightarrow> smbios \<Rightarrow> smbios" where
  "smbios_build_type_28_table m raw inst description location_and_status s =
     (let s = s\<lparr>type28_description := description\<rparr> in
      build_table m 28 (T28_BASE + inst) True (length (encode_type_28 raw))
        (type_28_fields m raw location_and_status s) s)"

section \<open>Types 29, 32, 37, 39 and 127\<close>

definition type_29_fields ::
  "smbios_build \<Rightarrow> smbios_type_29 \<Rightarrow> smbios_structure_header \<Rightarrow> bytes \<times> bytes list" where
  "type_29_fields m raw hdr =
     (let t = raw\<lparr>t29_header := hdr\<rparr>;
          (i, ss) = SMBIOS_TABLE_SET_STR m (Some ''Electrical'') [];
          t = t\<lparr>t29_description := i\<rparr>
      in (encode_type_29 t, ss))"

definition smbios_build_type_29_table :: "smbios_build \<Rightarrow> smbios_type_29 \<Rightarrow> smbios \<Rightarrow> smbios" where
  "smbios_build_type_29_table m raw s =
     build_table m 29 T29_BASE True (length (encode_type_29 raw)) (type_29_fields m raw) s"

definition type_32_fields ::
  "smbios_type_32 \<Rightarrow> smbios_structure_header \<Rightarrow> bytes \<times> bytes list" where
  "type_32_fields raw hdr =
     (encode_type_32 (raw\<lparr>t32_header := hdr, t32_reserved := 0, t32_boot_status := 0\<rparr>), [])"

definition smbios_build_type_32_table :: "smbios_build \<Rightarrow> smbios_type_32 \<Rightarrow> smbios \<Rightarrow> smbios" where
  "smbios_build_type_32_table m raw s =
     build_table m 32 T32_BASE True (length (encode_type_32 raw)) (type_32_fields raw) s"

definition smbios_build_type_37_table :: "smbios_build \<Rightarrow> smbios_type_37 \<Rightarrow> smbios \<Rightarrow> smbios" where
  "smbios_build_type_37_table m raw s =
     build_table m 37 T37_BASE True (length (encode_type_37 raw))
       (\<lambda>hdr. (encode_type_37 (raw\<lparr>t37_header := hdr\<rparr>), [])) s"

definition type_39_fields ::
  "smbios_build \<Rightarrow> smbios_type_39 \<Rightarrow> smbios_structure_header \<Rightarrow> bytes \<times> bytes list" where
  "type_39_fields m raw hdr =
     (let t = raw\<lparr>t39_header := hdr\<rparr>;
          (i, ss) = SMBIOS_TABLE_SET_STR m (Some ''lixiaoliu PowerSupply'') [];
          t = t\<lparr>t39_device_name := i\<rparr>
      in (encode_type_39 t, ss))"

definition smbios_build_type_39_table :: "smbios_build \<Rightarrow> smbios_type_39 \<Rightarrow> smbios \<Rightarrow> smbios" where
  "smbios_build_type_39_table m raw s =
     build_table m 39 T39_BASE True (length (encode_type_39 raw)) (type_39_fields m raw) s"

definition smbios_build_type_127_table ::
  "smbios_build \<Rightarrow> smbios_type_127 \<Rightarrow> smbios \<Rightarrow> smbios" where
  "smbios_build_type_127_table m raw s =
     build_table m 127 T127_BASE True (length (encode_type_127 raw))
       (\<lambda>hdr. (encode_type_127 (raw\<lparr>t127_header := hdr\<rparr>), [])) s"

section \<open>Type 41: on-board devices\<close>

definition type_41_fields ::
  "smbios_build \<Rightarrow> smbios_type_41 \<Rightarrow> type41_instance \<Rightarrow> smbios_structure_header \<Rightarrow>
   smbios_type_41 \<times> bytes list" where
  "type_41_fields m raw t41 hdr =
     (let t = raw\<lparr>t41_header := hdr\<rparr>;
          (i, ss) = SMBIOS_TABLE_SET_STR m (i41_designation t41) [];
          t = t\<lparr>t41_reference_designation_str := i\<rparr>;
          t = t\<lparr>t41_device_type := i41_kind t41, t41_device_type_instance := i41_instance t41,
                t41_segment_group_number := 0, t41_bus_number := 0, t41_device_number := 0\<rparr>
      in (t, ss))"

definition type_41_device ::
  "pci_bus \<Rightarrow> type41_instance \<Rightarrow> smbios_type_41 \<Rightarrow> smbios_error + smbios_type_41" where
  "type_41_device pci t41 t =
     (case i41_pcidev t41 of
        Some dev \<Rightarrow>
          (case pci dev of
             None \<Rightarrow> Inl (No_PCI_device dev)
           | Some pdev \<Rightarrow>
               if \<not> pci_bus_is_root pdev then Inl (PCI_not_on_root dev)
               else Inr (t\<lparr>t41_segment_group_number := 0,
                           t41_bus_number := word_of_int (pci_dev_bus_num pdev),
                           t41_device_number := word_of_int (devfn pdev)\<rparr>))
      | None \<Rightarrow> Inr t)"

fun type_41_loop ::
  "smbios_build \<Rightarrow> pci_bus \<Rightarrow> (nat \<Rightarrow> smbios_type_41) \<Rightarrow> type41_instance list \<Rightarrow> nat \<Rightarrow>
   smbios_error option \<Rightarrow> smbios \<Rightarrow> crash + smbios \<times> smbios_error option" where
  "type_41_loop m pci raw [] inst errp s = Inr (s, errp)"
| "type_41_loop m pci raw (t41 # rest) inst errp s =
     (case SMBIOS_BUILD_TABLE_PRE m (smbios_skip_table s) 41 (T41_BASE + inst) True
             (length (encode_type_41 (raw inst))) of
        None \<Rightarrow> Inr (s, errp)
      | Some hdr \<Rightarrow>
          (case type_41_fields m (raw inst) t41 hdr of (t, ss) \<Rightarrow>
             (case type_41_device pci t41 t of
                Inl e \<Rightarrow> bindR (error_setg e errp) (\<lambda>errp.
                  Inr (set_tables (smbios_build_unfinished m (encode_type_41 t) ss
                                     (smbios_tables_of s)) s, errp))
              | Inr t \<Rightarrow> type_41_loop m pci raw rest (inst + 1) errp
                  (set_tables (SMBIOS_BUILD_TABLE_POST m (encode_type_41 t) ss
                                 (smbios_tables_of s)) s))))"

definition smbios_build_type_41_table ::
  "smbios_build \<Rightarrow> pci_bus \<Rightarrow> (nat \<Rightarrow> smbios_type_41) \<Rightarrow> smbios_error option \<Rightarrow> smbios \<Rightarrow>
   crash + smbios \<times> smbios_error option" where
  "smbios_build_type_41_table m pci raw errp s = type_41_loop m pci raw (type41 s) 0 errp s"

end
