(* ===== verification/Smbios_Get.thy ===== *)
theory Smbios_Get
  imports Smbios_Tables_Misc
begin

text \<open>
  \<open>smbios_get_tables\<close>: the whole table is built for one entry point type, checked, and
  described by an entry point; in \<open>AUTO\<close> mode a failure with the 32-bit entry point is
  retried with the 64-bit one. \<open>platform\<close> collects what the rest of the emulator provides
  (the macros, the PCI bus, \<open>QEMU_ALIGN_UP\<close>, the IPMI table builder); \<open>smbios_heap\<close> is what
  the fresh memory of each structure holds.
\<close>

section \<open>Parameters\<close>

record platform =
  build_macros :: smbios_build
  pci_devices :: pci_bus
  QEMU_ALIGN_UP :: align_up
  smbios_build_type_38_table :: "smbios \<Rightarrow> smbios"

record smbios_heap =
  raw_type_0 :: smbios_type_0
  raw_type_1 :: smbios_type_1
  raw_type_2 :: smbios_type_2
  raw_type_3 :: smbios_type_3
  raw_type_4 :: "nat \<Rightarrow> smbios_type_4"
  raw_type_7 :: "nat \<Rightarrow> smbios_type_7"
  raw_type_8 :: "nat \<Rightarrow> smbios_type_8"
  raw_type_9 :: "nat \<Rightarrow> smbios_type_9"
  raw_type_11 :: smbios_type_11
  raw_type_16 :: smbios_type_16
  raw_type_17 :: "nat \<Rightarrow> smbios_type_17"
  raw_type_19 :: "nat \<Rightarrow> smbios_type_19"
  raw_type_20 :: "nat \<Rightarrow> smbios_type_20"
  raw_type_22 :: smbios_type_22
  raw_type_26 :: "nat \<Rightarrow> smbios_type_26"
  raw_type_27 :: smbios_type_27
  raw_type_28 :: "nat \<Rightarrow> smbios_type_28"
  raw_type_29 :: smbios_type_29
  raw_type_32 :: smbios_type_32
  raw_type_37 :: smbios_type_37
  raw_type_39 :: smbios_type_39
  raw_type_41 :: "nat \<Rightarrow> smbios_type_41"
  raw_type_127 :: smbios_type_127

record smbios_phys_mem_area =
  address :: u64
  area_length :: u64

section \<open>Checks\<close>

definition SMBIOS_21_MAX_TABLES_LEN :: nat where
  "SMBIOS_21_MAX_TABLES_LEN = 0xffff"

definition smbios_check_type4_count :: "nat \<Rightarrow> smbios \<Rightarrow> smbios_error option" where
  "smbios_check_type4_count expected_t4_count s =
     (if smbios_type4_count s \<noteq> 0 \<and> smbios_type4_count s \<noteq> expected_t4_count
      then Some (Type4_count (of_nat expected_t4_count) (smbios_type4_count s)) else None)"

definition smbios_validate_table ::
  "SmbiosEntryPointType \<Rightarrow> smbios \<Rightarrow> smbios_error option" where
  "smbios_validate_table ep_type s =
     (if ep_type = SMBIOS_ENTRY_POINT_TYPE_32 \<and> smbios_tables_len s > SMBIOS_21_MAX_TABLES_LEN
      then Some (Table_too_long (smbios_tables_len s)) else None)"

section \<open>Entry point\<close>

definition smbios_entry_point_setup :: "SmbiosEntryPointType \<Rightarrow> smbios \<Rightarrow> crash + smbios" where
  "smbios_entry_point_setup ep_type s =
     (case ep_type of
        SMBIOS_ENTRY_POINT_TYPE_32 \<Rightarrow>
          Inr (s\<lparr>smbios_ep := Some (Ep21
            \<lparr>e21_anchor_string = str_bytes ''_SM_'', e21_checksum = 0,
             e21_length = of_nat sizeof_ep21, e21_smbios_major_version = 2,
             e21_smbios_minor_version = 8,
             e21_max_structure_size = of_nat (smbios_table_max s),
             e21_entry_point_revision = 0, e21_formatted_area = replicate 5 0,
             e21_intermediate_anchor_string = str_bytes ''_DMI_'',
             e21_intermediate_checksum = 0,
             e21_structure_table_length = of_nat (smbios_tables_len s),
             e21_structure_table_address = 0,
             e21_number_of_structures = of_nat (smbios_table_cnt s),
             e21_smbios_bcd_revision = 0x28\<rparr>)\<rparr>)
      | SMBIOS_ENTRY_POINT_TYPE_64 \<Rightarrow>
          Inr (s\<lparr>smbios_ep := Some (Ep30
            \<lparr>e30_anchor_string = str_bytes ''_SM3_'', e30_checksum = 0,
             e30_length = of_nat sizeof_ep30, e30_smbios_major_version = 3,
             e30_smbios_minor_version = 0, e30_smbios_doc_rev = 0,
             e30_entry_point_revision = 1, e30_reserved = 0,
             e30_structure_table_max_size = of_nat (smbios_tables_len s),
             e30_structure_table_address = 0\<rparr>)\<rparr>)
      | SMBIOS_ENTRY_POINT_TYPE_AUTO \<Rightarrow> Inl Aborted)"

text \<open>The length of the entry point, by its anchor string.\<close>

definition anchor_length :: "bytes \<Rightarrow> crash + nat" where
  "anchor_length ep =
     (if take 4 ep = str_bytes ''_SM_'' then Inr sizeof_ep21
      else if take 5 ep = str_bytes ''_SM3_'' then Inr sizeof_ep30
      else Inl Aborted)"

section \<open>Memory layout\<close>

definition dimm_count :: "platform \<Rightarrow> machine \<Rightarrow> u32" where
  "dimm_count p ms =
     ucast (QEMU_ALIGN_UP p (ram_size ms) (smbios_memory_device_size ms)
            div smbios_memory_device_size ms)"

definition GET_DIMM_SZ :: "machine \<Rightarrow> u32 \<Rightarrow> nat \<Rightarrow> u64" where
  "GET_DIMM_SZ ms dimm_cnt i =
     (if of_nat i < dimm_cnt - 1 then smbios_memory_device_size ms
      else (ram_size ms - 1) mod smbios_memory_device_size ms + 1)"

definition handle_offset :: "u32 \<Rightarrow> nat" where
  "handle_offset dimm_cnt =
     (if unat dimm_cnt > T19_BASE - T17_BASE then unat dimm_cnt - (T19_BASE - T17_BASE) else 0)"

section \<open>Building all tables\<close>

fun type_4_loop ::
  "platform \<Rightarrow> smbios_heap \<Rightarrow> machine \<Rightarrow> SmbiosEntryPointType \<Rightarrow> nat list \<Rightarrow> smbios \<Rightarrow>
   smbios \<times> smbios_error option" where
  "type_4_loop p g ms ep_type [] s = (s, None)"
| "type_4_loop p g ms ep_type (i # is) s =
     (case smbios_build_type_4_table (build_macros p) ms (raw_type_4 g i) i ep_type s of
        (s, Some e) \<Rightarrow> (s, Some e)
      | (s, None) \<Rightarrow> type_4_loop p g ms ep_type is s)"

definition mem_array_loop ::
  "platform \<Rightarrow> smbios_heap \<Rightarrow> machine \<Rightarrow> u32 \<Rightarrow> smbios_phys_mem_area list \<Rightarrow> nat \<Rightarrow> smbios \<Rightarrow>
   crash + smbios" where
  "mem_array_loop p g ms dimm_cnt mem_array i s =
     (if i < length mem_array then
        bindR (smbios_build_type_19_table (build_macros p) (raw_type_19 g i) i
                 (handle_offset dimm_cnt) (address (mem_array ! i)) (GET_DIMM_SZ ms dimm_cnt i) s)
          (smbios_build_type_20_table (build_macros p) (raw_type_20 g i)
             (address (mem_array ! i)) (GET_DIMM_SZ ms dimm_cnt i))
      else Inl Out_of_bounds)"

text \<open>The caches: two of 32 KiB per core, one of 512 KiB per core, one of 16 MiB.\<close>

definition build_caches :: "platform \<Rightarrow> smbios_heap \<Rightarrow> machine \<Rightarrow> smbios \<Rightarrow> smbios" where
  "build_caches p g ms s =
     (let m = build_macros p; cores = cores_per_socket ms;
          s = smbios_build_type_7_table m (raw_type_7 g 0) 0 (Some ''L1 Cache'') 0x180
                (ucast (cores * 0x20)) 0x4 0x4 0x7 s;
          s = smbios_build_type_7_table m (raw_type_7 g 1) 1 (Some ''L1 Cache'') 0x180
                (ucast (cores * 0x20)) 0x4 0x3 0x7 s;
          s = smbios_build_type_7_table m (raw_type_7 g 2) 2 (Some ''L2 Cache'') 0x181
                (ucast (cores * 0x200)) 0x5 0x5 0x8 s
      in smbios_build_type_7_table m (raw_type_7 g 3) 3 (Some ''L3 Cache'') 0x182 0x4000
           0x6 0x5 0x8 s)"

definition build_probes :: "platform \<Rightarrow> smbios_heap \<Rightarrow> smbios \<Rightarrow> smbios" where
  "build_probes p g s =
     (let m = build_macros p;
          s = smbios_build_type_26_table m (raw_type_26 g 0) 0 (Some ''LM78A'') 0x6A s;
          s = smbios_build_type_26_table m (raw_type_26 g 1) 1 (Some ''LM78A-1'') 0x67 s;
          s = smbios_build_type_27_table m (raw_type_27 g) 0 (Some ''CPU FAN'') 0x67 s;
          s = smbios_build_type_28_table m (raw_type_28 g 0) 0 (Some ''LM78A'') 0x63 s;
          s = smbios_build_type_28_table m (raw_type_28 g 1) 1 (Some ''LM78A-1'') 0x67 s
      in smbios_build_type_29_table m (raw_type_29 g) s)"

text \<open>From the first statement to the processors.\<close>

definition smbios_tables_start :: "smbios \<Rightarrow> smbios" where
  "smbios_tables_start s =
     s\<lparr>smbios_type4_count := 0, smbios_tables := take (usr_blobs_len s) (usr_blobs s),
       smbios_tables_len := usr_blobs_len s, smbios_table_max := usr_table_max s,
       smbios_table_cnt := usr_table_cnt s\<rparr>"

definition build_system :: "platform \<Rightarrow> smbios_heap \<Rightarrow> smbios \<Rightarrow> smbios" where
  "build_system p g s =
     (let m = build_macros p;
          s = smbios_build_type_0_table m (raw_type_0 g) s;
          s = smbios_build_type_1_table m (raw_type_1 g) s;
          s = smbios_build_type_2_table m (raw_type_2 g) s
      in smbios_build_type_3_table m (raw_type_3 g) s)"

text \<open>From the caches to the last table: everything after the processors.\<close>

definition build_rest ::
  "platform \<Rightarrow> smbios_heap \<Rightarrow> machine \<Rightarrow> smbios_phys_mem_area list \<Rightarrow> smbios \<Rightarrow>
   crash + smbios \<times> smbios_error option" where
  "build_rest p g ms mem_array s =
     (let m = build_macros p;
          s = build_caches p g ms s;
          s = smbios_build_type_8_table m (raw_type_8 g) s
      in
      bindR (smbios_build_type_9_table m (pci_devices p) (raw_type_9 g) None s) (\<lambda>(s, errp).
      let s = smbios_build_type_11_table m (raw_type_11 g) s in
      if smbios_memory_device_size ms = 0 then Inl Division_by_zero
      else
      let dimm_cnt = dimm_count p ms;
          offset = handle_offset dimm_cnt;
          s = smbios_build_type_16_table m (QEMU_ALIGN_UP p) ms (raw_type_16 g) dimm_cnt s
      in
      bindR (forR [0..<unat dimm_cnt]
               (\<lambda>i. smbios_build_type_17_table m (QEMU_ALIGN_UP p) (raw_type_17 g i) i
                      (GET_DIMM_SZ ms dimm_cnt i)) s) (\<lambda>s.
      bindR (forR [0..<unat dimm_cnt] (mem_array_loop p g ms dimm_cnt mem_array) s) (\<lambda>s.
      let s = smbios_build_type_22_table m (raw_type_22 g) s in
      bindR (assertR (length mem_array + offset < T32_BASE - T19_BASE)) (\<lambda>_.
      let s = build_probes p g s;
          s = smbios_build_type_32_table m (raw_type_32 g) s;
          s = smbios_build_type_37_table m (raw_type_37 g) s;
          s = smbios_build_type_38_table p s;
          s = smbios_build_type_39_table m (raw_type_39 g) s
      in
      bindR (smbios_build_type_41_table m (pci_devices p) (raw_type_41 g) errp s) (\<lambda>(s, errp).
      Inr (smbios_build_type_127_table m (raw_type_127 g) s, errp)))))))"

text \<open>What a successful call stores through its pointers: tables, anchor and its length.\<close>

type_synonym table_output = "bytes \<times> nat \<times> bytes \<times> nat"

text \<open>
  The result: the state, \<open>*errp\<close>, and the outputs if the function returned true. The error
  exit frees the tables.
\<close>

definition err_exit :: "smbios \<Rightarrow> smbios" where
  "err_exit s = s\<lparr>smbios_tables := []\<rparr>"

definition smbios_get_tables_ep ::
  "platform \<Rightarrow> smbios_heap \<Rightarrow> machine \<Rightarrow> SmbiosEntryPointType \<Rightarrow> smbios_phys_mem_area list \<Rightarrow>
   smbios \<Rightarrow> crash + smbios \<times> smbios_error option \<times> table_output option" where
  "smbios_get_tables_ep p g ms ep_type mem_array s =
     bindR (assertR (ep_type = SMBIOS_ENTRY_POINT_TYPE_32 \<or> ep_type = SMBIOS_ENTRY_POINT_TYPE_64))
     (\<lambda>_.
     let s = build_system p g (smbios_tables_start s) in
     bindR (assertR (smp_sockets ms \<ge> 1)) (\<lambda>_.
     case type_4_loop p g ms ep_type [0..<smp_sockets ms] s of
       (s, Some e) \<Rightarrow> Inr (err_exit s, Some e, None)
     | (s, None) \<Rightarrow>
       bindR (build_rest p g ms mem_array s) (\<lambda>(s, errp).
       case smbios_check_type4_count (smp_sockets ms) s of
         Some e \<Rightarrow> bindR (error_setg e errp) (\<lambda>errp. Inr (err_exit s, errp, None))
       | None \<Rightarrow>
         (case smbios_validate_table ep_type s of
            Some e \<Rightarrow> bindR (error_setg e errp) (\<lambda>errp. Inr (err_exit s, errp, None))
          | None \<Rightarrow>
            bindR (smbios_entry_point_setup ep_type s) (\<lambda>s.
            let anchor = (case smbios_ep s of None \<Rightarrow> [] | Some ep \<Rightarrow> encode_ep ep) in
            bindR (anchor_length anchor) (\<lambda>anchor_len.
            Inr (s, errp, Some (smbios_tables s, smbios_tables_len s, anchor, anchor_len))))))))"

definition smbios_get_tables ::
  "platform \<Rightarrow> (SmbiosEntryPointType \<Rightarrow> smbios_heap) \<Rightarrow> machine \<Rightarrow> SmbiosEntryPointType \<Rightarrow>
   smbios_phys_mem_area list \<Rightarrow> smbios \<Rightarrow>
   crash + smbios \<times> smbios_error option \<times> table_output option" where
  "smbios_get_tables p g ms ep_type mem_array s =
     (let try64 = (\<lambda>s.
            smbios_get_tables_ep p (g SMBIOS_ENTRY_POINT_TYPE_64) ms SMBIOS_ENTRY_POINT_TYPE_64
              mem_array s);
          propagate = (\<lambda>(s, local_err, out).
            Inr (s, if out = None then local_err else None, out))
      in
      if ep_type = SMBIOS_ENTRY_POINT_TYPE_64 then bindR (try64 s) propagate
      else
        bindR (smbios_get_tables_ep p (g SMBIOS_ENTRY_POINT_TYPE_32) ms
                 SMBIOS_ENTRY_POINT_TYPE_32 mem_array s) (\<lambda>(s, local_err, out).
        if out \<noteq> None \<or> ep_type \<noteq> SMBIOS_ENTRY_POINT_TYPE_AUTO
        then propagate (s, local_err, out)
        else bindR (try64 s) propagate))"

end
