(* ===== verification/Smbios_Parse.thy ===== *)
theory Smbios_Parse
  imports Smbios_Build
begin

text \<open>
  A reader for SMBIOS tables as the specification describes it: walk from structure to
  structure by the length in the header and the double NUL after the strings. Reading back
  well-formed structures gives them, and what can be read is the image of what was read.
\<close>

section \<open>The reader\<close>

fun scan_strings :: "bytes \<Rightarrow> bytes \<Rightarrow> (bytes list \<times> bytes) option" where
  "scan_strings cur [] = None"
| "scan_strings cur (b # bs) =
     (if b \<noteq> 0 then scan_strings (cur @ [b]) bs
      else if cur = [] then Some ([], bs)
      else map_option (\<lambda>(ss, rest). (cur # ss, rest)) (scan_strings [] bs))"

fun parse_string_set :: "bytes \<Rightarrow> (bytes list \<times> bytes) option" where
  "parse_string_set (a # b # rest) =
     (if a \<noteq> 0 then scan_strings [] (a # b # rest)
      else if b = 0 then Some ([], rest) else None)"
| "parse_string_set _ = None"

lemma scan_strings_length: "scan_strings cur bs = Some (ss, rest) \<Longrightarrow> length rest < length bs"
  by (induction cur bs arbitrary: ss rule: scan_strings.induct) (fastforce split: if_splits)+

lemma parse_string_set_length:
  "parse_string_set bs = Some (ss, rest) \<Longrightarrow> length rest < length bs"
  by (cases bs rule: parse_string_set.cases)
    (auto split: if_splits dest!: scan_strings_length)

function parse_structs :: "bytes \<Rightarrow> smbios_struct list option" where
  "parse_structs bs =
     (if bs = [] then Some []
      else if length bs < sizeof_header then None
      else
        let len = unat (hdr_length (decode_header bs)) in
        if len < sizeof_header \<or> length bs < len then None
        else (case parse_string_set (drop len bs) of
                None \<Rightarrow> None
              | Some (ss, rest) \<Rightarrow>
                  map_option (\<lambda>xs. \<lparr>sfmt = take len bs, sstrs = ss\<rparr> # xs) (parse_structs rest)))"
  by pat_completeness auto
termination
  by (relation "measure length") (auto dest!: parse_string_set_length)

declare parse_structs.simps [simp del]

section \<open>Reading what was written\<close>

lemma scan_strings_string:
  "0 \<notin> set b \<Longrightarrow> cur \<noteq> [] \<or> b \<noteq> [] \<Longrightarrow>
   scan_strings cur (b @ 0 # bs) =
     map_option (\<lambda>(ss, rest). ((cur @ b) # ss, rest)) (scan_strings [] bs)"
  by (induction b arbitrary: cur) auto

lemma scan_cstrings:
  "strs_wf ss \<Longrightarrow> scan_strings [] (cstrings ss @ 0 # rest) = Some (ss, rest)"
  by (induction ss) (auto simp: cstrings_def scan_strings_string)

lemma parse_string_set_scan:
  assumes "a \<noteq> 0" and "bs \<noteq> []"
  shows "parse_string_set (a # bs) = scan_strings [] (a # bs)"
  using assms by (cases bs) simp_all

lemma parse_string_set_string_set:
  assumes "strs_wf ss"
  shows "parse_string_set (string_set ss @ rest) = Some (ss, rest)"
proof (cases ss)
  case Nil
  then show ?thesis by (simp add: string_set_def)
next
  case (Cons s ss')
  then obtain a s' where s: "s = a # s'" "a \<noteq> 0"
    using assms by (cases s) auto
  then obtain bs where bs: "cstrings ss @ 0 # rest = a # bs" "bs \<noteq> []"
    using Cons by (simp add: cstrings_def)
  show ?thesis
    using Cons scan_cstrings [OF assms, of rest] parse_string_set_scan [OF s(2) bs(2)] bs(1)
    by (simp add: string_set_def)
qed

lemma decode_header_append:
  "4 \<le> length xs \<Longrightarrow> decode_header (xs @ ys) = decode_header xs"
  by (auto simp: decode_header_def nth_append)

lemma parse_struct_bytes:
  assumes "struct_wf x"
  shows "parse_structs (struct_bytes x @ rest) = map_option ((#) x) (parse_structs rest)"
proof -
  define bs where "bs = struct_bytes x @ rest"
  have wf: "4 \<le> length (sfmt x)" "unat (hdr_length (decode_header (sfmt x))) = length (sfmt x)"
    "strs_wf (sstrs x)"
    using assms by (auto simp: struct_wf_def sizeof_header_def)
  have hdr: "decode_header bs = decode_header (sfmt x)"
    using wf(1) by (simp add: bs_def struct_bytes_def decode_header_append)
  have "parse_string_set (drop (length (sfmt x)) bs) = Some (sstrs x, rest)"
    using wf(3) by (simp add: bs_def struct_bytes_def parse_string_set_string_set)
  moreover have "bs \<noteq> []" "\<not> length bs < sizeof_header"
    using wf(1) by (auto simp: bs_def struct_bytes_def sizeof_header_def)
  moreover have "take (length (sfmt x)) bs = sfmt x" "\<not> length bs < length (sfmt x)"
    by (simp_all add: bs_def struct_bytes_def)
  ultimately have "parse_structs bs =
      map_option (\<lambda>xs. \<lparr>sfmt = sfmt x, sstrs = sstrs x\<rparr> # xs) (parse_structs rest)"
    using wf by (subst parse_structs.simps) (simp add: hdr sizeof_header_def)
  then show ?thesis by (cases x) (simp add: bs_def)
qed

lemma parse_structs_concat:
  assumes "\<forall>x \<in> set xs. struct_wf x"
  shows "parse_structs (concat (map struct_bytes xs)) = Some xs"
  using assms
proof (induction xs)
  case Nil
  show ?case by (simp add: parse_structs.simps)
next
  case (Cons x xs)
  then show ?case by (simp add: parse_struct_bytes)
qed

section \<open>Writing what was read\<close>

lemma scan_strings_inv:
  "scan_strings cur bs = Some (ss, rest) \<Longrightarrow> 0 \<notin> set cur \<Longrightarrow>
   strs_wf ss \<and> cur @ bs = cstrings ss @ 0 # rest"
proof (induction cur bs arbitrary: ss rule: scan_strings.induct)
  case (1 cur)
  then show ?case by simp
next
  case (2 cur b bs)
  consider "b \<noteq> 0" | "b = 0" "cur = []" | "b = 0" "cur \<noteq> []" by blast
  then show ?case
  proof cases
    case 1
    with 2 show ?thesis by simp
  next
    case 2
    with "2.prems" show ?thesis by (simp add: cstrings_def)
  next
    case 3
    with "2.prems" obtain ss' where ss': "ss = cur # ss'" "scan_strings [] bs = Some (ss', rest)"
      by auto
    with "2.IH"(2) 3 have "strs_wf ss' \<and> bs = cstrings ss' @ 0 # rest" by simp
    with ss' 3 "2.prems"(2) show ?thesis by (simp add: cstrings_def)
  qed
qed

lemma parse_string_set_inv:
  assumes "parse_string_set bs = Some (ss, rest)"
  shows "strs_wf ss \<and> bs = string_set ss @ rest"
proof (cases bs rule: parse_string_set.cases)
  case (1 a b r)
  show ?thesis
  proof (cases "a = 0")
    case True
    with 1 assms show ?thesis by (auto simp: string_set_def split: if_splits)
  next
    case False
    with 1 assms have "scan_strings [] bs = Some (ss, rest)" by simp
    from scan_strings_inv [OF this] have "strs_wf ss" "bs = cstrings ss @ 0 # rest" by auto
    moreover have "ss \<noteq> []" using 1 False calculation(2) by (auto simp: cstrings_def)
    ultimately show ?thesis by (simp add: string_set_def)
  qed
qed (use assms in auto)

lemma parse_structs_inv:
  "parse_structs bs = Some xs \<Longrightarrow>
   bs = concat (map struct_bytes xs) \<and> (\<forall>x \<in> set xs. struct_wf x)"
proof (induction bs arbitrary: xs rule: parse_structs.induct)
  case (1 bs)
  show ?case
  proof (cases "bs = []")
    case True
    with 1(2) show ?thesis by (simp add: parse_structs.simps)
  next
    case False
    define len where "len = unat (hdr_length (decode_header bs))"
    from False 1(2) obtain ss rest ys where
      h: "\<not> length bs < sizeof_header" "\<not> (len < sizeof_header \<or> length bs < len)"
      and p: "parse_string_set (drop len bs) = Some (ss, rest)"
      and r: "parse_structs rest = Some ys" "xs = \<lparr>sfmt = take len bs, sstrs = ss\<rparr> # ys"
      by (subst (asm) parse_structs.simps)
        (auto simp: Let_def len_def split: if_splits option.splits)
    from "1.IH" [OF False h(1) len_def h(2) p refl r(1)]
    have ys: "rest = concat (map struct_bytes ys)" "\<forall>x \<in> set ys. struct_wf x" by auto
    from parse_string_set_inv [OF p] have ss: "strs_wf ss" "drop len bs = string_set ss @ rest"
      by auto
    have "decode_header (take len bs) = decode_header bs"
      using h(2) by (metis append_take_drop_id decode_header_append length_take linorder_not_less
          min.absorb2 sizeof_header_def)
    with h(2) ss(1) have "struct_wf \<lparr>sfmt = take len bs, sstrs = ss\<rparr>"
      by (simp add: struct_wf_def len_def)
    moreover have "bs = take len bs @ string_set ss @ rest"
      using ss(2) by (metis append_take_drop_id)
    moreover have "concat (map struct_bytes xs) = take len bs @ string_set ss @ rest"
      by (simp add: r(2) ys(1) struct_bytes_def)
    ultimately show ?thesis
      using r(2) ys(2) by (metis (no_types, lifting) set_ConsD)
  qed
qed

text \<open>
  The reader and the writer are inverse: a list of well-formed structures is read back
  from its image, and whatever the reader accepts is the image of well-formed structures.
\<close>

theorem parse_structs_roundtrip:
  "parse_structs bs = Some xs \<longleftrightarrow>
     bs = concat (map struct_bytes xs) \<and> (\<forall>x \<in> set xs. struct_wf x)"
  using parse_structs_concat parse_structs_inv by blast

end
