(* ===== verification/Smbios_Emits.thy ===== *)
theory Smbios_Emits
  imports Smbios_Get Smbios_Parse
begin

text \<open>
  What each builder adds to the tables, as the list of the types and handles of its
  structures. \<open>emits\<close> is the relation between the states before and after, \<open>emitsP\<close> and
  \<open>emitsR\<close> say it of a step from any state with a given configuration, so that steps
  compose by appending their lists.
\<close>

section \<open>Steps\<close>

type_synonym struct_ids = "(u8 \<times> u16) list"

definition struct_id :: "smbios_struct \<Rightarrow> u8 \<times> u16" where
  "struct_id x = (struct_type x, struct_handle x)"

definition type4_ids :: "struct_ids \<Rightarrow> nat" where
  "type4_ids ids = length (filter (\<lambda>i. fst i = 4) ids)"

definition emits :: "smbios \<Rightarrow> smbios \<Rightarrow> struct_ids \<Rightarrow> bool" where
  "emits s s' ids \<longleftrightarrow>
     (\<exists>xs. appends s s' xs \<and> map struct_id xs = ids) \<and>
     smbios_type4_count s' = smbios_type4_count s + type4_ids ids"

definition emitsP :: "smbios_config \<Rightarrow> (smbios \<Rightarrow> smbios) \<Rightarrow> struct_ids \<Rightarrow> bool" where
  "emitsP c f ids \<longleftrightarrow> (\<forall>s. smbios_config.truncate s = c \<longrightarrow> emits s (f s) ids)"

definition emitsR :: "smbios_config \<Rightarrow> (smbios \<Rightarrow> crash + smbios) \<Rightarrow> struct_ids \<Rightarrow> bool" where
  "emitsR c f ids \<longleftrightarrow>
     (\<forall>s s'. smbios_config.truncate s = c \<longrightarrow> f s = Inr s' \<longrightarrow> emits s s' ids)"

lemma type4_ids_simps [simp]:
  "type4_ids [] = 0" "type4_ids (xs @ ys) = type4_ids xs + type4_ids ys"
  "type4_ids ((t, h) # xs) = (if t = 4 then 1 else 0) + type4_ids xs"
  by (simp_all add: type4_ids_def)

lemma emits_refl: "emits s s []"
  by (auto simp: emits_def intro: appends_refl)

lemma emits_trans: "emits s t xs \<Longrightarrow> emits t u ys \<Longrightarrow> emits s u (xs @ ys)"
  unfolding emits_def by (auto dest: appends_trans)

lemma emits_truncate:
  "emits s t xs \<Longrightarrow> smbios_config.truncate t = smbios_config.truncate s"
  by (auto simp: emits_def appends_def)

lemma emitsPD: "emitsP c f ids \<Longrightarrow> smbios_config.truncate s = c \<Longrightarrow> emits s (f s) ids"
  by (simp add: emitsP_def)

lemma emitsRD:
  "emitsR c f ids \<Longrightarrow> smbios_config.truncate s = c \<Longrightarrow> f s = Inr s' \<Longrightarrow> emits s s' ids"
  by (simp add: emitsR_def)

lemma emits_step:
  "emits s t xs \<Longrightarrow> smbios_config.truncate s = c \<Longrightarrow> emitsP c f ys \<Longrightarrow> emits s (f t) (xs @ ys)"
  using emits_trans emitsPD emits_truncate by metis

lemma emits_stepR:
  "emits s t xs \<Longrightarrow> smbios_config.truncate s = c \<Longrightarrow> emitsR c f ys \<Longrightarrow> f t = Inr u \<Longrightarrow>
   emits s u (xs @ ys)"
  using emits_trans emitsRD emits_truncate by metis

lemma emitsR_Inr: "emitsP c f ids \<Longrightarrow> emitsR c (\<lambda>s. Inr (f s)) ids"
  by (simp add: emitsP_def emitsR_def)

lemma emitsR_bind: "emitsR c f xs \<Longrightarrow> emitsR c g ys \<Longrightarrow> emitsR c (\<lambda>s. bindR (f s) g) (xs @ ys)"
  unfolding emitsR_def using emits_trans emits_truncate by (auto; metis)

lemma emitsR_forR:
  "(\<And>i. i \<in> set is \<Longrightarrow> emitsR c (f i) (ids i)) \<Longrightarrow>
   emitsR c (forR is f) (concat (map ids is))"
proof (induction "is")
  case Nil
  show ?case by (simp add: emitsR_def emits_refl)
next
  case (Cons i "is")
  then show ?case using emitsR_bind [of c "f i" "ids i" "forR is f"] by simp
qed

section \<open>One table\<close>

definition id_if :: "smbios_config \<Rightarrow> u8 \<Rightarrow> bool \<Rightarrow> nat \<Rightarrow> struct_ids" where
  "id_if c ty req h = (if smbios_skip_table c ty req then [] else [(ty, of_nat h)])"

lemma type4_count_set_tables [simp]:
  "smbios_type4_count (set_tables tabs s) = smbios_type4_count s"
  by (simp add: set_tables_def split: prod.split)

lemma type11_set_tables [simp]: "type11_values (set_tables tabs s) = type11_values s"
  by (simp add: set_tables_def split: prod.split)

lemma build_table_frame [simp]:
  "smbios_type4_count (build_table m ty h req len body s) = smbios_type4_count s"
  "type11_values (build_table m ty h req len body s) = type11_values s"
  by (simp_all add: build_table_def split: option.split prod.split)

lemma emits_build_table:
  assumes "smbios_build_contract m" and "body_wf (new_header ty h len) len (body (new_header ty h len))"
    and "4 \<le> len" and "len < 256" and "ty \<noteq> 4"
  shows "emits s (build_table m ty h req len body s) (id_if (smbios_config.truncate s) ty req h)"
proof -
  have "map struct_id (built s ty h req len body) = id_if (smbios_config.truncate s) ty req h"
    using body_wf_struct [where len = len and h = h and ty = ty, OF assms(2-4)]
    by (simp add: built_def id_if_def struct_id_def)
  moreover have "type4_ids (id_if (smbios_config.truncate s) ty req h) = 0"
    using assms(5) by (simp add: id_if_def)
  ultimately show ?thesis
    using build_table_appends [where body = body and ty = ty and h = h and len = len and s = s
        and req = req, OF assms(1-4)] unfolding emits_def by auto
qed

text \<open>Assignments to the scratch statics do not matter.\<close>

lemma emits_scratch:
  "emits (s\<lparr>type7_socket_designation := d\<rparr>) t ids = emits s t ids"
  "emits (s\<lparr>type26_description := d\<rparr>) t ids = emits s t ids"
  "emits (s\<lparr>type27_description := d\<rparr>) t ids = emits s t ids"
  "emits (s\<lparr>type28_description := d\<rparr>) t ids = emits s t ids"
  "emits (s\<lparr>type11_values := vs\<rparr>) t ids = emits s t ids"
  by (simp_all add: emits_def appends_def smbios_tables_of_def smbios_config.defs)

section \<open>Builders without an early return\<close>

lemma emits_system:
  assumes "smbios_build_contract m" and "strings_ok c"
  shows "emitsP c (smbios_build_type_0_table m r0) (id_if c 0 False T0_BASE)"
    "emitsP c (smbios_build_type_1_table m r1) (id_if c 1 True T1_BASE)"
    "emitsP c (smbios_build_type_2_table m r2) (id_if c 2 True T2_BASE)"
    "emitsP c (smbios_build_type_3_table m r3) (id_if c 3 True T3_BASE)"
  unfolding emitsP_def smbios_build_type_0_table_def smbios_build_type_1_table_def
    smbios_build_type_2_table_def smbios_build_type_3_table_def
  using assms
  by (auto intro!: emits_build_table simp: type_0_fields_wf type_1_fields_wf type_2_fields_wf
      type_3_fields_wf)

end
