(* ===== verification/Smbios_Emits_Hw.thy ===== *)
theory Smbios_Emits_Hw
  imports Smbios_Emits
begin

text \<open>
  The structures added by the builders of the processor, cache and memory tables, and by the
  fixed tables after them.
\<close>

section \<open>Type 4\<close>

lemma type_4_fields_wf:
  assumes "smbios_build_contract m" and "strings_ok s" and "type_4_fields m ms raw s hdr = (t, ss)"
  shows "t4_header t = hdr" "strs_wf ss"
    "t4_core_count t = 0xFF \<longleftrightarrow> 255 \<le> cores_per_socket ms"
    "t4_thread_count t = 0xFF \<longleftrightarrow> 255 \<le> threads_per_socket ms"
proof -
  have count: "(if n > 255 then 0xFF else ucast n) = (0xFF :: u8) \<longleftrightarrow> 255 \<le> n" for n :: u32
  proof (cases "n > 255")
    case False
    then have "unat n < 256" by (simp add: word_less_nat_alt word_le_nat_alt)
    then have "unat (ucast n :: u8) = unat n" by (simp add: unsigned_ucast_eq take_bit_eq_mod)
    then have "ucast n = (0xFF :: u8) \<longleftrightarrow> unat n = 255" by (simp add: word_unat_eq_iff)
    also have "\<dots> \<longleftrightarrow> 255 \<le> n"
      using \<open>unat n < 256\<close> by (auto simp: word_le_nat_alt)
    finally show ?thesis using False by simp
  qed auto
  have c: "t4_core_count t = (if cores_per_socket ms > 255 then 0xFF else ucast (cores_per_socket ms))"
    "t4_thread_count t = (if threads_per_socket ms > 255 then 0xFF else ucast (threads_per_socket ms))"
    "t4_header t = hdr" "ss = snd (type_4_fields m ms raw s hdr)"
    using assms(1,3)
    by (clarsimp simp: type_4_fields_def build_contract_simps Let_def)+
  show "t4_header t = hdr" by (rule c(3))
  show "strs_wf ss"
    unfolding c(4) using assms(1,2)
    by (simp add: type_4_fields_def build_contract_simps Let_def strings_ok_def zero_in_str_bytes
        nul_free_def)
  show "t4_core_count t = 0xFF \<longleftrightarrow> 255 \<le> cores_per_socket ms"
    unfolding c(1) by (rule count)
  show "t4_thread_count t = 0xFF \<longleftrightarrow> 255 \<le> threads_per_socket ms"
    unfolding c(2) by (rule count)
qed

lemma emits_count:
  "emits s (s'\<lparr>smbios_type4_count := n\<rparr>) ids \<longleftrightarrow>
     (\<exists>xs. appends s s' xs \<and> map struct_id xs = ids) \<and> n = smbios_type4_count s + type4_ids ids"
  by (auto simp: emits_def appends_def smbios_tables_of_def smbios_config.defs)

lemma type_4_len_cases:
  "4 \<le> type_4_len e" "type_4_len e < 256" "type_4_len e \<le> 48"
  by (simp_all add: type_4_len_def SMBIOS_TYPE_4_LEN_V28_def SMBIOS_TYPE_4_LEN_V30_def)

lemma emits_type_4:
  assumes "smbios_build_contract m" and "strings_ok s"
    and "smbios_build_type_4_table m ms raw i ep_type s = (s', None)"
  shows "emits s s' (id_if (smbios_config.truncate s) 4 True (T4_BASE + i))"
proof (cases "smbios_skip_table s 4 True")
  case True
  with assms show ?thesis
    by (auto simp: smbios_build_type_4_table_def build_contract_simps id_if_def emits_refl)
next
  case False
  let ?len = "type_4_len ep_type"
  let ?h = "new_header 4 (T4_BASE + i) ?len"
  obtain t ss where f: "type_4_fields m ms raw s ?h = (t, ss)" by force
  note wf = type_4_fields_wf [OF assms(1,2) f]
  let ?t = "if ?len = SMBIOS_TYPE_4_LEN_V30
    then t\<lparr>t4_core_enabled2 := ucast (cores_per_socket ms),
           t4_core_count2 := ucast (cores_per_socket ms),
           t4_thread_count2 := ucast (threads_per_socket ms)\<rparr> else t"
  have "t4_header ?t = ?h \<and>
      s' = set_tables (append_struct (struct_of (take ?len (encode_type_4 ?t), ss))
             (smbios_tables_of s)) s\<lparr>smbios_type4_count := smbios_type4_count s + 1\<rparr>"
    using False assms(1,3) f wf(1)
    by (auto simp: smbios_build_type_4_table_def build_contract_simps new_header_def struct_of_def
        Let_def split: if_splits)
  then obtain t' where t': "t4_header t' = ?h"
    and s': "s' = set_tables (append_struct (struct_of (take ?len (encode_type_4 t'), ss))
             (smbios_tables_of s)) s\<lparr>smbios_type4_count := smbios_type4_count s + 1\<rparr>" by blast
  have "body_wf ?h ?len (take ?len (encode_type_4 t'), ss)"
    using type_4_len_cases [of ep_type] t' wf(2)
    by (simp add: body_wf_def take_header_encode min_def)
  note b = body_wf_struct [OF this type_4_len_cases(1,2)]
  let ?x = "struct_of (take ?len (encode_type_4 t'), ss)"
  have "appends s (set_tables (append_struct ?x (smbios_tables_of s)) s) [?x]"
    using b(1) by (simp add: appends_def)
  then show ?thesis
    using b(2,3) False unfolding s' emits_count
    by (intro conjI exI [of _ "[?x]"]) (simp_all add: id_if_def struct_id_def)
qed

lemma type_4_error_iff:
  assumes "smbios_build_contract m" and "strings_ok s" and "ep_type \<noteq> SMBIOS_ENTRY_POINT_TYPE_AUTO"
  shows "snd (smbios_build_type_4_table m ms raw i ep_type s) \<noteq> None \<longleftrightarrow>
     \<not> smbios_skip_table s 4 True \<and> ep_type = SMBIOS_ENTRY_POINT_TYPE_32 \<and>
     (255 \<le> cores_per_socket ms \<or> 255 \<le> threads_per_socket ms)"
proof -
  obtain t ss where f: "type_4_fields m ms raw s (new_header 4 (T4_BASE + i) (type_4_len ep_type))
      = (t, ss)" by force
  note wf = type_4_fields_wf(3,4) [OF assms(1,2) f]
  from f wf assms(1,3) show ?thesis
    by (cases ep_type)
      (auto simp: smbios_build_type_4_table_def build_contract_simps new_header_def type_4_len_def
        SMBIOS_TYPE_4_LEN_V28_def SMBIOS_TYPE_4_LEN_V30_def Let_def)
qed

lemma type_4_type11:
  "type11_values (fst (smbios_build_type_4_table m ms raw i ep_type s)) = type11_values s"
  by (auto simp: smbios_build_type_4_table_def Let_def split: option.split prod.split)

section \<open>Well-formed bodies\<close>

lemma type_7_fields_wf:
  assumes "smbios_build_contract m" and "opt_nul_free (type7_socket_designation s)"
  shows "body_wf hdr 19 (type_7_fields m raw a b c d e s hdr)"
  using assms
  by (simp add: type_7_fields_def build_contract_simps body_wf_def take_header_encode Let_def)

lemma type_16_fields_wf: "body_wf hdr 23 (type_16_fields al ms raw n hdr)"
  by (simp add: type_16_fields_def body_wf_def take_header_encode Let_def)

lemma type_17_fields_wf:
  assumes "smbios_build_contract m" and "strings_ok s"
  shows "body_wf hdr 40 (type_17_fields m al raw sz s hdr)"
  using assms
  by (simp add: type_17_fields_def build_contract_simps body_wf_def take_header_encode Let_def
      zero_in_str_bytes nul_free_def strings_ok_def)

lemma type_19_fields_wf: "body_wf hdr 31 (type_19_fields raw a b hdr)"
  by (simp add: type_19_fields_def body_wf_def take_header_encode Let_def)

lemma type_20_fields_wf: "body_wf hdr 19 (type_20_fields raw a b hdr)"
  by (simp add: type_20_fields_def body_wf_def take_header_encode Let_def)

lemma type_22_fields_wf:
  assumes "smbios_build_contract m"
  shows "body_wf hdr 26 (type_22_fields m raw hdr)"
  using assms
  by (simp add: type_22_fields_def build_contract_simps body_wf_def take_header_encode Let_def
      zero_in_str_bytes nul_free_def)

lemma type_26_fields_wf:
  assumes "smbios_build_contract m" and "opt_nul_free (type26_description s)"
  shows "body_wf hdr 22 (type_26_fields m raw a s hdr)"
  using assms
  by (simp add: type_26_fields_def build_contract_simps body_wf_def take_header_encode Let_def)

lemma type_27_fields_wf:
  assumes "smbios_build_contract m" and "opt_nul_free (type27_description s)"
  shows "body_wf hdr 15 (type_27_fields m raw a s hdr)"
  using assms
  by (simp add: type_27_fields_def build_contract_simps body_wf_def take_header_encode Let_def)

lemma type_28_fields_wf:
  assumes "smbios_build_contract m" and "opt_nul_free (type28_description s)"
  shows "body_wf hdr 22 (type_28_fields m raw a s hdr)"
  using assms
  by (simp add: type_28_fields_def build_contract_simps body_wf_def take_header_encode Let_def)

lemma type_29_fields_wf:
  assumes "smbios_build_contract m"
  shows "body_wf hdr 5 (type_29_fields m raw hdr)"
  using assms
  by (simp add: type_29_fields_def build_contract_simps body_wf_def take_header_encode Let_def
      zero_in_str_bytes nul_free_def)

lemma type_32_fields_wf: "body_wf hdr 11 (type_32_fields raw hdr)"
  by (simp add: type_32_fields_def body_wf_def take_header_encode)

lemma type_39_fields_wf:
  assumes "smbios_build_contract m"
  shows "body_wf hdr 5 (type_39_fields m raw hdr)"
  using assms
  by (simp add: type_39_fields_def build_contract_simps body_wf_def take_header_encode Let_def
      zero_in_str_bytes nul_free_def)

section \<open>What the builders emit\<close>

lemma emitsP_7:
  assumes "smbios_build_contract m" and "opt_nul_free d"
  shows "emitsP c (smbios_build_type_7_table m raw i d a b e f g) (id_if c 7 True (T7_BASE + i))"
  unfolding emitsP_def
proof (intro allI impI)
  fix s :: smbios
  assume "smbios_config.truncate s = c"
  then have "smbios_config.truncate (s\<lparr>type7_socket_designation := d\<rparr>) = c"
    by (simp add: smbios_config.defs)
  with assms have "emits (s\<lparr>type7_socket_designation := d\<rparr>)
      (smbios_build_type_7_table m raw i d a b e f g s) (id_if c 7 True (T7_BASE + i))"
    unfolding smbios_build_type_7_table_def Let_def
    using emits_build_table [OF assms(1), where ty = 7 and len = 19]
      type_7_fields_wf [OF assms(1)] by force
  then show "emits s (smbios_build_type_7_table m raw i d a b e f g s) (id_if c 7 True (T7_BASE + i))"
    by (simp add: emits_scratch)
qed

lemma emitsP_16:
  "smbios_build_contract m \<Longrightarrow>
   emitsP c (smbios_build_type_16_table m al ms raw n) (id_if c 16 True T16_BASE)"
  unfolding emitsP_def smbios_build_type_16_table_def
  using emits_build_table [where m = m and ty = 16 and len = 23] type_16_fields_wf by force

lemma emitsP_22:
  "smbios_build_contract m \<Longrightarrow>
   emitsP c (smbios_build_type_22_table m raw) (id_if c 22 True T22_BASE)"
  unfolding emitsP_def smbios_build_type_22_table_def
  using emits_build_table [where m = m and ty = 22 and len = 26] type_22_fields_wf by force

lemma emitsP_26:
  assumes "smbios_build_contract m" and "opt_nul_free d"
  shows "emitsP c (smbios_build_type_26_table m raw i d a) (id_if c 26 True (T26_BASE + i))"
  unfolding emitsP_def
proof (intro allI impI)
  fix s :: smbios
  assume "smbios_config.truncate s = c"
  then have "smbios_config.truncate (s\<lparr>type26_description := d\<rparr>) = c"
    by (simp add: smbios_config.defs)
  with assms have "emits (s\<lparr>type26_description := d\<rparr>)
      (smbios_build_type_26_table m raw i d a s) (id_if c 26 True (T26_BASE + i))"
    unfolding smbios_build_type_26_table_def Let_def
    using emits_build_table [OF assms(1), where ty = 26 and len = 22]
      type_26_fields_wf [OF assms(1)] by force
  then show "emits s (smbios_build_type_26_table m raw i d a s) (id_if c 26 True (T26_BASE + i))"
    by (simp add: emits_scratch)
qed

lemma emitsP_27:
  assumes "smbios_build_contract m" and "opt_nul_free d"
  shows "emitsP c (smbios_build_type_27_table m raw i d a) (id_if c 27 True (T27_BASE + i))"
  unfolding emitsP_def
proof (intro allI impI)
  fix s :: smbios
  assume "smbios_config.truncate s = c"
  then have "smbios_config.truncate (s\<lparr>type27_description := d\<rparr>) = c"
    by (simp add: smbios_config.defs)
  with assms have "emits (s\<lparr>type27_description := d\<rparr>)
      (smbios_build_type_27_table m raw i d a s) (id_if c 27 True (T27_BASE + i))"
    unfolding smbios_build_type_27_table_def Let_def
    using emits_build_table [OF assms(1), where ty = 27 and len = 15]
      type_27_fields_wf [OF assms(1)] by force
  then show "emits s (smbios_build_type_27_table m raw i d a s) (id_if c 27 True (T27_BASE + i))"
    by (simp add: emits_scratch)
qed

lemma emitsP_28:
  assumes "smbios_build_contract m" and "opt_nul_free d"
  shows "emitsP c (smbios_build_type_28_table m raw i d a) (id_if c 28 True (T28_BASE + i))"
  unfolding emitsP_def
proof (intro allI impI)
  fix s :: smbios
  assume "smbios_config.truncate s = c"
  then have "smbios_config.truncate (s\<lparr>type28_description := d\<rparr>) = c"
    by (simp add: smbios_config.defs)
  with assms have "emits (s\<lparr>type28_description := d\<rparr>)
      (smbios_build_type_28_table m raw i d a s) (id_if c 28 True (T28_BASE + i))"
    unfolding smbios_build_type_28_table_def Let_def
    using emits_build_table [OF assms(1), where ty = 28 and len = 22]
      type_28_fields_wf [OF assms(1)] by force
  then show "emits s (smbios_build_type_28_table m raw i d a s) (id_if c 28 True (T28_BASE + i))"
    by (simp add: emits_scratch)
qed

lemma emitsP_29:
  "smbios_build_contract m \<Longrightarrow>
   emitsP c (smbios_build_type_29_table m raw) (id_if c 29 True T29_BASE)"
  unfolding emitsP_def smbios_build_type_29_table_def
  using emits_build_table [where m = m and ty = 29 and len = 5] type_29_fields_wf by force

lemma emitsP_32:
  "smbios_build_contract m \<Longrightarrow>
   emitsP c (smbios_build_type_32_table m raw) (id_if c 32 True T32_BASE)"
  unfolding emitsP_def smbios_build_type_32_table_def
  using emits_build_table [where m = m and ty = 32 and len = 11] type_32_fields_wf by force

lemma emitsP_37:
  "smbios_build_contract m \<Longrightarrow>
   emitsP c (smbios_build_type_37_table m raw) (id_if c 37 True T37_BASE)"
  unfolding emitsP_def smbios_build_type_37_table_def
  using emits_build_table [where m = m and ty = 37 and len = 4
      and body = "\<lambda>hdr. (encode_type_37 (raw\<lparr>t37_header := hdr\<rparr>), [])"]
  by (auto simp: body_wf_def take_header_encode)

lemma emitsP_39:
  "smbios_build_contract m \<Longrightarrow>
   emitsP c (smbios_build_type_39_table m raw) (id_if c 39 True T39_BASE)"
  unfolding emitsP_def smbios_build_type_39_table_def
  using emits_build_table [where m = m and ty = 39 and len = 5] type_39_fields_wf by force

lemma emitsP_127:
  "smbios_build_contract m \<Longrightarrow>
   emitsP c (smbios_build_type_127_table m raw) (id_if c 127 True T127_BASE)"
  unfolding emitsP_def smbios_build_type_127_table_def
  using emits_build_table [where m = m and ty = 127 and len = 4
      and body = "\<lambda>hdr. (encode_type_127 (raw\<lparr>t127_header := hdr\<rparr>), [])"]
  by (auto simp: body_wf_def take_header_encode)

lemma emitsR_17:
  assumes "smbios_build_contract m" and "strings_ok c"
  shows "emitsR c (smbios_build_type_17_table m al raw i sz) (id_if c 17 True (T17_BASE + i))"
  unfolding emitsR_def smbios_build_type_17_table_def Let_def
proof (intro allI impI)
  fix s s' assume *: "smbios_config.truncate s = c"
    "build_table_assert m 17 (T17_BASE + i) True (length (encode_type_17 raw))
       (al sz MiB div MiB < MAX_T17_STD_SZ \<or> al sz MiB div MiB < MAX_T17_EXT_SZ)
       (type_17_fields m al raw sz s) s = Inr s'"
  then have "strings_ok s" using assms(2) by auto
  with * show "emits s s' (id_if c 17 True (T17_BASE + i))"
    using emits_build_table [OF assms(1), where ty = 17 and len = 40] type_17_fields_wf [OF assms(1)]
    by (auto simp: build_table_assert_eq [OF assms(1)] split: if_splits)
qed

lemma emitsR_19:
  assumes "smbios_build_contract m"
  shows "emitsR c (smbios_build_type_19_table m raw i off a sz)
    (id_if c 19 True (T19_BASE + off + i))"
  unfolding emitsR_def smbios_build_type_19_table_def
  using emits_build_table [OF assms, where ty = 19 and len = 31] type_19_fields_wf
  by (auto simp: build_table_assert_eq [OF assms] split: if_splits)

lemma emitsR_20:
  assumes "smbios_build_contract m"
  shows "emitsR c (smbios_build_type_20_table m raw a sz) (id_if c 20 True T20_BASE)"
  unfolding emitsR_def smbios_build_type_20_table_def Let_def
  using emits_build_table [OF assms, where ty = 20 and len = 19] type_20_fields_wf
  by (auto split: if_splits)

end
