(* ===== verification/Smbios_Emits_Misc.thy ===== *)
theory Smbios_Emits_Misc
  imports Smbios_Emits_Hw
begin

text \<open>
  The structures added by the builders that loop over configured instances (types 8, 9 and
  41) and by the OEM strings (type 11), and by the groups of tables of
  \<open>smbios_get_tables_ep\<close>.
\<close>

section \<open>Loops over instances\<close>

definition ids_from :: "smbios_config \<Rightarrow> u8 \<Rightarrow> nat \<Rightarrow> nat \<Rightarrow> nat \<Rightarrow> struct_ids" where
  "ids_from c ty base k n = concat (map (\<lambda>i. id_if c ty True (base + i)) [k..<k + n])"

lemma ids_from_simps [simp]:
  "ids_from c ty base k 0 = []"
  "ids_from c ty base k (Suc n) = id_if c ty True (base + k) @ ids_from c ty base (Suc k) n"
  by (simp_all add: ids_from_def upt_conv_Cons del: upt_Suc)

lemma ids_from_skip: "smbios_skip_table c ty True \<Longrightarrow> ids_from c ty base k n = []"
  by (induction n arbitrary: k) (simp_all add: id_if_def)

text \<open>One iteration: a structure that was opened and closed.\<close>

lemma emits_close:
  assumes "body_wf (new_header ty h len) len p" and "4 \<le> len" and "len < 256" and "ty \<noteq> 4"
    and "\<not> smbios_skip_table s ty True"
  shows "emits s (set_tables (append_struct \<lparr>sfmt = fst p, sstrs = snd p\<rparr> (smbios_tables_of s)) s)
     (id_if (smbios_config.truncate s) ty True h)"
proof -
  note b = body_wf_struct [OF assms(1-3)]
  have "appends s (set_tables (append_struct (struct_of p) (smbios_tables_of s)) s) [struct_of p]"
    using b(1) by (simp add: appends_def)
  then show ?thesis
    using b(2,3) assms(4,5) unfolding emits_def
    by (auto intro!: exI [of _ "[struct_of p]"] simp: id_if_def struct_id_def struct_of_def)
qed

lemma type_8_fields_wf:
  assumes "smbios_build_contract m"
  shows "body_wf hdr 9 (type_8_fields m raw hdr)"
  using assms
  by (simp add: type_8_fields_def build_contract_simps body_wf_def take_header_encode Let_def
      zero_in_str_bytes nul_free_def)

lemma emits_type_8_loop:
  assumes "smbios_build_contract m"
  shows "emits s (type_8_loop m raw ts k s)
    (ids_from (smbios_config.truncate s) 8 T0_BASE k (length ts))"
proof (induction ts arbitrary: k s)
  case Nil
  show ?case by (simp add: emits_refl)
next
  case (Cons t ts)
  show ?case
  proof (cases "smbios_skip_table s 8 True")
    case True
    with assms show ?thesis
      by (simp add: build_contract_simps ids_from_skip emits_refl id_if_def)
  next
    case False
    let ?h = "new_header 8 (T0_BASE + k) 9"
    obtain fmt ss where p: "type_8_fields m (raw k) ?h = (fmt, ss)" by force
    let ?s = "set_tables (append_struct \<lparr>sfmt = fmt, sstrs = ss\<rparr> (smbios_tables_of s)) s"
    have "emits s ?s (id_if (smbios_config.truncate s) 8 True (T0_BASE + k))"
      using emits_close [where ty = 8 and h = "T0_BASE + k" and len = 9 and s = s
          and p = "(fmt, ss)"] type_8_fields_wf [OF assms, of ?h "raw k"] p False by simp
    from emits_trans [OF this Cons.IH [of ?s "Suc k"]]
    show ?thesis
      using False p assms by (simp add: build_contract_simps new_header_def)
  qed
qed

lemma type_8_type11 [simp]: "type11_values (type_8_loop m raw ts k s) = type11_values s"
  by (induction ts arbitrary: k s) (simp_all split: option.split prod.split)

section \<open>Type 9\<close>

lemma type_9_fields_wf:
  assumes "smbios_build_contract m" and "opt_nul_free (i9_slot_designation t9)"
    and "type_9_fields m raw t9 hdr = (t, ss)"
  shows "t9_header t = hdr" "strs_wf ss"
  using assms by (auto simp: type_9_fields_def build_contract_simps Let_def)

lemma type_9_device_header: "type_9_device pci t9 t = Inr t' \<Longrightarrow> t9_header t' = t9_header t"
  by (auto simp: type_9_device_def split: option.splits if_splits)

lemma type_9_loop_sound:
  assumes "smbios_build_contract m"
  shows "\<forall>t \<in> set ts. opt_nul_free (i9_slot_designation t) \<Longrightarrow>
    type_9_loop m pci raw ts k None s = Inr (s', None) \<Longrightarrow>
    emits s s' (ids_from (smbios_config.truncate s) 9 T9_BASE k (length ts)) \<and>
    type11_values s' = type11_values s"
proof (induction ts arbitrary: k s)
  case Nil
  then show ?case by (simp add: emits_refl)
next
  case (Cons t9 ts)
  show ?case
  proof (cases "smbios_skip_table s 9 True")
    case True
    with assms Cons.prems show ?thesis
      by (simp add: build_contract_simps ids_from_skip emits_refl id_if_def)
  next
    case False
    let ?h = "new_header 9 (T9_BASE + k) 17"
    obtain t ss where p: "type_9_fields m (raw k) t9 ?h = (t, ss)" by force
    have wf: "t9_header t = ?h" "strs_wf ss"
      using type_9_fields_wf [OF assms _ p] Cons.prems(1) by auto
    let ?s = "\<lambda>t'. set_tables (append_struct \<lparr>sfmt = encode_type_9 t', sstrs = ss\<rparr>
      (smbios_tables_of s)) s"
    obtain t' where t': "type_9_device pci t9 t = Inr t'"
      and rest: "type_9_loop m pci raw ts (Suc k) None (?s t') = Inr (s', None)"
      using Cons.prems(2) False p assms
      by (auto simp: build_contract_simps new_header_def error_setg_def split: sum.splits)
    have "body_wf ?h 17 (encode_type_9 t', ss)"
      using wf type_9_device_header [OF t'] by (simp add: body_wf_def take_header_encode)
    then have "emits s (?s t') (id_if (smbios_config.truncate s) 9 True (T9_BASE + k))"
      using emits_close [where ty = 9 and h = "T9_BASE + k" and len = 17 and s = s
          and p = "(encode_type_9 t', ss)"] False by simp
    moreover from Cons.IH [OF _ rest] Cons.prems(1)
    have "emits (?s t') s' (ids_from (smbios_config.truncate s) 9 T9_BASE (Suc k) (length ts))"
      "type11_values s' = type11_values s" by simp_all
    ultimately show ?thesis using emits_trans by simp
  qed
qed

section \<open>Type 41\<close>

lemma type_41_fields_wf:
  assumes "smbios_build_contract m" and "opt_nul_free (i41_designation t41)"
    and "type_41_fields m raw t41 hdr = (t, ss)"
  shows "t41_header t = hdr" "strs_wf ss"
  using assms by (auto simp: type_41_fields_def build_contract_simps Let_def)

lemma type_41_device_header: "type_41_device pci t41 t = Inr t' \<Longrightarrow> t41_header t' = t41_header t"
  by (auto simp: type_41_device_def split: option.splits if_splits)

lemma type_41_loop_sound:
  assumes "smbios_build_contract m"
  shows "\<forall>t \<in> set ts. opt_nul_free (i41_designation t) \<Longrightarrow>
    type_41_loop m pci raw ts k errp s = Inr (s', None) \<Longrightarrow>
    emits s s' (ids_from (smbios_config.truncate s) 41 T41_BASE k (length ts)) \<and> errp = None"
proof (induction ts arbitrary: k s)
  case Nil
  then show ?case by (simp add: emits_refl)
next
  case (Cons t41 ts)
  show ?case
  proof (cases "smbios_skip_table s 41 True")
    case True
    with assms Cons.prems show ?thesis
      by (simp add: build_contract_simps ids_from_skip emits_refl id_if_def)
  next
    case False
    let ?h = "new_header 41 (T41_BASE + k) 11"
    obtain t ss where p: "type_41_fields m (raw k) t41 ?h = (t, ss)" by force
    have wf: "t41_header t = ?h" "strs_wf ss"
      using type_41_fields_wf [OF assms _ p] Cons.prems(1) by auto
    let ?s = "\<lambda>t'. set_tables (append_struct \<lparr>sfmt = encode_type_41 t', sstrs = ss\<rparr>
      (smbios_tables_of s)) s"
    obtain t' where t': "type_41_device pci t41 t = Inr t'"
      and rest: "type_41_loop m pci raw ts (Suc k) errp (?s t') = Inr (s', None)"
      using Cons.prems(2) False p assms
      by (auto simp: build_contract_simps new_header_def error_setg_def split: sum.splits option.splits)
    have "body_wf ?h 11 (encode_type_41 t', ss)"
      using wf type_41_device_header [OF t'] by (simp add: body_wf_def take_header_encode)
    then have "emits s (?s t') (id_if (smbios_config.truncate s) 41 True (T41_BASE + k))"
      using emits_close [where ty = 41 and h = "T41_BASE + k" and len = 11 and s = s
          and p = "(encode_type_41 t', ss)"] False by simp
    moreover from Cons.IH [OF _ rest] Cons.prems(1)
    have "emits (?s t') s' (ids_from (smbios_config.truncate s) 41 T41_BASE (Suc k) (length ts))"
      "errp = None" by simp_all
    ultimately show ?thesis using emits_trans by simp
  qed
qed

section \<open>Type 11\<close>

text \<open>What \<open>SMBIOS_TABLE_SET_STR_LIST\<close> needs of each buffer.\<close>

definition oem_value_ok :: "bytes option \<Rightarrow> bool" where
  "oem_value_ok v \<longleftrightarrow>
     (case v of None \<Rightarrow> False | Some b \<Rightarrow> 0 \<in> set b \<and> takeWhile (\<lambda>c. c \<noteq> 0) b \<noteq> [])"

definition oem_string :: "bytes option \<Rightarrow> bytes" where
  "oem_string v = takeWhile (\<lambda>c. c \<noteq> 0) (the v)"

lemma set_str_list_eq:
  assumes "smbios_build_contract m"
  shows "\<forall>v \<in> set vs. oem_value_ok v \<Longrightarrow> set_str_list m vs ss = ss @ map oem_string vs"
proof (induction vs arbitrary: ss)
  case (Cons v vs)
  then obtain b where b: "v = Some b" "0 \<in> set b" "takeWhile (\<lambda>c. c \<noteq> 0) b \<noteq> []"
    by (auto simp: oem_value_ok_def split: option.splits)
  let ?t = "takeWhile (\<lambda>c. c \<noteq> 0) b"
  have "dropWhile (\<lambda>c. c \<noteq> 0) b \<noteq> []" using b(2) by (auto simp: dropWhile_eq_Nil_conv)
  then obtain rest where "dropWhile (\<lambda>c. c \<noteq> 0) b = 0 # rest"
    by (metis (mono_tags, lifting) hd_dropWhile list.collapse)
  then have "b = ?t @ 0 # rest" by (metis takeWhile_dropWhile_id)
  moreover have "0 \<notin> set ?t" by (auto dest: set_takeWhileD)
  ultimately have "SMBIOS_TABLE_SET_STR_LIST m (Some b) ss = ss @ [?t]"
    using build_contract_simps(3) [OF assms b(3)] by metis
  with Cons b(1) show ?case by (simp add: oem_string_def)
qed simp

lemma oem_strings_wf: "\<forall>v \<in> set vs. oem_value_ok v \<Longrightarrow> strs_wf (map oem_string vs)"
  by (induction vs)
    (auto simp: oem_value_ok_def oem_string_def split: option.splits dest: set_takeWhileD)

lemma skip_scratch: "smbios_skip_table (s\<lparr>type11_values := vs\<rparr>) = smbios_skip_table s"
  by (simp add: smbios_skip_table_def fun_eq_iff)

lemma emits_type_11:
  assumes "smbios_build_contract m" and "\<forall>v \<in> set (type11_values s). oem_value_ok v"
  shows "emits s (smbios_build_type_11_table m raw s)
    (if type11_values s = [] then [] else id_if (smbios_config.truncate s) 11 True T11_BASE)"
proof (cases "type11_values s = [] \<or> smbios_skip_table s 11 True")
  case True
  with assms(1) show ?thesis
    by (auto simp: smbios_build_type_11_table_def build_contract_simps emits_refl id_if_def)
next
  case False
  let ?h = "new_header 11 T11_BASE 5"
  let ?p = "type_11_fields m raw (type11_values s) ?h"
  let ?t = "s\<lparr>type11_values := map (\<lambda>_. None) (type11_values s)\<rparr>"
  have "body_wf ?h 5 ?p"
    using set_str_list_eq [OF assms] oem_strings_wf [OF assms(2)]
    by (simp add: type_11_fields_def body_wf_def take_header_encode)
  then have "emits ?t (set_tables (append_struct \<lparr>sfmt = fst ?p, sstrs = snd ?p\<rparr>
      (smbios_tables_of ?t)) ?t) (id_if (smbios_config.truncate ?t) 11 True T11_BASE)"
    using False by (intro emits_close [where len = 5]) (auto simp: skip_scratch)
  then have "emits s (smbios_build_type_11_table m raw s)
      (id_if (smbios_config.truncate ?t) 11 True T11_BASE)"
    using False assms(1)
    by (simp add: smbios_build_type_11_table_def build_contract_simps new_header_def Let_def
        emits_scratch case_prod_beta)
  with False show ?thesis by (simp add: smbios_config.defs)
qed

section \<open>Groups of tables\<close>

lemma opt_nul_free_lits [simp]:
  "nul_free ''L1 Cache''" "nul_free ''L2 Cache''" "nul_free ''L3 Cache''" "nul_free ''LM78A''"
  "nul_free ''LM78A-1''" "nul_free ''CPU FAN''"
  by (simp_all add: nul_free_def)

lemma emitsP_trans: "emitsP c f xs \<Longrightarrow> emitsP c g ys \<Longrightarrow> emitsP c (\<lambda>s. g (f s)) (xs @ ys)"
  unfolding emitsP_def using emits_trans emits_truncate by metis

lemma emitsP_ids: "emitsP c f xs \<Longrightarrow> xs = ys \<Longrightarrow> emitsP c f ys"
  by simp

lemma emitsP_build_system:
  assumes "smbios_build_contract (build_macros p)" and "strings_ok c"
  shows "emitsP c (build_system p g)
    (id_if c 0 False T0_BASE @ id_if c 1 True T1_BASE @ id_if c 2 True T2_BASE @
     id_if c 3 True T3_BASE)"
  unfolding build_system_def [abs_def] Let_def
  by (rule emitsP_ids [OF emitsP_trans [OF emitsP_trans [OF emitsP_trans
      [OF emits_system(1) [OF assms] emits_system(2) [OF assms]]
      emits_system(3) [OF assms]] emits_system(4) [OF assms]]]) simp

lemma emitsP_build_caches:
  assumes "smbios_build_contract (build_macros p)"
  shows "emitsP c (build_caches p g ms)
    (id_if c 7 True (T7_BASE + 0) @ id_if c 7 True (T7_BASE + 1) @ id_if c 7 True (T7_BASE + 2) @
     id_if c 7 True (T7_BASE + 3))"
  unfolding build_caches_def [abs_def] Let_def
  by (rule emitsP_ids [OF emitsP_trans [OF emitsP_trans [OF emitsP_trans
      [OF emitsP_7 [OF assms] emitsP_7 [OF assms]] emitsP_7 [OF assms]] emitsP_7 [OF assms]]])
    simp_all

lemma emitsP_build_probes:
  assumes "smbios_build_contract (build_macros p)"
  shows "emitsP c (build_probes p g)
    (id_if c 26 True (T26_BASE + 0) @ id_if c 26 True (T26_BASE + 1) @
     id_if c 27 True (T27_BASE + 0) @ id_if c 28 True (T28_BASE + 0) @
     id_if c 28 True (T28_BASE + 1) @ id_if c 29 True T29_BASE)"
  unfolding build_probes_def [abs_def] Let_def
  by (rule emitsP_ids [OF emitsP_trans [OF emitsP_trans [OF emitsP_trans [OF emitsP_trans
      [OF emitsP_trans [OF emitsP_26 [OF assms] emitsP_26 [OF assms]] emitsP_27 [OF assms]]
      emitsP_28 [OF assms]] emitsP_28 [OF assms]] emitsP_29 [OF assms]]]) simp_all

end
