(* ===== verification/Smbios_Get_Props.thy ===== *)
theory Smbios_Get_Props
  imports Smbios_Emits_Misc
begin

text \<open>
  Properties of \<open>smbios_get_tables_ep\<close> and \<open>smbios_get_tables\<close>: which structures a call
  without an error produces, what the entry point says of them, and when a call fails.
\<close>

section \<open>The structures of a complete table\<close>

definition memory_ids :: "smbios_config \<Rightarrow> u32 \<Rightarrow> struct_ids" where
  "memory_ids c n =
     id_if c 16 True T16_BASE @ ids_from c 17 T17_BASE 0 (unat n) @
     concat (map (\<lambda>i. id_if c 19 True (T19_BASE + handle_offset n + i) @ id_if c 20 True T20_BASE)
       [0..<unat n])"

definition rest_ids :: "smbios_config \<Rightarrow> struct_ids \<Rightarrow> nat \<Rightarrow> u32 \<Rightarrow> struct_ids" where
  "rest_ids c ipmi oem n =
     (id_if c 7 True (T7_BASE + 0) @ id_if c 7 True (T7_BASE + 1) @
      id_if c 7 True (T7_BASE + 2) @ id_if c 7 True (T7_BASE + 3)) @
     ids_from c 8 T0_BASE 0 (length (type8 c)) @ ids_from c 9 T9_BASE 0 (length (type9 c)) @
     (if oem = 0 then [] else id_if c 11 True T11_BASE) @ memory_ids c n @
     id_if c 22 True T22_BASE @
     (id_if c 26 True (T26_BASE + 0) @ id_if c 26 True (T26_BASE + 1) @
      id_if c 27 True (T27_BASE + 0) @ id_if c 28 True (T28_BASE + 0) @
      id_if c 28 True (T28_BASE + 1) @ id_if c 29 True T29_BASE) @
     id_if c 32 True T32_BASE @ id_if c 37 True T37_BASE @ ipmi @ id_if c 39 True T39_BASE @
     ids_from c 41 T41_BASE 0 (length (type41 c)) @ id_if c 127 True T127_BASE"

definition table_ids ::
  "smbios_config \<Rightarrow> struct_ids \<Rightarrow> nat \<Rightarrow> nat \<Rightarrow> u32 \<Rightarrow> struct_ids" where
  "table_ids c ipmi sockets oem n =
     (id_if c 0 False T0_BASE @ id_if c 1 True T1_BASE @ id_if c 2 True T2_BASE @
      id_if c 3 True T3_BASE) @ ids_from c 4 T4_BASE 0 sockets @ rest_ids c ipmi oem n"

text \<open>
  What is relied on of the IPMI code, which is outside the repository: it adds structures of
  type 38, always the same ones, and touches nothing else.
\<close>

definition ipmi_contract :: "(smbios \<Rightarrow> smbios) \<Rightarrow> struct_ids \<Rightarrow> bool" where
  "ipmi_contract f ids \<longleftrightarrow> (\<forall>c. emitsP c f ids) \<and> (\<forall>i \<in> set ids. fst i = 38)"

lemma ipmi_contract_none: "ipmi_contract (\<lambda>s. s) []"
  by (simp add: ipmi_contract_def emitsP_def emits_refl)

section \<open>The parts of the build\<close>

lemma build_system_type11 [simp]: "type11_values (build_system p g s) = type11_values s"
  by (simp add: build_system_def smbios_build_type_0_table_def smbios_build_type_1_table_def
      smbios_build_type_2_table_def smbios_build_type_3_table_def Let_def)

lemma build_caches_type11 [simp]: "type11_values (build_caches p g ms s) = type11_values s"
  by (simp add: build_caches_def smbios_build_type_7_table_def Let_def)

lemma emits_type_4_loop:
  assumes "smbios_build_contract (build_macros p)"
  shows "strings_ok s \<Longrightarrow> type_4_loop p g ms ep [k..<k + n] s = (s', None) \<Longrightarrow>
    emits s s' (ids_from (smbios_config.truncate s) 4 T4_BASE k n) \<and>
    type11_values s' = type11_values s"
proof (induction n arbitrary: k s)
  case 0
  then show ?case by (simp add: emits_refl)
next
  case (Suc n)
  obtain t where t: "smbios_build_type_4_table (build_macros p) ms (raw_type_4 g k) k ep s = (t, None)"
    and rest: "type_4_loop p g ms ep [Suc k..<Suc k + n] t = (s', None)"
    using Suc.prems(2) by (auto simp: upt_conv_Cons split: prod.splits option.splits simp del: upt_Suc)
  note e = emits_type_4 [OF assms Suc.prems(1) t]
  have c: "smbios_config.truncate t = smbios_config.truncate s" by (rule emits_truncate [OF e])
  have "type11_values t = type11_values s"
    using type_4_type11 [of "build_macros p" ms "raw_type_4 g k" k ep s] t by simp
  moreover have "strings_ok t" using strings_ok_cong [OF c] Suc.prems(1) by simp
  ultimately show ?case using Suc.IH [OF _ rest] emits_trans [OF e] c by simp
qed

lemma emitsR_mem_array_loop:
  assumes "smbios_build_contract (build_macros p)"
  shows "emitsR c (mem_array_loop p g ms n mem i)
    (id_if c 19 True (T19_BASE + handle_offset n + i) @ id_if c 20 True T20_BASE)"
proof (cases "i < length mem")
  case True
  then show ?thesis
    unfolding mem_array_loop_def [abs_def]
    using emitsR_bind [OF emitsR_19 [OF assms] emitsR_20 [OF assms]] by simp
qed (simp add: mem_array_loop_def [abs_def] emitsR_def)

lemma emitsR_dimms:
  assumes "smbios_build_contract (build_macros p)" and "strings_ok c"
  shows "emitsR c (forR [0..<unat n]
      (\<lambda>i. smbios_build_type_17_table (build_macros p) al (r i) i (sz i)))
    (ids_from c 17 T17_BASE 0 (unat n))"
  unfolding ids_from_def add_0 by (rule emitsR_forR) (rule emitsR_17 [OF assms])

lemma type_41_loop_errp: "type_41_loop m pci raw ts k errp s = Inr (s', None) \<Longrightarrow> errp = None"
  by (induction m pci raw ts k errp s rule: type_41_loop.induct)
    (auto simp: error_setg_def split: option.splits prod.splits sum.splits)

text \<open>The intermediate states of a call of \<open>build_rest\<close> that ends without an error.\<close>

lemma build_rest_steps:
  assumes "build_rest p g ms mem s = Inr (s', None)"
  obtains s1 s2 s3 s4 s5 s6 s7 s8 where
    "s1 = smbios_build_type_8_table (build_macros p) (raw_type_8 g) (build_caches p g ms s)"
    and "type_9_loop (build_macros p) (pci_devices p) (raw_type_9 g) (type9 s1) 0 None s1
      = Inr (s2, None)"
    and "s3 = smbios_build_type_11_table (build_macros p) (raw_type_11 g) s2"
    and "s4 = smbios_build_type_16_table (build_macros p) (QEMU_ALIGN_UP p) ms (raw_type_16 g)
      (dimm_count p ms) s3"
    and "forR [0..<unat (dimm_count p ms)] (\<lambda>i. smbios_build_type_17_table (build_macros p)
      (QEMU_ALIGN_UP p) (raw_type_17 g i) i (GET_DIMM_SZ ms (dimm_count p ms) i)) s4 = Inr s5"
    and "forR [0..<unat (dimm_count p ms)] (mem_array_loop p g ms (dimm_count p ms) mem) s5
      = Inr s6"
    and "s7 = smbios_build_type_39_table (build_macros p) (raw_type_39 g)
      (smbios_build_type_38_table p (smbios_build_type_37_table (build_macros p) (raw_type_37 g)
        (smbios_build_type_32_table (build_macros p) (raw_type_32 g) (build_probes p g
          (smbios_build_type_22_table (build_macros p) (raw_type_22 g) s6)))))"
    and "type_41_loop (build_macros p) (pci_devices p) (raw_type_41 g) (type41 s7) 0 None s7
      = Inr (s8, None)"
    and "s' = smbios_build_type_127_table (build_macros p) (raw_type_127 g) s8"
    and "smbios_memory_device_size ms \<noteq> 0"
    and "length mem + handle_offset (dimm_count p ms) < T32_BASE - T19_BASE"
proof -
  obtain s2 errp where r9: "type_9_loop (build_macros p) (pci_devices p) (raw_type_9 g)
      (type9 (smbios_build_type_8_table (build_macros p) (raw_type_8 g) (build_caches p g ms s)))
      0 None (smbios_build_type_8_table (build_macros p) (raw_type_8 g) (build_caches p g ms s))
    = Inr (s2, errp)"
    using assms by (auto simp: build_rest_def Let_def smbios_build_type_9_table_def)
  with assms obtain s5 s6 s8 where
    steps: "forR [0..<unat (dimm_count p ms)] (\<lambda>i. smbios_build_type_17_table (build_macros p)
      (QEMU_ALIGN_UP p) (raw_type_17 g i) i (GET_DIMM_SZ ms (dimm_count p ms) i))
      (smbios_build_type_16_table (build_macros p) (QEMU_ALIGN_UP p) ms (raw_type_16 g)
        (dimm_count p ms) (smbios_build_type_11_table (build_macros p) (raw_type_11 g) s2)) = Inr s5"
    "forR [0..<unat (dimm_count p ms)] (mem_array_loop p g ms (dimm_count p ms) mem) s5 = Inr s6"
    and r41: "let s7 = smbios_build_type_39_table (build_macros p) (raw_type_39 g)
      (smbios_build_type_38_table p (smbios_build_type_37_table (build_macros p) (raw_type_37 g)
        (smbios_build_type_32_table (build_macros p) (raw_type_32 g) (build_probes p g
          (smbios_build_type_22_table (build_macros p) (raw_type_22 g) s6))))) in
      type_41_loop (build_macros p) (pci_devices p) (raw_type_41 g) (type41 s7) 0 errp s7
      = Inr (s8, None)"
    and last: "s' = smbios_build_type_127_table (build_macros p) (raw_type_127 g) s8"
    "smbios_memory_device_size ms \<noteq> 0"
    "length mem + handle_offset (dimm_count p ms) < T32_BASE - T19_BASE"
    by (auto simp: build_rest_def Let_def smbios_build_type_9_table_def
        smbios_build_type_41_table_def split: if_splits)
  have "errp = None" using r41 by (auto simp: Let_def dest: type_41_loop_errp)
  with r9 r41 show thesis
    by (intro that [OF refl _ refl refl steps refl _ last]) (simp_all add: Let_def)
qed

text \<open>The structures up to the on-board devices.\<close>

definition before_41_ids :: "smbios_config \<Rightarrow> struct_ids \<Rightarrow> nat \<Rightarrow> u32 \<Rightarrow> struct_ids" where
  "before_41_ids c ipmi oem n =
     (id_if c 7 True (T7_BASE + 0) @ id_if c 7 True (T7_BASE + 1) @
      id_if c 7 True (T7_BASE + 2) @ id_if c 7 True (T7_BASE + 3)) @
     ids_from c 8 T0_BASE 0 (length (type8 c)) @ ids_from c 9 T9_BASE 0 (length (type9 c)) @
     (if oem = 0 then [] else id_if c 11 True T11_BASE) @ memory_ids c n @
     id_if c 22 True T22_BASE @
     (id_if c 26 True (T26_BASE + 0) @ id_if c 26 True (T26_BASE + 1) @
      id_if c 27 True (T27_BASE + 0) @ id_if c 28 True (T28_BASE + 0) @
      id_if c 28 True (T28_BASE + 1) @ id_if c 29 True T29_BASE) @
     id_if c 32 True T32_BASE @ id_if c 37 True T37_BASE @ ipmi @ id_if c 39 True T39_BASE"

lemma rest_ids_split:
  "rest_ids c ipmi oem n = before_41_ids c ipmi oem n @
     ids_from c 41 T41_BASE 0 (length (type41 c)) @ id_if c 127 True T127_BASE"
  by (simp add: rest_ids_def before_41_ids_def)

lemma build_rest_before_41:
  assumes m: "smbios_build_contract (build_macros p)" and str: "strings_ok s"
    and oem: "\<forall>v \<in> set (type11_values s). oem_value_ok v"
    and ipmi: "ipmi_contract (smbios_build_type_38_table p) ids"
    and n: "n = dimm_count p ms" and c: "c = smbios_config.truncate s"
    and s1: "s1 = smbios_build_type_8_table (build_macros p) (raw_type_8 g) (build_caches p g ms s)"
    and s2: "type_9_loop (build_macros p) (pci_devices p) (raw_type_9 g) (type9 s1) 0 None s1
      = Inr (s2, None)"
    and s3: "s3 = smbios_build_type_11_table (build_macros p) (raw_type_11 g) s2"
    and s4: "s4 = smbios_build_type_16_table (build_macros p) (QEMU_ALIGN_UP p) ms (raw_type_16 g) n s3"
    and s5: "forR [0..<unat n] (\<lambda>i. smbios_build_type_17_table (build_macros p)
      (QEMU_ALIGN_UP p) (raw_type_17 g i) i (GET_DIMM_SZ ms n i)) s4 = Inr s5"
    and s6: "forR [0..<unat n] (mem_array_loop p g ms n mem) s5 = Inr s6"
    and s7: "s7 = smbios_build_type_39_table (build_macros p) (raw_type_39 g)
      (smbios_build_type_38_table p (smbios_build_type_37_table (build_macros p) (raw_type_37 g)
        (smbios_build_type_32_table (build_macros p) (raw_type_32 g) (build_probes p g
          (smbios_build_type_22_table (build_macros p) (raw_type_22 g) s6)))))"
  shows "emits s s7 (before_41_ids c ids (length (type11_values s)) n)"
proof -
  note c' = c [symmetric]
  have ok: "strings_ok c" "\<forall>x \<in> set (type9 c). opt_nul_free (i9_slot_designation x)"
    using str by (simp_all add: c strings_ok_def smbios_config.defs)
  have t: "smbios_config.truncate t = c" "type8 t = type8 c" "type9 t = type9 c"
    if "emits s t xs" for t xs
    using emits_truncate [OF that] config_eqD [OF emits_truncate [OF that]]
    by (simp_all add: c smbios_config.defs)
  have a: "emits s (build_caches p g ms s) (id_if c 7 True (T7_BASE + 0) @
      id_if c 7 True (T7_BASE + 1) @ id_if c 7 True (T7_BASE + 2) @ id_if c 7 True (T7_BASE + 3))"
    using emitsP_build_caches [OF m] unfolding emitsP_def c by blast
  note b = emits_trans [OF a emits_type_8_loop [OF m, of "build_caches p g ms s" "raw_type_8 g"
        "type8 (build_caches p g ms s)" 0], folded smbios_build_type_8_table_def s1,
        unfolded t(1,2) [OF a]]
  have "type9 s1 = type9 c" by (rule t(3) [OF b])
  with type_9_loop_sound [OF m _ s2] ok(2)
  have c9: "emits s1 s2 (ids_from c 9 T9_BASE 0 (length (type9 c)))"
    "type11_values s2 = type11_values s1" using t(1) [OF b] by simp_all
  then have v: "type11_values s2 = type11_values s"
    using s1 by (simp add: smbios_build_type_8_table_def)
  note d = emits_trans [OF b c9(1)]
  have "emits s2 s3 (if length (type11_values s) = 0 then [] else id_if c 11 True T11_BASE)"
    using emits_type_11 [OF m, of s2 "raw_type_11 g"] oem v t(1) [OF d] s3 by auto
  note e = emits_trans [OF d this]
  note f = emits_step [OF e c' emitsP_16 [OF m], of "QEMU_ALIGN_UP p" ms "raw_type_16 g" n, folded s4]
  note h = emits_stepR [OF f c' emitsR_dimms [OF m ok(1)] s5]
  note i = emits_stepR [OF h c' emitsR_forR [OF emitsR_mem_array_loop [OF m]] s6]
  note j = emits_step [OF i c' emitsP_22 [OF m, of c "raw_type_22 g"]]
  note k = emits_step [OF j c' emitsP_build_probes [OF m, of c g]]
  note l = emits_step [OF emits_step [OF k c' emitsP_32 [OF m, of c "raw_type_32 g"]]
      c' emitsP_37 [OF m, of c "raw_type_37 g"]]
  have "emitsP c (smbios_build_type_38_table p) ids" using ipmi by (simp add: ipmi_contract_def)
  note o = emits_step [OF emits_step [OF l c' this] c' emitsP_39 [OF m, of c "raw_type_39 g"],
      folded s7]
  show ?thesis using o unfolding before_41_ids_def memory_ids_def by simp
qed

lemma build_rest_sound:
  assumes m: "smbios_build_contract (build_macros p)" and str: "strings_ok s"
    and oem: "\<forall>v \<in> set (type11_values s). oem_value_ok v"
    and ipmi: "ipmi_contract (smbios_build_type_38_table p) ids"
    and run: "build_rest p g ms mem s = Inr (s', None)"
  shows "emits s s' (rest_ids (smbios_config.truncate s) ids (length (type11_values s))
    (dimm_count p ms))"
proof -
  define c where "c = smbios_config.truncate s"
  have ok: "\<forall>x \<in> set (type41 c). opt_nul_free (i41_designation x)"
    using str by (simp add: c_def strings_ok_def smbios_config.defs)
  from run show ?thesis
  proof (rule build_rest_steps, goal_cases)
    case (1 s1 s2 s3 s4 s5 s6 s7 s8)
    note o = build_rest_before_41 [OF m str oem ipmi refl c_def 1(1-7)]
    have t: "smbios_config.truncate s7 = c" "type41 s7 = type41 c"
      using emits_truncate [OF o] config_eqD(10) [OF emits_truncate [OF o]]
      by (simp_all add: c_def smbios_config.defs)
    with type_41_loop_sound [OF m _ 1(8)] ok
    have "emits s7 s8 (ids_from c 41 T41_BASE 0 (length (type41 c)))" by simp
    note q = emits_step [OF emits_trans [OF o this] c_def [symmetric]
        emitsP_127 [OF m, of c "raw_type_127 g"], folded 1(9)]
    show ?case using q unfolding c_def [symmetric] rest_ids_split by simp
  qed
qed

section \<open>The whole table\<close>

definition largest :: "smbios_struct list \<Rightarrow> nat" where
  "largest xs = fold (\<lambda>x n. max n (length (struct_bytes x))) xs 0"

definition total_len :: "smbios_struct list \<Rightarrow> nat" where
  "total_len xs = length (concat (map struct_bytes xs))"

text \<open>The binary files of the configuration are the structures \<open>us\<close>.\<close>

definition usr_structs :: "smbios_config \<Rightarrow> smbios_struct list \<Rightarrow> bool" where
  "usr_structs c us \<longleftrightarrow>
     take (usr_blobs_len c) (usr_blobs c) = concat (map struct_bytes us) \<and>
     usr_blobs_len c = total_len us \<and> usr_table_cnt c = length us \<and>
     usr_table_max c = largest us \<and> (\<forall>x \<in> set us. struct_wf x)"

lemma fold_max: "fold (\<lambda>x n. max n (f x :: nat)) xs k = max k (fold (\<lambda>x n. max n (f x)) xs 0)"
proof (induction xs arbitrary: k)
  case (Cons x xs)
  show ?case using Cons.IH [of "max k (f x)"] Cons.IH [of "f x"] by (simp add: max.assoc)
qed simp

lemma fold_append_struct:
  "fold append_struct xs (buf, len, mx, cnt) =
     (buf @ concat (map struct_bytes xs), len + total_len xs, max mx (largest xs), cnt + length xs)"
proof (induction xs arbitrary: buf len mx cnt)
  case Nil
  show ?case by (simp add: total_len_def largest_def)
next
  case (Cons x xs)
  have "largest (x # xs) = max (length (struct_bytes x)) (largest xs)"
    unfolding largest_def by (simp add: fold_max [of _ xs "length (struct_bytes x)"])
  moreover have "append_struct x (buf, len, mx, cnt) =
      (buf @ struct_bytes x, len + length (struct_bytes x), max mx (length (struct_bytes x)), cnt + 1)"
    by (simp add: append_struct_def)
  ultimately show ?case by (simp add: Cons.IH total_len_def)
qed

lemma largest_append: "largest (xs @ ys) = max (largest xs) (largest ys)"
  unfolding largest_def by (simp add: fold_max [of _ ys "fold _ xs 0"])

text \<open>The state in which the entry point is set up.\<close>

definition complete :: "smbios \<Rightarrow> smbios_struct list \<Rightarrow> bool" where
  "complete s xs \<longleftrightarrow>
     smbios_tables_of s = (concat (map struct_bytes xs), total_len xs, largest xs, length xs) \<and>
     (\<forall>x \<in> set xs. struct_wf x)"

lemma emits_complete:
  assumes "usr_structs (smbios_config.truncate s) us" and "emits (smbios_tables_start s) t ids"
  obtains xs where "complete t (us @ xs)" and "map struct_id xs = ids"
proof -
  obtain xs where xs: "appends (smbios_tables_start s) t xs" "map struct_id xs = ids"
    using assms(2) by (auto simp: emits_def)
  have "smbios_tables_of (smbios_tables_start s) =
      (concat (map struct_bytes us), total_len us, largest us, length us)"
    using assms(1) by (auto simp: smbios_tables_of_def smbios_tables_start_def usr_structs_def
        smbios_config.defs)
  with xs(1) assms(1) have "complete t (us @ xs)"
    by (auto simp: complete_def appends_def fold_append_struct largest_append usr_structs_def
        total_len_def)
  with xs(2) show thesis by (intro that)
qed

lemma complete_parse: "complete s xs \<Longrightarrow> parse_structs (smbios_tables s) = Some xs"
  by (auto simp: complete_def smbios_tables_of_def parse_structs_concat)

lemma start_truncate [simp]:
  "smbios_config.truncate (smbios_tables_start s) = smbios_config.truncate s"
  "type11_values (smbios_tables_start s) = type11_values s"
  by (simp_all add: smbios_tables_start_def smbios_config.defs)

text \<open>The conditions of the theorems about a whole build.\<close>

definition build_ok :: "platform \<Rightarrow> struct_ids \<Rightarrow> smbios \<Rightarrow> smbios_struct list \<Rightarrow> bool" where
  "build_ok p ipmi s us \<longleftrightarrow>
     smbios_build_contract (build_macros p) \<and> ipmi_contract (smbios_build_type_38_table p) ipmi \<and>
     strings_ok s \<and> (\<forall>v \<in> set (type11_values s). oem_value_ok v) \<and>
     usr_structs (smbios_config.truncate s) us"

lemma get_tables_ep_steps:
  assumes "smbios_get_tables_ep p g ms ep mem s = Inr (s', None, Some (tabs, len, anchor, alen))"
  obtains t u where
    "type_4_loop p g ms ep [0..<smp_sockets ms] (build_system p g (smbios_tables_start s)) = (t, None)"
    and "build_rest p g ms mem t = Inr (u, None)"
    and "smbios_validate_table ep u = None"
    and "smbios_entry_point_setup ep u = Inr s'"
    and "tabs = smbios_tables s'" and "len = smbios_tables_len s'"
    and "anchor = (case smbios_ep s' of None \<Rightarrow> [] | Some e \<Rightarrow> encode_ep e)"
    and "anchor_length anchor = Inr alen"
  using assms that
  by (auto simp: smbios_get_tables_ep_def Let_def split: prod.splits option.splits)

lemma entry_point_setup_frame:
  assumes "smbios_entry_point_setup ep u = Inr s'"
  shows "smbios_tables_of s' = smbios_tables_of u"
  using assms by (auto simp: smbios_entry_point_setup_def smbios_tables_of_def
      split: SmbiosEntryPointType.splits)

text \<open>The tables when all builders have run.\<close>

lemma build_complete:
  assumes ok: "build_ok p ipmi s us"
    and t: "type_4_loop p g ms ep [0..<smp_sockets ms] (build_system p g (smbios_tables_start s)) = (t, None)"
    and u: "build_rest p g ms mem t = Inr (u, None)"
  obtains xs where "complete u (us @ xs)"
    and "map struct_id xs = table_ids (smbios_config.truncate s) ipmi (smp_sockets ms)
      (length (type11_values s)) (dimm_count p ms)"
proof -
  have m: "smbios_build_contract (build_macros p)" and str: "strings_ok s"
    and ipmi: "ipmi_contract (smbios_build_type_38_table p) ipmi"
    and oem: "\<forall>v \<in> set (type11_values s). oem_value_ok v"
    and usr: "usr_structs (smbios_config.truncate s) us"
    using ok by (simp_all add: build_ok_def)
  let ?c = "smbios_config.truncate s" and ?s0 = "smbios_tables_start s"
  have e1: "emits ?s0 (build_system p g ?s0)
      (id_if ?c 0 False T0_BASE @ id_if ?c 1 True T1_BASE @ id_if ?c 2 True T2_BASE @
       id_if ?c 3 True T3_BASE)"
    using emitsP_build_system [OF m, of ?c g] str emitsPD by auto
  note c1 = emits_truncate [OF e1]
  have "strings_ok (build_system p g ?s0)"
    using strings_ok_cong [OF c1] str by (metis start_truncate(1) strings_ok_truncate)
  note e2 = emits_type_4_loop [OF m this, of g ms ep 0 "smp_sockets ms" t]
  have e3: "emits (build_system p g ?s0) t (ids_from ?c 4 T4_BASE 0 (smp_sockets ms))"
    "type11_values t = type11_values s"
    using e2 t c1 by simp_all
  note e4 = emits_trans [OF e1 e3(1)]
  have "strings_ok t"
    using strings_ok_cong [OF emits_truncate [OF e4]] str
    by (metis start_truncate(1) strings_ok_truncate)
  from build_rest_sound [OF m this _ ipmi u] oem e3(2)
  have "emits t u (rest_ids ?c ipmi (length (type11_values s)) (dimm_count p ms))"
    using emits_truncate [OF e4] by simp
  from emits_complete [OF usr emits_trans [OF e4 this]] that show thesis
    by (auto simp: table_ids_def)
qed

lemma get_tables_ep_complete:
  assumes "build_ok p ipmi s us"
    and "smbios_get_tables_ep p g ms ep mem s = Inr (s', None, Some (tabs, len, anchor, alen))"
  obtains xs where "complete s' (us @ xs)"
    and "map struct_id xs = table_ids (smbios_config.truncate s) ipmi (smp_sockets ms)
      (length (type11_values s)) (dimm_count p ms)"
  using assms(2)
proof (rule get_tables_ep_steps, goal_cases)
  case (1 t u)
  from build_complete [OF assms(1) 1(2,3)] obtain xs where "complete u (us @ xs)"
    "map struct_id xs = table_ids (smbios_config.truncate s) ipmi (smp_sockets ms)
      (length (type11_values s)) (dimm_count p ms)" by blast
  then show ?thesis
    using entry_point_setup_frame [OF 1(5)] by (intro 1(1)) (simp_all add: complete_def)
qed

text \<open>
  C1. A build that reports no error produces a table a reader of the SMBIOS specification
  accepts: the structures of the binary files, then exactly the structures the configuration
  asks for, in order and with their handles; the length returned is the length of the table.
\<close>

theorem get_tables_structures:
  assumes "build_ok p ipmi s us"
    and "smbios_get_tables_ep p g ms ep mem s = Inr (s', None, Some (tabs, len, anchor, alen))"
  shows "\<exists>xs. parse_structs tabs = Some (us @ xs) \<and> len = length tabs \<and>
    map struct_id xs = table_ids (smbios_config.truncate s) ipmi (smp_sockets ms)
      (length (type11_values s)) (dimm_count p ms)"
proof -
  obtain xs where xs: "complete s' (us @ xs)" "map struct_id xs = table_ids
      (smbios_config.truncate s) ipmi (smp_sockets ms) (length (type11_values s)) (dimm_count p ms)"
    using get_tables_ep_complete [OF assms] by blast
  have "tabs = smbios_tables s'" "len = smbios_tables_len s'"
    using assms(2) by (rule get_tables_ep_steps, blast)+
  with complete_parse [OF xs(1)] xs show ?thesis
    by (auto simp: complete_def smbios_tables_of_def total_len_def)
qed

end
