(* ===== verification/Smbios_Outcomes.thy ===== *)
theory Smbios_Outcomes
  imports Smbios_Get_Props
begin

text \<open>
  Further outcomes of \<open>smbios_get_tables\<close>: the entry point, the checks that can and cannot
  fail, the retry with the other entry point, and the layout of memory devices.
\<close>

section \<open>The entry point\<close>

lemma total_len_largest: "largest xs \<le> total_len xs"
proof (induction xs rule: rev_induct)
  case (snoc x xs)
  then show ?case by (simp add: largest_append total_len_def largest_def)
qed (simp add: largest_def)

lemma total_len_length: "\<forall>x \<in> set xs. struct_wf x \<Longrightarrow> length xs \<le> total_len xs"
proof (induction xs)
  case (Cons x xs)
  then have "4 \<le> length (struct_bytes x)"
    by (simp add: struct_wf_def struct_bytes_def sizeof_header_def)
  with Cons show ?case by (simp add: total_len_def)
qed simp

lemma unat_of_nat_u16 [simp]: "n \<le> 0xffff \<Longrightarrow> unat (of_nat n :: u16) = n"
  by (simp add: unat_of_nat)

text \<open>
  C3. With the 32-bit entry point, the fields of the entry point that the guest reads are
  exact, not truncated: the table length, the size of the largest structure and the number of
  structures, and the length returned is the one in the anchor.
\<close>

theorem entry_point_21_exact:
  assumes "build_ok p ipmi s us"
    and "smbios_get_tables_ep p g ms SMBIOS_ENTRY_POINT_TYPE_32 mem s
      = Inr (s', None, Some (tabs, len, anchor, alen))"
  shows "\<exists>e xs. smbios_ep s' = Some (Ep21 e) \<and> anchor = encode_ep (Ep21 e) \<and>
    parse_structs tabs = Some xs \<and> unat (e21_structure_table_length e) = length tabs \<and>
    unat (e21_number_of_structures e) = length xs \<and>
    unat (e21_max_structure_size e) = largest xs \<and>
    alen = length anchor \<and> unat (e21_length e) = alen"
proof -
  from assms(2) obtain u where u: "smbios_validate_table SMBIOS_ENTRY_POINT_TYPE_32 u = None"
    "smbios_entry_point_setup SMBIOS_ENTRY_POINT_TYPE_32 u = Inr s'"
    and out: "tabs = smbios_tables s'"
      "anchor = (case smbios_ep s' of None \<Rightarrow> [] | Some e \<Rightarrow> encode_ep e)"
      "anchor_length anchor = Inr alen"
    by (rule get_tables_ep_steps)
  from get_tables_ep_complete [OF assms] obtain xs where xs: "complete s' xs" by blast
  have t: "smbios_tables_of u = smbios_tables_of s'"
    using entry_point_setup_frame [OF u(2)] by simp
  with xs have sizes: "smbios_tables_len u = total_len xs" "smbios_table_max u = largest xs"
    "smbios_table_cnt u = length xs" "length tabs = total_len xs"
    by (simp_all add: complete_def smbios_tables_of_def out(1) total_len_def)
  have "total_len xs \<le> 0xffff"
    using u(1) sizes(1) by (simp add: smbios_validate_table_def SMBIOS_21_MAX_TABLES_LEN_def
        split: if_splits)
  then have bounds: "total_len xs \<le> 0xffff" "largest xs \<le> 0xffff" "length xs \<le> 0xffff"
    using total_len_largest [of xs] total_len_length [of xs] xs by (auto simp: complete_def)
  obtain e where e: "smbios_ep s' = Some (Ep21 e)" "unat (e21_structure_table_length e) = total_len xs"
    "unat (e21_number_of_structures e) = length xs" "unat (e21_max_structure_size e) = largest xs"
    "unat (e21_length e) = 31" "length (encode_ep21 e) = 31"
    "take 4 (encode_ep21 e) = str_bytes ''_SM_''"
    using u(2) bounds
    by (auto simp: smbios_entry_point_setup_def sizes encode_ep21_def sizeof_ep21_def)
  have "alen = 31" using out(2,3) e(1,7) by (simp add: anchor_length_def sizeof_ep21_def)
  with e sizes(4) out(1,2) complete_parse [OF xs] show ?thesis by auto
qed

section \<open>The count of processors\<close>

lemma type_9_loop_count:
  "type_9_loop m pci raw ts k errp s = Inr (s', e) \<Longrightarrow> smbios_type4_count s' = smbios_type4_count s"
  by (induction m pci raw ts k errp s arbitrary: s' e rule: type_9_loop.induct)
    (auto split: option.splits prod.splits sum.splits)

lemma type_41_loop_count:
  "type_41_loop m pci raw ts k errp s = Inr (s', e) \<Longrightarrow> smbios_type4_count s' = smbios_type4_count s"
  by (induction m pci raw ts k errp s arbitrary: s' e rule: type_41_loop.induct)
    (auto split: option.splits prod.splits sum.splits)

lemma type_8_loop_count [simp]:
  "smbios_type4_count (type_8_loop m raw ts k s) = smbios_type4_count s"
  by (induction m raw ts k s rule: type_8_loop.induct) (auto split: option.splits prod.splits)

lemma skip_type4_count [simp]:
  "smbios_skip_table (s\<lparr>smbios_type4_count := n\<rparr>) = smbios_skip_table s"
  by (simp add: smbios_skip_table_def fun_eq_iff)

lemma skip_set_tables [simp]: "smbios_skip_table (set_tables t s) = smbios_skip_table s"
  by (simp add: smbios_skip_table_def set_tables_def fun_eq_iff split: prod.split)

lemma type_4_table_count:
  assumes "smbios_build_contract m" and "smbios_build_type_4_table m ms raw i ep s = (s', None)"
  shows "smbios_type4_count s' = smbios_type4_count s + (if smbios_skip_table s 4 True then 0 else 1)"
    "smbios_skip_table s' = smbios_skip_table s"
  using assms
  by (auto simp: smbios_build_type_4_table_def build_contract_simps Let_def
      split: if_splits prod.splits)

lemma type_4_table_error:
  "smbios_build_type_4_table m ms raw i ep s = (s', Some e) \<Longrightarrow> e = Too_many_cores"
  by (auto simp: smbios_build_type_4_table_def Let_def split: if_splits prod.splits option.splits)

lemma type_4_loop_count:
  assumes "smbios_build_contract (build_macros p)"
  shows "type_4_loop p g ms ep is s = (s', None) \<Longrightarrow>
    smbios_type4_count s' =
      smbios_type4_count s + (if smbios_skip_table s 4 True then 0 else length is)"
proof (induction "is" arbitrary: s)
  case (Cons i "is")
  then obtain t where t: "smbios_build_type_4_table (build_macros p) ms (raw_type_4 g i) i ep s = (t, None)"
    and rest: "type_4_loop p g ms ep is t = (s', None)"
    by (auto split: prod.splits option.splits)
  show ?case using Cons.IH [OF rest] type_4_table_count [OF assms t] by simp
qed simp

lemma type_4_loop_error: "type_4_loop p g ms ep is s = (s', Some e) \<Longrightarrow> e = Too_many_cores"
  by (induction "is" arbitrary: s)
    (auto split: prod.splits option.splits dest: type_4_table_error)

lemma forR_count:
  assumes "forR is f s = Inr s'"
    and "\<And>i a b. f i a = Inr b \<Longrightarrow> smbios_type4_count b = smbios_type4_count a"
  shows "smbios_type4_count s' = smbios_type4_count s"
  using forR_invariant [OF assms(1), of "\<lambda>t. smbios_type4_count t = smbios_type4_count s"] assms(2)
  by simp

lemma count_frames [simp]:
  "smbios_type4_count (build_system p g s) = smbios_type4_count s"
  "smbios_type4_count (build_caches p g ms s) = smbios_type4_count s"
  "smbios_type4_count (build_probes p g s) = smbios_type4_count s"
  "smbios_type4_count (smbios_build_type_11_table m r11 s) = smbios_type4_count s"
  by (simp_all add: build_system_def build_caches_def build_probes_def Let_def
      smbios_build_type_0_table_def smbios_build_type_1_table_def smbios_build_type_2_table_def
      smbios_build_type_3_table_def smbios_build_type_7_table_def smbios_build_type_26_table_def
      smbios_build_type_27_table_def smbios_build_type_28_table_def smbios_build_type_29_table_def
      smbios_build_type_11_table_def split: option.split prod.split)

lemma build_table_assert_count:
  "build_table_assert m ty h req len ok body s = Inr s' \<Longrightarrow>
   smbios_type4_count s' = smbios_type4_count s"
  by (auto simp: build_table_assert_def split: option.splits prod.splits if_splits)

lemma memory_count:
  "smbios_build_type_17_table m al r17 i sz s = Inr s' \<Longrightarrow>
   smbios_type4_count s' = smbios_type4_count s"
  "mem_array_loop p g ms n mem i s = Inr s' \<Longrightarrow> smbios_type4_count s' = smbios_type4_count s"
  by (auto simp: smbios_build_type_17_table_def mem_array_loop_def smbios_build_type_19_table_def
      smbios_build_type_20_table_def Let_def split: if_splits dest!: build_table_assert_count)

lemma memory_loops_count:
  "forR is (\<lambda>i. smbios_build_type_17_table m al (r17 i) i (sz i)) s = Inr s' \<Longrightarrow>
   smbios_type4_count s' = smbios_type4_count s"
  "forR is (mem_array_loop p g ms n mem) s = Inr s' \<Longrightarrow>
   smbios_type4_count s' = smbios_type4_count s"
  by (erule forR_count, erule memory_count)+

definition pci_error :: "smbios_error \<Rightarrow> bool" where
  "pci_error e \<longleftrightarrow> (\<exists>dev. e = No_PCI_device dev \<or> e = PCI_not_on_root dev)"

lemma type_9_loop_error:
  "type_9_loop m pci raw ts k errp s = Inr (s', e) \<Longrightarrow> pred_option pci_error errp \<Longrightarrow>
   pred_option pci_error e"
  by (induction m pci raw ts k errp s arbitrary: s' e rule: type_9_loop.induct)
    (auto simp: error_setg_def pci_error_def type_9_device_def
      split: option.splits prod.splits sum.splits if_splits)

lemma type_41_loop_error:
  "type_41_loop m pci raw ts k errp s = Inr (s', e) \<Longrightarrow> pred_option pci_error errp \<Longrightarrow>
   pred_option pci_error e"
  by (induction m pci raw ts k errp s arbitrary: s' e rule: type_41_loop.induct)
    (auto simp: error_setg_def pci_error_def type_41_device_def
      split: option.splits prod.splits sum.splits if_splits)

lemma build_rest_count:
  assumes "build_rest p g ms mem s = Inr (s', e)"
    and "\<And>s. smbios_type4_count (smbios_build_type_38_table p s) = smbios_type4_count s"
  shows "smbios_type4_count s' = smbios_type4_count s"
  using assms
  by (auto simp: build_rest_def Let_def smbios_build_type_8_table_def smbios_build_type_9_table_def
      smbios_build_type_41_table_def smbios_build_type_16_table_def smbios_build_type_22_table_def
      smbios_build_type_32_table_def smbios_build_type_37_table_def smbios_build_type_39_table_def
      smbios_build_type_127_table_def
      split: if_splits dest!: type_9_loop_count type_41_loop_count memory_loops_count)

lemma build_rest_error:
  assumes "build_rest p g ms mem s = Inr (s', e)"
  shows "pred_option pci_error e"
  using assms
  by (auto simp: build_rest_def Let_def smbios_build_type_9_table_def
      smbios_build_type_41_table_def
      split: if_splits dest!: type_9_loop_error type_41_loop_error)

text \<open>
  The count of type 4 structures that \<open>smbios_check_type4_count\<close> verifies is always right:
  no call ends with its error, whatever the configuration.
\<close>

theorem type4_count_check_never_fails:
  assumes "smbios_build_contract (build_macros p)"
    and "\<forall>s. smbios_type4_count (smbios_build_type_38_table p s) = smbios_type4_count s"
    and "smbios_get_tables_ep p g ms ep mem s = Inr (s', e, out)"
  shows "e \<noteq> Some (Type4_count a b)"
proof -
  let ?s = "build_system p g (smbios_tables_start s)"
  obtain t e4 where t: "type_4_loop p g ms ep [0..<smp_sockets ms] ?s = (t, e4)" by force
  show ?thesis
  proof (cases e4)
    case (Some x)
    with t type_4_loop_error [of p g ms ep "[0..<smp_sockets ms]" ?s t x] assms(3) show ?thesis
      by (auto simp: smbios_get_tables_ep_def Let_def)
  next
    case None
    with t assms(3) obtain u errp where u: "build_rest p g ms mem t = Inr (u, errp)"
      by (auto simp: smbios_get_tables_ep_def Let_def)
    have "smbios_type4_count ?s = 0" by (simp add: smbios_tables_start_def)
    with type_4_loop_count [OF assms(1), of g ms ep _ ?s t] t None
    have "smbios_type4_count t = 0 \<or> smbios_type4_count t = smp_sockets ms" by fastforce
    then have "smbios_check_type4_count (smp_sockets ms) u = None"
      using build_rest_count [OF u] assms(2) by (auto simp: smbios_check_type4_count_def)
    moreover have "errp \<noteq> Some (Type4_count a b)"
      using build_rest_error [OF u] by (auto simp: pci_error_def)
    ultimately show ?thesis
      using t None u assms(3)
      by (auto simp: smbios_get_tables_ep_def Let_def error_setg_def smbios_validate_table_def
          split: option.splits if_splits)
  qed
qed

section \<open>The retry\<close>

lemma start_frames [simp]:
  "smbios_tables_start (set_tables t s) = smbios_tables_start s"
  "smbios_tables_start (err_exit s) = smbios_tables_start s"
  "smbios_tables_start (smbios_tables_start s) = smbios_tables_start s"
  by (simp_all add: smbios_tables_start_def set_tables_def err_exit_def split: prod.split)

lemma start_build_table [simp]:
  "smbios_tables_start (build_table m ty h req len body s) = smbios_tables_start s"
  by (simp add: build_table_def split: option.split prod.split)

lemma start_build_system [simp]:
  "smbios_tables_start (build_system p g s) = smbios_tables_start s"
  by (simp add: build_system_def smbios_build_type_0_table_def smbios_build_type_1_table_def
      smbios_build_type_2_table_def smbios_build_type_3_table_def Let_def)

lemma get_tables_ep_start:
  "smbios_tables_start s = smbios_tables_start t \<Longrightarrow>
   smbios_get_tables_ep p g ms ep mem s = smbios_get_tables_ep p g ms ep mem t"
  by (simp add: smbios_get_tables_ep_def)

lemma type_4_too_many:
  assumes "smbios_build_contract m" and "strings_ok s" and "\<not> smbios_skip_table s 4 True"
    and "255 \<le> cores_per_socket ms \<or> 255 \<le> threads_per_socket ms"
  obtains tabs where
    "smbios_build_type_4_table m ms raw i SMBIOS_ENTRY_POINT_TYPE_32 s
      = (set_tables tabs s, Some Too_many_cores)"
proof -
  let ?h = "new_header 4 (T4_BASE + i) (type_4_len SMBIOS_ENTRY_POINT_TYPE_32)"
  obtain t ss where f: "type_4_fields m ms raw s ?h = (t, ss)" by force
  with type_4_fields_wf(3,4) [OF assms(1,2) f] assms(1,3,4) show thesis
    by (intro that) (auto simp: smbios_build_type_4_table_def build_contract_simps new_header_def
        type_4_len_def SMBIOS_TYPE_4_LEN_V28_def SMBIOS_TYPE_4_LEN_V30_def Let_def)
qed

lemma too_many_cores_ep:
  assumes "smbios_build_contract (build_macros p)" and "strings_ok s"
    and "\<not> smbios_skip_table s 4 True" and "1 \<le> smp_sockets ms"
    and "255 \<le> cores_per_socket ms \<or> 255 \<le> threads_per_socket ms"
  obtains t where
    "smbios_get_tables_ep p g ms SMBIOS_ENTRY_POINT_TYPE_32 mem s
      = Inr (t, Some Too_many_cores, None)"
    and "smbios_tables_start t = smbios_tables_start s"
proof -
  let ?s = "build_system p g (smbios_tables_start s)"
  have c: "smbios_config.truncate ?s = smbios_config.truncate s"
    using emits_truncate [OF emitsPD [OF emitsP_build_system [OF assms(1)]]] assms(2)
    by (metis start_truncate(1) strings_ok_truncate)
  have "strings_ok ?s" "\<not> smbios_skip_table ?s 4 True"
    using strings_ok_cong [OF c] config_eqD(1) [OF c] assms(2,3) by simp_all
  from type_4_too_many [OF assms(1) this assms(5)] obtain tabs where
    "smbios_build_type_4_table (build_macros p) ms (raw_type_4 g 0) 0 SMBIOS_ENTRY_POINT_TYPE_32 ?s
      = (set_tables tabs ?s, Some Too_many_cores)" by blast
  then have "type_4_loop p g ms SMBIOS_ENTRY_POINT_TYPE_32 [0..<smp_sockets ms] ?s =
      (set_tables tabs ?s, Some Too_many_cores)"
    using assms(4) by (simp add: upt_conv_Cons del: upt_Suc)
  then show thesis
    using assms(4) that [of "err_exit (set_tables tabs ?s)"]
    by (auto simp: smbios_get_tables_ep_def Let_def)
qed

text \<open>
  A socket with 255 cores or threads cannot be described with the 32-bit entry point, and
  the automatic choice then returns exactly what the 64-bit entry point returns.
\<close>

theorem auto_entry_point_falls_back:
  assumes "smbios_build_contract (build_macros p)" and "strings_ok s"
    and "\<not> smbios_skip_table s 4 True" and "1 \<le> smp_sockets ms"
    and "255 \<le> cores_per_socket ms \<or> 255 \<le> threads_per_socket ms"
  shows "smbios_get_tables p g ms SMBIOS_ENTRY_POINT_TYPE_AUTO mem s =
      smbios_get_tables p g ms SMBIOS_ENTRY_POINT_TYPE_64 mem s \<and>
    (\<exists>t. smbios_get_tables p g ms SMBIOS_ENTRY_POINT_TYPE_32 mem s =
      Inr (t, Some Too_many_cores, None))"
proof -
  obtain t where t: "smbios_get_tables_ep p (g SMBIOS_ENTRY_POINT_TYPE_32) ms
      SMBIOS_ENTRY_POINT_TYPE_32 mem s = Inr (t, Some Too_many_cores, None)"
    "smbios_tables_start t = smbios_tables_start s"
    using too_many_cores_ep [OF assms] by blast
  then show ?thesis
    using get_tables_ep_start [OF t(2)] by (simp add: smbios_get_tables_def Let_def)
qed

text \<open>What does not touch the OEM strings, nor which tables are skipped.\<close>

definition oem_same :: "smbios \<Rightarrow> smbios \<Rightarrow> bool" where
  "oem_same s s' \<longleftrightarrow>
     type11_values s' = type11_values s \<and> smbios_skip_table s' = smbios_skip_table s"

lemma oem_same_refl [simp]: "oem_same s s"
  by (simp add: oem_same_def)

lemma oem_same_trans: "oem_same s t \<Longrightarrow> oem_same t u \<Longrightarrow> oem_same s u"
  by (simp add: oem_same_def)

lemma oem_same_updates [simp]:
  "oem_same s (set_tables t u) = oem_same s u"
  "oem_same (set_tables t u) s = oem_same u s"
  "oem_same s (u\<lparr>smbios_type4_count := n\<rparr>) = oem_same s u"
  "oem_same s (u\<lparr>type7_socket_designation := d\<rparr>) = oem_same s u"
  "oem_same s (u\<lparr>type26_description := d\<rparr>) = oem_same s u"
  "oem_same s (u\<lparr>type27_description := d\<rparr>) = oem_same s u"
  "oem_same s (u\<lparr>type28_description := d\<rparr>) = oem_same s u"
  "oem_same s (err_exit u) = oem_same s u"
  "oem_same s (smbios_tables_start u) = oem_same s u"
  by (simp_all add: oem_same_def smbios_skip_table_def fun_eq_iff err_exit_def
      smbios_tables_start_def)

lemma oem_same_build_table [simp]: "oem_same s (build_table m ty h req len body u) = oem_same s u"
  by (simp add: build_table_def split: option.split prod.split)

lemma oem_same_build_table_assert:
  "build_table_assert m ty h req len ok body u = Inr u' \<Longrightarrow> oem_same u u'"
  by (auto simp: build_table_assert_def split: option.splits prod.splits if_splits)

lemma oem_same_groups [simp]:
  "oem_same s (build_system p g u) = oem_same s u"
  "oem_same s (build_caches p g ms u) = oem_same s u"
  "oem_same s (build_probes p g u) = oem_same s u"
  by (simp_all add: build_system_def build_caches_def build_probes_def Let_def
      smbios_build_type_0_table_def smbios_build_type_1_table_def smbios_build_type_2_table_def
      smbios_build_type_3_table_def smbios_build_type_7_table_def smbios_build_type_26_table_def
      smbios_build_type_27_table_def smbios_build_type_28_table_def smbios_build_type_29_table_def)

lemma oem_same_8 [simp]: "oem_same s0 (type_8_loop m r8 t8 k s) = oem_same s0 s"
  by (induction m r8 t8 k s rule: type_8_loop.induct) (auto split: option.splits prod.splits)

lemma oem_same_9:
  "type_9_loop m pci r9 t9 k errp s = Inr (s', e) \<Longrightarrow> oem_same s s'"
  by (induction m pci r9 t9 k errp s arbitrary: s' e rule: type_9_loop.induct)
    (auto split: option.splits prod.splits sum.splits)

lemma oem_same_41:
  "type_41_loop m pci r41 t41 k errp s = Inr (s', e) \<Longrightarrow> oem_same s s'"
  by (induction m pci r41 t41 k errp s arbitrary: s' e rule: type_41_loop.induct)
    (auto split: option.splits prod.splits sum.splits)

lemma oem_same_type_4:
  "oem_same s (fst (smbios_build_type_4_table m ms r4 i ep s))"
  by (simp add: smbios_build_type_4_table_def Let_def split: option.split prod.split)

lemma oem_same_type_4_loop: "type_4_loop p g ms ep is s = (s', e) \<Longrightarrow> oem_same s s'"
proof (induction "is" arbitrary: s)
  case (Cons i "is")
  then show ?case
    using oem_same_type_4 [of s "build_macros p" ms "raw_type_4 g i" i ep] oem_same_trans
    by (fastforce split: prod.splits option.splits)
qed simp

lemma oem_same_memory:
  "smbios_build_type_17_table m al r17 i sz s = Inr s' \<Longrightarrow> oem_same s s'"
  "mem_array_loop p g ms n mem i s = Inr s' \<Longrightarrow> oem_same s s'"
  by (auto simp: smbios_build_type_17_table_def mem_array_loop_def smbios_build_type_19_table_def
      smbios_build_type_20_table_def Let_def split: if_splits dest!: oem_same_build_table_assert)

lemma oem_same_memory_loops:
  "forR is (\<lambda>i. smbios_build_type_17_table m al (r17 i) i (sz i)) s = Inr s' \<Longrightarrow> oem_same s s'"
  "forR is (mem_array_loop p g ms n mem) s = Inr s' \<Longrightarrow> oem_same s s'"
  by (erule forR_invariant [where P = "oem_same s"]; blast intro: oem_same_refl oem_same_trans
      oem_same_memory)+

lemma oem_same_sym: "oem_same s t \<longleftrightarrow> oem_same t s"
  by (auto simp: oem_same_def)

lemma oem_same_left [simp]:
  "oem_same (build_table m ty h req len body u) s = oem_same u s"
  "oem_same (build_caches p g ms u) s = oem_same u s"
  "oem_same (build_probes p g u) s = oem_same u s"
  "oem_same (build_system p g u) s = oem_same u s"
  "oem_same (smbios_tables_start u) s = oem_same u s"
  "oem_same (type_8_loop m r8 t8 k u) s = oem_same u s"
  unfolding oem_same_sym [of _ s] by simp_all

lemma oem_same_ipmi:
  assumes "\<forall>t. oem_same t (f t)"
  shows "oem_same (f t) u = oem_same t u"
  using assms oem_same_trans oem_same_sym by meson

lemma type_11_values:
  assumes "smbios_build_contract m" and "\<not> smbios_skip_table s 11 True"
  shows "type11_values (smbios_build_type_11_table m raw s) = map (\<lambda>_. None) (type11_values s)"
  using assms
  by (simp add: smbios_build_type_11_table_def build_contract_simps Let_def split: prod.split)

lemma build_rest_oem:
  assumes m: "smbios_build_contract (build_macros p)" and skip: "\<not> smbios_skip_table s 11 True"
    and ipmi: "\<forall>t. oem_same t (smbios_build_type_38_table p t)"
    and run: "build_rest p g ms mem s = Inr (s', e)"
  shows "type11_values s' = map (\<lambda>_. None) (type11_values s)"
proof -
  let ?m = "build_macros p"
  obtain s2 errp where r9: "type_9_loop ?m (pci_devices p) (raw_type_9 g)
      (type9 (type_8_loop ?m (raw_type_8 g) (type8 (build_caches p g ms s)) 0 (build_caches p g ms s)))
      0 None (type_8_loop ?m (raw_type_8 g) (type8 (build_caches p g ms s)) 0 (build_caches p g ms s))
    = Inr (s2, errp)"
    using run by (auto simp: build_rest_def Let_def smbios_build_type_9_table_def
        smbios_build_type_8_table_def)
  from oem_same_9 [OF this] have "oem_same s s2" by simp
  then have t: "type11_values (smbios_build_type_11_table ?m (raw_type_11 g) s2) =
      map (\<lambda>_. None) (type11_values s)"
    using type_11_values [OF m, of s2] skip by (simp add: oem_same_def)
  let ?s3 = "smbios_build_type_11_table ?m (raw_type_11 g) s2"
  obtain a b c where "oem_same ?s3 a" "oem_same a b" "oem_same b c" "oem_same c s'"
    using run r9
    by (auto simp: build_rest_def Let_def smbios_build_type_8_table_def
        smbios_build_type_9_table_def smbios_build_type_41_table_def smbios_build_type_16_table_def
        smbios_build_type_22_table_def smbios_build_type_32_table_def
        smbios_build_type_37_table_def smbios_build_type_39_table_def
        smbios_build_type_127_table_def oem_same_ipmi [OF ipmi]
        split: if_splits dest!: oem_same_memory_loops oem_same_41)
  then have "oem_same ?s3 s'" by (simp add: oem_same_def)
  with t show ?thesis by (simp add: oem_same_def)
qed

text \<open>
  When the 32-bit attempt fails because the table is too long, the OEM strings are gone:
  the automatic retry works on freed values, as many as there were strings.
\<close>

theorem oem_strings_lost_on_retry:
  assumes "smbios_build_contract (build_macros p)" and "\<not> smbios_skip_table s 11 True"
    and "\<forall>t. oem_same t (smbios_build_type_38_table p t)"
    and "smbios_get_tables_ep p g ms SMBIOS_ENTRY_POINT_TYPE_32 mem s =
      Inr (s', Some (Table_too_long n), out)"
  shows "type11_values s' = map (\<lambda>_. None) (type11_values s) \<and> out = None"
proof -
  let ?s = "build_system p g (smbios_tables_start s)"
  obtain t e4 where t: "type_4_loop p g ms SMBIOS_ENTRY_POINT_TYPE_32 [0..<smp_sockets ms] ?s
      = (t, e4)" by force
  have e4: "e4 = None"
    using t assms(4) type_4_loop_error
    by (cases e4) (fastforce simp: smbios_get_tables_ep_def Let_def)+
  obtain u errp where u: "build_rest p g ms mem t = Inr (u, errp)"
    using t e4 assms(4) by (auto simp: smbios_get_tables_ep_def Let_def)
  have "oem_same s t" using oem_same_type_4_loop [OF t] by simp
  then have "type11_values u = map (\<lambda>_. None) (type11_values s)"
    using build_rest_oem [OF assms(1) _ assms(3) u] assms(2) by (simp add: oem_same_def)
  moreover have "s' = err_exit u \<and> out = None"
    using t e4 u assms(4) build_rest_error [OF u]
    by (auto simp: smbios_get_tables_ep_def Let_def error_setg_def pci_error_def
        smbios_entry_point_setup_def split: option.splits)
  ultimately show ?thesis by (simp add: err_exit_def)
qed

section \<open>Memory devices\<close>

lemma mem_array_loop_bound:
  "forR is (mem_array_loop p g ms n mem) s = Inr s' \<Longrightarrow> \<forall>i \<in> set is. i < length mem"
proof (induction "is" arbitrary: s)
  case (Cons i "is")
  then obtain t where "mem_array_loop p g ms n mem i s = Inr t"
    "forR is (mem_array_loop p g ms n mem) t = Inr s'" by auto
  moreover have "i < length mem"
    using calculation(1) by (auto simp: mem_array_loop_def split: if_splits)
  ultimately show ?case using Cons.IH by auto
qed simp

text \<open>
  The loop over the memory areas runs to the number of memory devices: a call that
  returns, with or without an error of the later checks, has an area for every device; with
  more devices than areas it reads past the array.
\<close>

theorem dimms_bounded_by_areas:
  assumes "build_rest p g ms mem s = Inr r"
  shows "unat (dimm_count p ms) \<le> length mem"
proof -
  obtain a b where "forR [0..<unat (dimm_count p ms)]
      (mem_array_loop p g ms (dimm_count p ms) mem) a = Inr b"
    using assms by (auto simp: build_rest_def Let_def split: if_splits)
  from mem_array_loop_bound [OF this] show ?thesis
    by (cases "unat (dimm_count p ms)") auto
qed

text \<open>The sizes of the memory devices.\<close>

lemma dimm_count_value:
  assumes "align_up_contract (QEMU_ALIGN_UP p)" and "0 < smbios_memory_device_size ms"
    and "unat (ram_size ms) + unat (smbios_memory_device_size ms) \<le> 2 ^ 64"
    and "(unat (ram_size ms) + unat (smbios_memory_device_size ms) - 1)
      div unat (smbios_memory_device_size ms) < 2 ^ 32"
  shows "unat (dimm_count p ms) =
    (unat (ram_size ms) + unat (smbios_memory_device_size ms) - 1)
      div unat (smbios_memory_device_size ms)"
proof -
  let ?d = "smbios_memory_device_size ms"
  have d: "0 < unat ?d" using assms(2) by (simp add: word_less_nat_alt)
  have "unat (QEMU_ALIGN_UP p (ram_size ms) ?d) =
      (unat (ram_size ms) + unat ?d - 1) div unat ?d * unat ?d"
    using assms(1-3) by (simp add: align_up_contract_def)
  then have "unat (QEMU_ALIGN_UP p (ram_size ms) ?d div ?d) =
      (unat (ram_size ms) + unat ?d - 1) div unat ?d"
    using d by (simp add: unat_div)
  with assms(4) show ?thesis
    by (simp add: dimm_count_def unsigned_ucast_eq take_bit_eq_mod)
qed

lemma unat_lt2p: "unat (w :: 'a::len word) < 2 ^ LENGTH('a)"
  by (rule unsigned_less)

lemma ceil_div: "0 < d \<Longrightarrow> 0 < (r :: nat) \<Longrightarrow> (r + d - 1) div d = (r - 1) div d + 1"
proof -
  assume "0 < d" "0 < r"
  then have "r + d - 1 = (r - 1) + d" by simp
  with \<open>0 < d\<close> show ?thesis by (metis div_add_self2 less_not_refl2)
qed

text \<open>
  The sizes given to the memory devices add up to the size of the memory: all but the
  last are full, and the last holds the remainder (a full one if there is none).
\<close>

theorem dimm_sizes_sum:
  assumes "align_up_contract (QEMU_ALIGN_UP p)" and "0 < smbios_memory_device_size ms"
    and "0 < ram_size ms"
    and "unat (ram_size ms) + unat (smbios_memory_device_size ms) \<le> 2 ^ 64"
    and "(unat (ram_size ms) + unat (smbios_memory_device_size ms) - 1)
      div unat (smbios_memory_device_size ms) < 2 ^ 32"
  shows "(\<Sum>i < unat (dimm_count p ms). unat (GET_DIMM_SZ ms (dimm_count p ms) i)) =
    unat (ram_size ms)"
proof -
  let ?n = "dimm_count p ms" and ?d = "unat (smbios_memory_device_size ms)"
  let ?r = "unat (ram_size ms)"
  have pos: "0 < ?d" "0 < ?r" using assms(2,3) by (simp_all add: word_less_nat_alt)
  have n: "unat ?n = (?r - 1) div ?d + 1"
    using dimm_count_value [OF assms(1,2,4,5)] ceil_div [OF pos] by simp
  then have n1: "unat (?n - 1) = unat ?n - 1"
    by (metis Suc_eq_plus1 diff_Suc_1 unat_eq_zero unat_minus_one zero_less_Suc less_irrefl)
  have full: "unat (GET_DIMM_SZ ms ?n i) = ?d" if "i < unat ?n - 1" for i
  proof -
    have "i < 2 ^ 32" using that unat_lt2p [of ?n] by simp
    with that n1 have "of_nat i < ?n - 1" by (simp add: word_less_nat_alt unat_of_nat)
    then show ?thesis by (simp add: GET_DIMM_SZ_def)
  qed
  have "unat (ram_size ms - 1) = ?r - 1"
    using pos by (metis unat_minus_one unat_0 less_irrefl)
  then have "unat ((ram_size ms - 1) mod smbios_memory_device_size ms) = (?r - 1) mod ?d"
    by (simp add: unat_mod)
  moreover have "(?r - 1) mod ?d + 1 < 2 ^ 64"
    using pos assms(4) mod_less_divisor [OF pos(1), of "?r - 1"] unat_lt2p [of "ram_size ms"] by simp
  ultimately have "unat ((ram_size ms - 1) mod smbios_memory_device_size ms + 1) = (?r - 1) mod ?d + 1"
    by (simp add: unat_word_ariths)
  then have last: "unat (GET_DIMM_SZ ms ?n (unat ?n - 1)) = (?r - 1) mod ?d + 1"
    unfolding GET_DIMM_SZ_def n1 [symmetric] by simp
  have "(\<Sum>i < unat ?n. unat (GET_DIMM_SZ ms ?n i)) =
      (\<Sum>i < unat ?n - 1. ?d) + ((?r - 1) mod ?d + 1)"
    using n full last by (simp add: lessThan_Suc)
  also have "\<dots> = (?r - 1) div ?d * ?d + (?r - 1) mod ?d + 1" using n by simp
  also have "\<dots> = ?r" using pos by simp
  finally show ?thesis .
qed

section \<open>Handles\<close>

text \<open>
  The offset keeps the handles of the memory devices (type 17) apart from those of their
  mapped addresses (type 19), and the assertion keeps these below the handles of type 32.
\<close>

theorem memory_handles_disjoint:
  assumes "unat n \<le> areas" and "areas + handle_offset n < T32_BASE - T19_BASE"
  shows "(of_nat ` {T17_BASE ..< T17_BASE + unat n} :: u16 set) \<inter>
      of_nat ` {T19_BASE + handle_offset n ..< T19_BASE + handle_offset n + areas} = {} \<and>
    inj_on (of_nat :: nat \<Rightarrow> u16) {T17_BASE ..< T17_BASE + unat n} \<and>
    inj_on (of_nat :: nat \<Rightarrow> u16)
      {T19_BASE + handle_offset n ..< T19_BASE + handle_offset n + areas}"
proof -
  let ?A = "{T17_BASE ..< T17_BASE + unat n}"
  let ?B = "{T19_BASE + handle_offset n ..< T19_BASE + handle_offset n + areas}"
  have inj: "inj_on (of_nat :: nat \<Rightarrow> u16) {..< 0x2000}"
  proof (rule inj_onI)
    fix x y :: nat
    assume xy: "x \<in> {..< 0x2000}" "y \<in> {..< 0x2000}" "(of_nat x :: u16) = of_nat y"
    then have "unat (of_nat x :: u16) = unat (of_nat y :: u16)" by simp
    with xy(1,2) show "x = y" by (simp add: unat_of_nat)
  qed
  have sub: "?A \<subseteq> {..< 0x2000}" "?B \<subseteq> {..< 0x2000}"
    using assms by (auto simp: base_defs)
  have disj: "?A \<inter> ?B = {}"
    by (auto simp: handle_offset_def base_defs split: if_splits)
  have "(of_nat ` ?A :: u16 set) \<inter> of_nat ` ?B = {}"
    unfolding inj_on_image_Int [OF inj sub, symmetric] disj by simp
  then show ?thesis
    using inj_on_subset [OF inj sub(1)] inj_on_subset [OF inj sub(2)] by blast
qed

lemma memory_ids_repeat:
  assumes "\<not> smbios_skip_table c 20 True" and "2 \<le> unat (dimm_count p ms)"
  shows "\<not> distinct (map snd (table_ids c ipmi sockets oem (dimm_count p ms)))"
proof -
  let ?n = "dimm_count p ms"
  let ?f = "\<lambda>i. id_if c 19 True (T19_BASE + handle_offset ?n + i) @ id_if c 20 True T20_BASE"
  have two: "[0..<unat ?n] = 0 # 1 # [2..<unat ?n]"
    using assms(2) by (simp add: upt_conv_Cons numeral_2_eq_2)
  have "\<not> distinct (map snd (concat (map ?f [0..<unat ?n])))"
    unfolding two using assms(1) by (simp add: id_if_def)
  then show ?thesis by (auto simp: table_ids_def rest_ids_def memory_ids_def)
qed

text \<open>
  The mapped addresses of the devices (type 20) all carry the same handle: a table built
  without an error for two or more memory devices, with type 20 structures, has two structures
  with the same handle, which the SMBIOS specification forbids.
\<close>

theorem type_20_handles_repeat:
  assumes "build_ok p ipmi s us"
    and "smbios_get_tables_ep p g ms ep mem s = Inr (s', None, Some (tabs, len, anchor, alen))"
    and "\<not> smbios_skip_table s 20 True" and "2 \<le> unat (dimm_count p ms)"
  shows "\<exists>xs. parse_structs tabs = Some xs \<and> \<not> distinct (map struct_handle xs)"
proof -
  obtain xs where xs: "complete s' (us @ xs)" "map struct_id xs = table_ids
      (smbios_config.truncate s) ipmi (smp_sockets ms) (length (type11_values s)) (dimm_count p ms)"
    using get_tables_ep_complete [OF assms(1,2)] by blast
  have "map struct_handle xs = map snd (map struct_id xs)" by (simp add: struct_id_def)
  then have "\<not> distinct (map struct_handle (us @ xs))"
    using memory_ids_repeat [of "smbios_config.truncate s", OF _ assms(4)] assms(3) xs(2) by simp
  moreover have "tabs = smbios_tables s'" using assms(2) by (rule get_tables_ep_steps, blast)
  ultimately show ?thesis using complete_parse [OF xs(1)] by blast
qed

section \<open>System information as the guest reads it\<close>

definition smbios_string :: "string option \<Rightarrow> bytes option" where
  "smbios_string v = (if opt_strs v = [] then None else Some (hd (opt_strs v)))"

lemma struct_string_str_ix:
  assumes "length pre < 255"
  shows "struct_string \<lparr>sfmt = fmt, sstrs = pre @ opt_strs v @ post\<rparr> (str_ix v pre) =
    smbios_string v"
proof (cases "opt_strs v = []")
  case False
  then obtain b where b: "opt_strs v = [b]" by (cases v) (auto split: if_splits)
  have u: "unat (of_nat (length pre + 1) :: u8) = length pre + 1"
    using assms by (simp add: unat_of_nat del: of_nat_add of_nat_Suc)
  then have "(of_nat (length pre + 1) :: u8) \<noteq> 0"
    by (metis One_nat_def add_eq_0_iff_both_eq_0 unat_0 zero_neq_one)
  with u b show ?thesis by (simp add: struct_string_def str_ix_def nth_append smbios_string_def
        del: of_nat_Suc of_nat_add)
qed (simp add: struct_string_def str_ix_def smbios_string_def)

lemma length_concat_opt_strs: "length (concat (map opt_strs vs)) \<le> length vs"
  by (induction vs) (simp_all, metis Suc_eq_plus1_left add_mono length_opt_strs)

lemma struct_string_list:
  assumes "k < length vs" and "length vs \<le> 255"
  shows "struct_string \<lparr>sfmt = fmt, sstrs = concat (map opt_strs vs)\<rparr>
    (str_ix (vs ! k) (concat (map opt_strs (take k vs)))) = smbios_string (vs ! k)"
proof -
  have "concat (map opt_strs vs) =
      concat (map opt_strs (take k vs)) @ opt_strs (vs ! k) @ concat (map opt_strs (drop (Suc k) vs))"
    using id_take_nth_drop [OF assms(1)] by (metis concat.simps(2) concat_append list.simps(9) map_append)
  then show ?thesis
    using struct_string_str_ix [of "concat (map opt_strs (take k vs))"]
      length_concat_opt_strs [of "take k vs"] assms by simp
qed

lemma encode_type_1_nth:
  "encode_type_1 t ! 4 = t1_manufacturer_str t" "encode_type_1 t ! 5 = t1_product_name_str t"
  "encode_type_1 t ! 6 = t1_version_str t" "encode_type_1 t ! 7 = t1_serial_number_str t"
  "encode_type_1 t ! 0x19 = t1_sku_number_str t" "encode_type_1 t ! 0x1A = t1_family_str t"
  by (simp_all add: encode_type_1_def encode_header_def nth_append nth_Cons')

text \<open>
  The strings of the system information structure are the configured ones: the numbers
  at the offsets the specification fixes (manufacturer 4, product 5, version 6, serial
  number 7, SKU 0x19, family 0x1A) select them, and an unset or empty one is absent.
\<close>

theorem type_1_strings_resolve:
  assumes "smbios_build_contract m" and "x = struct_of (type_1_fields m raw s hdr)"
  shows "map (\<lambda>i. struct_string x (sfmt x ! i)) [4, 5, 6, 7, 0x19, 0x1A] =
    map smbios_string [c1_manufacturer (smbios_type1 s), c1_product (smbios_type1 s),
      c1_version (smbios_type1 s), c1_serial (smbios_type1 s), c1_sku (smbios_type1 s),
      c1_family (smbios_type1 s)]"
proof -
  define vs where "vs = [c1_manufacturer (smbios_type1 s), c1_product (smbios_type1 s),
      c1_version (smbios_type1 s), c1_serial (smbios_type1 s), c1_sku (smbios_type1 s),
      c1_family (smbios_type1 s)]"
  let ?i = "\<lambda>k. str_ix (vs ! k) (concat (map opt_strs (take k vs)))"
  have x: "sstrs x = concat (map opt_strs vs)" "sfmt x ! 4 = ?i 0" "sfmt x ! 5 = ?i 1"
    "sfmt x ! 6 = ?i 2" "sfmt x ! 7 = ?i 3" "sfmt x ! 0x19 = ?i 4" "sfmt x ! 0x1A = ?i 5"
    using assms(1) unfolding assms(2)
    by (simp_all add: type_1_fields_def build_contract_simps Let_def struct_of_def
        encode_type_1_nth vs_def take_Cons_numeral nth_Cons_numeral)
  have x': "\<lparr>sfmt = sfmt x, sstrs = concat (map opt_strs vs)\<rparr> = x" and len: "length vs = 6"
    using x(1) by (cases x; simp) (simp add: vs_def)
  have "struct_string x (?i k) = smbios_string (vs ! k)" if "k < 6" for k
    using struct_string_list [of k vs "sfmt x", unfolded x' len] that by simp
  from this [of 0] this [of 1] this [of 2] this [of 3] this [of 4] this [of 5]
  show ?thesis unfolding list.map x(2-7) vs_def by simp
qed

text \<open>The bytes of words that were read from bytes.\<close>

lemma le_word_swaps:
  "le_bytes 4 (le_word [a, b, c, d] :: u32) = [a, b, c, d]"
  "le_bytes 2 (le_word [a, b] :: u16) = [a, b]"
  "le_bytes 6 (le_word [a, b, c, d, e, f] :: 48 word) = [a, b, c, d, e, f]"
  by (rule le_bytes_le_word'; simp)+

lemma bswap_le_word:
  "bswap32 (le_word [a, b, c, d]) = le_word [d, c, b, a]"
  "bswap16 (le_word [a, b]) = le_word [b, a]"
  "le_word [a] = (a :: u8)"
  unfolding bswap32_def bswap16_def le_word_swaps by simp_all

text \<open>The encoding of the sixteen bytes.\<close>

lemma encode_uuid_bytes:
  assumes "length u = 16"
  shows "encode_smbios_uuid (smbios_encode_uuid u) =
      rev (take 4 u) @ rev (take 2 (drop 4 u)) @ rev (take 2 (drop 6 u)) @ drop 8 u"
    "encode_smbios_uuid (memcpy_uuid u) = u"
proof -
  from assms obtain a0 a1 a2 a3 a4 a5 a6 a7 a8 a9 a10 a11 a12 a13 a14 a15
    where u: "u = [a0, a1, a2, a3, a4, a5, a6, a7, a8, a9, a10, a11, a12, a13, a14, a15]"
    by (auto simp: numeral_eq_Suc length_Suc_conv)
  show "encode_smbios_uuid (smbios_encode_uuid u) =
      rev (take 4 u) @ rev (take 2 (drop 4 u)) @ rev (take 2 (drop 6 u)) @ drop 8 u"
    "encode_smbios_uuid (memcpy_uuid u) = u"
    unfolding u by (simp_all add: smbios_encode_uuid_def memcpy_uuid_def encode_smbios_uuid_def
        take_Cons_numeral le_word_swaps bswap_le_word del: le_word.simps(2) le_bytes.simps(2))
qed

text \<open>
  The guest sees the UUID of the machine in the byte order of SMBIOS 2.6: the first three
  fields little-endian, the other eight bytes as given, at offset 8 of the structure; all
  zero bytes if no UUID was set.
\<close>

theorem type_1_uuid_bytes:
  assumes "smbios_build_contract m" and "length (qemu_uuid s) = 16"
  shows "take 16 (drop 8 (fst (type_1_fields m raw s hdr))) =
    (if qemu_uuid_set s
     then rev (take 4 (qemu_uuid s)) @ rev (take 2 (drop 4 (qemu_uuid s))) @
       rev (take 2 (drop 6 (qemu_uuid s))) @ drop 8 (qemu_uuid s)
     else replicate 16 0)"
proof -
  have off: "take 16 (drop 8 (encode_type_1 t)) = encode_smbios_uuid (t1_uuid t)" for t
    by (simp add: encode_type_1_def encode_header_def)
  show ?thesis
    using assms
    by (simp add: type_1_fields_def build_contract_simps Let_def off encode_uuid_bytes zero_uuid_def)
qed

end
