(* ===== verification/Smbios_Success.thy ===== *)
theory Smbios_Success
  imports Smbios_Outcomes
begin

text \<open>
  When \<open>smbios_get_tables\<close> succeeds: conditions on the machine, the memory areas and the
  PCI devices of the configuration under which no assertion of a builder fails and no error
  is reported.
\<close>

section \<open>The builders that can fail\<close>

definition pci_ok :: "pci_bus \<Rightarrow> string option \<Rightarrow> bool" where
  "pci_ok pci v \<longleftrightarrow> (case v of None \<Rightarrow> True
     | Some dev \<Rightarrow> (case pci dev of None \<Rightarrow> False | Some d \<Rightarrow> pci_bus_is_root d))"

lemma type_9_loop_succeeds:
  assumes "smbios_build_contract m"
  shows "\<forall>t \<in> set ts. pci_ok pci (i9_pcidev t) \<Longrightarrow>
    \<exists>s'. type_9_loop m pci raw ts k None s = Inr (s', None)"
proof (induction ts arbitrary: k s)
  case (Cons t9 ts)
  have "\<exists>t'. type_9_device pci t9 t = Inr t'" for t
    using Cons.prems by (auto simp: pci_ok_def type_9_device_def split: option.splits)
  then show ?case
    using Cons assms
    by (simp add: build_contract_simps split: prod.split sum.split) (metis sum.distinct(1))
qed simp

lemma type_41_loop_succeeds:
  assumes "smbios_build_contract m"
  shows "\<forall>t \<in> set ts. pci_ok pci (i41_pcidev t) \<Longrightarrow>
    \<exists>s'. type_41_loop m pci raw ts k None s = Inr (s', None)"
proof (induction ts arbitrary: k s)
  case (Cons t41 ts)
  have "\<exists>t'. type_41_device pci t41 t = Inr t'" for t
    using Cons.prems by (auto simp: pci_ok_def type_41_device_def split: option.splits)
  then show ?case
    using Cons assms
    by (simp add: build_contract_simps split: prod.split sum.split) (metis sum.distinct(1))
qed simp

lemma forR_succeeds:
  "(\<And>i s. i \<in> set is \<Longrightarrow> \<exists>s'. f i s = Inr s') \<Longrightarrow> \<exists>s'. forR is f s = Inr s'"
proof (induction "is" arbitrary: s)
  case (Cons i "is")
  obtain t where "f i s = Inr t" using Cons.prems by fastforce
  moreover obtain u where "forR is f t = Inr u" using Cons by (metis list.set_intros(2))
  ultimately show ?case by simp
qed simp

lemma type_17_size_ok:
  assumes "align_up_contract al" and "unat sz < 2 ^ 50"
  shows "al sz MiB div MiB < MAX_T17_EXT_SZ"
proof -
  have m: "unat MiB = 2 ^ 20" "0 < MiB" by (simp_all add: MiB_def)
  have "unat (al sz MiB) = (unat sz + 2 ^ 20 - 1) div 2 ^ 20 * 2 ^ 20"
    using assms m by (simp add: align_up_contract_def)
  then have "unat (al sz MiB div MiB) = (unat sz + 2 ^ 20 - 1) div 2 ^ 20"
    by (simp add: unat_div m)
  moreover have "(unat sz + 2 ^ 20 - 1) div 2 ^ 20 < (0x7fffffff :: nat)"
    using assms(2) by (simp add: div_less_iff_less_mult)
  ultimately show ?thesis by (simp add: word_less_nat_alt MAX_T17_EXT_SZ_def)
qed

lemma GET_DIMM_SZ_le:
  assumes "0 < smbios_memory_device_size ms"
  shows "unat (GET_DIMM_SZ ms n i) \<le> unat (smbios_memory_device_size ms)"
proof -
  let ?d = "smbios_memory_device_size ms"
  have "(ram_size ms - 1) mod ?d < ?d" using assms by (simp add: word_mod_less_divisor)
  then have "unat ((ram_size ms - 1) mod ?d + 1) \<le> unat ?d"
    by (metis inc_le word_le_nat_alt)
  then show ?thesis by (simp add: GET_DIMM_SZ_def)
qed

section \<open>Configurations that can be built\<close>

text \<open>
  A socket, memory devices of a sensible size, an area for every device that does not wrap
  around, handles that fit, and PCI devices that exist on the root bus.
\<close>

definition devices_ok :: "platform \<Rightarrow> 'a smbios_config_scheme \<Rightarrow> bool" where
  "devices_ok p s \<longleftrightarrow>
     (\<forall>t \<in> set (type9 s). pci_ok (pci_devices p) (i9_pcidev t)) \<and>
     (\<forall>t \<in> set (type41 s). pci_ok (pci_devices p) (i41_pcidev t))"

definition memory_fits :: "platform \<Rightarrow> machine \<Rightarrow> smbios_phys_mem_area list \<Rightarrow> bool" where
  "memory_fits p ms mem \<longleftrightarrow>
     0 < smbios_memory_device_size ms \<and> unat (smbios_memory_device_size ms) < 2 ^ 50 \<and>
     unat (dimm_count p ms) \<le> length mem \<and>
     (\<forall>i < unat (dimm_count p ms).
        address (mem ! i) < address (mem ! i) + GET_DIMM_SZ ms (dimm_count p ms) i - 1) \<and>
     length mem + handle_offset (dimm_count p ms) < T32_BASE - T19_BASE"

definition build_possible :: "platform \<Rightarrow> machine \<Rightarrow> smbios_phys_mem_area list \<Rightarrow> smbios \<Rightarrow> bool" where
  "build_possible p ms mem s \<longleftrightarrow>
     smbios_build_contract (build_macros p) \<and> align_up_contract (QEMU_ALIGN_UP p) \<and>
     (\<exists>ids. ipmi_contract (smbios_build_type_38_table p) ids) \<and> strings_ok s \<and>
     (\<forall>v \<in> set (type11_values s). oem_value_ok v) \<and> 1 \<le> smp_sockets ms \<and>
     memory_fits p ms mem \<and> devices_ok p s"

lemma devices_ok_cong:
  "smbios_config.truncate s' = smbios_config.truncate s \<Longrightarrow> devices_ok p s' = devices_ok p s"
  using config_eqD(8,10) [of s' s] by (simp add: devices_ok_def)

lemma type_17_succeeds:
  assumes "smbios_build_contract m" and "align_up_contract al" and "unat sz < 2 ^ 50"
  shows "\<exists>s'. smbios_build_type_17_table m al r i sz s = Inr s'"
  using type_17_size_ok [OF assms(2,3)] assms(1)
  by (simp add: smbios_build_type_17_table_def build_table_assert_eq)

lemma mem_array_loop_succeeds:
  assumes "smbios_build_contract (build_macros p)" and "i < length mem"
    and "address (mem ! i) < address (mem ! i) + GET_DIMM_SZ ms n i - 1"
  shows "\<exists>s'. mem_array_loop p g ms n mem i s = Inr s'"
  using assms
  by (simp add: mem_array_loop_def smbios_build_type_19_table_def smbios_build_type_20_table_def
      build_table_assert_eq)

lemma build_rest_succeeds:
  assumes "build_possible p ms mem s"
  shows "\<exists>s'. build_rest p g ms mem s = Inr (s', None)"
proof -
  let ?m = "build_macros p" and ?al = "QEMU_ALIGN_UP p"
  define n where "n = dimm_count p ms"
  note ok = assms [unfolded build_possible_def]
  then have m: "smbios_build_contract ?m" and al: "align_up_contract ?al"
    and str: "strings_ok s" and oem: "\<forall>v \<in> set (type11_values s). oem_value_ok v"
    and fit: "memory_fits p ms mem" and dev: "devices_ok p s" by blast+
  obtain ids where ipmi: "ipmi_contract (smbios_build_type_38_table p) ids" using ok by blast
  have d: "0 < smbios_memory_device_size ms" "unat (smbios_memory_device_size ms) < 2 ^ 50"
    using fit by (simp_all add: memory_fits_def)
  define s1 where "s1 = smbios_build_type_8_table ?m (raw_type_8 g) (build_caches p g ms s)"
  have "emits s (build_caches p g ms s) (id_if (smbios_config.truncate s) 7 True (T7_BASE + 0) @
      id_if (smbios_config.truncate s) 7 True (T7_BASE + 1) @
      id_if (smbios_config.truncate s) 7 True (T7_BASE + 2) @
      id_if (smbios_config.truncate s) 7 True (T7_BASE + 3))"
    using emitsP_build_caches [OF m] unfolding emitsP_def by blast
  note c1 = emits_trans [OF this emits_type_8_loop [OF m, of "build_caches p g ms s" "raw_type_8 g"
        "type8 (build_caches p g ms s)" 0], folded smbios_build_type_8_table_def s1_def]
  then have "devices_ok p s1" using dev devices_ok_cong emits_truncate by blast
  then obtain s2 where s2: "type_9_loop ?m (pci_devices p) (raw_type_9 g) (type9 s1) 0 None s1
      = Inr (s2, None)"
    using type_9_loop_succeeds [OF m] unfolding devices_ok_def by blast
  define s3 where "s3 = smbios_build_type_11_table ?m (raw_type_11 g) s2"
  define s4 where "s4 = smbios_build_type_16_table ?m ?al ms (raw_type_16 g) n s3"
  have "\<exists>s'. smbios_build_type_17_table ?m ?al r i (GET_DIMM_SZ ms n i) t = Inr s'" for r i t
    using type_17_succeeds [OF m al] GET_DIMM_SZ_le [OF d(1)] d(2) le_less_trans by blast
  then obtain s5 where s5: "forR [0..<unat n] (\<lambda>i. smbios_build_type_17_table ?m ?al
      (raw_type_17 g i) i (GET_DIMM_SZ ms n i)) s4 = Inr s5"
    using forR_succeeds by meson
  have "\<exists>s'. mem_array_loop p g ms n mem i t = Inr s'" if "i \<in> set [0..<unat n]" for i t
    by (rule mem_array_loop_succeeds [OF m])
      (use fit that in \<open>auto simp: memory_fits_def n_def\<close>)
  then obtain s6 where s6: "forR [0..<unat n] (mem_array_loop p g ms n mem) s5 = Inr s6"
    using forR_succeeds by meson
  define s7 where "s7 = smbios_build_type_39_table ?m (raw_type_39 g)
      (smbios_build_type_38_table p (smbios_build_type_37_table ?m (raw_type_37 g)
        (smbios_build_type_32_table ?m (raw_type_32 g) (build_probes p g
          (smbios_build_type_22_table ?m (raw_type_22 g) s6)))))"
  note o = build_rest_before_41 [OF m str oem ipmi n_def refl s1_def s2 s3_def s4_def s5 s6 s7_def]
  then have "devices_ok p s7" using dev devices_ok_cong emits_truncate by blast
  then obtain s8 where s8: "type_41_loop ?m (pci_devices p) (raw_type_41 g) (type41 s7) 0 None s7
      = Inr (s8, None)"
    using type_41_loop_succeeds [OF m] unfolding devices_ok_def by blast
  have "build_rest p g ms mem s = Inr (smbios_build_type_127_table ?m (raw_type_127 g) s8, None)"
    unfolding build_rest_def Let_def smbios_build_type_9_table_def s1_def [symmetric] s2
      smbios_build_type_41_table_def n_def [symmetric] bindR_simps prod.case
      s3_def [symmetric] s4_def [symmetric] s5 s6 s7_def [symmetric] s8
    using d(1) fit by (simp add: memory_fits_def n_def)
  then show ?thesis by blast
qed

section \<open>The whole build\<close>

text \<open>No socket has too many cores for the entry point.\<close>

definition cores_fit :: "SmbiosEntryPointType \<Rightarrow> machine \<Rightarrow> smbios \<Rightarrow> bool" where
  "cores_fit ep ms s \<longleftrightarrow>
     ep = SMBIOS_ENTRY_POINT_TYPE_64 \<or>
     ep = SMBIOS_ENTRY_POINT_TYPE_32 \<and>
       (smbios_skip_table s 4 True \<or> cores_per_socket ms < 255 \<and> threads_per_socket ms < 255)"

lemma type_4_loop_succeeds:
  assumes "smbios_build_contract (build_macros p)"
  shows "strings_ok s \<Longrightarrow> cores_fit ep ms s \<Longrightarrow> \<exists>s'. type_4_loop p g ms ep [k..<k + n] s = (s', None)"
proof (induction n arbitrary: k s)
  case (Suc n)
  have ep: "ep \<noteq> SMBIOS_ENTRY_POINT_TYPE_AUTO" using Suc.prems(2) by (auto simp: cores_fit_def)
  have "snd (smbios_build_type_4_table (build_macros p) ms (raw_type_4 g k) k ep s) = None"
    using type_4_error_iff [OF assms Suc.prems(1) ep, of ms "raw_type_4 g k" k] Suc.prems(2)
    by (auto simp: cores_fit_def not_less)
  then obtain t where t: "smbios_build_type_4_table (build_macros p) ms (raw_type_4 g k) k ep s = (t, None)"
    by (metis prod.collapse)
  note c = emits_truncate [OF emits_type_4 [OF assms Suc.prems(1) t]]
  have "strings_ok t" "cores_fit ep ms t"
    using strings_ok_cong [OF c] config_eqD(1) [OF c] Suc.prems by (simp_all add: cores_fit_def)
  from Suc.IH [OF this, of "Suc k"] t show ?case
    by (auto simp: upt_conv_Cons simp del: upt_Suc)
qed simp

lemma get_tables_ep_cases:
  assumes ok: "build_possible p ms mem s" and ep: "cores_fit ep ms s"
  obtains t u where
    "type_4_loop p g ms ep [0..<smp_sockets ms] (build_system p g (smbios_tables_start s)) = (t, None)"
    and "build_rest p g ms mem t = Inr (u, None)"
    and "smbios_validate_table ep u = None \<Longrightarrow>
      \<exists>s' out. smbios_get_tables_ep p g ms ep mem s = Inr (s', None, Some out)"
    and "\<And>e. smbios_validate_table ep u = Some e \<Longrightarrow>
      smbios_get_tables_ep p g ms ep mem s = Inr (err_exit u, Some e, None)"
proof -
  let ?s = "build_system p g (smbios_tables_start s)"
  have m: "smbios_build_contract (build_macros p)" and str: "strings_ok s"
    and oem: "\<forall>v \<in> set (type11_values s). oem_value_ok v"
    using ok by (simp_all add: build_possible_def)
  obtain ids where ipmi: "ipmi_contract (smbios_build_type_38_table p) ids"
    using ok by (auto simp: build_possible_def)
  have "emits (smbios_tables_start s) ?s (id_if (smbios_config.truncate s) 0 False T0_BASE @
      id_if (smbios_config.truncate s) 1 True T1_BASE @ id_if (smbios_config.truncate s) 2 True T2_BASE @
      id_if (smbios_config.truncate s) 3 True T3_BASE)"
    using emitsP_build_system [OF m, of "smbios_config.truncate s" g] str emitsPD by auto
  then have c: "smbios_config.truncate ?s = smbios_config.truncate s"
    using emits_truncate by force
  then have s: "strings_ok ?s" "cores_fit ep ms ?s"
    using strings_ok_cong [OF c] config_eqD(1) [OF c] str ep by (simp_all add: cores_fit_def)
  then obtain t where t: "type_4_loop p g ms ep [0..<smp_sockets ms] ?s = (t, None)"
    using type_4_loop_succeeds [OF m, of ?s ep ms g 0] by auto
  have e: "emits ?s t (ids_from (smbios_config.truncate ?s) 4 T4_BASE 0 (smp_sockets ms))"
    "type11_values t = type11_values ?s"
    using emits_type_4_loop [OF m s(1), of g ms ep 0 "smp_sockets ms" t] t by simp_all
  note ct = trans [OF emits_truncate [OF e(1)] c]
  have "build_possible p ms mem t"
    using ok strings_ok_cong [OF ct] devices_ok_cong [OF ct] e(2) oem
    unfolding build_possible_def by simp
  then obtain u where u: "build_rest p g ms mem t = Inr (u, None)"
    using build_rest_succeeds by blast
  have i38: "smbios_type4_count (smbios_build_type_38_table p x) = smbios_type4_count x" for x
  proof -
    have "emits x (smbios_build_type_38_table p x) ids"
      using ipmi emitsPD unfolding ipmi_contract_def by blast
    moreover have "type4_ids ids = 0"
      using ipmi by (auto simp: ipmi_contract_def type4_ids_def filter_empty_conv)
    ultimately show ?thesis by (simp add: emits_def)
  qed
  have "smbios_type4_count ?s = 0" by (simp add: smbios_tables_start_def)
  with type_4_loop_count [OF m, of g ms ep _ ?s t] t
  have "smbios_type4_count t = 0 \<or> smbios_type4_count t = smp_sockets ms" by fastforce
  then have check: "smbios_check_type4_count (smp_sockets ms) u = None"
    using build_rest_count [OF u i38] by (auto simp: smbios_check_type4_count_def)
  have sock: "1 \<le> smp_sockets ms" using ok by (simp add: build_possible_def)
  have "\<exists>s' out. smbios_get_tables_ep p g ms ep mem s = Inr (s', None, Some out)"
    if v: "smbios_validate_table ep u = None"
  proof -
    show ?thesis
      using ep sock
      by (auto simp: smbios_get_tables_ep_def Let_def t u check v cores_fit_def
          smbios_entry_point_setup_def anchor_length_def encode_ep21_def encode_ep30_def str_bytes_def)
  qed
  moreover have "smbios_get_tables_ep p g ms ep mem s = Inr (err_exit u, Some e, None)"
    if "smbios_validate_table ep u = Some e" for e
    using ep sock that
    by (auto simp: smbios_get_tables_ep_def Let_def t u check cores_fit_def error_setg_def)
  ultimately show thesis by (intro that [OF t u])
qed

text \<open> C2. With the 64-bit entry point the build succeeds in every machine that meets
  \<open>build_possible\<close>, whatever its number of cores and however long the table. \<close>

theorem get_tables_64_succeeds:
  assumes "build_possible p ms mem s"
  shows "\<exists>s' out. smbios_get_tables p g ms SMBIOS_ENTRY_POINT_TYPE_64 mem s = Inr (s', None, Some out)"
proof -
  have "cores_fit SMBIOS_ENTRY_POINT_TYPE_64 ms s" by (simp add: cores_fit_def)
  then obtain s' out where
    "smbios_get_tables_ep p (g SMBIOS_ENTRY_POINT_TYPE_64) ms SMBIOS_ENTRY_POINT_TYPE_64 mem s
      = Inr (s', None, Some out)"
    using get_tables_ep_cases [OF assms, of SMBIOS_ENTRY_POINT_TYPE_64 "g SMBIOS_ENTRY_POINT_TYPE_64"]
    by (metis SmbiosEntryPointType.distinct(1) smbios_validate_table_def)
  then have "smbios_get_tables p g ms SMBIOS_ENTRY_POINT_TYPE_64 mem s = Inr (s', None, Some out)"
    by (simp add: smbios_get_tables_def Let_def)
  then show ?thesis by blast
qed

end
