(* ===== verification/Smbios_Init.thy ===== *)
theory Smbios_Init
  imports Smbios_Get
begin

text \<open>
  Which tables depend on the fresh memory of their structure (\<open>raw\<close>), that is, which bytes
  of the guest's tables the code leaves unassigned.
\<close>

section \<open>Bodies that assign every byte\<close>

named_theorems raw_irrelevant \<open>bodies whose bytes do not depend on the fresh memory\<close>

lemma fields_raw [raw_irrelevant]:
  "type_0_fields m r0 s hdr = type_0_fields m r0' s hdr"
  "type_1_fields m r1 s hdr = type_1_fields m r1' s hdr"
  "type_2_fields m r2 s hdr = type_2_fields m r2' s hdr"
  "type_3_fields m r3 s hdr = type_3_fields m r3' s hdr"
  by (simp_all add: type_0_fields_def type_1_fields_def type_2_fields_def type_3_fields_def
      Let_def encode_type_0_def encode_type_1_def encode_type_2_def encode_type_3_def
      split: prod.split)

lemma fields_raw_hw [raw_irrelevant]:
  "type_7_fields m r7 c x e t a s hdr = type_7_fields m r7' c x e t a s hdr"
  "type_16_fields al ms r16 n hdr = type_16_fields al ms r16' n hdr"
  "type_17_fields m al r17 sz s hdr = type_17_fields m al r17' sz s hdr"
  "type_19_fields r19 st sz hdr = type_19_fields r19' st sz hdr"
  "type_20_fields r20 st sz hdr = type_20_fields r20' st sz hdr"
  by (simp_all add: type_7_fields_def type_16_fields_def type_17_fields_def type_19_fields_def
      type_20_fields_def Let_def encode_type_7_def encode_type_16_def encode_type_17_def
      encode_type_19_def encode_type_20_def split: prod.split)

lemma fields_raw_misc [raw_irrelevant]:
  "type_8_fields m r8 hdr = type_8_fields m r8' hdr"
  "type_11_fields m r11 vs hdr = type_11_fields m r11' vs hdr"
  "type_26_fields m r26 a s hdr = type_26_fields m r26' a s hdr"
  "type_27_fields m r27 a s hdr = type_27_fields m r27' a s hdr"
  "type_28_fields m r28 a s hdr = type_28_fields m r28' a s hdr"
  "type_29_fields m r29 hdr = type_29_fields m r29' hdr"
  "type_32_fields r32 hdr = type_32_fields r32' hdr"
  "type_39_fields m r39 hdr = type_39_fields m r39' hdr"
  by (simp_all add: type_8_fields_def type_11_fields_def type_26_fields_def type_27_fields_def
      type_28_fields_def type_29_fields_def type_32_fields_def type_39_fields_def
      Let_def encode_type_8_def encode_type_11_def encode_type_26_def encode_type_27_def
      encode_type_28_def encode_type_29_def encode_type_32_def encode_type_39_def
      split: prod.split)

text \<open>Type 4: the members of the 3.0 extension are assigned only in the long form.\<close>

definition no_ext :: "smbios_type_4 \<Rightarrow> smbios_type_4" where
  "no_ext t = t\<lparr>t4_core_count2 := 0, t4_core_enabled2 := 0, t4_thread_count2 := 0\<rparr>"

lemma type_4_fields_raw:
  "map_prod no_ext id (type_4_fields m ms r4 s hdr) = map_prod no_ext id (type_4_fields m ms r4' s hdr)"
  by (simp add: type_4_fields_def Let_def no_ext_def split: prod.split)

lemma no_ext_short: "take SMBIOS_TYPE_4_LEN_V28 (encode_type_4 (no_ext t)) =
    take SMBIOS_TYPE_4_LEN_V28 (encode_type_4 t)"
  by (simp add: no_ext_def encode_type_4_def SMBIOS_TYPE_4_LEN_V28_def encode_header_def)

lemma no_ext_long: "t\<lparr>t4_core_enabled2 := a, t4_core_count2 := b, t4_thread_count2 := c\<rparr> =
    (no_ext t)\<lparr>t4_core_enabled2 := a, t4_core_count2 := b, t4_thread_count2 := c\<rparr>"
  by (simp add: no_ext_def)

lemma no_ext_counts:
  "t4_core_count (no_ext t) = t4_core_count t" "t4_thread_count (no_ext t) = t4_thread_count t"
  by (simp_all add: no_ext_def)

lemma type_4_raw:
  "smbios_build_type_4_table m ms r4 i ep s = smbios_build_type_4_table m ms r4' i ep s"
proof (cases "SMBIOS_BUILD_TABLE_PRE m (smbios_skip_table s) 4 (T4_BASE + i) True (type_4_len ep)")
  case (Some hdr)
  obtain t ss where t: "type_4_fields m ms r4 s hdr = (t, ss)" by force
  obtain t' ss' where t': "type_4_fields m ms r4' s hdr = (t', ss')" by force
  have eq: "no_ext t = no_ext t'" "ss = ss'"
    using type_4_fields_raw [of m ms r4 s hdr r4'] t t' by simp_all
  have short: "take SMBIOS_TYPE_4_LEN_V28 (encode_type_4 t) = take SMBIOS_TYPE_4_LEN_V28 (encode_type_4 t')"
    using eq no_ext_short by metis
  have long: "t\<lparr>t4_core_enabled2 := a, t4_core_count2 := b, t4_thread_count2 := c\<rparr> =
      t'\<lparr>t4_core_enabled2 := a, t4_core_count2 := b, t4_thread_count2 := c\<rparr>" for a b c
    using eq no_ext_long by metis
  have counts: "t4_core_count t = t4_core_count t'" "t4_thread_count t = t4_thread_count t'"
    using eq(1) no_ext_counts by metis+
  show ?thesis
    unfolding smbios_build_type_4_table_def Let_def Some option.case t t' prod.case long counts eq(2)
    by (cases ep) (simp_all add: type_4_len_def short)
qed (simp add: smbios_build_type_4_table_def Let_def)

section \<open>Builders\<close>

lemma builders_raw:
  "smbios_build_type_0_table m r0 s = smbios_build_type_0_table m r0' s"
  "smbios_build_type_1_table m r1 s = smbios_build_type_1_table m r1' s"
  "smbios_build_type_2_table m r2 s = smbios_build_type_2_table m r2' s"
  "smbios_build_type_3_table m r3 s = smbios_build_type_3_table m r3' s"
  "smbios_build_type_7_table m r7 i d c x e t a s = smbios_build_type_7_table m r7' i d c x e t a s"
  "smbios_build_type_16_table m al ms r16 n s = smbios_build_type_16_table m al ms r16' n s"
  "smbios_build_type_17_table m al r17 i sz s = smbios_build_type_17_table m al r17' i sz s"
  "smbios_build_type_19_table m r19 i off st sz s = smbios_build_type_19_table m r19' i off st sz s"
  "smbios_build_type_20_table m r20 st sz s = smbios_build_type_20_table m r20' st sz s"
  by (simp_all add: smbios_build_type_0_table_def smbios_build_type_1_table_def
      smbios_build_type_2_table_def smbios_build_type_3_table_def smbios_build_type_7_table_def
      smbios_build_type_16_table_def smbios_build_type_17_table_def smbios_build_type_19_table_def
      smbios_build_type_20_table_def build_table_def build_table_assert_def Let_def
      fields_raw(1) [of m r0 s _ r0'] fields_raw(2) [of m r1 s _ r1']
      fields_raw(3) [of m r2 s _ r2'] fields_raw(4) [of m r3 s _ r3']
      fields_raw_hw(1) [of m r7 _ _ _ _ _ _ _ r7'] fields_raw_hw(2) [of al ms r16 _ _ r16']
      fields_raw_hw(3) [of m al r17 _ _ _ r17'] fields_raw_hw(4) [of r19 _ _ _ r19']
      fields_raw_hw(5) [of r20 _ _ _ r20'] split: option.split)

lemma builders_raw_misc:
  "smbios_build_type_11_table m r11 s = smbios_build_type_11_table m r11' s"
  "smbios_build_type_26_table m r26 i d a s = smbios_build_type_26_table m r26' i d a s"
  "smbios_build_type_27_table m r27 i d a s = smbios_build_type_27_table m r27' i d a s"
  "smbios_build_type_28_table m r28 i d a s = smbios_build_type_28_table m r28' i d a s"
  "smbios_build_type_29_table m r29 s = smbios_build_type_29_table m r29' s"
  "smbios_build_type_32_table m r32 s = smbios_build_type_32_table m r32' s"
  "smbios_build_type_37_table m r37 s = smbios_build_type_37_table m r37' s"
  "smbios_build_type_39_table m r39 s = smbios_build_type_39_table m r39' s"
  "smbios_build_type_127_table m r127 s = smbios_build_type_127_table m r127' s"
  by (simp_all add: smbios_build_type_11_table_def smbios_build_type_26_table_def
      smbios_build_type_27_table_def smbios_build_type_28_table_def smbios_build_type_29_table_def
      smbios_build_type_32_table_def smbios_build_type_37_table_def smbios_build_type_39_table_def
      smbios_build_type_127_table_def build_table_def Let_def encode_type_37_def encode_type_127_def
      fields_raw_misc(2) [of m r11 _ _ r11'] fields_raw_misc(3) [of m r26 _ _ _ r26']
      fields_raw_misc(4) [of m r27 _ _ _ r27'] fields_raw_misc(5) [of m r28 _ _ _ r28']
      fields_raw_misc(6) [of m r29 _ r29'] fields_raw_misc(7) [of r32 _ r32']
      fields_raw_misc(8) [of m r39 _ r39'] split: option.split)

lemma type_8_loop_raw: "type_8_loop m r8 ts k s = type_8_loop m r8' ts k s"
proof (induction ts arbitrary: k s)
  case (Cons t ts)
  show ?case
    by (simp add: Cons.IH fields_raw_misc(1) [of m "r8 k" _ "r8' k"] split: option.split prod.split)
qed simp

lemma type_41_loop_raw: "type_41_loop m pci r41 ts k errp s = type_41_loop m pci r41' ts k errp s"
proof (induction ts arbitrary: k s)
  case (Cons t ts)
  have "type_41_fields m (r41 k) t hdr = type_41_fields m (r41' k) t hdr" for hdr
    by (simp add: type_41_fields_def Let_def split: prod.split)
  then show ?case by (simp add: Cons.IH split: option.split prod.split sum.split)
qed simp

text \<open>Type 9 leaves the device numbers unassigned when the device lookup fails.\<close>

lemma type_9_loop_raw:
  "\<forall>t \<in> set ts. i9_pcidev t = None \<Longrightarrow>
   type_9_loop m pci r9 ts k errp s = type_9_loop m pci r9' ts k errp s"
proof (induction ts arbitrary: k s)
  case (Cons t ts)
  let ?u = "\<lambda>x. x\<lparr>t9_segment_group_number := 0xff, t9_bus_number := 0xff, t9_device_number := 0xff\<rparr>"
  have "map_prod (\<lambda>x. encode_type_9 (?u x)) id (type_9_fields m (r9 k) t hdr) =
      map_prod (\<lambda>x. encode_type_9 (?u x)) id (type_9_fields m (r9' k) t hdr)" for hdr
    by (simp add: type_9_fields_def Let_def encode_type_9_def split: prod.split)
  then have "encode_type_9 (?u (fst (type_9_fields m (r9 k) t hdr))) =
        encode_type_9 (?u (fst (type_9_fields m (r9' k) t hdr)))"
    "snd (type_9_fields m (r9 k) t hdr) = snd (type_9_fields m (r9' k) t hdr)" for hdr
    by (metis fst_map_prod, metis id_apply snd_map_prod)
  with Cons show ?case
    by (simp add: type_9_device_def case_prod_beta split: option.split)
qed simp

section \<open>The whole table\<close>

lemma type9_set_tables [simp]: "type9 (set_tables t s) = type9 s"
  by (simp add: set_tables_def split: prod.split)

lemma type9_frames [simp]:
  "type9 (build_table m ty h req len body s) = type9 s"
  "type9 (smbios_tables_start s) = type9 s"
  by (simp_all add: build_table_def smbios_tables_start_def split: option.split prod.split)

lemma type9_groups [simp]:
  "type9 (build_system p g s) = type9 s" "type9 (build_caches p g ms s) = type9 s"
  by (simp_all add: build_system_def build_caches_def Let_def smbios_build_type_0_table_def
      smbios_build_type_1_table_def smbios_build_type_2_table_def smbios_build_type_3_table_def
      smbios_build_type_7_table_def)

lemma type9_loop8 [simp]: "type9 (type_8_loop m r8 ts k s) = type9 s"
  by (induction m r8 ts k s rule: type_8_loop.induct) (auto split: option.splits prod.splits)

lemma type9_type_4:
  "type9 (fst (smbios_build_type_4_table m ms r4 i ep s)) = type9 s"
  by (simp add: smbios_build_type_4_table_def Let_def split: option.split prod.split)

lemma type9_loop4: "type9 (fst (type_4_loop p g ms ep is s)) = type9 s"
proof (induction "is" arbitrary: s)
  case (Cons i "is")
  then show ?case
    using type9_type_4 [of "build_macros p" ms "raw_type_4 g i" i ep s]
    by (simp split: prod.split option.split) (metis fst_conv)
qed simp

lemma build_system_raw: "build_system p g s = build_system p g' s"
  unfolding build_system_def Let_def
  by (simp only: builders_raw(1) [of _ "raw_type_0 g" _ "raw_type_0 g'"]
      builders_raw(2) [of _ "raw_type_1 g" _ "raw_type_1 g'"]
      builders_raw(3) [of _ "raw_type_2 g" _ "raw_type_2 g'"]
      builders_raw(4) [of _ "raw_type_3 g" _ "raw_type_3 g'"])

lemma build_caches_raw: "build_caches p g ms s = build_caches p g' ms s"
  unfolding build_caches_def Let_def
  by (simp only: builders_raw(5) [of _ "raw_type_7 g i" _ _ _ _ _ _ _ _ "raw_type_7 g' i" for i])

lemma build_probes_raw: "build_probes p g s = build_probes p g' s"
  unfolding build_probes_def Let_def
  by (simp only: builders_raw_misc(2) [of _ "raw_type_26 g i" _ _ _ _ "raw_type_26 g' i" for i]
      builders_raw_misc(3) [of _ "raw_type_27 g" _ _ _ _ "raw_type_27 g'"]
      builders_raw_misc(4) [of _ "raw_type_28 g i" _ _ _ _ "raw_type_28 g' i" for i]
      builders_raw_misc(5) [of _ "raw_type_29 g" _ "raw_type_29 g'"])

lemma type_4_loop_raw: "type_4_loop p g ms ep is s = type_4_loop p g' ms ep is s"
proof (induction "is" arbitrary: s)
  case (Cons i "is")
  show ?case
    by (simp add: Cons.IH type_4_raw [of _ _ "raw_type_4 g i" _ _ _ "raw_type_4 g' i"]
        split: prod.split option.split)
qed simp

definition no_slot_device :: "smbios \<Rightarrow> bool" where
  "no_slot_device s \<longleftrightarrow> (\<forall>t \<in> set (type9 s). i9_pcidev t = None)"

lemma mem_array_loop_raw: "mem_array_loop p g ms n mem i = mem_array_loop p g' ms n mem i"
  unfolding mem_array_loop_def [abs_def]
  by (simp only: builders_raw(8) [of _ "raw_type_19 g i" _ _ _ _ _ "raw_type_19 g' i"]
      ext [OF builders_raw(9) [of _ "raw_type_20 g i" _ _ _ "raw_type_20 g' i"]])

lemma build_rest_raw:
  assumes "no_slot_device s" and "raw_type_22 g = raw_type_22 g'"
  shows "build_rest p g ms mem s = build_rest p g' ms mem s"
proof -
  have nine: "smbios_build_type_9_table m pci (raw_type_9 g) None
      (smbios_build_type_8_table m r8 (build_caches p h ms s)) =
    smbios_build_type_9_table m pci (raw_type_9 g') None
      (smbios_build_type_8_table m r8 (build_caches p h ms s))" for m pci r8 h
    using assms(1) type_9_loop_raw [of _ m pci "raw_type_9 g" _ _ _ "raw_type_9 g'"]
    by (simp add: smbios_build_type_9_table_def smbios_build_type_8_table_def no_slot_device_def)
  have eight: "smbios_build_type_8_table m (raw_type_8 g) t = smbios_build_type_8_table m (raw_type_8 g') t"
    for m t unfolding smbios_build_type_8_table_def by (rule type_8_loop_raw)
  have fortyone: "smbios_build_type_41_table m pci (raw_type_41 g) e t =
      smbios_build_type_41_table m pci (raw_type_41 g') e t" for m pci e t
    unfolding smbios_build_type_41_table_def by (rule type_41_loop_raw)
  show ?thesis
    unfolding build_rest_def Let_def
    by (simp only: build_caches_raw [of p g ms s g'] eight nine fortyone assms(2)
        build_probes_raw [of p g _ g'] mem_array_loop_raw [of p g ms _ mem _ g']
        ext [OF mem_array_loop_raw [of p g ms _ mem _ g']]
        builders_raw(6) [of _ _ _ "raw_type_16 g" _ _ "raw_type_16 g'"]
        ext [OF builders_raw(7) [of _ _ "raw_type_17 g i" _ _ _ "raw_type_17 g' i" for i]]
        builders_raw_misc(1) [of _ "raw_type_11 g" _ "raw_type_11 g'"]
        builders_raw_misc(6) [of _ "raw_type_32 g" _ "raw_type_32 g'"]
        builders_raw_misc(7) [of _ "raw_type_37 g" _ "raw_type_37 g'"]
        builders_raw_misc(8) [of _ "raw_type_39 g" _ "raw_type_39 g'"]
        builders_raw_misc(9) [of _ "raw_type_127 g" _ "raw_type_127 g'"])
qed

text \<open>
  C37. The tables do not depend on what the fresh memory of the fixed part of their structures held, with one
  exception, the battery (type 22): every other field of a structure is assigned. Stated for configurations
  without a slot that names a PCI device, which the options cannot produce
  (\<open>type9_never_has_pcidev\<close>). The strings behind the structures are values of the
  configuration; that an OEM string read from a file lacks its terminator
  (\<open>save_opt_one\<close>) is not about this memory, and outside of this property.
\<close>

theorem tables_initialised_except_battery:
  assumes "no_slot_device s" and "raw_type_22 g = raw_type_22 g'"
  shows "smbios_get_tables_ep p g ms ep mem s = smbios_get_tables_ep p g' ms ep mem s"
proof -
  let ?s = "build_system p g' (smbios_tables_start s)"
  have "no_slot_device (fst (type_4_loop p g' ms ep is ?s))" for "is"
    using assms(1) by (simp add: no_slot_device_def type9_loop4)
  then have "build_rest p g ms mem t = build_rest p g' ms mem t"
    if "type_4_loop p g' ms ep is ?s = (t, None)" for t "is"
    using build_rest_raw [OF _ assms(2)] that by (metis fst_conv)
  then show ?thesis
    unfolding smbios_get_tables_ep_def Let_def build_system_raw [of p g _ g']
      type_4_loop_raw [of p g ms ep _ _ g']
    by (auto split: prod.split option.split)
qed

text \<open>
  The battery hands the guest five bytes of host heap: the serial number, date and
  chemistry of its smart battery data are whatever the memory held.
\<close>

theorem battery_leaks_heap:
  "take 4 (drop 0x10 (fst (type_22_fields m raw hdr))) =
     le_bytes 2 (t22_sbds_serial_number raw) @ le_bytes 2 (t22_sbds_manufacture_date raw) \<and>
   fst (type_22_fields m raw hdr) ! 0x14 = t22_sbds_device_chemistry raw"
  by (simp add: type_22_fields_def Let_def encode_type_22_def encode_header_def nth_append
      nth_Cons' split: prod.split)

end
