(* ===== verification/Smbios_Examples.thy ===== *)
theory Smbios_Examples
  imports Smbios_Success Smbios_Init
begin

text \<open>
  The theorems about the SMBIOS builders applied to concrete machines and configurations.
  What the fresh memory of the structures holds stays universally quantified.
\<close>

section \<open>Sample machines and configurations\<close>

definition sample_platform :: platform where
  "sample_platform =
     \<lparr>build_macros = smbios_build_sample, pci_devices = (\<lambda>_. None),
      QEMU_ALIGN_UP = align_up_sample, smbios_build_type_38_table = (\<lambda>s. s)\<rparr>"

text \<open>One socket with four cores, 4 GiB of memory in one device.\<close>

definition sample_machine :: machine where
  "sample_machine =
     \<lparr>smp_sockets = 1, threads_per_socket = 4, cores_per_socket = 4,
      ram_size = 0x100000000, smbios_memory_device_size = 0x400000000\<rparr>"

definition sample_areas :: "smbios_phys_mem_area list" where
  "sample_areas = [\<lparr>address = 0, area_length = 0x100000000\<rparr>]"

text \<open>The configuration of a board that only sets its defaults.\<close>

definition sample_config :: smbios where
  "sample_config = smbios_set_defaults (Some ''QEMU'') (Some ''PC'') (Some ''9.0'') smbios_init"

text \<open>One binary file: the structure \<open>x\<close>.\<close>

definition file_config :: "smbios_struct \<Rightarrow> smbios" where
  "file_config x =
     smbios_init\<lparr>smbios_have_binfile_bitmap := set_bit 127 0, usr_blobs := struct_bytes x,
       usr_blobs_len := length (struct_bytes x), usr_blobs_sizes := [length (struct_bytes x)],
       usr_table_max := length (struct_bytes x), usr_table_cnt := 1\<rparr>"

definition end_struct :: "bytes list \<Rightarrow> smbios_struct" where
  "end_struct ss = \<lparr>sfmt = [127, 4, 0, 0], sstrs = ss\<rparr>"

lemma sample_sel [simp]:
  "build_macros sample_platform = smbios_build_sample"
  "pci_devices sample_platform = (\<lambda>_. None)"
  "QEMU_ALIGN_UP sample_platform = align_up_sample"
  "smbios_build_type_38_table sample_platform = (\<lambda>s. s)"
  "smp_sockets sample_machine = 1" "cores_per_socket sample_machine = 4"
  "threads_per_socket sample_machine = 4" "ram_size sample_machine = 0x100000000"
  "smbios_memory_device_size sample_machine = 0x400000000"
  by (simp_all add: sample_platform_def sample_machine_def)

lemma sample_dimms [simp]: "dimm_count sample_platform sample_machine = 1"
  by (simp add: dimm_count_def align_up_sample_def)

lemma sample_fits: "memory_fits sample_platform sample_machine sample_areas"
  by (simp add: memory_fits_def GET_DIMM_SZ_def sample_areas_def handle_offset_def base_defs)

lemma strings_ok_sample: "strings_ok sample_config"
  by (simp add: sample_config_def strings_ok_def smbios_set_defaults_def smbios_init_def
      SMBIOS_SET_DEFAULT_def nul_free_def)

lemma align_up_sample_contract: "align_up_contract align_up_sample"
  unfolding align_up_contract_def
proof (intro allI impI)
  fix n a :: u64
  assume a: "0 < a \<and> unat n + unat a \<le> 2 ^ 64"
  then have pos: "0 < unat a" by (simp add: word_less_nat_alt)
  have "unat (a - 1) = unat a - 1" using a by (metis unat_minus_one less_irrefl)
  moreover from this have "unat n + unat (a - 1) < 2 ^ LENGTH(64)" using a pos by simp linarith
  ultimately have s: "unat (n + (a - 1)) = unat n + unat a - 1"
    using pos by (simp add: unat_word_ariths)
  let ?q = "(unat n + unat a - 1) div unat a"
  have b: "unat n + unat a - 1 < 2 ^ LENGTH(64)" using a pos by simp linarith
  have "?q * unat a < 2 ^ LENGTH(64)" by (rule le_less_trans [OF _ b]) simp
  moreover have "unat (align_up_sample n a) = ?q * unat a mod 2 ^ LENGTH(64)"
    using s by (simp add: align_up_sample_def unat_word_ariths unat_div add_diff_eq mod_mult_left_eq)
  ultimately show "unat (align_up_sample n a) = ?q * unat a" by simp
qed

lemma config_possible:
  assumes "strings_ok s" and "\<forall>v \<in> set (type11_values s). oem_value_ok v"
    and "type9 s = []" and "type41 s = []"
  shows "build_possible sample_platform sample_machine sample_areas s"
  using assms ipmi_contract_none
  by (auto simp: build_possible_def sample_fits devices_ok_def smbios_build_sample_contract
      align_up_sample_contract)

lemma sample_possible: "build_possible sample_platform sample_machine sample_areas sample_config"
  by (rule config_possible [OF strings_ok_sample])
    (simp_all add: sample_config_def smbios_set_defaults_def smbios_init_def)

lemma sample_ok: "build_ok sample_platform [] sample_config []"
  using strings_ok_sample ipmi_contract_none
  by (simp add: build_ok_def smbios_build_sample_contract)
    (simp add: sample_config_def smbios_set_defaults_def smbios_init_def usr_structs_def
      smbios_config.defs total_len_def largest_def)

lemma end_struct_wf: "strs_wf ss \<Longrightarrow> struct_wf (end_struct ss)"
  by (simp add: struct_wf_def end_struct_def decode_header_def sizeof_header_def)

lemma file_strings_ok: "strings_ok (file_config x)"
  by (simp add: file_config_def strings_ok_def smbios_init_def)

lemma file_ok: "struct_wf x \<Longrightarrow> build_ok sample_platform [] (file_config x) [x]"
  using file_strings_ok ipmi_contract_none
  by (simp add: build_ok_def smbios_build_sample_contract)
    (simp add: file_config_def smbios_init_def usr_structs_def smbios_config.defs total_len_def
      largest_def)

lemma file_possible: "build_possible sample_platform sample_machine sample_areas (file_config x)"
  by (rule config_possible [OF file_strings_ok])
    (simp_all add: file_config_def smbios_init_def)

section \<open>Whole builds\<close>

text \<open>The end marker is among the structures of the board's defaults.\<close>

theorem get_tables_64_succeeds_witness:
  "\<forall>g. \<exists>s' out. smbios_get_tables sample_platform g sample_machine SMBIOS_ENTRY_POINT_TYPE_64
     sample_areas sample_config = Inr (s', None, Some out)"
  by (intro allI get_tables_64_succeeds sample_possible)

lemma run_64:
  "\<exists>s' tabs len anchor alen. smbios_get_tables_ep sample_platform g sample_machine
     SMBIOS_ENTRY_POINT_TYPE_64 sample_areas sample_config
     = Inr (s', None, Some (tabs, len, anchor, alen))"
proof -
  have "cores_fit SMBIOS_ENTRY_POINT_TYPE_64 sample_machine sample_config" by (simp add: cores_fit_def)
  from get_tables_ep_cases [OF sample_possible this, of g] show ?thesis
    by (metis SmbiosEntryPointType.distinct(1) smbios_validate_table_def prod_cases4)
qed

theorem get_tables_structures_witness:
  "\<forall>g. \<exists>s' tabs len anchor alen xs. smbios_get_tables_ep sample_platform g sample_machine
     SMBIOS_ENTRY_POINT_TYPE_64 sample_areas sample_config
       = Inr (s', None, Some (tabs, len, anchor, alen)) \<and>
     parse_structs tabs = Some ([] @ xs) \<and> len = length tabs \<and>
     map struct_id xs = table_ids (smbios_config.truncate sample_config) []
       (smp_sockets sample_machine) (length (type11_values sample_config))
       (dimm_count sample_platform sample_machine)"
proof
  fix g
  obtain s' tabs len anchor alen where run: "smbios_get_tables_ep sample_platform g sample_machine
     SMBIOS_ENTRY_POINT_TYPE_64 sample_areas sample_config
     = Inr (s', None, Some (tabs, len, anchor, alen))"
    using run_64 [of g] by blast
  with get_tables_structures [OF sample_ok run] show "\<exists>s' tabs len anchor alen xs.
     smbios_get_tables_ep sample_platform g sample_machine
     SMBIOS_ENTRY_POINT_TYPE_64 sample_areas sample_config
       = Inr (s', None, Some (tabs, len, anchor, alen)) \<and>
     parse_structs tabs = Some ([] @ xs) \<and> len = length tabs \<and>
     map struct_id xs = table_ids (smbios_config.truncate sample_config) []
       (smp_sockets sample_machine) (length (type11_values sample_config))
       (dimm_count sample_platform sample_machine)" by blast
qed

text \<open>With one binary file and no defaults the table is that file.\<close>

lemma file_skip: "smbios_skip_table (file_config x) ty r"
  by (simp add: smbios_skip_table_def file_config_def smbios_init_def)

lemma file_ids: "table_ids (smbios_config.truncate (file_config x)) [] k 0 n = []"
proof -
  have "smbios_skip_table (smbios_config.truncate (file_config x)) ty r" for ty r
    using file_skip by simp
  then show ?thesis
    by (simp add: table_ids_def rest_ids_def memory_ids_def id_if_def ids_from_def)
qed

lemma file_build:
  assumes "struct_wf x"
    and "type_4_loop sample_platform g sample_machine ep [0..<smp_sockets sample_machine]
      (build_system sample_platform g (smbios_tables_start (file_config x))) = (t, None)"
    and "build_rest sample_platform g sample_machine mem t = Inr (u, None)"
  shows "smbios_tables_len u = length (struct_bytes x)"
proof -
  have "length (type11_values (file_config x)) = 0" by (simp add: file_config_def smbios_init_def)
  with build_complete [OF file_ok [OF assms(1)] assms(2,3)] obtain xs where
    "complete u ([x] @ xs)" "xs = []"
    using file_ids by (metis map_is_Nil_conv)
  then show ?thesis by (simp add: complete_def smbios_tables_of_def total_len_def)
qed

lemma end_bytes: "length (struct_bytes (end_struct [])) = 6"
  by (simp add: struct_bytes_def end_struct_def string_set_def)

lemma run_32:
  "\<exists>s' tabs len anchor alen. smbios_get_tables_ep sample_platform g sample_machine
     SMBIOS_ENTRY_POINT_TYPE_32 sample_areas (file_config (end_struct []))
     = Inr (s', None, Some (tabs, len, anchor, alen))"
proof -
  let ?x = "end_struct []"
  have wf: "struct_wf ?x" by (simp add: end_struct_wf)
  have fit: "cores_fit SMBIOS_ENTRY_POINT_TYPE_32 sample_machine (file_config ?x)"
    by (simp add: cores_fit_def)
  from get_tables_ep_cases [OF file_possible fit, of g] obtain s' out where
    "smbios_get_tables_ep sample_platform g sample_machine SMBIOS_ENTRY_POINT_TYPE_32 sample_areas
      (file_config ?x) = Inr (s', None, Some out)"
    using file_build [OF wf] end_bytes
    by (metis smbios_validate_table_def SMBIOS_21_MAX_TABLES_LEN_def not_less numeral_le_iff
        semiring_norm(68,69,71,72,73,76,78))
  then show ?thesis by (cases out) auto
qed

theorem entry_point_21_exact_witness:
  "\<forall>g. \<exists>s' tabs len anchor alen e xs. smbios_get_tables_ep sample_platform g sample_machine
     SMBIOS_ENTRY_POINT_TYPE_32 sample_areas (file_config (end_struct []))
       = Inr (s', None, Some (tabs, len, anchor, alen)) \<and>
     smbios_ep s' = Some (Ep21 e) \<and> anchor = encode_ep (Ep21 e) \<and>
     parse_structs tabs = Some xs \<and> unat (e21_structure_table_length e) = length tabs \<and>
     unat (e21_number_of_structures e) = length xs \<and>
     unat (e21_max_structure_size e) = largest xs \<and>
     alen = length anchor \<and> unat (e21_length e) = alen"
proof
  fix g
  have "struct_wf (end_struct [])" by (simp add: end_struct_wf)
  note ok = file_ok [OF this]
  from run_32 [of g] entry_point_21_exact [OF ok, of g sample_machine sample_areas]
  show "\<exists>s' tabs len anchor alen e xs. smbios_get_tables_ep sample_platform g sample_machine
     SMBIOS_ENTRY_POINT_TYPE_32 sample_areas (file_config (end_struct []))
       = Inr (s', None, Some (tabs, len, anchor, alen)) \<and>
     smbios_ep s' = Some (Ep21 e) \<and> anchor = encode_ep (Ep21 e) \<and>
     parse_structs tabs = Some xs \<and> unat (e21_structure_table_length e) = length tabs \<and>
     unat (e21_number_of_structures e) = length xs \<and>
     unat (e21_max_structure_size e) = largest xs \<and>
     alen = length anchor \<and> unat (e21_length e) = alen" by blast
qed

theorem type4_count_check_never_fails_witness:
  "\<forall>g. \<exists>s' e out. smbios_get_tables_ep sample_platform g sample_machine
     SMBIOS_ENTRY_POINT_TYPE_64 sample_areas sample_config = Inr (s', e, out) \<and>
     e \<noteq> Some (Type4_count 1 0)"
proof
  fix g
  obtain s' out where run: "smbios_get_tables_ep sample_platform g sample_machine
     SMBIOS_ENTRY_POINT_TYPE_64 sample_areas sample_config = Inr (s', None, Some out)"
    using run_64 [of g] by blast
  have "None \<noteq> Some (Type4_count 1 0)"
    by (rule type4_count_check_never_fails [OF _ _ run])
      (simp_all add: smbios_build_sample_contract)
  with run show "\<exists>s' e out. smbios_get_tables_ep sample_platform g sample_machine
     SMBIOS_ENTRY_POINT_TYPE_64 sample_areas sample_config = Inr (s', e, out) \<and>
     e \<noteq> Some (Type4_count 1 0)" by blast
qed

text \<open>A socket with 256 cores.\<close>

definition many_cores :: machine where
  "many_cores = sample_machine\<lparr>cores_per_socket := 256\<rparr>"

lemma sample_builds: "\<not> smbios_skip_table sample_config ty True"
  by (simp add: smbios_skip_table_def sample_config_def smbios_set_defaults_def smbios_init_def)

theorem auto_entry_point_falls_back_witness:
  "\<forall>g. smbios_get_tables sample_platform g many_cores SMBIOS_ENTRY_POINT_TYPE_AUTO sample_areas
      sample_config =
    smbios_get_tables sample_platform g many_cores SMBIOS_ENTRY_POINT_TYPE_64 sample_areas
      sample_config \<and>
    (\<exists>t. smbios_get_tables sample_platform g many_cores SMBIOS_ENTRY_POINT_TYPE_32 sample_areas
      sample_config = Inr (t, Some Too_many_cores, None))"
  by (intro allI auto_entry_point_falls_back)
    (simp_all add: smbios_build_sample_contract strings_ok_sample sample_builds many_cores_def)

text \<open>A binary file of more than 64 KiB and one OEM string.\<close>

definition long_config :: smbios where
  "long_config = (file_config (end_struct [replicate 70000 65]))
     \<lparr>smbios_have_fields_bitmap := set_bit 11 0, type11_values := [Some [65, 0]]\<rparr>"

lemma long_wf: "struct_wf (end_struct [replicate 70000 65])"
  by (rule end_struct_wf) simp

lemma long_ok: "build_ok sample_platform [] long_config [end_struct [replicate 70000 65]]"
proof -
  have "usr_structs (smbios_config.truncate long_config) [end_struct [replicate 70000 65]]"
    using long_wf
    by (simp add: long_config_def file_config_def smbios_init_def usr_structs_def
        smbios_config.defs total_len_def largest_def)
  moreover have "strings_ok long_config"
    using file_strings_ok unfolding strings_ok_def long_config_def by simp
  ultimately show ?thesis
    by (simp add: build_ok_def smbios_build_sample_contract ipmi_contract_none)
      (simp add: long_config_def oem_value_ok_def)
qed

lemma long_possible: "build_possible sample_platform sample_machine sample_areas long_config"
  by (rule config_possible)
    (use long_ok in \<open>simp_all add: build_ok_def long_config_def file_config_def smbios_init_def\<close>)

lemma long_bytes: "length (struct_bytes (end_struct [replicate 70000 65])) = 70006"
  by (simp add: struct_bytes_def end_struct_def string_set_def cstrings_def)

lemma run_long:
  "\<exists>s' n. smbios_get_tables_ep sample_platform g sample_machine SMBIOS_ENTRY_POINT_TYPE_32
     sample_areas long_config = Inr (s', Some (Table_too_long n), None)"
proof -
  have fit: "cores_fit SMBIOS_ENTRY_POINT_TYPE_32 sample_machine long_config"
    by (simp add: cores_fit_def)
  show ?thesis
  proof (rule get_tables_ep_cases [OF long_possible fit, of g], goal_cases)
    case (1 t u)
    from build_complete [OF long_ok 1(1,2)] obtain xs where
      "complete u ([end_struct [replicate 70000 65]] @ xs)" by blast
    then have "70006 \<le> smbios_tables_len u"
      by (simp add: complete_def smbios_tables_of_def total_len_def long_bytes)
    then have "smbios_validate_table SMBIOS_ENTRY_POINT_TYPE_32 u = Some (Table_too_long (smbios_tables_len u))"
      by (simp add: smbios_validate_table_def SMBIOS_21_MAX_TABLES_LEN_def)
    from 1(4) [OF this] show ?case by blast
  qed
qed

theorem oem_strings_lost_on_retry_witness:
  "\<forall>g. \<exists>s' n out. smbios_get_tables_ep sample_platform g sample_machine
     SMBIOS_ENTRY_POINT_TYPE_32 sample_areas long_config = Inr (s', Some (Table_too_long n), out) \<and>
     type11_values long_config = [Some [65, 0]] \<and>
     type11_values s' = map (\<lambda>_. None) (type11_values long_config) \<and> out = None"
proof
  fix g
  obtain s' n where run: "smbios_get_tables_ep sample_platform g sample_machine
     SMBIOS_ENTRY_POINT_TYPE_32 sample_areas long_config = Inr (s', Some (Table_too_long n), None)"
    using run_long [of g] by blast
  have "\<not> smbios_skip_table long_config 11 True"
    by (simp add: smbios_skip_table_def long_config_def file_config_def smbios_init_def
        bit_set_bit_iff)
  then have "type11_values s' = map (\<lambda>_. None) (type11_values long_config) \<and>
      (None :: table_output option) = None"
    using oem_strings_lost_on_retry [OF _ _ _ run] by (simp add: smbios_build_sample_contract)
  with run show "\<exists>s' n out. smbios_get_tables_ep sample_platform g sample_machine
     SMBIOS_ENTRY_POINT_TYPE_32 sample_areas long_config = Inr (s', Some (Table_too_long n), out) \<and>
     type11_values long_config = [Some [65, 0]] \<and>
     type11_values s' = map (\<lambda>_. None) (type11_values long_config) \<and> out = None"
    by (auto simp: long_config_def)
qed

section \<open>Memory\<close>

theorem dimms_bounded_by_areas_witness:
  "\<forall>g. \<exists>s r. build_rest sample_platform g sample_machine sample_areas s = Inr r \<and>
     unat (dimm_count sample_platform sample_machine) \<le> length sample_areas"
proof
  fix g
  obtain s' where "build_rest sample_platform g sample_machine sample_areas sample_config = Inr (s', None)"
    using build_rest_succeeds [OF sample_possible] by blast
  with dimms_bounded_by_areas [OF this] show "\<exists>s r. build_rest sample_platform g sample_machine
      sample_areas s = Inr r \<and>
      unat (dimm_count sample_platform sample_machine) \<le> length sample_areas" by blast
qed

text \<open>Three gigabytes and a half in devices of one.\<close>

definition four_dimms :: machine where
  "four_dimms = sample_machine\<lparr>ram_size := 0xE0000000, smbios_memory_device_size := 0x40000000\<rparr>"

theorem dimm_sizes_sum_witness:
  "(\<Sum>i < unat (dimm_count sample_platform four_dimms).
      unat (GET_DIMM_SZ four_dimms (dimm_count sample_platform four_dimms) i)) =
    unat (ram_size four_dimms)"
  by (rule dimm_sizes_sum) (simp_all add: align_up_sample_contract four_dimms_def)

theorem memory_handles_disjoint_witness:
  "(of_nat ` {T17_BASE ..< T17_BASE + unat (300 :: u32)} :: u16 set) \<inter>
      of_nat ` {T19_BASE + handle_offset 300 ..< T19_BASE + handle_offset 300 + 300} = {} \<and>
    inj_on (of_nat :: nat \<Rightarrow> u16) {T17_BASE ..< T17_BASE + unat (300 :: u32)} \<and>
    inj_on (of_nat :: nat \<Rightarrow> u16)
      {T19_BASE + handle_offset 300 ..< T19_BASE + handle_offset 300 + 300}"
  by (rule memory_handles_disjoint [of "300 :: u32" 300]) (simp_all add: handle_offset_def base_defs)

definition four_areas :: "smbios_phys_mem_area list" where
  "four_areas = replicate 4 \<lparr>address = 0, area_length = 0xE0000000\<rparr>"

lemma four_dimms_count [simp]: "dimm_count sample_platform four_dimms = 4"
  by (simp add: dimm_count_def align_up_sample_def four_dimms_def)

lemma four_dimms_sel [simp]:
  "smp_sockets four_dimms = 1" "ram_size four_dimms = 0xE0000000"
  "smbios_memory_device_size four_dimms = 0x40000000"
  by (simp_all add: four_dimms_def)

lemma four_possible: "build_possible sample_platform four_dimms four_areas sample_config"
proof -
  have "address (four_areas ! i) < address (four_areas ! i) + GET_DIMM_SZ four_dimms 4 i - 1"
    if "i < 4" for i
    using that by (simp add: four_areas_def GET_DIMM_SZ_def)
  then have "memory_fits sample_platform four_dimms four_areas"
    by (simp add: memory_fits_def four_areas_def handle_offset_def base_defs)
  with sample_possible show ?thesis by (simp add: build_possible_def)
qed

theorem type_20_handles_repeat_witness:
  "\<forall>g. \<exists>s' tabs len anchor alen xs. smbios_get_tables_ep sample_platform g four_dimms
     SMBIOS_ENTRY_POINT_TYPE_64 four_areas sample_config
       = Inr (s', None, Some (tabs, len, anchor, alen)) \<and>
     parse_structs tabs = Some xs \<and> \<not> distinct (map struct_handle xs)"
proof
  fix g
  have fit: "cores_fit SMBIOS_ENTRY_POINT_TYPE_64 four_dimms sample_config" by (simp add: cores_fit_def)
  obtain s' tabs len anchor alen where run: "smbios_get_tables_ep sample_platform g four_dimms
     SMBIOS_ENTRY_POINT_TYPE_64 four_areas sample_config
       = Inr (s', None, Some (tabs, len, anchor, alen))"
    using get_tables_ep_cases [OF four_possible fit, of g]
    by (metis SmbiosEntryPointType.distinct(1) smbios_validate_table_def prod_cases4)
  have "2 \<le> unat (dimm_count sample_platform four_dimms)" by simp
  from type_20_handles_repeat [OF sample_ok run sample_builds this] run
  show "\<exists>s' tabs len anchor alen xs. smbios_get_tables_ep sample_platform g four_dimms
     SMBIOS_ENTRY_POINT_TYPE_64 four_areas sample_config
       = Inr (s', None, Some (tabs, len, anchor, alen)) \<and>
     parse_structs tabs = Some xs \<and> \<not> distinct (map struct_handle xs)" by blast
qed

section \<open>System information and fresh memory\<close>

theorem type_1_strings_resolve_witness:
  "\<forall>raw hdr. (let x = struct_of (type_1_fields smbios_build_sample raw sample_config hdr) in
    map (\<lambda>i. struct_string x (sfmt x ! i)) [4, 5, 6, 7, 0x19, 0x1A] =
    map smbios_string [c1_manufacturer (smbios_type1 sample_config),
      c1_product (smbios_type1 sample_config), c1_version (smbios_type1 sample_config),
      c1_serial (smbios_type1 sample_config), c1_sku (smbios_type1 sample_config),
      c1_family (smbios_type1 sample_config)])"
  unfolding Let_def
  by (intro allI type_1_strings_resolve [OF smbios_build_sample_contract refl])

theorem type_1_uuid_bytes_witness:
  "\<forall>raw hdr. take 16 (drop 8 (fst (type_1_fields smbios_build_sample raw
      (smbios_init\<lparr>qemu_uuid := map of_nat [0..<16], qemu_uuid_set := True\<rparr>) hdr))) =
    [3, 2, 1, 0, 5, 4, 7, 6, 8, 9, 10, 11, 12, 13, 14, 15]"
proof (intro allI)
  fix raw hdr
  let ?s = "smbios_init\<lparr>qemu_uuid := map of_nat [0..<16], qemu_uuid_set := True\<rparr>"
  have "length (qemu_uuid ?s) = 16" by simp
  from type_1_uuid_bytes [OF smbios_build_sample_contract this, of raw hdr]
  show "take 16 (drop 8 (fst (type_1_fields smbios_build_sample raw ?s hdr))) =
    [3, 2, 1, 0, 5, 4, 7, 6, 8, 9, 10, 11, 12, 13, 14, 15]"
    by (simp add: upt_rec)
qed

theorem tables_initialised_except_battery_witness:
  "\<forall>g r. smbios_get_tables_ep sample_platform g sample_machine SMBIOS_ENTRY_POINT_TYPE_64
      sample_areas sample_config =
    smbios_get_tables_ep sample_platform (g\<lparr>raw_type_1 := r\<rparr>) sample_machine
      SMBIOS_ENTRY_POINT_TYPE_64 sample_areas sample_config"
  by (intro allI tables_initialised_except_battery)
    (simp_all add: no_slot_device_def sample_config_def smbios_set_defaults_def smbios_init_def)

end
