(* ===== verification/Kvm_User_Return.thy ===== *)
theory Kvm_User_Return
  imports Prelude
begin

text \<open>
  The user-return MSRs of \<open>x86.c\<close>: guest values that stay in a CPU's MSRs until it returns to
  user mode, where a notifier puts the host's values back. The state is one CPU's; the list
  of MSRs is shared. Interrupt masking is not modelled: every operation runs to its end.
\<close>

section \<open>State\<close>

record kvm_user_return_msr_values =
  host :: u64
  curr :: u64

text \<open>\<open>hw_msr\<close> are the CPU's own registers.\<close>

record kvm_user_return_msrs =
  registered :: bool
  uret_values :: "kvm_user_return_msr_values list"
  hw_msr :: "u32 \<Rightarrow> u64"

text \<open>
  The processor: which MSRs exist, which values a write accepts, and what a faulting
  \<open>rdmsrl_safe\<close> leaves in its result.
\<close>

record msr_hw =
  msr_exists :: "u32 \<Rightarrow> bool"
  msr_accepts :: "u32 \<Rightarrow> u64 \<Rightarrow> bool"
  rdmsr_fault_value :: "u32 \<Rightarrow> u64"

definition rdmsrl_safe :: "msr_hw \<Rightarrow> u32 \<Rightarrow> kvm_user_return_msrs \<Rightarrow> bool \<times> u64" where
  "rdmsrl_safe H msr c =
     (if msr_exists H msr then (False, hw_msr c msr) else (True, rdmsr_fault_value H msr))"

definition wrmsrl_safe ::
  "msr_hw \<Rightarrow> u32 \<Rightarrow> u64 \<Rightarrow> kvm_user_return_msrs \<Rightarrow> kvm_user_return_msrs \<times> bool" where
  "wrmsrl_safe H msr v c =
     (if msr_exists H msr \<and> msr_accepts H msr v then (c\<lparr>hw_msr := (hw_msr c)(msr := v)\<rparr>, False)
      else (c, True))"

text \<open>\<open>wrmsrl\<close> has no result: a write that faults is dropped.\<close>

definition wrmsrl :: "msr_hw \<Rightarrow> u32 \<Rightarrow> u64 \<Rightarrow> kvm_user_return_msrs \<Rightarrow> kvm_user_return_msrs" where
  "wrmsrl H msr v c = fst (wrmsrl_safe H msr v c)"

section \<open>Operations\<close>

definition restore_slot ::
  "msr_hw \<Rightarrow> u32 list \<Rightarrow> nat \<Rightarrow> kvm_user_return_msrs \<Rightarrow> kvm_user_return_msrs" where
  "restore_slot H kvm_uret_msrs_list slot c =
     (let values = uret_values c ! slot in
      if host values \<noteq> curr values then
        let c = wrmsrl H (kvm_uret_msrs_list ! slot) (host values) c
        in c\<lparr>uret_values := (uret_values c)[slot := values\<lparr>curr := host values\<rparr>]\<rparr>
      else c)"

definition kvm_on_user_return ::
  "msr_hw \<Rightarrow> u32 list \<Rightarrow> kvm_user_return_msrs \<Rightarrow> kvm_user_return_msrs" where
  "kvm_on_user_return H kvm_uret_msrs_list c =
     (let c = (if registered c then c\<lparr>registered := False\<rparr> else c)
      in fold (restore_slot H kvm_uret_msrs_list) [0..<length kvm_uret_msrs_list] c)"

definition kvm_probe_user_return_msr ::
  "msr_hw \<Rightarrow> u32 \<Rightarrow> kvm_user_return_msrs \<Rightarrow> kvm_user_return_msrs \<times> bool" where
  "kvm_probe_user_return_msr H msr c =
     (case rdmsrl_safe H msr c of (ret, val) \<Rightarrow>
        if ret then (c, ret) else wrmsrl_safe H msr val c)"

text \<open>The result of a successful call is the slot.\<close>

definition kvm_add_user_return_msr ::
  "nat \<Rightarrow> msr_hw \<Rightarrow> u32 \<Rightarrow> u32 list \<Rightarrow> kvm_user_return_msrs \<Rightarrow>
   crash + int \<times> u32 list \<times> kvm_user_return_msrs" where
  "kvm_add_user_return_msr KVM_MAX_NR_USER_RETURN_MSRS H msr kvm_uret_msrs_list c =
     (if length kvm_uret_msrs_list \<ge> KVM_MAX_NR_USER_RETURN_MSRS then Inl Aborted
      else case kvm_probe_user_return_msr H msr c of (c, err) \<Rightarrow>
        if err then Inr (-1, kvm_uret_msrs_list, c)
        else Inr (int (length kvm_uret_msrs_list), kvm_uret_msrs_list @ [msr], c))"

fun find_msr :: "u32 list \<Rightarrow> u32 \<Rightarrow> nat \<Rightarrow> int" where
  "find_msr [] msr i = -1"
| "find_msr (m # ms) msr i = (if m = msr then int i else find_msr ms msr (i + 1))"

definition kvm_find_user_return_msr :: "u32 list \<Rightarrow> u32 \<Rightarrow> int" where
  "kvm_find_user_return_msr kvm_uret_msrs_list msr = find_msr kvm_uret_msrs_list msr 0"

definition kvm_user_return_msr_cpu_online ::
  "msr_hw \<Rightarrow> u32 list \<Rightarrow> kvm_user_return_msrs \<Rightarrow> kvm_user_return_msrs" where
  "kvm_user_return_msr_cpu_online H kvm_uret_msrs_list c =
     fold (\<lambda>i c. let value = snd (rdmsrl_safe H (kvm_uret_msrs_list ! i) c)
                 in c\<lparr>uret_values := (uret_values c)[i := \<lparr>host = value, curr = value\<rparr>]\<rparr>)
       [0..<length kvm_uret_msrs_list] c"

definition kvm_set_user_return_msr ::
  "msr_hw \<Rightarrow> u32 list \<Rightarrow> nat \<Rightarrow> u64 \<Rightarrow> u64 \<Rightarrow> kvm_user_return_msrs \<Rightarrow>
   kvm_user_return_msrs \<times> nat" where
  "kvm_set_user_return_msr H kvm_uret_msrs_list slot value msk c =
     (let value = (value AND msk) OR (host (uret_values c ! slot) AND NOT msk) in
      if value = curr (uret_values c ! slot) then (c, 0)
      else case wrmsrl_safe H (kvm_uret_msrs_list ! slot) value c of (c, err) \<Rightarrow>
        if err then (c, 1)
        else
          let c = c\<lparr>uret_values := (uret_values c)[slot := (uret_values c ! slot)\<lparr>curr := value\<rparr>]\<rparr>;
              c = (if \<not> registered c then c\<lparr>registered := True\<rparr> else c)
          in (c, 0))"

definition drop_user_return_notifiers ::
  "msr_hw \<Rightarrow> u32 list \<Rightarrow> kvm_user_return_msrs \<Rightarrow> kvm_user_return_msrs" where
  "drop_user_return_notifiers H kvm_uret_msrs_list c =
     (if registered c then kvm_on_user_return H kvm_uret_msrs_list c else c)"

section \<open>The slots track the registers\<close>

definition uret_inv :: "msr_hw \<Rightarrow> u32 list \<Rightarrow> kvm_user_return_msrs \<Rightarrow> bool" where
  "uret_inv H ms c \<longleftrightarrow>
     length ms \<le> length (uret_values c) \<and>
     (\<forall>i < length ms. hw_msr c (ms ! i) = curr (uret_values c ! i) \<and> msr_exists H (ms ! i) \<and>
        msr_accepts H (ms ! i) (host (uret_values c ! i)) \<and>
        (\<not> registered c \<longrightarrow> curr (uret_values c ! i) = host (uret_values c ! i)))"

definition slots_restored :: "u32 list \<Rightarrow> nat \<Rightarrow> kvm_user_return_msrs \<Rightarrow> bool" where
  "slots_restored ms n c \<longleftrightarrow> (\<forall>i < n. curr (uret_values c ! i) = host (uret_values c ! i))"

text \<open>The invariant without its last part, while the notifier runs.\<close>

definition uret_track :: "msr_hw \<Rightarrow> u32 list \<Rightarrow> kvm_user_return_msrs \<Rightarrow> bool" where
  "uret_track H ms c \<longleftrightarrow>
     length ms \<le> length (uret_values c) \<and>
     (\<forall>i < length ms. hw_msr c (ms ! i) = curr (uret_values c ! i) \<and> msr_exists H (ms ! i) \<and>
        msr_accepts H (ms ! i) (host (uret_values c ! i)))"

lemma uret_inv_track:
  "uret_inv H ms c \<longleftrightarrow> uret_track H ms c \<and> (\<not> registered c \<longrightarrow> slots_restored ms (length ms) c)"
  by (auto simp: uret_inv_def uret_track_def slots_restored_def)

definition host_values :: "kvm_user_return_msrs \<Rightarrow> u64 list" where
  "host_values c = map host (uret_values c)"

lemma restore_slot_step:
  assumes "uret_track H ms c" and "distinct ms" and "i < length ms" and "slots_restored ms i c"
  shows "uret_track H ms (restore_slot H ms i c)"
    and "slots_restored ms (Suc i) (restore_slot H ms i c)"
    and "registered (restore_slot H ms i c) = registered c"
    and "host_values (restore_slot H ms i c) = host_values c"
  using assms
  by (auto simp: uret_track_def slots_restored_def restore_slot_def wrmsrl_def wrmsrl_safe_def
      Let_def nth_list_update nth_eq_iff_index_eq less_Suc_eq host_values_def map_update
      intro: list_update_same_conv [THEN iffD2])

lemma restore_slots:
  assumes "uret_track H ms c" and "distinct ms" and "n \<le> length ms"
  shows "uret_track H ms (fold (restore_slot H ms) [0..<n] c) \<and>
    slots_restored ms n (fold (restore_slot H ms) [0..<n] c) \<and>
    registered (fold (restore_slot H ms) [0..<n] c) = registered c \<and>
    host_values (fold (restore_slot H ms) [0..<n] c) = host_values c"
  using assms(3)
proof (induction n)
  case 0
  then show ?case using assms(1) by (simp add: slots_restored_def)
next
  case (Suc n)
  then show ?case using restore_slot_step [OF _ assms(2)] by simp
qed

lemma on_user_return_track:
  assumes "uret_track H ms c" and "distinct ms"
  shows "uret_inv H ms (kvm_on_user_return H ms c) \<and> \<not> registered (kvm_on_user_return H ms c) \<and>
    host_values (kvm_on_user_return H ms c) = host_values c"
proof -
  let ?c = "if registered c then c\<lparr>registered := False\<rparr> else c"
  have "uret_track H ms ?c" "\<not> registered ?c" "host_values ?c = host_values c"
    using assms(1) by (simp_all add: uret_track_def host_values_def)
  with restore_slots [OF this(1) assms(2) order_refl] show ?thesis
    by (simp add: kvm_on_user_return_def uret_inv_track)
qed

text \<open>The value a successful call leaves in the register.\<close>

definition masked_value :: "kvm_user_return_msrs \<Rightarrow> nat \<Rightarrow> u64 \<Rightarrow> u64 \<Rightarrow> u64" where
  "masked_value c slot value msk =
     (value AND msk) OR (host (uret_values c ! slot) AND NOT msk)"

lemma set_user_return_msr_inv:
  assumes "uret_inv H ms c" and "distinct ms" and "slot < length ms"
  shows "uret_inv H ms (fst (kvm_set_user_return_msr H ms slot value msk c))"
    and "host_values (fst (kvm_set_user_return_msr H ms slot value msk c)) = host_values c"
  using assms
  by (auto simp: uret_inv_def kvm_set_user_return_msr_def wrmsrl_safe_def Let_def nth_list_update
      nth_eq_iff_index_eq host_values_def map_update intro: list_update_same_conv [THEN iffD2])

section \<open>Histories of a CPU\<close>

text \<open>
  What can happen to a CPU after it came online with the registers \<open>h0\<close>: guests' values are
  set, the notifier runs, or it is dropped.
\<close>

inductive uret_reach :: "msr_hw \<Rightarrow> u32 list \<Rightarrow> (u32 \<Rightarrow> u64) \<Rightarrow> kvm_user_return_msrs \<Rightarrow> bool"
  for H ms h0
where
  online: "length ms \<le> length (uret_values c) \<Longrightarrow> \<not> registered c \<Longrightarrow> hw_msr c = h0 \<Longrightarrow>
     uret_reach H ms h0 (kvm_user_return_msr_cpu_online H ms c)"
| set_msr: "uret_reach H ms h0 c \<Longrightarrow> slot < length ms \<Longrightarrow>
     uret_reach H ms h0 (fst (kvm_set_user_return_msr H ms slot value msk c))"
| user_return: "uret_reach H ms h0 c \<Longrightarrow> uret_reach H ms h0 (kvm_on_user_return H ms c)"
| drop_notifiers: "uret_reach H ms h0 c \<Longrightarrow> uret_reach H ms h0 (drop_user_return_notifiers H ms c)"

text \<open>The MSRs of the list exist, and a value the CPU held can be written to it.\<close>

definition msrs_rewritable :: "msr_hw \<Rightarrow> u32 list \<Rightarrow> (u32 \<Rightarrow> u64) \<Rightarrow> bool" where
  "msrs_rewritable H ms h0 \<longleftrightarrow> (\<forall>m \<in> set ms. msr_exists H m \<and> msr_accepts H m (h0 m))"

lemma cpu_online_values:
  assumes "length ms \<le> length (uret_values c)" and "\<forall>m \<in> set ms. msr_exists H m"
    and "n \<le> length ms"
  shows "length (uret_values (fold (\<lambda>i c. let value = snd (rdmsrl_safe H (ms ! i) c)
        in c\<lparr>uret_values := (uret_values c)[i := \<lparr>host = value, curr = value\<rparr>]\<rparr>) [0..<n] c))
      = length (uret_values c) \<and>
    (\<forall>i < n. uret_values (fold (\<lambda>i c. let value = snd (rdmsrl_safe H (ms ! i) c)
        in c\<lparr>uret_values := (uret_values c)[i := \<lparr>host = value, curr = value\<rparr>]\<rparr>) [0..<n] c) ! i
      = \<lparr>host = hw_msr c (ms ! i), curr = hw_msr c (ms ! i)\<rparr>) \<and>
    hw_msr (fold (\<lambda>i c. let value = snd (rdmsrl_safe H (ms ! i) c)
        in c\<lparr>uret_values := (uret_values c)[i := \<lparr>host = value, curr = value\<rparr>]\<rparr>) [0..<n] c)
      = hw_msr c"
  using assms(3)
proof (induction n)
  case (Suc n)
  then show ?case
    using assms(1,2) by (auto simp: Let_def rdmsrl_safe_def nth_list_update less_Suc_eq)
qed simp

lemma uret_reach_inv:
  assumes "uret_reach H ms h0 c" and "distinct ms" and "msrs_rewritable H ms h0"
  shows "uret_inv H ms c \<and> (\<forall>i < length ms. host_values c ! i = h0 (ms ! i))"
  using assms(1)
proof (induction rule: uret_reach.induct)
  case (online c)
  then have ex: "\<forall>m \<in> set ms. msr_exists H m" using assms(3) by (simp add: msrs_rewritable_def)
  from cpu_online_values [OF online(1) ex order_refl] online assms(3) show ?case
    by (auto simp: kvm_user_return_msr_cpu_online_def uret_inv_def msrs_rewritable_def host_values_def)
next
  case (set_msr c slot v msk)
  then show ?case using set_user_return_msr_inv [OF _ assms(2)] by simp
next
  case (user_return c)
  then show ?case using on_user_return_track [OF _ assms(2)] by (simp add: uret_inv_track)
next
  case (drop_notifiers c)
  then show ?case using on_user_return_track [OF _ assms(2)]
    by (simp add: drop_user_return_notifiers_def uret_inv_track)
qed

text \<open>
  C8. User mode never runs with a guest's value: whenever the notifier is not registered,
  and after the notifiers are dropped, every MSR of the list holds what it held when the CPU
  came online.
\<close>

theorem host_msrs_restored:
  assumes "uret_reach H ms h0 c" and "distinct ms" and "msrs_rewritable H ms h0"
    and "c' = drop_user_return_notifiers H ms c"
  shows "\<not> registered c' \<and> (\<forall>m \<in> set ms. hw_msr c' m = h0 m)"
proof -
  have c': "uret_reach H ms h0 c'" unfolding assms(4) by (rule drop_notifiers [OF assms(1)])
  have reg: "\<not> registered c'"
    using uret_reach_inv [OF assms(1-3)] on_user_return_track [OF _ assms(2), of H c] assms(4)
    by (auto simp: drop_user_return_notifiers_def uret_inv_track)
  with uret_reach_inv [OF c' assms(2,3)] show ?thesis
    by (auto simp: uret_inv_def host_values_def in_set_conv_nth)
qed

text \<open>A processor that has every MSR, and a CPU that came online with 7 in each.\<close>

definition sample_hw :: msr_hw where
  "sample_hw = \<lparr>msr_exists = (\<lambda>m. True), msr_accepts = (\<lambda>m v. v < 0x10000),
     rdmsr_fault_value = (\<lambda>m. 0)\<rparr>"

definition sample_list :: "u32 list" where
  "sample_list = [0xc0000082, 0xc0000103]"

definition sample_cpu :: kvm_user_return_msrs where
  "sample_cpu = kvm_user_return_msr_cpu_online sample_hw sample_list
     \<lparr>registered = False, uret_values = replicate 16 \<lparr>host = 0, curr = 0\<rparr>, hw_msr = (\<lambda>m. 7)\<rparr>"

lemma sample_cpu_reach: "uret_reach sample_hw sample_list (\<lambda>m. 7) sample_cpu"
  unfolding sample_cpu_def by (rule online) (simp_all add: sample_list_def)

lemma sample_rewritable: "msrs_rewritable sample_hw sample_list (\<lambda>m. 7)" "distinct sample_list"
  by (simp_all add: msrs_rewritable_def sample_hw_def sample_list_def)

lemma host_msrs_restored_witness:
  "hw_msr (drop_user_return_notifiers sample_hw sample_list
    (fst (kvm_set_user_return_msr sample_hw sample_list 1 5 0xff sample_cpu))) 0xc0000103 = 7"
  using host_msrs_restored [OF set_msr [OF sample_cpu_reach, of 1 5 "0xff"] sample_rewritable(2,1) refl]
  by (simp add: sample_list_def)

text \<open>
  Setting a user-return MSR writes the guest's bits over the host's in the mask, or
  returns 1 and changes nothing when the processor refuses the value; a second call with the
  same value does not write.
\<close>

theorem set_user_return_msr_result:
  assumes "uret_inv H ms c" and "slot < length ms"
    and "kvm_set_user_return_msr H ms slot value msk c = (c', r)"
  shows "(if masked_value c slot value msk = curr (uret_values c ! slot) \<or>
      msr_accepts H (ms ! slot) (masked_value c slot value msk)
    then r = 0 \<and> hw_msr c' = (hw_msr c)(ms ! slot := masked_value c slot value msk) \<and>
      curr (uret_values c' ! slot) = masked_value c slot value msk
    else r = 1 \<and> c' = c)"
  using assms
  by (auto simp: uret_inv_def kvm_set_user_return_msr_def wrmsrl_safe_def Let_def masked_value_def
      split: if_splits)

lemma set_user_return_msr_result_witness:
  "snd (kvm_set_user_return_msr sample_hw sample_list 1 5 0xff sample_cpu) = 0 \<and>
   snd (kvm_set_user_return_msr sample_hw sample_list 1 0x10000 0x10000 sample_cpu) = 1"
proof -
  have v: "uret_values sample_cpu ! 1 = \<lparr>host = 7, curr = 7\<rparr>"
    by (simp add: sample_cpu_def kvm_user_return_msr_cpu_online_def sample_list_def rdmsrl_safe_def
        sample_hw_def upt_conv_Cons)
  have inv: "uret_inv sample_hw sample_list sample_cpu"
    using uret_reach_inv [OF sample_cpu_reach sample_rewritable(2,1)] by simp
  have "1 < length sample_list" by (simp add: sample_list_def)
  note r = set_user_return_msr_result [OF inv this, of 5 "0xff"]
    set_user_return_msr_result [OF inv this, of "0x10000" "0x10000"]
  show ?thesis
    using r by (cases "kvm_set_user_return_msr sample_hw sample_list 1 5 0xff sample_cpu";
        cases "kvm_set_user_return_msr sample_hw sample_list 1 0x10000 0x10000 sample_cpu")
      (simp add: masked_value_def v [unfolded One_nat_def] sample_hw_def)
qed

end
