(* ===== verification/Kvm_Exceptions.thy ===== *)
theory Kvm_Exceptions
  imports Prelude
begin

text \<open>
  The exception queue of a virtual CPU (\<open>x86.c\<close>): classes and types of vectors, delivery of
  payloads into DR6 and CR2, and \<open>kvm_multiple_exception\<close>, which merges an exception with the
  one already queued (double and triple faults). Vector numbers and DR6 bits are those of the
  x86 architecture; the nested interception test is a parameter.
\<close>

section \<open>Constants of the architecture\<close>

definition DE_VECTOR :: u32 where "DE_VECTOR = 0"
definition DB_VECTOR :: u32 where "DB_VECTOR = 1"
definition NMI_VECTOR :: u32 where "NMI_VECTOR = 2"
definition BP_VECTOR :: u32 where "BP_VECTOR = 3"
definition OF_VECTOR :: u32 where "OF_VECTOR = 4"
definition UD_VECTOR :: u32 where "UD_VECTOR = 6"
definition DF_VECTOR :: u32 where "DF_VECTOR = 8"
definition TS_VECTOR :: u32 where "TS_VECTOR = 10"
definition NP_VECTOR :: u32 where "NP_VECTOR = 11"
definition SS_VECTOR :: u32 where "SS_VECTOR = 12"
definition GP_VECTOR :: u32 where "GP_VECTOR = 13"
definition PF_VECTOR :: u32 where "PF_VECTOR = 14"
definition MC_VECTOR :: u32 where "MC_VECTOR = 18"

lemmas vector_defs =
  DE_VECTOR_def DB_VECTOR_def NMI_VECTOR_def BP_VECTOR_def OF_VECTOR_def UD_VECTOR_def
  DF_VECTOR_def TS_VECTOR_def NP_VECTOR_def SS_VECTOR_def GP_VECTOR_def PF_VECTOR_def
  MC_VECTOR_def

definition DR_TRAP_BITS :: u64 where "DR_TRAP_BITS = 0xf"
definition DR6_ACTIVE_LOW :: u64 where "DR6_ACTIVE_LOW = 0xffff0ff0"

section \<open>Classes and types\<close>

datatype excpt_class = EXCPT_BENIGN | EXCPT_CONTRIBUTORY | EXCPT_PF

definition exception_class :: "u32 \<Rightarrow> excpt_class" where
  "exception_class vector =
     (if vector = PF_VECTOR then EXCPT_PF
      else if vector \<in> {DE_VECTOR, TS_VECTOR, NP_VECTOR, SS_VECTOR, GP_VECTOR}
      then EXCPT_CONTRIBUTORY else EXCPT_BENIGN)"

datatype excpt_type = EXCPT_FAULT | EXCPT_TRAP | EXCPT_ABORT | EXCPT_INTERRUPT | EXCPT_DB

definition vector_bit :: "u32 \<Rightarrow> u32" where
  "vector_bit v = push_bit (unat v) 1"

definition exception_type :: "u32 \<Rightarrow> excpt_type" where
  "exception_type vector =
     (if vector > 31 \<or> vector = NMI_VECTOR then EXCPT_INTERRUPT
      else
        let msk = vector_bit vector in
        if msk AND vector_bit DB_VECTOR \<noteq> 0 then EXCPT_DB
        else if msk AND (vector_bit BP_VECTOR OR vector_bit OF_VECTOR) \<noteq> 0 then EXCPT_TRAP
        else if msk AND (vector_bit DF_VECTOR OR vector_bit MC_VECTOR) \<noteq> 0 then EXCPT_ABORT
        else EXCPT_FAULT)"

section \<open>State\<close>

record kvm_queued_exception =
  pending :: bool
  injected :: bool
  has_error_code :: bool
  ex_vector :: u32
  ex_error_code :: u32
  ex_payload :: u64
  has_payload :: bool

text \<open>The requests are the bits \<open>kvm_make_request\<close> sets.\<close>

record ex_vcpu =
  exception :: kvm_queued_exception
  exception_vmexit :: kvm_queued_exception
  ex_dr6 :: u64
  ex_cr2 :: u64
  guest_mode :: bool
  req_event :: bool
  req_triple_fault :: bool
  req_nmi :: bool
  nmi_queued :: nat
  pf_guest :: nat

text \<open>\<open>nested_ops->is_exception_vmexit\<close>: L1 intercepts the vector with this error code.\<close>

type_synonym is_exception_vmexit = "u32 \<Rightarrow> u32 \<Rightarrow> bool"

section \<open>Payloads\<close>

definition dr6_deliver :: "u64 \<Rightarrow> u64 \<Rightarrow> u64" where
  "dr6_deliver dr6 payload =
     (let dr6 = dr6 AND NOT DR_TRAP_BITS;
          dr6 = dr6 OR DR6_ACTIVE_LOW;
          dr6 = dr6 OR payload;
          dr6 = dr6 XOR (payload AND DR6_ACTIVE_LOW)
      in dr6 AND NOT (push_bit 12 1))"

text \<open>The function is always called on the queued exception of the vCPU.\<close>

definition kvm_deliver_exception_payload :: "ex_vcpu \<Rightarrow> ex_vcpu" where
  "kvm_deliver_exception_payload vcpu =
     (let ex = exception vcpu in
      if \<not> has_payload ex then vcpu
      else
        let vcpu = (if ex_vector ex = DB_VECTOR
                    then vcpu\<lparr>ex_dr6 := dr6_deliver (ex_dr6 vcpu) (ex_payload ex)\<rparr>
                    else if ex_vector ex = PF_VECTOR then vcpu\<lparr>ex_cr2 := ex_payload ex\<rparr>
                    else vcpu)
        in vcpu\<lparr>exception := ex\<lparr>has_payload := False, ex_payload := 0\<rparr>\<rparr>)"

definition kvm_queue_exception_vmexit ::
  "ex_vcpu \<Rightarrow> u32 \<Rightarrow> bool \<Rightarrow> u32 \<Rightarrow> bool \<Rightarrow> u64 \<Rightarrow> ex_vcpu" where
  "kvm_queue_exception_vmexit vcpu vector has_error error_code has_pl payload =
     vcpu\<lparr>exception_vmexit :=
       \<lparr>pending = True, injected = False, has_error_code = has_error, ex_vector = vector,
        ex_error_code = error_code, ex_payload = payload, has_payload = has_pl\<rparr>\<rparr>"

section \<open>Merging exceptions\<close>

text \<open>The code at the label \<open>queue\<close>.\<close>

definition queue_exception ::
  "ex_vcpu \<Rightarrow> u32 \<Rightarrow> bool \<Rightarrow> u32 \<Rightarrow> bool \<Rightarrow> u64 \<Rightarrow> bool \<Rightarrow> ex_vcpu" where
  "queue_exception vcpu nr has_error error_code has_pl payload reinject =
     (let ex = exception vcpu;
          (ex, has_pl, payload) =
            (if reinject
             then (ex\<lparr>injected := True\<rparr>,
                   (if has_pl then False else has_pl), (if has_pl then 0 else payload))
             else (ex\<lparr>pending := True, injected := False\<rparr>, has_pl, payload));
          ex = ex\<lparr>has_error_code := has_error, ex_vector := nr, ex_error_code := error_code,
                  has_payload := has_pl, ex_payload := payload\<rparr>;
          vcpu = vcpu\<lparr>exception := ex\<rparr>
      in if \<not> guest_mode vcpu then kvm_deliver_exception_payload vcpu else vcpu)"

definition exception_queued :: "ex_vcpu \<Rightarrow> bool" where
  "exception_queued vcpu \<longleftrightarrow> pending (exception vcpu) \<or> injected (exception vcpu)"

text \<open>
  \<open>kvm_multiple_exception\<close> calls itself for the double fault, through
  \<open>kvm_queue_exception_e (vcpu, DF_VECTOR, 0)\<close>, with the queue emptied.
\<close>

function kvm_multiple_exception ::
  "is_exception_vmexit \<Rightarrow> ex_vcpu \<Rightarrow> u32 \<Rightarrow> bool \<Rightarrow> u32 \<Rightarrow> bool \<Rightarrow> u64 \<Rightarrow> bool \<Rightarrow> ex_vcpu" where
  "kvm_multiple_exception vmexit vcpu nr has_error error_code has_pl payload reinject =
     (let vcpu = vcpu\<lparr>req_event := True\<rparr> in
      if \<not> reinject \<and> guest_mode vcpu \<and> vmexit nr error_code then
        kvm_queue_exception_vmexit vcpu nr has_error error_code has_pl payload
      else if \<not> exception_queued vcpu then
        queue_exception vcpu nr has_error error_code has_pl payload reinject
      else
        let prev_nr = ex_vector (exception vcpu) in
        if prev_nr = DF_VECTOR then vcpu\<lparr>req_triple_fault := True\<rparr>
        else
          let class1 = exception_class prev_nr;
              class2 = exception_class nr
          in if (class1 = EXCPT_CONTRIBUTORY \<and> class2 = EXCPT_CONTRIBUTORY) \<or>
                (class1 = EXCPT_PF \<and> class2 \<noteq> EXCPT_BENIGN)
             then kvm_multiple_exception vmexit
                    (vcpu\<lparr>exception := (exception vcpu)\<lparr>injected := False, pending := False\<rparr>\<rparr>)
                    DF_VECTOR True 0 False 0 False
             else queue_exception vcpu nr has_error error_code has_pl payload reinject)"
  by pat_completeness auto

termination
  by (relation "measure (\<lambda>(_, vcpu, _). if exception_queued vcpu then 1 else 0)")
    (auto simp: exception_queued_def)

declare kvm_multiple_exception.simps [simp del]

definition kvm_queue_exception :: "is_exception_vmexit \<Rightarrow> ex_vcpu \<Rightarrow> u32 \<Rightarrow> ex_vcpu" where
  "kvm_queue_exception vmexit vcpu nr =
     kvm_multiple_exception vmexit vcpu nr False 0 False 0 False"

definition kvm_requeue_exception :: "is_exception_vmexit \<Rightarrow> ex_vcpu \<Rightarrow> u32 \<Rightarrow> ex_vcpu" where
  "kvm_requeue_exception vmexit vcpu nr =
     kvm_multiple_exception vmexit vcpu nr False 0 False 0 True"

definition kvm_queue_exception_p :: "is_exception_vmexit \<Rightarrow> ex_vcpu \<Rightarrow> u32 \<Rightarrow> u64 \<Rightarrow> ex_vcpu" where
  "kvm_queue_exception_p vmexit vcpu nr payload =
     kvm_multiple_exception vmexit vcpu nr False 0 True payload False"

definition kvm_queue_exception_e_p ::
  "is_exception_vmexit \<Rightarrow> ex_vcpu \<Rightarrow> u32 \<Rightarrow> u32 \<Rightarrow> u64 \<Rightarrow> ex_vcpu" where
  "kvm_queue_exception_e_p vmexit vcpu nr error_code payload =
     kvm_multiple_exception vmexit vcpu nr True error_code True payload False"

definition kvm_queue_exception_e :: "is_exception_vmexit \<Rightarrow> ex_vcpu \<Rightarrow> u32 \<Rightarrow> u32 \<Rightarrow> ex_vcpu" where
  "kvm_queue_exception_e vmexit vcpu nr error_code =
     kvm_multiple_exception vmexit vcpu nr True error_code False 0 False"

definition kvm_requeue_exception_e :: "is_exception_vmexit \<Rightarrow> ex_vcpu \<Rightarrow> u32 \<Rightarrow> u32 \<Rightarrow> ex_vcpu" where
  "kvm_requeue_exception_e vmexit vcpu nr error_code =
     kvm_multiple_exception vmexit vcpu nr True error_code False 0 True"

section \<open>Injection\<close>

record x86_exception =
  fault_error_code :: u32
  fault_address :: u64
  async_page_fault :: bool

definition kvm_inject_page_fault :: "is_exception_vmexit \<Rightarrow> ex_vcpu \<Rightarrow> x86_exception \<Rightarrow> ex_vcpu" where
  "kvm_inject_page_fault vmexit vcpu fault =
     (let vcpu = vcpu\<lparr>pf_guest := pf_guest vcpu + 1\<rparr> in
      if guest_mode vcpu \<and> async_page_fault fault then
        kvm_queue_exception_vmexit vcpu PF_VECTOR True (fault_error_code fault) True
          (fault_address fault)
      else kvm_queue_exception_e_p vmexit vcpu PF_VECTOR (fault_error_code fault)
             (fault_address fault))"

definition kvm_inject_nmi :: "ex_vcpu \<Rightarrow> ex_vcpu" where
  "kvm_inject_nmi vcpu = vcpu\<lparr>nmi_queued := nmi_queued vcpu + 1, req_nmi := True\<rparr>"

text \<open>The current privilege level and CR4.DE are read through the vendor code: parameters.\<close>

definition kvm_require_cpl :: "is_exception_vmexit \<Rightarrow> int \<Rightarrow> ex_vcpu \<Rightarrow> int \<Rightarrow> ex_vcpu \<times> bool" where
  "kvm_require_cpl vmexit cpl vcpu required_cpl =
     (if cpl \<le> required_cpl then (vcpu, True)
      else (kvm_queue_exception_e vmexit vcpu GP_VECTOR 0, False))"

definition kvm_require_dr :: "is_exception_vmexit \<Rightarrow> bool \<Rightarrow> ex_vcpu \<Rightarrow> int \<Rightarrow> ex_vcpu \<times> bool" where
  "kvm_require_dr vmexit cr4_de vcpu dr =
     (if (dr \<noteq> 4 \<and> dr \<noteq> 5) \<or> \<not> cr4_de then (vcpu, True)
      else (kvm_queue_exception vmexit vcpu UD_VECTOR, False))"

section \<open>Classes and types of the vectors\<close>

lemma bit_vector_bit: "bit (vector_bit v) n \<longleftrightarrow> n = unat v \<and> n < 32"
  unfolding vector_bit_def by (auto simp: bit_exp_iff possible_bit_def)

lemma vector_bit_and:
  assumes "v < 32"
  shows "vector_bit v AND vector_bit w \<noteq> 0 \<longleftrightarrow> v = w"
proof -
  have u: "unat v < 32" using assms by (simp add: word_less_nat_alt)
  have "vector_bit v AND vector_bit w \<noteq> 0 \<longleftrightarrow> (\<exists>n. bit (vector_bit v AND vector_bit w) n)"
    using bit_imp_le_length by (fastforce simp: bit_eq_iff)
  then show ?thesis using u by (auto simp: bit_and_iff bit_vector_bit word_unat_eq_iff)
qed

lemma and_or_nonzero: "a AND (b OR c) \<noteq> 0 \<longleftrightarrow> a AND b \<noteq> 0 \<or> a AND c \<noteq> (0 :: u32)"
  by (auto simp: bit_eq_iff bit_and_iff bit_or_iff)

text \<open>
  The types of the 32 vectors are the architecture's: 1 is the debug exception, 3 and 4
  are traps, 8 and 18 aborts, 2 and everything from 32 on an interrupt, the rest faults.
\<close>

theorem exception_type_table:
  "exception_type v =
     (if v = 1 then EXCPT_DB else if v = 3 \<or> v = 4 then EXCPT_TRAP
      else if v = 8 \<or> v = 18 then EXCPT_ABORT
      else if v = 2 \<or> 31 < v then EXCPT_INTERRUPT else EXCPT_FAULT)"
proof (cases "v < 32")
  case True
  then have "\<not> 31 < v" by (simp add: word_less_nat_alt)
  then show ?thesis
    unfolding exception_type_def Let_def vector_bit_and [OF True] and_or_nonzero vector_defs
    by (cases "v = 2") simp_all
next
  case False
  then have "31 < v" by (simp add: word_less_nat_alt)
  moreover have "v \<notin> {1, 3, 4, 8, 18}" using False by auto
  ultimately show ?thesis by (simp add: exception_type_def)
qed

text \<open>
  The debug payload in DR6: the four trap bits become those of the payload, the
  active-low bits are set exactly where the payload is clear, the other bits accumulate, and
  bit 12 is always clear.
\<close>

theorem dr6_deliver_bits:
  "bit (dr6_deliver dr6 payload) n \<longleftrightarrow>
     (if n = 12 then False
      else if bit DR6_ACTIVE_LOW n then \<not> bit payload n
      else if n < 4 then bit payload n
      else bit dr6 n \<or> bit payload n)"
proof -
  have trap: "DR_TRAP_BITS = mask 4"
    by (simp add: DR_TRAP_BITS_def mask_eq_exp_minus_1)
  have low: "\<not> bit DR6_ACTIVE_LOW n" if "n < 4 \<or> n = 12"
  proof -
    have "n = 0 \<or> n = 1 \<or> n = 2 \<or> n = 3 \<or> n = 12" using that by linarith
    then show ?thesis unfolding DR6_ACTIVE_LOW_def by (elim disjE; simp)
  qed
  show ?thesis
  proof (cases "n < 64")
    case True
    have "bit (NOT (push_bit 12 1 :: u64)) n \<longleftrightarrow> n \<noteq> 12"
      using True by (auto simp only: bit_not_iff bit_push_bit_iff bit_1_iff possible_bit_def) auto
    then have "bit (dr6_deliver dr6 payload) n \<longleftrightarrow>
        n \<noteq> 12 \<and> bit ((((dr6 AND NOT DR_TRAP_BITS) OR DR6_ACTIVE_LOW) OR payload) XOR
          (payload AND DR6_ACTIVE_LOW)) n"
      unfolding dr6_deliver_def Let_def bit_and_iff by blast
    then show ?thesis
      using low True
      by (auto simp: trap bit_and_iff bit_or_iff bit_xor_iff bit_not_iff bit_mask_iff
          possible_bit_def)
  next
    case False
    then have "\<not> bit x n" for x :: u64 using bit_imp_le_length [of x n] by auto
    with False show ?thesis by auto
  qed
qed

section \<open>Double and triple faults\<close>

definition no_vmexit :: is_exception_vmexit where
  "no_vmexit nr error_code = False"

text \<open>
  C7. What happens to an exception, with or without a payload, when another one is queued and not
  yet handled, outside nested mode, by the numbers of the vectors: after a double fault (8) the
  machine shuts down; a divide error, invalid TSS, missing segment, stack fault or general
  protection fault (0, 10 to 13) after one of these, or one of these or a page fault after a page
  fault (14), make a double fault with error code 0 and drop the payload; otherwise the new
  exception takes the place of the old one, and its payload is in CR2 or DR6.
\<close>

theorem multiple_exception_table:
  assumes "exception_queued vcpu" and "\<not> guest_mode vcpu"
    and "v = kvm_multiple_exception vmexit vcpu nr has_error ec has_pl payload False"
  shows "let prev = ex_vector (exception vcpu) in
    if prev = 8 then req_triple_fault v \<and> exception v = exception vcpu \<and>
      ex_cr2 v = ex_cr2 vcpu \<and> ex_dr6 v = ex_dr6 vcpu
    else
      req_triple_fault v = req_triple_fault vcpu \<and> pending (exception v) \<and>
      \<not> injected (exception v) \<and> \<not> has_payload (exception v) \<and>
      (if prev \<in> {0, 10, 11, 12, 13} \<and> nr \<in> {0, 10, 11, 12, 13} \<or>
          prev = 14 \<and> nr \<in> {0, 10, 11, 12, 13, 14}
       then ex_vector (exception v) = 8 \<and> has_error_code (exception v) \<and>
         ex_error_code (exception v) = 0 \<and> ex_cr2 v = ex_cr2 vcpu \<and> ex_dr6 v = ex_dr6 vcpu
       else ex_vector (exception v) = nr \<and> has_error_code (exception v) = has_error \<and>
         ex_error_code (exception v) = ec \<and>
         ex_cr2 v = (if has_pl \<and> nr = 14 then payload else ex_cr2 vcpu) \<and>
         (ex_dr6 v = ex_dr6 vcpu \<or> has_pl \<and> nr = 1))"
proof -
  define p where "p = ex_vector (exception vcpu)"
  define c where "c \<longleftrightarrow> p \<in> {0, 10, 11, 12, 13} \<and> nr \<in> {0, 10, 11, 12, 13} \<or>
    p = 14 \<and> nr \<in> {0, 10, 11, 12, 13, 14}"
  have c': "c \<longleftrightarrow> exception_class p = EXCPT_CONTRIBUTORY \<and> exception_class nr = EXCPT_CONTRIBUTORY \<or>
      exception_class p = EXCPT_PF \<and> exception_class nr \<noteq> EXCPT_BENIGN"
    unfolding c_def by (auto simp: exception_class_def vector_defs split: if_splits)
  let ?w = "vcpu\<lparr>req_event := True\<rparr>"
  let ?u = "?w\<lparr>exception := (exception vcpu)\<lparr>injected := False, pending := False\<rparr>\<rparr>"
  have df: "kvm_multiple_exception vmexit ?u DF_VECTOR True 0 False 0 False =
      queue_exception (?u\<lparr>req_event := True\<rparr>) DF_VECTOR True 0 False 0 False"
    using assms(2) by (subst kvm_multiple_exception.simps) (simp add: exception_queued_def)
  have v: "v = (if p = DF_VECTOR then ?w\<lparr>req_triple_fault := True\<rparr>
      else if c then queue_exception (?u\<lparr>req_event := True\<rparr>) DF_VECTOR True 0 False 0 False
      else queue_exception ?w nr has_error ec has_pl payload False)"
    unfolding assms(3) c' p_def df [symmetric] using assms(1,2)
    by (subst kvm_multiple_exception.simps) (simp add: exception_queued_def Let_def)
  show ?thesis
    unfolding Let_def p_def [symmetric] c_def [symmetric] v using assms(2)
    by (auto simp: queue_exception_def kvm_deliver_exception_payload_def vector_defs Let_def)
qed

definition sample_vcpu :: "u32 \<Rightarrow> ex_vcpu" where
  "sample_vcpu prev =
     \<lparr>exception = \<lparr>pending = False, injected = True, has_error_code = True, ex_vector = prev,
        ex_error_code = 2, ex_payload = 0, has_payload = False\<rparr>,
      exception_vmexit = \<lparr>pending = False, injected = False, has_error_code = False,
        ex_vector = 0, ex_error_code = 0, ex_payload = 0, has_payload = False\<rparr>,
      ex_dr6 = 0, ex_cr2 = 0, guest_mode = False, req_event = False, req_triple_fault = False,
      req_nmi = False, nmi_queued = 0, pf_guest = 0\<rparr>"

lemma multiple_exception_table_witness:
  "ex_vector (exception (kvm_multiple_exception no_vmexit (sample_vcpu 14) 12 True 5 False 0 False)) = 8 \<and>
   ex_cr2 (kvm_multiple_exception no_vmexit (sample_vcpu 13) 14 True 5 True 0x1234 False) = 0x1234 \<and>
   req_triple_fault (kvm_multiple_exception no_vmexit (sample_vcpu 8) 14 True 5 True 0x1234 False)"
proof -
  have q: "exception_queued (sample_vcpu n)" "\<not> guest_mode (sample_vcpu n)" "ex_vector (exception (sample_vcpu n)) = n" for n :: u32
    by (simp_all add: sample_vcpu_def exception_queued_def)
  note t = multiple_exception_table [OF q(1,2) refl, of _ no_vmexit]
  show ?thesis
    using t [of 14 12 True 5 False 0] t [of 13 14 True 5 True "0x1234"] t [of 8 14 True 5 True "0x1234"]
    by (simp add: q(3) Let_def)
qed

text \<open>
  A page fault queued for an idle vCPU outside nested mode delivers its address to CR2 at
  once and is left pending with its error code and without a payload.
\<close>

theorem page_fault_delivered:
  assumes "\<not> exception_queued vcpu" and "\<not> guest_mode vcpu"
    and "v = kvm_inject_page_fault vmexit vcpu fault"
  shows "ex_cr2 v = fault_address fault \<and> ex_dr6 v = ex_dr6 vcpu \<and> pf_guest v = pf_guest vcpu + 1 \<and>
    exception v = \<lparr>pending = True, injected = False, has_error_code = True, ex_vector = PF_VECTOR,
      ex_error_code = fault_error_code fault, ex_payload = 0, has_payload = False\<rparr>"
  using assms
  by (simp add: kvm_inject_page_fault_def kvm_queue_exception_e_p_def
      kvm_multiple_exception.simps [of _ "vcpu\<lparr>pf_guest := n\<rparr>" for n] exception_queued_def Let_def queue_exception_def
      kvm_deliver_exception_payload_def vector_defs)

definition idle_vcpu :: ex_vcpu where
  "idle_vcpu = (sample_vcpu 0)\<lparr>exception := (exception (sample_vcpu 0))\<lparr>injected := False\<rparr>\<rparr>"

lemma page_fault_delivered_witness:
  "ex_cr2 (kvm_inject_page_fault no_vmexit idle_vcpu
     \<lparr>fault_error_code = 4, fault_address = 0x1000, async_page_fault = False\<rparr>) = 0x1000"
  using page_fault_delivered [of idle_vcpu _ no_vmexit
      "\<lparr>fault_error_code = 4, fault_address = 0x1000, async_page_fault = False\<rparr>", OF _ _ refl]
  by (simp add: idle_vcpu_def sample_vcpu_def exception_queued_def)

end
