(* ===== verification/Kvm_Cregs.thy ===== *)
theory Kvm_Cregs
  imports Prelude
begin

text \<open>
  The control registers of a virtual CPU (\<open>x86.c\<close>): CR0, CR3, CR4, CR8, EFER and the PAE page
  directory pointers, as a 64-bit build has them. The vendor operations are the record
  \<open>cr_ops\<close>, the callbacks of \<open>kvm_x86_ops\<close>; globals of the module and functions outside the
  repository are the record \<open>kvm_env\<close>. Calls into the MMU and other subsystems are recorded in
  order in \<open>calls\<close>. Positions of register bits are those of the x86 architecture.
\<close>

section \<open>Bits of the architecture\<close>

definition X86_CR0_PE :: u64 where "X86_CR0_PE = 0x1"
definition X86_CR0_ET :: u64 where "X86_CR0_ET = 0x10"
definition X86_CR0_WP :: u64 where "X86_CR0_WP = 0x10000"
definition X86_CR0_NW :: u64 where "X86_CR0_NW = 0x20000000"
definition X86_CR0_CD :: u64 where "X86_CR0_CD = 0x40000000"
definition X86_CR0_PG :: u64 where "X86_CR0_PG = 0x80000000"
definition X86_CR4_PAE :: u64 where "X86_CR4_PAE = 0x20"
definition X86_CR4_PGE :: u64 where "X86_CR4_PGE = 0x80"
definition X86_CR4_LA57 :: u64 where "X86_CR4_LA57 = 0x1000"
definition X86_CR4_PCIDE :: u64 where "X86_CR4_PCIDE = 0x20000"
definition X86_CR4_SMEP :: u64 where "X86_CR4_SMEP = 0x100000"
definition X86_CR3_PCID_MASK :: u64 where "X86_CR3_PCID_MASK = 0xfff"
definition X86_CR3_PCID_NOFLUSH :: u64 where "X86_CR3_PCID_NOFLUSH = 0x8000000000000000"
definition EFER_LME :: u64 where "EFER_LME = 0x100"
definition EFER_LMA :: u64 where "EFER_LMA = 0x400"
definition EFER_NX :: u64 where "EFER_NX = 0x800"
definition EFER_SVME :: u64 where "EFER_SVME = 0x1000"
definition EFER_FFXSR :: u64 where "EFER_FFXSR = 0x4000"
definition EFER_AUTOIBRS :: u64 where "EFER_AUTOIBRS = 0x200000"
definition PT_PRESENT_MASK :: u64 where "PT_PRESENT_MASK = 1"

lemmas bit_defs =
  X86_CR0_PE_def X86_CR0_ET_def X86_CR0_WP_def X86_CR0_NW_def X86_CR0_CD_def X86_CR0_PG_def
  X86_CR4_PAE_def X86_CR4_PGE_def X86_CR4_LA57_def X86_CR4_PCIDE_def X86_CR4_SMEP_def
  X86_CR3_PCID_MASK_def X86_CR3_PCID_NOFLUSH_def EFER_LME_def EFER_LMA_def EFER_NX_def
  EFER_SVME_def EFER_FFXSR_def EFER_AUTOIBRS_def PT_PRESENT_MASK_def

text \<open>The test \<open>x & m\<close> of C.\<close>

definition tst :: "u64 \<Rightarrow> u64 \<Rightarrow> bool" where
  "tst x m \<longleftrightarrow> x AND m \<noteq> 0"

section \<open>State\<close>

datatype kvm_request =
    KVM_REQ_LOAD_MMU_PGD | KVM_REQ_TLB_FLUSH_GUEST | KVM_REQ_TLB_FLUSH_CURRENT | KVM_REQ_MMU_SYNC

datatype kvm_reg = VCPU_EXREG_PDPTR | VCPU_EXREG_CR3

datatype kvm_call =
    Init_mmu | Mmu_reset_context | Mmu_unload | Mmu_new_pgd u64 | Mmu_free_current_root
  | Mmu_free_prev_roots "nat list" | Clear_async_pf_completion_queue | Async_pf_hash_reset
  | Zap_all_gfns | Hv_xsaves_xsavec_warn | Update_cpuid_runtime | Lapic_set_tpr u64

record creg_vcpu =
  cr0 :: u64
  cr3 :: u64
  cr4 :: u64
  cr8 :: u64
  efer :: u64
  pdptrs :: "u64 list"
  prev_root_pgds :: "u64 list"
  reserved_gpa_bits :: u64
  cr4_guest_rsvd_bits :: u64
  pdptrs_from_userspace :: bool
  requests :: "kvm_request set"
  regs_dirty :: "kvm_reg set"
  calls :: "kvm_call list"

datatype cpuid_feature =
    X86_FEATURE_AUTOIBRS | X86_FEATURE_FXSR_OPT | X86_FEATURE_SVM | X86_FEATURE_LM
  | X86_FEATURE_NX | X86_FEATURE_RTM | X86_FEATURE_BUS_LOCK_DETECT

text \<open>
  Globals (\<open>tdp_enabled\<close> to \<open>efer_reserved_bits\<close>), constants of other headers, and functions
  outside the repository: address translation and the read of the four pointers, CPUID, MTRR
  and quirk tests, the legality of a CR3, the code segment's L bit, the local APIC.
\<close>

record kvm_env =
  tdp_enabled :: bool
  cr4_reserved_bits :: u64
  efer_reserved_bits :: u64
  CR0_RESERVED_BITS :: u64
  CR8_RESERVED_BITS :: u64
  KVM_MMU_CR0_ROLE_BITS :: u64
  KVM_MMU_CR4_ROLE_BITS :: u64
  KVM_MMU_EFER_ROLE_BITS :: u64
  X86_CR0_PDPTR_BITS :: u64
  X86_CR4_PDPTR_BITS :: u64
  rsvd_bits :: "nat \<Rightarrow> nat \<Rightarrow> u64"
  kvm_translate_gpa :: "u64 \<Rightarrow> u64 option"
  kvm_vcpu_read_guest_page :: "u64 \<Rightarrow> u64 \<Rightarrow> u64 list option"
  guest_cpuid_has :: "cpuid_feature \<Rightarrow> bool"
  mmu_honors_guest_mtrrs :: bool
  quirk_CD_NW_CLEARED :: bool
  kvm_vcpu_is_legal_cr3 :: "u64 \<Rightarrow> bool"
  cs_l :: bool
  host_has_xsaves :: bool
  lapic_in_kernel :: bool
  kvm_lapic_get_cr8 :: u64

text \<open>The callbacks; \<open>set_efer\<close> can refuse.\<close>

record 'a cr_ops =
  ops_is_valid_cr0 :: "'a creg_vcpu_scheme \<Rightarrow> u64 \<Rightarrow> bool"
  ops_set_cr0 :: "u64 \<Rightarrow> 'a creg_vcpu_scheme \<Rightarrow> 'a creg_vcpu_scheme"
  ops_is_valid_cr4 :: "'a creg_vcpu_scheme \<Rightarrow> u64 \<Rightarrow> bool"
  ops_set_cr4 :: "u64 \<Rightarrow> 'a creg_vcpu_scheme \<Rightarrow> 'a creg_vcpu_scheme"
  ops_set_efer :: "u64 \<Rightarrow> 'a creg_vcpu_scheme \<Rightarrow> 'a creg_vcpu_scheme \<times> int"

text \<open>The modes of the processor.\<close>

definition is_paging :: "'a creg_vcpu_scheme \<Rightarrow> bool" where
  "is_paging v \<longleftrightarrow> tst (cr0 v) X86_CR0_PG"

definition is_pae :: "'a creg_vcpu_scheme \<Rightarrow> bool" where
  "is_pae v \<longleftrightarrow> tst (cr4 v) X86_CR4_PAE"

definition is_long_mode :: "'a creg_vcpu_scheme \<Rightarrow> bool" where
  "is_long_mode v \<longleftrightarrow> tst (efer v) EFER_LMA"

definition is_pae_paging :: "'a creg_vcpu_scheme \<Rightarrow> bool" where
  "is_pae_paging v \<longleftrightarrow> \<not> is_long_mode v \<and> is_pae v \<and> is_paging v"

definition is_64_bit_mode :: "kvm_env \<Rightarrow> 'a creg_vcpu_scheme \<Rightarrow> bool" where
  "is_64_bit_mode E v \<longleftrightarrow> is_long_mode v \<and> cs_l E"

definition kvm_make_request :: "kvm_request \<Rightarrow> 'a creg_vcpu_scheme \<Rightarrow> 'a creg_vcpu_scheme" where
  "kvm_make_request r v = v\<lparr>requests := insert r (requests v)\<rparr>"

definition call :: "kvm_call \<Rightarrow> 'a creg_vcpu_scheme \<Rightarrow> 'a creg_vcpu_scheme" where
  "call c v = v\<lparr>calls := calls v @ [c]\<rparr>"

definition mark_dirty :: "kvm_reg \<Rightarrow> 'a creg_vcpu_scheme \<Rightarrow> 'a creg_vcpu_scheme" where
  "mark_dirty r v = v\<lparr>regs_dirty := insert r (regs_dirty v)\<rparr>"

section \<open>PAE page directory pointers\<close>

definition pdptr_rsvd_bits :: "kvm_env \<Rightarrow> 'a creg_vcpu_scheme \<Rightarrow> u64" where
  "pdptr_rsvd_bits E v = reserved_gpa_bits v OR rsvd_bits E 5 8 OR rsvd_bits E 1 2"

text \<open>
  \<open>gfn_to_gpa (cr3 >> PAGE_SHIFT)\<close> is CR3 without its low twelve bits; the four pointers are
  read at bits 5 to 11 of CR3.
\<close>

definition load_pdptrs :: "kvm_env \<Rightarrow> u64 \<Rightarrow> 'a creg_vcpu_scheme \<Rightarrow> 'a creg_vcpu_scheme \<times> bool" where
  "load_pdptrs E c3 v =
     (case kvm_translate_gpa E (push_bit 12 (drop_bit 12 c3)) of
        None \<Rightarrow> (v, False)
      | Some real_gpa \<Rightarrow>
        (case kvm_vcpu_read_guest_page E (drop_bit 12 real_gpa) (c3 AND 0xfe0) of
           None \<Rightarrow> (v, False)
         | Some pdpte \<Rightarrow>
           if \<exists>p \<in> set pdpte. tst p PT_PRESENT_MASK \<and> tst p (pdptr_rsvd_bits E v) then (v, False)
           else
             let v = (if \<not> tdp_enabled E \<and> pdptrs v \<noteq> pdpte then call Mmu_free_current_root v else v);
                 v = v\<lparr>pdptrs := pdpte\<rparr>;
                 v = mark_dirty VCPU_EXREG_PDPTR v;
                 v = kvm_make_request KVM_REQ_LOAD_MMU_PGD v
             in (v\<lparr>pdptrs_from_userspace := False\<rparr>, True)))"

section \<open>CR0\<close>

definition kvm_is_valid_cr0 :: "'a cr_ops \<Rightarrow> 'a creg_vcpu_scheme \<Rightarrow> u64 \<Rightarrow> bool" where
  "kvm_is_valid_cr0 ops v c0 =
     (if tst c0 0xffffffff00000000 then False
      else if tst c0 X86_CR0_NW \<and> \<not> tst c0 X86_CR0_CD then False
      else if tst c0 X86_CR0_PG \<and> \<not> tst c0 X86_CR0_PE then False
      else ops_is_valid_cr0 ops v c0)"

definition kvm_post_set_cr0 ::
  "kvm_env \<Rightarrow> u64 \<Rightarrow> u64 \<Rightarrow> 'a creg_vcpu_scheme \<Rightarrow> 'a creg_vcpu_scheme" where
  "kvm_post_set_cr0 E old_cr0 c0 v =
     (if c0 XOR old_cr0 = X86_CR0_WP \<and> \<not> tst c0 X86_CR0_PG then v
      else if c0 XOR old_cr0 = X86_CR0_WP \<and> tdp_enabled E then call Init_mmu v
      else
        let v = (if tst (c0 XOR old_cr0) X86_CR0_PG then
                   let v = call Async_pf_hash_reset (call Clear_async_pf_completion_queue v)
                   in if \<not> tst c0 X86_CR0_PG then kvm_make_request KVM_REQ_TLB_FLUSH_GUEST v else v
                 else v);
            v = (if tst (c0 XOR old_cr0) (KVM_MMU_CR0_ROLE_BITS E) then call Mmu_reset_context v
                 else v)
        in if tst (c0 XOR old_cr0) X86_CR0_CD \<and> mmu_honors_guest_mtrrs E \<and> \<not> quirk_CD_NW_CLEARED E
           then call Zap_all_gfns v else v)"

definition kvm_set_cr0 ::
  "kvm_env \<Rightarrow> 'a cr_ops \<Rightarrow> u64 \<Rightarrow> 'a creg_vcpu_scheme \<Rightarrow> 'a creg_vcpu_scheme \<times> int" where
  "kvm_set_cr0 E ops c0 v =
     (let old_cr0 = cr0 v in
      if \<not> kvm_is_valid_cr0 ops v c0 then (v, 1)
      else
      let c0 = c0 OR X86_CR0_ET;
          c0 = c0 AND NOT (CR0_RESERVED_BITS E)
      in
      if tst (efer v) EFER_LME \<and> \<not> is_paging v \<and> tst c0 X86_CR0_PG \<and> (\<not> is_pae v \<or> cs_l E)
      then (v, 1)
      else
      let (v', ok) =
            (if \<not> tst (efer v) EFER_LME \<and> tst c0 X86_CR0_PG \<and> is_pae v \<and>
                tst (c0 XOR old_cr0) (X86_CR0_PDPTR_BITS E)
             then load_pdptrs E (cr3 v) v else (v, True))
      in
      if \<not> ok then (v', 1)
      else if \<not> tst c0 X86_CR0_PG \<and> (is_64_bit_mode E v' \<or> tst (cr4 v') X86_CR4_PCIDE)
      then (v', 1)
      else (kvm_post_set_cr0 E old_cr0 c0 (ops_set_cr0 ops c0 v'), 0))"

definition kvm_lmsw ::
  "kvm_env \<Rightarrow> 'a cr_ops \<Rightarrow> u64 \<Rightarrow> 'a creg_vcpu_scheme \<Rightarrow> 'a creg_vcpu_scheme" where
  "kvm_lmsw E ops msw v =
     fst (kvm_set_cr0 E ops ((cr0 v AND NOT 0x0e) OR (msw AND 0x0f)) v)"

section \<open>CR4\<close>

definition kvm_is_valid_cr4_common :: "kvm_env \<Rightarrow> 'a creg_vcpu_scheme \<Rightarrow> u64 \<Rightarrow> bool" where
  "kvm_is_valid_cr4_common E v c4 =
     (if tst c4 (cr4_reserved_bits E) then False
      else if tst c4 (cr4_guest_rsvd_bits v) then False else True)"

definition kvm_is_valid_cr4 :: "kvm_env \<Rightarrow> 'a cr_ops \<Rightarrow> 'a creg_vcpu_scheme \<Rightarrow> u64 \<Rightarrow> bool" where
  "kvm_is_valid_cr4 E ops v c4 \<longleftrightarrow> kvm_is_valid_cr4_common E v c4 \<and> ops_is_valid_cr4 ops v c4"

definition kvm_post_set_cr4 ::
  "kvm_env \<Rightarrow> u64 \<Rightarrow> u64 \<Rightarrow> 'a creg_vcpu_scheme \<Rightarrow> 'a creg_vcpu_scheme" where
  "kvm_post_set_cr4 E old_cr4 c4 v =
     (let v = (if tst (c4 XOR old_cr4) (KVM_MMU_CR4_ROLE_BITS E) then call Mmu_reset_context v
               else v);
          v = (if \<not> tdp_enabled E \<and> tst c4 X86_CR4_PCIDE \<and> \<not> tst old_cr4 X86_CR4_PCIDE
               then call Mmu_unload v else v)
      in
      if tst (c4 XOR old_cr4) X86_CR4_PGE \<or>
         (\<not> tst c4 X86_CR4_PCIDE \<and> tst old_cr4 X86_CR4_PCIDE)
      then kvm_make_request KVM_REQ_TLB_FLUSH_GUEST v
      else if tst (c4 XOR old_cr4) X86_CR4_PAE \<or>
         (tst c4 X86_CR4_SMEP \<and> \<not> tst old_cr4 X86_CR4_SMEP)
      then kvm_make_request KVM_REQ_TLB_FLUSH_CURRENT v
      else v)"

definition kvm_set_cr4 ::
  "kvm_env \<Rightarrow> 'a cr_ops \<Rightarrow> u64 \<Rightarrow> 'a creg_vcpu_scheme \<Rightarrow> 'a creg_vcpu_scheme \<times> int" where
  "kvm_set_cr4 E ops c4 v =
     (let old_cr4 = cr4 v in
      if \<not> kvm_is_valid_cr4 E ops v c4 then (v, 1)
      else if is_long_mode v \<and> (\<not> tst c4 X86_CR4_PAE \<or> tst (c4 XOR old_cr4) X86_CR4_LA57)
      then (v, 1)
      else
      let (v', ok) =
            (if \<not> is_long_mode v \<and> is_paging v \<and> tst c4 X86_CR4_PAE \<and>
                tst (c4 XOR old_cr4) (X86_CR4_PDPTR_BITS E)
             then load_pdptrs E (cr3 v) v else (v, True))
      in
      if \<not> ok then (v', 1)
      else if tst c4 X86_CR4_PCIDE \<and> \<not> tst old_cr4 X86_CR4_PCIDE \<and>
              (tst (cr3 v') X86_CR3_PCID_MASK \<or> \<not> is_long_mode v')
      then (v', 1)
      else (kvm_post_set_cr4 E old_cr4 c4 (ops_set_cr4 ops c4 v'), 0))"

section \<open>CR3\<close>

text \<open>
  \<open>kvm_get_active_pcid\<close> and \<open>kvm_get_pcid\<close> read the PCID of a root: its low bits if PCIDs are
  enabled, 0 otherwise. The previous roots are freed by their index.
\<close>

definition kvm_get_pcid :: "'a creg_vcpu_scheme \<Rightarrow> u64 \<Rightarrow> u64" where
  "kvm_get_pcid v pgd = (if tst (cr4 v) X86_CR4_PCIDE then pgd AND X86_CR3_PCID_MASK else 0)"

definition kvm_invalidate_pcid ::
  "kvm_env \<Rightarrow> u64 \<Rightarrow> 'a creg_vcpu_scheme \<Rightarrow> 'a creg_vcpu_scheme" where
  "kvm_invalidate_pcid E pcid v =
     (if tdp_enabled E then kvm_make_request KVM_REQ_TLB_FLUSH_GUEST v
      else
        let v = (if kvm_get_pcid v (cr3 v) = pcid
                 then kvm_make_request KVM_REQ_TLB_FLUSH_CURRENT
                        (kvm_make_request KVM_REQ_MMU_SYNC v)
                 else v)
        in if \<not> tst (cr4 v) X86_CR4_PCIDE then v
           else call (Mmu_free_prev_roots
                  [i \<leftarrow> [0..<length (prev_root_pgds v)].
                     kvm_get_pcid v (prev_root_pgds v ! i) = pcid]) v)"

definition kvm_set_cr3 :: "kvm_env \<Rightarrow> u64 \<Rightarrow> 'a creg_vcpu_scheme \<Rightarrow> 'a creg_vcpu_scheme \<times> int" where
  "kvm_set_cr3 E c3 v =
     (let pcide = tst (cr4 v) X86_CR4_PCIDE;
          skip_tlb_flush = pcide \<and> tst c3 X86_CR3_PCID_NOFLUSH;
          c3 = (if pcide then c3 AND NOT X86_CR3_PCID_NOFLUSH else c3);
          pcid = (if pcide then c3 AND X86_CR3_PCID_MASK else 0);
          handle_tlb_flush =
            (\<lambda>v. if \<not> skip_tlb_flush then (kvm_invalidate_pcid E pcid v, 0) else (v, 0))
      in
      if c3 = cr3 v \<and> \<not> is_pae_paging v then handle_tlb_flush v
      else if \<not> kvm_vcpu_is_legal_cr3 E c3 then (v, 1)
      else
      let (v', ok) = (if is_pae_paging v then load_pdptrs E c3 v else (v, True)) in
      if \<not> ok then (v', 1)
      else
        let v' = (if c3 \<noteq> cr3 v' then call (Mmu_new_pgd c3) v' else v');
            v' = v'\<lparr>cr3 := c3\<rparr>;
            v' = mark_dirty VCPU_EXREG_CR3 v'
        in handle_tlb_flush v')"

section \<open>CR8\<close>

definition kvm_set_cr8 :: "kvm_env \<Rightarrow> u64 \<Rightarrow> 'a creg_vcpu_scheme \<Rightarrow> 'a creg_vcpu_scheme \<times> int" where
  "kvm_set_cr8 E c8 v =
     (if tst c8 (CR8_RESERVED_BITS E) then (v, 1)
      else if lapic_in_kernel E then (call (Lapic_set_tpr c8) v, 0)
      else (v\<lparr>cr8 := c8\<rparr>, 0))"

definition kvm_get_cr8 :: "kvm_env \<Rightarrow> 'a creg_vcpu_scheme \<Rightarrow> u64" where
  "kvm_get_cr8 E v = (if lapic_in_kernel E then kvm_lapic_get_cr8 E else cr8 v)"

section \<open>EFER\<close>

definition kvm_valid_efer_cpuid :: "kvm_env \<Rightarrow> u64 \<Rightarrow> bool" where
  "kvm_valid_efer_cpuid E e =
     (if tst e EFER_AUTOIBRS \<and> \<not> guest_cpuid_has E X86_FEATURE_AUTOIBRS then False
      else if tst e EFER_FFXSR \<and> \<not> guest_cpuid_has E X86_FEATURE_FXSR_OPT then False
      else if tst e EFER_SVME \<and> \<not> guest_cpuid_has E X86_FEATURE_SVM then False
      else if tst e (EFER_LME OR EFER_LMA) \<and> \<not> guest_cpuid_has E X86_FEATURE_LM then False
      else if tst e EFER_NX \<and> \<not> guest_cpuid_has E X86_FEATURE_NX then False
      else True)"

definition kvm_valid_efer :: "kvm_env \<Rightarrow> u64 \<Rightarrow> bool" where
  "kvm_valid_efer E e = (if tst e (efer_reserved_bits E) then False else kvm_valid_efer_cpuid E e)"

definition set_efer ::
  "kvm_env \<Rightarrow> 'a cr_ops \<Rightarrow> bool \<Rightarrow> u64 \<Rightarrow> 'a creg_vcpu_scheme \<Rightarrow> 'a creg_vcpu_scheme \<times> int" where
  "set_efer E ops host_initiated e v =
     (let old_efer = efer v in
      if tst e (efer_reserved_bits E) then (v, 1)
      else if \<not> host_initiated \<and> \<not> kvm_valid_efer_cpuid E e then (v, 1)
      else if \<not> host_initiated \<and> is_paging v \<and> efer v AND EFER_LME \<noteq> e AND EFER_LME then (v, 1)
      else
        let e = e AND NOT EFER_LMA;
            e = e OR (efer v AND EFER_LMA)
        in
        (case ops_set_efer ops e v of (v, r) \<Rightarrow>
           if r \<noteq> 0 then (v, r)
           else
             let v = (if tst (e XOR old_efer) (KVM_MMU_EFER_ROLE_BITS E) then call Mmu_reset_context v
                      else v);
                 v = (if \<not> host_has_xsaves E \<and> tst e EFER_SVME then call Hv_xsaves_xsavec_warn v
                      else v)
             in (v, 0)))"

definition kvm_enable_efer_bits :: "u64 \<Rightarrow> kvm_env \<Rightarrow> kvm_env" where
  "kvm_enable_efer_bits msk E = E\<lparr>efer_reserved_bits := efer_reserved_bits E AND NOT msk\<rparr>"

end
