(* ===== verification/Kvm_Cregs_Props.thy ===== *)
theory Kvm_Cregs_Props
  imports Kvm_Cregs
begin

text \<open>
  What the common code guarantees about the control registers, for any vendor code that keeps
  the contract \<open>cr_vendor\<close>: the combinations of CR0, CR4 and EFER the architecture allows, and
  the flushes it asks for.
\<close>

section \<open>Tests of bits\<close>

lemma tst_or: "tst (x OR y) m \<longleftrightarrow> tst x m \<or> tst y m"
  by (auto simp: tst_def bit_eq_iff bit_and_iff bit_or_iff)

lemma tst_mask_or: "tst x (m OR n) \<longleftrightarrow> tst x m \<or> tst x n"
  by (auto simp: tst_def bit_eq_iff bit_and_iff bit_or_iff)

lemma tst_clear: "m AND r = 0 \<Longrightarrow> tst (x AND NOT r) m \<longleftrightarrow> tst x m"
  by (simp add: tst_def bit_eq_iff bit_and_iff bit_not_iff possible_bit_def)
    (metis bit_imp_le_length)

lemma tst_clear_same [simp]: "\<not> tst (x AND NOT m) m"
  by (simp add: tst_def bit_eq_iff bit_and_iff bit_not_iff)

lemma tst_and_sub: "tst (x AND y) m \<Longrightarrow> tst x m"
  by (auto simp: tst_def bit_eq_iff bit_and_iff)

lemma and_eq_tst: "x AND m = y AND m \<Longrightarrow> tst x m \<longleftrightarrow> tst y m"
  by (simp add: tst_def)

lemma efer_bits [simp]:
  "tst EFER_LMA EFER_LMA" "\<not> tst EFER_LMA EFER_LME" "EFER_LME AND EFER_LMA = 0"
  "EFER_LMA AND EFER_LME = 0"
  by (simp_all add: tst_def bit_defs)

lemma cr0_et_bits [simp]:
  "\<not> tst X86_CR0_ET X86_CR0_PG" "\<not> tst X86_CR0_ET X86_CR0_PE" "\<not> tst X86_CR0_ET X86_CR0_NW"
  "\<not> tst X86_CR0_ET X86_CR0_CD" "\<not> tst X86_CR0_ET 0xffffffff00000000" "tst X86_CR0_ET X86_CR0_ET"
  by (simp_all add: tst_def bit_defs)

section \<open>Frames of the recording operations\<close>

lemma frame_calls [simp, frame_simps]:
  "cr0 (call c v) = cr0 v" "cr3 (call c v) = cr3 v" "cr4 (call c v) = cr4 v"
  "efer (call c v) = efer v" "creg_vcpu.more (call c v) = creg_vcpu.more v"
  "requests (call c v) = requests v"
  "cr0 (kvm_make_request r v) = cr0 v" "cr3 (kvm_make_request r v) = cr3 v"
  "cr4 (kvm_make_request r v) = cr4 v" "efer (kvm_make_request r v) = efer v"
  "creg_vcpu.more (kvm_make_request r v) = creg_vcpu.more v"
  "requests (kvm_make_request r v) = insert r (requests v)"
  "cr0 (mark_dirty g v) = cr0 v" "cr3 (mark_dirty g v) = cr3 v" "cr4 (mark_dirty g v) = cr4 v"
  "efer (mark_dirty g v) = efer v" "creg_vcpu.more (mark_dirty g v) = creg_vcpu.more v"
  "requests (mark_dirty g v) = requests v"
  by (simp_all add: call_def kvm_make_request_def mark_dirty_def)

text \<open>The registers and the vendor part.\<close>

definition same_regs :: "'a creg_vcpu_scheme \<Rightarrow> 'a creg_vcpu_scheme \<Rightarrow> bool" where
  "same_regs v w \<longleftrightarrow> cr0 w = cr0 v \<and> cr3 w = cr3 v \<and> cr4 w = cr4 v \<and> efer w = efer v \<and>
     creg_vcpu.more w = creg_vcpu.more v"

lemma same_regs_refl [simp]: "same_regs v v"
  by (simp add: same_regs_def)

lemma load_pdptrs_regs: "load_pdptrs E c v = (w, b) \<Longrightarrow> same_regs v w"
  by (auto simp: load_pdptrs_def Let_def same_regs_def split: option.splits if_splits)

lemma load_pdptrs_fail: "load_pdptrs E c v = (w, False) \<Longrightarrow> w = v"
  by (auto simp: load_pdptrs_def Let_def split: option.splits if_splits)

lemma post_set_cr0_regs: "same_regs v (kvm_post_set_cr0 E a b v)"
  by (simp add: kvm_post_set_cr0_def Let_def same_regs_def)

lemma post_set_cr4_regs: "same_regs v (kvm_post_set_cr4 E a b v)"
  by (simp add: kvm_post_set_cr4_def Let_def same_regs_def)

lemma invalidate_pcid_regs: "same_regs v (kvm_invalidate_pcid E p v)"
  by (simp add: kvm_invalidate_pcid_def Let_def same_regs_def)

section \<open>The contract of the vendor code\<close>

text \<open>
  \<open>good\<close> is a condition on the vendor's part of the state, which the operations keep. Writing
  CR0 enters and leaves long mode: LMA follows PG while LME is set.
\<close>

definition efer_after_cr0 :: "u64 \<Rightarrow> u64 \<Rightarrow> u64 \<Rightarrow> u64" where
  "efer_after_cr0 old_cr0 c e =
     (if tst e EFER_LME then
        if \<not> tst old_cr0 X86_CR0_PG \<and> tst c X86_CR0_PG then e OR EFER_LMA
        else if tst old_cr0 X86_CR0_PG \<and> \<not> tst c X86_CR0_PG then e AND NOT EFER_LMA
        else e
      else e)"

locale cr_vendor =
  fixes ops :: "'a cr_ops" and good :: "'a creg_vcpu_scheme \<Rightarrow> bool"
  assumes good_cong: "creg_vcpu.more v = creg_vcpu.more w \<Longrightarrow> good v \<longleftrightarrow> good w"
    and set_cr0: "good v \<Longrightarrow>
      cr0 (ops_set_cr0 ops c v) = c \<and> cr3 (ops_set_cr0 ops c v) = cr3 v \<and>
      cr4 (ops_set_cr0 ops c v) = cr4 v \<and>
      efer (ops_set_cr0 ops c v) = efer_after_cr0 (cr0 v) c (efer v) \<and>
      good (ops_set_cr0 ops c v)"
    and set_cr4: "good v \<Longrightarrow>
      cr0 (ops_set_cr4 ops c v) = cr0 v \<and> cr3 (ops_set_cr4 ops c v) = cr3 v \<and>
      cr4 (ops_set_cr4 ops c v) = c \<and> efer (ops_set_cr4 ops c v) = efer v \<and>
      requests v \<subseteq> requests (ops_set_cr4 ops c v) \<and>
      good (ops_set_cr4 ops c v)"
    and vendor_efer: "good v \<Longrightarrow> ops_set_efer ops e v = (w, r) \<Longrightarrow>
      cr0 w = cr0 v \<and> cr3 w = cr3 v \<and> cr4 w = cr4 v \<and>
      efer w = (if r = 0 then e else efer v) \<and> good w"

section \<open>The modes of the processor\<close>

text \<open>
  What the architecture requires of the registers: CR0 has no upper bits, NW needs CD and
  paging needs protection; long mode is active exactly with LME and paging, and needs PAE;
  PCIDs need long mode.
\<close>

definition modes_ok :: "'a creg_vcpu_scheme \<Rightarrow> bool" where
  "modes_ok v \<longleftrightarrow>
     \<not> tst (cr0 v) 0xffffffff00000000 \<and>
     (tst (cr0 v) X86_CR0_NW \<longrightarrow> tst (cr0 v) X86_CR0_CD) \<and>
     (tst (cr0 v) X86_CR0_PG \<longrightarrow> tst (cr0 v) X86_CR0_PE) \<and>
     (tst (efer v) EFER_LMA \<longleftrightarrow> tst (efer v) EFER_LME \<and> tst (cr0 v) X86_CR0_PG) \<and>
     (tst (efer v) EFER_LMA \<longrightarrow> tst (cr4 v) X86_CR4_PAE) \<and>
     (tst (cr4 v) X86_CR4_PCIDE \<longrightarrow> tst (efer v) EFER_LMA)"

lemma modes_ok_cong: "same_regs v w \<Longrightarrow> modes_ok w = modes_ok v"
  by (simp add: same_regs_def modes_ok_def)

text \<open>None of the bits that the code checks is a reserved bit of CR0.\<close>

definition cr0_env_ok :: "kvm_env \<Rightarrow> bool" where
  "cr0_env_ok E \<longleftrightarrow>
     (X86_CR0_PE OR X86_CR0_ET OR X86_CR0_NW OR X86_CR0_CD OR X86_CR0_PG) AND CR0_RESERVED_BITS E = 0"

lemma cr0_env_bits:
  assumes "cr0_env_ok E" and "m \<in> {X86_CR0_PE, X86_CR0_ET, X86_CR0_NW, X86_CR0_CD, X86_CR0_PG}"
  shows "tst ((c OR X86_CR0_ET) AND NOT (CR0_RESERVED_BITS E)) m \<longleftrightarrow> tst c m \<or> m = X86_CR0_ET"
proof -
  have "m AND CR0_RESERVED_BITS E = 0"
    using assms by (auto simp: cr0_env_ok_def bit_eq_iff bit_and_iff bit_or_iff)
  then have "tst ((c OR X86_CR0_ET) AND NOT (CR0_RESERVED_BITS E)) m \<longleftrightarrow> tst c m \<or> tst X86_CR0_ET m"
    by (simp add: tst_clear tst_or)
  with assms(2) show ?thesis by (auto simp: tst_def bit_defs)
qed

lemma cr0_high_bits:
  "\<not> tst c 0xffffffff00000000 \<Longrightarrow>
   \<not> tst ((c OR X86_CR0_ET) AND NOT (CR0_RESERVED_BITS E)) 0xffffffff00000000"
  by (meson tst_and_sub tst_or cr0_et_bits(5))

text \<open>The checks made before CR0 is written, for the value that is written.\<close>

lemma set_cr0_success:
  assumes "kvm_set_cr0 E ops c v = (w, 0)"
  obtains c' v' where
    "c' = (c OR X86_CR0_ET) AND NOT (CR0_RESERVED_BITS E)" and "same_regs v v'"
    and "w = kvm_post_set_cr0 E (cr0 v) c' (ops_set_cr0 ops c' v')"
    and "kvm_is_valid_cr0 ops v c"
    and "tst (efer v) EFER_LME \<and> \<not> is_paging v \<and> tst c' X86_CR0_PG \<Longrightarrow> is_pae v"
    and "\<not> tst c' X86_CR0_PG \<Longrightarrow> \<not> tst (cr4 v) X86_CR4_PCIDE"
proof -
  define c' where "c' = (c OR X86_CR0_ET) AND NOT (CR0_RESERVED_BITS E)"
  have valid: "kvm_is_valid_cr0 ops v c"
    using assms by (auto simp: kvm_set_cr0_def Let_def split: if_splits)
  have pae: "\<not> (tst (efer v) EFER_LME \<and> \<not> is_paging v \<and> tst c' X86_CR0_PG \<and> (\<not> is_pae v \<or> cs_l E))"
    using assms by (auto simp: kvm_set_cr0_def Let_def c'_def split: if_splits)
  let ?load = "\<not> tst (efer v) EFER_LME \<and> tst c' X86_CR0_PG \<and> is_pae v \<and>
    tst (c' XOR cr0 v) (X86_CR0_PDPTR_BITS E)"
  obtain v' b where p: "(if ?load then load_pdptrs E (cr3 v) v else (v, True)) = (v', b)" by force
  have v': "same_regs v v'" using p load_pdptrs_regs by (auto split: if_splits)
  have "kvm_set_cr0 E ops c v =
      (if \<not> b then (v', 1)
       else if \<not> tst c' X86_CR0_PG \<and> (is_64_bit_mode E v' \<or> tst (cr4 v') X86_CR4_PCIDE) then (v', 1)
       else (kvm_post_set_cr0 E (cr0 v) c' (ops_set_cr0 ops c' v'), 0))"
    unfolding kvm_set_cr0_def Let_def c'_def [symmetric] p prod.case
    by (simp only: valid pae not_True_eq_False if_False)
  with assms have w: "w = kvm_post_set_cr0 E (cr0 v) c' (ops_set_cr0 ops c' v')"
    and pcide: "\<not> tst c' X86_CR0_PG \<Longrightarrow> \<not> tst (cr4 v') X86_CR4_PCIDE"
    by (auto split: if_splits)
  show thesis
    by (rule that [OF c'_def v' w valid]) (use pae pcide v' in \<open>auto simp: same_regs_def\<close>)
qed

lemma set_cr0_error:
  assumes "kvm_set_cr0 E ops c v = (w, r)" and "r \<noteq> 0"
  shows "w = v"
proof -
  let ?c = "(c OR X86_CR0_ET) AND NOT (CR0_RESERVED_BITS E)"
  let ?load = "\<not> tst (efer v) EFER_LME \<and> tst ?c X86_CR0_PG \<and> is_pae v \<and>
    tst (?c XOR cr0 v) (X86_CR0_PDPTR_BITS E)"
  obtain v' b where p: "(if ?load then load_pdptrs E (cr3 v) v else (v, True)) = (v', b)" by force
  have "\<not> b \<Longrightarrow> v' = v" using p load_pdptrs_fail by (auto split: if_splits)
  moreover have "tst ?c X86_CR0_PG \<or> v' = v" using p by (auto split: if_splits)
  ultimately show ?thesis
    using assms p unfolding kvm_set_cr0_def Let_def by (auto split: if_splits)
qed

lemma set_cr4_success:
  assumes "kvm_set_cr4 E ops c v = (w, 0)"
  obtains v' where "same_regs v v'" and "w = kvm_post_set_cr4 E (cr4 v) c (ops_set_cr4 ops c v')"
    and "is_long_mode v \<Longrightarrow> tst c X86_CR4_PAE"
    and "tst c X86_CR4_PCIDE \<Longrightarrow> tst (cr4 v) X86_CR4_PCIDE \<or> is_long_mode v"
proof -
  let ?load = "\<not> is_long_mode v \<and> is_paging v \<and> tst c X86_CR4_PAE \<and>
    tst (c XOR cr4 v) (X86_CR4_PDPTR_BITS E)"
  obtain v' b where p: "(if ?load then load_pdptrs E (cr3 v) v else (v, True)) = (v', b)" by force
  have v': "same_regs v v'" using p load_pdptrs_regs by (auto split: if_splits)
  then have lm: "is_long_mode v' = is_long_mode v" by (simp add: same_regs_def is_long_mode_def)
  show thesis
    by (rule that [OF v']) (use assms p lm in \<open>auto simp: kvm_set_cr4_def Let_def split: if_splits\<close>)
qed

section \<open>Guest operations\<close>

text \<open>
  What a guest can do to its registers: the writes below, whether they succeed or fault.
  EFER writes are the guest's own (not initiated by the host).
\<close>

inductive creg_step ::
  "kvm_env \<Rightarrow> 'a cr_ops \<Rightarrow> 'a creg_vcpu_scheme \<Rightarrow> 'a creg_vcpu_scheme \<Rightarrow> bool"
  for E ops
where
  mov_cr0: "creg_step E ops v (fst (kvm_set_cr0 E ops c v))"
| lmsw: "creg_step E ops v (kvm_lmsw E ops msw v)"
| mov_cr3: "creg_step E ops v (fst (kvm_set_cr3 E c v))"
| mov_cr4: "creg_step E ops v (fst (kvm_set_cr4 E ops c v))"
| mov_cr8: "creg_step E ops v (fst (kvm_set_cr8 E c v))"
| wrmsr_efer: "creg_step E ops v (fst (set_efer E ops False e v))"

lemma set_cr3_regs:
  assumes "kvm_set_cr3 E c v = (w, r)"
  shows "cr0 w = cr0 v \<and> cr4 w = cr4 v \<and> efer w = efer v \<and> creg_vcpu.more w = creg_vcpu.more v"
  using assms invalidate_pcid_regs
  by (auto simp: kvm_set_cr3_def Let_def same_regs_def split: if_splits prod.splits
      dest!: load_pdptrs_regs)

text \<open>The words of EFER after the code has taken LMA from the old value.\<close>

lemma efer_keep_lma:
  "tst ((e AND NOT EFER_LMA) OR (x AND EFER_LMA)) EFER_LMA \<longleftrightarrow> tst x EFER_LMA"
  "tst ((e AND NOT EFER_LMA) OR (x AND EFER_LMA)) EFER_LME \<longleftrightarrow> tst e EFER_LME"
proof -
  have "tst (x AND EFER_LMA) EFER_LMA \<longleftrightarrow> tst x EFER_LMA"
    by (simp add: tst_def and.assoc)
  then show "tst ((e AND NOT EFER_LMA) OR (x AND EFER_LMA)) EFER_LMA \<longleftrightarrow> tst x EFER_LMA"
    by (simp add: tst_or)
  have "\<not> tst (x AND EFER_LMA) EFER_LME"
    by (simp add: tst_def and.assoc)
  then show "tst ((e AND NOT EFER_LMA) OR (x AND EFER_LMA)) EFER_LME \<longleftrightarrow> tst e EFER_LME"
    by (simp add: tst_or tst_clear)
qed

lemma efer_after_cr0_bits:
  "tst (efer_after_cr0 old c e) EFER_LME \<longleftrightarrow> tst e EFER_LME"
  "(tst e EFER_LMA \<longleftrightarrow> tst e EFER_LME \<and> tst old X86_CR0_PG) \<Longrightarrow>
   tst (efer_after_cr0 old c e) EFER_LMA \<longleftrightarrow> tst e EFER_LME \<and> tst c X86_CR0_PG"
  by (auto simp: efer_after_cr0_def tst_or tst_clear)

context cr_vendor
begin

lemma good_same: "same_regs v w \<Longrightarrow> good w \<longleftrightarrow> good v"
  using good_cong [of w v] by (simp add: same_regs_def)

lemma set_cr0_modes:
  assumes "cr0_env_ok E" and "good v" and "modes_ok v"
    and "kvm_set_cr0 E ops c v = (w, r)"
  shows "modes_ok w \<and> good w"
proof (cases "r = 0")
  case True
  with assms(4) have "kvm_set_cr0 E ops c v = (w, 0)" by simp
  then show ?thesis
  proof (rule set_cr0_success, goal_cases)
    case (1 c' v')
    let ?u = "ops_set_cr0 ops c' v'"
    have v': "good v'" "modes_ok v'" using assms(2,3) modes_ok_cong [OF 1(2)] good_same [OF 1(2)] by simp_all
    note u = set_cr0 [OF v'(1), of c']
    have b: "tst c' m \<longleftrightarrow> tst c m" if "m \<in> {X86_CR0_PE, X86_CR0_NW, X86_CR0_CD, X86_CR0_PG}" for m
      using cr0_env_bits [OF assms(1), of m c] that 1(1) by (auto simp: bit_defs)
    have valid: "\<not> tst c 0xffffffff00000000" "tst c X86_CR0_NW \<longrightarrow> tst c X86_CR0_CD"
      "tst c X86_CR0_PG \<longrightarrow> tst c X86_CR0_PE"
      using 1(4) by (auto simp: kvm_is_valid_cr0_def split: if_splits)
    have "\<not> tst c' 0xffffffff00000000" using cr0_high_bits [OF valid(1)] 1(1) by simp
    moreover have "tst (efer ?u) EFER_LME \<longleftrightarrow> tst (efer v) EFER_LME"
      "tst (efer ?u) EFER_LMA \<longleftrightarrow> tst (efer v) EFER_LME \<and> tst c' X86_CR0_PG"
      using u efer_after_cr0_bits [of "efer v" "cr0 v" c'] assms(3) 1(2)
      by (auto simp: modes_ok_def same_regs_def efer_after_cr0_bits(1))
    moreover have "cr0 ?u = c'" "cr4 ?u = cr4 v" using u 1(2) by (simp_all add: same_regs_def)
    ultimately have "modes_ok ?u"
      using valid b 1(5,6) assms(3) by (auto simp: modes_ok_def is_paging_def is_pae_def)
    with u show ?thesis
      using post_set_cr0_regs [of ?u E "cr0 v" c'] modes_ok_cong good_same 1(3) by blast
  qed
next
  case False
  with set_cr0_error [OF assms(4)] assms(2,3) show ?thesis by simp
qed

lemma set_cr4_modes:
  assumes "good v" and "modes_ok v" and "kvm_set_cr4 E ops c v = (w, r)"
  shows "modes_ok w \<and> good w"
proof (cases "r = 0")
  case True
  with assms(3) have "kvm_set_cr4 E ops c v = (w, 0)" by simp
  then show ?thesis
  proof (rule set_cr4_success, goal_cases)
    case (1 v')
    let ?u = "ops_set_cr4 ops c v'"
    have "good v'" using good_same [OF 1(1)] assms(1) by simp
    note u = set_cr4 [OF this, of c]
    have "modes_ok ?u"
      using u 1(1,3,4) assms(2) by (auto simp: modes_ok_def same_regs_def is_long_mode_def)
    with u show ?thesis
      using post_set_cr4_regs [of ?u E "cr4 v" c] modes_ok_cong good_same 1(2) by blast
  qed
next
  case False
  then have "same_regs v w"
    using assms(3) by (auto simp: kvm_set_cr4_def Let_def split: if_splits prod.splits
        dest: load_pdptrs_regs)
  then show ?thesis using assms(1,2) modes_ok_cong good_same by blast
qed

lemma set_efer_modes:
  assumes "good v" and "modes_ok v" and "set_efer E ops False e v = (w, r)"
  shows "modes_ok w \<and> good w"
proof (cases "tst e (efer_reserved_bits E) \<or> \<not> kvm_valid_efer_cpuid E e \<or>
    is_paging v \<and> efer v AND EFER_LME \<noteq> e AND EFER_LME")
  case True
  with assms show ?thesis by (auto simp: set_efer_def Let_def split: if_splits)
next
  case False
  let ?e = "(e AND NOT EFER_LMA) OR (efer v AND EFER_LMA)"
  obtain u q where uq: "ops_set_efer ops ?e v = (u, q)" by force
  note u = vendor_efer [OF assms(1) uq]
  have w: "same_regs u w"
    using assms(3) False uq by (auto simp: set_efer_def Let_def same_regs_def split: if_splits)
  have "is_paging v \<longrightarrow> (tst e EFER_LME \<longleftrightarrow> tst (efer v) EFER_LME)"
    using False and_eq_tst by blast
  then have "modes_ok u"
    using u assms(2) by (auto simp: modes_ok_def efer_keep_lma is_paging_def)
  then show ?thesis using u modes_ok_cong [OF w] good_same [OF w] by simp
qed

lemma creg_step_modes:
  assumes "creg_step E ops v w" and "cr0_env_ok E" and "good v" and "modes_ok v"
  shows "modes_ok w \<and> good w"
  using assms(1)
proof cases
  case (mov_cr0 c)
  then show ?thesis using set_cr0_modes [OF assms(2-4)] by (metis prod.collapse)
next
  case (lmsw msw)
  then show ?thesis using set_cr0_modes [OF assms(2-4)] unfolding kvm_lmsw_def by (metis prod.collapse)
next
  case (mov_cr3 c)
  obtain r where "kvm_set_cr3 E c v = (w, r)" using mov_cr3 by (metis prod.collapse)
  from set_cr3_regs [OF this] have "modes_ok w = modes_ok v" "good w = good v"
    using good_cong [of w v] by (simp_all add: modes_ok_def)
  then show ?thesis using assms(3,4) by simp
next
  case (mov_cr4 c)
  then show ?thesis using set_cr4_modes [OF assms(3,4)] by (metis prod.collapse)
next
  case (mov_cr8 c)
  then have "same_regs v w" by (auto simp: kvm_set_cr8_def same_regs_def)
  then show ?thesis using assms(3,4) modes_ok_cong good_same by blast
next
  case (wrmsr_efer e)
  then show ?thesis using set_efer_modes [OF assms(3,4)] by (metis prod.collapse)
qed

lemma reachable_modes:
  assumes "(creg_step E ops)\<^sup>*\<^sup>* v w" and "cr0_env_ok E" and "good v" and "modes_ok v"
  shows "modes_ok w \<and> good w"
  using assms(1) by (induction rule: rtranclp_induct) (use assms creg_step_modes in auto)

end

section \<open>Errors and flushes\<close>

text \<open>
  Loading CR3 without the no-flush bit always asks for a flush that covers the PCID it
  loads: of the whole guest with two-dimensional paging, of the current context otherwise.
\<close>

theorem cr3_load_flushes:
  assumes "kvm_set_cr3 E c v = (w, 0)"
    and "\<not> (tst (cr4 v) X86_CR4_PCIDE \<and> tst c X86_CR3_PCID_NOFLUSH)"
  shows "if tdp_enabled E then KVM_REQ_TLB_FLUSH_GUEST \<in> requests w
    else {KVM_REQ_TLB_FLUSH_CURRENT, KVM_REQ_MMU_SYNC} \<subseteq> requests w"
proof -
  define pcide where "pcide = tst (cr4 v) X86_CR4_PCIDE"
  define c' where "c' = (if pcide then c AND NOT X86_CR3_PCID_NOFLUSH else c)"
  define pcid where "pcid = (if pcide then c' AND X86_CR3_PCID_MASK else 0)"
  obtain u where u: "w = kvm_invalidate_pcid E pcid u" "cr3 u = c'" "cr4 u = cr4 v"
  proof (cases "c' = cr3 v \<and> \<not> is_pae_paging v")
    case True
    then have "w = kvm_invalidate_pcid E pcid v"
      using assms unfolding kvm_set_cr3_def Let_def pcide_def [symmetric] c'_def [symmetric]
        pcid_def [symmetric] by auto
    with True show thesis by (intro that [of v]) simp_all
  next
    case False
    obtain v' b where p: "(if is_pae_paging v then load_pdptrs E c' v else (v, True)) = (v', b)"
      by force
    have v': "same_regs v v'" using p load_pdptrs_regs by (auto split: if_splits)
    let ?u = "mark_dirty VCPU_EXREG_CR3
      ((if c' \<noteq> cr3 v' then call (Mmu_new_pgd c') v' else v')\<lparr>cr3 := c'\<rparr>)"
    have "w = kvm_invalidate_pcid E pcid ?u"
      using assms False unfolding kvm_set_cr3_def Let_def pcide_def [symmetric] c'_def [symmetric]
        pcid_def [symmetric] p prod.case by (auto split: if_splits)
    moreover have "cr3 ?u = c'" "cr4 ?u = cr4 v" using v' by (auto simp: same_regs_def)
    ultimately show thesis by (rule that)
  qed
  have "kvm_get_pcid u (cr3 u) = pcid"
    using u(2,3) by (simp add: kvm_get_pcid_def pcid_def pcide_def)
  then show ?thesis unfolding u(1) by (simp add: kvm_invalidate_pcid_def Let_def)
qed

lemma cr4_post_flush:
  "(tst (c XOR old) X86_CR4_PGE \<or> \<not> tst c X86_CR4_PCIDE \<and> tst old X86_CR4_PCIDE \<longrightarrow>
     KVM_REQ_TLB_FLUSH_GUEST \<in> requests (kvm_post_set_cr4 E old c v)) \<and>
   (tst (c XOR old) X86_CR4_PAE \<or> tst c X86_CR4_SMEP \<and> \<not> tst old X86_CR4_SMEP \<longrightarrow>
     requests (kvm_post_set_cr4 E old c v) \<inter> {KVM_REQ_TLB_FLUSH_GUEST, KVM_REQ_TLB_FLUSH_CURRENT} \<noteq> {})"
  by (simp add: kvm_post_set_cr4_def Let_def)

text \<open>
  A write to CR4 that succeeds asks for the flushes the architecture requires: of all
  PCIDs when PGE is toggled or PCIDE is cleared, and of the current one when PAE is toggled or
  SMEP is set.
\<close>

theorem cr4_write_flushes:
  assumes "kvm_set_cr4 E ops c v = (w, 0)"
  shows "(tst (c XOR cr4 v) X86_CR4_PGE \<or> \<not> tst c X86_CR4_PCIDE \<and> tst (cr4 v) X86_CR4_PCIDE \<longrightarrow>
      KVM_REQ_TLB_FLUSH_GUEST \<in> requests w) \<and>
    (tst (c XOR cr4 v) X86_CR4_PAE \<or> tst c X86_CR4_SMEP \<and> \<not> tst (cr4 v) X86_CR4_SMEP \<longrightarrow>
      requests w \<inter> {KVM_REQ_TLB_FLUSH_GUEST, KVM_REQ_TLB_FLUSH_CURRENT} \<noteq> {})"
  using assms
proof (rule set_cr4_success)
  fix v'
  assume "w = kvm_post_set_cr4 E (cr4 v) c (ops_set_cr4 ops c v')"
  then show ?thesis using cr4_post_flush [of c "cr4 v" E "ops_set_cr4 ops c v'"] by simp
qed

section \<open>A sample environment\<close>

definition sample_env :: kvm_env where
  "sample_env =
     \<lparr>tdp_enabled = True, cr4_reserved_bits = 0xffffffff00000000,
      efer_reserved_bits = 0xffffffffffde0200, CR0_RESERVED_BITS = 0xffffffff1ffaffc0,
      CR8_RESERVED_BITS = 0xfffffffffffffff0,
      KVM_MMU_CR0_ROLE_BITS = 0x80010000, KVM_MMU_CR4_ROLE_BITS = 0x7010b0,
      KVM_MMU_EFER_ROLE_BITS = 0xd00, X86_CR0_PDPTR_BITS = 0xe0000000, X86_CR4_PDPTR_BITS = 0xb0,
      rsvd_bits = (\<lambda>s e. push_bit s (mask (e + 1 - s))),
      kvm_translate_gpa = Some, kvm_vcpu_read_guest_page = (\<lambda>g o'. Some [1, 1, 1, 1]),
      guest_cpuid_has = (\<lambda>f. True), mmu_honors_guest_mtrrs = False, quirk_CD_NW_CLEARED = True,
      kvm_vcpu_is_legal_cr3 = (\<lambda>c. c < 0x10000000000000), cs_l = False, host_has_xsaves = True,
      lapic_in_kernel = False, kvm_lapic_get_cr8 = 0\<rparr>"

text \<open>The state of a processor after reset.\<close>

definition reset_regs :: creg_vcpu where
  "reset_regs =
     \<lparr>cr0 = 0x60000010, cr3 = 0, cr4 = 0, cr8 = 0, efer = 0, pdptrs = [0, 0, 0, 0],
      prev_root_pgds = [0, 0, 0], reserved_gpa_bits = 0, cr4_guest_rsvd_bits = 0,
      pdptrs_from_userspace = False, requests = {}, regs_dirty = {}, calls = []\<rparr>"

text \<open>Callbacks that only store the registers.\<close>

definition plain_ops :: "'a cr_ops" where
  "plain_ops =
     \<lparr>ops_is_valid_cr0 = (\<lambda>v c. True),
      ops_set_cr0 = (\<lambda>c v. v\<lparr>efer := efer_after_cr0 (cr0 v) c (efer v), cr0 := c\<rparr>),
      ops_is_valid_cr4 = (\<lambda>v c. True), ops_set_cr4 = (\<lambda>c v. v\<lparr>cr4 := c\<rparr>),
      ops_set_efer = (\<lambda>e v. (v\<lparr>efer := e\<rparr>, 0))\<rparr>"

lemma cr3_load_flushes_witness:
  "KVM_REQ_TLB_FLUSH_GUEST \<in> requests (fst (kvm_set_cr3 sample_env 0x5000 reset_regs))"
proof -
  have "snd (kvm_set_cr3 sample_env 0x5000 reset_regs) = 0"
    by (simp add: kvm_set_cr3_def sample_env_def reset_regs_def tst_def bit_defs is_pae_paging_def
        is_pae_def)
  then show ?thesis
    using cr3_load_flushes [of sample_env "0x5000" reset_regs "fst (kvm_set_cr3 sample_env 0x5000 reset_regs)"]
    by (simp add: prod_eq_iff sample_env_def reset_regs_def tst_def bit_defs)
qed

lemma cr4_write_flushes_witness:
  "KVM_REQ_TLB_FLUSH_GUEST \<in> requests (fst (kvm_set_cr4 sample_env plain_ops 0x80 reset_regs))"
proof -
  have "snd (kvm_set_cr4 sample_env plain_ops 0x80 reset_regs) = 0"
    by (simp add: kvm_set_cr4_def kvm_is_valid_cr4_def kvm_is_valid_cr4_common_def sample_env_def
        plain_ops_def reset_regs_def tst_def bit_defs is_long_mode_def is_paging_def)
  then show ?thesis
    using cr4_write_flushes [of sample_env plain_ops "0x80" reset_regs
        "fst (kvm_set_cr4 sample_env plain_ops 0x80 reset_regs)"]
    by (simp add: prod_eq_iff reset_regs_def tst_def bit_defs)
qed

end
