(* ===== verification/Vmx_Segments.thy ===== *)
theory Vmx_Segments
  imports Prelude
begin

text \<open>
  The segment registers and flags of a VMX guest (\<open>vmx.c\<close>): the VMCS fields, the cache KVM
  keeps of them, and the virtual-8086 mode in which a guest in real mode runs on hardware
  without unrestricted guest support. \<open>guest_seg\<close> and \<open>guest_rflags\<close> are what the guest has,
  whatever the cache holds and whichever mode it is run in.
\<close>

section \<open>Segments\<close>

datatype sreg =
  VCPU_SREG_ES | VCPU_SREG_CS | VCPU_SREG_SS | VCPU_SREG_DS | VCPU_SREG_FS | VCPU_SREG_GS
| VCPU_SREG_TR | VCPU_SREG_LDTR

record kvm_segment =
  seg_base :: u64
  seg_limit :: u32
  seg_selector :: u16
  seg_type :: u8
  seg_present :: u8
  seg_dpl :: u8
  seg_db :: u8
  seg_s :: u8
  seg_l :: u8
  seg_g :: u8
  seg_avl :: u8
  seg_unusable :: u8

text \<open>The four VMCS fields of a segment register, and the same in the cache.\<close>

record vmcs_segment =
  sf_selector :: u16
  sf_base :: u64
  sf_limit :: u32
  sf_ar_bytes :: u32

datatype seg_field = SEG_FIELD_SEL | SEG_FIELD_BASE | SEG_FIELD_LIMIT | SEG_FIELD_AR

text \<open>Calls that only concern other state are logged.\<close>

datatype hw_call = Update_exception_bitmap | Setup_uret_msrs

record vmx_hw =
  vmcs_seg :: "sreg \<Rightarrow> vmcs_segment"
  segs_available :: bool
  cache_bitmask :: "(sreg \<times> seg_field) set"
  cache_seg :: "sreg \<Rightarrow> vmcs_segment"
  rmode_segs :: "sreg \<Rightarrow> kvm_segment"
  vm86_active :: bool
  save_rflags :: u64
  GUEST_RFLAGS :: u64
  rflags_available :: bool
  vmx_rflags :: u64
  CR0_READ_SHADOW :: u64
  GUEST_CR0 :: u64
  CR4_READ_SHADOW :: u64
  GUEST_CR4 :: u64
  vm_entry_ia32e :: bool
  hw_calls :: "hw_call list"

text \<open>
  \<open>is_unrestricted_guest\<close> concerns the guest that runs (a nested one may differ from the
  module's setting); \<open>rmode_tss_addr\<close> is where user space put the TSS for real mode.
\<close>

record vmx_seg_env =
  emulate_invalid_guest_state :: bool
  is_unrestricted_guest :: bool
  rmode_tss_addr :: u64

definition X86_CR4_VME :: u64 where "X86_CR4_VME = 0x1"
definition X86_EFLAGS_IOPL :: u64 where "X86_EFLAGS_IOPL = 0x3000"
definition X86_EFLAGS_VM :: u64 where "X86_EFLAGS_VM = 0x20000"
definition SEGMENT_RPL_MASK :: u16 where "SEGMENT_RPL_MASK = 0x3"
definition SEGMENT_TI_MASK :: u16 where "SEGMENT_TI_MASK = 0x4"
definition VMX_AR_TYPE_MASK :: u32 where "VMX_AR_TYPE_MASK = 0x0f"
definition VMX_AR_TYPE_BUSY_64_TSS :: u32 where "VMX_AR_TYPE_BUSY_64_TSS = 11"
definition VMX_AR_TYPE_ACCESSES_MASK :: u8 where "VMX_AR_TYPE_ACCESSES_MASK = 1"
definition VMX_AR_TYPE_WRITEABLE_MASK :: u8 where "VMX_AR_TYPE_WRITEABLE_MASK = 2"
definition VMX_AR_TYPE_CODE_MASK :: u8 where "VMX_AR_TYPE_CODE_MASK = 8"
definition TSS_BASE_SIZE :: nat where "TSS_BASE_SIZE = 0x68"
definition TSS_IOPB_SIZE :: nat where "TSS_IOPB_SIZE = 65536 div 8"
definition TSS_REDIRECTION_SIZE :: nat where "TSS_REDIRECTION_SIZE = 256 div 8"
definition RMODE_TSS_SIZE :: u32 where
  "RMODE_TSS_SIZE = of_nat (TSS_BASE_SIZE + TSS_REDIRECTION_SIZE + TSS_IOPB_SIZE + 1)"

definition RMODE_GUEST_OWNED_EFLAGS_BITS :: u64 where
  "RMODE_GUEST_OWNED_EFLAGS_BITS = NOT (X86_EFLAGS_IOPL OR X86_EFLAGS_VM)"

definition hcall :: "hw_call \<Rightarrow> vmx_hw \<Rightarrow> vmx_hw" where
  "hcall c v = v\<lparr>hw_calls := hw_calls v @ [c]\<rparr>"

section \<open>The segment cache\<close>

definition vmx_segment_cache_clear :: "vmx_hw \<Rightarrow> vmx_hw" where
  "vmx_segment_cache_clear v = v\<lparr>cache_bitmask := {}\<rparr>"

definition vmx_segment_cache_test_set :: "vmx_hw \<Rightarrow> sreg \<Rightarrow> seg_field \<Rightarrow> vmx_hw \<times> bool" where
  "vmx_segment_cache_test_set v seg field =
     (let msk = (seg, field);
          v = (if \<not> segs_available v then v\<lparr>segs_available := True, cache_bitmask := {}\<rparr> else v);
          ret = (msk \<in> cache_bitmask v)
      in (v\<lparr>cache_bitmask := insert msk (cache_bitmask v)\<rparr>, ret))"

definition cache_fill :: "(vmcs_segment \<Rightarrow> vmcs_segment) \<Rightarrow> sreg \<Rightarrow> vmx_hw \<Rightarrow> vmx_hw" where
  "cache_fill f seg v = v\<lparr>cache_seg := (cache_seg v)(seg := f (cache_seg v seg))\<rparr>"

definition vmx_read_guest_seg_selector :: "vmx_hw \<Rightarrow> sreg \<Rightarrow> vmx_hw \<times> u16" where
  "vmx_read_guest_seg_selector v seg =
     (let (v, hit) = vmx_segment_cache_test_set v seg SEG_FIELD_SEL;
          v = (if \<not> hit then cache_fill (\<lambda>p. p\<lparr>sf_selector := sf_selector (vmcs_seg v seg)\<rparr>) seg v
               else v)
      in (v, sf_selector (cache_seg v seg)))"

definition vmx_read_guest_seg_base :: "vmx_hw \<Rightarrow> sreg \<Rightarrow> vmx_hw \<times> u64" where
  "vmx_read_guest_seg_base v seg =
     (let (v, hit) = vmx_segment_cache_test_set v seg SEG_FIELD_BASE;
          v = (if \<not> hit then cache_fill (\<lambda>p. p\<lparr>sf_base := sf_base (vmcs_seg v seg)\<rparr>) seg v else v)
      in (v, sf_base (cache_seg v seg)))"

definition vmx_read_guest_seg_limit :: "vmx_hw \<Rightarrow> sreg \<Rightarrow> vmx_hw \<times> u32" where
  "vmx_read_guest_seg_limit v seg =
     (let (v, hit) = vmx_segment_cache_test_set v seg SEG_FIELD_LIMIT;
          v = (if \<not> hit then cache_fill (\<lambda>p. p\<lparr>sf_limit := sf_limit (vmcs_seg v seg)\<rparr>) seg v else v)
      in (v, sf_limit (cache_seg v seg)))"

definition vmx_read_guest_seg_ar :: "vmx_hw \<Rightarrow> sreg \<Rightarrow> vmx_hw \<times> u32" where
  "vmx_read_guest_seg_ar v seg =
     (let (v, hit) = vmx_segment_cache_test_set v seg SEG_FIELD_AR;
          v = (if \<not> hit then cache_fill (\<lambda>p. p\<lparr>sf_ar_bytes := sf_ar_bytes (vmcs_seg v seg)\<rparr>) seg v
               else v)
      in (v, sf_ar_bytes (cache_seg v seg)))"

section \<open>Reading and writing a segment\<close>

definition vmx_segment_access_rights :: "kvm_segment \<Rightarrow> u32" where
  "vmx_segment_access_rights var =
     (let ar = ucast (seg_type var) AND 15;
          ar = ar OR push_bit 4 (ucast (seg_s var) AND 1);
          ar = ar OR push_bit 5 (ucast (seg_dpl var) AND 3);
          ar = ar OR push_bit 7 (ucast (seg_present var) AND 1);
          ar = ar OR push_bit 12 (ucast (seg_avl var) AND 1);
          ar = ar OR push_bit 13 (ucast (seg_l var) AND 1);
          ar = ar OR push_bit 14 (ucast (seg_db var) AND 1);
          ar = ar OR push_bit 15 (ucast (seg_g var) AND 1)
      in ar OR push_bit 16 (if seg_unusable var \<noteq> 0 \<or> seg_present var = 0 then 1 else 0))"

text \<open>The fields of a segment from the VMCS, in the second half of \<open>vmx_get_segment\<close>.\<close>

definition segment_of :: "u64 \<Rightarrow> u32 \<Rightarrow> u16 \<Rightarrow> u32 \<Rightarrow> kvm_segment" where
  "segment_of base limit selector ar =
     (let unusable = drop_bit 16 ar AND 1 in
      \<lparr>seg_base = base, seg_limit = limit, seg_selector = selector,
       seg_type = ucast (ar AND 15), seg_present = (if ucast unusable = (0 :: u8) then 1 else 0),
       seg_dpl = ucast (drop_bit 5 ar AND 3), seg_db = ucast (drop_bit 14 ar AND 1),
       seg_s = ucast (drop_bit 4 ar AND 1), seg_l = ucast (drop_bit 13 ar AND 1),
       seg_g = ucast (drop_bit 15 ar AND 1), seg_avl = ucast (drop_bit 12 ar AND 1),
       seg_unusable = ucast unusable\<rparr>)"

definition vmx_get_segment :: "vmx_hw \<Rightarrow> sreg \<Rightarrow> vmx_hw \<times> kvm_segment" where
  "vmx_get_segment v seg =
     (if vm86_active v \<and> seg \<noteq> VCPU_SREG_LDTR then
        let var = rmode_segs v seg in
        if seg = VCPU_SREG_TR then (v, var)
        else
          let (v, selector) = vmx_read_guest_seg_selector v seg in
          if seg_selector var = selector then (v, var)
          else
            let (v, base) = vmx_read_guest_seg_base v seg;
                var = var\<lparr>seg_base := base\<rparr>;
                (v, selector) = vmx_read_guest_seg_selector v seg
            in (v, var\<lparr>seg_selector := selector\<rparr>)
      else
        let (v, base) = vmx_read_guest_seg_base v seg;
            (v, limit) = vmx_read_guest_seg_limit v seg;
            (v, selector) = vmx_read_guest_seg_selector v seg;
            (v, ar) = vmx_read_guest_seg_ar v seg
        in (v, segment_of base limit selector ar))"

definition vmx_get_segment_base :: "vmx_hw \<Rightarrow> sreg \<Rightarrow> vmx_hw \<times> u64" where
  "vmx_get_segment_base v seg =
     (if vm86_active v then (let (v, s) = vmx_get_segment v seg in (v, seg_base s))
      else vmx_read_guest_seg_base v seg)"

definition vmx_get_cpl :: "vmx_hw \<Rightarrow> vmx_hw \<times> u32" where
  "vmx_get_cpl v =
     (if vm86_active v then (v, 0)
      else let (v, ar) = vmx_read_guest_seg_ar v VCPU_SREG_SS in (v, drop_bit 5 ar AND 3))"

definition vmx_get_cs_db_l_bits :: "vmx_hw \<Rightarrow> vmx_hw \<times> u32 \<times> u32" where
  "vmx_get_cs_db_l_bits v =
     (let (v, ar) = vmx_read_guest_seg_ar v VCPU_SREG_CS
      in (v, drop_bit 14 ar AND 1, drop_bit 13 ar AND 1))"

definition vmcs_write_seg :: "sreg \<Rightarrow> vmcs_segment \<Rightarrow> vmx_hw \<Rightarrow> vmx_hw" where
  "vmcs_write_seg seg f v = v\<lparr>vmcs_seg := (vmcs_seg v)(seg := f)\<rparr>"

definition rmode_var :: "vmx_seg_env \<Rightarrow> sreg \<Rightarrow> kvm_segment \<Rightarrow> kvm_segment" where
  "rmode_var E seg save =
     (let var = save\<lparr>seg_dpl := 3\<rparr>;
          var = (if seg = VCPU_SREG_CS then var\<lparr>seg_type := 3\<rparr> else var)
      in if \<not> emulate_invalid_guest_state E
         then var\<lparr>seg_selector := ucast (drop_bit 4 (seg_base var)),
                  seg_base := seg_base var AND 0xffff0, seg_limit := 0xffff, seg_g := 0,
                  seg_db := 0, seg_present := 1, seg_s := 1, seg_l := 0, seg_unusable := 0,
                  seg_type := 3, seg_avl := 0\<rparr>
         else var)"

definition fix_rmode_seg :: "vmx_seg_env \<Rightarrow> sreg \<Rightarrow> kvm_segment \<Rightarrow> vmx_hw \<Rightarrow> vmx_hw" where
  "fix_rmode_seg E seg save v =
     (let var = rmode_var E seg save in
      vmcs_write_seg seg \<lparr>sf_selector = seg_selector var, sf_base = seg_base var,
        sf_limit = seg_limit var, sf_ar_bytes = vmx_segment_access_rights var\<rparr> v)"

text \<open>\<open>__vmx_set_segment\<close>; the caller's copy of the segment is returned too, as it may change.\<close>

definition vmx_set_segment_nocheck ::
  "vmx_seg_env \<Rightarrow> kvm_segment \<Rightarrow> sreg \<Rightarrow> vmx_hw \<Rightarrow> vmx_hw \<times> kvm_segment" where
  "vmx_set_segment_nocheck E var seg v =
     (let v = vmx_segment_cache_clear v in
      if vm86_active v \<and> seg \<noteq> VCPU_SREG_LDTR then
        let v = v\<lparr>rmode_segs := (rmode_segs v)(seg := var)\<rparr> in
        if seg = VCPU_SREG_TR
        then (vmcs_write_seg seg ((vmcs_seg v seg)\<lparr>sf_selector := seg_selector var\<rparr>) v, var)
        else if seg_s var \<noteq> 0 then (fix_rmode_seg E seg (rmode_segs v seg) v, var)
        else (v, var)
      else
        let v = vmcs_write_seg seg ((vmcs_seg v seg)\<lparr>sf_base := seg_base var,
                  sf_limit := seg_limit var, sf_selector := seg_selector var\<rparr>) v;
            var = (if is_unrestricted_guest E \<and> seg \<noteq> VCPU_SREG_LDTR
                   then var\<lparr>seg_type := seg_type var OR 1\<rparr> else var)
        in (vmcs_write_seg seg ((vmcs_seg v seg)\<lparr>sf_ar_bytes := vmx_segment_access_rights var\<rparr>) v,
            var))"

definition seg_setup :: "sreg \<Rightarrow> vmx_hw \<Rightarrow> vmx_hw" where
  "seg_setup seg v =
     vmcs_write_seg seg \<lparr>sf_selector = 0, sf_base = 0, sf_limit = 0xffff,
       sf_ar_bytes = (if seg = VCPU_SREG_CS then 0x93 OR 0x08 else 0x93)\<rparr> v"

text \<open>
  What \<open>vmx_vcpu_reset\<close> does to the segments, what \<open>enter_lmode\<close> does to the task register, and the
  writes to the MSRs of the FS and GS bases.
\<close>

definition vmx_reset_segs :: "vmx_hw \<Rightarrow> vmx_hw" where
  "vmx_reset_segs v =
     (let v = v\<lparr>vm86_active := False\<rparr>;
          v = vmx_segment_cache_clear v;
          v = v\<lparr>segs_available := True\<rparr>;
          v = seg_setup VCPU_SREG_CS v;
          v = vmcs_write_seg VCPU_SREG_CS ((vmcs_seg v VCPU_SREG_CS)\<lparr>sf_selector := 0xf000,
                sf_base := 0xffff0000\<rparr>) v;
          v = seg_setup VCPU_SREG_DS v;
          v = seg_setup VCPU_SREG_ES v;
          v = seg_setup VCPU_SREG_FS v;
          v = seg_setup VCPU_SREG_GS v;
          v = seg_setup VCPU_SREG_SS v;
          v = vmcs_write_seg VCPU_SREG_TR \<lparr>sf_selector = 0, sf_base = 0, sf_limit = 0xffff,
                sf_ar_bytes = 0x008b\<rparr> v
      in vmcs_write_seg VCPU_SREG_LDTR \<lparr>sf_selector = 0, sf_base = 0, sf_limit = 0xffff,
           sf_ar_bytes = 0x00082\<rparr> v)"

definition enter_lmode_tr :: "vmx_hw \<Rightarrow> vmx_hw" where
  "enter_lmode_tr v =
     (let v = vmx_segment_cache_clear v;
          guest_tr_ar = sf_ar_bytes (vmcs_seg v VCPU_SREG_TR)
      in if guest_tr_ar AND VMX_AR_TYPE_MASK \<noteq> VMX_AR_TYPE_BUSY_64_TSS
         then vmcs_write_seg VCPU_SREG_TR ((vmcs_seg v VCPU_SREG_TR)\<lparr>sf_ar_bytes :=
                (guest_tr_ar AND NOT VMX_AR_TYPE_MASK) OR VMX_AR_TYPE_BUSY_64_TSS\<rparr>) v
         else v)"

definition vmx_set_fs_gs_base :: "sreg \<Rightarrow> u64 \<Rightarrow> vmx_hw \<Rightarrow> vmx_hw" where
  "vmx_set_fs_gs_base seg data v =
     (let v = vmx_segment_cache_clear v in vmcs_write_seg seg ((vmcs_seg v seg)\<lparr>sf_base := data\<rparr>) v)"

section \<open>Real mode\<close>

definition save_rmode_seg :: "vmx_hw \<Rightarrow> sreg \<Rightarrow> vmx_hw" where
  "save_rmode_seg v seg =
     (let (v, s) = vmx_get_segment v seg in v\<lparr>rmode_segs := (rmode_segs v)(seg := s)\<rparr>)"

definition pmode_var :: "vmx_seg_env \<Rightarrow> sreg \<Rightarrow> kvm_segment \<Rightarrow> kvm_segment" where
  "pmode_var E seg save =
     (if \<not> emulate_invalid_guest_state E then
        let save = (if seg = VCPU_SREG_CS \<or> seg = VCPU_SREG_SS
                    then save\<lparr>seg_selector := seg_selector save AND NOT SEGMENT_RPL_MASK\<rparr> else save);
            save = save\<lparr>seg_dpl := ucast (seg_selector save AND SEGMENT_RPL_MASK)\<rparr>
        in save\<lparr>seg_s := 1\<rparr>
      else save)"

text \<open>The saved segment is changed in place.\<close>

definition fix_pmode_seg :: "vmx_seg_env \<Rightarrow> vmx_hw \<Rightarrow> sreg \<Rightarrow> vmx_hw" where
  "fix_pmode_seg E v seg =
     (let (v, save) = vmx_set_segment_nocheck E (pmode_var E seg (rmode_segs v seg)) seg v
      in v\<lparr>rmode_segs := (rmode_segs v)(seg := save)\<rparr>)"

definition enter_pmode :: "vmx_seg_env \<Rightarrow> vmx_hw \<Rightarrow> vmx_hw" where
  "enter_pmode E v =
     (let v = foldl save_rmode_seg v
                [VCPU_SREG_ES, VCPU_SREG_DS, VCPU_SREG_FS, VCPU_SREG_GS, VCPU_SREG_SS, VCPU_SREG_CS];
          v = v\<lparr>vm86_active := False\<rparr>;
          (v, tr) = vmx_set_segment_nocheck E (rmode_segs v VCPU_SREG_TR) VCPU_SREG_TR v;
          v = v\<lparr>rmode_segs := (rmode_segs v)(VCPU_SREG_TR := tr)\<rparr>;
          flags = GUEST_RFLAGS v;
          flags = flags AND RMODE_GUEST_OWNED_EFLAGS_BITS;
          flags = flags OR (save_rflags v AND NOT RMODE_GUEST_OWNED_EFLAGS_BITS);
          v = v\<lparr>GUEST_RFLAGS := flags\<rparr>;
          v = v\<lparr>GUEST_CR4 := (GUEST_CR4 v AND NOT X86_CR4_VME) OR
                              (CR4_READ_SHADOW v AND X86_CR4_VME)\<rparr>;
          v = hcall Update_exception_bitmap v
      in foldl (fix_pmode_seg E) v
           [VCPU_SREG_CS, VCPU_SREG_SS, VCPU_SREG_ES, VCPU_SREG_DS, VCPU_SREG_FS, VCPU_SREG_GS])"

definition enter_rmode :: "vmx_seg_env \<Rightarrow> vmx_hw \<Rightarrow> vmx_hw" where
  "enter_rmode E v =
     (let v = foldl save_rmode_seg v
                [VCPU_SREG_TR, VCPU_SREG_ES, VCPU_SREG_DS, VCPU_SREG_FS, VCPU_SREG_GS,
                 VCPU_SREG_SS, VCPU_SREG_CS];
          v = v\<lparr>vm86_active := True\<rparr>;
          v = vmx_segment_cache_clear v;
          v = vmcs_write_seg VCPU_SREG_TR ((vmcs_seg v VCPU_SREG_TR)\<lparr>sf_base := rmode_tss_addr E,
                sf_limit := RMODE_TSS_SIZE - 1, sf_ar_bytes := 0x008b\<rparr>) v;
          flags = GUEST_RFLAGS v;
          v = v\<lparr>save_rflags := flags\<rparr>;
          flags = flags OR (X86_EFLAGS_IOPL OR X86_EFLAGS_VM);
          v = v\<lparr>GUEST_RFLAGS := flags\<rparr>;
          v = v\<lparr>GUEST_CR4 := GUEST_CR4 v OR X86_CR4_VME\<rparr>;
          v = hcall Update_exception_bitmap v
      in foldl (\<lambda>v seg. fix_rmode_seg E seg (rmode_segs v seg) v) v
           [VCPU_SREG_SS, VCPU_SREG_CS, VCPU_SREG_ES, VCPU_SREG_DS, VCPU_SREG_GS, VCPU_SREG_FS])"

section \<open>Flags\<close>

definition vmx_get_rflags :: "vmx_hw \<Rightarrow> vmx_hw \<times> u64" where
  "vmx_get_rflags v =
     (let v = (if \<not> rflags_available v then
                 let v = v\<lparr>rflags_available := True\<rparr>;
                     rflags = GUEST_RFLAGS v;
                     rflags = (if vm86_active v then
                                 (rflags AND RMODE_GUEST_OWNED_EFLAGS_BITS) OR
                                 (save_rflags v AND NOT RMODE_GUEST_OWNED_EFLAGS_BITS)
                               else rflags)
                 in v\<lparr>vmx_rflags := rflags\<rparr>
               else v)
      in (v, vmx_rflags v))"

section \<open>Checks of the segments\<close>

text \<open>The tests read through the cache, so they return the state.\<close>

definition rmode_segment_ok :: "sreg \<Rightarrow> kvm_segment \<Rightarrow> bool" where
  "rmode_segment_ok seg var =
     (let var = var\<lparr>seg_dpl := 3\<rparr>;
          var = (if seg = VCPU_SREG_CS then var\<lparr>seg_type := 3\<rparr> else var);
          ar = vmx_segment_access_rights var
      in if seg_base var \<noteq> push_bit 4 (ucast (seg_selector var)) then False
         else if seg_limit var \<noteq> 0xffff then False
         else if ar \<noteq> 0xf3 then False
         else True)"

definition rmode_segment_valid :: "vmx_hw \<Rightarrow> sreg \<Rightarrow> vmx_hw \<times> bool" where
  "rmode_segment_valid v seg =
     (let (v, var) = vmx_get_segment v seg in (v, rmode_segment_ok seg var))"

definition code_segment_ok :: "kvm_segment \<Rightarrow> bool" where
  "code_segment_ok cs =
     (let cs_rpl = seg_selector cs AND SEGMENT_RPL_MASK in
      if seg_unusable cs \<noteq> 0 then False
      else if NOT (seg_type cs) AND (VMX_AR_TYPE_CODE_MASK OR VMX_AR_TYPE_ACCESSES_MASK) \<noteq> 0 then False
      else if seg_s cs = 0 then False
      else if seg_type cs AND VMX_AR_TYPE_WRITEABLE_MASK \<noteq> 0 \<and> ucast (seg_dpl cs) > cs_rpl then False
      else if seg_type cs AND VMX_AR_TYPE_WRITEABLE_MASK = 0 \<and> ucast (seg_dpl cs) \<noteq> cs_rpl then False
      else if seg_present cs = 0 then False
      else True)"

definition code_segment_valid :: "vmx_hw \<Rightarrow> vmx_hw \<times> bool" where
  "code_segment_valid v =
     (let (v, cs) = vmx_get_segment v VCPU_SREG_CS in (v, code_segment_ok cs))"

definition stack_segment_ok :: "kvm_segment \<Rightarrow> bool" where
  "stack_segment_ok ss =
     (let ss_rpl = seg_selector ss AND SEGMENT_RPL_MASK in
      if seg_unusable ss \<noteq> 0 then True
      else if seg_type ss \<noteq> 3 \<and> seg_type ss \<noteq> 7 then False
      else if seg_s ss = 0 then False
      else if ucast (seg_dpl ss) \<noteq> ss_rpl then False
      else if seg_present ss = 0 then False
      else True)"

definition stack_segment_valid :: "vmx_hw \<Rightarrow> vmx_hw \<times> bool" where
  "stack_segment_valid v =
     (let (v, ss) = vmx_get_segment v VCPU_SREG_SS in (v, stack_segment_ok ss))"

definition data_segment_ok :: "kvm_segment \<Rightarrow> bool" where
  "data_segment_ok var =
     (let rpl = seg_selector var AND SEGMENT_RPL_MASK in
      if seg_unusable var \<noteq> 0 then True
      else if seg_s var = 0 then False
      else if seg_present var = 0 then False
      else if NOT (seg_type var) AND (VMX_AR_TYPE_CODE_MASK OR VMX_AR_TYPE_WRITEABLE_MASK) \<noteq> 0 \<and>
              ucast (seg_dpl var) < rpl then False
      else True)"

definition data_segment_valid :: "vmx_hw \<Rightarrow> sreg \<Rightarrow> vmx_hw \<times> bool" where
  "data_segment_valid v seg =
     (let (v, var) = vmx_get_segment v seg in (v, data_segment_ok var))"

definition tr_ok :: "kvm_segment \<Rightarrow> bool" where
  "tr_ok tr =
     (if seg_unusable tr \<noteq> 0 then False
      else if seg_selector tr AND SEGMENT_TI_MASK \<noteq> 0 then False
      else if seg_type tr \<noteq> 3 \<and> seg_type tr \<noteq> 11 then False
      else if seg_present tr = 0 then False
      else True)"

definition tr_valid :: "vmx_hw \<Rightarrow> vmx_hw \<times> bool" where
  "tr_valid v = (let (v, tr) = vmx_get_segment v VCPU_SREG_TR in (v, tr_ok tr))"

definition ldtr_ok :: "kvm_segment \<Rightarrow> bool" where
  "ldtr_ok ldtr =
     (if seg_unusable ldtr \<noteq> 0 then True
      else if seg_selector ldtr AND SEGMENT_TI_MASK \<noteq> 0 then False
      else if seg_type ldtr \<noteq> 2 then False
      else if seg_present ldtr = 0 then False
      else True)"

definition ldtr_valid :: "vmx_hw \<Rightarrow> vmx_hw \<times> bool" where
  "ldtr_valid v = (let (v, ldtr) = vmx_get_segment v VCPU_SREG_LDTR in (v, ldtr_ok ldtr))"

definition cs_ss_rpl_check :: "vmx_hw \<Rightarrow> vmx_hw \<times> bool" where
  "cs_ss_rpl_check v =
     (let (v, cs) = vmx_get_segment v VCPU_SREG_CS;
          (v, ss) = vmx_get_segment v VCPU_SREG_SS
      in (v, seg_selector cs AND SEGMENT_RPL_MASK = seg_selector ss AND SEGMENT_RPL_MASK))"

text \<open>A sequence of tests stops at the first that fails.\<close>

fun check_all :: "(vmx_hw \<Rightarrow> vmx_hw \<times> bool) list \<Rightarrow> vmx_hw \<Rightarrow> vmx_hw \<times> bool" where
  "check_all [] v = (v, True)"
| "check_all (f # fs) v = (let (v, ok) = f v in if \<not> ok then (v, False) else check_all fs v)"

definition vmx_guest_state_valid :: "bool \<Rightarrow> vmx_hw \<Rightarrow> vmx_hw \<times> bool" where
  "vmx_guest_state_valid protmode v =
     (let (v, real) = (if \<not> protmode then (v, True)
                       else let (v, rflags) = vmx_get_rflags v in (v, rflags AND X86_EFLAGS_VM \<noteq> 0))
      in if real then
           check_all (map (\<lambda>seg v. rmode_segment_valid v seg)
             [VCPU_SREG_CS, VCPU_SREG_SS, VCPU_SREG_DS, VCPU_SREG_ES, VCPU_SREG_FS, VCPU_SREG_GS]) v
         else
           check_all ([cs_ss_rpl_check, code_segment_valid, stack_segment_valid] @
             map (\<lambda>seg v. data_segment_valid v seg)
               [VCPU_SREG_DS, VCPU_SREG_ES, VCPU_SREG_FS, VCPU_SREG_GS] @
             [tr_valid, ldtr_valid]) v)"

text \<open>\<open>vmx_guest_state_valid\<close> of the header skips the tests for an unrestricted guest.\<close>

definition vmx_emulation_required :: "vmx_seg_env \<Rightarrow> bool \<Rightarrow> vmx_hw \<Rightarrow> vmx_hw \<times> bool" where
  "vmx_emulation_required E protmode v =
     (if \<not> emulate_invalid_guest_state E then (v, False)
      else if is_unrestricted_guest E then (v, False)
      else let (v, valid) = vmx_guest_state_valid protmode v in (v, \<not> valid))"

text \<open>The result is whether \<open>emulation_required\<close> changes, and to what.\<close>

definition vmx_set_rflags :: "vmx_seg_env \<Rightarrow> bool \<Rightarrow> u64 \<Rightarrow> vmx_hw \<Rightarrow> vmx_hw \<times> bool option" where
  "vmx_set_rflags E protmode rflags v =
     (if is_unrestricted_guest E then
        (v\<lparr>rflags_available := True, vmx_rflags := rflags, GUEST_RFLAGS := rflags\<rparr>, None)
      else
        let (v, old_rflags) = vmx_get_rflags v;
            v = v\<lparr>vmx_rflags := rflags\<rparr>;
            (v, hw) = (if vm86_active v
                       then (v\<lparr>save_rflags := rflags\<rparr>, rflags OR (X86_EFLAGS_IOPL OR X86_EFLAGS_VM))
                       else (v, rflags));
            v = v\<lparr>GUEST_RFLAGS := hw\<rparr>
        in if (old_rflags XOR vmx_rflags v) AND X86_EFLAGS_VM \<noteq> 0
           then (let (v, r) = vmx_emulation_required E protmode v in (v, Some r))
           else (v, None))"

text \<open>\<open>vmx_set_segment\<close>: the new state and the new \<open>emulation_required\<close>.\<close>

definition vmx_set_segment ::
  "vmx_seg_env \<Rightarrow> bool \<Rightarrow> kvm_segment \<Rightarrow> sreg \<Rightarrow> vmx_hw \<Rightarrow> vmx_hw \<times> bool" where
  "vmx_set_segment E protmode var seg v =
     (let (v, _) = vmx_set_segment_nocheck E var seg v in vmx_emulation_required E protmode v)"

end
