(* ===== verification/Vmx_Segments_Props.thy ===== *)
theory Vmx_Segments_Props
  imports Vmx_Segments
begin

text \<open>
  What the guest sees of its segment registers and flags: the cache does not show, and moving
  to virtual-8086 mode and back does not either.
\<close>

section \<open>The guest's view\<close>

definition guest_seg :: "vmx_hw \<Rightarrow> sreg \<Rightarrow> kvm_segment" where
  "guest_seg v seg =
     (let f = vmcs_seg v seg; var = rmode_segs v seg in
      if vm86_active v \<and> seg \<noteq> VCPU_SREG_LDTR then
        if seg = VCPU_SREG_TR \<or> seg_selector var = sf_selector f then var
        else var\<lparr>seg_base := sf_base f, seg_selector := sf_selector f\<rparr>
      else segment_of (sf_base f) (sf_limit f) (sf_selector f) (sf_ar_bytes f))"

definition guest_rflags :: "vmx_hw \<Rightarrow> u64" where
  "guest_rflags v =
     (if vm86_active v
      then (GUEST_RFLAGS v AND RMODE_GUEST_OWNED_EFLAGS_BITS) OR
           (save_rflags v AND NOT RMODE_GUEST_OWNED_EFLAGS_BITS)
      else GUEST_RFLAGS v)"

text \<open>Every cached value is the one in the VMCS, and cached flags are the guest's.\<close>

fun field_eq :: "seg_field \<Rightarrow> vmcs_segment \<Rightarrow> vmcs_segment \<Rightarrow> bool" where
  "field_eq SEG_FIELD_SEL p q = (sf_selector p = sf_selector q)"
| "field_eq SEG_FIELD_BASE p q = (sf_base p = sf_base q)"
| "field_eq SEG_FIELD_LIMIT p q = (sf_limit p = sf_limit q)"
| "field_eq SEG_FIELD_AR p q = (sf_ar_bytes p = sf_ar_bytes q)"

definition cache_ok :: "vmx_hw \<Rightarrow> bool" where
  "cache_ok v \<longleftrightarrow>
     (segs_available v \<longrightarrow>
       (\<forall>seg f. (seg, f) \<in> cache_bitmask v \<longrightarrow> field_eq f (cache_seg v seg) (vmcs_seg v seg))) \<and>
     (rflags_available v \<longrightarrow> vmx_rflags v = guest_rflags v)"

text \<open>The states that differ in the segment cache only, and in the saved segments too.\<close>

definition cache_only :: "vmx_hw \<Rightarrow> vmx_hw \<Rightarrow> bool" where
  "cache_only v w \<longleftrightarrow> w = v\<lparr>segs_available := segs_available w, cache_bitmask := cache_bitmask w,
     cache_seg := cache_seg w\<rparr>"

definition saves_only :: "vmx_hw \<Rightarrow> vmx_hw \<Rightarrow> bool" where
  "saves_only v w \<longleftrightarrow> w = v\<lparr>segs_available := segs_available w, cache_bitmask := cache_bitmask w,
     cache_seg := cache_seg w, rmode_segs := rmode_segs w\<rparr>"

lemma cache_only_refl [simp]: "cache_only v v"
  by (simp add: cache_only_def)

lemma cache_only_trans: "cache_only u v \<Longrightarrow> cache_only v w \<Longrightarrow> cache_only u w"
  by (cases u; cases v; cases w) (simp add: cache_only_def)

lemma cache_onlyD:
  assumes "cache_only v w"
  shows "vmcs_seg w = vmcs_seg v" "rmode_segs w = rmode_segs v" "vm86_active w = vm86_active v"
    "save_rflags w = save_rflags v" "GUEST_RFLAGS w = GUEST_RFLAGS v"
    "rflags_available w = rflags_available v" "vmx_rflags w = vmx_rflags v"
    "guest_seg w = guest_seg v" "guest_rflags w = guest_rflags v"
proof -
  show *: "vmcs_seg w = vmcs_seg v" "rmode_segs w = rmode_segs v" "vm86_active w = vm86_active v"
    "save_rflags w = save_rflags v" "GUEST_RFLAGS w = GUEST_RFLAGS v"
    "rflags_available w = rflags_available v" "vmx_rflags w = vmx_rflags v"
    by (subst assms [unfolded cache_only_def], simp)+
  show "guest_seg w = guest_seg v" by (rule ext) (simp add: guest_seg_def *)
  show "guest_rflags w = guest_rflags v" by (simp add: guest_rflags_def *)
qed

section \<open>Reading\<close>

text \<open>A read answers with the field of the VMCS and changes nothing but the cache.\<close>

definition reads :: "vmx_hw \<Rightarrow> vmx_hw \<times> 'a \<Rightarrow> 'a \<Rightarrow> bool" where
  "reads v r x \<longleftrightarrow> snd r = x \<and> cache_only v (fst r) \<and> cache_ok (fst r)"

lemma test_set_cases:
  assumes "cache_ok v" and "vmx_segment_cache_test_set v seg f = (w, hit)"
  shows "cache_only v w" "segs_available w" "hit \<Longrightarrow> field_eq f (cache_seg w seg) (vmcs_seg w seg)"
    "\<And>s g. (s, g) \<in> cache_bitmask w \<Longrightarrow> (s, g) \<noteq> (seg, f) \<Longrightarrow> field_eq g (cache_seg w s) (vmcs_seg w s)"
  using assms
  by (auto simp: vmx_segment_cache_test_set_def cache_ok_def cache_only_def Let_def split: if_splits)

lemma read_field:
  assumes "cache_ok v" and "vmx_segment_cache_test_set v seg f = (w, hit)"
    and "w' = (if \<not> hit then cache_fill g seg w else w)"
    and "field_eq f (g (cache_seg w seg)) (vmcs_seg w seg)"
    and "\<And>h. h \<noteq> f \<Longrightarrow> field_eq h (g (cache_seg w seg)) (vmcs_seg w seg) \<longleftrightarrow>
      field_eq h (cache_seg w seg) (vmcs_seg w seg)"
  shows "cache_only v w'" "cache_ok w'" "field_eq f (cache_seg w' seg) (vmcs_seg w' seg)"
proof -
  note t = test_set_cases [OF assms(1,2)]
  have "cache_only w w'" unfolding assms(3) by (simp add: cache_fill_def cache_only_def)
  then show c: "cache_only v w'" using t(1) by (rule cache_only_trans [rotated])
  show f: "field_eq f (cache_seg w' seg) (vmcs_seg w' seg)"
    using t(3) assms(4) unfolding assms(3) by (auto simp: cache_fill_def)
  have "field_eq k (cache_seg w' s) (vmcs_seg w' s)" if "(s, k) \<in> cache_bitmask w'" for s k
  proof (cases "(s, k) = (seg, f)")
    case True
    then show ?thesis using f by simp
  next
    case False
    then have "field_eq k (cache_seg w s) (vmcs_seg w s)"
      using t(4) that unfolding assms(3) by (auto simp: cache_fill_def split: if_splits)
    then show ?thesis
      using False assms(5) [of k] assms(4) unfolding assms(3)
      by (cases "s = seg") (auto simp: cache_fill_def)
  qed
  moreover have "rflags_available w' \<longrightarrow> vmx_rflags w' = guest_rflags w'"
    using assms(1) cache_onlyD [OF c] by (simp add: cache_ok_def)
  ultimately show "cache_ok w'" by (simp add: cache_ok_def)
qed

lemma read_generic:
  assumes "cache_ok v"
    and r: "r = (let (v, hit) = vmx_segment_cache_test_set v seg f;
                  v = (if \<not> hit then cache_fill (put (get (vmcs_seg v seg))) seg v else v)
              in (v, get (cache_seg v seg)))"
    and eq: "\<And>p q. field_eq f p q \<longleftrightarrow> get p = get q" and "\<And>x p. get (put x p) = x"
    and "\<And>h x p q. h \<noteq> f \<Longrightarrow> field_eq h (put x p) q \<longleftrightarrow> field_eq h p q"
  shows "reads v r (get (vmcs_seg v seg))"
proof -
  obtain w hit where w: "vmx_segment_cache_test_set v seg f = (w, hit)" by (rule prod.exhaust)
  let ?w = "if \<not> hit then cache_fill (put (get (vmcs_seg w seg))) seg w else w"
  note f = read_field [OF assms(1) w, of ?w "put (get (vmcs_seg w seg))", OF refl]
  have g: "field_eq f (put (get (vmcs_seg w seg)) (cache_seg w seg)) (vmcs_seg w seg)"
    using assms(4) by (simp add: eq)
  have r': "r = (?w, get (cache_seg ?w seg))" unfolding r w by (simp add: Let_def)
  have "cache_only v ?w" "cache_ok ?w" "field_eq f (cache_seg ?w seg) (vmcs_seg ?w seg)"
    using f [OF g assms(5)] by simp_all
  then show ?thesis unfolding r' reads_def by (simp add: eq cache_onlyD(1))
qed

lemma field_eq_other:
  "h \<noteq> SEG_FIELD_SEL \<Longrightarrow> field_eq h (p\<lparr>sf_selector := x\<rparr>) q = field_eq h p q"
  "h \<noteq> SEG_FIELD_BASE \<Longrightarrow> field_eq h (p\<lparr>sf_base := y\<rparr>) q = field_eq h p q"
  "h \<noteq> SEG_FIELD_LIMIT \<Longrightarrow> field_eq h (p\<lparr>sf_limit := z\<rparr>) q = field_eq h p q"
  "h \<noteq> SEG_FIELD_AR \<Longrightarrow> field_eq h (p\<lparr>sf_ar_bytes := z\<rparr>) q = field_eq h p q"
  by (cases h; simp)+

lemma read_selector:
  "cache_ok v \<Longrightarrow> reads v (vmx_read_guest_seg_selector v seg) (sf_selector (vmcs_seg v seg))"
  by (rule read_generic [where put = "\<lambda>x p. p\<lparr>sf_selector := x\<rparr>" and f = SEG_FIELD_SEL])
    (simp_all add: vmx_read_guest_seg_selector_def field_eq_other)

lemma read_base:
  "cache_ok v \<Longrightarrow> reads v (vmx_read_guest_seg_base v seg) (sf_base (vmcs_seg v seg))"
  by (rule read_generic [where put = "\<lambda>x p. p\<lparr>sf_base := x\<rparr>" and f = SEG_FIELD_BASE])
    (simp_all add: vmx_read_guest_seg_base_def field_eq_other)

lemma read_limit:
  "cache_ok v \<Longrightarrow> reads v (vmx_read_guest_seg_limit v seg) (sf_limit (vmcs_seg v seg))"
  by (rule read_generic [where put = "\<lambda>x p. p\<lparr>sf_limit := x\<rparr>" and f = SEG_FIELD_LIMIT])
    (simp_all add: vmx_read_guest_seg_limit_def field_eq_other)

lemma read_ar:
  "cache_ok v \<Longrightarrow> reads v (vmx_read_guest_seg_ar v seg) (sf_ar_bytes (vmcs_seg v seg))"
  by (rule read_generic [where put = "\<lambda>x p. p\<lparr>sf_ar_bytes := x\<rparr>" and f = SEG_FIELD_AR])
    (simp_all add: vmx_read_guest_seg_ar_def field_eq_other)

lemma readsE:
  assumes "reads v r x"
  obtains w where "r = (w, x)" "cache_only v w" "cache_ok w"
  using assms by (cases r) (simp add: reads_def)

text \<open>The cache does not show: reading a segment gives the guest's.\<close>

lemma get_segment:
  assumes "cache_ok v"
  shows "reads v (vmx_get_segment v seg) (guest_seg v seg)"
proof (cases "vm86_active v \<and> seg \<noteq> VCPU_SREG_LDTR")
  case vm86: True
  obtain a where a: "vmx_read_guest_seg_selector v seg = (a, sf_selector (vmcs_seg v seg))"
    "cache_only v a" "cache_ok a" using read_selector [OF assms] by (rule readsE)
  obtain b where b: "vmx_read_guest_seg_base a seg = (b, sf_base (vmcs_seg a seg))"
    "cache_only a b" "cache_ok b" using read_base [OF a(3)] by (rule readsE)
  obtain c where c: "vmx_read_guest_seg_selector b seg = (c, sf_selector (vmcs_seg b seg))"
    "cache_only b c" "cache_ok c" using read_selector [OF b(3)] by (rule readsE)
  have "cache_only v c" using a(2) b(2) c(2) by (blast intro: cache_only_trans)
  moreover have "vmcs_seg a = vmcs_seg v" "vmcs_seg b = vmcs_seg v"
    using cache_onlyD(1) a(2) b(2) by simp_all
  ultimately show ?thesis
    using vm86 assms a b c by (auto simp: vmx_get_segment_def guest_seg_def reads_def Let_def)
next
  case False
  obtain a where a: "vmx_read_guest_seg_base v seg = (a, sf_base (vmcs_seg v seg))"
    "cache_only v a" "cache_ok a" using read_base [OF assms] by (rule readsE)
  obtain b where b: "vmx_read_guest_seg_limit a seg = (b, sf_limit (vmcs_seg a seg))"
    "cache_only a b" "cache_ok b" using read_limit [OF a(3)] by (rule readsE)
  obtain c where c: "vmx_read_guest_seg_selector b seg = (c, sf_selector (vmcs_seg b seg))"
    "cache_only b c" "cache_ok c" using read_selector [OF b(3)] by (rule readsE)
  obtain d where d: "vmx_read_guest_seg_ar c seg = (d, sf_ar_bytes (vmcs_seg c seg))"
    "cache_only c d" "cache_ok d" using read_ar [OF c(3)] by (rule readsE)
  have "cache_only v d" using a(2) b(2) c(2) d(2) by (blast intro: cache_only_trans)
  moreover have "vmcs_seg a = vmcs_seg v" "vmcs_seg b = vmcs_seg v" "vmcs_seg c = vmcs_seg v"
    using cache_onlyD(1) a(2) b(2) c(2) by simp_all
  ultimately have "vmx_get_segment v seg = (d, guest_seg v seg)" "cache_only v d"
    unfolding vmx_get_segment_def guest_seg_def Let_def if_not_P [OF False]
    using a(1) b(1) c(1) d(1) by simp_all
  then show ?thesis using d(3) by (simp add: reads_def)
qed

section \<open>Saving the segments\<close>

lemma saves_only_trans: "saves_only u v \<Longrightarrow> saves_only v w \<Longrightarrow> saves_only u w"
  by (cases u; cases v; cases w) (simp add: saves_only_def)

lemma saves_onlyD:
  assumes "saves_only v w"
  shows "vmcs_seg w = vmcs_seg v" "vm86_active w = vm86_active v" "save_rflags w = save_rflags v"
    "GUEST_RFLAGS w = GUEST_RFLAGS v" "rflags_available w = rflags_available v"
    "vmx_rflags w = vmx_rflags v" "GUEST_CR4 w = GUEST_CR4 v"
    "CR4_READ_SHADOW w = CR4_READ_SHADOW v" "GUEST_CR0 w = GUEST_CR0 v"
    "CR0_READ_SHADOW w = CR0_READ_SHADOW v"
  by (subst assms [unfolded saves_only_def], simp)+

lemma save_rmode_seg:
  assumes "cache_ok v" and "w = save_rmode_seg v seg"
  shows "saves_only v w" "cache_ok w" "rmode_segs w = (rmode_segs v)(seg := guest_seg v seg)"
    "guest_seg w = guest_seg v"
proof -
  obtain x where x: "vmx_get_segment v seg = (x, guest_seg v seg)" "cache_only v x" "cache_ok x"
    using get_segment [OF assms(1)] by (rule readsE)
  note c = cache_onlyD [OF x(2)]
  have w: "w = x\<lparr>rmode_segs := (rmode_segs x)(seg := guest_seg v seg)\<rparr>"
    unfolding assms(2) save_rmode_seg_def x(1) by simp
  show "saves_only v w" using x(2) unfolding w
    by (cases v; cases x) (simp add: cache_only_def saves_only_def)
  show "cache_ok w" using x(3) unfolding w by (simp add: cache_ok_def guest_rflags_def)
  show "rmode_segs w = (rmode_segs v)(seg := guest_seg v seg)" unfolding w by (simp add: c)
  show "guest_seg w = guest_seg v"
    unfolding w by (rule ext) (simp add: guest_seg_def c Let_def)
qed

lemma save_rmode_segs:
  assumes "cache_ok v" and "w = foldl save_rmode_seg v segs"
  shows "saves_only v w \<and> cache_ok w \<and> guest_seg w = guest_seg v \<and>
    (\<forall>s. rmode_segs w s = (if s \<in> set segs then guest_seg v s else rmode_segs v s))"
  using assms
proof (induction segs arbitrary: v)
  case Nil
  then show ?case by (simp add: saves_only_def)
next
  case (Cons seg segs)
  note one = save_rmode_seg [OF Cons.prems(1) refl, of seg]
  from Cons.IH [OF one(2)] Cons.prems(2) one show ?case
    by (auto intro: saves_only_trans)
qed

section \<open>Entering virtual-8086 mode\<close>

lemma cache_ok_cleared: "cache_bitmask v = {} \<Longrightarrow> \<not> rflags_available v \<or> vmx_rflags v = guest_rflags v \<Longrightarrow>
    cache_ok v"
  by (simp add: cache_ok_def)

lemmas fix_defs = fix_rmode_seg_def vmcs_write_seg_def hcall_def vmx_segment_cache_clear_def Let_def

text \<open>The segments whose VMCS fields stand for a segment in real mode.\<close>

definition rmode_field :: "vmx_seg_env \<Rightarrow> sreg \<Rightarrow> kvm_segment \<Rightarrow> vmcs_segment" where
  "rmode_field E seg s =
     (let var = rmode_var E seg s in
      \<lparr>sf_selector = seg_selector var, sf_base = seg_base var, sf_limit = seg_limit var,
       sf_ar_bytes = vmx_segment_access_rights var\<rparr>)"

lemma fix_rmode_segs:
  "foldl (\<lambda>v seg. fix_rmode_seg E seg (rmode_segs v seg) v) v segs =
    v\<lparr>vmcs_seg := \<lambda>s. if s \<in> set segs then rmode_field E s (rmode_segs v s) else vmcs_seg v s\<rparr>"
proof (induction segs arbitrary: v)
  case (Cons seg segs)
  show ?case
    by (simp add: Cons.IH)
      (auto simp: fix_rmode_seg_def vmcs_write_seg_def rmode_field_def Let_def intro!: vmx_hw.equality)
qed simp

definition data_segs :: "sreg set" where
  "data_segs = - {VCPU_SREG_TR, VCPU_SREG_LDTR}"

lemma in_data_segs:
  "s \<in> data_segs \<longleftrightarrow> s \<in> {VCPU_SREG_ES, VCPU_SREG_CS, VCPU_SREG_SS, VCPU_SREG_DS, VCPU_SREG_FS,
    VCPU_SREG_GS}"
  unfolding data_segs_def by (cases s) auto

lemma enter_rmode_facts:
  assumes "cache_ok v" and "\<not> vm86_active v" and "w = enter_rmode E v"
  shows "vm86_active w" "cache_ok w" "guest_rflags w = guest_rflags v"
    "\<And>s. s \<noteq> VCPU_SREG_LDTR \<Longrightarrow> rmode_segs w s = guest_seg v s"
    "\<And>s. s \<in> data_segs \<Longrightarrow> vmcs_seg w s = rmode_field E s (guest_seg v s)"
    "vmcs_seg w VCPU_SREG_LDTR = vmcs_seg v VCPU_SREG_LDTR"
    "CR4_READ_SHADOW w = CR4_READ_SHADOW v" "GUEST_CR4 w = GUEST_CR4 v OR X86_CR4_VME"
proof -
  define x where "x = foldl save_rmode_seg v [VCPU_SREG_TR, VCPU_SREG_ES, VCPU_SREG_DS,
    VCPU_SREG_FS, VCPU_SREG_GS, VCPU_SREG_SS, VCPU_SREG_CS]"
  note saved = save_rmode_segs [OF assms(1) x_def]
  note f = saves_onlyD [OF saved [THEN conjunct1]]
  have rs: "rmode_segs x s = guest_seg v s" if "s \<noteq> VCPU_SREG_LDTR" for s
    using saved that by (cases s) simp_all
  have w: "w = x\<lparr>vm86_active := True, cache_bitmask := {}, save_rflags := GUEST_RFLAGS x,
      GUEST_RFLAGS := GUEST_RFLAGS x OR (X86_EFLAGS_IOPL OR X86_EFLAGS_VM),
      GUEST_CR4 := GUEST_CR4 x OR X86_CR4_VME, hw_calls := hw_calls x @ [Update_exception_bitmap],
      vmcs_seg := \<lambda>s. if s \<in> data_segs then rmode_field E s (rmode_segs x s)
        else if s = VCPU_SREG_TR then (vmcs_seg x VCPU_SREG_TR)\<lparr>sf_base := rmode_tss_addr E,
                sf_limit := RMODE_TSS_SIZE - 1, sf_ar_bytes := 0x008b\<rparr>
        else vmcs_seg x s\<rparr>"
    unfolding assms(3) enter_rmode_def x_def [symmetric] Let_def fix_rmode_segs
    by (auto simp: vmx_segment_cache_clear_def vmcs_write_seg_def hcall_def in_data_segs
        intro!: vmx_hw.equality)
  show "rmode_segs w s = guest_seg v s" if "s \<noteq> VCPU_SREG_LDTR" for s
    using rs [OF that] unfolding w by simp_all
  show "vm86_active w" unfolding w by simp
  show r: "guest_rflags w = guest_rflags v"
    using assms(2) f unfolding w
    by (simp add: guest_rflags_def RMODE_GUEST_OWNED_EFLAGS_BITS_def bit_eq_iff bit_and_iff
        bit_or_iff bit_not_iff) blast
  have "rflags_available v \<longrightarrow> vmx_rflags v = guest_rflags v" using assms(1) by (simp add: cache_ok_def)
  then show "cache_ok w"
    by (intro cache_ok_cleared) (use r f in \<open>auto simp: w\<close>)
  show "vmcs_seg w s = rmode_field E s (guest_seg v s)" if "s \<in> data_segs" for s
    using that rs [of s] unfolding w by (auto simp: in_data_segs)
  show "vmcs_seg w VCPU_SREG_LDTR = vmcs_seg v VCPU_SREG_LDTR"
    unfolding w by (simp add: in_data_segs f)
  show "CR4_READ_SHADOW w = CR4_READ_SHADOW v" "GUEST_CR4 w = GUEST_CR4 v OR X86_CR4_VME"
    unfolding w by (simp_all add: f)
qed

section \<open>Access rights\<close>

lemma u32_masks: "(15 :: u32) = mask 4" "(3 :: u32) = mask 2" "(1 :: u32) = mask 1"
  by (simp_all add: mask_eq_exp_minus_1)

lemma rights_bits:
  "bit (vmx_segment_access_rights x) n \<longleftrightarrow>
     (if n < 4 then bit (seg_type x) n
      else if n = 4 then bit (seg_s x) 0
      else if n = 5 \<or> n = 6 then bit (seg_dpl x) (n - 5)
      else if n = 7 then bit (seg_present x) 0
      else if n = 12 then bit (seg_avl x) 0
      else if n = 13 then bit (seg_l x) 0
      else if n = 14 then bit (seg_db x) 0
      else if n = 15 then bit (seg_g x) 0
      else n = 16 \<and> (seg_unusable x \<noteq> 0 \<or> seg_present x = 0))"
proof -
  have one: "bit (if b then 1 else 0 :: u32) n \<longleftrightarrow> b \<and> n = 0" for b n
    by (simp add: bit_1_iff)
  have and1: "x AND 1 = (if bit x 0 then 1 else 0)" for x :: u32
    by (simp add: and_one_eq bit_0 mod2_eq_if)
  consider "n < 4" | "n = 4" | "n = 5" | "n = 6" | "n = 7" | "7 < n" "n < 12" | "n = 12" | "n = 13"
    | "n = 14" | "n = 15" | "n = 16" | "16 < n" by linarith
  then show ?thesis
    unfolding vmx_segment_access_rights_def Let_def u32_masks(1,2) and1 bit_or_iff bit_push_bit_iff
      one bit_and_iff bit_mask_iff bit_ucast_iff
    by cases auto
qed


text \<open>The \<open>m\<close> bits of the access rights from bit \<open>k\<close>.\<close>

definition ar_field :: "nat \<Rightarrow> nat \<Rightarrow> u32 \<Rightarrow> u8" where
  "ar_field k m ar = ucast (drop_bit k ar AND mask m)"

lemma bit_ar_field: "bit (ar_field k m ar) n \<longleftrightarrow> n < 8 \<and> n < m \<and> bit ar (k + n)"
  unfolding ar_field_def
  by (auto simp: bit_ucast_iff bit_and_iff bit_mask_iff bit_drop_bit_eq dest: bit_imp_le_length)

lemma ar_field_cong:
  "(\<And>n. n < m \<Longrightarrow> bit x (k + n) = bit y (k + n)) \<Longrightarrow> ar_field k m x = ar_field k m y"
  by (rule bit_word_eqI) (auto simp: bit_ar_field)

lemma ar_flag: "ar_field k 1 ar = 0 \<longleftrightarrow> \<not> bit ar k"
proof
  assume "ar_field k 1 ar = 0"
  then show "\<not> bit ar k" using bit_ar_field [of k 1 ar 0] by simp
qed (auto intro: bit_word_eqI simp: bit_ar_field)

lemma segment_of_fields:
  "segment_of b l sel ar =
    \<lparr>seg_base = b, seg_limit = l, seg_selector = sel, seg_type = ar_field 0 4 ar,
     seg_present = (if bit ar 16 then 0 else 1), seg_dpl = ar_field 5 2 ar,
     seg_db = ar_field 14 1 ar, seg_s = ar_field 4 1 ar, seg_l = ar_field 13 1 ar,
     seg_g = ar_field 15 1 ar, seg_avl = ar_field 12 1 ar, seg_unusable = ar_field 16 1 ar\<rparr>"
proof -
  have "ucast (ar AND mask 4) = ar_field 0 4 ar" by (simp add: ar_field_def)
  then show ?thesis
    unfolding segment_of_def Let_def u32_masks ar_field_def [symmetric] ar_flag by simp
qed

lemma segment_of_cong:
  assumes "\<And>n. n \<le> 6 \<or> 12 \<le> n \<and> n \<le> 16 \<Longrightarrow> bit x n = bit y n"
  shows "segment_of b l sel x = segment_of b l sel y"
proof -
  have f: "ar_field k m x = ar_field k m y" if "k + m \<le> 7 \<or> 12 \<le> k \<and> k + m \<le> 17" for k m
    using that by (intro ar_field_cong assms) auto
  show ?thesis unfolding segment_of_fields using assms [of 16] by (simp add: f)
qed

text \<open>Packing the fields of a segment read from the VMCS loses nothing the guest sees.\<close>

lemma segment_of_rights:
  "segment_of b l sel (vmx_segment_access_rights (segment_of b' l' sel' ar)) = segment_of b l sel ar"
proof (rule segment_of_cong)
  fix n :: nat assume "n \<le> 6 \<or> 12 \<le> n \<and> n \<le> 16"
  then consider "n < 4" | "n = 4" | "n = 5" | "n = 6" | "n = 12" | "n = 13" | "n = 14" | "n = 15"
    | "n = 16" by linarith
  then show "bit (vmx_segment_access_rights (segment_of b' l' sel' ar)) n = bit ar n"
    unfolding rights_bits segment_of_fields by cases (simp_all add: bit_ar_field ar_flag [simplified])
qed

section \<open>Leaving virtual-8086 mode\<close>

lemma set_segment_pmode:
  assumes "\<not> vm86_active v \<or> seg = VCPU_SREG_LDTR" and "\<not> is_unrestricted_guest E"
  shows "vmx_set_segment_nocheck E var seg v =
    (v\<lparr>cache_bitmask := {}, vmcs_seg := (vmcs_seg v)(seg :=
        \<lparr>sf_selector = seg_selector var, sf_base = seg_base var, sf_limit = seg_limit var,
         sf_ar_bytes = vmx_segment_access_rights var\<rparr>)\<rparr>, var)"
  using assms
  by (cases "vmcs_seg v seg")
    (auto simp: vmx_set_segment_nocheck_def vmx_segment_cache_clear_def vmcs_write_seg_def Let_def)

text \<open>The VMCS fields of a segment in protected mode.\<close>

definition pmode_field :: "kvm_segment \<Rightarrow> vmcs_segment" where
  "pmode_field var =
     \<lparr>sf_selector = seg_selector var, sf_base = seg_base var, sf_limit = seg_limit var,
      sf_ar_bytes = vmx_segment_access_rights var\<rparr>"

lemma fix_pmode_segs:
  assumes "\<not> vm86_active v" "\<not> is_unrestricted_guest E" "distinct segs" "cache_bitmask v = {}"
  shows "foldl (fix_pmode_seg E) v segs =
    v\<lparr>vmcs_seg := \<lambda>s. if s \<in> set segs then pmode_field (pmode_var E s (rmode_segs v s)) else vmcs_seg v s,
      rmode_segs := \<lambda>s. if s \<in> set segs then pmode_var E s (rmode_segs v s) else rmode_segs v s\<rparr>"
  using assms
proof (induction segs arbitrary: v)
  case (Cons seg segs)
  let ?var = "pmode_var E seg (rmode_segs v seg)"
  have one: "fix_pmode_seg E v seg =
      v\<lparr>vmcs_seg := (vmcs_seg v)(seg := pmode_field ?var), rmode_segs := (rmode_segs v)(seg := ?var)\<rparr>"
    using Cons.prems set_segment_pmode [of v seg E ?var]
    by (simp add: fix_pmode_seg_def pmode_field_def)
  show ?case
    using Cons.prems by (simp add: one Cons.IH) (auto intro!: vmx_hw.equality)
qed simp

lemma enter_pmode_facts:
  assumes "cache_ok v" and "vm86_active v" and "\<not> is_unrestricted_guest E" and "w = enter_pmode E v"
  shows "\<not> vm86_active w" "cache_ok w" "guest_rflags w = guest_rflags v"
    "\<And>s. s \<in> data_segs \<Longrightarrow> vmcs_seg w s = pmode_field (pmode_var E s (guest_seg v s))"
    "vmcs_seg w VCPU_SREG_TR = pmode_field (rmode_segs v VCPU_SREG_TR)"
    "vmcs_seg w VCPU_SREG_LDTR = vmcs_seg v VCPU_SREG_LDTR"
    "GUEST_CR4 w = (GUEST_CR4 v AND NOT X86_CR4_VME) OR (CR4_READ_SHADOW v AND X86_CR4_VME)"
proof -
  define x where "x = foldl save_rmode_seg v [VCPU_SREG_ES, VCPU_SREG_DS, VCPU_SREG_FS,
    VCPU_SREG_GS, VCPU_SREG_SS, VCPU_SREG_CS]"
  note saved = save_rmode_segs [OF assms(1) x_def]
  note f = saves_onlyD [OF saved [THEN conjunct1]]
  have rs: "rmode_segs x s = guest_seg v s" if "s \<in> data_segs" for s
    using saved that by (auto simp: in_data_segs)
  have tr: "rmode_segs x VCPU_SREG_TR = rmode_segs v VCPU_SREG_TR" using saved by simp
  have w: "w = x\<lparr>vm86_active := False, cache_bitmask := {}, GUEST_RFLAGS := guest_rflags v,
      GUEST_CR4 := (GUEST_CR4 x AND NOT X86_CR4_VME) OR (CR4_READ_SHADOW x AND X86_CR4_VME),
      hw_calls := hw_calls x @ [Update_exception_bitmap],
      vmcs_seg := \<lambda>s. if s \<in> data_segs then pmode_field (pmode_var E s (rmode_segs x s))
        else if s = VCPU_SREG_TR then pmode_field (rmode_segs x VCPU_SREG_TR) else vmcs_seg x s,
      rmode_segs := \<lambda>s. if s \<in> data_segs then pmode_var E s (rmode_segs x s) else rmode_segs x s\<rparr>"
    unfolding assms(4) enter_pmode_def x_def [symmetric] Let_def
    using assms(2,3) f
    by (simp add: set_segment_pmode fix_pmode_segs hcall_def del: foldl.simps)
      (auto simp: in_data_segs pmode_field_def guest_rflags_def intro!: vmx_hw.equality)
  show "\<not> vm86_active w" unfolding w by simp
  show r: "guest_rflags w = guest_rflags v"
    unfolding w by (simp add: guest_rflags_def)
  have "rflags_available v \<longrightarrow> vmx_rflags v = guest_rflags v" using assms(1) by (simp add: cache_ok_def)
  then show "cache_ok w"
    by (intro cache_ok_cleared) (use r f in \<open>auto simp: w\<close>)
  show "vmcs_seg w s = pmode_field (pmode_var E s (guest_seg v s))" if "s \<in> data_segs" for s
    using that rs [OF that] unfolding w by simp
  show "vmcs_seg w VCPU_SREG_TR = pmode_field (rmode_segs v VCPU_SREG_TR)"
    "vmcs_seg w VCPU_SREG_LDTR = vmcs_seg v VCPU_SREG_LDTR"
    "GUEST_CR4 w = (GUEST_CR4 v AND NOT X86_CR4_VME) OR (CR4_READ_SHADOW v AND X86_CR4_VME)"
    unfolding w by (simp_all add: in_data_segs f tr)
qed

section \<open>The tests\<close>

text \<open>A test of the segments is a predicate of what the guest sees of them.\<close>

definition tests :: "(vmx_hw \<Rightarrow> vmx_hw \<times> bool) \<Rightarrow> ((sreg \<Rightarrow> kvm_segment) \<Rightarrow> bool) \<Rightarrow> bool" where
  "tests f P \<longleftrightarrow> (\<forall>v. cache_ok v \<longrightarrow> reads v (f v) (P (guest_seg v)))"

lemma tests_get:
  assumes "\<And>v. f v = (let (v, s) = vmx_get_segment v seg in (v, P s))"
  shows "tests f (\<lambda>g. P (g seg))"
  unfolding tests_def
proof (intro allI impI)
  fix v assume "cache_ok v"
  then obtain w where "vmx_get_segment v seg = (w, guest_seg v seg)" "cache_only v w" "cache_ok w"
    using get_segment by (blast elim: readsE)
  then show "reads v (f v) (P (guest_seg v seg))" by (simp add: assms reads_def)
qed

lemma tests_segment:
  "tests (\<lambda>v. rmode_segment_valid v seg) (\<lambda>g. rmode_segment_ok seg (g seg))"
  "tests code_segment_valid (\<lambda>g. code_segment_ok (g VCPU_SREG_CS))"
  "tests stack_segment_valid (\<lambda>g. stack_segment_ok (g VCPU_SREG_SS))"
  "tests (\<lambda>v. data_segment_valid v seg) (\<lambda>g. data_segment_ok (g seg))"
  "tests tr_valid (\<lambda>g. tr_ok (g VCPU_SREG_TR))"
  "tests ldtr_valid (\<lambda>g. ldtr_ok (g VCPU_SREG_LDTR))"
  by (rule tests_get; simp add: rmode_segment_valid_def code_segment_valid_def
      stack_segment_valid_def data_segment_valid_def tr_valid_def ldtr_valid_def)+

lemma tests_rpl:
  "tests cs_ss_rpl_check (\<lambda>g. seg_selector (g VCPU_SREG_CS) AND SEGMENT_RPL_MASK =
     seg_selector (g VCPU_SREG_SS) AND SEGMENT_RPL_MASK)"
  unfolding tests_def
proof (intro allI impI)
  fix v assume "cache_ok v"
  then obtain a where a: "vmx_get_segment v VCPU_SREG_CS = (a, guest_seg v VCPU_SREG_CS)"
    "cache_only v a" "cache_ok a" using get_segment by (blast elim: readsE)
  obtain b where b: "vmx_get_segment a VCPU_SREG_SS = (b, guest_seg a VCPU_SREG_SS)"
    "cache_only a b" "cache_ok b" using get_segment [OF a(3)] by (blast elim: readsE)
  show "reads v (cs_ss_rpl_check v) (seg_selector (guest_seg v VCPU_SREG_CS) AND SEGMENT_RPL_MASK =
     seg_selector (guest_seg v VCPU_SREG_SS) AND SEGMENT_RPL_MASK)"
    using a b cache_onlyD(8) [OF a(2)] cache_only_trans [OF a(2) b(2)]
    by (simp add: cs_ss_rpl_check_def reads_def)
qed

lemma tests_all:
  assumes "list_all2 tests fs Ps"
  shows "tests (check_all fs) (\<lambda>g. \<forall>P \<in> set Ps. P g)"
  using assms
proof (induction rule: list_all2_induct)
  case Nil
  then show ?case by (simp add: tests_def reads_def)
next
  case (Cons f fs P Ps)
  show ?case
    unfolding tests_def
  proof (intro allI impI)
    fix v assume "cache_ok v"
    then obtain a where a: "f v = (a, P (guest_seg v))" "cache_only v a" "cache_ok a"
      using Cons.hyps(1) unfolding tests_def by (blast elim: readsE)
    obtain b where b: "check_all fs a = (b, \<forall>P \<in> set Ps. P (guest_seg a))"
      "cache_only a b" "cache_ok b" using Cons.IH a(3) unfolding tests_def by (blast elim: readsE)
    show "reads v (check_all (f # fs) v) (\<forall>Q \<in> set (P # Ps). Q (guest_seg v))"
      using a b cache_onlyD(8) [OF a(2)] cache_only_trans [OF a(2) b(2)]
      by (auto simp: reads_def)
  qed
qed

text \<open>The tests of a guest in real mode and of one in protected mode.\<close>

definition rmode_ok :: "(sreg \<Rightarrow> kvm_segment) \<Rightarrow> bool" where
  "rmode_ok g \<longleftrightarrow> (\<forall>s \<in> data_segs. rmode_segment_ok s (g s))"

definition pmode_ok :: "(sreg \<Rightarrow> kvm_segment) \<Rightarrow> bool" where
  "pmode_ok g \<longleftrightarrow>
     seg_selector (g VCPU_SREG_CS) AND SEGMENT_RPL_MASK =
       seg_selector (g VCPU_SREG_SS) AND SEGMENT_RPL_MASK \<and>
     code_segment_ok (g VCPU_SREG_CS) \<and> stack_segment_ok (g VCPU_SREG_SS) \<and>
     (\<forall>s \<in> {VCPU_SREG_DS, VCPU_SREG_ES, VCPU_SREG_FS, VCPU_SREG_GS}. data_segment_ok (g s)) \<and>
     tr_ok (g VCPU_SREG_TR) \<and> ldtr_ok (g VCPU_SREG_LDTR)"

lemma tests_rmode:
  "tests (check_all (map (\<lambda>seg v. rmode_segment_valid v seg)
     [VCPU_SREG_CS, VCPU_SREG_SS, VCPU_SREG_DS, VCPU_SREG_ES, VCPU_SREG_FS, VCPU_SREG_GS])) rmode_ok"
proof -
  let ?segs = "[VCPU_SREG_CS, VCPU_SREG_SS, VCPU_SREG_DS, VCPU_SREG_ES, VCPU_SREG_FS, VCPU_SREG_GS]"
  have "rmode_ok = (\<lambda>g. \<forall>P \<in> set (map (\<lambda>seg g. rmode_segment_ok seg (g seg)) ?segs). P g)"
    by (auto simp: fun_eq_iff rmode_ok_def in_data_segs)
  then show ?thesis by (rule ssubst) (rule tests_all, simp add: tests_segment)
qed

lemma tests_pmode:
  "tests (check_all ([cs_ss_rpl_check, code_segment_valid, stack_segment_valid] @
     map (\<lambda>seg v. data_segment_valid v seg)
       [VCPU_SREG_DS, VCPU_SREG_ES, VCPU_SREG_FS, VCPU_SREG_GS] @ [tr_valid, ldtr_valid])) pmode_ok"
proof -
  let ?segs = "[VCPU_SREG_DS, VCPU_SREG_ES, VCPU_SREG_FS, VCPU_SREG_GS]"
  let ?Ps = "[\<lambda>g. seg_selector (g VCPU_SREG_CS) AND SEGMENT_RPL_MASK =
        seg_selector (g VCPU_SREG_SS) AND SEGMENT_RPL_MASK,
      \<lambda>g. code_segment_ok (g VCPU_SREG_CS), \<lambda>g. stack_segment_ok (g VCPU_SREG_SS)] @
    map (\<lambda>seg g. data_segment_ok (g seg)) ?segs @
    [\<lambda>g. tr_ok (g VCPU_SREG_TR), \<lambda>g. ldtr_ok (g VCPU_SREG_LDTR)]"
  have "pmode_ok = (\<lambda>g. \<forall>P \<in> set ?Ps. P g)"
    by (auto simp: fun_eq_iff pmode_ok_def)
  then show ?thesis by (rule ssubst) (rule tests_all, simp add: tests_segment tests_rpl)
qed

lemma get_rflags:
  assumes "cache_ok v"
  shows "snd (vmx_get_rflags v) = guest_rflags v" "cache_ok (fst (vmx_get_rflags v))"
    "guest_seg (fst (vmx_get_rflags v)) = guest_seg v"
    "guest_rflags (fst (vmx_get_rflags v)) = guest_rflags v"
    "vm86_active (fst (vmx_get_rflags v)) = vm86_active v"
  using assms
  by (auto simp: vmx_get_rflags_def cache_ok_def guest_rflags_def guest_seg_def fun_eq_iff Let_def)

lemma guest_state_valid:
  assumes "cache_ok v"
  shows "snd (vmx_guest_state_valid protmode v) \<longleftrightarrow>
      (if \<not> protmode \<or> guest_rflags v AND X86_EFLAGS_VM \<noteq> 0 then rmode_ok (guest_seg v)
       else pmode_ok (guest_seg v))"
    and "cache_ok (fst (vmx_guest_state_valid protmode v))"
    and "guest_seg (fst (vmx_guest_state_valid protmode v)) = guest_seg v"
proof -
  obtain w where w: "vmx_get_rflags v = (w, guest_rflags v)" "cache_ok w" "guest_seg w = guest_seg v"
    using get_rflags [OF assms] by (metis prod.collapse)
  define x where "x = (if protmode then w else v)"
  have x: "cache_ok x" "guest_seg x = guest_seg v" using assms w by (simp_all add: x_def)
  define real where "real \<longleftrightarrow> \<not> protmode \<or> guest_rflags v AND X86_EFLAGS_VM \<noteq> 0"
  define fs where "fs = (if real
       then map (\<lambda>seg v. rmode_segment_valid v seg)
         [VCPU_SREG_CS, VCPU_SREG_SS, VCPU_SREG_DS, VCPU_SREG_ES, VCPU_SREG_FS, VCPU_SREG_GS]
       else [cs_ss_rpl_check, code_segment_valid, stack_segment_valid] @
         map (\<lambda>seg v. data_segment_valid v seg)
           [VCPU_SREG_DS, VCPU_SREG_ES, VCPU_SREG_FS, VCPU_SREG_GS] @ [tr_valid, ldtr_valid])"
  have e: "vmx_guest_state_valid protmode v = check_all fs x"
    unfolding vmx_guest_state_valid_def w(1) Let_def fs_def real_def x_def by simp
  have "tests (check_all fs) (if real then rmode_ok else pmode_ok)"
    unfolding fs_def using tests_rmode tests_pmode by (cases real) (simp_all only: if_True if_False)
  then have r: "reads x (check_all fs x) ((if real then rmode_ok else pmode_ok) (guest_seg x))"
    using x(1) unfolding tests_def by blast
  show "snd (vmx_guest_state_valid protmode v) \<longleftrightarrow>
      (if \<not> protmode \<or> guest_rflags v AND X86_EFLAGS_VM \<noteq> 0 then rmode_ok (guest_seg v)
       else pmode_ok (guest_seg v))"
    using r x(2) unfolding e reads_def real_def [symmetric] by simp
  show "cache_ok (fst (vmx_guest_state_valid protmode v))"
    using r unfolding e reads_def by simp
  show "guest_seg (fst (vmx_guest_state_valid protmode v)) = guest_seg v"
    using r x(2) cache_onlyD(8) [of x "fst (check_all fs x)"] unfolding e reads_def by simp
qed

section \<open>Every reachable state\<close>

text \<open>
  User space or the emulator reads and writes segments and flags, the guest writes the MSRs of the
  FS and GS bases or enters long mode, the vCPU is reset (which ends with its flags set), and other
  fields of the VMCS change. Hardware changes the VMCS while the guest runs; after an exit nothing is
  cached (\<open>vmx_register_cache_reset\<close> of the headers). Only without unrestricted guest support do
  writes to CR0 enter and leave virtual-8086 mode.
\<close>

inductive seg_reach :: "vmx_seg_env \<Rightarrow> vmx_hw \<Rightarrow> bool" for E where
  exit: "\<not> segs_available v \<Longrightarrow> \<not> rflags_available v \<Longrightarrow> is_unrestricted_guest E \<longrightarrow> \<not> vm86_active v \<Longrightarrow>
    seg_reach E v"
| get_seg: "seg_reach E v \<Longrightarrow> seg_reach E (fst (vmx_get_segment v seg))"
| set_seg: "seg_reach E v \<Longrightarrow> seg_reach E (fst (vmx_set_segment E protmode var seg v))"
| get_flags: "seg_reach E v \<Longrightarrow> seg_reach E (fst (vmx_get_rflags v))"
| set_flags: "seg_reach E v \<Longrightarrow> seg_reach E (fst (vmx_set_rflags E protmode rflags v))"
| set_base: "seg_reach E v \<Longrightarrow> seg_reach E (vmx_set_fs_gs_base seg data v)"
| to_lmode: "seg_reach E v \<Longrightarrow> seg_reach E (enter_lmode_tr v)"
| reset: "seg_reach E v \<Longrightarrow> seg_reach E (fst (vmx_set_rflags E protmode rflags (vmx_reset_segs v)))"
| other: "seg_reach E v \<Longrightarrow> seg_reach E (v\<lparr>CR0_READ_SHADOW := c0s, GUEST_CR0 := c0,
    CR4_READ_SHADOW := c4s, GUEST_CR4 := c4, vm_entry_ia32e := ia32e, hw_calls := cs\<rparr>)"
| to_rmode: "seg_reach E v \<Longrightarrow> \<not> is_unrestricted_guest E \<Longrightarrow> \<not> vm86_active v \<Longrightarrow> seg_reach E (enter_rmode E v)"
| to_pmode: "seg_reach E v \<Longrightarrow> \<not> is_unrestricted_guest E \<Longrightarrow> vm86_active v \<Longrightarrow> seg_reach E (enter_pmode E v)"

lemma emulation_required_cache_ok:
  "cache_ok v \<Longrightarrow> cache_ok (fst (vmx_emulation_required E protmode v))"
  using guest_state_valid(2) [of v protmode]
  by (auto simp: vmx_emulation_required_def Let_def split: prod.split)

lemma set_segment_nocheck_cache_ok:
  assumes "cache_ok v"
  shows "cache_ok (fst (vmx_set_segment_nocheck E var seg v))"
proof (rule cache_ok_cleared)
  have "rflags_available v \<longrightarrow> vmx_rflags v = guest_rflags v" using assms by (simp add: cache_ok_def)
  then show "\<not> rflags_available (fst (vmx_set_segment_nocheck E var seg v)) \<or>
      vmx_rflags (fst (vmx_set_segment_nocheck E var seg v)) =
      guest_rflags (fst (vmx_set_segment_nocheck E var seg v))"
    by (auto simp: vmx_set_segment_nocheck_def fix_defs guest_rflags_def)
qed (simp add: vmx_set_segment_nocheck_def fix_defs)

lemma rflags_split:
  "((r OR (X86_EFLAGS_IOPL OR X86_EFLAGS_VM)) AND RMODE_GUEST_OWNED_EFLAGS_BITS) OR
     (r AND NOT RMODE_GUEST_OWNED_EFLAGS_BITS) = r"
  by (simp add: RMODE_GUEST_OWNED_EFLAGS_BITS_def bit_eq_iff bit_and_iff bit_or_iff bit_not_iff) blast

text \<open>The segment cache alone, as after a reset, when the flags are about to be set.\<close>

definition segs_ok :: "vmx_hw \<Rightarrow> bool" where
  "segs_ok v \<longleftrightarrow> cache_ok (v\<lparr>rflags_available := False\<rparr>)"

lemma cache_ok_segs: "cache_ok v \<Longrightarrow> segs_ok v"
  by (simp add: segs_ok_def cache_ok_def)

lemma set_rflags_cache_ok:
  assumes "segs_ok v" and "is_unrestricted_guest E \<longrightarrow> \<not> vm86_active v"
  shows "cache_ok (fst (vmx_set_rflags E protmode rflags v))"
proof (cases "is_unrestricted_guest E")
  case True
  with assms show ?thesis
    by (simp add: vmx_set_rflags_def segs_ok_def cache_ok_def guest_rflags_def)
next
  case False
  obtain w old where w: "vmx_get_rflags v = (w, old)" by (cases "vmx_get_rflags v")
  then have c: "segs_ok w"
    using assms(1) by (auto simp: vmx_get_rflags_def segs_ok_def cache_ok_def Let_def)
  define x where "x = w\<lparr>vmx_rflags := rflags,
    save_rflags := if vm86_active w then rflags else save_rflags w,
    GUEST_RFLAGS := if vm86_active w then rflags OR (X86_EFLAGS_IOPL OR X86_EFLAGS_VM) else rflags\<rparr>"
  have "guest_rflags x = rflags" by (simp add: guest_rflags_def x_def rflags_split)
  with c have x: "cache_ok x" by (simp add: segs_ok_def cache_ok_def x_def)
  have "vmx_set_rflags E protmode rflags v =
      (if (old XOR rflags) AND X86_EFLAGS_VM \<noteq> 0
       then (let (v, r) = vmx_emulation_required E protmode x in (v, Some r)) else (x, None))"
    using False unfolding vmx_set_rflags_def w x_def by (simp add: Let_def)
  then show ?thesis
    using x emulation_required_cache_ok [OF x, of E protmode] by (auto split: prod.split)
qed

text \<open>No operation but the switch to real mode turns virtual-8086 mode on.\<close>

lemma vm86_frames:
  "vm86_active (fst (vmx_get_segment v seg)) = vm86_active v"
  "vm86_active (fst (vmx_get_rflags v)) = vm86_active v"
  "vm86_active (fst (vmx_set_segment_nocheck E var seg v)) = vm86_active v"
  by (simp_all add: vmx_get_segment_def vmx_get_rflags_def vmx_set_segment_nocheck_def fix_defs
      vmx_read_guest_seg_selector_def vmx_read_guest_seg_base_def vmx_read_guest_seg_limit_def
      vmx_read_guest_seg_ar_def vmx_segment_cache_test_set_def cache_fill_def split: prod.split)

lemma vm86_unrestricted:
  assumes "is_unrestricted_guest E"
  shows "vm86_active (fst (vmx_set_segment E protmode var seg v)) = vm86_active v"
    "vm86_active (fst (vmx_set_rflags E protmode rflags v)) = vm86_active v"
  using assms vm86_frames(3) [of E var seg v]
  by (auto simp: vmx_set_segment_def vmx_set_rflags_def vmx_emulation_required_def split: prod.splits)

lemma seg_reach_ok:
  assumes "seg_reach E v"
  shows "cache_ok v \<and> (is_unrestricted_guest E \<longrightarrow> \<not> vm86_active v)"
  using assms
proof (induction rule: seg_reach.induct)
  case (exit v)
  then show ?case by (simp add: cache_ok_def)
next
  case (get_seg v seg)
  then show ?case using get_segment [of v seg] by (simp add: reads_def vm86_frames)
next
  case (set_seg v protmode var seg)
  then have "cache_ok (fst (vmx_set_segment E protmode var seg v))"
    using emulation_required_cache_ok [OF set_segment_nocheck_cache_ok]
    by (simp add: vmx_set_segment_def split_beta)
  with set_seg.IH vm86_unrestricted(1) show ?case by blast
next
  case (get_flags v)
  then show ?case by (simp add: get_rflags)
next
  case (set_flags v protmode rflags)
  then show ?case using set_rflags_cache_ok [OF cache_ok_segs] vm86_unrestricted(2) by blast
next
  case (set_base v seg data)
  then show ?case
    by (auto simp: vmx_set_fs_gs_base_def cache_ok_def guest_rflags_def vmcs_write_seg_def
        vmx_segment_cache_clear_def Let_def)
next
  case (to_lmode v)
  then show ?case
    by (auto simp: enter_lmode_tr_def cache_ok_def guest_rflags_def vmcs_write_seg_def
        vmx_segment_cache_clear_def Let_def)
next
  case (reset v protmode rflags)
  have "segs_ok (vmx_reset_segs v)" "\<not> vm86_active (vmx_reset_segs v)"
    by (simp_all add: vmx_reset_segs_def seg_setup_def segs_ok_def cache_ok_def vmcs_write_seg_def
        vmx_segment_cache_clear_def Let_def)
  then show ?case using set_rflags_cache_ok vm86_unrestricted(2) by blast
next
  case (other v)
  then show ?case by (simp add: cache_ok_def guest_rflags_def)
next
  case (to_rmode v)
  then show ?case using enter_rmode_facts(2) [OF _ _ refl] by simp
next
  case (to_pmode v)
  then show ?case using enter_pmode_facts(2) [OF _ _ _ refl] by simp
qed

lemma seg_reach_cache_ok: "seg_reach E v \<Longrightarrow> cache_ok v"
  by (simp add: seg_reach_ok)

section \<open>A sample\<close>

text \<open>A flat guest after an exit: nothing is cached.\<close>

definition sample_hw :: vmx_hw where
  "sample_hw =
     \<lparr>vmcs_seg = (\<lambda>s. \<lparr>sf_selector = 8, sf_base = 0x1230, sf_limit = 0xffff,
        sf_ar_bytes = (if s = VCPU_SREG_CS then 0x9b else if s = VCPU_SREG_TR then 0x8b
                       else if s = VCPU_SREG_LDTR then 0x82 else 0x93)\<rparr>),
      segs_available = False, cache_bitmask = {},
      cache_seg = (\<lambda>_. \<lparr>sf_selector = 0, sf_base = 0, sf_limit = 0, sf_ar_bytes = 0\<rparr>),
      rmode_segs = (\<lambda>_. segment_of 0 0 0 0), vm86_active = False, save_rflags = 0,
      GUEST_RFLAGS = 0x202, rflags_available = False, vmx_rflags = 0,
      CR0_READ_SHADOW = 0x60000010, GUEST_CR0 = 0x21, CR4_READ_SHADOW = 0, GUEST_CR4 = 0x2020,
      vm_entry_ia32e = False, hw_calls = []\<rparr>"

definition sample_seg_env :: "bool \<Rightarrow> vmx_seg_env" where
  "sample_seg_env emulate =
     \<lparr>emulate_invalid_guest_state = emulate, is_unrestricted_guest = False,
      rmode_tss_addr = 0xfffbd000\<rparr>"

lemma sample_hw_reach: "seg_reach E sample_hw"
  by (rule seg_reach.exit) (simp_all add: sample_hw_def)

section \<open>Properties\<close>

text \<open> C14. With and without unrestricted guest support, in every state reachable by reads and writes of
  segments and flags, writes to the FS and GS bases, entering long mode, resets, switches of mode and
  exits, a read of a segment register or of the flags returns what the guest has, never a stale
  cached value, and reading changes nothing the guest sees. \<close>

theorem reads_are_current:
  assumes "seg_reach E v"
  shows "snd (vmx_get_segment v seg) = guest_seg v seg \<and>
    guest_seg (fst (vmx_get_segment v seg)) = guest_seg v \<and>
    snd (vmx_get_rflags v) = guest_rflags v \<and> guest_seg (fst (vmx_get_rflags v)) = guest_seg v"
proof -
  have c: "cache_ok v" using assms by (rule seg_reach_cache_ok)
  then show ?thesis
    using get_segment [OF c, of seg] get_rflags [OF c] cache_onlyD(8) [of v "fst (vmx_get_segment v seg)"]
    by (simp add: reads_def)
qed

theorem reads_are_current_witness:
  "snd (vmx_get_segment (enter_lmode_tr (fst (vmx_get_segment sample_hw VCPU_SREG_TR))) VCPU_SREG_TR) =
     guest_seg (enter_lmode_tr (fst (vmx_get_segment sample_hw VCPU_SREG_TR))) VCPU_SREG_TR \<and>
   snd (vmx_get_rflags sample_hw) = 0x202"
proof -
  have l: "seg_reach (sample_seg_env True) (enter_lmode_tr (fst (vmx_get_segment sample_hw VCPU_SREG_TR)))"
    by (intro seg_reach.to_lmode seg_reach.get_seg sample_hw_reach)
  have "guest_rflags sample_hw = 0x202" by (simp add: guest_rflags_def sample_hw_def)
  with reads_are_current [OF sample_hw_reach [of "sample_seg_env True"]] reads_are_current [OF l]
  show ?thesis by simp
qed

text \<open> C12. Without unrestricted guest support, and with the default of the parameter
  \<open>emulate_invalid_guest_state\<close>, a guest that switches to real mode and back has the segment registers
  and flags it had before, and while it is in real mode it sees them all too, although the hardware
  runs it with others. \<close>

theorem real_mode_round_trip:
  assumes "seg_reach E v" and "\<not> is_unrestricted_guest E" and "emulate_invalid_guest_state E"
    and "\<not> vm86_active v" and "w = enter_rmode E v"
  shows "guest_seg w = guest_seg v \<and> guest_rflags w = guest_rflags v \<and> guest_seg (enter_pmode E w) = guest_seg v \<and>
    guest_rflags (enter_pmode E w) = guest_rflags v"
proof -
  have c: "cache_ok v" using assms(1) by (rule seg_reach_cache_ok)
  note r = enter_rmode_facts [OF c assms(4,5)]
  note p = enter_pmode_facts [OF r(2,1) assms(2) refl]
  have sel: "sf_selector (vmcs_seg w s) = seg_selector (guest_seg v s)" if "s \<in> data_segs" for s
    using r(5) [OF that] assms(3) by (simp add: rmode_field_def rmode_var_def Let_def)
  have rm: "guest_seg w s = guest_seg v s" if "s \<noteq> VCPU_SREG_LDTR" for s
    using r(1) r(4) [OF that] sel [of s] that by (cases s) (simp_all add: guest_seg_def in_data_segs)
  have ldtr: "guest_seg w VCPU_SREG_LDTR = guest_seg v VCPU_SREG_LDTR"
    using r(6) by (simp add: guest_seg_def)
  have of: "guest_seg v s = segment_of (sf_base (vmcs_seg v s)) (sf_limit (vmcs_seg v s))
      (sf_selector (vmcs_seg v s)) (sf_ar_bytes (vmcs_seg v s))" for s
    using assms(4) by (simp add: guest_seg_def Let_def)
  have pf: "segment_of (sf_base f) (sf_limit f) (sf_selector f) (sf_ar_bytes f) = guest_seg v s"
    if "f = pmode_field (guest_seg v s)" for f s
    unfolding that of by (simp add: pmode_field_def segment_of_rights) (simp add: segment_of_def)
  have "guest_seg (enter_pmode E w) s = guest_seg v s" for s
  proof -
    have "vmcs_seg (enter_pmode E w) s = pmode_field (guest_seg v s) \<or>
        s = VCPU_SREG_LDTR \<and> vmcs_seg (enter_pmode E w) s = vmcs_seg v s"
    proof (cases "s \<in> data_segs")
      case True
      then show ?thesis
        using p(4) [OF True] rm [of s] assms(3) by (auto simp: pmode_var_def in_data_segs)
    next
      case False
      then show ?thesis
        using p(5,6) r(4) [of VCPU_SREG_TR] r(6) by (auto simp: data_segs_def)
    qed
    moreover have "guest_seg (enter_pmode E w) s =
        segment_of (sf_base (vmcs_seg (enter_pmode E w) s)) (sf_limit (vmcs_seg (enter_pmode E w) s))
          (sf_selector (vmcs_seg (enter_pmode E w) s)) (sf_ar_bytes (vmcs_seg (enter_pmode E w) s))"
      using p(1) by (simp add: guest_seg_def Let_def)
    ultimately show ?thesis using pf [of "vmcs_seg (enter_pmode E w) s" s] of [of s] by metis
  qed
  moreover have "guest_seg w s = guest_seg v s" for s
    using rm ldtr by (cases "s = VCPU_SREG_LDTR") simp_all
  ultimately show ?thesis using r(3) p(3) by (simp add: fun_eq_iff)
qed

theorem real_mode_round_trip_witness:
  "guest_seg (enter_pmode (sample_seg_env True) (enter_rmode (sample_seg_env True) sample_hw)) =
     guest_seg sample_hw \<and>
   guest_rflags (enter_rmode (sample_seg_env True) sample_hw) = 0x202"
proof -
  have "guest_rflags sample_hw = 0x202" by (simp add: guest_rflags_def sample_hw_def)
  with real_mode_round_trip [OF sample_hw_reach, of "sample_seg_env True", OF _ _ _ refl]
  show ?thesis by (simp add: sample_seg_env_def) (simp add: sample_hw_def)
qed

text \<open>What virtual-8086 mode requires of a segment on VM entry.\<close>

definition hw_vm86_ok :: "vmcs_segment \<Rightarrow> bool" where
  "hw_vm86_ok f \<longleftrightarrow> sf_base f = push_bit 4 (ucast (sf_selector f)) \<and> sf_limit f = 0xffff \<and>
     sf_ar_bytes f = 0xf3"

text \<open> C13. The hardware can run a guest in real mode whenever KVM does not decide to emulate
  it: after the switch, unless \<open>vmx_emulation_required\<close> says so, all six segments satisfy the
  checks of virtual-8086 mode. Without \<open>emulate_invalid_guest_state\<close> they always do. \<close>

theorem rmode_hardware_valid:
  assumes "seg_reach E v" and "\<not> is_unrestricted_guest E" and "\<not> vm86_active v"
    and "w = enter_rmode E v" and "\<not> snd (vmx_emulation_required E False w)" and "s \<in> data_segs"
  shows "hw_vm86_ok (vmcs_seg w s)"
proof -
  have c: "cache_ok v" using assms(1) by (rule seg_reach_cache_ok)
  note r = enter_rmode_facts [OF c assms(3,4)]
  have f: "vmcs_seg w s = rmode_field E s (guest_seg v s)" using r(5) assms(6) .
  show ?thesis
  proof (cases "emulate_invalid_guest_state E")
    case True
    with assms(2,5) have "rmode_ok (guest_seg w)"
      using guest_state_valid(1) [OF r(2), of False]
      by (auto simp: vmx_emulation_required_def split: prod.splits)
    then have ok: "rmode_segment_ok s (guest_seg w s)" using assms(6) by (simp add: rmode_ok_def)
    have "guest_seg w s = guest_seg v s"
      using r(1) r(4) [of s] f assms(6) True
      by (auto simp: guest_seg_def rmode_field_def rmode_var_def in_data_segs Let_def)
    with ok f True show ?thesis
      by (auto simp: rmode_segment_ok_def hw_vm86_ok_def rmode_field_def rmode_var_def Let_def
          split: if_splits)
  next
    case False
    have m: "(0xffff0 :: u64) = push_bit 4 (mask 16)" by (simp add: mask_eq_exp_minus_1)
    have "seg_base g AND 0xffff0 = push_bit 4 (ucast (ucast (drop_bit 4 (seg_base g)) :: u16))" for g :: kvm_segment
      unfolding m
      by (rule bit_word_eqI) (auto simp: bit_and_iff bit_push_bit_iff bit_mask_iff bit_ucast_iff
          bit_drop_bit_eq)
    with False f show ?thesis
      by (cases "s = VCPU_SREG_CS")
        (simp_all add: hw_vm86_ok_def rmode_field_def rmode_var_def Let_def
          vmx_segment_access_rights_def)
  qed
qed

theorem rmode_hardware_valid_witness:
  "hw_vm86_ok (vmcs_seg (enter_rmode (sample_seg_env False) sample_hw) VCPU_SREG_CS)"
  by (rule rmode_hardware_valid [OF sample_hw_reach _ _ refl])
    (simp_all add: sample_seg_env_def vmx_emulation_required_def in_data_segs, simp add: sample_hw_def)

text \<open>Segments whose fields fit their bits and whose presence and usability agree.\<close>

definition seg_wf :: "kvm_segment \<Rightarrow> bool" where
  "seg_wf var \<longleftrightarrow>
     seg_type var < 16 \<and> seg_dpl var < 4 \<and> seg_s var < 2 \<and> seg_avl var < 2 \<and> seg_l var < 2 \<and>
     seg_db var < 2 \<and> seg_g var < 2 \<and> seg_present var < 2 \<and> seg_unusable var < 2 \<and>
     (seg_unusable var = 0 \<longleftrightarrow> seg_present var = 1)"

lemma bit_small: "bit x n \<Longrightarrow> x < 2 ^ m \<Longrightarrow> n < m" for x :: u8
  using less_mask_eq [of x m] by (metis bit_and_iff bit_mask_iff)

text \<open> In protected mode a segment that is set is read back as it was set. \<close>

theorem set_get_segment:
  assumes "seg_reach E v" and "\<not> is_unrestricted_guest E"
    and "\<not> vm86_active v \<or> seg = VCPU_SREG_LDTR" and "seg_wf var"
    and "w = fst (vmx_set_segment E protmode var seg v)"
  shows "snd (vmx_get_segment w seg) = var"
proof -
  let ?u = "fst (vmx_set_segment_nocheck E var seg v)"
  have c: "cache_ok v" using assms(1) by (rule seg_reach_cache_ok)
  note u = set_segment_nocheck_cache_ok [OF c, of E var seg]
  have w: "w = fst (vmx_emulation_required E protmode ?u)"
    unfolding assms(5) vmx_set_segment_def by (simp add: split_beta)
  have "guest_seg w = guest_seg ?u"
    unfolding w vmx_emulation_required_def
    using guest_state_valid(3) [OF u, of protmode] by (auto simp: split_beta)
  moreover have "cache_ok w" unfolding w by (rule emulation_required_cache_ok [OF u])
  moreover have "guest_seg ?u seg = var"
  proof -
    let ?r = "vmx_segment_access_rights var"
    note wf = assms(4) [unfolded seg_wf_def]
    have small: "ar_field k m ?r = x"
      if "\<And>n. n < m \<Longrightarrow> bit ?r (k + n) = bit x n" "x < 2 ^ m" for k m and x :: u8
      using that bit_small [of x _ m] by (intro bit_word_eqI) (auto simp: bit_ar_field)
    have two: "x = 0 \<or> x = 1" if "x < 2" for x :: u8
      using that by unat_arith
    then have bit0: "x \<noteq> 0 \<longleftrightarrow> bit x 0" if "x < 2" for x :: u8
      using that by fastforce
    have "bit ?r 16 \<longleftrightarrow> seg_unusable var \<noteq> 0" using wf by (auto simp: rights_bits)
    moreover have "ar_field 16 1 ?r = seg_unusable var"
      by (rule small) (use wf bit0 [of "seg_unusable var"] in \<open>auto simp: rights_bits\<close>)
    moreover have "ar_field 0 4 ?r = seg_type var" "ar_field 5 2 ?r = seg_dpl var"
      "ar_field 14 1 ?r = seg_db var" "ar_field 4 1 ?r = seg_s var" "ar_field 13 1 ?r = seg_l var"
      "ar_field 15 1 ?r = seg_g var" "ar_field 12 1 ?r = seg_avl var"
      by (rule small; use wf in \<open>auto simp: rights_bits\<close>)+
    moreover have "seg_unusable var \<noteq> 0 \<Longrightarrow> seg_present var = 0"
      using wf two [of "seg_present var"] by auto
    ultimately have "segment_of (seg_base var) (seg_limit var) (seg_selector var) ?r = var"
      unfolding segment_of_fields using wf by (cases var) auto
    then show ?thesis using assms(2,3) by (auto simp: set_segment_pmode guest_seg_def Let_def)
  qed
  ultimately show ?thesis using get_segment [of w seg] by (simp add: reads_def)
qed

theorem set_get_segment_witness:
  "snd (vmx_get_segment (fst (vmx_set_segment (sample_seg_env True) True (guest_seg sample_hw VCPU_SREG_CS)
     VCPU_SREG_DS sample_hw)) VCPU_SREG_DS) = guest_seg sample_hw VCPU_SREG_CS"
  by (rule set_get_segment [OF sample_hw_reach _ _ _ refl])
    (simp_all add: sample_seg_env_def seg_wf_def guest_seg_def segment_of_def sample_hw_def Let_def)

end
