(* ===== verification/Vmx_Cregs.thy ===== *)
theory Vmx_Cregs
  imports Kvm_Cregs_Props Vmx_Segments_Props
begin

text \<open>
  The control register callbacks of \<open>vmx.c\<close> over the VMCS fields and segment registers of
  \<open>Vmx_Segments\<close> (the field \<open>hw\<close>). The control registers are the vCPU's own copies; whether a
  copy is cached or still in the VMCS is not modelled.
\<close>

section \<open>State\<close>

record vmx_vcpu = creg_vcpu +
  has_uret_efer :: bool
  hw :: vmx_hw
  exec_controls :: u32
  secondary_exec_desc :: bool
  emulation_required :: bool

text \<open>
  Module parameters, the host's CR4.MCE, constants of the VMX headers and the nested state.
\<close>

record vmx_env =
  enable_ept :: bool
  enable_unrestricted_guest :: bool
  host_cr4_shadow :: u64
  umip_emulated :: bool
  CR3_EXITING_BITS :: u32
  vmx_guest_mode :: bool
  vmcs12_cr3_exiting :: u32
  vmcs12_desc_exiting :: bool
  vmxon :: bool
  is_smm :: bool
  nested_guest_cr0_valid :: "u64 \<Rightarrow> bool"
  nested_host_cr0_valid :: "u64 \<Rightarrow> bool"
  nested_cr4_valid :: "u64 \<Rightarrow> bool"
  seg_env :: vmx_seg_env

definition X86_CR0_NE :: u64 where "X86_CR0_NE = 0x20"
definition X86_CR4_PSE :: u64 where "X86_CR4_PSE = 0x10"
definition X86_CR4_MCE :: u64 where "X86_CR4_MCE = 0x40"
definition X86_CR4_UMIP :: u64 where "X86_CR4_UMIP = 0x800"
definition X86_CR4_VMXE :: u64 where "X86_CR4_VMXE = 0x2000"
definition X86_CR4_OSXSAVE :: u64 where "X86_CR4_OSXSAVE = 0x40000"
definition X86_CR4_SMAP :: u64 where "X86_CR4_SMAP = 0x200000"
definition X86_CR4_PKE :: u64 where "X86_CR4_PKE = 0x400000"

definition KVM_VM_CR0_ALWAYS_OFF :: u64 where
  "KVM_VM_CR0_ALWAYS_OFF = X86_CR0_NW OR X86_CR0_CD"

definition KVM_VM_CR0_ALWAYS_ON_UNRESTRICTED_GUEST :: u64 where
  "KVM_VM_CR0_ALWAYS_ON_UNRESTRICTED_GUEST = X86_CR0_NE"

definition KVM_VM_CR0_ALWAYS_ON :: u64 where
  "KVM_VM_CR0_ALWAYS_ON = KVM_VM_CR0_ALWAYS_ON_UNRESTRICTED_GUEST OR X86_CR0_PG OR X86_CR0_PE"

definition KVM_VM_CR4_ALWAYS_ON_UNRESTRICTED_GUEST :: u64 where
  "KVM_VM_CR4_ALWAYS_ON_UNRESTRICTED_GUEST = X86_CR4_VMXE"

definition KVM_PMODE_VM_CR4_ALWAYS_ON :: u64 where
  "KVM_PMODE_VM_CR4_ALWAYS_ON = X86_CR4_PAE OR X86_CR4_VMXE"

definition KVM_RMODE_VM_CR4_ALWAYS_ON :: u64 where
  "KVM_RMODE_VM_CR4_ALWAYS_ON = X86_CR4_VME OR X86_CR4_PAE OR X86_CR4_VMXE"

section \<open>EFER and long mode\<close>

definition vmx_set_efer :: "u64 \<Rightarrow> vmx_vcpu \<Rightarrow> vmx_vcpu \<times> int" where
  "vmx_set_efer e v =
     (if \<not> has_uret_efer v then (v, 0)
      else
        let v = v\<lparr>efer := e\<rparr>;
            v = v\<lparr>hw := (hw v)\<lparr>vm_entry_ia32e := tst e EFER_LMA\<rparr>\<rparr>
        in (v\<lparr>hw := hcall Setup_uret_msrs (hw v)\<rparr>, 0))"

definition enter_lmode :: "vmx_vcpu \<Rightarrow> vmx_vcpu" where
  "enter_lmode v =
     (let v = v\<lparr>hw := enter_lmode_tr (hw v)\<rparr> in fst (vmx_set_efer (efer v OR EFER_LMA) v))"

definition exit_lmode :: "vmx_vcpu \<Rightarrow> vmx_vcpu" where
  "exit_lmode v = fst (vmx_set_efer (efer v AND NOT EFER_LMA) v)"

section \<open>CR4\<close>

definition vmx_is_valid_cr4 :: "vmx_env \<Rightarrow> vmx_vcpu \<Rightarrow> u64 \<Rightarrow> bool" where
  "vmx_is_valid_cr4 V v c4 =
     (if tst c4 X86_CR4_VMXE \<and> is_smm V then False
      else if vmxon V \<and> \<not> nested_cr4_valid V c4 then False
      else True)"

definition vmx_hw_cr4 :: "vmx_env \<Rightarrow> vmx_vcpu \<Rightarrow> u64 \<Rightarrow> u64" where
  "vmx_hw_cr4 V v c4 =
     (let hw_cr4 = (host_cr4_shadow V AND X86_CR4_MCE) OR (c4 AND NOT X86_CR4_MCE) in
      if enable_unrestricted_guest V then hw_cr4 OR KVM_VM_CR4_ALWAYS_ON_UNRESTRICTED_GUEST
      else if vm86_active (hw v) then hw_cr4 OR KVM_RMODE_VM_CR4_ALWAYS_ON
      else hw_cr4 OR KVM_PMODE_VM_CR4_ALWAYS_ON)"

definition vmx_set_cr4 :: "vmx_env \<Rightarrow> u64 \<Rightarrow> vmx_vcpu \<Rightarrow> vmx_vcpu" where
  "vmx_set_cr4 V c4 v =
     (let old_cr4 = cr4 v;
          hw_cr4 = vmx_hw_cr4 V v c4;
          (v, hw_cr4) =
            (if umip_emulated V then
               if tst c4 X86_CR4_UMIP
               then (v\<lparr>secondary_exec_desc := True\<rparr>, hw_cr4 AND NOT X86_CR4_UMIP)
               else if \<not> vmx_guest_mode V \<or> \<not> vmcs12_desc_exiting V
               then (v\<lparr>secondary_exec_desc := False\<rparr>, hw_cr4)
               else (v, hw_cr4)
             else (v, hw_cr4));
          v = v\<lparr>cr4 := c4\<rparr>;
          hw_cr4 =
            (if \<not> enable_unrestricted_guest V then
               let hw_cr4 =
                     (if enable_ept V then
                        if \<not> is_paging v then (hw_cr4 AND NOT X86_CR4_PAE) OR X86_CR4_PSE
                        else if \<not> tst c4 X86_CR4_PAE then hw_cr4 AND NOT X86_CR4_PAE
                        else hw_cr4
                      else hw_cr4)
               in if \<not> is_paging v
                  then hw_cr4 AND NOT (X86_CR4_SMEP OR X86_CR4_SMAP OR X86_CR4_PKE)
                  else hw_cr4
             else hw_cr4);
          v = v\<lparr>hw := (hw v)\<lparr>CR4_READ_SHADOW := c4, GUEST_CR4 := hw_cr4\<rparr>\<rparr>
      in if tst (c4 XOR old_cr4) (X86_CR4_OSXSAVE OR X86_CR4_PKE)
         then call Update_cpuid_runtime v else v)"

section \<open>CR0\<close>

definition vmx_is_valid_cr0 :: "vmx_env \<Rightarrow> vmx_vcpu \<Rightarrow> u64 \<Rightarrow> bool" where
  "vmx_is_valid_cr0 V v c0 =
     (if vmx_guest_mode V then nested_guest_cr0_valid V c0
      else if vmxon V then nested_host_cr0_valid V c0
      else True)"

text \<open>The value for the hardware, and the switch between real and protected mode.\<close>

definition vmx_hw_cr0 :: "vmx_env \<Rightarrow> u64 \<Rightarrow> u64" where
  "vmx_hw_cr0 V c0 =
     (let hw_cr0 = c0 AND NOT KVM_VM_CR0_ALWAYS_OFF in
      if enable_unrestricted_guest V then hw_cr0 OR KVM_VM_CR0_ALWAYS_ON_UNRESTRICTED_GUEST
      else
        let hw_cr0 = hw_cr0 OR KVM_VM_CR0_ALWAYS_ON
        in if \<not> enable_ept V then hw_cr0 OR X86_CR0_WP else hw_cr0)"

definition vmx_switch_rmode :: "vmx_env \<Rightarrow> u64 \<Rightarrow> vmx_hw \<Rightarrow> vmx_hw" where
  "vmx_switch_rmode V c0 h =
     (if enable_unrestricted_guest V then h
      else
        let h = (if vm86_active h \<and> tst c0 X86_CR0_PE then enter_pmode (seg_env V) h else h)
        in if \<not> vm86_active h \<and> \<not> tst c0 X86_CR0_PE then enter_rmode (seg_env V) h else h)"

definition vmx_set_cr0 :: "vmx_env \<Rightarrow> u64 \<Rightarrow> vmx_vcpu \<Rightarrow> vmx_vcpu" where
  "vmx_set_cr0 V c0 v =
     (let old_cr0_pg = cr0 v AND X86_CR0_PG;
          hw_cr0 = vmx_hw_cr0 V c0;
          v = v\<lparr>hw := vmx_switch_rmode V c0 (hw v)\<rparr>;
          v = v\<lparr>hw := (hw v)\<lparr>CR0_READ_SHADOW := c0, GUEST_CR0 := hw_cr0\<rparr>\<rparr>;
          v = v\<lparr>cr0 := c0\<rparr>;
          v = (if tst (efer v) EFER_LME then
                 if old_cr0_pg = 0 \<and> tst c0 X86_CR0_PG then enter_lmode v
                 else if old_cr0_pg \<noteq> 0 \<and> \<not> tst c0 X86_CR0_PG then exit_lmode v
                 else v
               else v);
          v = (if enable_ept V \<and> \<not> enable_unrestricted_guest V then
                 let v = (if \<not> tst c0 X86_CR0_PG
                          then v\<lparr>exec_controls := exec_controls v OR CR3_EXITING_BITS V\<rparr>
                          else if \<not> vmx_guest_mode V
                          then v\<lparr>exec_controls := exec_controls v AND NOT (CR3_EXITING_BITS V)\<rparr>
                          else v\<lparr>exec_controls :=
                                  (exec_controls v AND NOT (CR3_EXITING_BITS V)) OR
                                  (vmcs12_cr3_exiting V AND CR3_EXITING_BITS V)\<rparr>);
                     v = (if tst (old_cr0_pg XOR c0) X86_CR0_PG then vmx_set_cr4 V (cr4 v) v else v)
                 in if old_cr0_pg = 0 \<and> tst c0 X86_CR0_PG then mark_dirty VCPU_EXREG_CR3 v else v
               else v);
          (h, required) = vmx_emulation_required (seg_env V) (tst (cr0 v) X86_CR0_PE) (hw v)
      in v\<lparr>hw := h, emulation_required := required\<rparr>)"

definition vmx_cr_ops :: "vmx_env \<Rightarrow> unit vmx_vcpu_ext cr_ops" where
  "vmx_cr_ops V =
     \<lparr>ops_is_valid_cr0 = vmx_is_valid_cr0 V, ops_set_cr0 = vmx_set_cr0 V,
      ops_is_valid_cr4 = vmx_is_valid_cr4 V, ops_set_cr4 = vmx_set_cr4 V,
      ops_set_efer = vmx_set_efer\<rparr>"

section \<open>The contract\<close>

text \<open>Testing the segments leaves the control registers in the VMCS alone.\<close>

definition same_cr0 :: "vmx_hw \<Rightarrow> vmx_hw \<Rightarrow> bool" where
  "same_cr0 h k \<longleftrightarrow> GUEST_CR0 k = GUEST_CR0 h \<and> CR0_READ_SHADOW k = CR0_READ_SHADOW h"

lemma test_set_cr0:
  "GUEST_CR0 (fst (vmx_segment_cache_test_set h seg f)) = GUEST_CR0 h"
  "CR0_READ_SHADOW (fst (vmx_segment_cache_test_set h seg f)) = CR0_READ_SHADOW h"
  by (simp_all add: vmx_segment_cache_test_set_def Let_def)

lemma read_cr0:
  "GUEST_CR0 (fst (vmx_read_guest_seg_selector h seg)) = GUEST_CR0 h"
  "CR0_READ_SHADOW (fst (vmx_read_guest_seg_selector h seg)) = CR0_READ_SHADOW h"
  "GUEST_CR0 (fst (vmx_read_guest_seg_base h seg)) = GUEST_CR0 h"
  "CR0_READ_SHADOW (fst (vmx_read_guest_seg_base h seg)) = CR0_READ_SHADOW h"
  "GUEST_CR0 (fst (vmx_read_guest_seg_limit h seg)) = GUEST_CR0 h"
  "CR0_READ_SHADOW (fst (vmx_read_guest_seg_limit h seg)) = CR0_READ_SHADOW h"
  "GUEST_CR0 (fst (vmx_read_guest_seg_ar h seg)) = GUEST_CR0 h"
  "CR0_READ_SHADOW (fst (vmx_read_guest_seg_ar h seg)) = CR0_READ_SHADOW h"
  by (simp_all add: vmx_read_guest_seg_selector_def vmx_read_guest_seg_base_def
      vmx_read_guest_seg_limit_def vmx_read_guest_seg_ar_def cache_fill_def test_set_cr0 split_beta Let_def)

lemma get_segment_cr0: "same_cr0 h (fst (vmx_get_segment h seg))"
  by (simp add: same_cr0_def vmx_get_segment_def read_cr0 split_beta Let_def)

lemma check_all_cr0:
  "list_all (\<lambda>f. \<forall>h. same_cr0 h (fst (f h))) fs \<Longrightarrow> same_cr0 h (fst (check_all fs h))"
proof (induction fs arbitrary: h)
  case (Cons f fs)
  then have "same_cr0 h (fst (f h))" "same_cr0 (fst (f h)) (fst (check_all fs (fst (f h))))"
    by simp_all
  then show ?case by (simp add: same_cr0_def split_beta)
qed (simp add: same_cr0_def)

lemma emulation_required_cr0:
  "GUEST_CR0 (fst (vmx_emulation_required E p h)) = GUEST_CR0 h"
  "CR0_READ_SHADOW (fst (vmx_emulation_required E p h)) = CR0_READ_SHADOW h"
proof -
  have g: "\<forall>h. same_cr0 h (fst (vmx_get_segment h seg))" for seg
    using get_segment_cr0 by blast
  have rpl: "same_cr0 h (fst (cs_ss_rpl_check h))" for h
    using get_segment_cr0 [of h VCPU_SREG_CS]
      get_segment_cr0 [of "fst (vmx_get_segment h VCPU_SREG_CS)" VCPU_SREG_SS]
    by (simp add: cs_ss_rpl_check_def same_cr0_def split_beta)
  have flags: "same_cr0 h (fst (vmx_get_rflags h))" for h
    by (simp add: vmx_get_rflags_def same_cr0_def Let_def)
  have "same_cr0 h (fst (vmx_guest_state_valid p h))"
  proof -
    obtain w r where w: "vmx_get_rflags h = (w, r)" by (rule prod.exhaust)
    define x where "x = (if p then w else h)"
    have x: "same_cr0 h x" using flags [of h] w by (simp add: x_def same_cr0_def)
    define real where "real \<longleftrightarrow> \<not> p \<or> r AND X86_EFLAGS_VM \<noteq> 0"
    define fs where "fs = (if real
       then map (\<lambda>seg v. rmode_segment_valid v seg)
         [VCPU_SREG_CS, VCPU_SREG_SS, VCPU_SREG_DS, VCPU_SREG_ES, VCPU_SREG_FS, VCPU_SREG_GS]
       else [cs_ss_rpl_check, code_segment_valid, stack_segment_valid] @
         map (\<lambda>seg v. data_segment_valid v seg)
           [VCPU_SREG_DS, VCPU_SREG_ES, VCPU_SREG_FS, VCPU_SREG_GS] @ [tr_valid, ldtr_valid])"
    have e: "vmx_guest_state_valid p h = check_all fs x"
      unfolding vmx_guest_state_valid_def w Let_def fs_def real_def x_def by simp
    have "list_all (\<lambda>f. \<forall>h. same_cr0 h (fst (f h))) fs"
      using g rpl by (simp add: fs_def code_segment_valid_def stack_segment_valid_def
          tr_valid_def ldtr_valid_def data_segment_valid_def rmode_segment_valid_def split_beta)
    from check_all_cr0 [OF this, of x] show ?thesis using x by (simp add: e same_cr0_def)
  qed
  then show "GUEST_CR0 (fst (vmx_emulation_required E p h)) = GUEST_CR0 h"
    "CR0_READ_SHADOW (fst (vmx_emulation_required E p h)) = CR0_READ_SHADOW h"
    by (simp_all add: vmx_emulation_required_def same_cr0_def split_beta)
qed

text \<open>The registers and hardware fields the operations leave alone.\<close>

lemma call_vmx_frame [simp]:
  "has_uret_efer (call c v) = has_uret_efer v" "hw (call c v) = hw v"
  "has_uret_efer (mark_dirty r v) = has_uret_efer v" "hw (mark_dirty r v) = hw v"
  by (simp_all add: call_def mark_dirty_def)

lemma vmx_set_cr4_frame [simp]:
  "cr0 (vmx_set_cr4 V c v) = cr0 v" "cr3 (vmx_set_cr4 V c v) = cr3 v"
  "cr4 (vmx_set_cr4 V c v) = c" "efer (vmx_set_cr4 V c v) = efer v"
  "has_uret_efer (vmx_set_cr4 V c v) = has_uret_efer v"
  "requests (vmx_set_cr4 V c v) = requests v"
  "GUEST_CR0 (hw (vmx_set_cr4 V c v)) = GUEST_CR0 (hw v)"
  "CR0_READ_SHADOW (hw (vmx_set_cr4 V c v)) = CR0_READ_SHADOW (hw v)"
  by (simp_all add: vmx_set_cr4_def Let_def split: if_split)

lemma vmx_efer_frame [simp]:
  "has_uret_efer v \<Longrightarrow> efer (fst (vmx_set_efer e v)) = e"
  "cr0 (fst (vmx_set_efer e v)) = cr0 v" "cr3 (fst (vmx_set_efer e v)) = cr3 v"
  "cr4 (fst (vmx_set_efer e v)) = cr4 v" "has_uret_efer (fst (vmx_set_efer e v)) = has_uret_efer v"
  "snd (vmx_set_efer e v) = 0" "GUEST_CR0 (hw (fst (vmx_set_efer e v))) = GUEST_CR0 (hw v)"
  "CR0_READ_SHADOW (hw (fst (vmx_set_efer e v))) = CR0_READ_SHADOW (hw v)"
  by (simp_all add: vmx_set_efer_def hcall_def Let_def)

lemma lmode_frame [simp]:
  "has_uret_efer v \<Longrightarrow> efer (enter_lmode v) = efer v OR EFER_LMA"
  "has_uret_efer v \<Longrightarrow> efer (exit_lmode v) = efer v AND NOT EFER_LMA"
  "cr0 (enter_lmode v) = cr0 v" "cr3 (enter_lmode v) = cr3 v" "cr4 (enter_lmode v) = cr4 v"
  "cr0 (exit_lmode v) = cr0 v" "cr3 (exit_lmode v) = cr3 v" "cr4 (exit_lmode v) = cr4 v"
  "has_uret_efer (enter_lmode v) = has_uret_efer v"
  "has_uret_efer (exit_lmode v) = has_uret_efer v"
  "GUEST_CR0 (hw (enter_lmode v)) = GUEST_CR0 (hw v)"
  "GUEST_CR0 (hw (exit_lmode v)) = GUEST_CR0 (hw v)"
  "CR0_READ_SHADOW (hw (enter_lmode v)) = CR0_READ_SHADOW (hw v)"
  "CR0_READ_SHADOW (hw (exit_lmode v)) = CR0_READ_SHADOW (hw v)"
  by (simp_all add: enter_lmode_def enter_lmode_tr_def exit_lmode_def vmx_segment_cache_clear_def vmcs_write_seg_def
      Let_def)

lemma vmx_set_cr0_regs:
  assumes "has_uret_efer v"
  shows "cr0 (vmx_set_cr0 V c v) = c \<and> cr3 (vmx_set_cr0 V c v) = cr3 v \<and>
    cr4 (vmx_set_cr0 V c v) = cr4 v \<and>
    efer (vmx_set_cr0 V c v) = efer_after_cr0 (cr0 v) c (efer v) \<and>
    has_uret_efer (vmx_set_cr0 V c v)"
  using assms by (simp add: vmx_set_cr0_def Let_def efer_after_cr0_def tst_def split_beta)

lemma has_uret_efer_cong: "creg_vcpu.more v = creg_vcpu.more w \<Longrightarrow> has_uret_efer v = has_uret_efer w"
  by (cases v; cases w) simp

interpretation vmx_cr: cr_vendor "vmx_cr_ops V" has_uret_efer for V
proof
  fix v w :: vmx_vcpu and c e :: u64 and r :: int
  show "creg_vcpu.more v = creg_vcpu.more w \<Longrightarrow> has_uret_efer v = has_uret_efer w"
    by (rule has_uret_efer_cong)
  show "has_uret_efer v \<Longrightarrow>
      cr0 (ops_set_cr0 (vmx_cr_ops V) c v) = c \<and> cr3 (ops_set_cr0 (vmx_cr_ops V) c v) = cr3 v \<and>
      cr4 (ops_set_cr0 (vmx_cr_ops V) c v) = cr4 v \<and>
      efer (ops_set_cr0 (vmx_cr_ops V) c v) = efer_after_cr0 (cr0 v) c (efer v) \<and>
      has_uret_efer (ops_set_cr0 (vmx_cr_ops V) c v)"
    using vmx_set_cr0_regs by (simp add: vmx_cr_ops_def)
  show "has_uret_efer v \<Longrightarrow>
      cr0 (ops_set_cr4 (vmx_cr_ops V) c v) = cr0 v \<and> cr3 (ops_set_cr4 (vmx_cr_ops V) c v) = cr3 v \<and>
      cr4 (ops_set_cr4 (vmx_cr_ops V) c v) = c \<and> efer (ops_set_cr4 (vmx_cr_ops V) c v) = efer v \<and>
      requests v \<subseteq> requests (ops_set_cr4 (vmx_cr_ops V) c v) \<and>
      has_uret_efer (ops_set_cr4 (vmx_cr_ops V) c v)"
    by (simp add: vmx_cr_ops_def)
  show "has_uret_efer v \<Longrightarrow> ops_set_efer (vmx_cr_ops V) e v = (w, r) \<Longrightarrow>
      cr0 w = cr0 v \<and> cr3 w = cr3 v \<and> cr4 w = cr4 v \<and>
      efer w = (if r = 0 then e else efer v) \<and> has_uret_efer w"
    by (auto simp: vmx_cr_ops_def vmx_set_efer_def Let_def split: if_splits)
qed

section \<open>Properties\<close>

lemmas vmx_const_defs =
  KVM_VM_CR0_ALWAYS_OFF_def KVM_VM_CR0_ALWAYS_ON_def KVM_VM_CR0_ALWAYS_ON_UNRESTRICTED_GUEST_def
  X86_CR0_NE_def

lemma and_or_clear: "m AND off = 0 \<Longrightarrow> ((c AND NOT off) OR m) AND off = (0 :: u64)"
  by (simp add: bit_eq_iff bit_and_iff bit_or_iff bit_not_iff) blast

text \<open>
  C4. On VMX, whatever a guest writes to its control registers and EFER, in any order, the
  registers stay in a combination the architecture allows (\<open>modes_ok\<close>): in particular long
  mode is active exactly with LME and paging and never without PAE, and PCIDs never without
  long mode.
\<close>

theorem vmx_modes_consistent:
  assumes "(creg_step E (vmx_cr_ops V))\<^sup>*\<^sup>* v w" and "cr0_env_ok E" and "has_uret_efer v"
    and "modes_ok v"
  shows "modes_ok w"
  using vmx_cr.reachable_modes [OF assms] by simp

text \<open>
  The hardware CR0 that VMX runs the guest with always has the bits VMX requires and
  never NW or CD; it differs from the guest's own value, which is in the read shadow, only in
  bits the shadow hides.
\<close>

theorem vmx_hardware_cr0:
  assumes "w = vmx_set_cr0 V c v"
  shows "CR0_READ_SHADOW (hw w) = c \<and> cr0 w = c \<and>
    GUEST_CR0 (hw w) AND KVM_VM_CR0_ALWAYS_OFF = 0 \<and> tst (GUEST_CR0 (hw w)) X86_CR0_NE \<and>
    (\<not> enable_unrestricted_guest V \<longrightarrow>
      tst (GUEST_CR0 (hw w)) X86_CR0_PG \<and> tst (GUEST_CR0 (hw w)) X86_CR0_PE) \<and>
    (\<not> enable_unrestricted_guest V \<and> \<not> enable_ept V \<longrightarrow> tst (GUEST_CR0 (hw w)) X86_CR0_WP)"
proof -
  have w: "CR0_READ_SHADOW (hw w) = c" "cr0 w = c" "GUEST_CR0 (hw w) = vmx_hw_cr0 V c"
    unfolding assms by (simp_all add: vmx_set_cr0_def emulation_required_cr0 Let_def split_beta)
  have hw: "vmx_hw_cr0 V c =
      (c AND NOT KVM_VM_CR0_ALWAYS_OFF) OR
      (if enable_unrestricted_guest V then X86_CR0_NE
       else KVM_VM_CR0_ALWAYS_ON OR (if enable_ept V then 0 else X86_CR0_WP))"
    by (simp add: vmx_hw_cr0_def KVM_VM_CR0_ALWAYS_ON_UNRESTRICTED_GUEST_def Let_def or.assoc)
  have "(if enable_unrestricted_guest V then X86_CR0_NE
       else KVM_VM_CR0_ALWAYS_ON OR (if enable_ept V then 0 else X86_CR0_WP))
      AND KVM_VM_CR0_ALWAYS_OFF = 0"
    by (simp add: vmx_const_defs bit_defs)
  then have "vmx_hw_cr0 V c AND KVM_VM_CR0_ALWAYS_OFF = 0"
    unfolding hw by (simp add: and_or_clear)
  then show ?thesis
    unfolding w hw by (simp add: tst_or) (simp add: tst_def vmx_const_defs bit_defs)
qed

section \<open>A sample\<close>

definition sample_vmx_env :: vmx_env where
  "sample_vmx_env =
     \<lparr>enable_ept = True, enable_unrestricted_guest = False, host_cr4_shadow = 0x40,
      umip_emulated = False, CR3_EXITING_BITS = 0x18000, vmx_guest_mode = False, vmcs12_cr3_exiting = 0,
      vmcs12_desc_exiting = False, vmxon = False, is_smm = False,
      nested_guest_cr0_valid = (\<lambda>c. True), nested_host_cr0_valid = (\<lambda>c. True),
      nested_cr4_valid = (\<lambda>c. True), seg_env = sample_seg_env True\<rparr>"

definition sample_vmx :: vmx_vcpu where
  "sample_vmx = creg_vcpu.extend reset_regs
     (vmx_vcpu.fields True sample_hw 2 False False)"

lemma sample_vmx_fields [simp]:
  "cr0 sample_vmx = 0x60000010" "cr4 sample_vmx = 0" "efer sample_vmx = 0"
  "has_uret_efer sample_vmx"
  by (simp_all add: sample_vmx_def reset_regs_def creg_vcpu.defs vmx_vcpu.defs)

lemma cr0_env_ok_sample: "cr0_env_ok sample_env"
  by (simp add: cr0_env_ok_def sample_env_def bit_defs)

lemma cr4_then_cr0_steps:
  "(creg_step E ops)\<^sup>*\<^sup>* v (fst (kvm_set_cr0 E ops c (fst (kvm_set_cr4 E ops d v))))"
  by (rule rtranclp.rtrancl_into_rtrancl [OF r_into_rtranclp]) (rule mov_cr4, rule mov_cr0)

lemma vmx_modes_consistent_witness:
  "modes_ok (fst (kvm_set_cr0 sample_env (vmx_cr_ops sample_vmx_env) 0x80000001
     (fst (kvm_set_cr4 sample_env (vmx_cr_ops sample_vmx_env) 0x20 sample_vmx))))"
  by (rule vmx_modes_consistent [OF cr4_then_cr0_steps cr0_env_ok_sample])
    (simp_all add: modes_ok_def tst_def bit_defs)

lemma vmx_hardware_cr0_witness:
  "tst (GUEST_CR0 (hw (vmx_set_cr0 sample_vmx_env 0x60000010 sample_vmx))) X86_CR0_PE"
  using vmx_hardware_cr0 [OF refl, of sample_vmx_env "0x60000010" sample_vmx]
  by (simp add: sample_vmx_env_def)

end
