(* ===== verification/Svm_Cregs.thy ===== *)
theory Svm_Cregs
  imports Vmx_Cregs
begin

text \<open>
  The control register callbacks of \<open>svm.c\<close> with the VMCB fields they write, and the proof
  that they keep the contract the common code relies on.
\<close>

section \<open>State\<close>

datatype svm_call =
    Leave_nested | Set_gif | Free_nested | Clr_gp_intercept | Set_gp_intercept | Flush_tlb_current
  | Vmcb_mark_cr_dirty

record svm_vcpu = creg_vcpu +
  save_cr0 :: u64
  save_cr4 :: u64
  save_efer :: u64
  cr0_read_intercept :: bool
  cr0_write_intercept :: bool
  nested_allocated :: bool
  svm_calls :: "svm_call list"

text \<open>
  Module parameters and properties of the VM; \<open>svm_allocate_nested\<close> is outside the repository
  and has an error code (0 for success).
\<close>

record svm_env =
  npt_enabled :: bool
  svm_host_cr4_shadow :: u64
  enable_vmware_backdoor :: bool
  svm_is_smm :: bool
  svm_allocate_nested :: int
  svm_gp_erratum_intercept :: bool
  sev_guest :: bool
  sev_es_guest :: bool
  guest_state_protected :: bool
  svm_quirk_CD_NW_CLEARED :: bool

definition scall :: "svm_call \<Rightarrow> svm_vcpu \<Rightarrow> svm_vcpu" where
  "scall c v = v\<lparr>svm_calls := svm_calls v @ [c]\<rparr>"

section \<open>EFER\<close>

definition svm_set_efer :: "svm_env \<Rightarrow> u64 \<Rightarrow> svm_vcpu \<Rightarrow> svm_vcpu \<times> int" where
  "svm_set_efer S e v =
     (let old_efer = efer v;
          v = v\<lparr>efer := e\<rparr>;
          e = (if \<not> npt_enabled S then
                 let e = e OR EFER_NX
                 in if \<not> tst e EFER_LMA then e AND NOT EFER_LME else e
               else e);
          (v, ret) =
            (if old_efer AND EFER_SVME \<noteq> e AND EFER_SVME then
               if \<not> tst e EFER_SVME then
                 let v = scall Set_gif (scall Leave_nested v);
                     v = (if \<not> enable_vmware_backdoor S then scall Clr_gp_intercept v else v)
                 in ((if \<not> svm_is_smm S then (scall Free_nested v)\<lparr>nested_allocated := False\<rparr> else v), 0)
               else
                 let ret = svm_allocate_nested S in
                 if ret \<noteq> 0 then (v\<lparr>efer := old_efer\<rparr>, ret)
                 else
                   let v = v\<lparr>nested_allocated := True\<rparr>
                   in ((if svm_gp_erratum_intercept S \<and> \<not> sev_guest S then scall Set_gp_intercept v
                        else v), 0)
             else (v, 0))
      in if ret \<noteq> 0 then (v, ret)
         else (scall Vmcb_mark_cr_dirty (v\<lparr>save_efer := e OR EFER_SVME\<rparr>), 0))"

section \<open>CR4\<close>

definition svm_set_cr4 :: "svm_env \<Rightarrow> u64 \<Rightarrow> svm_vcpu \<Rightarrow> svm_vcpu" where
  "svm_set_cr4 S c4 v =
     (let host_cr4_mce = svm_host_cr4_shadow S AND X86_CR4_MCE;
          old_cr4 = cr4 v;
          v = (if npt_enabled S \<and> tst (old_cr4 XOR c4) X86_CR4_PGE then scall Flush_tlb_current v
               else v);
          v = v\<lparr>cr4 := c4\<rparr>;
          c4 = (if \<not> npt_enabled S then
                  let c4 = c4 OR X86_CR4_PAE
                  in if \<not> is_paging v
                     then c4 AND NOT (X86_CR4_SMEP OR X86_CR4_SMAP OR X86_CR4_PKE) else c4
                else c4);
          c4 = c4 OR host_cr4_mce;
          v = scall Vmcb_mark_cr_dirty (v\<lparr>save_cr4 := c4\<rparr>)
      in if tst (c4 XOR old_cr4) (X86_CR4_OSXSAVE OR X86_CR4_PKE)
         then call Update_cpuid_runtime v else v)"

section \<open>CR0\<close>

definition svm_set_cr0 :: "svm_env \<Rightarrow> u64 \<Rightarrow> svm_vcpu \<Rightarrow> svm_vcpu" where
  "svm_set_cr0 S c0 v =
     (let hcr0 = c0;
          old_paging = is_paging v;
          v = (if tst (efer v) EFER_LME then
                 let v = (if \<not> is_paging v \<and> tst c0 X86_CR0_PG then
                            let v = v\<lparr>efer := efer v OR EFER_LMA\<rparr>
                            in if \<not> guest_state_protected S
                               then v\<lparr>save_efer := save_efer v OR (EFER_LMA OR EFER_LME)\<rparr> else v
                          else v)
                 in if is_paging v \<and> \<not> tst c0 X86_CR0_PG then
                      let v = v\<lparr>efer := efer v AND NOT EFER_LMA\<rparr>
                      in if \<not> guest_state_protected S
                         then v\<lparr>save_efer := save_efer v AND NOT (EFER_LMA OR EFER_LME)\<rparr> else v
                    else v
               else v);
          v = v\<lparr>cr0 := c0\<rparr>;
          (v, hcr0) =
            (if \<not> npt_enabled S
             then ((if old_paging \<noteq> is_paging v then svm_set_cr4 S (cr4 v) v else v),
                   hcr0 OR (X86_CR0_PG OR X86_CR0_WP))
             else (v, hcr0));
          hcr0 = (if svm_quirk_CD_NW_CLEARED S then hcr0 AND NOT (X86_CR0_CD OR X86_CR0_NW) else hcr0);
          v = scall Vmcb_mark_cr_dirty (v\<lparr>save_cr0 := hcr0\<rparr>)
      in if sev_es_guest S then v
         else if hcr0 = c0 then v\<lparr>cr0_read_intercept := False, cr0_write_intercept := False\<rparr>
         else v\<lparr>cr0_read_intercept := True, cr0_write_intercept := True\<rparr>)"

definition svm_cr_ops :: "svm_env \<Rightarrow> unit svm_vcpu_ext cr_ops" where
  "svm_cr_ops S =
     \<lparr>ops_is_valid_cr0 = (\<lambda>v c. True), ops_set_cr0 = svm_set_cr0 S,
      ops_is_valid_cr4 = (\<lambda>v c. True), ops_set_cr4 = svm_set_cr4 S,
      ops_set_efer = svm_set_efer S\<rparr>"

section \<open>The contract\<close>

lemma scall_frame [simp]:
  "cr0 (scall c v) = cr0 v" "cr3 (scall c v) = cr3 v" "cr4 (scall c v) = cr4 v"
  "efer (scall c v) = efer v" "requests (scall c v) = requests v" "save_cr0 (scall c v) = save_cr0 v"
  by (simp_all add: scall_def)

lemma svm_set_cr4_frame [simp]:
  "cr0 (svm_set_cr4 S c v) = cr0 v" "cr3 (svm_set_cr4 S c v) = cr3 v" "cr4 (svm_set_cr4 S c v) = c"
  "efer (svm_set_cr4 S c v) = efer v" "requests (svm_set_cr4 S c v) = requests v"
  by (simp_all add: svm_set_cr4_def Let_def)

lemma svm_set_cr0_regs:
  "cr0 (svm_set_cr0 S c v) = c \<and> cr3 (svm_set_cr0 S c v) = cr3 v \<and>
   cr4 (svm_set_cr0 S c v) = cr4 v \<and>
   efer (svm_set_cr0 S c v) = efer_after_cr0 (cr0 v) c (efer v)"
  by (simp add: svm_set_cr0_def Let_def efer_after_cr0_def is_paging_def)

lemma svm_set_efer_regs:
  assumes "svm_set_efer S e v = (w, r)"
  shows "cr0 w = cr0 v \<and> cr3 w = cr3 v \<and> cr4 w = cr4 v \<and> efer w = (if r = 0 then e else efer v)"
  using assms by (auto simp: svm_set_efer_def Let_def split: if_splits)

interpretation svm_cr: cr_vendor "svm_cr_ops S" "\<lambda>v. True" for S
proof (standard, goal_cases)
  case (2 v c)
  show ?case using svm_set_cr0_regs by (simp add: svm_cr_ops_def)
next
  case (3 v c)
  show ?case by (simp add: svm_cr_ops_def)
next
  case (4 v e w r)
  then show ?case using svm_set_efer_regs by (auto simp: svm_cr_ops_def)
qed simp

section \<open>Properties\<close>

text \<open>
  C5. The same guarantee on SVM: no sequence of guest writes to the control registers and
  EFER leaves the combinations of modes the architecture allows.
\<close>

theorem svm_modes_consistent:
  assumes "(creg_step E (svm_cr_ops S))\<^sup>*\<^sup>* v w" and "cr0_env_ok E" and "modes_ok v"
  shows "modes_ok w"
  using svm_cr.reachable_modes [OF assms(1,2) TrueI assms(3)] by simp

text \<open>
  SVM intercepts accesses to CR0 exactly when the value it gives the hardware differs
  from the one the guest wrote, so that the guest always reads back what it wrote (SEV-ES
  guests apart, whose intercepts are never changed).
\<close>

theorem svm_cr0_intercepts:
  assumes "\<not> sev_es_guest S" and "w = svm_set_cr0 S c v"
  shows "cr0 w = c \<and> (cr0_read_intercept w \<longleftrightarrow> save_cr0 w \<noteq> c) \<and>
    (cr0_write_intercept w \<longleftrightarrow> save_cr0 w \<noteq> c)"
  unfolding assms(2) using assms(1) by (simp add: svm_set_cr0_def Let_def)

text \<open>A refused write to EFER leaves the vCPU alone, when the vendor's refusal does.\<close>

lemma refused_efer:
  assumes "\<And>e u r. ops_set_efer ops e v = (u, r) \<Longrightarrow> r \<noteq> 0 \<Longrightarrow> u = v"
    and "snd (set_efer E ops host e v) \<noteq> 0"
  shows "fst (set_efer E ops host e v) = v"
  using assms(2) unfolding set_efer_def Let_def
  by (auto split: if_splits prod.splits dest: assms(1))

lemma svm_set_efer_refused: "svm_set_efer S e v = (w, r) \<Longrightarrow> r \<noteq> 0 \<Longrightarrow> w = v"
  by (auto simp: svm_set_efer_def Let_def split: if_splits)

text \<open>
  C6. A write to CR0 that faults changes nothing at all; one to CR3 or CR4 that faults leaves
  every control register as it was; a write to EFER that is refused, by the common code or by the
  vendor's, changes nothing at all on Intel and on AMD.
\<close>

theorem faulting_writes_keep_registers:
  "(snd (kvm_set_cr0 E ops c v) \<noteq> 0 \<longrightarrow> fst (kvm_set_cr0 E ops c v) = v) \<and>
   (snd (kvm_set_cr3 E c v) \<noteq> 0 \<longrightarrow> same_regs v (fst (kvm_set_cr3 E c v))) \<and>
   (snd (kvm_set_cr4 E ops c v) \<noteq> 0 \<longrightarrow> same_regs v (fst (kvm_set_cr4 E ops c v))) \<and>
   (snd (set_efer E (vmx_cr_ops V) host e x) \<noteq> 0 \<longrightarrow> fst (set_efer E (vmx_cr_ops V) host e x) = x) \<and>
   (snd (set_efer E (svm_cr_ops S) host e y) \<noteq> 0 \<longrightarrow> fst (set_efer E (svm_cr_ops S) host e y) = y)"
proof (intro conjI impI)
  assume "snd (kvm_set_cr0 E ops c v) \<noteq> 0"
  then show "fst (kvm_set_cr0 E ops c v) = v"
    using set_cr0_error by (metis prod.collapse)
next
  assume "snd (kvm_set_cr3 E c v) \<noteq> 0"
  then show "same_regs v (fst (kvm_set_cr3 E c v))"
    by (auto simp: kvm_set_cr3_def Let_def split: if_splits prod.splits dest: load_pdptrs_regs)
next
  assume "snd (kvm_set_cr4 E ops c v) \<noteq> 0"
  then show "same_regs v (fst (kvm_set_cr4 E ops c v))"
    by (auto simp: kvm_set_cr4_def Let_def split: if_splits prod.splits dest: load_pdptrs_regs)
next
  assume "snd (set_efer E (vmx_cr_ops V) host e x) \<noteq> 0"
  then show "fst (set_efer E (vmx_cr_ops V) host e x) = x"
    by (rule refused_efer [rotated]) (auto simp: vmx_cr_ops_def vmx_set_efer_def Let_def split: if_splits)
next
  assume "snd (set_efer E (svm_cr_ops S) host e y) \<noteq> 0"
  then show "fst (set_efer E (svm_cr_ops S) host e y) = y"
    by (rule refused_efer [rotated]) (simp add: svm_cr_ops_def svm_set_efer_refused)
qed

section \<open>A sample\<close>

definition sample_svm_env :: svm_env where
  "sample_svm_env =
     \<lparr>npt_enabled = True, svm_host_cr4_shadow = 0x40, enable_vmware_backdoor = False,
      svm_is_smm = False, svm_allocate_nested = 0, svm_gp_erratum_intercept = False,
      sev_guest = False, sev_es_guest = False, guest_state_protected = False,
      svm_quirk_CD_NW_CLEARED = True\<rparr>"

definition no_memory :: svm_env where
  "no_memory = sample_svm_env\<lparr>svm_allocate_nested := - 12\<rparr>"

definition sample_svm :: svm_vcpu where
  "sample_svm = creg_vcpu.extend reset_regs (svm_vcpu.fields 0x10 0x40 0x1000 True True False [])"

lemma sample_svm_fields [simp]: "cr0 sample_svm = 0x60000010" "cr4 sample_svm = 0" "efer sample_svm = 0"
  by (simp_all add: sample_svm_def reset_regs_def creg_vcpu.defs svm_vcpu.defs)

lemma svm_modes_consistent_witness:
  "modes_ok (fst (kvm_set_cr0 sample_env (svm_cr_ops sample_svm_env) 0x80000001
     (fst (kvm_set_cr4 sample_env (svm_cr_ops sample_svm_env) 0x20 sample_svm))))"
  by (rule svm_modes_consistent [OF cr4_then_cr0_steps cr0_env_ok_sample])
    (simp_all add: modes_ok_def tst_def bit_defs)

lemma svm_cr0_intercepts_witness:
  "cr0_read_intercept (svm_set_cr0 sample_svm_env 0x60000011 sample_svm) \<and>
   \<not> cr0_read_intercept (svm_set_cr0 sample_svm_env 0x11 sample_svm)"
  using svm_cr0_intercepts [OF _ refl, of sample_svm_env "0x60000011" sample_svm]
    svm_cr0_intercepts [OF _ refl, of sample_svm_env "0x11" sample_svm]
  by (simp add: sample_svm_env_def svm_set_cr0_def Let_def sample_svm_def reset_regs_def
      creg_vcpu.defs svm_vcpu.defs bit_defs scall_def)

lemma faulting_writes_keep_registers_witness:
  "fst (kvm_set_cr0 sample_env plain_ops X86_CR0_PG reset_regs) = reset_regs \<and>
   same_regs reset_regs (fst (kvm_set_cr3 sample_env 0x10000000000000 reset_regs)) \<and>
   same_regs reset_regs (fst (kvm_set_cr4 sample_env plain_ops X86_CR4_PCIDE reset_regs)) \<and>
   fst (set_efer sample_env (svm_cr_ops no_memory) True EFER_SVME sample_svm) = sample_svm"
proof -
  let ?S = no_memory
  have "snd (kvm_set_cr0 sample_env plain_ops X86_CR0_PG reset_regs) \<noteq> 0"
    by (simp add: kvm_set_cr0_def kvm_is_valid_cr0_def tst_def bit_defs)
  moreover have "snd (kvm_set_cr3 sample_env 0x10000000000000 reset_regs) \<noteq> 0"
    by (simp add: kvm_set_cr3_def sample_env_def reset_regs_def tst_def bit_defs)
  moreover have "snd (kvm_set_cr4 sample_env plain_ops X86_CR4_PCIDE reset_regs) \<noteq> 0"
    by (simp add: kvm_set_cr4_def kvm_is_valid_cr4_def kvm_is_valid_cr4_common_def sample_env_def
        plain_ops_def reset_regs_def tst_def bit_defs is_long_mode_def is_paging_def)
  moreover have "snd (set_efer sample_env (svm_cr_ops ?S) True EFER_SVME sample_svm) \<noteq> 0"
    by (simp add: set_efer_def svm_cr_ops_def svm_set_efer_def no_memory_def sample_svm_env_def
        sample_env_def tst_def bit_defs)
  ultimately show ?thesis
    using faulting_writes_keep_registers [of sample_env plain_ops X86_CR0_PG reset_regs _ True 0 _ ?S sample_svm]
      faulting_writes_keep_registers [of sample_env plain_ops "0x10000000000000" reset_regs _ True 0 _ ?S sample_svm]
      faulting_writes_keep_registers [of sample_env plain_ops X86_CR4_PCIDE reset_regs _ True EFER_SVME _ ?S sample_svm]
    by blast
qed

end
