(* ===== verification/Kvm_Rdtsc.thy ===== *)
theory Kvm_Rdtsc
  imports Prelude
begin

text \<open>
  The time-stamp counter handlers this project adds to \<open>vmx.c\<close> (\<open>handle_rdtsc\<close>) and \<open>svm.c\<close>
  (\<open>handle_rdtsc_interception\<close>): the guest reads a counter that runs at a sixteenth of the
  real speed. Their static variables are shared by all virtual CPUs of all machines. The
  interface \<open>slow_counter\<close> says what a handler promises; both interpret it.
\<close>

section \<open>The handlers\<close>

record rdtsc_static =
  print_once :: bool
  rdtsc_fake :: u64
  rdtsc_prev :: u64

definition rdtsc_init :: rdtsc_static where
  "rdtsc_init = \<lparr>print_once = True, rdtsc_fake = 0, rdtsc_prev = 0\<rparr>"

text \<open>
  The two registers of the vCPU the handlers write; the record is extended by what the rest
  of the vCPU holds. The call that steps over the instruction is the argument \<open>skip\<close>, with
  the handler's return code.
\<close>

record rdtsc_vcpu =
  regs_rax :: u64
  regs_rdx :: u64

definition low32 :: "u64 \<Rightarrow> u64" where
  "low32 w = w AND 0xffffffff"

definition handle_rdtsc ::
  "('a rdtsc_vcpu_scheme \<Rightarrow> 'a rdtsc_vcpu_scheme \<times> int) \<Rightarrow> u64 \<Rightarrow>
    'a rdtsc_vcpu_scheme \<Rightarrow> rdtsc_static \<Rightarrow>
    ('a rdtsc_vcpu_scheme \<times> int) \<times> rdtsc_static" where
  "handle_rdtsc skip rdtsc_real vcpu s =
     (let s = (if print_once s then s\<lparr>print_once := False, rdtsc_fake := rdtsc_real\<rparr> else s);
          s = (if rdtsc_prev s \<noteq> 0 then
                 if rdtsc_real > rdtsc_prev s then
                   let diff = rdtsc_real - rdtsc_prev s;
                       fake_diff = diff div 16
                   in s\<lparr>rdtsc_fake := rdtsc_fake s + fake_diff\<rparr>
                 else s
               else s);
          s = (if rdtsc_fake s > rdtsc_real then s\<lparr>rdtsc_fake := rdtsc_real\<rparr> else s);
          s = s\<lparr>rdtsc_prev := rdtsc_real\<rparr>;
          vcpu = vcpu\<lparr>regs_rax := low32 (rdtsc_fake s)\<rparr>;
          vcpu = vcpu\<lparr>regs_rdx := low32 (drop_bit 32 (rdtsc_fake s))\<rparr>
      in (skip vcpu, s))"

definition handle_rdtsc_interception ::
  "('a rdtsc_vcpu_scheme \<Rightarrow> 'a rdtsc_vcpu_scheme \<times> int) \<Rightarrow> u64 \<Rightarrow>
    'a rdtsc_vcpu_scheme \<Rightarrow> rdtsc_static \<Rightarrow>
    ('a rdtsc_vcpu_scheme \<times> int) \<times> rdtsc_static" where
  "handle_rdtsc_interception skip rdtsc_real vcpu s =
     (let s = (if print_once s then s\<lparr>print_once := False, rdtsc_fake := rdtsc_real\<rparr> else s);
          s = (if rdtsc_prev s \<noteq> 0 then
                 if rdtsc_real > rdtsc_prev s then
                   let diff = rdtsc_real - rdtsc_prev s;
                       fake_diff = diff div 16
                   in s\<lparr>rdtsc_fake := rdtsc_fake s + fake_diff\<rparr>
                 else s
               else s);
          s = (if rdtsc_fake s > rdtsc_real then s\<lparr>rdtsc_fake := rdtsc_real\<rparr> else s);
          s = s\<lparr>rdtsc_prev := rdtsc_real\<rparr>;
          vcpu = vcpu\<lparr>regs_rax := low32 (rdtsc_fake s)\<rparr>;
          vcpu = vcpu\<lparr>regs_rdx := low32 (drop_bit 32 (rdtsc_fake s))\<rparr>
      in (skip vcpu, s))"

text \<open>What the guest's RDTSC yields: EDX:EAX.\<close>

definition guest_tsc :: "'a rdtsc_vcpu_scheme \<Rightarrow> u64" where
  "guest_tsc v = push_bit 32 (regs_rdx v) OR regs_rax v"

section \<open>Slow counters\<close>

text \<open>
  A handler that, given the real counter, moves its state: \<open>started\<close> after the first call,
  \<open>prev\<close> the last real value, \<open>shown\<close> the last value shown.
\<close>

locale slow_counter =
  fixes step :: "u64 \<Rightarrow> 's \<Rightarrow> 's"
    and started :: "'s \<Rightarrow> bool"
    and prev :: "'s \<Rightarrow> u64"
    and shown :: "'s \<Rightarrow> u64"
    and div' :: nat
  assumes div_pos: "0 < div'"
    and started_step: "started (step r s)"
    and prev_step: "prev (step r s) = r"
    and first: "\<not> started s \<Longrightarrow> prev s = 0 \<Longrightarrow> shown (step r s) = r"
    and next_shown: "started s \<Longrightarrow> prev s \<noteq> 0 \<Longrightarrow> prev s \<le> r \<Longrightarrow> shown s \<le> prev s \<Longrightarrow>
      unat (shown (step r s)) = unat (shown s) + (unat r - unat (prev s)) div div'"
    and backwards: "started s \<Longrightarrow> r \<le> prev s \<Longrightarrow> r < shown s \<Longrightarrow> shown (step r s) = r"
begin

text \<open>A running counter: the shown value is behind the real one.\<close>

definition ok :: "'s \<Rightarrow> bool" where
  "ok s \<longleftrightarrow> started s \<and> prev s \<noteq> 0 \<and> shown s \<le> prev s"

lemma step_ok:
  assumes "ok s" and "prev s \<le> r"
  shows "ok (step r s)" and "shown s \<le> shown (step r s)"
proof -
  have n: "unat (shown (step r s)) = unat (shown s) + (unat r - unat (prev s)) div div'"
    using next_shown assms by (simp add: ok_def)
  have "(unat r - unat (prev s)) div div' \<le> unat r - unat (prev s)" by simp
  moreover have "unat (shown s) \<le> unat (prev s)" "unat (prev s) \<le> unat r"
    using assms by (simp_all add: ok_def word_le_nat_alt)
  ultimately have "unat (shown (step r s)) \<le> unat r" using n by linarith
  moreover have "r \<noteq> 0" using assms by (auto simp: ok_def)
  ultimately show "ok (step r s)"
    by (simp add: ok_def started_step prev_step word_le_nat_alt)
  show "shown s \<le> shown (step r s)" using n by (simp add: word_le_nat_alt)
qed

lemma first_ok: "\<not> started s \<Longrightarrow> prev s = 0 \<Longrightarrow> r \<noteq> 0 \<Longrightarrow> ok (step r s)"
  by (simp add: ok_def started_step prev_step first)

lemma run_ok: "ok s \<Longrightarrow> sorted (prev s # rs) \<Longrightarrow> ok (fold step rs s) \<and> shown s \<le> shown (fold step rs s)"
proof (induction rs arbitrary: s)
  case (Cons r rs)
  from Cons.prems have "prev s \<le> r" "sorted (prev (step r s) # rs)" by (simp_all add: prev_step)
  with Cons.IH [of "step r s"] step_ok [OF Cons.prems(1)] show ?case by force
qed simp

lemma run_prev: "prev (fold step rs s) = (if rs = [] then prev s else last rs)"
  by (induction rs arbitrary: s) (simp_all add: prev_step)

text \<open>The speed of the shown counter over a whole run, from both sides.\<close>

lemma run_speed:
  assumes "ok s" and "sorted (prev s # rs)"
  shows "div' * (unat (shown (fold step rs s)) - unat (shown s)) \<le> unat (prev (fold step rs s)) - unat (prev s) \<and>
    unat (prev (fold step rs s)) - unat (prev s) \<le>
      div' * (unat (shown (fold step rs s)) - unat (shown s)) + (div' - 1) * length rs"
  using assms
proof (induction rs arbitrary: s)
  case (Cons r rs)
  let ?t = "step r s"
  have le: "prev s \<le> r" and s: "sorted (prev ?t # rs)" using Cons.prems by (simp_all add: prev_step)
  note ok = step_ok [OF Cons.prems(1) le]
  note r = run_ok [OF ok(1) s]
  define d where "d = unat r - unat (prev s)"
  have n: "unat (shown ?t) = unat (shown s) + d div div'"
    using next_shown Cons.prems(1) le by (simp add: ok_def d_def)
  have p: "unat (prev ?t) = unat (prev s) + d"
    using le by (simp add: prev_step d_def word_le_nat_alt)
  have m: "unat (shown ?t) \<le> unat (shown (fold step rs ?t))"
    using r by (simp add: word_le_nat_alt)
  have q: "unat (prev ?t) \<le> unat (prev (fold step rs ?t))"
    using s by (auto simp: run_prev word_le_nat_alt dest: last_in_set)
  have d1: "div' * (d div div') \<le> d" by (rule times_div_less_eq_dividend)
  have "d mod div' \<le> div' - 1" using mod_less_divisor [OF div_pos, of d] by simp
  then have d2: "d \<le> div' * (d div div') + (div' - 1)"
    using mult_div_mod_eq [of div' d] by linarith
  define S where "S = unat (shown (fold step rs ?t)) - unat (shown ?t)"
  define P where "P = unat (prev (fold step rs ?t)) - unat (prev ?t)"
  have IH: "div' * S \<le> P" "P \<le> div' * S + (div' - 1) * length rs"
    using Cons.IH [OF ok(1) s] by (simp_all add: S_def P_def)
  have tot: "unat (shown (fold step rs ?t)) - unat (shown s) = S + d div div'"
    "unat (prev (fold step rs ?t)) - unat (prev s) = P + d"
    using m q n p by (simp_all add: S_def P_def)
  show ?case
    using IH d1 d2 unfolding fold_simps tot list.size distrib_left One_nat_def mult_Suc_right
    by linarith
qed simp

lemma run_frozen:
  assumes "ok s" and "sorted (prev s # rs)"
    and "\<forall>p \<in> set (zip (prev s # rs) rs). unat (snd p) - unat (fst p) < div'"
  shows "shown (fold step rs s) = shown s"
  using assms
proof (induction rs arbitrary: s)
  case (Cons r rs)
  have le: "prev s \<le> r" and s: "sorted (prev (step r s) # rs)" and d: "unat r - unat (prev s) < div'"
    using Cons.prems by (simp_all add: prev_step)
  have "unat (shown (step r s)) = unat (shown s)"
    using next_shown [of s r] Cons.prems(1) le d by (simp add: ok_def)
  then have "shown (step r s) = shown s" by (simp add: word_unat_eq_iff)
  with Cons.IH [OF step_ok(1) [OF Cons.prems(1) le] s] Cons.prems(3) show ?case
    by (simp add: prev_step)
qed simp

end

section \<open>The handlers are slow counters\<close>

lemma low32_join: "push_bit 32 (low32 (drop_bit 32 w)) OR low32 w = w"
proof (rule bit_word_eqI)
  fix n assume "n < LENGTH(64)"
  have m: "(0xffffffff :: u64) = mask 32" by (simp add: mask_eq_exp_minus_1)
  show "bit (push_bit 32 (low32 (drop_bit 32 w)) OR low32 w) n = bit w n"
    using \<open>n < LENGTH(64)\<close> unfolding low32_def m
    by (auto simp: bit_or_iff bit_push_bit_iff bit_and_iff bit_mask_iff bit_drop_bit_eq)
qed

lemma unat_low32: "unat (low32 w) < 2 ^ 32"
proof -
  have "low32 w = take_bit 32 w"
    unfolding low32_def by (simp add: take_bit_eq_mask mask_eq_exp_minus_1)
  then have "unat (low32 w) = take_bit 32 (unat w)" by (simp add: unsigned_take_bit_eq)
  then show ?thesis by (metis take_bit_nat_less_exp)
qed

text \<open>The effect of one read on the static variables alone, for either handler.\<close>

definition rdtsc_next :: "u64 \<Rightarrow> rdtsc_static \<Rightarrow> rdtsc_static" where
  "rdtsc_next r s = snd (handle_rdtsc (\<lambda>v. (v, 1)) r \<lparr>regs_rax = 0, regs_rdx = 0\<rparr> s)"

definition svm_rdtsc_next :: "u64 \<Rightarrow> rdtsc_static \<Rightarrow> rdtsc_static" where
  "svm_rdtsc_next r s =
     snd (handle_rdtsc_interception (\<lambda>v. (v, 1)) r \<lparr>regs_rax = 0, regs_rdx = 0\<rparr> s)"

lemma handle_rdtsc_split:
  "handle_rdtsc skip r v s =
     (skip (v\<lparr>regs_rax := low32 (rdtsc_fake (rdtsc_next r s)),
              regs_rdx := low32 (drop_bit 32 (rdtsc_fake (rdtsc_next r s)))\<rparr>),
      rdtsc_next r s)"
  by (simp add: handle_rdtsc_def rdtsc_next_def Let_def)

lemma rdtsc_handlers_eq: "handle_rdtsc_interception = handle_rdtsc"
  by (simp add: handle_rdtsc_interception_def handle_rdtsc_def fun_eq_iff)

lemma rdtsc_shown:
  assumes "\<not> print_once s" and "rdtsc_prev s \<noteq> 0" and "rdtsc_prev s \<le> r"
    and "rdtsc_fake s \<le> rdtsc_prev s"
  shows "unat (rdtsc_fake (rdtsc_next r s)) =
    unat (rdtsc_fake s) + (unat r - unat (rdtsc_prev s)) div 16"
proof -
  let ?d = "(unat r - unat (rdtsc_prev s)) div 16"
  have fp: "unat (rdtsc_fake s) \<le> unat (rdtsc_prev s)" "unat (rdtsc_prev s) \<le> unat r"
    using assms(3,4) by (simp_all add: word_le_nat_alt)
  have u: "unat ((r - rdtsc_prev s) div 16) = ?d"
    using assms(3) by (simp add: unat_sub unat_div_distrib)
  have b: "unat (rdtsc_fake s) + ?d \<le> unat r" using fp by linarith
  have "unat r < 2 ^ LENGTH(64)" by (rule unsigned_less)
  with b u have n: "unat (rdtsc_fake s + (r - rdtsc_prev s) div 16) = unat (rdtsc_fake s) + ?d"
    by (subst unat_add_lem [THEN iffD1]) simp_all
  then have "rdtsc_fake s + (r - rdtsc_prev s) div 16 \<le> r"
    using b by (simp add: word_le_nat_alt)
  moreover have "rdtsc_fake s \<le> r" using assms(3,4) by simp
  moreover have "?d = 0" if "\<not> rdtsc_prev s < r"
    using that assms(3) by simp
  ultimately show ?thesis
    using assms(1,2) n by (auto simp: rdtsc_next_def handle_rdtsc_def Let_def not_less)
qed

interpretation vmx_tsc: slow_counter rdtsc_next "\<lambda>s. \<not> print_once s" rdtsc_prev rdtsc_fake 16
proof
  fix s :: rdtsc_static and r assume "\<not> print_once s" "rdtsc_prev s \<noteq> 0" "rdtsc_prev s \<le> r" "rdtsc_fake s \<le> rdtsc_prev s"
  then show "unat (rdtsc_fake (rdtsc_next r s)) =
      unat (rdtsc_fake s) + (unat r - unat (rdtsc_prev s)) div 16"
    by (rule rdtsc_shown)
qed (auto simp: rdtsc_next_def handle_rdtsc_def Let_def)

lemma svm_rdtsc_next_eq: "svm_rdtsc_next = rdtsc_next"
  by (simp add: svm_rdtsc_next_def rdtsc_next_def rdtsc_handlers_eq fun_eq_iff)

interpretation svm_tsc: slow_counter svm_rdtsc_next "\<lambda>s. \<not> print_once s" rdtsc_prev rdtsc_fake 16
  unfolding svm_rdtsc_next_eq by (rule vmx_tsc.slow_counter_axioms)

section \<open>Properties\<close>

text \<open> C10. Either handler puts the shown counter into EDX:EAX (both registers below
  \<open>2 ^ 32\<close>), leaves the rest of the vCPU alone, never shows a value above the real counter,
  whatever the static variables held, and remembers the real value. \<close>

theorem rdtsc_value_never_ahead:
  "\<exists>v' s'. handle_rdtsc skip r v s = (skip v', s') \<and>
     handle_rdtsc_interception skip r v s = (skip v', s') \<and>
     guest_tsc v' = rdtsc_fake s' \<and> guest_tsc v' \<le> r \<and>
     unat (regs_rax v') < 2 ^ 32 \<and> unat (regs_rdx v') < 2 ^ 32 \<and>
     rdtsc_vcpu.more v' = rdtsc_vcpu.more v \<and> rdtsc_prev s' = r \<and> \<not> print_once s'"
proof -
  let ?s = "rdtsc_next r s"
  let ?v = "v\<lparr>regs_rax := low32 (rdtsc_fake ?s), regs_rdx := low32 (drop_bit 32 (rdtsc_fake ?s))\<rparr>"
  have "guest_tsc ?v = rdtsc_fake ?s" by (simp add: guest_tsc_def low32_join)
  moreover have "rdtsc_fake ?s \<le> r" "rdtsc_prev ?s = r" "\<not> print_once ?s"
    by (simp_all add: rdtsc_next_def handle_rdtsc_def Let_def not_less)
  moreover have "handle_rdtsc skip r v s = (skip ?v, ?s)" by (rule handle_rdtsc_split)
  ultimately show ?thesis
    unfolding rdtsc_handlers_eq using unat_low32
    by (intro exI [of _ ?v] exI [of _ ?s]) simp
qed

text \<open> C9. From the module's initial state, reads at real times \<open>r0 \<le> r1 \<le> ...\<close> (a
  synchronised counter) show values that never go back, and the shown counter runs at a sixteenth
  of the real one, losing at most 15 real cycles per read to the integer division. \<close>

theorem rdtsc_sixteenth_speed:
  assumes "r0 \<noteq> 0" and "sorted (r0 # rs @ [r])"
  shows "let s1 = fold rdtsc_next (r0 # rs) rdtsc_init; s2 = rdtsc_next r s1;
             shown_cycles = unat (rdtsc_fake s2) - unat r0; real_cycles = unat r - unat r0
         in r0 \<le> rdtsc_fake s1 \<and> rdtsc_fake s1 \<le> rdtsc_fake s2 \<and>
            16 * shown_cycles \<le> real_cycles \<and>
            real_cycles \<le> 16 * shown_cycles + 15 * (length rs + 1)"
proof -
  let ?s = "rdtsc_next r0 rdtsc_init"
  have p0: "\<not> \<not> print_once rdtsc_init" "rdtsc_prev rdtsc_init = 0"
    by (simp_all add: rdtsc_init_def)
  note ok = vmx_tsc.first_ok [OF p0 assms(1)]
  note f = vmx_tsc.first [OF p0, of r0]
  note p = vmx_tsc.prev_step [of r0 rdtsc_init]
  have so: "sorted (rdtsc_prev ?s # rs @ [r])" "sorted (rdtsc_prev ?s # rs)"
    using assms(2) unfolding p by (simp_all add: sorted_append)
  note a = vmx_tsc.run_ok [OF ok so(2)] and b = vmx_tsc.run_speed [OF ok so(1)]
  have "rdtsc_prev (fold rdtsc_next rs ?s) \<le> r"
    using assms(2) by (auto simp: vmx_tsc.run_prev p sorted_append)
  note c = vmx_tsc.step_ok(2) [OF conjunct1 [OF a] this]
  show ?thesis using a b c f p by (simp add: Let_def vmx_tsc.prev_step)
qed

theorem rdtsc_sixteenth_speed_witness:
  "let s1 = fold rdtsc_next (1000 # [1600]) rdtsc_init; s2 = rdtsc_next 1631 s1;
       shown_cycles = unat (rdtsc_fake s2) - unat (1000 :: u64);
       real_cycles = unat (1631 :: u64) - unat (1000 :: u64)
   in 1000 \<le> rdtsc_fake s1 \<and> rdtsc_fake s1 \<le> rdtsc_fake s2 \<and>
      16 * shown_cycles \<le> real_cycles \<and>
      real_cycles \<le> 16 * shown_cycles + 15 * (length [1600 :: u64] + 1)"
  by (rule rdtsc_sixteenth_speed) simp_all

text \<open> The division drops its remainder, so a guest that reads the counter often
  enough stops it: as long as consecutive reads are less than 16 real cycles apart, the shown
  counter stands still, however long the real one runs. \<close>

theorem rdtsc_frozen_by_fast_reads:
  assumes "r0 \<noteq> 0" and "sorted (r0 # rs)"
    and "\<forall>p \<in> set (zip (r0 # rs) rs). unat (snd p) - unat (fst p) < 16"
  shows "rdtsc_fake (fold rdtsc_next (r0 # rs) rdtsc_init) = r0"
proof -
  have p0: "\<not> \<not> print_once rdtsc_init" "rdtsc_prev rdtsc_init = 0"
    by (simp_all add: rdtsc_init_def)
  note p = vmx_tsc.prev_step [of r0 rdtsc_init]
  have "rdtsc_fake (fold rdtsc_next rs (rdtsc_next r0 rdtsc_init)) = rdtsc_fake (rdtsc_next r0 rdtsc_init)"
    by (rule vmx_tsc.run_frozen [OF vmx_tsc.first_ok [OF p0 assms(1)]])
      (use assms in \<open>simp_all only: p\<close>)
  then show ?thesis using vmx_tsc.first [OF p0, of r0] by simp
qed

theorem rdtsc_frozen_by_fast_reads_witness:
  "rdtsc_fake (fold rdtsc_next (100 # [110, 125, 140]) rdtsc_init) = 100"
  by (rule rdtsc_frozen_by_fast_reads) simp_all

text \<open> The static variables are shared by all CPUs: if a read on a CPU whose counter
  is behind (below the last value shown) comes in, the guest sees time go back to that counter, and
  the next read elsewhere counts only from there. \<close>

theorem rdtsc_goes_back:
  assumes "\<not> print_once s" and "rdtsc_prev s \<noteq> 0" and "rdtsc_fake s \<le> rdtsc_prev s"
    and "r < rdtsc_fake s" and "r \<noteq> 0" and "r \<le> r2"
  shows "rdtsc_fake (rdtsc_next r s) = r \<and> rdtsc_fake (rdtsc_next r s) < rdtsc_fake s \<and>
    unat (rdtsc_fake (rdtsc_next r2 (rdtsc_next r s))) = unat r + (unat r2 - unat r) div 16"
proof -
  have "r \<le> rdtsc_prev s" using assms(3,4) by simp
  then have "rdtsc_fake (rdtsc_next r s) = r" using vmx_tsc.backwards assms(1,4) by blast
  with assms show ?thesis
    using vmx_tsc.next_shown [of "rdtsc_next r s" r2] vmx_tsc.started_step [of r s]
    by (simp add: vmx_tsc.prev_step)
qed

theorem rdtsc_goes_back_witness:
  "rdtsc_fake (rdtsc_next 900 (rdtsc_next 1000 rdtsc_init)) = 900 \<and>
   rdtsc_fake (rdtsc_next 900 (rdtsc_next 1000 rdtsc_init)) < rdtsc_fake (rdtsc_next 1000 rdtsc_init) \<and>
   unat (rdtsc_fake (rdtsc_next 1160 (rdtsc_next 900 (rdtsc_next 1000 rdtsc_init)))) =
     unat (900 :: u64) + (unat (1160 :: u64) - unat (900 :: u64)) div 16"
  by (rule rdtsc_goes_back)
    (simp_all add: rdtsc_next_def handle_rdtsc_def rdtsc_init_def)

end
