(* ===== verification/Kvm_Msr_Filter.thy ===== *)
theory Kvm_Msr_Filter
  imports Prelude
begin

text \<open>
  The MSR filter of \<open>x86.c\<close>: user space installs a list of ranges with bitmaps
  (\<open>kvm_vm_ioctl_set_msr_filter\<close>), and \<open>kvm_msr_allowed\<close> asks it on every access. The
  policy the ranges stand for is \<open>filter_policy\<close>; installing and asking refine it.
\<close>

section \<open>State\<close>

record msr_bitmap_range =
  range_flags :: u32
  range_base :: u32
  range_nmsrs :: u32
  range_bitmap :: "nat \<Rightarrow> bool"

record kvm_x86_msr_filter =
  default_allow :: bool
  filter_ranges :: "msr_bitmap_range list"

text \<open>
  What user space passes: the bitmap is in its memory, and the copy of it is either a
  negative error number or the bits.
\<close>

record kvm_msr_filter_range =
  user_flags :: u32
  user_nmsrs :: u32
  user_base :: u32
  memdup_user :: "int + (nat \<Rightarrow> bool)"

record kvm_msr_filter =
  filter_flags :: u32
  user_ranges :: "kvm_msr_filter_range list"

text \<open>Numbers of the user interface of KVM.\<close>

definition KVM_MSR_FILTER_READ :: u32 where "KVM_MSR_FILTER_READ = 1"
definition KVM_MSR_FILTER_WRITE :: u32 where "KVM_MSR_FILTER_WRITE = 2"
definition KVM_MSR_FILTER_RANGE_VALID_MASK :: u32 where "KVM_MSR_FILTER_RANGE_VALID_MASK = 3"
definition KVM_MSR_FILTER_DEFAULT_DENY :: u32 where "KVM_MSR_FILTER_DEFAULT_DENY = 1"
definition KVM_MSR_FILTER_VALID_MASK :: u32 where "KVM_MSR_FILTER_VALID_MASK = 1"
definition KVM_MSR_FILTER_MAX_BITMAP_SIZE :: nat where "KVM_MSR_FILTER_MAX_BITMAP_SIZE = 0x600"
definition EINVAL :: int where "EINVAL = 22"
definition ENOMEM :: int where "ENOMEM = 12"

lemmas filter_codes = KVM_MSR_FILTER_READ_def KVM_MSR_FILTER_WRITE_def
  KVM_MSR_FILTER_RANGE_VALID_MASK_def KVM_MSR_FILTER_DEFAULT_DENY_def
  KVM_MSR_FILTER_VALID_MASK_def KVM_MSR_FILTER_MAX_BITMAP_SIZE_def

section \<open>Installing a filter\<close>

text \<open>
  \<open>BITS_TO_LONGS\<close> rounds up; it divides by a 64-bit size, so a 32-bit number of bits cannot
  wrap.
\<close>

definition BITS_TO_LONGS :: "u32 \<Rightarrow> nat" where
  "BITS_TO_LONGS n = (unat n + 63) div 64"

definition kvm_alloc_msr_filter :: "bool \<Rightarrow> bool \<Rightarrow> kvm_x86_msr_filter option" where
  "kvm_alloc_msr_filter alloc_ok allow =
     (if \<not> alloc_ok then None else Some \<lparr>default_allow = allow, filter_ranges = []\<rparr>)"

definition kvm_add_msr_filter ::
  "kvm_x86_msr_filter \<Rightarrow> kvm_msr_filter_range \<Rightarrow> kvm_x86_msr_filter \<times> int" where
  "kvm_add_msr_filter f r =
     (if user_nmsrs r = 0 then (f, 0)
      else if user_flags r AND NOT KVM_MSR_FILTER_RANGE_VALID_MASK \<noteq> 0 then (f, - EINVAL)
      else if user_flags r = 0 then (f, - EINVAL)
      else
        let bitmap_size = BITS_TO_LONGS (user_nmsrs r) * 8 in
        if bitmap_size = 0 \<or> bitmap_size > KVM_MSR_FILTER_MAX_BITMAP_SIZE then (f, - EINVAL)
        else case memdup_user r of
               Inl err \<Rightarrow> (f, err)
             | Inr bits \<Rightarrow>
                 (f\<lparr>filter_ranges := filter_ranges f @
                     [\<lparr>range_flags = user_flags r, range_base = user_base r,
                       range_nmsrs = user_nmsrs r, range_bitmap = bits\<rparr>]\<rparr>, 0))"

fun add_ranges ::
  "kvm_msr_filter_range list \<Rightarrow> kvm_x86_msr_filter \<Rightarrow> int + kvm_x86_msr_filter" where
  "add_ranges [] f = Inr f"
| "add_ranges (r # rs) f =
     (case kvm_add_msr_filter f r of (f, err) \<Rightarrow> if err \<noteq> 0 then Inl err else add_ranges rs f)"

text \<open>
  The result is the filter of the VM after the call, whether the vCPUs were told
  (\<open>KVM_REQ_MSR_FILTER_CHANGED\<close>), and the status. \<open>alloc_ok\<close>: the allocation succeeded.
\<close>

definition kvm_vm_ioctl_set_msr_filter ::
  "bool \<Rightarrow> kvm_msr_filter \<Rightarrow> kvm_x86_msr_filter option \<Rightarrow> kvm_x86_msr_filter option \<times> bool \<times> int"
  where
  "kvm_vm_ioctl_set_msr_filter alloc_ok flt old =
     (if filter_flags flt AND NOT KVM_MSR_FILTER_VALID_MASK \<noteq> 0 then (old, False, - EINVAL)
      else
        let empty = (\<forall>r \<in> set (user_ranges flt). user_nmsrs r = 0);
            allow = (filter_flags flt AND KVM_MSR_FILTER_DEFAULT_DENY = 0)
        in
        if empty \<and> \<not> allow then (old, False, - EINVAL)
        else case kvm_alloc_msr_filter alloc_ok allow of
               None \<Rightarrow> (old, False, - ENOMEM)
             | Some new_filter \<Rightarrow>
                 (case add_ranges (user_ranges flt) new_filter of
                    Inl err \<Rightarrow> (old, False, err)
                  | Inr new_filter \<Rightarrow> (Some new_filter, True, 0)))"

section \<open>Asking\<close>

fun filter_loop :: "msr_bitmap_range list \<Rightarrow> u32 \<Rightarrow> u32 \<Rightarrow> bool \<Rightarrow> bool" where
  "filter_loop [] index ty allowed = allowed"
| "filter_loop (r # rs) index ty allowed =
     (let start = range_base r; end' = start + range_nmsrs r in
      if index \<ge> start \<and> index < end' \<and> range_flags r AND ty \<noteq> 0
      then range_bitmap r (unat (index - start))
      else filter_loop rs index ty allowed)"

definition kvm_msr_allowed :: "kvm_x86_msr_filter option \<Rightarrow> u32 \<Rightarrow> u32 \<Rightarrow> bool" where
  "kvm_msr_allowed msr_filter index ty =
     (if index \<ge> 0x800 \<and> index \<le> 0x8ff then True
      else case msr_filter of
             None \<Rightarrow> True
           | Some f \<Rightarrow> filter_loop (filter_ranges f) index ty (default_allow f))"

section \<open>The policy\<close>

text \<open>
  A range speaks of its \<open>nmsrs\<close> MSRs from its base on, for the kinds of access in its flags. The code
  computes the end of a range in 32 bits; the policy does not.
\<close>

definition covers :: "kvm_msr_filter_range \<Rightarrow> u32 \<Rightarrow> u32 \<Rightarrow> bool" where
  "covers r index ty \<longleftrightarrow>
     unat (user_base r) \<le> unat index \<and> unat index < unat (user_base r) + unat (user_nmsrs r) \<and>
     user_flags r AND ty \<noteq> 0"

definition ends_in_32_bits :: "kvm_msr_filter_range \<Rightarrow> bool" where
  "ends_in_32_bits r \<longleftrightarrow> unat (user_base r) + unat (user_nmsrs r) < 2 ^ 32"

text \<open>The first range that speaks of an access decides, and the default if there is none.\<close>

definition filter_policy :: "kvm_msr_filter \<Rightarrow> u32 \<Rightarrow> u32 \<Rightarrow> bool" where
  "filter_policy flt index ty =
     (case List.find (\<lambda>r. covers r index ty) (user_ranges flt) of
        None \<Rightarrow> filter_flags flt AND KVM_MSR_FILTER_DEFAULT_DENY = 0
      | Some r \<Rightarrow>
          (case memdup_user r of
             Inl _ \<Rightarrow> False
           | Inr bits \<Rightarrow> bits (unat index - unat (user_base r))))"

text \<open>An installed range, seen from the range user space passed.\<close>

definition installed :: "kvm_msr_filter_range \<Rightarrow> msr_bitmap_range \<Rightarrow> bool" where
  "installed u r \<longleftrightarrow>
     range_flags r = user_flags u \<and> range_base r = user_base u \<and> range_nmsrs r = user_nmsrs u \<and>
     memdup_user u = Inr (range_bitmap r)"

lemma range_test:
  "index \<ge> b \<and> index < b + n \<longleftrightarrow>
     unat b \<le> unat index \<and> unat index < unat b + unat n \<and> unat b + unat n < 2 ^ 32"
  for index b n :: u32
proof (cases "unat b + unat n < 2 ^ LENGTH(32)")
  case True
  then have "unat (b + n) = unat b + unat n" by (simp add: unat_add_lem [THEN iffD1])
  with True show ?thesis by (simp add: word_le_nat_alt word_less_nat_alt)
next
  case False
  have "unat n < 2 ^ LENGTH(32)" "unat b < 2 ^ LENGTH(32)" by (rule unsigned_less)+
  with False have "unat (b + n) = unat b + unat n - 2 ^ 32"
    by (simp add: unat_word_ariths mod_if)
  with False \<open>unat n < _\<close> show ?thesis by (auto simp: word_le_nat_alt word_less_nat_alt)
qed

lemma filter_loop_policy:
  assumes "list_all2 installed us rs" "\<forall>u \<in> set us. ends_in_32_bits u"
  shows "filter_loop rs index ty d =
    (case List.find (\<lambda>r. covers r index ty) us of
       None \<Rightarrow> d
     | Some r \<Rightarrow> (case memdup_user r of Inl _ \<Rightarrow> False
                  | Inr bits \<Rightarrow> bits (unat index - unat (user_base r))))"
  using assms
proof (induction rule: list_all2_induct)
  case (Cons u us r rs)
  have c: "covers u index ty \<longleftrightarrow> index \<ge> range_base r \<and> index < range_base r + range_nmsrs r \<and>
      range_flags r AND ty \<noteq> 0"
    using Cons.hyps(1) Cons.prems range_test [of "range_base r" index "range_nmsrs r"]
    by (auto simp: covers_def installed_def ends_in_32_bits_def)
  show ?case
  proof (cases "covers u index ty")
    case True
    then have "range_base r \<le> index" using c by simp
    then have "unat (index - range_base r) = unat index - unat (range_base r)"
      by (simp add: unat_sub)
    with True c Cons.hyps(1) show ?thesis by (simp add: installed_def Let_def)
  next
    case False
    with c Cons.IH Cons.prems show ?thesis by (auto simp: Let_def)
  qed
qed simp

lemma covers_empty: "user_nmsrs r = 0 \<Longrightarrow> \<not> covers r index ty"
  by (simp add: covers_def)

lemma find_skip_empty:
  "List.find (\<lambda>r. covers r index ty) (filter (\<lambda>r. user_nmsrs r \<noteq> 0) us) =
   List.find (\<lambda>r. covers r index ty) us"
  by (induction us) (auto simp: covers_empty)

lemma kvm_add_msr_filter_cases:
  assumes "kvm_add_msr_filter f r = (f', 0)"
  shows "user_nmsrs r = 0 \<and> f' = f \<or>
    user_nmsrs r \<noteq> 0 \<and> (\<exists>x. installed r x \<and> f' = f\<lparr>filter_ranges := filter_ranges f @ [x]\<rparr>) \<or>
    memdup_user r = Inl 0"
proof (cases "memdup_user r")
  case (Inl err)
  with assms show ?thesis
    by (auto simp: kvm_add_msr_filter_def EINVAL_def Let_def split: if_splits)
next
  case (Inr bits)
  let ?x = "\<lparr>range_flags = user_flags r, range_base = user_base r,
    range_nmsrs = user_nmsrs r, range_bitmap = bits\<rparr>"
  have "user_nmsrs r = 0 \<and> f' = f \<or>
      user_nmsrs r \<noteq> 0 \<and> f' = f\<lparr>filter_ranges := filter_ranges f @ [?x]\<rparr>"
    using assms Inr by (auto simp: kvm_add_msr_filter_def EINVAL_def Let_def split: if_splits)
  moreover have "installed r ?x" using Inr by (simp add: installed_def)
  ultimately show ?thesis by blast
qed

lemma add_ranges_installed:
  assumes "add_ranges us f = Inr f'" and "\<forall>u \<in> set us. memdup_user u \<noteq> Inl 0"
    and "list_all2 installed vs (filter_ranges f)"
  shows "list_all2 installed (vs @ filter (\<lambda>r. user_nmsrs r \<noteq> 0) us) (filter_ranges f') \<and>
    default_allow f' = default_allow f"
  using assms
proof (induction us arbitrary: f vs)
  case (Cons u us)
  obtain g where g: "kvm_add_msr_filter f u = (g, 0)" "add_ranges us g = Inr f'"
    using Cons.prems(1) by (auto split: prod.splits if_splits)
  consider "user_nmsrs u = 0" "g = f"
    | x where "user_nmsrs u \<noteq> 0" "installed u x" "g = f\<lparr>filter_ranges := filter_ranges f @ [x]\<rparr>"
    using kvm_add_msr_filter_cases [OF g(1)] Cons.prems(2) by auto
  then show ?case
  proof cases
    case 1
    then show ?thesis using Cons.IH [of f vs] Cons.prems g(2) by simp
  next
    case 2
    then have "list_all2 installed (vs @ [u]) (filter_ranges g)"
      using Cons.prems(3) by (simp add: list_all2_appendI)
    with Cons.IH [of g "vs @ [u]"] Cons.prems(2) g(2) 2(1,3) show ?thesis by simp
  qed
qed simp

lemma add_ranges_error: "add_ranges us f = Inl e \<Longrightarrow> e \<noteq> 0"
  by (induction us arbitrary: f) (auto split: prod.splits if_splits)

section \<open>Properties\<close>

text \<open> C32. Installing a filter and asking it is the policy of the ranges user space passed:
  after a successful call every access is decided by the first range that speaks of it, or by
  the default, except that the x2APIC registers are always allowed. Stated for ranges that end below
  the last MSR of the 32-bit space (a range that reaches it is never applied, see
  \<open>wrapping_range_ignored\<close>), and for copies from user space that fail with an error number. \<close>

theorem msr_filter_refines_policy:
  assumes "kvm_vm_ioctl_set_msr_filter alloc_ok flt old = (new, told, 0)"
    and "\<forall>u \<in> set (user_ranges flt). memdup_user u \<noteq> Inl 0"
    and "\<forall>u \<in> set (user_ranges flt). unat (user_base u) + unat (user_nmsrs u) < 2 ^ 32"
  shows "told \<and> kvm_msr_allowed new index ty =
    (0x800 \<le> index \<and> index \<le> 0x8ff \<or> filter_policy flt index ty)"
proof -
  let ?a = "filter_flags flt AND KVM_MSR_FILTER_DEFAULT_DENY = 0"
  obtain f where f: "new = Some f" "told"
    "add_ranges (user_ranges flt) \<lparr>default_allow = ?a, filter_ranges = []\<rparr> = Inr f"
    using assms(1)
    by (auto simp: kvm_vm_ioctl_set_msr_filter_def kvm_alloc_msr_filter_def EINVAL_def ENOMEM_def
        Let_def split: if_splits sum.splits dest: add_ranges_error)
  have "list_all2 installed (filter (\<lambda>r. user_nmsrs r \<noteq> 0) (user_ranges flt)) (filter_ranges f)"
    "default_allow f = ?a"
    using add_ranges_installed [OF f(3) assms(2), of "[]"] by simp_all
  moreover have "\<forall>u \<in> set (filter (\<lambda>r. user_nmsrs r \<noteq> 0) (user_ranges flt)). ends_in_32_bits u"
    using assms(3) by (simp add: ends_in_32_bits_def)
  ultimately show ?thesis using f
    by (auto simp: kvm_msr_allowed_def filter_loop_policy filter_policy_def find_skip_empty
        split: option.split)
qed

text \<open>A filter to deny writes of the last sixteen MSRs is accepted, and does not deny them.\<close>

lemma wrapping_range_ignored:
  "\<exists>f. kvm_vm_ioctl_set_msr_filter True \<lparr>filter_flags = 0, user_ranges = [\<lparr>user_flags = KVM_MSR_FILTER_WRITE,
       user_nmsrs = 16, user_base = 0xfffffff0, memdup_user = Inr (\<lambda>_. False)\<rparr>]\<rparr> None = (Some f, True, 0) \<and>
     kvm_msr_allowed (Some f) 0xfffffff5 KVM_MSR_FILTER_WRITE"
  by (simp add: kvm_vm_ioctl_set_msr_filter_def kvm_add_msr_filter_def kvm_alloc_msr_filter_def filter_codes
      BITS_TO_LONGS_def kvm_msr_allowed_def)

text \<open>A filter that denies reads of the three SYSENTER registers but allows writes.\<close>

definition sample_filter :: kvm_msr_filter where
  "sample_filter =
     \<lparr>filter_flags = 0, user_ranges =
       [\<lparr>user_flags = KVM_MSR_FILTER_READ, user_nmsrs = 3, user_base = 0x174,
         memdup_user = Inr (\<lambda>_. False)\<rparr>]\<rparr>"

lemma sample_filter_installed:
  "\<exists>f. kvm_vm_ioctl_set_msr_filter True sample_filter None = (Some f, True, 0)"
  by (simp add: kvm_vm_ioctl_set_msr_filter_def sample_filter_def kvm_add_msr_filter_def
      kvm_alloc_msr_filter_def filter_codes BITS_TO_LONGS_def)

theorem msr_filter_refines_policy_witness:
  "\<exists>f. kvm_vm_ioctl_set_msr_filter True sample_filter None = (Some f, True, 0) \<and>
     \<not> kvm_msr_allowed (Some f) 0x175 KVM_MSR_FILTER_READ"
proof -
  obtain f where f: "kvm_vm_ioctl_set_msr_filter True sample_filter None = (Some f, True, 0)"
    using sample_filter_installed by blast
  have "\<forall>u \<in> set (user_ranges sample_filter). memdup_user u \<noteq> Inl 0"
    "\<forall>u \<in> set (user_ranges sample_filter). unat (user_base u) + unat (user_nmsrs u) < 2 ^ 32"
    by (simp_all add: sample_filter_def)
  from msr_filter_refines_policy [OF f this, of "0x175" KVM_MSR_FILTER_READ]
  have "\<not> kvm_msr_allowed (Some f) 0x175 KVM_MSR_FILTER_READ"
    by (simp add: filter_policy_def covers_def sample_filter_def filter_codes)
  with f show ?thesis by blast
qed

end
