(* ===== verification/Kvm_Msr.thy ===== *)
theory Kvm_Msr
  imports Kvm_Msr_Filter
begin

text \<open>
  MSR accesses of the guest in \<open>x86.c\<close>: the common checks before the vendor code,
  the exits to user space and their completion, and the RDMSR and WRMSR handlers with this
  project's changes (forced results, and the fake \<open>IA32_DEBUGCTL\<close> kept in \<open>data_1d9\<close>).
  A local variable that is read without having been assigned is an argument of the
  definition (\<open>stack_data\<close>, \<open>stack_r\<close>).
\<close>

section \<open>State and parameters\<close>

datatype exit_reason = KVM_EXIT_X86_RDMSR | KVM_EXIT_X86_WRMSR | Other_exit nat

datatype completion = Complete_fast_rdmsr | Complete_fast_msr_access

text \<open>\<open>run_*\<close> are the members of \<open>vcpu->run\<close> shared with user space.\<close>

record msr_vcpu =
  msr_rax :: u64
  msr_rcx :: u64
  msr_rdx :: u64
  run_exit_reason :: exit_reason
  run_msr_error :: u8
  run_msr_pad :: "u8 list"
  run_msr_reason :: u32
  run_msr_index :: u32
  run_msr_data :: u64
  complete_userspace_io :: "completion option"
  user_space_msr_mask :: u32

text \<open>
  The vendor callbacks: \<open>get_msr\<close> returns its status and what it left in \<open>msr.data\<close>;
  \<open>complete_emulated_msr\<close> injects #GP for a non-zero error or skips the instruction.
\<close>

record 'a msr_ops =
  ops_set_msr :: "u32 \<Rightarrow> u64 \<Rightarrow> bool \<Rightarrow> 'a msr_vcpu_scheme \<Rightarrow> 'a msr_vcpu_scheme \<times> int"
  ops_get_msr :: "u32 \<Rightarrow> bool \<Rightarrow> 'a msr_vcpu_scheme \<Rightarrow> 'a msr_vcpu_scheme \<times> int \<times> u64"
  ops_complete_emulated_msr :: "int \<Rightarrow> 'a msr_vcpu_scheme \<Rightarrow> 'a msr_vcpu_scheme \<times> int"

text \<open>
  Globals, the two private return codes, and tests that are functions of other
  headers.
\<close>

record msr_env =
  ignore_msrs :: bool
  KVM_MSR_RET_INVALID :: int
  KVM_MSR_RET_FILTERED :: int
  is_noncanonical_address :: "u64 \<Rightarrow> bool"
  canonical_address :: "u64 \<Rightarrow> u64"
  tsc_aux_supported :: bool
  guest_has_rdtscp :: bool
  guest_has_rdpid :: bool
  guest_cpuid_is_intel :: bool
  vcpu_has_run :: bool
  is_immutable_feature_msr :: "u32 \<Rightarrow> bool"

text \<open>Numbers of the architecture and of the user interface of KVM.\<close>

definition MSR_FS_BASE :: u32 where "MSR_FS_BASE = 0xc0000100"
definition MSR_GS_BASE :: u32 where "MSR_GS_BASE = 0xc0000101"
definition MSR_KERNEL_GS_BASE :: u32 where "MSR_KERNEL_GS_BASE = 0xc0000102"
definition MSR_TSC_AUX :: u32 where "MSR_TSC_AUX = 0xc0000103"
definition MSR_LSTAR :: u32 where "MSR_LSTAR = 0xc0000082"
definition MSR_CSTAR :: u32 where "MSR_CSTAR = 0xc0000083"
definition MSR_IA32_SYSENTER_ESP :: u32 where "MSR_IA32_SYSENTER_ESP = 0x175"
definition MSR_IA32_SYSENTER_EIP :: u32 where "MSR_IA32_SYSENTER_EIP = 0x176"
definition KVM_MSR_EXIT_REASON_INVAL :: u32 where "KVM_MSR_EXIT_REASON_INVAL = 1"
definition KVM_MSR_EXIT_REASON_UNKNOWN :: u32 where "KVM_MSR_EXIT_REASON_UNKNOWN = 2"
definition KVM_MSR_EXIT_REASON_FILTER :: u32 where "KVM_MSR_EXIT_REASON_FILTER = 4"

lemmas msr_numbers = MSR_FS_BASE_def MSR_GS_BASE_def MSR_KERNEL_GS_BASE_def MSR_TSC_AUX_def
  MSR_LSTAR_def MSR_CSTAR_def MSR_IA32_SYSENTER_ESP_def MSR_IA32_SYSENTER_EIP_def

lemmas msr_codes = KVM_MSR_EXIT_REASON_INVAL_def KVM_MSR_EXIT_REASON_UNKNOWN_def KVM_MSR_EXIT_REASON_FILTER_def

section \<open>Common checks\<close>

definition kvm_msr_ignored_check :: "msr_env \<Rightarrow> bool" where
  "kvm_msr_ignored_check E = (if ignore_msrs E then True else False)"

text \<open>\<open>__kvm_set_msr\<close>: \<open>Inl\<close> is the early return, \<open>Inr\<close> the value handed on.\<close>

definition set_msr_checks :: "msr_env \<Rightarrow> u32 \<Rightarrow> u64 \<Rightarrow> bool \<Rightarrow> int + u64" where
  "set_msr_checks E index data host_initiated =
     (if index \<in> {MSR_FS_BASE, MSR_GS_BASE, MSR_KERNEL_GS_BASE, MSR_CSTAR, MSR_LSTAR} then
        if is_noncanonical_address E data then Inl 1 else Inr data
      else if index \<in> {MSR_IA32_SYSENTER_EIP, MSR_IA32_SYSENTER_ESP} then
        Inr (canonical_address E data)
      else if index = MSR_TSC_AUX then
        if \<not> tsc_aux_supported E then Inl 1
        else if \<not> host_initiated \<and> \<not> guest_has_rdtscp E \<and> \<not> guest_has_rdpid E then Inl 1
        else if guest_cpuid_is_intel E \<and> drop_bit 32 data \<noteq> 0 then Inl 1
        else Inr (data AND 0xffffffff)
      else Inr data)"

definition kvm_set_msr_common_checked ::
  "msr_env \<Rightarrow> 'a msr_ops \<Rightarrow> u32 \<Rightarrow> u64 \<Rightarrow> bool \<Rightarrow> 'a msr_vcpu_scheme \<Rightarrow>
   'a msr_vcpu_scheme \<times> int" where
  "kvm_set_msr_common_checked E ops index data host_initiated v =
     (case set_msr_checks E index data host_initiated of
        Inl r \<Rightarrow> (v, r)
      | Inr data \<Rightarrow> ops_set_msr ops index data host_initiated v)"

definition kvm_set_msr_ignored_check ::
  "msr_env \<Rightarrow> 'a msr_ops \<Rightarrow> u32 \<Rightarrow> u64 \<Rightarrow> bool \<Rightarrow> 'a msr_vcpu_scheme \<Rightarrow>
   'a msr_vcpu_scheme \<times> int" where
  "kvm_set_msr_ignored_check E ops index data host_initiated v =
     (let (v, ret) = kvm_set_msr_common_checked E ops index data host_initiated v in
      if ret = KVM_MSR_RET_INVALID E
      then if kvm_msr_ignored_check E then (v, 0) else (v, ret)
      else (v, ret))"

text \<open>\<open>__kvm_get_msr\<close>: \<open>data\<close> is \<open>*data\<close> before the call, the third result after it.\<close>

definition kvm_get_msr_common_checked ::
  "msr_env \<Rightarrow> 'a msr_ops \<Rightarrow> u32 \<Rightarrow> u64 \<Rightarrow> bool \<Rightarrow> 'a msr_vcpu_scheme \<Rightarrow>
   'a msr_vcpu_scheme \<times> int \<times> u64" where
  "kvm_get_msr_common_checked E ops index data host_initiated v =
     (if index = MSR_TSC_AUX \<and> \<not> tsc_aux_supported E then (v, 1, data)
      else if index = MSR_TSC_AUX \<and> \<not> host_initiated \<and> \<not> guest_has_rdtscp E \<and> \<not> guest_has_rdpid E
      then (v, 1, data)
      else
        let (v, ret, msr_data) = ops_get_msr ops index host_initiated v
        in (v, ret, if ret = 0 then msr_data else data))"

definition kvm_get_msr_ignored_check ::
  "msr_env \<Rightarrow> 'a msr_ops \<Rightarrow> u32 \<Rightarrow> u64 \<Rightarrow> bool \<Rightarrow> 'a msr_vcpu_scheme \<Rightarrow>
   'a msr_vcpu_scheme \<times> int \<times> u64" where
  "kvm_get_msr_ignored_check E ops index data host_initiated v =
     (let (v, ret, data) = kvm_get_msr_common_checked E ops index data host_initiated v in
      if ret = KVM_MSR_RET_INVALID E
      then if kvm_msr_ignored_check E then (v, 0, 0) else (v, ret, 0)
      else (v, ret, data))"

definition kvm_get_msr_with_filter ::
  "msr_env \<Rightarrow> 'a msr_ops \<Rightarrow> kvm_x86_msr_filter option \<Rightarrow> u32 \<Rightarrow> u64 \<Rightarrow> 'a msr_vcpu_scheme \<Rightarrow>
   'a msr_vcpu_scheme \<times> int \<times> u64" where
  "kvm_get_msr_with_filter E ops f index data v =
     (if \<not> kvm_msr_allowed f index KVM_MSR_FILTER_READ then (v, KVM_MSR_RET_FILTERED E, data)
      else kvm_get_msr_ignored_check E ops index data False v)"

definition kvm_set_msr_with_filter ::
  "msr_env \<Rightarrow> 'a msr_ops \<Rightarrow> kvm_x86_msr_filter option \<Rightarrow> u32 \<Rightarrow> u64 \<Rightarrow> 'a msr_vcpu_scheme \<Rightarrow>
   'a msr_vcpu_scheme \<times> int" where
  "kvm_set_msr_with_filter E ops f index data v =
     (if \<not> kvm_msr_allowed f index KVM_MSR_FILTER_WRITE then (v, KVM_MSR_RET_FILTERED E)
      else kvm_set_msr_ignored_check E ops index data False v)"

definition kvm_get_msr where
  "kvm_get_msr E ops index data v = kvm_get_msr_ignored_check E ops index data False v"

definition kvm_set_msr where
  "kvm_set_msr E ops index data v = kvm_set_msr_ignored_check E ops index data False v"

section \<open>Accesses of user space\<close>

definition do_get_msr where
  "do_get_msr E ops index data v = kvm_get_msr_ignored_check E ops index data True v"

definition do_set_msr ::
  "msr_env \<Rightarrow> 'a msr_ops \<Rightarrow> u64 \<Rightarrow> u32 \<Rightarrow> u64 \<Rightarrow> 'a msr_vcpu_scheme \<Rightarrow> 'a msr_vcpu_scheme \<times> int" where
  "do_set_msr E ops stack_val index data v =
     (if vcpu_has_run E \<and> is_immutable_feature_msr E index then
        let (v, r, val) = do_get_msr E ops index stack_val v in
        if r \<noteq> 0 \<or> data \<noteq> val then (v, - EINVAL) else (v, 0)
      else kvm_set_msr_ignored_check E ops index data True v)"

section \<open>Exits to user space\<close>

definition complete_userspace_rdmsr :: "'a msr_vcpu_scheme \<Rightarrow> 'a msr_vcpu_scheme" where
  "complete_userspace_rdmsr v =
     (if run_msr_error v = 0
      then v\<lparr>msr_rax := run_msr_data v AND 0xffffffff, msr_rdx := drop_bit 32 (run_msr_data v)\<rparr>
      else v)"

definition complete_fast_msr_access ::
  "'a msr_ops \<Rightarrow> 'a msr_vcpu_scheme \<Rightarrow> 'a msr_vcpu_scheme \<times> int" where
  "complete_fast_msr_access ops v = ops_complete_emulated_msr ops (uint (run_msr_error v)) v"

definition complete_fast_rdmsr ::
  "'a msr_ops \<Rightarrow> 'a msr_vcpu_scheme \<Rightarrow> 'a msr_vcpu_scheme \<times> int" where
  "complete_fast_rdmsr ops v = complete_fast_msr_access ops (complete_userspace_rdmsr v)"

definition kvm_msr_reason :: "msr_env \<Rightarrow> int \<Rightarrow> u32" where
  "kvm_msr_reason E r =
     (if r = KVM_MSR_RET_INVALID E then KVM_MSR_EXIT_REASON_UNKNOWN
      else if r = KVM_MSR_RET_FILTERED E then KVM_MSR_EXIT_REASON_FILTER
      else KVM_MSR_EXIT_REASON_INVAL)"

definition kvm_msr_user_space ::
  "msr_env \<Rightarrow> u32 \<Rightarrow> exit_reason \<Rightarrow> u64 \<Rightarrow> completion \<Rightarrow> int \<Rightarrow> 'a msr_vcpu_scheme \<Rightarrow>
   'a msr_vcpu_scheme \<times> bool" where
  "kvm_msr_user_space E index reason data completion r v =
     (let msr_reason = kvm_msr_reason E r in
      if user_space_msr_mask v AND msr_reason = 0 then (v, False)
      else (v\<lparr>run_exit_reason := reason, run_msr_error := 0,
              run_msr_pad := replicate (length (run_msr_pad v)) 0,
              run_msr_reason := msr_reason, run_msr_index := index, run_msr_data := data,
              complete_userspace_io := Some completion\<rparr>, True))"

text \<open>
  The completions for the emulator and the vendor code; injecting #GP, skipping and emulating
  the instruction are arguments.
\<close>

definition kvm_complete_insn_gp ::
  "('v \<Rightarrow> 'v) \<Rightarrow> ('v \<Rightarrow> 'v \<times> int) \<Rightarrow> int \<Rightarrow> 'v \<Rightarrow> 'v \<times> int" where
  "kvm_complete_insn_gp inject_gp skip_insn err v =
     (if err \<noteq> 0 then (inject_gp v, 1) else skip_insn v)"

definition complete_emulated_insn_gp ::
  "('v \<Rightarrow> 'v) \<Rightarrow> ('v \<Rightarrow> 'v \<times> int) \<Rightarrow> int \<Rightarrow> 'v \<Rightarrow> 'v \<times> int" where
  "complete_emulated_insn_gp inject_gp emulate_insn err v =
     (if err \<noteq> 0 then (inject_gp v, 1) else emulate_insn v)"

definition complete_emulated_msr_access where
  "complete_emulated_msr_access inject_gp emulate_insn v =
     complete_emulated_insn_gp inject_gp emulate_insn (uint (run_msr_error v)) v"

definition complete_emulated_rdmsr where
  "complete_emulated_rdmsr inject_gp emulate_insn v =
     complete_emulated_msr_access inject_gp emulate_insn (complete_userspace_rdmsr v)"

text \<open>What \<open>kvm_arch_vcpu_ioctl_run\<close> calls when user space resumes the vCPU.\<close>

definition run_completion ::
  "'a msr_ops \<Rightarrow> completion \<Rightarrow> 'a msr_vcpu_scheme \<Rightarrow> 'a msr_vcpu_scheme \<times> int" where
  "run_completion ops c v =
     (case c of Complete_fast_rdmsr \<Rightarrow> complete_fast_rdmsr ops v
      | Complete_fast_msr_access \<Rightarrow> complete_fast_msr_access ops v)"

section \<open>RDMSR and WRMSR\<close>

definition data_1d9_init :: u64 where
  "data_1d9_init = 0x4000"

definition msr_ecx :: "'a msr_vcpu_scheme \<Rightarrow> u32" where
  "msr_ecx v = ucast (msr_rcx v)"

text \<open>The accessor of the register pair, from \<open>kvm_cache_regs.h\<close>.\<close>

definition kvm_read_edx_eax :: "'a msr_vcpu_scheme \<Rightarrow> u64" where
  "kvm_read_edx_eax v = (msr_rax v AND 0xffffffff) OR push_bit 32 (msr_rdx v AND 0xffffffff)"

definition kvm_emulate_rdmsr ::
  "msr_env \<Rightarrow> 'a msr_ops \<Rightarrow> kvm_x86_msr_filter option \<Rightarrow> u64 \<Rightarrow> u64 \<Rightarrow> 'a msr_vcpu_scheme \<Rightarrow>
   'a msr_vcpu_scheme \<times> int" where
  "kvm_emulate_rdmsr E ops f stack_data data_1d9 v =
     (let ecx = msr_ecx v;
          (v, r, data) = kvm_get_msr_with_filter E ops f ecx stack_data v;
          r = (if ecx = 0x4b564d00 then 1 else r);
          r = (if ecx = 0x1db then 1 else r);
          r = (if ecx = 0x1a2 then 0 else r);
          r = (if ecx = 0x19c then 0 else r)
      in
      if r = 0 then
        let data = (if ecx = 0x1d9 then data_1d9 else data);
            v = v\<lparr>msr_rax := data AND 0xffffffff\<rparr>;
            v = v\<lparr>msr_rdx := drop_bit 32 data AND 0xffffffff\<rparr>
        in ops_complete_emulated_msr ops r v
      else
        let (v, asked) = kvm_msr_user_space E ecx KVM_EXIT_X86_RDMSR 0 Complete_fast_rdmsr r v in
        if asked then (v, 0) else ops_complete_emulated_msr ops r v)"

text \<open>The new value of \<open>data_1d9\<close> after a write that did not fail.\<close>

definition update_1d9 :: "u64 \<Rightarrow> u64 \<Rightarrow> u64" where
  "update_1d9 data data_1d9 =
     (let d = data_1d9;
          d = (if data = 0x4000 \<or> data = 0x4001 then 0x4000 else d);
          d = (if data = 0x4002 \<or> data = 0x4003 then 0x4002 else d);
          d = (if data = 0x0 \<or> data = 0x01 then 0 else d)
      in if data = 0x2 \<or> data = 0x03 then 2 else d)"

definition kvm_emulate_wrmsr ::
  "msr_env \<Rightarrow> 'a msr_ops \<Rightarrow> kvm_x86_msr_filter option \<Rightarrow> int \<Rightarrow> u64 \<Rightarrow> 'a msr_vcpu_scheme \<Rightarrow>
   ('a msr_vcpu_scheme \<times> int) \<times> u64" where
  "kvm_emulate_wrmsr E ops f stack_r data_1d9 v =
     (let ecx = msr_ecx v;
          data = kvm_read_edx_eax v;
          (v, r) =
            (if ecx = 0x1d9 then
               (v, if data = 0x4000 \<or> data = 0x4001 \<or> data = 0x4002 \<or> data = 0x4003 then 0 else stack_r)
             else kvm_set_msr_with_filter E ops f ecx data v)
      in
      if r = 0 then
        (ops_complete_emulated_msr ops r v,
         if ecx = 0x1d9 then update_1d9 data data_1d9 else data_1d9)
      else
        let (v, asked) =
              kvm_msr_user_space E ecx KVM_EXIT_X86_WRMSR data Complete_fast_msr_access r v in
        (if asked then (v, 0)
         else if r < 0 then (v, r)
         else ops_complete_emulated_msr ops r v, data_1d9))"

section \<open>Instructions emulated as nothing\<close>

definition kvm_emulate_as_nop :: "('v \<Rightarrow> 'v \<times> int) \<Rightarrow> 'v \<Rightarrow> 'v \<times> int" where
  "kvm_emulate_as_nop skip_insn v = skip_insn v"

definition kvm_emulate_invd :: "('v \<Rightarrow> 'v \<times> int) \<Rightarrow> 'v \<Rightarrow> 'v \<times> int" where
  "kvm_emulate_invd skip_insn v = kvm_emulate_as_nop skip_insn v"

definition kvm_handle_invalid_op :: "('v \<Rightarrow> 'v) \<Rightarrow> 'v \<Rightarrow> 'v \<times> int" where
  "kvm_handle_invalid_op queue_ud v = (queue_ud v, 1)"

definition kvm_emulate_monitor_mwait ::
  "('v \<Rightarrow> 'v) \<Rightarrow> ('v \<Rightarrow> 'v \<times> int) \<Rightarrow> bool \<Rightarrow> bool \<Rightarrow> 'v \<Rightarrow> 'v \<times> int" where
  "kvm_emulate_monitor_mwait queue_ud skip_insn quirk has_mwait v =
     (if \<not> quirk \<and> \<not> has_mwait then kvm_handle_invalid_op queue_ud v
      else kvm_emulate_as_nop skip_insn v)"

section \<open>The fast path\<close>

datatype fastpath = EXIT_FASTPATH_NONE | EXIT_FASTPATH_REENTER_GUEST | EXIT_FASTPATH_EXIT_HANDLED

text \<open>
  The local APIC: whether it is in the kernel and in x2APIC mode, whether a hypervisor timer
  is usable, and the writes of the two registers (\<open>kvm_x2apic_icr_write\<close> has a status).
\<close>

record 'v apic_ops =
  lapic_in_kernel :: "'v \<Rightarrow> bool"
  apic_x2apic_mode :: "'v \<Rightarrow> bool"
  kvm_can_use_hv_timer :: "'v \<Rightarrow> bool"
  kvm_x2apic_icr_write :: "u64 \<Rightarrow> 'v \<Rightarrow> 'v \<times> int"
  kvm_set_lapic_tscdeadline_msr :: "u64 \<Rightarrow> 'v \<Rightarrow> 'v"
  skip_emulated_instruction :: "'v \<Rightarrow> 'v"

text \<open>The fields of the interrupt command register, and the two MSRs.\<close>

definition APIC_SHORT_MASK :: u64 where "APIC_SHORT_MASK = 0xc0000"
definition APIC_DEST_NOSHORT :: u64 where "APIC_DEST_NOSHORT = 0"
definition APIC_DEST_MASK :: u64 where "APIC_DEST_MASK = 0x800"
definition APIC_DEST_PHYSICAL :: u64 where "APIC_DEST_PHYSICAL = 0"
definition APIC_MODE_MASK :: u64 where "APIC_MODE_MASK = 0x700"
definition APIC_DM_FIXED :: u64 where "APIC_DM_FIXED = 0"
definition X2APIC_BROADCAST :: u64 where "X2APIC_BROADCAST = 0xffffffff"
definition X2APIC_ICR_MSR :: u32 where "X2APIC_ICR_MSR = 0x830"
definition MSR_IA32_TSC_DEADLINE :: u32 where "MSR_IA32_TSC_DEADLINE = 0x6e0"

definition handle_fastpath_set_x2apic_icr_irqoff :: "'v apic_ops \<Rightarrow> u64 \<Rightarrow> 'v \<Rightarrow> 'v \<times> int" where
  "handle_fastpath_set_x2apic_icr_irqoff A data v =
     (if \<not> lapic_in_kernel A v \<or> \<not> apic_x2apic_mode A v then (v, 1)
      else if data AND APIC_SHORT_MASK = APIC_DEST_NOSHORT \<and>
              data AND APIC_DEST_MASK = APIC_DEST_PHYSICAL \<and>
              data AND APIC_MODE_MASK = APIC_DM_FIXED \<and>
              drop_bit 32 data AND 0xffffffff \<noteq> X2APIC_BROADCAST
      then kvm_x2apic_icr_write A data v
      else (v, 1))"

definition handle_fastpath_set_tscdeadline :: "'v apic_ops \<Rightarrow> u64 \<Rightarrow> 'v \<Rightarrow> 'v \<times> int" where
  "handle_fastpath_set_tscdeadline A data v =
     (if \<not> kvm_can_use_hv_timer A v then (v, 1)
      else (kvm_set_lapic_tscdeadline_msr A data v, 0))"

definition handle_fastpath_set_msr_irqoff ::
  "'a msr_vcpu_scheme apic_ops \<Rightarrow> 'a msr_vcpu_scheme \<Rightarrow> 'a msr_vcpu_scheme \<times> fastpath" where
  "handle_fastpath_set_msr_irqoff A v =
     (let msr = msr_ecx v in
      if msr = X2APIC_ICR_MSR then
        let (v, failed) = handle_fastpath_set_x2apic_icr_irqoff A (kvm_read_edx_eax v) v in
        if failed = 0 then (skip_emulated_instruction A v, EXIT_FASTPATH_EXIT_HANDLED)
        else (v, EXIT_FASTPATH_NONE)
      else if msr = MSR_IA32_TSC_DEADLINE then
        let (v, failed) = handle_fastpath_set_tscdeadline A (kvm_read_edx_eax v) v in
        if failed = 0 then (skip_emulated_instruction A v, EXIT_FASTPATH_REENTER_GUEST)
        else (v, EXIT_FASTPATH_NONE)
      else (v, EXIT_FASTPATH_NONE))"

end
