(* ===== verification/Kvm_Msr_Props.thy ===== *)
theory Kvm_Msr_Props
  imports Kvm_Msr
begin

text \<open>
  Properties of the guest's MSR accesses: what the filter keeps from the vendor code, the
  exits to user space and back, and the effects of the changes this project makes.
\<close>

text \<open>The private return codes are two numbers that are neither success nor a plain fault.\<close>

definition ret_codes_ok :: "msr_env \<Rightarrow> bool" where
  "ret_codes_ok E \<longleftrightarrow>
     1 < KVM_MSR_RET_INVALID E \<and> 1 < KVM_MSR_RET_FILTERED E \<and>
     KVM_MSR_RET_INVALID E \<noteq> KVM_MSR_RET_FILTERED E"

text \<open>The result of a failed access: an exit to user space or the completion with the error.\<close>

definition failed_access ::
  "msr_env \<Rightarrow> 'a msr_ops \<Rightarrow> u32 \<Rightarrow> exit_reason \<Rightarrow> u64 \<Rightarrow> completion \<Rightarrow> int \<Rightarrow>
   'a msr_vcpu_scheme \<Rightarrow> 'a msr_vcpu_scheme \<times> int" where
  "failed_access E ops index reason data c r v =
     (case kvm_msr_user_space E index reason data c r v of
        (v', True) \<Rightarrow> (v', 0)
      | (v', False) \<Rightarrow> ops_complete_emulated_msr ops r v)"

lemma user_space_refused: "kvm_msr_user_space E i reason d c r v = (v', False) \<Longrightarrow> v' = v"
  by (auto simp: kvm_msr_user_space_def Let_def split: if_splits)

lemma forced_reads:
  "(let ecx = i; r = (if ecx = 0x4b564d00 then 1 else r); r = (if ecx = 0x1db then 1 else r);
        r = (if ecx = 0x1a2 then 0 else r) in if ecx = 0x19c then 0 else r) =
   (if i \<in> {0x4b564d00, 0x1db} then 1 else if i \<in> {0x1a2, 0x19c} then 0 else (r :: int))"
  for i :: u32
  by (simp add: Let_def)

text \<open>RDMSR by its outcome.\<close>

definition rdmsr_status :: "u32 \<Rightarrow> int \<Rightarrow> int" where
  "rdmsr_status ecx r =
     (if ecx \<in> {0x4b564d00, 0x1db} then 1 else if ecx \<in> {0x1a2, 0x19c} then 0 else r)"

lemma emulate_rdmsr_eq:
  assumes "kvm_get_msr_with_filter E ops f (msr_ecx v) sd v = (v', r, data)"
  shows "kvm_emulate_rdmsr E ops f sd g v =
    (if rdmsr_status (msr_ecx v) r = 0 then
       let d = (if msr_ecx v = 0x1d9 then g else data) in
       ops_complete_emulated_msr ops 0
         (v'\<lparr>msr_rax := d AND 0xffffffff, msr_rdx := drop_bit 32 d AND 0xffffffff\<rparr>)
     else failed_access E ops (msr_ecx v) KVM_EXIT_X86_RDMSR 0 Complete_fast_rdmsr
            (rdmsr_status (msr_ecx v) r) v')"
  unfolding kvm_emulate_rdmsr_def assms Let_def prod.case rdmsr_status_def failed_access_def
  by (auto split: prod.split bool.split dest: user_space_refused)

lemma failed_access_eq:
  "failed_access E ops i reason d c r v =
    (if user_space_msr_mask v AND kvm_msr_reason E r = 0 then ops_complete_emulated_msr ops r v
     else (v\<lparr>run_exit_reason := reason, run_msr_error := 0,
             run_msr_pad := replicate (length (run_msr_pad v)) 0,
             run_msr_reason := kvm_msr_reason E r, run_msr_index := i, run_msr_data := d,
             complete_userspace_io := Some c\<rparr>, 0))"
  by (simp add: failed_access_def kvm_msr_user_space_def Let_def)

section \<open>A concrete platform\<close>

text \<open>
  Vendor code that knows one MSR, \<open>0x10\<close>, and completes an access by returning 1; an APIC in
  x2APIC mode; a filter that denies everything.
\<close>

definition sample_msr_env :: msr_env where
  "sample_msr_env =
     \<lparr>ignore_msrs = False, KVM_MSR_RET_INVALID = 2, KVM_MSR_RET_FILTERED = 3,
      is_noncanonical_address = (\<lambda>_. False), canonical_address = (\<lambda>a. a),
      tsc_aux_supported = True, guest_has_rdtscp = True, guest_has_rdpid = True,
      guest_cpuid_is_intel = True, vcpu_has_run = True,
      is_immutable_feature_msr = (\<lambda>i. i = 0x10)\<rparr>"

definition sample_msr_ops :: "unit msr_ops" where
  "sample_msr_ops =
     \<lparr>ops_set_msr = (\<lambda>i d h v. (v, if i = 0x10 then 0 else 2)),
      ops_get_msr = (\<lambda>i h v. (v, if i \<in> {0x10, 0x1d9} then 0 else 2, 7)),
      ops_complete_emulated_msr = (\<lambda>err v. (v, 1))\<rparr>"

definition deny_all :: "kvm_x86_msr_filter option" where
  "deny_all = Some \<lparr>default_allow = False, filter_ranges = []\<rparr>"

definition sample_msr_vcpu :: "u64 \<Rightarrow> u64 \<Rightarrow> u32 \<Rightarrow> msr_vcpu" where
  "sample_msr_vcpu rcx rax exits =
     \<lparr>msr_rax = rax, msr_rcx = rcx, msr_rdx = 0, run_exit_reason = Other_exit 0,
      run_msr_error = 0, run_msr_pad = replicate 7 0, run_msr_reason = 0, run_msr_index = 0,
      run_msr_data = 0, complete_userspace_io = None, user_space_msr_mask = exits\<rparr>"

definition sample_apic :: "msr_vcpu apic_ops" where
  "sample_apic =
     \<lparr>lapic_in_kernel = (\<lambda>_. True), apic_x2apic_mode = (\<lambda>_. True),
      kvm_can_use_hv_timer = (\<lambda>_. True), kvm_x2apic_icr_write = (\<lambda>d v. (v, 0)),
      kvm_set_lapic_tscdeadline_msr = (\<lambda>d v. v), skip_emulated_instruction = (\<lambda>v. v)\<rparr>"

lemmas sample_msr = sample_msr_env_def sample_msr_ops_def sample_msr_vcpu_def
  sample_apic_def ret_codes_ok_def msr_ecx_def kvm_read_edx_eax_def

lemma deny_all_denies [simp]: "kvm_msr_allowed deny_all i t \<longleftrightarrow> 0x800 \<le> i \<and> i \<le> 0x8ff"
  by (simp add: kvm_msr_allowed_def deny_all_def)

lemma sample_completes [simp]: "ops_complete_emulated_msr sample_msr_ops err v = (v, 1)"
  by (simp add: sample_msr_ops_def)

section \<open>The filter\<close>

text \<open> C35. An access the filter denies never reaches the vendor code: a RDMSR whose read is denied, and a WRMSR
  whose write is denied, each
  leave the vCPU as it is and are either reported to user space with the reason "filter" or
  completed as a fault, whether or not the filter allows the other kind of access. The exceptions are the MSRs
  this project treats itself: writes of \<open>0x1d9\<close>, and the four whose reads have a forced result. \<close>

theorem denied_accesses:
  assumes "ret_codes_ok E"
  shows "(\<not> kvm_msr_allowed f (msr_ecx v) KVM_MSR_FILTER_READ \<and> msr_ecx v \<notin> {0x4b564d00, 0x1db, 0x1a2, 0x19c} \<longrightarrow>
      kvm_emulate_rdmsr E ops f sd g v =
        failed_access E ops (msr_ecx v) KVM_EXIT_X86_RDMSR 0 Complete_fast_rdmsr (KVM_MSR_RET_FILTERED E) v) \<and>
    (\<not> kvm_msr_allowed f (msr_ecx v) KVM_MSR_FILTER_WRITE \<and> msr_ecx v \<noteq> 0x1d9 \<longrightarrow>
      kvm_emulate_wrmsr E ops f sr g v =
        (failed_access E ops (msr_ecx v) KVM_EXIT_X86_WRMSR (kvm_read_edx_eax v)
          Complete_fast_msr_access (KVM_MSR_RET_FILTERED E) v, g))"
proof (intro conjI impI; elim conjE)
  assume d: "\<not> kvm_msr_allowed f (msr_ecx v) KVM_MSR_FILTER_READ" "msr_ecx v \<notin> {0x4b564d00, 0x1db, 0x1a2, 0x19c}"
  have get: "kvm_get_msr_with_filter E ops f (msr_ecx v) sd v = (v, KVM_MSR_RET_FILTERED E, sd)"
    using d(1) by (simp add: kvm_get_msr_with_filter_def)
  show "kvm_emulate_rdmsr E ops f sd g v =
      failed_access E ops (msr_ecx v) KVM_EXIT_X86_RDMSR 0 Complete_fast_rdmsr
        (KVM_MSR_RET_FILTERED E) v"
    using assms d(2) unfolding emulate_rdmsr_eq [OF get]
    by (simp add: rdmsr_status_def ret_codes_ok_def)
next
  assume "\<not> kvm_msr_allowed f (msr_ecx v) KVM_MSR_FILTER_WRITE" "msr_ecx v \<noteq> 0x1d9"
  then show "kvm_emulate_wrmsr E ops f sr g v =
      (failed_access E ops (msr_ecx v) KVM_EXIT_X86_WRMSR (kvm_read_edx_eax v)
        Complete_fast_msr_access (KVM_MSR_RET_FILTERED E) v, g)"
    using assms
    by (auto simp: kvm_emulate_wrmsr_def kvm_set_msr_with_filter_def ret_codes_ok_def
        failed_access_def Let_def split: prod.split bool.split dest: user_space_refused)
qed

text \<open>A filter that denies only writes of the TSC.\<close>

definition deny_tsc_writes :: "kvm_x86_msr_filter option" where
  "deny_tsc_writes = Some \<lparr>default_allow = True, filter_ranges =
     [\<lparr>range_flags = KVM_MSR_FILTER_WRITE, range_base = 0x10, range_nmsrs = 1, range_bitmap = (\<lambda>_. False)\<rparr>]\<rparr>"

theorem denied_accesses_witness:
  "kvm_emulate_rdmsr sample_msr_env sample_msr_ops deny_all 5 0 (sample_msr_vcpu 0x10 9 0) =
     (sample_msr_vcpu 0x10 9 0, 1) \<and>
   snd (kvm_emulate_wrmsr sample_msr_env sample_msr_ops deny_tsc_writes 0 0 (sample_msr_vcpu 0x10 9 0)) = 0 \<and>
   kvm_msr_allowed deny_tsc_writes 0x10 KVM_MSR_FILTER_READ"
proof -
  have "\<not> kvm_msr_allowed deny_tsc_writes 0x10 KVM_MSR_FILTER_WRITE" "kvm_msr_allowed deny_tsc_writes 0x10 KVM_MSR_FILTER_READ"
    by (simp_all add: kvm_msr_allowed_def deny_tsc_writes_def filter_codes)
  moreover have "ret_codes_ok sample_msr_env" by (simp add: sample_msr)
  note d = denied_accesses [OF this, of _ "sample_msr_vcpu 0x10 9 0" sample_msr_ops]
  ultimately show ?thesis
    using d [of deny_all 5 0 0] d [of deny_tsc_writes 5 0 0] by (simp add: sample_msr failed_access_eq)
qed

text \<open> An exit to user space and back: user space sees the index and the reason, and what
  it answers is what the guest reads, or the fault it asks for. \<close>

theorem user_space_rdmsr_round_trip:
  assumes "ret_codes_ok E" and "\<not> kvm_msr_allowed f (msr_ecx v) KVM_MSR_FILTER_READ"
    and "msr_ecx v \<notin> {0x4b564d00, 0x1db, 0x1a2, 0x19c}"
    and "user_space_msr_mask v AND KVM_MSR_EXIT_REASON_FILTER \<noteq> 0"
    and "kvm_emulate_rdmsr E ops f sd g v = (v1, ret)"
    and "v2 = v1\<lparr>run_msr_data := answer, run_msr_error := error\<rparr>"
  shows "ret = 0 \<and> run_exit_reason v1 = KVM_EXIT_X86_RDMSR \<and> run_msr_index v1 = msr_ecx v \<and>
    run_msr_reason v1 = KVM_MSR_EXIT_REASON_FILTER \<and>
    map_option (\<lambda>c. run_completion ops c v2) (complete_userspace_io v1) =
      Some (ops_complete_emulated_msr ops (uint error)
        (if error = 0 then v2\<lparr>msr_rax := answer AND 0xffffffff, msr_rdx := drop_bit 32 answer\<rparr>
         else v2))"
proof -
  have get: "kvm_get_msr_with_filter E ops f (msr_ecx v) sd v = (v, KVM_MSR_RET_FILTERED E, sd)"
    using assms(2) by (simp add: kvm_get_msr_with_filter_def)
  have "kvm_msr_reason E (KVM_MSR_RET_FILTERED E) = KVM_MSR_EXIT_REASON_FILTER"
    using assms(1) by (simp add: kvm_msr_reason_def ret_codes_ok_def)
  with assms(1,3,4,5) have v1: "ret = 0" "v1 = v\<lparr>run_exit_reason := KVM_EXIT_X86_RDMSR,
      run_msr_error := 0, run_msr_pad := replicate (length (run_msr_pad v)) 0,
      run_msr_reason := KVM_MSR_EXIT_REASON_FILTER, run_msr_index := msr_ecx v,
      run_msr_data := 0, complete_userspace_io := Some Complete_fast_rdmsr\<rparr>"
    unfolding emulate_rdmsr_eq [OF get] failed_access_eq
    by (auto simp: rdmsr_status_def ret_codes_ok_def split: if_splits)
  then show ?thesis
    by (simp add: assms(6) run_completion_def complete_fast_rdmsr_def complete_fast_msr_access_def
        complete_userspace_rdmsr_def)
qed

theorem user_space_rdmsr_round_trip_witness:
  "\<exists>v1. kvm_emulate_rdmsr sample_msr_env sample_msr_ops deny_all 5 0 (sample_msr_vcpu 0x10 9 4) = (v1, 0) \<and>
     run_msr_reason v1 = KVM_MSR_EXIT_REASON_FILTER \<and>
     map_option (\<lambda>c. msr_rax (fst (run_completion sample_msr_ops c (v1\<lparr>run_msr_data := 77\<rparr>))))
       (complete_userspace_io v1) = Some 77"
proof -
  let ?v = "sample_msr_vcpu 0x10 9 4"
  obtain v1 ret where run: "kvm_emulate_rdmsr sample_msr_env sample_msr_ops deny_all 5 0 ?v = (v1, ret)"
    by (rule prod.exhaust)
  have h: "ret_codes_ok sample_msr_env" "\<not> kvm_msr_allowed deny_all (msr_ecx ?v) KVM_MSR_FILTER_READ"
    "msr_ecx ?v \<notin> {0x4b564d00, 0x1db, 0x1a2, 0x19c}"
    "user_space_msr_mask ?v AND KVM_MSR_EXIT_REASON_FILTER \<noteq> 0"
    by (simp_all add: sample_msr msr_codes)
  note rt = user_space_rdmsr_round_trip [OF h run refl, of 0 77]
  have "run_msr_error v1 = 0"
    using run h by (auto simp: emulate_rdmsr_eq [of _ _ _ _ _ ?v 3 5] kvm_get_msr_with_filter_def
        rdmsr_status_def failed_access_eq sample_msr msr_codes kvm_msr_reason_def split: if_splits)
  then have e: "v1\<lparr>run_msr_data := 77, run_msr_error := 0\<rparr> = v1\<lparr>run_msr_data := 77\<rparr>" by simp
  show ?thesis using run rt unfolding e
    by auto
qed

section \<open>The fake debug control register\<close>

text \<open> C36. When a guest writes one of the values \<open>0x4000\<close> to \<open>0x4003\<close> to \<open>IA32_DEBUGCTL\<close>, neither the filter nor
  the vendor code sees the write, and the value with bit 0 cleared is what the next read returns on any vCPU of
  any machine, provided that the read passes that vCPU's filter and its vendor code succeeds: the value is
  shared by all of them. (Other values depend on an unassigned variable, as the next property shows.) \<close>

theorem debugctl_shared_round_trip:
  assumes "msr_ecx w = 0x1d9" and "kvm_read_edx_eax w \<in> {0x4000, 0x4001, 0x4002, 0x4003}"
    and "msr_ecx v = 0x1d9" and "kvm_get_msr_with_filter E' ops' f' 0x1d9 sd v = (v', 0, data)"
    and "kvm_emulate_wrmsr E ops f sr g w = (res, g')"
  shows "res = ops_complete_emulated_msr ops 0 w \<and>
    g' = kvm_read_edx_eax w AND NOT 1 \<and>
    kvm_emulate_rdmsr E' ops' f' sd g' v =
      ops_complete_emulated_msr ops' 0 (v'\<lparr>msr_rax := kvm_read_edx_eax w AND NOT 1, msr_rdx := 0\<rparr>)"
proof -
  have w: "res = ops_complete_emulated_msr ops 0 w" "g' = update_1d9 (kvm_read_edx_eax w) g"
    using assms(1,2,5) by (auto simp: kvm_emulate_wrmsr_def Let_def)
  have g: "update_1d9 (kvm_read_edx_eax w) g = kvm_read_edx_eax w AND NOT 1"
    using assms(2) by (auto simp: update_1d9_def)
  have low: "g' AND 0xffffffff = kvm_read_edx_eax w AND NOT 1" "drop_bit 32 g' AND 0xffffffff = 0"
    using assms(2) unfolding w(2) g by auto
  have "kvm_emulate_rdmsr E' ops' f' sd g' v = ops_complete_emulated_msr ops' 0
      (v'\<lparr>msr_rax := g' AND 0xffffffff, msr_rdx := drop_bit 32 g' AND 0xffffffff\<rparr>)"
    using emulate_rdmsr_eq [of E' ops' f' v sd v' 0 data g'] assms(3,4)
    by (simp add: rdmsr_status_def)
  then show ?thesis using w g unfolding low by simp
qed

theorem debugctl_shared_round_trip_witness:
  "kvm_emulate_wrmsr sample_msr_env sample_msr_ops deny_all 0 0x4000 (sample_msr_vcpu 0x1d9 0x4003 0) =
     ((sample_msr_vcpu 0x1d9 0x4003 0, 1), 0x4002) \<and>
   msr_rax (fst (kvm_emulate_rdmsr sample_msr_env sample_msr_ops None 5 0x4002 (sample_msr_vcpu 0x1d9 0 0)))
     = 0x4002"
proof -
  let ?w = "sample_msr_vcpu 0x1d9 0x4003 0" and ?v = "sample_msr_vcpu 0x1d9 0 0"
  have h: "msr_ecx ?w = 0x1d9" "kvm_read_edx_eax ?w \<in> {0x4000, 0x4001, 0x4002, 0x4003}"
    "msr_ecx ?v = 0x1d9" and e: "kvm_read_edx_eax ?w = 0x4003"
    by (simp_all add: sample_msr)
  have get: "kvm_get_msr_with_filter sample_msr_env sample_msr_ops None 0x1d9 5 ?v = (?v, 0, 7)"
    by (simp add: kvm_get_msr_with_filter_def kvm_msr_allowed_def kvm_get_msr_ignored_check_def
        kvm_get_msr_common_checked_def sample_msr msr_numbers)
  obtain res g' where run: "kvm_emulate_wrmsr sample_msr_env sample_msr_ops deny_all 0 0x4000 ?w = (res, g')"
    by (rule prod.exhaust)
  from debugctl_shared_round_trip [OF h get run] show ?thesis
    using run by (auto simp: e)
qed

text \<open> A write of any other value to \<open>IA32_DEBUGCTL\<close> acts on a variable that was never
  assigned: whether the guest's write succeeds or faults depends on what the stack held. \<close>

theorem debugctl_write_depends_on_stack:
  assumes "msr_ecx w = 0x1d9" and "kvm_read_edx_eax w \<notin> {0x4000, 0x4001, 0x4002, 0x4003}"
    and "user_space_msr_mask w = 0"
  shows "kvm_emulate_wrmsr E ops f 0 g w =
      (ops_complete_emulated_msr ops 0 w, update_1d9 (kvm_read_edx_eax w) g) \<and>
    kvm_emulate_wrmsr E ops f 1 g w = (ops_complete_emulated_msr ops 1 w, g) \<and>
    kvm_emulate_wrmsr E ops f (- 1) g w = ((w, - 1), g)"
  using assms by (simp add: kvm_emulate_wrmsr_def kvm_msr_user_space_def Let_def)

theorem debugctl_write_depends_on_stack_witness:
  "kvm_emulate_wrmsr sample_msr_env sample_msr_ops None 0 0x4000 (sample_msr_vcpu 0x1d9 1 0) =
     ((sample_msr_vcpu 0x1d9 1 0, 1), 0) \<and>
   kvm_emulate_wrmsr sample_msr_env sample_msr_ops None (- 1) 0x4000 (sample_msr_vcpu 0x1d9 1 0) =
     ((sample_msr_vcpu 0x1d9 1 0, - 1), 0x4000)"
  using debugctl_write_depends_on_stack [where w = "sample_msr_vcpu 0x1d9 1 0" and E = sample_msr_env
      and ops = sample_msr_ops and f = None and g = "0x4000"]
  by (simp add: sample_msr update_1d9_def)

section \<open>Forced results\<close>

text \<open> C38. Reads of \<open>0x1a2\<close> and \<open>0x19c\<close> are forced to succeed: when the filter denies them the
  guest gets, in EDX:EAX, eight bytes of the host's stack. \<close>

theorem forced_read_leaks_stack:
  assumes "msr_ecx v \<in> {0x1a2, 0x19c}" and "\<not> kvm_msr_allowed f (msr_ecx v) KVM_MSR_FILTER_READ"
  shows "kvm_emulate_rdmsr E ops f stack_data g v = ops_complete_emulated_msr ops 0
    (v\<lparr>msr_rax := stack_data AND 0xffffffff, msr_rdx := drop_bit 32 stack_data AND 0xffffffff\<rparr>)"
proof -
  have get: "kvm_get_msr_with_filter E ops f (msr_ecx v) stack_data v =
      (v, KVM_MSR_RET_FILTERED E, stack_data)"
    using assms(2) by (simp add: kvm_get_msr_with_filter_def)
  show ?thesis
    using assms(1) unfolding emulate_rdmsr_eq [OF get] by (auto simp: rdmsr_status_def)
qed

theorem forced_read_leaks_stack_witness:
  "msr_rax (fst (kvm_emulate_rdmsr sample_msr_env sample_msr_ops deny_all 0xdeadbeef 0
     (sample_msr_vcpu 0x1a2 0 0))) = 0xdeadbeef"
  using forced_read_leaks_stack [where v = "sample_msr_vcpu 0x1a2 0 0" and f = deny_all
      and E = sample_msr_env and ops = sample_msr_ops and stack_data = "0xdeadbeef" and g = 0]
  by (simp add: sample_msr)

text \<open> Reads of \<open>0x4b564d00\<close> and \<open>0x1db\<close> never deliver a value: whatever the vendor code
  answers, the access ends as a fault (or as an exit for an invalid access), on the state the
  vendor code left. \<close>

theorem forced_fault:
  assumes "ret_codes_ok E" and "msr_ecx v \<in> {0x4b564d00, 0x1db}"
  shows "kvm_emulate_rdmsr E ops f sd g v =
    (let v' = fst (kvm_get_msr_with_filter E ops f (msr_ecx v) sd v) in
     if user_space_msr_mask v' AND KVM_MSR_EXIT_REASON_INVAL = 0
     then ops_complete_emulated_msr ops 1 v'
     else failed_access E ops (msr_ecx v) KVM_EXIT_X86_RDMSR 0 Complete_fast_rdmsr 1 v')"
proof -
  obtain v' r data where get: "kvm_get_msr_with_filter E ops f (msr_ecx v) sd v = (v', r, data)"
    by (metis prod_cases3)
  have "kvm_msr_reason E 1 = KVM_MSR_EXIT_REASON_INVAL"
    using assms(1) by (simp add: kvm_msr_reason_def ret_codes_ok_def)
  then show ?thesis
    using assms(2) unfolding emulate_rdmsr_eq [OF get] get failed_access_eq Let_def
    by (auto simp: rdmsr_status_def)
qed

theorem forced_fault_witness:
  "kvm_emulate_rdmsr sample_msr_env sample_msr_ops None 0 0 (sample_msr_vcpu 0x1db 9 0) =
     (sample_msr_vcpu 0x1db 9 0, 1)"
  using forced_fault [of sample_msr_env "sample_msr_vcpu 0x1db 9 0" sample_msr_ops None 0 0]
  by (simp add: sample_msr msr_numbers kvm_get_msr_with_filter_def kvm_msr_allowed_def
      kvm_get_msr_ignored_check_def kvm_get_msr_common_checked_def kvm_msr_ignored_check_def)

section \<open>Writes of user space\<close>

text \<open> Once the vCPU has run, user space cannot change an immutable feature MSR: the
  write is accepted exactly if it is the value a read returns, and nothing is written. \<close>

theorem immutable_msr_unchanged:
  assumes "vcpu_has_run E" and "is_immutable_feature_msr E index"
    and "kvm_get_msr_ignored_check E ops index sv True v = (v', r, val)"
  shows "do_set_msr E ops sv index data v = (v', if r = 0 \<and> data = val then 0 else - EINVAL)"
  using assms by (simp add: do_set_msr_def do_get_msr_def)

theorem immutable_msr_unchanged_witness:
  "do_set_msr sample_msr_env sample_msr_ops 0 0x10 8 (sample_msr_vcpu 0 0 0) = (sample_msr_vcpu 0 0 0, - EINVAL) \<and>
   do_set_msr sample_msr_env sample_msr_ops 0 0x10 7 (sample_msr_vcpu 0 0 0) = (sample_msr_vcpu 0 0 0, 0)"
proof -
  have get: "kvm_get_msr_ignored_check sample_msr_env sample_msr_ops 0x10 0 True (sample_msr_vcpu 0 0 0) =
      (sample_msr_vcpu 0 0 0, 0, 7)"
    by (simp add: kvm_get_msr_ignored_check_def kvm_get_msr_common_checked_def sample_msr msr_numbers)
  have h: "vcpu_has_run sample_msr_env" "is_immutable_feature_msr sample_msr_env 0x10"
    by (simp_all add: sample_msr_env_def)
  show ?thesis using immutable_msr_unchanged [OF h get] by simp
qed

section \<open>The fast path\<close>

text \<open> The fast path handles a write of the x2APIC command register only for a fixed,
  physical interrupt to one destination; any other leaves the vCPU for the slow path. \<close>

theorem fastpath_icr_exact:
  assumes "handle_fastpath_set_msr_irqoff A v = (v', r)" and "msr_ecx v = X2APIC_ICR_MSR"
  shows "(r = EXIT_FASTPATH_EXIT_HANDLED \<longleftrightarrow>
      lapic_in_kernel A v \<and> apic_x2apic_mode A v \<and>
      (let icr = kvm_read_edx_eax v in
       icr AND 0xc0f00 = 0 \<and> drop_bit 32 icr \<noteq> 0xffffffff \<and>
       snd (kvm_x2apic_icr_write A icr v) = 0)) \<and>
    r \<noteq> EXIT_FASTPATH_REENTER_GUEST"
proof -
  let ?d = "kvm_read_edx_eax v"
  have m: "(0xc0f00 :: u64) = 0xc0000 OR 0x800 OR 0x700" by simp
  have bits: "?d AND 0xc0f00 = 0 \<longleftrightarrow> ?d AND 0xc0000 = 0 \<and> ?d AND 0x800 = 0 \<and> ?d AND 0x700 = 0"
    by (simp only: m bit.conj_disj_distrib or_eq_0_iff conj_assoc)
  have hi: "drop_bit 32 ?d AND 0xffffffff = drop_bit 32 ?d"
  proof (rule bit_word_eqI)
    fix n assume "n < LENGTH(64)"
    have e: "(0xffffffff :: u64) = mask 32" by (simp add: mask_eq_exp_minus_1)
    show "bit (drop_bit 32 ?d AND 0xffffffff) n = bit (drop_bit 32 ?d) n"
      unfolding e by (auto simp: bit_and_iff bit_mask_iff bit_drop_bit_eq dest: bit_imp_le_length)
  qed
  show ?thesis
    using assms unfolding handle_fastpath_set_msr_irqoff_def Let_def
    by (auto simp: handle_fastpath_set_x2apic_icr_irqoff_def bits hi APIC_SHORT_MASK_def
        APIC_DEST_NOSHORT_def APIC_DEST_MASK_def APIC_DEST_PHYSICAL_def APIC_MODE_MASK_def
        APIC_DM_FIXED_def X2APIC_BROADCAST_def split: prod.splits if_splits)
qed

theorem fastpath_icr_exact_witness:
  "\<exists>v' r. handle_fastpath_set_msr_irqoff sample_apic (sample_msr_vcpu 0x830 0x31 0) = (v', r) \<and>
     r = EXIT_FASTPATH_EXIT_HANDLED"
proof -
  let ?v = "sample_msr_vcpu 0x830 0x31 0"
  obtain v' r where run: "handle_fastpath_set_msr_irqoff sample_apic ?v = (v', r)"
    by (rule prod.exhaust)
  have "msr_ecx ?v = X2APIC_ICR_MSR" by (simp add: sample_msr X2APIC_ICR_MSR_def)
  from fastpath_icr_exact [OF run this] run show ?thesis
    by (auto simp: sample_msr Let_def)
qed

end
