(* ===== verification/Kvm_Async_Hash.thy ===== *)
theory Kvm_Async_Hash
  imports Prelude "HOL-Library.Multiset"
begin

text \<open>
  The table of the guest frames with an outstanding asynchronous page fault
  (\<open>vcpu->arch.apf.gfns\<close> of \<open>x86.c\<close>): open addressing with linear probing, and deletion by
  moving later entries back. The table implements a bag of frames (\<open>entries\<close>) under the
  probe invariant \<open>table_ok\<close>.
\<close>

section \<open>The code\<close>

text \<open>
  \<open>ASYNC_PF_PER_VCPU\<close> is 64 in the kernel's headers. \<open>hash_32\<close> of the headers is a parameter:
  asked for six bits, it answers with six bits. All bits set marks an empty slot.
\<close>

definition ASYNC_PF_PER_VCPU :: nat where
  "ASYNC_PF_PER_VCPU = 64"

abbreviation empty_slot :: u64 where
  "empty_slot \<equiv> - 1"

type_synonym hash_32 = "u32 \<Rightarrow> 6 word"

definition kvm_async_pf_hash_reset :: "u64 list \<Rightarrow> u64 list" where
  "kvm_async_pf_hash_reset gfns =
     foldl (\<lambda>gfns i. gfns[i := empty_slot]) gfns [0..<ASYNC_PF_PER_VCPU]"

definition kvm_async_pf_hash_fn :: "hash_32 \<Rightarrow> u64 \<Rightarrow> nat" where
  "kvm_async_pf_hash_fn hash gfn = unat (hash (ucast (gfn AND 0xffffffff)))"

definition kvm_async_pf_next_probe :: "nat \<Rightarrow> nat" where
  "kvm_async_pf_next_probe key = (key + 1) AND (ASYNC_PF_PER_VCPU - 1)"

text \<open>Loops that the code does not bound: \<open>None\<close> is not returning.\<close>

partial_function (option) add_probe :: "u64 list \<Rightarrow> nat \<Rightarrow> nat option" where
  "add_probe gfns key =
     (if gfns ! key \<noteq> empty_slot then add_probe gfns (kvm_async_pf_next_probe key) else Some key)"

definition kvm_add_async_pf_gfn :: "hash_32 \<Rightarrow> u64 \<Rightarrow> u64 list \<Rightarrow> u64 list option" where
  "kvm_add_async_pf_gfn hash gfn gfns =
     (case add_probe gfns (kvm_async_pf_hash_fn hash gfn) of
        None \<Rightarrow> None
      | Some key \<Rightarrow> Some (gfns[key := gfn]))"

text \<open>The bounded search: the first argument is the number of iterations left.\<close>

primrec slot_loop :: "nat \<Rightarrow> u64 list \<Rightarrow> u64 \<Rightarrow> nat \<Rightarrow> nat" where
  "slot_loop 0 gfns gfn key = key"
| "slot_loop (Suc n) gfns gfn key =
     (if gfns ! key \<noteq> gfn \<and> gfns ! key \<noteq> empty_slot
      then slot_loop n gfns gfn (kvm_async_pf_next_probe key) else key)"

definition kvm_async_pf_gfn_slot :: "hash_32 \<Rightarrow> u64 list \<Rightarrow> u64 \<Rightarrow> nat" where
  "kvm_async_pf_gfn_slot hash gfns gfn =
     slot_loop ASYNC_PF_PER_VCPU gfns gfn (kvm_async_pf_hash_fn hash gfn)"

definition kvm_find_async_pf_gfn :: "hash_32 \<Rightarrow> u64 list \<Rightarrow> u64 \<Rightarrow> bool" where
  "kvm_find_async_pf_gfn hash gfns gfn \<longleftrightarrow> gfns ! kvm_async_pf_gfn_slot hash gfns gfn = gfn"

text \<open>The inner loop of the deletion ends at an empty slot or at an entry to move.\<close>

datatype scan_end = At_empty | Move_from nat

partial_function (option) del_scan ::
  "hash_32 \<Rightarrow> u64 list \<Rightarrow> nat \<Rightarrow> nat \<Rightarrow> scan_end option" where
  "del_scan hash gfns i j =
     (let j = kvm_async_pf_next_probe j in
      if gfns ! j = empty_slot then Some At_empty
      else
        let k = kvm_async_pf_hash_fn hash (gfns ! j) in
        if (if i \<le> j then i < k \<and> k \<le> j else i < k \<or> k \<le> j) then del_scan hash gfns i j
        else Some (Move_from j))"

partial_function (option) del_loop ::
  "hash_32 \<Rightarrow> u64 list \<Rightarrow> nat \<Rightarrow> nat \<Rightarrow> u64 list option" where
  "del_loop hash gfns i j =
     (let gfns = gfns[i := empty_slot] in
      Option.bind (del_scan hash gfns i j)
        (\<lambda>r. case r of
           At_empty \<Rightarrow> Some gfns
         | Move_from j \<Rightarrow> del_loop hash (gfns[i := gfns ! j]) j j))"

definition kvm_del_async_pf_gfn :: "hash_32 \<Rightarrow> u64 \<Rightarrow> u64 list \<Rightarrow> u64 list option" where
  "kvm_del_async_pf_gfn hash gfn gfns =
     (let i = kvm_async_pf_gfn_slot hash gfns gfn in
      if gfns ! i \<noteq> gfn then Some gfns else del_loop hash gfns i i)"

section \<open>The invariant\<close>

text \<open>The number of probes from slot \<open>a\<close> to slot \<open>b\<close>.\<close>

definition dist :: "nat \<Rightarrow> nat \<Rightarrow> nat" where
  "dist a b = (if a \<le> b then b - a else b + 64 - a)"

text \<open>
  Every entry is reached from the start of its probe sequence over occupied slots; \<open>hole\<close> is
  a slot the condition may skip.
\<close>

definition probes_ok :: "hash_32 \<Rightarrow> (nat \<Rightarrow> bool) \<Rightarrow> u64 list \<Rightarrow> bool" where
  "probes_ok hash hole gfns \<longleftrightarrow>
     (\<forall>m < 64. \<forall>x < 64. gfns ! m \<noteq> empty_slot \<and>
        dist (kvm_async_pf_hash_fn hash (gfns ! m)) x < dist (kvm_async_pf_hash_fn hash (gfns ! m)) m
        \<longrightarrow> gfns ! x \<noteq> empty_slot \<or> hole x)"

definition table_ok :: "hash_32 \<Rightarrow> u64 list \<Rightarrow> bool" where
  "table_ok hash gfns \<longleftrightarrow> length gfns = 64 \<and> probes_ok hash (\<lambda>_. False) gfns"

definition entries :: "u64 list \<Rightarrow> u64 multiset" where
  "entries gfns = filter_mset (\<lambda>g. g \<noteq> empty_slot) (mset gfns)"

lemma hash_fn_less [simp]: "kvm_async_pf_hash_fn hash gfn < 64"
  using unsigned_less [of "hash (ucast (gfn AND 0xffffffff))"]
  by (simp add: kvm_async_pf_hash_fn_def)

lemma next_probe: "kvm_async_pf_next_probe key = (key + 1) mod 64"
proof -
  have "(key + 1) AND 63 = take_bit 6 (key + 1)"
    by (simp add: take_bit_eq_mask mask_eq_exp_minus_1)
  then show ?thesis
    by (simp add: kvm_async_pf_next_probe_def ASYNC_PF_PER_VCPU_def take_bit_eq_mod)
qed

lemma next_probe_less [simp]: "kvm_async_pf_next_probe key < 64"
  by (simp add: next_probe)

lemma dist_self [simp]: "dist a a = 0"
  by (simp add: dist_def)

lemma dist_less: "a < 64 \<Longrightarrow> b < 64 \<Longrightarrow> dist a b < 64"
  by (auto simp: dist_def)

lemma dist_0: "a < 64 \<Longrightarrow> b < 64 \<Longrightarrow> dist a b = 0 \<longleftrightarrow> a = b"
  by (auto simp: dist_def)

lemma dist_next:
  "a < 64 \<Longrightarrow> b < 64 \<Longrightarrow> dist a (kvm_async_pf_next_probe b) =
    (if kvm_async_pf_next_probe b = a then 0 else dist a b + 1)"
  by (auto simp: dist_def next_probe mod_if)

lemma dist_inj: "a < 64 \<Longrightarrow> b < 64 \<Longrightarrow> c < 64 \<Longrightarrow> dist a b = dist a c \<longleftrightarrow> b = c"
  by (auto simp: dist_def split: if_splits)

text \<open>The test of the deletion, for two different slots.\<close>

lemma cyclic_test:
  assumes "i < 64" "j < 64" "k < 64" "i \<noteq> j"
  shows "(if i \<le> j then i < k \<and> k \<le> j else i < k \<or> k \<le> j) \<longleftrightarrow> \<not> dist k i < dist k j"
  using assms by (auto simp: dist_def)

section \<open>Searching\<close>

text \<open>
  Both searches walk the slots in the order of their distance from the start: while a search
  stands at \<open>key\<close>, it has passed exactly the slots closer to the start.
\<close>

lemma passed_next:
  assumes "s < 64" "key < 64" and "\<forall>x<64. dist s x < dist s key \<longrightarrow> P x" and "P key"
  shows "kvm_async_pf_next_probe key = s \<Longrightarrow> \<forall>x<64. P x"
    and "kvm_async_pf_next_probe key \<noteq> s \<Longrightarrow>
      \<forall>x<64. dist s x < dist s (kvm_async_pf_next_probe key) \<longrightarrow> P x"
proof -
  show "\<forall>x<64. P x" if "kvm_async_pf_next_probe key = s"
  proof (intro allI impI)
    fix x :: nat assume x: "x < 64"
    have "dist s key = 63" using that assms(1,2) by (auto simp: dist_def next_probe mod_if split: if_splits)
    with dist_less [OF assms(1) x] have "dist s x < dist s key \<or> dist s x = dist s key" by linarith
    with assms x show "P x" using dist_inj [OF assms(1) x assms(2)] by auto
  qed
  show "\<forall>x<64. dist s x < dist s (kvm_async_pf_next_probe key) \<longrightarrow> P x"
    if "kvm_async_pf_next_probe key \<noteq> s"
  proof (intro allI impI)
    fix x assume x: "x < 64" "dist s x < dist s (kvm_async_pf_next_probe key)"
    with that dist_next [OF assms(1,2)] have "dist s x < dist s key \<or> dist s x = dist s key" by auto
    with assms x show "P x" using dist_inj [OF assms(1) x(1) assms(2)] by auto
  qed
qed

lemma add_probe_from:
  assumes "s < 64" "key < 64" "e < 64" "gfns ! e = empty_slot"
    and "\<forall>x<64. dist s x < dist s key \<longrightarrow> gfns ! x \<noteq> empty_slot"
  shows "\<exists>k<64. add_probe gfns key = Some k \<and> gfns ! k = empty_slot \<and>
    (\<forall>x<64. dist s x < dist s k \<longrightarrow> gfns ! x \<noteq> empty_slot)"
  using assms(2,5)
proof (induction "64 - dist s key" arbitrary: key rule: less_induct)
  case less
  show ?case
  proof (cases "gfns ! key = empty_slot")
    case True
    with less.prems show ?thesis by (subst add_probe.simps) auto
  next
    case False
    let ?n = "kvm_async_pf_next_probe key"
    have n: "?n \<noteq> s"
      using passed_next(1) [OF assms(1) less.prems, of] False assms(3,4) by blast
    then have "dist s ?n = dist s key + 1" using dist_next [OF assms(1) less.prems(1)] by simp
    moreover have "dist s ?n < 64" using assms(1) by (simp add: dist_less)
    ultimately have "64 - dist s ?n < 64 - dist s key" by simp
    from less.hyps [OF this next_probe_less passed_next(2) [OF assms(1) less.prems False n]]
    show ?thesis using False by (subst add_probe.simps) simp
  qed
qed

lemma slot_loop_from:
  assumes "s < 64" "key < 64" "dist s key + n = 64"
    and "\<forall>x<64. dist s x < dist s key \<longrightarrow> gfns ! x \<noteq> gfn \<and> gfns ! x \<noteq> empty_slot"
  shows "slot_loop n gfns gfn key < 64 \<and>
    ((\<forall>x<64. dist s x < dist s (slot_loop n gfns gfn key) \<longrightarrow> gfns ! x \<noteq> gfn \<and> gfns ! x \<noteq> empty_slot) \<and>
       gfns ! slot_loop n gfns gfn key \<in> {gfn, empty_slot} \<or>
     (\<forall>x<64. gfns ! x \<noteq> gfn \<and> gfns ! x \<noteq> empty_slot))"
  using assms(2-4)
proof (induction n arbitrary: key)
  case 0
  with dist_less [OF assms(1), of key] show ?case by simp
next
  case (Suc n)
  let ?P = "\<lambda>x. gfns ! x \<noteq> gfn \<and> gfns ! x \<noteq> empty_slot"
  show ?case
  proof (cases "?P key")
    case False
    with Suc.prems show ?thesis by auto
  next
    case True
    let ?n = "kvm_async_pf_next_probe key"
    have sl: "slot_loop (Suc n) gfns gfn key = slot_loop n gfns gfn ?n" using True by simp
    show ?thesis
    proof (cases "?n = s")
      case True': True
      then have "\<forall>x<64. ?P x" using passed_next(1) [OF assms(1) Suc.prems(1,3) True] by simp
      moreover have "slot_loop m gfns gfn k < 64" if "k < 64" for m k
        using that by (induction m arbitrary: k) auto
      ultimately show ?thesis unfolding sl by simp
    next
      case False
      then have "dist s ?n + n = 64" using dist_next [OF assms(1) Suc.prems(1)] Suc.prems(2) by simp
      from Suc.IH [OF next_probe_less this passed_next(2) [OF assms(1) Suc.prems(1,3) True False]]
      show ?thesis unfolding sl by blast
    qed
  qed
qed

lemma gfn_slot:
  assumes "k = kvm_async_pf_gfn_slot hash gfns gfn" and "s = kvm_async_pf_hash_fn hash gfn"
  shows "k < 64 \<and>
    ((\<forall>x<64. dist s x < dist s k \<longrightarrow> gfns ! x \<noteq> gfn \<and> gfns ! x \<noteq> empty_slot) \<and>
       gfns ! k \<in> {gfn, empty_slot} \<or>
     (\<forall>x<64. gfns ! x \<noteq> gfn \<and> gfns ! x \<noteq> empty_slot))"
  using slot_loop_from [of s s 64 gfns gfn] assms
  by (simp add: kvm_async_pf_gfn_slot_def ASYNC_PF_PER_VCPU_def)

section \<open>The bag of entries\<close>

lemma in_entries: "g \<in># entries gfns \<longleftrightarrow> g \<noteq> empty_slot \<and> g \<in> set gfns"
  by (auto simp: entries_def)

lemma entries_fill:
  assumes "k < length gfns" "gfns ! k = empty_slot" "g \<noteq> empty_slot"
  shows "entries (gfns[k := g]) = add_mset g (entries gfns)"
proof -
  have "mset (gfns[k := g]) = add_mset g (mset gfns - {#empty_slot#})"
    using assms by (simp add: mset_update)
  then show ?thesis using assms(3) by (simp add: entries_def)
qed

lemma entries_clear:
  assumes "k < length gfns" "gfns ! k \<noteq> empty_slot"
  shows "entries (gfns[k := empty_slot]) = entries gfns - {#gfns ! k#}"
proof -
  have "mset (gfns[k := empty_slot]) = add_mset empty_slot (mset gfns - {#gfns ! k#})"
    using assms by (simp add: mset_update)
  then show ?thesis using assms(2) by (simp add: entries_def)
qed

lemma entries_move:
  assumes "i < length gfns" "j < length gfns" "gfns ! i = empty_slot"
  shows "entries (gfns[i := gfns ! j, j := empty_slot]) = entries gfns"
  using mset_swap [OF assms(2,1)] assms(3) by (simp add: entries_def)

lemma probes_okD:
  assumes "probes_ok hash hole gfns" "m < 64" "x < 64" "gfns ! m \<noteq> empty_slot"
    and "dist (kvm_async_pf_hash_fn hash (gfns ! m)) x < dist (kvm_async_pf_hash_fn hash (gfns ! m)) m"
  shows "gfns ! x \<noteq> empty_slot \<or> hole x"
  using assms unfolding probes_ok_def by blast

section \<open>Finding and adding\<close>

lemma find_entries:
  assumes "table_ok hash gfns" and "gfn \<noteq> empty_slot"
  shows "kvm_find_async_pf_gfn hash gfns gfn \<longleftrightarrow> gfn \<in># entries gfns"
proof -
  let ?k = "kvm_async_pf_gfn_slot hash gfns gfn" and ?s = "kvm_async_pf_hash_fn hash gfn"
  have len: "length gfns = 64" and ok: "probes_ok hash (\<lambda>_. False) gfns"
    using assms(1) by (auto simp: table_ok_def)
  note slot = gfn_slot [OF refl refl, of hash gfns gfn]
  have "gfns ! ?k = gfn" if "m < 64" "gfns ! m = gfn" for m
  proof (rule ccontr)
    assume "gfns ! ?k \<noteq> gfn"
    with slot that have k: "gfns ! ?k = empty_slot"
      "\<forall>x<64. dist ?s x < dist ?s ?k \<longrightarrow> gfns ! x \<noteq> gfn" by auto
    have k64: "?k < 64" using slot by blast
    have "m \<noteq> ?k" using that(2) k(1) assms(2) by metis
    moreover have "\<not> dist ?s m < dist ?s ?k" using that k(2) by blast
    ultimately have "dist ?s ?k < dist ?s m"
      using dist_inj [OF hash_fn_less that(1) k64] by (metis linorder_neqE_nat)
    with probes_okD [OF ok that(1) k64] that(2) assms(2) k(1) show False by simp
  qed
  then have "gfns ! ?k = gfn \<longleftrightarrow> gfn \<in> set gfns"
    using len slot by (metis in_set_conv_nth)
  then show ?thesis using assms(2) by (simp add: kvm_find_async_pf_gfn_def in_entries)
qed

lemma add_entries:
  assumes "table_ok hash gfns" and "gfn \<noteq> empty_slot" and "empty_slot \<in> set gfns"
  shows "\<exists>gfns'. kvm_add_async_pf_gfn hash gfn gfns = Some gfns' \<and> table_ok hash gfns' \<and>
    entries gfns' = add_mset gfn (entries gfns)"
proof -
  let ?s = "kvm_async_pf_hash_fn hash gfn"
  have len: "length gfns = 64" and ok: "probes_ok hash (\<lambda>_. False) gfns"
    using assms(1) by (auto simp: table_ok_def)
  obtain e where "e < 64" "gfns ! e = empty_slot"
    using assms(3) len by (auto simp: in_set_conv_nth)
  from add_probe_from [OF hash_fn_less hash_fn_less this, of hash gfn hash gfn]
  obtain k where k: "k < 64" "add_probe gfns ?s = Some k" "gfns ! k = empty_slot"
    "\<forall>x<64. dist ?s x < dist ?s k \<longrightarrow> gfns ! x \<noteq> empty_slot" by auto
  have "probes_ok hash (\<lambda>_. False) (gfns[k := gfn])"
    unfolding probes_ok_def
  proof (intro allI impI)
    fix m x :: nat
    let ?h = "kvm_async_pf_hash_fn hash (gfns[k := gfn] ! m)"
    assume m: "m < 64" and x: "x < 64"
      and path: "gfns[k := gfn] ! m \<noteq> empty_slot \<and> dist ?h x < dist ?h m"
    show "gfns[k := gfn] ! x \<noteq> empty_slot \<or> False"
    proof (cases "x = k")
      case True
      then show ?thesis using len k(1) assms(2) by simp
    next
      case False
      have "gfns ! x \<noteq> empty_slot"
      proof (cases "m = k")
        case True
        then show ?thesis using path x k len by simp
      next
        case False
        then show ?thesis using path probes_okD [OF ok m x] by simp
      qed
      with False show ?thesis by simp
    qed
  qed
  then show ?thesis
    using k len assms(2) by (simp add: kvm_add_async_pf_gfn_def table_ok_def entries_fill)
qed

lemma add_probe_sound:
  "add_probe gfns key = Some k \<Longrightarrow> key < 64 \<longrightarrow> k < 64 \<and> gfns ! k = empty_slot"
  by (rule add_probe.raw_induct
      [of "\<lambda>gfns key k. key < 64 \<longrightarrow> k < 64 \<and> gfns ! k = empty_slot"])
    (auto split: if_splits)

lemma add_full:
  assumes "length gfns = 64" and "empty_slot \<notin> set gfns"
  shows "kvm_add_async_pf_gfn hash gfn gfns = None"
proof -
  have "gfns ! k \<noteq> empty_slot" if "k < 64" for k using that assms nth_mem by metis
  then show ?thesis
    using add_probe_sound [of gfns "kvm_async_pf_hash_fn hash gfn"]
    by (cases "add_probe gfns (kvm_async_pf_hash_fn hash gfn)") (auto simp: kvm_add_async_pf_gfn_def)
qed

lemma reset_eq:
  assumes "length gfns = 64"
  shows "kvm_async_pf_hash_reset gfns = replicate 64 empty_slot"
proof -
  have "foldl (\<lambda>g i. g[i := empty_slot]) gfns [0..<n] = replicate n empty_slot @ drop n gfns"
    if "n \<le> 64" for n
    using that
  proof (induction n)
    case (Suc n)
    then show ?case using assms
      by (simp add: list_update_append replicate_append_same flip: Cons_nth_drop_Suc)
  qed simp
  from this [of 64] show ?thesis
    using assms by (simp add: kvm_async_pf_hash_reset_def ASYNC_PF_PER_VCPU_def)
qed

lemma reset_ok:
  assumes "length gfns = 64"
  shows "table_ok hash (kvm_async_pf_hash_reset gfns)"
    and "entries (kvm_async_pf_hash_reset gfns) = {#}"
  unfolding reset_eq [OF assms]
  by (auto simp: table_ok_def probes_ok_def entries_def nth_replicate)

section \<open>Deleting\<close>

text \<open>While an entry is being deleted the table has one hole its probe sequences may cross.\<close>

definition holed :: "hash_32 \<Rightarrow> u64 list \<Rightarrow> nat \<Rightarrow> bool" where
  "holed hash gfns i \<longleftrightarrow>
     length gfns = 64 \<and> i < 64 \<and> gfns ! i = empty_slot \<and> probes_ok hash (\<lambda>x. x = i) gfns"

text \<open>An entry whose probe sequence does not cross the hole.\<close>

definition settled :: "hash_32 \<Rightarrow> u64 list \<Rightarrow> nat \<Rightarrow> nat \<Rightarrow> bool" where
  "settled hash gfns i m \<longleftrightarrow> gfns ! m \<noteq> empty_slot \<and>
     \<not> dist (kvm_async_pf_hash_fn hash (gfns ! m)) i < dist (kvm_async_pf_hash_fn hash (gfns ! m)) m"

definition scan_result :: "hash_32 \<Rightarrow> u64 list \<Rightarrow> nat \<Rightarrow> scan_end \<Rightarrow> bool" where
  "scan_result hash gfns i r \<longleftrightarrow>
     (case r of
        At_empty \<Rightarrow> \<exists>j<64. gfns ! j = empty_slot \<and>
          (\<forall>m<64. 0 < dist i m \<and> (j = i \<or> dist i m < dist i j) \<longrightarrow> settled hash gfns i m)
      | Move_from j \<Rightarrow> j < 64 \<and> j \<noteq> i \<and> gfns ! j \<noteq> empty_slot \<and> \<not> settled hash gfns i j)"

lemma del_scan_from:
  assumes "i < 64" "gfns ! i = empty_slot" "j < 64"
    and "\<forall>m<64. 0 < dist i m \<and> dist i m \<le> dist i j \<longrightarrow> settled hash gfns i m"
  shows "\<exists>r. del_scan hash gfns i j = Some r \<and> scan_result hash gfns i r"
  using assms(3,4)
proof (induction "63 - dist i j" arbitrary: j rule: less_induct)
  case less
  let ?n = "kvm_async_pf_next_probe j"
  have n: "dist i ?n = (if ?n = i then 0 else dist i j + 1)" "dist i ?n < 64"
    by (rule dist_next [OF assms(1) less.prems(1)], rule dist_less [OF assms(1) next_probe_less])
  have last: "dist i j = 63" if "?n = i"
    using that assms(1) less.prems(1) by (auto simp: dist_def next_probe mod_if split: if_splits)
  show ?case
  proof (cases "gfns ! ?n = empty_slot")
    case True
    then have "del_scan hash gfns i j = Some At_empty"
      by (subst del_scan.simps) (simp add: Let_def)
    moreover have "settled hash gfns i m"
      if m: "m < 64" "0 < dist i m" "?n = i \<or> dist i m < dist i ?n" for m
    proof -
      have "dist i m \<le> dist i j"
        using m n(1) last dist_less [OF assms(1) m(1)] by (auto split: if_splits)
      with less.prems(2) m show ?thesis by blast
    qed
    ultimately show ?thesis
      using True by (auto simp: scan_result_def intro!: exI [of _ ?n])
  next
    case False
    with assms(2) have ni: "?n \<noteq> i" by auto
    note test = cyclic_test [OF assms(1) next_probe_less hash_fn_less ni [symmetric],
        of hash "gfns ! ?n"]
    show ?thesis
    proof (cases "settled hash gfns i ?n")
      case True
      have "\<forall>m<64. 0 < dist i m \<and> dist i m \<le> dist i ?n \<longrightarrow> settled hash gfns i m"
      proof (intro allI impI)
        fix m assume m: "m < 64" "0 < dist i m \<and> dist i m \<le> dist i ?n"
        show "settled hash gfns i m"
        proof (cases "m = ?n")
          case False
          with m have "dist i m < dist i ?n"
            using dist_inj [OF assms(1) m(1) next_probe_less] by (metis le_neq_implies_less)
          with m less.prems(2) n(1) ni show ?thesis by simp
        qed (use True in simp)
      qed
      moreover have "63 - dist i ?n < 63 - dist i j" using n ni by simp
      ultimately have "\<exists>r. del_scan hash gfns i ?n = Some r \<and> scan_result hash gfns i r"
        using less.hyps next_probe_less by blast
      moreover have "del_scan hash gfns i j = del_scan hash gfns i ?n"
        using False True unfolding settled_def
        by (subst del_scan.simps) (simp add: Let_def test [symmetric])
      ultimately show ?thesis by simp
    next
      case nset: False
      then have "del_scan hash gfns i j = Some (Move_from ?n)"
        using False unfolding settled_def
        by (subst del_scan.simps) (simp add: Let_def test [symmetric])
      then show ?thesis using False nset ni by (simp add: scan_result_def)
    qed
  qed
qed

lemma dist_between:
  assumes "i < 64" "j < 64" "m < 64" "h < 64"
    and "dist h i < dist h m" "0 < dist i j" "dist i j < dist i m"
  shows "dist h j < dist h m"
  using assms by (auto simp: dist_def split: if_splits)

lemma At_empty_ok:
  assumes "holed hash gfns i" and "scan_result hash gfns i At_empty"
  shows "table_ok hash gfns"
proof -
  have i: "i < 64" "length gfns = 64" "gfns ! i = empty_slot"
    and ok: "probes_ok hash (\<lambda>x. x = i) gfns"
    using assms(1) by (auto simp: holed_def)
  obtain j where j: "j < 64" "gfns ! j = empty_slot"
    "\<forall>m<64. 0 < dist i m \<and> (j = i \<or> dist i m < dist i j) \<longrightarrow> settled hash gfns i m"
    using assms(2) by (auto simp: scan_result_def)
  have "probes_ok hash (\<lambda>_. False) gfns"
    unfolding probes_ok_def
  proof (intro allI impI)
    fix m x :: nat
    let ?h = "kvm_async_pf_hash_fn hash (gfns ! m)"
    assume m: "m < 64" and x: "x < 64" and p: "gfns ! m \<noteq> empty_slot \<and> dist ?h x < dist ?h m"
    have "x \<noteq> i"
    proof
      assume "x = i"
      then have ns: "\<not> settled hash gfns i m" using p by (simp add: settled_def)
      have mi: "m \<noteq> i" "m \<noteq> j" using p i(3) j(2) by auto
      have "0 < dist i m" using dist_0 [OF i(1) m] mi by simp
      with ns j(3) m have "j \<noteq> i" "\<not> dist i m < dist i j" by auto
      then have "0 < dist i j" "dist i j < dist i m"
        using dist_0 [OF i(1) j(1)] dist_inj [OF i(1) m j(1)] mi by (auto simp: nat_neq_iff)
      from dist_between [OF i(1) j(1) m hash_fn_less _ this] p \<open>x = i\<close>
      have "dist ?h j < dist ?h m" by simp
      with probes_okD [OF ok m j(1)] p j(2) \<open>j \<noteq> i\<close> show False by simp
    qed
    then show "gfns ! x \<noteq> empty_slot \<or> False"
      using probes_okD [OF ok m x] p by simp
  qed
  with i(2) show ?thesis by (simp add: table_ok_def)
qed

lemma Move_from_holed:
  assumes "holed hash gfns i" and "scan_result hash gfns i (Move_from j)"
  shows "holed hash (gfns[i := gfns ! j, j := empty_slot]) j"
proof -
  have i: "i < 64" "length gfns = 64" "gfns ! i = empty_slot"
    and ok: "probes_ok hash (\<lambda>x. x = i) gfns"
    using assms(1) by (auto simp: holed_def)
  let ?k = "kvm_async_pf_hash_fn hash (gfns ! j)"
  have j: "j < 64" "j \<noteq> i" "gfns ! j \<noteq> empty_slot" "dist ?k i < dist ?k j"
    using assms(2) by (auto simp: scan_result_def settled_def)
  let ?g = "gfns[i := gfns ! j, j := empty_slot]"
  have g: "?g ! m = (if m = j then empty_slot else if m = i then gfns ! j else gfns ! m)"
    if "m < 64" for m
    using that i j by (simp add: nth_list_update)
  have "probes_ok hash (\<lambda>x. x = j) ?g"
    unfolding probes_ok_def
  proof (intro allI impI)
    fix m x :: nat
    let ?h = "kvm_async_pf_hash_fn hash (?g ! m)"
    assume m: "m < 64" and x: "x < 64" and p: "?g ! m \<noteq> empty_slot \<and> dist ?h x < dist ?h m"
    show "?g ! x \<noteq> empty_slot \<or> x = j"
    proof (cases "x = j \<or> x = i")
      case True
      then show ?thesis using g [OF x] j(2,3) by auto
    next
      case False
      have "gfns ! x \<noteq> empty_slot"
      proof (cases "m = i")
        case True
        then have "dist ?k x < dist ?k i" using p g [OF m] j(2) by simp
        with j(4) have "dist ?k x < dist ?k j" by simp
        with probes_okD [OF ok j(1) x j(3)] False show ?thesis by simp
      next
        case mi: False
        with p g [OF m] have "m \<noteq> j" "?g ! m = gfns ! m" by (auto split: if_splits)
        with p probes_okD [OF ok m x] False show ?thesis by simp
      qed
      with False show ?thesis using g [OF x] by simp
    qed
  qed
  with i j show ?thesis by (simp add: holed_def)
qed

text \<open>A move shortens the way of an entry from its start, so the deletion ends.\<close>

definition way :: "hash_32 \<Rightarrow> u64 list \<Rightarrow> nat \<Rightarrow> nat" where
  "way hash gfns m =
     (if gfns ! m = empty_slot then 0 else dist (kvm_async_pf_hash_fn hash (gfns ! m)) m)"

lemma Move_from_shorter:
  assumes "holed hash gfns i" and "scan_result hash gfns i (Move_from j)"
  shows "sum (way hash (gfns[i := gfns ! j, j := empty_slot])) {..<64} < sum (way hash gfns) {..<64}"
proof -
  let ?g = "gfns[i := gfns ! j, j := empty_slot]"
  have i: "i < 64" "length gfns = 64" "gfns ! i = empty_slot"
    and j: "j < 64" "j \<noteq> i" "gfns ! j \<noteq> empty_slot" "\<not> settled hash gfns i j"
    using assms by (auto simp: holed_def scan_result_def)
  have split: "sum f {..<64} = f i + f j + sum f ({..<64} - {i, j})" for f :: "nat \<Rightarrow> nat"
    using sum.subset_diff [of "{i, j}" "{..<64 :: nat}" f] i(1) j(1,2) by simp
  have rest: "sum (way hash ?g) ({..<64} - {i, j}) = sum (way hash gfns) ({..<64} - {i, j})"
    by (rule sum.cong) (auto simp: way_def)
  have "way hash ?g i < way hash gfns j" "way hash ?g j = 0"
    using i j by (auto simp: way_def settled_def)
  then show ?thesis unfolding split [of "way hash ?g"] split [of "way hash gfns"] rest by simp
qed

lemma del_loop_ok:
  assumes "holed hash (gfns[i := empty_slot]) i"
  shows "\<exists>gfns'. del_loop hash gfns i i = Some gfns' \<and> table_ok hash gfns' \<and>
    entries gfns' = entries (gfns[i := empty_slot])"
  using assms
proof (induction "sum (way hash (gfns[i := empty_slot])) {..<64}" arbitrary: gfns i
    rule: less_induct)
  case less
  let ?g = "gfns[i := empty_slot]"
  have i: "i < 64" "length gfns = 64" "?g ! i = empty_slot"
    using less.prems by (auto simp: holed_def)
  obtain r where r: "del_scan hash ?g i i = Some r" "scan_result hash ?g i r"
    using del_scan_from [OF i(1,3,1), of hash] by force
  show ?case
  proof (cases r)
    case At_empty
    with r At_empty_ok [OF less.prems] show ?thesis
      by (subst del_loop.simps) (simp add: Let_def)
  next
    case (Move_from j)
    let ?g' = "?g[i := ?g ! j]"
    have step: "del_loop hash gfns i i = del_loop hash ?g' j j"
      using r(1) Move_from by (subst del_loop.simps) (simp add: Let_def)
    have m: "scan_result hash ?g i (Move_from j)" using r(2) Move_from by simp
    then have "j < 64" by (simp add: scan_result_def)
    then have "entries (?g'[j := empty_slot]) = entries ?g"
      using entries_move [of i ?g j] i by simp
    with less.hyps [OF Move_from_shorter [OF less.prems m] Move_from_holed [OF less.prems m]]
    show ?thesis unfolding step by simp
  qed
qed

lemma del_entries:
  assumes "table_ok hash gfns" and "gfn \<noteq> empty_slot"
  shows "\<exists>gfns'. kvm_del_async_pf_gfn hash gfn gfns = Some gfns' \<and> table_ok hash gfns' \<and>
    entries gfns' = entries gfns - {#gfn#}"
proof -
  let ?i = "kvm_async_pf_gfn_slot hash gfns gfn"
  have len: "length gfns = 64" and ok: "probes_ok hash (\<lambda>_. False) gfns"
    using assms(1) by (auto simp: table_ok_def)
  have i: "?i < 64" using gfn_slot [OF refl refl, of hash gfns gfn] by blast
  show ?thesis
  proof (cases "gfns ! ?i = gfn")
    case False
    then have "gfn \<notin># entries gfns"
      using find_entries [OF assms] by (simp add: kvm_find_async_pf_gfn_def)
    with False assms(1) show ?thesis
      by (simp add: kvm_del_async_pf_gfn_def Let_def diff_single_trivial)
  next
    case True
    have "probes_ok hash (\<lambda>x. x = ?i) (gfns[?i := empty_slot])"
      unfolding probes_ok_def
    proof (intro allI impI)
      fix m x :: nat
      assume mx: "m < 64" "x < 64" and p: "gfns[?i := empty_slot] ! m \<noteq> empty_slot \<and>
        dist (kvm_async_pf_hash_fn hash (gfns[?i := empty_slot] ! m)) x <
        dist (kvm_async_pf_hash_fn hash (gfns[?i := empty_slot] ! m)) m"
      then have "m \<noteq> ?i" using len by auto
      with p probes_okD [OF ok mx] have "gfns ! x \<noteq> empty_slot" by simp
      then show "gfns[?i := empty_slot] ! x \<noteq> empty_slot \<or> x = ?i"
        by (cases "x = ?i") simp_all
    qed
    with i len have "holed hash (gfns[?i := empty_slot]) ?i" by (simp add: holed_def)
    from del_loop_ok [OF this] True assms(2) len i show ?thesis
      by (simp add: kvm_del_async_pf_gfn_def Let_def entries_clear)
  qed
qed

end
