(* ===== verification/Kvm_Async_Pf.thy ===== *)
theory Kvm_Async_Pf
  imports Kvm_Async_Hash Kvm_Exceptions
begin

text \<open>
  Asynchronous page faults of a virtual CPU (\<open>x86.c\<close>): the frames with an outstanding fault
  (an implementation of the bag interface), the control MSRs, and the notifications
  "page not present" and "page ready" through the page shared with the guest.
\<close>

section \<open>The interface of the table\<close>

text \<open>
  What the fault code relies on: a bag of frames with room for \<open>capacity\<close> of them, and
  operations that return and keep the invariant \<open>ok\<close>.
\<close>

locale page_bag =
  fixes ok :: "'t \<Rightarrow> bool"
    and bag :: "'t \<Rightarrow> 'g multiset"
    and valid :: "'g \<Rightarrow> bool"
    and capacity :: nat
    and add :: "'g \<Rightarrow> 't \<Rightarrow> 't option"
    and del :: "'g \<Rightarrow> 't \<Rightarrow> 't option"
    and find :: "'t \<Rightarrow> 'g \<Rightarrow> bool"
  assumes find_bag: "ok t \<Longrightarrow> valid g \<Longrightarrow> find t g \<longleftrightarrow> g \<in># bag t"
    and add_bag: "ok t \<Longrightarrow> valid g \<Longrightarrow> size (bag t) < capacity \<Longrightarrow>
      \<exists>t'. add g t = Some t' \<and> ok t' \<and> bag t' = add_mset g (bag t)"
    and del_bag: "ok t \<Longrightarrow> valid g \<Longrightarrow>
      \<exists>t'. del g t = Some t' \<and> ok t' \<and> bag t' = bag t - {#g#}"
begin

lemma add_someD:
  assumes "add g t = Some t'" "ok t" "valid g" "size (bag t) < capacity"
  shows "ok t'" and "bag t' = add_mset g (bag t)"
  using add_bag [OF assms(2-4)] assms(1) by auto

lemma del_someD:
  assumes "del g t = Some t'" "ok t" "valid g"
  shows "ok t'" and "bag t' = bag t - {#g#}"
  using del_bag [OF assms(2,3)] assms(1) by auto

lemma add_then_del:
  assumes "ok t" "valid g" "size (bag t) < capacity" "g \<notin># bag t"
  shows "\<exists>t' t''. add g t = Some t' \<and> find t' g \<and> del g t' = Some t'' \<and> \<not> find t'' g \<and>
    bag t'' = bag t"
proof -
  obtain t' where t': "add g t = Some t'" "ok t'" "bag t' = add_mset g (bag t)"
    using add_bag [OF assms(1-3)] by auto
  obtain t'' where t'': "del g t' = Some t''" "ok t''" "bag t'' = bag t"
    using del_bag [OF t'(2) assms(2)] t'(3) by auto
  show ?thesis
    using t' t'' find_bag [OF t'(2) assms(2)] find_bag [OF t''(2) assms(2)] assms(4) by auto
qed

end

lemma room_in_table:
  assumes "table_ok hash gfns" and "size (entries gfns) < ASYNC_PF_PER_VCPU"
  shows "empty_slot \<in> set gfns"
proof (rule ccontr)
  assume "empty_slot \<notin> set gfns"
  then have "filter_mset (\<lambda>g. g \<noteq> empty_slot) (mset gfns) = mset gfns"
    by (auto simp: filter_mset_eq_conv)
  then have "entries gfns = mset gfns" by (simp add: entries_def)
  with assms show False by (simp add: table_ok_def ASYNC_PF_PER_VCPU_def)
qed

interpretation apf: page_bag "table_ok hash" entries "\<lambda>g. g \<noteq> empty_slot" ASYNC_PF_PER_VCPU
  "kvm_add_async_pf_gfn hash" "kvm_del_async_pf_gfn hash" "kvm_find_async_pf_gfn hash"
  for hash
proof
  show "kvm_find_async_pf_gfn hash t g \<longleftrightarrow> g \<in># entries t"
    if "table_ok hash t" "g \<noteq> empty_slot" for t g
    using that by (rule find_entries)
  show "\<exists>t'. kvm_add_async_pf_gfn hash g t = Some t' \<and> table_ok hash t' \<and>
      entries t' = add_mset g (entries t)"
    if "table_ok hash t" "g \<noteq> empty_slot" "size (entries t) < ASYNC_PF_PER_VCPU" for t g
    using add_entries [OF that(1,2) room_in_table [OF that(1,3)]] .
  show "\<exists>t'. kvm_del_async_pf_gfn hash g t = Some t' \<and> table_ok hash t' \<and>
      entries t' = entries t - {#g#}"
    if "table_ok hash t" "g \<noteq> empty_slot" for t g
    using that by (rule del_entries)
qed

section \<open>State and parameters\<close>

datatype mp_state =
  KVM_MP_STATE_RUNNABLE | KVM_MP_STATE_HALTED | KVM_MP_STATE_AP_RESET_HOLD
| KVM_MP_STATE_INIT_RECEIVED | KVM_MP_STATE_UNINITIALIZED

text \<open>The page shared with the guest, \<open>struct kvm_vcpu_pv_apf_data\<close>.\<close>

record apf_data =
  apf_flags :: u32
  apf_token :: u32

text \<open>Calls of the generic part of KVM, in order.\<close>

datatype apf_call = Clear_completion_queue | Wakeup_all | Kick | Set_irq u16

record apf_vcpu =
  gfns :: "u64 list"
  msr_en_val :: u64
  msr_int_val :: u64
  apf_vec :: u16
  send_user_only :: bool
  delivery_as_pf_vmexit :: bool
  pageready_pending :: bool
  apf_halted :: bool
  mp_state :: mp_state
  apf_shared :: apf_data
  apf_ex :: ex_vcpu
  req_apf_halt :: bool
  req_apf_ready :: bool
  apf_calls :: "apf_call list"

text \<open>
  Tests that belong to other files, and whether an access to the shared page succeeds. An
  exception is pending if it is queued, or a vmexit for one.
\<close>

record apf_env =
  apf_hash :: hash_32
  apf_lapic_in_kernel :: bool
  kvm_lapic_enabled :: bool
  kvm_hlt_in_guest :: bool
  has_apf_vmexit :: bool
  has_apf_int :: bool
  apf_get_cpl :: int
  apf_is_paging :: bool
  event_needs_reinjection :: bool
  apf_exception_pending :: bool
  interrupt_allowed :: bool
  shared_init_ok :: bool
  shared_write_ok :: bool
  shared_read_ok :: bool
  apf_vmexit :: is_exception_vmexit

record async_pf_work =
  work_gfn :: u64
  work_token :: u32
  wakeup_all :: bool
  notpresent_injected :: bool

definition KVM_ASYNC_PF_ENABLED :: u64 where "KVM_ASYNC_PF_ENABLED = 1"
definition KVM_ASYNC_PF_SEND_ALWAYS :: u64 where "KVM_ASYNC_PF_SEND_ALWAYS = 2"
definition KVM_ASYNC_PF_DELIVERY_AS_PF_VMEXIT :: u64 where
  "KVM_ASYNC_PF_DELIVERY_AS_PF_VMEXIT = 4"
definition KVM_ASYNC_PF_DELIVERY_AS_INT :: u64 where "KVM_ASYNC_PF_DELIVERY_AS_INT = 8"
definition KVM_ASYNC_PF_VEC_MASK :: u64 where "KVM_ASYNC_PF_VEC_MASK = 0xff"
definition KVM_PV_REASON_PAGE_NOT_PRESENT :: u32 where "KVM_PV_REASON_PAGE_NOT_PRESENT = 1"

lemmas apf_codes = KVM_ASYNC_PF_ENABLED_def KVM_ASYNC_PF_SEND_ALWAYS_def
  KVM_ASYNC_PF_DELIVERY_AS_PF_VMEXIT_def KVM_ASYNC_PF_DELIVERY_AS_INT_def
  KVM_ASYNC_PF_VEC_MASK_def KVM_PV_REASON_PAGE_NOT_PRESENT_def

section \<open>The control MSRs\<close>

definition kvm_pv_async_pf_enabled :: "apf_vcpu \<Rightarrow> bool" where
  "kvm_pv_async_pf_enabled v \<longleftrightarrow>
     (let msk = KVM_ASYNC_PF_ENABLED OR KVM_ASYNC_PF_DELIVERY_AS_INT
      in msr_en_val v AND msk = msk)"

definition apf_log :: "apf_call \<Rightarrow> apf_vcpu \<Rightarrow> apf_vcpu" where
  "apf_log c v = v\<lparr>apf_calls := apf_calls v @ [c]\<rparr>"

definition kvm_pv_enable_async_pf :: "apf_env \<Rightarrow> u64 \<Rightarrow> apf_vcpu \<Rightarrow> apf_vcpu \<times> int" where
  "kvm_pv_enable_async_pf E data v =
     (if data AND 0x30 \<noteq> 0 then (v, 1)
      else if \<not> has_apf_vmexit E \<and> data AND KVM_ASYNC_PF_DELIVERY_AS_PF_VMEXIT \<noteq> 0 then (v, 1)
      else if \<not> has_apf_int E \<and> data AND KVM_ASYNC_PF_DELIVERY_AS_INT \<noteq> 0 then (v, 1)
      else if \<not> apf_lapic_in_kernel E then (v, if data \<noteq> 0 then 1 else 0)
      else
        let v = v\<lparr>msr_en_val := data\<rparr> in
        if \<not> kvm_pv_async_pf_enabled v then
          let v = apf_log Clear_completion_queue v;
              v = v\<lparr>gfns := kvm_async_pf_hash_reset (gfns v)\<rparr>
          in (v, 0)
        else if \<not> shared_init_ok E then (v, 1)
        else
          let v = v\<lparr>send_user_only := (data AND KVM_ASYNC_PF_SEND_ALWAYS = 0),
                    delivery_as_pf_vmexit := (data AND KVM_ASYNC_PF_DELIVERY_AS_PF_VMEXIT \<noteq> 0)\<rparr>
          in (apf_log Wakeup_all v, 0))"

definition kvm_pv_enable_async_pf_int :: "apf_env \<Rightarrow> u64 \<Rightarrow> apf_vcpu \<Rightarrow> apf_vcpu \<times> int" where
  "kvm_pv_enable_async_pf_int E data v =
     (if drop_bit 8 data \<noteq> 0 then (v, 1)
      else if \<not> apf_lapic_in_kernel E then (v, 1)
      else (v\<lparr>msr_int_val := data, apf_vec := ucast (data AND KVM_ASYNC_PF_VEC_MASK)\<rparr>, 0))"

section \<open>The shared page\<close>

definition apf_put_user_notpresent :: "apf_env \<Rightarrow> apf_vcpu \<Rightarrow> apf_vcpu \<times> bool" where
  "apf_put_user_notpresent E v =
     (if shared_write_ok E
      then (v\<lparr>apf_shared := (apf_shared v)\<lparr>apf_flags := KVM_PV_REASON_PAGE_NOT_PRESENT\<rparr>\<rparr>, False)
      else (v, True))"

definition apf_put_user_ready :: "apf_env \<Rightarrow> u32 \<Rightarrow> apf_vcpu \<Rightarrow> apf_vcpu \<times> bool" where
  "apf_put_user_ready E token v =
     (if shared_write_ok E then (v\<lparr>apf_shared := (apf_shared v)\<lparr>apf_token := token\<rparr>\<rparr>, False)
      else (v, True))"

definition apf_pageready_slot_free :: "apf_env \<Rightarrow> apf_vcpu \<Rightarrow> bool" where
  "apf_pageready_slot_free E v \<longleftrightarrow> shared_read_ok E \<and> apf_token (apf_shared v) = 0"

section \<open>Faults\<close>

definition kvm_can_deliver_async_pf :: "apf_env \<Rightarrow> apf_vcpu \<Rightarrow> bool" where
  "kvm_can_deliver_async_pf E v \<longleftrightarrow>
     (if \<not> kvm_pv_async_pf_enabled v then False
      else if send_user_only v \<and> apf_get_cpl E = 0 then False
      else if guest_mode (apf_ex v) then delivery_as_pf_vmexit v
      else apf_is_paging E)"

definition kvm_can_do_async_pf :: "apf_env \<Rightarrow> apf_vcpu \<Rightarrow> bool" where
  "kvm_can_do_async_pf E v \<longleftrightarrow>
     (if \<not> apf_lapic_in_kernel E \<or> event_needs_reinjection E \<or> apf_exception_pending E then False
      else if kvm_hlt_in_guest E \<and> \<not> kvm_can_deliver_async_pf E v then False
      else interrupt_allowed E)"

text \<open>\<open>None\<close>: the search for a free slot does not end.\<close>

definition kvm_arch_async_page_not_present ::
  "apf_env \<Rightarrow> async_pf_work \<Rightarrow> apf_vcpu \<Rightarrow> (apf_vcpu \<times> bool) option" where
  "kvm_arch_async_page_not_present E work v =
     (case kvm_add_async_pf_gfn (apf_hash E) (work_gfn work) (gfns v) of
        None \<Rightarrow> None
      | Some t \<Rightarrow> Some
          (let v = v\<lparr>gfns := t\<rparr>;
               (v', failed) = (if kvm_can_deliver_async_pf E v then apf_put_user_notpresent E v
                               else (v, True))
           in
           if \<not> failed then
             (v'\<lparr>apf_ex := kvm_inject_page_fault (apf_vmexit E) (apf_ex v')
                \<lparr>fault_error_code = 0, fault_address = ucast (work_token work),
                 async_page_fault = True\<rparr>\<rparr>, True)
           else (v'\<lparr>req_apf_halt := True\<rparr>, False)))"

text \<open>The work item is updated too: a broadcast gets the token of all ones.\<close>

definition kvm_arch_async_page_present ::
  "apf_env \<Rightarrow> async_pf_work \<Rightarrow> apf_vcpu \<Rightarrow> (apf_vcpu \<times> async_pf_work) option" where
  "kvm_arch_async_page_present E work v =
     (let work' = (if wakeup_all work then work\<lparr>work_token := - 1\<rparr> else work) in
      case (if wakeup_all work then Some (gfns v)
            else kvm_del_async_pf_gfn (apf_hash E) (work_gfn work) (gfns v)) of
        None \<Rightarrow> None
      | Some t \<Rightarrow> Some
          (let v = v\<lparr>gfns := t\<rparr>;
               (v', failed) =
                 (if (wakeup_all work \<or> notpresent_injected work) \<and> kvm_pv_async_pf_enabled v
                  then apf_put_user_ready E (work_token work') v else (v, True));
               v' = (if \<not> failed then apf_log (Set_irq (apf_vec v')) (v'\<lparr>pageready_pending := True\<rparr>)
                     else v')
           in (v'\<lparr>apf_halted := False, mp_state := KVM_MP_STATE_RUNNABLE\<rparr>, work')))"

definition kvm_arch_async_page_present_queued :: "apf_vcpu \<Rightarrow> apf_vcpu" where
  "kvm_arch_async_page_present_queued v =
     (let v = v\<lparr>req_apf_ready := True\<rparr> in
      if \<not> pageready_pending v then apf_log Kick v else v)"

definition kvm_arch_can_dequeue_async_page_present :: "apf_env \<Rightarrow> apf_vcpu \<Rightarrow> bool" where
  "kvm_arch_can_dequeue_async_page_present E v \<longleftrightarrow>
     (if \<not> kvm_pv_async_pf_enabled v then True
      else kvm_lapic_enabled E \<and> apf_pageready_slot_free E v)"

definition kvm_vcpu_running :: "apf_vcpu \<Rightarrow> bool" where
  "kvm_vcpu_running v \<longleftrightarrow> mp_state v = KVM_MP_STATE_RUNNABLE \<and> \<not> apf_halted v"

text \<open>Parts of larger functions: the artificial halt, and the acknowledging MSR.\<close>

definition apf_halt_request :: "apf_vcpu \<Rightarrow> apf_vcpu" where
  "apf_halt_request v =
     (if req_apf_halt v then v\<lparr>req_apf_halt := False, apf_halted := True\<rparr> else v)"

definition apf_ack :: "u64 \<Rightarrow> apf_vcpu \<Rightarrow> apf_vcpu" where
  "apf_ack data v = (if data AND 1 \<noteq> 0 then v\<lparr>pageready_pending := False\<rparr> else v)"

section \<open>Runs\<close>

text \<open>
  The steps of a vCPU with its outstanding faults: the work items whose page was not present
  and has not been reported ready, since the last reset
  (the code clears the completion queue with the table). The generic code queues at most
  \<open>ASYNC_PF_PER_VCPU\<close> items and takes an item from its queue only when
  \<open>kvm_arch_can_dequeue_async_page_present\<close> allows; frame numbers are far below all ones. The
  environment may differ in each step, except for the hash function.
\<close>

inductive apf_reach :: "hash_32 \<Rightarrow> apf_vcpu \<Rightarrow> u64 multiset \<Rightarrow> bool" for hash where
  start: "gfns v = kvm_async_pf_hash_reset t \<Longrightarrow> length t = ASYNC_PF_PER_VCPU \<Longrightarrow> apf_reach hash v {#}"
| not_present: "apf_reach hash v out \<Longrightarrow> apf_hash E = hash \<Longrightarrow> work_gfn w \<noteq> empty_slot \<Longrightarrow>
    size out < ASYNC_PF_PER_VCPU \<Longrightarrow> kvm_arch_async_page_not_present E w v = Some (v', r) \<Longrightarrow>
    apf_reach hash v' (add_mset (work_gfn w) out)"
| present: "apf_reach hash v out \<Longrightarrow> apf_hash E = hash \<Longrightarrow> work_gfn w \<noteq> empty_slot \<Longrightarrow>
    kvm_arch_can_dequeue_async_page_present E v \<Longrightarrow>
    kvm_arch_async_page_present E w v = Some (v', w') \<Longrightarrow>
    apf_reach hash v' (if wakeup_all w then out else out - {#work_gfn w#})"
| control: "apf_reach hash v out \<Longrightarrow> kvm_pv_enable_async_pf E data v = (v', r) \<Longrightarrow>
    apf_reach hash v'
      (if apf_calls v' = apf_calls v @ [Clear_completion_queue] then {#} else out)"
| interrupt: "apf_reach hash v out \<Longrightarrow> kvm_pv_enable_async_pf_int E data v = (v', r) \<Longrightarrow>
    apf_reach hash v' out"
| ack: "apf_reach hash v out \<Longrightarrow> apf_reach hash (apf_ack data v) out"
| halt: "apf_reach hash v out \<Longrightarrow> apf_reach hash (apf_halt_request v) out"
| queued: "apf_reach hash v out \<Longrightarrow> apf_reach hash (kvm_arch_async_page_present_queued v) out"
| guest: "apf_reach hash v out \<Longrightarrow> apf_reach hash (v\<lparr>apf_shared := d, apf_ex := x\<rparr>) out"

lemmas apf_defs = kvm_arch_async_page_not_present_def kvm_arch_async_page_present_def
  apf_put_user_notpresent_def apf_put_user_ready_def apf_log_def Let_def

lemma gfns_other [frame_simps]:
  "gfns (apf_log c v) = gfns v"
  "gfns (apf_ack data v) = gfns v"
  "gfns (apf_halt_request v) = gfns v"
  "gfns (kvm_arch_async_page_present_queued v) = gfns v"
  by (simp_all add: apf_log_def apf_ack_def apf_halt_request_def
      kvm_arch_async_page_present_queued_def Let_def)

lemma gfns_not_present:
  "kvm_arch_async_page_not_present E w v = Some (v', r) \<Longrightarrow>
    kvm_add_async_pf_gfn (apf_hash E) (work_gfn w) (gfns v) = Some (gfns v')"
  by (auto simp: apf_defs split: option.splits if_splits)

lemma gfns_present:
  "kvm_arch_async_page_present E w v = Some (v', w') \<Longrightarrow>
    (if wakeup_all w then gfns v' = gfns v
     else kvm_del_async_pf_gfn (apf_hash E) (work_gfn w) (gfns v) = Some (gfns v'))"
  by (auto simp: apf_defs split: option.splits if_splits)

lemma gfns_enable:
  "kvm_pv_enable_async_pf E data v = (v', r) \<Longrightarrow>
    gfns v' = (if apf_calls v' = apf_calls v @ [Clear_completion_queue]
               then kvm_async_pf_hash_reset (gfns v) else gfns v)"
  by (auto simp: kvm_pv_enable_async_pf_def apf_log_def Let_def split: if_splits)

lemma gfns_enable_int: "kvm_pv_enable_async_pf_int E data v = (v', r) \<Longrightarrow> gfns v' = gfns v"
  by (auto simp: kvm_pv_enable_async_pf_int_def split: if_splits)

lemma reset_table:
  assumes "table_ok hash t"
  shows "table_ok hash (kvm_async_pf_hash_reset t)" "entries (kvm_async_pf_hash_reset t) = {#}"
  using assms reset_ok [of t] by (simp_all add: table_ok_def)

lemma apf_reach_table:
  "apf_reach hash v out \<Longrightarrow> table_ok hash (gfns v) \<and> entries (gfns v) = out"
proof (induction rule: apf_reach.induct)
  case (start v t)
  then show ?case using reset_ok [of t] by (simp add: ASYNC_PF_PER_VCPU_def)
next
  case (not_present v out E w v' r)
  with apf.add_someD [OF gfns_not_present [OF not_present.hyps(5)]] show ?case by auto
next
  case (present v out E w v' w')
  show ?case
  proof (cases "wakeup_all w")
    case True
    with present gfns_present [OF present.hyps(5)] show ?thesis by simp
  next
    case False
    then have "kvm_del_async_pf_gfn hash (work_gfn w) (gfns v) = Some (gfns v')"
      using gfns_present [OF present.hyps(5)] present.hyps(2) by simp
    from apf.del_someD [OF this] present.IH present.hyps(3) False show ?thesis by auto
  qed
next
  case (control v out E data v' r)
  then show ?case using gfns_enable [OF control.hyps(2)] reset_table by auto
next
  case (interrupt v out E data v' r)
  then show ?case using gfns_enable_int by simp
qed (simp_all add: frame_simps)

section \<open>Properties\<close>

text \<open>A vCPU with faults enabled and delivered by interrupt, and an environment that allows all.\<close>

definition sample_apf :: "u64 list \<Rightarrow> apf_vcpu" where
  "sample_apf t =
     \<lparr>gfns = t, msr_en_val = 9, msr_int_val = 0xec, apf_vec = 0xec, send_user_only = False,
      delivery_as_pf_vmexit = False, pageready_pending = False, apf_halted = True,
      mp_state = KVM_MP_STATE_HALTED, apf_shared = \<lparr>apf_flags = 0, apf_token = 0\<rparr>,
      apf_ex = idle_vcpu, req_apf_halt = False, req_apf_ready = False, apf_calls = []\<rparr>"

definition sample_apf_env :: apf_env where
  "sample_apf_env =
     \<lparr>apf_hash = (\<lambda>g. ucast g), apf_lapic_in_kernel = True, kvm_lapic_enabled = True,
      kvm_hlt_in_guest = False, has_apf_vmexit = True, has_apf_int = True, apf_get_cpl = 3,
      apf_is_paging = True, event_needs_reinjection = False, apf_exception_pending = False,
      interrupt_allowed = True, shared_init_ok = True, shared_write_ok = True,
      shared_read_ok = True, apf_vmexit = no_vmexit\<rparr>"

definition sample_work :: "u64 \<Rightarrow> bool \<Rightarrow> async_pf_work" where
  "sample_work gfn all =
     \<lparr>work_gfn = gfn, work_token = 0x1001, wakeup_all = all, notpresent_injected = True\<rparr>"

lemma sample_apf_start: "apf_reach hash (sample_apf (replicate 64 empty_slot)) {#}"
  by (rule apf_reach.start [of _ "replicate 64 empty_slot"])
    (simp_all add: sample_apf_def reset_eq ASYNC_PF_PER_VCPU_def)

text \<open> C11. The table of a vCPU is the bag of its outstanding faults, whatever happened before:
  a frame is found exactly if a fault for it is outstanding, a fault can be added while fewer
  than 64 are outstanding, and reporting a page ready always returns, so no search for a free
  slot and no deletion loops for ever. \<close>

theorem apf_outstanding:
  assumes "apf_reach hash v out" and "g \<noteq> empty_slot" and "apf_hash E = hash" and "work_gfn w = g"
  shows "(kvm_find_async_pf_gfn hash (gfns v) g \<longleftrightarrow> g \<in># out) \<and>
    (size out < 64 \<longrightarrow> kvm_arch_async_page_not_present E w v \<noteq> None) \<and>
    kvm_arch_async_page_present E w v \<noteq> None"
proof -
  have t: "table_ok hash (gfns v)" "entries (gfns v) = out"
    using apf_reach_table [OF assms(1)] by auto
  have "kvm_arch_async_page_not_present E w v \<noteq> None" if "size out < 64"
    using apf.add_bag [OF t(1) assms(2)] that assms(3,4) t(2)
    by (auto simp: kvm_arch_async_page_not_present_def ASYNC_PF_PER_VCPU_def)
  moreover have "kvm_arch_async_page_present E w v \<noteq> None"
    using apf.del_bag [OF t(1) assms(2)] assms(3,4)
    by (auto simp: kvm_arch_async_page_present_def Let_def split: option.split)
  ultimately show ?thesis using apf.find_bag [OF t(1) assms(2)] t(2) by simp
qed

theorem apf_outstanding_witness:
  "\<exists>v r. kvm_arch_async_page_not_present sample_apf_env (sample_work 5 False)
       (sample_apf (replicate 64 empty_slot)) = Some (v, r) \<and>
     kvm_find_async_pf_gfn (apf_hash sample_apf_env) (gfns v) 5 \<and>
     \<not> kvm_find_async_pf_gfn (apf_hash sample_apf_env) (gfns v) 69"
proof -
  let ?E = sample_apf_env and ?w = "sample_work 5 False"
  have g: "work_gfn ?w = 5" "work_gfn ?w \<noteq> empty_slot" by (simp_all add: sample_work_def)
  from apf_outstanding [where E = ?E and w = ?w, OF sample_apf_start g(2)]
  have "kvm_arch_async_page_not_present ?E ?w (sample_apf (replicate 64 empty_slot)) \<noteq> None"
    by simp
  then obtain v r where run: "kvm_arch_async_page_not_present ?E ?w
      (sample_apf (replicate 64 empty_slot)) = Some (v, r)" by auto
  have "apf_reach (apf_hash ?E) v {#5#}"
    using apf_reach.not_present [OF sample_apf_start refl g(2) _ run] g(1)
    by (simp add: ASYNC_PF_PER_VCPU_def)
  from apf_outstanding [OF this, where g = 5 and E = ?E and w = ?w]
    apf_outstanding [OF this, where g = 69 and E = ?E and w = "sample_work 69 False"]
  have "kvm_find_async_pf_gfn (apf_hash ?E) (gfns v) 5 \<and>
    \<not> kvm_find_async_pf_gfn (apf_hash ?E) (gfns v) 69" by (simp add: sample_work_def)
  with run show ?thesis by blast
qed

text \<open> With all 64 slots taken the search for a free slot never ends. \<close>

theorem apf_full_table_hangs:
  assumes "length (gfns v) = 64" and "empty_slot \<notin> set (gfns v)"
  shows "kvm_arch_async_page_not_present E w v = None"
  using add_full [OF assms] by (simp add: kvm_arch_async_page_not_present_def)

theorem apf_full_table_hangs_witness:
  "kvm_arch_async_page_not_present sample_apf_env (sample_work 5 False)
     (sample_apf (replicate 64 7)) = None"
  by (rule apf_full_table_hangs) (simp_all add: sample_apf_def)

text \<open> Reporting a page ready lets the vCPU run, and tells the guest only if it can be
  told: then the guest has taken the previous token, the new one is in the shared page, and
  the interrupt it asked for is sent; otherwise the page and the interrupts are untouched. \<close>

theorem page_ready_notification:
  assumes "kvm_arch_can_dequeue_async_page_present E v"
    and "kvm_arch_async_page_present E w v = Some (v', w')"
  shows "kvm_vcpu_running v' \<and>
    (if (wakeup_all w \<or> notpresent_injected w) \<and> kvm_pv_async_pf_enabled v \<and> shared_write_ok E
     then apf_token (apf_shared v) = 0 \<and> pageready_pending v' \<and>
       apf_shared v' = (apf_shared v)\<lparr>apf_token := if wakeup_all w then - 1 else work_token w\<rparr> \<and>
       apf_calls v' = apf_calls v @ [Set_irq (apf_vec v)]
     else apf_shared v' = apf_shared v \<and> pageready_pending v' = pageready_pending v \<and>
       apf_calls v' = apf_calls v)"
proof -
  have en: "kvm_pv_async_pf_enabled (v\<lparr>gfns := t\<rparr>) = kvm_pv_async_pf_enabled v" for t
    by (simp add: kvm_pv_async_pf_enabled_def)
  show ?thesis
    using assms
    by (auto simp: apf_defs en kvm_arch_can_dequeue_async_page_present_def
        apf_pageready_slot_free_def kvm_vcpu_running_def split: option.splits if_splits)
qed

theorem page_ready_notification_witness:
  "\<exists>v w. kvm_arch_async_page_present sample_apf_env (sample_work 0 True) (sample_apf []) = Some (v, w) \<and>
     kvm_vcpu_running v \<and> apf_token (apf_shared v) = - 1 \<and> apf_calls v = [Set_irq 0xec]"
proof -
  have "kvm_arch_async_page_present sample_apf_env (sample_work 0 True) (sample_apf []) \<noteq> None"
    by (simp add: kvm_arch_async_page_present_def sample_work_def Let_def)
  then obtain v w where
    run: "kvm_arch_async_page_present sample_apf_env (sample_work 0 True) (sample_apf []) = Some (v, w)"
    by auto
  have "kvm_arch_can_dequeue_async_page_present sample_apf_env (sample_apf [])"
    by (simp add: kvm_arch_can_dequeue_async_page_present_def apf_pageready_slot_free_def
        sample_apf_env_def sample_apf_def)
  from page_ready_notification [OF this run] run show ?thesis
    by (simp add: sample_work_def sample_apf_def sample_apf_env_def kvm_pv_async_pf_enabled_def
        apf_codes)
qed

end
