(* ===== verification/Kvm_Msr_Intercept.thy ===== *)
theory Kvm_Msr_Intercept
  imports Kvm_Msr_Filter
begin

text \<open>
  What both vendors promise of the MSR accesses they intercept: a managed MSR is intercepted
  unless KVM wants to pass it through and the filter of user space allows it, and a change of
  the filter brings the bitmap of the hardware back in step. \<open>Vmx_Msr_Bitmap\<close> and
  \<open>Svm_Msrpm\<close> interpret the interface.
\<close>

section \<open>Accesses and requests\<close>

type_synonym msr_filter = "kvm_x86_msr_filter option"

datatype msr_access = Rd | Wr

fun filter_type :: "msr_access \<Rightarrow> u32" where
  "filter_type Rd = KVM_MSR_FILTER_READ"
| "filter_type Wr = KVM_MSR_FILTER_WRITE"

text \<open>
  A request makes each kind of access to an MSR pass through, be intercepted, or stay. What
  KVM wants to pass through is what the requests so far say.
\<close>

type_synonym msr_request = "msr_access \<Rightarrow> bool option"
type_synonym msr_wishes = "u32 \<Rightarrow> msr_access \<Rightarrow> bool"

definition asked :: "u32 \<Rightarrow> msr_request \<Rightarrow> msr_wishes \<Rightarrow> msr_wishes" where
  "asked m P w = (\<lambda>n a. if n = m \<and> P a \<noteq> None then the (P a) else w n a)"

text \<open>What the guest may then do without an exit.\<close>

definition passes_through :: "msr_filter \<Rightarrow> msr_wishes \<Rightarrow> msr_wishes" where
  "passes_through flt w = (\<lambda>n a. w n a \<and> kvm_msr_allowed flt n (filter_type a))"

text \<open>The MSRs of the local APIC, by the offset of the register.\<close>

definition APIC_BASE_MSR :: u32 where "APIC_BASE_MSR = 0x800"

definition X2APIC_MSR :: "u32 \<Rightarrow> u32" where
  "X2APIC_MSR x = APIC_BASE_MSR + drop_bit 4 x"

section \<open>The interface\<close>

locale msr_intercepts =
  fixes managed :: "u32 set"
    and shape :: "msr_request \<Rightarrow> bool"
    and inv :: "'s \<Rightarrow> bool"
    and hits :: "'s \<Rightarrow> u32 \<Rightarrow> msr_access \<Rightarrow> bool"
    and wants :: "'s \<Rightarrow> u32 \<Rightarrow> msr_access \<Rightarrow> bool"
    and req :: "msr_filter \<Rightarrow> u32 \<Rightarrow> msr_request \<Rightarrow> 's \<Rightarrow> 's"
    and refresh :: "msr_filter \<Rightarrow> 's \<Rightarrow> 's"
  assumes req_inv: "inv s \<Longrightarrow> m \<in> managed \<Longrightarrow> shape P \<Longrightarrow> inv (req f m P s)"
    and req_wants: "inv s \<Longrightarrow> m \<in> managed \<Longrightarrow> shape P \<Longrightarrow> n \<in> managed \<Longrightarrow>
      wants (req f m P s) n a = (if n = m \<and> P a \<noteq> None then the (P a) else wants s n a)"
    and req_hits: "inv s \<Longrightarrow> m \<in> managed \<Longrightarrow> shape P \<Longrightarrow> n \<in> managed \<Longrightarrow>
      hits (req f m P s) n a =
        (if n = m \<and> P a \<noteq> None then \<not> (the (P a) \<and> kvm_msr_allowed f n (filter_type a))
         else hits s n a)"
    and refresh_inv: "inv s \<Longrightarrow> inv (refresh f s)"
    and refresh_wants: "inv s \<Longrightarrow> n \<in> managed \<Longrightarrow> wants (refresh f s) n a = wants s n a"
    and refresh_hits: "inv s \<Longrightarrow> n \<in> managed \<Longrightarrow> wants s n a \<or> hits s n a \<Longrightarrow>
      hits (refresh f s) n a = (\<not> (wants s n a \<and> kvm_msr_allowed f n (filter_type a)))"
begin

definition follows :: "msr_wishes \<Rightarrow> msr_filter \<Rightarrow> 's \<Rightarrow> bool" where
  "follows w f s \<longleftrightarrow> inv s \<and>
     (\<forall>n \<in> managed. \<forall>a. wants s n a = w n a \<and> hits s n a = (\<not> passes_through f w n a))"

lemma followsI:
  assumes "inv s" and "\<And>n a. n \<in> managed \<Longrightarrow> wants s n a = w n a"
    and "\<And>n a. n \<in> managed \<Longrightarrow> hits s n a = (\<not> passes_through f w n a)"
  shows "follows w f s"
  unfolding follows_def using assms by (intro conjI ballI allI)

lemma followsD:
  assumes "follows w f s"
  shows "inv s"
    and "n \<in> managed \<Longrightarrow> wants s n a = w n a"
    and "n \<in> managed \<Longrightarrow> hits s n a = (\<not> passes_through f w n a)"
  using assms by (simp_all add: follows_def)

lemma follows_start:
  assumes "inv s" and "\<And>n a. n \<in> managed \<Longrightarrow> hits s n a" and "\<And>n a. n \<in> managed \<Longrightarrow> \<not> wants s n a"
  shows "follows (\<lambda>_ _. False) f s"
  by (rule followsI) (simp_all add: assms passes_through_def)

lemma follows_req:
  assumes "follows w f s" "m \<in> managed" "shape P"
  shows "follows (asked m P w) f (req f m P s)"
proof (rule followsI)
  note i = followsD(1) [OF assms(1)]
  show "inv (req f m P s)" by (rule req_inv [OF i assms(2,3)])
  fix n a assume n: "n \<in> managed"
  show "wants (req f m P s) n a = asked m P w n a"
    unfolding req_wants [OF i assms(2,3) n] followsD(2) [OF assms(1) n] asked_def ..
  show "hits (req f m P s) n a = (\<not> passes_through f (asked m P w) n a)"
    unfolding req_hits [OF i assms(2,3) n] followsD(3) [OF assms(1) n] asked_def passes_through_def
    by (cases "n = m"; cases "P a"; simp)
qed

lemma follows_refresh:
  assumes "follows w f s"
  shows "follows w g (refresh g s)"
proof (rule followsI)
  note i = followsD(1) [OF assms]
  show "inv (refresh g s)" by (rule refresh_inv [OF i])
  fix n a assume n: "n \<in> managed"
  show "wants (refresh g s) n a = w n a"
    unfolding refresh_wants [OF i n] by (rule followsD(2) [OF assms n])
  have "wants s n a \<or> hits s n a"
    using followsD(2,3) [OF assms n, of a] by (auto simp: passes_through_def)
  from refresh_hits [OF i n this, of g]
  show "hits (refresh g s) n a = (\<not> passes_through g w n a)"
    by (simp add: followsD(2) [OF assms n] passes_through_def)
qed

text \<open>Whatever else changes in the state does not matter.\<close>

lemma follows_cong:
  assumes "follows w f s" and "inv s'"
    and "\<And>n a. n \<in> managed \<Longrightarrow> wants s' n a = wants s n a"
    and "\<And>n a. n \<in> managed \<Longrightarrow> hits s' n a = hits s n a"
    and "\<And>n a. n \<in> managed \<Longrightarrow> w' n a = w n a"
  shows "follows w' f s'"
  by (rule followsI)
    (simp_all add: assms followsD(2,3) [OF assms(1)] passes_through_def)

end

end
