(* ===== verification/Svm_Msrpm.thy ===== *)
theory Svm_Msrpm
  imports Kvm_Msr_Intercept
begin

text \<open>
  The MSR permission map of \<open>svm.c\<close>: the array of bits the processor consults on RDMSR and
  WRMSR, the shadow of what KVM wants to pass through, and the list of map words that holds a
  bit KVM may clear. An MSR without a place in the map (\<open>BUG_ON\<close>) and a word outside of the
  map's 8 KB are \<open>None\<close>. \<open>svm_filter\<close> interprets
  the interface of \<open>Kvm_Msr_Intercept\<close>.
\<close>

section \<open>The MSRs KVM may pass through\<close>

record svm_direct_access_msrs =
  da_index :: u32
  da_always :: bool

definition MSR_INVALID :: u32 where "MSR_INVALID = 0xffffffff"
text \<open>The numbers of the MSRs and APIC registers are the processor's, as in the kernel's headers.\<close>

definition direct_access_always :: "u32 \<Rightarrow> svm_direct_access_msrs" where
  "direct_access_always m = \<lparr>da_index = m, da_always = True\<rparr>"

definition direct_access_later :: "u32 \<Rightarrow> svm_direct_access_msrs" where
  "direct_access_later m = \<lparr>da_index = m, da_always = False\<rparr>"

definition direct_access_msrs :: "svm_direct_access_msrs list" where
  "direct_access_msrs =
     [direct_access_always 0xc0000081, \<comment> \<open>STAR\<close>
      direct_access_always 0x174, \<comment> \<open>SYSENTER CS, EIP, ESP\<close>
      direct_access_later 0x176,
      direct_access_later 0x175,
      direct_access_always 0xc0000101, \<comment> \<open>GS, FS and kernel GS base\<close>
      direct_access_always 0xc0000100,
      direct_access_always 0xc0000102,
      direct_access_always 0xc0000082, \<comment> \<open>LSTAR, CSTAR, SYSCALL mask\<close>
      direct_access_always 0xc0000083,
      direct_access_always 0xc0000084,
      direct_access_later 0x48, \<comment> \<open>SPEC_CTRL, PRED_CMD, FLUSH_CMD\<close>
      direct_access_later 0x49,
      direct_access_later 0x10b,
      direct_access_later 0x1d9, \<comment> \<open>DEBUGCTL and the last branch and interrupt addresses\<close>
      direct_access_later 0x1db,
      direct_access_later 0x1dc,
      direct_access_later 0x1dd,
      direct_access_later 0x1de,
      direct_access_later 0xda0, \<comment> \<open>XSS, EFER, PAT\<close>
      direct_access_later 0xc0000080,
      direct_access_later 0x277,
      direct_access_always 0xc0010130, \<comment> \<open>the GHCB of SEV-ES\<close>
      direct_access_later 0xc0000103] @ \<comment> \<open>TSC_AUX\<close>
     map (\<lambda>r. direct_access_later (X2APIC_MSR r))
       [0x20, 0x30, 0x80, 0x90, 0xa0, 0xb0, 0xc0, 0xd0, 0xe0, 0xf0, 0x100, 0x180, 0x200, 0x280,
        0x300, 0x310, 0x330, 0x340, 0x350, 0x360, 0x370, 0x380, 0x390, 0x3e0] @
     [direct_access_later MSR_INVALID]"

section \<open>The map\<close>

definition msrpm_ranges :: "u32 list" where
  "msrpm_ranges = [0, 0xc0000000, 0xc0010000]"

definition MSRS_RANGE_SIZE :: u32 where "MSRS_RANGE_SIZE = 2048"
definition MSRS_IN_RANGE :: u32 where "MSRS_IN_RANGE = MSRS_RANGE_SIZE * 8 div 2"

fun offset_loop :: "u32 list \<Rightarrow> u32 \<Rightarrow> u32 \<Rightarrow> u32" where
  "offset_loop [] i msr = MSR_INVALID"
| "offset_loop (r # rs) i msr =
     (if msr < r \<or> msr \<ge> r + MSRS_IN_RANGE then offset_loop rs (i + 1) msr
      else ((msr - r) div 4 + i * MSRS_RANGE_SIZE) div 4)"

definition svm_msrpm_offset :: "u32 \<Rightarrow> u32" where
  "svm_msrpm_offset msr = offset_loop msrpm_ranges 0 msr"

type_synonym msrpm = "nat \<Rightarrow> u32"

text \<open>The map as 32-bit words: \<open>MSRPM_SIZE\<close> is two pages.\<close>

definition MSRPM_WORDS :: nat where "MSRPM_WORDS = 2048"

text \<open>
  The rest of the vCPU's state: the shadow bitmaps (a set bit is an access to pass through),
  whether the x2APIC MSRs are intercepted, and what the change of a map is noted in for nested
  guests and for Hyper-V.
\<close>

record svm_msrs =
  svm_shadow_read :: "nat \<Rightarrow> bool"
  svm_shadow_write :: "nat \<Rightarrow> bool"
  x2avic_msrs_intercepted :: bool
  svm_force_recalc :: bool
  nested_enlightenments_dirty :: bool

definition svm_vcpu_alloc_msrpm :: "bool \<Rightarrow> msrpm option" where
  "svm_vcpu_alloc_msrpm pages = (if \<not> pages then None else Some (\<lambda>_. 0xffffffff))"

section \<open>Operations\<close>

fun slot_scan :: "svm_direct_access_msrs list \<Rightarrow> nat \<Rightarrow> u32 \<Rightarrow> nat option" where
  "slot_scan [] i msr = None"
| "slot_scan (d # ds) i msr =
     (if da_index d = MSR_INVALID then None
      else if da_index d = msr then Some i
      else slot_scan ds (Suc i) msr)"

definition direct_access_msr_slot :: "u32 \<Rightarrow> nat option" where
  "direct_access_msr_slot msr = slot_scan direct_access_msrs 0 msr"

definition set_shadow_msr_intercept :: "u32 \<Rightarrow> bool \<Rightarrow> bool \<Rightarrow> svm_msrs \<Rightarrow> svm_msrs" where
  "set_shadow_msr_intercept msr read write v =
     (case direct_access_msr_slot msr of
        None \<Rightarrow> v
      | Some slot \<Rightarrow>
          v\<lparr>svm_shadow_read := (svm_shadow_read v)(slot := read),
            svm_shadow_write := (svm_shadow_write v)(slot := write)\<rparr>)"

definition read_bit :: "u32 \<Rightarrow> nat" where
  "read_bit msr = unat (2 * (msr AND 0x0f))"

definition write_bit :: "u32 \<Rightarrow> nat" where
  "write_bit msr = unat (2 * (msr AND 0x0f) + 1)"

definition svm_msr_write_intercepted :: "msrpm \<Rightarrow> u32 \<Rightarrow> bool option" where
  "svm_msr_write_intercepted pm msr =
     (let offset = svm_msrpm_offset msr in
      if offset = MSR_INVALID \<or> MSRPM_WORDS \<le> unat offset then None
      else let tmp = ucast (pm (unat offset)) :: u64 in Some (bit tmp (write_bit msr)))"

text \<open>\<open>read\<close> and \<open>write\<close> say what to pass through; the filter can only take it back.\<close>

definition set_msr_interception_bitmap ::
  "msr_filter \<Rightarrow> u32 \<Rightarrow> bool \<Rightarrow> bool \<Rightarrow> svm_msrs \<times> msrpm \<Rightarrow> (svm_msrs \<times> msrpm) option" where
  "set_msr_interception_bitmap flt msr read write = (\<lambda>(v, pm).
     let read = (read \<and> kvm_msr_allowed flt msr KVM_MSR_FILTER_READ);
         write = (write \<and> kvm_msr_allowed flt msr KVM_MSR_FILTER_WRITE);
         offset = svm_msrpm_offset msr
     in
     if offset = MSR_INVALID \<or> MSRPM_WORDS \<le> unat offset then None
     else
       let tmp = ucast (pm (unat offset)) :: u64;
           tmp = (if read then unset_bit (read_bit msr) tmp else set_bit (read_bit msr) tmp);
           tmp = (if write then unset_bit (write_bit msr) tmp else set_bit (write_bit msr) tmp)
       in Some (v\<lparr>nested_enlightenments_dirty := True, svm_force_recalc := True\<rparr>,
                pm(unat offset := ucast tmp)))"

definition set_msr_interception ::
  "msr_filter \<Rightarrow> u32 \<Rightarrow> bool \<Rightarrow> bool \<Rightarrow> svm_msrs \<times> msrpm \<Rightarrow> (svm_msrs \<times> msrpm) option" where
  "set_msr_interception flt msr read write = (\<lambda>(v, pm).
     set_msr_interception_bitmap flt msr read write
       (set_shadow_msr_intercept msr read write v, pm))"

fun init_msrpm_loop ::
  "msr_filter \<Rightarrow> svm_direct_access_msrs list \<Rightarrow> svm_msrs \<times> msrpm \<Rightarrow> (svm_msrs \<times> msrpm) option" where
  "init_msrpm_loop flt [] s = Some s"
| "init_msrpm_loop flt (d # ds) s =
     (if da_index d = MSR_INVALID then Some s
      else if \<not> da_always d then init_msrpm_loop flt ds s
      else Option.bind (set_msr_interception flt (da_index d) True True s)
             (init_msrpm_loop flt ds))"

definition svm_vcpu_init_msrpm ::
  "msr_filter \<Rightarrow> svm_msrs \<times> msrpm \<Rightarrow> (svm_msrs \<times> msrpm) option" where
  "svm_vcpu_init_msrpm flt s = init_msrpm_loop flt direct_access_msrs s"

text \<open>The list index is a signed integer: MSRs from \<open>2^31\<close> on are negative.\<close>

fun x2apic_loop ::
  "msr_filter \<Rightarrow> bool \<Rightarrow> svm_direct_access_msrs list \<Rightarrow> svm_msrs \<times> msrpm \<Rightarrow>
   (svm_msrs \<times> msrpm) option" where
  "x2apic_loop flt intercept [] s = Some s"
| "x2apic_loop flt intercept (d # ds) s =
     (if da_index d <s APIC_BASE_MSR \<or> APIC_BASE_MSR + 0xff <s da_index d
      then x2apic_loop flt intercept ds s
      else Option.bind (set_msr_interception flt (da_index d) (\<not> intercept) (\<not> intercept) s)
             (x2apic_loop flt intercept ds))"

definition svm_set_x2apic_msr_interception ::
  "bool \<Rightarrow> msr_filter \<Rightarrow> bool \<Rightarrow> svm_msrs \<times> msrpm \<Rightarrow> (svm_msrs \<times> msrpm) option" where
  "svm_set_x2apic_msr_interception x2avic_enabled flt intercept s =
     (if intercept = x2avic_msrs_intercepted (fst s) then Some s
      else if \<not> x2avic_enabled then Some s
      else map_option (\<lambda>(v, pm). (v\<lparr>x2avic_msrs_intercepted := intercept\<rparr>, pm))
             (x2apic_loop flt intercept direct_access_msrs s))"

fun svm_filter_loop ::
  "msr_filter \<Rightarrow> svm_direct_access_msrs list \<Rightarrow> nat \<Rightarrow> svm_msrs \<times> msrpm \<Rightarrow>
   (svm_msrs \<times> msrpm) option" where
  "svm_filter_loop flt [] i s = Some s"
| "svm_filter_loop flt (d # ds) i s =
     (if da_index d = MSR_INVALID then Some s
      else Option.bind
             (set_msr_interception_bitmap flt (da_index d) (svm_shadow_read (fst s) i)
               (svm_shadow_write (fst s) i) s)
             (svm_filter_loop flt ds (Suc i)))"

definition svm_msr_filter_changed ::
  "msr_filter \<Rightarrow> svm_msrs \<times> msrpm \<Rightarrow> (svm_msrs \<times> msrpm) option" where
  "svm_msr_filter_changed flt s = svm_filter_loop flt direct_access_msrs 0 s"

section \<open>The words a nested guest's map is merged from\<close>

text \<open>\<open>msrpm_offsets\<close> is an array whose free entries are \<open>MSR_INVALID\<close>; \<open>None\<close> is \<open>BUG\<close>.\<close>

fun add_msr_offset :: "u32 \<Rightarrow> u32 list \<Rightarrow> u32 list option" where
  "add_msr_offset offset [] = None"
| "add_msr_offset offset (x # xs) =
     (if x = offset then Some (x # xs)
      else if x \<noteq> MSR_INVALID then map_option ((#) x) (add_msr_offset offset xs)
      else Some (offset # xs))"

fun init_offsets_loop :: "svm_direct_access_msrs list \<Rightarrow> u32 list \<Rightarrow> u32 list option" where
  "init_offsets_loop [] offs = Some offs"
| "init_offsets_loop (d # ds) offs =
     (if da_index d = MSR_INVALID then Some offs
      else let offset = svm_msrpm_offset (da_index d) in
           if offset = MSR_INVALID then None
           else Option.bind (add_msr_offset offset offs) (init_offsets_loop ds))"

definition init_msrpm_offsets :: "nat \<Rightarrow> u32 list option" where
  "init_msrpm_offsets MSRPM_OFFSETS =
     init_offsets_loop direct_access_msrs (replicate MSRPM_OFFSETS MSR_INVALID)"

section \<open>Cells of the map\<close>

definition svm_managed :: "u32 list" where
  "svm_managed = map da_index (butlast direct_access_msrs)"

lemma managed_set: "da_index ` set (butlast direct_access_msrs) = set svm_managed"
  by (simp add: svm_managed_def)

fun access_bit :: "u32 \<Rightarrow> msr_access \<Rightarrow> nat" where
  "access_bit msr Rd = read_bit msr"
| "access_bit msr Wr = write_bit msr"

text \<open>
  The processor's view, from the layout in its manual: each MSR has two bits, the lower one for
  reads and the upper one for writes; the MSRs from 0, \<open>0xc0000000\<close> and \<open>0xc0010000\<close> on, 8192 of each, have
  their bits from byte 0, \<open>0x800\<close> and \<open>0x1000\<close> on. A set bit makes the access exit, as does an MSR
  without bits.
\<close>

definition msrpm_position :: "u32 \<Rightarrow> msr_access \<Rightarrow> nat option" where
  "msrpm_position msr a =
     (let n = unat msr; rw = (case a of Rd \<Rightarrow> 0 | Wr \<Rightarrow> 1) in
      if n < 0x2000 then Some (2 * n + rw)
      else if 0xc0000000 \<le> n \<and> n < 0xc0002000 then Some (8 * 0x800 + 2 * (n - 0xc0000000) + rw)
      else if 0xc0010000 \<le> n \<and> n < 0xc0012000 then Some (8 * 0x1000 + 2 * (n - 0xc0010000) + rw)
      else None)"

definition svm_exits :: "msrpm \<Rightarrow> u32 \<Rightarrow> msr_access \<Rightarrow> bool" where
  "svm_exits pm msr a =
     (case msrpm_position msr a of None \<Rightarrow> True | Some p \<Rightarrow> bit (pm (p div 32)) (p mod 32))"

fun svm_passes :: "svm_msrs \<Rightarrow> nat \<Rightarrow> msr_access \<Rightarrow> bool" where
  "svm_passes v i Rd = svm_shadow_read v i"
| "svm_passes v i Wr = svm_shadow_write v i"

lemma direct_access_split: "direct_access_msrs = butlast direct_access_msrs @ [direct_access_later MSR_INVALID]"
  by (simp add: direct_access_msrs_def)

lemma managed_offsets: "list_all (\<lambda>m. svm_msrpm_offset m \<noteq> MSR_INVALID \<and> m \<noteq> MSR_INVALID) svm_managed"
  by code_simp

lemma managed_cells: "distinct (map (\<lambda>m. (svm_msrpm_offset m, m AND 0x0f)) svm_managed)"
  by code_simp

lemma managed_distinct: "distinct svm_managed"
  using managed_cells by (simp add: distinct_map)

lemma cell_inj:
  assumes "m \<in> set svm_managed" "n \<in> set svm_managed"
    and "svm_msrpm_offset m = svm_msrpm_offset n" "m AND 0x0f = n AND 0x0f"
  shows "m = n"
proof -
  have "inj_on (\<lambda>m. (svm_msrpm_offset m, m AND 0x0f)) (set svm_managed)"
    using managed_cells by (simp add: distinct_map)
  from inj_onD [OF this _ assms(1,2)] assms(3,4) show ?thesis by simp
qed

lemma nibble_less: "unat (m AND 0x0f) < 16" for m :: u32
proof -
  have "m AND 0x0f \<le> 0x0f" by (rule word_and_le1)
  then show ?thesis by (simp add: word_le_nat_alt)
qed

lemma access_bits:
  "read_bit m = 2 * unat (m AND 0x0f)"
  "write_bit m = 2 * unat (m AND 0x0f) + 1"
  using nibble_less [of m] by (simp_all add: read_bit_def write_bit_def unat_word_ariths)

lemma access_bit_less: "access_bit m a < 32"
  using nibble_less [of m] by (cases a) (simp_all add: access_bits)

text \<open>The code's words and bits are those of the layout, and lie in the map.\<close>

lemma nibble_mod: "unat (m AND 0x0f) = unat m mod 16" for m :: u32
proof -
  have "m AND 0x0f = take_bit 4 m" by (simp add: take_bit_eq_mask mask_eq_exp_minus_1)
  then show ?thesis by (simp add: take_bit_eq_mod unat_mod)
qed

lemma access_bit_mod: "access_bit m a = 2 * (unat m mod 16) + (case a of Rd \<Rightarrow> 0 | Wr \<Rightarrow> 1)"
  by (cases a) (simp_all add: access_bits nibble_mod)

lemma range_word:
  assumes "r \<le> m" "unat (m - r) < 8192" "i \<le> 2" "unat r mod 16 = 0"
  defines "off \<equiv> ((m - r) div 4 + i * MSRS_RANGE_SIZE) div 4"
  shows "unat off = (unat m - unat r) div 16 + 512 * unat i"
    "32 * unat off + access_bit m a =
       16384 * unat i + 2 * (unat m - unat r) + (case a of Rd \<Rightarrow> 0 | Wr \<Rightarrow> 1)"
proof -
  let ?k = "unat m - unat r"
  have k: "unat (m - r) = ?k" using assms(1) by (simp add: unat_sub)
  have i: "unat i \<le> 2" using assms(3) by (simp add: word_le_nat_alt)
  have d: "unat ((m - r) div 4) = ?k div 4" by (simp add: unat_div k)
  have t: "unat (i * MSRS_RANGE_SIZE) = unat i * 2048"
    using i by (simp add: MSRS_RANGE_SIZE_def unat_word_ariths)
  have kd: "?k div 4 \<le> 2048" using assms(2) k by linarith
  have "unat ((m - r) div 4 + i * MSRS_RANGE_SIZE) = ?k div 4 + unat i * 2048"
    using kd i by (simp add: unat_word_ariths(1) d t)
  then have "unat off = (?k div 4 + unat i * 2048) div 4" by (simp add: off_def unat_div)
  also have "\<dots> = ?k div 16 + 512 * unat i"
  proof -
    have "?k div 4 + unat i * 2048 = ?k div 4 + 4 * (512 * unat i)" by simp
    then show ?thesis by (simp add: div_mult2_eq [symmetric])
  qed
  finally show o: "unat off = ?k div 16 + 512 * unat i" .
  have le: "unat r \<le> unat m" using assms(1) by (simp add: word_le_nat_alt)
  obtain q where q: "unat r = 16 * q" using assms(4) by (metis mod_0_imp_dvd dvdE)
  have "unat m mod 16 = ?k mod 16"
  proof -
    have "unat m = ?k + 16 * q" using le q by simp
    then show ?thesis by (metis mod_mult_self2 mult.commute)
  qed
  moreover have "16 * (?k div 16) + ?k mod 16 = ?k" by simp
  ultimately have "32 * (?k div 16) + 2 * (unat m mod 16) = 2 * ?k" by linarith
  then show "32 * unat off + access_bit m a =
       16384 * unat i + 2 * ?k + (case a of Rd \<Rightarrow> 0 | Wr \<Rightarrow> 1)"
    by (simp add: o access_bit_mod)
qed

lemma offset_layout:
  assumes "svm_msrpm_offset m \<noteq> MSR_INVALID"
  shows "msrpm_position m a = Some (32 * unat (svm_msrpm_offset m) + access_bit m a)"
    "unat (svm_msrpm_offset m) < MSRPM_WORDS"
proof -
  consider (a) "m < 0x2000" "svm_msrpm_offset m = ((m - 0) div 4 + 0 * MSRS_RANGE_SIZE) div 4"
    | (b) "0xc0000000 \<le> m" "m < 0xc0002000" "svm_msrpm_offset m = ((m - 0xc0000000) div 4 + 1 * MSRS_RANGE_SIZE) div 4"
    | (c) "0xc0010000 \<le> m" "m < 0xc0012000" "svm_msrpm_offset m = ((m - 0xc0010000) div 4 + 2 * MSRS_RANGE_SIZE) div 4"
    using assms by (auto simp: svm_msrpm_offset_def msrpm_ranges_def MSRS_IN_RANGE_def MSRS_RANGE_SIZE_def
        not_less not_le split: if_splits)
  then have "msrpm_position m a = Some (32 * unat (svm_msrpm_offset m) + access_bit m a) \<and>
      unat (svm_msrpm_offset m) < MSRPM_WORDS"
  proof cases
    case a
    then have n: "unat m < 0x2000" by (simp add: word_less_nat_alt)
    show ?thesis using range_word(1) [of 0 m 0] range_word(2) [of 0 m 0 a] n
      by (simp only: a(2)) (simp add: msrpm_position_def MSRPM_WORDS_def)
  next
    case b
    then have n: "0xc0000000 \<le> unat m" "unat m < 0xc0002000" by (simp_all add: word_less_nat_alt word_le_nat_alt)
    then have k: "unat (m - 0xc0000000) < 8192" using b(1) by (simp add: unat_sub)
    show ?thesis using range_word(1) [OF b(1) k, of 1] range_word(2) [OF b(1) k, of 1 a] n
      by (simp only: b(3)) (simp add: msrpm_position_def MSRPM_WORDS_def)
  next
    case c
    then have n: "0xc0010000 \<le> unat m" "unat m < 0xc0012000" by (simp_all add: word_less_nat_alt word_le_nat_alt)
    then have k: "unat (m - 0xc0010000) < 8192" using c(1) by (simp add: unat_sub)
    show ?thesis using range_word(1) [OF c(1) k, of 2] range_word(2) [OF c(1) k, of 2 a] n
      by (simp only: c(3)) (simp add: msrpm_position_def MSRPM_WORDS_def)
  qed
  then show "msrpm_position m a = Some (32 * unat (svm_msrpm_offset m) + access_bit m a)"
    "unat (svm_msrpm_offset m) < MSRPM_WORDS" by simp_all
qed

lemma managed_valid:
  "m \<in> set svm_managed \<Longrightarrow> svm_msrpm_offset m \<noteq> MSR_INVALID"
  "m \<in> set svm_managed \<Longrightarrow> m \<noteq> MSR_INVALID"
  "m \<in> set svm_managed \<Longrightarrow> \<not> MSRPM_WORDS \<le> unat (svm_msrpm_offset m)"
  using managed_offsets offset_layout(2) by (simp_all add: list_all_iff not_le)

lemma svm_exits_cell:
  assumes "m \<in> set svm_managed"
  shows "svm_exits pm m a = bit (pm (unat (svm_msrpm_offset m))) (access_bit m a)"
  using offset_layout(1) [OF managed_valid(1) [OF assms], of a] access_bit_less [of m a]
  by (simp add: svm_exits_def)

lemma access_bit_eq_iff:
  "access_bit m a = access_bit n b \<longleftrightarrow> m AND 0x0f = n AND 0x0f \<and> a = b"
proof -
  have "2 * x \<noteq> Suc (2 * y)" for x y :: nat by presburger
  from this this [symmetric] show ?thesis
    by (cases a; cases b) (simp_all add: access_bits word_unat_eq_iff)
qed

section \<open>What the operations do to the cells\<close>

lemma bit_word32_of_64: "k < 32 \<Longrightarrow> bit (ucast (x :: u64) :: u32) k = bit x k"
  by (simp add: bit_ucast_iff)

lemma bit_word64_of_32: "k < 32 \<Longrightarrow> bit (ucast (x :: u32) :: u64) k = bit x k"
  by (simp add: bit_ucast_iff)

text \<open>The bits of the word after the two updates.\<close>

lemma interception_word:
  fixes x :: u32 and m :: u32 and r w :: bool
  defines "t \<equiv> ucast x :: u64"
  defines "t1 \<equiv> (if r then unset_bit (read_bit m) t else set_bit (read_bit m) t)"
  defines "t2 \<equiv> (if w then unset_bit (write_bit m) t1 else set_bit (write_bit m) t1)"
  shows "k < 32 \<Longrightarrow> bit (ucast t2 :: u32) k =
    (if k = read_bit m then \<not> r else if k = write_bit m then \<not> w else bit x k)"
  by (simp add: bit_word32_of_64 t2_def t1_def t_def access_bits bit_set_bit_iff bit_unset_bit_iff
      bit_word64_of_32)

lemma interception_bitmap:
  assumes m: "m \<in> set svm_managed" and n: "n \<in> set svm_managed"
  obtains v' pm' where
    "set_msr_interception_bitmap flt m r w (v, pm) = Some (v', pm')"
    "\<forall>i a. svm_passes v' i a = svm_passes v i a"
    "\<forall>a. svm_exits pm' n a =
      (if n = m then \<not> ((case a of Rd \<Rightarrow> r | Wr \<Rightarrow> w) \<and> kvm_msr_allowed flt m (filter_type a))
       else svm_exits pm n a)"
proof -
  let ?r = "r \<and> kvm_msr_allowed flt m KVM_MSR_FILTER_READ"
  let ?w = "w \<and> kvm_msr_allowed flt m KVM_MSR_FILTER_WRITE"
  let ?o = "unat (svm_msrpm_offset m)"
  let ?t = "ucast (pm ?o) :: u64"
  let ?t1 = "if ?r then unset_bit (read_bit m) ?t else set_bit (read_bit m) ?t"
  let ?t2 = "if ?w then unset_bit (write_bit m) ?t1 else set_bit (write_bit m) ?t1"
  let ?v = "v\<lparr>nested_enlightenments_dirty := True, svm_force_recalc := True\<rparr>"
  let ?pm = "pm(?o := ucast ?t2)"
  have s: "set_msr_interception_bitmap flt m r w (v, pm) = Some (?v, ?pm)"
    using managed_valid(1,3) [OF m] by (simp add: set_msr_interception_bitmap_def Let_def)
  have p: "svm_passes ?v i a = svm_passes v i a" for i a by (cases a) simp_all
  have e: "svm_exits ?pm n a =
      (if n = m then \<not> ((case a of Rd \<Rightarrow> r | Wr \<Rightarrow> w) \<and> kvm_msr_allowed flt m (filter_type a))
       else svm_exits pm n a)" for a
  proof (cases "svm_msrpm_offset n = svm_msrpm_offset m")
    case True
    have "svm_exits ?pm n a =
        (if access_bit n a = read_bit m then \<not> ?r else if access_bit n a = write_bit m then \<not> ?w
         else bit (pm ?o) (access_bit n a))"
      using interception_word [OF access_bit_less [of n a], where m = m and r = ?r and w = ?w and x = "pm ?o"]
      by (simp add: svm_exits_cell [OF n] True)
    also have "\<dots> = (if n = m then (case a of Rd \<Rightarrow> \<not> ?r | Wr \<Rightarrow> \<not> ?w) else svm_exits pm n a)"
      using access_bit_eq_iff [of n a m Rd] access_bit_eq_iff [of n a m Wr]
        cell_inj [OF n m True] True
      by (auto simp: svm_exits_cell [OF n] split: msr_access.split)
    finally show ?thesis by (cases a) simp_all
  next
    case False
    then have "n \<noteq> m" "unat (svm_msrpm_offset n) \<noteq> ?o" by (auto dest: unsigned_word_eqI)
    then show ?thesis by (simp add: svm_exits_cell [OF n])
  qed
  from s p e show ?thesis by (intro that allI)
qed

lemma slot_scan_nth:
  "distinct (map da_index ds) \<Longrightarrow> MSR_INVALID \<notin> set (map da_index ds) \<Longrightarrow> k < length ds \<Longrightarrow>
   slot_scan (ds @ [direct_access_later MSR_INVALID]) i (da_index (ds ! k)) = Some (i + k)"
proof (induction ds arbitrary: i k)
  case (Cons d ds)
  show ?case
  proof (cases k)
    case (Suc j)
    with Cons.prems have j: "j < length ds" by simp
    then have "da_index d \<noteq> da_index (ds ! j)" using Cons.prems(1) nth_mem [OF j] by force
    moreover have "da_index d \<noteq> MSR_INVALID" using Cons.prems(2) by force
    ultimately show ?thesis using Cons.IH [of j "Suc i"] Cons.prems Suc j by simp
  qed (use Cons.prems in force)
qed simp

lemma slot_nth:
  assumes "k < length svm_managed"
  shows "direct_access_msr_slot (svm_managed ! k) = Some k"
proof -
  have "MSR_INVALID \<notin> set svm_managed" using managed_valid(2) by blast
  then show ?thesis
    using slot_scan_nth [of "butlast direct_access_msrs" k 0] assms managed_distinct
      direct_access_split
    by (simp add: direct_access_msr_slot_def svm_managed_def)
qed

lemma slot_inj:
  assumes "m \<in> set svm_managed" "n \<in> set svm_managed"
  obtains i j where "direct_access_msr_slot m = Some i" "direct_access_msr_slot n = Some j"
    "i = j \<longleftrightarrow> m = n"
proof -
  obtain i j where ij: "m = svm_managed ! i" "i < length svm_managed"
    "n = svm_managed ! j" "j < length svm_managed"
    using assms by (metis in_set_conv_nth)
  then show ?thesis
    using that [of i j] slot_nth nth_eq_iff_index_eq [OF managed_distinct] by simp
qed

fun svm_wants :: "svm_msrs \<Rightarrow> u32 \<Rightarrow> msr_access \<Rightarrow> bool" where
  "svm_wants v msr a = svm_passes v (the (direct_access_msr_slot msr)) a"

lemma set_interception:
  assumes m: "m \<in> set svm_managed" and n: "n \<in> set svm_managed"
  obtains v' pm' where
    "set_msr_interception flt m r w (v, pm) = Some (v', pm')"
    "\<forall>a. svm_wants v' n a = (if n = m then (case a of Rd \<Rightarrow> r | Wr \<Rightarrow> w) else svm_wants v n a)"
    "\<forall>a. svm_exits pm' n a =
      (if n = m then \<not> ((case a of Rd \<Rightarrow> r | Wr \<Rightarrow> w) \<and> kvm_msr_allowed flt m (filter_type a))
       else svm_exits pm n a)"
proof -
  obtain i j where ij: "direct_access_msr_slot m = Some i" "direct_access_msr_slot n = Some j"
    "i = j \<longleftrightarrow> m = n"
    by (rule slot_inj [OF m n])
  let ?v = "set_shadow_msr_intercept m r w v"
  have p: "svm_passes ?v j a = (if n = m then (case a of Rd \<Rightarrow> r | Wr \<Rightarrow> w) else svm_passes v j a)"
    for a using ij by (cases a) (auto simp: set_shadow_msr_intercept_def)
  obtain v' pm' where s:
    "set_msr_interception_bitmap flt m r w (?v, pm) = Some (v', pm')"
    "\<forall>i a. svm_passes v' i a = svm_passes ?v i a"
    "\<forall>a. svm_exits pm' n a =
      (if n = m then \<not> ((case a of Rd \<Rightarrow> r | Wr \<Rightarrow> w) \<and> kvm_msr_allowed flt m (filter_type a))
       else svm_exits pm n a)"
    by (rule interception_bitmap [OF m n, of flt r w ?v pm])
  have "svm_wants v' n a = (if n = m then (case a of Rd \<Rightarrow> r | Wr \<Rightarrow> w) else svm_wants v n a)" for a
    using p [of a] ij(2) by (simp add: s(2) [rule_format])
  then have "\<forall>a. svm_wants v' n a = (if n = m then (case a of Rd \<Rightarrow> r | Wr \<Rightarrow> w) else svm_wants v n a)"
    by (rule allI)
  moreover have "set_msr_interception flt m r w (v, pm) = Some (v', pm')"
    using s(1) by (simp add: set_msr_interception_def)
  ultimately show ?thesis using s(3) by (intro that)
qed

lemma svm_filter_loop:
  assumes "svm_managed = xs @ map da_index ds" and n: "n \<in> set svm_managed"
  shows "\<exists>v' pm'. svm_filter_loop flt (ds @ [direct_access_later MSR_INVALID]) (length xs) (v, pm)
      = Some (v', pm') \<and>
    (\<forall>i a. svm_passes v' i a = svm_passes v i a) \<and>
    (\<forall>a. svm_exits pm' n a =
      (if n \<in> set (map da_index ds)
       then \<not> (svm_wants v n a \<and> kvm_msr_allowed flt n (filter_type a))
       else svm_exits pm n a))"
  using assms(1)
proof (induction ds arbitrary: xs v pm)
  case Nil
  show ?case by (simp add: direct_access_later_def)
next
  case (Cons d ds)
  let ?m = "da_index d" and ?i = "length xs"
  have m: "?m \<in> set svm_managed" unfolding Cons.prems by simp
  have slot: "direct_access_msr_slot ?m = Some ?i"
  proof -
    have "?i < length svm_managed" unfolding Cons.prems by simp
    from slot_nth [OF this] show ?thesis unfolding Cons.prems by simp
  qed
  have new: "?m \<notin> set (map da_index ds)"
    using managed_distinct unfolding Cons.prems by simp
  obtain v1 pm1 where s:
    "set_msr_interception_bitmap flt ?m (svm_shadow_read v ?i) (svm_shadow_write v ?i) (v, pm)
      = Some (v1, pm1)"
    "\<forall>i a. svm_passes v1 i a = svm_passes v i a"
    "\<forall>a. svm_exits pm1 n a =
      (if n = ?m then \<not> ((case a of Rd \<Rightarrow> svm_shadow_read v ?i | Wr \<Rightarrow> svm_shadow_write v ?i) \<and>
         kvm_msr_allowed flt ?m (filter_type a))
       else svm_exits pm n a)"
    by (rule interception_bitmap
        [OF m n, of flt "svm_shadow_read v ?i" "svm_shadow_write v ?i" v pm])
  have c: "(case a of Rd \<Rightarrow> svm_shadow_read v ?i | Wr \<Rightarrow> svm_shadow_write v ?i) = svm_wants v ?m a" for a
    using slot by (cases a) simp_all
  obtain v' pm' where l:
    "svm_filter_loop flt (ds @ [direct_access_later MSR_INVALID]) (Suc ?i) (v1, pm1) = Some (v', pm')"
    "\<forall>i a. svm_passes v' i a = svm_passes v1 i a"
    "\<forall>a. svm_exits pm' n a =
      (if n \<in> set (map da_index ds)
       then \<not> (svm_wants v1 n a \<and> kvm_msr_allowed flt n (filter_type a))
       else svm_exits pm1 n a)"
    using Cons.IH [of "xs @ [?m]" v1 pm1] Cons.prems by auto
  have w: "svm_wants v1 n a = svm_wants v n a" for a by (simp add: s(2) [rule_format])
  have "svm_exits pm' n a =
      (if n \<in> set (map da_index (d # ds))
       then \<not> (svm_wants v n a \<and> kvm_msr_allowed flt n (filter_type a)) else svm_exits pm n a)" for a
    unfolding l(3) [rule_format] s(3) [rule_format] c w using new by (cases "n = ?m") simp_all
  with s l managed_valid(2) [OF m] show ?case by simp
qed

lemma svm_filter_changed:
  assumes "n \<in> set svm_managed"
  obtains v' pm' where "svm_msr_filter_changed flt (v, pm) = Some (v', pm')"
    "\<forall>a. svm_wants v' n a = svm_wants v n a"
    "\<forall>a. svm_exits pm' n a = (\<not> (svm_wants v n a \<and> kvm_msr_allowed flt n (filter_type a)))"
proof -
  let ?ds = "butlast direct_access_msrs"
  have m: "set (map da_index ?ds) = set svm_managed" by (simp add: svm_managed_def)
  obtain v' pm' where
    "svm_filter_loop flt (?ds @ [direct_access_later MSR_INVALID]) 0 (v, pm) = Some (v', pm')"
    "\<forall>i a. svm_passes v' i a = svm_passes v i a"
    "\<forall>a. svm_exits pm' n a = (\<not> (svm_wants v n a \<and> kvm_msr_allowed flt n (filter_type a)))"
    using svm_filter_loop [of "[]" ?ds n flt v pm] assms m by (auto simp: svm_managed_def)
  note l = this
  show ?thesis
  proof (rule that)
    show "svm_msr_filter_changed flt (v, pm) = Some (v', pm')"
      using l(1) by (simp add: svm_msr_filter_changed_def direct_access_split [symmetric])
    show "\<forall>a. svm_wants v' n a = svm_wants v n a" by (simp add: l(2) [rule_format])
  qed (rule l(3))
qed

section \<open>The interface of the intercepts\<close>

type_synonym svm_map_state = "(svm_msrs \<times> msrpm) option"

fun svm_hits :: "svm_map_state \<Rightarrow> u32 \<Rightarrow> msr_access \<Rightarrow> bool" where
  "svm_hits None msr a = True"
| "svm_hits (Some (v, pm)) msr a = svm_exits pm msr a"

fun svm_wanted :: "svm_map_state \<Rightarrow> u32 \<Rightarrow> msr_access \<Rightarrow> bool" where
  "svm_wanted None msr a = False"
| "svm_wanted (Some (v, pm)) msr a = svm_wants v msr a"

text \<open>\<open>set_msr_interception\<close> always decides both kinds of access.\<close>

definition svm_shape :: "msr_request \<Rightarrow> bool" where
  "svm_shape P \<longleftrightarrow> P Rd \<noteq> None \<and> P Wr \<noteq> None"

definition svm_request ::
  "msr_filter \<Rightarrow> u32 \<Rightarrow> msr_request \<Rightarrow> svm_map_state \<Rightarrow> svm_map_state" where
  "svm_request flt msr P s =
     Option.bind s (set_msr_interception flt msr (P Rd = Some True) (P Wr = Some True))"

definition svm_refresh :: "msr_filter \<Rightarrow> svm_map_state \<Rightarrow> svm_map_state" where
  "svm_refresh flt s = Option.bind s (svm_msr_filter_changed flt)"

text \<open>No operation so far has hit a \<open>BUG_ON\<close>.\<close>

definition svm_live :: "svm_map_state \<Rightarrow> bool" where
  "svm_live s \<longleftrightarrow> s \<noteq> None"

lemma svm_request:
  assumes "svm_live s" "m \<in> set svm_managed" "svm_shape P" "n \<in> set svm_managed"
  shows "svm_live (svm_request flt m P s)"
    and "svm_wanted (svm_request flt m P s) n a =
      (if n = m \<and> P a \<noteq> None then the (P a) else svm_wanted s n a)"
    and "svm_hits (svm_request flt m P s) n a =
      (if n = m \<and> P a \<noteq> None then \<not> (the (P a) \<and> kvm_msr_allowed flt n (filter_type a))
       else svm_hits s n a)"
proof -
  obtain v pm where s: "s = Some (v, pm)" using assms(1) by (auto simp: svm_live_def)
  obtain v' pm' where r:
    "set_msr_interception flt m (P Rd = Some True) (P Wr = Some True) (v, pm) = Some (v', pm')"
    "\<forall>a. svm_wants v' n a =
      (if n = m then (case a of Rd \<Rightarrow> P Rd = Some True | Wr \<Rightarrow> P Wr = Some True)
       else svm_wants v n a)"
    "\<forall>a. svm_exits pm' n a =
      (if n = m then \<not> ((case a of Rd \<Rightarrow> P Rd = Some True | Wr \<Rightarrow> P Wr = Some True) \<and>
         kvm_msr_allowed flt m (filter_type a))
       else svm_exits pm n a)"
    by (rule set_interception [OF assms(2,4), of flt "P Rd = Some True" "P Wr = Some True" v pm])
  have c: "(case a of Rd \<Rightarrow> P Rd = Some True | Wr \<Rightarrow> P Wr = Some True) = the (P a)" "P a \<noteq> None"
    using assms(3) by (cases a; auto simp: svm_shape_def)+
  have e: "svm_request flt m P s = Some (v', pm')" using r(1) s by (simp add: svm_request_def)
  show "svm_live (svm_request flt m P s)" using e by (simp add: svm_live_def)
  show "svm_wanted (svm_request flt m P s) n a =
      (if n = m \<and> P a \<noteq> None then the (P a) else svm_wanted s n a)"
    unfolding e unfolding s svm_wanted.simps r(2) [rule_format] c(1) using c(2) by simp
  show "svm_hits (svm_request flt m P s) n a =
      (if n = m \<and> P a \<noteq> None then \<not> (the (P a) \<and> kvm_msr_allowed flt n (filter_type a))
       else svm_hits s n a)"
    unfolding e unfolding s svm_hits.simps r(3) [rule_format] c(1) using c(2) by simp
qed

lemma svm_refresh:
  assumes "svm_live s" "n \<in> set svm_managed"
  shows "svm_live (svm_refresh flt s)"
    and "svm_wanted (svm_refresh flt s) n a = svm_wanted s n a"
    and "svm_hits (svm_refresh flt s) n a =
      (\<not> (svm_wanted s n a \<and> kvm_msr_allowed flt n (filter_type a)))"
proof -
  obtain v pm where s: "s = Some (v, pm)" using assms(1) by (auto simp: svm_live_def)
  obtain v' pm' where r: "svm_msr_filter_changed flt (v, pm) = Some (v', pm')"
    "\<forall>a. svm_wants v' n a = svm_wants v n a"
    "\<forall>a. svm_exits pm' n a = (\<not> (svm_wants v n a \<and> kvm_msr_allowed flt n (filter_type a)))"
    by (rule svm_filter_changed [OF assms(2), of flt v pm])
  have e: "svm_refresh flt s = Some (v', pm')" using r(1) s by (simp add: svm_refresh_def)
  show "svm_live (svm_refresh flt s)" using e by (simp add: svm_live_def)
  show "svm_wanted (svm_refresh flt s) n a = svm_wanted s n a"
    unfolding e unfolding s svm_wanted.simps by (rule r(2) [rule_format])
  show "svm_hits (svm_refresh flt s) n a =
      (\<not> (svm_wanted s n a \<and> kvm_msr_allowed flt n (filter_type a)))"
    unfolding e unfolding s svm_hits.simps svm_wanted.simps by (rule r(3) [rule_format])
qed

lemma star_managed: "0xc0000081 \<in> set svm_managed"
  by (simp add: svm_managed_def direct_access_msrs_def direct_access_always_def)

interpretation svm_filter: msr_intercepts "set svm_managed" svm_shape svm_live svm_hits
  svm_wanted svm_request svm_refresh
proof (unfold_locales, goal_cases)
  case (1 s m P f) then show ?case by (rule svm_request(1)) (rule 1(2))
next
  case (2 s m P n f a) then show ?case by (rule svm_request(2))
next
  case (3 s m P n f a) then show ?case by (rule svm_request(3))
next
  case (4 s f) then show ?case using svm_refresh(1) [OF _ star_managed] by blast
next
  case (5 s n f a) then show ?case by (rule svm_refresh(2))
next
  case (6 s n a f) from 6(1,2) show ?case by (rule svm_refresh(3))
qed

section \<open>Properties\<close>

text \<open>What the operations make of the wishes.\<close>

lemma follows_set:
  assumes "svm_filter.follows w flt (Some s)" "m \<in> set svm_managed"
  obtains s' where "set_msr_interception flt m r wr s = Some s'"
    "svm_filter.follows (asked m (\<lambda>a. Some (case a of Rd \<Rightarrow> r | Wr \<Rightarrow> wr)) w) flt (Some s')"
proof -
  let ?P = "\<lambda>a. Some (case a of Rd \<Rightarrow> r | Wr \<Rightarrow> wr)"
  have "svm_shape ?P" by (simp add: svm_shape_def)
  from svm_filter.follows_req [OF assms this]
  have f: "svm_filter.follows (asked m ?P w) flt (set_msr_interception flt m r wr s)"
    by (simp add: svm_request_def)
  from svm_filter.followsD(1) [OF f] obtain s' where "set_msr_interception flt m r wr s = Some s'"
    by (auto simp: svm_live_def)
  with f show ?thesis by (intro that) simp_all
qed

definition always_passed :: "u32 \<Rightarrow> bool" where
  "always_passed m = (\<exists>d \<in> set direct_access_msrs. da_index d = m \<and> da_always d)"

text \<open>A loop that asks for some of the entries of a list.\<close>

definition asked_of :: "u32 set \<Rightarrow> bool \<Rightarrow> msr_wishes \<Rightarrow> msr_wishes" where
  "asked_of M b w = (\<lambda>n a. if n \<in> M then b else w n a)"

lemma asked_of_insert:
  "asked_of M b (asked m (\<lambda>a. Some (case a of Rd \<Rightarrow> b | Wr \<Rightarrow> b)) w) = asked_of (insert m M) b w"
  by (intro ext) (auto simp: asked_of_def asked_def split: msr_access.split)

lemma follows_init:
  assumes "svm_filter.follows w flt (Some s)" "da_index ` set ds \<subseteq> set svm_managed"
  obtains s' where "init_msrpm_loop flt (ds @ [direct_access_later MSR_INVALID]) s = Some s'"
    "svm_filter.follows (asked_of (da_index ` {d \<in> set ds. da_always d}) True w) flt (Some s')"
proof -
  have "\<exists>s'. init_msrpm_loop flt (ds @ [direct_access_later MSR_INVALID]) s = Some s' \<and>
    svm_filter.follows (asked_of (da_index ` {d \<in> set ds. da_always d}) True w) flt (Some s')"
    using assms
  proof (induction ds arbitrary: s w)
    case Nil
    then show ?case by (simp add: direct_access_later_def asked_of_def)
  next
    case (Cons d ds)
    have m: "da_index d \<in> set svm_managed" using Cons.prems(2) by simp
    note v = managed_valid(2) [OF m]
    show ?case
    proof (cases "da_always d")
      case True
      obtain s1 where s1: "set_msr_interception flt (da_index d) True True s = Some s1"
        "svm_filter.follows (asked (da_index d) (\<lambda>a. Some (case a of Rd \<Rightarrow> True | Wr \<Rightarrow> True)) w)
           flt (Some s1)"
        by (rule follows_set [OF Cons.prems(1) m])
      have "insert (da_index d) (da_index ` {d \<in> set ds. da_always d}) =
          da_index ` {x \<in> set (d # ds). da_always x}" using True by auto
      with Cons.IH [OF s1(2)] Cons.prems(2) s1(1) True v show ?thesis
        by (simp add: asked_of_insert)
    next
      case False
      then have "{x \<in> set (d # ds). da_always x} = {x \<in> set ds. da_always x}" by auto
      with Cons.IH [OF Cons.prems(1)] Cons.prems(2) False v show ?thesis by simp
    qed
  qed
  with that show ?thesis by blast
qed

definition in_x2apic :: "u32 \<Rightarrow> bool" where
  "in_x2apic m = (\<not> (m <s APIC_BASE_MSR \<or> APIC_BASE_MSR + 0xff <s m))"

lemma set_interception_flag:
  "set_msr_interception flt m r wr (v, pm) = Some (v', pm') \<Longrightarrow>
   x2avic_msrs_intercepted v' = x2avic_msrs_intercepted v"
  by (auto simp: set_msr_interception_def set_msr_interception_bitmap_def Let_def
      set_shadow_msr_intercept_def split: if_splits option.splits)

lemma follows_x2apic_loop:
  assumes "svm_filter.follows w flt (Some s)" "da_index ` set ds \<subseteq> set svm_managed"
  obtains s' where "x2apic_loop flt i (ds @ [direct_access_later MSR_INVALID]) s = Some s'"
    "svm_filter.follows (asked_of {m \<in> da_index ` set ds. in_x2apic m} (\<not> i) w) flt (Some s')"
proof -
  have "\<exists>s'. x2apic_loop flt i (ds @ [direct_access_later MSR_INVALID]) s = Some s' \<and>
    svm_filter.follows (asked_of {m \<in> da_index ` set ds. in_x2apic m} (\<not> i) w) flt (Some s')"
    using assms
  proof (induction ds arbitrary: s w)
    case Nil
    have "MSR_INVALID <s APIC_BASE_MSR"
      by (simp add: MSR_INVALID_def APIC_BASE_MSR_def word_sless_alt)
    with Nil show ?case by (simp add: direct_access_later_def asked_of_def)
  next
    case (Cons d ds)
    have m: "da_index d \<in> set svm_managed" using Cons.prems(2) by simp
    show ?case
    proof (cases "in_x2apic (da_index d)")
      case True
      obtain s1 where s1: "set_msr_interception flt (da_index d) (\<not> i) (\<not> i) s = Some s1"
        "svm_filter.follows (asked (da_index d) (\<lambda>a. Some (case a of Rd \<Rightarrow> \<not> i | Wr \<Rightarrow> \<not> i)) w)
           flt (Some s1)"
        by (rule follows_set [OF Cons.prems(1) m])
      have "insert (da_index d) {m \<in> da_index ` set ds. in_x2apic m} =
          {m \<in> da_index ` set (d # ds). in_x2apic m}" using True by auto
      with Cons.IH [OF s1(2)] Cons.prems(2) s1(1) True show ?thesis
        by (simp add: asked_of_insert in_x2apic_def)
    next
      case False
      then have "{m \<in> da_index ` set (d # ds). in_x2apic m} = {m \<in> da_index ` set ds. in_x2apic m}"
        by auto
      with Cons.IH [OF Cons.prems(1)] Cons.prems(2) False show ?thesis by (simp add: in_x2apic_def)
    qed
  qed
  with that show ?thesis by blast
qed

lemma follows_flag:
  "svm_filter.follows w flt (Some (v\<lparr>x2avic_msrs_intercepted := b\<rparr>, pm)) =
   svm_filter.follows w flt (Some (v, pm))"
proof -
  have "svm_passes (v\<lparr>x2avic_msrs_intercepted := b\<rparr>) i a = svm_passes v i a" for i a
    by (cases a) simp_all
  then show ?thesis by (simp add: svm_filter.follows_def svm_live_def)
qed

definition x2apic_asked :: "bool \<Rightarrow> bool \<Rightarrow> svm_msrs \<Rightarrow> msr_wishes \<Rightarrow> msr_wishes" where
  "x2apic_asked x2avic_enabled intercept v w =
     (if intercept = x2avic_msrs_intercepted v \<or> \<not> x2avic_enabled then w
      else asked_of {m \<in> set svm_managed. in_x2apic m} (\<not> intercept) w)"

text \<open>C34. The states a vCPU reaches, with the filter in force and what KVM wants passed through.\<close>

inductive svm_map_reach :: "bool \<Rightarrow> msr_filter \<Rightarrow> msr_wishes \<Rightarrow> svm_msrs \<times> msrpm \<Rightarrow> bool"
  for x2avic_enabled :: bool where
  create: "svm_vcpu_alloc_msrpm True = Some pm \<Longrightarrow> \<forall>i. \<not> svm_shadow_read v i \<Longrightarrow>
    \<forall>i. \<not> svm_shadow_write v i \<Longrightarrow> svm_vcpu_init_msrpm flt (v, pm) = Some s \<Longrightarrow>
    svm_map_reach x2avic_enabled flt (asked_of {m. always_passed m} True (\<lambda>_ _. False)) s"
| set_one: "svm_map_reach x2avic_enabled flt w s \<Longrightarrow> m \<in> set svm_managed \<Longrightarrow>
    set_msr_interception flt m r wr s = Some s' \<Longrightarrow>
    svm_map_reach x2avic_enabled flt (asked m (\<lambda>a. Some (case a of Rd \<Rightarrow> r | Wr \<Rightarrow> wr)) w) s'"
| x2apic: "svm_map_reach x2avic_enabled flt w s \<Longrightarrow>
    svm_set_x2apic_msr_interception x2avic_enabled flt intercept s = Some s' \<Longrightarrow>
    svm_map_reach x2avic_enabled flt (x2apic_asked x2avic_enabled intercept (fst s) w) s'"
| new_filter: "svm_map_reach x2avic_enabled flt w s \<Longrightarrow> svm_msr_filter_changed flt' s = Some s' \<Longrightarrow>
    svm_map_reach x2avic_enabled flt' w s'"

lemma follows_x2apic:
  assumes "svm_filter.follows w flt (Some s)"
  obtains s' where "svm_set_x2apic_msr_interception e flt i s = Some s'"
    "svm_filter.follows (x2apic_asked e i (fst s) w) flt (Some s')"
proof (cases "i = x2avic_msrs_intercepted (fst s) \<or> \<not> e")
  case True
  then have "svm_set_x2apic_msr_interception e flt i s = Some s" "x2apic_asked e i (fst s) w = w"
    by (auto simp: svm_set_x2apic_msr_interception_def x2apic_asked_def)
  with assms that [of s] show ?thesis by simp
next
  case False
  obtain t where
    t: "x2apic_loop flt i (butlast direct_access_msrs @ [direct_access_later MSR_INVALID]) s = Some t"
    "svm_filter.follows
      (asked_of {m \<in> da_index ` set (butlast direct_access_msrs). in_x2apic m} (\<not> i) w) flt (Some t)"
    by (rule follows_x2apic_loop [OF assms, of "butlast direct_access_msrs" i]) (simp add: managed_set)
  obtain v' pm' where "t = (v', pm')" by (rule prod.exhaust)
  with t show ?thesis
    using False that [of "(v'\<lparr>x2avic_msrs_intercepted := i\<rparr>, pm')"]
    by (simp add: svm_set_x2apic_msr_interception_def x2apic_asked_def follows_flag managed_set
        direct_access_split [symmetric])
qed

lemma always_passed_index:
  "{m. always_passed m} = da_index ` {d \<in> set (butlast direct_access_msrs). da_always d}"
proof -
  have "set direct_access_msrs = insert (direct_access_later MSR_INVALID) (set (butlast direct_access_msrs))"
    by (subst direct_access_split) simp
  then show ?thesis by (auto simp: always_passed_def direct_access_later_def)
qed

lemma follows_create:
  assumes "svm_vcpu_alloc_msrpm True = Some pm" "\<forall>i. \<not> svm_shadow_read v i"
    "\<forall>i. \<not> svm_shadow_write v i"
  obtains s where "svm_vcpu_init_msrpm flt (v, pm) = Some s"
    "svm_filter.follows (asked_of {m. always_passed m} True (\<lambda>_ _. False)) flt (Some s)"
proof -
  have pm: "pm = (\<lambda>_. 0xffffffff)" using assms(1) by (simp add: svm_vcpu_alloc_msrpm_def)
  have "(0xffffffff :: u32) = - 1" by simp
  then have "bit (0xffffffff :: u32) k" if "k < 32" for k
    using that by (simp only: bit_minus_1_iff) simp
  then have "svm_filter.follows (\<lambda>_ _. False) flt (Some (v, pm))"
    using assms(2,3) access_bit_less
    by (intro svm_filter.follows_start)
      (auto simp: pm svm_exits_cell svm_live_def elim!: svm_passes.elims)
  then show ?thesis
    by (rule follows_init [of _ flt "(v, pm)" "butlast direct_access_msrs"])
      (auto intro!: that simp: managed_set svm_vcpu_init_msrpm_def
        direct_access_split [symmetric] always_passed_index)
qed

lemma svm_map_reach_follows:
  "svm_map_reach e flt w s \<Longrightarrow> svm_filter.follows w flt (Some s)"
proof (induction rule: svm_map_reach.induct)
  case (create pm v flt s)
  obtain s' where "svm_vcpu_init_msrpm flt (v, pm) = Some s'"
    "svm_filter.follows (asked_of {m. always_passed m} True (\<lambda>_ _. False)) flt (Some s')"
    by (rule follows_create [OF create(1-3)])
  with create(4) show ?case by simp
next
  case (set_one flt w s m r wr s')
  obtain t where "set_msr_interception flt m r wr s = Some t"
    "svm_filter.follows (asked m (\<lambda>a. Some (case a of Rd \<Rightarrow> r | Wr \<Rightarrow> wr)) w) flt (Some t)"
    by (rule follows_set [OF set_one.IH set_one.hyps(2)])
  with set_one.hyps(3) show ?case by simp
next
  case (x2apic flt w s i s')
  obtain t where "svm_set_x2apic_msr_interception e flt i s = Some t"
    "svm_filter.follows (x2apic_asked e i (fst s) w) flt (Some t)"
    by (rule follows_x2apic [OF x2apic.IH])
  with x2apic.hyps(2) show ?case by simp
next
  case (new_filter flt w s flt' s')
  from svm_filter.follows_refresh [OF new_filter.IH, of flt'] new_filter.hyps(2)
  show ?case by (simp add: svm_refresh_def)
qed

text \<open> C34. On AMD, whatever KVM requested and however often user space changed the filter, the
  processor, by the layout of its manual, lets an access of the guest to an MSR of
  \<open>direct_access_msrs\<close> through exactly when the last request for it was to
  pass it through and the filter now in force allows it; \<open>msr_write_intercepted\<close> tells the same of
  writes; no operation on the map can hit a \<open>BUG_ON\<close> or a word outside of the map. \<close>

theorem svm_map_follows_requests:
  assumes "svm_map_reach e flt w (v, pm)" and "n \<in> set svm_managed"
  shows "svm_exits pm n a = (\<not> passes_through flt w n a) \<and>
    svm_msr_write_intercepted pm n = Some (\<not> passes_through flt w n Wr) \<and>
    set_msr_interception flt n r wr (v, pm) \<noteq> None \<and>
    svm_set_x2apic_msr_interception e flt i (v, pm) \<noteq> None \<and>
    svm_msr_filter_changed flt' (v, pm) \<noteq> None"
proof (intro conjI)
  note f = svm_map_reach_follows [OF assms(1)]
  show "svm_exits pm n a = (\<not> passes_through flt w n a)"
    using svm_filter.followsD(3) [OF f assms(2)] by simp
  have "svm_msr_write_intercepted pm n = Some (svm_exits pm n Wr)"
    using managed_valid(1,3) [OF assms(2)] access_bit_less [of n Wr]
    by (simp add: svm_msr_write_intercepted_def svm_exits_cell [OF assms(2)] Let_def bit_word64_of_32)
  then show "svm_msr_write_intercepted pm n = Some (\<not> passes_through flt w n Wr)"
    using svm_filter.followsD(3) [OF f assms(2), of Wr] by simp
  show "set_msr_interception flt n r wr (v, pm) \<noteq> None"
    by (rule follows_set [OF f assms(2), of r wr]) simp
  show "svm_set_x2apic_msr_interception e flt i (v, pm) \<noteq> None"
    by (rule follows_x2apic [OF f, of e i]) simp
  show "svm_msr_filter_changed flt' (v, pm) \<noteq> None"
    using svm_filter.followsD(1) [OF svm_filter.follows_refresh [OF f, of flt']]
    by (simp add: svm_refresh_def svm_live_def)
qed

text \<open>A filter that denies writes of \<open>MSR_STAR\<close>, which KVM always passes through.\<close>

definition star_filter :: kvm_x86_msr_filter where
  "star_filter =
     \<lparr>default_allow = True, filter_ranges =
       [\<lparr>range_flags = KVM_MSR_FILTER_WRITE, range_base = 0xc0000081, range_nmsrs = 1,
         range_bitmap = \<lambda>_. False\<rparr>]\<rparr>"

definition fresh_svm_msrs :: svm_msrs where
  "fresh_svm_msrs =
     \<lparr>svm_shadow_read = \<lambda>_. False, svm_shadow_write = \<lambda>_. False, x2avic_msrs_intercepted = True,
      svm_force_recalc = False, nested_enlightenments_dirty = False\<rparr>"

theorem svm_map_follows_requests_witness:
  "\<exists>w v pm. svm_map_reach True (Some star_filter) w (v, pm) \<and>
     \<not> svm_exits pm 0xc0000081 Rd \<and> svm_exits pm 0xc0000081 Wr"
proof -
  let ?w = "asked_of {m. always_passed m} True (\<lambda>_ _. False)"
  obtain s where s: "svm_vcpu_init_msrpm None (fresh_svm_msrs, \<lambda>_. 0xffffffff) = Some s"
    by (rule follows_create [of "\<lambda>_. 0xffffffff" fresh_svm_msrs None])
      (simp_all add: svm_vcpu_alloc_msrpm_def fresh_svm_msrs_def)
  have r: "svm_map_reach True None ?w s"
    by (rule svm_map_reach.create [OF _ _ _ s])
      (simp_all add: svm_vcpu_alloc_msrpm_def fresh_svm_msrs_def)
  obtain v pm where c: "svm_msr_filter_changed (Some star_filter) s = Some (v, pm)"
    using svm_map_follows_requests [OF _ star_managed, of True None ?w "fst s" "snd s"] r
    by (metis prod.collapse option.exhaust)
  note t = svm_map_reach.new_filter [OF r c]
  have "always_passed 0xc0000081"
    by (simp add: always_passed_def direct_access_msrs_def direct_access_always_def)
  then have "?w 0xc0000081 a" for a by (simp add: asked_of_def)
  then have "\<not> svm_exits pm 0xc0000081 Rd" "svm_exits pm 0xc0000081 Wr"
    using svm_map_follows_requests [OF t star_managed]
    by (simp_all add: passes_through_def kvm_msr_allowed_def star_filter_def filter_codes)
  with t show ?thesis by blast
qed

section \<open>The offsets\<close>

lemma add_msr_offset:
  "MSR_INVALID \<notin> set xs \<Longrightarrow> add_msr_offset offset (xs @ replicate k MSR_INVALID) =
    (if offset \<in> set xs then Some (xs @ replicate k MSR_INVALID)
     else case k of 0 \<Rightarrow> None | Suc j \<Rightarrow>
       Some (xs @ offset # replicate j MSR_INVALID))"
proof (induction xs)
  case Nil
  show ?case by (cases k) auto
next
  case (Cons x xs)
  then show ?case by (cases k) auto
qed

lemma init_offsets_loop:
  assumes "da_index ` set ds \<subseteq> set svm_managed" "MSR_INVALID \<notin> set xs" "distinct xs"
    and "card (set xs \<union> svm_msrpm_offset ` da_index ` set ds) \<le> length xs + k"
  shows "\<exists>ys j. init_offsets_loop (ds @ [direct_access_later MSR_INVALID])
      (xs @ replicate k MSR_INVALID) = Some (ys @ replicate j MSR_INVALID) \<and>
    MSR_INVALID \<notin> set ys \<and> distinct ys \<and> set ys = set xs \<union> svm_msrpm_offset ` da_index ` set ds"
  using assms
proof (induction ds arbitrary: xs k)
  case Nil
  then show ?case by (auto simp: direct_access_later_def)
next
  case (Cons d ds)
  let ?o = "svm_msrpm_offset (da_index d)"
  have m: "da_index d \<in> set svm_managed" using Cons.prems(1) by simp
  note v = managed_valid [OF m]
  show ?case
  proof (cases "?o \<in> set xs")
    case True
    then have "set xs \<union> svm_msrpm_offset ` da_index ` set (d # ds) =
        set xs \<union> svm_msrpm_offset ` da_index ` set ds" by auto
    with Cons.IH [of xs k] Cons.prems True v show ?thesis
      by (simp add: add_msr_offset Let_def)
  next
    case False
    have "card (insert ?o (set xs)) \<le> card (set xs \<union> svm_msrpm_offset ` da_index ` set (d # ds))"
      by (intro card_mono) auto
    with Cons.prems(3,4) False have "length xs < length xs + k" by (simp add: distinct_card)
    then obtain j where j: "k = Suc j" by (cases k) simp_all
    have u: "set (xs @ [?o]) \<union> svm_msrpm_offset ` da_index ` set ds =
        set xs \<union> svm_msrpm_offset ` da_index ` set (d # ds)" by auto
    have add: "add_msr_offset ?o (xs @ replicate k MSR_INVALID) = Some (xs @ ?o # replicate j MSR_INVALID)"
      unfolding add_msr_offset [OF Cons.prems(2)] using False by (simp add: j)
    from Cons.IH [of "xs @ [?o]" j] Cons.prems False v(1) j
    obtain ys i where "init_offsets_loop (ds @ [direct_access_later MSR_INVALID])
        ((xs @ [?o]) @ replicate j MSR_INVALID) = Some (ys @ replicate i MSR_INVALID)"
      "MSR_INVALID \<notin> set ys" "distinct ys"
      "set ys = set xs \<union> svm_msrpm_offset ` da_index ` set (d # ds)"
      unfolding u by auto
    moreover have "init_offsets_loop ((d # ds) @ [direct_access_later MSR_INVALID])
        (xs @ replicate k MSR_INVALID) = init_offsets_loop (ds @ [direct_access_later MSR_INVALID])
        ((xs @ [?o]) @ replicate j MSR_INVALID)"
      using v by (simp add: add Let_def)
    ultimately show ?thesis by (intro exI [of _ ys] exI [of _ i]) simp
  qed
qed

text \<open>
  With room for them the table holds the offset of every MSR KVM may pass through, once, and
  \<open>init_msrpm_offsets\<close> does not reach its \<open>BUG\<close>.
\<close>

lemma init_msrpm_offsets:
  assumes "card (svm_msrpm_offset ` set svm_managed) \<le> n"
  obtains offs j where "init_msrpm_offsets n = Some (offs @ replicate j MSR_INVALID)"
    "distinct offs" "set offs = svm_msrpm_offset ` set svm_managed"
  using init_offsets_loop [of "butlast direct_access_msrs" "[]" n] assms
    direct_access_split managed_set that
  by (auto simp: init_msrpm_offsets_def)

lemma managed_offset_count: "card (svm_msrpm_offset ` set svm_managed) \<le> 16"
proof -
  have "length (remdups (map svm_msrpm_offset svm_managed)) \<le> 16" by code_simp
  then show ?thesis by (simp add: length_remdups_card_conv)
qed

end
