(* ===== verification/Vmx_Msr_Bitmap.thy ===== *)
theory Vmx_Msr_Bitmap
  imports Kvm_Msr_Intercept
begin

text \<open>
  The MSR bitmap of \<open>vmx.c\<close>: a page whose bits make RDMSR and WRMSR exit, the shadow of what
  KVM wants to intercept, and the callers that pass MSRs through: vCPU creation, the x2APIC
  mode, processor tracing and a new filter of user space. The functions of \<open>vmx.h\<close> that
  write single bits are parameters (\<open>vmx_h\<close>), whose layout is the processor's.
\<close>

section \<open>State\<close>

text \<open>The page as 64-bit words.\<close>

type_synonym msr_bitmap = "nat \<Rightarrow> u64"

definition MSR_TYPE_R :: u32 where "MSR_TYPE_R = 1"
definition MSR_TYPE_W :: u32 where "MSR_TYPE_W = 2"
definition MSR_TYPE_RW :: u32 where "MSR_TYPE_RW = 3"
definition MSR_BITMAP_MODE_X2APIC :: u8 where "MSR_BITMAP_MODE_X2APIC = 1"
definition MSR_BITMAP_MODE_X2APIC_APICV :: u8 where "MSR_BITMAP_MODE_X2APIC_APICV = 2"
definition RTIT_CTL_TRACEEN :: u64 where "RTIT_CTL_TRACEEN = 1"

lemmas msr_types = MSR_TYPE_R_def MSR_TYPE_W_def MSR_TYPE_RW_def

text \<open>
  The fields of \<open>vcpu_vmx\<close> the code uses; a set shadow bit is an access to intercept. The
  two fields of the enlightened VMCS and the two of the execution controls are the bits the
  code tests.
\<close>

record vmx_msrs =
  vmcs01_bitmap :: msr_bitmap
  vmx_shadow_read :: "nat \<Rightarrow> bool"
  vmx_shadow_write :: "nat \<Rightarrow> bool"
  x2apic_msr_bitmap_mode :: u8
  vmx_force_recalc :: bool
  evmcs_msr_bitmap :: bool
  evmcs_bitmap_clean :: bool
  virtualize_x2apic_mode :: bool
  apicv_active :: bool
  lapic_in_kernel :: bool
  pt_ctl :: u64
  pt_num_address_ranges :: nat

text \<open>Capabilities and module parameters, and the functions of other files.\<close>

record vmx_h =
  cpu_has_vmx_msr_bitmap :: bool
  cpu_has_secondary_exec_ctrls :: bool
  kvm_is_using_evmcs :: bool
  nested_msr_bitmap_feature :: bool
  enable_apicv :: bool
  enable_ipiv :: bool
  vmx_pt_mode_is_host_guest :: bool
  kvm_cstate_in_guest :: bool
  kvm_lapic_readable_reg_mask :: u64
  vmx_set_msr_bitmap :: "msr_access \<Rightarrow> u32 \<Rightarrow> msr_bitmap \<Rightarrow> msr_bitmap"
  vmx_clear_msr_bitmap :: "msr_access \<Rightarrow> u32 \<Rightarrow> msr_bitmap \<Rightarrow> msr_bitmap"
  vmx_test_msr_bitmap_write :: "msr_bitmap \<Rightarrow> u32 \<Rightarrow> bool"
  vmx_set_intercept_for_msr :: "msr_filter \<Rightarrow> u32 \<Rightarrow> u32 \<Rightarrow> bool \<Rightarrow> vmx_msrs \<Rightarrow> vmx_msrs"

section \<open>The MSRs KVM may pass through\<close>

text \<open>The numbers of the MSRs are the processor's, as in the kernel's headers.\<close>

definition vmx_possible_passthrough_msrs :: "u32 list" where
  "vmx_possible_passthrough_msrs =
     [0x48, 0x49, 0x10b, \<comment> \<open>SPEC_CTRL, PRED_CMD, FLUSH_CMD\<close>
      0x10, \<comment> \<open>TSC\<close>
      0xc0000100, 0xc0000101, 0xc0000102, \<comment> \<open>FS, GS and kernel GS base\<close>
      0x1c4, 0x1c5, \<comment> \<open>XFD, XFD_ERR\<close>
      0x174, 0x175, 0x176, \<comment> \<open>SYSENTER CS, ESP, EIP\<close>
      0x660, 0x3fc, 0x3fd, 0x3fe]" \<comment> \<open>CORE_C1_RES and the C3, C6 and C7 residencies\<close>

fun passthrough_scan :: "u32 list \<Rightarrow> nat \<Rightarrow> u32 \<Rightarrow> nat option" where
  "passthrough_scan [] i msr = None"
| "passthrough_scan (m # ms) i msr =
     (if m = msr then Some i else passthrough_scan ms (Suc i) msr)"

definition possible_passthrough_msr_slot :: "u32 \<Rightarrow> nat option" where
  "possible_passthrough_msr_slot msr = passthrough_scan vmx_possible_passthrough_msrs 0 msr"

definition msr_between :: "u32 \<Rightarrow> u32 \<Rightarrow> u32 \<Rightarrow> bool" where
  "msr_between lo hi msr = (lo \<le> msr \<and> msr \<le> hi)"

definition is_valid_passthrough_msr :: "u32 \<Rightarrow> bool" where
  "is_valid_passthrough_msr msr =
     (if msr_between 0x800 0x8ff msr then True \<comment> \<open>x2APIC\<close>
      else if msr = 0x571 \<or> msr = 0x560 \<or> msr = 0x561 \<or> msr = 0x572 \<or> \<comment> \<open>processor tracing\<close>
        msr_between 0x580 0x587 msr \<or>
        msr = 0x1c8 \<or> msr = 0x1c9 \<or> \<comment> \<open>last branch records\<close>
        msr_between 0xdc0 (0xdc0 + 31) msr \<or>
        msr_between 0x680 (0x680 + 31) msr \<or> msr_between 0x6c0 (0x6c0 + 31) msr \<or>
        msr_between 0x40 (0x40 + 8) msr \<or> msr_between 0x60 (0x60 + 8) msr
      then True
      else possible_passthrough_msr_slot msr \<noteq> None)"

section \<open>Operations\<close>

definition vmx_msr_write_intercepted :: "vmx_h \<Rightarrow> bool \<Rightarrow> msr_bitmap \<Rightarrow> u32 \<Rightarrow> bool" where
  "vmx_msr_write_intercepted H use_msr_bitmaps loaded msr =
     (if \<not> use_msr_bitmaps then True else vmx_test_msr_bitmap_write H loaded msr)"

definition vmx_msr_bitmap_l01_changed :: "vmx_h \<Rightarrow> vmx_msrs \<Rightarrow> vmx_msrs" where
  "vmx_msr_bitmap_l01_changed H v =
     (let v = (if kvm_is_using_evmcs H \<and> evmcs_msr_bitmap v
               then v\<lparr>evmcs_bitmap_clean := False\<rparr> else v)
      in v\<lparr>vmx_force_recalc := True\<rparr>)"

text \<open>The shadow bits of the accesses in \<open>ty\<close>.\<close>

definition mark_shadow :: "u32 \<Rightarrow> u32 \<Rightarrow> bool \<Rightarrow> vmx_msrs \<Rightarrow> vmx_msrs" where
  "mark_shadow msr ty b v =
     (if is_valid_passthrough_msr msr then
        case possible_passthrough_msr_slot msr of
          None \<Rightarrow> v
        | Some idx \<Rightarrow>
            let v = (if ty AND MSR_TYPE_R \<noteq> 0
                     then v\<lparr>vmx_shadow_read := (vmx_shadow_read v)(idx := b)\<rparr> else v)
            in if ty AND MSR_TYPE_W \<noteq> 0
               then v\<lparr>vmx_shadow_write := (vmx_shadow_write v)(idx := b)\<rparr> else v
      else v)"

definition vmx_disable_intercept_for_msr ::
  "vmx_h \<Rightarrow> msr_filter \<Rightarrow> u32 \<Rightarrow> u32 \<Rightarrow> vmx_msrs \<Rightarrow> vmx_msrs" where
  "vmx_disable_intercept_for_msr H flt msr ty v =
     (if \<not> cpu_has_vmx_msr_bitmap H then v
      else
        let v = mark_shadow msr ty False (vmx_msr_bitmap_l01_changed H v);
            b = vmcs01_bitmap v;
            (b, ty) =
              (if ty AND MSR_TYPE_R \<noteq> 0 \<and> \<not> kvm_msr_allowed flt msr KVM_MSR_FILTER_READ
               then (vmx_set_msr_bitmap H Rd msr b, ty AND NOT MSR_TYPE_R) else (b, ty));
            (b, ty) =
              (if ty AND MSR_TYPE_W \<noteq> 0 \<and> \<not> kvm_msr_allowed flt msr KVM_MSR_FILTER_WRITE
               then (vmx_set_msr_bitmap H Wr msr b, ty AND NOT MSR_TYPE_W) else (b, ty));
            b = (if ty AND MSR_TYPE_R \<noteq> 0 then vmx_clear_msr_bitmap H Rd msr b else b);
            b = (if ty AND MSR_TYPE_W \<noteq> 0 then vmx_clear_msr_bitmap H Wr msr b else b)
        in v\<lparr>vmcs01_bitmap := b\<rparr>)"

definition vmx_enable_intercept_for_msr :: "vmx_h \<Rightarrow> u32 \<Rightarrow> u32 \<Rightarrow> vmx_msrs \<Rightarrow> vmx_msrs" where
  "vmx_enable_intercept_for_msr H msr ty v =
     (if \<not> cpu_has_vmx_msr_bitmap H then v
      else
        let v = mark_shadow msr ty True (vmx_msr_bitmap_l01_changed H v);
            b = vmcs01_bitmap v;
            b = (if ty AND MSR_TYPE_R \<noteq> 0 then vmx_set_msr_bitmap H Rd msr b else b);
            b = (if ty AND MSR_TYPE_W \<noteq> 0 then vmx_set_msr_bitmap H Wr msr b else b)
        in v\<lparr>vmcs01_bitmap := b\<rparr>)"

definition pt_update_range ::
  "vmx_h \<Rightarrow> msr_filter \<Rightarrow> bool \<Rightarrow> nat \<Rightarrow> vmx_msrs \<Rightarrow> vmx_msrs" where
  "pt_update_range H flt flag i v =
     vmx_set_intercept_for_msr H flt (0x581 + of_nat i * 2) MSR_TYPE_RW flag
       (vmx_set_intercept_for_msr H flt (0x580 + of_nat i * 2) MSR_TYPE_RW flag v)"

definition pt_update_intercept_for_msr :: "vmx_h \<Rightarrow> msr_filter \<Rightarrow> vmx_msrs \<Rightarrow> vmx_msrs" where
  "pt_update_intercept_for_msr H flt v =
     (let flag = (pt_ctl v AND RTIT_CTL_TRACEEN = 0);
          n = pt_num_address_ranges v;
          v = vmx_set_intercept_for_msr H flt 0x571 MSR_TYPE_RW flag v;
          v = vmx_set_intercept_for_msr H flt 0x560 MSR_TYPE_RW flag v;
          v = vmx_set_intercept_for_msr H flt 0x561 MSR_TYPE_RW flag v;
          v = vmx_set_intercept_for_msr H flt 0x572 MSR_TYPE_RW flag v
      in fold (pt_update_range H flt flag) [0..<n] v)"

fun vmx_filter_loop ::
  "vmx_h \<Rightarrow> msr_filter \<Rightarrow> u32 list \<Rightarrow> nat \<Rightarrow> vmx_msrs \<Rightarrow> vmx_msrs" where
  "vmx_filter_loop H flt [] i v = v"
| "vmx_filter_loop H flt (msr # msrs) i v =
     (let v = (if \<not> vmx_shadow_read v i
               then vmx_disable_intercept_for_msr H flt msr MSR_TYPE_R v else v);
          v = (if \<not> vmx_shadow_write v i
               then vmx_disable_intercept_for_msr H flt msr MSR_TYPE_W v else v)
      in vmx_filter_loop H flt msrs (Suc i) v)"

definition vmx_msr_filter_changed :: "vmx_h \<Rightarrow> msr_filter \<Rightarrow> vmx_msrs \<Rightarrow> vmx_msrs" where
  "vmx_msr_filter_changed H flt v =
     (let v = vmx_filter_loop H flt vmx_possible_passthrough_msrs 0 v
      in if vmx_pt_mode_is_host_guest H then pt_update_intercept_for_msr H flt v else v)"

text \<open>The part of \<open>vmx_vcpu_create\<close> that sets up the bitmap, which starts with all ones.\<close>

definition vmx_vcpu_create_msrs :: "vmx_h \<Rightarrow> msr_filter \<Rightarrow> vmx_msrs \<Rightarrow> vmx_msrs" where
  "vmx_vcpu_create_msrs H flt v =
     (let v = (if kvm_is_using_evmcs H \<and> nested_msr_bitmap_feature H
               then v\<lparr>evmcs_msr_bitmap := True\<rparr> else v);
          v = v\<lparr>vmx_shadow_read := \<lambda>_. True, vmx_shadow_write := \<lambda>_. True\<rparr>;
          v = vmx_disable_intercept_for_msr H flt 0x10 MSR_TYPE_R v;
          v = fold (\<lambda>m. vmx_disable_intercept_for_msr H flt m MSR_TYPE_RW)
                [0xc0000100, 0xc0000101, 0xc0000102, 0x174, 0x175, 0x176] v
      in if kvm_cstate_in_guest H
         then fold (\<lambda>m. vmx_disable_intercept_for_msr H flt m MSR_TYPE_R)
                [0x660, 0x3fc, 0x3fd, 0x3fe] v
         else v)"

section \<open>The x2APIC mode\<close>

definition x2apic_mode :: "vmx_h \<Rightarrow> vmx_msrs \<Rightarrow> u8" where
  "x2apic_mode H v =
     (if cpu_has_secondary_exec_ctrls H \<and> virtualize_x2apic_mode v
      then if enable_apicv H \<and> apicv_active v
           then MSR_BITMAP_MODE_X2APIC OR MSR_BITMAP_MODE_X2APIC_APICV
           else MSR_BITMAP_MODE_X2APIC
      else 0)"

definition vmx_update_msr_bitmap_x2apic :: "vmx_h \<Rightarrow> msr_filter \<Rightarrow> vmx_msrs \<Rightarrow> vmx_msrs" where
  "vmx_update_msr_bitmap_x2apic H flt v =
     (let read_idx = 0x800 div 64; write_idx = read_idx + 0x800 div 8 in
      if \<not> cpu_has_vmx_msr_bitmap H \<or> \<not> lapic_in_kernel v then v
      else
        let mode = x2apic_mode H v in
        if mode = x2apic_msr_bitmap_mode v then v
        else
          let apicv = (mode AND MSR_BITMAP_MODE_X2APIC_APICV \<noteq> 0);
              v = v\<lparr>x2apic_msr_bitmap_mode := mode,
                    vmcs01_bitmap := (vmcs01_bitmap v)
                      (read_idx := if apicv then NOT (kvm_lapic_readable_reg_mask H)
                                   else 0xffffffffffffffff,
                       write_idx := 0xffffffffffffffff)\<rparr>;
              v = vmx_set_intercept_for_msr H flt (X2APIC_MSR 0x80) MSR_TYPE_RW
                    (mode AND MSR_BITMAP_MODE_X2APIC = 0) v
          in if \<not> apicv then v
             else
               let v = vmx_enable_intercept_for_msr H (X2APIC_MSR 0x390) MSR_TYPE_RW v;
                   v = vmx_disable_intercept_for_msr H flt (X2APIC_MSR 0xb0) MSR_TYPE_W v;
                   v = vmx_disable_intercept_for_msr H flt (X2APIC_MSR 0x3f0) MSR_TYPE_W v
               in if enable_ipiv H
                  then vmx_disable_intercept_for_msr H flt (X2APIC_MSR 0x300) MSR_TYPE_RW v
                  else v)"

section \<open>What the processor and the header promise\<close>

text \<open>
  The page has four parts: low and high MSRs for reads, then for writes. Outside the two
  ranges there is no bit and the access always exits.
\<close>

definition in_bitmap :: "u32 \<Rightarrow> bool" where
  "in_bitmap msr = (msr_between 0 0x1fff msr \<or> msr_between 0xc0000000 0xc0001fff msr)"

definition bitmap_word :: "msr_access \<Rightarrow> u32 \<Rightarrow> nat" where
  "bitmap_word a msr =
     (case a of Rd \<Rightarrow> 0 | Wr \<Rightarrow> 256) +
     (if msr \<le> 0x1fff then unat msr div 64 else 128 + unat (msr - 0xc0000000) div 64)"

definition bitmap_bit :: "u32 \<Rightarrow> nat" where
  "bitmap_bit msr = unat msr mod 64"

definition exits :: "msr_bitmap \<Rightarrow> u32 \<Rightarrow> msr_access \<Rightarrow> bool" where
  "exits b msr a = (\<not> in_bitmap msr \<or> bit (b (bitmap_word a msr)) (bitmap_bit msr))"

definition vmx_h_contract :: "vmx_h \<Rightarrow> bool" where
  "vmx_h_contract H \<longleftrightarrow>
     (\<forall>a m b. vmx_set_msr_bitmap H a m b =
       (if in_bitmap m
        then b(bitmap_word a m := set_bit (bitmap_bit m) (b (bitmap_word a m))) else b)) \<and>
     (\<forall>a m b. vmx_clear_msr_bitmap H a m b =
       (if in_bitmap m
        then b(bitmap_word a m := unset_bit (bitmap_bit m) (b (bitmap_word a m))) else b)) \<and>
     (\<forall>m b. vmx_test_msr_bitmap_write H b m = exits b m Wr) \<and>
     (\<forall>flt m ty value v. vmx_set_intercept_for_msr H flt m ty value v =
       (if value then vmx_enable_intercept_for_msr H m ty v
        else vmx_disable_intercept_for_msr H flt m ty v))"

section \<open>Single bits\<close>

text \<open>The position of an MSR in the half of the page for one kind of access.\<close>

definition bitmap_pos :: "u32 \<Rightarrow> nat" where
  "bitmap_pos msr = (if msr \<le> 0x1fff then unat msr else 0x2000 + unat (msr - 0xc0000000))"

lemma in_bitmap_cases:
  assumes "in_bitmap m"
  obtains "m \<le> 0x1fff" "unat m \<le> 0x1fff"
  | x where "\<not> m \<le> 0x1fff" "unat m = 0xc0000000 + x" "unat (m - 0xc0000000) = x" "x \<le> 0x1fff"
proof (cases "m \<le> 0x1fff")
  case True
  then show ?thesis by (intro that(1)) (simp_all add: word_le_nat_alt)
next
  case False
  with assms have "0xc0000000 \<le> m" "m \<le> 0xc0001fff"
    by (simp_all add: in_bitmap_def msr_between_def)
  then have "unat (m - 0xc0000000) = unat m - 0xc0000000" "0xc0000000 \<le> unat m" "unat m \<le> 0xc0001fff"
    by (simp_all add: unat_sub word_le_nat_alt)
  with False show ?thesis by (intro that(2) [of "unat m - 0xc0000000"]) simp_all
qed

lemma bitmap_cell:
  assumes "in_bitmap m"
  shows "bitmap_word a m = (case a of Rd \<Rightarrow> 0 | Wr \<Rightarrow> 256) + bitmap_pos m div 64"
    and "bitmap_bit m = bitmap_pos m mod 64" and "bitmap_pos m < 0x4000"
proof -
  have "bitmap_word a m = (case a of Rd \<Rightarrow> 0 | Wr \<Rightarrow> 256) + bitmap_pos m div 64 \<and>
    bitmap_bit m = bitmap_pos m mod 64 \<and> bitmap_pos m < 0x4000"
    using assms
  proof (cases rule: in_bitmap_cases)
    case 1
    then show ?thesis by (simp add: bitmap_word_def bitmap_bit_def bitmap_pos_def)
  next
    case (2 x)
    have w: "bitmap_word a m = (case a of Rd \<Rightarrow> 0 | Wr \<Rightarrow> 256) + (128 + x div 64)"
      and p: "bitmap_pos m = 0x2000 + x"
      using 2(1,3) by (simp_all add: bitmap_word_def bitmap_pos_def)
    have "(0xc0000000 + x) mod 64 = x mod 64" using mod_mult_self4 [of 64 "0x3000000" x] by simp
    moreover have "(0x2000 + x) mod 64 = x mod 64" using mod_mult_self4 [of 64 "0x80" x] by simp
    ultimately have b: "bitmap_bit m = (0x2000 + x) mod 64" by (simp only: bitmap_bit_def 2(2))
    have d: "(0x2000 + x) div 64 = 128 + x div 64"
      using div_mult_self4 [of 64 "0x80" x] by simp
    show ?thesis using 2(4) by (simp only: w p b d) simp
  qed
  then show "bitmap_word a m = (case a of Rd \<Rightarrow> 0 | Wr \<Rightarrow> 256) + bitmap_pos m div 64"
    "bitmap_bit m = bitmap_pos m mod 64" "bitmap_pos m < 0x4000" by blast+
qed

lemma bitmap_pos_inj:
  assumes "in_bitmap m" "in_bitmap n" "bitmap_pos m = bitmap_pos n"
  shows "m = n"
proof -
  have "unat m = unat n"
    by (rule in_bitmap_cases [OF assms(1)]; rule in_bitmap_cases [OF assms(2)])
      (use assms(3) in \<open>simp_all add: bitmap_pos_def\<close>)
  then show ?thesis by (rule unsigned_word_eqI)
qed

lemma bitmap_cell_inj:
  assumes "in_bitmap m" "in_bitmap n" "bitmap_word a m = bitmap_word c n" "bitmap_bit m = bitmap_bit n"
  shows "a = c \<and> m = n"
proof -
  have less: "bitmap_pos m div 64 < 256" "bitmap_pos n div 64 < 256"
    using bitmap_cell(3) [OF assms(1)] bitmap_cell(3) [OF assms(2)] by simp_all
  have a: "a = c"
    using assms(3) less by (cases a; cases c) (simp_all add: bitmap_cell(1) assms(1,2))
  then have "bitmap_pos m div 64 = bitmap_pos n div 64"
    using assms(3) by (simp add: bitmap_cell(1) assms(1,2))
  moreover have "bitmap_pos m mod 64 = bitmap_pos n mod 64"
    using assms(4) by (simp add: bitmap_cell(2) assms(1,2))
  ultimately have "bitmap_pos m = bitmap_pos n" by (metis div_mult_mod_eq)
  with a bitmap_pos_inj [OF assms(1,2)] show ?thesis by simp
qed

lemma bitmap_bit_less: "bitmap_bit m < 64"
  by (simp add: bitmap_bit_def)

lemma exits_set:
  assumes "vmx_h_contract H"
  shows "exits (vmx_set_msr_bitmap H a m b) n c \<longleftrightarrow> n = m \<and> c = a \<or> exits b n c"
proof -
  have s: "vmx_set_msr_bitmap H a m b =
      (if in_bitmap m
       then b(bitmap_word a m := set_bit (bitmap_bit m) (b (bitmap_word a m))) else b)"
    using assms by (simp add: vmx_h_contract_def)
  show ?thesis
    unfolding s using bitmap_cell_inj [of m n a c] bitmap_bit_less [of n]
    by (auto simp: exits_def bit_set_bit_iff)
qed

lemma exits_clear:
  assumes "vmx_h_contract H"
  shows "exits (vmx_clear_msr_bitmap H a m b) n c \<longleftrightarrow>
    (\<not> (n = m \<and> c = a) \<or> \<not> in_bitmap m) \<and> exits b n c"
proof -
  have s: "vmx_clear_msr_bitmap H a m b =
      (if in_bitmap m
       then b(bitmap_word a m := unset_bit (bitmap_bit m) (b (bitmap_word a m))) else b)"
    using assms by (simp add: vmx_h_contract_def)
  show ?thesis
    unfolding s using bitmap_cell_inj [of m n a c]
    by (auto simp: exits_def bit_unset_bit_iff)
qed

section \<open>Enabling and disabling an intercept\<close>

definition has_type :: "u32 \<Rightarrow> msr_access \<Rightarrow> bool" where
  "has_type ty a = bit ty (case a of Rd \<Rightarrow> 0 | Wr \<Rightarrow> 1)"

lemma type_bits:
  "ty AND MSR_TYPE_R \<noteq> 0 \<longleftrightarrow> has_type ty Rd"
  "ty AND MSR_TYPE_W \<noteq> 0 \<longleftrightarrow> has_type ty Wr"
proof -
  have "ty AND 2 = ty AND push_bit 1 1" by simp
  then have "ty AND 2 \<noteq> 0 \<longleftrightarrow> bit ty 1"
    by (metis bit_iff_and_push_bit_not_eq_0)
  moreover have "ty AND 1 \<noteq> 0 \<longleftrightarrow> bit ty 0"
    using bit_iff_and_push_bit_not_eq_0 [of ty 0] by simp
  ultimately show "ty AND MSR_TYPE_R \<noteq> 0 \<longleftrightarrow> has_type ty Rd"
    "ty AND MSR_TYPE_W \<noteq> 0 \<longleftrightarrow> has_type ty Wr"
    by (simp_all only: has_type_def msr_types msr_access.case)
qed

lemma has_type_masked:
  "has_type (ty AND NOT MSR_TYPE_R) a \<longleftrightarrow> has_type ty a \<and> a \<noteq> Rd"
  "has_type (ty AND NOT MSR_TYPE_W) a \<longleftrightarrow> has_type ty a \<and> a \<noteq> Wr"
  by (cases a; simp add: has_type_def msr_types bit_and_iff bit_not_iff bit_1_iff)+

lemma has_types:
  "has_type MSR_TYPE_R a \<longleftrightarrow> a = Rd" "has_type MSR_TYPE_W a \<longleftrightarrow> a = Wr" "has_type MSR_TYPE_RW a"
  by (cases a; simp add: has_type_def msr_types)+

fun vmx_passes :: "vmx_msrs \<Rightarrow> nat \<Rightarrow> msr_access \<Rightarrow> bool" where
  "vmx_passes v i Rd = (\<not> vmx_shadow_read v i)"
| "vmx_passes v i Wr = (\<not> vmx_shadow_write v i)"

lemma slot_valid: "possible_passthrough_msr_slot m \<noteq> None \<Longrightarrow> is_valid_passthrough_msr m"
  by (simp add: is_valid_passthrough_msr_def)

lemma mark_shadow:
  "vmx_passes (mark_shadow m ty b v) i a =
    (if possible_passthrough_msr_slot m = Some i \<and> has_type ty a then \<not> b else vmx_passes v i a)"
  using slot_valid [of m]
  by (cases a) (auto simp: mark_shadow_def type_bits Let_def split: option.split)

lemma mark_shadow_bitmap [simp]:
  "vmcs01_bitmap (mark_shadow m ty b v) = vmcs01_bitmap v"
  "pt_num_address_ranges (mark_shadow m ty b v) = pt_num_address_ranges v"
  by (auto simp: mark_shadow_def Let_def split: option.split)

lemma l01_changed [simp]:
  "vmcs01_bitmap (vmx_msr_bitmap_l01_changed H v) = vmcs01_bitmap v"
  "pt_num_address_ranges (vmx_msr_bitmap_l01_changed H v) = pt_num_address_ranges v"
  "vmx_passes (vmx_msr_bitmap_l01_changed H v) i a = vmx_passes v i a"
  by (cases a; simp add: vmx_msr_bitmap_l01_changed_def)+

lemma passes_bitmap [simp]: "vmx_passes (v\<lparr>vmcs01_bitmap := b\<rparr>) i a = vmx_passes v i a"
  by (cases a) simp_all

definition vmx_hits :: "vmx_msrs \<Rightarrow> u32 \<Rightarrow> msr_access \<Rightarrow> bool" where
  "vmx_hits v m a = exits (vmcs01_bitmap v) m a"

definition bitmap_ready :: "vmx_h \<Rightarrow> bool" where
  "bitmap_ready H \<longleftrightarrow> vmx_h_contract H \<and> cpu_has_vmx_msr_bitmap H"

lemma bitmap_readyD:
  "bitmap_ready H \<Longrightarrow> vmx_h_contract H" "bitmap_ready H \<Longrightarrow> cpu_has_vmx_msr_bitmap H"
  by (simp_all add: bitmap_ready_def)

lemma disable_passes:
  assumes "bitmap_ready H"
  shows "vmx_passes (vmx_disable_intercept_for_msr H flt m ty v) i a =
    (if possible_passthrough_msr_slot m = Some i \<and> has_type ty a then True else vmx_passes v i a)"
  by (simp add: vmx_disable_intercept_for_msr_def bitmap_readyD(2) [OF assms] Let_def split_beta mark_shadow)

lemma enable_passes:
  assumes "bitmap_ready H"
  shows "vmx_passes (vmx_enable_intercept_for_msr H m ty v) i a =
    (if possible_passthrough_msr_slot m = Some i \<and> has_type ty a then False else vmx_passes v i a)"
  by (simp add: vmx_enable_intercept_for_msr_def bitmap_readyD(2) [OF assms] Let_def split_beta mark_shadow)

lemma intercept_frame:
  "pt_num_address_ranges (vmx_disable_intercept_for_msr H flt m ty v) = pt_num_address_ranges v"
  "pt_num_address_ranges (vmx_enable_intercept_for_msr H m ty v) = pt_num_address_ranges v"
  by (simp_all add: vmx_disable_intercept_for_msr_def vmx_enable_intercept_for_msr_def Let_def
      split_beta)

lemma disable_hits:
  assumes "bitmap_ready H"
  shows "vmx_hits (vmx_disable_intercept_for_msr H flt m ty v) n a =
    (if n = m \<and> has_type ty a \<and> in_bitmap m then \<not> kvm_msr_allowed flt m (filter_type a)
     else vmx_hits v n a)"
proof (cases "in_bitmap m")
  case True
  then show ?thesis
    by (cases a)
      (auto simp: vmx_hits_def vmx_disable_intercept_for_msr_def bitmap_readyD(2) [OF assms] Let_def split_beta type_bits
        has_type_masked exits_set [OF bitmap_readyD(1) [OF assms]] exits_clear [OF bitmap_readyD(1) [OF assms]])
next
  case False
  then have "exits b m c" for b c by (simp add: exits_def)
  with False show ?thesis
    by (cases "n = m")
      (auto simp: vmx_hits_def vmx_disable_intercept_for_msr_def bitmap_readyD(2) [OF assms] Let_def split_beta
        exits_set [OF bitmap_readyD(1) [OF assms]] exits_clear [OF bitmap_readyD(1) [OF assms]])
qed

lemma enable_hits:
  assumes "bitmap_ready H"
  shows "vmx_hits (vmx_enable_intercept_for_msr H m ty v) n a =
    (n = m \<and> has_type ty a \<or> vmx_hits v n a)"
  by (cases a)
    (auto simp: vmx_hits_def vmx_enable_intercept_for_msr_def bitmap_readyD(2) [OF assms] Let_def type_bits
      exits_set [OF bitmap_readyD(1) [OF assms]])

lemma set_intercept:
  assumes "bitmap_ready H"
  shows "vmx_set_intercept_for_msr H flt m ty b v =
    (if b then vmx_enable_intercept_for_msr H m ty v
     else vmx_disable_intercept_for_msr H flt m ty v)"
  using bitmap_readyD(1) [OF assms] by (simp add: vmx_h_contract_def)

section \<open>The managed MSRs\<close>

lemma managed_msrs:
  "list_all (\<lambda>m. in_bitmap m \<and> bitmap_word Rd m \<noteq> 32 \<and> bitmap_word Wr m \<noteq> 32 \<and>
     bitmap_word Rd m \<noteq> 288 \<and> bitmap_word Wr m \<noteq> 288) vmx_possible_passthrough_msrs"
  by code_simp

lemma vmx_managed_distinct: "distinct vmx_possible_passthrough_msrs"
  by code_simp

abbreviation vmx_managed :: "u32 set" where
  "vmx_managed \<equiv> set vmx_possible_passthrough_msrs"

lemma managed_in_bitmap: "m \<in> vmx_managed \<Longrightarrow> in_bitmap m"
  using managed_msrs by (simp add: list_all_iff)

lemma managed_words:
  assumes "m \<in> vmx_managed"
  shows "bitmap_word a m \<noteq> 32" "bitmap_word a m \<noteq> 288"
  using managed_msrs assms by (cases a; simp add: list_all_iff)+

lemma passthrough_scan_nth:
  "distinct ms \<Longrightarrow> k < length ms \<Longrightarrow> passthrough_scan ms i (ms ! k) = Some (i + k)"
proof (induction ms arbitrary: i k)
  case (Cons m ms)
  show ?case
  proof (cases k)
    case (Suc j)
    with Cons.prems have "j < length ms" by simp
    then have "m \<noteq> ms ! j" using Cons.prems(1) nth_mem [of j ms] by force
    with Cons.IH [of j "Suc i"] Cons.prems Suc show ?thesis by simp
  qed simp
qed simp

lemma vmx_slot_nth:
  "k < length vmx_possible_passthrough_msrs \<Longrightarrow>
   possible_passthrough_msr_slot (vmx_possible_passthrough_msrs ! k) = Some k"
  using passthrough_scan_nth [OF vmx_managed_distinct, of k 0]
  by (simp add: possible_passthrough_msr_slot_def)

lemma slot_eq_iff:
  assumes "m \<in> vmx_managed" "n \<in> vmx_managed"
  shows "possible_passthrough_msr_slot m = Some (the (possible_passthrough_msr_slot n)) \<longleftrightarrow> n = m"
proof -
  obtain i j where "m = vmx_possible_passthrough_msrs ! i" "i < length vmx_possible_passthrough_msrs"
    "n = vmx_possible_passthrough_msrs ! j" "j < length vmx_possible_passthrough_msrs"
    using assms by (metis in_set_conv_nth)
  then show ?thesis
    using vmx_slot_nth nth_eq_iff_index_eq [OF vmx_managed_distinct] by auto
qed

definition vmx_wants :: "vmx_msrs \<Rightarrow> u32 \<Rightarrow> msr_access \<Rightarrow> bool" where
  "vmx_wants v m a = vmx_passes v (the (possible_passthrough_msr_slot m)) a"

lemma disable_managed:
  assumes "bitmap_ready H" "m \<in> vmx_managed" "n \<in> vmx_managed"
  shows "vmx_wants (vmx_disable_intercept_for_msr H flt m ty v) n a =
      (if n = m \<and> has_type ty a then True else vmx_wants v n a)"
    and "vmx_hits (vmx_disable_intercept_for_msr H flt m ty v) n a =
      (if n = m \<and> has_type ty a then \<not> kvm_msr_allowed flt m (filter_type a) else vmx_hits v n a)"
  using managed_in_bitmap [OF assms(2)]
  by (simp_all add: vmx_wants_def disable_passes [OF assms(1)] slot_eq_iff [OF assms(2,3)]
      disable_hits [OF assms(1)])

lemma enable_managed:
  assumes "bitmap_ready H" "m \<in> vmx_managed" "n \<in> vmx_managed"
  shows "vmx_wants (vmx_enable_intercept_for_msr H m ty v) n a =
      (if n = m \<and> has_type ty a then False else vmx_wants v n a)"
    and "vmx_hits (vmx_enable_intercept_for_msr H m ty v) n a =
      (n = m \<and> has_type ty a \<or> vmx_hits v n a)"
  by (simp_all add: vmx_wants_def enable_passes [OF assms(1)] slot_eq_iff [OF assms(2,3)]
      enable_hits [OF assms(1)])

text \<open>The x2APIC and the tracing MSRs are not among them.\<close>

lemma slot_of_other: "m \<notin> vmx_managed \<Longrightarrow> possible_passthrough_msr_slot m = None"
proof -
  have "m \<notin> set ms \<Longrightarrow> passthrough_scan ms i m = None" for ms i
    by (induction ms arbitrary: i) auto
  then show "m \<notin> vmx_managed \<Longrightarrow> ?thesis" by (simp add: possible_passthrough_msr_slot_def)
qed

lemma other_msr:
  assumes "bitmap_ready H" "m \<notin> vmx_managed" "n \<in> vmx_managed"
  shows "vmx_wants (vmx_disable_intercept_for_msr H flt m ty v) n a = vmx_wants v n a"
    and "vmx_wants (vmx_enable_intercept_for_msr H m ty v) n a = vmx_wants v n a"
    and "vmx_hits (vmx_disable_intercept_for_msr H flt m ty v) n a = vmx_hits v n a"
    and "vmx_hits (vmx_enable_intercept_for_msr H m ty v) n a = vmx_hits v n a"
    and "vmx_wants (vmx_set_intercept_for_msr H flt m ty b v) n a = vmx_wants v n a"
    and "vmx_hits (vmx_set_intercept_for_msr H flt m ty b v) n a = vmx_hits v n a"
proof -
  have "n \<noteq> m" using assms(2,3) by blast
  then show "vmx_wants (vmx_disable_intercept_for_msr H flt m ty v) n a = vmx_wants v n a"
    "vmx_wants (vmx_enable_intercept_for_msr H m ty v) n a = vmx_wants v n a"
    "vmx_hits (vmx_disable_intercept_for_msr H flt m ty v) n a = vmx_hits v n a"
    "vmx_hits (vmx_enable_intercept_for_msr H m ty v) n a = vmx_hits v n a"
    by (simp_all add: vmx_wants_def disable_passes [OF assms(1)] enable_passes [OF assms(1)]
        slot_of_other [OF assms(2)] disable_hits [OF assms(1)] enable_hits [OF assms(1)])
  then show "vmx_wants (vmx_set_intercept_for_msr H flt m ty b v) n a = vmx_wants v n a"
    "vmx_hits (vmx_set_intercept_for_msr H flt m ty b v) n a = vmx_hits v n a"
    by (simp_all add: set_intercept [OF assms(1)])
qed

text \<open>Two states that agree on the managed MSRs.\<close>

definition same_managed :: "vmx_msrs \<Rightarrow> vmx_msrs \<Rightarrow> bool" where
  "same_managed v v' \<longleftrightarrow> pt_num_address_ranges v' = pt_num_address_ranges v \<and>
     (\<forall>n \<in> vmx_managed. \<forall>a. vmx_wants v' n a = vmx_wants v n a \<and> vmx_hits v' n a = vmx_hits v n a)"

lemma same_managed_refl [simp]: "same_managed v v"
  by (simp add: same_managed_def)

lemma same_managed_trans: "same_managed u v \<Longrightarrow> same_managed v w \<Longrightarrow> same_managed u w"
  by (simp add: same_managed_def)

lemma same_managed_other:
  assumes "bitmap_ready H" "m \<notin> vmx_managed"
  shows "same_managed v (vmx_disable_intercept_for_msr H flt m ty v)"
    and "same_managed v (vmx_enable_intercept_for_msr H m ty v)"
    and "same_managed v (vmx_set_intercept_for_msr H flt m ty b v)"
  by (simp_all add: same_managed_def other_msr [OF assms] intercept_frame set_intercept [OF assms(1)])

lemma same_managed_step:
  "bitmap_ready H \<Longrightarrow> m \<notin> vmx_managed \<Longrightarrow> same_managed u v \<Longrightarrow>
   same_managed u (vmx_set_intercept_for_msr H flt m ty b v)"
  using same_managed_other(3) by (rule same_managed_trans [rotated])

lemma pt_msrs_other: "list_all (\<lambda>m. m \<notin> vmx_managed) [0x571, 0x560, 0x561, 0x572]"
  by code_simp

lemma pt_ranges_other:
  assumes "i < 4"
  shows "0x580 + of_nat i * 2 \<notin> vmx_managed" "0x581 + of_nat i * 2 \<notin> vmx_managed"
proof -
  have "\<forall>i \<in> set [0..<4]. (0x580 + of_nat i * 2 :: u32) \<notin> vmx_managed \<and>
      (0x581 + of_nat i * 2 :: u32) \<notin> vmx_managed" by code_simp
  then show "0x580 + of_nat i * 2 \<notin> vmx_managed" "0x581 + of_nat i * 2 \<notin> vmx_managed"
    using assms by auto
qed

lemma pt_update_same:
  assumes "bitmap_ready H" "pt_num_address_ranges v \<le> 4"
  shows "same_managed v (pt_update_intercept_for_msr H flt v)"
proof -
  have f: "same_managed u (fold (pt_update_range H flt flag) is u)" if "\<forall>i \<in> set is. i < 4" for flag "is" u
    using that
  proof (induction "is" arbitrary: u)
    case (Cons i "is")
    have "same_managed u (pt_update_range H flt flag i u)"
      unfolding pt_update_range_def
      by (intro same_managed_step [OF assms(1)] pt_ranges_other same_managed_refl)
        (use Cons.prems in simp_all)
    with Cons show ?case by (auto intro: same_managed_trans)
  qed simp
  have "\<forall>i \<in> set [0..<pt_num_address_ranges v]. i < 4" using assms(2) by simp
  note f = f [OF this]
  show ?thesis
    unfolding pt_update_intercept_for_msr_def Let_def
    by (rule same_managed_trans [OF _ f], intro same_managed_step [OF assms(1)] same_managed_refl)
      (use pt_msrs_other in \<open>simp_all add: list_all_iff\<close>)
qed

text \<open>A new filter.\<close>

lemma disable_if_wanted:
  fixes flt :: msr_filter and ty :: u32 and v :: vmx_msrs
  assumes "bitmap_ready H" "m \<in> vmx_managed" "n \<in> vmx_managed"
    and "\<And>a. has_type ty a \<longleftrightarrow> a = c" and "b \<longleftrightarrow> vmx_wants v m c"
  defines "v' \<equiv> (if b then vmx_disable_intercept_for_msr H flt m ty v else v)"
  shows "vmx_wants v' n a = vmx_wants v n a"
    and "vmx_hits v' n a =
      (if n = m \<and> a = c \<and> vmx_wants v n a then \<not> kvm_msr_allowed flt n (filter_type a)
       else vmx_hits v n a)"
    and "pt_num_address_ranges v' = pt_num_address_ranges v"
  using assms(5)
  by (auto simp: v'_def disable_managed [OF assms(1-3)] disable_managed [OF assms(1,2,2)] assms(4)
      intercept_frame)

lemma refresh_one:
  fixes flt :: msr_filter and v :: vmx_msrs
  assumes "bitmap_ready H" "m \<in> vmx_managed" "n \<in> vmx_managed"
    and slot: "possible_passthrough_msr_slot m = Some i"
  defines "v1 \<equiv> (if \<not> vmx_shadow_read v i
    then vmx_disable_intercept_for_msr H flt m MSR_TYPE_R v else v)"
  defines "v2 \<equiv> (if \<not> vmx_shadow_write v1 i
    then vmx_disable_intercept_for_msr H flt m MSR_TYPE_W v1 else v1)"
  shows "vmx_wants v2 n a = vmx_wants v n a"
    and "vmx_hits v2 n a =
      (if n = m \<and> vmx_wants v n a then \<not> kvm_msr_allowed flt n (filter_type a)
       else vmx_hits v n a)"
    and "pt_num_address_ranges v2 = pt_num_address_ranges v"
proof -
  have "\<not> vmx_shadow_read v i \<longleftrightarrow> vmx_wants v m Rd" by (simp add: vmx_wants_def slot)
  note 1 = disable_if_wanted [OF assms(1-3) has_types(1) this, where flt = flt, folded v1_def]
  have "\<not> vmx_shadow_write v1 i \<longleftrightarrow> vmx_wants v1 m Wr" by (simp add: vmx_wants_def slot)
  note 2 = disable_if_wanted [OF assms(1-3) has_types(2) this, where flt = flt, folded v2_def]
  show "vmx_wants v2 n a = vmx_wants v n a" by (simp only: 1 2)
  show "vmx_hits v2 n a =
      (if n = m \<and> vmx_wants v n a then \<not> kvm_msr_allowed flt n (filter_type a)
       else vmx_hits v n a)"
    unfolding 2 1 by (cases "n = m"; cases a; simp)
  show "pt_num_address_ranges v2 = pt_num_address_ranges v" by (simp only: 1 2)
qed

lemma vmx_filter_loop:
  assumes ready: "bitmap_ready H" and "vmx_possible_passthrough_msrs = xs @ ms" and n: "n \<in> vmx_managed"
  shows "vmx_wants (vmx_filter_loop H flt ms (length xs) v) n a = vmx_wants v n a \<and>
    vmx_hits (vmx_filter_loop H flt ms (length xs) v) n a =
      (if n \<in> set ms \<and> vmx_wants v n a then \<not> kvm_msr_allowed flt n (filter_type a)
       else vmx_hits v n a) \<and>
    pt_num_address_ranges (vmx_filter_loop H flt ms (length xs) v) = pt_num_address_ranges v"
  using assms(2)
proof (induction ms arbitrary: xs v)
  case (Cons m ms)
  let ?i = "length xs"
  have m: "m \<in> vmx_managed" unfolding Cons.prems by simp
  have slot: "possible_passthrough_msr_slot m = Some ?i"
  proof -
    have "?i < length vmx_possible_passthrough_msrs" unfolding Cons.prems by simp
    from vmx_slot_nth [OF this] show ?thesis unfolding Cons.prems by simp
  qed
  have new: "m \<notin> set ms" using vmx_managed_distinct unfolding Cons.prems by simp
  define v1 where "v1 = (if \<not> vmx_shadow_read v ?i
    then vmx_disable_intercept_for_msr H flt m MSR_TYPE_R v else v)"
  define v2 where "v2 = (if \<not> vmx_shadow_write v1 ?i
    then vmx_disable_intercept_for_msr H flt m MSR_TYPE_W v1 else v1)"
  note one = refresh_one [OF ready m n slot, where flt = flt and v = v, folded v1_def, folded v2_def]
  have l: "vmx_filter_loop H flt (m # ms) ?i v = vmx_filter_loop H flt ms (length (xs @ [m])) v2"
    by (simp add: v1_def v2_def Let_def)
  have "vmx_possible_passthrough_msrs = (xs @ [m]) @ ms" using Cons.prems by simp
  note ih = Cons.IH [OF this, of v2]
  have "(if n \<in> set ms \<and> vmx_wants v n a then \<not> kvm_msr_allowed flt n (filter_type a)
       else if n = m \<and> vmx_wants v n a then \<not> kvm_msr_allowed flt n (filter_type a)
       else vmx_hits v n a) =
    (if n \<in> set (m # ms) \<and> vmx_wants v n a then \<not> kvm_msr_allowed flt n (filter_type a)
     else vmx_hits v n a)" by (cases "n = m") simp_all
  with ih show ?case unfolding l one by simp
qed simp

section \<open>The interface of the intercepts\<close>

text \<open>A request changes all its accesses in one direction: \<open>ty\<close> is where it has an opinion.\<close>

definition vmx_shape :: "msr_request \<Rightarrow> bool" where
  "vmx_shape P \<longleftrightarrow> P Rd = None \<or> P Wr = None \<or> P Rd = P Wr"

definition request_type :: "msr_request \<Rightarrow> u32" where
  "request_type P =
     (if P Rd \<noteq> None then MSR_TYPE_R else 0) OR (if P Wr \<noteq> None then MSR_TYPE_W else 0)"

definition vmx_request ::
  "vmx_h \<Rightarrow> msr_filter \<Rightarrow> u32 \<Rightarrow> msr_request \<Rightarrow> vmx_msrs \<Rightarrow> vmx_msrs" where
  "vmx_request H flt m P v =
     (if P Rd = Some True \<or> P Wr = Some True
      then vmx_disable_intercept_for_msr H flt m (request_type P) v
      else vmx_enable_intercept_for_msr H m (request_type P) v)"

definition few_pt_ranges :: "vmx_msrs \<Rightarrow> bool" where
  "few_pt_ranges v \<longleftrightarrow> pt_num_address_ranges v \<le> 4"

lemma has_request_type: "has_type (request_type P) a \<longleftrightarrow> P a \<noteq> None"
  by (cases a) (simp_all add: request_type_def has_type_def msr_types bit_or_iff)

lemma vmx_request:
  assumes "bitmap_ready H" "m \<in> vmx_managed" "vmx_shape P" "n \<in> vmx_managed"
  shows "vmx_wants (vmx_request H flt m P v) n a =
      (if n = m \<and> P a \<noteq> None then the (P a) else vmx_wants v n a)"
    and "vmx_hits (vmx_request H flt m P v) n a =
      (if n = m \<and> P a \<noteq> None then \<not> (the (P a) \<and> kvm_msr_allowed flt n (filter_type a))
       else vmx_hits v n a)"
proof -
  have t: "the (P a) \<longleftrightarrow> P Rd = Some True \<or> P Wr = Some True" if "P a \<noteq> None"
    using assms(3) that by (cases a) (auto simp: vmx_shape_def)
  show "vmx_wants (vmx_request H flt m P v) n a =
      (if n = m \<and> P a \<noteq> None then the (P a) else vmx_wants v n a)"
    using t unfolding vmx_request_def
    by (cases "n = m"; cases "P a")
      (simp_all add: has_request_type disable_managed(1) [OF assms(1,2)] enable_managed(1) [OF assms(1,2)]
        assms(2,4))
  show "vmx_hits (vmx_request H flt m P v) n a =
      (if n = m \<and> P a \<noteq> None then \<not> (the (P a) \<and> kvm_msr_allowed flt n (filter_type a))
       else vmx_hits v n a)"
    using t unfolding vmx_request_def
    by (cases "n = m"; cases "P a")
      (simp_all add: has_request_type disable_managed(2) [OF assms(1,2)] enable_managed(2) [OF assms(1,2)]
        assms(2,4))
qed

lemma vmx_filter_changed:
  assumes "bitmap_ready H" "few_pt_ranges v" "n \<in> vmx_managed"
  shows "vmx_wants (vmx_msr_filter_changed H flt v) n a = vmx_wants v n a"
    and "vmx_hits (vmx_msr_filter_changed H flt v) n a =
      (if vmx_wants v n a then \<not> kvm_msr_allowed flt n (filter_type a) else vmx_hits v n a)"
    and "few_pt_ranges (vmx_msr_filter_changed H flt v)"
proof -
  let ?v = "vmx_filter_loop H flt vmx_possible_passthrough_msrs 0 v"
  note l = vmx_filter_loop [OF assms(1) _ assms(3), of "[]" vmx_possible_passthrough_msrs flt v, simplified]
  have "few_pt_ranges ?v" using l assms(2) by (simp add: few_pt_ranges_def)
  then have "same_managed ?v (vmx_msr_filter_changed H flt v)"
    using pt_update_same [OF assms(1), of ?v flt]
    by (simp add: vmx_msr_filter_changed_def Let_def few_pt_ranges_def)
  with l assms(2,3) show "vmx_wants (vmx_msr_filter_changed H flt v) n a = vmx_wants v n a"
    "vmx_hits (vmx_msr_filter_changed H flt v) n a =
      (if vmx_wants v n a then \<not> kvm_msr_allowed flt n (filter_type a) else vmx_hits v n a)"
    "few_pt_ranges (vmx_msr_filter_changed H flt v)"
    by (simp_all add: same_managed_def few_pt_ranges_def)
qed

lemma vmx_msr_intercepts:
  assumes "bitmap_ready H"
  shows "msr_intercepts vmx_managed vmx_shape few_pt_ranges vmx_hits vmx_wants (vmx_request H)
    (vmx_msr_filter_changed H)"
proof (unfold_locales, goal_cases)
  case (1 s m P f)
  then show ?case by (simp add: few_pt_ranges_def vmx_request_def intercept_frame)
next
  case (2 s m P n f a) then show ?case by (intro vmx_request(1) [OF assms])
next
  case (3 s m P n f a) then show ?case by (intro vmx_request(2) [OF assms])
next
  case (4 s f)
  have "0x10 \<in> vmx_managed" by (simp add: vmx_possible_passthrough_msrs_def)
  from vmx_filter_changed(3) [OF assms 4 this] show ?case .
next
  case (5 s n f a) then show ?case by (intro vmx_filter_changed(1) [OF assms])
next
  case (6 s n a f) then show ?case using vmx_filter_changed(2) [OF assms 6(1,2)] by auto
qed

end
