(* ===== verification/Vmx_Msr_Props.thy ===== *)
theory Vmx_Msr_Props
  imports Vmx_Msr_Bitmap
begin

text \<open>
  What the MSR bitmap of \<open>vmx.c\<close> lets through: the states a vCPU reaches follow the interface
  of \<open>Kvm_Msr_Intercept\<close>, and the x2APIC registers are those the mode asks for.
\<close>

section \<open>Steps\<close>

text \<open>The request a call with the type \<open>ty\<close> makes.\<close>

definition typed :: "u32 \<Rightarrow> bool \<Rightarrow> msr_request" where
  "typed ty b = (\<lambda>a. if has_type ty a then Some b else None)"

definition msr_type :: "u32 \<Rightarrow> bool" where
  "msr_type ty \<longleftrightarrow> ty = MSR_TYPE_R \<or> ty = MSR_TYPE_W \<or> ty = MSR_TYPE_RW"

lemma typed_shape: "vmx_shape (typed ty b)"
  by (simp add: vmx_shape_def typed_def)

lemma request_typed:
  assumes "msr_type ty"
  shows "vmx_request H flt m (typed ty True) v = vmx_disable_intercept_for_msr H flt m ty v"
    and "vmx_request H flt m (typed ty False) v = vmx_enable_intercept_for_msr H m ty v"
proof -
  have "request_type (typed ty b) = ty" for b
    using assms by (auto simp: request_type_def typed_def has_type_def msr_type_def msr_types)
  moreover have "typed ty True Rd = Some True \<or> typed ty True Wr = Some True"
    using assms by (auto simp: typed_def msr_type_def has_types)
  moreover have "\<not> (typed ty False Rd = Some True \<or> typed ty False Wr = Some True)"
    by (simp add: typed_def)
  ultimately show "vmx_request H flt m (typed ty True) v = vmx_disable_intercept_for_msr H flt m ty v"
    "vmx_request H flt m (typed ty False) v = vmx_enable_intercept_for_msr H m ty v"
    unfolding vmx_request_def by simp_all
qed

abbreviation vmx_follows :: "msr_wishes \<Rightarrow> msr_filter \<Rightarrow> vmx_msrs \<Rightarrow> bool" where
  "vmx_follows \<equiv> msr_intercepts.follows vmx_managed few_pt_ranges vmx_hits vmx_wants"

lemma follows_disable:
  assumes "bitmap_ready H" "vmx_follows w flt v" "m \<in> vmx_managed" "msr_type ty"
  shows "vmx_follows (asked m (typed ty True) w) flt (vmx_disable_intercept_for_msr H flt m ty v)"
  using msr_intercepts.follows_req [OF vmx_msr_intercepts [OF assms(1)] assms(2,3)
      typed_shape [of ty True]]
  unfolding request_typed(1) [OF assms(4)] .

lemma follows_enable:
  assumes "bitmap_ready H" "vmx_follows w flt v" "m \<in> vmx_managed" "msr_type ty"
  shows "vmx_follows (asked m (typed ty False) w) flt (vmx_enable_intercept_for_msr H m ty v)"
  using msr_intercepts.follows_req [OF vmx_msr_intercepts [OF assms(1)] assms(2,3)
      typed_shape [of ty False]]
  unfolding request_typed(2) [OF assms(4)] .

lemma follows_same:
  assumes "bitmap_ready H" "vmx_follows w flt v" "same_managed v v'"
  shows "vmx_follows w flt v'"
proof (rule msr_intercepts.follows_cong [OF vmx_msr_intercepts [OF assms(1)] assms(2)])
  show "few_pt_ranges v'"
    using msr_intercepts.followsD(1) [OF vmx_msr_intercepts [OF assms(1)] assms(2)] assms(3)
    by (simp add: few_pt_ranges_def same_managed_def)
qed (use assms(3) in \<open>simp_all add: same_managed_def\<close>)

lemma follows_disables:
  assumes "bitmap_ready H" "msr_type ty"
  shows "vmx_follows w flt v \<Longrightarrow> set ms \<subseteq> vmx_managed \<Longrightarrow>
    vmx_follows (fold (\<lambda>m. asked m (typed ty True)) ms w) flt
      (fold (\<lambda>m. vmx_disable_intercept_for_msr H flt m ty) ms v)"
proof (induction ms arbitrary: w v)
  case (Cons m ms)
  then have "vmx_follows (asked m (typed ty True) w) flt (vmx_disable_intercept_for_msr H flt m ty v)"
    by (intro follows_disable [OF assms(1)] assms(2)) simp_all
  from Cons.IH [OF this] Cons.prems(2) show ?case by simp
qed simp

section \<open>Reachable states\<close>

text \<open>What a new vCPU passes through.\<close>

definition create_wishes :: "vmx_h \<Rightarrow> msr_wishes" where
  "create_wishes H =
     (let w = asked 0x10 (typed MSR_TYPE_R True) (\<lambda>_ _. False);
          w = fold (\<lambda>m. asked m (typed MSR_TYPE_RW True))
                [0xc0000100, 0xc0000101, 0xc0000102, 0x174, 0x175, 0x176] w
      in if kvm_cstate_in_guest H
         then fold (\<lambda>m. asked m (typed MSR_TYPE_R True)) [0x660, 0x3fc, 0x3fd, 0x3fe] w
         else w)"

text \<open>\<open>modes\<close> is any change of the state the bitmap is computed from.\<close>

inductive vmx_bitmap_reach :: "vmx_h \<Rightarrow> msr_filter \<Rightarrow> msr_wishes \<Rightarrow> vmx_msrs \<Rightarrow> bool"
  for H :: vmx_h where
  create: "few_pt_ranges v \<Longrightarrow> vmcs01_bitmap v = (\<lambda>_. 0xffffffffffffffff) \<Longrightarrow>
    vmx_bitmap_reach H flt (create_wishes H) (vmx_vcpu_create_msrs H flt v)"
| disable: "vmx_bitmap_reach H flt w v \<Longrightarrow> m \<in> vmx_managed \<Longrightarrow> msr_type ty \<Longrightarrow>
    vmx_bitmap_reach H flt (asked m (typed ty True) w) (vmx_disable_intercept_for_msr H flt m ty v)"
| enable: "vmx_bitmap_reach H flt w v \<Longrightarrow> m \<in> vmx_managed \<Longrightarrow> msr_type ty \<Longrightarrow>
    vmx_bitmap_reach H flt (asked m (typed ty False) w) (vmx_enable_intercept_for_msr H m ty v)"
| modes: "vmx_bitmap_reach H flt w v \<Longrightarrow>
    vmx_bitmap_reach H flt w (v\<lparr>virtualize_x2apic_mode := a, apicv_active := b,
      lapic_in_kernel := c, pt_ctl := d\<rparr>)"
| x2apic: "vmx_bitmap_reach H flt w v \<Longrightarrow>
    vmx_bitmap_reach H flt w (vmx_update_msr_bitmap_x2apic H flt v)"
| tracing: "vmx_bitmap_reach H flt w v \<Longrightarrow>
    vmx_bitmap_reach H flt w (pt_update_intercept_for_msr H flt v)"
| new_filter: "vmx_bitmap_reach H flt w v \<Longrightarrow>
    vmx_bitmap_reach H flt' w (vmx_msr_filter_changed H flt' v)"

lemma bit_all_ones: "k < 64 \<Longrightarrow> bit (0xffffffffffffffff :: u64) k"
proof -
  have "(0xffffffffffffffff :: u64) = - 1" by simp
  then show "k < 64 \<Longrightarrow> ?thesis" by (simp only: bit_minus_1_iff) simp
qed

lemma vmx_follows_create:
  assumes ready: "bitmap_ready H" and "few_pt_ranges v"
    and ones: "vmcs01_bitmap v = (\<lambda>_. 0xffffffffffffffff)"
  shows "vmx_follows (create_wishes H) flt (vmx_vcpu_create_msrs H flt v)"
proof -
  define u where "u = (if kvm_is_using_evmcs H \<and> nested_msr_bitmap_feature H
    then v\<lparr>evmcs_msr_bitmap := True\<rparr> else v)\<lparr>vmx_shadow_read := \<lambda>_. True, vmx_shadow_write := \<lambda>_. True\<rparr>"
  have "vmx_hits u n a" for n a
    using bitmap_bit_less bit_all_ones by (simp add: vmx_hits_def exits_def u_def ones)
  moreover have "\<not> vmx_wants u n a" for n a
    by (cases a) (simp_all add: vmx_wants_def u_def)
  moreover have "few_pt_ranges u" using assms(2) by (simp add: u_def few_pt_ranges_def)
  ultimately have u: "vmx_follows (\<lambda>_ _. False) flt u"
    by (intro msr_intercepts.follows_start [OF vmx_msr_intercepts [OF ready]])
  have t: "msr_type MSR_TYPE_R" "msr_type MSR_TYPE_RW" by (simp_all add: msr_type_def)
  have m: "set [0xc0000100, 0xc0000101, 0xc0000102, 0x174, 0x175, 0x176] \<subseteq> vmx_managed"
    "set [0x660, 0x3fc, 0x3fd, 0x3fe] \<subseteq> vmx_managed" "0x10 \<in> vmx_managed"
    by (simp_all add: vmx_possible_passthrough_msrs_def)
  note a = follows_disable [OF ready u m(3) t(1)]
  note b = follows_disables [OF ready t(2) a m(1)]
  note c = follows_disables [OF ready t(1) b m(2)]
  show ?thesis
    using b c by (simp add: vmx_vcpu_create_msrs_def create_wishes_def Let_def u_def)
qed

lemma vmx_follows_x2apic:
  assumes ready: "bitmap_ready H"
  shows "same_managed v (vmx_update_msr_bitmap_x2apic H flt v)"
proof -
  have words: "same_managed v (v\<lparr>x2apic_msr_bitmap_mode := mode,
      vmcs01_bitmap := (vmcs01_bitmap v)(32 := r, 288 := w)\<rparr>)" for mode r w
  proof -
    have "vmx_passes (v\<lparr>x2apic_msr_bitmap_mode := mode,
        vmcs01_bitmap := (vmcs01_bitmap v)(32 := r, 288 := w)\<rparr>) i a = vmx_passes v i a" for i a
      by (cases a) simp_all
    then show ?thesis
      using managed_words by (simp add: same_managed_def vmx_wants_def vmx_hits_def exits_def)
  qed
  have other: "X2APIC_MSR 0x80 \<notin> vmx_managed" "X2APIC_MSR 0x390 \<notin> vmx_managed"
    "X2APIC_MSR 0xb0 \<notin> vmx_managed" "X2APIC_MSR 0x3f0 \<notin> vmx_managed"
    "X2APIC_MSR 0x300 \<notin> vmx_managed"
    by (simp_all add: vmx_possible_passthrough_msrs_def X2APIC_MSR_def APIC_BASE_MSR_def)
  note step = same_managed_trans [OF _ same_managed_other(1) [OF ready]]
    same_managed_trans [OF _ same_managed_other(2) [OF ready]]
    same_managed_trans [OF _ same_managed_other(3) [OF ready]]
  show ?thesis
    unfolding vmx_update_msr_bitmap_x2apic_def Let_def
    by (simp only: split: if_split) (auto intro!: step other words)
qed

lemma vmx_reach_follows:
  assumes ready: "bitmap_ready H"
  shows "vmx_bitmap_reach H flt w v \<Longrightarrow> vmx_follows w flt v"
proof (induction rule: vmx_bitmap_reach.induct)
  case (create v flt)
  then show ?case by (intro vmx_follows_create [OF ready])
next
  case (disable flt w v m ty)
  then show ?case by (intro follows_disable [OF ready])
next
  case (enable flt w v m ty)
  then show ?case by (intro follows_enable [OF ready])
next
  case (modes flt w v d c b a)
  have "vmx_passes (v\<lparr>virtualize_x2apic_mode := a, apicv_active := b, lapic_in_kernel := c,
      pt_ctl := d\<rparr>) i x = vmx_passes v i x" for i x by (cases x) simp_all
  then show ?case
    by (intro follows_same [OF ready modes.IH])
      (simp add: same_managed_def vmx_wants_def vmx_hits_def)
next
  case (x2apic flt w v)
  then show ?case by (intro follows_same [OF ready x2apic.IH] vmx_follows_x2apic [OF ready])
next
  case (tracing flt w v)
  have "few_pt_ranges v"
    by (rule msr_intercepts.followsD(1) [OF vmx_msr_intercepts [OF ready] tracing.IH])
  then show ?case
    by (intro follows_same [OF ready tracing.IH] pt_update_same [OF ready])
      (simp add: few_pt_ranges_def)
next
  case (new_filter flt w v flt')
  show ?case
    by (rule msr_intercepts.follows_refresh [OF vmx_msr_intercepts [OF ready] new_filter.IH])
qed

section \<open>Properties\<close>

text \<open>
  The bits of a last branch record MSR, which KVM may pass through but does not shadow, are not brought
  in step with a new filter.
\<close>

lemma lbr_not_refreshed:
  assumes "bitmap_ready H" "few_pt_ranges v" "msr_between 0x680 0x69f n"
  shows "vmx_hits (vmx_msr_filter_changed H flt v) n a = vmx_hits v n a"
proof -
  have n: "0x680 \<le> unat n" "unat n \<le> 0x69f"
    using assms(3) by (simp_all add: msr_between_def word_le_nat_alt)
  have keep: "vmx_hits (vmx_disable_intercept_for_msr H flt m ty u) n a = vmx_hits u n a"
    "vmx_hits (vmx_set_intercept_for_msr H flt m ty b u) n a = vmx_hits u n a"
    if "unat m \<notin> {0x680 .. 0x69f}" for m ty u b
    using that n by (auto simp: set_intercept [OF assms(1)] disable_hits [OF assms(1)] enable_hits [OF assms(1)])
  have loop: "vmx_hits (vmx_filter_loop H flt ms i u) n a = vmx_hits u n a"
    if "list_all (\<lambda>m. unat m \<notin> {0x680 .. 0x69f}) ms" for ms i u
    using that by (induction ms arbitrary: i u) (simp_all add: Let_def keep)
  have managed: "list_all (\<lambda>m. unat m \<notin> {0x680 .. 0x69f}) vmx_possible_passthrough_msrs"
    by (simp add: vmx_possible_passthrough_msrs_def)
  have pt: "unat (0x580 + of_nat i * 2 :: u32) = 0x580 + i * 2" "unat (0x581 + of_nat i * 2 :: u32) = 0x581 + i * 2"
    if "i < 4" for i
    using that by (auto simp: unat_word_ariths unat_of_nat)
  have fold: "vmx_hits (fold (pt_update_range H flt flag) is u) n a = vmx_hits u n a"
    if "\<forall>i \<in> set is. i < 4" for flag "is" u
    using that by (induction "is" arbitrary: u) (simp_all add: pt_update_range_def keep pt)
  let ?u = "vmx_filter_loop H flt vmx_possible_passthrough_msrs 0 v"
  have "few_pt_ranges ?u"
  proof -
    have "0x10 \<in> vmx_managed" by (simp add: vmx_possible_passthrough_msrs_def)
    from vmx_filter_loop [OF assms(1) _ this, of "[]" vmx_possible_passthrough_msrs flt v, simplified]
    show ?thesis using assms(2) by (simp only: few_pt_ranges_def)
  qed
  then have "\<forall>i \<in> set [0..<pt_num_address_ranges ?u]. i < 4" by (simp add: few_pt_ranges_def)
  from fold [OF this] show ?thesis
    by (simp add: vmx_msr_filter_changed_def pt_update_intercept_for_msr_def Let_def keep loop [OF managed])
qed

text \<open> C33. On Intel, with MSR bitmaps, for each of the sixteen MSRs of
  \<open>vmx_possible_passthrough_msrs\<close>: whatever KVM requested and however often user space changed the filter, the
  MSR bitmap lets an access of the guest through exactly when the last request for it was to
  pass it through and the filter now in force allows it, and \<open>msr_write_intercepted\<close> tells
  the same of writes while the vCPU's own bitmap is loaded. (The MSRs of last branch records are passed through without being
  followed: \<open>lbr_not_refreshed\<close>.) \<close>

theorem vmx_bitmap_follows_requests:
  assumes "vmx_h_contract H" and "cpu_has_vmx_msr_bitmap H"
    and "vmx_bitmap_reach H flt w v" and "n \<in> set vmx_possible_passthrough_msrs"
  shows "exits (vmcs01_bitmap v) n a = (\<not> passes_through flt w n a) \<and>
    vmx_msr_write_intercepted H True (vmcs01_bitmap v) n = (\<not> passes_through flt w n Wr)"
proof -
  have ready: "bitmap_ready H" using assms(1,2) by (simp add: bitmap_ready_def)
  have e: "exits (vmcs01_bitmap v) n a = (\<not> passes_through flt w n a)" for a
    using msr_intercepts.followsD(3) [OF vmx_msr_intercepts [OF ready]
        vmx_reach_follows [OF ready assms(3)] assms(4)]
    by (simp add: vmx_hits_def)
  with assms(1) show ?thesis by (simp add: vmx_msr_write_intercepted_def vmx_h_contract_def)
qed

text \<open>The functions of the header as the processor's layout asks for them.\<close>

definition layout_h :: "bool \<Rightarrow> u64 \<Rightarrow> vmx_h" where
  "layout_h ipiv regs =
     (let H = \<lparr>cpu_has_vmx_msr_bitmap = True, cpu_has_secondary_exec_ctrls = True,
       kvm_is_using_evmcs = False, nested_msr_bitmap_feature = False, enable_apicv = True,
       enable_ipiv = ipiv, vmx_pt_mode_is_host_guest = True, kvm_cstate_in_guest = False,
       kvm_lapic_readable_reg_mask = regs,
       vmx_set_msr_bitmap = \<lambda>a m b. if in_bitmap m
         then b(bitmap_word a m := set_bit (bitmap_bit m) (b (bitmap_word a m))) else b,
       vmx_clear_msr_bitmap = \<lambda>a m b. if in_bitmap m
         then b(bitmap_word a m := unset_bit (bitmap_bit m) (b (bitmap_word a m))) else b,
       vmx_test_msr_bitmap_write = \<lambda>b m. exits b m Wr,
       vmx_set_intercept_for_msr = \<lambda>flt m ty value v. v\<rparr>
     in H\<lparr>vmx_set_intercept_for_msr := \<lambda>flt m ty value v.
       if value then vmx_enable_intercept_for_msr H m ty v
       else vmx_disable_intercept_for_msr H flt m ty v\<rparr>)"

lemma intercept_own_field:
  "vmx_enable_intercept_for_msr (H\<lparr>vmx_set_intercept_for_msr := f\<rparr>) m ty v =
   vmx_enable_intercept_for_msr H m ty v"
  "vmx_disable_intercept_for_msr (H\<lparr>vmx_set_intercept_for_msr := f\<rparr>) flt m ty v =
   vmx_disable_intercept_for_msr H flt m ty v"
  by (simp_all add: vmx_enable_intercept_for_msr_def vmx_disable_intercept_for_msr_def
      vmx_msr_bitmap_l01_changed_def Let_def)

lemma layout_contract: "vmx_h_contract (layout_h ipiv regs)" "cpu_has_vmx_msr_bitmap (layout_h ipiv regs)"
  unfolding vmx_h_contract_def layout_h_def Let_def intercept_own_field by simp_all

definition fresh_vmx_msrs :: vmx_msrs where
  "fresh_vmx_msrs =
     \<lparr>vmcs01_bitmap = \<lambda>_. 0xffffffffffffffff, vmx_shadow_read = \<lambda>_. False,
      vmx_shadow_write = \<lambda>_. False, x2apic_msr_bitmap_mode = 0, vmx_force_recalc = False,
      evmcs_msr_bitmap = False, evmcs_bitmap_clean = False, virtualize_x2apic_mode = True,
      apicv_active = True, lapic_in_kernel = True, pt_ctl = 0, pt_num_address_ranges = 2\<rparr>"

text \<open>A filter that denies writes of \<open>MSR_FS_BASE\<close>.\<close>

definition fs_filter :: kvm_x86_msr_filter where
  "fs_filter =
     \<lparr>default_allow = True, filter_ranges =
       [\<lparr>range_flags = KVM_MSR_FILTER_WRITE, range_base = 0xc0000100, range_nmsrs = 1,
         range_bitmap = \<lambda>_. False\<rparr>]\<rparr>"

theorem vmx_bitmap_follows_requests_witness:
  "\<exists>w v. vmx_bitmap_reach (layout_h True 0) (Some fs_filter) w v \<and>
     \<not> exits (vmcs01_bitmap v) 0xc0000100 Rd \<and> exits (vmcs01_bitmap v) 0xc0000100 Wr"
proof -
  let ?H = "layout_h True 0"
  let ?w = "create_wishes ?H"
  let ?v = "vmx_msr_filter_changed ?H (Some fs_filter) (vmx_vcpu_create_msrs ?H None fresh_vmx_msrs)"
  have "vmx_bitmap_reach ?H None ?w (vmx_vcpu_create_msrs ?H None fresh_vmx_msrs)"
    by (rule vmx_bitmap_reach.create) (simp_all add: fresh_vmx_msrs_def few_pt_ranges_def)
  then have r: "vmx_bitmap_reach ?H (Some fs_filter) ?w ?v" by (rule vmx_bitmap_reach.new_filter)
  have n: "0xc0000100 \<in> set vmx_possible_passthrough_msrs"
    by (simp add: vmx_possible_passthrough_msrs_def)
  have "?w 0xc0000100 a" for a
    by (simp add: create_wishes_def layout_h_def Let_def asked_def typed_def has_types)
  then have "\<not> exits (vmcs01_bitmap ?v) 0xc0000100 Rd" "exits (vmcs01_bitmap ?v) 0xc0000100 Wr"
    using vmx_bitmap_follows_requests [OF layout_contract r n]
    by (simp_all add: passes_through_def kvm_msr_allowed_def fs_filter_def filter_codes)
  with r show ?thesis by blast
qed

text \<open>The x2APIC registers KVM leaves to the processor in a mode.\<close>

definition x2apic_passes :: "vmx_h \<Rightarrow> u8 \<Rightarrow> nat \<Rightarrow> msr_access \<Rightarrow> bool" where
  "x2apic_passes H mode r a =
     (if mode AND MSR_BITMAP_MODE_X2APIC = 0 then False
      else if mode AND MSR_BITMAP_MODE_X2APIC_APICV = 0 then r = 0x8
      else case a of
             Rd \<Rightarrow> r \<noteq> 0x39 \<and>
               (r = 0x8 \<or> r = 0x30 \<and> enable_ipiv H \<or> bit (kvm_lapic_readable_reg_mask H) r)
           | Wr \<Rightarrow> r = 0x8 \<or> r = 0xb \<or> r = 0x3f \<or> r = 0x30 \<and> enable_ipiv H)"

lemma x2apic_cell:
  assumes "r < 64"
  shows "in_bitmap (0x800 + of_nat r)"
    and "bitmap_word a (0x800 + of_nat r) = (case a of Rd \<Rightarrow> 32 | Wr \<Rightarrow> 288)"
    and "bitmap_bit (0x800 + of_nat r) = r"
proof -
  have u: "unat (0x800 + of_nat r :: u32) = 0x800 + r"
    using assms by (simp add: unat_word_ariths unat_of_nat)
  then have le: "(0x800 + of_nat r :: u32) \<le> 0x1fff" using assms by (simp add: word_le_nat_alt)
  then show "in_bitmap (0x800 + of_nat r)" by (simp add: in_bitmap_def msr_between_def)
  show "bitmap_word a (0x800 + of_nat r) = (case a of Rd \<Rightarrow> 32 | Wr \<Rightarrow> 288)"
    using le assms by (cases a) (simp_all add: bitmap_word_def u)
  have "(64 * 32 + r) mod 64 = r" using assms by (simp only: mod_mult_self4) simp
  then show "bitmap_bit (0x800 + of_nat r) = r" by (simp add: bitmap_bit_def u)
qed

lemma x2apic_msrs:
  "X2APIC_MSR 0x80 = 0x800 + of_nat 0x8" "X2APIC_MSR 0x390 = 0x800 + of_nat 0x39"
  "X2APIC_MSR 0xb0 = 0x800 + of_nat 0xb" "X2APIC_MSR 0x3f0 = 0x800 + of_nat 0x3f"
  "X2APIC_MSR 0x300 = 0x800 + of_nat 0x30"
  by (simp_all add: X2APIC_MSR_def APIC_BASE_MSR_def)

lemma x2apic_msr_eq:
  assumes "r < 64" "k < 64"
  shows "(0x800 + of_nat r :: u32) = 0x800 + of_nat k \<longleftrightarrow> r = k"
  using assms x2apic_cell(3) by metis

lemma x2apic_allowed:
  assumes "r < 64"
  shows "kvm_msr_allowed flt (0x800 + of_nat r) ty"
proof -
  have "unat (0x800 + of_nat r :: u32) = 0x800 + r"
    using assms by (simp add: unat_word_ariths unat_of_nat)
  then show ?thesis using assms by (simp add: kvm_msr_allowed_def word_le_nat_alt)
qed

lemma x2apic_reset:
  assumes "r < 64"
  shows "vmx_hits (v\<lparr>x2apic_msr_bitmap_mode := mode,
      vmcs01_bitmap := (vmcs01_bitmap v)(32 := x, 288 := 0xffffffffffffffff)\<rparr>)
      (0x800 + of_nat r) a = (a = Wr \<or> bit x r)"
  using bit_all_ones [OF assms]
  by (cases a) (simp_all add: vmx_hits_def exits_def x2apic_cell [OF assms])

lemma disable_x2apic:
  assumes "bitmap_ready H" "r < 64" "k < 64"
  shows "vmx_hits (vmx_disable_intercept_for_msr H flt (0x800 + of_nat k) ty v) (0x800 + of_nat r) a =
    (\<not> (r = k \<and> has_type ty a) \<and> vmx_hits v (0x800 + of_nat r) a)"
  unfolding disable_hits [OF assms(1)] x2apic_msr_eq [OF assms(2,3)]
  by (simp add: x2apic_allowed [OF assms(3)] x2apic_cell(1) [OF assms(3)])

lemma enable_x2apic:
  assumes "bitmap_ready H" "r < 64" "k < 64"
  shows "vmx_hits (vmx_enable_intercept_for_msr H (0x800 + of_nat k) ty v) (0x800 + of_nat r) a =
    (r = k \<and> has_type ty a \<or> vmx_hits v (0x800 + of_nat r) a)"
  unfolding enable_hits [OF assms(1)] x2apic_msr_eq [OF assms(2,3)] ..

lemma mode_bits:
  "x2apic_mode H v = 0 \<or> x2apic_mode H v = MSR_BITMAP_MODE_X2APIC \<or>
   x2apic_mode H v = MSR_BITMAP_MODE_X2APIC OR MSR_BITMAP_MODE_X2APIC_APICV"
  by (simp add: x2apic_mode_def)

text \<open> When the x2APIC mode changes, the bitmap passes exactly the x2APIC registers the mode
  leaves to the processor, whatever it held before and whatever the filter says: none without
  the mode, the task priority with it, and with APICv the readable registers but the current
  count of the timer, and writes of task priority, EOI, self IPI and, with IPI
  virtualisation, ICR. \<close>

theorem x2apic_mode_decides_exits:
  assumes "vmx_h_contract H" and "cpu_has_vmx_msr_bitmap H"
    and "lapic_in_kernel v" and "x2apic_mode H v \<noteq> x2apic_msr_bitmap_mode v" and "r < 64"
  shows "exits (vmcs01_bitmap (vmx_update_msr_bitmap_x2apic H flt v)) (0x800 + of_nat r) a =
    (\<not> x2apic_passes H (x2apic_mode H v) r a)"
proof -
  have ready: "bitmap_ready H" using assms(1,2) by (simp add: bitmap_ready_def)
  note hits = disable_x2apic [OF ready assms(5)] enable_x2apic [OF ready assms(5)]
  have "vmx_hits (vmx_update_msr_bitmap_x2apic H flt v) (0x800 + of_nat r) a =
      (\<not> x2apic_passes H (x2apic_mode H v) r a)"
    using mode_bits [of H v] assms(2-5) bit_all_ones [OF assms(5)]
    by (cases a)
      (auto simp: vmx_update_msr_bitmap_x2apic_def Let_def x2apic_msrs
        hits set_intercept [OF ready] has_types
        x2apic_reset [OF assms(5)] x2apic_passes_def MSR_BITMAP_MODE_X2APIC_def
        MSR_BITMAP_MODE_X2APIC_APICV_def bit_not_iff simp del: of_nat_numeral)
  then show ?thesis by (simp add: vmx_hits_def)
qed

theorem x2apic_mode_decides_exits_witness:
  "\<not> exits (vmcs01_bitmap (vmx_update_msr_bitmap_x2apic (layout_h True 0x0a) None fresh_vmx_msrs)) 0x803 Rd"
proof -
  have "x2apic_mode (layout_h True 0x0a) fresh_vmx_msrs \<noteq> x2apic_msr_bitmap_mode fresh_vmx_msrs"
    "lapic_in_kernel fresh_vmx_msrs"
    by (simp_all add: x2apic_mode_def layout_h_def Let_def fresh_vmx_msrs_def MSR_BITMAP_MODE_X2APIC_def
        MSR_BITMAP_MODE_X2APIC_APICV_def)
  from x2apic_mode_decides_exits [OF layout_contract this(2,1), of 3 None Rd]
  show ?thesis
    by (simp add: x2apic_passes_def x2apic_mode_def layout_h_def Let_def fresh_vmx_msrs_def
        MSR_BITMAP_MODE_X2APIC_def MSR_BITMAP_MODE_X2APIC_APICV_def)
qed

end
