(* ===== verification/Kvm_Tsc_Scale.thy ===== *)
theory Kvm_Tsc_Scale
  imports Prelude
begin

text \<open>
  The fixed-point arithmetic behind the guest's clocks in \<open>x86.c\<close>: the search for a shift and
  a multiplier (\<open>kvm_get_time_scale\<close>), whose loops need not end, and the scaling of counters.
  The division and the wide multiplications of other headers are parameters (\<open>tsc_math\<close>).
\<close>

section \<open>Parameters\<close>

text \<open>
  \<open>do_shl32_div32\<close> is one division instruction: \<open>None\<close> is its fault, when the quotient does
  not fit.
\<close>

record tsc_math =
  do_shl32_div32 :: "u32 \<Rightarrow> u32 \<Rightarrow> u32 option"
  mul_u64_u64_shr :: "u64 \<Rightarrow> u64 \<Rightarrow> nat \<Rightarrow> u64"
  mul_s64_u64_shr :: "u64 \<Rightarrow> u64 \<Rightarrow> nat \<Rightarrow> u64"
  mul_u64_u32_div :: "u64 \<Rightarrow> u32 \<Rightarrow> u32 \<Rightarrow> u64"
  pvclock_scale_delta :: "u64 \<Rightarrow> u32 \<Rightarrow> 8 word \<Rightarrow> u64"

definition tsc_math_contract :: "tsc_math \<Rightarrow> bool" where
  "tsc_math_contract M \<longleftrightarrow>
     (\<forall>n d. n < d \<longrightarrow> do_shl32_div32 M n d = Some (of_nat (unat n * 2 ^ 32 div unat d))) \<and>
     (\<forall>a b s. mul_u64_u64_shr M a b s = of_nat (unat a * unat b div 2 ^ s)) \<and>
     (\<forall>a b s. mul_s64_u64_shr M a b s = of_int (sint a * uint b div 2 ^ s)) \<and>
     (\<forall>a b d. d \<noteq> 0 \<longrightarrow> mul_u64_u32_div M a b d = of_nat (unat a * unat b div unat d))"

section \<open>The scale of a clock\<close>

definition high_half :: "u64 \<Rightarrow> bool" where
  "high_half x = (x AND 0xffffffff00000000 \<noteq> 0)"

definition div_frac :: "tsc_math \<Rightarrow> u32 \<Rightarrow> u32 \<Rightarrow> u32 option" where
  "div_frac M dividend divisor = do_shl32_div32 M dividend divisor"

lemma and_top_eq_0_iff:
  fixes x :: "'a :: len word"
  shows "x AND push_bit k (mask (LENGTH('a) - k)) = 0 \<longleftrightarrow> unat x < 2 ^ k"
proof -
  have "x AND push_bit k (mask (LENGTH('a) - k)) = 0 \<longleftrightarrow> (\<forall>n. bit x n \<longrightarrow> n < k)"
  proof (intro iffI allI impI)
    fix n assume z: "x AND push_bit k (mask (LENGTH('a) - k)) = 0" and n: "bit x n"
    show "n < k"
    proof (rule ccontr)
      assume "\<not> n < k"
      then have "bit (x AND push_bit k (mask (LENGTH('a) - k))) n"
        using n bit_imp_le_length [OF n]
        by (simp add: bit_simps diff_less_mono less_imp_diff_less not_less)
      with z show False by simp
    qed
  next
    assume "\<forall>n. bit x n \<longrightarrow> n < k"
    then show "x AND push_bit k (mask (LENGTH('a) - k)) = 0"
      by (auto simp: bit_eq_iff bit_simps)
  qed
  also have "\<dots> \<longleftrightarrow> take_bit k x = x"
    using bit_imp_le_length [of x] by (auto simp: bit_eq_iff bit_simps)
  also have "\<dots> \<longleftrightarrow> unat x < 2 ^ k"
    by (metis take_bit_nat_eq_self_iff unsigned_take_bit_eq unsigned_word_eqI)
  finally show ?thesis .
qed

lemma high_half_iff: "high_half x \<longleftrightarrow> 2 ^ 32 \<le> unat x"
proof -
  have "(0xffffffff00000000 :: u64) = push_bit 32 (mask (LENGTH(64) - 32))"
    by (simp add: mask_eq_exp_minus_1 push_bit_eq_mult)
  then show ?thesis
    using and_top_eq_0_iff [of x 32] by (simp add: high_half_def not_less)
qed

lemma top_bit_iff: "x AND 0x80000000 \<noteq> 0 \<longleftrightarrow> 2 ^ 31 \<le> unat x" for x :: u32
proof -
  have "(0x80000000 :: u32) = push_bit 31 (mask (LENGTH(32) - 31))"
    by (simp add: push_bit_eq_mult)
  then show ?thesis using and_top_eq_0_iff [of x 31] by (simp add: not_less)
qed

lemma unat_drop_bit: "unat (drop_bit n x) = unat x div 2 ^ n" for x :: u64
  by (subst unat_drop_bit_eq) (simp add: drop_bit_eq_div)

lemma unat_drop_bit_1: "unat (drop_bit 1 x) = unat x div 2" for x :: u64
  by (simp only: unat_drop_bit power_one_right)

text \<open>The first loop: the base frequency is halved until it is in range.\<close>

function scale_down :: "u64 \<Rightarrow> u64 \<Rightarrow> int \<Rightarrow> u64 \<times> int" where
  "scale_down scaled64 tps64 shift =
     (if tps64 > scaled64 * 2 \<or> high_half tps64
      then scale_down scaled64 (drop_bit 1 tps64) (shift - 1)
      else (tps64, shift))"
  by pat_completeness auto

termination
proof (relation "measure (\<lambda>(s, t, k). unat t)", simp)
  fix scaled64 tps64 :: u64 and shift :: int
  assume "tps64 > scaled64 * 2 \<or> high_half tps64"
  then have "tps64 \<noteq> 0" by (auto simp: high_half_def)
  then have "0 < unat tps64" by (simp add: unat_gt_0)
  then show "((scaled64, drop_bit 1 tps64, shift - 1), scaled64, tps64, shift) \<in>
      measure (\<lambda>(s, t, k). unat t)"
    using unat_drop_bit_1 [of tps64] by (simp del: One_nat_def)
qed

declare scale_down.simps [simp del]

text \<open>
  The second loop ends when the scaled frequency is below the base; the base is doubled as
  long as it has room. It need not end: \<open>None\<close>.
\<close>

partial_function (option) scale_up :: "u64 \<Rightarrow> u32 \<Rightarrow> int \<Rightarrow> (u64 \<times> u32 \<times> int) option" where
  "scale_up scaled64 tps32 shift =
     (if ucast tps32 \<le> scaled64 \<or> high_half scaled64
      then if high_half scaled64 \<or> tps32 AND 0x80000000 \<noteq> 0
           then scale_up (drop_bit 1 scaled64) tps32 (shift + 1)
           else scale_up scaled64 (tps32 * 2) (shift + 1)
      else Some (scaled64, tps32, shift))"

text \<open>The shift is stored in a signed byte.\<close>

definition kvm_get_time_scale :: "tsc_math \<Rightarrow> u64 \<Rightarrow> u64 \<Rightarrow> (8 word \<times> u32) option" where
  "kvm_get_time_scale M scaled_hz base_hz =
     (let (tps64, shift) = scale_down scaled_hz base_hz 0 in
      case scale_up scaled_hz (ucast tps64) shift of
        None \<Rightarrow> None
      | Some (scaled64, tps32, shift) \<Rightarrow>
          map_option (\<lambda>mult. (of_int shift, mult)) (div_frac M (ucast scaled64) tps32))"

section \<open>When the loops end\<close>

lemma scale_down_spec:
  "\<exists>k. scale_down s t i = (drop_bit k t, i - int k) \<and> \<not> high_half (drop_bit k t) \<and>
     drop_bit k t \<le> s * 2 \<and>
     (k = 0 \<or> drop_bit (k - 1) t > s * 2 \<or> high_half (drop_bit (k - 1) t))"
proof (induction s t i rule: scale_down.induct)
  case (1 s t i)
  show ?case
  proof (cases "t > s * 2 \<or> high_half t")
    case True
    from 1 [OF this] obtain k where k:
      "scale_down s (drop_bit 1 t) (i - 1) = (drop_bit k (drop_bit 1 t), i - 1 - int k)"
      "\<not> high_half (drop_bit k (drop_bit 1 t))" "drop_bit k (drop_bit 1 t) \<le> s * 2"
      "k = 0 \<or> drop_bit (k - 1) (drop_bit 1 t) > s * 2 \<or> high_half (drop_bit (k - 1) (drop_bit 1 t))"
      by blast
    have "drop_bit k t > s * 2 \<or> high_half (drop_bit k t)" using k(4) True by (cases k) simp_all
    with k(1-3) True show ?thesis
      by (intro exI [of _ "Suc k"]) (simp add: scale_down.simps [of s t i])
  next
    case False
    then have "scale_down s t i = (t, i)" by (subst scale_down.simps) simp
    with False show ?thesis by (intro exI [of _ 0]) (simp add: not_less)
  qed
qed

lemma scale_up_nonzero: "scale_up s t i = Some r \<Longrightarrow> t \<noteq> 0"
proof (rule scale_up.raw_induct [of "\<lambda>s t i r. t \<noteq> 0"])
  fix f s t i r
  assume ih: "\<And>s t i r. f s t i = Some r \<Longrightarrow> t \<noteq> 0"
    and r: "(if ucast t \<le> s \<or> high_half s
      then if high_half s \<or> t AND 0x80000000 \<noteq> 0 then f (drop_bit 1 s) t (i + 1) else f s (t * 2) (i + 1)
      else Some (s, t, i)) = Some r"
  show "t \<noteq> 0"
    using r ih [of "drop_bit 1 s" t "i + 1" r] ih [of s "t * 2" "i + 1" r]
    by (auto split: if_split_asm)
qed

lemma scale_up_spec:
  assumes "t \<noteq> 0"
  shows "\<exists>j n s' t'. scale_up s t i = Some (s', t', i + int j + int n) \<and>
    unat t' = unat t * 2 ^ j \<and> s' = drop_bit n s \<and> unat s' < unat t' \<and>
    (unat t \<le> 2 * unat s + 1 \<longrightarrow> unat t' \<le> 2 * unat s' + 1) \<and>
    (n = 0 \<or> drop_bit (n - 1) s \<noteq> 0)"
  using assms
proof (induction "unat s + (2 ^ 32 - unat t)" arbitrary: s t i rule: less_induct)
  case less
  have t: "0 < unat t" "unat t < 2 ^ 32"
    using less.prems unsigned_less [of t] by (simp_all add: unat_gt_0)
  have le: "ucast t \<le> s \<longleftrightarrow> unat t \<le> unat s"
    using take_bit_nat_eq_self [of "unat t" 64] t(2) by (simp add: word_le_nat_alt unsigned_ucast_eq)
  show ?case
  proof (cases "unat t \<le> unat s")
    case False
    then have "\<not> high_half s" using t by (simp add: high_half_iff)
    with False le have "scale_up s t i = Some (s, t, i)" by (subst scale_up.simps) simp
    with False show ?thesis by (intro exI [of _ 0] exI [of _ s] exI [of _ t]) simp
  next
    case True
    show ?thesis
    proof (cases "high_half s \<or> t AND 0x80000000 \<noteq> 0")
      case h: True
      have e: "scale_up s t i = scale_up (drop_bit 1 s) t (i + 1)"
        using True le h by (subst scale_up.simps) simp
      have u: "unat (drop_bit 1 s) = unat s div 2" by (rule unat_drop_bit_1)
      have "unat (drop_bit 1 s) + (2 ^ 32 - unat t) < unat s + (2 ^ 32 - unat t)"
        unfolding u using t True by simp
      from less.hyps [OF this less.prems, of "i + 1"] obtain j n s' t' where r:
        "scale_up (drop_bit 1 s) t (i + 1) = Some (s', t', i + 1 + int j + int n)"
        "unat t' = unat t * 2 ^ j" "s' = drop_bit n (drop_bit 1 s)" "unat s' < unat t'"
        "unat t \<le> 2 * unat (drop_bit 1 s) + 1 \<longrightarrow> unat t' \<le> 2 * unat s' + 1"
        "n = 0 \<or> drop_bit (n - 1) (drop_bit 1 s) \<noteq> 0" by blast
      have "unat t \<le> 2 * unat (drop_bit 1 s) + 1" unfolding u using True by linarith
      moreover have "s \<noteq> 0" using t True by auto
      then have "drop_bit n s \<noteq> 0" using r(6) by (cases n) simp_all
      ultimately show ?thesis
        using r e by (intro exI [of _ j] exI [of _ "Suc n"] exI [of _ s'] exI [of _ t']) simp
    next
      case h: False
      then have small: "unat t < 2 ^ 31" by (simp add: top_bit_iff not_le)
      have e: "scale_up s t i = scale_up s (t * 2) (i + 1)"
        using True le h by (subst scale_up.simps) simp
      have u: "unat (t * 2) = unat t * 2" using small by (simp add: unat_word_ariths)
      have "unat s + (2 ^ 32 - unat (t * 2)) < unat s + (2 ^ 32 - unat t)"
        unfolding u using t small by simp
      moreover have "t * 2 \<noteq> 0" using u t by (metis mult_is_0 less_irrefl unat_0 zero_neq_numeral)
      ultimately obtain j n s' t' where r:
        "scale_up s (t * 2) (i + 1) = Some (s', t', i + 1 + int j + int n)"
        "unat t' = unat (t * 2) * 2 ^ j" "s' = drop_bit n s" "unat s' < unat t'"
        "unat (t * 2) \<le> 2 * unat s + 1 \<longrightarrow> unat t' \<le> 2 * unat s' + 1"
        "n = 0 \<or> drop_bit (n - 1) s \<noteq> 0"
        using less.hyps [of s "t * 2" "i + 1"] by blast
      have "unat (t * 2) \<le> 2 * unat s + 1" unfolding u using True by simp
      with r u e show ?thesis
        by (intro exI [of _ "Suc j"] exI [of _ n] exI [of _ s'] exI [of _ t']) simp
    qed
  qed
qed


lemma drop_bit_length:
  fixes x :: "'a :: len word"
  assumes "drop_bit n x \<noteq> 0"
  shows "n < LENGTH('a)"
proof (rule ccontr)
  assume "\<not> n < LENGTH('a)"
  then have "drop_bit n x = 0" by (auto simp: bit_eq_iff bit_simps dest: bit_imp_le_length)
  with assms show False by simp
qed

lemma time_scale_loops:
  assumes "scaled \<noteq> 0" "unat scaled < 2 ^ 63" "base \<noteq> 0"
  obtains k j n and s :: u64 and t where
    "kvm_get_time_scale M scaled base =
      map_option (Pair (of_int (int j + int n - int k))) (div_frac M (ucast s) t)"
    "unat t = unat base div 2 ^ k * 2 ^ j" "unat s = unat scaled div 2 ^ n"
    "unat s < unat t" "unat t \<le> 2 * unat s + 1" "j < 32" "n \<le> 64" "k \<le> 64"
proof -
  have double: "unat (scaled * 2) = unat scaled * 2" using assms(2) by (simp add: unat_word_ariths)
  have pos: "0 < unat scaled" using assms(1) by (simp add: unat_gt_0)
  obtain k where k: "scale_down scaled base 0 = (drop_bit k base, 0 - int k)"
    "\<not> high_half (drop_bit k base)" "drop_bit k base \<le> scaled * 2"
    "k = 0 \<or> drop_bit (k - 1) base > scaled * 2 \<or> high_half (drop_bit (k - 1) base)"
    using scale_down_spec [of scaled base 0] by blast
  let ?t = "drop_bit k base"
  have t: "unat ?t < 2 ^ 32" "unat ?t \<le> 2 * unat scaled"
    using k(2,3) double by (simp_all add: high_half_iff word_le_nat_alt)
  have nz: "?t \<noteq> 0 \<and> k \<le> 64"
  proof (cases k)
    case 0
    then show ?thesis using assms(3) by simp
  next
    case (Suc i)
    then have "2 \<le> unat (drop_bit i base)"
      using k(4) pos double by (auto simp: high_half_iff word_less_nat_alt)
    then have "unat (drop_bit 1 (drop_bit i base)) \<noteq> 0" "drop_bit i base \<noteq> 0"
      unfolding unat_drop_bit_1 by auto
    then show ?thesis using Suc drop_bit_length [of i base] by auto
  qed
  have u: "unat (ucast ?t :: u32) = unat ?t"
    using t(1) take_bit_nat_eq_self [of "unat ?t" 32] by (simp add: unsigned_ucast_eq)
  with nz have "(ucast ?t :: u32) \<noteq> 0" by (metis unat_eq_zero unat_0)
  from scale_up_spec [OF this, of scaled "0 - int k"] obtain j n s t' where r:
    "scale_up scaled (ucast ?t) (0 - int k) = Some (s, t', 0 - int k + int j + int n)"
    "unat t' = unat (ucast ?t :: u32) * 2 ^ j" "s = drop_bit n scaled" "unat s < unat t'"
    "unat (ucast ?t :: u32) \<le> 2 * unat scaled + 1 \<longrightarrow> unat t' \<le> 2 * unat s + 1"
    "n = 0 \<or> drop_bit (n - 1) scaled \<noteq> 0" by blast
  have le: "unat t' \<le> 2 * unat s + 1" using r(5) t(2) unfolding u by simp
  have "unat ?t = unat base div 2 ^ k" "unat s = unat scaled div 2 ^ n"
    unfolding r(3) by (rule unat_drop_bit)+
  moreover have "j < 32"
  proof -
    have "0 < unat ?t" unfolding unat_gt_0 using nz by blast
    then have "2 ^ j \<le> unat t'" unfolding r(2) u by simp
    also have "\<dots> < 2 ^ LENGTH(32)" by (rule unsigned_less)
    finally have "(2 :: nat) ^ j < 2 ^ LENGTH(32)" .
    from power_less_imp_less_exp [OF _ this] show ?thesis by simp
  qed
  moreover have "n \<le> 64" using r(6) drop_bit_length [of "n - 1" scaled] by auto
  moreover have e: "0 - int k + int j + int n = int j + int n - int k" by simp
  have "kvm_get_time_scale M scaled base =
      map_option (Pair (of_int (int j + int n - int k))) (div_frac M (ucast s) t')"
    unfolding kvm_get_time_scale_def k(1) Let_def split_conv r(1) option.case e
    by (rule refl)
  ultimately show ?thesis
    using that [of j n k s t'] r(4) r(2) [unfolded u] le nz by simp
qed

lemma sint_byte: "- 128 \<le> i \<Longrightarrow> i < 128 \<Longrightarrow> sint (of_int i :: 8 word) = i"
  by transfer (simp add: signed_take_bit_int_eq_self)

lemma div_frac_small:
  fixes s :: u64
  assumes "tsc_math_contract M" "unat s < unat t"
  shows "div_frac M (ucast s) t = Some (of_nat (unat s * 2 ^ 32 div unat t))"
proof -
  have "unat t < 2 ^ LENGTH(32)" by (rule unsigned_less)
  with assms(2) have "unat s < 2 ^ 32" by simp
  then have "unat (ucast s :: u32) = unat s"
    using take_bit_nat_eq_self [of "unat s" 32] by (simp add: unsigned_ucast_eq)
  then show ?thesis
    using assms by (simp add: div_frac_def tsc_math_contract_def word_less_nat_alt)
qed

section \<open>Properties\<close>

text \<open> For a scaled frequency below \<open>2^63\<close> the search for the scale ends exactly when
  neither frequency is zero; with a zero on either side it never returns. \<close>

lemma time_scale_returns:
  assumes "tsc_math_contract M" and "unat scaled < 2 ^ 63"
  shows "kvm_get_time_scale M scaled base \<noteq> None \<longleftrightarrow> scaled \<noteq> 0 \<and> base \<noteq> 0"
proof (cases "scaled \<noteq> 0 \<and> base \<noteq> 0")
  case True
  then have nz: "scaled \<noteq> 0" "base \<noteq> 0" by simp_all
  obtain k j n and s :: u64 and t where
    "kvm_get_time_scale M scaled base =
      map_option (Pair (of_int (int j + int n - int k))) (div_frac M (ucast s) t)"
    "unat s < unat t"
    by (rule time_scale_loops [OF nz(1) assms(2) nz(2), of M])
  then show ?thesis using True by (simp add: div_frac_small [OF assms(1)])
next
  case False
  have "fst (scale_down scaled base 0) = 0"
  proof (cases "base = 0")
    case True
    then show ?thesis by (simp add: scale_down.simps high_half_def)
  next
    case base: False
    with False have "scaled = 0" by simp
    then show ?thesis using scale_down_spec [of scaled base 0] by auto
  qed
  then have "scale_up scaled (ucast (fst (scale_down scaled base 0))) i = None" for i
    using scale_up_nonzero [of scaled 0 i] by (cases "scale_up scaled 0 i") simp_all
  with False show ?thesis by (auto simp: kvm_get_time_scale_def split_beta Let_def)
qed

definition sample_math :: tsc_math where
  "sample_math =
     \<lparr>do_shl32_div32 = \<lambda>n d. if n < d then Some (of_nat (unat n * 2 ^ 32 div unat d)) else None,
      mul_u64_u64_shr = \<lambda>a b s. of_nat (unat a * unat b div 2 ^ s),
      mul_s64_u64_shr = \<lambda>a b s. of_int (sint a * uint b div 2 ^ s),
      mul_u64_u32_div = \<lambda>a b d. of_nat (unat a * unat b div unat d),
      pvclock_scale_delta = \<lambda>d m s. of_nat (nat (uint d * uint m * 2 ^ nat (sint s + 32) div 2 ^ 64))\<rparr>"

lemma sample_math_contract: "tsc_math_contract sample_math"
  by (simp add: tsc_math_contract_def sample_math_def)

text \<open> What the search finds: the base frequency shifted by \<open>k\<close> down and \<open>j\<close> up and the scaled
  one shifted by \<open>n\<close> down, the base the larger of the two and at most about twice the other, so
  that the multiplier is their quotient as a 32-bit fraction with its top bits in use, the
  division cannot overflow and the shift fits its signed byte. \<close>

theorem time_scale_value:
  assumes "tsc_math_contract M" and "scaled \<noteq> 0" and "unat scaled < 2 ^ 63" and "base \<noteq> 0"
  shows "\<exists>k j n shift mult. kvm_get_time_scale M scaled base = Some (shift, mult) \<and>
    sint shift = int j + int n - int k \<and>
    (let t = unat base div 2 ^ k * 2 ^ j; s = unat scaled div 2 ^ n in
     s < t \<and> t \<le> 2 * s + 1 \<and> t < 2 ^ 32 \<and> unat mult = s * 2 ^ 32 div t)"
proof -
  obtain k j n and s :: u64 and t where l:
    "kvm_get_time_scale M scaled base =
      map_option (Pair (of_int (int j + int n - int k))) (div_frac M (ucast s) t)"
    "unat t = unat base div 2 ^ k * 2 ^ j" "unat s = unat scaled div 2 ^ n"
    "unat s < unat t" "unat t \<le> 2 * unat s + 1" "j < 32" "n \<le> 64" "k \<le> 64"
    by (rule time_scale_loops [OF assms(2-4), of M])
  have "sint (of_int (int j + int n - int k) :: 8 word) = int j + int n - int k"
    by (rule sint_byte) (use l(6-8) in simp_all)
  moreover have "unat s * 2 ^ 32 div unat t < 2 ^ 32"
    using l(4) by (intro less_mult_imp_div_less) simp
  then have "unat (of_nat (unat s * 2 ^ 32 div unat t) :: u32) = unat s * 2 ^ 32 div unat t"
    by (simp add: unat_of_nat)
  moreover have "unat t < 2 ^ LENGTH(32)" by (rule unsigned_less)
  ultimately show ?thesis
    using l(1-5) by (intro exI [of _ k] exI [of _ j] exI [of _ n])
      (simp add: div_frac_small [OF assms(1)] Let_def)
qed

theorem time_scale_value_witness:
  "\<exists>k j n shift mult. kvm_get_time_scale sample_math 1000000000 2500000000 = Some (shift, mult) \<and>
    sint shift = int j + int n - int k \<and>
    (let t = 2500000000 div 2 ^ k * 2 ^ j; s = 1000000000 div 2 ^ n in
     s < t \<and> t \<le> 2 * s + 1 \<and> t < 2 ^ 32 \<and> unat mult = s * 2 ^ 32 div t)"
  using time_scale_value [OF sample_math_contract, of 1000000000 2500000000] by simp

end
