(* ===== verification/Kvm_Tsc.thy ===== *)
theory Kvm_Tsc
  imports Kvm_Tsc_Scale
begin

text \<open>
  The time-stamp counter of a guest (\<open>x86.c\<close>): offset and ratio of each vCPU, the writes of the
  guest and of user space, and the generations by which KVM tells which vCPUs of a VM have the
  same counter. The callbacks of \<open>vmx.c\<close> and \<open>svm.c\<close> that load offset and ratio into the
  hardware are the interface \<open>tsc_vendor\<close>; \<open>'h\<close> is the vendor's part of the state.
\<close>

section \<open>State\<close>

datatype tsc_request =
  KVM_REQ_MASTERCLOCK_UPDATE
| KVM_REQ_CLOCK_UPDATE
| KVM_REQ_GLOBAL_CLOCK_UPDATE
| KVM_REQ_MIGRATE_TIMER

record 'h tsc_vcpu =
  virtual_tsc_khz :: u32
  virtual_tsc_mult :: u32
  virtual_tsc_shift :: "8 word"
  this_tsc_nsec :: u64
  this_tsc_write :: u64
  this_tsc_generation :: u64
  last_guest_tsc :: u64
  last_host_tsc :: u64
  l1_tsc_offset :: u64
  tsc_offset :: u64
  l1_tsc_scaling_ratio :: u64
  tsc_scaling_ratio :: u64
  ia32_tsc_adjust_msr :: u64
  tsc_offset_adjustment :: u64
  tsc_catchup :: bool
  tsc_always_catchup :: bool
  in_guest_mode :: bool
  on_cpu :: int
  tsc_requests :: "tsc_request set"
  tsc_hw :: 'h

record tsc_vm =
  last_tsc_nsec :: u64
  last_tsc_write :: u64
  last_tsc_khz :: u32
  last_tsc_offset :: u64
  cur_tsc_nsec :: u64
  cur_tsc_write :: u64
  cur_tsc_offset :: u64
  cur_tsc_generation :: u64
  nr_vcpus_matched_tsc :: int
  user_set_tsc :: bool
  use_master_clock :: bool
  online_vcpus :: int

text \<open>The clock sources of the host that matter here.\<close>

datatype vclock_mode = VDSO_CLOCKMODE_NONE | VDSO_CLOCKMODE_TSC | VDSO_CLOCKMODE_HVCLOCK

text \<open>
  What KVM knows of the host (\<open>kvm_caps\<close> and globals), the callbacks, and \<open>nsec_to_cycles\<close> of
  another header.
\<close>

record 'h tsc_env =
  has_tsc_control :: bool
  default_tsc_scaling_ratio :: u64
  max_tsc_scaling_ratio :: u64
  tsc_scaling_ratio_frac_bits :: nat
  tsc_khz :: u32
  tsc_tolerance_ppm :: u32
  host_tsc_unstable :: bool
  gtod_vclock_mode :: vclock_mode
  math :: tsc_math
  nsec_to_cycles :: "'h tsc_vcpu \<Rightarrow> u64 \<Rightarrow> u64"
  write_tsc_offset :: "'h tsc_vcpu \<Rightarrow> 'h tsc_vcpu"
  write_tsc_multiplier :: "'h tsc_vcpu \<Rightarrow> 'h tsc_vcpu"
  get_l2_tsc_offset :: "'h tsc_vcpu \<Rightarrow> u64"
  get_l2_tsc_multiplier :: "'h tsc_vcpu \<Rightarrow> u64"

definition make_request :: "tsc_request \<Rightarrow> 'h tsc_vcpu \<Rightarrow> 'h tsc_vcpu" where
  "make_request r v = v\<lparr>tsc_requests := insert r (tsc_requests v)\<rparr>"

section \<open>Scaling and offsets\<close>

definition scale_tsc :: "'h tsc_env \<Rightarrow> u64 \<Rightarrow> u64 \<Rightarrow> u64" where
  "scale_tsc E ratio tsc = mul_u64_u64_shr (math E) tsc ratio (tsc_scaling_ratio_frac_bits E)"

definition kvm_scale_tsc :: "'h tsc_env \<Rightarrow> u64 \<Rightarrow> u64 \<Rightarrow> u64" where
  "kvm_scale_tsc E tsc ratio =
     (if ratio \<noteq> default_tsc_scaling_ratio E then scale_tsc E ratio tsc else tsc)"

definition kvm_compute_l1_tsc_offset :: "'h tsc_env \<Rightarrow> u64 \<Rightarrow> 'h tsc_vcpu \<Rightarrow> u64 \<Rightarrow> u64" where
  "kvm_compute_l1_tsc_offset E rdtsc v target_tsc =
     target_tsc - kvm_scale_tsc E rdtsc (l1_tsc_scaling_ratio v)"

definition kvm_read_l1_tsc :: "'h tsc_env \<Rightarrow> 'h tsc_vcpu \<Rightarrow> u64 \<Rightarrow> u64" where
  "kvm_read_l1_tsc E v host_tsc = l1_tsc_offset v + kvm_scale_tsc E host_tsc (l1_tsc_scaling_ratio v)"

definition kvm_calc_nested_tsc_offset :: "'h tsc_env \<Rightarrow> u64 \<Rightarrow> u64 \<Rightarrow> u64 \<Rightarrow> u64" where
  "kvm_calc_nested_tsc_offset E l1_offset l2_offset l2_multiplier =
     (let nested_offset =
        (if l2_multiplier = default_tsc_scaling_ratio E then l1_offset
         else mul_s64_u64_shr (math E) l1_offset l2_multiplier (tsc_scaling_ratio_frac_bits E))
      in nested_offset + l2_offset)"

definition kvm_calc_nested_tsc_multiplier :: "'h tsc_env \<Rightarrow> u64 \<Rightarrow> u64 \<Rightarrow> u64" where
  "kvm_calc_nested_tsc_multiplier E l1_multiplier l2_multiplier =
     (if l2_multiplier \<noteq> default_tsc_scaling_ratio E
      then mul_u64_u64_shr (math E) l1_multiplier l2_multiplier (tsc_scaling_ratio_frac_bits E)
      else l1_multiplier)"

definition kvm_vcpu_write_tsc_offset :: "'h tsc_env \<Rightarrow> u64 \<Rightarrow> 'h tsc_vcpu \<Rightarrow> 'h tsc_vcpu" where
  "kvm_vcpu_write_tsc_offset E l1_offset v =
     (let v = v\<lparr>l1_tsc_offset := l1_offset\<rparr>;
          v = v\<lparr>tsc_offset :=
            (if in_guest_mode v
             then kvm_calc_nested_tsc_offset E l1_offset (get_l2_tsc_offset E v)
                    (get_l2_tsc_multiplier E v)
             else l1_offset)\<rparr>
      in write_tsc_offset E v)"

definition kvm_vcpu_write_tsc_multiplier :: "'h tsc_env \<Rightarrow> u64 \<Rightarrow> 'h tsc_vcpu \<Rightarrow> 'h tsc_vcpu" where
  "kvm_vcpu_write_tsc_multiplier E l1_multiplier v =
     (let v = v\<lparr>l1_tsc_scaling_ratio := l1_multiplier\<rparr>;
          v = v\<lparr>tsc_scaling_ratio :=
            (if in_guest_mode v
             then kvm_calc_nested_tsc_multiplier E l1_multiplier (get_l2_tsc_multiplier E v)
             else l1_multiplier)\<rparr>
      in if has_tsc_control E then write_tsc_multiplier E v else v)"

definition adjust_tsc_offset_guest :: "'h tsc_env \<Rightarrow> u64 \<Rightarrow> 'h tsc_vcpu \<Rightarrow> 'h tsc_vcpu" where
  "adjust_tsc_offset_guest E adjustment v =
     (let tsc_offset = l1_tsc_offset v in kvm_vcpu_write_tsc_offset E (tsc_offset + adjustment) v)"

definition adjust_tsc_offset_host :: "'h tsc_env \<Rightarrow> u64 \<Rightarrow> 'h tsc_vcpu \<Rightarrow> 'h tsc_vcpu" where
  "adjust_tsc_offset_host E adjustment v =
     adjust_tsc_offset_guest E (kvm_scale_tsc E adjustment (l1_tsc_scaling_ratio v)) v"

section \<open>The frequency of a guest\<close>

text \<open>\<open>ppm\<close> is a signed 32-bit number; the product is computed in 64 bits without sign.\<close>

definition adjust_tsc_khz :: "u32 \<Rightarrow> u32 \<Rightarrow> u32" where
  "adjust_tsc_khz khz ppm = ucast ((ucast khz :: u64) * scast (1000000 + ppm) div 1000000)"

definition set_tsc_khz :: "'h tsc_env \<Rightarrow> u32 \<Rightarrow> bool \<Rightarrow> 'h tsc_vcpu \<Rightarrow> 'h tsc_vcpu \<times> int" where
  "set_tsc_khz E user_tsc_khz scale v =
     (if \<not> scale then (kvm_vcpu_write_tsc_multiplier E (default_tsc_scaling_ratio E) v, 0)
      else if \<not> has_tsc_control E then
        if user_tsc_khz > tsc_khz E
        then (v\<lparr>tsc_catchup := True, tsc_always_catchup := True\<rparr>, 0)
        else (v, - 1)
      else
        let ratio = mul_u64_u32_div (math E) (push_bit (tsc_scaling_ratio_frac_bits E) 1)
              user_tsc_khz (tsc_khz E)
        in if ratio = 0 \<or> ratio \<ge> max_tsc_scaling_ratio E then (v, - 1)
           else (kvm_vcpu_write_tsc_multiplier E ratio v, 0))"

text \<open>\<open>None\<close>: the search for the scale does not return.\<close>

definition kvm_set_tsc_khz :: "'h tsc_env \<Rightarrow> u32 \<Rightarrow> 'h tsc_vcpu \<Rightarrow> ('h tsc_vcpu \<times> int) option" where
  "kvm_set_tsc_khz E user_tsc_khz v =
     (if user_tsc_khz = 0
      then Some (kvm_vcpu_write_tsc_multiplier E (default_tsc_scaling_ratio E) v, - 1)
      else
        case kvm_get_time_scale (math E) (ucast user_tsc_khz * 1000) 1000000000 of
          None \<Rightarrow> None
        | Some (shift, mult) \<Rightarrow>
            let v = v\<lparr>virtual_tsc_shift := shift, virtual_tsc_mult := mult,
                      virtual_tsc_khz := user_tsc_khz\<rparr>;
                thresh_lo = adjust_tsc_khz (tsc_khz E) (- tsc_tolerance_ppm E);
                thresh_hi = adjust_tsc_khz (tsc_khz E) (tsc_tolerance_ppm E);
                use_scaling = (user_tsc_khz < thresh_lo \<or> user_tsc_khz > thresh_hi)
            in Some (set_tsc_khz E user_tsc_khz use_scaling v))"

definition compute_guest_tsc :: "'h tsc_env \<Rightarrow> 'h tsc_vcpu \<Rightarrow> u64 \<Rightarrow> u64" where
  "compute_guest_tsc E v kernel_ns =
     pvclock_scale_delta (math E) (kernel_ns - this_tsc_nsec v) (virtual_tsc_mult v)
       (virtual_tsc_shift v) + this_tsc_write v"

section \<open>Generations\<close>

definition gtod_is_based_on_tsc :: "vclock_mode \<Rightarrow> bool" where
  "gtod_is_based_on_tsc mode = (mode = VDSO_CLOCKMODE_TSC \<or> mode = VDSO_CLOCKMODE_HVCLOCK)"

definition kvm_track_tsc_matching ::
  "'h tsc_env \<Rightarrow> bool \<Rightarrow> tsc_vm \<Rightarrow> 'h tsc_vcpu \<Rightarrow> 'h tsc_vcpu" where
  "kvm_track_tsc_matching E new_generation ka v =
     (let master = (nr_vcpus_matched_tsc ka + 1 = online_vcpus ka \<and>
                    gtod_is_based_on_tsc (gtod_vclock_mode E))
      in if use_master_clock ka \<and> new_generation \<or> use_master_clock ka \<noteq> master
         then make_request KVM_REQ_MASTERCLOCK_UPDATE v else v)"

definition kvm_check_tsc_unstable :: "'h tsc_env \<Rightarrow> bool" where
  "kvm_check_tsc_unstable E =
     (if gtod_vclock_mode E = VDSO_CLOCKMODE_HVCLOCK then False else host_tsc_unstable E)"

text \<open>\<open>kvm_synchronize_tsc_locked\<close> is the function with two leading underscores.\<close>

definition kvm_synchronize_tsc_locked ::
  "'h tsc_env \<Rightarrow> u64 \<Rightarrow> u64 \<Rightarrow> u64 \<Rightarrow> bool \<Rightarrow> tsc_vm \<times> 'h tsc_vcpu \<Rightarrow> tsc_vm \<times> 'h tsc_vcpu" where
  "kvm_synchronize_tsc_locked E offset tsc ns matched = (\<lambda>(ka, v).
     let ka = ka\<lparr>last_tsc_nsec := ns, last_tsc_write := tsc, last_tsc_khz := virtual_tsc_khz v,
                 last_tsc_offset := offset\<rparr>;
         v = v\<lparr>last_guest_tsc := tsc\<rparr>;
         v = kvm_vcpu_write_tsc_offset E offset v;
         ka = (if \<not> matched
               then ka\<lparr>cur_tsc_generation := cur_tsc_generation ka + 1, cur_tsc_nsec := ns,
                       cur_tsc_write := tsc, cur_tsc_offset := offset, nr_vcpus_matched_tsc := 0\<rparr>
               else if this_tsc_generation v \<noteq> cur_tsc_generation ka
               then ka\<lparr>nr_vcpus_matched_tsc := nr_vcpus_matched_tsc ka + 1\<rparr>
               else ka);
         v = v\<lparr>this_tsc_generation := cur_tsc_generation ka, this_tsc_nsec := cur_tsc_nsec ka,
               this_tsc_write := cur_tsc_write ka\<rparr>
     in (ka, kvm_track_tsc_matching E (\<not> matched) ka v))"

text \<open>\<open>rdtsc1\<close>, \<open>rdtsc2\<close> and \<open>ns\<close> are what the host's counter and clock say during the call.\<close>

definition kvm_synchronize_tsc ::
  "'h tsc_env \<Rightarrow> u64 \<Rightarrow> u64 \<Rightarrow> u64 \<Rightarrow> u64 option \<Rightarrow> tsc_vm \<times> 'h tsc_vcpu \<Rightarrow> tsc_vm \<times> 'h tsc_vcpu" where
  "kvm_synchronize_tsc E rdtsc1 rdtsc2 ns user_value = (\<lambda>(ka, v).
     let data = (case user_value of None \<Rightarrow> 0 | Some x \<Rightarrow> x);
         offset = kvm_compute_l1_tsc_offset E rdtsc1 v data;
         elapsed = ns - last_tsc_nsec ka;
         synchronizing =
           (if virtual_tsc_khz v \<noteq> 0 then
              if data = 0 then True
              else if user_set_tsc ka then
                let tsc_exp = last_tsc_write ka + nsec_to_cycles E v elapsed;
                    tsc_hz = ucast (virtual_tsc_khz v) * 1000
                in data < tsc_exp + tsc_hz \<and> data + tsc_hz > tsc_exp
              else False
            else False);
         ka = (if user_value \<noteq> None then ka\<lparr>user_set_tsc := True\<rparr> else ka)
     in
     if synchronizing \<and> virtual_tsc_khz v = last_tsc_khz ka then
       if \<not> kvm_check_tsc_unstable E
       then kvm_synchronize_tsc_locked E (cur_tsc_offset ka) data ns True (ka, v)
       else
         let delta = nsec_to_cycles E v elapsed;
             data = data + delta;
             offset = kvm_compute_l1_tsc_offset E rdtsc2 v data
         in kvm_synchronize_tsc_locked E offset data ns True (ka, v)
     else kvm_synchronize_tsc_locked E offset data ns False (ka, v))"

section \<open>Writes of the MSRs\<close>

text \<open>The cases of \<open>kvm_set_msr_common\<close> for the counter and its adjustment.\<close>

abbreviation KVM_VCPU_TSC_OFFSET :: u64 where "KVM_VCPU_TSC_OFFSET \<equiv> 0"
abbreviation TSC_ENXIO :: int where "TSC_ENXIO \<equiv> 6"
abbreviation TSC_EFAULT :: int where "TSC_EFAULT \<equiv> 14"

text \<open>
  The offset as an attribute for user space. The address is an error or, for a read, whether it can be
  written, and for a write, what it holds if it can be read; a read returns what it stored.
\<close>

definition kvm_arch_tsc_has_attr :: "u64 \<Rightarrow> int" where
  "kvm_arch_tsc_has_attr attr = (if attr = KVM_VCPU_TSC_OFFSET then 0 else - TSC_ENXIO)"

definition kvm_arch_tsc_get_attr :: "u64 \<Rightarrow> int + bool \<Rightarrow> 'h tsc_vcpu \<Rightarrow> int \<times> u64 option" where
  "kvm_arch_tsc_get_attr attr uaddr v =
     (case uaddr of
        Inl err \<Rightarrow> (err, None)
      | Inr writable \<Rightarrow>
          if attr = KVM_VCPU_TSC_OFFSET
          then if \<not> writable then (- TSC_EFAULT, None) else (0, Some (l1_tsc_offset v))
          else (- TSC_ENXIO, None))"

definition kvm_arch_tsc_set_attr ::
  "'h tsc_env \<Rightarrow> u64 \<Rightarrow> int + u64 option \<Rightarrow> u64 \<Rightarrow> u64 \<Rightarrow> tsc_vm \<times> 'h tsc_vcpu \<Rightarrow>
   (tsc_vm \<times> 'h tsc_vcpu) \<times> int" where
  "kvm_arch_tsc_set_attr E attr uaddr rdtsc kvmclock_ns = (\<lambda>(ka, v).
     case uaddr of
       Inl err \<Rightarrow> ((ka, v), err)
     | Inr user_value \<Rightarrow>
         if attr = KVM_VCPU_TSC_OFFSET then
           (case user_value of
              None \<Rightarrow> ((ka, v), - TSC_EFAULT)
            | Some offset \<Rightarrow>
                let matched = (virtual_tsc_khz v \<noteq> 0 \<and> last_tsc_khz ka = virtual_tsc_khz v \<and>
                               last_tsc_offset ka = offset);
                    tsc = kvm_scale_tsc E rdtsc (l1_tsc_scaling_ratio v) + offset;
                    ka = ka\<lparr>user_set_tsc := True\<rparr>
                in (kvm_synchronize_tsc_locked E offset tsc kvmclock_ns matched (ka, v), 0))
         else ((ka, v), - TSC_ENXIO))"

definition set_msr_tsc ::
  "'h tsc_env \<Rightarrow> u64 \<Rightarrow> u64 \<Rightarrow> u64 \<Rightarrow> bool \<Rightarrow> u64 \<Rightarrow> tsc_vm \<times> 'h tsc_vcpu \<Rightarrow> tsc_vm \<times> 'h tsc_vcpu" where
  "set_msr_tsc E rdtsc1 rdtsc2 ns host_initiated data = (\<lambda>(ka, v).
     if host_initiated then kvm_synchronize_tsc E rdtsc1 rdtsc2 ns (Some data) (ka, v)
     else
       let adj = kvm_compute_l1_tsc_offset E rdtsc1 v data - l1_tsc_offset v;
           v = adjust_tsc_offset_guest E adj v
       in (ka, v\<lparr>ia32_tsc_adjust_msr := ia32_tsc_adjust_msr v + adj\<rparr>))"

definition set_msr_tsc_adjust ::
  "'h tsc_env \<Rightarrow> bool \<Rightarrow> bool \<Rightarrow> u64 \<Rightarrow> 'h tsc_vcpu \<Rightarrow> 'h tsc_vcpu" where
  "set_msr_tsc_adjust E guest_has_adjust host_initiated data v =
     (if guest_has_adjust then
        let v = (if \<not> host_initiated
                 then make_request KVM_REQ_CLOCK_UPDATE
                        (adjust_tsc_offset_guest E (data - ia32_tsc_adjust_msr v) v)
                 else v)
        in v\<lparr>ia32_tsc_adjust_msr := data\<rparr>
      else v)"

section \<open>Loading a vCPU\<close>

text \<open>
  The part of \<open>kvm_arch_vcpu_load\<close> for the counter. A counter that went back makes the kernel
  call it unstable from then on, which is outside of this state, and the timer of the local APIC,
  of another file, is restarted when it uses the hardware.
\<close>

definition vcpu_load_tsc ::
  "'h tsc_env \<Rightarrow> u64 \<Rightarrow> u64 \<Rightarrow> int \<Rightarrow> tsc_vm \<Rightarrow> 'h tsc_vcpu \<Rightarrow> 'h tsc_vcpu" where
  "vcpu_load_tsc E rdtsc1 rdtsc2 cpu ka v =
     (let v = (if tsc_offset_adjustment v \<noteq> 0
               then make_request KVM_REQ_CLOCK_UPDATE
                      ((adjust_tsc_offset_host E (tsc_offset_adjustment v) v)
                        \<lparr>tsc_offset_adjustment := 0\<rparr>)
               else v)
      in if on_cpu v \<noteq> cpu \<or> kvm_check_tsc_unstable E then
           let tsc_delta = (if last_host_tsc v = 0 then 0 else rdtsc1 - last_host_tsc v);
               E' = (if tsc_delta <s 0 then E\<lparr>host_tsc_unstable := True\<rparr> else E);
               v = (if kvm_check_tsc_unstable E'
                    then (kvm_vcpu_write_tsc_offset E
                            (kvm_compute_l1_tsc_offset E rdtsc2 v (last_guest_tsc v)) v)
                           \<lparr>tsc_catchup := True\<rparr>
                    else v);
               v = (if \<not> use_master_clock ka \<or> on_cpu v = - 1
                    then make_request KVM_REQ_GLOBAL_CLOCK_UPDATE v else v);
               v = (if on_cpu v \<noteq> cpu then make_request KVM_REQ_MIGRATE_TIMER v else v)
           in v\<lparr>on_cpu := cpu\<rparr>
         else v)"

end
