(* ===== verification/Kvm_Tsc_Props.thy ===== *)
theory Kvm_Tsc_Props
  imports Kvm_Tsc
begin

text \<open>
  What the guest sees of its time-stamp counter. The callbacks of the vendors are the locale
  \<open>tsc_vendor\<close>, interpreted here on those of \<open>vmx.c\<close> and \<open>svm.c\<close>.
\<close>

section \<open>The vendors\<close>

text \<open>Fields of the VMCS, and of the one the guest set up for its own guest.\<close>

record vmx_tsc =
  VMCS_TSC_OFFSET :: u64
  VMCS_TSC_MULTIPLIER :: u64
  vmcs12_uses_tsc_offsetting :: bool
  vmcs12_uses_tsc_scaling :: bool
  vmcs12_tsc_offset :: u64
  vmcs12_tsc_multiplier :: u64

definition vmx_get_l2_tsc_offset :: "vmx_tsc tsc_vcpu \<Rightarrow> u64" where
  "vmx_get_l2_tsc_offset v =
     (if vmcs12_uses_tsc_offsetting (tsc_hw v) then vmcs12_tsc_offset (tsc_hw v) else 0)"

definition vmx_get_l2_tsc_multiplier :: "u64 \<Rightarrow> vmx_tsc tsc_vcpu \<Rightarrow> u64" where
  "vmx_get_l2_tsc_multiplier default_ratio v =
     (if vmcs12_uses_tsc_offsetting (tsc_hw v) \<and> vmcs12_uses_tsc_scaling (tsc_hw v)
      then vmcs12_tsc_multiplier (tsc_hw v) else default_ratio)"

definition vmx_write_tsc_offset :: "vmx_tsc tsc_vcpu \<Rightarrow> vmx_tsc tsc_vcpu" where
  "vmx_write_tsc_offset v = v\<lparr>tsc_hw := (tsc_hw v)\<lparr>VMCS_TSC_OFFSET := tsc_offset v\<rparr>\<rparr>"

definition vmx_write_tsc_multiplier :: "vmx_tsc tsc_vcpu \<Rightarrow> vmx_tsc tsc_vcpu" where
  "vmx_write_tsc_multiplier v = v\<lparr>tsc_hw := (tsc_hw v)\<lparr>VMCS_TSC_MULTIPLIER := tsc_scaling_ratio v\<rparr>\<rparr>"

text \<open>
  Two VMCBs, which are one when no nested guest runs; \<open>current_tsc_ratio\<close> and the MSR are those
  of the CPU the vCPU is on.
\<close>

record svm_tsc =
  vmcb01_tsc_offset :: u64
  vmcb_tsc_offset :: u64
  vmcb_intercepts_dirty :: bool
  guest_state_loaded :: bool
  current_tsc_ratio :: u64
  MSR_AMD64_TSC_RATIO :: u64
  nested_ctl_tsc_offset :: u64
  tsc_ratio_msr :: u64

definition svm_get_l2_tsc_offset :: "svm_tsc tsc_vcpu \<Rightarrow> u64" where
  "svm_get_l2_tsc_offset v = nested_ctl_tsc_offset (tsc_hw v)"

definition svm_get_l2_tsc_multiplier :: "svm_tsc tsc_vcpu \<Rightarrow> u64" where
  "svm_get_l2_tsc_multiplier v = tsc_ratio_msr (tsc_hw v)"

definition svm_write_tsc_offset :: "svm_tsc tsc_vcpu \<Rightarrow> svm_tsc tsc_vcpu" where
  "svm_write_tsc_offset v =
     v\<lparr>tsc_hw := (tsc_hw v)\<lparr>vmcb01_tsc_offset := l1_tsc_offset v, vmcb_tsc_offset := tsc_offset v,
       vmcb_intercepts_dirty := True\<rparr>\<rparr>"

definition svm_write_ratio :: "u64 \<Rightarrow> svm_tsc \<Rightarrow> svm_tsc" where
  "svm_write_ratio multiplier h =
     (if multiplier = current_tsc_ratio h then h
      else h\<lparr>MSR_AMD64_TSC_RATIO := multiplier, current_tsc_ratio := multiplier\<rparr>)"

definition svm_write_tsc_multiplier :: "svm_tsc tsc_vcpu \<Rightarrow> svm_tsc tsc_vcpu" where
  "svm_write_tsc_multiplier v =
     (if guest_state_loaded (tsc_hw v)
      then v\<lparr>tsc_hw := svm_write_ratio (tsc_scaling_ratio v) (tsc_hw v)\<rparr> else v)"

definition vmx_tsc_env :: "vmx_tsc tsc_env \<Rightarrow> vmx_tsc tsc_env" where
  "vmx_tsc_env C = C\<lparr>write_tsc_offset := vmx_write_tsc_offset,
     write_tsc_multiplier := vmx_write_tsc_multiplier, get_l2_tsc_offset := vmx_get_l2_tsc_offset,
     get_l2_tsc_multiplier := vmx_get_l2_tsc_multiplier (default_tsc_scaling_ratio C)\<rparr>"

definition svm_tsc_env :: "svm_tsc tsc_env \<Rightarrow> svm_tsc tsc_env" where
  "svm_tsc_env C = C\<lparr>write_tsc_offset := svm_write_tsc_offset,
     write_tsc_multiplier := svm_write_tsc_multiplier, get_l2_tsc_offset := svm_get_l2_tsc_offset,
     get_l2_tsc_multiplier := svm_get_l2_tsc_multiplier\<rparr>"

section \<open>The interface\<close>

text \<open>
  What a write of the guest should do: move its counter by \<open>d\<close> at every instant, keep adjustment
  and offset in step, and have the offset in the hardware.
\<close>

definition tsc_moved :: "'h tsc_env \<Rightarrow> ('h \<Rightarrow> u64) \<Rightarrow> u64 \<Rightarrow> 'h tsc_vcpu \<Rightarrow> 'h tsc_vcpu \<Rightarrow> bool" where
  "tsc_moved E hw_offset d v v' \<longleftrightarrow>
     (\<forall>h. kvm_read_l1_tsc E v' h = kvm_read_l1_tsc E v h + d) \<and>
     ia32_tsc_adjust_msr v' - ia32_tsc_adjust_msr v = l1_tsc_offset v' - l1_tsc_offset v \<and>
     (in_guest_mode v \<or> hw_offset (tsc_hw v') = l1_tsc_offset v')"

locale tsc_vendor =
  fixes E :: "'h tsc_env" and hw_offset :: "'h \<Rightarrow> u64"
  assumes write_offset: "write_tsc_offset E v = v\<lparr>tsc_hw := tsc_hw (write_tsc_offset E v)\<rparr>"
    and offset_loaded: "hw_offset (tsc_hw (write_tsc_offset E v)) = tsc_offset v"
    and write_multiplier:
      "write_tsc_multiplier E v = v\<lparr>tsc_hw := tsc_hw (write_tsc_multiplier E v)\<rparr>"
    and multiplier_keeps_offset:
      "hw_offset (tsc_hw (write_tsc_multiplier E v)) = hw_offset (tsc_hw v)"
begin

text \<open>What a new offset leaves: everything but the offsets, of which L1 reads its own.\<close>

lemma offset_written:
  obtains h o' where
    "kvm_vcpu_write_tsc_offset E l1 v = v\<lparr>l1_tsc_offset := l1, tsc_offset := o', tsc_hw := h\<rparr>"
    "hw_offset h = o'" "in_guest_mode v \<or> o' = l1"
proof -
  let ?o = "if in_guest_mode v
    then kvm_calc_nested_tsc_offset E l1 (get_l2_tsc_offset E (v\<lparr>l1_tsc_offset := l1\<rparr>))
           (get_l2_tsc_multiplier E (v\<lparr>l1_tsc_offset := l1\<rparr>))
    else l1"
  let ?v = "v\<lparr>l1_tsc_offset := l1, tsc_offset := ?o\<rparr>"
  have "kvm_vcpu_write_tsc_offset E l1 v = write_tsc_offset E ?v"
    by (simp add: kvm_vcpu_write_tsc_offset_def Let_def)
  also have "\<dots> = ?v\<lparr>tsc_hw := tsc_hw (write_tsc_offset E ?v)\<rparr>" by (rule write_offset)
  finally show ?thesis
    by (rule that [of "tsc_hw (write_tsc_offset E ?v)" ?o]) (simp_all add: offset_loaded)
qed

lemma multiplier_written:
  obtains h r where
    "kvm_vcpu_write_tsc_multiplier E l1 v =
      v\<lparr>l1_tsc_scaling_ratio := l1, tsc_scaling_ratio := r, tsc_hw := h\<rparr>"
    "hw_offset h = hw_offset (tsc_hw v)"
proof -
  let ?r = "if in_guest_mode v
    then kvm_calc_nested_tsc_multiplier E l1
           (get_l2_tsc_multiplier E (v\<lparr>l1_tsc_scaling_ratio := l1\<rparr>))
    else l1"
  let ?v = "v\<lparr>l1_tsc_scaling_ratio := l1, tsc_scaling_ratio := ?r\<rparr>"
  let ?w = "if has_tsc_control E then write_tsc_multiplier E ?v else ?v"
  have "kvm_vcpu_write_tsc_multiplier E l1 v = ?w"
    by (simp add: kvm_vcpu_write_tsc_multiplier_def Let_def)
  also have "\<dots> = ?v\<lparr>tsc_hw := tsc_hw ?w\<rparr>" using write_multiplier [of ?v] by simp
  finally show ?thesis
    by (rule that [of "tsc_hw ?w" ?r]) (simp_all add: multiplier_keeps_offset)
qed

lemma after_offset:
  "kvm_read_l1_tsc E (kvm_vcpu_write_tsc_offset E l1 v) h =
    l1 + kvm_scale_tsc E h (l1_tsc_scaling_ratio v)"
  "ia32_tsc_adjust_msr (kvm_vcpu_write_tsc_offset E l1 v) = ia32_tsc_adjust_msr v"
  "l1_tsc_offset (kvm_vcpu_write_tsc_offset E l1 v) = l1"
  "\<not> in_guest_mode v \<Longrightarrow> hw_offset (tsc_hw (kvm_vcpu_write_tsc_offset E l1 v)) = l1"
  by (rule offset_written [of l1 v], simp add: kvm_read_l1_tsc_def)+

lemma read_ignores:
  "kvm_read_l1_tsc E (u\<lparr>ia32_tsc_adjust_msr := a\<rparr>) h = kvm_read_l1_tsc E u h"
  "kvm_read_l1_tsc E (make_request q u) h = kvm_read_l1_tsc E u h"
  by (simp_all add: kvm_read_l1_tsc_def make_request_def)

lemma guest_writes:
  "tsc_moved E hw_offset (data - kvm_read_l1_tsc E v r1) v
     (snd (set_msr_tsc E r1 r2 ns False data (ka, v)))"
  by (cases "in_guest_mode v")
    (simp_all add: tsc_moved_def set_msr_tsc_def adjust_tsc_offset_guest_def Let_def read_ignores
      after_offset kvm_compute_l1_tsc_offset_def kvm_read_l1_tsc_def [of _ v])

lemma guest_adjusts:
  "tsc_moved E hw_offset (data - ia32_tsc_adjust_msr v) v (set_msr_tsc_adjust E True False data v)"
  "ia32_tsc_adjust_msr (set_msr_tsc_adjust E True False data v) = data"
proof -
  have v: "set_msr_tsc_adjust E True False data v =
      (make_request KVM_REQ_CLOCK_UPDATE
        (kvm_vcpu_write_tsc_offset E (l1_tsc_offset v + (data - ia32_tsc_adjust_msr v)) v))
        \<lparr>ia32_tsc_adjust_msr := data\<rparr>"
    by (simp add: set_msr_tsc_adjust_def adjust_tsc_offset_guest_def Let_def)
  have q: "l1_tsc_offset (make_request r u) = l1_tsc_offset u" "tsc_hw (make_request r u) = tsc_hw u"
    for r u by (simp_all add: make_request_def)
  show "tsc_moved E hw_offset (data - ia32_tsc_adjust_msr v) v (set_msr_tsc_adjust E True False data v)"
    unfolding v by (cases "in_guest_mode v")
      (simp_all add: tsc_moved_def q read_ignores after_offset kvm_read_l1_tsc_def [of _ v])
  show "ia32_tsc_adjust_msr (set_msr_tsc_adjust E True False data v) = data" by (simp add: v)
qed

text \<open>What no write of the guest, change of frequency or load touches: the generation.\<close>

lemma offset_keeps_generation:
  "this_tsc_generation (kvm_vcpu_write_tsc_offset E l1 v) = this_tsc_generation v"
  "this_tsc_nsec (kvm_vcpu_write_tsc_offset E l1 v) = this_tsc_nsec v"
  "this_tsc_write (kvm_vcpu_write_tsc_offset E l1 v) = this_tsc_write v"
  "virtual_tsc_khz (kvm_vcpu_write_tsc_offset E l1 v) = virtual_tsc_khz v"
  "l1_tsc_offset (kvm_vcpu_write_tsc_offset E l1 v) = l1"
  by (rule offset_written [of l1 v], simp)+

lemma multiplier_keeps_generation:
  "this_tsc_generation (kvm_vcpu_write_tsc_multiplier E l1 v) = this_tsc_generation v"
  "this_tsc_nsec (kvm_vcpu_write_tsc_multiplier E l1 v) = this_tsc_nsec v"
  "this_tsc_write (kvm_vcpu_write_tsc_multiplier E l1 v) = this_tsc_write v"
  by (rule multiplier_written [of l1 v], simp)+

lemmas keep_generation = offset_keeps_generation multiplier_keeps_generation

lemma guest_write_keeps:
  assumes "set_msr_tsc E r1 r2 ns False data (ka, v) = (ka', v')"
  shows "ka' = ka" "this_tsc_generation v' = this_tsc_generation v"
    "this_tsc_nsec v' = this_tsc_nsec v" "this_tsc_write v' = this_tsc_write v"
  using assms
  by (auto simp: set_msr_tsc_def adjust_tsc_offset_guest_def Let_def keep_generation)

lemma guest_adjust_keeps:
  assumes "set_msr_tsc_adjust E a False data v = v'"
  shows "this_tsc_generation v' = this_tsc_generation v"
    "this_tsc_nsec v' = this_tsc_nsec v" "this_tsc_write v' = this_tsc_write v"
  using assms
  by (auto simp: set_msr_tsc_adjust_def adjust_tsc_offset_guest_def make_request_def Let_def
      keep_generation)

lemma set_khz_keeps:
  assumes "kvm_set_tsc_khz E khz v = Some (v', r)"
  shows "this_tsc_generation v' = this_tsc_generation v \<and>
    this_tsc_nsec v' = this_tsc_nsec v \<and> this_tsc_write v' = this_tsc_write v"
proof -
  have "this_tsc_generation (fst (set_tsc_khz E khz b u)) = this_tsc_generation u \<and>
    this_tsc_nsec (fst (set_tsc_khz E khz b u)) = this_tsc_nsec u \<and>
    this_tsc_write (fst (set_tsc_khz E khz b u)) = this_tsc_write u" for b u
    by (simp add: set_tsc_khz_def Let_def keep_generation)
  note k = this [of _ "v\<lparr>virtual_tsc_shift := s, virtual_tsc_mult := m, virtual_tsc_khz := khz\<rparr>" for s m]
  show ?thesis
  proof (cases "khz = 0")
    case True
    then show ?thesis using assms by (auto simp: kvm_set_tsc_khz_def keep_generation)
  next
    case False
    then obtain s m b where
      "set_tsc_khz E khz b (v\<lparr>virtual_tsc_shift := s, virtual_tsc_mult := m, virtual_tsc_khz := khz\<rparr>)
        = (v', r)"
      using assms unfolding kvm_set_tsc_khz_def Let_def by (auto split: option.splits)
    then show ?thesis using k [of b m s] by simp
  qed
qed

lemma load_keeps:
  assumes "vcpu_load_tsc E r1 r2 cpu ka v = v'"
  shows "this_tsc_generation v' = this_tsc_generation v" "this_tsc_nsec v' = this_tsc_nsec v"
    "this_tsc_write v' = this_tsc_write v" "virtual_tsc_khz v' = virtual_tsc_khz v"
  unfolding assms [symmetric] vcpu_load_tsc_def
  by (simp_all add: Let_def adjust_tsc_offset_host_def adjust_tsc_offset_guest_def
      make_request_def keep_generation)

lemma load_keeps_offset:
  assumes "\<not> kvm_check_tsc_unstable E" "tsc_offset_adjustment v = 0"
    "last_host_tsc v = 0 \<or> \<not> (r1 - last_host_tsc v <s 0)"
  shows "l1_tsc_offset (vcpu_load_tsc E r1 r2 cpu ka v) = l1_tsc_offset v"
  using assms by (auto simp: vcpu_load_tsc_def make_request_def Let_def)

lemma load_continues:
  assumes "kvm_check_tsc_unstable E" "vcpu_load_tsc E r1 r2 cpu ka v = v'"
  shows "kvm_read_l1_tsc E v' h = last_guest_tsc v +
      (kvm_scale_tsc E h (l1_tsc_scaling_ratio v) - kvm_scale_tsc E r2 (l1_tsc_scaling_ratio v))"
    and "tsc_catchup v'" and "on_cpu v' = cpu"
proof -
  have keep: "last_guest_tsc (kvm_vcpu_write_tsc_offset E l1 u) = last_guest_tsc u"
    "l1_tsc_scaling_ratio (kvm_vcpu_write_tsc_offset E l1 u) = l1_tsc_scaling_ratio u" for l1 u
    by (rule offset_written [of l1 u], simp)+
  have u: "kvm_check_tsc_unstable (E\<lparr>host_tsc_unstable := True\<rparr>)"
    using assms(1) by (simp add: kvm_check_tsc_unstable_def split: if_split_asm)
  show "kvm_read_l1_tsc E v' h = last_guest_tsc v +
      (kvm_scale_tsc E h (l1_tsc_scaling_ratio v) - kvm_scale_tsc E r2 (l1_tsc_scaling_ratio v))"
    "tsc_catchup v'" "on_cpu v' = cpu"
    unfolding assms(2) [symmetric] vcpu_load_tsc_def kvm_read_l1_tsc_def
    by (simp_all add: Let_def u assms(1) keep offset_keeps_generation make_request_def
        adjust_tsc_offset_host_def adjust_tsc_offset_guest_def kvm_compute_l1_tsc_offset_def)
qed

text \<open>The locked part of a synchronisation.\<close>

lemma sync_locked:
  assumes "kvm_synchronize_tsc_locked E offset tsc ns matched (ka, v) = (ka', v')"
  shows "cur_tsc_generation ka' = (if matched then cur_tsc_generation ka else cur_tsc_generation ka + 1)"
    and "nr_vcpus_matched_tsc ka' =
      (if \<not> matched then 0
       else if this_tsc_generation v \<noteq> cur_tsc_generation ka then nr_vcpus_matched_tsc ka + 1
       else nr_vcpus_matched_tsc ka)"
    and "matched \<Longrightarrow> cur_tsc_nsec ka' = cur_tsc_nsec ka \<and> cur_tsc_write ka' = cur_tsc_write ka \<and>
      cur_tsc_offset ka' = cur_tsc_offset ka"
    and "\<not> matched \<Longrightarrow> cur_tsc_offset ka' = offset"
    and "this_tsc_generation v' = cur_tsc_generation ka'"
    and "this_tsc_nsec v' = cur_tsc_nsec ka'" and "this_tsc_write v' = cur_tsc_write ka'"
    and "l1_tsc_offset v' = offset" and "virtual_tsc_khz v' = virtual_tsc_khz v"
    and "last_tsc_khz ka' = virtual_tsc_khz v" and "last_tsc_offset ka' = offset"
proof -
  obtain g o' where o: "kvm_vcpu_write_tsc_offset E offset (v\<lparr>last_guest_tsc := tsc\<rparr>) =
      v\<lparr>last_guest_tsc := tsc, l1_tsc_offset := offset, tsc_offset := o', tsc_hw := g\<rparr>"
    using offset_written [of offset "v\<lparr>last_guest_tsc := tsc\<rparr>"] by metis
  have track: "\<exists>R. kvm_track_tsc_matching E b k u = u\<lparr>tsc_requests := R\<rparr>" for b k u
    by (rule exI [of _ "tsc_requests (kvm_track_tsc_matching E b k u)"])
      (simp add: kvm_track_tsc_matching_def make_request_def Let_def)
  have "cur_tsc_generation ka' = (if matched then cur_tsc_generation ka else cur_tsc_generation ka + 1) \<and>
    nr_vcpus_matched_tsc ka' =
      (if \<not> matched then 0
       else if this_tsc_generation v \<noteq> cur_tsc_generation ka then nr_vcpus_matched_tsc ka + 1
       else nr_vcpus_matched_tsc ka) \<and>
    (matched \<longrightarrow> cur_tsc_nsec ka' = cur_tsc_nsec ka \<and> cur_tsc_write ka' = cur_tsc_write ka \<and>
      cur_tsc_offset ka' = cur_tsc_offset ka) \<and>
    (\<not> matched \<longrightarrow> cur_tsc_offset ka' = offset) \<and> last_tsc_khz ka' = virtual_tsc_khz v \<and>
    last_tsc_offset ka' = offset \<and>
    (\<exists>R. v' = v\<lparr>last_guest_tsc := tsc, l1_tsc_offset := offset, tsc_offset := o', tsc_hw := g,
        this_tsc_generation := cur_tsc_generation ka', this_tsc_nsec := cur_tsc_nsec ka',
        this_tsc_write := cur_tsc_write ka', tsc_requests := R\<rparr>)"
    using assms track [of "\<not> matched" ka' "v\<lparr>last_guest_tsc := tsc, l1_tsc_offset := offset,
        tsc_offset := o', tsc_hw := g, this_tsc_generation := cur_tsc_generation ka',
        this_tsc_nsec := cur_tsc_nsec ka', this_tsc_write := cur_tsc_write ka'\<rparr>"]
    unfolding kvm_synchronize_tsc_locked_def Let_def split_conv o
    by (cases matched) auto
  then show "cur_tsc_generation ka' = (if matched then cur_tsc_generation ka else cur_tsc_generation ka + 1)"
    "nr_vcpus_matched_tsc ka' =
      (if \<not> matched then 0
       else if this_tsc_generation v \<noteq> cur_tsc_generation ka then nr_vcpus_matched_tsc ka + 1
       else nr_vcpus_matched_tsc ka)"
    "matched \<Longrightarrow> cur_tsc_nsec ka' = cur_tsc_nsec ka \<and> cur_tsc_write ka' = cur_tsc_write ka \<and>
      cur_tsc_offset ka' = cur_tsc_offset ka"
    "\<not> matched \<Longrightarrow> cur_tsc_offset ka' = offset"
    "this_tsc_generation v' = cur_tsc_generation ka'"
    "this_tsc_nsec v' = cur_tsc_nsec ka'" "this_tsc_write v' = cur_tsc_write ka'"
    "l1_tsc_offset v' = offset" "virtual_tsc_khz v' = virtual_tsc_khz v"
    "last_tsc_khz ka' = virtual_tsc_khz v" "last_tsc_offset ka' = offset" by auto
qed

text \<open>A synchronisation joins the current generation or starts a new one.\<close>

lemma sync_cases:
  assumes "kvm_synchronize_tsc E r1 r2 ns uv (ka, v) = (ka', v')"
  obtains (join) ka0 offset tsc where
      "kvm_synchronize_tsc_locked E offset tsc ns True (ka0, v) = (ka', v')"
      "cur_tsc_generation ka0 = cur_tsc_generation ka" "nr_vcpus_matched_tsc ka0 = nr_vcpus_matched_tsc ka"
      "cur_tsc_nsec ka0 = cur_tsc_nsec ka" "cur_tsc_write ka0 = cur_tsc_write ka"
      "cur_tsc_offset ka0 = cur_tsc_offset ka"
      "kvm_check_tsc_unstable E \<or> offset = cur_tsc_offset ka"
      "virtual_tsc_khz v \<noteq> 0" "virtual_tsc_khz v = last_tsc_khz ka"
    | (start) ka0 offset tsc where
      "kvm_synchronize_tsc_locked E offset tsc ns False (ka0, v) = (ka', v')"
      "cur_tsc_generation ka0 = cur_tsc_generation ka"
proof -
  let ?ka = "if uv \<noteq> None then ka\<lparr>user_set_tsc := True\<rparr> else ka"
  have f: "cur_tsc_generation ?ka = cur_tsc_generation ka" "nr_vcpus_matched_tsc ?ka = nr_vcpus_matched_tsc ka"
    "cur_tsc_nsec ?ka = cur_tsc_nsec ka" "cur_tsc_write ?ka = cur_tsc_write ka"
    "cur_tsc_offset ?ka = cur_tsc_offset ka" "last_tsc_khz ?ka = last_tsc_khz ka" by simp_all
  consider (a) offset tsc where "kvm_synchronize_tsc_locked E offset tsc ns True (?ka, v) = (ka', v')"
      "kvm_check_tsc_unstable E \<or> offset = cur_tsc_offset ?ka"
      "virtual_tsc_khz v \<noteq> 0" "virtual_tsc_khz v = last_tsc_khz ?ka"
    | (b) offset tsc where "kvm_synchronize_tsc_locked E offset tsc ns False (?ka, v) = (ka', v')"
  proof -
    define data where "data = (case uv of None \<Rightarrow> 0 | Some x \<Rightarrow> x)"
    define ok where "ok = (if virtual_tsc_khz v \<noteq> 0 then
        if data = 0 then True
        else if user_set_tsc ka then
          data < last_tsc_write ka + nsec_to_cycles E v (ns - last_tsc_nsec ka)
              + ucast (virtual_tsc_khz v) * 1000 \<and>
          data + ucast (virtual_tsc_khz v) * 1000
            > last_tsc_write ka + nsec_to_cycles E v (ns - last_tsc_nsec ka)
        else False
      else False)"
    have khz: "ok \<Longrightarrow> virtual_tsc_khz v \<noteq> 0" by (simp add: ok_def split: if_split_asm)
    have r: "(ka', v') =
      (if ok \<and> virtual_tsc_khz v = last_tsc_khz ?ka then
         if \<not> kvm_check_tsc_unstable E
         then kvm_synchronize_tsc_locked E (cur_tsc_offset ?ka) data ns True (?ka, v)
         else kvm_synchronize_tsc_locked E
           (kvm_compute_l1_tsc_offset E r2 v (data + nsec_to_cycles E v (ns - last_tsc_nsec ka)))
           (data + nsec_to_cycles E v (ns - last_tsc_nsec ka)) ns True (?ka, v)
       else kvm_synchronize_tsc_locked E (kvm_compute_l1_tsc_offset E r1 v data) data ns False (?ka, v))"
      unfolding assms [symmetric] kvm_synchronize_tsc_def Let_def split_conv ok_def data_def
      by (rule refl)
    show ?thesis
    proof (cases "ok \<and> virtual_tsc_khz v = last_tsc_khz ?ka")
      case False
      show ?thesis by (rule b [OF r [unfolded if_not_P [OF False], symmetric]])
    next
      case True
      then have k: "virtual_tsc_khz v \<noteq> 0" "virtual_tsc_khz v = last_tsc_khz ?ka" using khz by blast+
      show ?thesis
      proof (cases "kvm_check_tsc_unstable E")
        case u: True
        then have n: "\<not> \<not> kvm_check_tsc_unstable E" by simp
        show ?thesis
          by (rule a [OF r [unfolded if_P [OF True] if_not_P [OF n], symmetric] disjI1 [OF u] k])
      next
        case u: False
        show ?thesis
          by (rule a [OF r [unfolded if_P [OF True] if_P [OF u], symmetric] disjI2 [OF refl] k])
      qed
    qed
  qed
  then show ?thesis
  proof cases
    case a
    show ?thesis
      by (rule join [OF a(1) f(1-5) a(2) [unfolded f(5)] a(3) a(4) [unfolded f(6)]])
  next
    case b
    show ?thesis by (rule start [OF b f(1)])
  qed
qed

end

section \<open>Runs of a VM\<close>

text \<open>
  What the vCPUs \<open>I\<close> of a VM do to the generations, on a host with a stable counter: \<open>n\<close> counts
  the synchronisations, \<open>W\<close> holds the vCPUs whose counter or frequency was changed alone after
  their last one. The counter and clock readings are arbitrary.
\<close>

inductive tsc_run ::
  "'h tsc_env \<Rightarrow> nat set \<Rightarrow> nat \<Rightarrow> nat set \<Rightarrow> tsc_vm \<Rightarrow> (nat \<Rightarrow> 'h tsc_vcpu) \<Rightarrow> bool"
  for E :: "'h tsc_env" and I :: "nat set" where
  start: "cur_tsc_generation ka = 0 \<Longrightarrow> nr_vcpus_matched_tsc ka = 0 \<Longrightarrow> last_tsc_khz ka = 0 \<Longrightarrow>
    (\<forall>i\<in>I. this_tsc_generation (vs i) = 0) \<Longrightarrow> tsc_run E I 0 {} ka vs"
| sync: "tsc_run E I n W ka vs \<Longrightarrow> i \<in> I \<Longrightarrow>
    kvm_synchronize_tsc E r1 r2 ns uv (ka, vs i) = (ka', v') \<Longrightarrow>
    tsc_run E I (Suc n) (W - {i}) ka' (vs(i := v'))"
| set_offset: "tsc_run E I n W ka vs \<Longrightarrow> i \<in> I \<Longrightarrow>
    kvm_arch_tsc_set_attr E KVM_VCPU_TSC_OFFSET (Inr (Some offset)) r ns (ka, vs i) = ((ka', v'), 0) \<Longrightarrow>
    tsc_run E I (Suc n) (W - {i}) ka' (vs(i := v'))"
| guest_write: "tsc_run E I n W ka vs \<Longrightarrow> i \<in> I \<Longrightarrow>
    set_msr_tsc E r1 r2 ns False data (ka, vs i) = (ka', v') \<Longrightarrow>
    tsc_run E I n (insert i W) ka' (vs(i := v'))"
| guest_adjust: "tsc_run E I n W ka vs \<Longrightarrow> i \<in> I \<Longrightarrow>
    set_msr_tsc_adjust E a False data (vs i) = v' \<Longrightarrow> tsc_run E I n (insert i W) ka (vs(i := v'))"
| set_khz: "tsc_run E I n W ka vs \<Longrightarrow> i \<in> I \<Longrightarrow> kvm_set_tsc_khz E khz (vs i) = Some (v', r) \<Longrightarrow>
    tsc_run E I n (insert i W) ka (vs(i := v'))"
| load: "tsc_run E I n W ka vs \<Longrightarrow> i \<in> I \<Longrightarrow> tsc_offset_adjustment (vs i) = 0 \<Longrightarrow>
    last_host_tsc (vs i) = 0 \<or> \<not> (r1 - last_host_tsc (vs i) <s 0) \<Longrightarrow>
    vcpu_load_tsc E r1 r2 cpu ka (vs i) = v' \<Longrightarrow> tsc_run E I n W ka (vs(i := v'))"

text \<open>The vCPUs of the current generation, and the invariant.\<close>

definition members :: "nat set \<Rightarrow> tsc_vm \<Rightarrow> (nat \<Rightarrow> 'h tsc_vcpu) \<Rightarrow> nat set" where
  "members I ka vs = {i\<in>I. this_tsc_generation (vs i) = cur_tsc_generation ka}"

definition tsc_inv ::
  "nat set \<Rightarrow> nat \<Rightarrow> nat set \<Rightarrow> tsc_vm \<Rightarrow> (nat \<Rightarrow> 'h tsc_vcpu) \<Rightarrow> bool" where
  "tsc_inv I n W ka vs \<longleftrightarrow>
     unat (cur_tsc_generation ka) \<le> n \<and>
     (\<forall>i\<in>I. unat (this_tsc_generation (vs i)) \<le> unat (cur_tsc_generation ka)) \<and>
     (if cur_tsc_generation ka = 0 then nr_vcpus_matched_tsc ka = 0 \<and> last_tsc_khz ka = 0
      else nr_vcpus_matched_tsc ka + 1 = int (card (members I ka vs)) \<and>
        last_tsc_offset ka = cur_tsc_offset ka \<and>
        (\<forall>i\<in>members I ka vs.
           this_tsc_nsec (vs i) = cur_tsc_nsec ka \<and> this_tsc_write (vs i) = cur_tsc_write ka \<and>
           (i \<in> W \<or> virtual_tsc_khz (vs i) = last_tsc_khz ka \<and> l1_tsc_offset (vs i) = cur_tsc_offset ka)))"

lemma members_keep:
  "this_tsc_generation v = this_tsc_generation (vs i) \<Longrightarrow> members I ka (vs(i := v)) = members I ka vs"
  by (auto simp: members_def)

text \<open>A step that leaves the generation of its vCPU alone.\<close>

lemma tsc_inv_frame:
  assumes "tsc_inv I n W ka vs" "W \<subseteq> W'"
    and "this_tsc_generation v = this_tsc_generation (vs i)" "this_tsc_nsec v = this_tsc_nsec (vs i)"
      "this_tsc_write v = this_tsc_write (vs i)"
    and "i \<in> W' \<or> virtual_tsc_khz v = virtual_tsc_khz (vs i) \<and> l1_tsc_offset v = l1_tsc_offset (vs i)"
  shows "tsc_inv I n W' ka (vs(i := v))"
  using assms members_keep [of v vs i I ka, OF assms(3)]
  unfolding tsc_inv_def by (simp only:) (auto split: if_split_asm)

text \<open>Joining, by a vCPU that was no member or already was one.\<close>

lemma card_join:
  assumes "finite I" "i \<in> I" "cur_tsc_generation ka' = cur_tsc_generation ka"
    and "this_tsc_generation v = cur_tsc_generation ka'"
  shows "members I ka' (vs(i := v)) = insert i (members I ka vs)"
    and "card (members I ka' (vs(i := v))) = card (members I ka vs) +
      (if this_tsc_generation (vs i) \<noteq> cur_tsc_generation ka then 1 else 0)"
proof -
  show m: "members I ka' (vs(i := v)) = insert i (members I ka vs)"
    using assms by (auto simp: members_def)
  have "finite (members I ka vs)" using assms(1) by (simp add: members_def)
  then show "card (members I ka' (vs(i := v))) = card (members I ka vs) +
      (if this_tsc_generation (vs i) \<noteq> cur_tsc_generation ka then 1 else 0)"
    using assms(2) unfolding m by (auto simp: members_def card_insert_if)
qed

text \<open>A new generation has one member, as long as the number of the generation did not wrap.\<close>

lemma new_generation:
  fixes g :: u64
  assumes "unat g < 2 ^ 64 - 1"
  shows "unat (g + 1) = unat g + 1"
  using assms by (simp add: unat_word_ariths)

context tsc_vendor
begin

lemma join_keeps_inv:
  assumes inv: "tsc_inv I n W ka vs" and I: "finite I" "i \<in> I"
    and step: "kvm_synchronize_tsc_locked E offset tsc ns True (ka0, vs i) = (ka', v')"
    and same: "cur_tsc_generation ka0 = cur_tsc_generation ka" "nr_vcpus_matched_tsc ka0 = nr_vcpus_matched_tsc ka"
      "cur_tsc_nsec ka0 = cur_tsc_nsec ka" "cur_tsc_write ka0 = cur_tsc_write ka"
      "cur_tsc_offset ka0 = cur_tsc_offset ka"
    and fits: "cur_tsc_generation ka \<noteq> 0 \<Longrightarrow> offset = cur_tsc_offset ka"
      "virtual_tsc_khz (vs i) \<noteq> 0" "virtual_tsc_khz (vs i) = last_tsc_khz ka"
  shows "tsc_inv I (Suc n) (W - {i}) ka' (vs(i := v'))"
proof -
  note l = sync_locked [OF step]
  have khz: "last_tsc_khz ka \<noteq> 0" using fits(2,3) by simp
  have cur: "cur_tsc_generation ka \<noteq> 0" using inv khz by (auto simp: tsc_inv_def)
  have g: "cur_tsc_generation ka' = cur_tsc_generation ka" "this_tsc_generation v' = cur_tsc_generation ka'"
    using l(1,5) same(1) by simp_all
  note m = card_join [OF I g]
  have k: "last_tsc_khz ka' = last_tsc_khz ka" using l(10) fits(3) by simp
  have c: "cur_tsc_nsec ka' = cur_tsc_nsec ka" "cur_tsc_write ka' = cur_tsc_write ka"
    "cur_tsc_offset ka' = cur_tsc_offset ka" using l(3) same(3-5) by simp_all
  have o: "last_tsc_offset ka' = cur_tsc_offset ka'" using l(11) c(3) fits(1) [OF cur] by simp
  have nr: "nr_vcpus_matched_tsc ka' + 1 = int (card (members I ka' (vs(i := v'))))"
    using l(2) same(1,2) inv cur m(2) [of vs] by (auto simp: tsc_inv_def)
  have old: "\<forall>j\<in>members I ka vs. this_tsc_nsec (vs j) = cur_tsc_nsec ka \<and>
      this_tsc_write (vs j) = cur_tsc_write ka \<and>
      (j \<in> W \<or> virtual_tsc_khz (vs j) = last_tsc_khz ka \<and> l1_tsc_offset (vs j) = cur_tsc_offset ka)"
    using inv cur by (simp add: tsc_inv_def)
  have "\<forall>j\<in>members I ka' (vs(i := v')). this_tsc_nsec ((vs(i := v')) j) = cur_tsc_nsec ka' \<and>
      this_tsc_write ((vs(i := v')) j) = cur_tsc_write ka' \<and>
      (j \<in> W - {i} \<or> virtual_tsc_khz ((vs(i := v')) j) = last_tsc_khz ka' \<and>
        l1_tsc_offset ((vs(i := v')) j) = cur_tsc_offset ka')"
    unfolding m(1) using old l(6-9) fits(1) [OF cur] fits(3) c k by auto
  then show ?thesis
    unfolding tsc_inv_def using inv cur g nr o
    by (auto simp: tsc_inv_def)
qed

lemma start_keeps_inv:
  assumes inv: "tsc_inv I n W ka vs" and I: "finite I" "i \<in> I" and n: "n < 2 ^ 64 - 1"
    and step: "kvm_synchronize_tsc_locked E offset tsc ns False (ka0, vs i) = (ka', v')"
    and same: "cur_tsc_generation ka0 = cur_tsc_generation ka"
  shows "tsc_inv I (Suc n) (W - {i}) ka' (vs(i := v'))"
proof -
  note l = sync_locked [OF step]
  have b: "unat (cur_tsc_generation ka) < 2 ^ 64 - 1" using inv n by (simp add: tsc_inv_def)
  have g: "cur_tsc_generation ka' = cur_tsc_generation ka + 1" "this_tsc_generation v' = cur_tsc_generation ka'"
    using l(1,5) same by simp_all
  have u: "unat (cur_tsc_generation ka') = unat (cur_tsc_generation ka) + 1"
    unfolding g(1) by (rule new_generation [OF b])
  have old: "\<forall>j\<in>I. unat (this_tsc_generation (vs j)) < unat (cur_tsc_generation ka')"
    using inv u by (auto simp: tsc_inv_def le_imp_less_Suc)
  have m: "members I ka' (vs(i := v')) = {i}"
    using old I(2) g(2) by (auto simp: members_def)
  have "cur_tsc_generation ka' \<noteq> 0" using u by auto
  then show ?thesis
    unfolding tsc_inv_def m using inv old g(2) u l(2,4,6-11)
    by (auto simp: tsc_inv_def less_imp_le)
qed

lemma sync_keeps_inv:
  assumes inv: "tsc_inv I n W ka vs" and I: "finite I" "i \<in> I" and n: "n < 2 ^ 64 - 1"
    and stable: "\<not> kvm_check_tsc_unstable E"
    and s: "kvm_synchronize_tsc E r1 r2 ns uv (ka, vs i) = (ka', v')"
  shows "tsc_inv I (Suc n) (W - {i}) ka' (vs(i := v'))"
  using s
proof (cases rule: sync_cases)
  case (join ka0 offset tsc)
  show ?thesis
    by (rule join_keeps_inv [OF inv I join(1-6) _ join(8,9)]) (use join(7) stable in blast)
next
  case (start ka0 offset tsc)
  show ?thesis by (rule start_keeps_inv [OF inv I n start])
qed

lemma set_offset_eq:
  "kvm_arch_tsc_set_attr E KVM_VCPU_TSC_OFFSET (Inr (Some offset)) r ns (ka, v) =
    (kvm_synchronize_tsc_locked E offset (kvm_scale_tsc E r (l1_tsc_scaling_ratio v) + offset) ns
       (virtual_tsc_khz v \<noteq> 0 \<and> last_tsc_khz ka = virtual_tsc_khz v \<and> last_tsc_offset ka = offset)
       (ka\<lparr>user_set_tsc := True\<rparr>, v), 0)"
  by (simp add: kvm_arch_tsc_set_attr_def Let_def)

lemma set_attr_keeps_inv:
  assumes inv: "tsc_inv I n W ka vs" and I: "finite I" "i \<in> I" and n: "n < 2 ^ 64 - 1"
    and s: "kvm_arch_tsc_set_attr E KVM_VCPU_TSC_OFFSET (Inr (Some offset)) r ns (ka, vs i) = ((ka', v'), 0)"
  shows "tsc_inv I (Suc n) (W - {i}) ka' (vs(i := v'))"
proof -
  define matched where "matched \<longleftrightarrow>
    virtual_tsc_khz (vs i) \<noteq> 0 \<and> last_tsc_khz ka = virtual_tsc_khz (vs i) \<and> last_tsc_offset ka = offset"
  obtain tsc where step: "kvm_synchronize_tsc_locked E offset tsc ns matched (ka\<lparr>user_set_tsc := True\<rparr>, vs i) = (ka', v')"
    using s unfolding set_offset_eq matched_def by blast
  have same: "cur_tsc_generation (ka\<lparr>user_set_tsc := True\<rparr>) = cur_tsc_generation ka"
    "nr_vcpus_matched_tsc (ka\<lparr>user_set_tsc := True\<rparr>) = nr_vcpus_matched_tsc ka"
    "cur_tsc_nsec (ka\<lparr>user_set_tsc := True\<rparr>) = cur_tsc_nsec ka"
    "cur_tsc_write (ka\<lparr>user_set_tsc := True\<rparr>) = cur_tsc_write ka"
    "cur_tsc_offset (ka\<lparr>user_set_tsc := True\<rparr>) = cur_tsc_offset ka" by simp_all
  show ?thesis
  proof (cases matched)
    case True
    then have t: "matched = True" by simp
    from True have m: "virtual_tsc_khz (vs i) \<noteq> 0" "virtual_tsc_khz (vs i) = last_tsc_khz ka" "last_tsc_offset ka = offset"
      by (simp_all add: matched_def)
    have "offset = cur_tsc_offset ka" if "cur_tsc_generation ka \<noteq> 0"
      using inv that m(3) by (simp add: tsc_inv_def)
    from join_keeps_inv [OF inv I step [unfolded t] same this m(1,2)] show ?thesis .
  next
    case False
    then have f: "matched = False" by simp
    show ?thesis by (rule start_keeps_inv [OF inv I n step [unfolded f] same(1)])
  qed
qed

lemma run_inv:
  assumes "tsc_run E I n W ka vs" "finite I" "\<not> kvm_check_tsc_unstable E" "n < 2 ^ 64"
  shows "tsc_inv I n W ka vs"
  using assms(1,4)
proof induction
  case (start ka vs)
  then show ?case by (simp add: tsc_inv_def)
next
  case (sync n W ka vs i r1 r2 ns uv ka' v')
  show ?case
    by (rule sync_keeps_inv [OF sync.IH assms(2) sync.hyps(2) _ assms(3) sync.hyps(3)])
      (use sync.prems in simp_all)
next
  case (set_offset n W ka vs i offset r ns ka' v')
  show ?case
    by (rule set_attr_keeps_inv [OF set_offset.IH assms(2) set_offset.hyps(2) _ set_offset.hyps(3)])
      (use set_offset.prems in simp_all)
next
  case (guest_write n W ka vs i r1 r2 ns data ka' v')
  note k = guest_write_keeps [OF guest_write.hyps(3)]
  show ?case unfolding k(1)
    by (rule tsc_inv_frame [OF guest_write.IH [OF guest_write.prems] subset_insertI k(2-4)]) simp
next
  case (guest_adjust n W ka vs i a data v')
  show ?case
    by (rule tsc_inv_frame [OF guest_adjust.IH [OF guest_adjust.prems] subset_insertI
          guest_adjust_keeps [OF guest_adjust.hyps(3)]]) simp
next
  case (set_khz n W ka vs i khz v' r)
  note k = set_khz_keeps [OF set_khz.hyps(3)]
  show ?case
    by (rule tsc_inv_frame [OF set_khz.IH [OF set_khz.prems] subset_insertI]) (use k in simp_all)
next
  case (load n W ka vs i r1 r2 cpu v')
  note k = load_keeps [OF load.hyps(5)]
  have "l1_tsc_offset v' = l1_tsc_offset (vs i)"
    unfolding load.hyps(5) [symmetric] by (rule load_keeps_offset [OF assms(3) load.hyps(3,4)])
  then show ?case
    by (intro tsc_inv_frame [OF load.IH [OF load.prems] subset_refl k(1-3)] disjI2 conjI k(4))
qed

text \<open>When the count says that all vCPUs match, all of them have the counter of the generation.\<close>

lemma all_matched:
  assumes "tsc_run E I n W ka vs" "finite I" "\<not> kvm_check_tsc_unstable E" "n < 2 ^ 64"
    and "cur_tsc_generation ka \<noteq> 0" "nr_vcpus_matched_tsc ka + 1 = int (card I)" "k \<in> I - W"
  shows "l1_tsc_offset (vs k) = cur_tsc_offset ka \<and> virtual_tsc_khz (vs k) = last_tsc_khz ka"
proof -
  have inv: "tsc_inv I n W ka vs" by (rule run_inv [OF assms(1-4)])
  then have "nr_vcpus_matched_tsc ka + 1 = int (card (members I ka vs))"
    using assms(5) by (simp add: tsc_inv_def)
  then have "members I ka vs = I"
    by (intro card_subset_eq [OF assms(2)]) (use assms(6) in \<open>auto simp: members_def\<close>)
  then show ?thesis using inv assms(5,7) by (auto simp: tsc_inv_def)
qed

end

interpretation vmx_tsc: tsc_vendor "vmx_tsc_env C" VMCS_TSC_OFFSET for C
  by unfold_locales
    (simp_all add: vmx_tsc_env_def vmx_write_tsc_offset_def vmx_write_tsc_multiplier_def)

interpretation svm_tsc: tsc_vendor "svm_tsc_env C" vmcb_tsc_offset for C
  by unfold_locales
    (simp_all add: svm_tsc_env_def svm_write_tsc_offset_def svm_write_tsc_multiplier_def
      svm_write_ratio_def)

section \<open>Properties\<close>

text \<open> \<open>kvm_set_tsc_khz\<close> returns for every frequency user space can ask for. It fails for
  zero, and for one outside of the tolerance that neither the ratio of the hardware nor, for a
  faster guest, catching up can give. \<close>

theorem set_tsc_khz_returns:
  assumes "tsc_math_contract (math E)"
  shows "\<exists>v' r. kvm_set_tsc_khz E khz v = Some (v', r) \<and>
    r = (if khz = 0 \<or>
            (khz < adjust_tsc_khz (tsc_khz E) (- tsc_tolerance_ppm E) \<or>
             khz > adjust_tsc_khz (tsc_khz E) (tsc_tolerance_ppm E)) \<and>
            (if has_tsc_control E
             then let ratio = mul_u64_u32_div (math E) (push_bit (tsc_scaling_ratio_frac_bits E) 1)
                        khz (tsc_khz E)
                  in ratio = 0 \<or> max_tsc_scaling_ratio E \<le> ratio
             else khz \<le> tsc_khz E)
         then - 1 else 0)"
proof (cases "khz = 0")
  case True
  then show ?thesis by (simp add: kvm_set_tsc_khz_def)
next
  case False
  have k: "unat khz < 2 ^ 32" using unsigned_less [of khz] by simp
  have u: "unat (ucast khz :: u64) = unat khz"
    using k take_bit_nat_eq_self [of "unat khz" 64] by (simp add: unsigned_ucast_eq)
  have p: "unat (ucast khz * 1000 :: u64) = unat khz * 1000"
    using k by (simp add: unat_word_ariths u)
  have "unat (ucast khz * 1000 :: u64) < 2 ^ 63" "ucast khz * 1000 \<noteq> (0 :: u64)"
    using k False p unat_eq_zero [of khz] by auto
  then obtain shift mult where
    "kvm_get_time_scale (math E) (ucast khz * 1000) 1000000000 = Some (shift, mult)"
    using time_scale_returns [OF assms, of "ucast khz * 1000" 1000000000] by auto
  then show ?thesis
    using False by (auto simp: kvm_set_tsc_khz_def set_tsc_khz_def Let_def not_less)
qed

definition demo_tsc_env :: "vmx_tsc tsc_env" where
  "demo_tsc_env = \<lparr>has_tsc_control = False, default_tsc_scaling_ratio = 1,
     max_tsc_scaling_ratio = 256, tsc_scaling_ratio_frac_bits = 4, tsc_khz = 2000,
     tsc_tolerance_ppm = 250, host_tsc_unstable = False, gtod_vclock_mode = VDSO_CLOCKMODE_TSC,
     math = sample_math, nsec_to_cycles = (\<lambda>_ ns. ns), write_tsc_offset = id,
     write_tsc_multiplier = id, get_l2_tsc_offset = (\<lambda>_. 0), get_l2_tsc_multiplier = (\<lambda>_. 1)\<rparr>"

definition demo_tsc_vcpu :: "vmx_tsc tsc_vcpu" where
  "demo_tsc_vcpu = \<lparr>virtual_tsc_khz = 2000, virtual_tsc_mult = 0, virtual_tsc_shift = 0,
     this_tsc_nsec = 0, this_tsc_write = 0, this_tsc_generation = 0, last_guest_tsc = 0,
     last_host_tsc = 0, l1_tsc_offset = 0, tsc_offset = 0, l1_tsc_scaling_ratio = 1,
     tsc_scaling_ratio = 1, ia32_tsc_adjust_msr = 0, tsc_offset_adjustment = 0,
     tsc_catchup = False, tsc_always_catchup = False, in_guest_mode = False, on_cpu = - 1,
     tsc_requests = {}, tsc_hw = \<lparr>VMCS_TSC_OFFSET = 0, VMCS_TSC_MULTIPLIER = 1,
       vmcs12_uses_tsc_offsetting = False, vmcs12_uses_tsc_scaling = False,
       vmcs12_tsc_offset = 0, vmcs12_tsc_multiplier = 1\<rparr>\<rparr>"

definition demo_tsc_vm :: tsc_vm where
  "demo_tsc_vm = \<lparr>last_tsc_nsec = 0, last_tsc_write = 0, last_tsc_khz = 0, last_tsc_offset = 0,
     cur_tsc_nsec = 0, cur_tsc_write = 0, cur_tsc_offset = 0, cur_tsc_generation = 0,
     nr_vcpus_matched_tsc = 0, user_set_tsc = False, use_master_clock = False, online_vcpus = 2\<rparr>"

text \<open>Two vCPUs that start at the same frequency and are synchronised once each.\<close>

definition demo_run :: "tsc_vm \<times> (nat \<Rightarrow> vmx_tsc tsc_vcpu)" where
  "demo_run =
     (let (ka1, v1) = kvm_synchronize_tsc (vmx_tsc_env demo_tsc_env) 10 11 12 None (demo_tsc_vm, demo_tsc_vcpu);
          (ka2, v2) = kvm_synchronize_tsc (vmx_tsc_env demo_tsc_env) 20 21 22 None (ka1, demo_tsc_vcpu)
      in (ka2, (\<lambda>_. demo_tsc_vcpu)(0 := v1, 1 := v2)))"

lemma demo_run:
  "tsc_run (vmx_tsc_env demo_tsc_env) {0, 1} 2 {} (fst demo_run) (snd demo_run)"
proof -
  obtain ka1 v1 where s1: "kvm_synchronize_tsc (vmx_tsc_env demo_tsc_env) 10 11 12 None
      (demo_tsc_vm, demo_tsc_vcpu) = (ka1, v1)" by (rule prod.exhaust)
  obtain ka2 v2 where s2: "kvm_synchronize_tsc (vmx_tsc_env demo_tsc_env) 20 21 22 None
      (ka1, demo_tsc_vcpu) = (ka2, v2)" by (rule prod.exhaust)
  have 0: "tsc_run (vmx_tsc_env demo_tsc_env) {0, 1} 0 {} demo_tsc_vm (\<lambda>_. demo_tsc_vcpu)"
    by (rule tsc_run.start) (simp_all add: demo_tsc_vm_def demo_tsc_vcpu_def)
  have 1: "tsc_run (vmx_tsc_env demo_tsc_env) {0, 1} (Suc 0) ({} - {0}) ka1 ((\<lambda>_. demo_tsc_vcpu)(0 := v1))"
    by (rule tsc_run.sync [OF 0 _ s1]) simp
  have "tsc_run (vmx_tsc_env demo_tsc_env) {0, 1} (Suc (Suc 0)) ({} - {0} - {1}) ka2
      ((\<lambda>_. demo_tsc_vcpu)(0 := v1, 1 := v2))"
    by (rule tsc_run.sync [OF 1]) (use s2 in simp_all)
  then show ?thesis by (simp add: demo_run_def s1 s2 numeral_2_eq_2)
qed

theorem set_tsc_khz_returns_witness:
  "\<exists>v' r. kvm_set_tsc_khz demo_tsc_env 2000 demo_tsc_vcpu = Some (v', r) \<and> r = 0"
proof -
  have m: "tsc_math_contract (math demo_tsc_env)"
    by (simp add: demo_tsc_env_def sample_math_contract)
  show ?thesis
    using set_tsc_khz_returns [OF m, of 2000 demo_tsc_vcpu]
    by (simp add: demo_tsc_env_def adjust_tsc_khz_def)
qed

text \<open> A guest that writes its counter moves it by what the value is ahead of the counter, so
  that it reads the value back at that instant; one that writes \<open>IA32_TSC_ADJUST\<close> moves its
  counter by the difference to the old adjustment. Either write keeps the adjustment and the
  offset in step, as the architecture asks, and outside of nested guests loads the offset of L1
  into the hardware, on both vendors. \<close>

theorem guest_writes_of_the_tsc:
  "tsc_moved (vmx_tsc_env C) VMCS_TSC_OFFSET (data - kvm_read_l1_tsc (vmx_tsc_env C) v r1) v
     (snd (set_msr_tsc (vmx_tsc_env C) r1 r2 ns False data (ka, v))) \<and>
   tsc_moved (vmx_tsc_env C) VMCS_TSC_OFFSET (data - ia32_tsc_adjust_msr v) v
     (set_msr_tsc_adjust (vmx_tsc_env C) True False data v) \<and>
   ia32_tsc_adjust_msr (set_msr_tsc_adjust (vmx_tsc_env C) True False data v) = data \<and>
   tsc_moved (svm_tsc_env D) vmcb_tsc_offset (data - kvm_read_l1_tsc (svm_tsc_env D) w r1) w
     (snd (set_msr_tsc (svm_tsc_env D) r1 r2 ns False data (ka, w))) \<and>
   tsc_moved (svm_tsc_env D) vmcb_tsc_offset (data - ia32_tsc_adjust_msr w) w
     (set_msr_tsc_adjust (svm_tsc_env D) True False data w) \<and>
   ia32_tsc_adjust_msr (set_msr_tsc_adjust (svm_tsc_env D) True False data w) = data"
  by (intro conjI vmx_tsc.guest_writes vmx_tsc.guest_adjusts svm_tsc.guest_writes svm_tsc.guest_adjusts)

text \<open> On a host whose counter is not stable, a vCPU that is loaded goes on counting where it
  was when it last ran: at the instant of the load its guest reads the last value it saw. \<close>

theorem unstable_load_continues:
  assumes "kvm_check_tsc_unstable (vmx_tsc_env C)"
  shows "kvm_read_l1_tsc (vmx_tsc_env C) (vcpu_load_tsc (vmx_tsc_env C) r1 r2 cpu ka v) r2
      = last_guest_tsc v \<and>
    tsc_catchup (vcpu_load_tsc (vmx_tsc_env C) r1 r2 cpu ka v)"
  using vmx_tsc.load_continues(1,2) [OF assms refl] by simp

theorem unstable_load_continues_witness:
  "kvm_read_l1_tsc (vmx_tsc_env (demo_tsc_env\<lparr>host_tsc_unstable := True, gtod_vclock_mode := VDSO_CLOCKMODE_NONE\<rparr>))
     (vcpu_load_tsc (vmx_tsc_env (demo_tsc_env\<lparr>host_tsc_unstable := True, gtod_vclock_mode := VDSO_CLOCKMODE_NONE\<rparr>))
        100 120 3 demo_tsc_vm (demo_tsc_vcpu\<lparr>last_guest_tsc := 7\<rparr>)) 120 = 7"
  using unstable_load_continues [of
      "demo_tsc_env\<lparr>host_tsc_unstable := True, gtod_vclock_mode := VDSO_CLOCKMODE_NONE\<rparr>"
      100 120 3 demo_tsc_vm "demo_tsc_vcpu\<lparr>last_guest_tsc := 7\<rparr>"]
  by (simp add: kvm_check_tsc_unstable_def vmx_tsc_env_def demo_tsc_vcpu_def)



end
