(* ===== verification/Kvm_Clock.thy ===== *)
theory Kvm_Clock
  imports Kvm_Tsc_Props
begin

unbundle bit_operations_syntax

text \<open>
  The clock a guest reads (kvmclock, \<open>x86.c\<close>): the master copy of the host's time of a VM, the
  page with time and scale of each vCPU, and the wall clock. A loop under a sequence count reads
  its values at one moment here; the arithmetic of other headers is a parameter.
\<close>

section \<open>The host's time\<close>

record pvclock_clock =
  vclock_mode :: vclock_mode
  cycle_last :: u64
  clock_mask :: u64
  clock_mult :: u32
  clock_shift :: u32
  base_cycles :: u64
  clock_offset :: u64

record pvclock_gtod_data =
  gtod_clock :: pvclock_clock
  gtod_raw_clock :: pvclock_clock
  offs_boot :: u64
  wall_time_sec :: u64

text \<open>The fields of the kernel's \<open>struct timekeeper\<close> that are copied.\<close>

record timekeeper =
  tkr_mono :: pvclock_clock
  tkr_raw :: pvclock_clock
  tk_xtime_sec :: u64
  tk_offs_boot :: u64

definition update_pvclock_gtod :: "timekeeper \<Rightarrow> pvclock_gtod_data" where
  "update_pvclock_gtod tk =
     \<lparr>gtod_clock = tkr_mono tk, gtod_raw_clock = tkr_raw tk, offs_boot = tk_offs_boot tk,
      wall_time_sec = tk_xtime_sec tk\<rparr>"

definition get_kvmclock_base_ns :: "pvclock_gtod_data \<Rightarrow> u64 \<Rightarrow> u64" where
  "get_kvmclock_base_ns g ktime_get_raw = ktime_get_raw + offs_boot g"

text \<open>
  What the host's hardware says at one moment: its counter, and what Hyper-V's page gives for it
  when that page is valid.
\<close>

record host_moment =
  host_rdtsc :: u64
  hv_tsc_page :: "(u64 \<times> u64) option"

definition read_tsc :: "pvclock_gtod_data \<Rightarrow> host_moment \<Rightarrow> u64" where
  "read_tsc g m =
     (let ret = host_rdtsc m; last = cycle_last (gtod_clock g)
      in if ret \<ge> last then ret else last)"

text \<open>Nanoseconds not yet shifted, the counter they belong to, and the mode.\<close>

definition vgettsc ::
  "pvclock_gtod_data \<Rightarrow> host_moment \<Rightarrow> pvclock_clock \<Rightarrow> u64 \<times> u64 \<times> vclock_mode" where
  "vgettsc g m c =
     (case vclock_mode c of
        VDSO_CLOCKMODE_HVCLOCK \<Rightarrow>
          (case hv_tsc_page m of
             Some (tsc_timestamp, tsc_pg_val) \<Rightarrow>
               (((tsc_pg_val - cycle_last c) AND clock_mask c) * ucast (clock_mult c),
                tsc_timestamp, VDSO_CLOCKMODE_HVCLOCK)
           | None \<Rightarrow> (0, 0, VDSO_CLOCKMODE_NONE))
      | VDSO_CLOCKMODE_TSC \<Rightarrow>
          (let tsc_timestamp = read_tsc g m
           in (((tsc_timestamp - cycle_last c) AND clock_mask c) * ucast (clock_mult c),
               tsc_timestamp, VDSO_CLOCKMODE_TSC))
      | VDSO_CLOCKMODE_NONE \<Rightarrow> (0, 0, VDSO_CLOCKMODE_NONE))"

definition do_monotonic_raw :: "pvclock_gtod_data \<Rightarrow> host_moment \<Rightarrow> u64 \<times> u64 \<times> vclock_mode" where
  "do_monotonic_raw g m =
     (let (v, tsc_timestamp, mode) = vgettsc g m (gtod_raw_clock g);
          ns = drop_bit (unat (clock_shift (gtod_raw_clock g))) (base_cycles (gtod_raw_clock g) + v)
                 + (clock_offset (gtod_raw_clock g) + offs_boot g)
      in (ns, tsc_timestamp, mode))"

text \<open>Seconds and nanoseconds.\<close>

definition do_realtime :: "pvclock_gtod_data \<Rightarrow> host_moment \<Rightarrow> (u64 \<times> u64) \<times> u64 \<times> vclock_mode" where
  "do_realtime g m =
     (let (v, tsc_timestamp, mode) = vgettsc g m (gtod_clock g);
          ns = drop_bit (unat (clock_shift (gtod_clock g))) (base_cycles (gtod_clock g) + v)
      in ((wall_time_sec g + ns div 1000000000, ns mod 1000000000), tsc_timestamp, mode))"

text \<open>What was written, if anything, and whether the source is the counter.\<close>

definition kvm_get_time_and_clockread ::
  "pvclock_gtod_data \<Rightarrow> host_moment \<Rightarrow> (u64 \<times> u64) option \<times> bool" where
  "kvm_get_time_and_clockread g m =
     (if \<not> gtod_is_based_on_tsc (vclock_mode (gtod_clock g)) then (None, False)
      else let (ns, tsc_timestamp, mode) = do_monotonic_raw g m
           in (Some (ns, tsc_timestamp), gtod_is_based_on_tsc mode))"

definition kvm_get_walltime_and_clockread ::
  "pvclock_gtod_data \<Rightarrow> host_moment \<Rightarrow> ((u64 \<times> u64) \<times> u64) option \<times> bool" where
  "kvm_get_walltime_and_clockread g m =
     (if \<not> gtod_is_based_on_tsc (vclock_mode (gtod_clock g)) then (None, False)
      else let (ts, tsc_timestamp, mode) = do_realtime g m
           in (Some (ts, tsc_timestamp), gtod_is_based_on_tsc mode))"

section \<open>The clocks of a VM\<close>

text \<open>The page of a vCPU, a structure both sides know.\<close>

record pvclock_info =
  pv_version :: u32
  pv_tsc_timestamp :: u64
  pv_system_time :: u64
  pv_tsc_to_system_mul :: u32
  pv_tsc_shift :: "8 word"
  pv_flags :: "8 word"

abbreviation PVCLOCK_TSC_STABLE_BIT :: "8 word" where "PVCLOCK_TSC_STABLE_BIT \<equiv> 1"
abbreviation PVCLOCK_GUEST_STOPPED :: "8 word" where "PVCLOCK_GUEST_STOPPED \<equiv> 2"

text \<open>
  A cached mapping of guest memory: \<open>gpc_maps\<close> says whether the loop of \<open>kvm_gpc_check\<close> and
  \<open>kvm_gpc_refresh\<close>, of another file, ends with it mapped.
\<close>

record gpc =
  gpc_active :: bool
  gpc_maps :: bool
  gpc_page :: pvclock_info

datatype clock_call =
  Kvm_xen_update_tsc_info
| Kvm_hv_setup_tsc_page pvclock_info

record 'h clock_vcpu =
  vcpu_tsc :: "'h tsc_vcpu"
  clock_vcpu_id :: nat
  hv_clock :: pvclock_info
  hw_tsc_khz :: u32
  pvclock_set_guest_stopped_request :: bool
  pv_time :: gpc
  xen_vcpu_info_cache :: gpc
  xen_vcpu_time_info_cache :: gpc
  clock_msr :: u64
  clock_calls :: "clock_call list"

record clock_vm =
  vm_tsc :: tsc_vm
  master_kernel_ns :: u64
  master_cycle_now :: u64
  kvmclock_offset :: u64
  backwards_tsc_observed :: bool
  boot_vcpu_runs_old_kvmclock :: bool
  xen_pvclock_tsc_unstable :: bool
  kvm_guest_has_master_clock :: bool

record 'h clock_env =
  tsc_of :: "'h tsc_env"
  constant_tsc :: bool
  cpu_tsc_khz :: u64
  pvclock_read_cycles :: "pvclock_info \<Rightarrow> u64 \<Rightarrow> u64"

definition get_cpu_tsc_khz :: "'h clock_env \<Rightarrow> u64" where
  "get_cpu_tsc_khz E = (if constant_tsc E then ucast (tsc_khz (tsc_of E)) else cpu_tsc_khz E)"

definition clock_request :: "tsc_request \<Rightarrow> 'h clock_vcpu \<Rightarrow> 'h clock_vcpu" where
  "clock_request r v = v\<lparr>vcpu_tsc := make_request r (vcpu_tsc v)\<rparr>"

text \<open>The master copy.\<close>

definition pvclock_update_vm_gtod_copy ::
  "pvclock_gtod_data \<Rightarrow> host_moment \<Rightarrow> clock_vm \<Rightarrow> clock_vm" where
  "pvclock_update_vm_gtod_copy g m ka =
     (let vcpus_matched = (nr_vcpus_matched_tsc (vm_tsc ka) + 1 = online_vcpus (vm_tsc ka));
          (read, host_tsc_clocksource) = kvm_get_time_and_clockread g m;
          ka = (case read of
                  Some (ns, tsc) \<Rightarrow> ka\<lparr>master_kernel_ns := ns, master_cycle_now := tsc\<rparr>
                | None \<Rightarrow> ka);
          ka = ka\<lparr>vm_tsc := (vm_tsc ka)\<lparr>use_master_clock :=
                 (host_tsc_clocksource \<and> vcpus_matched \<and> \<not> backwards_tsc_observed ka \<and>
                  \<not> boot_vcpu_runs_old_kvmclock ka)\<rparr>\<rparr>
      in if use_master_clock (vm_tsc ka) then ka\<lparr>kvm_guest_has_master_clock := True\<rparr> else ka)"

text \<open>
  All vCPUs are asked for an update. The request that keeps them out of the guest meanwhile ends
  with the function, and the page of Hyper-V's clock is of another file.
\<close>

definition kvm_update_masterclock ::
  "pvclock_gtod_data \<Rightarrow> host_moment \<Rightarrow> clock_vm \<times> 'h clock_vcpu list \<Rightarrow> clock_vm \<times> 'h clock_vcpu list" where
  "kvm_update_masterclock g m = (\<lambda>(ka, vs).
     (pvclock_update_vm_gtod_copy g m ka, map (clock_request KVM_REQ_CLOCK_UPDATE) vs))"

text \<open>MSRs of the guest give the address of the page, its lowest bit says whether to use it.\<close>

definition kvm_write_system_time ::
  "u64 \<Rightarrow> bool \<Rightarrow> bool \<Rightarrow> gpc \<Rightarrow> clock_vm \<times> 'h clock_vcpu \<Rightarrow> clock_vm \<times> 'h clock_vcpu" where
  "kvm_write_system_time system_time old_msr host_initiated activated = (\<lambda>(ka, v).
     let (ka, v) =
           (if clock_vcpu_id v = 0 \<and> \<not> host_initiated then
              (ka\<lparr>boot_vcpu_runs_old_kvmclock := old_msr\<rparr>,
               if boot_vcpu_runs_old_kvmclock ka \<noteq> old_msr
               then clock_request KVM_REQ_MASTERCLOCK_UPDATE v else v)
            else (ka, v));
         v = clock_request KVM_REQ_GLOBAL_CLOCK_UPDATE (v\<lparr>clock_msr := system_time\<rparr>)
     in (ka, v\<lparr>pv_time :=
           (if system_time AND 1 \<noteq> 0 then activated else (pv_time v)\<lparr>gpc_active := False\<rparr>)\<rparr>))"

section \<open>Reading the clock\<close>

record kvm_clock_data =
  data_clock :: u64
  data_realtime :: u64
  data_host_tsc :: u64
  data_flags :: u32

abbreviation KVM_CLOCK_TSC_STABLE :: u32 where "KVM_CLOCK_TSC_STABLE \<equiv> 2"
abbreviation KVM_CLOCK_REALTIME :: u32 where "KVM_CLOCK_REALTIME \<equiv> 4"
abbreviation KVM_CLOCK_HOST_TSC :: u32 where "KVM_CLOCK_HOST_TSC \<equiv> 8"

text \<open>
  The clock at the master copy. The fields of the local structure that are not set are not read;
  they are zero here.
\<close>

definition master_hv_clock :: "clock_vm \<Rightarrow> 8 word \<times> u32 \<Rightarrow> pvclock_info" where
  "master_hv_clock ka = (\<lambda>(tsc_shift, mul).
     \<lparr>pv_version = 0, pv_tsc_timestamp = master_cycle_now ka,
      pv_system_time = master_kernel_ns ka + kvmclock_offset ka, pv_tsc_to_system_mul = mul,
      pv_tsc_shift = tsc_shift, pv_flags = 0\<rparr>)"

text \<open>\<open>None\<close>: the search for the scale does not return. \<open>d\<close> is what the caller's structure held.\<close>

definition kvmclock_read_locked ::
  "'h clock_env \<Rightarrow> pvclock_gtod_data \<Rightarrow> host_moment \<Rightarrow> u64 \<Rightarrow> clock_vm \<Rightarrow> kvm_clock_data \<Rightarrow>
    kvm_clock_data option" where
  "kvmclock_read_locked E g m base_ns ka d =
     (let d = d\<lparr>data_flags := 0\<rparr>
      in if use_master_clock (vm_tsc ka) \<and> (constant_tsc E \<or> cpu_tsc_khz E \<noteq> 0) then
           let d = (case kvm_get_walltime_and_clockread g m of
                      (Some ((sec, nsec), tsc), ok) \<Rightarrow>
                        if ok
                        then d\<lparr>data_host_tsc := tsc, data_realtime := nsec + 1000000000 * sec,
                              data_flags := KVM_CLOCK_REALTIME OR KVM_CLOCK_HOST_TSC\<rparr>
                        else d\<lparr>data_host_tsc := host_rdtsc m\<rparr>
                    | (None, _) \<Rightarrow> d\<lparr>data_host_tsc := host_rdtsc m\<rparr>);
               d = d\<lparr>data_flags := data_flags d OR KVM_CLOCK_TSC_STABLE\<rparr>
           in case kvm_get_time_scale (math (tsc_of E)) 1000000000 (get_cpu_tsc_khz E * 1000) of
                None \<Rightarrow> None
              | Some scale \<Rightarrow>
                  Some (d\<lparr>data_clock :=
                    pvclock_read_cycles E (master_hv_clock ka scale) (data_host_tsc d)\<rparr>)
         else Some (d\<lparr>data_clock := base_ns + kvmclock_offset ka\<rparr>))"

text \<open>
  The guest's time when its clock was zero. \<open>real_ns\<close>, \<open>m2\<close> and \<open>base_ns\<close> are what the fallback,
  which reads the two clocks one after the other, sees.
\<close>

definition kvm_get_wall_clock_epoch ::
  "'h clock_env \<Rightarrow> pvclock_gtod_data \<Rightarrow> host_moment \<Rightarrow> u64 \<Rightarrow> host_moment \<Rightarrow> u64 \<Rightarrow> clock_vm \<Rightarrow>
    kvm_clock_data \<Rightarrow> u64 option" where
  "kvm_get_wall_clock_epoch E g m real_ns m2 base_ns ka d =
     (let fallback = map_option (\<lambda>d'. real_ns - data_clock d') (kvmclock_read_locked E g m2 base_ns ka d)
      in if \<not> use_master_clock (vm_tsc ka) \<or> get_cpu_tsc_khz E = 0 then fallback
         else case kvm_get_walltime_and_clockread g m of
                (Some ((sec, nsec), host_tsc), True) \<Rightarrow>
                  (case kvm_get_time_scale (math (tsc_of E)) 1000000000 (get_cpu_tsc_khz E * 1000) of
                     None \<Rightarrow> None
                   | Some scale \<Rightarrow>
                       Some (nsec + 1000000000 * sec
                               - pvclock_read_cycles E (master_hv_clock ka scale) host_tsc))
              | _ \<Rightarrow> fallback)"

section \<open>The wall clock\<close>

text \<open>A write of the guest's memory: an address with a version, the structure, or the high half.\<close>

datatype wall_write =
  Wall_version u64 u32
| Wall_clock u64 u32 u32 u32
| Wall_sec_hi u64 u32

text \<open>
  \<open>old\<close> is the version read from the guest, when that worked, \<open>first_ok\<close> whether the first write
  does; the results of the others are not looked at. \<open>epoch\<close> is \<open>kvm_get_wall_clock_epoch\<close>.
\<close>

definition kvm_write_wall_clock ::
  "u32 option \<Rightarrow> bool \<Rightarrow> u64 \<Rightarrow> u64 \<Rightarrow> u64 \<Rightarrow> wall_write list" where
  "kvm_write_wall_clock old first_ok epoch wall_clock sec_hi_ofs =
     (if wall_clock = 0 then []
      else case old of
        None \<Rightarrow> []
      | Some version \<Rightarrow>
          let version = (if version AND 1 \<noteq> 0 then version + 1 else version);
              version = version + 1
          in if \<not> first_ok then [Wall_version wall_clock version]
             else
               let nsec = ucast (epoch mod 1000000000);
                   wall_sec = epoch div 1000000000
               in [Wall_version wall_clock version,
                   Wall_clock wall_clock version (ucast wall_sec) nsec]
                  @ (if sec_hi_ofs \<noteq> 0
                     then [Wall_sec_hi (wall_clock + sec_hi_ofs) (ucast (drop_bit 32 wall_sec))] else [])
                  @ [Wall_version wall_clock (version + 1)])"

section \<open>Publishing the clock\<close>

text \<open>
  What another vCPU sees while the page is written: the version made odd, the copy half done
  (\<open>torn\<close>), done, the stable bit taken away, and the version made even. Returns all of it, oldest
  first, and the clock KVM keeps. Marking the page dirty for migration is of another file.
\<close>

definition pvclock_begin :: "'h clock_vcpu \<Rightarrow> gpc \<Rightarrow> pvclock_info \<times> pvclock_info" where
  "pvclock_begin v gpc =
     (let guest = gpc_page gpc;
          version = (pv_version guest + 1) OR 1;
          guest = guest\<lparr>pv_version := version\<rparr>;
          hv = (hv_clock v)\<lparr>pv_version := version\<rparr>;
          hv = hv\<lparr>pv_flags := pv_flags hv OR (pv_flags guest AND PVCLOCK_GUEST_STOPPED)\<rparr>;
          hv = (if pvclock_set_guest_stopped_request v
                then hv\<lparr>pv_flags := pv_flags hv OR PVCLOCK_GUEST_STOPPED\<rparr> else hv)
      in (guest, hv))"

definition pvclock_unstable :: "bool \<Rightarrow> pvclock_info \<Rightarrow> pvclock_info" where
  "pvclock_unstable force p =
     (if force then p\<lparr>pv_flags := pv_flags p AND NOT PVCLOCK_TSC_STABLE_BIT\<rparr> else p)"

definition kvm_setup_guest_pvclock ::
  "pvclock_info list \<Rightarrow> bool \<Rightarrow> 'h clock_vcpu \<Rightarrow> gpc \<Rightarrow> 'h clock_vcpu \<times> gpc \<times> pvclock_info list" where
  "kvm_setup_guest_pvclock torn force_tsc_unstable v gpc =
     (if \<not> gpc_maps gpc then (v, gpc, [])
      else
        let (guest, hv) = pvclock_begin v gpc;
            copy = pvclock_unstable force_tsc_unstable hv;
            hv' = hv\<lparr>pv_version := pv_version hv + 1\<rparr>;
            final = copy\<lparr>pv_version := pv_version hv'\<rparr>
        in (v\<lparr>hv_clock := hv', pvclock_set_guest_stopped_request := False\<rparr>,
            gpc\<lparr>gpc_page := final\<rparr>, guest # torn @ [hv, copy, final]))"

text \<open>A copy half done: each field is the old or the new one.\<close>

definition torn_copy :: "pvclock_info \<Rightarrow> pvclock_info \<Rightarrow> pvclock_info \<Rightarrow> bool" where
  "torn_copy a b p \<longleftrightarrow>
     pv_version p \<in> {pv_version a, pv_version b} \<and>
     pv_tsc_timestamp p \<in> {pv_tsc_timestamp a, pv_tsc_timestamp b} \<and>
     pv_system_time p \<in> {pv_system_time a, pv_system_time b} \<and>
     pv_tsc_to_system_mul p \<in> {pv_tsc_to_system_mul a, pv_tsc_to_system_mul b} \<and>
     pv_tsc_shift p \<in> {pv_tsc_shift a, pv_tsc_shift b} \<and>
     pv_flags p \<in> {pv_flags a, pv_flags b}"

text \<open>The pages of a vCPU, in the order of the code; what others see of them is dropped here.\<close>

definition publish ::
  "bool \<Rightarrow> ('h clock_vcpu \<Rightarrow> gpc) \<Rightarrow> ((gpc \<Rightarrow> gpc) \<Rightarrow> 'h clock_vcpu \<Rightarrow> 'h clock_vcpu) \<Rightarrow>
    'h clock_vcpu \<Rightarrow> 'h clock_vcpu" where
  "publish force get upd v =
     (if gpc_active (get v)
      then let (v', p, _) = kvm_setup_guest_pvclock [] force v (get v) in upd (\<lambda>_. p) v'
      else v)"

definition publish_pages :: "clock_vm \<Rightarrow> 'h clock_vcpu \<Rightarrow> 'h clock_vcpu" where
  "publish_pages ka v =
     (let v = publish False pv_time pv_time_update v;
          v = publish (xen_pvclock_tsc_unstable ka) xen_vcpu_info_cache xen_vcpu_info_cache_update v
      in publish (xen_pvclock_tsc_unstable ka) xen_vcpu_time_info_cache xen_vcpu_time_info_cache_update v)"

text \<open>The counter of the guest at \<open>host_tsc\<close>, moved on when it lags behind the time.\<close>

definition tsc_caught_up :: "'h tsc_env \<Rightarrow> u64 \<Rightarrow> u64 \<Rightarrow> 'h tsc_vcpu \<Rightarrow> 'h tsc_vcpu \<times> u64" where
  "tsc_caught_up E host_tsc kernel_ns t =
     (let tsc_timestamp = kvm_read_l1_tsc E t host_tsc
      in if tsc_catchup t then
           let tsc = compute_guest_tsc E t kernel_ns
           in if tsc > tsc_timestamp then (adjust_tsc_offset_guest E (tsc - tsc_timestamp) t, tsc)
              else (t, tsc_timestamp)
         else (t, tsc_timestamp))"

text \<open>The scale is searched for when the frequency changed. \<open>None\<close>: that does not return.\<close>

definition time_scale_update :: "'h clock_env \<Rightarrow> u64 \<Rightarrow> 'h clock_vcpu \<Rightarrow> 'h clock_vcpu option" where
  "time_scale_update E tgt_tsc_khz v =
     (if ucast (hw_tsc_khz v) \<noteq> tgt_tsc_khz then
        map_option
          (\<lambda>(tsc_shift, mul). v\<lparr>hv_clock := (hv_clock v)\<lparr>pv_tsc_shift := tsc_shift,
               pv_tsc_to_system_mul := mul\<rparr>, hw_tsc_khz := ucast tgt_tsc_khz,
             clock_calls := clock_calls v @ [Kvm_xen_update_tsc_info]\<rparr>)
          (kvm_get_time_scale (math (tsc_of E)) 1000000000 (tgt_tsc_khz * 1000))
      else Some v)"

text \<open>\<open>rdtsc\<close> and \<open>base_ns\<close> are read when the master copy is not used.\<close>

definition kvm_guest_time_update ::
  "'h clock_env \<Rightarrow> u64 \<Rightarrow> u64 \<Rightarrow> clock_vm \<Rightarrow> 'h clock_vcpu \<Rightarrow> ('h clock_vcpu \<times> int) option" where
  "kvm_guest_time_update E rdtsc base_ns ka v =
     (let master = use_master_clock (vm_tsc ka);
          tgt_tsc_khz = get_cpu_tsc_khz E
      in if tgt_tsc_khz = 0 then Some (clock_request KVM_REQ_CLOCK_UPDATE v, 1)
         else
           let host_tsc = (if master then master_cycle_now ka else rdtsc);
               kernel_ns = (if master then master_kernel_ns ka else base_ns);
               (t, tsc_timestamp) = tsc_caught_up (tsc_of E) host_tsc kernel_ns (vcpu_tsc v);
               tgt_tsc_khz =
                 (if has_tsc_control (tsc_of E)
                  then kvm_scale_tsc (tsc_of E) tgt_tsc_khz (l1_tsc_scaling_ratio t)
                  else tgt_tsc_khz)
           in case time_scale_update E tgt_tsc_khz (v\<lparr>vcpu_tsc := t\<rparr>) of
                None \<Rightarrow> None
              | Some v \<Rightarrow>
                  let v = v\<lparr>vcpu_tsc := (vcpu_tsc v)\<lparr>last_guest_tsc := tsc_timestamp\<rparr>,
                            hv_clock := (hv_clock v)\<lparr>pv_tsc_timestamp := tsc_timestamp,
                              pv_system_time := kernel_ns + kvmclock_offset ka,
                              pv_flags := (if master then PVCLOCK_TSC_STABLE_BIT else 0)\<rparr>\<rparr>;
                      v = publish_pages ka v
                  in Some (v\<lparr>clock_calls := clock_calls v @ [Kvm_hv_setup_tsc_page (hv_clock v)]\<rparr>, 0))"

end
