(* ===== verification/Kvm_Clock_Props.thy ===== *)
theory Kvm_Clock_Props
  imports Kvm_Clock
begin

text \<open>What a guest can rely on when it reads the clock that KVM publishes.\<close>

section \<open>One page\<close>

text \<open>The versions while a page is written: odd until the last write, which makes a new even one.\<close>

lemma begun_version_odd: "odd ((x + 1) OR 1 :: u32)"
  by (simp add: or_one_eq)

lemma ended_version: "even ((x + 1 OR 1) + 1 :: u32)" "(x + 1 OR 1) + 1 \<noteq> (x :: u32)"
proof -
  show "even ((x + 1 OR 1) + 1 :: u32)" by (simp add: or_one_eq)
  show "(x + 1 OR 1) + 1 \<noteq> (x :: u32)" by (cases "even x") (simp_all add: or_one_eq)
qed

lemma writing:
  assumes "kvm_setup_guest_pvclock torn force v gpc = (v', gpc', seen)" "gpc_maps gpc"
    and "\<forall>p\<in>set torn. torn_copy (fst (pvclock_begin v gpc)) (snd (pvclock_begin v gpc)) p"
  obtains mid where "seen = mid @ [gpc_page gpc']" "\<forall>p\<in>set mid. odd (pv_version p)"
    "even (pv_version (gpc_page gpc'))" "pv_version (gpc_page gpc') \<noteq> pv_version (gpc_page gpc)"
proof -
  obtain guest hv where b: "pvclock_begin v gpc = (guest, hv)" by (rule prod.exhaust)
  have ver: "pv_version guest = (pv_version (gpc_page gpc) + 1) OR 1"
    "pv_version hv = (pv_version (gpc_page gpc) + 1) OR 1"
    using b by (auto simp: pvclock_begin_def Let_def)
  let ?copy = "pvclock_unstable force hv"
  have copy: "pv_version ?copy = pv_version hv" by (simp add: pvclock_unstable_def)
  have r: "gpc_page gpc' = ?copy\<lparr>pv_version := pv_version hv + 1\<rparr>"
    "seen = (guest # torn @ [hv, ?copy]) @ [gpc_page gpc']"
    using assms(1,2) by (auto simp: kvm_setup_guest_pvclock_def b Let_def)
  have odd: "\<forall>p\<in>set (guest # torn @ [hv, ?copy]). odd (pv_version p)"
    using assms(3) begun_version_odd by (auto simp: b copy ver torn_copy_def)
  have "pv_version (gpc_page gpc') = (pv_version (gpc_page gpc) + 1 OR 1) + 1"
    by (simp add: r(1) ver)
  then show ?thesis
    using ended_version [of "pv_version (gpc_page gpc)"] by (intro that [OF r(2) odd]) simp_all
qed

text \<open>A list whose inner elements are odd and whose ends differ, read twice.\<close>

lemma same_even_end:
  assumes "\<forall>p\<in>set mid. odd (f p :: u32)" "f b \<noteq> f a"
    and "i \<le> j" "j \<le> k" "k < length (a # mid @ [b])"
    and "f ((a # mid @ [b]) ! i) = f ((a # mid @ [b]) ! k)" "even (f ((a # mid @ [b]) ! i))"
  shows "(a # mid @ [b]) ! j = (a # mid @ [b]) ! i"
proof -
  have mid: "odd (f ((a # mid @ [b]) ! n))" if "0 < n" "n \<le> length mid" for n
    using assms(1) that by (cases n) (auto simp: nth_append)
  have "i = 0 \<or> length mid < i" "k = 0 \<or> length mid < k"
    using mid [of i] mid [of k] assms(6,7) by (metis gr0I not_less)+
  then have "i = k"
    using assms(2-6) by (cases "i = 0"; cases "k = 0") (auto simp: nth_append less_Suc_eq)
  then show ?thesis using assms(3,4) by simp
qed

text \<open> C15. While KVM writes the page of a vCPU another vCPU may read it. A reader that finds the
  same even version before and after its reads got every field from one page, the old or the
  new one, whatever order the fields of the copy become visible in. \<close>

theorem pvclock_readers_consistent:
  assumes "kvm_setup_guest_pvclock torn force v gpc = (v', gpc', seen)"
    and "\<forall>p\<in>set torn. torn_copy (fst (pvclock_begin v gpc)) (snd (pvclock_begin v gpc)) p"
    and "i \<le> j" and "j \<le> k" and "k \<le> length seen"
    and "pv_version ((gpc_page gpc # seen) ! i) = pv_version ((gpc_page gpc # seen) ! k)"
    and "pv_version ((gpc_page gpc # seen) ! i) AND 1 = 0"
  shows "(gpc_page gpc # seen) ! j = (gpc_page gpc # seen) ! i"
proof (cases "gpc_maps gpc")
  case False
  then show ?thesis using assms by (auto simp: kvm_setup_guest_pvclock_def)
next
  case True
  have e: "even (pv_version ((gpc_page gpc # seen) ! i))"
    using assms(7) by (simp add: and_one_eq even_iff_mod_2_eq_zero)
  obtain mid where m: "seen = mid @ [gpc_page gpc']" "\<forall>p\<in>set mid. odd (pv_version p)"
    "pv_version (gpc_page gpc') \<noteq> pv_version (gpc_page gpc)"
    by (rule writing [OF assms(1) True assms(2)])
  show ?thesis
    using same_even_end [OF m(2,3) assms(3,4), of] assms(5,6) e unfolding m(1) by simp
qed

section \<open>One vCPU\<close>

text \<open>The fields other than version and flags are those of the clock KVM keeps.\<close>

definition same_time :: "pvclock_info \<Rightarrow> pvclock_info \<Rightarrow> bool" where
  "same_time p q \<longleftrightarrow> pv_tsc_timestamp p = pv_tsc_timestamp q \<and>
     pv_system_time p = pv_system_time q \<and>
     pv_tsc_to_system_mul p = pv_tsc_to_system_mul q \<and> pv_tsc_shift p = pv_tsc_shift q"

lemma same_time_trans: "same_time p q \<Longrightarrow> same_time q r \<Longrightarrow> same_time p r"
  by (simp add: same_time_def)

lemma setup_pvclock:
  assumes "kvm_setup_guest_pvclock torn force v gpc = (v', gpc', seen)"
  shows "same_time (hv_clock v') (hv_clock v)" "vcpu_tsc v' = vcpu_tsc v"
    "pv_time v' = pv_time v" "xen_vcpu_info_cache v' = xen_vcpu_info_cache v"
    "xen_vcpu_time_info_cache v' = xen_vcpu_time_info_cache v"
    "gpc_active gpc' = gpc_active gpc" "gpc_maps gpc' = gpc_maps gpc"
    "gpc_maps gpc \<Longrightarrow> same_time (gpc_page gpc') (hv_clock v)"
    "bit (pv_flags (gpc_page gpc)) 1 \<Longrightarrow> bit (pv_flags (gpc_page gpc')) 1"
  using assms
  by (auto simp: kvm_setup_guest_pvclock_def pvclock_begin_def pvclock_unstable_def same_time_def
      Let_def bit_simps split: if_split_asm)

text \<open>What an update leaves in a page: the time, and that the guest was stopped if it was.\<close>

definition page_current :: "gpc \<Rightarrow> gpc \<Rightarrow> pvclock_info \<Rightarrow> bool" where
  "page_current old new hv \<longleftrightarrow>
     gpc_active new = gpc_active old \<and> gpc_maps new = gpc_maps old \<and>
     (gpc_active old \<and> gpc_maps old \<longrightarrow> same_time (gpc_page new) hv) \<and>
     (bit (pv_flags (gpc_page old)) 1 \<longrightarrow> bit (pv_flags (gpc_page new)) 1)"

lemma setup_page_current:
  "kvm_setup_guest_pvclock torn force v gpc = (v', gpc', seen) \<Longrightarrow> page_current gpc gpc' (hv_clock v)"
  unfolding page_current_def
  by (intro conjI impI; (elim conjE)?; rule setup_pvclock(6-9), assumption+)

lemma same_time_refl: "same_time p p"
  by (simp add: same_time_def)

lemma page_current_refl: "\<not> gpc_active g \<Longrightarrow> page_current g g hv"
  by (simp add: page_current_def)

lemma publish_pages:
  "same_time (hv_clock v) (hv_clock (publish_pages ka v))"
  "vcpu_tsc (publish_pages ka v) = vcpu_tsc v"
  "page_current (pv_time v) (pv_time (publish_pages ka v)) (hv_clock v)"
  "page_current (xen_vcpu_info_cache v) (xen_vcpu_info_cache (publish_pages ka v)) (hv_clock v)"
  "page_current (xen_vcpu_time_info_cache v) (xen_vcpu_time_info_cache (publish_pages ka v)) (hv_clock v)"
proof -
  let ?f = "xen_pvclock_tsc_unstable ka"
  define v1 where "v1 = publish False pv_time pv_time_update v"
  define v2 where "v2 = publish ?f xen_vcpu_info_cache xen_vcpu_info_cache_update v1"
  define v3 where "v3 = publish ?f xen_vcpu_time_info_cache xen_vcpu_time_info_cache_update v2"
  have r: "publish_pages ka v = v3"
    by (simp add: publish_pages_def v1_def v2_def v3_def Let_def)
  have 1: "same_time (hv_clock v1) (hv_clock v) \<and> vcpu_tsc v1 = vcpu_tsc v \<and>
      page_current (pv_time v) (pv_time v1) (hv_clock v) \<and>
      xen_vcpu_info_cache v1 = xen_vcpu_info_cache v \<and>
      xen_vcpu_time_info_cache v1 = xen_vcpu_time_info_cache v"
    unfolding v1_def publish_def
    by (auto simp: setup_pvclock(1-5) same_time_refl page_current_refl setup_page_current split: prod.split)
  have 2: "same_time (hv_clock v2) (hv_clock v1) \<and> vcpu_tsc v2 = vcpu_tsc v1 \<and>
      page_current (xen_vcpu_info_cache v1) (xen_vcpu_info_cache v2) (hv_clock v1) \<and>
      pv_time v2 = pv_time v1 \<and>
      xen_vcpu_time_info_cache v2 = xen_vcpu_time_info_cache v1"
    unfolding v2_def publish_def
    by (auto simp: setup_pvclock(1-5) same_time_refl page_current_refl setup_page_current split: prod.split)
  have 3: "same_time (hv_clock v3) (hv_clock v2) \<and> vcpu_tsc v3 = vcpu_tsc v2 \<and>
      page_current (xen_vcpu_time_info_cache v2) (xen_vcpu_time_info_cache v3) (hv_clock v2) \<and>
      pv_time v3 = pv_time v2 \<and> xen_vcpu_info_cache v3 = xen_vcpu_info_cache v2"
    unfolding v3_def publish_def
    by (auto simp: setup_pvclock(1-5) same_time_refl page_current_refl setup_page_current split: prod.split)
  show "same_time (hv_clock v) (hv_clock (publish_pages ka v))"
    "vcpu_tsc (publish_pages ka v) = vcpu_tsc v"
    "page_current (pv_time v) (pv_time (publish_pages ka v)) (hv_clock v)"
    "page_current (xen_vcpu_info_cache v) (xen_vcpu_info_cache (publish_pages ka v)) (hv_clock v)"
    "page_current (xen_vcpu_time_info_cache v) (xen_vcpu_time_info_cache (publish_pages ka v)) (hv_clock v)"
    unfolding r using 1 2 3 by (auto simp: page_current_def same_time_def)
qed


section \<open>An update\<close>

lemma time_scale_update_keeps:
  assumes "time_scale_update E khz v = Some u"
  shows "vcpu_tsc u = vcpu_tsc v" "pv_time u = pv_time v"
    "xen_vcpu_info_cache u = xen_vcpu_info_cache v"
    "xen_vcpu_time_info_cache u = xen_vcpu_time_info_cache v"
  using assms by (auto simp: time_scale_update_def split: if_split_asm)

abbreviation used_host_tsc :: "clock_vm \<Rightarrow> u64 \<Rightarrow> u64" where
  "used_host_tsc ka rdtsc \<equiv> if use_master_clock (vm_tsc ka) then master_cycle_now ka else rdtsc"

abbreviation used_kernel_ns :: "clock_vm \<Rightarrow> u64 \<Rightarrow> u64" where
  "used_kernel_ns ka base_ns \<equiv> if use_master_clock (vm_tsc ka) then master_kernel_ns ka else base_ns"

lemma time_update_parts:
  assumes "kvm_guest_time_update E rdtsc base_ns ka v = Some (v', 0)"
  obtains t ts where
    "tsc_caught_up (tsc_of E) (used_host_tsc ka rdtsc) (used_kernel_ns ka base_ns) (vcpu_tsc v) = (t, ts)"
    "vcpu_tsc v' = t\<lparr>last_guest_tsc := ts\<rparr>" "pv_tsc_timestamp (hv_clock v') = ts"
    "pv_system_time (hv_clock v') = used_kernel_ns ka base_ns + kvmclock_offset ka"
    "page_current (pv_time v) (pv_time v') (hv_clock v')"
    "page_current (xen_vcpu_info_cache v) (xen_vcpu_info_cache v') (hv_clock v')"
    "page_current (xen_vcpu_time_info_cache v) (xen_vcpu_time_info_cache v') (hv_clock v')"
proof -
  obtain t ts where c: "tsc_caught_up (tsc_of E) (used_host_tsc ka rdtsc)
      (used_kernel_ns ka base_ns) (vcpu_tsc v) = (t, ts)" by (rule prod.exhaust)
  have nz: "get_cpu_tsc_khz E \<noteq> 0"
    using assms by (auto simp: kvm_guest_time_update_def)
  define khz where "khz = (if has_tsc_control (tsc_of E)
    then kvm_scale_tsc (tsc_of E) (get_cpu_tsc_khz E) (l1_tsc_scaling_ratio t) else get_cpu_tsc_khz E)"
  obtain u where u: "time_scale_update E khz (v\<lparr>vcpu_tsc := t\<rparr>) = Some u"
    using assms nz by (auto simp: kvm_guest_time_update_def c khz_def Let_def split: option.splits)
  define w where "w = u\<lparr>vcpu_tsc := (vcpu_tsc u)\<lparr>last_guest_tsc := ts\<rparr>,
    hv_clock := (hv_clock u)\<lparr>pv_tsc_timestamp := ts,
      pv_system_time := used_kernel_ns ka base_ns + kvmclock_offset ka,
      pv_flags := (if use_master_clock (vm_tsc ka) then PVCLOCK_TSC_STABLE_BIT else 0)\<rparr>\<rparr>"
  have v': "v' = (publish_pages ka w)\<lparr>clock_calls := clock_calls (publish_pages ka w) @
      [Kvm_hv_setup_tsc_page (hv_clock (publish_pages ka w))]\<rparr>"
    using assms nz u
    by (simp add: kvm_guest_time_update_def c khz_def [symmetric] Let_def w_def split: if_split_asm)
  note k = time_scale_update_keeps [OF u, simplified]
  note p = publish_pages [where ka = ka and v = w]
  have s: "same_time (hv_clock w) (hv_clock v')" using p(1) by (simp add: v')
  have pages: "page_current (pv_time w) (pv_time v') (hv_clock v')"
    "page_current (xen_vcpu_info_cache w) (xen_vcpu_info_cache v') (hv_clock v')"
    "page_current (xen_vcpu_time_info_cache w) (xen_vcpu_time_info_cache v') (hv_clock v')"
    using p(3-5) s by (auto simp: v' page_current_def same_time_def)
  show ?thesis
  proof (rule that [OF c])
    have "vcpu_tsc w = t\<lparr>last_guest_tsc := ts\<rparr>" by (simp add: w_def k)
    then show "vcpu_tsc v' = t\<lparr>last_guest_tsc := ts\<rparr>" by (simp add: v' p(2))
    show "pv_tsc_timestamp (hv_clock v') = ts"
      "pv_system_time (hv_clock v') = used_kernel_ns ka base_ns + kvmclock_offset ka"
      using s by (simp_all add: same_time_def w_def)
    show "page_current (pv_time v) (pv_time v') (hv_clock v')"
      "page_current (xen_vcpu_info_cache v) (xen_vcpu_info_cache v') (hv_clock v')"
      "page_current (xen_vcpu_time_info_cache v) (xen_vcpu_time_info_cache v') (hv_clock v')"
      using pages by (simp_all add: w_def k)
  qed
qed

context tsc_vendor
begin

lemma read_adjusted:
  "kvm_read_l1_tsc E (adjust_tsc_offset_guest E a t) h = kvm_read_l1_tsc E t h + a"
  by (simp add: adjust_tsc_offset_guest_def after_offset kvm_read_l1_tsc_def [of _ t])

text \<open>Catching up moves the counter forward, and to what is published.\<close>

lemma caught_up:
  assumes "tsc_caught_up E host_tsc kernel_ns t = (t', ts)"
  shows "kvm_read_l1_tsc E t' host_tsc = ts" "kvm_read_l1_tsc E t host_tsc \<le> ts"
    "tsc_catchup t \<Longrightarrow> compute_guest_tsc E t kernel_ns \<le> ts"
    "\<not> tsc_catchup t \<Longrightarrow> ts = kvm_read_l1_tsc E t host_tsc"
  using assms
  by (auto simp: tsc_caught_up_def Let_def read_adjusted split: if_split_asm)

text \<open>The ratio does not change, so the frequency of the guest is that of the vCPU before.\<close>

lemma caught_up_ratio:
  assumes "tsc_caught_up E host_tsc kernel_ns t = (t', ts)"
  shows "l1_tsc_scaling_ratio t' = l1_tsc_scaling_ratio t"
proof -
  have "l1_tsc_scaling_ratio (kvm_vcpu_write_tsc_offset E l1 t) = l1_tsc_scaling_ratio t" for l1
    by (rule offset_written [of l1 t]) simp
  then show ?thesis
    using assms by (auto simp: tsc_caught_up_def Let_def adjust_tsc_offset_guest_def split: if_split_asm)
qed

lemma time_update_none:
  assumes E: "tsc_of C = E" and m: "tsc_math_contract (math E)"
  shows "kvm_guest_time_update C rdtsc base_ns ka v = None \<longleftrightarrow>
    get_cpu_tsc_khz C \<noteq> 0 \<and>
    (let khz = (if has_tsc_control E
         then kvm_scale_tsc E (get_cpu_tsc_khz C) (l1_tsc_scaling_ratio (vcpu_tsc v))
         else get_cpu_tsc_khz C)
     in khz \<noteq> ucast (hw_tsc_khz v) \<and> khz * 1000 = 0)"
proof -
  obtain t ts where c: "tsc_caught_up E (used_host_tsc ka rdtsc) (used_kernel_ns ka base_ns) (vcpu_tsc v)
      = (t, ts)" by (rule prod.exhaust)
  note r = caught_up_ratio [OF c]
  have s: "time_scale_update C khz (v\<lparr>vcpu_tsc := t\<rparr>) = None \<longleftrightarrow>
      khz \<noteq> ucast (hw_tsc_khz v) \<and> khz * 1000 = 0" for khz
    using time_scale_returns [OF m, of 1000000000 "khz * 1000"]
    by (auto simp: time_scale_update_def E simp del: not_None_eq)
  define khz where "khz = (if has_tsc_control E
    then kvm_scale_tsc E (get_cpu_tsc_khz C) (l1_tsc_scaling_ratio t) else get_cpu_tsc_khz C)"
  have "kvm_guest_time_update C rdtsc base_ns ka v = None \<longleftrightarrow>
      get_cpu_tsc_khz C \<noteq> 0 \<and> time_scale_update C khz (v\<lparr>vcpu_tsc := t\<rparr>) = None"
    unfolding kvm_guest_time_update_def Let_def E c split_conv khz_def [symmetric]
    by (cases "time_scale_update C khz (v\<lparr>vcpu_tsc := t\<rparr>)") simp_all
  then show ?thesis by (simp only: s Let_def khz_def r)
qed

end

text \<open> C16. An update publishes what the guest's counter says at the moment the time belongs to. The
  guest sees no counter go back, and one that has to catch up is at least where the elapsed time
  puts it. Every page in use gets the new time, and keeps the note that the guest was stopped. \<close>

theorem published_time_is_the_guests:
  assumes "kvm_guest_time_update E rdtsc base_ns ka v = Some (v', 0)" and "tsc_of E = vmx_tsc_env C"
  shows "kvm_read_l1_tsc (tsc_of E) (vcpu_tsc v') (used_host_tsc ka rdtsc) = pv_tsc_timestamp (hv_clock v') \<and>
    last_guest_tsc (vcpu_tsc v') = pv_tsc_timestamp (hv_clock v') \<and>
    kvm_read_l1_tsc (tsc_of E) (vcpu_tsc v) (used_host_tsc ka rdtsc) \<le> pv_tsc_timestamp (hv_clock v') \<and>
    (tsc_catchup (vcpu_tsc v) \<longrightarrow> compute_guest_tsc (tsc_of E) (vcpu_tsc v) (used_kernel_ns ka base_ns)
       \<le> pv_tsc_timestamp (hv_clock v')) \<and>
    pv_system_time (hv_clock v') = used_kernel_ns ka base_ns + kvmclock_offset ka \<and>
    page_current (pv_time v) (pv_time v') (hv_clock v') \<and>
    page_current (xen_vcpu_info_cache v) (xen_vcpu_info_cache v') (hv_clock v') \<and>
    page_current (xen_vcpu_time_info_cache v) (xen_vcpu_time_info_cache v') (hv_clock v')"
proof -
  obtain t ts where p:
    "tsc_caught_up (tsc_of E) (used_host_tsc ka rdtsc) (used_kernel_ns ka base_ns) (vcpu_tsc v) = (t, ts)"
    "vcpu_tsc v' = t\<lparr>last_guest_tsc := ts\<rparr>" "pv_tsc_timestamp (hv_clock v') = ts"
    "pv_system_time (hv_clock v') = used_kernel_ns ka base_ns + kvmclock_offset ka"
    "page_current (pv_time v) (pv_time v') (hv_clock v')"
    "page_current (xen_vcpu_info_cache v) (xen_vcpu_info_cache v') (hv_clock v')"
    "page_current (xen_vcpu_time_info_cache v) (xen_vcpu_time_info_cache v') (hv_clock v')"
    by (rule time_update_parts [OF assms(1)])
  note c = vmx_tsc.caught_up [OF p(1) [unfolded assms(2)]]
  have "kvm_read_l1_tsc (vmx_tsc_env C) (vcpu_tsc v') h = kvm_read_l1_tsc (vmx_tsc_env C) t h" for h
    by (simp add: p(2) kvm_read_l1_tsc_def)
  then show ?thesis
    using c(1-3) p(2-7) unfolding assms(2) by (simp add: p(2))
qed

text \<open>A vCPU with two pages in use, the second read as an example below.\<close>

definition demo_clock_env :: "vmx_tsc clock_env" where
  "demo_clock_env = \<lparr>tsc_of = vmx_tsc_env demo_tsc_env, constant_tsc = True, cpu_tsc_khz = 0,
     pvclock_read_cycles = (\<lambda>p tsc. pv_system_time p + (tsc - pv_tsc_timestamp p))\<rparr>"

definition demo_page :: pvclock_info where
  "demo_page = \<lparr>pv_version = 4, pv_tsc_timestamp = 1, pv_system_time = 2, pv_tsc_to_system_mul = 0,
     pv_tsc_shift = 0, pv_flags = 2\<rparr>"

definition demo_clock_vcpu :: "vmx_tsc clock_vcpu" where
  "demo_clock_vcpu = \<lparr>vcpu_tsc = demo_tsc_vcpu, clock_vcpu_id = 0,
     hv_clock = demo_page\<lparr>pv_flags := 0\<rparr>, hw_tsc_khz = 2000,
     pvclock_set_guest_stopped_request = False, pv_time = \<lparr>gpc_active = True, gpc_maps = True,
       gpc_page = demo_page\<rparr>, xen_vcpu_info_cache = \<lparr>gpc_active = False, gpc_maps = False,
       gpc_page = demo_page\<rparr>, xen_vcpu_time_info_cache = \<lparr>gpc_active = False, gpc_maps = False,
       gpc_page = demo_page\<rparr>, clock_msr = 0, clock_calls = []\<rparr>"

definition demo_clock_vm :: clock_vm where
  "demo_clock_vm = \<lparr>vm_tsc = demo_tsc_vm, master_kernel_ns = 0, master_cycle_now = 0,
     kvmclock_offset = 5, backwards_tsc_observed = False, boot_vcpu_runs_old_kvmclock = False,
     xen_pvclock_tsc_unstable = False, kvm_guest_has_master_clock = False\<rparr>"

lemmas demo_clock_simps =
  demo_clock_env_def demo_page_def demo_clock_vcpu_def demo_clock_vm_def demo_tsc_env_def
  demo_tsc_vcpu_def demo_tsc_vm_def vmx_tsc_env_def

theorem published_time_is_the_guests_witness:
  "pv_system_time (hv_clock (fst (the (kvm_guest_time_update demo_clock_env 70 90 demo_clock_vm
     demo_clock_vcpu)))) = 95"
proof -
  have "map_option snd (kvm_guest_time_update demo_clock_env 70 90 demo_clock_vm demo_clock_vcpu) = Some 0"
    by (simp add: kvm_guest_time_update_def time_scale_update_def get_cpu_tsc_khz_def
        tsc_caught_up_def demo_clock_simps Let_def)
  then obtain v' where u:
    "kvm_guest_time_update demo_clock_env 70 90 demo_clock_vm demo_clock_vcpu = Some (v', 0)" by auto
  have "tsc_of demo_clock_env = vmx_tsc_env demo_tsc_env" by (simp add: demo_clock_env_def)
  from published_time_is_the_guests [OF u this]
  have "pv_system_time (hv_clock v') = used_kernel_ns demo_clock_vm 90 + kvmclock_offset demo_clock_vm"
    by blast
  then have "pv_system_time (hv_clock v') = 95" by (simp add: demo_clock_vm_def demo_tsc_vm_def)
  then show ?thesis unfolding u by simp
qed

text \<open> C19. An update returns unless the frequency of the guest, once scaled, is zero and was not
  before: the code looks for a zero only before it scales, and then waits for a shift that makes
  zero as large as a second. The witness is a guest whose frequency user space set to 1 kHz, which
  \<open>kvm_set_tsc_khz\<close> accepts, on a host of 3 GHz. \<close>

theorem time_update_returns:
  assumes "tsc_of E = vmx_tsc_env C" and "tsc_math_contract (math C)"
  shows "kvm_guest_time_update E rdtsc base_ns ka v \<noteq> None \<longleftrightarrow>
    get_cpu_tsc_khz E = 0 \<or>
    (let khz = (if has_tsc_control C
         then kvm_scale_tsc C (get_cpu_tsc_khz E) (l1_tsc_scaling_ratio (vcpu_tsc v))
         else get_cpu_tsc_khz E)
     in khz = ucast (hw_tsc_khz v) \<or> khz * 1000 \<noteq> 0)"
proof -
  have e: "math (vmx_tsc_env C) = math C" "has_tsc_control (vmx_tsc_env C) = has_tsc_control C"
    "kvm_scale_tsc (vmx_tsc_env C) = kvm_scale_tsc C"
    by (auto simp: vmx_tsc_env_def kvm_scale_tsc_def scale_tsc_def fun_eq_iff)
  show ?thesis
    using vmx_tsc.time_update_none [OF assms(1), of rdtsc base_ns ka v] assms(2)
    by (auto simp: e Let_def)
qed

definition slow_tsc_env :: "vmx_tsc tsc_env" where
  "slow_tsc_env = demo_tsc_env\<lparr>has_tsc_control := True, default_tsc_scaling_ratio := 2 ^ 48,
     max_tsc_scaling_ratio := 0xFFFFFFFFFFFFFFFF, tsc_scaling_ratio_frac_bits := 48, tsc_khz := 3000000\<rparr>"

definition slow_clock_env :: "vmx_tsc clock_env" where
  "slow_clock_env = demo_clock_env\<lparr>tsc_of := vmx_tsc_env slow_tsc_env\<rparr>"

theorem time_update_returns_witness:
  "\<exists>t. kvm_set_tsc_khz (vmx_tsc_env slow_tsc_env) 1 demo_tsc_vcpu = Some (t, 0) \<and>
     kvm_guest_time_update slow_clock_env 70 90 demo_clock_vm (demo_clock_vcpu\<lparr>vcpu_tsc := t\<rparr>) = None"
proof -
  have m: "tsc_math_contract (math slow_tsc_env)"
    by (simp add: slow_tsc_env_def demo_tsc_env_def sample_math_contract)
  have e: "math (vmx_tsc_env slow_tsc_env) = math slow_tsc_env"
    by (simp add: vmx_tsc_env_def)
  obtain shift mult where scale:
    "kvm_get_time_scale (math slow_tsc_env) 1000 1000000000 = Some (shift, mult)"
    using time_scale_returns [OF m, of 1000 1000000000] by auto
  define t0 where "t0 = demo_tsc_vcpu\<lparr>virtual_tsc_shift := shift, virtual_tsc_mult := mult,
    virtual_tsc_khz := 1\<rparr>"
  let ?t = "kvm_vcpu_write_tsc_multiplier (vmx_tsc_env slow_tsc_env) 93824992 t0"
  have "kvm_set_tsc_khz (vmx_tsc_env slow_tsc_env) 1 demo_tsc_vcpu = Some (?t, 0)"
    using scale
    by (simp add: kvm_set_tsc_khz_def set_tsc_khz_def e t0_def Let_def)
      (simp add: vmx_tsc_env_def slow_tsc_env_def demo_tsc_env_def sample_math_def adjust_tsc_khz_def)
  moreover have r: "l1_tsc_scaling_ratio ?t = 93824992"
    by (rule vmx_tsc.multiplier_written [of slow_tsc_env 93824992 t0]) simp
  have E: "tsc_of slow_clock_env = vmx_tsc_env slow_tsc_env" by (simp add: slow_clock_env_def)
  have k: "get_cpu_tsc_khz slow_clock_env = 3000000"
    by (simp add: get_cpu_tsc_khz_def slow_clock_env_def demo_clock_env_def vmx_tsc_env_def slow_tsc_env_def)
  have c: "has_tsc_control slow_tsc_env" by (simp add: slow_tsc_env_def)
  have s: "kvm_scale_tsc slow_tsc_env 3000000 93824992 = 0"
    by (simp add: kvm_scale_tsc_def scale_tsc_def slow_tsc_env_def demo_tsc_env_def sample_math_def)
  have h: "hw_tsc_khz demo_clock_vcpu = 2000" by (simp add: demo_clock_vcpu_def)
  have "kvm_guest_time_update slow_clock_env 70 90 demo_clock_vm (demo_clock_vcpu\<lparr>vcpu_tsc := ?t\<rparr>) = None"
    using time_update_returns [OF E m, of 70 90 demo_clock_vm "demo_clock_vcpu\<lparr>vcpu_tsc := ?t\<rparr>"]
    by (simp add: k c s h r Let_def del: not_None_eq)
  ultimately show ?thesis by blast
qed

theorem pvclock_readers_consistent_witness:
  "map pv_version (demo_page # snd (snd (kvm_setup_guest_pvclock [] False demo_clock_vcpu
      (pv_time demo_clock_vcpu)))) = [4, 5, 5, 5, 6] \<and>
   (demo_page # snd (snd (kvm_setup_guest_pvclock [] False demo_clock_vcpu (pv_time demo_clock_vcpu)))) ! 0
     = demo_page"
proof -
  obtain v' gpc' seen where s:
    "kvm_setup_guest_pvclock [] False demo_clock_vcpu (pv_time demo_clock_vcpu) = (v', gpc', seen)"
    by (rule prod_cases3)
  have versions: "map pv_version (demo_page # snd (snd (kvm_setup_guest_pvclock [] False demo_clock_vcpu
      (pv_time demo_clock_vcpu)))) = [4, 5, 5, 5, 6]" by code_simp
  have "gpc_page (pv_time demo_clock_vcpu) = demo_page" by (simp add: demo_clock_vcpu_def)
  moreover have "(demo_page # seen) ! 0 = demo_page" by simp
  ultimately have "(demo_page # seen) ! 0 = demo_page"
    using pvclock_readers_consistent [OF s, of 0 0 0] by (simp add: demo_page_def)
  then show ?thesis using versions by (simp add: s)
qed

section \<open>All vCPUs\<close>

lemma time_update_status:
  "kvm_guest_time_update E rdtsc base_ns ka v = Some (v', r) \<Longrightarrow>
    r = (if get_cpu_tsc_khz E = 0 then 1 else 0)"
  by (auto simp: kvm_guest_time_update_def Let_def split: if_split_asm option.splits prod.splits)

lemma gtod_copy:
  "use_master_clock (vm_tsc (pvclock_update_vm_gtod_copy g m ka)) \<Longrightarrow>
    nr_vcpus_matched_tsc (vm_tsc ka) + 1 = online_vcpus (vm_tsc ka)"
  "kvmclock_offset (pvclock_update_vm_gtod_copy g m ka) = kvmclock_offset ka"
  by (auto simp: pvclock_update_vm_gtod_copy_def Let_def split: prod.splits option.splits if_splits)

text \<open> C18. On Intel and a host with a stable counter, while the master copy is in use, two vCPUs with
  equal ratios of scaling whose counters nobody changed alone since they were synchronised, and that
  do not catch up, publish the same pair of counter and time, whenever each of them is updated, so
  that neither can see the clock of the other behind its own. \<close>

theorem master_clock_same_time:
  assumes "tsc_run (vmx_tsc_env C) I n W (vm_tsc ka) vs" and "finite I" and "n < 2 ^ 64"
    and "\<not> kvm_check_tsc_unstable (vmx_tsc_env C)" and "cur_tsc_generation (vm_tsc ka) \<noteq> 0"
    and "online_vcpus (vm_tsc ka) = int (card I)"
    and "pvclock_update_vm_gtod_copy g m ka = ka'" and "use_master_clock (vm_tsc ka')"
    and "tsc_of E = vmx_tsc_env C" and "vcpu_tsc v = vs i" and "vcpu_tsc w = vs j"
    and "i \<in> I - W" and "j \<in> I - W" and "l1_tsc_scaling_ratio (vs i) = l1_tsc_scaling_ratio (vs j)"
    and "\<not> tsc_catchup (vs i)" and "\<not> tsc_catchup (vs j)"
    and "kvm_guest_time_update E r1 b1 ka' v = Some (v', 0)"
    and "kvm_guest_time_update E r2 b2 ka' w = Some (w', 0)"
  shows "pv_tsc_timestamp (hv_clock v') = pv_tsc_timestamp (hv_clock w') \<and>
    pv_system_time (hv_clock v') = pv_system_time (hv_clock w')"
proof -
  have all: "nr_vcpus_matched_tsc (vm_tsc ka) + 1 = int (card I)"
    using gtod_copy(1) [of g m ka] assms(6-8) by simp
  note k = vmx_tsc.all_matched [OF assms(1,2,4,3,5) all]
  obtain t ts where p:
    "tsc_caught_up (vmx_tsc_env C) (used_host_tsc ka' r1) (used_kernel_ns ka' b1) (vs i) = (t, ts)"
    "pv_tsc_timestamp (hv_clock v') = ts"
    "pv_system_time (hv_clock v') = used_kernel_ns ka' b1 + kvmclock_offset ka'"
    by (rule time_update_parts [OF assms(17)]) (simp add: assms(9,10))
  obtain u us where q:
    "tsc_caught_up (vmx_tsc_env C) (used_host_tsc ka' r2) (used_kernel_ns ka' b2) (vs j) = (u, us)"
    "pv_tsc_timestamp (hv_clock w') = us"
    "pv_system_time (hv_clock w') = used_kernel_ns ka' b2 + kvmclock_offset ka'"
    by (rule time_update_parts [OF assms(18)]) (simp add: assms(9,11))
  have "ts = us"
    using vmx_tsc.caught_up(4) [OF p(1) assms(15)] vmx_tsc.caught_up(4) [OF q(1) assms(16)]
      k [OF assms(12)] k [OF assms(13)] assms(8,14) by (simp add: kvm_read_l1_tsc_def)
  then show ?thesis using p(2,3) q(2,3) assms(8) by simp
qed

text \<open>Two vCPUs synchronised once each, on a host whose clock source is the counter.\<close>

definition demo_gtod_clock :: pvclock_clock where
  "demo_gtod_clock = \<lparr>vclock_mode = VDSO_CLOCKMODE_TSC, cycle_last = 50, clock_mask = - 1,
     clock_mult = 2, clock_shift = 1, base_cycles = 40, clock_offset = 7\<rparr>"

definition demo_gtod :: pvclock_gtod_data where
  "demo_gtod = \<lparr>gtod_clock = demo_gtod_clock, gtod_raw_clock = demo_gtod_clock, offs_boot = 1,
     wall_time_sec = 1000\<rparr>"

definition demo_moment :: host_moment where
  "demo_moment = \<lparr>host_rdtsc = 64, hv_tsc_page = None\<rparr>"

definition demo_master :: clock_vm where
  "demo_master = pvclock_update_vm_gtod_copy demo_gtod demo_moment
     (demo_clock_vm\<lparr>vm_tsc := fst demo_run\<rparr>)"

theorem master_clock_same_time_witness:
  "\<exists>v' w'. kvm_guest_time_update demo_clock_env 70 90 demo_master
      (demo_clock_vcpu\<lparr>vcpu_tsc := snd demo_run 0\<rparr>) = Some (v', 0) \<and>
    kvm_guest_time_update demo_clock_env 80 95 demo_master
      (demo_clock_vcpu\<lparr>vcpu_tsc := snd demo_run 1\<rparr>) = Some (w', 0) \<and>
    pv_tsc_timestamp (hv_clock v') = pv_tsc_timestamp (hv_clock w') \<and>
    pv_system_time (hv_clock v') = pv_system_time (hv_clock w')"
proof -
  let ?ka = "demo_clock_vm\<lparr>vm_tsc := fst demo_run\<rparr>"
  have E: "tsc_of demo_clock_env = vmx_tsc_env demo_tsc_env" by (simp add: demo_clock_env_def)
  have khz: "get_cpu_tsc_khz demo_clock_env = 2000"
    by (simp add: get_cpu_tsc_khz_def demo_clock_env_def vmx_tsc_env_def demo_tsc_env_def)
  have m: "tsc_math_contract (math (vmx_tsc_env demo_tsc_env))"
    by (simp add: vmx_tsc_env_def demo_tsc_env_def sample_math_contract)
  have updates: "\<exists>v'. kvm_guest_time_update demo_clock_env r b demo_master
      (demo_clock_vcpu\<lparr>vcpu_tsc := t\<rparr>) = Some (v', 0)" for r b t
  proof -
    have "has_tsc_control (vmx_tsc_env demo_tsc_env) = False"
      by (simp add: vmx_tsc_env_def demo_tsc_env_def)
    moreover have "hw_tsc_khz demo_clock_vcpu = 2000" by (simp add: demo_clock_vcpu_def)
    ultimately have "kvm_guest_time_update demo_clock_env r b demo_master
        (demo_clock_vcpu\<lparr>vcpu_tsc := t\<rparr>) \<noteq> None"
      using vmx_tsc.time_update_none [OF E m, of r b demo_master "demo_clock_vcpu\<lparr>vcpu_tsc := t\<rparr>"]
      by (simp add: khz Let_def del: not_None_eq)
    then show ?thesis using time_update_status [of demo_clock_env r b demo_master] khz by force
  qed
  obtain v' where v': "kvm_guest_time_update demo_clock_env 70 90 demo_master
      (demo_clock_vcpu\<lparr>vcpu_tsc := snd demo_run 0\<rparr>) = Some (v', 0)" using updates by blast
  obtain w' where w': "kvm_guest_time_update demo_clock_env 80 95 demo_master
      (demo_clock_vcpu\<lparr>vcpu_tsc := snd demo_run 1\<rparr>) = Some (w', 0)" using updates by blast
  have run: "tsc_run (vmx_tsc_env demo_tsc_env) {0, 1} 2 {} (vm_tsc ?ka) (snd demo_run)"
    using demo_run by simp
  have stable: "\<not> kvm_check_tsc_unstable (vmx_tsc_env demo_tsc_env)" by code_simp
  have cur: "cur_tsc_generation (vm_tsc ?ka) \<noteq> 0" by code_simp
  have on: "online_vcpus (vm_tsc ?ka) = int (card {0, 1 :: nat})" by code_simp
  have master: "use_master_clock (vm_tsc demo_master)" by code_simp
  have ratio: "l1_tsc_scaling_ratio (snd demo_run 0) = l1_tsc_scaling_ratio (snd demo_run 1)" by code_simp
  have c: "\<not> tsc_catchup (snd demo_run 0)" "\<not> tsc_catchup (snd demo_run 1)" by code_simp+
  have i: "0 \<in> {0, 1 :: nat} - {}" "1 \<in> {0, 1 :: nat} - {}" by simp_all
  have "pv_tsc_timestamp (hv_clock v') = pv_tsc_timestamp (hv_clock w') \<and>
      pv_system_time (hv_clock v') = pv_system_time (hv_clock w')"
    by (rule master_clock_same_time [OF run _ _ stable cur on demo_master_def [symmetric] master E
          _ _ i ratio c v' w']) simp_all
  then show ?thesis using v' w' by blast
qed

section \<open>The epoch and the wall clock\<close>

text \<open> The time of day at which the guest's clock was zero, as computed for the guest, is the
  difference of the two clocks \<open>KVM_GET_CLOCK\<close> reports, when both are read at one moment with
  the master copy in use: whichever of the two interfaces a migration uses, it gets one epoch. \<close>

theorem epoch_is_the_difference:
  assumes "use_master_clock (vm_tsc ka)" and "get_cpu_tsc_khz E \<noteq> 0"
    and "kvm_get_walltime_and_clockread g m = (Some x, True)"
  shows "kvm_get_wall_clock_epoch E g m real_ns m2 base_ns ka d =
    map_option (\<lambda>c. data_realtime c - data_clock c) (kvmclock_read_locked E g m base_ns' ka d')"
proof -
  have "constant_tsc E \<or> cpu_tsc_khz E \<noteq> 0" using assms(2) by (auto simp: get_cpu_tsc_khz_def)
  then show ?thesis
    using assms by (cases x)
      (auto simp: kvm_get_wall_clock_epoch_def kvmclock_read_locked_def Let_def
        split: option.split prod.splits)
qed

theorem epoch_is_the_difference_witness:
  "\<forall>d. kvm_get_wall_clock_epoch demo_clock_env demo_gtod demo_moment 0 demo_moment 0 demo_master d =
    map_option (\<lambda>c. data_realtime c - data_clock c)
      (kvmclock_read_locked demo_clock_env demo_gtod demo_moment 0 demo_master d)"
proof -
  have "use_master_clock (vm_tsc demo_master)" "get_cpu_tsc_khz demo_clock_env \<noteq> 0" by code_simp+
  moreover have "kvm_get_walltime_and_clockread demo_gtod demo_moment = (Some ((1000, 34), 64), True)"
    by code_simp
  ultimately show ?thesis by (intro allI) (rule epoch_is_the_difference)
qed

text \<open> The writes of the wall clock, in order: an odd version, the time, its high half, and the
  next version, even and not the one the guest had. Seconds of both halves and nanoseconds are
  exactly the epoch. \<close>

theorem wall_clock_writes:
  assumes "wall_clock \<noteq> 0" and "sec_hi_ofs \<noteq> 0"
  shows "\<exists>version sec nsec hi.
    kvm_write_wall_clock (Some old) True epoch wall_clock sec_hi_ofs =
      [Wall_version wall_clock version, Wall_clock wall_clock version sec nsec,
       Wall_sec_hi (wall_clock + sec_hi_ofs) hi, Wall_version wall_clock (version + 1)] \<and>
    odd version \<and> version + 1 \<noteq> old \<and>
    unat nsec + 1000000000 * (unat sec + 2 ^ 32 * unat hi) = unat epoch"
proof -
  let ?version = "(if old AND 1 \<noteq> 0 then old + 1 else old) + 1"
  let ?s = "epoch div 1000000000"
  have a: "old AND 1 \<noteq> 0 \<longleftrightarrow> odd old" by (simp only: and_one_eq odd_iff_mod_2_eq_one) simp
  have v: "odd ?version" unfolding a by simp
  have w: "?version + 1 \<noteq> old" by (simp add: add.assoc)
  have m: "unat (epoch mod 1000000000) = unat epoch mod 1000000000"
    by (simp add: unat_mod)
  have "unat (ucast (epoch mod 1000000000) :: u32) = unat epoch mod 1000000000"
    using take_bit_nat_eq_self [of "unat epoch mod 1000000000" 32] by (simp add: unsigned_ucast_eq m)
  moreover have "unat (ucast ?s :: u32) + 2 ^ 32 * unat (ucast (drop_bit 32 ?s) :: u32) = unat ?s"
  proof -
    have "unat ?s < 2 ^ 64" using unsigned_less [of ?s] by simp
    then have "unat ?s div 2 ^ 32 < 2 ^ 32" by (simp add: div_less_iff_less_mult)
    then have "unat (ucast (drop_bit 32 ?s) :: u32) = unat ?s div 2 ^ 32"
      using take_bit_nat_eq_self [of "unat ?s div 2 ^ 32" 32]
      by (simp add: unsigned_ucast_eq unat_drop_bit)
    moreover have "unat (ucast ?s :: u32) = unat ?s mod 2 ^ 32"
      by (simp add: unsigned_ucast_eq take_bit_eq_mod)
    ultimately show ?thesis by simp
  qed
  moreover have "unat ?s = unat epoch div 1000000000" by (simp add: unat_div)
  ultimately have "unat (ucast (epoch mod 1000000000) :: u32) + 1000000000 *
      (unat (ucast ?s :: u32) + 2 ^ 32 * unat (ucast (drop_bit 32 ?s) :: u32)) = unat epoch"
    by simp
  then show ?thesis using assms v w by (simp add: kvm_write_wall_clock_def Let_def)
qed

theorem wall_clock_writes_witness:
  "\<exists>version sec nsec hi.
    kvm_write_wall_clock (Some 7) True 5000000003 4096 12 =
      [Wall_version 4096 version, Wall_clock 4096 version sec nsec, Wall_sec_hi 4108 hi,
       Wall_version 4096 (version + 1)] \<and>
    odd version \<and> version + 1 \<noteq> 7 \<and>
    unat nsec + 1000000000 * (unat sec + 2 ^ 32 * unat hi) = 5000000003"
  using wall_clock_writes [of 4096 12 7 5000000003] by simp

end
