(* ===== verification/Kvm_Events.thy ===== *)
theory Kvm_Events
  imports Kvm_Exceptions
begin

unbundle bit_operations_syntax

text \<open>
  Events on their way into a guest (\<open>x86.c\<close>): the interrupt, the NMIs and the system management
  interrupt beside the exception of \<open>Kvm_Exceptions\<close>, the function that injects what is due at
  a guest entry, and saving and restoring all of it for user space. The callbacks of the vendor
  are the record \<open>event_ops\<close>; the small inline functions of \<open>x86.h\<close> are \<open>event_queue\<close>.
\<close>

section \<open>State\<close>

record kvm_queued_interrupt =
  irq_injected :: bool
  irq_soft :: bool
  irq_nr :: "8 word"

text \<open>\<open>'h\<close> is the vendor's part.\<close>

record 'h ev_vcpu =
  ev_ex :: ex_vcpu
  exception_from_userspace :: bool
  interrupt :: kvm_queued_interrupt
  nmi_injected :: bool
  nmi_pending :: nat
  smi_pending :: bool
  smi_count :: nat
  in_smm :: bool
  smm_inside_nmi :: bool
  req_smi :: bool
  ev_mp_state :: u32
  event_exit_inst_len :: u32
  guest_debug :: u32
  linear_rip_is_singlestep :: bool
  dr7 :: u64
  ev_protmode :: bool
  sipi_vector :: u32
  apic_init_pending :: bool
  pending_external_vector :: int
  ev_hw :: 'h

abbreviation EINVAL :: int where "EINVAL \<equiv> 22"
abbreviation EBUSY :: int where "EBUSY \<equiv> 16"
abbreviation ENXIO :: int where "ENXIO \<equiv> 6"
abbreviation EEXIST :: int where "EEXIST \<equiv> 17"

abbreviation X86_EFLAGS_TF :: u64 where "X86_EFLAGS_TF \<equiv> 0x100"
abbreviation X86_EFLAGS_RF :: u64 where "X86_EFLAGS_RF \<equiv> 0x10000"
abbreviation DR7_GD :: u64 where "DR7_GD \<equiv> 0x2000"
abbreviation KVM_GUESTDBG_SINGLESTEP :: u32 where "KVM_GUESTDBG_SINGLESTEP \<equiv> 2"
abbreviation KVM_GUESTDBG_BLOCKIRQ :: u32 where "KVM_GUESTDBG_BLOCKIRQ \<equiv> 0x100000"
abbreviation KVM_MP_STATE_INIT_RECEIVED :: u32 where "KVM_MP_STATE_INIT_RECEIVED \<equiv> 2"
abbreviation KVM_NR_INTERRUPTS :: u32 where "KVM_NR_INTERRUPTS \<equiv> 256"

definition ev_request :: "'h ev_vcpu \<Rightarrow> 'h ev_vcpu" where
  "ev_request v = v\<lparr>ev_ex := (ev_ex v)\<lparr>req_event := True\<rparr>\<rparr>"

text \<open>The inline functions of \<open>x86.h\<close>, and what they are documented to do.\<close>

record 'h event_queue =
  kvm_is_exception_pending :: "'h ev_vcpu \<Rightarrow> bool"
  kvm_event_needs_reinjection :: "'h ev_vcpu \<Rightarrow> bool"
  kvm_exception_is_soft :: "u32 \<Rightarrow> bool"
  kvm_queue_interrupt :: "8 word \<Rightarrow> bool \<Rightarrow> 'h ev_vcpu \<Rightarrow> 'h ev_vcpu"
  kvm_clear_interrupt_queue :: "'h ev_vcpu \<Rightarrow> 'h ev_vcpu"
  kvm_clear_exception_queue :: "'h ev_vcpu \<Rightarrow> 'h ev_vcpu"

definition event_queue_contract :: "'h event_queue \<Rightarrow> bool" where
  "event_queue_contract Q \<longleftrightarrow>
     (\<forall>v. kvm_is_exception_pending Q v \<longleftrightarrow> pending (exception (ev_ex v)) \<or>
        pending (exception_vmexit (ev_ex v)) \<or> req_triple_fault (ev_ex v)) \<and>
     (\<forall>v. kvm_event_needs_reinjection Q v \<longleftrightarrow>
        injected (exception (ev_ex v)) \<or> irq_injected (interrupt v) \<or> nmi_injected v) \<and>
     (\<forall>n. kvm_exception_is_soft Q n \<longleftrightarrow> n = BP_VECTOR \<or> n = OF_VECTOR) \<and>
     (\<forall>n soft v. kvm_queue_interrupt Q n soft v =
        v\<lparr>interrupt := \<lparr>irq_injected = True, irq_soft = soft, irq_nr = n\<rparr>\<rparr>) \<and>
     (\<forall>v. kvm_clear_interrupt_queue Q v = v\<lparr>interrupt := (interrupt v)\<lparr>irq_injected := False\<rparr>\<rparr>) \<and>
     (\<forall>v. kvm_clear_exception_queue Q v = v\<lparr>ev_ex := (ev_ex v)
        \<lparr>exception := (exception (ev_ex v))\<lparr>pending := False, injected := False\<rparr>,
         exception_vmexit := (exception_vmexit (ev_ex v))\<lparr>pending := False, injected := False\<rparr>\<rparr>\<rparr>)"

text \<open>The callbacks. A test for injection returns a negative number when it cannot tell yet.\<close>

record 'h event_ops =
  inject_exception :: "'h ev_vcpu \<Rightarrow> 'h ev_vcpu"
  inject_nmi :: "'h ev_vcpu \<Rightarrow> 'h ev_vcpu"
  inject_irq :: "'h ev_vcpu \<Rightarrow> bool \<Rightarrow> 'h ev_vcpu"
  smi_allowed :: "'h ev_vcpu \<Rightarrow> bool \<Rightarrow> int"
  nmi_allowed :: "'h ev_vcpu \<Rightarrow> bool \<Rightarrow> int"
  interrupt_allowed :: "'h ev_vcpu \<Rightarrow> bool \<Rightarrow> int"
  enable_smi_window :: "'h ev_vcpu \<Rightarrow> 'h ev_vcpu"
  enable_nmi_window :: "'h ev_vcpu \<Rightarrow> 'h ev_vcpu"
  enable_irq_window :: "'h ev_vcpu \<Rightarrow> 'h ev_vcpu"
  get_nmi_mask :: "'h ev_vcpu \<Rightarrow> bool \<times> 'h ev_vcpu"
  set_nmi_mask :: "bool \<Rightarrow> 'h ev_vcpu \<Rightarrow> 'h ev_vcpu"
  is_vnmi_pending :: "'h ev_vcpu \<Rightarrow> bool"
  set_vnmi_pending :: "'h ev_vcpu \<Rightarrow> bool \<times> 'h ev_vcpu"
  get_interrupt_shadow :: "'h ev_vcpu \<Rightarrow> u32"
  set_interrupt_shadow :: "u32 \<Rightarrow> 'h ev_vcpu \<Rightarrow> 'h ev_vcpu"
  get_rflags :: "'h ev_vcpu \<Rightarrow> u64"
  set_rflags :: "u64 \<Rightarrow> 'h ev_vcpu \<Rightarrow> 'h ev_vcpu"
  cancel_injection :: "'h ev_vcpu \<Rightarrow> 'h ev_vcpu"

text \<open>Functions of other files: nested virtualisation, SMM, the interrupt controllers, debugging.\<close>

record 'h event_env =
  nested_triple_fault :: "'h ev_vcpu \<Rightarrow> 'h ev_vcpu"
  nested_check_events :: "'h ev_vcpu \<Rightarrow> 'h ev_vcpu \<times> int"
  nested_has_events :: "'h ev_vcpu \<Rightarrow> bool"
  enter_smm :: "'h ev_vcpu \<Rightarrow> 'h ev_vcpu"
  process_smi :: "'h ev_vcpu \<Rightarrow> 'h ev_vcpu"
  kvm_leave_nested :: "'h ev_vcpu \<Rightarrow> 'h ev_vcpu"
  kvm_smm_changed :: "bool \<Rightarrow> 'h ev_vcpu \<Rightarrow> 'h ev_vcpu"
  kvm_update_dr7 :: "'h ev_vcpu \<Rightarrow> 'h ev_vcpu"
  kvm_cpu_has_injectable_intr :: "'h ev_vcpu \<Rightarrow> bool"
  kvm_cpu_get_interrupt :: "'h ev_vcpu \<Rightarrow> int \<times> 'h ev_vcpu"
  kvm_cpu_has_extint :: "'h ev_vcpu \<Rightarrow> bool"
  kvm_apic_accept_pic_intr :: "'h ev_vcpu \<Rightarrow> bool"
  kvm_lapic_latched_init :: "'h ev_vcpu \<Rightarrow> bool"
  lapic_in_kernel :: bool
  pic_in_kernel :: bool
  irqchip_in_kernel :: bool
  exception_payload_enabled :: bool
  triple_fault_event :: bool

section \<open>Flags, and NMIs that arrive\<close>

definition kvm_get_rflags :: "'h event_ops \<Rightarrow> 'h ev_vcpu \<Rightarrow> u64" where
  "kvm_get_rflags ops v =
     (let rflags = get_rflags ops v
      in if guest_debug v AND KVM_GUESTDBG_SINGLESTEP \<noteq> 0 then rflags AND NOT X86_EFLAGS_TF else rflags)"

text \<open>The function with two leading underscores; \<open>kvm_set_rflags\<close> adds the request.\<close>

definition kvm_set_rflags_quiet :: "'h event_ops \<Rightarrow> u64 \<Rightarrow> 'h ev_vcpu \<Rightarrow> 'h ev_vcpu" where
  "kvm_set_rflags_quiet ops rflags v =
     set_rflags ops (if guest_debug v AND KVM_GUESTDBG_SINGLESTEP \<noteq> 0 \<and> linear_rip_is_singlestep v
                   then rflags OR X86_EFLAGS_TF else rflags) v"

definition kvm_set_rflags :: "'h event_ops \<Rightarrow> u64 \<Rightarrow> 'h ev_vcpu \<Rightarrow> 'h ev_vcpu" where
  "kvm_set_rflags ops rflags v = ev_request (kvm_set_rflags_quiet ops rflags v)"

definition process_nmi :: "'h event_ops \<Rightarrow> 'h ev_vcpu \<Rightarrow> 'h ev_vcpu" where
  "process_nmi ops v =
     (let (masked, v) = get_nmi_mask ops v;
          limit = (if masked \<or> nmi_injected v then 1 else 2);
          limit = (if is_vnmi_pending ops v then limit - 1 else limit);
          v = v\<lparr>nmi_pending := nmi_pending v + nmi_queued (ev_ex v),
                ev_ex := (ev_ex v)\<lparr>nmi_queued := 0\<rparr>\<rparr>;
          v = v\<lparr>nmi_pending := min (nmi_pending v) limit\<rparr>;
          v = (if nmi_pending v \<noteq> 0 then
                 let (done, v) = set_vnmi_pending ops v
                 in if done then v\<lparr>nmi_pending := nmi_pending v - 1\<rparr> else v
               else v)
      in if nmi_pending v \<noteq> 0 then ev_request v else v)"

definition kvm_get_nr_pending_nmis :: "'h event_ops \<Rightarrow> 'h ev_vcpu \<Rightarrow> nat" where
  "kvm_get_nr_pending_nmis ops v = nmi_pending v + (if is_vnmi_pending ops v then 1 else 0)"

section \<open>Injection at a guest entry\<close>

definition kvm_check_nested_events :: "'h event_env \<Rightarrow> 'h ev_vcpu \<Rightarrow> 'h ev_vcpu \<times> int" where
  "kvm_check_nested_events E v =
     (if req_triple_fault (ev_ex v) then (nested_triple_fault E v, 1) else nested_check_events E v)"

definition kvm_inject_exception :: "'h event_ops \<Rightarrow> 'h ev_vcpu \<Rightarrow> 'h ev_vcpu" where
  "kvm_inject_exception ops v =
     inject_exception ops (v\<lparr>ev_ex := (ev_ex v)\<lparr>exception := (exception (ev_ex v))
       \<lparr>has_error_code := (has_error_code (exception (ev_ex v)) \<and> ev_protmode v)\<rparr>\<rparr>\<rparr>)"

text \<open>What was injected before and did not get through.\<close>

definition reinject_events :: "'h event_queue \<Rightarrow> 'h event_ops \<Rightarrow> 'h ev_vcpu \<Rightarrow> 'h ev_vcpu" where
  "reinject_events Q ops v =
     (if injected (exception (ev_ex v)) then kvm_inject_exception ops v
      else if kvm_is_exception_pending Q v then v
      else if nmi_injected v then inject_nmi ops v
      else if irq_injected (interrupt v) then inject_irq ops v True
      else v)"

definition inject_pending_exception ::
  "'h event_ops \<Rightarrow> 'h event_env \<Rightarrow> 'h ev_vcpu \<times> bool \<Rightarrow> 'h ev_vcpu \<times> bool" where
  "inject_pending_exception ops E = (\<lambda>(v, can_inject).
     if pending (exception (ev_ex v)) then
       let v = (if exception_type (ex_vector (exception (ev_ex v))) = EXCPT_FAULT
                then kvm_set_rflags_quiet ops (kvm_get_rflags ops v OR X86_EFLAGS_RF) v else v);
           v = (if ex_vector (exception (ev_ex v)) = DB_VECTOR then
                  let v = v\<lparr>ev_ex := kvm_deliver_exception_payload (ev_ex v)\<rparr>
                  in if dr7 v AND DR7_GD \<noteq> 0
                     then kvm_update_dr7 E (v\<lparr>dr7 := dr7 v AND NOT DR7_GD\<rparr>) else v
                else v);
           v = kvm_inject_exception ops v
       in (v\<lparr>ev_ex := (ev_ex v)\<lparr>exception := (exception (ev_ex v))
             \<lparr>pending := False, injected := True\<rparr>\<rparr>\<rparr>, False)
     else (v, can_inject))"

text \<open>\<open>Inl\<close> is the jump to \<open>out\<close> with the result.\<close>

definition inject_smi ::
  "'h event_ops \<Rightarrow> 'h event_env \<Rightarrow> 'h ev_vcpu \<times> bool \<Rightarrow> ('h ev_vcpu \<times> int) + ('h ev_vcpu \<times> bool)" where
  "inject_smi ops E = (\<lambda>(v, can_inject).
     if smi_pending v then
       let r = (if can_inject then smi_allowed ops v True else - EBUSY)
       in if r < 0 then Inl (v, r)
          else if r \<noteq> 0
          then Inr (enter_smm E (v\<lparr>smi_pending := False, smi_count := smi_count v + 1\<rparr>), False)
          else Inr (enable_smi_window ops v, can_inject)
     else Inr (v, can_inject))"

definition inject_pending_nmi ::
  "'h event_ops \<Rightarrow> 'h ev_vcpu \<times> bool \<Rightarrow> ('h ev_vcpu \<times> int) + ('h ev_vcpu \<times> bool)" where
  "inject_pending_nmi ops = (\<lambda>(v, can_inject).
     if nmi_pending v \<noteq> 0 then
       let r = (if can_inject then nmi_allowed ops v True else - EBUSY)
       in if r < 0 then Inl (v, r)
          else
            let (v, can_inject) =
                  (if r \<noteq> 0
                   then (inject_nmi ops (v\<lparr>nmi_pending := nmi_pending v - 1, nmi_injected := True\<rparr>), False)
                   else (v, can_inject))
            in Inr (if nmi_pending v \<noteq> 0 then enable_nmi_window ops v else v, can_inject)
     else Inr (v, can_inject))"

definition inject_pending_irq ::
  "'h event_queue \<Rightarrow> 'h event_ops \<Rightarrow> 'h event_env \<Rightarrow> 'h ev_vcpu \<times> bool \<Rightarrow>
    ('h ev_vcpu \<times> int) + 'h ev_vcpu" where
  "inject_pending_irq Q ops E = (\<lambda>(v, can_inject).
     if kvm_cpu_has_injectable_intr E v then
       let r = (if can_inject then interrupt_allowed ops v True else - EBUSY)
       in if r < 0 then Inl (v, r)
          else
            let v = (if r \<noteq> 0 then
                       let (irq, v) = kvm_cpu_get_interrupt E v
                       in if irq \<noteq> - 1
                          then inject_irq ops (kvm_queue_interrupt Q (of_int irq) False v) False else v
                     else v)
            in Inr (if kvm_cpu_has_injectable_intr E v then enable_irq_window ops v else v)
     else Inr v)"

text \<open>The label \<open>out\<close>: an event that has to wait asks for an immediate exit.\<close>

definition events_out :: "'h ev_vcpu \<times> int \<Rightarrow> 'h ev_vcpu \<times> bool \<times> int" where
  "events_out = (\<lambda>(v, r). if r = - EBUSY then (v, True, 0) else (v, False, r))"

definition inject_new_events ::
  "'h event_queue \<Rightarrow> 'h event_ops \<Rightarrow> 'h event_env \<Rightarrow> 'h ev_vcpu \<times> bool \<Rightarrow>
    ('h ev_vcpu \<times> int) + 'h ev_vcpu" where
  "inject_new_events Q ops E s =
     (case inject_smi ops E s of
        Inl r \<Rightarrow> Inl r
      | Inr s \<Rightarrow>
          (case inject_pending_nmi ops s of
             Inl r \<Rightarrow> Inl r
           | Inr s \<Rightarrow> inject_pending_irq Q ops E s))"

text \<open>The vCPU, whether an immediate exit is asked for, and the result.\<close>

definition kvm_check_and_inject_events ::
  "'h event_queue \<Rightarrow> 'h event_ops \<Rightarrow> 'h event_env \<Rightarrow> 'h ev_vcpu \<Rightarrow> 'h ev_vcpu \<times> bool \<times> int" where
  "kvm_check_and_inject_events Q ops E v =
     (let (v, r) = (if guest_mode (ev_ex v) then kvm_check_nested_events E v else (v, 0));
          v = reinject_events Q ops v
      in if r < 0 then events_out (v, r)
         else
           let can_inject = \<not> kvm_event_needs_reinjection Q v;
               (v, can_inject) = inject_pending_exception ops E (v, can_inject)
           in if guest_debug v AND KVM_GUESTDBG_BLOCKIRQ \<noteq> 0 then (v, False, 0)
              else case inject_new_events Q ops E (v, can_inject) of
                     Inl r \<Rightarrow> events_out r
                   | Inr v \<Rightarrow> (v, guest_mode (ev_ex v) \<and> nested_has_events E v, 0))"

section \<open>Interrupts from user space\<close>

definition kvm_cpu_accept_dm_intr :: "'h event_env \<Rightarrow> 'h ev_vcpu \<Rightarrow> bool" where
  "kvm_cpu_accept_dm_intr E v =
     (if kvm_cpu_has_extint E v then False
      else \<not> lapic_in_kernel E \<or> kvm_apic_accept_pic_intr E v)"

definition kvm_arch_interrupt_allowed :: "'h event_ops \<Rightarrow> 'h ev_vcpu \<Rightarrow> bool" where
  "kvm_arch_interrupt_allowed ops v = (interrupt_allowed ops v False \<noteq> 0)"

definition kvm_vcpu_ready_for_interrupt_injection ::
  "'h event_queue \<Rightarrow> 'h event_ops \<Rightarrow> 'h event_env \<Rightarrow> 'h ev_vcpu \<Rightarrow> bool" where
  "kvm_vcpu_ready_for_interrupt_injection Q ops E v =
     (kvm_arch_interrupt_allowed ops v \<and> kvm_cpu_accept_dm_intr E v \<and>
      \<not> kvm_event_needs_reinjection Q v \<and> \<not> kvm_is_exception_pending Q v)"

definition kvm_vcpu_ioctl_interrupt ::
  "'h event_queue \<Rightarrow> 'h event_env \<Rightarrow> u32 \<Rightarrow> 'h ev_vcpu \<Rightarrow> 'h ev_vcpu \<times> int" where
  "kvm_vcpu_ioctl_interrupt Q E irq v =
     (if irq \<ge> KVM_NR_INTERRUPTS then (v, - EINVAL)
      else if \<not> irqchip_in_kernel E
      then (ev_request (kvm_queue_interrupt Q (ucast irq) False v), 0)
      else if pic_in_kernel E then (v, - ENXIO)
      else if pending_external_vector v \<noteq> - 1 then (v, - EEXIST)
      else (ev_request (v\<lparr>pending_external_vector := int (unat irq)\<rparr>), 0))"

definition kvm_vcpu_ioctl_nmi :: "'h ev_vcpu \<Rightarrow> 'h ev_vcpu" where
  "kvm_vcpu_ioctl_nmi v = v\<lparr>ev_ex := kvm_inject_nmi (ev_ex v)\<rparr>"

section \<open>Saving and restoring\<close>

record kvm_vcpu_events =
  e_exception_injected :: "8 word"
  e_exception_nr :: "8 word"
  e_exception_has_error_code :: "8 word"
  e_exception_pending :: "8 word"
  e_exception_error_code :: u32
  e_interrupt_injected :: "8 word"
  e_interrupt_nr :: "8 word"
  e_interrupt_soft :: "8 word"
  e_interrupt_shadow :: "8 word"
  e_nmi_injected :: "8 word"
  e_nmi_pending :: "8 word"
  e_nmi_masked :: "8 word"
  e_sipi_vector :: u32
  e_flags :: u32
  e_smi_smm :: "8 word"
  e_smi_pending :: "8 word"
  e_smi_smm_inside_nmi :: "8 word"
  e_smi_latched_init :: "8 word"
  e_triple_fault_pending :: "8 word"
  e_exception_has_payload :: "8 word"
  e_exception_payload :: u64

definition no_events :: kvm_vcpu_events where
  "no_events = \<lparr>e_exception_injected = 0, e_exception_nr = 0, e_exception_has_error_code = 0,
     e_exception_pending = 0, e_exception_error_code = 0, e_interrupt_injected = 0,
     e_interrupt_nr = 0, e_interrupt_soft = 0, e_interrupt_shadow = 0, e_nmi_injected = 0,
     e_nmi_pending = 0, e_nmi_masked = 0, e_sipi_vector = 0, e_flags = 0, e_smi_smm = 0,
     e_smi_pending = 0, e_smi_smm_inside_nmi = 0, e_smi_latched_init = 0,
     e_triple_fault_pending = 0, e_exception_has_payload = 0, e_exception_payload = 0\<rparr>"

abbreviation KVM_VCPUEVENT_VALID_NMI_PENDING :: u32 where "KVM_VCPUEVENT_VALID_NMI_PENDING \<equiv> 1"
abbreviation KVM_VCPUEVENT_VALID_SIPI_VECTOR :: u32 where "KVM_VCPUEVENT_VALID_SIPI_VECTOR \<equiv> 2"
abbreviation KVM_VCPUEVENT_VALID_SHADOW :: u32 where "KVM_VCPUEVENT_VALID_SHADOW \<equiv> 4"
abbreviation KVM_VCPUEVENT_VALID_SMM :: u32 where "KVM_VCPUEVENT_VALID_SMM \<equiv> 8"
abbreviation KVM_VCPUEVENT_VALID_PAYLOAD :: u32 where "KVM_VCPUEVENT_VALID_PAYLOAD \<equiv> 16"
abbreviation KVM_VCPUEVENT_VALID_TRIPLE_FAULT :: u32 where "KVM_VCPUEVENT_VALID_TRIPLE_FAULT \<equiv> 32"

definition byte_of :: "bool \<Rightarrow> 8 word" where
  "byte_of b = (if b then 1 else 0)"

text \<open>The exception reported, which for the ABI is one of two, and whether it is the nested one.\<close>

definition reported_is_vmexit :: "'h ev_vcpu \<Rightarrow> bool" where
  "reported_is_vmexit v =
     (pending (exception_vmexit (ev_ex v)) \<and> \<not> pending (exception (ev_ex v)) \<and>
      \<not> injected (exception (ev_ex v)))"

definition reported_exception :: "'h ev_vcpu \<Rightarrow> kvm_queued_exception" where
  "reported_exception v =
     (if reported_is_vmexit v then exception_vmexit (ev_ex v) else exception (ev_ex v))"

text \<open>Delivery of the payload of whichever of the two it is.\<close>

definition deliver_reported :: "'h ev_vcpu \<Rightarrow> 'h ev_vcpu" where
  "deliver_reported v =
     (if reported_is_vmexit v then
        let x = kvm_deliver_exception_payload ((ev_ex v)\<lparr>exception := exception_vmexit (ev_ex v)\<rparr>)
        in v\<lparr>ev_ex := x\<lparr>exception := exception (ev_ex v), exception_vmexit := exception x\<rparr>\<rparr>
      else v\<lparr>ev_ex := kvm_deliver_exception_payload (ev_ex v)\<rparr>)"

definition saved_exception ::
  "'h event_queue \<Rightarrow> 'h event_env \<Rightarrow> kvm_queued_exception \<Rightarrow> kvm_vcpu_events \<Rightarrow> kvm_vcpu_events" where
  "saved_exception Q E x e =
     (let e = (if \<not> kvm_exception_is_soft Q (ex_vector x)
               then e\<lparr>e_exception_injected :=
                        byte_of (injected x) OR
                          (if \<not> exception_payload_enabled E then byte_of (pending x) else 0),
                      e_exception_pending := byte_of (pending x)\<rparr>
               else e)
      in e\<lparr>e_exception_nr := ucast (ex_vector x),
           e_exception_has_error_code := byte_of (has_error_code x),
           e_exception_error_code := ex_error_code x,
           e_exception_has_payload := byte_of (has_payload x), e_exception_payload := ex_payload x\<rparr>)"

definition kvm_vcpu_ioctl_x86_get_vcpu_events ::
  "'h event_queue \<Rightarrow> 'h event_ops \<Rightarrow> 'h event_env \<Rightarrow> 'h ev_vcpu \<Rightarrow> 'h ev_vcpu \<times> kvm_vcpu_events" where
  "kvm_vcpu_ioctl_x86_get_vcpu_events Q ops E v =
     (let v = process_nmi ops v;
          v = (if req_smi v then process_smi E (v\<lparr>req_smi := False\<rparr>) else v);
          x = reported_exception v;
          v = (if \<not> exception_payload_enabled E \<and> pending x \<and> has_payload x
               then deliver_reported v else v);
          x = (if \<not> exception_payload_enabled E \<and> pending x \<and> has_payload x
               then x\<lparr>has_payload := False, ex_payload := 0\<rparr> else x);
          e = saved_exception Q E x no_events;
          shadow = get_interrupt_shadow ops v;
          (masked, v) = get_nmi_mask ops v;
          e = e\<lparr>e_interrupt_injected := byte_of (irq_injected (interrupt v) \<and> \<not> irq_soft (interrupt v)),
                e_interrupt_nr := irq_nr (interrupt v),
                e_interrupt_shadow := ucast shadow,
                e_nmi_injected := byte_of (nmi_injected v),
                e_nmi_pending := of_nat (kvm_get_nr_pending_nmis ops v),
                e_nmi_masked := byte_of masked,
                e_smi_smm := byte_of (in_smm v), e_smi_pending := byte_of (smi_pending v),
                e_smi_smm_inside_nmi := byte_of (smm_inside_nmi v),
                e_smi_latched_init := byte_of (kvm_lapic_latched_init E v),
                e_flags := KVM_VCPUEVENT_VALID_NMI_PENDING OR KVM_VCPUEVENT_VALID_SHADOW OR
                  KVM_VCPUEVENT_VALID_SMM OR
                  (if exception_payload_enabled E then KVM_VCPUEVENT_VALID_PAYLOAD else 0) OR
                  (if triple_fault_event E then KVM_VCPUEVENT_VALID_TRIPLE_FAULT else 0),
                e_triple_fault_pending :=
                  (if triple_fault_event E then byte_of (req_triple_fault (ev_ex v)) else 0)\<rparr>
      in (v, e))"

text \<open>The checks of the other direction, which also clean the argument.\<close>

definition known_event_flags :: u32 where
  "known_event_flags = KVM_VCPUEVENT_VALID_NMI_PENDING OR KVM_VCPUEVENT_VALID_SIPI_VECTOR OR
     KVM_VCPUEVENT_VALID_SHADOW OR KVM_VCPUEVENT_VALID_SMM OR KVM_VCPUEVENT_VALID_PAYLOAD OR
     KVM_VCPUEVENT_VALID_TRIPLE_FAULT"

definition checked_events :: "'h event_env \<Rightarrow> u32 \<Rightarrow> kvm_vcpu_events \<Rightarrow> kvm_vcpu_events option" where
  "checked_events E mp e =
     (if e_flags e AND NOT known_event_flags \<noteq> 0 then None
      else if e_flags e AND KVM_VCPUEVENT_VALID_PAYLOAD \<noteq> 0 \<and> \<not> exception_payload_enabled E then None
      else
        let e = (if e_flags e AND KVM_VCPUEVENT_VALID_PAYLOAD \<noteq> 0 then
                   if e_exception_pending e \<noteq> 0 then e\<lparr>e_exception_injected := 0\<rparr>
                   else e\<lparr>e_exception_has_payload := 0\<rparr>
                 else e\<lparr>e_exception_pending := 0, e_exception_has_payload := 0\<rparr>)
        in if (e_exception_injected e \<noteq> 0 \<or> e_exception_pending e \<noteq> 0) \<and>
              (e_exception_nr e > 31 \<or> e_exception_nr e = ucast NMI_VECTOR) then None
           else if e_flags e AND KVM_VCPUEVENT_VALID_SMM \<noteq> 0 \<and>
              (e_smi_smm e \<noteq> 0 \<or> e_smi_pending e \<noteq> 0) \<and> mp = KVM_MP_STATE_INIT_RECEIVED then None
           else Some e)"

definition restore_queue :: "kvm_vcpu_events \<Rightarrow> 'h ev_vcpu \<Rightarrow> 'h ev_vcpu" where
  "restore_queue e v =
     v\<lparr>exception_from_userspace := (e_exception_pending e \<noteq> 0),
       ev_ex := (ev_ex v)\<lparr>exception_vmexit := (exception_vmexit (ev_ex v))\<lparr>pending := False\<rparr>,
         exception := \<lparr>pending = (e_exception_pending e \<noteq> 0), injected = (e_exception_injected e \<noteq> 0),
           has_error_code = (e_exception_has_error_code e \<noteq> 0), ex_vector = ucast (e_exception_nr e),
           ex_error_code = e_exception_error_code e, ex_payload = e_exception_payload e,
           has_payload = (e_exception_has_payload e \<noteq> 0)\<rparr>\<rparr>,
       interrupt := \<lparr>irq_injected = (e_interrupt_injected e \<noteq> 0),
         irq_soft = (e_interrupt_soft e \<noteq> 0), irq_nr = e_interrupt_nr e\<rparr>\<rparr>"

definition restore_nmi :: "'h event_ops \<Rightarrow> kvm_vcpu_events \<Rightarrow> 'h ev_vcpu \<Rightarrow> 'h ev_vcpu" where
  "restore_nmi ops e v =
     (let v = v\<lparr>nmi_injected := (e_nmi_injected e \<noteq> 0)\<rparr>;
          v = (if e_flags e AND KVM_VCPUEVENT_VALID_NMI_PENDING \<noteq> 0
               then v\<lparr>nmi_pending := 0, ev_ex := (ev_ex v)\<lparr>nmi_queued := unat (e_nmi_pending e),
                      req_nmi := (req_nmi (ev_ex v) \<or> e_nmi_pending e \<noteq> 0)\<rparr>\<rparr>
               else v)
      in set_nmi_mask ops (e_nmi_masked e \<noteq> 0) v)"

definition restore_smm :: "'h event_env \<Rightarrow> kvm_vcpu_events \<Rightarrow> 'h ev_vcpu \<Rightarrow> 'h ev_vcpu" where
  "restore_smm E e v =
     (if e_flags e AND KVM_VCPUEVENT_VALID_SMM \<noteq> 0 then
        let v = (if byte_of (in_smm v) \<noteq> e_smi_smm e
                 then kvm_smm_changed E (e_smi_smm e \<noteq> 0) (kvm_leave_nested E v) else v);
            v = v\<lparr>smi_pending := (e_smi_pending e \<noteq> 0)\<rparr>;
            v = (if e_smi_smm e \<noteq> 0 then v\<lparr>smm_inside_nmi := (e_smi_smm_inside_nmi e \<noteq> 0)\<rparr> else v)
        in if lapic_in_kernel E then v\<lparr>apic_init_pending := (e_smi_latched_init e \<noteq> 0)\<rparr> else v
      else v)"

definition kvm_vcpu_ioctl_x86_set_vcpu_events ::
  "'h event_ops \<Rightarrow> 'h event_env \<Rightarrow> kvm_vcpu_events \<Rightarrow> 'h ev_vcpu \<Rightarrow> 'h ev_vcpu \<times> int" where
  "kvm_vcpu_ioctl_x86_set_vcpu_events ops E e v =
     (case checked_events E (ev_mp_state v) e of
        None \<Rightarrow> (v, - EINVAL)
      | Some e \<Rightarrow>
          let v = restore_queue e (process_nmi ops v);
              v = (if e_flags e AND KVM_VCPUEVENT_VALID_SHADOW \<noteq> 0
                   then set_interrupt_shadow ops (ucast (e_interrupt_shadow e)) v else v);
              v = restore_nmi ops e v;
              v = (if e_flags e AND KVM_VCPUEVENT_VALID_SIPI_VECTOR \<noteq> 0 \<and> lapic_in_kernel E
                   then v\<lparr>sipi_vector := e_sipi_vector e\<rparr> else v);
              v = restore_smm E e v
          in if e_flags e AND KVM_VCPUEVENT_VALID_TRIPLE_FAULT \<noteq> 0 \<and> \<not> triple_fault_event E
             then (v, - EINVAL)
             else
               let v = (if e_flags e AND KVM_VCPUEVENT_VALID_TRIPLE_FAULT \<noteq> 0
                        then v\<lparr>ev_ex := (ev_ex v)\<lparr>req_triple_fault := (e_triple_fault_pending e \<noteq> 0)\<rparr>\<rparr>
                        else v)
               in (ev_request v, 0))"

end
