(* ===== verification/Vmx_Events.thy ===== *)
theory Vmx_Events
  imports Kvm_Events
begin

unbundle bit_operations_syntax

text \<open>
  How \<open>vmx.c\<close> puts an event into the VMCS for the next entry, takes back one that did not get
  through, and tells when NMIs and interrupts are blocked.
\<close>

section \<open>State\<close>

record vmx_ev =
  VM_ENTRY_INTR_INFO_FIELD :: u32
  VM_ENTRY_EXCEPTION_ERROR_CODE :: u32
  VM_ENTRY_INSTRUCTION_LEN :: u32
  VM_EXIT_INSTRUCTION_LEN :: u32
  IDT_VECTORING_ERROR_CODE :: u32
  idt_vectoring_info :: u32
  exit_intr_info :: u32
  GUEST_INTERRUPTIBILITY_INFO :: u32
  GUEST_ACTIVITY_STATE :: u32
  intr_window_exiting :: bool
  nmi_window_exiting :: bool
  nmi_known_unmasked :: bool
  soft_vnmi_blocked :: bool
  vnmi_blocked_time :: u64
  vm86_active :: bool
  nested_run_pending :: bool
  guest_rflags :: u64
  irq_injections :: nat
  nmi_injections :: nat
  window_exits :: nat

type_synonym vmx_ev_vcpu = "vmx_ev ev_vcpu"

text \<open>Module parameters, and functions of other files.\<close>

record vmx_event_env =
  event_queue_of :: "vmx_ev event_queue"
  enable_vnmi :: bool
  kvm_hlt_in_guest :: bool
  nested_exit_on_nmi :: "vmx_ev_vcpu \<Rightarrow> bool"
  nested_exit_on_intr :: "vmx_ev_vcpu \<Rightarrow> bool"
  is_vmexit :: is_exception_vmexit
  kvm_inject_realmode_interrupt :: "u32 \<Rightarrow> u32 \<Rightarrow> vmx_ev_vcpu \<Rightarrow> vmx_ev_vcpu"

text \<open>Layout of the interruption information, for entry and exit the same, and of the blocking.\<close>

abbreviation INTR_INFO_VECTOR_MASK :: u32 where "INTR_INFO_VECTOR_MASK \<equiv> 0xff"
abbreviation INTR_INFO_INTR_TYPE_MASK :: u32 where "INTR_INFO_INTR_TYPE_MASK \<equiv> 0x700"
abbreviation INTR_INFO_DELIVER_CODE_MASK :: u32 where "INTR_INFO_DELIVER_CODE_MASK \<equiv> 0x800"
abbreviation INTR_INFO_UNBLOCK_NMI :: u32 where "INTR_INFO_UNBLOCK_NMI \<equiv> 0x1000"
abbreviation INTR_INFO_VALID_MASK :: u32 where "INTR_INFO_VALID_MASK \<equiv> 0x80000000"
abbreviation INTR_TYPE_EXT_INTR :: u32 where "INTR_TYPE_EXT_INTR \<equiv> 0x000"
abbreviation INTR_TYPE_NMI_INTR :: u32 where "INTR_TYPE_NMI_INTR \<equiv> 0x200"
abbreviation INTR_TYPE_HARD_EXCEPTION :: u32 where "INTR_TYPE_HARD_EXCEPTION \<equiv> 0x300"
abbreviation INTR_TYPE_SOFT_INTR :: u32 where "INTR_TYPE_SOFT_INTR \<equiv> 0x400"
abbreviation INTR_TYPE_SOFT_EXCEPTION :: u32 where "INTR_TYPE_SOFT_EXCEPTION \<equiv> 0x600"
abbreviation GUEST_INTR_STATE_STI :: u32 where "GUEST_INTR_STATE_STI \<equiv> 1"
abbreviation GUEST_INTR_STATE_MOV_SS :: u32 where "GUEST_INTR_STATE_MOV_SS \<equiv> 2"
abbreviation GUEST_INTR_STATE_NMI :: u32 where "GUEST_INTR_STATE_NMI \<equiv> 8"
abbreviation KVM_X86_SHADOW_INT_MOV_SS :: u32 where "KVM_X86_SHADOW_INT_MOV_SS \<equiv> 1"
abbreviation KVM_X86_SHADOW_INT_STI :: u32 where "KVM_X86_SHADOW_INT_STI \<equiv> 2"
abbreviation X86_EFLAGS_IF :: u64 where "X86_EFLAGS_IF \<equiv> 0x200"

section \<open>Blocking\<close>

definition vmx_get_interrupt_shadow :: "vmx_ev_vcpu \<Rightarrow> u32" where
  "vmx_get_interrupt_shadow v =
     (let interruptibility = GUEST_INTERRUPTIBILITY_INFO (ev_hw v);
          ret = (if interruptibility AND GUEST_INTR_STATE_STI \<noteq> 0 then KVM_X86_SHADOW_INT_STI else 0)
      in if interruptibility AND GUEST_INTR_STATE_MOV_SS \<noteq> 0 then ret OR KVM_X86_SHADOW_INT_MOV_SS
         else ret)"

definition vmx_set_interrupt_shadow :: "u32 \<Rightarrow> vmx_ev_vcpu \<Rightarrow> vmx_ev_vcpu" where
  "vmx_set_interrupt_shadow m v =
     (let i = GUEST_INTERRUPTIBILITY_INFO (ev_hw v) AND
                NOT (GUEST_INTR_STATE_STI OR GUEST_INTR_STATE_MOV_SS);
          i = (if m AND KVM_X86_SHADOW_INT_MOV_SS \<noteq> 0 then i OR GUEST_INTR_STATE_MOV_SS
               else if m AND KVM_X86_SHADOW_INT_STI \<noteq> 0 then i OR GUEST_INTR_STATE_STI else i)
      in ev_hw_update (\<lambda>h. h\<lparr>GUEST_INTERRUPTIBILITY_INFO := i\<rparr>) v)"

definition vmx_get_nmi_mask :: "vmx_event_env \<Rightarrow> vmx_ev_vcpu \<Rightarrow> bool \<times> vmx_ev_vcpu" where
  "vmx_get_nmi_mask E v =
     (if \<not> enable_vnmi E then (soft_vnmi_blocked (ev_hw v), v)
      else if nmi_known_unmasked (ev_hw v) then (False, v)
      else
        let masked = (GUEST_INTERRUPTIBILITY_INFO (ev_hw v) AND GUEST_INTR_STATE_NMI \<noteq> 0)
        in (masked, ev_hw_update (\<lambda>h. h\<lparr>nmi_known_unmasked := \<not> masked\<rparr>) v))"

definition vmx_set_nmi_mask :: "vmx_event_env \<Rightarrow> bool \<Rightarrow> vmx_ev_vcpu \<Rightarrow> vmx_ev_vcpu" where
  "vmx_set_nmi_mask E masked v =
     (if \<not> enable_vnmi E then
        if soft_vnmi_blocked (ev_hw v) \<noteq> masked
        then ev_hw_update (\<lambda>h. h\<lparr>soft_vnmi_blocked := masked, vnmi_blocked_time := 0\<rparr>) v
        else v
      else ev_hw_update (\<lambda>h. h\<lparr>nmi_known_unmasked := \<not> masked,
             GUEST_INTERRUPTIBILITY_INFO :=
               (if masked then GUEST_INTERRUPTIBILITY_INFO h OR GUEST_INTR_STATE_NMI
                else GUEST_INTERRUPTIBILITY_INFO h AND NOT GUEST_INTR_STATE_NMI)\<rparr>) v)"

definition vmx_nmi_blocked :: "vmx_event_env \<Rightarrow> vmx_ev_vcpu \<Rightarrow> bool" where
  "vmx_nmi_blocked E v =
     (if guest_mode (ev_ex v) \<and> nested_exit_on_nmi E v then False
      else if \<not> enable_vnmi E \<and> soft_vnmi_blocked (ev_hw v) then True
      else GUEST_INTERRUPTIBILITY_INFO (ev_hw v) AND
             (GUEST_INTR_STATE_MOV_SS OR GUEST_INTR_STATE_STI OR GUEST_INTR_STATE_NMI) \<noteq> 0)"

definition vmx_nmi_allowed :: "vmx_event_env \<Rightarrow> vmx_ev_vcpu \<Rightarrow> bool \<Rightarrow> int" where
  "vmx_nmi_allowed E v for_injection =
     (if nested_run_pending (ev_hw v) then - EBUSY
      else if for_injection \<and> guest_mode (ev_ex v) \<and> nested_exit_on_nmi E v then - EBUSY
      else if vmx_nmi_blocked E v then 0 else 1)"

definition vmx_interrupt_blocked :: "vmx_event_env \<Rightarrow> vmx_ev_vcpu \<Rightarrow> bool" where
  "vmx_interrupt_blocked E v =
     (if guest_mode (ev_ex v) \<and> nested_exit_on_intr E v then False
      else guest_rflags (ev_hw v) AND X86_EFLAGS_IF = 0 \<or>
           GUEST_INTERRUPTIBILITY_INFO (ev_hw v) AND
             (GUEST_INTR_STATE_STI OR GUEST_INTR_STATE_MOV_SS) \<noteq> 0)"

definition vmx_interrupt_allowed :: "vmx_event_env \<Rightarrow> vmx_ev_vcpu \<Rightarrow> bool \<Rightarrow> int" where
  "vmx_interrupt_allowed E v for_injection =
     (if nested_run_pending (ev_hw v) then - EBUSY
      else if for_injection \<and> guest_mode (ev_ex v) \<and> nested_exit_on_intr E v then - EBUSY
      else if vmx_interrupt_blocked E v then 0 else 1)"

definition vmx_smi_allowed :: "vmx_ev_vcpu \<Rightarrow> bool \<Rightarrow> int" where
  "vmx_smi_allowed v for_injection =
     (if nested_run_pending (ev_hw v) then - EBUSY else if in_smm v then 0 else 1)"

definition vmx_enable_irq_window :: "vmx_ev_vcpu \<Rightarrow> vmx_ev_vcpu" where
  "vmx_enable_irq_window v = ev_hw_update (\<lambda>h. h\<lparr>intr_window_exiting := True\<rparr>) v"

definition vmx_enable_nmi_window :: "vmx_event_env \<Rightarrow> vmx_ev_vcpu \<Rightarrow> vmx_ev_vcpu" where
  "vmx_enable_nmi_window E v =
     (if \<not> enable_vnmi E \<or> GUEST_INTERRUPTIBILITY_INFO (ev_hw v) AND GUEST_INTR_STATE_STI \<noteq> 0
      then vmx_enable_irq_window v
      else ev_hw_update (\<lambda>h. h\<lparr>nmi_window_exiting := True\<rparr>) v)"

definition vmx_enable_smi_window :: "vmx_ev_vcpu \<Rightarrow> vmx_ev_vcpu" where
  "vmx_enable_smi_window v = v"

text \<open>The exits of the windows; \<open>- EIO\<close> is a bug of the host.\<close>

definition handle_interrupt_window :: "vmx_ev_vcpu \<Rightarrow> vmx_ev_vcpu \<times> int" where
  "handle_interrupt_window v =
     (ev_request (ev_hw_update (\<lambda>h. h\<lparr>intr_window_exiting := False, window_exits := window_exits h + 1\<rparr>) v), 1)"

definition handle_nmi_window :: "vmx_event_env \<Rightarrow> vmx_ev_vcpu \<Rightarrow> vmx_ev_vcpu \<times> int" where
  "handle_nmi_window E v =
     (if \<not> enable_vnmi E then (v, - 5)
      else (ev_request (ev_hw_update (\<lambda>h. h\<lparr>nmi_window_exiting := False,
              window_exits := window_exits h + 1\<rparr>) v), 1))"

section \<open>Injection\<close>

definition vmx_clear_hlt :: "vmx_event_env \<Rightarrow> vmx_ev_vcpu \<Rightarrow> vmx_ev_vcpu" where
  "vmx_clear_hlt E v =
     (if kvm_hlt_in_guest E \<and> GUEST_ACTIVITY_STATE (ev_hw v) = 1
      then ev_hw_update (\<lambda>h. h\<lparr>GUEST_ACTIVITY_STATE := 0\<rparr>) v else v)"

definition vmx_inject_exception :: "vmx_event_env \<Rightarrow> vmx_ev_vcpu \<Rightarrow> vmx_ev_vcpu" where
  "vmx_inject_exception E v =
     (let vector = ex_vector (exception (ev_ex v));
          soft = kvm_exception_is_soft (event_queue_of E) vector;
          intr_info = vector OR INTR_INFO_VALID_MASK;
          v = v\<lparr>ev_ex := kvm_deliver_exception_payload (ev_ex v)\<rparr>;
          (v, intr_info) =
            (if has_error_code (exception (ev_ex v))
             then (ev_hw_update (\<lambda>h. h\<lparr>VM_ENTRY_EXCEPTION_ERROR_CODE :=
                     ucast (ucast (ex_error_code (exception (ev_ex v))) :: u16)\<rparr>) v,
                   intr_info OR INTR_INFO_DELIVER_CODE_MASK)
             else (v, intr_info))
      in if vm86_active (ev_hw v) then
           kvm_inject_realmode_interrupt E vector (if soft then event_exit_inst_len v else 0) v
         else
           let (v, intr_info) =
                 (if soft
                  then (ev_hw_update (\<lambda>h. h\<lparr>VM_ENTRY_INSTRUCTION_LEN := event_exit_inst_len v\<rparr>) v,
                        intr_info OR INTR_TYPE_SOFT_EXCEPTION)
                  else (v, intr_info OR INTR_TYPE_HARD_EXCEPTION))
           in vmx_clear_hlt E (ev_hw_update (\<lambda>h. h\<lparr>VM_ENTRY_INTR_INFO_FIELD := intr_info\<rparr>) v))"

definition vmx_inject_irq :: "vmx_event_env \<Rightarrow> vmx_ev_vcpu \<Rightarrow> bool \<Rightarrow> vmx_ev_vcpu" where
  "vmx_inject_irq E v reinjected =
     (let irq = ucast (irq_nr (interrupt v));
          v = ev_hw_update (\<lambda>h. h\<lparr>irq_injections := irq_injections h + 1\<rparr>) v
      in if vm86_active (ev_hw v) then
           kvm_inject_realmode_interrupt E irq
             (if irq_soft (interrupt v) then event_exit_inst_len v else 0) v
         else
           let intr = irq OR INTR_INFO_VALID_MASK;
               (v, intr) =
                 (if irq_soft (interrupt v)
                  then (ev_hw_update (\<lambda>h. h\<lparr>VM_ENTRY_INSTRUCTION_LEN := event_exit_inst_len v\<rparr>) v,
                        intr OR INTR_TYPE_SOFT_INTR)
                  else (v, intr OR INTR_TYPE_EXT_INTR))
           in vmx_clear_hlt E (ev_hw_update (\<lambda>h. h\<lparr>VM_ENTRY_INTR_INFO_FIELD := intr\<rparr>) v))"

definition vmx_inject_nmi :: "vmx_event_env \<Rightarrow> vmx_ev_vcpu \<Rightarrow> vmx_ev_vcpu" where
  "vmx_inject_nmi E v =
     (let v = (if \<not> enable_vnmi E
               then ev_hw_update (\<lambda>h. h\<lparr>soft_vnmi_blocked := True, vnmi_blocked_time := 0\<rparr>) v else v);
          v = ev_hw_update (\<lambda>h. h\<lparr>nmi_injections := nmi_injections h + 1, nmi_known_unmasked := False\<rparr>) v
      in if vm86_active (ev_hw v) then kvm_inject_realmode_interrupt E NMI_VECTOR 0 v
         else vmx_clear_hlt E (ev_hw_update (\<lambda>h. h\<lparr>VM_ENTRY_INTR_INFO_FIELD :=
                INTR_TYPE_NMI_INTR OR INTR_INFO_VALID_MASK OR NMI_VECTOR\<rparr>) v))"

section \<open>Taking back\<close>

text \<open>The function with two leading underscores; the fields are passed as they are read.\<close>

definition vmx_requeue_event :: "vmx_event_env \<Rightarrow> u32 \<Rightarrow> u32 \<Rightarrow> u32 \<Rightarrow> vmx_ev_vcpu \<Rightarrow> vmx_ev_vcpu" where
  "vmx_requeue_event E info instr_len error_code v =
     (let v = v\<lparr>nmi_injected := False\<rparr>;
          v = kvm_clear_exception_queue (event_queue_of E) v;
          v = kvm_clear_interrupt_queue (event_queue_of E) v
      in if info AND INTR_INFO_VALID_MASK = 0 then v
         else
           let v = ev_request v;
               vector = info AND INTR_INFO_VECTOR_MASK;
               kind = info AND INTR_INFO_INTR_TYPE_MASK
           in if kind = INTR_TYPE_NMI_INTR then vmx_set_nmi_mask E False (v\<lparr>nmi_injected := True\<rparr>)
              else if kind = INTR_TYPE_SOFT_EXCEPTION \<or> kind = INTR_TYPE_HARD_EXCEPTION then
                let v = (if kind = INTR_TYPE_SOFT_EXCEPTION then v\<lparr>event_exit_inst_len := instr_len\<rparr> else v)
                in v\<lparr>ev_ex := (if info AND INTR_INFO_DELIVER_CODE_MASK \<noteq> 0
                               then kvm_requeue_exception_e (is_vmexit E) (ev_ex v) vector error_code
                               else kvm_requeue_exception (is_vmexit E) (ev_ex v) vector)\<rparr>
              else if kind = INTR_TYPE_SOFT_INTR \<or> kind = INTR_TYPE_EXT_INTR then
                let v = (if kind = INTR_TYPE_SOFT_INTR then v\<lparr>event_exit_inst_len := instr_len\<rparr> else v)
                in kvm_queue_interrupt (event_queue_of E) (ucast vector) (kind = INTR_TYPE_SOFT_INTR) v
              else v)"

definition vmx_complete_interrupts :: "vmx_event_env \<Rightarrow> vmx_ev_vcpu \<Rightarrow> vmx_ev_vcpu" where
  "vmx_complete_interrupts E v =
     vmx_requeue_event E (idt_vectoring_info (ev_hw v)) (VM_EXIT_INSTRUCTION_LEN (ev_hw v))
       (IDT_VECTORING_ERROR_CODE (ev_hw v)) v"

definition vmx_cancel_injection :: "vmx_event_env \<Rightarrow> vmx_ev_vcpu \<Rightarrow> vmx_ev_vcpu" where
  "vmx_cancel_injection E v =
     ev_hw_update (\<lambda>h. h\<lparr>VM_ENTRY_INTR_INFO_FIELD := 0\<rparr>)
       (vmx_requeue_event E (VM_ENTRY_INTR_INFO_FIELD (ev_hw v)) (VM_ENTRY_INSTRUCTION_LEN (ev_hw v))
          (VM_ENTRY_EXCEPTION_ERROR_CODE (ev_hw v)) v)"

text \<open>\<open>elapsed\<close> is the time since the entry.\<close>

definition vmx_recover_nmi_blocking :: "vmx_event_env \<Rightarrow> u64 \<Rightarrow> vmx_ev_vcpu \<Rightarrow> vmx_ev_vcpu" where
  "vmx_recover_nmi_blocking E elapsed v =
     (let idtv_info_valid = (idt_vectoring_info (ev_hw v) AND INTR_INFO_VALID_MASK \<noteq> 0)
      in if enable_vnmi E then
           if nmi_known_unmasked (ev_hw v) then v
           else
             let info = exit_intr_info (ev_hw v);
                 unblock_nmi = (info AND INTR_INFO_UNBLOCK_NMI \<noteq> 0);
                 vector = info AND INTR_INFO_VECTOR_MASK
             in if info AND INTR_INFO_VALID_MASK \<noteq> 0 \<and> unblock_nmi \<and> vector \<noteq> DF_VECTOR \<and>
                   \<not> idtv_info_valid
                then ev_hw_update (\<lambda>h. h\<lparr>GUEST_INTERRUPTIBILITY_INFO :=
                       GUEST_INTERRUPTIBILITY_INFO h OR GUEST_INTR_STATE_NMI\<rparr>) v
                else ev_hw_update (\<lambda>h. h\<lparr>nmi_known_unmasked :=
                       (GUEST_INTERRUPTIBILITY_INFO h AND GUEST_INTR_STATE_NMI = 0)\<rparr>) v
         else if soft_vnmi_blocked (ev_hw v)
         then ev_hw_update (\<lambda>h. h\<lparr>vnmi_blocked_time := vnmi_blocked_time h + elapsed\<rparr>) v
         else v)"

text \<open>There is no virtual NMI of which the hardware keeps the pending one.\<close>

definition vmx_event_ops :: "vmx_event_env \<Rightarrow> vmx_ev event_ops" where
  "vmx_event_ops E = \<lparr>inject_exception = vmx_inject_exception E, inject_nmi = vmx_inject_nmi E,
     inject_irq = vmx_inject_irq E, smi_allowed = vmx_smi_allowed, nmi_allowed = vmx_nmi_allowed E,
     interrupt_allowed = vmx_interrupt_allowed E, enable_smi_window = vmx_enable_smi_window,
     enable_nmi_window = vmx_enable_nmi_window E, enable_irq_window = vmx_enable_irq_window,
     get_nmi_mask = vmx_get_nmi_mask E, set_nmi_mask = vmx_set_nmi_mask E,
     is_vnmi_pending = (\<lambda>_. False), set_vnmi_pending = (\<lambda>v. (False, v)),
     get_interrupt_shadow = vmx_get_interrupt_shadow, set_interrupt_shadow = vmx_set_interrupt_shadow,
     get_rflags = (\<lambda>v. guest_rflags (ev_hw v)),
     set_rflags = (\<lambda>f v. ev_hw_update (\<lambda>h. h\<lparr>guest_rflags := f\<rparr>) v),
     cancel_injection = vmx_cancel_injection E\<rparr>"

end
