(* ===== verification/Svm_Events.thy ===== *)
theory Svm_Events
  imports Kvm_Events
begin

unbundle bit_operations_syntax

text \<open>
  How \<open>svm.c\<close> puts an event into the VMCB for the next entry, takes back one that did not get
  through, and tells when NMIs and interrupts are blocked: by a flag and the interception of
  IRET, or by the virtual NMI of newer processors.
\<close>

section \<open>State\<close>

datatype svm_intercept = INTERCEPT_IRET | INTERCEPT_VINTR | INTERCEPT_STGI | INTERCEPT_CR8_WRITE

record svm_ev =
  event_inj :: u32
  event_inj_err :: u32
  exit_int_info :: u32
  exit_int_info_err :: u32
  vmcb_next_rip :: u64
  int_ctl :: u32
  int_vector :: u32
  int_state :: u32
  intercepts :: "svm_intercept set"
  vmcb_rflags :: u64
  cs_base :: u64
  rip :: u64
  svm_next_rip :: u64
  soft_int_injected :: bool
  soft_int_csbase :: u64
  soft_int_old_rip :: u64
  soft_int_next_rip :: u64
  nmi_l1_to_l2 :: bool
  nmi_masked :: bool
  awaiting_iret_completion :: bool
  nmi_iret_rip :: u64
  nmi_singlestep :: bool
  nmi_singlestep_guest_rflags :: u64
  svm_nested_run_pending :: bool
  nested_int_ctl :: u32
  nested_int_vector :: u32
  vmcb01_int_ctl :: u32
  vmcb01_rflags :: u64
  svm_irq_injections :: nat
  svm_nmi_injections :: nat
  svm_window_exits :: nat

type_synonym svm_ev_vcpu = "svm_ev ev_vcpu"

text \<open>
  Module parameters, features of the CPU, and functions of other files. Setting an intercept
  recomputes them all, in which nested virtualisation has a say.
\<close>

record svm_event_env =
  svm_event_queue :: "svm_ev event_queue"
  nrips :: bool
  cpu_has_nrips :: bool
  vgif :: bool
  sev_es_guest :: bool
  is_vnmi_enabled :: "svm_ev_vcpu \<Rightarrow> bool"
  gif_set :: "svm_ev_vcpu \<Rightarrow> bool"
  svm_set_intercept :: "svm_intercept \<Rightarrow> svm_intercept set \<Rightarrow> svm_intercept set"
  svm_clr_intercept :: "svm_intercept \<Rightarrow> svm_intercept set \<Rightarrow> svm_intercept set"
  svm_nested_exit_on_nmi :: "svm_ev_vcpu \<Rightarrow> bool"
  svm_nested_exit_on_intr :: "svm_ev_vcpu \<Rightarrow> bool"
  svm_nested_exit_on_smi :: "svm_ev_vcpu \<Rightarrow> bool"
  nested_svm_virtualize_tpr :: "svm_ev_vcpu \<Rightarrow> bool"
  svm_is_vmexit :: is_exception_vmexit
  kvm_is_linear_rip :: "u64 \<Rightarrow> svm_ev_vcpu \<Rightarrow> bool"
  kvm_emulate_skip :: "svm_ev_vcpu \<Rightarrow> svm_ev_vcpu \<times> bool"
  kvm_set_apicv_inhibit :: "svm_ev_vcpu \<Rightarrow> svm_ev_vcpu"
  kvm_clear_apicv_inhibit :: "svm_ev_vcpu \<Rightarrow> svm_ev_vcpu"

abbreviation SVM_EVTINJ_VEC_MASK :: u32 where "SVM_EVTINJ_VEC_MASK \<equiv> 0xff"
abbreviation SVM_EVTINJ_TYPE_MASK :: u32 where "SVM_EVTINJ_TYPE_MASK \<equiv> 0x700"
abbreviation SVM_EVTINJ_TYPE_INTR :: u32 where "SVM_EVTINJ_TYPE_INTR \<equiv> 0x000"
abbreviation SVM_EVTINJ_TYPE_NMI :: u32 where "SVM_EVTINJ_TYPE_NMI \<equiv> 0x200"
abbreviation SVM_EVTINJ_TYPE_EXEPT :: u32 where "SVM_EVTINJ_TYPE_EXEPT \<equiv> 0x300"
abbreviation SVM_EVTINJ_TYPE_SOFT :: u32 where "SVM_EVTINJ_TYPE_SOFT \<equiv> 0x400"
abbreviation SVM_EVTINJ_VALID :: u32 where "SVM_EVTINJ_VALID \<equiv> 0x80000000"
abbreviation SVM_EVTINJ_VALID_ERR :: u32 where "SVM_EVTINJ_VALID_ERR \<equiv> 0x800"
abbreviation X86_TRAP_VC :: u32 where "X86_TRAP_VC \<equiv> 29"
abbreviation SVM_INTERRUPT_SHADOW_MASK :: u32 where "SVM_INTERRUPT_SHADOW_MASK \<equiv> 1"
abbreviation SVM_GUEST_INTERRUPT_MASK :: u32 where "SVM_GUEST_INTERRUPT_MASK \<equiv> 2"
abbreviation V_IRQ_MASK :: u32 where "V_IRQ_MASK \<equiv> 0x100"
abbreviation V_NMI_PENDING_MASK :: u32 where "V_NMI_PENDING_MASK \<equiv> 0x800"
abbreviation V_NMI_BLOCKING_MASK :: u32 where "V_NMI_BLOCKING_MASK \<equiv> 0x1000"
abbreviation V_INTR_PRIO_MASK :: u32 where "V_INTR_PRIO_MASK \<equiv> 0xf0000"
abbreviation V_IGN_TPR_MASK :: u32 where "V_IGN_TPR_MASK \<equiv> 0x100000"
abbreviation V_INTR_MASKING_MASK :: u32 where "V_INTR_MASKING_MASK \<equiv> 0x1000000"
abbreviation V_IRQ_INJECTION_BITS_MASK :: u32 where
  "V_IRQ_INJECTION_BITS_MASK \<equiv> V_IRQ_MASK OR V_INTR_PRIO_MASK OR V_IGN_TPR_MASK"
abbreviation KVM_X86_SHADOW_BOTH :: u32 where "KVM_X86_SHADOW_BOTH \<equiv> 3"
abbreviation EFLAGS_IF :: u64 where "EFLAGS_IF \<equiv> 0x200"

section \<open>Flags and blocking\<close>

text \<open>The common code hides TF from these flags while it is debugged, which IF does not show.\<close>

definition svm_get_rflags :: "svm_ev_vcpu \<Rightarrow> u64" where
  "svm_get_rflags v =
     (let rflags = vmcb_rflags (ev_hw v)
      in if nmi_singlestep (ev_hw v) then
           let g = nmi_singlestep_guest_rflags (ev_hw v);
               rflags = (if g AND X86_EFLAGS_TF = 0 then rflags AND NOT X86_EFLAGS_TF else rflags)
           in if g AND X86_EFLAGS_RF = 0 then rflags AND NOT X86_EFLAGS_RF else rflags
         else rflags)"

definition svm_set_rflags :: "u64 \<Rightarrow> svm_ev_vcpu \<Rightarrow> svm_ev_vcpu" where
  "svm_set_rflags rflags v =
     ev_hw_update (\<lambda>h. h\<lparr>vmcb_rflags :=
       (if nmi_singlestep h then rflags OR (X86_EFLAGS_TF OR X86_EFLAGS_RF) else rflags)\<rparr>) v"

definition svm_get_interrupt_shadow :: "svm_ev_vcpu \<Rightarrow> u32" where
  "svm_get_interrupt_shadow v =
     (if int_state (ev_hw v) AND SVM_INTERRUPT_SHADOW_MASK \<noteq> 0 then KVM_X86_SHADOW_BOTH else 0)"

definition svm_set_interrupt_shadow :: "u32 \<Rightarrow> svm_ev_vcpu \<Rightarrow> svm_ev_vcpu" where
  "svm_set_interrupt_shadow m v =
     ev_hw_update (\<lambda>h. h\<lparr>int_state :=
       (if m = 0 then int_state h AND NOT SVM_INTERRUPT_SHADOW_MASK
        else int_state h OR SVM_INTERRUPT_SHADOW_MASK)\<rparr>) v"

definition svm_set_iret_intercept :: "svm_event_env \<Rightarrow> svm_ev_vcpu \<Rightarrow> svm_ev_vcpu" where
  "svm_set_iret_intercept E v =
     (if \<not> sev_es_guest E
      then ev_hw_update (\<lambda>h. h\<lparr>intercepts := svm_set_intercept E INTERCEPT_IRET (intercepts h)\<rparr>) v else v)"

definition svm_clr_iret_intercept :: "svm_event_env \<Rightarrow> svm_ev_vcpu \<Rightarrow> svm_ev_vcpu" where
  "svm_clr_iret_intercept E v =
     (if \<not> sev_es_guest E
      then ev_hw_update (\<lambda>h. h\<lparr>intercepts := svm_clr_intercept E INTERCEPT_IRET (intercepts h)\<rparr>) v else v)"

definition svm_get_nmi_mask :: "svm_event_env \<Rightarrow> svm_ev_vcpu \<Rightarrow> bool" where
  "svm_get_nmi_mask E v =
     (if is_vnmi_enabled E v then int_ctl (ev_hw v) AND V_NMI_BLOCKING_MASK \<noteq> 0
      else nmi_masked (ev_hw v))"

definition svm_set_nmi_mask :: "svm_event_env \<Rightarrow> bool \<Rightarrow> svm_ev_vcpu \<Rightarrow> svm_ev_vcpu" where
  "svm_set_nmi_mask E masked v =
     (if is_vnmi_enabled E v then
        ev_hw_update (\<lambda>h. h\<lparr>int_ctl := (if masked then int_ctl h OR V_NMI_BLOCKING_MASK
                                       else int_ctl h AND NOT V_NMI_BLOCKING_MASK)\<rparr>) v
      else
        let v = ev_hw_update (\<lambda>h. h\<lparr>nmi_masked := masked\<rparr>) v
        in if masked then svm_set_iret_intercept E v else svm_clr_iret_intercept E v)"

definition svm_nmi_blocked :: "svm_event_env \<Rightarrow> svm_ev_vcpu \<Rightarrow> bool" where
  "svm_nmi_blocked E v =
     (if \<not> gif_set E v then True
      else if guest_mode (ev_ex v) \<and> svm_nested_exit_on_nmi E v then False
      else if svm_get_nmi_mask E v then True
      else int_state (ev_hw v) AND SVM_INTERRUPT_SHADOW_MASK \<noteq> 0)"

definition svm_nmi_allowed :: "svm_event_env \<Rightarrow> svm_ev_vcpu \<Rightarrow> bool \<Rightarrow> int" where
  "svm_nmi_allowed E v for_injection =
     (if svm_nested_run_pending (ev_hw v) then - EBUSY
      else if svm_nmi_blocked E v then 0
      else if for_injection \<and> guest_mode (ev_ex v) \<and> svm_nested_exit_on_nmi E v then - EBUSY
      else 1)"

definition svm_get_if_flag :: "svm_event_env \<Rightarrow> svm_ev_vcpu \<Rightarrow> bool" where
  "svm_get_if_flag E v =
     (if sev_es_guest E then int_state (ev_hw v) AND SVM_GUEST_INTERRUPT_MASK \<noteq> 0
      else svm_get_rflags v AND EFLAGS_IF \<noteq> 0)"

definition svm_interrupt_blocked :: "svm_event_env \<Rightarrow> svm_ev_vcpu \<Rightarrow> bool" where
  "svm_interrupt_blocked E v =
     (let shadow = (int_state (ev_hw v) AND SVM_INTERRUPT_SHADOW_MASK \<noteq> 0)
      in if \<not> gif_set E v then True
         else if guest_mode (ev_ex v) then
           if (if nested_int_ctl (ev_hw v) AND V_INTR_MASKING_MASK \<noteq> 0
               then vmcb01_rflags (ev_hw v) AND EFLAGS_IF = 0
               else svm_get_rflags v AND EFLAGS_IF = 0) then True
           else if svm_nested_exit_on_intr E v then False
           else shadow
         else if \<not> svm_get_if_flag E v then True
         else shadow)"

definition svm_interrupt_allowed :: "svm_event_env \<Rightarrow> svm_ev_vcpu \<Rightarrow> bool \<Rightarrow> int" where
  "svm_interrupt_allowed E v for_injection =
     (if svm_nested_run_pending (ev_hw v) then - EBUSY
      else if svm_interrupt_blocked E v then 0
      else if for_injection \<and> guest_mode (ev_ex v) \<and> svm_nested_exit_on_intr E v then - EBUSY
      else 1)"

definition svm_smi_blocked :: "svm_event_env \<Rightarrow> svm_ev_vcpu \<Rightarrow> bool" where
  "svm_smi_blocked E v = (if \<not> gif_set E v then True else in_smm v)"

definition svm_smi_allowed :: "svm_event_env \<Rightarrow> svm_ev_vcpu \<Rightarrow> bool \<Rightarrow> int" where
  "svm_smi_allowed E v for_injection =
     (if svm_nested_run_pending (ev_hw v) then - EBUSY
      else if svm_smi_blocked E v then 0
      else if for_injection \<and> guest_mode (ev_ex v) \<and> svm_nested_exit_on_smi E v then - EBUSY
      else 1)"

definition svm_update_cr8_intercept :: "svm_event_env \<Rightarrow> int \<Rightarrow> int \<Rightarrow> svm_ev_vcpu \<Rightarrow> svm_ev_vcpu" where
  "svm_update_cr8_intercept E tpr irr v =
     (if sev_es_guest E \<or> nested_svm_virtualize_tpr E v then v
      else
        let v = ev_hw_update (\<lambda>h. h\<lparr>intercepts := svm_clr_intercept E INTERCEPT_CR8_WRITE (intercepts h)\<rparr>) v
        in if irr = - 1 then v
           else if tpr \<ge> irr
           then ev_hw_update (\<lambda>h. h\<lparr>intercepts := svm_set_intercept E INTERCEPT_CR8_WRITE (intercepts h)\<rparr>) v
           else v)"

section \<open>Windows\<close>

definition svm_set_vintr :: "svm_event_env \<Rightarrow> svm_ev_vcpu \<Rightarrow> svm_ev_vcpu" where
  "svm_set_vintr E v =
     (let v = ev_hw_update (\<lambda>h. h\<lparr>intercepts := svm_set_intercept E INTERCEPT_VINTR (intercepts h)\<rparr>) v
      in if INTERCEPT_VINTR \<notin> intercepts (ev_hw v) then v
         else ev_hw_update (\<lambda>h. h\<lparr>int_vector := 0,
                int_ctl := (int_ctl h AND NOT V_INTR_PRIO_MASK) OR (V_IRQ_MASK OR V_INTR_PRIO_MASK)\<rparr>) v)"

definition svm_clear_vintr :: "svm_event_env \<Rightarrow> svm_ev_vcpu \<Rightarrow> svm_ev_vcpu" where
  "svm_clear_vintr E v =
     (let v = ev_hw_update (\<lambda>h. h\<lparr>intercepts := svm_clr_intercept E INTERCEPT_VINTR (intercepts h),
                int_ctl := int_ctl h AND NOT V_IRQ_INJECTION_BITS_MASK\<rparr>) v
      in if guest_mode (ev_ex v)
         then ev_hw_update (\<lambda>h. h\<lparr>vmcb01_int_ctl := vmcb01_int_ctl h AND NOT V_IRQ_INJECTION_BITS_MASK,
                int_ctl := int_ctl h OR (nested_int_ctl h AND V_IRQ_INJECTION_BITS_MASK),
                int_vector := nested_int_vector h\<rparr>) v
         else v)"

definition svm_enable_irq_window :: "svm_event_env \<Rightarrow> svm_ev_vcpu \<Rightarrow> svm_ev_vcpu" where
  "svm_enable_irq_window E v =
     (if vgif E \<or> gif_set E v
      then svm_set_vintr E (if \<not> guest_mode (ev_ex v) then kvm_set_apicv_inhibit E v else v)
      else v)"

definition svm_stgi_window :: "svm_event_env \<Rightarrow> svm_ev_vcpu \<Rightarrow> svm_ev_vcpu" where
  "svm_stgi_window E v =
     (if vgif E then ev_hw_update (\<lambda>h. h\<lparr>intercepts := svm_set_intercept E INTERCEPT_STGI (intercepts h)\<rparr>) v
      else v)"

definition svm_enable_nmi_window :: "svm_event_env \<Rightarrow> svm_ev_vcpu \<Rightarrow> svm_ev_vcpu" where
  "svm_enable_nmi_window E v =
     (if svm_get_nmi_mask E v \<and> \<not> awaiting_iret_completion (ev_hw v) then v
      else if sev_es_guest E then v
      else if \<not> gif_set E v then svm_stgi_window E v
      else ev_hw_update (\<lambda>h. h\<lparr>nmi_singlestep_guest_rflags := svm_get_rflags v, nmi_singlestep := True,
             vmcb_rflags := vmcb_rflags h OR (X86_EFLAGS_TF OR X86_EFLAGS_RF)\<rparr>) v)"

definition svm_enable_smi_window :: "svm_event_env \<Rightarrow> svm_ev_vcpu \<Rightarrow> svm_ev_vcpu" where
  "svm_enable_smi_window E v = (if \<not> gif_set E v then svm_stgi_window E v else v)"

definition iret_interception :: "svm_event_env \<Rightarrow> svm_ev_vcpu \<Rightarrow> svm_ev_vcpu \<times> int" where
  "iret_interception E v =
     (let v = ev_hw_update (\<lambda>h. h\<lparr>svm_window_exits := svm_window_exits h + 1,
                awaiting_iret_completion := True\<rparr>) v;
          v = svm_clr_iret_intercept E v;
          v = ev_hw_update (\<lambda>h. h\<lparr>nmi_iret_rip := rip h\<rparr>) v
      in (ev_request v, 1))"

definition interrupt_window_interception :: "svm_event_env \<Rightarrow> svm_ev_vcpu \<Rightarrow> svm_ev_vcpu \<times> int" where
  "interrupt_window_interception E v =
     (let v = kvm_clear_apicv_inhibit E (svm_clear_vintr E (ev_request v))
      in (ev_hw_update (\<lambda>h. h\<lparr>svm_window_exits := svm_window_exits h + 1\<rparr>) v, 1))"

section \<open>Virtual NMIs\<close>

definition svm_is_vnmi_pending :: "svm_event_env \<Rightarrow> svm_ev_vcpu \<Rightarrow> bool" where
  "svm_is_vnmi_pending E v =
     (is_vnmi_enabled E v \<and> int_ctl (ev_hw v) AND V_NMI_PENDING_MASK \<noteq> 0)"

definition svm_set_vnmi_pending :: "svm_event_env \<Rightarrow> svm_ev_vcpu \<Rightarrow> bool \<times> svm_ev_vcpu" where
  "svm_set_vnmi_pending E v =
     (if \<not> is_vnmi_enabled E v then (False, v)
      else if int_ctl (ev_hw v) AND V_NMI_PENDING_MASK \<noteq> 0 then (False, v)
      else (True, ev_hw_update (\<lambda>h. h\<lparr>int_ctl := int_ctl h OR V_NMI_PENDING_MASK,
              svm_nmi_injections := svm_nmi_injections h + 1\<rparr>) v))"

section \<open>Injection\<close>

text \<open>The function with two leading underscores, with its result. The emulator may change state.\<close>

definition svm_skip_instruction :: "svm_event_env \<Rightarrow> bool \<Rightarrow> svm_ev_vcpu \<Rightarrow> svm_ev_vcpu \<times> bool" where
  "svm_skip_instruction E commit_side_effects v =
     (let finish = (\<lambda>v. (if commit_side_effects then svm_set_interrupt_shadow 0 v else v, True))
      in if sev_es_guest E then finish v
         else
           let v = (if nrips E \<and> vmcb_next_rip (ev_hw v) \<noteq> 0
                    then ev_hw_update (\<lambda>h. h\<lparr>svm_next_rip := vmcb_next_rip h\<rparr>) v else v)
           in if svm_next_rip (ev_hw v) = 0 then
                let old_rflags = vmcb_rflags (ev_hw v);
                    (v, ok) = kvm_emulate_skip E v
                in if \<not> ok then (v, False)
                   else finish (if \<not> commit_side_effects
                                then ev_hw_update (\<lambda>h. h\<lparr>vmcb_rflags := old_rflags\<rparr>) v else v)
              else finish (ev_hw_update (\<lambda>h. h\<lparr>rip := svm_next_rip h\<rparr>) v))"

definition svm_skip_emulated_instruction :: "svm_event_env \<Rightarrow> svm_ev_vcpu \<Rightarrow> svm_ev_vcpu \<times> bool" where
  "svm_skip_emulated_instruction E v = svm_skip_instruction E True v"

text \<open>\<open>False\<close> is the error.\<close>

definition svm_update_soft_interrupt_rip :: "svm_event_env \<Rightarrow> svm_ev_vcpu \<Rightarrow> svm_ev_vcpu \<times> bool" where
  "svm_update_soft_interrupt_rip E v =
     (let old_rip = rip (ev_hw v);
          (v, ok) = svm_skip_instruction E (\<not> nrips E) v
      in if \<not> ok then (v, False)
         else
           let rip' = rip (ev_hw v);
               v = ev_hw_update (\<lambda>h. h\<lparr>soft_int_injected := True, soft_int_csbase := cs_base h,
                     soft_int_old_rip := old_rip, soft_int_next_rip := rip'\<rparr>) v;
               v = (if nrips E then ev_hw_update (\<lambda>h. h\<lparr>rip := old_rip\<rparr>) v else v)
           in (if cpu_has_nrips E then ev_hw_update (\<lambda>h. h\<lparr>vmcb_next_rip := rip'\<rparr>) v else v, True))"

text \<open>An event that cannot be prepared is dropped.\<close>

definition svm_inject_exception :: "svm_event_env \<Rightarrow> svm_ev_vcpu \<Rightarrow> svm_ev_vcpu" where
  "svm_inject_exception E v =
     (let v = v\<lparr>ev_ex := kvm_deliver_exception_payload (ev_ex v)\<rparr>;
          x = exception (ev_ex v);
          (v, ok) = (if kvm_exception_is_soft (svm_event_queue E) (ex_vector x)
                     then svm_update_soft_interrupt_rip E v else (v, True))
      in if \<not> ok then v
         else ev_hw_update (\<lambda>h. h\<lparr>event_inj := ex_vector x OR SVM_EVTINJ_VALID OR
                (if has_error_code x then SVM_EVTINJ_VALID_ERR else 0) OR SVM_EVTINJ_TYPE_EXEPT,
              event_inj_err := ex_error_code x\<rparr>) v)"

definition svm_inject_irq :: "svm_event_env \<Rightarrow> svm_ev_vcpu \<Rightarrow> bool \<Rightarrow> svm_ev_vcpu" where
  "svm_inject_irq E v reinjected =
     (let q = interrupt v;
          (v, ok) = (if irq_soft q then svm_update_soft_interrupt_rip E v else (v, True))
      in if \<not> ok then v
         else ev_hw_update (\<lambda>h. h\<lparr>svm_irq_injections := svm_irq_injections h + 1,
                event_inj := ucast (irq_nr q) OR SVM_EVTINJ_VALID OR
                  (if irq_soft q then SVM_EVTINJ_TYPE_SOFT else SVM_EVTINJ_TYPE_INTR)\<rparr>) v)"

definition svm_inject_nmi :: "svm_event_env \<Rightarrow> svm_ev_vcpu \<Rightarrow> svm_ev_vcpu" where
  "svm_inject_nmi E v =
     (let v = ev_hw_update (\<lambda>h. h\<lparr>event_inj := SVM_EVTINJ_VALID OR SVM_EVTINJ_TYPE_NMI\<rparr>) v
      in if nmi_l1_to_l2 (ev_hw v) then v
         else
           let v = (if \<not> is_vnmi_enabled E v
                    then svm_set_iret_intercept E (ev_hw_update (\<lambda>h. h\<lparr>nmi_masked := True\<rparr>) v) else v)
           in ev_hw_update (\<lambda>h. h\<lparr>svm_nmi_injections := svm_nmi_injections h + 1\<rparr>) v)"

section \<open>Taking back\<close>

definition svm_complete_soft_interrupt :: "svm_event_env \<Rightarrow> u32 \<Rightarrow> u32 \<Rightarrow> svm_ev_vcpu \<Rightarrow> svm_ev_vcpu" where
  "svm_complete_soft_interrupt E vector kind v =
     (let is_exception = (kind = SVM_EVTINJ_TYPE_EXEPT);
          is_soft = (kind = SVM_EVTINJ_TYPE_SOFT)
      in if nrips E \<and> (is_soft \<or> is_exception \<and> kvm_exception_is_soft (svm_event_queue E) vector) \<and>
            kvm_is_linear_rip E (soft_int_old_rip (ev_hw v) + soft_int_csbase (ev_hw v)) v
         then ev_hw_update (\<lambda>h. h\<lparr>vmcb_next_rip := soft_int_next_rip h\<rparr>) v
         else if \<not> nrips E \<and> (is_soft \<or> is_exception) \<and>
            kvm_is_linear_rip E (soft_int_next_rip (ev_hw v) + soft_int_csbase (ev_hw v)) v
         then ev_hw_update (\<lambda>h. h\<lparr>rip := soft_int_old_rip h\<rparr>) v
         else v)"

definition svm_clear_events :: "svm_event_env \<Rightarrow> svm_ev_vcpu \<Rightarrow> svm_ev_vcpu" where
  "svm_clear_events E v =
     (let v = ev_hw_update (\<lambda>h. h\<lparr>nmi_l1_to_l2 := False, soft_int_injected := False\<rparr>) v;
          v = (if awaiting_iret_completion (ev_hw v) \<and> rip (ev_hw v) \<noteq> nmi_iret_rip (ev_hw v)
               then ev_request (ev_hw_update (\<lambda>h. h\<lparr>awaiting_iret_completion := False,
                      nmi_masked := False\<rparr>) v)
               else v);
          v = v\<lparr>nmi_injected := False\<rparr>;
          v = kvm_clear_exception_queue (svm_event_queue E) v
      in kvm_clear_interrupt_queue (svm_event_queue E) v)"

definition svm_requeue_event :: "svm_event_env \<Rightarrow> u32 \<Rightarrow> bool \<Rightarrow> bool \<Rightarrow> svm_ev_vcpu \<Rightarrow> svm_ev_vcpu" where
  "svm_requeue_event E exitintinfo from_l1 soft_int v =
     (if exitintinfo AND SVM_EVTINJ_VALID = 0 then v
      else
        let v = ev_request v;
            vector = exitintinfo AND SVM_EVTINJ_VEC_MASK;
            kind = exitintinfo AND SVM_EVTINJ_TYPE_MASK;
            v = (if soft_int then svm_complete_soft_interrupt E vector kind v else v)
        in if kind = SVM_EVTINJ_TYPE_NMI
           then ev_hw_update (\<lambda>h. h\<lparr>nmi_l1_to_l2 := from_l1\<rparr>) (v\<lparr>nmi_injected := True\<rparr>)
           else if kind = SVM_EVTINJ_TYPE_EXEPT then
             if vector = X86_TRAP_VC then v
             else v\<lparr>ev_ex := (if exitintinfo AND SVM_EVTINJ_VALID_ERR \<noteq> 0
                  then kvm_requeue_exception_e (svm_is_vmexit E) (ev_ex v) vector (exit_int_info_err (ev_hw v))
                  else kvm_requeue_exception (svm_is_vmexit E) (ev_ex v) vector)\<rparr>
           else if kind = SVM_EVTINJ_TYPE_INTR
           then kvm_queue_interrupt (svm_event_queue E) (ucast vector) False v
           else if kind = SVM_EVTINJ_TYPE_SOFT
           then kvm_queue_interrupt (svm_event_queue E) (ucast vector) True v
           else v)"

definition svm_complete_interrupts :: "svm_event_env \<Rightarrow> svm_ev_vcpu \<Rightarrow> svm_ev_vcpu" where
  "svm_complete_interrupts E v =
     svm_requeue_event E (exit_int_info (ev_hw v)) (nmi_l1_to_l2 (ev_hw v)) (soft_int_injected (ev_hw v))
       (svm_clear_events E v)"

definition svm_cancel_injection :: "svm_event_env \<Rightarrow> svm_ev_vcpu \<Rightarrow> svm_ev_vcpu" where
  "svm_cancel_injection E v =
     svm_complete_interrupts E (ev_hw_update (\<lambda>h. h\<lparr>exit_int_info := event_inj h,
       exit_int_info_err := event_inj_err h, event_inj := 0\<rparr>) v)"

definition svm_event_ops :: "svm_event_env \<Rightarrow> svm_ev event_ops" where
  "svm_event_ops E = \<lparr>inject_exception = svm_inject_exception E, inject_nmi = svm_inject_nmi E,
     inject_irq = svm_inject_irq E, smi_allowed = svm_smi_allowed E, nmi_allowed = svm_nmi_allowed E,
     interrupt_allowed = svm_interrupt_allowed E, enable_smi_window = svm_enable_smi_window E,
     enable_nmi_window = svm_enable_nmi_window E, enable_irq_window = svm_enable_irq_window E,
     get_nmi_mask = (\<lambda>v. (svm_get_nmi_mask E v, v)), set_nmi_mask = svm_set_nmi_mask E,
     is_vnmi_pending = svm_is_vnmi_pending E, set_vnmi_pending = svm_set_vnmi_pending E,
     get_interrupt_shadow = svm_get_interrupt_shadow, set_interrupt_shadow = svm_set_interrupt_shadow,
     get_rflags = svm_get_rflags, set_rflags = svm_set_rflags,
     cancel_injection = svm_cancel_injection E\<rparr>"

end
