(* ===== verification/Kvm_Events_Props.thy ===== *)
theory Kvm_Events_Props
  imports Vmx_Events Svm_Events
begin

text \<open>
  No event is lost on its way into the guest. The callbacks of the vendors are the locale
  \<open>event_vendor\<close>, interpreted on those of \<open>vmx.c\<close> and \<open>svm.c\<close>.
\<close>

section \<open>The interface\<close>

text \<open>The events a vCPU has taken up for injection: exception with error code, NMI, interrupt.\<close>

definition queued_events ::
  "'h ev_vcpu \<Rightarrow> (u32 \<times> u32 option) option \<times> bool \<times> (8 word \<times> bool) option" where
  "queued_events v =
     (let x = exception (ev_ex v) in
      (if injected x then Some (ex_vector x, if has_error_code x then Some (ex_error_code x) else None)
       else None,
       nmi_injected v,
       if irq_injected (interrupt v) then Some (irq_nr (interrupt v), irq_soft (interrupt v)) else None))"

text \<open>A callback that, on hardware that is ready, changes the vendor's state only.\<close>

definition hw_only :: "('h \<Rightarrow> bool) \<Rightarrow> ('h ev_vcpu \<Rightarrow> 'h ev_vcpu) \<Rightarrow> bool" where
  "hw_only ready f \<longleftrightarrow>
     (\<forall>v. ready (ev_hw v) \<longrightarrow> f v = v\<lparr>ev_hw := ev_hw (f v)\<rparr> \<and> ready (ev_hw (f v)))"

locale event_vendor =
  fixes Q :: "'h event_queue" and ops :: "'h event_ops" and trunc :: "u32 \<Rightarrow> u32"
    and ready :: "'h \<Rightarrow> bool"
  assumes nmi_hw_only: "hw_only ready (inject_nmi ops)"
    and irq_hw_only: "hw_only ready (\<lambda>v. inject_irq ops v again)"
    and rflags_hw_only: "hw_only ready (set_rflags ops f)"
    and windows_hw_only: "hw_only ready (enable_smi_window ops)" "hw_only ready (enable_nmi_window ops)"
      "hw_only ready (enable_irq_window ops)"
    and exception_hw_only:
      "ready (ev_hw v) \<Longrightarrow> inject_exception ops v = v\<lparr>ev_ex := kvm_deliver_exception_payload (ev_ex v),
         ev_hw := ev_hw (inject_exception ops v)\<rparr> \<and> ready (ev_hw (inject_exception ops v))"
    and cancel_exception: "event_queue_contract Q \<Longrightarrow> ready (ev_hw v) \<Longrightarrow>
      ex_vector (exception (ev_ex v)) < 256 \<Longrightarrow> ex_vector (exception (ev_ex v)) \<noteq> X86_TRAP_VC \<Longrightarrow>
      queued_events (cancel_injection ops (inject_exception ops v)) =
        (Some (ex_vector (exception (ev_ex v)),
           if has_error_code (exception (ev_ex v)) then Some (trunc (ex_error_code (exception (ev_ex v))))
           else None), False, None)"
    and cancel_nmi: "event_queue_contract Q \<Longrightarrow> ready (ev_hw v) \<Longrightarrow>
      queued_events (cancel_injection ops (inject_nmi ops v)) = (None, True, None)"
    and cancel_irq: "event_queue_contract Q \<Longrightarrow> ready (ev_hw v) \<Longrightarrow>
      queued_events (cancel_injection ops (inject_irq ops v again)) =
        (None, False, Some (irq_nr (interrupt v), irq_soft (interrupt v)))"
    and shadow_hw: "set_interrupt_shadow ops m v = v\<lparr>ev_hw := ev_hw (set_interrupt_shadow ops m v)\<rparr>"
    and set_mask_hw: "set_nmi_mask ops masked v = v\<lparr>ev_hw := ev_hw (set_nmi_mask ops masked v)\<rparr>"
    and get_mask_hw: "snd (get_nmi_mask ops v) = v\<lparr>ev_hw := ev_hw (snd (get_nmi_mask ops v))\<rparr>"
    and vnmi_hw: "snd (set_vnmi_pending ops v) = v\<lparr>ev_hw := ev_hw (snd (set_vnmi_pending ops v))\<rparr>"

section \<open>The vendors\<close>

lemma low_byte:
  fixes n :: u32
  assumes "n < 256"
  shows "n AND 0xff = n" "n AND 0x700 = 0" "n AND 0x800 = 0" "n AND 0x80000000 = 0"
proof -
  have "unat n < 2 ^ 8" using assms by (simp add: word_less_nat_alt)
  then have "take_bit 8 n = n"
    by (simp add: word_unat_eq_iff unsigned_take_bit_eq take_bit_nat_eq_self)
  then have m: "n AND 0xff = n" by (simp add: take_bit_eq_mask mask_eq_exp_minus_1)
  then show "n AND 0xff = n" .
  have other: "n AND j = n AND (0xff AND j)" for j
    by (subst m [symmetric]) (simp only: and.assoc)
  show "n AND 0x700 = 0" "n AND 0x800 = 0" "n AND 0x80000000 = 0" by (subst other, simp)+
qed

lemma byte_small: "ucast (b :: 8 word) < (256 :: u32)"
proof -
  have b: "unat b < 256" using unsigned_less [of b] by simp
  then have "unat (ucast b :: u32) = unat b"
    using take_bit_nat_eq_self [of "unat b" 32] by (simp add: unsigned_ucast_eq)
  then show ?thesis using b by (simp add: word_less_nat_alt)
qed

lemma byte_back: "ucast (ucast (b :: 8 word) :: u32) = b"
  by transfer simp

text \<open>The fields of interruption information, whatever is put together in it.\<close>

lemmas info_fields = bit.conj_disj_distrib2 low_byte

lemma requeued:
  assumes "\<not> pending (exception x)" "\<not> injected (exception x)"
  shows "exception (kvm_requeue_exception_e vm x nr err) =
      \<lparr>pending = False, injected = True, has_error_code = True, ex_vector = nr, ex_error_code = err,
       ex_payload = 0, has_payload = False\<rparr>"
    and "exception (kvm_requeue_exception vm x nr) =
      \<lparr>pending = False, injected = True, has_error_code = False, ex_vector = nr, ex_error_code = 0,
       ex_payload = 0, has_payload = False\<rparr>"
  using assms
  by (simp_all add: kvm_requeue_exception_e_def kvm_requeue_exception_def kvm_multiple_exception.simps
      exception_queued_def queue_exception_def kvm_deliver_exception_payload_def Let_def)

subsection \<open>VMX\<close>

lemma vmx_clear_hlt:
  "vm86_active (ev_hw (vmx_clear_hlt E v)) = vm86_active (ev_hw v)"
  "VM_ENTRY_INTR_INFO_FIELD (ev_hw (vmx_clear_hlt E v)) = VM_ENTRY_INTR_INFO_FIELD (ev_hw v)"
  "VM_ENTRY_EXCEPTION_ERROR_CODE (ev_hw (vmx_clear_hlt E v)) = VM_ENTRY_EXCEPTION_ERROR_CODE (ev_hw v)"
  "interrupt (vmx_clear_hlt E v) = interrupt v"
  by (simp_all add: vmx_clear_hlt_def)

text \<open>What an event taken back is, by its information.\<close>

lemma vmx_requeue:
  assumes "event_queue_contract (event_queue_of E)" "info AND INTR_INFO_VALID_MASK \<noteq> 0"
  shows "queued_events (vmx_requeue_event E info l err v) =
    (let vector = info AND 0xff; kind = info AND 0x700 in
     if kind = INTR_TYPE_NMI_INTR then (None, True, None)
     else if kind = INTR_TYPE_SOFT_EXCEPTION \<or> kind = INTR_TYPE_HARD_EXCEPTION
     then (Some (vector, if info AND INTR_INFO_DELIVER_CODE_MASK \<noteq> 0 then Some err else None), False, None)
     else if kind = INTR_TYPE_SOFT_INTR \<or> kind = INTR_TYPE_EXT_INTR
     then (None, False, Some (ucast vector, kind = INTR_TYPE_SOFT_INTR))
     else (None, False, None))"
  using assms
  by (simp add: vmx_requeue_event_def event_queue_contract_def queued_events_def Let_def requeued
      ev_request_def vmx_set_nmi_mask_def)

lemma vmx_cancel:
  "queued_events (vmx_cancel_injection E v) =
     queued_events (vmx_requeue_event E (VM_ENTRY_INTR_INFO_FIELD (ev_hw v))
       (VM_ENTRY_INSTRUCTION_LEN (ev_hw v)) (VM_ENTRY_EXCEPTION_ERROR_CODE (ev_hw v)) v)"
  by (simp add: vmx_cancel_injection_def queued_events_def Let_def)

interpretation vmx_events: event_vendor "event_queue_of E" "vmx_event_ops E"
  "\<lambda>err. ucast (ucast err :: u16)" "\<lambda>h. \<not> vm86_active h" for E
proof unfold_locales
  show "hw_only (\<lambda>h. \<not> vm86_active h) (inject_nmi (vmx_event_ops E))"
    by (simp add: hw_only_def vmx_event_ops_def vmx_inject_nmi_def vmx_clear_hlt_def Let_def)
  show "hw_only (\<lambda>h. \<not> vm86_active h) (\<lambda>v. inject_irq (vmx_event_ops E) v again)" for again
    by (simp add: hw_only_def vmx_event_ops_def vmx_inject_irq_def vmx_clear_hlt_def Let_def)
  show "hw_only (\<lambda>h. \<not> vm86_active h) (set_rflags (vmx_event_ops E) f)" for f
    by (simp add: hw_only_def vmx_event_ops_def)
  show "hw_only (\<lambda>h. \<not> vm86_active h) (enable_smi_window (vmx_event_ops E))"
    "hw_only (\<lambda>h. \<not> vm86_active h) (enable_nmi_window (vmx_event_ops E))"
    "hw_only (\<lambda>h. \<not> vm86_active h) (enable_irq_window (vmx_event_ops E))"
    by (simp_all add: hw_only_def vmx_event_ops_def vmx_enable_smi_window_def
        vmx_enable_nmi_window_def vmx_enable_irq_window_def)
  show "set_interrupt_shadow (vmx_event_ops E) m v =
      v\<lparr>ev_hw := ev_hw (set_interrupt_shadow (vmx_event_ops E) m v)\<rparr>" for m v
    by (simp add: vmx_event_ops_def vmx_set_interrupt_shadow_def Let_def)
  show "set_nmi_mask (vmx_event_ops E) masked v =
      v\<lparr>ev_hw := ev_hw (set_nmi_mask (vmx_event_ops E) masked v)\<rparr>" for masked v
    by (simp add: vmx_event_ops_def vmx_set_nmi_mask_def)
  show "snd (get_nmi_mask (vmx_event_ops E) v) =
      v\<lparr>ev_hw := ev_hw (snd (get_nmi_mask (vmx_event_ops E) v))\<rparr>" for v
    by (simp add: vmx_event_ops_def vmx_get_nmi_mask_def Let_def)
  show "snd (set_vnmi_pending (vmx_event_ops E) v) =
      v\<lparr>ev_hw := ev_hw (snd (set_vnmi_pending (vmx_event_ops E) v))\<rparr>" for v
    by (simp add: vmx_event_ops_def)
next
  fix v :: vmx_ev_vcpu and again :: bool
  assume r: "\<not> vm86_active (ev_hw v)"
  show "inject_exception (vmx_event_ops E) v = v\<lparr>ev_ex := kvm_deliver_exception_payload (ev_ex v),
      ev_hw := ev_hw (inject_exception (vmx_event_ops E) v)\<rparr> \<and>
    \<not> vm86_active (ev_hw (inject_exception (vmx_event_ops E) v))"
    using r by (simp add: vmx_event_ops_def vmx_inject_exception_def vmx_clear_hlt_def Let_def)
  assume q: "event_queue_contract (event_queue_of E)"
  have deliver: "has_error_code (exception (kvm_deliver_exception_payload x)) = has_error_code (exception x)"
    "ex_error_code (exception (kvm_deliver_exception_payload x)) = ex_error_code (exception x)" for x
    by (simp_all add: kvm_deliver_exception_payload_def Let_def)
  show "queued_events (cancel_injection (vmx_event_ops E) (inject_exception (vmx_event_ops E) v)) =
      (Some (ex_vector (exception (ev_ex v)),
         if has_error_code (exception (ev_ex v))
         then Some (ucast (ucast (ex_error_code (exception (ev_ex v))) :: u16)) else None), False, None)"
    if n: "ex_vector (exception (ev_ex v)) < 256"
  proof -
    let ?soft = "kvm_exception_is_soft (event_queue_of E) (ex_vector (exception (ev_ex v)))"
    let ?info = "(if has_error_code (exception (ev_ex v))
      then (ex_vector (exception (ev_ex v)) OR INTR_INFO_VALID_MASK) OR INTR_INFO_DELIVER_CODE_MASK
      else ex_vector (exception (ev_ex v)) OR INTR_INFO_VALID_MASK) OR
      (if ?soft then INTR_TYPE_SOFT_EXCEPTION else INTR_TYPE_HARD_EXCEPTION)"
    have i: "VM_ENTRY_INTR_INFO_FIELD (ev_hw (vmx_inject_exception E v)) = ?info"
      using r by (simp add: vmx_inject_exception_def Let_def vmx_clear_hlt deliver)
    have e: "has_error_code (exception (ev_ex v)) \<Longrightarrow>
        VM_ENTRY_EXCEPTION_ERROR_CODE (ev_hw (vmx_inject_exception E v)) =
        ucast (ucast (ex_error_code (exception (ev_ex v))) :: u16)"
      using r by (simp add: vmx_inject_exception_def Let_def vmx_clear_hlt deliver)
    have f: "?info AND INTR_INFO_VALID_MASK \<noteq> 0" "?info AND 0xff = ex_vector (exception (ev_ex v))"
      "?info AND 0x700 = (if ?soft then INTR_TYPE_SOFT_EXCEPTION else INTR_TYPE_HARD_EXCEPTION)"
      "?info AND INTR_INFO_DELIVER_CODE_MASK \<noteq> 0 \<longleftrightarrow> has_error_code (exception (ev_ex v))"
      using n by (simp_all add: info_fields)
    show ?thesis
      unfolding vmx_event_ops_def event_ops.simps vmx_cancel i
      using e by (subst vmx_requeue [OF q f(1)]) (simp add: f(2-4) Let_def)
  qed
  show "queued_events (cancel_injection (vmx_event_ops E) (inject_nmi (vmx_event_ops E) v)) = (None, True, None)"
  proof -
    have i: "VM_ENTRY_INTR_INFO_FIELD (ev_hw (vmx_inject_nmi E v)) = 0x80000202"
      using r by (simp add: vmx_inject_nmi_def Let_def vmx_clear_hlt NMI_VECTOR_def)
    show ?thesis
      unfolding vmx_event_ops_def event_ops.simps vmx_cancel i by (subst vmx_requeue [OF q]) simp_all
  qed
  show "queued_events (cancel_injection (vmx_event_ops E) (inject_irq (vmx_event_ops E) v again)) =
      (None, False, Some (irq_nr (interrupt v), irq_soft (interrupt v)))"
  proof -
    let ?info = "(ucast (irq_nr (interrupt v)) OR INTR_INFO_VALID_MASK) OR
      (if irq_soft (interrupt v) then INTR_TYPE_SOFT_INTR else INTR_TYPE_EXT_INTR) :: u32"
    have i: "VM_ENTRY_INTR_INFO_FIELD (ev_hw (vmx_inject_irq E v again)) = ?info"
      using r by (simp add: vmx_inject_irq_def Let_def vmx_clear_hlt)
    have f: "?info AND INTR_INFO_VALID_MASK \<noteq> 0" "?info AND 0xff = ucast (irq_nr (interrupt v))"
      "?info AND 0x700 = (if irq_soft (interrupt v) then INTR_TYPE_SOFT_INTR else INTR_TYPE_EXT_INTR)"
      using byte_small [of "irq_nr (interrupt v)"] by (simp_all add: info_fields)
    show ?thesis
      unfolding vmx_event_ops_def event_ops.simps vmx_cancel i
      by (subst vmx_requeue [OF q f(1)]) (simp add: f(2,3) Let_def byte_back)
  qed
qed

subsection \<open>SVM\<close>

text \<open>
  Ready is a processor for which the address after a software interrupt is known without the
  emulator, and a VM whose use of the AVIC is no state of the vCPU.
\<close>

definition svm_ready :: "svm_event_env \<Rightarrow> svm_ev \<Rightarrow> bool" where
  "svm_ready E h \<longleftrightarrow>
     (sev_es_guest E \<or> svm_next_rip h \<noteq> 0 \<or> nrips E \<and> vmcb_next_rip h \<noteq> 0) \<and>
     (\<forall>v. kvm_set_apicv_inhibit E v = v)"

text \<open>Skipping then stays within the hardware and leaves the event fields alone.\<close>

lemma svm_soft_ready:
  assumes "svm_ready E (ev_hw v)"
  obtains h where "svm_update_soft_interrupt_rip E v = (v\<lparr>ev_hw := h\<rparr>, True)" "svm_ready E h"
proof -
  have "svm_skip_instruction E c v = (v\<lparr>ev_hw := ev_hw (fst (svm_skip_instruction E c v))\<rparr>, True) \<and>
      (sev_es_guest E \<or> svm_next_rip (ev_hw (fst (svm_skip_instruction E c v))) \<noteq> 0)" for c
    using assms unfolding svm_ready_def
    by (cases "sev_es_guest E"; cases "nrips E"; cases "vmcb_next_rip (ev_hw v) = 0"; cases c;
        simp add: svm_skip_instruction_def svm_set_interrupt_shadow_def Let_def)
  then obtain g where g: "svm_skip_instruction E (\<not> nrips E) v = (v\<lparr>ev_hw := g\<rparr>, True)"
    "sev_es_guest E \<or> svm_next_rip g \<noteq> 0" by blast
  let ?f = "\<lambda>h. h\<lparr>soft_int_injected := True, soft_int_csbase := cs_base h,
    soft_int_old_rip := rip (ev_hw v), soft_int_next_rip := rip g\<rparr>"
  let ?r = "\<lambda>h. if nrips E then h\<lparr>rip := rip (ev_hw v)\<rparr> else h"
  let ?n = "\<lambda>h. if cpu_has_nrips E then h\<lparr>vmcb_next_rip := rip g\<rparr> else h"
  have "svm_update_soft_interrupt_rip E v = (v\<lparr>ev_hw := ?n (?r (?f g))\<rparr>, True)"
    by (simp add: svm_update_soft_interrupt_rip_def g(1) Let_def)
  moreover have "svm_ready E (?n (?r (?f g)))"
    using g(2) assms by (auto simp: svm_ready_def)
  ultimately show ?thesis by (rule that)
qed

lemma svm_clear_events:
  assumes "event_queue_contract (svm_event_queue E)"
  shows "\<not> pending (exception (ev_ex (svm_clear_events E v)))"
    "\<not> injected (exception (ev_ex (svm_clear_events E v)))"
    "\<not> nmi_injected (svm_clear_events E v)" "\<not> irq_injected (interrupt (svm_clear_events E v))"
    "exit_int_info_err (ev_hw (svm_clear_events E v)) = exit_int_info_err (ev_hw v)"
  using assms by (simp_all add: svm_clear_events_def event_queue_contract_def ev_request_def Let_def)

lemma svm_complete_soft_interrupt:
  "exit_int_info_err (ev_hw (svm_complete_soft_interrupt E vector kind v)) = exit_int_info_err (ev_hw v)"
  by (simp_all add: svm_complete_soft_interrupt_def Let_def)

lemma svm_complete_soft_fields:
  "ev_ex (svm_complete_soft_interrupt E vector kind v) = ev_ex v"
  "nmi_injected (svm_complete_soft_interrupt E vector kind v) = nmi_injected v"
  "interrupt (svm_complete_soft_interrupt E vector kind v) = interrupt v"
  by (simp_all add: svm_complete_soft_interrupt_def Let_def)

lemma svm_requeue:
  assumes "event_queue_contract (svm_event_queue E)" "info AND SVM_EVTINJ_VALID \<noteq> 0"
    and "\<not> pending (exception (ev_ex v))" "\<not> injected (exception (ev_ex v))" "\<not> nmi_injected v"
      "\<not> irq_injected (interrupt v)"
  shows "queued_events (svm_requeue_event E info l soft v) =
    (let vector = info AND 0xff; kind = info AND 0x700 in
     if kind = SVM_EVTINJ_TYPE_NMI then (None, True, None)
     else if kind = SVM_EVTINJ_TYPE_EXEPT then
       if vector = X86_TRAP_VC then (None, False, None)
       else (Some (vector, if info AND SVM_EVTINJ_VALID_ERR \<noteq> 0 then Some (exit_int_info_err (ev_hw v))
             else None), False, None)
     else if kind = SVM_EVTINJ_TYPE_INTR then (None, False, Some (ucast vector, False))
     else if kind = SVM_EVTINJ_TYPE_SOFT then (None, False, Some (ucast vector, True))
     else (None, False, None))"
proof -
  define w where "w = (if soft then svm_complete_soft_interrupt E (info AND 0xff) (info AND 0x700) (ev_request v)
    else ev_request v)"
  have w: "\<not> pending (exception (ev_ex w))" "\<not> injected (exception (ev_ex w))" "\<not> nmi_injected w"
    "\<not> irq_injected (interrupt w)" "exit_int_info_err (ev_hw w) = exit_int_info_err (ev_hw v)"
    using assms(3-6)
    by (simp_all add: w_def svm_complete_soft_fields svm_complete_soft_interrupt ev_request_def)
  have q: "kvm_queue_interrupt (svm_event_queue E) n s u =
      u\<lparr>interrupt := \<lparr>irq_injected = True, irq_soft = s, irq_nr = n\<rparr>\<rparr>" for n s u
    using assms(1) by (simp add: event_queue_contract_def)
  show ?thesis
    unfolding svm_requeue_event_def if_not_P [OF assms(2)] Let_def w_def [symmetric]
    using w by (simp add: q queued_events_def Let_def requeued)
qed

lemma svm_complete:
  assumes "event_queue_contract (svm_event_queue E)" "exit_int_info (ev_hw v) AND SVM_EVTINJ_VALID \<noteq> 0"
  shows "queued_events (svm_complete_interrupts E v) =
    (let info = exit_int_info (ev_hw v); vector = info AND 0xff; kind = info AND 0x700 in
     if kind = SVM_EVTINJ_TYPE_NMI then (None, True, None)
     else if kind = SVM_EVTINJ_TYPE_EXEPT then
       if vector = X86_TRAP_VC then (None, False, None)
       else (Some (vector, if info AND SVM_EVTINJ_VALID_ERR \<noteq> 0 then Some (exit_int_info_err (ev_hw v))
             else None), False, None)
     else if kind = SVM_EVTINJ_TYPE_INTR then (None, False, Some (ucast vector, False))
     else if kind = SVM_EVTINJ_TYPE_SOFT then (None, False, Some (ucast vector, True))
     else (None, False, None))"
  unfolding svm_complete_interrupts_def
  using svm_requeue [OF assms svm_clear_events(1-4) [OF assms(1)]] svm_clear_events(5) [OF assms(1), of v]
  by (simp only: Let_def)

lemma svm_cancel:
  assumes "event_queue_contract (svm_event_queue E)" "event_inj (ev_hw v) AND SVM_EVTINJ_VALID \<noteq> 0"
  shows "queued_events (svm_cancel_injection E v) =
    (let info = event_inj (ev_hw v); vector = info AND 0xff; kind = info AND 0x700 in
     if kind = SVM_EVTINJ_TYPE_NMI then (None, True, None)
     else if kind = SVM_EVTINJ_TYPE_EXEPT then
       if vector = X86_TRAP_VC then (None, False, None)
       else (Some (vector, if info AND SVM_EVTINJ_VALID_ERR \<noteq> 0 then Some (event_inj_err (ev_hw v))
             else None), False, None)
     else if kind = SVM_EVTINJ_TYPE_INTR then (None, False, Some (ucast vector, False))
     else if kind = SVM_EVTINJ_TYPE_SOFT then (None, False, Some (ucast vector, True))
     else (None, False, None))"
  using svm_complete [OF assms(1), of "ev_hw_update (\<lambda>h. h\<lparr>exit_int_info := event_inj h,
       exit_int_info_err := event_inj_err h, event_inj := 0\<rparr>) v"] assms(2)
  by (simp add: svm_cancel_injection_def Let_def cong: if_cong)

interpretation svm_events: event_vendor "svm_event_queue E" "svm_event_ops E" "\<lambda>err. err" "svm_ready E" for E
proof unfold_locales
  show "hw_only (svm_ready E) (inject_nmi (svm_event_ops E))"
    by (simp add: hw_only_def svm_event_ops_def svm_inject_nmi_def svm_set_iret_intercept_def
        svm_ready_def Let_def)
  show "hw_only (svm_ready E) (\<lambda>v. inject_irq (svm_event_ops E) v again)" for again
    unfolding hw_only_def
  proof (intro allI impI)
    fix v :: svm_ev_vcpu
    assume r: "svm_ready E (ev_hw v)"
    obtain h where h: "svm_update_soft_interrupt_rip E v = (v\<lparr>ev_hw := h\<rparr>, True)" "svm_ready E h"
      by (rule svm_soft_ready [OF r])
    show "inject_irq (svm_event_ops E) v again =
        v\<lparr>ev_hw := ev_hw (inject_irq (svm_event_ops E) v again)\<rparr> \<and>
      svm_ready E (ev_hw (inject_irq (svm_event_ops E) v again))"
      using r h(2) by (simp add: svm_event_ops_def svm_inject_irq_def h(1) Let_def) (simp add: svm_ready_def)
  qed
  show "hw_only (svm_ready E) (set_rflags (svm_event_ops E) f)" for f
    by (simp add: hw_only_def svm_event_ops_def svm_set_rflags_def svm_ready_def)
  show "hw_only (svm_ready E) (enable_smi_window (svm_event_ops E))"
    "hw_only (svm_ready E) (enable_nmi_window (svm_event_ops E))"
    "hw_only (svm_ready E) (enable_irq_window (svm_event_ops E))"
    by (simp_all add: hw_only_def svm_event_ops_def svm_enable_smi_window_def svm_enable_nmi_window_def
        svm_enable_irq_window_def svm_stgi_window_def svm_set_vintr_def svm_ready_def Let_def)
  show "set_interrupt_shadow (svm_event_ops E) m v =
      v\<lparr>ev_hw := ev_hw (set_interrupt_shadow (svm_event_ops E) m v)\<rparr>" for m v
    by (simp add: svm_event_ops_def svm_set_interrupt_shadow_def)
  show "set_nmi_mask (svm_event_ops E) masked v =
      v\<lparr>ev_hw := ev_hw (set_nmi_mask (svm_event_ops E) masked v)\<rparr>" for masked v
    by (simp add: svm_event_ops_def svm_set_nmi_mask_def svm_set_iret_intercept_def
        svm_clr_iret_intercept_def Let_def)
  show "snd (get_nmi_mask (svm_event_ops E) v) =
      v\<lparr>ev_hw := ev_hw (snd (get_nmi_mask (svm_event_ops E) v))\<rparr>" for v
    by (simp add: svm_event_ops_def)
  show "snd (set_vnmi_pending (svm_event_ops E) v) =
      v\<lparr>ev_hw := ev_hw (snd (set_vnmi_pending (svm_event_ops E) v))\<rparr>" for v
    by (simp add: svm_event_ops_def svm_set_vnmi_pending_def)
next
  fix v :: svm_ev_vcpu and again :: bool
  assume r: "svm_ready E (ev_hw v)"
  let ?w = "v\<lparr>ev_ex := kvm_deliver_exception_payload (ev_ex v)\<rparr>"
  have deliver: "has_error_code (exception (kvm_deliver_exception_payload x)) = has_error_code (exception x)"
    "ex_error_code (exception (kvm_deliver_exception_payload x)) = ex_error_code (exception x)"
    "ex_vector (exception (kvm_deliver_exception_payload x)) = ex_vector (exception x)" for x
    by (simp_all add: kvm_deliver_exception_payload_def Let_def)
  let ?info = "ex_vector (exception (ev_ex v)) OR SVM_EVTINJ_VALID OR
    (if has_error_code (exception (ev_ex v)) then SVM_EVTINJ_VALID_ERR else 0) OR SVM_EVTINJ_TYPE_EXEPT"
  have "svm_ready E (ev_hw ?w)" using r by simp
  then obtain h where h: "svm_update_soft_interrupt_rip E ?w = (?w\<lparr>ev_hw := h\<rparr>, True)" "svm_ready E h"
    by (rule svm_soft_ready)
  have inject: "svm_inject_exception E v = ?w\<lparr>ev_hw :=
      (if kvm_exception_is_soft (svm_event_queue E) (ex_vector (exception (ev_ex v))) then h else ev_hw v)
        \<lparr>event_inj := ?info, event_inj_err := ex_error_code (exception (ev_ex v))\<rparr>\<rparr>"
    using h(1) by (simp add: svm_inject_exception_def Let_def deliver)
  show "inject_exception (svm_event_ops E) v = v\<lparr>ev_ex := kvm_deliver_exception_payload (ev_ex v),
      ev_hw := ev_hw (inject_exception (svm_event_ops E) v)\<rparr> \<and>
    svm_ready E (ev_hw (inject_exception (svm_event_ops E) v))"
    using r h(2) by (simp add: svm_event_ops_def inject) (simp add: svm_ready_def)
  assume q: "event_queue_contract (svm_event_queue E)"
  show "queued_events (cancel_injection (svm_event_ops E) (inject_exception (svm_event_ops E) v)) =
      (Some (ex_vector (exception (ev_ex v)),
         if has_error_code (exception (ev_ex v)) then Some (ex_error_code (exception (ev_ex v)))
         else None), False, None)"
    if n: "ex_vector (exception (ev_ex v)) < 256" "ex_vector (exception (ev_ex v)) \<noteq> X86_TRAP_VC"
  proof -
    have f: "?info AND SVM_EVTINJ_VALID \<noteq> 0" "?info AND 0xff = ex_vector (exception (ev_ex v))"
      "?info AND 0x700 = SVM_EVTINJ_TYPE_EXEPT"
      "?info AND SVM_EVTINJ_VALID_ERR \<noteq> 0 \<longleftrightarrow> has_error_code (exception (ev_ex v))"
      using n by (simp_all add: info_fields)
    have "event_inj (ev_hw (svm_inject_exception E v)) = ?info"
      "event_inj_err (ev_hw (svm_inject_exception E v)) = ex_error_code (exception (ev_ex v))"
      by (simp_all add: inject)
    then show ?thesis
      using f n(2) unfolding svm_event_ops_def event_ops.simps
      by (subst svm_cancel [OF q]) (simp_all only: Let_def f, simp_all)
  qed
  show "queued_events (cancel_injection (svm_event_ops E) (inject_nmi (svm_event_ops E) v)) = (None, True, None)"
  proof -
    have "event_inj (ev_hw (svm_inject_nmi E v)) = 0x80000200"
      by (simp add: svm_inject_nmi_def svm_set_iret_intercept_def Let_def)
    then show ?thesis
      unfolding svm_event_ops_def event_ops.simps by (subst svm_cancel [OF q]) simp_all
  qed
  show "queued_events (cancel_injection (svm_event_ops E) (inject_irq (svm_event_ops E) v again)) =
      (None, False, Some (irq_nr (interrupt v), irq_soft (interrupt v)))"
  proof -
    let ?i = "ucast (irq_nr (interrupt v)) OR SVM_EVTINJ_VALID OR
      (if irq_soft (interrupt v) then SVM_EVTINJ_TYPE_SOFT else SVM_EVTINJ_TYPE_INTR) :: u32"
    obtain g where g: "svm_update_soft_interrupt_rip E v = (v\<lparr>ev_hw := g\<rparr>, True)"
      by (rule svm_soft_ready [OF r])
    have i: "event_inj (ev_hw (svm_inject_irq E v again)) = ?i"
      by (simp add: svm_inject_irq_def g Let_def)
    have f: "?i AND SVM_EVTINJ_VALID \<noteq> 0" "?i AND 0xff = ucast (irq_nr (interrupt v))"
      "?i AND 0x700 = (if irq_soft (interrupt v) then SVM_EVTINJ_TYPE_SOFT else SVM_EVTINJ_TYPE_INTR)"
      using byte_small [of "irq_nr (interrupt v)"] by (simp_all add: info_fields)
    show ?thesis
      unfolding svm_event_ops_def event_ops.simps
      by (subst svm_cancel [OF q]) (simp_all only: i f Let_def, simp_all add: byte_back)
  qed
qed

section \<open>Injection\<close>

text \<open>What functions of other files leave alone: the events, and where it matters the hardware.\<close>

definition same_events :: "'h ev_vcpu \<Rightarrow> 'h ev_vcpu \<Rightarrow> bool" where
  "same_events u v \<longleftrightarrow> exception (ev_ex u) = exception (ev_ex v) \<and>
     guest_mode (ev_ex u) = guest_mode (ev_ex v) \<and> nmi_injected u = nmi_injected v \<and>
     nmi_pending u = nmi_pending v \<and> interrupt u = interrupt v"

definition event_env_contract :: "('h \<Rightarrow> bool) \<Rightarrow> 'h event_env \<Rightarrow> bool" where
  "event_env_contract ready E \<longleftrightarrow>
     (\<forall>v. same_events (enter_smm E v) v) \<and>
     (\<forall>v. same_events (kvm_update_dr7 E v) v \<and> (ready (ev_hw v) \<longrightarrow> ready (ev_hw (kvm_update_dr7 E v)))) \<and>
     (\<forall>v. same_events (snd (kvm_cpu_get_interrupt E v)) v \<and>
        (ready (ev_hw v) \<longrightarrow> ready (ev_hw (snd (kvm_cpu_get_interrupt E v)))))"

definition at_most_one :: "'h ev_vcpu \<Rightarrow> bool" where
  "at_most_one v \<longleftrightarrow> \<not> (injected (exception (ev_ex v)) \<and> nmi_injected v) \<and>
     \<not> (injected (exception (ev_ex v)) \<and> irq_injected (interrupt v)) \<and>
     \<not> (nmi_injected v \<and> irq_injected (interrupt v))"

text \<open>Nothing taken up or pending is dropped, and no NMI is counted twice.\<close>

definition events_kept :: "'h ev_vcpu \<Rightarrow> 'h ev_vcpu \<Rightarrow> bool" where
  "events_kept v v' \<longleftrightarrow>
     (injected (exception (ev_ex v)) \<or> pending (exception (ev_ex v)) \<longrightarrow> injected (exception (ev_ex v'))) \<and>
     ex_vector (exception (ev_ex v')) = ex_vector (exception (ev_ex v)) \<and>
     ex_error_code (exception (ev_ex v')) = ex_error_code (exception (ev_ex v)) \<and>
     (nmi_injected v \<longrightarrow> nmi_injected v') \<and> (irq_injected (interrupt v) \<longrightarrow> interrupt v' = interrupt v) \<and>
     nmi_pending v' + of_bool (nmi_injected v') = nmi_pending v + of_bool (nmi_injected v)"

text \<open>An exception that is pending on top of an injected NMI or interrupt goes first, and both stay.\<close>

definition collision :: "'h ev_vcpu \<Rightarrow> bool" where
  "collision v \<longleftrightarrow> pending (exception (ev_ex v)) \<and> (nmi_injected v \<or> irq_injected (interrupt v))"

definition inject_inv :: "('h \<Rightarrow> bool) \<Rightarrow> 'h ev_vcpu \<Rightarrow> 'h ev_vcpu \<times> bool \<Rightarrow> bool" where
  "inject_inv ready v0 = (\<lambda>(v, can_inject).
     \<not> pending (exception (ev_ex v)) \<and> guest_mode (ev_ex v) = guest_mode (ev_ex v0) \<and>
     (\<not> collision v0 \<longrightarrow> at_most_one v) \<and> events_kept v0 v \<and>
     (can_inject \<longrightarrow> ready (ev_hw v) \<and> \<not> injected (exception (ev_ex v)) \<and> \<not> nmi_injected v \<and>
        \<not> irq_injected (interrupt v)))"

lemma hw_only_obtain:
  assumes "hw_only ready f" "ready (ev_hw v)"
  obtains h where "f v = v\<lparr>ev_hw := h\<rparr>" "ready h"
  using assms unfolding hw_only_def by blast

lemma delivered_exception:
  "injected (exception (kvm_deliver_exception_payload x)) = injected (exception x)"
  "pending (exception (kvm_deliver_exception_payload x)) = pending (exception x)"
  "guest_mode (kvm_deliver_exception_payload x) = guest_mode x"
  "ex_vector (exception (kvm_deliver_exception_payload x)) = ex_vector (exception x)"
  "ex_error_code (exception (kvm_deliver_exception_payload x)) = ex_error_code (exception x)"
  "has_error_code (exception (kvm_deliver_exception_payload x)) = has_error_code (exception x)"
  by (simp_all add: kvm_deliver_exception_payload_def Let_def)

context event_vendor
begin

lemma inject_exception_obtain:
  assumes "ready (ev_hw v)"
  obtains x h where "kvm_inject_exception ops v = v\<lparr>ev_ex := x, ev_hw := h\<rparr>" "ready h"
    "injected (exception x) = injected (exception (ev_ex v))"
    "pending (exception x) = pending (exception (ev_ex v))" "guest_mode x = guest_mode (ev_ex v)"
    "ex_vector (exception x) = ex_vector (exception (ev_ex v))"
    "ex_error_code (exception x) = ex_error_code (exception (ev_ex v))"
proof -
  let ?v = "v\<lparr>ev_ex := (ev_ex v)\<lparr>exception := (exception (ev_ex v))
       \<lparr>has_error_code := (has_error_code (exception (ev_ex v)) \<and> ev_protmode v)\<rparr>\<rparr>\<rparr>"
  have "ready (ev_hw ?v)" using assms by simp
  note e = exception_hw_only [OF this]
  have "kvm_inject_exception ops v = inject_exception ops ?v"
    by (simp add: kvm_inject_exception_def)
  also have "\<dots> = v\<lparr>ev_ex := kvm_deliver_exception_payload (ev_ex ?v), ev_hw := ev_hw (inject_exception ops ?v)\<rparr>"
    using conjunct1 [OF e] by simp
  finally show ?thesis
    by (rule that [OF _ conjunct2 [OF e]]) (simp_all add: delivered_exception)
qed

lemma reinject_keeps:
  assumes "ready (ev_hw v)"
  obtains x h where "reinject_events Q ops v = v\<lparr>ev_ex := x, ev_hw := h\<rparr>" "ready h"
    "injected (exception x) = injected (exception (ev_ex v))"
    "pending (exception x) = pending (exception (ev_ex v))" "guest_mode x = guest_mode (ev_ex v)"
    "ex_vector (exception x) = ex_vector (exception (ev_ex v))"
    "ex_error_code (exception x) = ex_error_code (exception (ev_ex v))"
proof -
  obtain x g where x: "kvm_inject_exception ops v = v\<lparr>ev_ex := x, ev_hw := g\<rparr>" "ready g"
    "injected (exception x) = injected (exception (ev_ex v))"
    "pending (exception x) = pending (exception (ev_ex v))" "guest_mode x = guest_mode (ev_ex v)"
    "ex_vector (exception x) = ex_vector (exception (ev_ex v))"
    "ex_error_code (exception x) = ex_error_code (exception (ev_ex v))"
    by (rule inject_exception_obtain [OF assms])
  obtain n where n: "inject_nmi ops v = v\<lparr>ev_hw := n\<rparr>" "ready n"
    by (rule hw_only_obtain [OF nmi_hw_only assms])
  obtain i where i: "inject_irq ops v True = v\<lparr>ev_hw := i\<rparr>" "ready i"
    by (rule hw_only_obtain [OF irq_hw_only assms])
  let ?h = "if injected (exception (ev_ex v)) then g else if kvm_is_exception_pending Q v then ev_hw v
    else if nmi_injected v then n else if irq_injected (interrupt v) then i else ev_hw v"
  let ?x = "if injected (exception (ev_ex v)) then x else ev_ex v"
  show ?thesis
    by (rule that [of ?h ?x]) (use assms x n i in \<open>simp_all add: reinject_events_def\<close>)
qed

lemma pending_exception_step:
  assumes E: "event_env_contract ready E" and r: "ready (ev_hw v)"
    and c: "can_inject \<longleftrightarrow> \<not> injected (exception (ev_ex v)) \<and> \<not> nmi_injected v \<and> \<not> irq_injected (interrupt v)"
    and one: "at_most_one v"
  shows "inject_inv ready v (inject_pending_exception ops E (v, can_inject))"
proof (cases "pending (exception (ev_ex v))")
  case False
  then show ?thesis
    using assms by (simp add: inject_pending_exception_def inject_inv_def events_kept_def)
next
  case True
  define v1 where "v1 = (if exception_type (ex_vector (exception (ev_ex v))) = EXCPT_FAULT
    then kvm_set_rflags_quiet ops (kvm_get_rflags ops v OR X86_EFLAGS_RF) v else v)"
  have "\<exists>h. v1 = v\<lparr>ev_hw := h\<rparr> \<and> ready h"
  proof (cases "exception_type (ex_vector (exception (ev_ex v))) = EXCPT_FAULT")
    case True
    obtain h where "kvm_set_rflags_quiet ops (kvm_get_rflags ops v OR X86_EFLAGS_RF) v = v\<lparr>ev_hw := h\<rparr>" "ready h"
      unfolding kvm_set_rflags_quiet_def by (rule hw_only_obtain [OF rflags_hw_only r])
    then show ?thesis using True by (auto simp: v1_def)
  next
    case False
    then show ?thesis using r by (intro exI [of _ "ev_hw v"]) (simp add: v1_def)
  qed
  then obtain h1 where v1: "v1 = v\<lparr>ev_hw := h1\<rparr>" "ready h1" by blast
  define v2 where "v2 = (if ex_vector (exception (ev_ex v1)) = DB_VECTOR then
      let v = v1\<lparr>ev_ex := kvm_deliver_exception_payload (ev_ex v1)\<rparr>
      in if dr7 v AND DR7_GD \<noteq> 0 then kvm_update_dr7 E (v\<lparr>dr7 := dr7 v AND NOT DR7_GD\<rparr>) else v
    else v1)"
  have dr7: "same_events (kvm_update_dr7 E u) u" "ready (ev_hw u) \<Longrightarrow> ready (ev_hw (kvm_update_dr7 E u))" for u
    using E by (simp_all add: event_env_contract_def)
  have v2: "ready (ev_hw v2)" "injected (exception (ev_ex v2)) = injected (exception (ev_ex v))"
    "guest_mode (ev_ex v2) = guest_mode (ev_ex v)" "nmi_injected v2 = nmi_injected v"
    "ex_vector (exception (ev_ex v2)) = ex_vector (exception (ev_ex v))"
    "ex_error_code (exception (ev_ex v2)) = ex_error_code (exception (ev_ex v))"
    "nmi_pending v2 = nmi_pending v" "interrupt v2 = interrupt v"
    using dr7 [of "v1\<lparr>ev_ex := kvm_deliver_exception_payload (ev_ex v1), dr7 := dr7 v1 AND NOT DR7_GD\<rparr>"] v1
    by (simp_all add: v2_def Let_def delivered_exception same_events_def)
  obtain x h where i: "kvm_inject_exception ops v2 = v2\<lparr>ev_ex := x, ev_hw := h\<rparr>" "ready h"
    "guest_mode x = guest_mode (ev_ex v2)" "ex_vector (exception x) = ex_vector (exception (ev_ex v2))"
    "ex_error_code (exception x) = ex_error_code (exception (ev_ex v2))"
    by (rule inject_exception_obtain [OF v2(1)])
  have "inject_pending_exception ops E (v, can_inject) =
      ((kvm_inject_exception ops v2)\<lparr>ev_ex := (ev_ex (kvm_inject_exception ops v2))
         \<lparr>exception := (exception (ev_ex (kvm_inject_exception ops v2)))\<lparr>pending := False, injected := True\<rparr>\<rparr>\<rparr>,
       False)"
    using True by (simp add: inject_pending_exception_def Let_def v1_def v2_def)
  then show ?thesis
    using True one v2 i(3-5)
    by (auto simp: i(1) inject_inv_def at_most_one_def events_kept_def collision_def)
qed

lemma smi_step:
  assumes "event_env_contract ready E" "inject_inv ready v0 (v, can_inject)"
  shows "case inject_smi ops E (v, can_inject) of
      Inl (v', r) \<Rightarrow> r < 0 \<and> inject_inv ready v0 (v', False)
    | Inr s \<Rightarrow> inject_inv ready v0 s"
proof -
  have s: "same_events (enter_smm E u) u" for u using assms(1) by (simp add: event_env_contract_def)
  show ?thesis
  proof (cases "smi_pending v \<and> can_inject \<and> smi_allowed ops v True = 0")
    case True
    then have "ready (ev_hw v)" using assms(2) by (simp add: inject_inv_def)
    then obtain h where "enable_smi_window ops v = v\<lparr>ev_hw := h\<rparr>" "ready h"
      by (rule hw_only_obtain [OF windows_hw_only(1)])
    then show ?thesis
      using True assms(2)
      by (auto simp: inject_smi_def inject_inv_def at_most_one_def events_kept_def)
  next
    case False
    then show ?thesis
      using assms(2) s [of "v\<lparr>smi_pending := False, smi_count := smi_count v + 1\<rparr>"]
      by (auto simp: inject_smi_def inject_inv_def at_most_one_def events_kept_def same_events_def Let_def)
  qed
qed

lemma nmi_step:
  assumes "inject_inv ready v0 (v, can_inject)"
  shows "case inject_pending_nmi ops (v, can_inject) of
      Inl (v', r) \<Rightarrow> r < 0 \<and> inject_inv ready v0 (v', False)
    | Inr s \<Rightarrow> inject_inv ready v0 s"
proof (cases "nmi_pending v \<noteq> 0 \<and> can_inject \<and> 0 \<le> nmi_allowed ops v True")
  case False
  then show ?thesis
    using assms by (auto simp: inject_pending_nmi_def inject_inv_def Let_def)
next
  case True
  then have r: "ready (ev_hw v)" using assms by (simp add: inject_inv_def)
  let ?v = "v\<lparr>nmi_pending := nmi_pending v - 1, nmi_injected := True\<rparr>"
  obtain h where h: "inject_nmi ops ?v = ?v\<lparr>ev_hw := h\<rparr>" "ready h"
    by (rule hw_only_obtain [OF nmi_hw_only, of ?v]) (use r in simp_all)
  let ?w = "if nmi_allowed ops v True \<noteq> 0 then ?v\<lparr>ev_hw := h\<rparr> else v"
  obtain g where g: "enable_nmi_window ops ?w = ?w\<lparr>ev_hw := g\<rparr>" "ready g"
    by (rule hw_only_obtain [OF windows_hw_only(2), of ?w]) (use r h in \<open>simp_all split: if_split\<close>)
  have "inject_pending_nmi ops (v, can_inject) =
      Inr (if nmi_pending ?w \<noteq> 0 then ?w\<lparr>ev_hw := g\<rparr> else ?w,
        if nmi_allowed ops v True \<noteq> 0 then False else can_inject)"
    using True h(1) g(1)
    by (cases "nmi_allowed ops v True = 0") (simp_all add: inject_pending_nmi_def Let_def)
  then show ?thesis
    using True assms r h(2) g(2)
    by (cases "nmi_allowed ops v True = 0")
      (auto simp: inject_inv_def at_most_one_def events_kept_def)
qed

lemma irq_step:
  assumes Q: "event_queue_contract Q" and E: "event_env_contract ready E"
    and inv: "inject_inv ready v0 (v, can_inject)"
  shows "case inject_pending_irq Q ops E (v, can_inject) of
      Inl (v', r) \<Rightarrow> r < 0 \<and> inject_inv ready v0 (v', False)
    | Inr v' \<Rightarrow> inject_inv ready v0 (v', False)"
proof (cases "kvm_cpu_has_injectable_intr E v \<and> can_inject \<and> 0 \<le> interrupt_allowed ops v True")
  case False
  then show ?thesis
    using inv by (auto simp: inject_pending_irq_def inject_inv_def Let_def)
next
  case True
  then have r: "ready (ev_hw v)" using inv by (simp add: inject_inv_def)
  obtain irq u where u: "kvm_cpu_get_interrupt E v = (irq, u)" by (rule prod.exhaust)
  have u': "same_events u v" "ready (ev_hw u)"
    using E r u unfolding event_env_contract_def by (metis snd_conv)+
  let ?q = "u\<lparr>interrupt := \<lparr>irq_injected = True, irq_soft = False, irq_nr = of_int irq\<rparr>\<rparr>"
  have q: "kvm_queue_interrupt Q (of_int irq) False u = ?q"
    using Q by (simp add: event_queue_contract_def)
  obtain h where h: "inject_irq ops ?q False = ?q\<lparr>ev_hw := h\<rparr>" "ready h"
    by (rule hw_only_obtain [OF irq_hw_only, of ?q]) (use u'(2) in simp_all)
  define w where "w = (if interrupt_allowed ops v True \<noteq> 0
    then if irq \<noteq> - 1 then ?q\<lparr>ev_hw := h\<rparr> else u else v)"
  have w: "ready (ev_hw w)" using r h(2) u'(2) by (simp add: w_def)
  obtain g where g: "enable_irq_window ops w = w\<lparr>ev_hw := g\<rparr>" "ready g"
    by (rule hw_only_obtain [OF windows_hw_only(3) w])
  have i: "inject_inv ready v0 (w, False)"
    using inv u'(1) True by (auto simp: w_def inject_inv_def at_most_one_def events_kept_def same_events_def)
  have "inject_pending_irq Q ops E (v, can_inject) =
      Inr (if kvm_cpu_has_injectable_intr E w then w\<lparr>ev_hw := g\<rparr> else w)"
    using True g(1)
    by (cases "interrupt_allowed ops v True = 0"; cases "irq = - 1")
      (simp_all add: inject_pending_irq_def u q h(1) w_def Let_def)
  then show ?thesis
    using i by (simp add: inject_inv_def at_most_one_def events_kept_def)
qed

text \<open>What holds after the exception and is kept by the three steps that follow holds at the end.\<close>

lemma check_and_inject_cases:
  assumes g: "\<not> guest_mode (ev_ex v)" and w: "w = reinject_events Q ops v"
    and first: "J (inject_pending_exception ops E (w, \<not> kvm_event_needs_reinjection Q w))"
    and smi: "\<And>u can. J (u, can) \<Longrightarrow> case inject_smi ops E (u, can) of Inl (v', r) \<Rightarrow> r < 0 \<and> J (v', False) | Inr s \<Rightarrow> J s"
    and nmi: "\<And>u can. J (u, can) \<Longrightarrow> case inject_pending_nmi ops (u, can) of Inl (v', r) \<Rightarrow> r < 0 \<and> J (v', False) | Inr s \<Rightarrow> J s"
    and irq: "\<And>u can. J (u, can) \<Longrightarrow> case inject_pending_irq Q ops E (u, can) of Inl (v', r) \<Rightarrow> r < 0 \<and> J (v', False) | Inr v' \<Rightarrow> J (v', False)"
    and c: "kvm_check_and_inject_events Q ops E v = (v', imm, res)"
  shows "\<exists>can. J (v', can)"
proof -
  let ?can = "\<not> kvm_event_needs_reinjection Q w"
  obtain u can where u: "inject_pending_exception ops E (w, ?can) = (u, can)" by (rule prod.exhaust)
  show ?thesis
  proof (cases "guest_debug u AND KVM_GUESTDBG_BLOCKIRQ \<noteq> 0")
    case True
    then have "v' = u" using c g by (simp add: kvm_check_and_inject_events_def w [symmetric] u)
    then show ?thesis using first u by auto
  next
    case False
    have steps: "case inject_new_events Q ops E (u, can) of Inl (v'', r) \<Rightarrow> J (v'', False) | Inr v'' \<Rightarrow> J (v'', False)"
    proof -
      have 1: "J (u, can)" using first u by simp
      show ?thesis
      proof (cases "inject_smi ops E (u, can)")
        case (Inl a)
        then show ?thesis using smi [OF 1] by (auto simp: inject_new_events_def split: prod.splits)
      next
        case s: (Inr s)
        obtain u2 c2 where t: "s = (u2, c2)" by (rule prod.exhaust)
        have 2: "J (u2, c2)" using smi [OF 1] s t by simp
        show ?thesis
        proof (cases "inject_pending_nmi ops (u2, c2)")
          case (Inl a)
          then show ?thesis using nmi [OF 2] s t by (auto simp: inject_new_events_def split: prod.splits)
        next
          case n: (Inr n)
          obtain u3 c3 where m: "n = (u3, c3)" by (rule prod.exhaust)
          have 3: "J (u3, c3)" using nmi [OF 2] n m by simp
          show ?thesis
            using irq [OF 3] s t n m by (auto simp: inject_new_events_def split: prod.splits sum.splits)
        qed
      qed
    qed
    then show ?thesis
      using c g False
      by (auto simp: kvm_check_and_inject_events_def w [symmetric] u events_out_def
          split: sum.splits prod.splits if_splits)
  qed
qed

lemma injects_one:
  assumes Q: "event_queue_contract Q" and E: "event_env_contract ready E" and r: "ready (ev_hw v)"
    and g: "\<not> guest_mode (ev_ex v)" and one: "at_most_one v"
    and c: "kvm_check_and_inject_events Q ops E v = (v', imm, res)"
  shows "\<not> pending (exception (ev_ex v')) \<and> (\<not> collision v \<longrightarrow> at_most_one v') \<and> events_kept v v'"
proof -
  obtain x h where w: "reinject_events Q ops v = v\<lparr>ev_ex := x, ev_hw := h\<rparr>" "ready h"
    "injected (exception x) = injected (exception (ev_ex v))"
    "pending (exception x) = pending (exception (ev_ex v))" "guest_mode x = guest_mode (ev_ex v)"
    "ex_vector (exception x) = ex_vector (exception (ev_ex v))"
    "ex_error_code (exception x) = ex_error_code (exception (ev_ex v))"
    by (rule reinject_keeps [OF r])
  let ?w = "v\<lparr>ev_ex := x, ev_hw := h\<rparr>"
  let ?can = "\<not> kvm_event_needs_reinjection Q ?w"
  have can: "?can \<longleftrightarrow> \<not> injected (exception (ev_ex ?w)) \<and> \<not> nmi_injected ?w \<and> \<not> irq_injected (interrupt ?w)"
    using Q by (auto simp add: event_queue_contract_def)
  have "inject_inv ready ?w (inject_pending_exception ops E (?w, ?can))"
    by (rule pending_exception_step [OF E _ can]) (use w one in \<open>simp_all add: at_most_one_def\<close>)
  then have "inject_inv ready v (inject_pending_exception ops E (?w, ?can))"
    by (simp add: inject_inv_def events_kept_def collision_def w split: prod.splits)
  then have "\<exists>can. inject_inv ready v (v', can)"
    using check_and_inject_cases [where J = "inject_inv ready v", OF g w(1) [symmetric]]
      smi_step [OF E] nmi_step irq_step [OF Q E] c by blast
  then show ?thesis by (auto simp: inject_inv_def)
qed

end

end
