(* ===== verification/Kvm_Events_Claims.thy ===== *)
theory Kvm_Events_Claims
  imports Kvm_Events_Props
begin

unbundle bit_operations_syntax

text \<open>
  The properties of event injection, of the limit on NMIs, and of saving and restoring events.
\<close>

section \<open>NMIs that arrive\<close>

definition nmi_limit :: "bool \<Rightarrow> 'h ev_vcpu \<Rightarrow> nat" where
  "nmi_limit masked v = (if masked \<or> nmi_injected v then 1 else 2)"

lemma vmx_nmi_limit:
  "kvm_get_nr_pending_nmis (vmx_event_ops E) (process_nmi (vmx_event_ops E) v) =
     min (kvm_get_nr_pending_nmis (vmx_event_ops E) v + nmi_queued (ev_ex v))
       (nmi_limit (fst (vmx_get_nmi_mask E v)) v) \<and>
   nmi_queued (ev_ex (process_nmi (vmx_event_ops E) v)) = 0"
proof -
  obtain masked u where u: "vmx_get_nmi_mask E v = (masked, u)" by (rule prod.exhaust)
  have "u = v\<lparr>ev_hw := ev_hw u\<rparr>"
    using vmx_events.get_mask_hw [of E v] u by (simp add: vmx_event_ops_def)
  then obtain h where h: "u = v\<lparr>ev_hw := h\<rparr>" by blast
  show ?thesis
    by (simp add: process_nmi_def kvm_get_nr_pending_nmis_def vmx_event_ops_def u h nmi_limit_def
        ev_request_def Let_def)
qed

lemma svm_vnmi:
  assumes "is_vnmi_enabled F = (\<lambda>_. b)"
  shows "svm_set_vnmi_pending F w =
    (if b \<and> \<not> svm_is_vnmi_pending F w
     then (True, ev_hw_update (\<lambda>h. h\<lparr>int_ctl := int_ctl h OR V_NMI_PENDING_MASK,
              svm_nmi_injections := svm_nmi_injections h + 1\<rparr>) w) else (False, w))"
  by (simp add: svm_set_vnmi_pending_def svm_is_vnmi_pending_def assms)

lemma or_nonzero: "a \<noteq> 0 \<Longrightarrow> (x OR a) AND a \<noteq> (0 :: u32)"
  by (simp add: bit.conj_disj_distrib2)

lemma svm_nmi_limit:
  assumes "is_vnmi_enabled F = (\<lambda>_. b)"
  shows "kvm_get_nr_pending_nmis (svm_event_ops F) (process_nmi (svm_event_ops F) w) =
     min (kvm_get_nr_pending_nmis (svm_event_ops F) w + nmi_queued (ev_ex w))
       (nmi_limit (svm_get_nmi_mask F w) w) \<and>
   nmi_queued (ev_ex (process_nmi (svm_event_ops F) w)) = 0"
proof -
  have pending: "svm_is_vnmi_pending F u \<longleftrightarrow> b \<and> int_ctl (ev_hw u) AND V_NMI_PENDING_MASK \<noteq> 0" for u
    by (simp add: svm_is_vnmi_pending_def assms)
  have set: "(x OR V_NMI_PENDING_MASK) AND V_NMI_PENDING_MASK \<noteq> 0" for x :: u32
    by (rule or_nonzero) simp
  show ?thesis
  proof (cases "svm_is_vnmi_pending F w")
    case True
    then show ?thesis
      by (simp add: process_nmi_def kvm_get_nr_pending_nmis_def svm_event_ops_def nmi_limit_def
          ev_request_def svm_vnmi [OF assms] pending Let_def)
  next
    case False
    then show ?thesis
      using set
      by (simp add: process_nmi_def kvm_get_nr_pending_nmis_def svm_event_ops_def nmi_limit_def
          ev_request_def svm_vnmi [OF assms] pending Let_def)
  qed
qed

text \<open> C23. However many NMIs arrive before a vCPU looks, afterwards at most two are pending, and at
  most one while another is being handled or injected; none is lost below that limit, whether
  \<open>nmi_pending\<close> or the hardware of AMD keeps it. \<close>

theorem nmis_limited:
  assumes "is_vnmi_enabled F = (\<lambda>_. b)"
  shows "kvm_get_nr_pending_nmis (vmx_event_ops E) (process_nmi (vmx_event_ops E) v) =
      min (kvm_get_nr_pending_nmis (vmx_event_ops E) v + nmi_queued (ev_ex v))
        (nmi_limit (fst (vmx_get_nmi_mask E v)) v) \<and>
    kvm_get_nr_pending_nmis (svm_event_ops F) (process_nmi (svm_event_ops F) w) =
      min (kvm_get_nr_pending_nmis (svm_event_ops F) w + nmi_queued (ev_ex w))
        (nmi_limit (svm_get_nmi_mask F w) w) \<and>
    nmi_queued (ev_ex (process_nmi (vmx_event_ops E) v)) = 0 \<and>
    nmi_queued (ev_ex (process_nmi (svm_event_ops F) w)) = 0"
  using vmx_nmi_limit [of E v] svm_nmi_limit [OF assms, of w] by blast

text \<open>A machine to look at: nothing of other files has an effect.\<close>

definition demo_queue :: "'h event_queue" where
  "demo_queue =
     \<lparr>kvm_is_exception_pending = (\<lambda>v. pending (exception (ev_ex v)) \<or>
        pending (exception_vmexit (ev_ex v)) \<or> req_triple_fault (ev_ex v)),
      kvm_event_needs_reinjection = (\<lambda>v. injected (exception (ev_ex v)) \<or>
        irq_injected (interrupt v) \<or> nmi_injected v),
      kvm_exception_is_soft = (\<lambda>n. n = BP_VECTOR \<or> n = OF_VECTOR),
      kvm_queue_interrupt = (\<lambda>n soft v. v\<lparr>interrupt := \<lparr>irq_injected = True, irq_soft = soft, irq_nr = n\<rparr>\<rparr>),
      kvm_clear_interrupt_queue = (\<lambda>v. v\<lparr>interrupt := (interrupt v)\<lparr>irq_injected := False\<rparr>\<rparr>),
      kvm_clear_exception_queue = (\<lambda>v. v\<lparr>ev_ex := (ev_ex v)
        \<lparr>exception := (exception (ev_ex v))\<lparr>pending := False, injected := False\<rparr>,
         exception_vmexit := (exception_vmexit (ev_ex v))\<lparr>pending := False, injected := False\<rparr>\<rparr>\<rparr>)\<rparr>"

lemma demo_queue: "event_queue_contract demo_queue"
  by (simp add: event_queue_contract_def demo_queue_def)

definition demo_env :: "'h event_env" where
  "demo_env = \<lparr>nested_triple_fault = id, nested_check_events = (\<lambda>v. (v, 0)), nested_has_events = (\<lambda>_. False),
     enter_smm = id, process_smi = id, kvm_leave_nested = id, kvm_smm_changed = (\<lambda>_. id),
     kvm_update_dr7 = id, kvm_cpu_has_injectable_intr = (\<lambda>v. pending_external_vector v \<noteq> - 1),
     kvm_cpu_get_interrupt = (\<lambda>v. (pending_external_vector v, v\<lparr>pending_external_vector := - 1\<rparr>)),
     kvm_cpu_has_extint = (\<lambda>_. False), kvm_apic_accept_pic_intr = (\<lambda>_. True),
     kvm_lapic_latched_init = (\<lambda>_. False), lapic_in_kernel = True, pic_in_kernel = False,
     irqchip_in_kernel = True, exception_payload_enabled = True, triple_fault_event = True\<rparr>"

lemma demo_env: "event_env_contract ready demo_env"
  by (simp add: event_env_contract_def demo_env_def same_events_def)

definition demo_exception :: kvm_queued_exception where
  "demo_exception = \<lparr>pending = False, injected = False, has_error_code = True, ex_vector = GP_VECTOR,
     ex_error_code = 0x18, ex_payload = 0, has_payload = False\<rparr>"

definition demo_event_vcpu :: "'h \<Rightarrow> 'h ev_vcpu" where
  "demo_event_vcpu h =
     \<lparr>ev_ex = \<lparr>exception = demo_exception, exception_vmexit = demo_exception, ex_dr6 = 0, ex_cr2 = 0,
        guest_mode = False, req_event = False, req_triple_fault = False, req_nmi = False,
        nmi_queued = 3, pf_guest = 0\<rparr>,
      exception_from_userspace = False,
      interrupt = \<lparr>irq_injected = False, irq_soft = False, irq_nr = 0x21\<rparr>, nmi_injected = False,
      nmi_pending = 2, smi_pending = False, smi_count = 0, in_smm = False, smm_inside_nmi = False,
      req_smi = False, ev_mp_state = 0, event_exit_inst_len = 0, guest_debug = 0,
      linear_rip_is_singlestep = False, dr7 = 0, ev_protmode = True, sipi_vector = 0,
      apic_init_pending = False, pending_external_vector = - 1, ev_hw = h\<rparr>"

definition demo_vmx_hw :: vmx_ev where
  "demo_vmx_hw = \<lparr>VM_ENTRY_INTR_INFO_FIELD = 0, VM_ENTRY_EXCEPTION_ERROR_CODE = 0,
     VM_ENTRY_INSTRUCTION_LEN = 0, VM_EXIT_INSTRUCTION_LEN = 0, IDT_VECTORING_ERROR_CODE = 0,
     idt_vectoring_info = 0, exit_intr_info = 0, GUEST_INTERRUPTIBILITY_INFO = 0,
     GUEST_ACTIVITY_STATE = 0, intr_window_exiting = False, nmi_window_exiting = False,
     nmi_known_unmasked = True, soft_vnmi_blocked = False, vnmi_blocked_time = 0,
     vm86_active = False, nested_run_pending = False, guest_rflags = 0x202, irq_injections = 0,
     nmi_injections = 0, window_exits = 0\<rparr>"

definition demo_vmx_env :: vmx_event_env where
  "demo_vmx_env = \<lparr>event_queue_of = demo_queue, enable_vnmi = True, kvm_hlt_in_guest = False,
     nested_exit_on_nmi = (\<lambda>_. False), nested_exit_on_intr = (\<lambda>_. False), is_vmexit = no_vmexit,
     kvm_inject_realmode_interrupt = (\<lambda>_ _ v. v)\<rparr>"

definition demo_svm_hw :: svm_ev where
  "demo_svm_hw = \<lparr>event_inj = 0, event_inj_err = 0, exit_int_info = 0, exit_int_info_err = 0,
     vmcb_next_rip = 0x1002, int_ctl = 0, int_vector = 0, int_state = 0, intercepts = {},
     vmcb_rflags = 0x202, cs_base = 0, rip = 0x1000, svm_next_rip = 0, soft_int_injected = False,
     soft_int_csbase = 0, soft_int_old_rip = 0, soft_int_next_rip = 0, nmi_l1_to_l2 = False,
     nmi_masked = False, awaiting_iret_completion = False, nmi_iret_rip = 0, nmi_singlestep = False,
     nmi_singlestep_guest_rflags = 0, svm_nested_run_pending = False, nested_int_ctl = 0,
     nested_int_vector = 0, vmcb01_int_ctl = 0, vmcb01_rflags = 0, svm_irq_injections = 0,
     svm_nmi_injections = 0, svm_window_exits = 0\<rparr>"

definition demo_svm_env :: svm_event_env where
  "demo_svm_env = \<lparr>svm_event_queue = demo_queue, nrips = True, cpu_has_nrips = True, vgif = True,
     sev_es_guest = False, is_vnmi_enabled = (\<lambda>_. True), gif_set = (\<lambda>_. True),
     svm_set_intercept = insert, svm_clr_intercept = (\<lambda>i s. s - {i}),
     svm_nested_exit_on_nmi = (\<lambda>_. False), svm_nested_exit_on_intr = (\<lambda>_. False),
     svm_nested_exit_on_smi = (\<lambda>_. False), nested_svm_virtualize_tpr = (\<lambda>_. False),
     svm_is_vmexit = no_vmexit, kvm_is_linear_rip = (\<lambda>_ _. False),
     kvm_emulate_skip = (\<lambda>v. (v, False)), kvm_set_apicv_inhibit = id, kvm_clear_apicv_inhibit = id\<rparr>"

theorem nmis_limited_witness:
  "kvm_get_nr_pending_nmis (vmx_event_ops demo_vmx_env)
      (process_nmi (vmx_event_ops demo_vmx_env) (demo_event_vcpu demo_vmx_hw)) = 2 \<and>
   kvm_get_nr_pending_nmis (svm_event_ops demo_svm_env)
      (process_nmi (svm_event_ops demo_svm_env) (demo_event_vcpu demo_svm_hw)) = 2"
proof -
  have "is_vnmi_enabled demo_svm_env = (\<lambda>_. True)" by (simp add: demo_svm_env_def)
  from nmis_limited [OF this, of demo_vmx_env "demo_event_vcpu demo_vmx_hw" "demo_event_vcpu demo_svm_hw"]
  show ?thesis
    by (simp add: kvm_get_nr_pending_nmis_def demo_event_vcpu_def nmi_limit_def vmx_get_nmi_mask_def
        demo_vmx_hw_def demo_vmx_env_def svm_get_nmi_mask_def demo_svm_hw_def demo_svm_env_def)
qed

section \<open>Injection\<close>

text \<open>
  What the processor delivers at a VM entry, by the layout of the interruption information of the
  architecture: bit 31 for a valid event, the type in bits 10 to 8, the vector in bits 7 to 0, and
  bit 11 for an error code.
\<close>

datatype entry_event = Entry_exception bool u32 "u32 option" | Entry_nmi | Entry_irq bool u32

definition vmx_entry_event :: "vmx_ev \<Rightarrow> entry_event option" where
  "vmx_entry_event h =
     (let info = VM_ENTRY_INTR_INFO_FIELD h; vector = info AND 0xff; kind = info AND 0x700 in
      if info AND 0x80000000 = 0 then None
      else if kind = 0x200 then Some Entry_nmi
      else if kind = 0x300 \<or> kind = 0x600
      then Some (Entry_exception (kind = 0x600) vector
             (if info AND 0x800 \<noteq> 0 then Some (VM_ENTRY_EXCEPTION_ERROR_CODE h) else None))
      else Some (Entry_irq (kind = 0x400) vector))"

text \<open>What has to be delivered: the exception first, then the NMI, then the interrupt.\<close>

definition due_exception :: "kvm_queued_exception \<Rightarrow> entry_event" where
  "due_exception x = Entry_exception (ex_vector x = 3 \<or> ex_vector x = 4) (ex_vector x)
     (if has_error_code x then Some (ucast (ucast (ex_error_code x) :: u16)) else None)"

definition due_event :: "'h ev_vcpu \<Rightarrow> entry_event option" where
  "due_event v =
     (if injected (exception (ev_ex v)) then Some (due_exception (exception (ev_ex v)))
      else if nmi_injected v then Some Entry_nmi
      else if irq_injected (interrupt v)
      then Some (Entry_irq (irq_soft (interrupt v)) (ucast (irq_nr (interrupt v))))
      else None)"

text \<open>The functions of other files leave the two fields alone.\<close>

definition same_entry :: "vmx_ev_vcpu \<Rightarrow> vmx_ev_vcpu \<Rightarrow> bool" where
  "same_entry u v \<longleftrightarrow> VM_ENTRY_INTR_INFO_FIELD (ev_hw u) = VM_ENTRY_INTR_INFO_FIELD (ev_hw v) \<and>
     VM_ENTRY_EXCEPTION_ERROR_CODE (ev_hw u) = VM_ENTRY_EXCEPTION_ERROR_CODE (ev_hw v)"

definition vmx_entry_contract :: "vmx_ev event_env \<Rightarrow> bool" where
  "vmx_entry_contract N \<longleftrightarrow> (\<forall>v. same_entry (enter_smm N v) v \<and> same_entry (kvm_update_dr7 N v) v \<and>
     same_entry (snd (kvm_cpu_get_interrupt N v)) v)"

lemma same_entry_event: "same_entry u v \<Longrightarrow> vmx_entry_event (ev_hw u) = vmx_entry_event (ev_hw v)"
  by (simp add: same_entry_def vmx_entry_event_def Let_def)

lemma same_entry_windows [simp]:
  "same_entry (vmx_enable_irq_window v) v" "same_entry (vmx_enable_nmi_window E v) v"
  "same_entry (vmx_clear_hlt E v) v"
  by (simp_all add: same_entry_def vmx_enable_irq_window_def vmx_enable_nmi_window_def vmx_clear_hlt_def)

lemma due_windows [simp]:
  "due_event (vmx_enable_irq_window v) = due_event v" "due_event (vmx_enable_nmi_window E v) = due_event v"
  "vm86_active (ev_hw (vmx_enable_irq_window v)) = vm86_active (ev_hw v)"
  "vm86_active (ev_hw (vmx_enable_nmi_window E v)) = vm86_active (ev_hw v)"
  by (simp_all add: due_event_def vmx_enable_irq_window_def vmx_enable_nmi_window_def)

lemma soft_vectors:
  "event_queue_contract Q \<Longrightarrow> kvm_exception_is_soft Q n \<longleftrightarrow> n = 3 \<or> n = 4"
  by (simp add: event_queue_contract_def BP_VECTOR_def OF_VECTOR_def)

lemma vmx_entry_exception:
  assumes "event_queue_contract (event_queue_of E)" "\<not> vm86_active (ev_hw v)" "ex_vector (exception (ev_ex v)) < 256"
  shows "vmx_entry_event (ev_hw (vmx_inject_exception E v)) = Some (due_exception (exception (ev_ex v)))"
proof -
  let ?x = "exception (ev_ex v)"
  let ?soft = "ex_vector ?x = 3 \<or> ex_vector ?x = 4"
  let ?info = "(if has_error_code ?x then (ex_vector ?x OR INTR_INFO_VALID_MASK) OR INTR_INFO_DELIVER_CODE_MASK
      else ex_vector ?x OR INTR_INFO_VALID_MASK) OR
      (if ?soft then INTR_TYPE_SOFT_EXCEPTION else INTR_TYPE_HARD_EXCEPTION)"
  have i: "VM_ENTRY_INTR_INFO_FIELD (ev_hw (vmx_inject_exception E v)) = ?info"
    using assms(2) by (simp add: vmx_inject_exception_def Let_def vmx_clear_hlt delivered_exception
        soft_vectors [OF assms(1)])
  have e: "has_error_code ?x \<Longrightarrow> VM_ENTRY_EXCEPTION_ERROR_CODE (ev_hw (vmx_inject_exception E v)) =
      ucast (ucast (ex_error_code ?x) :: u16)"
    using assms(2) by (simp add: vmx_inject_exception_def Let_def vmx_clear_hlt delivered_exception)
  have f: "?info AND 0x80000000 \<noteq> 0" "?info AND 0xff = ex_vector ?x"
    "?info AND 0x700 = (if ?soft then 0x600 else 0x300)" "?info AND 0x800 \<noteq> 0 \<longleftrightarrow> has_error_code ?x"
    using assms(3) by (simp_all add: info_fields)
  show ?thesis
    using e unfolding vmx_entry_event_def i Let_def f(2,3) if_not_P [OF f(1)] f(4)
    by (simp add: due_exception_def)
qed

lemma vmx_entry_nmi:
  assumes "\<not> vm86_active (ev_hw v)"
  shows "vmx_entry_event (ev_hw (vmx_inject_nmi E v)) = Some Entry_nmi"
proof -
  have "VM_ENTRY_INTR_INFO_FIELD (ev_hw (vmx_inject_nmi E v)) = 0x80000202"
    using assms by (simp add: vmx_inject_nmi_def Let_def vmx_clear_hlt NMI_VECTOR_def)
  then show ?thesis by (simp add: vmx_entry_event_def)
qed

lemma vmx_entry_irq:
  assumes "\<not> vm86_active (ev_hw v)"
  shows "vmx_entry_event (ev_hw (vmx_inject_irq E v again)) =
    Some (Entry_irq (irq_soft (interrupt v)) (ucast (irq_nr (interrupt v))))"
proof -
  let ?info = "(ucast (irq_nr (interrupt v)) OR INTR_INFO_VALID_MASK) OR
    (if irq_soft (interrupt v) then INTR_TYPE_SOFT_INTR else INTR_TYPE_EXT_INTR) :: u32"
  have i: "VM_ENTRY_INTR_INFO_FIELD (ev_hw (vmx_inject_irq E v again)) = ?info"
    using assms by (simp add: vmx_inject_irq_def Let_def vmx_clear_hlt)
  have f: "?info AND 0x80000000 \<noteq> 0" "?info AND 0xff = ucast (irq_nr (interrupt v))"
    "?info AND 0x700 = (if irq_soft (interrupt v) then 0x400 else 0)"
    using byte_small [of "irq_nr (interrupt v)"] by (simp_all add: info_fields)
  show ?thesis
    unfolding vmx_entry_event_def i Let_def f(2,3) if_not_P [OF f(1)] by simp
qed

text \<open>After each step the next entry delivers what is due, and nothing while more may be injected.\<close>

definition entry_inv :: "vmx_ev_vcpu \<times> bool \<Rightarrow> bool" where
  "entry_inv = (\<lambda>(v, can). vmx_entry_event (ev_hw v) = due_event v \<and>
     (can \<longrightarrow> \<not> vm86_active (ev_hw v) \<and> due_event v = None))"

lemma due_none: "due_event v = None \<longleftrightarrow>
    \<not> injected (exception (ev_ex v)) \<and> \<not> nmi_injected v \<and> \<not> irq_injected (interrupt v)"
  by (simp add: due_event_def)

lemma kvm_inject_exception_entry:
  assumes "event_queue_contract (event_queue_of E)" "\<not> vm86_active (ev_hw v)" "ex_vector (exception (ev_ex v)) < 256"
  shows "vmx_entry_event (ev_hw (kvm_inject_exception (vmx_event_ops E) v)) =
    Some (due_exception (exception (ev_ex (kvm_inject_exception (vmx_event_ops E) v))))"
proof -
  let ?v = "v\<lparr>ev_ex := (ev_ex v)\<lparr>exception := (exception (ev_ex v))
       \<lparr>has_error_code := (has_error_code (exception (ev_ex v)) \<and> ev_protmode v)\<rparr>\<rparr>\<rparr>"
  have i: "kvm_inject_exception (vmx_event_ops E) v = vmx_inject_exception E ?v"
    by (simp add: kvm_inject_exception_def vmx_event_ops_def)
  have "\<not> vm86_active (ev_hw ?v)" using assms(2) by simp
  then obtain h where "vmx_inject_exception E ?v = ?v\<lparr>ev_ex := kvm_deliver_exception_payload (ev_ex ?v), ev_hw := h\<rparr>"
    using vmx_events.exception_hw_only [of ?v E] unfolding vmx_event_ops_def event_ops.simps by blast
  then have x: "ev_ex (vmx_inject_exception E ?v) = kvm_deliver_exception_payload (ev_ex ?v)" by simp
  show ?thesis
    unfolding i x
    by (subst vmx_entry_exception [OF assms(1)])
      (use assms(2,3) in \<open>simp_all add: due_exception_def delivered_exception\<close>)
qed

lemma vmx_reinject_entry:
  assumes Q: "event_queue_contract (event_queue_of E)" and r: "\<not> vm86_active (ev_hw v)"
    and x: "\<not> pending (exception_vmexit (ev_ex v))" "\<not> req_triple_fault (ev_ex v)"
      "ex_vector (exception (ev_ex v)) < 256" "vmx_entry_event (ev_hw v) = None"
    and w: "w = reinject_events (event_queue_of E) (vmx_event_ops E) v"
  shows "pending (exception (ev_ex v)) \<or> vmx_entry_event (ev_hw w) = due_event w"
proof -
  have p: "kvm_is_exception_pending (event_queue_of E) v = pending (exception (ev_ex v))"
    using Q x(1,2) by (auto simp: event_queue_contract_def)
  obtain y h where y: "kvm_inject_exception (vmx_event_ops E) v = v\<lparr>ev_ex := y, ev_hw := h\<rparr>"
    "injected (exception y) = injected (exception (ev_ex v))"
    by (rule vmx_events.inject_exception_obtain [OF r])
  have due: "due_event (vmx_inject_nmi E v) = due_event v" "due_event (vmx_inject_irq E v True) = due_event v"
    using r by (simp_all add: due_event_def vmx_inject_nmi_def vmx_inject_irq_def vmx_clear_hlt_def Let_def)
  consider (x) "injected (exception (ev_ex v))" | (p) "pending (exception (ev_ex v))"
    | (n) "\<not> injected (exception (ev_ex v))" "\<not> pending (exception (ev_ex v))" "nmi_injected v"
    | (i) "\<not> injected (exception (ev_ex v))" "\<not> pending (exception (ev_ex v))" "\<not> nmi_injected v"
      "irq_injected (interrupt v)"
    | (none) "\<not> pending (exception (ev_ex v))" "due_event v = None" by (auto simp: due_none)
  then show ?thesis
  proof cases
    case x
    then show ?thesis
      using kvm_inject_exception_entry [OF Q r assms(5)] y
      by (simp add: w reinject_events_def due_event_def)
  next
    case n
    then have "w = vmx_inject_nmi E v" by (simp add: w reinject_events_def p vmx_event_ops_def)
    moreover have "due_event v = Some Entry_nmi" using n by (simp add: due_event_def)
    ultimately show ?thesis using vmx_entry_nmi [OF r] due(1) by simp
  next
    case i
    then have "w = vmx_inject_irq E v True" by (simp add: w reinject_events_def p vmx_event_ops_def)
    moreover have "due_event v = Some (Entry_irq (irq_soft (interrupt v)) (ucast (irq_nr (interrupt v))))"
      using i by (simp add: due_event_def)
    ultimately show ?thesis using vmx_entry_irq [OF r] due(2) by simp
  next
    case none
    then show ?thesis using assms(6) due_none [of v] by (simp add: w reinject_events_def p)
  qed simp
qed

lemma vmx_pending_entry:
  assumes Q: "event_queue_contract (event_queue_of E)" and N: "event_env_contract (\<lambda>h. \<not> vm86_active h) N"
    and r: "\<not> vm86_active (ev_hw w)" and x: "ex_vector (exception (ev_ex w)) < 256"
    and e: "pending (exception (ev_ex w)) \<or> vmx_entry_event (ev_hw w) = due_event w"
    and can: "can \<longleftrightarrow> due_event w = None"
  shows "entry_inv (inject_pending_exception (vmx_event_ops E) N (w, can))"
proof (cases "pending (exception (ev_ex w))")
  case False
  then show ?thesis using e r can by (simp add: inject_pending_exception_def entry_inv_def)
next
  case True
  define v1 where "v1 = (if exception_type (ex_vector (exception (ev_ex w))) = EXCPT_FAULT
    then kvm_set_rflags_quiet (vmx_event_ops E) (kvm_get_rflags (vmx_event_ops E) w OR X86_EFLAGS_RF) w else w)"
  define v2 where "v2 = (if ex_vector (exception (ev_ex v1)) = DB_VECTOR then
      let v = v1\<lparr>ev_ex := kvm_deliver_exception_payload (ev_ex v1)\<rparr>
      in if dr7 v AND DR7_GD \<noteq> 0 then kvm_update_dr7 N (v\<lparr>dr7 := dr7 v AND NOT DR7_GD\<rparr>) else v
    else v1)"
  have v1: "\<not> vm86_active (ev_hw v1)" "ex_vector (exception (ev_ex v1)) = ex_vector (exception (ev_ex w))"
    using r by (simp_all add: v1_def kvm_set_rflags_quiet_def vmx_event_ops_def)
  have dr7: "same_events (kvm_update_dr7 N u) u" "\<not> vm86_active (ev_hw u) \<Longrightarrow> \<not> vm86_active (ev_hw (kvm_update_dr7 N u))" for u
    using N by (simp_all add: event_env_contract_def)
  have v2: "\<not> vm86_active (ev_hw v2)" "ex_vector (exception (ev_ex v2)) < 256"
    using dr7 [of "v1\<lparr>ev_ex := kvm_deliver_exception_payload (ev_ex v1), dr7 := dr7 v1 AND NOT DR7_GD\<rparr>"] v1 x
    by (simp_all add: v2_def Let_def delivered_exception same_events_def DB_VECTOR_def)
  let ?v = "kvm_inject_exception (vmx_event_ops E) v2"
  have "inject_pending_exception (vmx_event_ops E) N (w, can) =
      (?v\<lparr>ev_ex := (ev_ex ?v)\<lparr>exception := (exception (ev_ex ?v))\<lparr>pending := False, injected := True\<rparr>\<rparr>\<rparr>, False)"
    using True by (simp add: inject_pending_exception_def Let_def v1_def v2_def)
  then show ?thesis
    using kvm_inject_exception_entry [OF Q v2]
    by (simp add: entry_inv_def due_event_def due_exception_def)
qed

lemma vmx_smi_entry:
  assumes N: "event_env_contract (\<lambda>h. \<not> vm86_active h) N" "vmx_entry_contract N" and i: "entry_inv (u, can)"
  shows "case inject_smi (vmx_event_ops E) N (u, can) of
      Inl (v', r) \<Rightarrow> r < 0 \<and> entry_inv (v', False) | Inr s \<Rightarrow> entry_inv s"
proof -
  have s: "same_events (enter_smm N w) w" "same_entry (enter_smm N w) w" for w
    using N by (simp_all add: event_env_contract_def vmx_entry_contract_def)
  let ?u = "u\<lparr>smi_pending := False, smi_count := smi_count u + 1\<rparr>"
  have "vmx_entry_event (ev_hw (enter_smm N ?u)) = vmx_entry_event (ev_hw u)" "due_event (enter_smm N ?u) = due_event u"
    using same_entry_event [OF s(2)] s(1) [of ?u] by (simp_all add: due_event_def same_events_def)
  then show ?thesis
    using i by (auto simp: inject_smi_def entry_inv_def vmx_event_ops_def vmx_enable_smi_window_def Let_def)
qed

lemma vmx_nmi_entry:
  assumes i: "entry_inv (u, can)"
  shows "case inject_pending_nmi (vmx_event_ops E) (u, can) of
      Inl (v', r) \<Rightarrow> r < 0 \<and> entry_inv (v', False) | Inr s \<Rightarrow> entry_inv s"
proof (cases "nmi_pending u \<noteq> 0 \<and> can \<and> 0 \<le> vmx_nmi_allowed E u True")
  case False
  then show ?thesis
    using i by (auto simp: inject_pending_nmi_def entry_inv_def vmx_event_ops_def Let_def)
next
  case True
  then have r: "\<not> vm86_active (ev_hw u)" "due_event u = None" using i by (simp_all add: entry_inv_def)
  let ?u = "u\<lparr>nmi_pending := nmi_pending u - 1, nmi_injected := True\<rparr>"
  have win: "entry_inv (w, c) \<Longrightarrow> entry_inv (vmx_enable_nmi_window E w, c)" for w c
    using same_entry_event [OF same_entry_windows(2) [of E w]]
    by (simp add: entry_inv_def)
  have "due_event (vmx_inject_nmi E ?u) = due_event ?u"
    using r(1) by (simp add: due_event_def vmx_inject_nmi_def vmx_clear_hlt_def Let_def)
  also have "\<dots> = Some Entry_nmi" using r(2) by (simp add: due_none) (simp add: due_event_def)
  finally have inj: "entry_inv (vmx_inject_nmi E ?u, False)"
    using vmx_entry_nmi [of ?u E] r(1) by (simp add: entry_inv_def)
  show ?thesis
    using True i inj win
    by (auto simp: inject_pending_nmi_def vmx_event_ops_def Let_def)
qed

lemma vmx_irq_entry:
  assumes Q: "event_queue_contract (event_queue_of E)"
    and N: "event_env_contract (\<lambda>h. \<not> vm86_active h) N" "vmx_entry_contract N" and i: "entry_inv (u, can)"
  shows "case inject_pending_irq (event_queue_of E) (vmx_event_ops E) N (u, can) of
      Inl (v', r) \<Rightarrow> r < 0 \<and> entry_inv (v', False) | Inr v' \<Rightarrow> entry_inv (v', False)"
proof (cases "kvm_cpu_has_injectable_intr N u \<and> can \<and> 0 \<le> vmx_interrupt_allowed E u True")
  case False
  then show ?thesis
    using i by (auto simp: inject_pending_irq_def entry_inv_def vmx_event_ops_def Let_def)
next
  case True
  then have r: "\<not> vm86_active (ev_hw u)" "due_event u = None" using i by (simp_all add: entry_inv_def)
  obtain irq w where w: "kvm_cpu_get_interrupt N u = (irq, w)" by (rule prod.exhaust)
  have w': "same_events w u" "\<not> vm86_active (ev_hw w)" "same_entry w u"
    using N r(1) w unfolding event_env_contract_def vmx_entry_contract_def by (metis snd_conv)+
  let ?q = "w\<lparr>interrupt := \<lparr>irq_injected = True, irq_soft = False, irq_nr = of_int irq\<rparr>\<rparr>"
  have q: "kvm_queue_interrupt (event_queue_of E) (of_int irq) False w = ?q"
    using Q by (simp add: event_queue_contract_def)
  have "due_event (vmx_inject_irq E ?q False) = due_event ?q"
    using w'(2) by (simp add: due_event_def vmx_inject_irq_def vmx_clear_hlt_def Let_def)
  also have "\<dots> = Some (Entry_irq False (ucast (of_int irq :: 8 word)))"
    using r(2) w'(1) by (simp add: due_none same_events_def) (simp add: due_event_def)
  finally have inj: "entry_inv (vmx_inject_irq E ?q False, False)"
    using vmx_entry_irq [of ?q E False] w'(2) by (simp add: entry_inv_def)
  have none: "entry_inv (w, False)"
    using i same_entry_event [OF w'(3)] w'(1) by (simp add: entry_inv_def due_event_def same_events_def)
  have win: "entry_inv (x, False) \<Longrightarrow> entry_inv (vmx_enable_irq_window x, False)" for x
    using same_entry_event [OF same_entry_windows(1) [of x]]
    by (simp add: entry_inv_def)
  have u: "entry_inv (u, False)" using i by (simp add: entry_inv_def)
  show ?thesis
    using True inj none win u
    by (cases "vmx_interrupt_allowed E u True = 0"; cases "irq = - 1")
      (simp_all add: inject_pending_irq_def vmx_event_ops_def w q Let_def)
qed

lemma vmx_entry_is_due:
  assumes Q: "event_queue_contract (event_queue_of E)" and N: "event_env_contract (\<lambda>h. \<not> vm86_active h) N"
      "vmx_entry_contract N" and r: "\<not> vm86_active (ev_hw v)" and g: "\<not> guest_mode (ev_ex v)"
    and x: "\<not> pending (exception_vmexit (ev_ex v))" "\<not> req_triple_fault (ev_ex v)"
      "ex_vector (exception (ev_ex v)) < 256" "vmx_entry_event (ev_hw v) = None"
    and c: "kvm_check_and_inject_events (event_queue_of E) (vmx_event_ops E) N v = (v', imm, res)"
  shows "vmx_entry_event (ev_hw v') = due_event v'"
proof -
  obtain y h where w: "reinject_events (event_queue_of E) (vmx_event_ops E) v = v\<lparr>ev_ex := y, ev_hw := h\<rparr>"
    "\<not> vm86_active h" "pending (exception y) = pending (exception (ev_ex v))"
    "ex_vector (exception y) = ex_vector (exception (ev_ex v))"
    by (rule vmx_events.reinject_keeps [OF r])
  let ?w = "v\<lparr>ev_ex := y, ev_hw := h\<rparr>"
  have can: "\<not> kvm_event_needs_reinjection (event_queue_of E) ?w \<longleftrightarrow> due_event ?w = None"
    using Q by (auto simp: event_queue_contract_def due_none)
  have "entry_inv (inject_pending_exception (vmx_event_ops E) N
      (?w, \<not> kvm_event_needs_reinjection (event_queue_of E) ?w))"
    by (rule vmx_pending_entry [OF Q N(1) _ _ _ can])
      (use vmx_reinject_entry [OF Q r x w(1) [symmetric]] w x in simp_all)
  then have "\<exists>can. entry_inv (v', can)"
    using vmx_events.check_and_inject_cases [where J = entry_inv, OF g w(1) [symmetric]]
      vmx_smi_entry [OF N] vmx_nmi_entry vmx_irq_entry [OF Q N] c by blast
  then show ?thesis by (auto simp: entry_inv_def)
qed

text \<open> C20. On Intel, outside of nested guests and of virtual-8086 mode, with nothing but an exception,
  NMIs and interrupts on their way: after \<open>kvm_check_and_inject_events\<close> no exception is pending,
  nothing that was pending as an exception or being injected has been dropped or changed, an NMI is
  still counted or being injected, and the next VM entry delivers the exception, else the NMI, else
  the interrupt that is marked as injected, with its kind, vector and error code, and nothing if
  none is. At most one is marked, unless an exception was pending on top of an injected NMI or
  interrupt. \<close>

theorem no_event_is_lost:
  assumes "event_queue_contract (event_queue_of E)" and "event_env_contract (\<lambda>h. \<not> vm86_active h) N"
    and "vmx_entry_contract N" and "\<not> vm86_active (ev_hw v)" and "\<not> guest_mode (ev_ex v)" and "at_most_one v"
    and "\<not> pending (exception_vmexit (ev_ex v))" and "\<not> req_triple_fault (ev_ex v)"
    and "ex_vector (exception (ev_ex v)) < 256" and "vmx_entry_event (ev_hw v) = None"
    and "kvm_check_and_inject_events (event_queue_of E) (vmx_event_ops E) N v = (v', imm, r)"
  shows "\<not> pending (exception (ev_ex v')) \<and> events_kept v v' \<and> vmx_entry_event (ev_hw v') = due_event v' \<and>
    (\<not> collision v \<longrightarrow> at_most_one v')"
  using vmx_events.injects_one [OF assms(1,2,4-6,11)] vmx_entry_is_due [OF assms(1-5,7-11)] by blast

text \<open>The counting and the flags are the same on AMD.\<close>

lemma svm_no_event_is_lost:
  assumes "event_queue_contract (svm_event_queue E)" and "event_env_contract (svm_ready E) N"
    and "svm_ready E (ev_hw v)" and "\<not> guest_mode (ev_ex v)" and "at_most_one v"
    and "kvm_check_and_inject_events (svm_event_queue E) (svm_event_ops E) N v = (v', imm, r)"
  shows "\<not> pending (exception (ev_ex v')) \<and> (\<not> collision v \<longrightarrow> at_most_one v') \<and> events_kept v v'"
  by (rule svm_events.injects_one [OF assms])

theorem no_event_is_lost_witness:
  "events_kept (demo_event_vcpu demo_vmx_hw)
     (fst (kvm_check_and_inject_events demo_queue (vmx_event_ops demo_vmx_env) demo_env
        (demo_event_vcpu demo_vmx_hw))) \<and>
   vmx_entry_event (ev_hw (fst (kvm_check_and_inject_events demo_queue (vmx_event_ops demo_vmx_env) demo_env
        (demo_event_vcpu demo_vmx_hw)))) = Some Entry_nmi"
proof -
  let ?v = "demo_event_vcpu demo_vmx_hw"
  have q: "event_queue_of demo_vmx_env = demo_queue" by (simp add: demo_vmx_env_def)
  obtain v' imm r where c:
    "kvm_check_and_inject_events demo_queue (vmx_event_ops demo_vmx_env) demo_env ?v = (v', imm, r)"
    by (rule prod_cases3)
  have n: "vmx_entry_contract demo_env"
    by (simp add: vmx_entry_contract_def demo_env_def same_entry_def)
  have "\<not> pending (exception (ev_ex v')) \<and> events_kept ?v v' \<and> vmx_entry_event (ev_hw v') = due_event v' \<and>
      (\<not> collision ?v \<longrightarrow> at_most_one v')"
    by (rule no_event_is_lost [of demo_vmx_env demo_env])
      (use demo_queue demo_env n c in \<open>simp_all add: q demo_event_vcpu_def demo_exception_def
         demo_vmx_hw_def at_most_one_def vmx_entry_event_def GP_VECTOR_def\<close>)
  moreover have "due_event (fst (kvm_check_and_inject_events demo_queue (vmx_event_ops demo_vmx_env)
      demo_env ?v)) = Some Entry_nmi" by code_simp
  ultimately show ?thesis using c by simp
qed

text \<open> C21. An entry that is called off gives back the event it had taken up, whatever it was and on
  both vendors: the exception with its error code, of which Intel keeps 16 bits, the NMI, or the
  interrupt with its number and kind. Only the exception #VC of AMD is dropped on purpose. \<close>

theorem cancelled_events_return:
  assumes "event_queue_contract (event_queue_of E)" and "\<not> vm86_active (ev_hw v)"
    and "event_queue_contract (svm_event_queue F)" and "svm_ready F (ev_hw w)"
    and "x = exception (ev_ex v)" and "ex_vector x < 256" and "ex_vector x \<noteq> X86_TRAP_VC"
    and "y = exception (ev_ex w)" and "ex_vector y < 256" and "ex_vector y \<noteq> X86_TRAP_VC"
  shows "queued_events (vmx_cancel_injection E (vmx_inject_exception E v)) =
      (Some (ex_vector x, if has_error_code x then Some (ucast (ucast (ex_error_code x) :: u16)) else None),
       False, None) \<and>
    queued_events (vmx_cancel_injection E (vmx_inject_nmi E v)) = (None, True, None) \<and>
    queued_events (vmx_cancel_injection E (vmx_inject_irq E v again)) =
      (None, False, Some (irq_nr (interrupt v), irq_soft (interrupt v))) \<and>
    queued_events (svm_cancel_injection F (svm_inject_exception F w)) =
      (Some (ex_vector y, if has_error_code y then Some (ex_error_code y) else None), False, None) \<and>
    queued_events (svm_cancel_injection F (svm_inject_nmi F w)) = (None, True, None) \<and>
    queued_events (svm_cancel_injection F (svm_inject_irq F w again)) =
      (None, False, Some (irq_nr (interrupt w), irq_soft (interrupt w)))"
proof -
  have "cancel_injection (vmx_event_ops E) = vmx_cancel_injection E"
    "inject_exception (vmx_event_ops E) = vmx_inject_exception E" "inject_nmi (vmx_event_ops E) = vmx_inject_nmi E"
    "inject_irq (vmx_event_ops E) = vmx_inject_irq E"
    "cancel_injection (svm_event_ops F) = svm_cancel_injection F"
    "inject_exception (svm_event_ops F) = svm_inject_exception F" "inject_nmi (svm_event_ops F) = svm_inject_nmi F"
    "inject_irq (svm_event_ops F) = svm_inject_irq F"
    by (simp_all add: vmx_event_ops_def svm_event_ops_def)
  note ops = this
  note vmx = vmx_events.cancel_exception [OF assms(1,2)] vmx_events.cancel_nmi [OF assms(1,2)]
    vmx_events.cancel_irq [OF assms(1,2)]
  note svm = svm_events.cancel_exception [OF assms(3,4)] svm_events.cancel_nmi [OF assms(3,4)]
    svm_events.cancel_irq [OF assms(3,4)]
  show ?thesis
    using vmx(1) assms(5-7) svm(1) assms(8-10) vmx(2,3) svm(2,3)
    unfolding ops by blast
qed

theorem cancelled_events_return_witness:
  "queued_events (vmx_cancel_injection demo_vmx_env (vmx_inject_exception demo_vmx_env
      (demo_event_vcpu demo_vmx_hw))) = (Some (GP_VECTOR, Some 0x18), False, None) \<and>
   queued_events (svm_cancel_injection demo_svm_env (svm_inject_irq demo_svm_env
      (demo_event_vcpu demo_svm_hw) False)) = (None, False, Some (0x21, False))"
proof -
  have "event_queue_contract (event_queue_of demo_vmx_env)" "event_queue_contract (svm_event_queue demo_svm_env)"
    by (simp_all add: demo_vmx_env_def demo_svm_env_def demo_queue)
  moreover have "\<not> vm86_active (ev_hw (demo_event_vcpu demo_vmx_hw))"
    by (simp add: demo_event_vcpu_def demo_vmx_hw_def)
  moreover have "svm_ready demo_svm_env (ev_hw (demo_event_vcpu demo_svm_hw))"
    by (simp add: svm_ready_def demo_event_vcpu_def demo_svm_env_def demo_svm_hw_def)
  moreover have "exception (ev_ex (demo_event_vcpu h)) = demo_exception" for h :: 'a
    by (simp add: demo_event_vcpu_def)
  moreover have "ex_vector demo_exception < 256" "ex_vector demo_exception \<noteq> X86_TRAP_VC"
    by (simp_all add: demo_exception_def GP_VECTOR_def)
  ultimately show ?thesis
    using cancelled_events_return [of demo_vmx_env "demo_event_vcpu demo_vmx_hw" demo_svm_env
        "demo_event_vcpu demo_svm_hw" demo_exception demo_exception False]
    by (simp add: demo_exception_def demo_event_vcpu_def)
qed

end
