(* ===== verification/Kvm_Events_Save.thy ===== *)
theory Kvm_Events_Save
  imports Kvm_Events_Claims
begin

unbundle bit_operations_syntax

text \<open>
  Saving the events of a vCPU and restoring them on another one, as for a migration. What the
  vendor's hardware shows of its events is a view of three values with the usual laws of reading
  and writing, the locale \<open>event_view\<close>.
\<close>

section \<open>The view of the hardware\<close>

text \<open>Whether NMIs are masked, whether the hardware keeps a pending one, and the interrupt shadow.\<close>

definition hw_view :: "'h event_ops \<Rightarrow> 'h ev_vcpu \<Rightarrow> bool \<times> bool \<times> u32" where
  "hw_view ops v = (fst (get_nmi_mask ops v), is_vnmi_pending ops v, get_interrupt_shadow ops v)"

locale event_view = event_vendor Q ops trunc ready
  for Q :: "'h event_queue" and ops :: "'h event_ops" and trunc :: "u32 \<Rightarrow> u32"
    and ready :: "'h \<Rightarrow> bool" +
  fixes vnmi :: bool and shadows :: "u32 set"
  assumes view_of_hw: "ev_hw u = ev_hw v \<Longrightarrow> hw_view ops u = hw_view ops v"
    and view_get_mask: "hw_view ops (snd (get_nmi_mask ops v)) = hw_view ops v"
    and view_set_mask: "hw_view ops (set_nmi_mask ops m v) = (m, snd (hw_view ops v))"
    and view_set_shadow: "s \<in> shadows \<Longrightarrow> hw_view ops (set_interrupt_shadow ops s v) =
      (fst (hw_view ops v), fst (snd (hw_view ops v)), s)"
    and view_vnmi: "set_vnmi_pending ops v =
      (if vnmi \<and> \<not> is_vnmi_pending ops v then (True, snd (set_vnmi_pending ops v)) else (False, v))"
    and view_set_vnmi: "vnmi \<Longrightarrow> \<not> is_vnmi_pending ops v \<Longrightarrow>
      hw_view ops (snd (set_vnmi_pending ops v)) =
        (fst (hw_view ops v), True, snd (snd (hw_view ops v)))"
    and no_vnmi: "is_vnmi_pending ops v \<Longrightarrow> vnmi"
    and byte_shadows: "s \<in> shadows \<Longrightarrow> ucast (ucast s :: 8 word) = s"

interpretation vmx_view: event_view "event_queue_of E" "vmx_event_ops E"
  "\<lambda>err. ucast (ucast err :: u16)" "\<lambda>h. \<not> vm86_active h" False "{0, 1, 2}" for E
proof unfold_locales
  show "ev_hw u = ev_hw v \<Longrightarrow> hw_view (vmx_event_ops E) u = hw_view (vmx_event_ops E) v" for u v
    by (simp add: hw_view_def vmx_event_ops_def vmx_get_nmi_mask_def vmx_get_interrupt_shadow_def)
  show "hw_view (vmx_event_ops E) (snd (get_nmi_mask (vmx_event_ops E) v)) = hw_view (vmx_event_ops E) v" for v
    by (simp add: hw_view_def vmx_event_ops_def vmx_get_nmi_mask_def vmx_get_interrupt_shadow_def Let_def)
  show "hw_view (vmx_event_ops E) (set_nmi_mask (vmx_event_ops E) m v) =
      (m, snd (hw_view (vmx_event_ops E) v))" for m v
    by (simp add: hw_view_def vmx_event_ops_def vmx_get_nmi_mask_def vmx_set_nmi_mask_def
        vmx_get_interrupt_shadow_def Let_def bit.conj_disj_distrib2 and.assoc)
  show "s \<in> {0, 1, 2} \<Longrightarrow> hw_view (vmx_event_ops E) (set_interrupt_shadow (vmx_event_ops E) s v) =
      (fst (hw_view (vmx_event_ops E) v), fst (snd (hw_view (vmx_event_ops E) v)), s)" for s v
    by (auto simp: hw_view_def vmx_event_ops_def vmx_get_nmi_mask_def vmx_set_interrupt_shadow_def
        vmx_get_interrupt_shadow_def Let_def bit.conj_disj_distrib2 and.assoc)
  show "ucast (ucast s :: 8 word) = s" if "s \<in> {0, 1, 2}" for s :: u32
    using that by auto
qed (simp_all add: vmx_event_ops_def)

text \<open>On AMD for a vCPU whose use of virtual NMIs does not change.\<close>

interpretation svm_view: event_view "svm_event_queue (F\<lparr>is_vnmi_enabled := \<lambda>_. b\<rparr>)"
  "svm_event_ops (F\<lparr>is_vnmi_enabled := \<lambda>_. b\<rparr>)" "\<lambda>err. err" "svm_ready (F\<lparr>is_vnmi_enabled := \<lambda>_. b\<rparr>)"
  b "{0, KVM_X86_SHADOW_BOTH}" for F b
proof unfold_locales
  let ?F = "F\<lparr>is_vnmi_enabled := \<lambda>_. b\<rparr>"
  let ?ops = "svm_event_ops ?F"
  note defs = hw_view_def svm_event_ops_def svm_get_nmi_mask_def svm_is_vnmi_pending_def
    svm_get_interrupt_shadow_def
  show "hw_view ?ops u = hw_view ?ops v" if "ev_hw u = ev_hw v" for u v
    using that by (simp add: defs)
  show "hw_view ?ops (snd (get_nmi_mask ?ops v)) = hw_view ?ops v" for v
    by (simp add: svm_event_ops_def)
  show "hw_view ?ops (set_nmi_mask ?ops m v) = (m, snd (hw_view ?ops v))" for m v
    by (simp add: defs svm_set_nmi_mask_def svm_set_iret_intercept_def svm_clr_iret_intercept_def
        Let_def bit.conj_disj_distrib2 and.assoc)
  show "hw_view ?ops (set_interrupt_shadow ?ops s v) = (fst (hw_view ?ops v), fst (snd (hw_view ?ops v)), s)"
    if "s \<in> {0, KVM_X86_SHADOW_BOTH}" for s v
    using that
    by (auto simp: defs svm_set_interrupt_shadow_def bit.conj_disj_distrib2 and.assoc)
  show "set_vnmi_pending ?ops v =
      (if b \<and> \<not> is_vnmi_pending ?ops v then (True, snd (set_vnmi_pending ?ops v)) else (False, v))" for v
    by (cases b) (simp_all add: svm_event_ops_def svm_vnmi [where b = b])
  show "hw_view ?ops (snd (set_vnmi_pending ?ops v)) = (fst (hw_view ?ops v), True, snd (snd (hw_view ?ops v)))"
    if "b" "\<not> is_vnmi_pending ?ops v" for v
    using that by (simp add: defs svm_set_vnmi_pending_def bit.conj_disj_distrib2)
  show "is_vnmi_pending ?ops v \<Longrightarrow> b" for v
    by (simp add: defs)
  show "ucast (ucast s :: 8 word) = s" if "s \<in> {0, KVM_X86_SHADOW_BOTH}" for s :: u32
    using that by auto
qed

section \<open>Reading\<close>

text \<open>The requests a reader works off first, and then what it reports.\<close>

definition settled :: "'h event_ops \<Rightarrow> 'h event_env \<Rightarrow> 'h ev_vcpu \<Rightarrow> 'h ev_vcpu" where
  "settled ops N v =
     (let v = process_nmi ops v in if req_smi v then process_smi N (v\<lparr>req_smi := False\<rparr>) else v)"

definition events_of ::
  "'h event_queue \<Rightarrow> 'h event_env \<Rightarrow> bool \<times> bool \<times> u32 \<Rightarrow> 'h ev_vcpu \<Rightarrow> kvm_vcpu_events" where
  "events_of Q N = (\<lambda>(masked, pend, shadow) v.
     (saved_exception Q N (reported_exception v) no_events)
     \<lparr>e_interrupt_injected := byte_of (irq_injected (interrupt v) \<and> \<not> irq_soft (interrupt v)),
      e_interrupt_nr := irq_nr (interrupt v), e_interrupt_shadow := ucast shadow,
      e_nmi_injected := byte_of (nmi_injected v),
      e_nmi_pending := of_nat (nmi_pending v + of_bool pend), e_nmi_masked := byte_of masked,
      e_smi_smm := byte_of (in_smm v), e_smi_pending := byte_of (smi_pending v),
      e_smi_smm_inside_nmi := byte_of (smm_inside_nmi v),
      e_smi_latched_init := byte_of (lapic_in_kernel N \<and> apic_init_pending v),
      e_flags := KVM_VCPUEVENT_VALID_NMI_PENDING OR KVM_VCPUEVENT_VALID_SHADOW OR
        KVM_VCPUEVENT_VALID_SMM OR KVM_VCPUEVENT_VALID_PAYLOAD OR
        (if triple_fault_event N then KVM_VCPUEVENT_VALID_TRIPLE_FAULT else 0),
      e_triple_fault_pending :=
        (if triple_fault_event N then byte_of (req_triple_fault (ev_ex v)) else 0)\<rparr>)"

text \<open>What the functions of other files do to the events, as documented there; leaving nested
  guests has nothing to do outside of one.\<close>

definition save_contract :: "'h event_env \<Rightarrow> bool" where
  "save_contract N \<longleftrightarrow>
     (\<forall>v. process_smi N v = ev_request (v\<lparr>smi_pending := True\<rparr>)) \<and>
     (\<forall>v. \<not> guest_mode (ev_ex v) \<longrightarrow> kvm_leave_nested N v = v) \<and>
     (\<forall>v. kvm_smm_changed N True v = v\<lparr>in_smm := True\<rparr>) \<and>
     (\<forall>v. kvm_smm_changed N False v = ev_request (v\<lparr>in_smm := False, smm_inside_nmi := False\<rparr>)) \<and>
     (\<forall>v. kvm_lapic_latched_init N v \<longleftrightarrow> lapic_in_kernel N \<and> apic_init_pending v)"

text \<open>The last step alone, on the vCPU with the NMIs collected.\<close>

lemma process_nmi_step:
  assumes "get_nmi_mask ops v = (m, u)"
    and "lim = (if m \<or> nmi_injected u then 1 else 2) - (if is_vnmi_pending ops u then 1 else 0)"
    and "w = u\<lparr>nmi_pending := min (nmi_pending u + nmi_queued (ev_ex u)) lim,
      ev_ex := (ev_ex u)\<lparr>nmi_queued := 0\<rparr>\<rparr>"
  shows "process_nmi ops v =
    (let w = (if nmi_pending w \<noteq> 0 then
                let (done', w) = set_vnmi_pending ops w
                in if done' then w\<lparr>nmi_pending := nmi_pending w - 1\<rparr> else w
              else w)
     in if nmi_pending w \<noteq> 0 then ev_request w else w)"
proof -
  let ?c = "u\<lparr>nmi_pending := nmi_pending u + nmi_queued (ev_ex u), ev_ex := (ev_ex u)\<lparr>nmi_queued := 0\<rparr>\<rparr>"
  let ?l = "if m \<or> nmi_injected u then 1 else 2 :: nat"
  have "?c\<lparr>nmi_pending := min (nmi_pending ?c) (if is_vnmi_pending ops u then ?l - 1 else ?l)\<rparr> = w"
    by (simp add: assms(2,3))
  then show ?thesis
    by (simp only: process_nmi_def assms(1) Let_def prod.case)
qed

context event_view
begin

lemma get_mask_obtain:
  obtains h where "get_nmi_mask ops v = (fst (hw_view ops v), v\<lparr>ev_hw := h\<rparr>)"
    "hw_view ops (v\<lparr>ev_hw := h\<rparr>) = hw_view ops v"
proof -
  obtain m u where u: "get_nmi_mask ops v = (m, u)" by (rule prod.exhaust)
  have "u = v\<lparr>ev_hw := ev_hw u\<rparr>" "hw_view ops u = hw_view ops v"
    using get_mask_hw [of v] view_get_mask [of v] by (simp_all add: u)
  moreover have "m = fst (hw_view ops v)" by (simp add: hw_view_def u)
  ultimately show ?thesis
    using that [of "ev_hw u"] u by simp
qed

lemma settled_nmis:
  obtains k x h where
    "process_nmi ops v = v\<lparr>nmi_pending := k,
       ev_ex := (ev_ex v)\<lparr>nmi_queued := 0, req_event := x\<rparr>, ev_hw := h\<rparr>"
    "hw_view ops (process_nmi ops v) =
       (fst (hw_view ops v), is_vnmi_pending ops (process_nmi ops v), snd (snd (hw_view ops v)))"
    "k + of_bool (is_vnmi_pending ops (process_nmi ops v)) =
       min (nmi_pending v + of_bool (is_vnmi_pending ops v) + nmi_queued (ev_ex v))
         (nmi_limit (fst (hw_view ops v)) v)"
proof -
  obtain g where g: "get_nmi_mask ops v = (fst (hw_view ops v), v\<lparr>ev_hw := g\<rparr>)"
    "hw_view ops (v\<lparr>ev_hw := g\<rparr>) = hw_view ops v" by (rule get_mask_obtain)
  define lim where "lim = nmi_limit (fst (hw_view ops v)) v - (if is_vnmi_pending ops v then 1 else 0)"
  define n where "n = min (nmi_pending v + nmi_queued (ev_ex v)) lim"
  define u where "u = v\<lparr>nmi_pending := n, ev_ex := (ev_ex v)\<lparr>nmi_queued := 0\<rparr>, ev_hw := g\<rparr>"
  have view: "hw_view ops w = hw_view ops v" if "ev_hw w = g" for w
    using view_of_hw [of w "v\<lparr>ev_hw := g\<rparr>"] g(2) that by simp
  have pend: "is_vnmi_pending ops w = is_vnmi_pending ops v" if "ev_hw w = g" for w
    using view [OF that] by (simp add: hw_view_def)
  have "1 \<le> nmi_limit (fst (hw_view ops v)) v" by (simp add: nmi_limit_def)
  then have total: "n + of_bool (is_vnmi_pending ops v) =
      min (nmi_pending v + of_bool (is_vnmi_pending ops v) + nmi_queued (ev_ex v))
        (nmi_limit (fst (hw_view ops v)) v)"
    by (auto simp: n_def lim_def min_def)
  have hw_u: "ev_hw u = g" and pend_u: "nmi_pending u = n" by (simp_all add: u_def)
  have "lim = (if fst (hw_view ops v) \<or> nmi_injected (v\<lparr>ev_hw := g\<rparr>) then 1 else 2) -
      (if is_vnmi_pending ops (v\<lparr>ev_hw := g\<rparr>) then 1 else 0)"
    by (simp only: lim_def nmi_limit_def) (simp add: pend)
  from process_nmi_step [OF g(1) this, of u] have p: "process_nmi ops v =
    (let w = (if n \<noteq> 0 then
                let (done', w) = set_vnmi_pending ops u
                in if done' then w\<lparr>nmi_pending := nmi_pending w - 1\<rparr> else w
              else u)
     in if nmi_pending w \<noteq> 0 then ev_request w else w)"
    by (simp add: u_def n_def)
  show ?thesis
  proof (cases "n \<noteq> 0 \<and> vnmi \<and> \<not> is_vnmi_pending ops v")
    case True
    obtain h where h: "snd (set_vnmi_pending ops u) = u\<lparr>ev_hw := h\<rparr>"
      using vnmi_hw [of u] by blast
    have s: "set_vnmi_pending ops u = (True, u\<lparr>ev_hw := h\<rparr>)"
      using view_vnmi [of u] True pend [OF hw_u] h by simp
    have vh: "hw_view ops w = (fst (hw_view ops v), True, snd (snd (hw_view ops v)))" if "ev_hw w = h" for w
    proof -
      have "hw_view ops w = hw_view ops (u\<lparr>ev_hw := h\<rparr>)" using that by (intro view_of_hw) simp
      also have "\<dots> = (fst (hw_view ops u), True, snd (snd (hw_view ops u)))"
        unfolding h [symmetric] using True pend [OF hw_u] by (intro view_set_vnmi) simp_all
      finally show ?thesis by (simp add: view [OF hw_u])
    qed
    then have ph: "is_vnmi_pending ops w" if "ev_hw w = h" for w
      using that by (simp add: hw_view_def)
    have "process_nmi ops v = (if n - 1 \<noteq> 0 then ev_request (u\<lparr>ev_hw := h, nmi_pending := n - 1\<rparr>)
        else u\<lparr>ev_hw := h, nmi_pending := n - 1\<rparr>)"
      using True by (simp add: p s pend_u)
    then have q: "process_nmi ops v = v\<lparr>nmi_pending := n - 1, ev_ex := (ev_ex v)\<lparr>nmi_queued := 0,
        req_event := (n - 1 \<noteq> 0 \<or> req_event (ev_ex v))\<rparr>, ev_hw := h\<rparr>"
      by (simp add: u_def ev_request_def)
    have hw: "ev_hw (process_nmi ops v) = h" by (simp add: q)
    show ?thesis
      by (rule that [OF q]) (use vh [OF hw] ph [OF hw] True total in simp_all)
  next
    case False
    have "n = 0 \<or> set_vnmi_pending ops u = (False, u)"
      using view_vnmi [of u] False pend [OF hw_u] by auto
    then have "process_nmi ops v = (if n \<noteq> 0 then ev_request u else u)"
      by (auto simp add: p pend_u)
    then have q: "process_nmi ops v = v\<lparr>nmi_pending := n, ev_ex := (ev_ex v)\<lparr>nmi_queued := 0,
        req_event := (n \<noteq> 0 \<or> req_event (ev_ex v))\<rparr>, ev_hw := g\<rparr>"
      by (simp add: u_def ev_request_def)
    have hw: "ev_hw (process_nmi ops v) = g" by (simp add: q)
    show ?thesis
      by (rule that [OF q]) (use view [OF hw] pend [OF hw] total in \<open>simp_all add: hw_view_def\<close>)
  qed
qed

lemma get_events:
  assumes "save_contract N" "exception_payload_enabled N"
  obtains h where "kvm_vcpu_ioctl_x86_get_vcpu_events Q ops N v =
      ((settled ops N v)\<lparr>ev_hw := h\<rparr>, events_of Q N (hw_view ops (settled ops N v)) (settled ops N v))"
    "hw_view ops ((settled ops N v)\<lparr>ev_hw := h\<rparr>) = hw_view ops (settled ops N v)"
proof -
  let ?v = "settled ops N v"
  obtain h where h: "get_nmi_mask ops ?v = (fst (hw_view ops ?v), ?v\<lparr>ev_hw := h\<rparr>)"
    "hw_view ops (?v\<lparr>ev_hw := h\<rparr>) = hw_view ops ?v" by (rule get_mask_obtain)
  then have p: "is_vnmi_pending ops (?v\<lparr>ev_hw := h\<rparr>) = is_vnmi_pending ops ?v"
    by (simp add: hw_view_def)
  have view: "hw_view ops ?v = (fst (hw_view ops ?v), is_vnmi_pending ops ?v, get_interrupt_shadow ops ?v)"
    by (simp add: hw_view_def)
  have g: "kvm_vcpu_ioctl_x86_get_vcpu_events Q ops N v =
    (let x = reported_exception ?v; e = saved_exception Q N x no_events;
         shadow = get_interrupt_shadow ops ?v; (masked, v) = get_nmi_mask ops ?v;
         e = e\<lparr>e_interrupt_injected := byte_of (irq_injected (interrupt v) \<and> \<not> irq_soft (interrupt v)),
                e_interrupt_nr := irq_nr (interrupt v),
                e_interrupt_shadow := ucast shadow,
                e_nmi_injected := byte_of (nmi_injected v),
                e_nmi_pending := of_nat (kvm_get_nr_pending_nmis ops v),
                e_nmi_masked := byte_of masked,
                e_smi_smm := byte_of (in_smm v), e_smi_pending := byte_of (smi_pending v),
                e_smi_smm_inside_nmi := byte_of (smm_inside_nmi v),
                e_smi_latched_init := byte_of (kvm_lapic_latched_init N v),
                e_flags := KVM_VCPUEVENT_VALID_NMI_PENDING OR KVM_VCPUEVENT_VALID_SHADOW OR
                  KVM_VCPUEVENT_VALID_SMM OR
                  (if exception_payload_enabled N then KVM_VCPUEVENT_VALID_PAYLOAD else 0) OR
                  (if triple_fault_event N then KVM_VCPUEVENT_VALID_TRIPLE_FAULT else 0),
                e_triple_fault_pending :=
                  (if triple_fault_event N then byte_of (req_triple_fault (ev_ex v)) else 0)\<rparr>
     in (v, e))"
    using assms(2) unfolding kvm_vcpu_ioctl_x86_get_vcpu_events_def settled_def
    by (simp only: Let_def not_True_eq_False simp_thms if_False)
  have latch: "kvm_lapic_latched_init N w = (lapic_in_kernel N \<and> apic_init_pending w)" for w
    using assms(1) by (simp add: save_contract_def)
  show ?thesis
  proof (rule that [OF _ h(2)])
    show "kvm_vcpu_ioctl_x86_get_vcpu_events Q ops N v =
      (?v\<lparr>ev_hw := h\<rparr>, events_of Q N (hw_view ops ?v) ?v)"
      unfolding g h(1) Let_def prod.case
      by (subst view) (simp add: events_of_def kvm_get_nr_pending_nmis_def p latch assms(2))
  qed
qed

text \<open>What a vCPU can be in between two ioctls: an exception is pending or injected, its number
  is one of the processor's, and a payload belongs to a pending one.\<close>

end

definition saveable :: "'h event_queue \<Rightarrow> 'h ev_vcpu \<Rightarrow> bool" where
  "saveable Q v \<longleftrightarrow>
     (let x = reported_exception v in
      (pending x \<or> injected x \<longrightarrow> ex_vector x \<le> 31 \<and> ex_vector x \<noteq> NMI_VECTOR) \<and>
      \<not> (pending x \<and> injected x) \<and>
      (has_payload x \<longrightarrow> pending x \<and> \<not> kvm_exception_is_soft Q (ex_vector x))) \<and>
     (smm_inside_nmi v \<longrightarrow> in_smm v)"

lemma reported_exception_cong:
  assumes "exception (ev_ex v) = exception (ev_ex w)" "exception_vmexit (ev_ex v) = exception_vmexit (ev_ex w)"
  shows "reported_exception v = reported_exception w"
  by (simp add: reported_exception_def reported_is_vmexit_def assms)

text \<open>A vCPU to restore to: no NMI of its own on the way, and the shadow can be set.\<close>

definition restorable :: "'h event_ops \<Rightarrow> 'h ev_vcpu \<Rightarrow> bool" where
  "restorable ops w \<longleftrightarrow>
     nmi_pending w = 0 \<and> nmi_queued (ev_ex w) = 0 \<and> \<not> is_vnmi_pending ops w \<and> \<not> req_smi w \<and>
     \<not> guest_mode (ev_ex w) \<and> (smm_inside_nmi w \<longrightarrow> in_smm w) \<and>
     ev_mp_state w \<noteq> KVM_MP_STATE_INIT_RECEIVED"

lemma byte_of_simps [simp]:
  "byte_of b = 0 \<longleftrightarrow> \<not> b" "byte_of True = 1" "byte_of False = 0"
  by (simp_all add: byte_of_def)

lemma byte_vector:
  assumes "n < (256 :: u32)"
  shows "ucast (ucast n :: 8 word) = n"
proof -
  have "unat n < 2 ^ 8" using assms by (simp add: word_less_nat_alt)
  then have "take_bit 8 n = n"
    by (simp add: word_unat_eq_iff unsigned_take_bit_eq take_bit_nat_eq_self)
  then show ?thesis by transfer simp
qed

lemma small_vector:
  assumes "n \<le> (31 :: u32)"
  shows "ucast (ucast n :: 8 word) = n" "(ucast n :: 8 word) \<le> 31"
    "(ucast n :: 8 word) = ucast m \<Longrightarrow> m \<le> 31 \<Longrightarrow> n = m"
proof -
  have lt: "k < 256" if "k \<le> 31" for k :: u32 using that by (simp add: word_le_nat_alt word_less_nat_alt)
  show n: "ucast (ucast n :: 8 word) = n" by (rule byte_vector [OF lt [OF assms]])
  have "unat (ucast n :: 8 word) = unat n"
    using assms by (simp add: unsigned_ucast_eq take_bit_nat_eq_self word_le_nat_alt)
  then show "(ucast n :: 8 word) \<le> 31" using assms by (simp add: word_le_nat_alt)
  show "n = m" if "(ucast n :: 8 word) = ucast m" "m \<le> 31"
    using n that(1) byte_vector [OF lt [OF that(2)]] by simp
qed

text \<open>The exception that is put back from what was saved of one.\<close>

definition restored_exception :: "kvm_vcpu_events \<Rightarrow> kvm_queued_exception" where
  "restored_exception e =
     \<lparr>pending = (e_exception_pending e \<noteq> 0), injected = (e_exception_injected e \<noteq> 0),
      has_error_code = (e_exception_has_error_code e \<noteq> 0), ex_vector = ucast (e_exception_nr e),
      ex_error_code = e_exception_error_code e, ex_payload = e_exception_payload e,
      has_payload = (e_exception_has_payload e \<noteq> 0)\<rparr>"

lemma saved_restored_exception:
  assumes "exception_payload_enabled N"
    and "pending x \<or> injected x \<Longrightarrow> ex_vector x \<le> 31"
  shows "saved_exception Q N (restored_exception (saved_exception Q N x no_events)) no_events =
    saved_exception Q N x no_events"
proof (cases "pending x \<or> injected x")
  case True
  then show ?thesis
    using assms small_vector(1) [of "ex_vector x"]
    by (simp add: saved_exception_def restored_exception_def no_events_def Let_def)
next
  case False
  then show ?thesis
    using assms(1) byte_back [of "ucast (ex_vector x)"]
    by (simp add: saved_exception_def restored_exception_def no_events_def Let_def)
qed

text \<open>What is reported depends on the reported parts only.\<close>

lemma events_of_cong:
  assumes "saved_exception Q N (reported_exception v) no_events = saved_exception Q N (reported_exception w) no_events"
    and "irq_injected (interrupt v) \<and> \<not> irq_soft (interrupt v) \<longleftrightarrow> irq_injected (interrupt w) \<and> \<not> irq_soft (interrupt w)"
    and "irq_nr (interrupt v) = irq_nr (interrupt w)" and "nmi_injected v = nmi_injected w"
    and "nmi_pending v + of_bool p = nmi_pending w + of_bool q"
    and "in_smm v = in_smm w" and "smi_pending v = smi_pending w" and "smm_inside_nmi v = smm_inside_nmi w"
    and "lapic_in_kernel N \<Longrightarrow> apic_init_pending v = apic_init_pending w"
    and "triple_fault_event N \<Longrightarrow> req_triple_fault (ev_ex v) = req_triple_fault (ev_ex w)"
  shows "events_of Q N (m, p, s) v = events_of Q N (m, q, s) w"
  unfolding events_of_def prod.case assms(1-8)
  using assms(9,10) by (cases "lapic_in_kernel N"; cases "triple_fault_event N") simp_all

lemma restored_smm:
  assumes "save_contract N" "\<not> guest_mode (ev_ex u)" "smm_inside_nmi u \<Longrightarrow> in_smm u"
    and "e_flags e AND KVM_VCPUEVENT_VALID_SMM \<noteq> 0" and "e_smi_smm e = byte_of b"
  obtains x where "restore_smm N e u = u\<lparr>in_smm := b, smi_pending := (e_smi_pending e \<noteq> 0),
      smm_inside_nmi := (b \<and> e_smi_smm_inside_nmi e \<noteq> 0),
      apic_init_pending := (if lapic_in_kernel N then e_smi_latched_init e \<noteq> 0 else apic_init_pending u),
      ev_ex := (ev_ex u)\<lparr>req_event := x\<rparr>\<rparr>"
proof -
  let ?x = "(in_smm u \<and> \<not> b) \<or> req_event (ev_ex u)"
  have "restore_smm N e u = u\<lparr>in_smm := b, smi_pending := (e_smi_pending e \<noteq> 0),
      smm_inside_nmi := (b \<and> e_smi_smm_inside_nmi e \<noteq> 0),
      apic_init_pending := (if lapic_in_kernel N then e_smi_latched_init e \<noteq> 0 else apic_init_pending u),
      ev_ex := (ev_ex u)\<lparr>req_event := ?x\<rparr>\<rparr>"
    using assms unfolding restore_smm_def save_contract_def
    by (cases b; cases "in_smm u"; cases "smm_inside_nmi u") (simp_all add: ev_request_def Let_def)
  then show ?thesis by (rule that)
qed

section \<open>Restoring\<close>

lemma events_of_fields:
  "e_flags (events_of Q N (m, p, sh) v) = KVM_VCPUEVENT_VALID_NMI_PENDING OR KVM_VCPUEVENT_VALID_SHADOW OR
     KVM_VCPUEVENT_VALID_SMM OR KVM_VCPUEVENT_VALID_PAYLOAD OR
     (if triple_fault_event N then KVM_VCPUEVENT_VALID_TRIPLE_FAULT else 0)"
  "e_interrupt_shadow (events_of Q N (m, p, sh) v) = ucast sh"
  "e_nmi_masked (events_of Q N (m, p, sh) v) = byte_of m"
  "e_nmi_injected (events_of Q N (m, p, sh) v) = byte_of (nmi_injected v)"
  "e_nmi_pending (events_of Q N (m, p, sh) v) = of_nat (nmi_pending v + of_bool p)"
  "e_smi_smm (events_of Q N (m, p, sh) v) = byte_of (in_smm v)"
  "e_smi_pending (events_of Q N (m, p, sh) v) = byte_of (smi_pending v)"
  "e_smi_smm_inside_nmi (events_of Q N (m, p, sh) v) = byte_of (smm_inside_nmi v)"
  "e_smi_latched_init (events_of Q N (m, p, sh) v) = byte_of (lapic_in_kernel N \<and> apic_init_pending v)"
  "e_triple_fault_pending (events_of Q N (m, p, sh) v) =
     (if triple_fault_event N then byte_of (req_triple_fault (ev_ex v)) else 0)"
  "e_interrupt_injected (events_of Q N (m, p, sh) v) = byte_of (irq_injected (interrupt v) \<and> \<not> irq_soft (interrupt v))"
  "e_interrupt_nr (events_of Q N (m, p, sh) v) = irq_nr (interrupt v)"
  "e_interrupt_soft (events_of Q N (m, p, sh) v) = 0"
  "restored_exception (events_of Q N (m, p, sh) v) =
     restored_exception (saved_exception Q N (reported_exception v) no_events)"
  by (simp_all add: events_of_def restored_exception_def saved_exception_def no_events_def Let_def)

lemma unchanged_fields:
  "e_exception_injected e = a \<Longrightarrow> e\<lparr>e_exception_injected := a\<rparr> = e"
  "e_exception_has_payload e = b \<Longrightarrow> e\<lparr>e_exception_has_payload := b\<rparr> = e"
  by (cases e, simp)+

text \<open>What was saved passes the checks as it is.\<close>

lemma saved_events_checked:
  assumes "exception_payload_enabled N" "saveable Q v" "mp \<noteq> KVM_MP_STATE_INIT_RECEIVED"
  shows "checked_events N mp (events_of Q N (m, p, sh) v) = Some (events_of Q N (m, p, sh) v)"
proof -
  let ?e = "events_of Q N (m, p, sh) v"
  let ?x = "reported_exception v"
  have f: "e_flags ?e AND NOT known_event_flags = 0" "e_flags ?e AND KVM_VCPUEVENT_VALID_PAYLOAD \<noteq> 0"
    by (simp_all add: events_of_fields known_event_flags_def)
  have x: "e_exception_nr ?e = ucast (ex_vector ?x)"
    "e_exception_pending ?e \<noteq> 0 \<Longrightarrow> pending ?x" "e_exception_injected ?e \<noteq> 0 \<Longrightarrow> injected ?x"
    "e_exception_has_payload ?e = byte_of (has_payload ?x)"
    "e_exception_pending ?e = 0 \<Longrightarrow> pending ?x \<Longrightarrow> kvm_exception_is_soft Q (ex_vector ?x)"
    using assms(1) by (simp_all add: events_of_def saved_exception_def no_events_def Let_def split: if_splits)
  have nr: "\<not> (e_exception_nr ?e > 31 \<or> e_exception_nr ?e = ucast NMI_VECTOR)"
    if "e_exception_injected ?e \<noteq> 0 \<or> e_exception_pending ?e \<noteq> 0"
  proof -
    have "pending ?x \<or> injected ?x" using that x(2,3) by blast
    then have n: "ex_vector ?x \<le> 31" "ex_vector ?x \<noteq> NMI_VECTOR"
      using assms(2) unfolding saveable_def Let_def by blast+
    have "NMI_VECTOR \<le> 31" by (simp add: NMI_VECTOR_def)
    with n small_vector(2,3) [OF n(1)] show ?thesis
      unfolding x(1) not_less [symmetric] by blast
  qed
  have kept: "(if e_exception_pending ?e \<noteq> 0 then ?e\<lparr>e_exception_injected := 0\<rparr>
      else ?e\<lparr>e_exception_has_payload := 0\<rparr>) = ?e"
  proof (cases "e_exception_pending ?e = 0")
    case True
    then have "e_exception_has_payload ?e = 0"
      using x(4,5) assms(2) by (auto simp: saveable_def Let_def)
    then show ?thesis using True by (simp add: unchanged_fields)
  next
    case False
    then have "e_exception_injected ?e = 0"
      using x(2,3) assms(2) by (auto simp: saveable_def Let_def)
    then show ?thesis using False by (simp add: unchanged_fields)
  qed
  have "\<not> ((e_exception_injected ?e \<noteq> 0 \<or> e_exception_pending ?e \<noteq> 0) \<and>
      (e_exception_nr ?e > 31 \<or> e_exception_nr ?e = ucast NMI_VECTOR))" using nr by blast
  then show ?thesis
    unfolding checked_events_def f(1)
    using f(2) assms(1,3) by (simp only: kept Let_def if_True if_False simp_thms)
qed

lemma small_count:
  assumes "n \<le> 2"
  shows "unat (of_nat n :: 8 word) = n" "(of_nat n :: 8 word) \<noteq> 0 \<longleftrightarrow> n \<noteq> 0"
proof -
  show n: "unat (of_nat n :: 8 word) = n"
    using assms by (simp add: unsigned_of_nat take_bit_nat_eq_self)
  then show "(of_nat n :: 8 word) \<noteq> 0 \<longleftrightarrow> n \<noteq> 0"
    using unat_eq_zero [of "of_nat n :: 8 word"] by simp
qed

context event_view
begin

lemma nmis_saved:
  "nmi_pending (settled ops N v) + of_bool (is_vnmi_pending ops (settled ops N v)) \<le>
     nmi_limit (fst (hw_view ops (settled ops N v))) (settled ops N v)"
  if "save_contract N"
proof -
  obtain k x h where p: "process_nmi ops v = v\<lparr>nmi_pending := k,
      ev_ex := (ev_ex v)\<lparr>nmi_queued := 0, req_event := x\<rparr>, ev_hw := h\<rparr>"
    "hw_view ops (process_nmi ops v) =
       (fst (hw_view ops v), is_vnmi_pending ops (process_nmi ops v), snd (snd (hw_view ops v)))"
    "k + of_bool (is_vnmi_pending ops (process_nmi ops v)) =
       min (nmi_pending v + of_bool (is_vnmi_pending ops v) + nmi_queued (ev_ex v))
         (nmi_limit (fst (hw_view ops v)) v)" by (rule settled_nmis)
  have hw: "ev_hw (settled ops N v) = ev_hw (process_nmi ops v)"
    and f: "nmi_pending (settled ops N v) = k" "nmi_injected (settled ops N v) = nmi_injected v"
    using that by (simp_all add: settled_def save_contract_def ev_request_def p(1) Let_def)
  have view: "hw_view ops (settled ops N v) = hw_view ops (process_nmi ops v)"
    by (rule view_of_hw [OF hw])
  then have "is_vnmi_pending ops (settled ops N v) = is_vnmi_pending ops (process_nmi ops v)"
    by (simp add: hw_view_def)
  then show ?thesis
    using p(3) f by (simp add: view p(2)) (simp add: nmi_limit_def)
qed

lemma restored_events:
  assumes c: "save_contract N" "exception_payload_enabled N"
    and V: "V = settled ops N v" "saveable Q V" "hw_view ops V = (m, pd, sh)" "sh \<in> shadows"
    and w: "restorable ops w"
  obtains w' where "kvm_vcpu_ioctl_x86_set_vcpu_events ops N (events_of Q N (m, pd, sh) V) w = (w', 0)"
    "reported_exception w' = restored_exception (saved_exception Q N (reported_exception V) no_events)"
    "interrupt w' = \<lparr>irq_injected = irq_injected (interrupt V) \<and> \<not> irq_soft (interrupt V),
       irq_soft = False, irq_nr = irq_nr (interrupt V)\<rparr>"
    "nmi_injected w' = nmi_injected V" "nmi_pending w' = 0"
    "nmi_queued (ev_ex w') = nmi_pending V + of_bool pd" "hw_view ops w' = (m, False, sh)"
    "in_smm w' = in_smm V" "smi_pending w' = smi_pending V" "smm_inside_nmi w' = smm_inside_nmi V"
    "lapic_in_kernel N \<longrightarrow> apic_init_pending w' = apic_init_pending V"
    "triple_fault_event N \<longrightarrow> req_triple_fault (ev_ex w') = req_triple_fault (ev_ex V)"
    "\<not> req_smi w'"
proof -
  let ?e = "events_of Q N (m, pd, sh) V"
  have chk: "checked_events N (ev_mp_state w) ?e = Some ?e"
    using saved_events_checked [OF c(2) V(2)] w by (simp add: restorable_def)
  obtain k x h where p: "process_nmi ops w = w\<lparr>nmi_pending := k,
      ev_ex := (ev_ex w)\<lparr>nmi_queued := 0, req_event := x\<rparr>, ev_hw := h\<rparr>"
    "hw_view ops (process_nmi ops w) =
       (fst (hw_view ops w), is_vnmi_pending ops (process_nmi ops w), snd (snd (hw_view ops w)))"
    "k + of_bool (is_vnmi_pending ops (process_nmi ops w)) =
       min (nmi_pending w + of_bool (is_vnmi_pending ops w) + nmi_queued (ev_ex w))
         (nmi_limit (fst (hw_view ops w)) w)" by (rule settled_nmis)
  have k: "k = 0" "\<not> is_vnmi_pending ops (process_nmi ops w)"
    using p(3) w by (simp_all add: restorable_def)
  define w1 where "w1 = restore_queue ?e (process_nmi ops w)"
  have view1: "fst (snd (hw_view ops w1)) = False"
    using view_of_hw [of w1 "process_nmi ops w"] k(2) by (simp add: w1_def restore_queue_def hw_view_def)
  obtain h2 where w2: "set_interrupt_shadow ops sh w1 = w1\<lparr>ev_hw := h2\<rparr>" using shadow_hw [of sh w1] by blast
  have view2: "hw_view ops (w1\<lparr>ev_hw := h2\<rparr>) = (fst (hw_view ops w1), False, sh)"
    using view_set_shadow [OF V(4), of w1] view1 by (simp add: w2)
  let ?p = "nmi_pending V + of_bool pd"
  define w3 where "w3 = (w1\<lparr>ev_hw := h2\<rparr>)\<lparr>nmi_injected := nmi_injected V, nmi_pending := 0,
    ev_ex := (ev_ex w1)\<lparr>nmi_queued := ?p, req_nmi := (req_nmi (ev_ex w1) \<or> ?p \<noteq> 0)\<rparr>\<rparr>"
  obtain h4 where w4: "set_nmi_mask ops m w3 = w3\<lparr>ev_hw := h4\<rparr>" using set_mask_hw [of m w3] by blast
  have "hw_view ops w3 = hw_view ops (w1\<lparr>ev_hw := h2\<rparr>)" by (rule view_of_hw) (simp add: w3_def)
  then have view4: "hw_view ops (w3\<lparr>ev_hw := h4\<rparr>) = (m, False, sh)"
    using view_set_mask [of m w3] by (simp add: w4 view2)
  have "is_vnmi_pending ops (settled ops N v) = pd" using V(1,3) by (simp add: hw_view_def)
  then have "?p \<le> 2" using nmis_saved [OF c(1), of v] unfolding V(1) [symmetric]
    by (cases pd) (auto simp: nmi_limit_def V(1) split: if_splits)
  then have pw: "unat (of_nat ?p :: 8 word) = ?p" "(of_nat ?p :: 8 word) \<noteq> 0 \<longleftrightarrow> ?p \<noteq> 0"
    by (rule small_count)+
  have nmi: "restore_nmi ops ?e (w1\<lparr>ev_hw := h2\<rparr>) = w3\<lparr>ev_hw := h4\<rparr>"
    unfolding restore_nmi_def events_of_fields pw Let_def w4 [symmetric]
    by (simp add: w3_def bit.conj_disj_distrib2)
  let ?u = "w3\<lparr>ev_hw := h4\<rparr>"
  have u: "\<not> guest_mode (ev_ex ?u)" "smm_inside_nmi ?u \<Longrightarrow> in_smm ?u"
    using w by (simp_all add: w3_def w1_def restore_queue_def p(1) restorable_def)
  have fl: "e_flags ?e AND KVM_VCPUEVENT_VALID_SMM \<noteq> 0" "e_flags ?e AND KVM_VCPUEVENT_VALID_SHADOW \<noteq> 0"
    "e_flags ?e AND KVM_VCPUEVENT_VALID_SIPI_VECTOR = 0"
    "e_flags ?e AND KVM_VCPUEVENT_VALID_TRIPLE_FAULT \<noteq> 0 \<longleftrightarrow> triple_fault_event N"
    by (simp_all add: events_of_fields)
  obtain y where smm: "restore_smm N ?e ?u = ?u\<lparr>in_smm := in_smm V, smi_pending := (e_smi_pending ?e \<noteq> 0),
      smm_inside_nmi := (in_smm V \<and> e_smi_smm_inside_nmi ?e \<noteq> 0),
      apic_init_pending := (if lapic_in_kernel N then e_smi_latched_init ?e \<noteq> 0 else apic_init_pending ?u),
      ev_ex := (ev_ex ?u)\<lparr>req_event := y\<rparr>\<rparr>"
    by (rule restored_smm [OF c(1) u fl(1) events_of_fields(6)])
  define w5 where "w5 = restore_smm N ?e ?u"
  note w5 = smm [folded w5_def]
  define w6 where "w6 = ev_request (if triple_fault_event N
    then w5\<lparr>ev_ex := (ev_ex w5)\<lparr>req_triple_fault := (e_triple_fault_pending ?e \<noteq> 0)\<rparr>\<rparr> else w5)"
  have set: "kvm_vcpu_ioctl_x86_set_vcpu_events ops N ?e w = (w6, 0)"
    unfolding kvm_vcpu_ioctl_x86_set_vcpu_events_def chk option.case Let_def w1_def [symmetric]
    using fl byte_shadows [OF V(4)]
    by (simp add: events_of_fields(2) w2 nmi w5_def [symmetric] w6_def)
  have hw: "ev_hw w6 = h4" by (simp add: w6_def w5 ev_request_def)
  have r6: "reported_exception w6 = restored_exception ?e"
    by (simp add: w6_def w5 w3_def w1_def restore_queue_def ev_request_def
        reported_exception_def reported_is_vmexit_def restored_exception_def)
  show ?thesis
  proof (rule that [OF set])
    show "reported_exception w6 = restored_exception (saved_exception Q N (reported_exception V) no_events)"
      by (simp only: r6 events_of_fields)
    show "hw_view ops w6 = (m, False, sh)"
      using view_of_hw [of w6 ?u] view4 hw by simp
  qed (use w V(2) in \<open>auto simp: w6_def w5 w3_def w1_def restore_queue_def ev_request_def
        events_of_fields p(1) restorable_def saveable_def Let_def\<close>)
qed

lemma events_round_trip:
  assumes c: "save_contract N" "exception_payload_enabled N"
    and g: "kvm_vcpu_ioctl_x86_get_vcpu_events Q ops N v = (v', e)"
    and v: "saveable Q v'" "get_interrupt_shadow ops v' \<in> shadows" and w: "restorable ops w"
  shows "\<exists>w'. kvm_vcpu_ioctl_x86_set_vcpu_events ops N e w = (w', 0) \<and>
    snd (kvm_vcpu_ioctl_x86_get_vcpu_events Q ops N w') = e"
proof -
  obtain V where V: "V = settled ops N v" by blast
  obtain m pd sh where view: "hw_view ops V = (m, pd, sh)" by (rule prod_cases3)
  obtain h where h: "v' = V\<lparr>ev_hw := h\<rparr>" "e = events_of Q N (m, pd, sh) V" "hw_view ops v' = (m, pd, sh)"
    using get_events [OF c, of v] g unfolding V [symmetric] view by (metis prod.inject)
  have s: "saveable Q V" "sh \<in> shadows"
    using v h(1,3) reported_exception_cong [of v' V] by (simp_all add: saveable_def hw_view_def)
  obtain w' where w': "kvm_vcpu_ioctl_x86_set_vcpu_events ops N e w = (w', 0)"
    "reported_exception w' = restored_exception (saved_exception Q N (reported_exception V) no_events)"
    "interrupt w' = \<lparr>irq_injected = irq_injected (interrupt V) \<and> \<not> irq_soft (interrupt V),
       irq_soft = False, irq_nr = irq_nr (interrupt V)\<rparr>"
    "nmi_injected w' = nmi_injected V" "nmi_pending w' = 0"
    "nmi_queued (ev_ex w') = nmi_pending V + of_bool pd" "hw_view ops w' = (m, False, sh)"
    "in_smm w' = in_smm V" "smi_pending w' = smi_pending V" "smm_inside_nmi w' = smm_inside_nmi V"
    "lapic_in_kernel N \<longrightarrow> apic_init_pending w' = apic_init_pending V"
    "triple_fault_event N \<longrightarrow> req_triple_fault (ev_ex w') = req_triple_fault (ev_ex V)"
    "\<not> req_smi w'"
    unfolding h(2) by (rule restored_events [OF c V s(1) view s(2) w])
  obtain k x g where p: "process_nmi ops w' = w'\<lparr>nmi_pending := k,
      ev_ex := (ev_ex w')\<lparr>nmi_queued := 0, req_event := x\<rparr>, ev_hw := g\<rparr>"
    "hw_view ops (process_nmi ops w') =
       (fst (hw_view ops w'), is_vnmi_pending ops (process_nmi ops w'), snd (snd (hw_view ops w')))"
    "k + of_bool (is_vnmi_pending ops (process_nmi ops w')) =
       min (nmi_pending w' + of_bool (is_vnmi_pending ops w') + nmi_queued (ev_ex w'))
         (nmi_limit (fst (hw_view ops w')) w')" by (rule settled_nmis)
  have set: "settled ops N w' = process_nmi ops w'"
    using w'(13) by (simp add: settled_def p(1) Let_def)
  let ?q = "is_vnmi_pending ops (process_nmi ops w')"
  have "is_vnmi_pending ops V = pd" "\<not> is_vnmi_pending ops w'"
    using view w'(7) by (simp_all add: hw_view_def)
  then have count: "k + of_bool ?q = nmi_pending V + of_bool pd"
    using p(3) nmis_saved [OF c(1), of v] unfolding V [symmetric]
    by (simp add: w' view nmi_limit_def)
  have small: "ex_vector (reported_exception V) \<le> 31"
    if "pending (reported_exception V) \<or> injected (reported_exception V)"
    using s(1) that unfolding saveable_def Let_def by blast
  have rep: "reported_exception (process_nmi ops w') = reported_exception w'"
    by (rule reported_exception_cong) (simp_all add: p(1))
  have "events_of Q N (m, ?q, sh) (process_nmi ops w') = events_of Q N (m, pd, sh) V"
  proof (rule events_of_cong)
    show "saved_exception Q N (reported_exception (process_nmi ops w')) no_events =
      saved_exception Q N (reported_exception V) no_events"
      unfolding rep w'(2) by (rule saved_restored_exception [OF c(2) small])
    show "nmi_pending (process_nmi ops w') + of_bool ?q = nmi_pending V + of_bool pd"
      using count by (simp add: p(1))
  qed (simp_all add: p(1) w')
  moreover obtain h' where "kvm_vcpu_ioctl_x86_get_vcpu_events Q ops N w' =
      ((settled ops N w')\<lparr>ev_hw := h'\<rparr>, events_of Q N (hw_view ops (settled ops N w')) (settled ops N w'))"
    by (rule get_events [OF c])
  ultimately show ?thesis
    using w'(1,7) by (simp add: set p(2) h(2))
qed

end

text \<open> C22. Saving the events of a vCPU and restoring them on another loses nothing user space can
  see: the restore succeeds, and reading the other vCPU gives the same structure, with its
  exception, interrupt and shadow, NMIs, system management state, latched INIT and triple fault.
  Stated for Intel, with the capability for payloads, which is off by default; for a vCPU that the structure can
  describe (\<open>saveable\<close>: its exception has a hardware vector and is either pending or injected, with a payload only
  while pending and not for a software exception) with an interrupt shadow of at most one kind; and for another vCPU
  with no NMI, SMI or INIT of its own on the way, outside nested mode (\<open>restorable\<close>). \<close>

theorem saved_events_restored:
  assumes "save_contract N" and "exception_payload_enabled N"
    and "kvm_vcpu_ioctl_x86_get_vcpu_events Q (vmx_event_ops E) N v = (v', e)"
    and "saveable Q v'" and "vmx_get_interrupt_shadow v' \<in> {0, 1, 2}"
    and "restorable (vmx_event_ops E) w" and "Q = event_queue_of E"
  shows "\<exists>w'. kvm_vcpu_ioctl_x86_set_vcpu_events (vmx_event_ops E) N e w = (w', 0) \<and>
    snd (kvm_vcpu_ioctl_x86_get_vcpu_events Q (vmx_event_ops E) N w') = e"
proof -
  have "get_interrupt_shadow (vmx_event_ops E) v' \<in> {0, 1, 2}"
    using assms(5) by (simp add: vmx_event_ops_def)
  from assms(1-4) this assms(6) show ?thesis
    unfolding assms(7) by (rule vmx_view.events_round_trip)
qed

text \<open>The same on AMD, where the shadow is one bit and shows as both kinds.\<close>

lemma svm_saved_events_restored:
  assumes "save_contract N" and "exception_payload_enabled N" and "is_vnmi_enabled F = (\<lambda>_. b)"
    and "kvm_vcpu_ioctl_x86_get_vcpu_events (svm_event_queue F) (svm_event_ops F) N v = (v', e)"
    and "saveable (svm_event_queue F) v'" and "restorable (svm_event_ops F) w"
  shows "\<exists>w'. kvm_vcpu_ioctl_x86_set_vcpu_events (svm_event_ops F) N e w = (w', 0) \<and>
    snd (kvm_vcpu_ioctl_x86_get_vcpu_events (svm_event_queue F) (svm_event_ops F) N w') = e"
proof -
  have F: "F\<lparr>is_vnmi_enabled := \<lambda>_. b\<rparr> = F" using assms(3) by (cases F) simp
  have "get_interrupt_shadow (svm_event_ops F) v' \<in> {0, KVM_X86_SHADOW_BOTH}"
    by (simp add: svm_event_ops_def svm_get_interrupt_shadow_def)
  from assms(1,2,4,5) this assms(6) show ?thesis
    by (rule svm_view.events_round_trip [where F = F and b = b, unfolded F])
qed

definition demo_saving :: "'h event_env" where
  "demo_saving = demo_env\<lparr>process_smi := (\<lambda>v. ev_request (v\<lparr>smi_pending := True\<rparr>)),
     kvm_smm_changed := (\<lambda>b v. if b then v\<lparr>in_smm := True\<rparr>
       else ev_request (v\<lparr>in_smm := False, smm_inside_nmi := False\<rparr>)),
     kvm_lapic_latched_init := apic_init_pending\<rparr>"

text \<open>A vCPU with an injected exception and five NMIs meets one that is idle.\<close>

definition busy_event_vcpu :: "'h \<Rightarrow> 'h ev_vcpu" where
  "busy_event_vcpu h = (let v = demo_event_vcpu h
     in v\<lparr>ev_ex := (ev_ex v)\<lparr>exception := demo_exception\<lparr>injected := True\<rparr>\<rparr>, in_smm := True\<rparr>)"

definition idle_event_vcpu :: "'h \<Rightarrow> 'h ev_vcpu" where
  "idle_event_vcpu h = (let v = demo_event_vcpu h in v\<lparr>ev_ex := (ev_ex v)\<lparr>nmi_queued := 0\<rparr>, nmi_pending := 0\<rparr>)"

theorem saved_events_restored_witness:
  "let e = snd (kvm_vcpu_ioctl_x86_get_vcpu_events demo_queue (vmx_event_ops demo_vmx_env) demo_saving
             (busy_event_vcpu demo_vmx_hw))
   in e_nmi_pending e = 2 \<and> e_exception_injected e = 1 \<and>
      (\<exists>w'. kvm_vcpu_ioctl_x86_set_vcpu_events (vmx_event_ops demo_vmx_env) demo_saving e
              (idle_event_vcpu demo_vmx_hw) = (w', 0) \<and>
            snd (kvm_vcpu_ioctl_x86_get_vcpu_events demo_queue (vmx_event_ops demo_vmx_env) demo_saving w') = e)"
proof -
  let ?ops = "vmx_event_ops demo_vmx_env"
  let ?v = "busy_event_vcpu demo_vmx_hw"
  obtain v' e where g: "kvm_vcpu_ioctl_x86_get_vcpu_events demo_queue ?ops demo_saving ?v = (v', e)"
    by (rule prod.exhaust)
  have v': "v' = fst (kvm_vcpu_ioctl_x86_get_vcpu_events demo_queue ?ops demo_saving ?v)" by (simp add: g)
  have c: "save_contract demo_saving" "exception_payload_enabled demo_saving"
    by (simp_all add: save_contract_def demo_saving_def demo_env_def)
  have s: "saveable demo_queue v'" "vmx_get_interrupt_shadow v' \<in> {0, 1, 2}" unfolding v' by code_simp+
  have w: "restorable ?ops (idle_event_vcpu demo_vmx_hw)" by code_simp
  have q: "demo_queue = event_queue_of demo_vmx_env" by (simp add: demo_vmx_env_def)
  have "e_nmi_pending (snd (kvm_vcpu_ioctl_x86_get_vcpu_events demo_queue ?ops demo_saving ?v)) = 2"
    "e_exception_injected (snd (kvm_vcpu_ioctl_x86_get_vcpu_events demo_queue ?ops demo_saving ?v)) = 1"
    by code_simp+
  with saved_events_restored [OF c g s w q] show ?thesis by (simp add: g Let_def)
qed

section \<open>Refusals\<close>

lemma other_flags:
  fixes x :: u32
  shows "(x AND NOT 32) AND 1 = x AND 1" "(x AND NOT 32) AND 2 = x AND 2" "(x AND NOT 32) AND 4 = x AND 4"
    "(x AND NOT 32) AND 8 = x AND 8" "(x AND NOT 32) AND 16 = x AND 16" "(x AND NOT 32) AND 32 = 0"
    "(x AND NOT 32) AND NOT known_event_flags = x AND NOT known_event_flags"
  by (simp_all add: and.assoc known_event_flags_def)

lemma checked_without_flag:
  assumes "checked_events N mp e = Some e'"
  shows "e_flags e' = e_flags e \<and> checked_events N mp (e\<lparr>e_flags := e_flags e AND NOT 32\<rparr>) =
    Some (e'\<lparr>e_flags := e_flags e AND NOT 32\<rparr>)"
  using assms
  by (cases "e_flags e AND KVM_VCPUEVENT_VALID_PAYLOAD = 0"; cases "e_exception_pending e = 0";
      auto simp: checked_events_def and.assoc known_event_flags_def Let_def split: if_split_asm)

text \<open> C24. A restore that is refused is refused with EINVAL and has changed nothing, with one
  exception: when the triple fault is given but the capability for it is off, the check comes
  last, and the call has had the effect of the accepted one without that flag. \<close>

theorem refused_events:
  assumes "kvm_vcpu_ioctl_x86_set_vcpu_events ops N e w = (w', r)" and "r \<noteq> 0"
  shows "r = - EINVAL \<and> (w' = w \<or>
    e_flags e AND KVM_VCPUEVENT_VALID_TRIPLE_FAULT \<noteq> 0 \<and> \<not> triple_fault_event N \<and>
    kvm_vcpu_ioctl_x86_set_vcpu_events ops N
      (e\<lparr>e_flags := e_flags e AND NOT KVM_VCPUEVENT_VALID_TRIPLE_FAULT\<rparr>) w = (ev_request w', 0))"
proof (cases "checked_events N (ev_mp_state w) e")
  case None
  then show ?thesis using assms by (simp add: kvm_vcpu_ioctl_x86_set_vcpu_events_def)
next
  case (Some e')
  note e' = conjunct1 [OF checked_without_flag [OF Some]] conjunct2 [OF checked_without_flag [OF Some]]
  let ?f = "e'\<lparr>e_flags := e_flags e AND NOT 32\<rparr>"
  have same: "restore_queue ?f = restore_queue e'" "restore_nmi ops ?f = restore_nmi ops e'"
    "restore_smm N ?f = restore_smm N e'"
    by (rule ext, simp add: restore_queue_def restore_nmi_def restore_smm_def e'(1) and.assoc Let_def)+
  have late: "e_flags e' AND KVM_VCPUEVENT_VALID_TRIPLE_FAULT \<noteq> 0" "\<not> triple_fault_event N"
    using assms by (simp_all add: kvm_vcpu_ioctl_x86_set_vcpu_events_def Some Let_def split: if_splits)
  have "kvm_vcpu_ioctl_x86_set_vcpu_events ops N
      (e\<lparr>e_flags := e_flags e AND NOT KVM_VCPUEVENT_VALID_TRIPLE_FAULT\<rparr>) w =
    (ev_request (fst (kvm_vcpu_ioctl_x86_set_vcpu_events ops N e w)), 0)"
    using late unfolding kvm_vcpu_ioctl_x86_set_vcpu_events_def Some e'(2) option.case Let_def same
    by (simp add: e'(1) and.assoc)
  moreover have "r = - EINVAL"
    using assms late by (simp add: kvm_vcpu_ioctl_x86_set_vcpu_events_def Some Let_def)
  ultimately show ?thesis using late e'(1) assms(1) by simp
qed

theorem refused_events_witness:
  "let N = demo_saving\<lparr>triple_fault_event := False\<rparr>; e = no_events\<lparr>e_flags := 32, e_nmi_injected := 1\<rparr>;
       (w', r) = kvm_vcpu_ioctl_x86_set_vcpu_events (vmx_event_ops demo_vmx_env) N e (idle_event_vcpu demo_vmx_hw)
   in r = - EINVAL \<and> nmi_injected w' \<and>
      kvm_vcpu_ioctl_x86_set_vcpu_events (vmx_event_ops demo_vmx_env) N (e\<lparr>e_flags := 0\<rparr>)
        (idle_event_vcpu demo_vmx_hw) = (ev_request w', 0)"
proof -
  let ?N = "demo_saving\<lparr>triple_fault_event := False\<rparr>"
  let ?e = "no_events\<lparr>e_flags := 32, e_nmi_injected := 1\<rparr>"
  let ?set = "kvm_vcpu_ioctl_x86_set_vcpu_events (vmx_event_ops demo_vmx_env) ?N ?e (idle_event_vcpu demo_vmx_hw)"
  obtain w' r where c: "?set = (w', r)" by (rule prod.exhaust)
  have "snd ?set \<noteq> 0" "nmi_injected (fst ?set)" "\<not> nmi_injected (idle_event_vcpu demo_vmx_hw)" by code_simp+
  with c have r: "r \<noteq> 0" "nmi_injected w'" "w' \<noteq> idle_event_vcpu demo_vmx_hw" by auto
  show ?thesis using refused_events [OF c r(1)] r(2,3) by (simp add: c Let_def)
qed

end
