(* ===== verification/Kvm_Mmio.thy ===== *)
theory Kvm_Mmio
  imports Prelude
begin

text \<open>
  Memory-mapped input and output (\<open>x86.c\<close>): the functions through which the instruction
  emulator reads and writes guest memory. What neither memory nor a device of the kernel
  answers becomes a fragment, and user space is asked for it in pieces of eight bytes until
  the instruction can go on. The emulator's buffers are a store of bytes, because a fragment
  points into them.
\<close>

section \<open>State\<close>

record mmio_fragment =
  frag_gpa :: u64
  frag_data :: nat
  frag_len :: nat

datatype io_completion = Complete_emulated_mmio | Complete_sev_es_emulated_mmio

text \<open>\<open>'w\<close> is what functions of other files read and change: memory, devices, page tables.\<close>

record 'w io_vcpu =
  host_mem :: "nat \<Rightarrow> u8"
  mmio_needed :: bool
  mmio_read_completed :: bool
  mmio_is_write :: bool
  mmio_cur_fragment :: nat
  mmio_nr_fragments :: nat
  mmio_fragments :: "mmio_fragment list"
  run_exit_reason :: u32
  run_phys_addr :: u64
  run_data :: bytes
  run_len :: nat
  run_is_write :: bool
  complete_userspace_io :: "io_completion option"
  world :: 'w

text \<open>The emulation context: whether the address of the access is known, and the mode.\<close>

record emul_ctxt =
  gpa_available :: bool
  emulator_can_use_gpa :: bool
  gpa_val :: u64
  mode_prot64 :: bool

text \<open>
  Functions of other files. Reads give the bytes, or \<open>None\<close> where nothing answers; writes give
  whether they were taken.
\<close>

record 'w mmio_env =
  apic_in_kernel :: bool
  kvm_iodevice_write :: "u64 \<Rightarrow> bytes \<Rightarrow> 'w \<Rightarrow> bool \<times> 'w"
  kvm_iodevice_read :: "u64 \<Rightarrow> nat \<Rightarrow> 'w \<Rightarrow> bytes option \<times> 'w"
  kvm_io_bus_write :: "u64 \<Rightarrow> bytes \<Rightarrow> 'w \<Rightarrow> bool \<times> 'w"
  kvm_io_bus_read :: "u64 \<Rightarrow> nat \<Rightarrow> 'w \<Rightarrow> bytes option \<times> 'w"
  kvm_vcpu_read_guest :: "u64 \<Rightarrow> nat \<Rightarrow> 'w \<Rightarrow> bytes option \<times> 'w"
  kvm_vcpu_write_guest :: "u64 \<Rightarrow> bytes \<Rightarrow> 'w \<Rightarrow> bool \<times> 'w"
  kvm_page_track_write :: "u64 \<Rightarrow> bytes \<Rightarrow> 'w \<Rightarrow> 'w"
  vcpu_match_mmio_gpa :: "u64 \<Rightarrow> 'w \<Rightarrow> bool"
  vcpu_match_mmio_gva :: "u64 \<Rightarrow> 'w \<Rightarrow> bool"
  mmio_gfn :: "'w \<Rightarrow> u64"
  guest_cpl :: "'w \<Rightarrow> nat"
  guest_paging :: "'w \<Rightarrow> bool"
  permission_fault :: "u64 \<Rightarrow> 'w \<Rightarrow> bool"
  gva_to_gpa :: "u64 \<Rightarrow> u64 \<Rightarrow> 'w \<Rightarrow> u64 \<times> 'w"

abbreviation X86EMUL_CONTINUE :: int where "X86EMUL_CONTINUE \<equiv> 0"
abbreviation X86EMUL_UNHANDLEABLE :: int where "X86EMUL_UNHANDLEABLE \<equiv> 1"
abbreviation X86EMUL_PROPAGATE_FAULT :: int where "X86EMUL_PROPAGATE_FAULT \<equiv> 2"
abbreviation X86EMUL_CMPXCHG_FAILED :: int where "X86EMUL_CMPXCHG_FAILED \<equiv> 4"
abbreviation X86EMUL_IO_NEEDED :: int where "X86EMUL_IO_NEEDED \<equiv> 5"
abbreviation EINVAL :: int where "EINVAL \<equiv> 22"
abbreviation KVM_EXIT_MMIO :: u32 where "KVM_EXIT_MMIO \<equiv> 6"
abbreviation KVM_MAX_MMIO_FRAGMENTS :: nat where "KVM_MAX_MMIO_FRAGMENTS \<equiv> 2"
abbreviation PAGE_OFFSET_MASK :: u64 where "PAGE_OFFSET_MASK \<equiv> 0xfff"
abbreviation APIC_DEFAULT_PHYS_BASE :: u64 where "APIC_DEFAULT_PHYS_BASE \<equiv> 0xfee00000"
abbreviation INVALID_GPA :: u64 where "INVALID_GPA \<equiv> - 1"
abbreviation PFERR_WRITE_MASK :: u64 where "PFERR_WRITE_MASK \<equiv> 2"
abbreviation PFERR_USER_MASK :: u64 where "PFERR_USER_MASK \<equiv> 4"

text \<open>Copying from and to the store.\<close>

definition load :: "nat \<Rightarrow> nat \<Rightarrow> (nat \<Rightarrow> u8) \<Rightarrow> bytes" where
  "load p n m = map m [p..<p + n]"

definition store :: "nat \<Rightarrow> bytes \<Rightarrow> (nat \<Rightarrow> u8) \<Rightarrow> nat \<Rightarrow> u8" where
  "store p bs m = (\<lambda>a. if p \<le> a \<and> a < p + length bs then bs ! (a - p) else m a)"

abbreviation put_bytes :: "nat \<Rightarrow> bytes \<Rightarrow> 'w io_vcpu \<Rightarrow> 'w io_vcpu" where
  "put_bytes p bs s \<equiv> s\<lparr>host_mem := store p bs (host_mem s)\<rparr>"

text \<open>\<open>memcpy\<close> to the start of an array.\<close>

definition copy_to :: "bytes \<Rightarrow> bytes \<Rightarrow> bytes" where
  "copy_to d bs = bs @ drop (length bs) d"

abbreviation get_bytes :: "nat \<Rightarrow> nat \<Rightarrow> 'w io_vcpu \<Rightarrow> bytes" where
  "get_bytes p n s \<equiv> load p n (host_mem s)"

section \<open>Devices of the kernel\<close>

text \<open>One piece: the local APIC first, then the bus.\<close>

definition device_write :: "'w mmio_env \<Rightarrow> u64 \<Rightarrow> bytes \<Rightarrow> 'w \<Rightarrow> bool \<times> 'w" where
  "device_write E addr bs w =
     (let (ok, w) = (if apic_in_kernel E then kvm_iodevice_write E addr bs w else (False, w))
      in if ok then (True, w) else kvm_io_bus_write E addr bs w)"

definition device_read :: "'w mmio_env \<Rightarrow> u64 \<Rightarrow> nat \<Rightarrow> 'w \<Rightarrow> bytes option \<times> 'w" where
  "device_read E addr n w =
     (let (r, w) = (if apic_in_kernel E then kvm_iodevice_read E addr n w else (None, w))
      in if r \<noteq> None then (r, w) else kvm_io_bus_read E addr n w)"

function vcpu_mmio_write :: "'w mmio_env \<Rightarrow> u64 \<Rightarrow> nat \<Rightarrow> nat \<Rightarrow> 'w io_vcpu \<Rightarrow> nat \<times> 'w io_vcpu" where
  "vcpu_mmio_write E addr len p s =
     (let n = min len 8;
          (ok, w) = device_write E addr (get_bytes p n s) (world s);
          s = s\<lparr>world := w\<rparr>
      in if \<not> ok then (0, s)
         else if len - n = 0 then (n, s)
         else let (k, s) = vcpu_mmio_write E (addr + of_nat n) (len - n) (p + n) s in (n + k, s))"
  by pat_completeness auto
termination by (relation "measure (\<lambda>(E, addr, len, p, s). len)") auto

function vcpu_mmio_read :: "'w mmio_env \<Rightarrow> u64 \<Rightarrow> nat \<Rightarrow> nat \<Rightarrow> 'w io_vcpu \<Rightarrow> nat \<times> 'w io_vcpu" where
  "vcpu_mmio_read E addr len p s =
     (let n = min len 8;
          (r, w) = device_read E addr n (world s);
          s = s\<lparr>world := w\<rparr>
      in case r of None \<Rightarrow> (0, s)
         | Some bs \<Rightarrow>
             let s = put_bytes p bs s
             in if len - n = 0 then (n, s)
                else let (k, s) = vcpu_mmio_read E (addr + of_nat n) (len - n) (p + n) s in (n + k, s))"
  by pat_completeness auto
termination by (relation "measure (\<lambda>(E, addr, len, p, s). len)") auto

declare vcpu_mmio_write.simps [simp del] vcpu_mmio_read.simps [simp del]

section \<open>Where an access goes\<close>

definition vcpu_is_mmio_gpa :: "'w mmio_env \<Rightarrow> u64 \<Rightarrow> 'w \<Rightarrow> bool" where
  "vcpu_is_mmio_gpa E gpa w =
     (gpa AND NOT PAGE_OFFSET_MASK = APIC_DEFAULT_PHYS_BASE \<or> vcpu_match_mmio_gpa E gpa w)"

text \<open>The access rights asked for, and the translation: \<open>None\<close> is a fault.\<close>

definition mmio_access_bits :: "'w mmio_env \<Rightarrow> bool \<Rightarrow> 'w \<Rightarrow> u64" where
  "mmio_access_bits E write w =
     (if guest_cpl E w = 3 then PFERR_USER_MASK else 0) OR (if write then PFERR_WRITE_MASK else 0)"

definition vcpu_mmio_gva_to_gpa ::
  "'w mmio_env \<Rightarrow> u64 \<Rightarrow> bool \<Rightarrow> 'w \<Rightarrow> (u64 \<times> bool) option \<times> 'w" where
  "vcpu_mmio_gva_to_gpa E gva write w =
     (let access = mmio_access_bits E write w
      in if vcpu_match_mmio_gva E gva w \<and> (\<not> guest_paging E w \<or> \<not> permission_fault E access w)
         then (Some (push_bit 12 (mmio_gfn E w) OR (gva AND PAGE_OFFSET_MASK), True), w)
         else
           let (gpa, w) = gva_to_gpa E gva access w
           in if gpa = INVALID_GPA then (None, w) else (Some (gpa, vcpu_is_mmio_gpa E gpa w), w))"

definition emulator_write_phys :: "'w mmio_env \<Rightarrow> u64 \<Rightarrow> bytes \<Rightarrow> 'w \<Rightarrow> bool \<times> 'w" where
  "emulator_write_phys E gpa bs w =
     (let (ok, w) = kvm_vcpu_write_guest E gpa bs w
      in if \<not> ok then (False, w) else (True, kvm_page_track_write E gpa bs w))"

section \<open>Reading and writing\<close>

record 'w read_write_emulator_ops =
  read_write_prepare :: "('w io_vcpu \<Rightarrow> bool \<times> 'w io_vcpu) option"
  read_write_emulate :: "u64 \<Rightarrow> nat \<Rightarrow> nat \<Rightarrow> 'w io_vcpu \<Rightarrow> bool \<times> 'w io_vcpu"
  read_write_mmio :: "u64 \<Rightarrow> nat \<Rightarrow> nat \<Rightarrow> 'w io_vcpu \<Rightarrow> nat \<times> 'w io_vcpu"
  read_write_exit_mmio :: "'w io_vcpu \<Rightarrow> int \<times> 'w io_vcpu"
  is_write :: bool

definition read_prepare :: "'w io_vcpu \<Rightarrow> bool \<times> 'w io_vcpu" where
  "read_prepare s = (if mmio_read_completed s then (True, s\<lparr>mmio_read_completed := False\<rparr>) else (False, s))"

definition read_emulate :: "'w mmio_env \<Rightarrow> u64 \<Rightarrow> nat \<Rightarrow> nat \<Rightarrow> 'w io_vcpu \<Rightarrow> bool \<times> 'w io_vcpu" where
  "read_emulate E gpa p n s =
     (let (r, w) = kvm_vcpu_read_guest E gpa n (world s); s = s\<lparr>world := w\<rparr>
      in case r of None \<Rightarrow> (False, s) | Some bs \<Rightarrow> (True, put_bytes p bs s))"

definition write_emulate :: "'w mmio_env \<Rightarrow> u64 \<Rightarrow> nat \<Rightarrow> nat \<Rightarrow> 'w io_vcpu \<Rightarrow> bool \<times> 'w io_vcpu" where
  "write_emulate E gpa p n s =
     (let (ok, w) = emulator_write_phys E gpa (get_bytes p n s) (world s) in (ok, s\<lparr>world := w\<rparr>))"

definition read_exit_mmio :: "'w io_vcpu \<Rightarrow> int \<times> 'w io_vcpu" where
  "read_exit_mmio s = (X86EMUL_IO_NEEDED, s)"

definition write_exit_mmio :: "'w io_vcpu \<Rightarrow> int \<times> 'w io_vcpu" where
  "write_exit_mmio s =
     (let frag = mmio_fragments s ! 0
      in (X86EMUL_CONTINUE, s\<lparr>run_data := copy_to (run_data s) (get_bytes (frag_data frag) (min 8 (frag_len frag)) s)\<rparr>))"

definition read_emultor :: "'w mmio_env \<Rightarrow> 'w read_write_emulator_ops" where
  "read_emultor E = \<lparr>read_write_prepare = Some read_prepare, read_write_emulate = read_emulate E,
     read_write_mmio = (\<lambda>gpa p n. vcpu_mmio_read E gpa n p), read_write_exit_mmio = read_exit_mmio,
     is_write = False\<rparr>"

definition write_emultor :: "'w mmio_env \<Rightarrow> 'w read_write_emulator_ops" where
  "write_emultor E = \<lparr>read_write_prepare = None, read_write_emulate = write_emulate E,
     read_write_mmio = (\<lambda>gpa p n. vcpu_mmio_write E gpa n p), read_write_exit_mmio = write_exit_mmio,
     is_write = True\<rparr>"

text \<open>The address of an access within one page, and whether it is known to be input or output.\<close>

definition onepage_gpa ::
  "'w mmio_env \<Rightarrow> emul_ctxt \<Rightarrow> bool \<Rightarrow> u64 \<Rightarrow> 'w \<Rightarrow> (u64 \<times> bool) option \<times> 'w" where
  "onepage_gpa E ctxt write addr w =
     (if gpa_available ctxt \<and> emulator_can_use_gpa ctxt \<and>
         addr AND PAGE_OFFSET_MASK = gpa_val ctxt AND PAGE_OFFSET_MASK
      then (Some (gpa_val ctxt, vcpu_is_mmio_gpa E (gpa_val ctxt) w), w)
      else vcpu_mmio_gva_to_gpa E addr write w)"

definition emulator_read_write_onepage ::
  "'w mmio_env \<Rightarrow> 'w read_write_emulator_ops \<Rightarrow> emul_ctxt \<Rightarrow> u64 \<Rightarrow> nat \<Rightarrow> nat \<Rightarrow> 'w io_vcpu \<Rightarrow>
    int \<times> 'w io_vcpu" where
  "emulator_read_write_onepage E ops ctxt addr p n s =
     (let (r, w) = onepage_gpa E ctxt (is_write ops) addr (world s); s = s\<lparr>world := w\<rparr>
      in case r of None \<Rightarrow> (X86EMUL_PROPAGATE_FAULT, s)
         | Some (gpa, mmio) \<Rightarrow>
             let (done', s) = (if \<not> mmio then read_write_emulate ops gpa p n s else (False, s))
             in if done' then (X86EMUL_CONTINUE, s)
                else
                  let (handled, s) = read_write_mmio ops gpa p n s
                  in if handled = n then (X86EMUL_CONTINUE, s)
                     else (X86EMUL_CONTINUE, s\<lparr>mmio_nr_fragments := mmio_nr_fragments s + 1,
                       mmio_fragments := (mmio_fragments s)[mmio_nr_fragments s :=
                         \<lparr>frag_gpa = gpa + of_nat handled, frag_data = p + handled,
                          frag_len = n - handled\<rparr>]\<rparr>))"

text \<open>The first fragment is presented to user space.\<close>

definition mmio_first_exit :: "'w read_write_emulator_ops \<Rightarrow> 'w io_vcpu \<Rightarrow> int \<times> 'w io_vcpu" where
  "mmio_first_exit ops s =
     (if mmio_nr_fragments s = 0 then (X86EMUL_CONTINUE, s)
      else
        let frag = mmio_fragments s ! 0
        in read_write_exit_mmio ops (s\<lparr>mmio_needed := True, mmio_cur_fragment := 0,
             run_len := min 8 (frag_len frag), run_is_write := is_write ops,
             mmio_is_write := is_write ops, run_exit_reason := KVM_EXIT_MMIO,
             run_phys_addr := frag_gpa frag\<rparr>))"

definition crosses_page :: "u64 \<Rightarrow> nat \<Rightarrow> bool" where
  "crosses_page addr n \<longleftrightarrow> ((addr + of_nat n - 1) XOR addr) AND NOT PAGE_OFFSET_MASK \<noteq> 0"

definition emulator_read_write ::
  "'w mmio_env \<Rightarrow> 'w read_write_emulator_ops \<Rightarrow> emul_ctxt \<Rightarrow> u64 \<Rightarrow> nat \<Rightarrow> nat \<Rightarrow> 'w io_vcpu \<Rightarrow>
    int \<times> 'w io_vcpu" where
  "emulator_read_write E ops ctxt addr p n s =
     (let (ready, s) = (case read_write_prepare ops of None \<Rightarrow> (False, s) | Some f \<Rightarrow> f s)
      in if ready then (X86EMUL_CONTINUE, s)
         else
           let s = s\<lparr>mmio_nr_fragments := 0\<rparr>;
               now = (if crosses_page addr n then unat (- addr AND PAGE_OFFSET_MASK) else 0);
               (rc, s) = (if crosses_page addr n
                          then emulator_read_write_onepage E ops ctxt addr p now s
                          else (X86EMUL_CONTINUE, s))
           in if rc \<noteq> X86EMUL_CONTINUE then (rc, s)
              else
                let addr = (if crosses_page addr n then
                              let a = addr + of_nat now
                              in if mode_prot64 ctxt then a else ucast (ucast a :: u32)
                            else addr);
                    (rc, s) = emulator_read_write_onepage E ops ctxt addr (p + now) (n - now) s
                in if rc \<noteq> X86EMUL_CONTINUE then (rc, s) else mmio_first_exit ops s)"

definition emulator_read_emulated ::
  "'w mmio_env \<Rightarrow> emul_ctxt \<Rightarrow> u64 \<Rightarrow> nat \<Rightarrow> nat \<Rightarrow> 'w io_vcpu \<Rightarrow> int \<times> 'w io_vcpu" where
  "emulator_read_emulated E = emulator_read_write E (read_emultor E)"

definition emulator_write_emulated ::
  "'w mmio_env \<Rightarrow> emul_ctxt \<Rightarrow> u64 \<Rightarrow> nat \<Rightarrow> nat \<Rightarrow> 'w io_vcpu \<Rightarrow> int \<times> 'w io_vcpu" where
  "emulator_write_emulated E = emulator_read_write E (write_emultor E)"

section \<open>Completion\<close>

text \<open>What user space answered is taken over, and the position moves on.\<close>

definition mmio_advance :: "'w io_vcpu \<Rightarrow> 'w io_vcpu" where
  "mmio_advance s =
     (let i = mmio_cur_fragment s; frag = mmio_fragments s ! i; len = min 8 (frag_len frag);
          s = (if \<not> mmio_is_write s then put_bytes (frag_data frag) (take len (run_data s)) s else s)
      in if frag_len frag \<le> 8 then s\<lparr>mmio_cur_fragment := i + 1\<rparr>
         else s\<lparr>mmio_fragments := (mmio_fragments s)[i :=
                \<lparr>frag_gpa = frag_gpa frag + of_nat len, frag_data = frag_data frag + len,
                 frag_len = frag_len frag - len\<rparr>]\<rparr>)"

text \<open>\<open>again\<close> executes the instruction again (\<open>complete_emulated_io\<close>).\<close>

definition complete_emulated_mmio ::
  "('w io_vcpu \<Rightarrow> 'w io_vcpu \<times> int) \<Rightarrow> 'w io_vcpu \<Rightarrow> crash + 'w io_vcpu \<times> int" where
  "complete_emulated_mmio again s =
     (if \<not> mmio_needed s then Inl Aborted
      else
        let s = mmio_advance s
        in if mmio_cur_fragment s \<ge> mmio_nr_fragments s then
             let s = s\<lparr>mmio_needed := False\<rparr>
             in if mmio_is_write s then Inr (s, 1) else Inr (again (s\<lparr>mmio_read_completed := True\<rparr>))
           else
             let frag = mmio_fragments s ! mmio_cur_fragment s;
                 s = s\<lparr>run_exit_reason := KVM_EXIT_MMIO, run_phys_addr := frag_gpa frag\<rparr>;
                 s = (if mmio_is_write s
                      then s\<lparr>run_data := copy_to (run_data s) (get_bytes (frag_data frag) (min 8 (frag_len frag)) s)\<rparr> else s)
             in Inr (s\<lparr>run_len := min 8 (frag_len frag), run_is_write := mmio_is_write s,
                    complete_userspace_io := Some Complete_emulated_mmio\<rparr>, 0))"

section \<open>Encrypted guests\<close>

text \<open>The guest names the buffer itself (\<open>None\<close> is NULL), and its instruction is over already.\<close>

definition complete_sev_es_emulated_mmio :: "'w io_vcpu \<Rightarrow> crash + 'w io_vcpu \<times> int" where
  "complete_sev_es_emulated_mmio s =
     (if \<not> mmio_needed s then Inl Aborted
      else
        let s = mmio_advance s
        in if mmio_cur_fragment s \<ge> mmio_nr_fragments s then Inr (s\<lparr>mmio_needed := False\<rparr>, 1)
           else
             let frag = mmio_fragments s ! mmio_cur_fragment s;
                 s = s\<lparr>run_phys_addr := frag_gpa frag, run_len := min 8 (frag_len frag),
                       run_is_write := mmio_is_write s\<rparr>;
                 s = (if run_is_write s
                      then s\<lparr>run_data := copy_to (run_data s) (get_bytes (frag_data frag) (min 8 (frag_len frag)) s)\<rparr> else s)
             in Inr (s\<lparr>run_exit_reason := KVM_EXIT_MMIO,
                    complete_userspace_io := Some Complete_sev_es_emulated_mmio\<rparr>, 0))"

definition kvm_sev_es_mmio_write ::
  "'w mmio_env \<Rightarrow> u64 \<Rightarrow> nat \<Rightarrow> nat option \<Rightarrow> 'w io_vcpu \<Rightarrow> 'w io_vcpu \<times> int" where
  "kvm_sev_es_mmio_write E gpa n data s =
     (case data of None \<Rightarrow> (s, - EINVAL)
      | Some p \<Rightarrow>
          let (handled, s) = read_write_mmio (write_emultor E) gpa p n s
          in if handled = n then (s, 1)
             else
               let n = n - handled; gpa = gpa + of_nat handled; p = p + handled;
                   s = s\<lparr>mmio_nr_fragments := 1,
                         mmio_fragments := (mmio_fragments s)[0 := \<lparr>frag_gpa = gpa, frag_data = p, frag_len = n\<rparr>],
                         mmio_needed := True, mmio_cur_fragment := 0,
                         run_phys_addr := gpa, run_len := min 8 n, run_is_write := True\<rparr>
               in (s\<lparr>run_data := copy_to (run_data s) (get_bytes p (min 8 n) s),
                     run_exit_reason := KVM_EXIT_MMIO,
                     complete_userspace_io := Some Complete_sev_es_emulated_mmio\<rparr>, 0))"

definition kvm_sev_es_mmio_read ::
  "'w mmio_env \<Rightarrow> u64 \<Rightarrow> nat \<Rightarrow> nat option \<Rightarrow> 'w io_vcpu \<Rightarrow> 'w io_vcpu \<times> int" where
  "kvm_sev_es_mmio_read E gpa n data s =
     (case data of None \<Rightarrow> (s, - EINVAL)
      | Some p \<Rightarrow>
          let (handled, s) = read_write_mmio (read_emultor E) gpa p n s
          in if handled = n then (s, 1)
             else
               let n = n - handled; gpa = gpa + of_nat handled; p = p + handled
               in (s\<lparr>mmio_nr_fragments := 1,
                     mmio_fragments := (mmio_fragments s)[0 := \<lparr>frag_gpa = gpa, frag_data = p, frag_len = n\<rparr>],
                     mmio_needed := True, mmio_cur_fragment := 0,
                     run_phys_addr := gpa, run_len := min 8 n, run_is_write := False,
                     run_exit_reason := KVM_EXIT_MMIO,
                     complete_userspace_io := Some Complete_sev_es_emulated_mmio\<rparr>, 0))"

end
