(* ===== verification/Kvm_Mmio_Props.thy ===== *)
theory Kvm_Mmio_Props
  imports Kvm_Mmio
begin

text \<open>
  What a memory access of the emulator amounts to: every byte is read from, or written to, its
  one owner, a memory page, a device of the kernel, or user space, which is asked in pieces.
\<close>

section \<open>The store\<close>

lemma length_load [simp]: "length (load p n m) = n"
  by (simp add: load_def)

lemma load_store [simp]: "load p (length bs) (store p bs m) = bs"
  by (rule nth_equalityI) (simp_all add: load_def store_def)

lemma store_Nil [simp]: "store p [] m = m"
  by (rule ext) (auto simp: store_def)

lemma store_append: "store (p + length a) b (store p a m) = store p (a @ b) m"
  by (rule ext) (auto simp: store_def nth_append)

lemma store_commute:
  assumes "p + length a \<le> q"
  shows "store q b (store p a m) = store p a (store q b m)"
  using assms by (intro ext) (auto simp: store_def)

lemma take_load: "k \<le> n \<Longrightarrow> take k (load p n m) = load p k m"
  by (simp add: load_def take_map take_upt)

lemma drop_load: "drop k (load p n m) = load (p + k) (n - k) m"
  by (cases "k \<le> n") (simp_all add: load_def drop_map)

lemma load_split: "k \<le> n \<Longrightarrow> load p n m = load p k m @ load (p + k) (n - k) m"
  by (metis append_take_drop_id drop_load take_load)

section \<open>User space\<close>

text \<open>User space answers a read with the bytes of its device and carries out a write, until the
  vCPU runs again: the pieces it saw, and the vCPU.\<close>

definition device_answer :: "(u64 \<Rightarrow> u8) \<Rightarrow> u64 \<Rightarrow> nat \<Rightarrow> bytes" where
  "device_answer dev g n = map (\<lambda>i. dev (g + of_nat i)) [0..<n]"

definition mmio_answer :: "(u64 \<Rightarrow> u8) \<Rightarrow> 'w io_vcpu \<Rightarrow> 'w io_vcpu" where
  "mmio_answer dev s =
     (if run_is_write s then s
      else s\<lparr>run_data := copy_to (run_data s) (device_answer dev (run_phys_addr s) (run_len s))\<rparr>)"

lemma complete_decreases:
  assumes "complete_emulated_mmio (\<lambda>s. (s, 1)) s = Inr (s', 0)"
    and "mmio_cur_fragment s < length (mmio_fragments s)"
  shows "(s', s) \<in> measures [\<lambda>s. mmio_nr_fragments s - mmio_cur_fragment s,
    \<lambda>s. frag_len (mmio_fragments s ! mmio_cur_fragment s)]"
  using assms
  by (auto simp: complete_emulated_mmio_def mmio_advance_def Let_def split: if_splits)

lemma mmio_answer_fields [simp]:
  "mmio_nr_fragments (mmio_answer dev s) = mmio_nr_fragments s"
  "mmio_cur_fragment (mmio_answer dev s) = mmio_cur_fragment s"
  "mmio_fragments (mmio_answer dev s) = mmio_fragments s"
  by (simp_all add: mmio_answer_def)

function mmio_serve :: "(u64 \<Rightarrow> u8) \<Rightarrow> 'w io_vcpu \<Rightarrow> (u64 \<times> bytes) list \<times> 'w io_vcpu" where
  "mmio_serve dev s =
     (let t = mmio_answer dev s; piece = (run_phys_addr t, take (run_len t) (run_data t))
      in case complete_emulated_mmio (\<lambda>s. (s, 1)) t of
           Inl _ \<Rightarrow> ([], s)
         | Inr (s', r) \<Rightarrow>
             if r = 0 \<and> mmio_cur_fragment t < length (mmio_fragments t)
             then let (ps, u) = mmio_serve dev s' in (piece # ps, u) else ([piece], s'))"
  by pat_completeness auto

termination
proof (relation "inv_image (measures [\<lambda>s. mmio_nr_fragments s - mmio_cur_fragment s,
    \<lambda>s. frag_len (mmio_fragments s ! mmio_cur_fragment s)]) snd", goal_cases)
  case 1
  show ?case by (rule wf_inv_image [OF wf_measures])
next
  case (2 dev s t piece res s' r)
  then show ?case
    using complete_decreases [of "mmio_answer dev s" s'] by simp
qed

declare mmio_serve.simps [simp del]

section \<open>Pieces\<close>

fun split8 :: "u64 \<Rightarrow> bytes \<Rightarrow> (u64 \<times> bytes) list" where
  "split8 g bs = (if length bs \<le> 8 then [(g, bs)] else (g, take 8 bs) # split8 (g + 8) (drop 8 bs))"

declare split8.simps [simp del]

definition frag_bytes :: "(u64 \<Rightarrow> u8) \<Rightarrow> 'w io_vcpu \<Rightarrow> mmio_fragment \<Rightarrow> bytes" where
  "frag_bytes dev s f =
     (if mmio_is_write s then get_bytes (frag_data f) (frag_len f) s
      else device_answer dev (frag_gpa f) (frag_len f))"

text \<open>The fragments still to be done, and a state that presents the first of them.\<close>

definition todo :: "'w io_vcpu \<Rightarrow> mmio_fragment list" where
  "todo s = take (mmio_nr_fragments s - mmio_cur_fragment s) (drop (mmio_cur_fragment s) (mmio_fragments s))"

definition presents :: "'w io_vcpu \<Rightarrow> bool" where
  "presents s \<longleftrightarrow>
     (let f = mmio_fragments s ! mmio_cur_fragment s in
      mmio_needed s \<and> run_is_write s = mmio_is_write s \<and> mmio_cur_fragment s < mmio_nr_fragments s \<and>
      mmio_nr_fragments s \<le> length (mmio_fragments s) \<and>
      run_phys_addr s = frag_gpa f \<and> run_len s = min 8 (frag_len f) \<and>
      (mmio_is_write s \<longrightarrow> take (run_len s) (run_data s) = get_bytes (frag_data f) (run_len s) s))"

definition fill :: "(u64 \<Rightarrow> u8) \<Rightarrow> mmio_fragment \<Rightarrow> (nat \<Rightarrow> u8) \<Rightarrow> nat \<Rightarrow> u8" where
  "fill dev f m = store (frag_data f) (device_answer dev (frag_gpa f) (frag_len f)) m"

lemma length_answer [simp]: "length (device_answer dev g n) = n"
  by (simp add: device_answer_def)

lemma answer_Nil [simp]: "device_answer dev g 0 = []"
  by (simp add: device_answer_def)

lemma answer_split:
  assumes "k \<le> n"
  shows "device_answer dev g n = device_answer dev g k @ device_answer dev (g + of_nat k) (n - k)"
proof -
  have "[0..<n] = [0..<k] @ [k..<n]" using assms upt_add_eq_append [of 0 k "n - k"] by simp
  moreover have "map (\<lambda>i. dev (g + of_nat i)) [k..<n] = map (\<lambda>i. dev (g + of_nat k + of_nat i)) [0..<n - k]"
    by (rule nth_equalityI) (simp_all add: add.assoc)
  ultimately show ?thesis by (simp add: device_answer_def)
qed

lemma todo_Cons:
  assumes "mmio_cur_fragment s < mmio_nr_fragments s" "mmio_nr_fragments s \<le> length (mmio_fragments s)"
  shows "todo s = mmio_fragments s ! mmio_cur_fragment s #
    take (mmio_nr_fragments s - Suc (mmio_cur_fragment s)) (drop (Suc (mmio_cur_fragment s)) (mmio_fragments s))"
proof -
  have "mmio_nr_fragments s - mmio_cur_fragment s = Suc (mmio_nr_fragments s - Suc (mmio_cur_fragment s))"
    using assms by simp
  then show ?thesis
    using assms by (simp add: todo_def Cons_nth_drop_Suc [symmetric])
qed

text \<open>One answer: either the fragment is done, or it is eight bytes shorter.\<close>

lemma step_piece:
  assumes "presents s" "f = mmio_fragments s ! mmio_cur_fragment s" "k = min 8 (frag_len f)"
  shows "(run_phys_addr (mmio_answer dev s), take (run_len (mmio_answer dev s)) (run_data (mmio_answer dev s))) =
    (frag_gpa f, take k (frag_bytes dev s f))"
proof (cases "mmio_is_write s")
  case True
  then show ?thesis
    using assms by (auto simp: presents_def mmio_answer_def frag_bytes_def take_load Let_def)
next
  case False
  then show ?thesis
    using assms answer_split [of k "frag_len f" dev "frag_gpa f"]
    by (simp add: presents_def mmio_answer_def frag_bytes_def Let_def copy_to_def)
qed

text \<open>The three ways a completion goes.\<close>

lemma complete_long:
  assumes "presents s" "f = mmio_fragments s ! mmio_cur_fragment s" "8 < frag_len f"
  obtains s' where "complete_emulated_mmio (\<lambda>s. (s, 1)) (mmio_answer dev s) = Inr (s', 0)" "presents s'"
    "mmio_is_write s' = mmio_is_write s" "world s' = world s" "mmio_read_completed s' = mmio_read_completed s"
    "todo s' = f\<lparr>frag_gpa := frag_gpa f + 8, frag_data := frag_data f + 8, frag_len := frag_len f - 8\<rparr> # tl (todo s)"
    "host_mem s' = (if mmio_is_write s then host_mem s
      else store (frag_data f) (device_answer dev (frag_gpa f) 8) (host_mem s))"
proof -
  let ?i = "mmio_cur_fragment s"
  have i: "?i < mmio_nr_fragments s" "mmio_nr_fragments s \<le> length (mmio_fragments s)"
    "mmio_needed s" "run_is_write s = mmio_is_write s" "run_phys_addr s = frag_gpa f" "run_len s = 8"
    using assms by (auto simp: presents_def Let_def)
  let ?f = "\<lparr>frag_gpa = frag_gpa f + 8, frag_data = frag_data f + 8, frag_len = frag_len f - 8\<rparr>"
  let ?m = "if mmio_is_write s then host_mem s
    else store (frag_data f) (device_answer dev (frag_gpa f) 8) (host_mem s)"
  let ?t = "mmio_answer dev s\<lparr>host_mem := ?m, mmio_fragments := (mmio_fragments s)[?i := ?f]\<rparr>"
  have a: "mmio_advance (mmio_answer dev s) = ?t"
    using i assms(2,3) by (simp add: mmio_advance_def mmio_answer_def copy_to_def Let_def)
  let ?k = "min 8 (frag_len ?f)"
  let ?u = "?t\<lparr>run_exit_reason := KVM_EXIT_MMIO, run_phys_addr := frag_gpa ?f,
    run_data := if mmio_is_write s then copy_to (run_data s) (load (frag_data ?f) ?k ?m)
      else run_data ?t, run_len := ?k, run_is_write := mmio_is_write s,
    complete_userspace_io := Some Complete_emulated_mmio\<rparr>"
  have c: "complete_emulated_mmio (\<lambda>s. (s, 1)) (mmio_answer dev s) = Inr (?u, 0)"
    unfolding complete_emulated_mmio_def a Let_def
    using i by (simp add: mmio_answer_def)
  show ?thesis
  proof (rule that [OF c])
    show "presents ?u"
      using i by (simp add: presents_def mmio_answer_def copy_to_def Let_def)
    show "todo ?u = f\<lparr>frag_gpa := frag_gpa f + 8, frag_data := frag_data f + 8, frag_len := frag_len f - 8\<rparr> # tl (todo s)"
      using i todo_Cons [of ?u] todo_Cons [of s] by simp
  qed (simp_all add: mmio_answer_def)
qed

lemma complete_short:
  assumes "presents s" "f = mmio_fragments s ! mmio_cur_fragment s" "frag_len f \<le> 8"
  obtains (next_fragment) s' where "tl (todo s) \<noteq> []"
    "complete_emulated_mmio (\<lambda>s. (s, 1)) (mmio_answer dev s) = Inr (s', 0)" "presents s'"
    "mmio_is_write s' = mmio_is_write s" "world s' = world s" "mmio_read_completed s' = mmio_read_completed s"
    "todo s' = tl (todo s)"
    "host_mem s' = (if mmio_is_write s then host_mem s else fill dev f (host_mem s))"
  | (finished) s' where "tl (todo s) = []"
    "complete_emulated_mmio (\<lambda>s. (s, 1)) (mmio_answer dev s) = Inr (s', 1)" "\<not> mmio_needed s'"
    "world s' = world s" "mmio_read_completed s' = (\<not> mmio_is_write s \<or> mmio_read_completed s)"
    "host_mem s' = (if mmio_is_write s then host_mem s else fill dev f (host_mem s))"
proof -
  let ?i = "mmio_cur_fragment s"
  have i: "?i < mmio_nr_fragments s" "mmio_nr_fragments s \<le> length (mmio_fragments s)"
    "mmio_needed s" "run_is_write s = mmio_is_write s" "run_phys_addr s = frag_gpa f" "run_len s = frag_len f"
    using assms by (auto simp: presents_def Let_def)
  let ?m = "if mmio_is_write s then host_mem s else fill dev f (host_mem s)"
  let ?t = "mmio_answer dev s\<lparr>host_mem := ?m, mmio_cur_fragment := ?i + 1\<rparr>"
  have a: "mmio_advance (mmio_answer dev s) = ?t"
    using i assms(2,3) by (simp add: mmio_advance_def mmio_answer_def copy_to_def fill_def Let_def)
  show ?thesis
  proof (cases "?i + 1 < mmio_nr_fragments s")
    case True
    let ?f = "mmio_fragments s ! (?i + 1)"
    let ?k = "min 8 (frag_len ?f)"
    let ?u = "?t\<lparr>run_exit_reason := KVM_EXIT_MMIO, run_phys_addr := frag_gpa ?f,
      run_data := if mmio_is_write s then copy_to (run_data s) (load (frag_data ?f) ?k ?m)
        else run_data ?t, run_len := ?k, run_is_write := mmio_is_write s,
      complete_userspace_io := Some Complete_emulated_mmio\<rparr>"
    have c: "complete_emulated_mmio (\<lambda>s. (s, 1)) (mmio_answer dev s) = Inr (?u, 0)"
      unfolding complete_emulated_mmio_def a Let_def
      using i True by (simp add: mmio_answer_def)
    have t: "todo ?u = tl (todo s)"
      using todo_Cons [of s] i by (simp add: todo_def)
    have "tl (todo s) \<noteq> []" using todo_Cons [of s] i True by simp
    then show ?thesis
    proof (rule next_fragment [OF _ c])
      show "presents ?u"
        using i True by (simp add: presents_def mmio_answer_def copy_to_def Let_def)
      show "todo ?u = tl (todo s)" by (rule t)
    qed (simp_all add: mmio_answer_def)
  next
    case False
    let ?u = "?t\<lparr>mmio_needed := False,
      mmio_read_completed := (\<not> mmio_is_write s \<or> mmio_read_completed s)\<rparr>"
    have c: "complete_emulated_mmio (\<lambda>s. (s, 1)) (mmio_answer dev s) = Inr (?u, 1)"
      unfolding complete_emulated_mmio_def a Let_def
      using i False by (simp add: mmio_answer_def)
    have "tl (todo s) = []" using todo_Cons [of s] i False by simp
    then show ?thesis
      by (rule finished [OF _ c]) (simp_all add: mmio_answer_def)
  qed
qed

definition pieces :: "(u64 \<Rightarrow> u8) \<Rightarrow> 'w io_vcpu \<Rightarrow> mmio_fragment list \<Rightarrow> (u64 \<times> bytes) list" where
  "pieces dev s fs = concat (map (\<lambda>f. split8 (frag_gpa f) (frag_bytes dev s f)) fs)"

lemma pieces_cong:
  assumes "mmio_is_write s' = mmio_is_write s" "mmio_is_write s \<Longrightarrow> host_mem s' = host_mem s"
  shows "pieces dev s' fs = pieces dev s fs"
proof -
  have "frag_bytes dev s' f = frag_bytes dev s f" for f
    using assms by (simp add: frag_bytes_def)
  then show ?thesis by (simp add: pieces_def)
qed

lemma pieces_Cons: "pieces dev s (f # fs) = split8 (frag_gpa f) (frag_bytes dev s f) @ pieces dev s fs"
  by (simp add: pieces_def)

lemma length_frag_bytes [simp]: "length (frag_bytes dev s f) = frag_len f"
  by (simp add: frag_bytes_def)

lemma serve_todo:
  assumes "presents s"
  obtains s' where "mmio_serve dev s = (pieces dev s (todo s), s')"
    "host_mem s' = (if mmio_is_write s then host_mem s else fold (fill dev) (todo s) (host_mem s))"
    "\<not> mmio_needed s'" "mmio_read_completed s' = (\<not> mmio_is_write s \<or> mmio_read_completed s)"
    "world s' = world s"
  using assms
proof (induction dev s arbitrary: thesis rule: mmio_serve.induct)
  case (1 dev s)
  note p = "1.prems"(2)
  define f where "f = mmio_fragments s ! mmio_cur_fragment s"
  have i: "mmio_cur_fragment s < length (mmio_fragments s)"
    using p by (auto simp: presents_def Let_def)
  have t: "todo s = f # tl (todo s)"
    using todo_Cons [of s] p by (simp add: presents_def f_def Let_def)
  let ?k = "min 8 (frag_len f)"
  let ?c = "complete_emulated_mmio (\<lambda>s. (s, 1)) (mmio_answer dev s)"
  let ?piece = "(frag_gpa f, take ?k (frag_bytes dev s f))"
  have piece: "(run_phys_addr (mmio_answer dev s), take (run_len (mmio_answer dev s)) (run_data (mmio_answer dev s))) = ?piece"
    by (rule step_piece [OF p f_def refl])
  have serve: "mmio_serve dev s = (case ?c of Inl _ \<Rightarrow> ([], s)
      | Inr (s', r) \<Rightarrow> if r = 0 then let (ps, u) = mmio_serve dev s' in (?piece # ps, u) else ([?piece], s'))"
    using i by (subst mmio_serve.simps) (simp add: piece Let_def split: sum.split prod.split)
  have IH: "thesis'" if "?c = Inr (s', 0)" "presents s'"
    "\<And>u. \<lbrakk>mmio_serve dev s' = (pieces dev s' (todo s'), u);
       host_mem u = (if mmio_is_write s' then host_mem s' else fold (fill dev) (todo s') (host_mem s'));
       \<not> mmio_needed u; mmio_read_completed u = (\<not> mmio_is_write s' \<or> mmio_read_completed s');
       world u = world s'\<rbrakk> \<Longrightarrow> thesis'" for s' thesis'
  proof (rule "1.IH" [OF refl refl that(1) refl])
    show "0 = (0 :: int) \<and> mmio_cur_fragment (mmio_answer dev s) < length (mmio_fragments (mmio_answer dev s))"
      using i by simp
    show "presents s'" by (rule that(2))
  qed (rule that(3))
  show ?case
  proof (cases "8 < frag_len f")
    case True
    obtain s' where s': "?c = Inr (s', 0)" "presents s'"
      "mmio_is_write s' = mmio_is_write s" "world s' = world s" "mmio_read_completed s' = mmio_read_completed s"
      "todo s' = f\<lparr>frag_gpa := frag_gpa f + 8, frag_data := frag_data f + 8, frag_len := frag_len f - 8\<rparr> # tl (todo s)"
      "host_mem s' = (if mmio_is_write s then host_mem s
        else store (frag_data f) (device_answer dev (frag_gpa f) 8) (host_mem s))"
      by (rule complete_long [OF p f_def True])
    let ?f = "f\<lparr>frag_gpa := frag_gpa f + 8, frag_data := frag_data f + 8, frag_len := frag_len f - 8\<rparr>"
    have same: "pieces dev s' fs = pieces dev s fs" for fs
      by (rule pieces_cong) (simp_all add: s'(3,7))
    have rest: "frag_bytes dev s' ?f = drop 8 (frag_bytes dev s f)"
      using answer_split [of 8 "frag_len f" dev "frag_gpa f"] True
      by (simp add: frag_bytes_def drop_load s'(3,7))
    have ps: "pieces dev s (todo s) = ?piece # pieces dev s' (todo s')"
      using True
      by (subst t) (simp add: s'(6) same pieces_Cons rest split8.simps [of _ "frag_bytes dev s f"])
    have "fill dev ?f (store (frag_data f) (device_answer dev (frag_gpa f) 8) m) = fill dev f m" for m
      using store_append [of "frag_data f" "device_answer dev (frag_gpa f) 8"]
        answer_split [of 8 "frag_len f" dev "frag_gpa f"] True
      by (simp add: fill_def)
    then have fold: "\<not> mmio_is_write s \<Longrightarrow>
        fold (fill dev) (todo s') (host_mem s') = fold (fill dev) (todo s) (host_mem s)"
      by (subst t) (simp add: s'(6,7))
    show ?thesis
    proof (rule IH [OF s'(1,2)])
      fix u
      assume u: "mmio_serve dev s' = (pieces dev s' (todo s'), u)"
        "host_mem u = (if mmio_is_write s' then host_mem s' else fold (fill dev) (todo s') (host_mem s'))"
        "\<not> mmio_needed u" "mmio_read_completed u = (\<not> mmio_is_write s' \<or> mmio_read_completed s')"
        "world u = world s'"
      show thesis
        by (rule "1.prems"(1) [of u]) (simp_all add: serve s'(1,3-5) u ps fold, simp add: s'(7))
    qed
  next
    case False
    then have short: "frag_len f \<le> 8" by simp
    have one: "split8 (frag_gpa f) (frag_bytes dev s f) = [?piece]"
      using short by (simp add: split8.simps)
    from p f_def short show ?thesis
    proof (cases rule: complete_short [where dev = dev])
      case (next_fragment s')
      have same: "pieces dev s' fs = pieces dev s fs" for fs
        by (rule pieces_cong) (simp_all add: next_fragment(4,8))
      have ps: "pieces dev s (todo s) = ?piece # pieces dev s' (todo s')"
        by (subst t) (simp add: same pieces_Cons one next_fragment(7))
      have fold: "\<not> mmio_is_write s \<Longrightarrow>
          fold (fill dev) (todo s') (host_mem s') = fold (fill dev) (todo s) (host_mem s)"
        by (subst t) (simp add: next_fragment(7,8))
      show ?thesis
      proof (rule IH [OF next_fragment(2,3)])
        fix u
        assume u: "mmio_serve dev s' = (pieces dev s' (todo s'), u)"
          "host_mem u = (if mmio_is_write s' then host_mem s' else fold (fill dev) (todo s') (host_mem s'))"
          "\<not> mmio_needed u" "mmio_read_completed u = (\<not> mmio_is_write s' \<or> mmio_read_completed s')"
          "world u = world s'"
        show thesis
          by (rule "1.prems"(1) [of u])
            (simp_all add: serve next_fragment(2,4-6) u ps fold, simp add: next_fragment(8))
      qed
    next
      case (finished s')
      have "todo s = [f]" using t finished(1) by simp
      then show ?thesis
        by (intro "1.prems"(1) [of s'])
          (simp_all add: serve finished(2-6) pieces_def one)
    qed
  qed
qed

section \<open>One page\<close>

text \<open>The bytes the devices of the kernel answer, and how many they take, from the first on.\<close>

function device_bytes :: "'w mmio_env \<Rightarrow> u64 \<Rightarrow> nat \<Rightarrow> 'w \<Rightarrow> bytes \<times> 'w" where
  "device_bytes E g n w =
     (let k = min n 8; (r, w) = device_read E g k w in
      case r of None \<Rightarrow> ([], w)
      | Some bs \<Rightarrow>
          if n - k = 0 then (bs, w)
          else let (cs, w) = device_bytes E (g + of_nat k) (n - k) w in (bs @ cs, w))"
  by pat_completeness auto
termination by (relation "measure (\<lambda>(E, g, n, w). n)") auto

function devices_write :: "'w mmio_env \<Rightarrow> u64 \<Rightarrow> bytes \<Rightarrow> 'w \<Rightarrow> nat \<times> 'w" where
  "devices_write E g bs w =
     (let k = min (length bs) 8; (ok, w) = device_write E g (take k bs) w in
      if \<not> ok then (0, w)
      else if length bs - k = 0 then (k, w)
      else let (j, w) = devices_write E (g + of_nat k) (drop k bs) w in (k + j, w))"
  by pat_completeness auto
termination by (relation "measure (\<lambda>(E, g, bs, w). length bs)") auto

declare device_bytes.simps [simp del] devices_write.simps [simp del]

definition answers :: "nat \<Rightarrow> bytes option \<Rightarrow> bool" where
  "answers n r \<longleftrightarrow> (\<forall>bs. r = Some bs \<longrightarrow> length bs = n)"

definition mmio_contract :: "'w mmio_env \<Rightarrow> bool" where
  "mmio_contract E \<longleftrightarrow>
     (\<forall>g n w. answers n (fst (kvm_iodevice_read E g n w)) \<and> answers n (fst (kvm_io_bus_read E g n w)) \<and>
        answers n (fst (kvm_vcpu_read_guest E g n w)))"

lemma device_read_length:
  assumes "mmio_contract E" "device_read E g n w = (Some bs, w')"
  shows "length bs = n"
proof -
  have "answers n (fst (device_read E g n w))"
    using assms(1) by (simp add: device_read_def mmio_contract_def Let_def case_prod_beta)
  then show ?thesis by (simp add: assms(2) answers_def)
qed

lemma device_bytes_length:
  assumes "mmio_contract E" "device_bytes E g n w = (bs, w')"
  shows "length bs \<le> n"
  using assms
proof (induction E g n w arbitrary: bs w' rule: device_bytes.induct)
  case (1 E g n w)
  obtain r v where d: "device_read E g (min n 8) w = (r, v)" by (rule prod.exhaust)
  show ?case
  proof (cases r)
    case None
    then show ?thesis using "1.prems"(2) by (subst (asm) device_bytes.simps) (simp add: d)
  next
    case (Some as)
    have as: "length as = min n 8"
      using device_read_length [OF "1.prems"(1)] d Some by simp
    obtain cs u where c: "device_bytes E (g + of_nat (min n 8)) (n - min n 8) v = (cs, u)" by (rule prod.exhaust)
    have "length cs \<le> n - min n 8" if "n - min n 8 \<noteq> 0"
      using "1.IH" [OF refl d [symmetric] refl Some that "1.prems"(1) c] .
    moreover have "length bs = length as \<or> n - min n 8 \<noteq> 0 \<and> length bs = length as + length cs"
      using "1.prems"(2)
      by (subst (asm) device_bytes.simps)
        (simp only: d Some c Let_def prod.case option.case prod.inject split: if_splits, auto)
    ultimately show ?thesis using as by auto
  qed
qed

lemma mmio_read_eq:
  assumes "mmio_contract E"
  shows "vcpu_mmio_read E g n p s =
    (let (bs, w) = device_bytes E g n (world s) in (length bs, put_bytes p bs (s\<lparr>world := w\<rparr>)))"
  using assms
proof (induction E g n p s rule: vcpu_mmio_read.induct)
  case (1 E g n p s)
  let ?k = "min n 8"
  obtain r v where d: "device_read E g ?k (world s) = (r, v)" by (rule prod.exhaust)
  show ?case
  proof (cases r)
    case None
    then show ?thesis
      by (subst vcpu_mmio_read.simps, subst device_bytes.simps) (simp add: d)
  next
    case (Some as)
    have as: "length as = ?k"
      using device_read_length [OF "1.prems"] d Some by simp
    obtain cs u where c: "device_bytes E (g + of_nat ?k) (n - ?k) v = (cs, u)" by (rule prod.exhaust)
    have more: "vcpu_mmio_read E (g + of_nat ?k) (n - ?k) (p + ?k) (put_bytes p as (s\<lparr>world := v\<rparr>)) =
        (length cs, put_bytes p (as @ cs) (s\<lparr>world := u\<rparr>))" if "n - ?k \<noteq> 0"
      using "1.IH" [OF refl d [symmetric] refl refl Some refl that "1.prems"]
        store_append [of p as cs "host_mem s"]
      by (simp add: c as)
    show ?thesis
    proof (cases "n - ?k = 0")
      case True
      then show ?thesis
        by (subst vcpu_mmio_read.simps, subst device_bytes.simps)
          (simp only: d Some as Let_def if_True prod.case option.case)
    next
      case False
      then show ?thesis
        by (subst vcpu_mmio_read.simps, subst device_bytes.simps)
          (simp only: d Some c as more Let_def if_False prod.case option.case fst_conv snd_conv length_append)
    qed
  qed
qed

lemma mmio_write_eq:
  "vcpu_mmio_write E g n p s =
    (let (k, w) = devices_write E g (get_bytes p n s) (world s) in (k, s\<lparr>world := w\<rparr>))"
proof (induction E g n p s rule: vcpu_mmio_write.induct)
  case (1 E g n p s)
  let ?k = "min n 8"
  obtain ok v where d: "device_write E g (get_bytes p ?k s) (world s) = (ok, v)" by (rule prod.exhaust)
  obtain j u where c: "devices_write E (g + of_nat ?k) (get_bytes (p + ?k) (n - ?k) s) v = (j, u)"
    by (rule prod.exhaust)
  have more: "vcpu_mmio_write E (g + of_nat ?k) (n - ?k) (p + ?k) (s\<lparr>world := v\<rparr>) = (j, s\<lparr>world := u\<rparr>)"
    if "ok" "n - ?k \<noteq> 0"
    using "1.IH" [OF refl d [symmetric] refl refl _ that(2)] that(1) by (simp add: c)
  have t: "take ?k (get_bytes p n s) = get_bytes p ?k s" by (rule take_load) simp
  show ?case
  proof (cases "n - ?k = 0")
    case True
    then show ?thesis
      by (subst vcpu_mmio_write.simps, subst devices_write.simps)
        (simp only: d length_load t Let_def prod.case if_True split: if_split, simp)
  next
    case False
    have big: "vcpu_mmio_write E (g + 8) (n - 8) (p + 8) (s\<lparr>world := v\<rparr>) = (j, s\<lparr>world := u\<rparr>)" if "ok"
      using more [OF that False] False by (simp add: min_def split: if_splits)
    from False show ?thesis
      by (subst vcpu_mmio_write.simps, subst devices_write.simps)
        (simp only: d c more length_load t drop_load Let_def prod.case if_False not_True_eq_False
          not_False_eq_True fst_conv snd_conv split: if_split, simp add: big)
  qed
qed

text \<open>What happens to the bytes of an access within one page: the address, how many are dealt with
  in the kernel, and the bytes a read has put into the buffer.\<close>

definition page_part ::
  "'w mmio_env \<Rightarrow> bool \<Rightarrow> emul_ctxt \<Rightarrow> u64 \<Rightarrow> nat \<Rightarrow> bytes \<Rightarrow> 'w \<Rightarrow> (u64 \<times> nat \<times> bytes) option \<times> 'w" where
  "page_part E write ctxt addr n bs w =
     (case onepage_gpa E ctxt write addr w of
        (None, w) \<Rightarrow> (None, w)
      | (Some (g, mmio), w) \<Rightarrow>
          if write then
            let (ok, w) = (if mmio then (False, w) else emulator_write_phys E g bs w)
            in if ok then (Some (g, n, []), w)
               else let (k, w) = devices_write E g bs w in (Some (g, k, []), w)
          else
            let (r, w) = (if mmio then (None, w) else kvm_vcpu_read_guest E g n w)
            in case r of Some cs \<Rightarrow> (Some (g, n, cs), w)
               | None \<Rightarrow> let (cs, w) = device_bytes E g n w in (Some (g, length cs, cs), w))"

definition ops_of :: "'w mmio_env \<Rightarrow> bool \<Rightarrow> 'w read_write_emulator_ops" where
  "ops_of E write = (if write then write_emultor E else read_emultor E)"

definition add_fragment :: "mmio_fragment \<Rightarrow> 'w io_vcpu \<Rightarrow> 'w io_vcpu" where
  "add_fragment f s = s\<lparr>mmio_nr_fragments := mmio_nr_fragments s + 1,
     mmio_fragments := (mmio_fragments s)[mmio_nr_fragments s := f]\<rparr>"

lemma onepage_eq:
  assumes "mmio_contract E"
  shows "emulator_read_write_onepage E (ops_of E write) ctxt addr p n s =
    (case page_part E write ctxt addr n (get_bytes p n s) (world s) of
       (None, w) \<Rightarrow> (X86EMUL_PROPAGATE_FAULT, s\<lparr>world := w\<rparr>)
     | (Some (g, k, bs), w) \<Rightarrow>
         let s = put_bytes p bs (s\<lparr>world := w\<rparr>)
         in (X86EMUL_CONTINUE,
             if k = n then s
             else add_fragment \<lparr>frag_gpa = g + of_nat k, frag_data = p + k, frag_len = n - k\<rparr> s))"
proof (cases "write")
  case True
  then show ?thesis
    by (simp add: emulator_read_write_onepage_def page_part_def ops_of_def write_emultor_def
        write_emulate_def mmio_write_eq add_fragment_def Let_def split: prod.splits option.splits)
next
  case False
  obtain r v where o: "onepage_gpa E ctxt False addr (world s) = (r, v)" by (rule prod.exhaust)
  note defs = emulator_read_write_onepage_def page_part_def ops_of_def read_emultor_def
    read_emulate_def mmio_read_eq [OF assms] add_fragment_def
  show ?thesis
  proof (cases r)
    case None
    then show ?thesis using False by (simp add: defs o)
  next
    case (Some q)
    obtain g mmio where q: "q = (g, mmio)" by (rule prod.exhaust)
    obtain x y where x: "kvm_vcpu_read_guest E g n v = (x, y)" by (rule prod.exhaust)
    obtain a b where a: "device_bytes E g n v = (a, b)" by (rule prod.exhaust)
    obtain c d where c: "device_bytes E g n y = (c, d)" by (rule prod.exhaust)
    show ?thesis
      using False by (cases mmio; cases x) (simp_all add: defs o Some q x a c Let_def)
  qed
qed

text \<open>The pages of an access, one after the other.\<close>

fun pages :: "'w mmio_env \<Rightarrow> 'w read_write_emulator_ops \<Rightarrow> emul_ctxt \<Rightarrow> (u64 \<times> nat \<times> nat) list \<Rightarrow>
    'w io_vcpu \<Rightarrow> int \<times> 'w io_vcpu" where
  "pages E ops ctxt [] s = (X86EMUL_CONTINUE, s)"
| "pages E ops ctxt ((addr, p, n) # ps) s =
     (let (rc, s) = emulator_read_write_onepage E ops ctxt addr p n s
      in if rc \<noteq> X86EMUL_CONTINUE then (rc, s) else pages E ops ctxt ps s)"

definition access_pages :: "emul_ctxt \<Rightarrow> u64 \<Rightarrow> nat \<Rightarrow> nat \<Rightarrow> (u64 \<times> nat \<times> nat) list" where
  "access_pages ctxt addr p n =
     (if crosses_page addr n then
        let now = unat (- addr AND PAGE_OFFSET_MASK); a = addr + of_nat now
        in [(addr, p, now), (if mode_prot64 ctxt then a else ucast (ucast a :: u32), p + now, n - now)]
      else [(addr, p, n)])"

lemma read_write_pages:
  assumes "write \<or> \<not> mmio_read_completed s"
  shows "emulator_read_write E (ops_of E write) ctxt addr p n s =
    (let (rc, s) = pages E (ops_of E write) ctxt (access_pages ctxt addr p n) (s\<lparr>mmio_nr_fragments := 0\<rparr>)
     in if rc \<noteq> X86EMUL_CONTINUE then (rc, s) else mmio_first_exit (ops_of E write) s)"
proof -
  have "(case read_write_prepare (ops_of E write) of None \<Rightarrow> (False, s) | Some f \<Rightarrow> f s) = (False, s)"
    using assms by (auto simp: ops_of_def read_emultor_def write_emultor_def read_prepare_def)
  then show ?thesis
    by (simp add: emulator_read_write_def access_pages_def Let_def split: prod.split)
qed

fun page_parts ::
  "'w mmio_env \<Rightarrow> bool \<Rightarrow> emul_ctxt \<Rightarrow> (u64 \<times> nat \<times> nat) list \<Rightarrow> (nat \<Rightarrow> u8) \<Rightarrow> 'w \<Rightarrow>
    (nat \<times> nat \<times> u64 \<times> nat \<times> bytes) list option \<times> 'w" where
  "page_parts E write ctxt [] m w = (Some [], w)"
| "page_parts E write ctxt ((addr, p, n) # ps) m w =
     (case page_part E write ctxt addr n (load p n m) w of
        (None, w) \<Rightarrow> (None, w)
      | (Some (g, k, bs), w) \<Rightarrow>
          (case page_parts E write ctxt ps (store p bs m) w of
             (None, w) \<Rightarrow> (None, w)
           | (Some rs, w) \<Rightarrow> (Some ((p, n, g, k, bs) # rs), w)))"

text \<open>What is left for user space, and what the buffer holds.\<close>

fun left_over :: "(nat \<times> nat \<times> u64 \<times> nat \<times> bytes) list \<Rightarrow> mmio_fragment list" where
  "left_over [] = []"
| "left_over ((p, n, g, k, bs) # rs) =
     (if k = n then left_over rs
      else \<lparr>frag_gpa = g + of_nat k, frag_data = p + k, frag_len = n - k\<rparr> # left_over rs)"

fun put_parts :: "(nat \<times> nat \<times> u64 \<times> nat \<times> bytes) list \<Rightarrow> (nat \<Rightarrow> u8) \<Rightarrow> nat \<Rightarrow> u8" where
  "put_parts [] m = m"
| "put_parts ((p, n, g, k, bs) # rs) m = put_parts rs (store p bs m)"

definition queue_fragments :: "mmio_fragment list \<Rightarrow> 'w io_vcpu \<Rightarrow> 'w io_vcpu" where
  "queue_fragments fs s = fold add_fragment fs s"

lemma add_frame:
  "add_fragment f (s\<lparr>world := w, host_mem := m\<rparr>) = (add_fragment f s)\<lparr>world := w, host_mem := m\<rparr>"
  by (simp add: add_fragment_def)

lemma queue_frame:
  "queue_fragments fs (s\<lparr>world := w, host_mem := m\<rparr>) = (queue_fragments fs s)\<lparr>world := w, host_mem := m\<rparr>"
  by (induction fs arbitrary: s) (simp_all add: queue_fragments_def add_frame)

lemma pages_eq:
  assumes "mmio_contract E"
  shows "case page_parts E write ctxt ps (host_mem s) (world s) of
      (None, w) \<Rightarrow> fst (pages E (ops_of E write) ctxt ps s) = X86EMUL_PROPAGATE_FAULT
    | (Some rs, w) \<Rightarrow> pages E (ops_of E write) ctxt ps s =
        (X86EMUL_CONTINUE, (queue_fragments (left_over rs) s)\<lparr>world := w, host_mem := put_parts rs (host_mem s)\<rparr>)"
proof (induction ps arbitrary: s)
  case Nil
  show ?case by (simp add: queue_fragments_def)
next
  case (Cons x ps)
  obtain addr p n where x: "x = (addr, p, n)" by (rule prod_cases3)
  obtain r v where r: "page_part E write ctxt addr n (get_bytes p n s) (world s) = (r, v)"
    by (rule prod.exhaust)
  show ?case
  proof (cases r)
    case None
    then show ?thesis by (simp add: x r onepage_eq [OF assms])
  next
    case (Some q)
    obtain g k bs where q: "q = (g, k, bs)" by (rule prod_cases3)
    define t where "t = put_bytes p bs (s\<lparr>world := v\<rparr>)"
    define u where "u = (if k = n then t
      else add_fragment \<lparr>frag_gpa = g + of_nat k, frag_data = p + k, frag_len = n - k\<rparr> t)"
    have one: "emulator_read_write_onepage E (ops_of E write) ctxt addr p n s = (X86EMUL_CONTINUE, u)"
      by (simp add: onepage_eq [OF assms] r Some q u_def t_def Let_def)
    have u: "host_mem u = store p bs (host_mem s)" "world u = v"
      by (simp_all add: u_def t_def add_fragment_def)
    have queue: "(queue_fragments fs u)\<lparr>world := w, host_mem := m\<rparr> =
        (queue_fragments ((if k = n then [] else
           [\<lparr>frag_gpa = g + of_nat k, frag_data = p + k, frag_len = n - k\<rparr>]) @ fs) s)
          \<lparr>world := w, host_mem := m\<rparr>" for fs w m
      unfolding queue_frame [symmetric]
      by (simp add: u_def t_def queue_fragments_def add_frame [symmetric])
    obtain rs w where rs: "page_parts E write ctxt ps (store p bs (host_mem s)) v = (rs, w)"
      by (rule prod.exhaust)
    show ?thesis
      using Cons.IH [of u] queue
      by (cases rs) (simp_all add: x r Some q one u rs)
  qed
qed

section \<open>Whole accesses\<close>

lemma queue_fields:
  assumes "mmio_nr_fragments s + length fs \<le> length (mmio_fragments s)"
  obtains F where "queue_fragments fs s =
      s\<lparr>mmio_nr_fragments := mmio_nr_fragments s + length fs, mmio_fragments := F\<rparr>"
    "length F = length (mmio_fragments s)"
    "take (mmio_nr_fragments s + length fs) F = take (mmio_nr_fragments s) (mmio_fragments s) @ fs"
  using assms
proof (induction fs arbitrary: s thesis)
  case Nil
  show ?case by (rule Nil.prems(1) [of "mmio_fragments s"]) (simp_all add: queue_fragments_def)
next
  case (Cons f fs)
  let ?s = "add_fragment f s"
  have "mmio_nr_fragments ?s + length fs \<le> length (mmio_fragments ?s)"
    using Cons.prems(2) by (simp add: add_fragment_def)
  then obtain F where F: "queue_fragments fs ?s =
      ?s\<lparr>mmio_nr_fragments := mmio_nr_fragments ?s + length fs, mmio_fragments := F\<rparr>"
    "length F = length (mmio_fragments ?s)"
    "take (mmio_nr_fragments ?s + length fs) F = take (mmio_nr_fragments ?s) (mmio_fragments ?s) @ fs"
    by (rule Cons.IH [rotated])
  show ?case
  proof (rule Cons.prems(1) [of F])
    show "queue_fragments (f # fs) s =
        s\<lparr>mmio_nr_fragments := mmio_nr_fragments s + length (f # fs), mmio_fragments := F\<rparr>"
      using F(1) by (simp add: queue_fragments_def add_fragment_def)
    show "take (mmio_nr_fragments s + length (f # fs)) F = take (mmio_nr_fragments s) (mmio_fragments s) @ f # fs"
      using F(3) Cons.prems(2) by (simp add: add_fragment_def take_Suc_conv_app_nth)
  qed (use F(2) in \<open>simp add: add_fragment_def\<close>)
qed

text \<open>The exit to user space presents the fragments.\<close>

lemma first_exit:
  assumes "fs \<noteq> []" "length fs \<le> length (mmio_fragments s)"
  obtains u where "mmio_first_exit (ops_of E write)
      ((queue_fragments fs (s\<lparr>mmio_nr_fragments := 0\<rparr>))\<lparr>world := w, host_mem := m\<rparr>) =
      (if write then X86EMUL_CONTINUE else X86EMUL_IO_NEEDED, u)"
    "presents u" "todo u = fs" "mmio_is_write u = write" "host_mem u = m" "world u = w"
    "mmio_read_completed u = mmio_read_completed s"
proof -
  obtain F where F: "queue_fragments fs (s\<lparr>mmio_nr_fragments := 0\<rparr>) =
      s\<lparr>mmio_nr_fragments := length fs, mmio_fragments := F\<rparr>"
    "length F = length (mmio_fragments s)" "take (length fs) F = fs"
    using queue_fields [of "s\<lparr>mmio_nr_fragments := 0\<rparr>" fs] assms(2) by auto
  have F0: "F ! 0 = fs ! 0" using F(3) assms(1) by (metis length_greater_0_conv nth_take)
  let ?f = "fs ! 0"
  let ?u = "s\<lparr>mmio_nr_fragments := length fs, mmio_fragments := F, world := w, host_mem := m,
    mmio_needed := True, mmio_cur_fragment := 0, run_len := min 8 (frag_len ?f), run_is_write := write,
    mmio_is_write := write, run_exit_reason := KVM_EXIT_MMIO, run_phys_addr := frag_gpa ?f,
    run_data := if write then copy_to (run_data s) (load (frag_data ?f) (min 8 (frag_len ?f)) m)
      else run_data s\<rparr>"
  have e: "mmio_first_exit (ops_of E write)
      ((queue_fragments fs (s\<lparr>mmio_nr_fragments := 0\<rparr>))\<lparr>world := w, host_mem := m\<rparr>) =
      (if write then X86EMUL_CONTINUE else X86EMUL_IO_NEEDED, ?u)"
    using assms(1) F0
    by (cases "write")
      (simp_all add: mmio_first_exit_def ops_of_def read_emultor_def write_emultor_def read_exit_mmio_def
        write_exit_mmio_def F(1) Let_def)
  show ?thesis
  proof (rule that [OF e])
    show "presents ?u"
      using assms F(2) F0 by (simp add: presents_def copy_to_def Let_def)
    show "todo ?u = fs" using F(3) by (simp add: todo_def)
  qed simp_all
qed

fun chained :: "nat \<Rightarrow> (nat \<times> nat \<times> u64 \<times> nat \<times> bytes) list \<Rightarrow> bool" where
  "chained p [] = True"
| "chained p ((q, n, g, k, bs) # rs) = (q = p \<and> length bs = k \<and> k \<le> n \<and> chained (p + n) rs)"

fun read_bytes :: "(u64 \<Rightarrow> u8) \<Rightarrow> (nat \<times> nat \<times> u64 \<times> nat \<times> bytes) list \<Rightarrow> bytes" where
  "read_bytes dev [] = []"
| "read_bytes dev ((q, n, g, k, bs) # rs) = bs @ device_answer dev (g + of_nat k) (n - k) @ read_bytes dev rs"

lemma fill_put:
  assumes "chained q rs" "frag_data f + frag_len f \<le> q"
  shows "fill dev f (put_parts rs m) = put_parts rs (fill dev f m)"
  using assms
proof (induction rs arbitrary: q m)
  case (Cons r rs)
  obtain p n g k bs where r: "r = (p, n, g, k, bs)" by (metis prod.exhaust)
  have "fill dev f (store p bs m) = store p bs (fill dev f m)"
    unfolding fill_def using Cons.prems r by (intro store_commute [symmetric]) simp
  then show ?case using Cons.IH [of "q + n"] Cons.prems r by simp
qed simp

lemma filled_parts:
  assumes "chained p rs"
  shows "fold (fill dev) (left_over rs) (put_parts rs m) = store p (read_bytes dev rs) m"
  using assms
proof (induction rs arbitrary: p m)
  case (Cons r rs)
  obtain q n g k bs where r: "r = (q, n, g, k, bs)" by (metis prod.exhaust)
  then have c: "q = p" "length bs = k" "k \<le> n" "chained (p + n) rs" using Cons.prems by auto
  let ?a = "device_answer dev (g + of_nat k) (n - k)"
  let ?f = "\<lparr>frag_gpa = g + of_nat k, frag_data = p + k, frag_len = n - k\<rparr>"
  have "fold (fill dev) (left_over (r # rs)) (put_parts (r # rs) m) =
      fold (fill dev) (left_over rs) (put_parts rs (store (p + k) ?a (store p bs m)))"
    using fill_put [OF c(4), of ?f dev "store p bs m"] c by (simp add: r fill_def)
  also have "\<dots> = store (p + n) (read_bytes dev rs) (store p (bs @ ?a) m)"
    using Cons.IH [OF c(4)] store_append [of p bs ?a m] c(2) by simp
  also have "\<dots> = store p ((bs @ ?a) @ read_bytes dev rs) m"
    using store_append [of p "bs @ ?a" "read_bytes dev rs" m] c(2,3) by simp
  finally show ?case by (simp add: r)
qed simp

lemma read_part_shape:
  assumes "mmio_contract E" "page_part E False ctxt addr n cs w = (Some (g, k, bs), v)"
  shows "length bs = k \<and> k \<le> n"
proof -
  have "answers n (fst (kvm_vcpu_read_guest E a n u))" for a n u
    using assms(1) by (simp add: mmio_contract_def)
  then have guest: "kvm_vcpu_read_guest E a n u = (Some ds, u') \<Longrightarrow> length ds = n" for a n u ds u'
    by (metis answers_def fst_conv)
  from assms(2) show ?thesis
    by (auto simp: page_part_def Let_def split: prod.splits option.splits if_splits
        dest: guest device_bytes_length [OF assms(1)])
qed

lemma read_parts_chained:
  assumes "mmio_contract E" "page_parts E False ctxt ps m w = (Some rs, v)"
    and "ps = [(a, p, i)] \<or> ps = [(a, p, i), (b, p + i, j)]"
  shows "chained p rs \<and> length (read_bytes dev rs) = (case ps of [x] \<Rightarrow> i | _ \<Rightarrow> i + j)"
  using assms(2,3)
  by (elim disjE)
    (auto split: prod.splits option.splits dest!: read_part_shape [OF assms(1)])


text \<open>An access of up to a page has its first part within it.\<close>

lemma unat_low12: "unat (x AND PAGE_OFFSET_MASK) = unat x mod 4096" for x :: u64
proof -
  have "x AND PAGE_OFFSET_MASK = take_bit 12 x" by (simp add: take_bit_eq_mask mask_eq_exp_minus_1)
  then show ?thesis by (simp add: take_bit_eq_mod unat_mod)
qed

lemma same_page:
  assumes "unat x div 4096 = unat y div 4096"
  shows "((x :: u64) XOR y) AND NOT PAGE_OFFSET_MASK = 0"
proof -
  have m: "(0xfff :: u64) = mask 12" by (simp add: mask_eq_exp_minus_1)
  have d: "drop_bit 12 x = drop_bit 12 y"
    using assms by (subst word_unat_eq_iff) (simp add: drop_bit_eq_div unat_div)
  have same: "bit x k = bit y k" if "12 \<le> k" for k
    using arg_cong [OF d, of "\<lambda>w. bit w (k - 12)"] that by (simp only: bit_drop_bit_eq comp_apply le_add_diff_inverse)
  show ?thesis
  proof (rule bit_eqI)
    fix k
    show "bit ((x XOR y) AND NOT PAGE_OFFSET_MASK) k = bit 0 k"
      unfolding m using same [of k] by (cases "12 \<le> k") (simp_all add: bit_simps)
  qed
qed

lemma crosses_part:
  assumes "crosses_page addr n" "n \<le> 4096"
  shows "unat (- addr AND PAGE_OFFSET_MASK) \<le> n"
proof (rule ccontr)
  assume n: "\<not> ?thesis"
  define q a where "q = unat addr div 4096" and "a = unat addr mod 4096"
  have "unat addr < 2 ^ 64" by (rule order_less_le_trans [OF unsigned_less]) simp
  then have u: "unat addr = 4096 * q + a" "a < 4096" "q < 2 ^ 52"
    by (auto simp: q_def a_def)
  have "- addr = of_nat (2 ^ 64 - unat addr)" using \<open>unat addr < 2 ^ 64\<close> by (simp add: of_nat_diff)
  then have "unat (- addr AND PAGE_OFFSET_MASK) = (2 ^ 64 - unat addr) mod 4096"
    by (simp add: unat_low12 unat_of_nat mod_mod_cancel)
  then have "n < (2 ^ 64 - (4096 * q + a)) mod 4096" using n u(1) by simp
  moreover have "(2 ^ 64 - (4096 * q + a)) mod 4096 = (4096 - a) mod 4096"
  proof -
    have "2 ^ 64 - (4096 * q + a) = (4096 - a) + 4096 * (2 ^ 52 - q - 1)" using u by simp
    then show ?thesis by simp
  qed
  ultimately have a: "0 < a" "a + n < 4096" using u(2) by (cases "a = 0"; simp)+
  have "addr + of_nat n - 1 = (of_nat (unat addr) :: u64) + of_nat n - 1" by simp
  also have "\<dots> = of_nat (4096 * q + (a + n - 1))"
    unfolding u(1) using a by (simp add: of_nat_diff)
  finally have e: "addr + of_nat n - 1 = of_nat (4096 * q + (a + n - 1))" .
  have "unat (addr + of_nat n - 1) = 4096 * q + (a + n - 1)"
    unfolding e unat_of_nat using u a by simp
  then have "unat (addr + of_nat n - 1) div 4096 = unat addr div 4096"
    using a u(1,2) by simp
  then show False
    using assms(1) same_page by (simp add: crosses_page_def)
qed

text \<open>The pieces are of at most eight bytes and hold the bytes of the fragment in order.\<close>

definition addressed :: "u64 \<times> bytes \<Rightarrow> (u64 \<times> u8) list" where
  "addressed = (\<lambda>(g, bs). map (\<lambda>i. (g + of_nat i, bs ! i)) [0..<length bs])"

lemma addressed_append: "addressed (g, bs @ cs) = addressed (g, bs) @ addressed (g + of_nat (length bs), cs)"
  by (rule nth_equalityI) (auto simp: addressed_def nth_append)

lemma split8_addressed:
  "concat (map addressed (split8 g bs)) = addressed (g, bs) \<and> (\<forall>x \<in> set (split8 g bs). length (snd x) \<le> 8)"
proof (induction g bs rule: split8.induct)
  case (1 g bs)
  show ?case
  proof (cases "length bs \<le> 8")
    case False
    then have "addressed (g, take 8 bs @ drop 8 bs) = addressed (g, take 8 bs) @ addressed (g + 8, drop 8 bs)"
      by (subst addressed_append) simp
    then show ?thesis using 1 False by (subst (1 2) split8.simps) simp
  qed (simp add: split8.simps)
qed

lemma pieces_addressed:
  "concat (map addressed (pieces dev s fs)) = concat (map (\<lambda>f. addressed (frag_gpa f, frag_bytes dev s f)) fs)"
  by (induction fs) (simp_all add: pieces_def split8_addressed)

lemma pieces_short: "\<forall>x \<in> set (pieces dev s fs). length (snd x) \<le> 8"
  using split8_addressed by (fastforce simp: pieces_def)

end
