(* ===== verification/Kvm_Mmio_Claims.thy ===== *)
theory Kvm_Mmio_Claims
  imports Kvm_Mmio_Props
begin

text \<open>
  The two directions of an access that needs user space, from the emulator's call to its end.
\<close>

lemma page_cases:
  assumes "n \<le> 4096"
  obtains "access_pages ctxt addr p n = [(addr, p, n)]"
  | i b where "i \<le> n" "access_pages ctxt addr p n = [(addr, p, i), (b, p + i, n - i)]"
proof (cases "crosses_page addr n")
  case False
  then show ?thesis using that(1) by (simp add: access_pages_def)
next
  case True
  then show ?thesis
    using that(2) [OF crosses_part [OF True assms]] by (simp add: access_pages_def Let_def)
qed

lemma left_over_length: "page_parts E write ctxt ps m w = (Some rs, v) \<Longrightarrow> length (left_over rs) \<le> length ps"
proof (induction ps arbitrary: m w rs)
  case (Cons x ps)
  then show ?case
    by (cases x) (fastforce split: prod.splits option.splits if_splits)
qed simp

lemma access_pages_length: "length (access_pages ctxt addr p n) \<le> 2"
  by (simp add: access_pages_def Let_def)

lemma read_parts:
  assumes "mmio_contract E" "n \<le> 4096"
    "page_parts E False ctxt (access_pages ctxt addr p n) m w = (Some rs, v)"
  shows "chained p rs" "length (read_bytes dev rs) = n"
proof -
  have "chained p rs \<and> length (read_bytes dev rs) = n"
  proof (cases rule: page_cases [OF assms(2), of ctxt addr p])
    case 1
    then show ?thesis using read_parts_chained [OF assms(1,3), of addr p n] by simp
  next
    case (2 i b)
    then show ?thesis using read_parts_chained [OF assms(1,3), of addr p i b "n - i"] by simp
  qed
  then show "chained p rs" "length (read_bytes dev rs) = n" by simp_all
qed

lemma write_parts_put: "page_parts E True ctxt ps m w = (Some rs, v) \<Longrightarrow> put_parts rs m = m"
proof (induction ps arbitrary: m w rs)
  case (Cons x ps)
  have part: "page_part E True ctxt a n bs w = (Some (g, k, cs), u) \<Longrightarrow> cs = []" for a n bs w g k cs u
    by (auto simp: page_part_def Let_def split: prod.splits option.splits if_splits)
  from Cons show ?case
    by (cases x) (auto split: prod.splits option.splits dest!: part)
qed simp

text \<open>An access that user space must finish.\<close>

lemma access_exits:
  assumes "mmio_contract E" "2 \<le> length (mmio_fragments s)" "write \<or> \<not> mmio_read_completed s"
    and "page_parts E write ctxt (access_pages ctxt addr p n) (host_mem s) (world s) = (Some rs, w)"
    and "left_over rs \<noteq> []"
  obtains u where "emulator_read_write E (ops_of E write) ctxt addr p n s =
      (if write then X86EMUL_CONTINUE else X86EMUL_IO_NEEDED, u)"
    "presents u" "todo u = left_over rs" "mmio_is_write u = write"
    "host_mem u = put_parts rs (host_mem s)" "world u = w" "mmio_read_completed u = mmio_read_completed s"
proof -
  have "length (left_over rs) \<le> length (mmio_fragments s)"
    using left_over_length [OF assms(4)] access_pages_length [of ctxt addr p n] assms(2) by simp
  then obtain u where u: "mmio_first_exit (ops_of E write)
      ((queue_fragments (left_over rs) (s\<lparr>mmio_nr_fragments := 0\<rparr>))\<lparr>world := w, host_mem := put_parts rs (host_mem s)\<rparr>) =
      (if write then X86EMUL_CONTINUE else X86EMUL_IO_NEEDED, u)"
    "presents u" "todo u = left_over rs" "mmio_is_write u = write"
    "host_mem u = put_parts rs (host_mem s)" "world u = w" "mmio_read_completed u = mmio_read_completed s"
    by (rule first_exit [OF assms(5)])
  have "emulator_read_write E (ops_of E write) ctxt addr p n s =
      (if write then X86EMUL_CONTINUE else X86EMUL_IO_NEEDED, u)"
    using pages_eq [OF assms(1), of "write" ctxt "access_pages ctxt addr p n" "s\<lparr>mmio_nr_fragments := 0\<rparr>"]
    by (simp add: read_write_pages [OF assms(3)] assms(4) u(1))
  then show ?thesis using u(2-) by (rule that)
qed

text \<open>An access that the kernel completes, or that faults.\<close>

lemma access_done:
  assumes "mmio_contract E" "write \<or> \<not> mmio_read_completed s"
    and "page_parts E write ctxt (access_pages ctxt addr p n) (host_mem s) (world s) = (Some rs, w)"
    and "left_over rs = []"
  shows "emulator_read_write E (ops_of E write) ctxt addr p n s =
    (X86EMUL_CONTINUE, s\<lparr>mmio_nr_fragments := 0, world := w, host_mem := put_parts rs (host_mem s)\<rparr>)"
  using pages_eq [OF assms(1), of "write" ctxt "access_pages ctxt addr p n" "s\<lparr>mmio_nr_fragments := 0\<rparr>"]
  by (simp add: read_write_pages [OF assms(2)] assms(3,4) mmio_first_exit_def queue_fragments_def)

text \<open>A machine without memory where one device of the kernel answers the first eight bytes of a page.\<close>

definition example_io_env :: "unit mmio_env" where
  "example_io_env = \<lparr>apic_in_kernel = False, kvm_iodevice_write = (\<lambda>_ _ w. (False, w)),
     kvm_iodevice_read = (\<lambda>_ _ w. (None, w)),
     kvm_io_bus_write = (\<lambda>g _ w. (g = 0x2000, w)),
     kvm_io_bus_read = (\<lambda>g n w. (if g = 0x2000 then Some (replicate n 7) else None, w)),
     kvm_vcpu_read_guest = (\<lambda>_ _ w. (None, w)), kvm_vcpu_write_guest = (\<lambda>_ _ w. (False, w)),
     kvm_page_track_write = (\<lambda>_ _ w. w), vcpu_match_mmio_gpa = (\<lambda>_ _. True),
     vcpu_match_mmio_gva = (\<lambda>_ _. False), mmio_gfn = (\<lambda>_. 0), guest_cpl = (\<lambda>_. 0),
     guest_paging = (\<lambda>_. False), permission_fault = (\<lambda>_ _. False), gva_to_gpa = (\<lambda>a _ w. (a, w))\<rparr>"

definition example_io_vcpu :: "unit io_vcpu" where
  "example_io_vcpu = \<lparr>host_mem = (\<lambda>_. 0), mmio_needed = False, mmio_read_completed = False,
     mmio_is_write = False, mmio_cur_fragment = 0, mmio_nr_fragments = 0,
     mmio_fragments = [\<lparr>frag_gpa = 0, frag_data = 0, frag_len = 0\<rparr>, \<lparr>frag_gpa = 0, frag_data = 0, frag_len = 0\<rparr>],
     run_exit_reason = 0, run_phys_addr = 0, run_data = replicate 8 0, run_len = 0, run_is_write = False,
     complete_userspace_io = None, world = ()\<rparr>"

definition example_ctxt :: emul_ctxt where
  "example_ctxt = \<lparr>gpa_available = False, emulator_can_use_gpa = False, gpa_val = 0, mode_prot64 = True\<rparr>"

lemmas example_defs = example_io_env_def example_io_vcpu_def example_ctxt_def

lemma fst_addressed: "map fst (addressed (g, bs)) = map (\<lambda>i. g + of_nat i) [0..<length bs]"
  by (simp add: addressed_def)

lemma example_contract: "mmio_contract example_io_env"
  by (simp add: mmio_contract_def answers_def example_io_env_def)

lemma example_pages: "access_pages example_ctxt 0x1ffa 64 16 = [(0x1ffa, 64, 6), (0x2000, 70, 10)]"
  by (simp add: access_pages_def crosses_page_def example_ctxt_def)

lemma example_onepage:
  "onepage_gpa example_io_env example_ctxt write addr w = (if addr = INVALID_GPA then None else Some (addr, True), w)"
  by (simp add: onepage_gpa_def vcpu_mmio_gva_to_gpa_def vcpu_is_mmio_gpa_def example_defs)

lemma example_device_read:
  "device_read example_io_env g n w = (if g = 0x2000 then Some (replicate n 7) else None, w)"
  by (simp add: device_read_def example_io_env_def)

lemma example_device_write: "device_write example_io_env g bs w = (g = 0x2000, w)"
  by (simp add: device_write_def example_io_env_def)

lemma example_bytes:
  "device_bytes example_io_env 0x1ffa 6 w = ([], w)"
  "device_bytes example_io_env 0x2008 2 w = ([], w)"
  "device_bytes example_io_env 0x2000 10 w = (replicate 8 7, w)"
  by (subst device_bytes.simps, simp add: example_device_read)+

lemma example_taken:
  "devices_write example_io_env 0x1ffa bs w = (0, w)"
  "devices_write example_io_env 0x2008 bs w = (0, w)"
  "length bs = 10 \<Longrightarrow> devices_write example_io_env 0x2000 bs w = (8, w)"
  by (subst devices_write.simps, simp add: example_device_write)+

lemma example_read:
  "page_parts example_io_env False example_ctxt (access_pages example_ctxt 0x1ffa 64 16) m w =
   (Some [(64, 6, 0x1ffa, 0, []), (70, 10, 0x2000, 8, replicate 8 7)], w)"
  by (simp add: example_pages page_part_def example_onepage example_bytes)

lemma example_write:
  "page_parts example_io_env True example_ctxt (access_pages example_ctxt 0x1ffa 64 16) m w =
   (Some [(64, 6, 0x1ffa, 0, []), (70, 10, 0x2000, 8, [])], w)"
  by (simp add: example_pages page_part_def example_onepage example_taken)

text \<open> C25. A memory read of the emulator of up to a page gives every byte of its buffer one owner,
  whatever crosses a page or is answered in part by memory and the devices of the kernel: what these
  do not answer is asked of user space, in pieces of at most eight bytes. When user space has
  answered, the buffer holds the bytes of all owners in the order of their addresses, nothing
  beside the buffer is changed, and the instruction executed again takes the buffer as it is.\<close>

theorem mmio_read_assembled:
  assumes "mmio_contract E" "2 \<le> length (mmio_fragments s)" "\<not> mmio_read_completed s" "n \<le> 4096"
    and "page_parts E False ctxt (access_pages ctxt addr p n) (host_mem s) (world s) = (Some rs, w)"
  shows "length (read_bytes dev rs) = n \<and>
    (if left_over rs = []
     then emulator_read_emulated E ctxt addr p n s =
       (X86EMUL_CONTINUE, s\<lparr>mmio_nr_fragments := 0, world := w,
          host_mem := store p (read_bytes dev rs) (host_mem s)\<rparr>)
     else \<exists>u pieces v. emulator_read_emulated E ctxt addr p n s = (X86EMUL_IO_NEEDED, u) \<and>
       mmio_serve dev u = (pieces, v) \<and> (\<forall>x \<in> set pieces. length (snd x) \<le> 8) \<and>
       concat (map addressed pieces) =
         concat (map (\<lambda>f. addressed (frag_gpa f, device_answer dev (frag_gpa f) (frag_len f))) (left_over rs)) \<and>
       host_mem v = store p (read_bytes dev rs) (host_mem s) \<and> \<not> mmio_needed v \<and> world v = w \<and>
       emulator_read_emulated E ctxt addr p n v = (X86EMUL_CONTINUE, v\<lparr>mmio_read_completed := False\<rparr>))"
proof -
  note parts = read_parts(1) [OF assms(1,4,5)] read_parts(2) [OF assms(1,4,5), of dev]
  have read: "emulator_read_emulated E = emulator_read_write E (ops_of E False)"
    by (simp add: emulator_read_emulated_def ops_of_def)
  show ?thesis
  proof (cases "left_over rs = []")
    case True
    then show ?thesis
      using access_done [OF assms(1) _ assms(5)] assms(3) filled_parts [OF parts(1), of dev "host_mem s"]
      by (simp add: read parts(2))
  next
  case False
    then obtain u where u: "emulator_read_write E (ops_of E False) ctxt addr p n s = (X86EMUL_IO_NEEDED, u)"
      "presents u" "todo u = left_over rs" "mmio_is_write u = False"
      "host_mem u = put_parts rs (host_mem s)" "world u = w" "mmio_read_completed u = mmio_read_completed s"
      using access_exits [OF assms(1,2) _ assms(5)] assms(3) by auto
    obtain v where v: "mmio_serve dev u = (pieces dev u (todo u), v)"
      "host_mem v = (if mmio_is_write u then host_mem u else fold (fill dev) (todo u) (host_mem u))"
      "\<not> mmio_needed v" "mmio_read_completed v = (\<not> mmio_is_write u \<or> mmio_read_completed u)" "world v = world u"
      by (rule serve_todo [OF u(2)])
    have "emulator_read_emulated E ctxt addr p n v = (X86EMUL_CONTINUE, v\<lparr>mmio_read_completed := False\<rparr>)"
      using v(4) u(4) by (simp add: emulator_read_emulated_def emulator_read_write_def read_emultor_def read_prepare_def)
    moreover have "host_mem v = store p (read_bytes dev rs) (host_mem s)"
      using v(2) u(3-5) filled_parts [OF parts(1)] by simp
    moreover have "concat (map addressed (pieces dev u (todo u))) =
        concat (map (\<lambda>f. addressed (frag_gpa f, device_answer dev (frag_gpa f) (frag_len f))) (left_over rs))"
      using pieces_addressed [of dev u "todo u"] u(3,4) by (simp add: frag_bytes_def)
    ultimately show ?thesis
      using u(1,6) v(1,3,5) pieces_short [of dev u "todo u"]
      by (simp add: read parts(2) False)
  qed
qed

theorem mmio_read_assembled_witness:
  "\<exists>u pieces v. emulator_read_emulated example_io_env example_ctxt 0x1ffa 64 16 example_io_vcpu = (X86EMUL_IO_NEEDED, u) \<and>
     mmio_serve (\<lambda>_. 9) u = (pieces, v) \<and>
     get_bytes 64 16 v = replicate 6 9 @ replicate 8 7 @ replicate 2 9"
proof -
  let ?rs = "[(64, 6, 0x1ffa, 0, []), (70, 10, 0x2000, 8, replicate 8 7)] :: (nat \<times> nat \<times> u64 \<times> nat \<times> bytes) list"
  have rs: "left_over ?rs \<noteq> []"
    "read_bytes (\<lambda>_. 9) ?rs = replicate 6 9 @ replicate 8 7 @ replicate 2 9"
    by (simp_all add: device_answer_def map_replicate_const)
  have m: "get_bytes 64 16 v = replicate 6 9 @ replicate 8 7 @ replicate 2 9"
    if "host_mem v = store 64 (replicate 6 9 @ replicate 8 7 @ replicate 2 9) m" for v :: "unit io_vcpu" and m
    using that load_store [of 64 "replicate 6 9 @ replicate 8 7 @ replicate 2 (9 :: u8)" m] by simp
  show ?thesis
    using mmio_read_assembled [OF example_contract _ _ _ example_read, where s = example_io_vcpu and dev = "\<lambda>_. 9"] rs m
    by (simp add: example_io_vcpu_def) metis
qed

text \<open> C26. A memory write of the emulator of up to a page that memory and the devices of the kernel
  do not take as a whole goes on at once, with the rest left to user space: it is given each
  byte that was not taken exactly once, with its address, in order, in pieces of at most eight bytes, even
  when the write crosses a page; then the access is over, and the memory written from is as
  before.\<close>

theorem mmio_write_pieces:
  assumes "mmio_contract E" "2 \<le> length (mmio_fragments s)"
    and "page_parts E True ctxt (access_pages ctxt addr p n) (host_mem s) (world s) = (Some rs, w)"
    and "left_over rs \<noteq> []"
  shows "\<exists>u pieces v. emulator_write_emulated E ctxt addr p n s = (X86EMUL_CONTINUE, u) \<and> mmio_needed u \<and>
    mmio_serve dev u = (pieces, v) \<and> (\<forall>x \<in> set pieces. length (snd x) \<le> 8) \<and>
    concat (map addressed pieces) =
      concat (map (\<lambda>f. addressed (frag_gpa f, get_bytes (frag_data f) (frag_len f) s)) (left_over rs)) \<and>
    host_mem v = host_mem s \<and> \<not> mmio_needed v \<and> world v = w \<and>
    mmio_read_completed v = mmio_read_completed s"
proof -
  have "write": "emulator_write_emulated E = emulator_read_write E (ops_of E True)"
    by (simp add: emulator_write_emulated_def ops_of_def)
  obtain u where u: "emulator_read_write E (ops_of E True) ctxt addr p n s = (X86EMUL_CONTINUE, u)"
    "presents u" "todo u = left_over rs" "mmio_is_write u = True"
    "host_mem u = host_mem s" "world u = w" "mmio_read_completed u = mmio_read_completed s"
    using access_exits [OF assms(1,2) _ assms(3,4)] write_parts_put [OF assms(3)] by auto
  obtain v where v: "mmio_serve dev u = (pieces dev u (todo u), v)"
    "host_mem v = (if mmio_is_write u then host_mem u else fold (fill dev) (todo u) (host_mem u))"
    "\<not> mmio_needed v" "mmio_read_completed v = (\<not> mmio_is_write u \<or> mmio_read_completed u)" "world v = world u"
    by (rule serve_todo [OF u(2)])
  have "concat (map addressed (pieces dev u (todo u))) =
      concat (map (\<lambda>f. addressed (frag_gpa f, get_bytes (frag_data f) (frag_len f) s)) (left_over rs))"
    using pieces_addressed [of dev u "todo u"] u(3-5) by (simp add: frag_bytes_def)
  then show ?thesis
    using u v pieces_short [of dev u "todo u"]
    by (intro exI [of _ u] exI [of _ "pieces dev u (todo u)"] exI [of _ v]) (simp add: "write" presents_def Let_def)
qed

theorem mmio_write_pieces_witness:
  "\<exists>u pieces v. emulator_write_emulated example_io_env example_ctxt 0x1ffa 64 16 example_io_vcpu = (X86EMUL_CONTINUE, u) \<and>
     mmio_serve (\<lambda>_. 0) u = (pieces, v) \<and>
     map fst (concat (map addressed pieces)) = [0x1ffa, 0x1ffb, 0x1ffc, 0x1ffd, 0x1ffe, 0x1fff, 0x2008, 0x2009]"
proof -
  let ?rs = "[(64, 6, 0x1ffa, 0, []), (70, 10, 0x2000, 8, [])] :: (nat \<times> nat \<times> u64 \<times> nat \<times> bytes) list"
  let ?want = "\<lambda>s. concat (map (\<lambda>f. addressed (frag_gpa f, get_bytes (frag_data f) (frag_len f) s)) (left_over ?rs))"
  have rs: "left_over ?rs \<noteq> []" "2 \<le> length (mmio_fragments example_io_vcpu)"
    by (simp_all add: example_io_vcpu_def)
  have want: "map fst (?want s) = [0x1ffa, 0x1ffb, 0x1ffc, 0x1ffd, 0x1ffe, 0x1fff, 0x2008, 0x2009]"
    for s :: "unit io_vcpu"
    by (simp add: fst_addressed upt_conv_Cons)
  obtain u ps v where
    "emulator_write_emulated example_io_env example_ctxt 0x1ffa 64 16 example_io_vcpu = (X86EMUL_CONTINUE, u)"
    "mmio_serve (\<lambda>_. 0) u = (ps, v)" "concat (map addressed ps) = ?want example_io_vcpu"
    using mmio_write_pieces [OF example_contract rs(2) example_write rs(1), of "\<lambda>_. 0"] by blast
  then show ?thesis using want [of example_io_vcpu] by auto
qed

section \<open>Encrypted guests\<close>

text \<open> C40. When an encrypted guest writes more than eight bytes to addresses that no device of the
  kernel takes, only the first piece reaches user space as a write: since the write
  never notes its direction in the vCPU, the completion, for any data user space leaves in the shared page, stores that
  data over the guest's buffer and presents the next piece as a read.\<close>

theorem sev_es_write_turns_into_read:
  assumes "vcpu_mmio_write E gpa n p s = (handled, s')" "handled + 8 < n"
    and "\<not> mmio_is_write s" "mmio_fragments s \<noteq> []" "length d = 8"
  shows "\<exists>u v. kvm_sev_es_mmio_write E gpa n (Some p) s = (u, 0) \<and>
    run_is_write u \<and> run_phys_addr u = gpa + of_nat handled \<and> take 8 (run_data u) = get_bytes (p + handled) 8 s \<and>
    complete_sev_es_emulated_mmio (u\<lparr>run_data := d\<rparr>) = Inr (v, 0) \<and>
    \<not> run_is_write v \<and> run_phys_addr v = gpa + of_nat handled + 8 \<and>
    host_mem v = store (p + handled) d (host_mem s)"
proof -
  obtain w where s': "s' = s\<lparr>world := w\<rparr>"
    using assms(1) by (auto simp: mmio_write_eq split: prod.splits)
  let ?g = "gpa + of_nat handled"
  let ?q = "p + handled"
  let ?u = "s\<lparr>world := w, mmio_nr_fragments := 1,
    mmio_fragments := (mmio_fragments s)[0 := \<lparr>frag_gpa = ?g, frag_data = ?q, frag_len = n - handled\<rparr>],
    mmio_needed := True, mmio_cur_fragment := 0, run_phys_addr := ?g, run_len := 8, run_is_write := True,
    run_data := copy_to (run_data s) (get_bytes ?q 8 s), run_exit_reason := KVM_EXIT_MMIO,
    complete_userspace_io := Some Complete_sev_es_emulated_mmio\<rparr>"
  have min: "min 8 (n - handled) = 8" "handled \<noteq> n" using assms(2) by simp_all
  have u: "kvm_sev_es_mmio_write E gpa n (Some p) s = (?u, 0)"
    by (simp only: kvm_sev_es_mmio_write_def write_emultor_def read_write_emulator_ops.simps assms(1)
        option.case prod.case Let_def min if_False s') simp
  let ?f = "\<lparr>frag_gpa = ?g + 8, frag_data = ?q + 8, frag_len = n - handled - 8\<rparr>"
  have a: "mmio_advance (?u\<lparr>run_data := d\<rparr>) =
      ?u\<lparr>run_data := d, host_mem := store ?q d (host_mem s), mmio_fragments := (mmio_fragments s)[0 := ?f]\<rparr>"
    using assms(2-5) by (simp add: mmio_advance_def Let_def)
  let ?v = "?u\<lparr>run_data := d, host_mem := store ?q d (host_mem s), mmio_fragments := (mmio_fragments s)[0 := ?f],
    run_phys_addr := ?g + 8, run_len := min 8 (n - handled - 8), run_is_write := False\<rparr>"
  have v: "complete_sev_es_emulated_mmio (?u\<lparr>run_data := d\<rparr>) = Inr (?v, 0)"
    unfolding complete_sev_es_emulated_mmio_def a Let_def using assms(3,4) by simp
  show ?thesis
    using u v by (intro exI [of _ ?u] exI [of _ ?v]) (simp add: copy_to_def)
qed

theorem sev_es_write_turns_into_read_witness:
  "\<exists>u v. kvm_sev_es_mmio_write example_io_env 0x3000 16 (Some 64) example_io_vcpu = (u, 0) \<and> run_is_write u \<and>
     complete_sev_es_emulated_mmio (u\<lparr>run_data := replicate 8 5\<rparr>) = Inr (v, 0) \<and> \<not> run_is_write v \<and>
     get_bytes 64 8 v = replicate 8 5"
proof -
  have "devices_write example_io_env 0x3000 bs w = (0, w)" for bs w
    by (subst devices_write.simps) (simp add: example_device_write)
  then have none: "vcpu_mmio_write example_io_env 0x3000 16 64 example_io_vcpu = (0, example_io_vcpu)"
    by (simp add: mmio_write_eq)
  have rest: "0 + 8 < (16 :: nat)" "\<not> mmio_is_write example_io_vcpu" "mmio_fragments example_io_vcpu \<noteq> []"
    "length (replicate 8 (5 :: u8)) = 8"
    by (simp_all add: example_io_vcpu_def)
  have "get_bytes 64 8 v = replicate 8 5" if "host_mem v = store 64 (replicate 8 5) m"
    for v :: "unit io_vcpu" and m
    using load_store [of 64 "replicate 8 5" m] that by simp
  moreover obtain u v where
    "kvm_sev_es_mmio_write example_io_env 0x3000 16 (Some 64) example_io_vcpu = (u, 0)" "run_is_write u"
    "complete_sev_es_emulated_mmio (u\<lparr>run_data := replicate 8 5\<rparr>) = Inr (v, 0)" "\<not> run_is_write v"
    "host_mem v = store (64 + 0) (replicate 8 5) (host_mem example_io_vcpu)"
    using sev_es_write_turns_into_read [OF none rest] by blast
  ultimately show ?thesis by (intro exI [of _ u] exI [of _ v]) simp
qed

end
