(* ===== verification/Kvm_Pio.thy ===== *)
theory Kvm_Pio
  imports Prelude
begin

text \<open>
  Port input and output (\<open>x86.c\<close>): the bus first, then user space, for the emulator, for the fast
  exits of \<open>IN\<close> and \<open>OUT\<close>, and for the string instructions of encrypted guests.
\<close>

section \<open>State\<close>

datatype pio_completion =
    Complete_fast_pio_out_port_0x7e | Complete_fast_pio_out | Complete_fast_pio_in
  | Complete_sev_es_emulated_outs | Complete_sev_es_emulated_ins

text \<open>\<open>pio_data\<close> is the page shared with user space; \<open>'w\<close> is what functions of other files change.\<close>

record 'w pio_vcpu =
  pio_port :: u16
  pio_in :: bool
  pio_count :: nat
  pio_size :: nat
  linear_rip :: u64
  pio_data :: bytes
  sev_pio_buf :: bytes
  sev_pio_pos :: nat
  sev_pio_count :: nat
  rax :: u64
  run_exit_reason :: u32
  run_io_direction :: u8
  run_io_size :: nat
  run_io_data_offset :: nat
  run_io_count :: nat
  run_io_port :: u16
  complete_userspace_pio :: "pio_completion option"
  pio_world :: 'w

record 'w pio_env =
  pio_bus_read :: "u16 \<Rightarrow> nat \<Rightarrow> 'w \<Rightarrow> bytes option \<times> 'w"
  pio_bus_write :: "u16 \<Rightarrow> bytes \<Rightarrow> 'w \<Rightarrow> bool \<times> 'w"
  skip_instruction :: "'w \<Rightarrow> int \<times> 'w"
  guest_state_protected :: bool
  in_64_bit_mode :: "'w \<Rightarrow> bool"
  cs_base :: "'w \<Rightarrow> u64"
  rip_read :: "'w \<Rightarrow> u64"
  quirk_out_7e_inc_rip :: bool

abbreviation KVM_EXIT_IO :: u32 where "KVM_EXIT_IO \<equiv> 2"
abbreviation KVM_EXIT_IO_IN :: u8 where "KVM_EXIT_IO_IN \<equiv> 0"
abbreviation KVM_EXIT_IO_OUT :: u8 where "KVM_EXIT_IO_OUT \<equiv> 1"
abbreviation PIO_PAGE_SIZE :: nat where "PIO_PAGE_SIZE \<equiv> 4096"
abbreviation KVM_PIO_PAGE_OFFSET :: nat where "KVM_PIO_PAGE_OFFSET \<equiv> 1"

text \<open>
  Bytes written into a buffer from a position on. A write past the end of the buffer makes the list longer,
  so that an overflow shows in the length of \<open>pio_data\<close>, which is one page.
\<close>

definition overwrite :: "nat \<Rightarrow> bytes \<Rightarrow> bytes \<Rightarrow> bytes" where
  "overwrite k bs d = take k d @ bs @ drop (k + length bs) d"

section \<open>The position of the guest\<close>

definition kvm_get_linear_rip :: "'w pio_env \<Rightarrow> 'w \<Rightarrow> u64" where
  "kvm_get_linear_rip E w =
     (if guest_state_protected E then 0
      else if in_64_bit_mode E w then rip_read E w
      else ucast (ucast (cs_base E w + rip_read E w) :: u32))"

definition kvm_is_linear_rip :: "'w pio_env \<Rightarrow> u64 \<Rightarrow> 'w \<Rightarrow> bool" where
  "kvm_is_linear_rip E rip w \<longleftrightarrow> kvm_get_linear_rip E w = rip"

section \<open>The bus, then user space\<close>

text \<open>
  The loop over the items, from item \<open>i\<close> on with \<open>n\<close> left: whether the kernel has dealt with the
  access, and the buffer.
\<close>

primrec pio_items ::
  "'w pio_env \<Rightarrow> bool \<Rightarrow> nat \<Rightarrow> u16 \<Rightarrow> nat \<Rightarrow> nat \<Rightarrow> bytes \<Rightarrow> 'w \<Rightarrow> bool \<times> bytes \<times> 'w" where
  "pio_items E inp sz port i 0 data w = (True, data, w)"
| "pio_items E inp sz port i (Suc n) data w =
     (if inp then
        (case pio_bus_read E port sz w of
           (Some bs, w) \<Rightarrow> pio_items E inp sz port (i + 1) n (overwrite (sz * i) bs data) w
         | (None, w) \<Rightarrow>
             if i = 0 then (False, data, w)
             else (True, overwrite (sz * i) (replicate (sz * Suc n) 0) data, w))
      else
        (case pio_bus_write E port (take sz (drop (sz * i) data)) w of
           (True, w) \<Rightarrow> pio_items E inp sz port (i + 1) n data w
         | (False, w) \<Rightarrow> (i \<noteq> 0, data, w)))"

definition emulator_pio_in_out ::
  "'w pio_env \<Rightarrow> nat \<Rightarrow> u16 \<Rightarrow> bytes \<Rightarrow> nat \<Rightarrow> bool \<Rightarrow> 'w pio_vcpu \<Rightarrow> int \<times> bytes \<times> 'w pio_vcpu" where
  "emulator_pio_in_out E sz port data count inp s =
     (let (handled, data, w) = pio_items E inp sz port 0 count data (pio_world s);
          s = s\<lparr>pio_world := w\<rparr>
      in if handled then (1, data, s)
         else
           let s = s\<lparr>pio_port := port, pio_in := inp, pio_count := count, pio_size := sz,
                 pio_data := overwrite 0 (if inp then replicate (sz * count) 0
                                          else take (sz * count) data) (pio_data s)\<rparr>
           in (0, data, s\<lparr>run_exit_reason := KVM_EXIT_IO,
                run_io_direction := if inp then KVM_EXIT_IO_IN else KVM_EXIT_IO_OUT,
                run_io_size := sz, run_io_data_offset := KVM_PIO_PAGE_OFFSET * PIO_PAGE_SIZE,
                run_io_count := count, run_io_port := port\<rparr>))"

definition emulator_pio_in ::
  "'w pio_env \<Rightarrow> nat \<Rightarrow> u16 \<Rightarrow> bytes \<Rightarrow> nat \<Rightarrow> 'w pio_vcpu \<Rightarrow> int \<times> bytes \<times> 'w pio_vcpu" where
  "emulator_pio_in E sz port val count s = emulator_pio_in_out E sz port val count True s"

definition complete_emulator_pio_in :: "bytes \<Rightarrow> 'w pio_vcpu \<Rightarrow> bytes \<times> 'w pio_vcpu" where
  "complete_emulator_pio_in val s =
     (overwrite 0 (take (pio_size s * pio_count s) (pio_data s)) val, s\<lparr>pio_count := 0\<rparr>)"

definition emulator_pio_in_emulated ::
  "'w pio_env \<Rightarrow> nat \<Rightarrow> u16 \<Rightarrow> bytes \<Rightarrow> nat \<Rightarrow> 'w pio_vcpu \<Rightarrow> int \<times> bytes \<times> 'w pio_vcpu" where
  "emulator_pio_in_emulated E sz port val count s =
     (if pio_count s \<noteq> 0 then (let (val, s) = complete_emulator_pio_in val s in (1, val, s))
      else emulator_pio_in E sz port val count s)"

definition emulator_pio_out ::
  "'w pio_env \<Rightarrow> nat \<Rightarrow> u16 \<Rightarrow> bytes \<Rightarrow> nat \<Rightarrow> 'w pio_vcpu \<Rightarrow> int \<times> 'w pio_vcpu" where
  "emulator_pio_out E sz port val count s =
     (let (r, _, s) = emulator_pio_in_out E sz port val count False s in (r, s))"

definition emulator_pio_out_emulated ::
  "'w pio_env \<Rightarrow> nat \<Rightarrow> u16 \<Rightarrow> bytes \<Rightarrow> nat \<Rightarrow> 'w pio_vcpu \<Rightarrow> int \<times> 'w pio_vcpu" where
  "emulator_pio_out_emulated E sz port val count s = emulator_pio_out E sz port val count s"

section \<open>Fast exits\<close>

definition skip_emulated :: "'w pio_env \<Rightarrow> 'w pio_vcpu \<Rightarrow> int \<times> 'w pio_vcpu" where
  "skip_emulated E s = (let (r, w) = skip_instruction E (pio_world s) in (r, s\<lparr>pio_world := w\<rparr>))"

definition complete_fast_pio_out_port_0x7e :: "'w pio_vcpu \<Rightarrow> int \<times> 'w pio_vcpu" where
  "complete_fast_pio_out_port_0x7e s = (1, s\<lparr>pio_count := 0\<rparr>)"

definition complete_fast_pio_out :: "'w pio_env \<Rightarrow> 'w pio_vcpu \<Rightarrow> int \<times> 'w pio_vcpu" where
  "complete_fast_pio_out E s =
     (let s = s\<lparr>pio_count := 0\<rparr>
      in if \<not> kvm_is_linear_rip E (linear_rip s) (pio_world s) then (1, s) else skip_emulated E s)"

definition kvm_fast_pio_out :: "'w pio_env \<Rightarrow> nat \<Rightarrow> u16 \<Rightarrow> 'w pio_vcpu \<Rightarrow> int \<times> 'w pio_vcpu" where
  "kvm_fast_pio_out E sz port s =
     (let (ret, s) = emulator_pio_out E sz port (le_bytes 8 (rax s)) 1 s
      in if ret \<noteq> 0 then (ret, s)
         else if port = 0x7e \<and> quirk_out_7e_inc_rip E then
           (0, snd (skip_emulated E (s\<lparr>complete_userspace_pio := Some Complete_fast_pio_out_port_0x7e\<rparr>)))
         else (0, s\<lparr>linear_rip := kvm_get_linear_rip E (pio_world s),
                    complete_userspace_pio := Some Complete_fast_pio_out\<rparr>))"

definition complete_fast_pio_in :: "'w pio_env \<Rightarrow> 'w pio_vcpu \<Rightarrow> crash + int \<times> 'w pio_vcpu" where
  "complete_fast_pio_in E s =
     (if pio_count s \<noteq> 1 then Inl Aborted
      else if \<not> kvm_is_linear_rip E (linear_rip s) (pio_world s) then Inr (1, s\<lparr>pio_count := 0\<rparr>)
      else
        let val = (if pio_size s < 4 then rax s else 0);
            (val, s) = complete_emulator_pio_in (le_bytes 8 val) s
        in Inr (skip_emulated E (s\<lparr>rax := le_word val\<rparr>)))"

definition kvm_fast_pio_in :: "'w pio_env \<Rightarrow> nat \<Rightarrow> u16 \<Rightarrow> 'w pio_vcpu \<Rightarrow> int \<times> 'w pio_vcpu" where
  "kvm_fast_pio_in E sz port s =
     (let val = (if sz < 4 then rax s else 0);
          (ret, val, s) = emulator_pio_in E sz port (le_bytes 8 val) 1 s
      in if ret \<noteq> 0 then (ret, s\<lparr>rax := le_word val\<rparr>)
         else (0, s\<lparr>linear_rip := kvm_get_linear_rip E (pio_world s),
                    complete_userspace_pio := Some Complete_fast_pio_in\<rparr>))"

definition kvm_fast_pio :: "'w pio_env \<Rightarrow> nat \<Rightarrow> u16 \<Rightarrow> bool \<Rightarrow> 'w pio_vcpu \<Rightarrow> int \<times> 'w pio_vcpu" where
  "kvm_fast_pio E sz port inp s =
     (let (ret, s) = (if inp then kvm_fast_pio_in E sz port s else kvm_fast_pio_out E sz port s)
      in if ret = 0 then (0, s)
         else let (r, s) = skip_emulated E s in (if r \<noteq> 0 then 1 else 0, s))"

section \<open>String instructions of encrypted guests\<close>

text \<open>The buffer of the guest, from the position reached.\<close>

definition advance_sev_es_emulated_pio :: "nat \<Rightarrow> nat \<Rightarrow> 'w pio_vcpu \<Rightarrow> 'w pio_vcpu" where
  "advance_sev_es_emulated_pio count sz s =
     s\<lparr>sev_pio_count := sev_pio_count s - count, sev_pio_pos := sev_pio_pos s + count * sz\<rparr>"

text \<open>One turn of the loops: \<open>Inl\<close> the result, or \<open>Inr\<close> the state for the next turn.\<close>

definition sev_es_outs_turn ::
  "'w pio_env \<Rightarrow> nat \<Rightarrow> u16 \<Rightarrow> 'w pio_vcpu \<Rightarrow> (int \<times> 'w pio_vcpu) + 'w pio_vcpu" where
  "sev_es_outs_turn E sz port s =
     (let count = min (PIO_PAGE_SIZE div sz) (sev_pio_count s);
          (ret, s) = emulator_pio_out E sz port (drop (sev_pio_pos s) (sev_pio_buf s)) count s;
          s = advance_sev_es_emulated_pio count sz s
      in if ret = 0 then Inl (0, s\<lparr>complete_userspace_pio := Some Complete_sev_es_emulated_outs\<rparr>)
         else if sev_pio_count s = 0 then Inl (1, s) else Inr s)"

definition sev_es_ins_turn ::
  "'w pio_env \<Rightarrow> nat \<Rightarrow> u16 \<Rightarrow> 'w pio_vcpu \<Rightarrow> (int \<times> 'w pio_vcpu) + 'w pio_vcpu" where
  "sev_es_ins_turn E sz port s =
     (let count = min (PIO_PAGE_SIZE div sz) (sev_pio_count s);
          pos = sev_pio_pos s;
          (ret, d, s) = emulator_pio_in E sz port (drop pos (sev_pio_buf s)) count s;
          s = s\<lparr>sev_pio_buf := take pos (sev_pio_buf s) @ d\<rparr>
      in if ret = 0 then Inl (0, s\<lparr>complete_userspace_pio := Some Complete_sev_es_emulated_ins\<rparr>)
         else
           let s = advance_sev_es_emulated_pio count sz s
           in if sev_pio_count s = 0 then Inl (1, s) else Inr s)"

partial_function (option) kvm_sev_es_outs ::
  "'w pio_env \<Rightarrow> nat \<Rightarrow> u16 \<Rightarrow> 'w pio_vcpu \<Rightarrow> (int \<times> 'w pio_vcpu) option" where
  "kvm_sev_es_outs E sz port s =
     (case sev_es_outs_turn E sz port s of Inl r \<Rightarrow> Some r | Inr s \<Rightarrow> kvm_sev_es_outs E sz port s)"

partial_function (option) kvm_sev_es_ins ::
  "'w pio_env \<Rightarrow> nat \<Rightarrow> u16 \<Rightarrow> 'w pio_vcpu \<Rightarrow> (int \<times> 'w pio_vcpu) option" where
  "kvm_sev_es_ins E sz port s =
     (case sev_es_ins_turn E sz port s of Inl r \<Rightarrow> Some r | Inr s \<Rightarrow> kvm_sev_es_ins E sz port s)"

definition complete_sev_es_emulated_outs :: "'w pio_env \<Rightarrow> 'w pio_vcpu \<Rightarrow> (int \<times> 'w pio_vcpu) option" where
  "complete_sev_es_emulated_outs E s =
     (let sz = pio_size s; port = pio_port s; s = s\<lparr>pio_count := 0\<rparr>
      in if sev_pio_count s \<noteq> 0 then kvm_sev_es_outs E sz port s else Some (1, s))"

definition complete_sev_es_emulated_ins :: "'w pio_env \<Rightarrow> 'w pio_vcpu \<Rightarrow> (int \<times> 'w pio_vcpu) option" where
  "complete_sev_es_emulated_ins E s =
     (let count = pio_count s; sz = pio_size s; port = pio_port s; pos = sev_pio_pos s;
          (d, s) = complete_emulator_pio_in (drop pos (sev_pio_buf s)) s;
          s = advance_sev_es_emulated_pio count sz (s\<lparr>sev_pio_buf := take pos (sev_pio_buf s) @ d\<rparr>)
      in if sev_pio_count s \<noteq> 0 then kvm_sev_es_ins E sz port s else Some (1, s))"

definition kvm_sev_es_string_io ::
  "'w pio_env \<Rightarrow> nat \<Rightarrow> u16 \<Rightarrow> bytes \<Rightarrow> nat \<Rightarrow> bool \<Rightarrow> 'w pio_vcpu \<Rightarrow> (int \<times> 'w pio_vcpu) option" where
  "kvm_sev_es_string_io E sz port data count inp s =
     (let s = s\<lparr>sev_pio_buf := data, sev_pio_pos := 0, sev_pio_count := count\<rparr>
      in if inp then kvm_sev_es_ins E sz port s else kvm_sev_es_outs E sz port s)"

end
