(* ===== verification/Kvm_Pio_Props.thy ===== *)
theory Kvm_Pio_Props
  imports Kvm_Pio
begin

text \<open>
  Port accesses have one meaning wherever they are answered, and string accesses of encrypted
  guests end with every item moved.
\<close>

section \<open>Buffers\<close>

lemma length_overwrite: "k + length bs \<le> length d \<Longrightarrow> length (overwrite k bs d) = length d"
  by (simp add: overwrite_def)

lemma overwrite_Nil: "overwrite k [] d = d"
  by (simp add: overwrite_def)

lemma take_overwrite: "take (length bs) (overwrite 0 bs d) = bs"
  by (simp add: overwrite_def)

text \<open>Replacing the low bytes of a register.\<close>

lemma le_word_overwrite:
  fixes v :: u64
  assumes "length bs \<le> 8"
  shows "le_word (overwrite 0 bs (le_bytes 8 v)) = (v AND NOT (mask (8 * length bs))) OR le_word bs"
proof (rule bit_word_eqI)
  fix k assume k: "k < LENGTH(64)"
  have l: "length (overwrite 0 bs (le_bytes 8 v)) = 8" using assms by (simp add: overwrite_def)
  have d: "k div 8 < length bs \<longleftrightarrow> k < 8 * length bs" by (simp add: div_less_iff_less_mult mult.commute)
  have "overwrite 0 bs (le_bytes 8 v) ! (k div 8) =
      (if k div 8 < length bs then bs ! (k div 8) else le_bytes 8 v ! (k div 8))"
    using assms k by (simp add: overwrite_def nth_append)
  then show "bit (le_word (overwrite 0 bs (le_bytes 8 v)) :: u64) k =
      bit ((v AND NOT (mask (8 * length bs))) OR le_word bs) k"
    using k l d by (auto simp: bit_le_word bit_le_bytes_nth bit_simps)
qed

section \<open>Fast exits\<close>

definition merge_in :: "nat \<Rightarrow> bytes \<Rightarrow> u64 \<Rightarrow> u64" where
  "merge_in sz bs v = ((if sz < 4 then v AND NOT (mask (8 * sz)) else 0) OR le_word bs)"

lemma merge_in_eq:
  assumes "length bs = sz" "sz \<le> 8"
  shows "le_word (overwrite 0 bs (le_bytes 8 (if sz < 4 then v else 0))) = merge_in sz bs v"
  using assms le_word_overwrite [of bs "if sz < 4 then v else 0"] by (simp add: merge_in_def)

lemma fast_in_kernel:
  assumes "pio_bus_read E port sz (pio_world s) = (Some bs, w)" "length bs = sz" "sz \<le> 8"
  shows "kvm_fast_pio_in E sz port s = (1, s\<lparr>pio_world := w, rax := merge_in sz bs (rax s)\<rparr>)"
  using assms merge_in_eq [OF assms(2,3), of "rax s"]
  by (simp add: kvm_fast_pio_in_def emulator_pio_in_def emulator_pio_in_out_def Let_def)

lemma fast_in_exit:
  assumes "pio_bus_read E port sz (pio_world s) = (None, w)"
  obtains u where "kvm_fast_pio_in E sz port s = (0, u)"
    "pio_count u = 1" "pio_size u = sz" "pio_port u = port" "rax u = rax s"
    "linear_rip u = kvm_get_linear_rip E w" "complete_userspace_pio u = Some Complete_fast_pio_in"
    "run_exit_reason u = KVM_EXIT_IO" "run_io_direction u = KVM_EXIT_IO_IN" "run_io_size u = sz"
    "run_io_count u = 1" "run_io_port u = port" "pio_data u = overwrite 0 (replicate sz 0) (pio_data s)"
  using assms
  by (simp add: kvm_fast_pio_in_def emulator_pio_in_def emulator_pio_in_out_def Let_def)

lemma fast_in_completion:
  assumes "pio_count t = 1" "pio_size t = length bs" "length bs \<le> 8" "take (length bs) (pio_data t) = bs"
  shows "complete_fast_pio_in E t =
    Inr (if kvm_is_linear_rip E (linear_rip t) (pio_world t)
         then skip_emulated E (t\<lparr>pio_count := 0, rax := merge_in (length bs) bs (rax t)\<rparr>)
         else (1, t\<lparr>pio_count := 0\<rparr>))"
  using assms merge_in_eq [OF refl assms(3), of "rax t"]
  by (simp add: complete_fast_pio_in_def complete_emulator_pio_in_def Let_def)

text \<open>A guest in 64-bit mode whose world is its instruction pointer.\<close>

definition example_pio_env :: "bytes option \<Rightarrow> nat pio_env" where
  "example_pio_env answer = \<lparr>pio_bus_read = (\<lambda>_ _ w. (answer, w)), pio_bus_write = (\<lambda>_ _ w. (answer \<noteq> None, w)),
     skip_instruction = (\<lambda>w. (1, w + 2)), guest_state_protected = False, in_64_bit_mode = (\<lambda>_. True),
     cs_base = (\<lambda>_. 0), rip_read = of_nat, quirk_out_7e_inc_rip = True\<rparr>"

definition example_pio_vcpu :: "bytes \<Rightarrow> nat pio_vcpu" where
  "example_pio_vcpu buf = \<lparr>pio_port = 0, pio_in = False, pio_count = 0, pio_size = 0, linear_rip = 0,
     pio_data = replicate 4096 0, sev_pio_buf = buf, sev_pio_pos = 0, sev_pio_count = 0,
     rax = 0xffffffffffffffff, run_exit_reason = 0, run_io_direction = 0, run_io_size = 0,
     run_io_data_offset = 0, run_io_count = 0, run_io_port = 0, complete_userspace_pio = None,
     pio_world = 0\<rparr>"

text \<open> C29. An \<open>IN\<close> instruction has the same result whether a device of the kernel or user space answers
  it: the low bytes of \<open>RAX\<close> are replaced for one and two bytes and \<open>RAX\<close> is zero-extended for
  four, and the instruction is skipped exactly once. When user space has moved the guest to
  another instruction before it runs again, the answer is dropped, \<open>RAX\<close> is left alone, nothing is skipped, and no
  completion is left pending.\<close>

theorem port_input_same_result:
  assumes "length bs = sz" "sz \<le> 8"
    and "pio_bus_read E port sz (pio_world s) = (Some bs, w)"
    and "pio_bus_read F port sz (pio_world s) = (None, w)" "skip_instruction F = skip_instruction E"
    and "fst (skip_instruction E w) = 1"
  shows "\<exists>s1 u. kvm_fast_pio E sz port True s = (1, s1) \<and> rax s1 = merge_in sz bs (rax s) \<and>
      pio_world s1 = snd (skip_instruction E w) \<and>
      kvm_fast_pio F sz port True s = (0, u) \<and> complete_userspace_pio u = Some Complete_fast_pio_in \<and>
      run_io_direction u = KVM_EXIT_IO_IN \<and> run_io_port u = port \<and> run_io_size u = sz \<and> run_io_count u = 1 \<and>
      (\<forall>v. let t = u\<lparr>pio_data := overwrite 0 bs (pio_data u), pio_world := v\<rparr> in
         if kvm_get_linear_rip F v = kvm_get_linear_rip F w
         then \<exists>s2. complete_fast_pio_in F t = Inr (fst (skip_instruction E v), s2) \<and> rax s2 = rax s1 \<and>
                pio_count s2 = 0 \<and> pio_world s2 = snd (skip_instruction E v)
         else complete_fast_pio_in F t = Inr (1, t\<lparr>pio_count := 0\<rparr>) \<and> rax t = rax s)"
proof -
  obtain u where u: "kvm_fast_pio_in F sz port s = (0, u)"
    "pio_count u = 1" "pio_size u = sz" "pio_port u = port" "rax u = rax s"
    "linear_rip u = kvm_get_linear_rip F w" "complete_userspace_pio u = Some Complete_fast_pio_in"
    "run_exit_reason u = KVM_EXIT_IO" "run_io_direction u = KVM_EXIT_IO_IN" "run_io_size u = sz"
    "run_io_count u = 1" "run_io_port u = port" "pio_data u = overwrite 0 (replicate sz 0) (pio_data s)"
    by (rule fast_in_exit [OF assms(4)])
  obtain r w' where r: "skip_instruction E w = (r, w')" by (rule prod.exhaust)
  let ?s1 = "s\<lparr>pio_world := w', rax := merge_in sz bs (rax s)\<rparr>"
  have kernel: "kvm_fast_pio E sz port True s = (1, ?s1)"
    using assms(6) by (simp add: kvm_fast_pio_def fast_in_kernel [OF assms(3,1,2)] skip_emulated_def r)
  have user: "kvm_fast_pio F sz port True s = (0, u)" by (simp add: kvm_fast_pio_def u(1))
  have done': "complete_fast_pio_in F (u\<lparr>pio_data := overwrite 0 bs (pio_data u), pio_world := v\<rparr>) =
      Inr (if kvm_get_linear_rip F v = kvm_get_linear_rip F w
        then skip_emulated F (u\<lparr>pio_data := overwrite 0 bs (pio_data u), pio_world := v, pio_count := 0,
          rax := merge_in sz bs (rax s)\<rparr>)
        else (1, u\<lparr>pio_data := overwrite 0 bs (pio_data u), pio_world := v, pio_count := 0\<rparr>))" for v
    using fast_in_completion [of "u\<lparr>pio_data := overwrite 0 bs (pio_data u), pio_world := v\<rparr>" bs F] assms(1,2) u
      take_overwrite [of bs "pio_data u"]
    by (simp add: kvm_is_linear_rip_def)
  show ?thesis
    by (rule exI [of _ ?s1], rule exI [of _ u])
      (use u(2-12) kernel user r in \<open>simp add: done' Let_def skip_emulated_def assms(5) case_prod_beta\<close>)
qed

theorem port_input_same_result_witness:
  "\<exists>s1 u. kvm_fast_pio (example_pio_env (Some [2, 3])) 2 0x60 True (example_pio_vcpu []) = (1, s1) \<and>
     rax s1 = 0xffffffffffff0302 \<and>
     kvm_fast_pio (example_pio_env None) 2 0x60 True (example_pio_vcpu []) = (0, u) \<and>
     (\<exists>s2. complete_fast_pio_in (example_pio_env None) (u\<lparr>pio_data := overwrite 0 [2, 3] (pio_data u), pio_world := 0\<rparr>) =
        Inr (1, s2) \<and> rax s2 = 0xffffffffffff0302)"
proof -
  have m: "merge_in 2 [2, 3] (rax (example_pio_vcpu [])) = 0xffffffffffff0302"
    by (simp add: merge_in_def example_pio_vcpu_def mask_numeral)
  have h: "length [2, 3 :: u8] = 2" "2 \<le> (8 :: nat)"
    "pio_bus_read (example_pio_env (Some [2, 3])) 0x60 2 (pio_world (example_pio_vcpu [])) = (Some [2, 3], 0)"
    "pio_bus_read (example_pio_env None) 0x60 2 (pio_world (example_pio_vcpu [])) = (None, 0)"
    "skip_instruction (example_pio_env None) = skip_instruction (example_pio_env (Some [2, 3]))"
    "fst (skip_instruction (example_pio_env (Some [2, 3])) 0) = 1"
    by (simp_all add: example_pio_env_def example_pio_vcpu_def)
  obtain s1 u where su:
    "kvm_fast_pio (example_pio_env (Some [2, 3])) 2 0x60 True (example_pio_vcpu []) = (1, s1)"
    "rax s1 = merge_in 2 [2, 3] (rax (example_pio_vcpu []))"
    "kvm_fast_pio (example_pio_env None) 2 0x60 True (example_pio_vcpu []) = (0, u)" and
    v: "\<forall>v. let t = u\<lparr>pio_data := overwrite 0 [2, 3] (pio_data u), pio_world := v\<rparr> in
      if kvm_get_linear_rip (example_pio_env None) v = kvm_get_linear_rip (example_pio_env None) 0
      then \<exists>s2. complete_fast_pio_in (example_pio_env None) t = Inr (fst (skip_instruction (example_pio_env (Some [2, 3])) v), s2) \<and>
             rax s2 = rax s1 \<and> pio_count s2 = 0 \<and> pio_world s2 = snd (skip_instruction (example_pio_env (Some [2, 3])) v)
      else complete_fast_pio_in (example_pio_env None) t = Inr (1, t\<lparr>pio_count := 0\<rparr>) \<and> rax t = rax (example_pio_vcpu [])"
    using port_input_same_result [OF h] by blast
  from spec [OF v, of 0] obtain s2 where
    "complete_fast_pio_in (example_pio_env None) (u\<lparr>pio_data := overwrite 0 [2, 3] (pio_data u), pio_world := 0\<rparr>) = Inr (1, s2)"
    "rax s2 = rax s1"
    by (auto simp: Let_def example_pio_env_def)
  then show ?thesis using su m by auto
qed

section \<open>String accesses\<close>

text \<open>A turn moves at least one item when the items are not larger than a page.\<close>

lemma turn_count: "0 < sz \<Longrightarrow> sz \<le> 4096 \<Longrightarrow> 0 < k \<Longrightarrow> 0 < min (4096 div sz) (k :: nat)"
  by (simp add: div_greater_zero_iff)

lemma outs_sev:
  "emulator_pio_out E sz port d n s = (r, t) \<Longrightarrow>
    sev_pio_count t = sev_pio_count s \<and> sev_pio_pos t = sev_pio_pos s \<and> sev_pio_buf t = sev_pio_buf s"
  by (auto simp: emulator_pio_out_def emulator_pio_in_out_def Let_def split: prod.splits if_splits)

lemma ins_sev:
  "emulator_pio_in E sz port d n s = (r, d', t) \<Longrightarrow>
    sev_pio_count t = sev_pio_count s \<and> sev_pio_pos t = sev_pio_pos s \<and> sev_pio_buf t = sev_pio_buf s"
  by (auto simp: emulator_pio_in_def emulator_pio_in_out_def Let_def split: prod.splits if_splits)

lemma outs_turn_decreases:
  assumes "sev_es_outs_turn E sz port s = Inr t" "0 < sz" "sz \<le> 4096"
  shows "sev_pio_count t < sev_pio_count s"
proof -
  obtain r u where o: "emulator_pio_out E sz port (drop (sev_pio_pos s) (sev_pio_buf s))
      (min (4096 div sz) (sev_pio_count s)) s = (r, u)" by (rule prod.exhaust)
  have "t = advance_sev_es_emulated_pio (min (4096 div sz) (sev_pio_count s)) sz u" "sev_pio_count t \<noteq> 0"
    using assms(1) by (auto simp: sev_es_outs_turn_def o Let_def split: if_splits)
  then have "sev_pio_count t = sev_pio_count s - min (4096 div sz) (sev_pio_count s)" "sev_pio_count t \<noteq> 0"
    using outs_sev [OF o] by (simp_all add: advance_sev_es_emulated_pio_def)
  then show ?thesis using turn_count [OF assms(2,3), of "sev_pio_count s"] by linarith
qed

lemma ins_turn_decreases:
  assumes "sev_es_ins_turn E sz port s = Inr t" "0 < sz" "sz \<le> 4096"
  shows "sev_pio_count t < sev_pio_count s"
proof -
  obtain r d u where o: "emulator_pio_in E sz port (drop (sev_pio_pos s) (sev_pio_buf s))
      (min (4096 div sz) (sev_pio_count s)) s = (r, d, u)" by (rule prod_cases3)
  have "t = advance_sev_es_emulated_pio (min (4096 div sz) (sev_pio_count s)) sz
        (u\<lparr>sev_pio_buf := take (sev_pio_pos s) (sev_pio_buf u) @ d\<rparr>)" "sev_pio_count t \<noteq> 0"
    using assms(1) by (auto simp: sev_es_ins_turn_def o Let_def split: if_splits)
  then have "sev_pio_count t = sev_pio_count s - min (4096 div sz) (sev_pio_count s)" "sev_pio_count t \<noteq> 0"
    using ins_sev [OF o] by (simp_all add: advance_sev_es_emulated_pio_def)
  then show ?thesis using turn_count [OF assms(2,3), of "sev_pio_count s"] by linarith
qed

lemma outs_returns: "0 < sz \<Longrightarrow> sz \<le> 4096 \<Longrightarrow> \<exists>r. kvm_sev_es_outs E sz port s = Some r"
proof (induction "sev_pio_count s" arbitrary: s rule: less_induct)
  case less
  then show ?case
    by (subst kvm_sev_es_outs.simps)
      (auto split: sum.split dest: outs_turn_decreases)
qed

lemma ins_returns: "0 < sz \<Longrightarrow> sz \<le> 4096 \<Longrightarrow> \<exists>r. kvm_sev_es_ins E sz port s = Some r"
proof (induction "sev_pio_count s" arbitrary: s rule: less_induct)
  case less
  then show ?case
    by (subst kvm_sev_es_ins.simps)
      (auto split: sum.split dest: ins_turn_decreases)
qed

text \<open>
  The data of an exit are in the shared page, and nothing was written past the page, which would have made
  the list longer. User space can serve only such an exit.
\<close>

definition in_page :: "'w pio_vcpu \<Rightarrow> bool" where
  "in_page s \<longleftrightarrow> length (pio_data s) = PIO_PAGE_SIZE \<and> run_io_size s * run_io_count s \<le> PIO_PAGE_SIZE \<and>
     pio_size s * pio_count s \<le> PIO_PAGE_SIZE"

text \<open>User space sees what \<open>OUTS\<close> writes, chunk after chunk, until the instruction is over.\<close>

inductive outs_served :: "'w pio_env \<Rightarrow> int \<times> 'w pio_vcpu \<Rightarrow> bytes list \<Rightarrow> 'w pio_vcpu \<Rightarrow> bool" for E where
  outs_finished: "length (pio_data s) = PIO_PAGE_SIZE \<Longrightarrow> outs_served E (1, s) [] s"
| outs_chunk: "in_page s \<Longrightarrow> complete_sev_es_emulated_outs E s = Some r \<Longrightarrow> outs_served E r cs t \<Longrightarrow>
    outs_served E (0, s) (take (run_io_size s * run_io_count s) (pio_data s) # cs) t"

text \<open>User space answers \<open>INS\<close> with the bytes of a stream: the position, and what is left.\<close>

inductive ins_served :: "'w pio_env \<Rightarrow> int \<times> 'w pio_vcpu \<Rightarrow> bytes \<Rightarrow> 'w pio_vcpu \<Rightarrow> bool" for E where
  ins_finished: "length (pio_data s) = PIO_PAGE_SIZE \<Longrightarrow> ins_served E (1, s) [] s"
| ins_chunk: "in_page s \<Longrightarrow> n = run_io_size s * run_io_count s \<Longrightarrow>
    complete_sev_es_emulated_ins E (s\<lparr>pio_data := overwrite 0 (take n bs) (pio_data s)\<rparr>) = Some r \<Longrightarrow>
    ins_served E r (drop n bs) t \<Longrightarrow> ins_served E (0, s) bs t"

lemma outs_turn_exit:
  assumes "\<And>bs w. fst (pio_bus_write E port bs w) = False" "0 < sz" "sz \<le> 4096" "0 < sev_pio_count s"
    and "c = min (4096 div sz) (sev_pio_count s)"
  obtains u where "sev_es_outs_turn E sz port s = Inl (0, u)"
    "sev_pio_count u = sev_pio_count s - c" "sev_pio_pos u = sev_pio_pos s + c * sz" "sev_pio_buf u = sev_pio_buf s"
    "pio_size u = sz" "pio_port u = port" "run_io_size u = sz" "run_io_count u = c"
    "pio_data u = overwrite 0 (take (sz * c) (drop (sev_pio_pos s) (sev_pio_buf s))) (pio_data s)" "pio_count u = c"
proof -
  have c: "c > 0" using turn_count [OF assms(2-4)] assms(5) by simp
  obtain w where "pio_bus_write E port (take sz (drop (sev_pio_pos s) (sev_pio_buf s))) (pio_world s) = (False, w)"
    using assms(1) by (metis prod.collapse)
  then have w: "pio_items E False sz port 0 c (drop (sev_pio_pos s) (sev_pio_buf s)) (pio_world s) =
      (False, drop (sev_pio_pos s) (sev_pio_buf s), w)"
    using c by (cases c) simp_all
  let ?u = "s\<lparr>pio_world := w, pio_port := port, pio_in := False, pio_count := c, pio_size := sz,
    pio_data := overwrite 0 (take (sz * c) (drop (sev_pio_pos s) (sev_pio_buf s))) (pio_data s),
    run_exit_reason := KVM_EXIT_IO, run_io_direction := KVM_EXIT_IO_OUT, run_io_size := sz,
    run_io_data_offset := 4096, run_io_count := c, run_io_port := port,
    sev_pio_count := sev_pio_count s - c, sev_pio_pos := sev_pio_pos s + c * sz,
    complete_userspace_pio := Some Complete_sev_es_emulated_outs\<rparr>"
  have e: "sev_es_outs_turn E sz port s = Inl (0, ?u)"
    by (unfold sev_es_outs_turn_def assms(5) [symmetric] emulator_pio_out_def emulator_pio_in_out_def Let_def w prod.case)
      (simp add: advance_sev_es_emulated_pio_def)
  show ?thesis by (rule that [OF e]) simp_all
qed

lemma outs_delivered:
  assumes "\<And>bs w. fst (pio_bus_write E port bs w) = False" "0 < sz" "sz \<le> 4096"
    and "sev_pio_pos s + sz * sev_pio_count s \<le> length (sev_pio_buf s)" "length (pio_data s) = 4096"
  shows "\<exists>r cs t. kvm_sev_es_outs E sz port s = Some r \<and> outs_served E r cs t \<and>
    concat cs = take (sz * sev_pio_count s) (drop (sev_pio_pos s) (sev_pio_buf s)) \<and>
    sev_pio_count t = 0 \<and> (\<forall>c \<in> set cs. length c \<le> 4096)"
  using assms(4,5)
proof (induction "sev_pio_count s" arbitrary: s rule: less_induct)
  case less
  let ?k = "sev_pio_count s"
  let ?d = "drop (sev_pio_pos s) (sev_pio_buf s)"
  show ?case
  proof (cases "?k = 0")
    case True
    let ?t = "s"
    have "sev_es_outs_turn E sz port s = Inl (1, s)"
      by (simp add: sev_es_outs_turn_def emulator_pio_out_def emulator_pio_in_out_def True
          advance_sev_es_emulated_pio_def Let_def)
    then have "kvm_sev_es_outs E sz port s = Some (1, s)" by (simp add: kvm_sev_es_outs.simps)
    then show ?thesis using outs_finished [of s E] True less.prems(2) by fastforce
  next
    case False
    define c where "c = min (4096 div sz) ?k"
    have c: "0 < c" "c \<le> ?k" "sz * c \<le> 4096"
      using turn_count [OF assms(2,3), of ?k] False
      by (simp_all add: c_def min_def) (metis div_times_less_eq_dividend le_trans mult.commute mult_le_mono2 nat_le_linear)
    obtain u where u: "sev_es_outs_turn E sz port s = Inl (0, u)"
      "sev_pio_count u = ?k - c" "sev_pio_pos u = sev_pio_pos s + c * sz" "sev_pio_buf u = sev_pio_buf s"
      "pio_size u = sz" "pio_port u = port" "run_io_size u = sz" "run_io_count u = c"
      "pio_data u = overwrite 0 (take (sz * c) ?d) (pio_data s)" "pio_count u = c"
      using outs_turn_exit [OF assms(1-3) _ c_def] False by blast
    have e: "kvm_sev_es_outs E sz port s = Some (0, u)"
      by (subst kvm_sev_es_outs.simps) (simp add: u(1))
    have "sz * c \<le> length ?d"
      using less.prems(1) mult_le_mono2 [OF c(2), of sz] by (simp only: length_drop)
    then have chunk: "take (run_io_size u * run_io_count u) (pio_data u) = take (sz * c) ?d"
      using take_overwrite [of "take (sz * c) ?d" "pio_data s"] by (simp add: u(7-9))
    have "length (take (sz * c) ?d) \<le> 4096" using c(3) by simp
    then have len: "length (pio_data u) = 4096"
      unfolding u(9) using less.prems(2) by (simp add: length_overwrite)
    have page: "in_page u" using len c(3) by (simp add: in_page_def u(5,7,8,10))
    have cat: "take (sz * ?k) ?d = take (sz * c) ?d @ take (sz * (?k - c)) (drop (sev_pio_pos s + c * sz) (sev_pio_buf s))"
      using c(2) take_add [of "sz * c" "sz * (?k - c)" ?d]
      by (simp add: diff_mult_distrib2 ac_simps)
    show ?thesis
    proof (cases "?k - c = 0")
      case True
      have "outs_served E (1, u\<lparr>pio_count := 0\<rparr>) [] (u\<lparr>pio_count := 0\<rparr>)" by (rule outs_finished) (simp add: len)
      then have "outs_served E (0, u) [take (sz * c) ?d] (u\<lparr>pio_count := 0\<rparr>)"
        using outs_chunk [OF page, of E "(1, u\<lparr>pio_count := 0\<rparr>)"] u(2) True
        by (simp add: complete_sev_es_emulated_outs_def chunk Let_def)
      then show ?thesis using e cat True c(3) u(2) by fastforce
    next
      case False
      let ?v = "u\<lparr>pio_count := 0\<rparr>"
      have "sev_pio_count ?v < ?k" "sev_pio_pos ?v + sz * sev_pio_count ?v \<le> length (sev_pio_buf ?v)"
        "length (pio_data ?v) = 4096"
        using less.prems(1) c u(2-4) False len by (simp_all add: diff_mult_distrib2 ac_simps)
      from less.hyps [OF this] obtain r cs t where r: "kvm_sev_es_outs E sz port ?v = Some r" "outs_served E r cs t"
        "concat cs = take (sz * (?k - c)) (drop (sev_pio_pos s + c * sz) (sev_pio_buf s))"
        "sev_pio_count t = 0" "\<forall>c \<in> set cs. length c \<le> 4096"
        by (auto simp: u(2-4))
      have "complete_sev_es_emulated_outs E u = Some r"
        using r(1) u(2,5,6) False by (simp add: complete_sev_es_emulated_outs_def Let_def)
      then have "outs_served E (0, u) (take (sz * c) ?d # cs) t"
        using outs_chunk [OF page, of E r cs t] r(2) by (simp add: chunk)
      then show ?thesis using e cat r(3-5) c(3)
        by (intro exI [of _ "(0, u)"] exI [of _ "take (sz * c) ?d # cs"] exI [of _ t]) simp
    qed
  qed
qed

lemma ins_turn_exit:
  assumes "\<And>w. fst (pio_bus_read E port sz w) = None" "0 < sz" "sz \<le> 4096" "0 < sev_pio_count s"
    and "c = min (4096 div sz) (sev_pio_count s)"
  obtains u where "sev_es_ins_turn E sz port s = Inl (0, u)"
    "sev_pio_count u = sev_pio_count s" "sev_pio_pos u = sev_pio_pos s" "sev_pio_buf u = sev_pio_buf s"
    "pio_size u = sz" "pio_port u = port" "pio_count u = c" "run_io_size u = sz" "run_io_count u = c"
    "pio_data u = overwrite 0 (replicate (sz * c) 0) (pio_data s)"
proof -
  have c: "c > 0" using turn_count [OF assms(2-4)] assms(5) by simp
  obtain w where "pio_bus_read E port sz (pio_world s) = (None, w)"
    using assms(1) by (metis prod.collapse)
  then have w: "pio_items E True sz port 0 c d (pio_world s) = (False, d, w)" for d
    using c by (cases c) simp_all
  let ?u = "s\<lparr>pio_world := w, pio_port := port, pio_in := True, pio_count := c, pio_size := sz,
    pio_data := overwrite 0 (replicate (sz * c) 0) (pio_data s),
    run_exit_reason := KVM_EXIT_IO, run_io_direction := KVM_EXIT_IO_IN, run_io_size := sz,
    run_io_data_offset := 4096, run_io_count := c, run_io_port := port,
    complete_userspace_pio := Some Complete_sev_es_emulated_ins\<rparr>"
  have e: "sev_es_ins_turn E sz port s = Inl (0, ?u)"
    by (unfold sev_es_ins_turn_def assms(5) [symmetric] emulator_pio_in_def emulator_pio_in_out_def Let_def w prod.case)
      simp
  show ?thesis by (rule that [OF e]) simp_all
qed

text \<open>The completion of one exit of \<open>INS\<close>.\<close>

lemma ins_completion:
  assumes "pio_size u = sz" "pio_count u = c" "length ds = sz * c"
  shows "complete_sev_es_emulated_ins E (u\<lparr>pio_data := overwrite 0 ds (pio_data u)\<rparr>) =
    (let v = u\<lparr>pio_data := overwrite 0 ds (pio_data u), pio_count := 0,
           sev_pio_buf := take (sev_pio_pos u) (sev_pio_buf u) @ overwrite 0 ds (drop (sev_pio_pos u) (sev_pio_buf u)),
           sev_pio_count := sev_pio_count u - c, sev_pio_pos := sev_pio_pos u + c * sz\<rparr>
     in if sev_pio_count u - c \<noteq> 0 then kvm_sev_es_ins E sz (pio_port u) v else Some (1, v))"
  using assms take_overwrite [of ds "pio_data u"]
  by (simp add: complete_sev_es_emulated_ins_def complete_emulator_pio_in_def advance_sev_es_emulated_pio_def Let_def)

lemma ins_filled:
  assumes "\<And>w. fst (pio_bus_read E port sz w) = None" "0 < sz" "sz \<le> 4096"
    and "sev_pio_pos s + sz * sev_pio_count s \<le> length (sev_pio_buf s)" "length bs = sz * sev_pio_count s"
    and "length (pio_data s) = 4096"
  shows "\<exists>r t. kvm_sev_es_ins E sz port s = Some r \<and> ins_served E r bs t \<and>
    sev_pio_buf t = overwrite (sev_pio_pos s) bs (sev_pio_buf s) \<and> sev_pio_count t = 0"
  using assms(4-6)
proof (induction "sev_pio_count s" arbitrary: s bs rule: less_induct)
  case less
  let ?k = "sev_pio_count s"
  let ?p = "sev_pio_pos s"
  show ?case
  proof (cases "?k = 0")
    case True
    then have "sev_es_ins_turn E sz port s = Inl (1, s)"
      by (simp add: sev_es_ins_turn_def emulator_pio_in_def emulator_pio_in_out_def
          advance_sev_es_emulated_pio_def Let_def)
    then have "kvm_sev_es_ins E sz port s = Some (1, s)" by (simp add: kvm_sev_es_ins.simps)
    then show ?thesis using ins_finished [of s E] True less.prems(2,3) by (fastforce simp: overwrite_def)
  next
    case False
    define c where "c = min (4096 div sz) ?k"
    have c: "0 < c" "c \<le> ?k" "sz * c \<le> 4096"
      using turn_count [OF assms(2,3), of ?k] False
      by (simp_all add: c_def min_def) (metis div_times_less_eq_dividend le_trans mult.commute mult_le_mono2 nat_le_linear)
    obtain u where u: "sev_es_ins_turn E sz port s = Inl (0, u)"
      "sev_pio_count u = ?k" "sev_pio_pos u = ?p" "sev_pio_buf u = sev_pio_buf s"
      "pio_size u = sz" "pio_port u = port" "pio_count u = c" "run_io_size u = sz" "run_io_count u = c"
      "pio_data u = overwrite 0 (replicate (sz * c) 0) (pio_data s)"
      using ins_turn_exit [OF assms(1-3) _ c_def] False by blast
    have e: "kvm_sev_es_ins E sz port s = Some (0, u)"
      by (subst kvm_sev_es_ins.simps) (simp add: u(1))
    define ds where "ds = take (sz * c) bs"
    have m: "sz * c \<le> sz * ?k" using c(2) by simp
    have ds: "length ds = sz * c" using less.prems(2) m by (simp add: ds_def)
    have len: "length (pio_data u) = 4096"
      unfolding u(10) using less.prems(3) c(3) by (simp add: length_overwrite)
    have page: "in_page u" using len c(3) by (simp add: in_page_def u(5,7,8,9))
    define v where "v = u\<lparr>pio_data := overwrite 0 ds (pio_data u), pio_count := 0,
           sev_pio_buf := take ?p (sev_pio_buf s) @ overwrite 0 ds (drop ?p (sev_pio_buf s)),
           sev_pio_count := ?k - c, sev_pio_pos := ?p + c * sz\<rparr>"
    have v: "sev_pio_count v = ?k - c" "sev_pio_pos v = ?p + c * sz"
      "sev_pio_buf v = overwrite ?p ds (sev_pio_buf s)"
      by (simp_all add: v_def overwrite_def add.commute)
    have done': "complete_sev_es_emulated_ins E (u\<lparr>pio_data := overwrite 0 ds (pio_data u)\<rparr>) =
        (if ?k - c \<noteq> 0 then kvm_sev_es_ins E sz port v else Some (1, v))"
      using ins_completion [OF u(5,7) ds, of E] by (simp add: u v_def Let_def)
    have l: "length (sev_pio_buf v) = length (sev_pio_buf s)"
      unfolding v(3) by (rule length_overwrite) (use less.prems(1) m ds in linarith)
    have over: "overwrite (?p + c * sz) (drop (sz * c) bs) (overwrite ?p ds (sev_pio_buf s)) =
        overwrite ?p bs (sev_pio_buf s)"
    proof -
      have "?p \<le> length (sev_pio_buf s)" using less.prems(1) by simp
      then have "take (?p + c * sz) (overwrite ?p ds (sev_pio_buf s)) = take ?p (sev_pio_buf s) @ ds"
        using ds by (simp add: overwrite_def ac_simps)
      moreover have "drop (?p + c * sz + (length bs - sz * c)) (overwrite ?p ds (sev_pio_buf s)) =
          drop (?p + length bs) (sev_pio_buf s)"
        using \<open>?p \<le> length (sev_pio_buf s)\<close> ds less.prems(2) m by (simp add: overwrite_def ac_simps)
      ultimately show ?thesis
        using less.prems(2) m by (simp add: overwrite_def [of "?p + c * sz"] overwrite_def [of ?p bs] ds_def)
    qed
    have len_v: "length (pio_data v) = 4096"
      using len ds c(3) by (simp add: v_def length_overwrite)
    have take_io: "take (sz * c) bs = ds" by (simp add: ds_def)
    show ?thesis
    proof (cases "?k - c = 0")
      case True
      then have nil: "drop (sz * c) bs = []" using less.prems(2) c(2) by simp
      have "ins_served E (0, u) bs v"
        using ins_chunk [OF page, of "sz * c" E bs "(1, v)" v] done' True ins_finished [OF len_v]
        by (simp add: u(8,9) take_io nil)
      moreover have "sev_pio_buf v = overwrite ?p bs (sev_pio_buf s)"
        using over by (simp add: nil v(3) overwrite_Nil)
      ultimately show ?thesis using e v(1) True by auto
    next
      case False
      have "sev_pio_count v < ?k" "sev_pio_pos v + sz * sev_pio_count v \<le> length (sev_pio_buf v)"
        "length (drop (sz * c) bs) = sz * sev_pio_count v"
        using less.prems(1,2) c(1,2) False unfolding l v(1,2) by (simp_all add: diff_mult_distrib2 ac_simps)
      from less.hyps [OF this len_v] obtain r t where r: "kvm_sev_es_ins E sz port v = Some r"
        "ins_served E r (drop (sz * c) bs) t" "sev_pio_buf t = overwrite ?p bs (sev_pio_buf s)" "sev_pio_count t = 0"
        by (auto simp: v(2,3) over)
      have "ins_served E (0, u) bs t"
        using ins_chunk [OF page, of "sz * c" E bs r t] done' False r(1,2) by (simp add: u(8,9) take_io)
      then show ?thesis using e r(3,4) by blast
    qed
  qed
qed

text \<open> C31. A string instruction of an encrypted guest always returns, whatever devices
  answer or vanish while it runs: its loop moves at least one item in every turn, for item sizes of
  one byte to a page.\<close>

theorem sev_es_string_io_returns:
  assumes "0 < sz" "sz \<le> 4096"
  shows "\<exists>r. kvm_sev_es_string_io E sz port data n inp s = Some r"
  using outs_returns [OF assms] ins_returns [OF assms]
  by (cases inp) (simp_all add: kvm_sev_es_string_io_def Let_def)

theorem sev_es_string_io_returns_witness:
  "\<exists>r. kvm_sev_es_string_io (example_pio_env None) 2 0x60 [1, 2, 3, 4] 2 True (example_pio_vcpu []) = Some r"
  by (rule sev_es_string_io_returns) simp_all

text \<open> C30. When no device of the kernel has the port, an \<open>OUTS\<close> of an encrypted guest
  gives user space every item exactly once and in order, and an \<open>INS\<close>
  fills its buffer with what user space answers, exit after exit; both end with no item left. In every exit
  the data fit the page shared with user space, and nothing is written past its end.\<close>

theorem sev_es_strings_moved:
  assumes "\<And>bs w. fst (pio_bus_write E port bs w) = False" "\<And>w. fst (pio_bus_read E port sz w) = None"
    and "0 < sz" "sz \<le> 4096" "length data = sz * n" "length answers = sz * n" "length (pio_data s) = 4096"
  shows "(\<exists>r chunks t. kvm_sev_es_string_io E sz port data n False s = Some r \<and> outs_served E r chunks t \<and>
      concat chunks = data \<and> (\<forall>c \<in> set chunks. length c \<le> 4096) \<and> sev_pio_count t = 0) \<and>
    (\<exists>r t. kvm_sev_es_string_io E sz port data n True s = Some r \<and> ins_served E r answers t \<and>
      sev_pio_buf t = answers \<and> sev_pio_count t = 0)"
proof
  let ?s = "s\<lparr>sev_pio_buf := data, sev_pio_pos := 0, sev_pio_count := n\<rparr>"
  show "\<exists>r chunks t. kvm_sev_es_string_io E sz port data n False s = Some r \<and> outs_served E r chunks t \<and>
      concat chunks = data \<and> (\<forall>c \<in> set chunks. length c \<le> 4096) \<and> sev_pio_count t = 0"
    using outs_delivered [OF assms(1,3,4), of ?s] assms(5,7) by (simp add: kvm_sev_es_string_io_def) metis
  show "\<exists>r t. kvm_sev_es_string_io E sz port data n True s = Some r \<and> ins_served E r answers t \<and>
      sev_pio_buf t = answers \<and> sev_pio_count t = 0"
    using ins_filled [OF assms(2-4), of ?s answers] assms(5-7)
    by (simp add: kvm_sev_es_string_io_def overwrite_def)
qed

theorem sev_es_strings_moved_witness:
  "(\<exists>r chunks t. kvm_sev_es_string_io (example_pio_env None) 4 0x60 (replicate 8000 7) 2000 False (example_pio_vcpu []) = Some r \<and>
     outs_served (example_pio_env None) r chunks t \<and> concat chunks = replicate 8000 7) \<and>
   (\<exists>r t. kvm_sev_es_string_io (example_pio_env None) 4 0x60 (replicate 8000 7) 2000 True (example_pio_vcpu []) = Some r \<and>
     ins_served (example_pio_env None) r (replicate 8000 9) t \<and> sev_pio_buf t = replicate 8000 9)"
proof -
  have none: "fst (pio_bus_write (example_pio_env None) 0x60 bs w) = False"
    "fst (pio_bus_read (example_pio_env None) 0x60 4 w) = None" for bs w
    by (simp_all add: example_pio_env_def)
  have sizes: "0 < (4 :: nat)" "4 \<le> (4096 :: nat)" "length (replicate 8000 (7 :: u8)) = 4 * 2000"
    "length (replicate 8000 (9 :: u8)) = 4 * 2000"
    "length (pio_data (example_pio_vcpu [])) = 4096"
    by (simp_all add: example_pio_vcpu_def)
  show ?thesis using sev_es_strings_moved [OF none sizes] by blast
qed

end
