(* ===== verification/Kvm_Debugregs.thy ===== *)
theory Kvm_Debugregs
  imports Prelude
begin

text \<open>
  The debug registers of a vCPU (\<open>x86.c\<close>): the guest's values, the values in effect when a debugger
  of the host sets breakpoints in the guest, and the switching of the processor's registers around
  the guest's execution.
\<close>

section \<open>State\<close>

text \<open>
  \<open>phys_db\<close>, \<open>phys_dr6\<close> and \<open>phys_dr7\<close> are the registers of the processor; \<open>dbg_hw\<close> is the control
  block of VMX or SVM, \<open>gprs\<close> the general registers.
\<close>

record 'v dbg_vcpu =
  db :: "u64 list"
  eff_db :: "u64 list"
  dr6 :: u64
  dr7 :: u64
  guest_debug :: u32
  guest_debug_dr7 :: u64
  switch_db_regs :: u32
  gprs :: "nat \<Rightarrow> u64"
  phys_db :: "u64 list"
  phys_dr6 :: u64
  phys_dr7 :: u64
  dbg_hw :: 'v

text \<open>What the code reads elsewhere, and the functions of headers.\<close>

record dbg_env =
  kvm_dr6_valid :: "u64 \<Rightarrow> bool"
  kvm_dr7_valid :: "u64 \<Rightarrow> bool"
  cpuid_rtm :: bool
  cpuid_bus_lock_detect :: bool
  cr4_de :: bool
  hw_breakpoint_active :: bool
  kvm_register_read :: "nat \<Rightarrow> (nat \<Rightarrow> u64) \<Rightarrow> u64"
  kvm_register_write :: "nat \<Rightarrow> u64 \<Rightarrow> (nat \<Rightarrow> u64) \<Rightarrow> nat \<Rightarrow> u64"

text \<open>The functions of headers as they are for a guest in 64-bit mode that has \<open>CR4.DE\<close> clear.\<close>

definition header_functions :: "dbg_env \<Rightarrow> dbg_env" where
  "header_functions E = E\<lparr>kvm_dr6_valid := \<lambda>v. drop_bit 32 v = 0, kvm_dr7_valid := \<lambda>v. drop_bit 32 v = 0,
     cr4_de := False, kvm_register_read := \<lambda>r g. g r, kvm_register_write := \<lambda>r v g. g(r := v)\<rparr>"

record 'v dbg_ops =
  kvm_x86_set_dr7 :: "u64 \<Rightarrow> 'v dbg_vcpu \<Rightarrow> 'v dbg_vcpu"
  kvm_x86_sync_dirty_debug_regs :: "'v dbg_vcpu \<Rightarrow> 'v dbg_vcpu"

abbreviation KVM_DEBUGREG_BP_ENABLED :: u32 where "KVM_DEBUGREG_BP_ENABLED \<equiv> 1"
abbreviation KVM_DEBUGREG_WONT_EXIT :: u32 where "KVM_DEBUGREG_WONT_EXIT \<equiv> 2"
abbreviation KVM_GUESTDBG_ENABLE :: u32 where "KVM_GUESTDBG_ENABLE \<equiv> 0x1"
abbreviation KVM_GUESTDBG_USE_HW_BP :: u32 where "KVM_GUESTDBG_USE_HW_BP \<equiv> 0x20000"
abbreviation DR6_BD :: u64 where "DR6_BD \<equiv> 0x2000"
abbreviation DR6_RTM :: u64 where "DR6_RTM \<equiv> 0x10000"
abbreviation DR6_BUS_LOCK :: u64 where "DR6_BUS_LOCK \<equiv> 0x800"
abbreviation DR6_FIXED_1 :: u64 where "DR6_FIXED_1 \<equiv> 0xfffe07f0"
abbreviation DR6_ACTIVE_LOW :: u64 where "DR6_ACTIVE_LOW \<equiv> 0xffff0ff0"
abbreviation DR6_VOLATILE :: u64 where "DR6_VOLATILE \<equiv> 0x0001e80f"
abbreviation DR6_RESERVED :: u64 where "DR6_RESERVED \<equiv> 0xffff0ff0"
abbreviation DR7_BP_EN_MASK :: u64 where "DR7_BP_EN_MASK \<equiv> 0xff"
abbreviation DR7_GD :: u64 where "DR7_GD \<equiv> 0x2000"
abbreviation DR7_FIXED_1 :: u64 where "DR7_FIXED_1 \<equiv> 0x400"
abbreviation DR7_VOLATILE :: u64 where "DR7_VOLATILE \<equiv> 0xffff2bff"
abbreviation KVM_NR_DB_REGS :: nat where "KVM_NR_DB_REGS \<equiv> 4"
abbreviation DBG_EINVAL :: int where "DBG_EINVAL \<equiv> 22"

section \<open>The guest's registers\<close>

definition kvm_update_dr0123 :: "'v dbg_vcpu \<Rightarrow> 'v dbg_vcpu" where
  "kvm_update_dr0123 s =
     (if guest_debug s AND KVM_GUESTDBG_USE_HW_BP = 0 then s\<lparr>eff_db := db s\<rparr> else s)"

definition kvm_update_dr7 :: "'v dbg_ops \<Rightarrow> 'v dbg_vcpu \<Rightarrow> 'v dbg_vcpu" where
  "kvm_update_dr7 ops s =
     (let d = (if guest_debug s AND KVM_GUESTDBG_USE_HW_BP \<noteq> 0 then guest_debug_dr7 s else dr7 s);
          s = kvm_x86_set_dr7 ops d s;
          s = s\<lparr>switch_db_regs := switch_db_regs s AND NOT KVM_DEBUGREG_BP_ENABLED\<rparr>
      in if d AND DR7_BP_EN_MASK \<noteq> 0
         then s\<lparr>switch_db_regs := switch_db_regs s OR KVM_DEBUGREG_BP_ENABLED\<rparr> else s)"

definition kvm_dr6_fixed :: "dbg_env \<Rightarrow> u64" where
  "kvm_dr6_fixed E =
     (DR6_FIXED_1 OR (if \<not> cpuid_rtm E then DR6_RTM else 0)) OR
     (if \<not> cpuid_bus_lock_detect E then DR6_BUS_LOCK else 0)"

definition kvm_set_dr :: "dbg_env \<Rightarrow> 'v dbg_ops \<Rightarrow> nat \<Rightarrow> u64 \<Rightarrow> 'v dbg_vcpu \<Rightarrow> 'v dbg_vcpu \<times> int" where
  "kvm_set_dr E ops dr val s =
     (if dr < 4 then
        (let s = s\<lparr>db := (db s)[dr := val]\<rparr>
         in (if guest_debug s AND KVM_GUESTDBG_USE_HW_BP = 0 then s\<lparr>eff_db := (eff_db s)[dr := val]\<rparr> else s, 0))
      else if dr = 4 \<or> dr = 6 then
        (if \<not> kvm_dr6_valid E val then (s, 1)
         else (s\<lparr>dr6 := (val AND DR6_VOLATILE) OR kvm_dr6_fixed E\<rparr>, 0))
      else
        (if \<not> kvm_dr7_valid E val then (s, 1)
         else (kvm_update_dr7 ops (s\<lparr>dr7 := (val AND DR7_VOLATILE) OR DR7_FIXED_1\<rparr>), 0)))"

definition kvm_get_dr :: "nat \<Rightarrow> 'v dbg_vcpu \<Rightarrow> u64" where
  "kvm_get_dr dr s =
     (if dr < 4 then db s ! dr else if dr = 4 \<or> dr = 6 then dr6 s else dr7 s)"

text \<open>Whether the register exists; otherwise \<open>#UD\<close> has been queued.\<close>

definition kvm_require_dr :: "dbg_env \<Rightarrow> nat \<Rightarrow> bool" where
  "kvm_require_dr E dr \<longleftrightarrow> (dr \<noteq> 4 \<and> dr \<noteq> 5) \<or> \<not> cr4_de E"

section \<open>User space\<close>

record kvm_debugregs =
  dbgregs_db :: "u64 list"
  dbgregs_dr6 :: u64
  dbgregs_dr7 :: u64
  dbgregs_flags :: u64

definition kvm_vcpu_ioctl_x86_get_debugregs :: "'v dbg_vcpu \<Rightarrow> kvm_debugregs" where
  "kvm_vcpu_ioctl_x86_get_debugregs s =
     \<lparr>dbgregs_db = db s, dbgregs_dr6 = kvm_get_dr 6 s, dbgregs_dr7 = dr7 s, dbgregs_flags = 0\<rparr>"

definition kvm_vcpu_ioctl_x86_set_debugregs ::
  "dbg_env \<Rightarrow> 'v dbg_ops \<Rightarrow> kvm_debugregs \<Rightarrow> 'v dbg_vcpu \<Rightarrow> 'v dbg_vcpu \<times> int" where
  "kvm_vcpu_ioctl_x86_set_debugregs E ops d s =
     (if dbgregs_flags d \<noteq> 0 then (s, - DBG_EINVAL)
      else if \<not> kvm_dr6_valid E (dbgregs_dr6 d) then (s, - DBG_EINVAL)
      else if \<not> kvm_dr7_valid E (dbgregs_dr7 d) then (s, - DBG_EINVAL)
      else
        let s = kvm_update_dr0123 (s\<lparr>db := dbgregs_db d\<rparr>);
            s = s\<lparr>dr6 := dbgregs_dr6 d, dr7 := dbgregs_dr7 d\<rparr>
        in (kvm_update_dr7 ops s, 0))"

text \<open>A debugger's control word and registers, as far as they concern the debug registers.\<close>

definition set_guest_debug :: "'v dbg_ops \<Rightarrow> u32 \<Rightarrow> u64 list \<Rightarrow> 'v dbg_vcpu \<Rightarrow> 'v dbg_vcpu" where
  "set_guest_debug ops control debugreg s =
     (let s = s\<lparr>guest_debug := control\<rparr>;
          s = (if guest_debug s AND KVM_GUESTDBG_ENABLE = 0 then s\<lparr>guest_debug := 0\<rparr> else s);
          s = (if guest_debug s AND KVM_GUESTDBG_USE_HW_BP \<noteq> 0
               then s\<lparr>eff_db := take KVM_NR_DB_REGS debugreg, guest_debug_dr7 := debugreg ! 7\<rparr>
               else s\<lparr>eff_db := db s\<rparr>)
      in kvm_update_dr7 ops s)"

definition reset_debugregs :: "'v dbg_ops \<Rightarrow> 'v dbg_vcpu \<Rightarrow> 'v dbg_vcpu" where
  "reset_debugregs ops s =
     (let s = kvm_update_dr0123 (s\<lparr>db := replicate KVM_NR_DB_REGS 0\<rparr>)
      in kvm_update_dr7 ops (s\<lparr>dr6 := DR6_ACTIVE_LOW, dr7 := DR7_FIXED_1\<rparr>))"

section \<open>Around the guest's execution\<close>

definition load_debugregs :: "dbg_env \<Rightarrow> 'v dbg_vcpu \<Rightarrow> 'v dbg_vcpu" where
  "load_debugregs E s =
     (if switch_db_regs s \<noteq> 0 then s\<lparr>phys_dr7 := 0, phys_db := eff_db s\<rparr>
      else if hw_breakpoint_active E then s\<lparr>phys_dr7 := 0\<rparr> else s)"

text \<open>What the guest left in the processor is taken over. \<open>hw_breakpoint_restore\<close> is the host's.\<close>

definition unload_debugregs ::
  "dbg_env \<Rightarrow> 'v dbg_ops \<Rightarrow> ('v dbg_vcpu \<Rightarrow> 'v dbg_vcpu) \<Rightarrow> 'v dbg_vcpu \<Rightarrow> 'v dbg_vcpu" where
  "unload_debugregs E ops hw_breakpoint_restore s =
     (let s = (if switch_db_regs s AND KVM_DEBUGREG_WONT_EXIT \<noteq> 0
               then kvm_update_dr7 ops (kvm_update_dr0123 (kvm_x86_sync_dirty_debug_regs ops s)) else s)
      in if hw_breakpoint_active E then hw_breakpoint_restore s else s)"

section \<open>Exits\<close>

text \<open>
  How the handler of a \<open>MOV DR\<close> exit ends: the instruction is executed again, completed with a
  fault code, raises \<open>#DB\<close> or \<open>#UD\<close>, goes to the debugger, or is emulated.
\<close>

datatype dr_exit = Dr_again | Dr_complete int | Dr_debug_exception u64 | Dr_undefined | Dr_debugger u64 | Dr_emulate

section \<open>Code breakpoints of emulated instructions\<close>

text \<open>The conditions of the breakpoint registers that match an address, as bits of \<open>DR6\<close>.\<close>

definition kvm_vcpu_check_hw_bp :: "u64 \<Rightarrow> u32 \<Rightarrow> u32 \<Rightarrow> u64 list \<Rightarrow> u32" where
  "kvm_vcpu_check_hw_bp addr type d7 regs =
     fold (\<lambda>i dr6.
       if drop_bit (2 * i) d7 AND 3 \<noteq> 0 \<and> drop_bit (4 * i) (drop_bit 16 d7) AND 15 = type \<and> regs ! i = addr
       then dr6 OR push_bit i 1 else dr6) [0..<4] 0"

end
