(* ===== verification/Kvm_Debugregs_Switch.thy ===== *)
theory Kvm_Debugregs_Switch
  imports Kvm_Debugregs
begin

text \<open>
  Lazy switching of the debug registers, for any vendor: accesses are intercepted until the guest
  makes one, then the guest has the processor's registers to itself until its next exit. The guest
  cannot tell this from a register file of its own.
\<close>

section \<open>The register file of a processor\<close>

record dr_file =
  f_db :: "u64 list"
  f_dr6 :: u64
  f_dr7 :: u64

text \<open>\<open>MOV DR\<close>: the debug register, the general register, and the direction.\<close>

datatype mov_dr = From_dr nat nat | To_dr nat nat

definition mov_operands :: "mov_dr \<Rightarrow> bool" where
  "mov_operands a = (case a of From_dr dr r \<Rightarrow> dr < 8 \<and> r < 16 | To_dr dr r \<Rightarrow> dr < 8 \<and> r < 16)"

text \<open>\<open>f6\<close> are the bits of \<open>DR6\<close> that are fixed to one. \<open>True\<close> is a general protection fault.\<close>

definition read_file :: "nat \<Rightarrow> dr_file \<Rightarrow> u64" where
  "read_file dr f = (if dr < 4 then f_db f ! dr else if dr = 4 \<or> dr = 6 then f_dr6 f else f_dr7 f)"

definition write_file :: "u64 \<Rightarrow> nat \<Rightarrow> u64 \<Rightarrow> dr_file \<Rightarrow> dr_file \<times> bool" where
  "write_file f6 dr v f =
     (if dr < 4 then (f\<lparr>f_db := (f_db f)[dr := v]\<rparr>, False)
      else if drop_bit 32 v \<noteq> 0 then (f, True)
      else if dr = 4 \<or> dr = 6 then (f\<lparr>f_dr6 := (v AND DR6_VOLATILE) OR f6\<rparr>, False)
      else (f\<lparr>f_dr7 := (v AND DR7_VOLATILE) OR DR7_FIXED_1\<rparr>, False))"

definition exec_mov :: "u64 \<Rightarrow> mov_dr \<Rightarrow> dr_file \<times> (nat \<Rightarrow> u64) \<Rightarrow> (dr_file \<times> (nat \<Rightarrow> u64)) \<times> bool" where
  "exec_mov f6 a = (\<lambda>(f, g).
     case a of From_dr dr r \<Rightarrow> ((f, g(r := read_file dr f)), False)
     | To_dr dr r \<Rightarrow> (let (f, e) = write_file f6 dr (g r) f in ((f, g), e)))"

section \<open>Vendors\<close>

text \<open>
  What differs between vendors: the operations, what is loaded before an entry, whether \<open>MOV DR\<close>
  is intercepted, where the running guest's registers are, and the handler of the exit.
\<close>

record 'v dbg_vendor =
  v_ops :: "'v dbg_ops"
  v_load :: "'v dbg_vcpu \<Rightarrow> 'v dbg_vcpu"
  v_intercepted :: "'v \<Rightarrow> bool"
  v_dr6 :: "'v dbg_vcpu \<Rightarrow> u64"
  v_dr7 :: "'v \<Rightarrow> u64"
  v_put :: "dr_file \<Rightarrow> 'v dbg_vcpu \<Rightarrow> 'v dbg_vcpu"
  v_handler :: "mov_dr \<Rightarrow> 'v dbg_vcpu \<Rightarrow> 'v dbg_vcpu \<times> dr_exit"
  v_restore :: "'v dbg_vcpu \<Rightarrow> 'v dbg_vcpu"
  v_good :: "'v \<Rightarrow> bool"

definition v_cpu :: "'v dbg_vendor \<Rightarrow> 'v dbg_vcpu \<Rightarrow> dr_file" where
  "v_cpu V s = \<lparr>f_db = phys_db s, f_dr6 = v_dr6 V s, f_dr7 = v_dr7 V (dbg_hw s)\<rparr>"

definition enter_guest :: "dbg_env \<Rightarrow> 'v dbg_vendor \<Rightarrow> 'v dbg_vcpu \<Rightarrow> 'v dbg_vcpu" where
  "enter_guest E V s = v_load V (load_debugregs E s)"

definition leave_guest :: "dbg_env \<Rightarrow> 'v dbg_vendor \<Rightarrow> 'v dbg_vcpu \<Rightarrow> 'v dbg_vcpu" where
  "leave_guest E V s = unload_debugregs E (v_ops V) (v_restore V) s"

text \<open>
  The guest tries a \<open>MOV DR\<close>: the processor executes it, or it exits. The result is whether the
  guest still runs, the vCPU, and, where the instruction is over, whether it faulted.
\<close>

definition cpu_mov :: "dbg_env \<Rightarrow> 'v dbg_vendor \<Rightarrow> mov_dr \<Rightarrow> 'v dbg_vcpu \<Rightarrow> 'v dbg_vcpu \<times> bool" where
  "cpu_mov E V a s =
     (let ((f, g), e) = exec_mov (kvm_dr6_fixed E) a (v_cpu V s, gprs s) in ((v_put V f s)\<lparr>gprs := g\<rparr>, e))"

definition try_mov ::
  "dbg_env \<Rightarrow> 'v dbg_vendor \<Rightarrow> mov_dr \<Rightarrow> 'v dbg_vcpu \<Rightarrow> bool \<times> 'v dbg_vcpu \<times> bool option" where
  "try_mov E V a s =
     (if \<not> v_intercepted V (dbg_hw s) then (let (s, e) = cpu_mov E V a s in (True, s, Some e))
      else
        let (s, r) = v_handler V a (leave_guest E V s)
        in (False, s, case r of Dr_complete err \<Rightarrow> Some (err \<noteq> 0) | _ \<Rightarrow> None))"

text \<open>The registers the guest would read now, and its general registers.\<close>

definition guest_view :: "'v dbg_vendor \<Rightarrow> bool \<Rightarrow> 'v dbg_vcpu \<Rightarrow> dr_file \<times> (nat \<Rightarrow> u64)" where
  "guest_view V running s =
     (if running \<and> \<not> v_intercepted V (dbg_hw s) then v_cpu V s
      else \<lparr>f_db = db s, f_dr6 = dr6 s, f_dr7 = dr7 s\<rparr>, gprs s)"

abbreviation no_gd :: "u64 \<Rightarrow> bool" where "no_gd v \<equiv> v AND DR7_GD = 0"

text \<open>
  The states a vCPU goes through. The guest does not use \<open>DR7.GD\<close>. A debugger may write what it likes,
  but one that uses hardware breakpoints is attached only where the guest does not have the registers
  to itself: the other case is the race of the last lemma.
\<close>

abbreviation no_hw_bp :: "'v dbg_vcpu \<Rightarrow> bool" where
  "no_hw_bp s \<equiv> guest_debug s AND KVM_GUESTDBG_USE_HW_BP = 0"

definition no_race :: "'v dbg_vendor \<Rightarrow> u32 \<Rightarrow> 'v dbg_vcpu \<Rightarrow> bool" where
  "no_race V control s \<longleftrightarrow> v_intercepted V (dbg_hw s) \<or>
     control AND KVM_GUESTDBG_ENABLE = 0 \<or> control AND KVM_GUESTDBG_USE_HW_BP = 0"

inductive dbg_reachable :: "dbg_env \<Rightarrow> 'v dbg_vendor \<Rightarrow> bool \<Rightarrow> 'v dbg_vcpu \<Rightarrow> bool" for E V where
  created: "\<lbrakk>v_good V (dbg_hw s); v_intercepted V (dbg_hw s); guest_debug s = 0; switch_db_regs s = 0\<rbrakk> \<Longrightarrow>
    dbg_reachable E V False (reset_debugregs (v_ops V) s)"
| reset: "dbg_reachable E V False s \<Longrightarrow> dbg_reachable E V False (reset_debugregs (v_ops V) s)"
| entered: "dbg_reachable E V False s \<Longrightarrow> dbg_reachable E V True (enter_guest E V s)"
| left: "dbg_reachable E V True s \<Longrightarrow> dbg_reachable E V False (leave_guest E V s)"
| tried: "\<lbrakk>dbg_reachable E V True s; mov_operands a; try_mov E V a s = (running, t, out); no_gd (f_dr7 (fst (guest_view V running t)))\<rbrakk> \<Longrightarrow>
    dbg_reachable E V running t"
| host_used: "dbg_reachable E V False s \<Longrightarrow>
    dbg_reachable E V False (s\<lparr>phys_db := hs, phys_dr6 := h6, phys_dr7 := h7\<rparr>)"
| restored: "\<lbrakk>dbg_reachable E V False s; length (dbgregs_db d) = 4; no_gd (dbgregs_dr7 d)\<rbrakk> \<Longrightarrow>
    dbg_reachable E V False (fst (kvm_vcpu_ioctl_x86_set_debugregs E (v_ops V) d s))"
| debugged: "\<lbrakk>dbg_reachable E V False s; no_race V control s\<rbrakk> \<Longrightarrow>
    dbg_reachable E V False (set_guest_debug (v_ops V) control debugreg s)"

text \<open>The value of \<open>DR7\<close> in effect.\<close>

definition eff_dr7 :: "'v dbg_vcpu \<Rightarrow> u64" where
  "eff_dr7 s = (if guest_debug s AND KVM_GUESTDBG_USE_HW_BP \<noteq> 0 then guest_debug_dr7 s else dr7 s)"

lemma eff_dr7_frame [simp]:
  "eff_dr7 (s\<lparr>dbg_hw := h\<rparr>) = eff_dr7 s" "eff_dr7 (s\<lparr>phys_db := d\<rparr>) = eff_dr7 s"
  "eff_dr7 (s\<lparr>phys_dr6 := p\<rparr>) = eff_dr7 s" "eff_dr7 (s\<lparr>phys_dr7 := p\<rparr>) = eff_dr7 s"
  "eff_dr7 (s\<lparr>switch_db_regs := b\<rparr>) = eff_dr7 s" "eff_dr7 (s\<lparr>eff_db := d\<rparr>) = eff_dr7 s"
  "eff_dr7 (s\<lparr>db := d\<rparr>) = eff_dr7 s" "eff_dr7 (s\<lparr>dr6 := p\<rparr>) = eff_dr7 s"
  "eff_dr7 (s\<lparr>gprs := g\<rparr>) = eff_dr7 s"
  by (simp_all add: eff_dr7_def)

lemma wont_bits:
  "(x AND NOT KVM_DEBUGREG_BP_ENABLED) AND KVM_DEBUGREG_WONT_EXIT = x AND KVM_DEBUGREG_WONT_EXIT"
  "(x AND NOT KVM_DEBUGREG_BP_ENABLED OR KVM_DEBUGREG_BP_ENABLED) AND KVM_DEBUGREG_WONT_EXIT = x AND KVM_DEBUGREG_WONT_EXIT"
  "(x AND NOT KVM_DEBUGREG_WONT_EXIT) AND KVM_DEBUGREG_WONT_EXIT = 0"
  "(x OR KVM_DEBUGREG_WONT_EXIT) AND KVM_DEBUGREG_WONT_EXIT \<noteq> 0"
  by (simp_all add: and.assoc bit.conj_disj_distrib2)

lemma high_bits:
  "drop_bit 32 ((v AND DR6_VOLATILE) OR kvm_dr6_fixed E) = 0"
  "drop_bit 32 ((v AND DR7_VOLATILE) OR DR7_FIXED_1) = (0 :: u64)"
  "drop_bit 32 (kvm_dr6_fixed E) = 0"
  by (simp_all add: kvm_dr6_fixed_def)

text \<open>A register file whose upper halves are clear, which writes keep.\<close>

definition file_ok :: "dr_file \<Rightarrow> bool" where
  "file_ok f \<longleftrightarrow> length (f_db f) = 4 \<and> drop_bit 32 (f_dr6 f) = 0 \<and> drop_bit 32 (f_dr7 f) = 0"

lemma write_file_ok: "file_ok f \<Longrightarrow> file_ok (fst (write_file (kvm_dr6_fixed E) dr v f))"
  by (simp add: file_ok_def write_file_def high_bits)

lemma exec_mov_ok: "file_ok f \<Longrightarrow> file_ok (fst (fst (exec_mov (kvm_dr6_fixed E) a (f, g))))"
  by (cases a) (simp_all add: exec_mov_def write_file_ok case_prod_beta)

text \<open>
  The invariant. Either the guest has the registers to itself, and they are in the processor, or
  the vCPU has them, and what is in effect follows from it.
\<close>

definition dbg_ok :: "'v dbg_vendor \<Rightarrow> bool \<Rightarrow> 'v dbg_vcpu \<Rightarrow> bool" where
  "dbg_ok V running s \<longleftrightarrow>
     v_good V (dbg_hw s) \<and> length (db s) = 4 \<and>
     (v_intercepted V (dbg_hw s) \<longleftrightarrow> switch_db_regs s AND KVM_DEBUGREG_WONT_EXIT = 0) \<and>
     (v_intercepted V (dbg_hw s) \<or> no_hw_bp s) \<and> no_gd (dr7 s) \<and>
     (no_hw_bp s \<longrightarrow> no_gd (v_dr7 V (dbg_hw s)) \<and> drop_bit 32 (v_dr7 V (dbg_hw s)) = 0) \<and>
     drop_bit 32 (dr6 s) = 0 \<and> drop_bit 32 (dr7 s) = 0 \<and>
     (if running \<and> \<not> v_intercepted V (dbg_hw s)
      then length (phys_db s) = 4 \<and> drop_bit 32 (v_dr6 V s) = 0
      else v_dr7 V (dbg_hw s) = eff_dr7 s \<and>
        (no_hw_bp s \<longrightarrow> eff_db s = db s))"

text \<open>The registers after a reset, and those of the structure that user space saves and restores.\<close>

definition power_on_file :: dr_file where
  "power_on_file = \<lparr>f_db = [0, 0, 0, 0], f_dr6 = 0xffff0ff0, f_dr7 = 0x400\<rparr>"

definition file_of :: "kvm_debugregs \<Rightarrow> dr_file" where
  "file_of d = \<lparr>f_db = dbgregs_db d, f_dr6 = dbgregs_dr6 d, f_dr7 = dbgregs_dr7 d\<rparr>"

definition debugregs_valid :: "kvm_debugregs \<Rightarrow> bool" where
  "debugregs_valid d \<longleftrightarrow> dbgregs_flags d = 0 \<and> drop_bit 32 (dbgregs_dr6 d) = 0 \<and> drop_bit 32 (dbgregs_dr7 d) = 0"

section \<open>The contract of a vendor\<close>

locale debug_vendor =
  fixes V :: "'v dbg_vendor" and E :: dbg_env
  assumes set_dr7: "v_good V (dbg_hw s) \<Longrightarrow> \<exists>h. kvm_x86_set_dr7 (v_ops V) v s = s\<lparr>dbg_hw := h\<rparr> \<and>
      v_good V h \<and> v_intercepted V h = v_intercepted V (dbg_hw s) \<and> v_dr7 V h = v"
    and sync: "v_good V (dbg_hw s) \<Longrightarrow> \<exists>h p. kvm_x86_sync_dirty_debug_regs (v_ops V) s =
        s\<lparr>db := phys_db s, dr6 := v_dr6 V s, dr7 := v_dr7 V (dbg_hw s),
          switch_db_regs := switch_db_regs s AND NOT KVM_DEBUGREG_WONT_EXIT, phys_dr6 := p, dbg_hw := h\<rparr> \<and>
        v_good V h \<and> v_intercepted V h"
    and load: "v_good V (dbg_hw s) \<Longrightarrow> \<exists>h p. v_load V s = s\<lparr>phys_dr6 := p, dbg_hw := h\<rparr> \<and>
        v_good V h \<and> v_intercepted V h = v_intercepted V (dbg_hw s) \<and> v_dr7 V h = v_dr7 V (dbg_hw s) \<and>
        (switch_db_regs s AND KVM_DEBUGREG_WONT_EXIT \<noteq> 0 \<longrightarrow> v_dr6 V (s\<lparr>phys_dr6 := p, dbg_hw := h\<rparr>) = dr6 s)"
    and put: "v_good V (dbg_hw s) \<Longrightarrow> \<exists>h p. v_put V f s = s\<lparr>phys_db := f_db f, phys_dr6 := p, dbg_hw := h\<rparr> \<and>
        v_good V h \<and> v_intercepted V h = v_intercepted V (dbg_hw s) \<and> v_dr7 V h = f_dr7 f \<and>
        v_dr6 V (s\<lparr>phys_dr6 := p, dbg_hw := h\<rparr>) = f_dr6 f"
    and dr6_frame: "\<lbrakk>dbg_hw t = dbg_hw s; phys_dr6 t = phys_dr6 s\<rbrakk> \<Longrightarrow> v_dr6 V t = v_dr6 V s"
    and restore: "\<exists>d p q. v_restore V s = s\<lparr>phys_db := d, phys_dr6 := p, phys_dr7 := q\<rparr>"
    and handler_gives: "\<lbrakk>mov_operands a; v_good V (dbg_hw s); no_gd (v_dr7 V (dbg_hw s)); guest_debug s = 0\<rbrakk> \<Longrightarrow>
        \<exists>h. v_handler V a s = (s\<lparr>switch_db_regs := switch_db_regs s OR KVM_DEBUGREG_WONT_EXIT, dbg_hw := h\<rparr>, Dr_again) \<and>
          v_good V h \<and> \<not> v_intercepted V h \<and> v_dr7 V h = v_dr7 V (dbg_hw s)"
    and handler_reads: "\<lbrakk>mov_operands (From_dr dr r); v_good V (dbg_hw s); no_gd (v_dr7 V (dbg_hw s)); guest_debug s \<noteq> 0\<rbrakk> \<Longrightarrow>
        v_handler V (From_dr dr r) s = (s\<lparr>gprs := (gprs s)(r := kvm_get_dr dr s)\<rparr>, Dr_complete 0)"
    and handler_writes: "\<lbrakk>mov_operands (To_dr dr r); v_good V (dbg_hw s); no_gd (v_dr7 V (dbg_hw s)); guest_debug s \<noteq> 0\<rbrakk> \<Longrightarrow>
        v_handler V (To_dr dr r) s = (let (s, err) = kvm_set_dr E (v_ops V) dr (gprs s r) s in (s, Dr_complete err))"
    and handler_gd: "\<lbrakk>mov_operands a; v_good V (dbg_hw s); \<not> no_gd (v_dr7 V (dbg_hw s)); \<not> no_hw_bp s\<rbrakk> \<Longrightarrow>
        (\<exists>d. v_handler V a s = (s, Dr_debugger d)) \<or>
        v_handler V a s = (case a of
          From_dr dr r \<Rightarrow> (s\<lparr>gprs := (gprs s)(r := kvm_get_dr dr s)\<rparr>, Dr_complete 0)
        | To_dr dr r \<Rightarrow> (let (s, err) = kvm_set_dr E (v_ops V) dr (gprs s r) s in (s, Dr_complete err)))"
    and valid: "kvm_dr6_valid E v \<longleftrightarrow> drop_bit 32 v = 0" "kvm_dr7_valid E v \<longleftrightarrow> drop_bit 32 v = 0"
begin

lemma update_dr7:
  assumes "v_good V (dbg_hw s)"
  obtains h b where "kvm_update_dr7 (v_ops V) s = s\<lparr>switch_db_regs := b, dbg_hw := h\<rparr>"
    "b AND KVM_DEBUGREG_WONT_EXIT = switch_db_regs s AND KVM_DEBUGREG_WONT_EXIT"
    "v_good V h" "v_intercepted V h = v_intercepted V (dbg_hw s)" "v_dr7 V h = eff_dr7 s"
proof -
  obtain h where h: "kvm_x86_set_dr7 (v_ops V) (eff_dr7 s) s = s\<lparr>dbg_hw := h\<rparr>"
    "v_good V h" "v_intercepted V h = v_intercepted V (dbg_hw s)" "v_dr7 V h = eff_dr7 s"
    using set_dr7 [OF assms] by blast
  have eff: "(if guest_debug s AND KVM_GUESTDBG_USE_HW_BP \<noteq> 0 then guest_debug_dr7 s else dr7 s) = eff_dr7 s"
    by (simp add: eff_dr7_def)
  let ?b = "switch_db_regs s AND NOT KVM_DEBUGREG_BP_ENABLED"
  have u: "kvm_update_dr7 (v_ops V) s = s\<lparr>switch_db_regs :=
      (if eff_dr7 s AND DR7_BP_EN_MASK \<noteq> 0 then ?b OR KVM_DEBUGREG_BP_ENABLED else ?b), dbg_hw := h\<rparr>"
    unfolding kvm_update_dr7_def eff Let_def h(1) by simp
  show ?thesis
    by (rule that [OF u _ h(2-4)]) (simp only: wont_bits split: if_split, simp)
qed

lemma enter_ok:
  assumes "dbg_ok V False s"
  shows "dbg_ok V True (enter_guest E V s)" "guest_view V True (enter_guest E V s) = guest_view V False s"
proof -
  have ok: "v_good V (dbg_hw s)" "v_dr7 V (dbg_hw s) = eff_dr7 s"
    "guest_debug s AND KVM_GUESTDBG_USE_HW_BP = 0 \<longrightarrow> eff_db s = db s"
    using assms by (auto simp: dbg_ok_def)
  define t where "t = load_debugregs E s"
  have t: "t = s\<lparr>phys_dr7 := phys_dr7 t, phys_db := phys_db t\<rparr>"
    "switch_db_regs s \<noteq> 0 \<Longrightarrow> phys_db t = eff_db s"
    by (simp_all add: t_def load_debugregs_def)
  have frame: "dbg_hw t = dbg_hw s" "db t = db s" "dr6 t = dr6 s" "dr7 t = dr7 s" "gprs t = gprs s"
    "switch_db_regs t = switch_db_regs s" "guest_debug t = guest_debug s" "eff_db t = eff_db s" "eff_dr7 t = eff_dr7 s"
    by (subst t(1), simp add: eff_dr7_def)+
  obtain h p where h: "v_load V t = t\<lparr>phys_dr6 := p, dbg_hw := h\<rparr>"
    "v_good V h" "v_intercepted V h = v_intercepted V (dbg_hw s)" "v_dr7 V h = v_dr7 V (dbg_hw s)"
    "switch_db_regs s AND KVM_DEBUGREG_WONT_EXIT \<noteq> 0 \<longrightarrow> v_dr6 V (t\<lparr>phys_dr6 := p, dbg_hw := h\<rparr>) = dr6 s"
    using load [of t] ok(1) frame by auto
  have e: "enter_guest E V s = t\<lparr>phys_dr6 := p, dbg_hw := h\<rparr>"
    by (simp add: enter_guest_def t_def [symmetric] h(1))
  have nz: "switch_db_regs s \<noteq> 0" if "switch_db_regs s AND KVM_DEBUGREG_WONT_EXIT \<noteq> 0"
    using that by auto
  have own: "phys_db t = db s \<and> v_dr6 V (t\<lparr>phys_dr6 := p, dbg_hw := h\<rparr>) = dr6 s \<and> eff_dr7 s = dr7 s"
    if "\<not> v_intercepted V (dbg_hw s)"
    using assms that t(2) [OF nz] h(5) by (simp add: dbg_ok_def eff_dr7_def)
  have eff: "eff_dr7 (t\<lparr>phys_dr6 := p, dbg_hw := h\<rparr>) = eff_dr7 s" using frame(9) by simp
  show "dbg_ok V True (enter_guest E V s)"
    using assms own unfolding dbg_ok_def e by (auto simp: frame h eff)
  show "guest_view V True (enter_guest E V s) = guest_view V False s"
    using own ok(2) by (simp add: guest_view_def e h(3,4) frame v_cpu_def)
qed

lemma leave_ok:
  assumes "dbg_ok V True s"
  shows "dbg_ok V False (leave_guest E V s)" "guest_view V False (leave_guest E V s) = guest_view V True s"
    "v_intercepted V (dbg_hw (leave_guest E V s))"
    "v_intercepted V (dbg_hw s) \<Longrightarrow> dbg_hw (leave_guest E V s) = dbg_hw s \<and> guest_debug (leave_guest E V s) = guest_debug s \<and>
       gprs (leave_guest E V s) = gprs s"
proof -
  define t where "t = (if switch_db_regs s AND KVM_DEBUGREG_WONT_EXIT \<noteq> 0
    then kvm_update_dr7 (v_ops V) (kvm_update_dr0123 (kvm_x86_sync_dirty_debug_regs (v_ops V) s)) else s)"
  obtain d p q where "leave_guest E V s = t\<lparr>phys_db := d, phys_dr6 := p, phys_dr7 := q\<rparr>"
  proof (cases "hw_breakpoint_active E")
    case True
    then show ?thesis
      using restore [of t] that by (auto simp: leave_guest_def unload_debugregs_def t_def [symmetric] Let_def)
  next
    case False
    then show ?thesis
      using that [where d = "phys_db t" and p = "phys_dr6 t" and q = "phys_dr7 t"]
      by (simp add: leave_guest_def unload_debugregs_def t_def [symmetric] Let_def)
  qed
  note l = this
  have good: "v_good V (dbg_hw s)" using assms by (simp add: dbg_ok_def)
  have t: "dbg_ok V False t \<and> guest_view V False t = guest_view V True s \<and> v_intercepted V (dbg_hw t) \<and>
      (v_intercepted V (dbg_hw s) \<longrightarrow> t = s)"
  proof (cases "v_intercepted V (dbg_hw s)")
    case True
    then have "t = s" using assms by (simp add: t_def dbg_ok_def)
    then show ?thesis using assms True by (auto simp: dbg_ok_def guest_view_def)
  next
    case False
    obtain h p where y: "kvm_x86_sync_dirty_debug_regs (v_ops V) s =
        s\<lparr>db := phys_db s, dr6 := v_dr6 V s, dr7 := v_dr7 V (dbg_hw s),
          switch_db_regs := switch_db_regs s AND NOT KVM_DEBUGREG_WONT_EXIT, phys_dr6 := p, dbg_hw := h\<rparr>"
      "v_good V h" "v_intercepted V h"
      using sync [OF good] by auto
    define r where "r = s\<lparr>db := phys_db s, dr6 := v_dr6 V s, dr7 := v_dr7 V (dbg_hw s),
      switch_db_regs := switch_db_regs s AND NOT KVM_DEBUGREG_WONT_EXIT, phys_dr6 := p, dbg_hw := h, eff_db := phys_db s\<rparr>"
    have debug: "no_hw_bp s" "no_gd (v_dr7 V (dbg_hw s))" "drop_bit 32 (v_dr7 V (dbg_hw s)) = 0"
      using assms False by (simp_all add: dbg_ok_def)
    have "kvm_update_dr0123 (kvm_x86_sync_dirty_debug_regs (v_ops V) s) = r"
      using debug by (simp add: y(1) kvm_update_dr0123_def r_def)
    then have "t = kvm_update_dr7 (v_ops V) r"
      using assms False by (simp add: t_def dbg_ok_def)
    moreover obtain h' b where u: "kvm_update_dr7 (v_ops V) r = r\<lparr>switch_db_regs := b, dbg_hw := h'\<rparr>"
      "b AND KVM_DEBUGREG_WONT_EXIT = switch_db_regs r AND KVM_DEBUGREG_WONT_EXIT"
      "v_good V h'" "v_intercepted V h' = v_intercepted V (dbg_hw r)" "v_dr7 V h' = eff_dr7 r"
      by (rule update_dr7 [of r]) (simp add: r_def y(2))
    moreover have "eff_dr7 r = v_dr7 V (dbg_hw s)" "eff_dr7 (r\<lparr>switch_db_regs := b, dbg_hw := h'\<rparr>) = v_dr7 V (dbg_hw s)"
      using debug by (simp_all add: eff_dr7_def r_def)
    ultimately show ?thesis
      using assms False debug y(3) wont_bits(3)
      by (simp add: dbg_ok_def guest_view_def v_cpu_def r_def)
  qed
  have eff: "eff_dr7 (leave_guest E V s) = eff_dr7 t" by (simp add: l)
  show "dbg_ok V False (leave_guest E V s)" using t eff by (auto simp: dbg_ok_def l)
  show "guest_view V False (leave_guest E V s) = guest_view V True s"
    using t by (simp add: guest_view_def l)
  show "v_intercepted V (dbg_hw (leave_guest E V s))" using t by (simp add: l)
  show "v_intercepted V (dbg_hw s) \<Longrightarrow> dbg_hw (leave_guest E V s) = dbg_hw s \<and>
      guest_debug (leave_guest E V s) = guest_debug s \<and> gprs (leave_guest E V s) = gprs s"
    using t by (simp add: l)
qed

lemma set_dr_ok:
  assumes "dbg_ok V False s" "v_intercepted V (dbg_hw s)" "kvm_set_dr E (v_ops V) dr v s = (t, err)" "no_gd (dr7 t)"
  shows "dbg_ok V False t" "v_intercepted V (dbg_hw t)"
    "guest_view V False t = (fst (write_file (kvm_dr6_fixed E) dr v (fst (guest_view V False s))), gprs s)"
    "err \<noteq> 0 \<longleftrightarrow> snd (write_file (kvm_dr6_fixed E) dr v (fst (guest_view V False s)))"
proof -
  have "dbg_ok V False t \<and> v_intercepted V (dbg_hw t) \<and>
    guest_view V False t = (fst (write_file (kvm_dr6_fixed E) dr v (fst (guest_view V False s))), gprs s) \<and>
    (err \<noteq> 0 \<longleftrightarrow> snd (write_file (kvm_dr6_fixed E) dr v (fst (guest_view V False s))))"
  proof -
    note ok = assms(1) [unfolded dbg_ok_def]
    have effs: "no_hw_bp s \<Longrightarrow> eff_dr7 s = dr7 s" by (simp add: eff_dr7_def)
    consider (db) "dr < 4" | (bad) "\<not> dr < 4" "drop_bit 32 v \<noteq> 0" | (dr6) "\<not> dr < 4" "dr = 4 \<or> dr = 6" "drop_bit 32 v = 0"
      | (dr7) "\<not> dr < 4" "dr \<noteq> 4" "dr \<noteq> 6" "drop_bit 32 v = 0" by fastforce
    then show ?thesis
    proof cases
      case db
      then have t: "t = s\<lparr>db := (db s)[dr := v], eff_db := if guest_debug s AND KVM_GUESTDBG_USE_HW_BP = 0
          then (eff_db s)[dr := v] else eff_db s\<rparr>" "err = 0"
        using assms(3) by (auto simp: kvm_set_dr_def Let_def)
      show ?thesis
        unfolding t dbg_ok_def guest_view_def write_file_def using ok assms(2) db effs by simp
    next
      case bad
      then have t: "t = s" "err = 1"
        using assms(3) by (auto simp: kvm_set_dr_def valid split: if_splits)
      show ?thesis
        unfolding t guest_view_def write_file_def using assms(1,2) bad by simp
    next
      case dr6
      then have t: "t = s\<lparr>dr6 := (v AND DR6_VOLATILE) OR kvm_dr6_fixed E\<rparr>" "err = 0"
        using assms(3) by (auto simp: kvm_set_dr_def valid)
      show ?thesis
        unfolding t dbg_ok_def guest_view_def write_file_def using ok assms(2) dr6 effs by (simp add: high_bits)
    next
      case dr7
      define r where "r = s\<lparr>dr7 := (v AND DR7_VOLATILE) OR DR7_FIXED_1\<rparr>"
      obtain h b where u: "kvm_update_dr7 (v_ops V) r = r\<lparr>switch_db_regs := b, dbg_hw := h\<rparr>"
        "b AND KVM_DEBUGREG_WONT_EXIT = switch_db_regs r AND KVM_DEBUGREG_WONT_EXIT"
        "v_good V h" "v_intercepted V h = v_intercepted V (dbg_hw r)" "v_dr7 V h = eff_dr7 r"
        by (rule update_dr7 [of r]) (use assms(1) in \<open>simp add: r_def dbg_ok_def\<close>)
      have t: "t = r\<lparr>switch_db_regs := b, dbg_hw := h\<rparr>" "err = 0"
        using assms(3) dr7 by (auto simp: kvm_set_dr_def valid r_def [symmetric] u(1))
      have e: "no_hw_bp s \<Longrightarrow> eff_dr7 r = (v AND DR7_VOLATILE) OR DR7_FIXED_1" "dr7 t = (v AND DR7_VOLATILE) OR DR7_FIXED_1"
        using t(1) by (simp_all add: eff_dr7_def r_def)
      show ?thesis
        unfolding t dbg_ok_def guest_view_def write_file_def
        using ok assms(2) t assms(4) dr7 u(2-5) e high_bits(2) by (simp add: r_def)
    qed
  qed
  then show "dbg_ok V False t" "v_intercepted V (dbg_hw t)"
    "guest_view V False t = (fst (write_file (kvm_dr6_fixed E) dr v (fst (guest_view V False s))), gprs s)"
    "err \<noteq> 0 \<longleftrightarrow> snd (write_file (kvm_dr6_fixed E) dr v (fst (guest_view V False s)))" by simp_all
qed

text \<open>The processor executes an instruction of a guest that has the registers to itself.\<close>

lemma cpu_mov_ok:
  assumes "dbg_ok V True s" "\<not> v_intercepted V (dbg_hw s)" "cpu_mov E V a s = (t, e)"
    and "no_gd (f_dr7 (fst (guest_view V True t)))"
  shows "dbg_ok V True t \<and> exec_mov (kvm_dr6_fixed E) a (guest_view V True s) = (guest_view V True t, e)"
proof -
  have ok: "v_good V (dbg_hw s)" "file_ok (v_cpu V s)"
    using assms(1,2) by (simp_all add: dbg_ok_def file_ok_def v_cpu_def)
  obtain f g where x: "exec_mov (kvm_dr6_fixed E) a (v_cpu V s, gprs s) = ((f, g), e)"
    "t = (v_put V f s)\<lparr>gprs := g\<rparr>"
    using assms(3) by (auto simp: cpu_mov_def split: prod.splits)
  have f: "file_ok f" using exec_mov_ok [OF ok(2), of E a "gprs s"] x(1) by simp
  obtain h p where h: "v_put V f s = s\<lparr>phys_db := f_db f, phys_dr6 := p, dbg_hw := h\<rparr>"
    "v_good V h" "v_intercepted V h = v_intercepted V (dbg_hw s)" "v_dr7 V h = f_dr7 f"
    "v_dr6 V (s\<lparr>phys_dr6 := p, dbg_hw := h\<rparr>) = f_dr6 f"
    using put [OF ok(1), of f] by blast
  have d6: "v_dr6 V (s\<lparr>phys_db := f_db f, phys_dr6 := p, dbg_hw := h, gprs := g\<rparr>) = f_dr6 f"
    using dr6_frame [of "s\<lparr>phys_db := f_db f, phys_dr6 := p, dbg_hw := h, gprs := g\<rparr>" "s\<lparr>phys_dr6 := p, dbg_hw := h\<rparr>"] h(5)
    by simp
  have t: "t = s\<lparr>phys_db := f_db f, phys_dr6 := p, dbg_hw := h, gprs := g\<rparr>" using x(2) h(1) by simp
  have view: "guest_view V True t = (f, g)" "guest_view V True s = (v_cpu V s, gprs s)"
    using h(3,4) d6 assms(2) by (simp_all add: t guest_view_def v_cpu_def)
  have "dbg_ok V True t"
    using assms(1,2,4) f h(2-4) d6 view(1) unfolding t dbg_ok_def file_ok_def by simp
  then show ?thesis using view x(1) by simp
qed

text \<open>An instruction that exits is either tried again, with the registers given to the guest, or emulated.\<close>

lemma exit_mov_ok:
  assumes "dbg_ok V False u" "v_intercepted V (dbg_hw u)" "v_handler V a u = (t, r)"
    and "no_gd (f_dr7 (fst (guest_view V False t)))" "mov_operands a"
  shows "dbg_ok V False t \<and>
    (r = Dr_again \<and> \<not> v_intercepted V (dbg_hw t) \<and> guest_view V False t = guest_view V False u \<or>
     (\<exists>d. r = Dr_debugger d) \<and> t = u \<and> \<not> no_hw_bp u \<or>
     (\<exists>err. r = Dr_complete err \<and> exec_mov (kvm_dr6_fixed E) a (guest_view V False u) = (guest_view V False t, err \<noteq> 0)))"
proof -
  have good: "v_good V (dbg_hw u)" and gd: "\<not> no_gd (v_dr7 V (dbg_hw u)) \<Longrightarrow> \<not> no_hw_bp u"
    using assms(1) by (auto simp: dbg_ok_def)
  consider (again) "guest_debug u = 0"
    | (debugger) d where "v_handler V a u = (u, Dr_debugger d)" "\<not> no_hw_bp u"
    | (emulated) "v_handler V a u = (case a of
          From_dr dr r \<Rightarrow> (u\<lparr>gprs := (gprs u)(r := kvm_get_dr dr u)\<rparr>, Dr_complete 0)
        | To_dr dr r \<Rightarrow> (let (s, err) = kvm_set_dr E (v_ops V) dr (gprs u r) u in (s, Dr_complete err)))"
  proof (cases "no_gd (v_dr7 V (dbg_hw u))")
    case True
    then show ?thesis
      using handler_reads [OF _ good True] handler_writes [OF _ good True] assms(5) that(1,3)
      by (cases a) auto
  next
    case False
    then show ?thesis using handler_gd [OF assms(5) good False gd [OF False]] gd [OF False] that(2,3) by blast
  qed
  then show ?thesis
  proof cases
    case again
    have "no_gd (v_dr7 V (dbg_hw u))" using gd again by auto
    then obtain h where h: "t = u\<lparr>switch_db_regs := switch_db_regs u OR KVM_DEBUGREG_WONT_EXIT, dbg_hw := h\<rparr>" "r = Dr_again"
      "v_good V h" "\<not> v_intercepted V h" "v_dr7 V h = v_dr7 V (dbg_hw u)"
      using handler_gives [OF assms(5) good _ again] assms(3) by auto
    show ?thesis
      using assms(1,2) again h(2-5) wont_bits(4) [of "switch_db_regs u"] by (auto simp: dbg_ok_def guest_view_def h(1))
  next
    case debugger
    then show ?thesis using assms(1,3) by auto
  next
    case emulated
    show ?thesis
    proof (cases a)
      case (From_dr dr reg)
      have "t = u\<lparr>gprs := (gprs u)(reg := kvm_get_dr dr u)\<rparr>" "r = Dr_complete 0"
        using emulated assms(3) From_dr by auto
      then show ?thesis
        using assms(1,2) From_dr
        by (auto simp: dbg_ok_def guest_view_def exec_mov_def read_file_def kvm_get_dr_def)
    next
      case (To_dr dr reg)
      obtain err where k: "kvm_set_dr E (v_ops V) dr (gprs u reg) u = (t, err)" "r = Dr_complete err"
        using emulated assms(3) To_dr by (auto split: prod.splits)
      have "no_gd (dr7 t)" using assms(4) by (simp add: guest_view_def)
      then show ?thesis
        using set_dr_ok [OF assms(1,2) k(1)] k(2) To_dr
        by (auto simp: exec_mov_def guest_view_def case_prod_beta)
    qed
  qed
qed

lemma try_ok:
  assumes "dbg_ok V True s" "try_mov E V a s = (running, t, out)" "no_gd (f_dr7 (fst (guest_view V running t)))"
    and "mov_operands a"
  shows "dbg_ok V running t"
    "case out of None \<Rightarrow> guest_view V running t = guest_view V True s \<and> (v_intercepted V (dbg_hw t) \<longrightarrow> \<not> no_hw_bp t)
     | Some e \<Rightarrow> exec_mov (kvm_dr6_fixed E) a (guest_view V True s) = (guest_view V running t, e)"
proof -
  have "dbg_ok V running t \<and>
    (case out of None \<Rightarrow> guest_view V running t = guest_view V True s \<and> (v_intercepted V (dbg_hw t) \<longrightarrow> \<not> no_hw_bp t)
     | Some e \<Rightarrow> exec_mov (kvm_dr6_fixed E) a (guest_view V True s) = (guest_view V running t, e))"
  proof (cases "v_intercepted V (dbg_hw s)")
    case False
    obtain e where "cpu_mov E V a s = (t, e)" "running" "out = Some e"
      using assms(2) False by (auto simp: try_mov_def split: prod.splits)
    then show ?thesis using cpu_mov_ok [OF assms(1) False] assms(3) by simp
  next
    case True
    let ?u = "leave_guest E V s"
    note u = leave_ok [OF assms(1)]
    obtain r where r: "v_handler V a ?u = (t, r)" "\<not> running"
      "out = (case r of Dr_complete err \<Rightarrow> Some (err \<noteq> 0) | _ \<Rightarrow> None)"
      using assms(2) True by (auto simp: try_mov_def split: prod.splits)
    have "no_gd (f_dr7 (fst (guest_view V False t)))" using assms(3) r(2) by simp
    from exit_mov_ok [OF u(1,3) r(1) this assms(4)] show ?thesis using u(2) r(2,3) by auto
  qed
  then show "dbg_ok V running t"
    "case out of None \<Rightarrow> guest_view V running t = guest_view V True s \<and> (v_intercepted V (dbg_hw t) \<longrightarrow> \<not> no_hw_bp t)
     | Some e \<Rightarrow> exec_mov (kvm_dr6_fixed E) a (guest_view V True s) = (guest_view V running t, e)" by simp_all
qed

text \<open>Operations that end with the update of \<open>DR7\<close>.\<close>

lemma updated_ok:
  assumes "v_good V (dbg_hw s)" "length (db s) = 4" "no_gd (dr7 s)"
    "drop_bit 32 (dr6 s) = 0" "drop_bit 32 (dr7 s) = 0" "no_hw_bp s \<longrightarrow> eff_db s = db s"
    "v_intercepted V (dbg_hw s) \<longleftrightarrow> switch_db_regs s AND KVM_DEBUGREG_WONT_EXIT = 0"
    "v_intercepted V (dbg_hw s) \<or> no_hw_bp s"
  shows "dbg_ok V False (kvm_update_dr7 (v_ops V) s) \<and>
    guest_view V False (kvm_update_dr7 (v_ops V) s) = (\<lparr>f_db = db s, f_dr6 = dr6 s, f_dr7 = dr7 s\<rparr>, gprs s)"
proof -
  obtain h b where u: "kvm_update_dr7 (v_ops V) s = s\<lparr>switch_db_regs := b, dbg_hw := h\<rparr>"
    "b AND KVM_DEBUGREG_WONT_EXIT = switch_db_regs s AND KVM_DEBUGREG_WONT_EXIT"
    "v_good V h" "v_intercepted V h = v_intercepted V (dbg_hw s)" "v_dr7 V h = eff_dr7 s"
    by (rule update_dr7 [OF assms(1)])
  then show ?thesis
    using assms(2-8) by (simp add: dbg_ok_def guest_view_def eff_dr7_def)
qed

lemma reset_registers_ok:
  assumes "v_good V (dbg_hw s)" "v_intercepted V (dbg_hw s) \<longleftrightarrow> switch_db_regs s AND KVM_DEBUGREG_WONT_EXIT = 0"
    "v_intercepted V (dbg_hw s) \<or> no_hw_bp s"
  shows "dbg_ok V False (reset_debugregs (v_ops V) s)"
    "guest_view V False (reset_debugregs (v_ops V) s) = (power_on_file, gprs s)"
proof -
  define r where "r = kvm_update_dr0123 (s\<lparr>db := replicate KVM_NR_DB_REGS 0\<rparr>)\<lparr>dr6 := DR6_ACTIVE_LOW, dr7 := DR7_FIXED_1\<rparr>"
  have r: "dbg_hw r = dbg_hw s" "db r = replicate 4 0" "dr6 r = DR6_ACTIVE_LOW" "dr7 r = DR7_FIXED_1"
    "switch_db_regs r = switch_db_regs s" "guest_debug r = guest_debug s" "gprs r = gprs s"
    "no_hw_bp s \<Longrightarrow> eff_db r = db r"
    by (simp_all add: r_def kvm_update_dr0123_def)
  have "dbg_ok V False (kvm_update_dr7 (v_ops V) r) \<and>
      guest_view V False (kvm_update_dr7 (v_ops V) r) = (\<lparr>f_db = db r, f_dr6 = dr6 r, f_dr7 = dr7 r\<rparr>, gprs r)"
    by (rule updated_ok) (use assms r in \<open>simp_all\<close>)
  then show "dbg_ok V False (reset_debugregs (v_ops V) s)"
    "guest_view V False (reset_debugregs (v_ops V) s) = (power_on_file, gprs s)"
    using r by (simp_all add: reset_debugregs_def r_def power_on_file_def numeral_eq_Suc)
qed

lemma set_debugregs_ok:
  assumes "dbg_ok V False s" "length (dbgregs_db d) = 4" "no_gd (dbgregs_dr7 d)"
    "kvm_vcpu_ioctl_x86_set_debugregs E (v_ops V) d s = (t, r)"
  shows "dbg_ok V False t" "guest_view V False t = (if debugregs_valid d then (file_of d, gprs s) else guest_view V False s)"
    "r = 0 \<longleftrightarrow> debugregs_valid d"
proof -
  have "dbg_ok V False t \<and> (r = 0 \<longleftrightarrow> debugregs_valid d) \<and>
      guest_view V False t = (if debugregs_valid d then (file_of d, gprs s) else guest_view V False s)"
  proof (cases "dbgregs_flags d = 0 \<and> drop_bit 32 (dbgregs_dr6 d) = 0 \<and> drop_bit 32 (dbgregs_dr7 d) = 0")
    case True
    define q where "q = kvm_update_dr0123 (s\<lparr>db := dbgregs_db d\<rparr>)\<lparr>dr6 := dbgregs_dr6 d, dr7 := dbgregs_dr7 d\<rparr>"
    have t: "t = kvm_update_dr7 (v_ops V) q" "r = 0"
      using assms(4) True by (auto simp: kvm_vcpu_ioctl_x86_set_debugregs_def valid q_def)
    have q: "dbg_hw q = dbg_hw s" "db q = dbgregs_db d" "dr6 q = dbgregs_dr6 d" "dr7 q = dbgregs_dr7 d"
      "switch_db_regs q = switch_db_regs s" "guest_debug q = guest_debug s" "gprs q = gprs s"
      "no_hw_bp s \<Longrightarrow> eff_db q = db q"
      by (simp_all add: q_def kvm_update_dr0123_def)
    have s: "v_good V (dbg_hw s)" "v_intercepted V (dbg_hw s) \<longleftrightarrow> switch_db_regs s AND KVM_DEBUGREG_WONT_EXIT = 0"
      "v_intercepted V (dbg_hw s) \<or> no_hw_bp s"
      using assms(1) by (auto simp: dbg_ok_def)
    have "dbg_ok V False (kvm_update_dr7 (v_ops V) q) \<and>
        guest_view V False (kvm_update_dr7 (v_ops V) q) = (\<lparr>f_db = db q, f_dr6 = dr6 q, f_dr7 = dr7 q\<rparr>, gprs q)"
      by (rule updated_ok) (use assms(2,3) True q s in \<open>simp_all\<close>)
    then show ?thesis using q t True by (simp add: debugregs_valid_def file_of_def)
  next
    case False
    then have "t = s" "r \<noteq> 0"
      using assms(4) by (auto simp: kvm_vcpu_ioctl_x86_set_debugregs_def valid split: if_splits)
    then show ?thesis using assms(1) False by (auto simp: debugregs_valid_def)
  qed
  then show "dbg_ok V False t" "guest_view V False t = (if debugregs_valid d then (file_of d, gprs s) else guest_view V False s)"
    "r = 0 \<longleftrightarrow> debugregs_valid d" by simp_all
qed

lemma set_guest_debug_ok:
  assumes "dbg_ok V False s" "no_race V control s"
  shows "dbg_ok V False (set_guest_debug (v_ops V) control regs s)"
    "guest_view V False (set_guest_debug (v_ops V) control regs s) = guest_view V False s"
proof -
  define c where "c = (if control AND KVM_GUESTDBG_ENABLE = 0 then 0 else control)"
  define q where "q = (if c AND KVM_GUESTDBG_USE_HW_BP \<noteq> 0
    then s\<lparr>guest_debug := c, eff_db := take KVM_NR_DB_REGS regs, guest_debug_dr7 := regs ! 7\<rparr>
    else s\<lparr>guest_debug := c, eff_db := db s\<rparr>)"
  have g: "set_guest_debug (v_ops V) control regs s = kvm_update_dr7 (v_ops V) q"
    by (simp add: set_guest_debug_def q_def c_def Let_def)
  have q: "dbg_hw q = dbg_hw s" "db q = db s" "dr6 q = dr6 s" "dr7 q = dr7 s" "gprs q = gprs s"
    "switch_db_regs q = switch_db_regs s" "guest_debug q = c"
    "c AND KVM_GUESTDBG_USE_HW_BP = 0 \<Longrightarrow> eff_db q = db q"
    by (simp_all add: q_def)
  have s: "v_good V (dbg_hw s)" "length (db s) = 4" "no_gd (dr7 s)" "drop_bit 32 (dr6 s) = 0" "drop_bit 32 (dr7 s) = 0"
    "v_intercepted V (dbg_hw s) \<longleftrightarrow> switch_db_regs s AND KVM_DEBUGREG_WONT_EXIT = 0"
    using assms(1) by (auto simp: dbg_ok_def)
  have c: "v_intercepted V (dbg_hw s) \<or> c AND KVM_GUESTDBG_USE_HW_BP = 0"
    using assms(2) by (auto simp: no_race_def c_def)
  have "dbg_ok V False (kvm_update_dr7 (v_ops V) q) \<and>
      guest_view V False (kvm_update_dr7 (v_ops V) q) = (\<lparr>f_db = db q, f_dr6 = dr6 q, f_dr7 = dr7 q\<rparr>, gprs q)"
    by (rule updated_ok) (use c q s in \<open>simp_all\<close>)
  then show "dbg_ok V False (set_guest_debug (v_ops V) control regs s)"
    "guest_view V False (set_guest_debug (v_ops V) control regs s) = guest_view V False s"
    using q by (simp_all add: g guest_view_def)
qed

lemma reachable_ok: "dbg_reachable E V running s \<Longrightarrow> dbg_ok V running s"
proof (induction rule: dbg_reachable.induct)
  case (created s)
  then show ?case by (intro reset_registers_ok(1)) simp_all
next
  case (reset s)
  note ok = reset.IH [unfolded dbg_ok_def]
  show ?case by (rule reset_registers_ok(1)) (use ok in \<open>blast\<close>)+
next
  case (entered s)
  then show ?case by (intro enter_ok(1))
next
  case (left s)
  then show ?case by (intro leave_ok(1))
next
  case (tried s a running t out)
  then show ?case using try_ok(1) by blast
next
  case (host_used s hs h6 h7)
  then show ?case by (auto simp: dbg_ok_def)
next
  case (restored s d)
  then show ?case using set_debugregs_ok(1) by (metis prod.collapse)
next
  case (debugged s control debugreg)
  then show ?case by (intro set_guest_debug_ok(1))
qed

text \<open>What the guest sees through the steps of a vCPU.\<close>

lemma transparent:
  assumes "dbg_reachable E V running s"
  shows "running \<Longrightarrow> guest_view V False (leave_guest E V s) = guest_view V running s"
    "\<not> running \<Longrightarrow> guest_view V True (enter_guest E V s) = guest_view V running s"
    "\<lbrakk>running; mov_operands a; try_mov E V a s = (running', t, Some e); no_gd (f_dr7 (fst (guest_view V running' t)))\<rbrakk> \<Longrightarrow>
      exec_mov (kvm_dr6_fixed E) a (guest_view V running s) = (guest_view V running' t, e)"
    "\<lbrakk>running; mov_operands a; try_mov E V a s = (running', t, None); no_gd (f_dr7 (fst (guest_view V running' t)))\<rbrakk> \<Longrightarrow>
      guest_view V running' t = guest_view V running s \<and>
      (no_hw_bp t \<longrightarrow> (\<exists>t' e. try_mov E V a (enter_guest E V t) = (True, t', Some e)))"
    "\<not> running \<Longrightarrow> guest_view V False (reset_debugregs (v_ops V) s) = (power_on_file, snd (guest_view V running s))"
    "\<not> running \<Longrightarrow> fst (guest_view V running s) = file_of (kvm_vcpu_ioctl_x86_get_debugregs s)"
    "\<lbrakk>\<not> running; length (dbgregs_db d) = 4; no_gd (dbgregs_dr7 d); kvm_vcpu_ioctl_x86_set_debugregs E (v_ops V) d s = (u, r)\<rbrakk> \<Longrightarrow>
      (r = 0 \<longleftrightarrow> debugregs_valid d) \<and>
      guest_view V False u = (if debugregs_valid d then (file_of d, snd (guest_view V running s)) else guest_view V running s)"
    "\<lbrakk>\<not> running; no_race V control s\<rbrakk> \<Longrightarrow>
      guest_view V False (set_guest_debug (v_ops V) control regs s) = guest_view V running s"
proof -
  note ok = reachable_ok [OF assms]
  show "running \<Longrightarrow> guest_view V False (leave_guest E V s) = guest_view V running s"
    using leave_ok(2) ok by simp
  show "\<not> running \<Longrightarrow> guest_view V True (enter_guest E V s) = guest_view V running s"
    using enter_ok(2) ok by simp
  show "exec_mov (kvm_dr6_fixed E) a (guest_view V running s) = (guest_view V running' t, e)"
    if "running" "mov_operands a" "try_mov E V a s = (running', t, Some e)" "no_gd (f_dr7 (fst (guest_view V running' t)))"
    using try_ok(2) [OF _ that(3,4,2)] ok that(1) by simp
  show "guest_view V running' t = guest_view V running s \<and>
      (no_hw_bp t \<longrightarrow> (\<exists>t' e. try_mov E V a (enter_guest E V t) = (True, t', Some e)))"
    if again: "running" "mov_operands a" "try_mov E V a s = (running', t, None)" "no_gd (f_dr7 (fst (guest_view V running' t)))"
  proof -
    have r: "guest_view V running' t = guest_view V running s" "v_intercepted V (dbg_hw t) \<longrightarrow> \<not> no_hw_bp t" "dbg_ok V running' t"
      using try_ok [OF _ again(3,4,2)] ok again(1) by simp_all
    have "\<not> running'" using again(1,3) by (auto simp: try_mov_def split: if_splits prod.splits)
    then have "dbg_ok V False t" using r(3) by simp
    have "v_intercepted V (dbg_hw (enter_guest E V t)) = v_intercepted V (dbg_hw t)"
    proof -
      have d: "dbg_hw (load_debugregs E t) = dbg_hw t" by (simp add: load_debugregs_def)
      have "v_good V (dbg_hw (load_debugregs E t))" using \<open>dbg_ok V False t\<close> by (simp add: d dbg_ok_def)
      from load [OF this] obtain h p where "v_load V (load_debugregs E t) = (load_debugregs E t)\<lparr>phys_dr6 := p, dbg_hw := h\<rparr>"
        "v_intercepted V h = v_intercepted V (dbg_hw t)"
        unfolding d by blast
      then show ?thesis by (simp add: enter_guest_def)
    qed
    then show ?thesis using r(1,2) by (auto simp: try_mov_def split: prod.split)
  qed
  show "guest_view V False (reset_debugregs (v_ops V) s) = (power_on_file, snd (guest_view V running s))" if "\<not> running"
    using ok that by (subst reset_registers_ok(2)) (auto simp: dbg_ok_def guest_view_def)
  show "fst (guest_view V running s) = file_of (kvm_vcpu_ioctl_x86_get_debugregs s)" if "\<not> running"
    using that by (simp add: guest_view_def file_of_def kvm_vcpu_ioctl_x86_get_debugregs_def kvm_get_dr_def)
  show "(r = 0 \<longleftrightarrow> debugregs_valid d) \<and>
      guest_view V False u = (if debugregs_valid d then (file_of d, snd (guest_view V running s)) else guest_view V running s)"
    if "\<not> running" "length (dbgregs_db d) = 4" "no_gd (dbgregs_dr7 d)" "kvm_vcpu_ioctl_x86_set_debugregs E (v_ops V) d s = (u, r)"
    using set_debugregs_ok(2,3) [OF _ that(2-4)] ok that(1) by (auto simp: guest_view_def)
  show "guest_view V False (set_guest_debug (v_ops V) control regs s) = guest_view V running s"
    if "\<not> running" "no_race V control s"
    using set_guest_debug_ok(2) [OF _ that(2)] ok that(1) by simp
qed

text \<open>A debugger attached while the guest is given the registers.\<close>

lemma debugger_race:
  assumes "dbg_reachable E V True s" "v_intercepted V (dbg_hw s)" "guest_debug s = 0" "mov_operands a"
    and "control AND KVM_GUESTDBG_ENABLE \<noteq> 0" "control AND KVM_GUESTDBG_USE_HW_BP \<noteq> 0"
  shows "\<exists>t. try_mov E V a s = (False, t, None) \<and> guest_view V False t = guest_view V True s \<and>
    (let u = leave_guest E V (enter_guest E V (set_guest_debug (v_ops V) control regs t))
     in db u = take 4 regs \<and> dr7 u = regs ! 7)"
proof -
  have ok: "dbg_ok V True s" by (rule reachable_ok [OF assms(1)])
  define l where "l = leave_guest E V s"
  have l: "dbg_ok V False l" "guest_view V False l = guest_view V True s" "v_intercepted V (dbg_hw l)" "guest_debug l = 0"
    using leave_ok [OF ok] assms(2,3) by (simp_all add: l_def)
  have good: "v_good V (dbg_hw l)" "no_gd (v_dr7 V (dbg_hw l))" using l(1,4) by (auto simp: dbg_ok_def)
  obtain h where h: "v_handler V a l = (l\<lparr>switch_db_regs := switch_db_regs l OR KVM_DEBUGREG_WONT_EXIT, dbg_hw := h\<rparr>, Dr_again)"
    "v_good V h" "\<not> v_intercepted V h" "v_dr7 V h = v_dr7 V (dbg_hw l)"
    using handler_gives [OF assms(4) good l(4)] by blast
  define t where "t = l\<lparr>switch_db_regs := switch_db_regs l OR KVM_DEBUGREG_WONT_EXIT, dbg_hw := h\<rparr>"
  have t: "try_mov E V a s = (False, t, None)"
    using assms(2) h(1) by (simp add: try_mov_def l_def [symmetric] t_def)
  have view: "guest_view V False t = guest_view V True s"
    using l(2,3) by (simp add: t_def guest_view_def)
  define q where "q = t\<lparr>guest_debug := control, eff_db := take 4 regs, guest_debug_dr7 := regs ! 7\<rparr>"
  have g: "set_guest_debug (v_ops V) control regs t = kvm_update_dr7 (v_ops V) q"
    using assms(5,6) by (simp add: set_guest_debug_def q_def Let_def)
  have "v_good V (dbg_hw q)" "eff_dr7 q = regs ! 7"
    using h(2) assms(6) by (simp_all add: q_def t_def eff_dr7_def)
  obtain h1 b where u: "kvm_update_dr7 (v_ops V) q = q\<lparr>switch_db_regs := b, dbg_hw := h1\<rparr>"
    "b AND KVM_DEBUGREG_WONT_EXIT = switch_db_regs q AND KVM_DEBUGREG_WONT_EXIT" "v_good V h1" "v_dr7 V h1 = regs ! 7"
    by (rule update_dr7 [OF \<open>v_good V (dbg_hw q)\<close>]) (use \<open>eff_dr7 q = regs ! 7\<close> in simp)
  have wont: "b AND KVM_DEBUGREG_WONT_EXIT \<noteq> 0" "b \<noteq> 0"
    using u(2) wont_bits(4) [of "switch_db_regs l"] by (auto simp: q_def t_def)
  define e where "e = q\<lparr>switch_db_regs := b, dbg_hw := h1, phys_dr7 := 0, phys_db := take 4 regs\<rparr>"
  have load_e: "load_debugregs E (kvm_update_dr7 (v_ops V) q) = e"
    using wont(2) by (simp add: load_debugregs_def u(1) e_def) (simp add: q_def)
  obtain h2 p where x: "v_load V e = e\<lparr>phys_dr6 := p, dbg_hw := h2\<rparr>" "v_good V h2" "v_dr7 V h2 = regs ! 7"
    using load [of e] u(3,4) by (auto simp: e_def)
  define f where "f = e\<lparr>phys_dr6 := p, dbg_hw := h2\<rparr>"
  have f: "enter_guest E V (set_guest_debug (v_ops V) control regs t) = f"
    by (simp add: enter_guest_def g load_e x(1) f_def)
  have ff: "switch_db_regs f = b" "phys_db f = take 4 regs" "guest_debug f = control" "guest_debug_dr7 f = regs ! 7"
    by (simp_all add: f_def e_def) (simp_all add: q_def)
  obtain h3 p3 where y: "kvm_x86_sync_dirty_debug_regs (v_ops V) f =
      f\<lparr>db := phys_db f, dr6 := v_dr6 V f, dr7 := v_dr7 V (dbg_hw f),
        switch_db_regs := switch_db_regs f AND NOT KVM_DEBUGREG_WONT_EXIT, phys_dr6 := p3, dbg_hw := h3\<rparr>" "v_good V h3"
    using sync [of f] x(2) by (auto simp: f_def)
  define r where "r = kvm_x86_sync_dirty_debug_regs (v_ops V) f"
  have r: "db r = take 4 regs" "dr7 r = regs ! 7" "guest_debug r = control" "v_good V (dbg_hw r)"
    unfolding r_def y(1) using ff x(3) y(2) by (simp_all add: f_def)
  then have z: "kvm_update_dr0123 r = r" using assms(6) by (simp add: kvm_update_dr0123_def)
  obtain h4 b4 where v: "kvm_update_dr7 (v_ops V) r = r\<lparr>switch_db_regs := b4, dbg_hw := h4\<rparr>"
    by (rule update_dr7 [OF r(4)])
  obtain d5 p5 q5 where w: "v_restore V (r\<lparr>switch_db_regs := b4, dbg_hw := h4\<rparr>) =
      r\<lparr>switch_db_regs := b4, dbg_hw := h4, phys_db := d5, phys_dr6 := p5, phys_dr7 := q5\<rparr>"
    using restore [of "r\<lparr>switch_db_regs := b4, dbg_hw := h4\<rparr>"] by auto
  have "db (leave_guest E V f) = take 4 regs \<and> dr7 (leave_guest E V f) = regs ! 7"
    using wont(1) r(1,2)
    by (simp add: leave_guest_def unload_debugregs_def ff(1) r_def [symmetric] z v w Let_def)
  then show ?thesis using t view f by (intro exI [of _ t]) (simp add: Let_def)
qed

end

end
