(* ===== verification/Vmx_Debugregs.thy ===== *)
theory Vmx_Debugregs
  imports Kvm_Debugregs_Switch
begin

text \<open>Debug registers under VMX (\<open>vmx.c\<close>).\<close>

record vmx_dbg =
  guest_dr7 :: u64
  mov_dr_exiting :: bool

abbreviation DEBUG_REG_ACCESS_NUM :: u64 where "DEBUG_REG_ACCESS_NUM \<equiv> 0x7"
abbreviation TYPE_MOV_FROM_DR :: u64 where "TYPE_MOV_FROM_DR \<equiv> 0x10"

definition vmx_set_dr7 :: "u64 \<Rightarrow> vmx_dbg dbg_vcpu \<Rightarrow> vmx_dbg dbg_vcpu" where
  "vmx_set_dr7 val s = s\<lparr>dbg_hw := (dbg_hw s)\<lparr>guest_dr7 := val\<rparr>\<rparr>"

definition vmx_sync_dirty_debug_regs :: "vmx_dbg dbg_vcpu \<Rightarrow> vmx_dbg dbg_vcpu" where
  "vmx_sync_dirty_debug_regs s =
     s\<lparr>db := phys_db s, dr6 := phys_dr6 s, dr7 := guest_dr7 (dbg_hw s),
       switch_db_regs := switch_db_regs s AND NOT KVM_DEBUGREG_WONT_EXIT,
       dbg_hw := (dbg_hw s)\<lparr>mov_dr_exiting := True\<rparr>, phys_dr6 := DR6_RESERVED\<rparr>"

definition vmx_dbg_ops :: "vmx_dbg dbg_ops" where
  "vmx_dbg_ops = \<lparr>kvm_x86_set_dr7 = vmx_set_dr7, kvm_x86_sync_dirty_debug_regs = vmx_sync_dirty_debug_regs\<rparr>"

text \<open>What \<open>vmx_vcpu_run\<close> does for the debug registers before it enters the guest.\<close>

definition vmx_load_dr6 :: "vmx_dbg dbg_vcpu \<Rightarrow> vmx_dbg dbg_vcpu" where
  "vmx_load_dr6 s =
     (if switch_db_regs s AND KVM_DEBUGREG_WONT_EXIT \<noteq> 0 then s\<lparr>phys_dr6 := dr6 s\<rparr> else s)"

definition handle_dr ::
  "dbg_env \<Rightarrow> nat \<Rightarrow> u64 \<Rightarrow> vmx_dbg dbg_vcpu \<Rightarrow> vmx_dbg dbg_vcpu \<times> dr_exit" where
  "handle_dr E cpl qual s =
     (let dr = unat (qual AND DEBUG_REG_ACCESS_NUM)
      in if \<not> kvm_require_dr E dr then (s, Dr_undefined)
         else if cpl > 0 then (s, Dr_complete 1)
         else if guest_dr7 (dbg_hw s) AND DR7_GD \<noteq> 0 then
           (if guest_debug s AND KVM_GUESTDBG_USE_HW_BP \<noteq> 0 then (s, Dr_debugger (DR6_BD OR DR6_ACTIVE_LOW))
            else (s, Dr_debug_exception DR6_BD))
         else if guest_debug s = 0 then
           (s\<lparr>dbg_hw := (dbg_hw s)\<lparr>mov_dr_exiting := False\<rparr>,
              switch_db_regs := switch_db_regs s OR KVM_DEBUGREG_WONT_EXIT\<rparr>, Dr_again)
         else
           let reg = unat (drop_bit 8 qual AND 0xf)
           in if qual AND TYPE_MOV_FROM_DR \<noteq> 0
              then (s\<lparr>gprs := kvm_register_write E reg (kvm_get_dr dr s) (gprs s)\<rparr>, Dr_complete 0)
              else let (s, err) = kvm_set_dr E vmx_dbg_ops dr (kvm_register_read E reg (gprs s)) s
                   in (s, Dr_complete err))"

section \<open>The contract\<close>

text \<open>
  The exit qualification of an instruction, and the vendor: the running guest's \<open>DR6\<close> is the
  processor's, its \<open>DR7\<close> is in the VMCS. The host's own breakpoints are \<open>d\<close>, \<open>p\<close> and \<open>q\<close>.
\<close>

definition vmx_qualification :: "mov_dr \<Rightarrow> u64" where
  "vmx_qualification a =
     (case a of From_dr dr r \<Rightarrow> of_nat (dr + 16 + 256 * r) | To_dr dr r \<Rightarrow> of_nat (dr + 256 * r))"

definition vmx_vendor :: "dbg_env \<Rightarrow> u64 list \<Rightarrow> u64 \<Rightarrow> u64 \<Rightarrow> vmx_dbg dbg_vendor" where
  "vmx_vendor E d p q = \<lparr>v_ops = vmx_dbg_ops, v_load = vmx_load_dr6, v_intercepted = mov_dr_exiting,
     v_dr6 = phys_dr6, v_dr7 = guest_dr7,
     v_put = (\<lambda>f s. s\<lparr>phys_db := f_db f, phys_dr6 := f_dr6 f, dbg_hw := (dbg_hw s)\<lparr>guest_dr7 := f_dr7 f\<rparr>\<rparr>),
     v_handler = (\<lambda>a. handle_dr E 0 (vmx_qualification a)),
     v_restore = (\<lambda>s. s\<lparr>phys_db := d, phys_dr6 := p, phys_dr7 := q\<rparr>), v_good = (\<lambda>_. True)\<rparr>"

lemma qualification_fields:
  assumes "dr < 8" "r < 16"
  shows "unat (vmx_qualification (From_dr dr r) AND DEBUG_REG_ACCESS_NUM) = dr"
    "unat (vmx_qualification (To_dr dr r) AND DEBUG_REG_ACCESS_NUM) = dr"
    "unat (drop_bit 8 (vmx_qualification (From_dr dr r)) AND 0xf) = r"
    "unat (drop_bit 8 (vmx_qualification (To_dr dr r)) AND 0xf) = r"
    "vmx_qualification (From_dr dr r) AND TYPE_MOV_FROM_DR \<noteq> 0"
    "vmx_qualification (To_dr dr r) AND TYPE_MOV_FROM_DR = 0"
proof -
  let ?f = "dr + 16 + 256 * r"
  let ?t = "dr + 256 * r"
  have "unat (of_nat k :: u64) = k" if "k < 5000" for k
    unfolding unat_of_nat using that by simp
  from this [of ?f] this [of ?t] have n: "unat (of_nat ?f :: u64) = ?f" "unat (of_nat ?t :: u64) = ?t"
    using assms by linarith+
  have low: "unat (w AND 0x7) = unat w mod 8" "unat (w AND 0xf) = unat w mod 16" for w :: u64
  proof -
    have "w AND 0x7 = take_bit 3 w" "w AND 0xf = take_bit 4 w"
      by (simp_all add: take_bit_eq_mask mask_eq_exp_minus_1)
    then show "unat (w AND 0x7) = unat w mod 8" "unat (w AND 0xf) = unat w mod 16"
      by (simp_all add: take_bit_eq_mod unat_mod)
  qed
  have high: "unat (drop_bit 8 w) = unat w div 256" for w :: u64
    by (simp add: drop_bit_eq_div unat_div)
  have four: "w AND 0x10 = 0 \<longleftrightarrow> even (unat w div 16)" for w :: u64
  proof -
    have "w AND 0x10 = 0 \<longleftrightarrow> \<not> bit w 4" using and_exp_eq_0_iff_not_bit [of w 4] by simp
    also have "\<dots> \<longleftrightarrow> \<not> bit (unat w) 4" by (simp add: bit_unsigned_iff)
    also have "\<dots> \<longleftrightarrow> even (unat w div 16)" by (simp add: bit_iff_odd)
    finally show ?thesis .
  qed
  have e8: "?f = dr + 8 * (2 + 32 * r)" "?t = dr + 8 * (32 * r)"
    and e16: "?f = dr + 16 * (1 + 16 * r)" "?t = dr + 16 * (16 * r)" by simp_all
  have f8: "?f mod 8 = dr" "?t mod 8 = dr"
    unfolding e8 mod_mult_self2 using assms by simp_all
  have f256: "?f div 256 mod 16 = r" "?t div 256 mod 16 = r"
    using assms by simp_all
  have "?f div 16 = 1 + 16 * r" "?t div 16 = 16 * r"
    unfolding e16 using assms by simp_all
  then have f16: "odd (?f div 16)" "even (?t div 16)" by simp_all
  show "unat (vmx_qualification (From_dr dr r) AND DEBUG_REG_ACCESS_NUM) = dr"
    "unat (vmx_qualification (To_dr dr r) AND DEBUG_REG_ACCESS_NUM) = dr"
    "unat (drop_bit 8 (vmx_qualification (From_dr dr r)) AND 0xf) = r"
    "unat (drop_bit 8 (vmx_qualification (To_dr dr r)) AND 0xf) = r"
    "vmx_qualification (From_dr dr r) AND TYPE_MOV_FROM_DR \<noteq> 0"
    "vmx_qualification (To_dr dr r) AND TYPE_MOV_FROM_DR = 0"
    unfolding vmx_qualification_def mov_dr.case low high four n by (rule f8 f256 f16)+
qed

interpretation vmx: debug_vendor "vmx_vendor (header_functions E) d p q" "header_functions E"
  for E :: dbg_env and d :: "u64 list" and p q :: u64
proof (unfold_locales, goal_cases)
  case (1 s v)
  show ?case
    by (rule exI [of _ "(dbg_hw s)\<lparr>guest_dr7 := v\<rparr>"]) (simp add: vmx_vendor_def vmx_dbg_ops_def vmx_set_dr7_def)
next
  case (2 s)
  show ?case
    by (rule exI [of _ "(dbg_hw s)\<lparr>mov_dr_exiting := True\<rparr>"], rule exI [of _ DR6_RESERVED])
      (simp add: vmx_vendor_def vmx_dbg_ops_def vmx_sync_dirty_debug_regs_def)
next
  case (3 s)
  show ?case
    by (rule exI [of _ "dbg_hw s"],
        rule exI [of _ "if switch_db_regs s AND KVM_DEBUGREG_WONT_EXIT \<noteq> 0 then dr6 s else phys_dr6 s"])
      (simp add: vmx_vendor_def vmx_load_dr6_def)
next
  case (4 s f)
  show ?case
    by (rule exI [of _ "(dbg_hw s)\<lparr>guest_dr7 := f_dr7 f\<rparr>"], rule exI [of _ "f_dr6 f"])
      (simp add: vmx_vendor_def)
next
  case (5 t s)
  then show ?case by (simp add: vmx_vendor_def)
next
  case (6 s)
  show ?case by (simp add: vmx_vendor_def) blast
next
  case (7 a s)
  then show ?case
    by (intro exI [of _ "(dbg_hw s)\<lparr>mov_dr_exiting := False\<rparr>"])
      (simp add: vmx_vendor_def handle_dr_def kvm_require_dr_def header_functions_def)
next
  case (8 dr r s)
  then have b: "dr < 8" "r < 16" by (simp_all add: mov_operands_def)
  from 8 show ?case
    by (simp add: vmx_vendor_def handle_dr_def kvm_require_dr_def header_functions_def
        qualification_fields [OF b] Let_def)
next
  case (9 dr r s)
  then have b: "dr < 8" "r < 16" by (simp_all add: mov_operands_def)
  from 9 show ?case
    by (simp add: vmx_vendor_def handle_dr_def kvm_require_dr_def qualification_fields [OF b] Let_def)
      (simp add: header_functions_def)
next
  case (10 a s)
  then have "guest_dr7 (dbg_hw s) AND DR7_GD \<noteq> 0" "guest_debug s \<noteq> 0" by (auto simp: vmx_vendor_def)
  then show ?case
    using 10(4) by (simp add: vmx_vendor_def handle_dr_def kvm_require_dr_def header_functions_def Let_def)
next
  case (11 v)
  show ?case by (simp add: header_functions_def)
next
  case (12 v)
  show ?case by (simp add: header_functions_def)
qed

end
