(* ===== verification/Svm_Debugregs.thy ===== *)
theory Svm_Debugregs
  imports Kvm_Debugregs_Switch
begin

text \<open>Debug registers under SVM (\<open>svm.c\<close>).\<close>

record svm_dbg =
  save_dr6 :: u64
  save_dr7 :: u64
  intercepts_dr :: u32
  vmcb_dr_clean :: bool
  svm_sev_es_guest :: bool
  svm_guest_state_protected :: bool

abbreviation SVM_EXITINFO_REG_MASK :: u64 where "SVM_EXITINFO_REG_MASK \<equiv> 0xf"
abbreviation SVM_EXIT_READ_DR0 :: nat where "SVM_EXIT_READ_DR0 \<equiv> 0x20"

definition vmcb_set_dr_intercept :: "nat \<Rightarrow> svm_dbg \<Rightarrow> svm_dbg" where
  "vmcb_set_dr_intercept k v = v\<lparr>intercepts_dr := intercepts_dr v OR push_bit k 1\<rparr>"

text \<open>Reads are the intercepts 0 to 7, writes 16 to 23, in the order of the code.\<close>

definition set_dr_intercepts :: "svm_dbg \<Rightarrow> svm_dbg" where
  "set_dr_intercepts v =
     fold vmcb_set_dr_intercept [0, 1, 2, 3, 4, 5, 6, 16, 17, 18, 19, 20, 21, 22, 7, 23] v"

definition clr_dr_intercepts :: "svm_dbg \<Rightarrow> svm_dbg" where
  "clr_dr_intercepts v = v\<lparr>intercepts_dr := 0\<rparr>"

definition svm_set_dr6 :: "u64 \<Rightarrow> svm_dbg dbg_vcpu \<Rightarrow> svm_dbg dbg_vcpu" where
  "svm_set_dr6 value s =
     (if svm_guest_state_protected (dbg_hw s) then s
      else if value \<noteq> save_dr6 (dbg_hw s)
      then s\<lparr>dbg_hw := (dbg_hw s)\<lparr>save_dr6 := value, vmcb_dr_clean := False\<rparr>\<rparr> else s)"

definition svm_sync_dirty_debug_regs :: "svm_dbg dbg_vcpu \<Rightarrow> svm_dbg dbg_vcpu" where
  "svm_sync_dirty_debug_regs s =
     (if svm_sev_es_guest (dbg_hw s) then s
      else s\<lparr>db := phys_db s, dr6 := save_dr6 (dbg_hw s), dr7 := save_dr7 (dbg_hw s),
             switch_db_regs := switch_db_regs s AND NOT KVM_DEBUGREG_WONT_EXIT,
             dbg_hw := set_dr_intercepts (dbg_hw s)\<rparr>)"

definition svm_set_dr7 :: "u64 \<Rightarrow> svm_dbg dbg_vcpu \<Rightarrow> svm_dbg dbg_vcpu" where
  "svm_set_dr7 value s =
     (if svm_guest_state_protected (dbg_hw s) then s
      else s\<lparr>dbg_hw := (dbg_hw s)\<lparr>save_dr7 := value, vmcb_dr_clean := False\<rparr>\<rparr>)"

definition svm_dbg_ops :: "svm_dbg dbg_ops" where
  "svm_dbg_ops = \<lparr>kvm_x86_set_dr7 = svm_set_dr7, kvm_x86_sync_dirty_debug_regs = svm_sync_dirty_debug_regs\<rparr>"

text \<open>What \<open>svm_vcpu_run\<close> does for the debug registers before it enters the guest.\<close>

definition svm_load_dr6 :: "svm_dbg dbg_vcpu \<Rightarrow> svm_dbg dbg_vcpu" where
  "svm_load_dr6 s =
     (if switch_db_regs s AND KVM_DEBUGREG_WONT_EXIT \<noteq> 0 then svm_set_dr6 (dr6 s) s
      else svm_set_dr6 DR6_ACTIVE_LOW s)"

definition dr_interception ::
  "dbg_env \<Rightarrow> bool \<Rightarrow> nat \<Rightarrow> u64 \<Rightarrow> svm_dbg dbg_vcpu \<Rightarrow> svm_dbg dbg_vcpu \<times> dr_exit" where
  "dr_interception E decode_assists exit_code exit_info_1 s =
     (if svm_sev_es_guest (dbg_hw s) then (s, Dr_again)
      else if guest_debug s = 0 then
        (s\<lparr>dbg_hw := clr_dr_intercepts (dbg_hw s),
           switch_db_regs := switch_db_regs s OR KVM_DEBUGREG_WONT_EXIT\<rparr>, Dr_again)
      else if \<not> decode_assists then (s, Dr_emulate)
      else
        let reg = unat (exit_info_1 AND SVM_EXITINFO_REG_MASK);
            dr = exit_code - SVM_EXIT_READ_DR0
        in if dr \<ge> 16
           then let (s, err) = kvm_set_dr E svm_dbg_ops (dr - 16) (kvm_register_read E reg (gprs s)) s
                in (s, Dr_complete err)
           else (s\<lparr>gprs := kvm_register_write E reg (kvm_get_dr dr s) (gprs s)\<rparr>, Dr_complete 0))"

section \<open>The contract\<close>

text \<open>
  The vendor: \<open>DR6\<close> and \<open>DR7\<close> of the running guest are in the VMCB. The state of an encrypted guest is out
  of reach, and the intercepts are all set or all clear. The host's own breakpoints are \<open>d\<close>, \<open>p\<close> and \<open>q\<close>.
\<close>

definition svm_exit_code :: "mov_dr \<Rightarrow> nat" where
  "svm_exit_code a = (case a of From_dr dr r \<Rightarrow> SVM_EXIT_READ_DR0 + dr | To_dr dr r \<Rightarrow> SVM_EXIT_READ_DR0 + 16 + dr)"

definition svm_exit_info :: "mov_dr \<Rightarrow> u64" where
  "svm_exit_info a = (case a of From_dr dr r \<Rightarrow> of_nat r | To_dr dr r \<Rightarrow> of_nat r)"

definition svm_vendor :: "dbg_env \<Rightarrow> u64 list \<Rightarrow> u64 \<Rightarrow> u64 \<Rightarrow> svm_dbg dbg_vendor" where
  "svm_vendor E d p q = \<lparr>v_ops = svm_dbg_ops, v_load = svm_load_dr6, v_intercepted = (\<lambda>h. intercepts_dr h \<noteq> 0),
     v_dr6 = (\<lambda>s. save_dr6 (dbg_hw s)), v_dr7 = save_dr7,
     v_put = (\<lambda>f s. s\<lparr>phys_db := f_db f, dbg_hw := (dbg_hw s)\<lparr>save_dr6 := f_dr6 f, save_dr7 := f_dr7 f\<rparr>\<rparr>),
     v_handler = (\<lambda>a. dr_interception E True (svm_exit_code a) (svm_exit_info a)),
     v_restore = (\<lambda>s. s\<lparr>phys_db := d, phys_dr6 := p, phys_dr7 := q\<rparr>),
     v_good = (\<lambda>h. \<not> svm_sev_es_guest h \<and> \<not> svm_guest_state_protected h \<and>
       (intercepts_dr h = 0 \<or> intercepts_dr h = 0xff00ff))\<rparr>"

lemma set_dr_intercepts_eq: "set_dr_intercepts v = v\<lparr>intercepts_dr := intercepts_dr v OR 0xff00ff\<rparr>"
  by (simp add: set_dr_intercepts_def vmcb_set_dr_intercept_def or.assoc)

lemma exit_register:
  assumes "r < 16"
  shows "unat (svm_exit_info (From_dr dr r) AND SVM_EXITINFO_REG_MASK) = r"
    "unat (svm_exit_info (To_dr dr r) AND SVM_EXITINFO_REG_MASK) = r"
proof -
  have "(of_nat r :: u64) AND 0xf = take_bit 4 (of_nat r)" by (simp add: take_bit_eq_mask mask_eq_exp_minus_1)
  then have "unat ((of_nat r :: u64) AND 0xf) = unat (of_nat r :: u64) mod 16" by (simp add: take_bit_eq_mod unat_mod)
  then show "unat (svm_exit_info (From_dr dr r) AND SVM_EXITINFO_REG_MASK) = r"
    "unat (svm_exit_info (To_dr dr r) AND SVM_EXITINFO_REG_MASK) = r"
    using assms by (simp_all add: svm_exit_info_def unat_of_nat)
qed

interpretation svm: debug_vendor "svm_vendor (header_functions E) d p q" "header_functions E"
  for E :: dbg_env and d :: "u64 list" and p q :: u64
proof (unfold_locales, goal_cases)
  case (1 s v)
  then show ?case
    by (intro exI [of _ "(dbg_hw s)\<lparr>save_dr7 := v, vmcb_dr_clean := False\<rparr>"])
      (simp add: svm_vendor_def svm_dbg_ops_def svm_set_dr7_def)
next
  case (2 s)
  then show ?case
    by (intro exI [of _ "set_dr_intercepts (dbg_hw s)"] exI [of _ "phys_dr6 s"])
      (auto simp: svm_vendor_def svm_dbg_ops_def svm_sync_dirty_debug_regs_def set_dr_intercepts_eq)
next
  case (3 s)
  then show ?case
    by (intro exI [of _ "dbg_hw (svm_load_dr6 s)"] exI [of _ "phys_dr6 s"])
      (auto simp: svm_vendor_def svm_load_dr6_def svm_set_dr6_def)
next
  case (4 s f)
  then show ?case
    by (intro exI [of _ "(dbg_hw s)\<lparr>save_dr6 := f_dr6 f, save_dr7 := f_dr7 f\<rparr>"] exI [of _ "phys_dr6 s"])
      (simp add: svm_vendor_def)
next
  case (5 t s)
  then show ?case by (simp add: svm_vendor_def)
next
  case (6 s)
  show ?case by (simp add: svm_vendor_def) blast
next
  case (7 a s)
  then show ?case
    by (intro exI [of _ "clr_dr_intercepts (dbg_hw s)"])
      (simp add: svm_vendor_def dr_interception_def clr_dr_intercepts_def)
next
  case (8 dr r s)
  then have b: "dr < 8" "r < 16" by (simp_all add: mov_operands_def)
  from 8 b(1) show ?case
    by (simp add: svm_vendor_def dr_interception_def exit_register [OF b(2)] Let_def)
      (simp add: header_functions_def svm_exit_code_def)
next
  case (9 dr r s)
  then have b: "dr < 8" "r < 16" by (simp_all add: mov_operands_def)
  from 9 show ?case
    by (simp add: svm_vendor_def dr_interception_def exit_register [OF b(2)] Let_def svm_exit_code_def)
      (simp add: header_functions_def)
next
  case (10 a s)
  show ?case
  proof (cases a)
    case (From_dr dr r)
    with 10 have b: "dr < 8" "r < 16" by (simp_all add: mov_operands_def)
    from 10 From_dr b(1) show ?thesis
      by (auto simp add: svm_vendor_def dr_interception_def exit_register [OF b(2)] Let_def)
        (auto simp add: header_functions_def svm_exit_code_def)
  next
    case (To_dr dr r)
    with 10 have b: "dr < 8" "r < 16" by (simp_all add: mov_operands_def)
    from 10 To_dr show ?thesis
      by (auto simp add: svm_vendor_def dr_interception_def exit_register [OF b(2)] Let_def svm_exit_code_def)
        (auto simp add: header_functions_def)
  qed
next
  case (11 v)
  show ?case by (simp add: header_functions_def)
next
  case (12 v)
  show ?case by (simp add: header_functions_def)
qed

end
