(* ===== verification/Kvm_Debugregs_Claims.thy ===== *)
theory Kvm_Debugregs_Claims
  imports Vmx_Debugregs Svm_Debugregs
begin

text \<open>
  The debug registers a guest sees, under VMX and SVM: a register file of its own, with
  well-formed values, except when a debugger is attached at the wrong moment.
\<close>

section \<open>Example vCPUs\<close>

definition example_dbg_env :: dbg_env where
  "example_dbg_env = \<lparr>kvm_dr6_valid = (\<lambda>_. True), kvm_dr7_valid = (\<lambda>_. True), cpuid_rtm = False,
     cpuid_bus_lock_detect = False, cr4_de = False, hw_breakpoint_active = True,
     kvm_register_read = (\<lambda>_ _. 0), kvm_register_write = (\<lambda>_ _ g. g)\<rparr>"

definition example_dbg_vcpu :: "'v \<Rightarrow> 'v dbg_vcpu" where
  "example_dbg_vcpu hw = \<lparr>db = replicate 4 0, eff_db = replicate 4 0, dr6 = 0, dr7 = 0, guest_debug = 0,
     guest_debug_dr7 = 0, switch_db_regs = 0, gprs = (\<lambda>_. 0x1234), phys_db = replicate 4 0,
     phys_dr6 = 0, phys_dr7 = 0, dbg_hw = hw\<rparr>"

abbreviation example_vmx :: "vmx_dbg dbg_vendor" where
  "example_vmx \<equiv> vmx_vendor (header_functions example_dbg_env) [1, 2, 3, 4] 0 0"

abbreviation example_svm :: "svm_dbg dbg_vendor" where
  "example_svm \<equiv> svm_vendor (header_functions example_dbg_env) [1, 2, 3, 4] 0 0"

text \<open>A created vCPU that has entered its guest.\<close>

definition example_vmx_running :: "vmx_dbg dbg_vcpu" where
  "example_vmx_running = enter_guest (header_functions example_dbg_env) example_vmx
     (reset_debugregs (v_ops example_vmx) (example_dbg_vcpu \<lparr>guest_dr7 = 0, mov_dr_exiting = True\<rparr>))"

definition example_svm_running :: "svm_dbg dbg_vcpu" where
  "example_svm_running = enter_guest (header_functions example_dbg_env) example_svm
     (reset_debugregs (v_ops example_svm) (example_dbg_vcpu \<lparr>save_dr6 = 0, save_dr7 = 0, intercepts_dr = 0xff00ff,
        vmcb_dr_clean = True, svm_sev_es_guest = False, svm_guest_state_protected = False\<rparr>))"

lemma example_vmx_reachable: "dbg_reachable (header_functions example_dbg_env) example_vmx True example_vmx_running"
  unfolding example_vmx_running_def
  by (intro dbg_reachable.entered dbg_reachable.created) (simp_all add: vmx_vendor_def example_dbg_vcpu_def)

lemma example_svm_reachable: "dbg_reachable (header_functions example_dbg_env) example_svm True example_svm_running"
  unfolding example_svm_running_def
  by (intro dbg_reachable.entered dbg_reachable.created) (simp_all add: svm_vendor_def example_dbg_vcpu_def)

lemma example_vmx_state:
  "example_vmx_running = example_dbg_vcpu \<lparr>guest_dr7 = DR7_FIXED_1, mov_dr_exiting = True\<rparr>
     \<lparr>dr6 := DR6_ACTIVE_LOW, dr7 := DR7_FIXED_1, phys_dr7 := 0\<rparr>"
  by (simp add: example_vmx_running_def enter_guest_def reset_debugregs_def kvm_update_dr0123_def kvm_update_dr7_def
      vmx_vendor_def vmx_dbg_ops_def vmx_set_dr7_def vmx_load_dr6_def load_debugregs_def example_dbg_vcpu_def
      header_functions_def example_dbg_env_def)

lemma example_svm_state:
  "example_svm_running = example_dbg_vcpu \<lparr>save_dr6 = DR6_ACTIVE_LOW, save_dr7 = DR7_FIXED_1, intercepts_dr = 0xff00ff,
        vmcb_dr_clean = False, svm_sev_es_guest = False, svm_guest_state_protected = False\<rparr>
     \<lparr>dr6 := DR6_ACTIVE_LOW, dr7 := DR7_FIXED_1, phys_dr7 := 0\<rparr>"
  by (simp add: example_svm_running_def enter_guest_def reset_debugregs_def kvm_update_dr0123_def kvm_update_dr7_def
      svm_vendor_def svm_dbg_ops_def svm_set_dr7_def svm_set_dr6_def svm_load_dr6_def load_debugregs_def example_dbg_vcpu_def
      header_functions_def example_dbg_env_def)

lemma example_vmx_left:
  "v_intercepted example_vmx (dbg_hw (leave_guest (header_functions example_dbg_env) example_vmx example_vmx_running))"
  by (simp add: example_vmx_state leave_guest_def unload_debugregs_def vmx_vendor_def example_dbg_vcpu_def
      header_functions_def example_dbg_env_def)

lemma example_vmx_view: "fst (guest_view example_vmx True example_vmx_running) = power_on_file"
  by (simp add: example_vmx_state guest_view_def vmx_vendor_def example_dbg_vcpu_def power_on_file_def numeral_eq_Suc)

text \<open>The first access: the exit gives the registers to the guest.\<close>

lemma example_svm_try:
  "\<exists>t. try_mov (header_functions example_dbg_env) example_svm (To_dr 1 3) example_svm_running = (False, t, None) \<and>
     f_dr7 (fst (guest_view example_svm False t)) = DR7_FIXED_1"
  by (simp add: example_svm_state try_mov_def leave_guest_def unload_debugregs_def svm_vendor_def dr_interception_def
      header_functions_def example_dbg_env_def example_dbg_vcpu_def guest_view_def)

section \<open>Properties\<close>

text \<open>
  In every reachable state, an exit to the host and an entry leave what the guest would read
  unchanged, and a \<open>MOV DR\<close> that the guest tries is either executed as by a processor, or leaves everything as it was and is
  executed when the guest is entered again, unless a debugger's own hardware breakpoints intervene. Outside
  of the guest, the host's use of the processor's registers and a debugger leave the guest's alone; a reset gives them the
  values of the architecture; user space reads what the guest would read, and the guest reads what user space
  has written.
\<close>

definition sees_own_registers :: "dbg_env \<Rightarrow> 'v dbg_vendor \<Rightarrow> bool" where
  "sees_own_registers E V \<longleftrightarrow> (\<forall>running s. dbg_reachable E V running s \<longrightarrow>
     (if running
      then guest_view V False (leave_guest E V s) = guest_view V True s \<and>
        (\<forall>a. mov_operands a \<longrightarrow>
          (let (running', t, out) = try_mov E V a s in no_gd (f_dr7 (fst (guest_view V running' t))) \<longrightarrow>
             (case out of
                Some fault \<Rightarrow> exec_mov (kvm_dr6_fixed E) a (guest_view V True s) = (guest_view V running' t, fault)
              | None \<Rightarrow> guest_view V running' t = guest_view V True s \<and>
                  (no_hw_bp t \<longrightarrow> (\<exists>u fault. try_mov E V a (enter_guest E V t) = (True, u, Some fault))))))
      else guest_view V True (enter_guest E V s) = guest_view V False s \<and>
        (\<forall>hs h6 h7. guest_view V False (s\<lparr>phys_db := hs, phys_dr6 := h6, phys_dr7 := h7\<rparr>) = guest_view V False s) \<and>
        (\<forall>control regs. no_race V control s \<longrightarrow>
          guest_view V False (set_guest_debug (v_ops V) control regs s) = guest_view V False s) \<and>
        guest_view V False (reset_debugregs (v_ops V) s) = (power_on_file, gprs s) \<and>
        fst (guest_view V False s) = file_of (kvm_vcpu_ioctl_x86_get_debugregs s) \<and>
        (\<forall>d. length (dbgregs_db d) = 4 \<longrightarrow> no_gd (dbgregs_dr7 d) \<longrightarrow>
          (let (t, r) = kvm_vcpu_ioctl_x86_set_debugregs E (v_ops V) d s in (r = 0 \<longleftrightarrow> debugregs_valid d) \<and>
            guest_view V False t = (if debugregs_valid d then (file_of d, gprs s) else guest_view V False s)))))"

text \<open>Each vendor's contract gives it.\<close>

context debug_vendor begin

lemma own_registers: "sees_own_registers E V"
proof -
  have view: "snd (guest_view V r s) = gprs s" for r s by (simp add: guest_view_def)
  have host: "guest_view V False (s\<lparr>phys_db := hs, phys_dr6 := h6, phys_dr7 := h7\<rparr>) = guest_view V False s" for s hs h6 h7
    by (simp add: guest_view_def)
  have inside: "guest_view V False (leave_guest E V s) = guest_view V True s \<and>
      (\<forall>a. mov_operands a \<longrightarrow>
        (let (running', t, out) = try_mov E V a s in no_gd (f_dr7 (fst (guest_view V running' t))) \<longrightarrow>
           (case out of
              Some fault \<Rightarrow> exec_mov (kvm_dr6_fixed E) a (guest_view V True s) = (guest_view V running' t, fault)
            | None \<Rightarrow> guest_view V running' t = guest_view V True s \<and>
                (no_hw_bp t \<longrightarrow> (\<exists>u fault. try_mov E V a (enter_guest E V t) = (True, u, Some fault))))))"
    if "dbg_reachable E V True s" for s
    using transparent(1,3,4) [OF that] by (auto split: prod.split option.split)
  have outside: "guest_view V True (enter_guest E V s) = guest_view V False s \<and>
      guest_view V False (reset_debugregs (v_ops V) s) = (power_on_file, gprs s) \<and>
      fst (guest_view V False s) = file_of (kvm_vcpu_ioctl_x86_get_debugregs s)"
    "length (dbgregs_db d) = 4 \<Longrightarrow> no_gd (dbgregs_dr7 d) \<Longrightarrow>
      (let (t, r) = kvm_vcpu_ioctl_x86_set_debugregs E (v_ops V) d s in (r = 0 \<longleftrightarrow> debugregs_valid d) \<and>
        guest_view V False t = (if debugregs_valid d then (file_of d, gprs s) else guest_view V False s))"
    "no_race V control s \<Longrightarrow> guest_view V False (set_guest_debug (v_ops V) control regs s) = guest_view V False s"
    if "dbg_reachable E V False s" for s d control regs
    using transparent(2,5-8) [OF that] by (auto simp: view split: prod.split)
  show ?thesis
    unfolding sees_own_registers_def
  proof (intro allI impI)
    fix running s assume "dbg_reachable E V running s"
    then show "if running
      then guest_view V False (leave_guest E V s) = guest_view V True s \<and>
        (\<forall>a. mov_operands a \<longrightarrow>
          (let (running', t, out) = try_mov E V a s in no_gd (f_dr7 (fst (guest_view V running' t))) \<longrightarrow>
             (case out of
                Some fault \<Rightarrow> exec_mov (kvm_dr6_fixed E) a (guest_view V True s) = (guest_view V running' t, fault)
              | None \<Rightarrow> guest_view V running' t = guest_view V True s \<and>
                  (no_hw_bp t \<longrightarrow> (\<exists>u fault. try_mov E V a (enter_guest E V t) = (True, u, Some fault))))))
      else guest_view V True (enter_guest E V s) = guest_view V False s \<and>
        (\<forall>hs h6 h7. guest_view V False (s\<lparr>phys_db := hs, phys_dr6 := h6, phys_dr7 := h7\<rparr>) = guest_view V False s) \<and>
        (\<forall>control regs. no_race V control s \<longrightarrow>
          guest_view V False (set_guest_debug (v_ops V) control regs s) = guest_view V False s) \<and>
        guest_view V False (reset_debugregs (v_ops V) s) = (power_on_file, gprs s) \<and>
        fst (guest_view V False s) = file_of (kvm_vcpu_ioctl_x86_get_debugregs s) \<and>
        (\<forall>d. length (dbgregs_db d) = 4 \<longrightarrow> no_gd (dbgregs_dr7 d) \<longrightarrow>
          (let (t, r) = kvm_vcpu_ioctl_x86_set_debugregs E (v_ops V) d s in (r = 0 \<longleftrightarrow> debugregs_valid d) \<and>
            guest_view V False t = (if debugregs_valid d then (file_of d, gprs s) else guest_view V False s)))"
      using inside outside host by (cases running) simp_all
  qed
qed

end

text \<open> C27. Under VMX, and under SVM with decode assists for guests whose state is not encrypted, a guest in 64-bit mode
  at privilege level 0, with \<open>CR4.DE\<close> clear, that does not use \<open>DR7.GD\<close>, cannot tell the lazily switched
  debug registers from a register file of its own: entries and exits, the accesses that exit and those that do not,
  the host's use of the processor's registers, and a debugger leave them as they were; a reset, and user
  space restoring saved registers, give them exactly the new values, and user space reads what the guest would. A
  debugger that uses hardware breakpoints is attached only while \<open>MOV DR\<close> exits (the other case is the
  race below), and an access may then end in the debugger instead.\<close>

theorem debug_registers_transparent:
  assumes "E = header_functions E0"
  shows "sees_own_registers E (vmx_vendor E d p q) \<and> sees_own_registers E (svm_vendor E d' p' q')"
  unfolding assms by (intro conjI vmx.own_registers svm.own_registers)

theorem debug_registers_transparent_witness:
  "guest_view example_vmx False (leave_guest (header_functions example_dbg_env) example_vmx example_vmx_running) =
     guest_view example_vmx True example_vmx_running \<and>
   (\<exists>t. try_mov (header_functions example_dbg_env) example_svm (To_dr 1 3) example_svm_running = (False, t, None) \<and>
     guest_view example_svm False t = guest_view example_svm True example_svm_running) \<and>
   fst (guest_view example_vmx False (set_guest_debug vmx_dbg_ops 0x20001 [1, 2, 3, 4, 0, 0, 0, 0xf00002401]
     (leave_guest (header_functions example_dbg_env) example_vmx example_vmx_running))) = power_on_file"
proof -
  have ops: "mov_operands (To_dr 1 3)" by (simp add: mov_operands_def)
  let ?E = "header_functions example_dbg_env"
  note own = debug_registers_transparent [OF refl, of example_dbg_env "[1, 2, 3, 4]" 0 0 "[1, 2, 3, 4]" 0 0,
    unfolded sees_own_registers_def]
  have left: "guest_view example_vmx False (leave_guest ?E example_vmx example_vmx_running) =
      guest_view example_vmx True example_vmx_running"
    using own example_vmx_reachable by auto
  have debugged: "guest_view example_vmx False (set_guest_debug (v_ops example_vmx) 0x20001 [1, 2, 3, 4, 0, 0, 0, 0xf00002401]
      (leave_guest ?E example_vmx example_vmx_running)) = guest_view example_vmx True example_vmx_running"
    using own [THEN conjunct1] dbg_reachable.left [OF example_vmx_reachable] left example_vmx_left by (auto simp: no_race_def)
  have tried: "\<exists>t. try_mov ?E example_svm (To_dr 1 3) example_svm_running = (False, t, None) \<and>
      guest_view example_svm False t = guest_view example_svm True example_svm_running"
    using own [THEN conjunct2] example_svm_reachable example_svm_try ops by fastforce
  have "v_ops example_vmx = vmx_dbg_ops" by (simp add: vmx_vendor_def)
  then show ?thesis using left tried debugged example_vmx_view by simp
qed

text \<open> C28. Whatever the guest and user space write, the values the vCPU keeps for \<open>DR6\<close> and \<open>DR7\<close> have
  their upper halves clear, there are four breakpoint addresses, and \<open>MOV DR\<close> exits exactly while the
  guest does not have the registers to itself, which it never has while a debugger uses hardware breakpoints (attached
  outside of the race below). The value of \<open>DR7\<close> in the VMCS has its upper half clear, the form the consistency checks
  of VM entry demand, unless such a debugger is attached; then it is the debugger's value, which nothing has
  checked. (Privilege level 0, 64-bit mode, \<open>CR4.DE\<close> clear, \<open>DR7.GD\<close> not used by the guest.)\<close>

theorem vmx_debug_registers_typed:
  assumes "E = header_functions E0" "V = vmx_vendor E d p q" "dbg_reachable E V running s"
  shows "drop_bit 32 (dr6 s) = 0 \<and> drop_bit 32 (dr7 s) = 0 \<and> length (db s) = 4 \<and>
    (mov_dr_exiting (dbg_hw s) \<longleftrightarrow> switch_db_regs s AND KVM_DEBUGREG_WONT_EXIT = 0) \<and>
    (if guest_debug s AND KVM_GUESTDBG_USE_HW_BP = 0 then drop_bit 32 (guest_dr7 (dbg_hw s)) = 0
     else mov_dr_exiting (dbg_hw s) \<and> guest_dr7 (dbg_hw s) = guest_debug_dr7 s)"
  using vmx.reachable_ok [of E0 d p q running s] assms by (auto simp: dbg_ok_def vmx_vendor_def eff_dr7_def)

theorem vmx_debug_registers_typed_witness:
  "drop_bit 32 (guest_dr7 (dbg_hw example_vmx_running)) = 0 \<and> length (db example_vmx_running) = 4"
  using vmx_debug_registers_typed [OF refl refl example_vmx_reachable]
  by (simp add: example_vmx_state example_dbg_vcpu_def)

text \<open>The debugger's value reaches the VMCS unchecked (\<open>kvm_arch_vcpu_ioctl_set_guest_debug\<close>).\<close>

lemma debugger_dr7_unchecked:
  "\<exists>s. dbg_reachable (header_functions example_dbg_env) example_vmx True s \<and> guest_dr7 (dbg_hw s) = 0x100000401"
proof -
  let ?E = "header_functions example_dbg_env"
  let ?s = "set_guest_debug (v_ops example_vmx) 0x20001 [1, 2, 3, 4, 0, 0, 0, 0x100000401] (leave_guest ?E example_vmx example_vmx_running)"
  have r: "dbg_reachable ?E example_vmx True (enter_guest ?E example_vmx ?s)"
    by (intro dbg_reachable.entered dbg_reachable.debugged dbg_reachable.left example_vmx_reachable)
      (simp add: no_race_def example_vmx_left)
  have "guest_debug (enter_guest ?E example_vmx ?s) = 0x20001" "guest_debug_dr7 (enter_guest ?E example_vmx ?s) = 0x100000401"
    by (simp_all add: set_guest_debug_def kvm_update_dr7_def enter_guest_def vmx_vendor_def vmx_dbg_ops_def
        vmx_set_dr7_def vmx_load_dr6_def load_debugregs_def)
  then show ?thesis
    using r vmx.reachable_ok [OF r] by (intro exI [of _ "enter_guest ?E example_vmx ?s"])
      (auto simp: dbg_ok_def eff_dr7_def vmx_vendor_def split: if_splits)
qed

text \<open> C39. When a debugger of the host is attached between the exit that gives the registers to the
  guest and the next entry, the flag that they are the guest's stays set: the guest runs with the
  debugger's breakpoints, and its next exit takes them for the guest's, so that the guest's own
  breakpoint registers and \<open>DR7\<close> are lost, although it has written nothing.\<close>

theorem debugger_overwrites_guest_registers:
  assumes "E = header_functions E0" "V = vmx_vendor E d p q" "dbg_reachable E V True s"
    and "mov_dr_exiting (dbg_hw s)" "guest_debug s = 0" "mov_operands a"
    and "control AND KVM_GUESTDBG_ENABLE \<noteq> 0" "control AND KVM_GUESTDBG_USE_HW_BP \<noteq> 0"
  shows "\<exists>t. try_mov E V a s = (False, t, None) \<and> guest_view V False t = guest_view V True s \<and>
    (let u = leave_guest E V (enter_guest E V (set_guest_debug vmx_dbg_ops control regs t))
     in db u = take 4 regs \<and> dr7 u = regs ! 7)"
  using vmx.debugger_race [of E0 d p q s a control regs] assms by (simp add: vmx_vendor_def)

theorem debugger_overwrites_guest_registers_witness:
  "\<exists>t. try_mov (header_functions example_dbg_env) example_vmx (From_dr 7 0) example_vmx_running = (False, t, None) \<and>
    db (leave_guest (header_functions example_dbg_env) example_vmx (enter_guest (header_functions example_dbg_env) example_vmx
      (set_guest_debug vmx_dbg_ops 0x20001 [1, 2, 3, 4, 0, 0, 0, 0x401] t))) = [1, 2, 3, 4]"
proof -
  have "mov_dr_exiting (dbg_hw example_vmx_running)" "guest_debug example_vmx_running = 0" "mov_operands (From_dr 7 0)"
    "0x20001 AND KVM_GUESTDBG_ENABLE \<noteq> 0" "0x20001 AND KVM_GUESTDBG_USE_HW_BP \<noteq> 0"
    by (simp_all add: mov_operands_def example_vmx_state example_dbg_vcpu_def)
  from debugger_overwrites_guest_registers [OF refl refl example_vmx_reachable this, of "[1, 2, 3, 4, 0, 0, 0, 0x401]"]
  show ?thesis by (auto simp: Let_def)
qed

end
