(* ===== verification/Spec2Isabelle.thy ===== *)
theory Spec2Isabelle
  imports Smbios_Entry_Props Smbios_Examples Kvm_User_Return Kvm_Exceptions Kvm_Cregs_Props
    Vmx_Cregs Svm_Cregs Kvm_Rdtsc Kvm_Msr_Props Kvm_Async_Pf
    Svm_Msrpm Vmx_Msr_Props Vmx_Segments_Props Kvm_Clock_Props Kvm_Events_Save
    Kvm_Mmio_Claims Kvm_Pio_Props Kvm_Debugregs_Claims
begin

text \<open>
  A verification library for pve-anti-detection: patched files of QEMU and of the Linux KVM
  modules that make a virtual machine look like a physical one. The repository has five C
  files with logic. \<open>smbios.c\<close> and \<open>smbios.h\<close> (QEMU) build the SMBIOS tables a guest
  reads, extended by this project with tables a physical machine has. \<open>x86.c\<close> is the common
  part of KVM, \<open>vmx.c\<close> and \<open>svm.c\<close> are its Intel and AMD parts; this project adds RDTSC
  handlers with a slowed counter, forced results of some MSR reads and a fake
  \<open>IA32_DEBUGCTL\<close>, and logging. The parts of KVM meet in \<open>kvm_x86_ops\<close>: the common code
  calls the vendor code through it, and the vendor code calls back into the common queues of
  exceptions and requests.

  \<^bold>\<open>Common material.\<close> \<open>Prelude\<close>: machine types (a w-bit integer is a w-bit word),
  little-endian encodings, C strings, the result type of code that can assert or abort,
  counted loops. \<open>C_Stdlib\<close>: the conversions of the C library that option parsing uses.

  \<^bold>\<open>SMBIOS\<close> (\<open>smbios.c\<close>, \<open>smbios.h\<close>).
  \<open>Smbios_Structs\<close>: the packed structures of the header as records and their memory images.
  \<open>Smbios_State\<close>: the static variables as one record in three layers (binary files,
  configuration, tables under construction).
  \<open>Smbios_Options\<close>, \<open>Smbios_Entry\<close>: the option tables, the defaults, \<open>save_opt\<close> and
  \<open>save_opt_list\<close>, \<open>smbios_entry_add\<close> with one definition per case of its switch.
  \<open>Smbios_Build\<close>: the macros of the missing header \<open>smbios_build.h\<close> as a parameter with a
  contract. \<open>Smbios_Tables\<close>, \<open>Smbios_Tables_Hw\<close>, \<open>Smbios_Tables_Misc\<close>: the builders
  \<open>smbios_build_type_N_table\<close>; \<open>type_N_fields\<close> is the assignments to the structure, whose
  fresh memory (\<open>raw\<close>) is an argument because the allocator does not clear it.
  \<open>Smbios_Get\<close>: \<open>smbios_get_tables_ep\<close> and \<open>smbios_get_tables\<close> with the checks, the
  entry points and the automatic retry.
  The lemmas: \<open>Smbios_Parse\<close> reads tables as the SMBIOS specification describes;
  \<open>Smbios_Emits*\<close> say what each builder adds, \<open>Smbios_Get_Props\<close> composes them into the
  theorem that a build without an error is read back as the configured structures in order;
  \<open>Smbios_Success\<close> gives the conditions under which a build succeeds; \<open>Smbios_Outcomes\<close> the
  entry points, the retry and the layout of memory devices; \<open>Smbios_Init\<close> which bytes stay
  unassigned; \<open>Smbios_Entry_Props\<close> the invariants of every configuration an option
  list can produce; \<open>Smbios_Examples\<close> concrete machines.

  \<^bold>\<open>KVM, common part\<close> (\<open>x86.c\<close>).
  \<open>Kvm_User_Return\<close>: guest values kept in a CPU's MSRs until it returns to user mode.
  \<open>Kvm_Exceptions\<close>: the exception queue, payload delivery, double and triple faults, as a
  refinement of the architecture's table.
  \<open>Kvm_Cregs\<close>, \<open>Kvm_Cregs_Props\<close>: CR0, CR3, CR4, CR8, LMSW and EFER over the record of
  vendor callbacks \<open>cr_ops\<close>; the locale \<open>cr_vendor\<close> is the contract of the callbacks, and
  the guest never reaches a combination of modes the architecture forbids.
  \<open>Kvm_Msr_Filter\<close>: the filter user space installs, as a refinement of a policy.
  \<open>Kvm_Msr\<close>, \<open>Kvm_Msr_Props\<close>: RDMSR and WRMSR, exits to user space and their
  completion, and the effects of this project's changes.
  \<open>Kvm_Async_Hash\<close>, \<open>Kvm_Async_Pf\<close>: the open-addressing table of asynchronous page
  faults, its refinement of a bag (locale \<open>page_bag\<close>), and the notifications to the guest.
  \<open>Kvm_Msr_Intercept\<close>: which MSR accesses a guest makes without an exit, as the policy both
  vendors' bitmaps follow.
  \<open>Kvm_Tsc_Scale\<close>, \<open>Kvm_Tsc\<close>: the guest's time-stamp counter, its scale, ratio and offset,
  the writes of guest and user space and the generations of matched vCPUs. The locale
  \<open>tsc_vendor\<close> is the contract of the callbacks, interpreted for both vendors, and the
  inductive \<open>tsc_run\<close> the operations a VM goes through; \<open>Kvm_Tsc_Props\<close> has the invariants.
  \<open>Kvm_Clock\<close>, \<open>Kvm_Clock_Props\<close>: the clock page of each vCPU with the order of its writes,
  the master copy, the epoch and the wall clock.
  \<open>Kvm_Events\<close>: the events on their way into a guest, the function that injects them, and
  saving and restoring them. The vendors' callbacks are the record \<open>event_ops\<close>;
  \<open>Kvm_Events_Props\<close> has their contract as the locale \<open>event_vendor\<close> with both
  interpretations, \<open>Kvm_Events_Claims\<close> what injection promises, and \<open>Kvm_Events_Save\<close> the
  round trip of saved events over the locale \<open>event_view\<close>.

  \<open>Kvm_Mmio\<close>: reads and writes of the instruction emulator, from the devices of the kernel to
  the exits to user space and their completion; the emulator's buffers are a store of bytes.
  \<open>Kvm_Mmio_Props\<close> takes an access apart into the bytes of its pages, \<open>Kvm_Mmio_Claims\<close> says
  what whole accesses do.
  \<open>Kvm_Pio\<close>, \<open>Kvm_Pio_Props\<close>: port accesses, on the bus or by user space, one at a time or as
  strings.
  \<open>Kvm_Debugregs\<close>: the debug registers and their switching around the guest.
  \<open>Kvm_Debugregs_Switch\<close> has the register file a guest expects, the steps of a vCPU
  (\<open>dbg_reachable\<close>), the contract of a vendor as the locale \<open>debug_vendor\<close> and the refinement
  proved in it; \<open>Kvm_Debugregs_Claims\<close> has it for both vendors.

  \<^bold>\<open>KVM, vendor parts\<close> (\<open>vmx.c\<close>, \<open>svm.c\<close>).
  \<open>Vmx_Cregs\<close>, \<open>Svm_Cregs\<close>: the callbacks for CR0, CR4 and EFER with the VMCS and VMCB
  fields they write; they interpret \<open>cr_vendor\<close>, which gives the mode invariant for both.
  \<open>Vmx_Segments\<close>, \<open>Vmx_Segments_Props\<close>: segment registers and flags with their caches, and
  the virtual-8086 mode a guest in real mode runs in.
  \<open>Vmx_Msr_Bitmap\<close>, \<open>Vmx_Msr_Props\<close>, \<open>Svm_Msrpm\<close>: the MSR bitmaps of the two vendors with
  the shadow that remembers requests the filter denies.
  \<open>Vmx_Events\<close>, \<open>Svm_Events\<close>: blocking, windows, injecting and taking back of events.
  \<open>Vmx_Debugregs\<close>, \<open>Svm_Debugregs\<close>: the exits of \<open>MOV DR\<close> and where the registers of a running
  guest are; both interpret \<open>debug_vendor\<close>.
  \<open>Kvm_Rdtsc\<close>: the two RDTSC handlers with their static variables, both interpretations of
  the locale \<open>slow_counter\<close>.

  \<^bold>\<open>Conventions.\<close> State is passed explicitly and a function returns the new state with its
  result. Globals and functions of other files are records of parameters (\<open>*_env\<close>,
  \<open>*_ops\<close>, \<open>platform\<close>, \<open>smbios_host\<close>); what is assumed of them is a named predicate or a
  locale. A local variable or heap byte that is read before it is assigned is an argument.
  An index outside of an array of the code is an error value (\<open>Svm_Msrpm\<close>), or shows in the length
  of the list that stands for it (\<open>pio_data\<close>). Loops with a bound are recursive over a list or a counter; loops without one are
  \<open>partial_function (option)\<close>, where \<open>None\<close> is not returning, and that they return is proved
  (\<open>apf_outstanding\<close>, \<open>time_scale_returns\<close>, \<open>time_update_returns\<close>, \<open>sev_es_string_io_returns\<close>). No definition has fuel.

  \<^bold>\<open>Not modelled.\<close> Printing and tracing; locks, RCU and interrupt masking (an operation runs
  to its end); allocation failure except where a return code reports it. Of \<open>x86.c\<close>: the
  values of single MSRs, extended state, machine checks, the instruction emulator's callbacks
  other than those for memory and ports, the loop around guest entry, and the ioctls other
  than those for events, debug registers, the MSR filter and the TSC. Of \<open>vmx.c\<close> and
  \<open>svm.c\<close>: VMCS and VMCB set-up, MSR values, exit handlers other than RDTSC, \<open>MOV DR\<close> and the
  windows, interrupt posting and AVIC, nested virtualisation and SEV, and the segment registers of AMD,
  which the hardware keeps as they are. The shell scripts, firmware
  images and documents of the repository have no logic of their own.
\<close>

end
